(* ===== verification/Errors.thy ===== *)
theory Errors
  imports Main
begin

text \<open>
  The sentinel errors of the modelled modules. An error of the program is identified by the code
  space and the code it is registered under (\<open>errorsmod.Register\<close>); the text a call site wraps around a
  sentinel is dropped, since no caller inspects it. A Go panic is the value \<open>Panic\<close>: the transaction
  runner of the host chain turns it into a failed transaction. \<open>ErrForeign\<close> is an error returned by
  code outside the repository (the codec, the proof library, an application callback) or by the
  standard library.
\<close>

datatype codespace =
    HostSpace
  | ClientSpace
  | ConnectionSpace
  | ChannelSpace
  | PortSpace
  | CommitmentSpace
  | IbcSpace
  | CapabilitySpace
  | SolomachineSpace
  | TendermintSpace
  | TransferSpace
  | FeeSpace
  | IcaSpace
  | IcaHostSpace
  | IcaControllerSpace

datatype ibc_error =
    Registered codespace nat
  | Panic string
  | ErrForeign string

text \<open>The registrations of each module, prefixed by the module the name is declared in.\<close>

abbreviation host_ErrInvalidID :: ibc_error where
  "host_ErrInvalidID \<equiv> Registered HostSpace 2"

abbreviation host_ErrInvalidPath :: ibc_error where
  "host_ErrInvalidPath \<equiv> Registered HostSpace 3"

abbreviation host_ErrInvalidPacket :: ibc_error where
  "host_ErrInvalidPacket \<equiv> Registered HostSpace 4"

abbreviation client_ErrClientExists :: ibc_error where
  "client_ErrClientExists \<equiv> Registered ClientSpace 2"

abbreviation client_ErrInvalidClient :: ibc_error where
  "client_ErrInvalidClient \<equiv> Registered ClientSpace 3"

abbreviation client_ErrClientNotFound :: ibc_error where
  "client_ErrClientNotFound \<equiv> Registered ClientSpace 4"

abbreviation client_ErrClientFrozen :: ibc_error where
  "client_ErrClientFrozen \<equiv> Registered ClientSpace 5"

abbreviation client_ErrInvalidClientMetadata :: ibc_error where
  "client_ErrInvalidClientMetadata \<equiv> Registered ClientSpace 6"

abbreviation client_ErrConsensusStateNotFound :: ibc_error where
  "client_ErrConsensusStateNotFound \<equiv> Registered ClientSpace 7"

abbreviation client_ErrInvalidConsensus :: ibc_error where
  "client_ErrInvalidConsensus \<equiv> Registered ClientSpace 8"

abbreviation client_ErrClientTypeNotFound :: ibc_error where
  "client_ErrClientTypeNotFound \<equiv> Registered ClientSpace 9"

abbreviation client_ErrInvalidClientType :: ibc_error where
  "client_ErrInvalidClientType \<equiv> Registered ClientSpace 10"

abbreviation client_ErrRootNotFound :: ibc_error where
  "client_ErrRootNotFound \<equiv> Registered ClientSpace 11"

abbreviation client_ErrInvalidHeader :: ibc_error where
  "client_ErrInvalidHeader \<equiv> Registered ClientSpace 12"

abbreviation client_ErrInvalidMisbehaviour :: ibc_error where
  "client_ErrInvalidMisbehaviour \<equiv> Registered ClientSpace 13"

abbreviation client_ErrFailedClientStateVerification :: ibc_error where
  "client_ErrFailedClientStateVerification \<equiv> Registered ClientSpace 14"

abbreviation client_ErrFailedClientConsensusStateVerification :: ibc_error where
  "client_ErrFailedClientConsensusStateVerification \<equiv> Registered ClientSpace 15"

abbreviation client_ErrFailedConnectionStateVerification :: ibc_error where
  "client_ErrFailedConnectionStateVerification \<equiv> Registered ClientSpace 16"

abbreviation client_ErrFailedChannelStateVerification :: ibc_error where
  "client_ErrFailedChannelStateVerification \<equiv> Registered ClientSpace 17"

abbreviation client_ErrFailedPacketCommitmentVerification :: ibc_error where
  "client_ErrFailedPacketCommitmentVerification \<equiv> Registered ClientSpace 18"

abbreviation client_ErrFailedPacketAckVerification :: ibc_error where
  "client_ErrFailedPacketAckVerification \<equiv> Registered ClientSpace 19"

abbreviation client_ErrFailedPacketReceiptVerification :: ibc_error where
  "client_ErrFailedPacketReceiptVerification \<equiv> Registered ClientSpace 20"

abbreviation client_ErrFailedNextSeqRecvVerification :: ibc_error where
  "client_ErrFailedNextSeqRecvVerification \<equiv> Registered ClientSpace 21"

abbreviation client_ErrSelfConsensusStateNotFound :: ibc_error where
  "client_ErrSelfConsensusStateNotFound \<equiv> Registered ClientSpace 22"

abbreviation client_ErrUpdateClientFailed :: ibc_error where
  "client_ErrUpdateClientFailed \<equiv> Registered ClientSpace 23"

abbreviation client_ErrInvalidUpdateClientProposal :: ibc_error where
  "client_ErrInvalidUpdateClientProposal \<equiv> Registered ClientSpace 24"

abbreviation client_ErrInvalidUpgradeClient :: ibc_error where
  "client_ErrInvalidUpgradeClient \<equiv> Registered ClientSpace 25"

abbreviation client_ErrInvalidHeight :: ibc_error where
  "client_ErrInvalidHeight \<equiv> Registered ClientSpace 26"

abbreviation client_ErrInvalidSubstitute :: ibc_error where
  "client_ErrInvalidSubstitute \<equiv> Registered ClientSpace 27"

abbreviation client_ErrInvalidUpgradeProposal :: ibc_error where
  "client_ErrInvalidUpgradeProposal \<equiv> Registered ClientSpace 28"

abbreviation client_ErrClientNotActive :: ibc_error where
  "client_ErrClientNotActive \<equiv> Registered ClientSpace 29"

abbreviation client_ErrFailedMembershipVerification :: ibc_error where
  "client_ErrFailedMembershipVerification \<equiv> Registered ClientSpace 30"

abbreviation client_ErrFailedNonMembershipVerification :: ibc_error where
  "client_ErrFailedNonMembershipVerification \<equiv> Registered ClientSpace 31"

abbreviation connection_ErrConnectionExists :: ibc_error where
  "connection_ErrConnectionExists \<equiv> Registered ConnectionSpace 2"

abbreviation connection_ErrConnectionNotFound :: ibc_error where
  "connection_ErrConnectionNotFound \<equiv> Registered ConnectionSpace 3"

abbreviation connection_ErrClientConnectionPathsNotFound :: ibc_error where
  "connection_ErrClientConnectionPathsNotFound \<equiv> Registered ConnectionSpace 4"

abbreviation connection_ErrConnectionPath :: ibc_error where
  "connection_ErrConnectionPath \<equiv> Registered ConnectionSpace 5"

abbreviation connection_ErrInvalidConnectionState :: ibc_error where
  "connection_ErrInvalidConnectionState \<equiv> Registered ConnectionSpace 6"

abbreviation connection_ErrInvalidCounterparty :: ibc_error where
  "connection_ErrInvalidCounterparty \<equiv> Registered ConnectionSpace 7"

abbreviation connection_ErrInvalidConnection :: ibc_error where
  "connection_ErrInvalidConnection \<equiv> Registered ConnectionSpace 8"

abbreviation connection_ErrInvalidVersion :: ibc_error where
  "connection_ErrInvalidVersion \<equiv> Registered ConnectionSpace 9"

abbreviation connection_ErrVersionNegotiationFailed :: ibc_error where
  "connection_ErrVersionNegotiationFailed \<equiv> Registered ConnectionSpace 10"

abbreviation connection_ErrInvalidConnectionIdentifier :: ibc_error where
  "connection_ErrInvalidConnectionIdentifier \<equiv> Registered ConnectionSpace 11"

abbreviation channel_ErrChannelExists :: ibc_error where
  "channel_ErrChannelExists \<equiv> Registered ChannelSpace 2"

abbreviation channel_ErrChannelNotFound :: ibc_error where
  "channel_ErrChannelNotFound \<equiv> Registered ChannelSpace 3"

abbreviation channel_ErrInvalidChannel :: ibc_error where
  "channel_ErrInvalidChannel \<equiv> Registered ChannelSpace 4"

abbreviation channel_ErrInvalidChannelState :: ibc_error where
  "channel_ErrInvalidChannelState \<equiv> Registered ChannelSpace 5"

abbreviation channel_ErrInvalidChannelOrdering :: ibc_error where
  "channel_ErrInvalidChannelOrdering \<equiv> Registered ChannelSpace 6"

abbreviation channel_ErrInvalidCounterparty :: ibc_error where
  "channel_ErrInvalidCounterparty \<equiv> Registered ChannelSpace 7"

abbreviation channel_ErrInvalidChannelCapability :: ibc_error where
  "channel_ErrInvalidChannelCapability \<equiv> Registered ChannelSpace 8"

abbreviation channel_ErrChannelCapabilityNotFound :: ibc_error where
  "channel_ErrChannelCapabilityNotFound \<equiv> Registered ChannelSpace 9"

abbreviation channel_ErrSequenceSendNotFound :: ibc_error where
  "channel_ErrSequenceSendNotFound \<equiv> Registered ChannelSpace 10"

abbreviation channel_ErrSequenceReceiveNotFound :: ibc_error where
  "channel_ErrSequenceReceiveNotFound \<equiv> Registered ChannelSpace 11"

abbreviation channel_ErrSequenceAckNotFound :: ibc_error where
  "channel_ErrSequenceAckNotFound \<equiv> Registered ChannelSpace 12"

abbreviation channel_ErrInvalidPacket :: ibc_error where
  "channel_ErrInvalidPacket \<equiv> Registered ChannelSpace 13"

abbreviation channel_ErrPacketTimeout :: ibc_error where
  "channel_ErrPacketTimeout \<equiv> Registered ChannelSpace 14"

abbreviation channel_ErrTooManyConnectionHops :: ibc_error where
  "channel_ErrTooManyConnectionHops \<equiv> Registered ChannelSpace 15"

abbreviation channel_ErrInvalidAcknowledgement :: ibc_error where
  "channel_ErrInvalidAcknowledgement \<equiv> Registered ChannelSpace 16"

abbreviation channel_ErrAcknowledgementExists :: ibc_error where
  "channel_ErrAcknowledgementExists \<equiv> Registered ChannelSpace 17"

abbreviation channel_ErrInvalidChannelIdentifier :: ibc_error where
  "channel_ErrInvalidChannelIdentifier \<equiv> Registered ChannelSpace 18"

abbreviation channel_ErrPacketReceived :: ibc_error where
  "channel_ErrPacketReceived \<equiv> Registered ChannelSpace 19"

abbreviation channel_ErrPacketCommitmentNotFound :: ibc_error where
  "channel_ErrPacketCommitmentNotFound \<equiv> Registered ChannelSpace 20"

abbreviation channel_ErrPacketSequenceOutOfOrder :: ibc_error where
  "channel_ErrPacketSequenceOutOfOrder \<equiv> Registered ChannelSpace 21"

abbreviation channel_ErrRedundantTx :: ibc_error where
  "channel_ErrRedundantTx \<equiv> Registered ChannelSpace 22"

abbreviation channel_ErrNoOpMsg :: ibc_error where
  "channel_ErrNoOpMsg \<equiv> Registered ChannelSpace 23"

abbreviation channel_ErrInvalidChannelVersion :: ibc_error where
  "channel_ErrInvalidChannelVersion \<equiv> Registered ChannelSpace 24"

abbreviation channel_ErrPacketNotSent :: ibc_error where
  "channel_ErrPacketNotSent \<equiv> Registered ChannelSpace 25"

abbreviation channel_ErrInvalidTimeout :: ibc_error where
  "channel_ErrInvalidTimeout \<equiv> Registered ChannelSpace 26"

abbreviation port_ErrPortExists :: ibc_error where
  "port_ErrPortExists \<equiv> Registered PortSpace 2"

abbreviation port_ErrPortNotFound :: ibc_error where
  "port_ErrPortNotFound \<equiv> Registered PortSpace 3"

abbreviation port_ErrInvalidPort :: ibc_error where
  "port_ErrInvalidPort \<equiv> Registered PortSpace 4"

abbreviation port_ErrInvalidRoute :: ibc_error where
  "port_ErrInvalidRoute \<equiv> Registered PortSpace 5"

abbreviation commitment_ErrInvalidProof :: ibc_error where
  "commitment_ErrInvalidProof \<equiv> Registered CommitmentSpace 2"

abbreviation commitment_ErrInvalidPrefix :: ibc_error where
  "commitment_ErrInvalidPrefix \<equiv> Registered CommitmentSpace 3"

abbreviation commitment_ErrInvalidMerkleProof :: ibc_error where
  "commitment_ErrInvalidMerkleProof \<equiv> Registered CommitmentSpace 4"

abbreviation ibcerrors_ErrInvalidSequence :: ibc_error where
  "ibcerrors_ErrInvalidSequence \<equiv> Registered IbcSpace 1"

abbreviation ibcerrors_ErrUnauthorized :: ibc_error where
  "ibcerrors_ErrUnauthorized \<equiv> Registered IbcSpace 2"

abbreviation ibcerrors_ErrInsufficientFunds :: ibc_error where
  "ibcerrors_ErrInsufficientFunds \<equiv> Registered IbcSpace 3"

abbreviation ibcerrors_ErrUnknownRequest :: ibc_error where
  "ibcerrors_ErrUnknownRequest \<equiv> Registered IbcSpace 4"

abbreviation ibcerrors_ErrInvalidAddress :: ibc_error where
  "ibcerrors_ErrInvalidAddress \<equiv> Registered IbcSpace 5"

abbreviation ibcerrors_ErrInvalidCoins :: ibc_error where
  "ibcerrors_ErrInvalidCoins \<equiv> Registered IbcSpace 6"

abbreviation ibcerrors_ErrOutOfGas :: ibc_error where
  "ibcerrors_ErrOutOfGas \<equiv> Registered IbcSpace 7"

abbreviation ibcerrors_ErrInvalidRequest :: ibc_error where
  "ibcerrors_ErrInvalidRequest \<equiv> Registered IbcSpace 8"

abbreviation ibcerrors_ErrInvalidHeight :: ibc_error where
  "ibcerrors_ErrInvalidHeight \<equiv> Registered IbcSpace 9"

abbreviation ibcerrors_ErrInvalidVersion :: ibc_error where
  "ibcerrors_ErrInvalidVersion \<equiv> Registered IbcSpace 10"

abbreviation ibcerrors_ErrInvalidChainID :: ibc_error where
  "ibcerrors_ErrInvalidChainID \<equiv> Registered IbcSpace 11"

abbreviation ibcerrors_ErrInvalidType :: ibc_error where
  "ibcerrors_ErrInvalidType \<equiv> Registered IbcSpace 12"

abbreviation ibcerrors_ErrPackAny :: ibc_error where
  "ibcerrors_ErrPackAny \<equiv> Registered IbcSpace 13"

abbreviation ibcerrors_ErrUnpackAny :: ibc_error where
  "ibcerrors_ErrUnpackAny \<equiv> Registered IbcSpace 14"

abbreviation ibcerrors_ErrLogic :: ibc_error where
  "ibcerrors_ErrLogic \<equiv> Registered IbcSpace 15"

abbreviation ibcerrors_ErrNotFound :: ibc_error where
  "ibcerrors_ErrNotFound \<equiv> Registered IbcSpace 16"

abbreviation capability_ErrInvalidCapabilityName :: ibc_error where
  "capability_ErrInvalidCapabilityName \<equiv> Registered CapabilitySpace 2"

abbreviation capability_ErrNilCapability :: ibc_error where
  "capability_ErrNilCapability \<equiv> Registered CapabilitySpace 3"

abbreviation capability_ErrCapabilityTaken :: ibc_error where
  "capability_ErrCapabilityTaken \<equiv> Registered CapabilitySpace 4"

abbreviation capability_ErrOwnerClaimed :: ibc_error where
  "capability_ErrOwnerClaimed \<equiv> Registered CapabilitySpace 5"

abbreviation capability_ErrCapabilityNotOwned :: ibc_error where
  "capability_ErrCapabilityNotOwned \<equiv> Registered CapabilitySpace 6"

abbreviation capability_ErrCapabilityNotFound :: ibc_error where
  "capability_ErrCapabilityNotFound \<equiv> Registered CapabilitySpace 7"

abbreviation capability_ErrCapabilityOwnersNotFound :: ibc_error where
  "capability_ErrCapabilityOwnersNotFound \<equiv> Registered CapabilitySpace 8"

abbreviation solomachine_ErrInvalidHeader :: ibc_error where
  "solomachine_ErrInvalidHeader \<equiv> Registered SolomachineSpace 2"

abbreviation solomachine_ErrInvalidSequence :: ibc_error where
  "solomachine_ErrInvalidSequence \<equiv> Registered SolomachineSpace 3"

abbreviation solomachine_ErrInvalidSignatureAndData :: ibc_error where
  "solomachine_ErrInvalidSignatureAndData \<equiv> Registered SolomachineSpace 4"

abbreviation solomachine_ErrSignatureVerificationFailed :: ibc_error where
  "solomachine_ErrSignatureVerificationFailed \<equiv> Registered SolomachineSpace 5"

abbreviation solomachine_ErrInvalidProof :: ibc_error where
  "solomachine_ErrInvalidProof \<equiv> Registered SolomachineSpace 6"

abbreviation tendermint_ErrInvalidChainID :: ibc_error where
  "tendermint_ErrInvalidChainID \<equiv> Registered TendermintSpace 2"

abbreviation tendermint_ErrInvalidTrustingPeriod :: ibc_error where
  "tendermint_ErrInvalidTrustingPeriod \<equiv> Registered TendermintSpace 3"

abbreviation tendermint_ErrInvalidUnbondingPeriod :: ibc_error where
  "tendermint_ErrInvalidUnbondingPeriod \<equiv> Registered TendermintSpace 4"

abbreviation tendermint_ErrInvalidHeaderHeight :: ibc_error where
  "tendermint_ErrInvalidHeaderHeight \<equiv> Registered TendermintSpace 5"

abbreviation tendermint_ErrInvalidHeader :: ibc_error where
  "tendermint_ErrInvalidHeader \<equiv> Registered TendermintSpace 6"

abbreviation tendermint_ErrInvalidMaxClockDrift :: ibc_error where
  "tendermint_ErrInvalidMaxClockDrift \<equiv> Registered TendermintSpace 7"

abbreviation tendermint_ErrProcessedTimeNotFound :: ibc_error where
  "tendermint_ErrProcessedTimeNotFound \<equiv> Registered TendermintSpace 8"

abbreviation tendermint_ErrProcessedHeightNotFound :: ibc_error where
  "tendermint_ErrProcessedHeightNotFound \<equiv> Registered TendermintSpace 9"

abbreviation tendermint_ErrDelayPeriodNotPassed :: ibc_error where
  "tendermint_ErrDelayPeriodNotPassed \<equiv> Registered TendermintSpace 10"

abbreviation tendermint_ErrTrustingPeriodExpired :: ibc_error where
  "tendermint_ErrTrustingPeriodExpired \<equiv> Registered TendermintSpace 11"

abbreviation tendermint_ErrUnbondingPeriodExpired :: ibc_error where
  "tendermint_ErrUnbondingPeriodExpired \<equiv> Registered TendermintSpace 12"

abbreviation tendermint_ErrInvalidProofSpecs :: ibc_error where
  "tendermint_ErrInvalidProofSpecs \<equiv> Registered TendermintSpace 13"

abbreviation tendermint_ErrInvalidValidatorSet :: ibc_error where
  "tendermint_ErrInvalidValidatorSet \<equiv> Registered TendermintSpace 14"

abbreviation transfer_ErrInvalidPacketTimeout :: ibc_error where
  "transfer_ErrInvalidPacketTimeout \<equiv> Registered TransferSpace 2"

abbreviation transfer_ErrInvalidDenomForTransfer :: ibc_error where
  "transfer_ErrInvalidDenomForTransfer \<equiv> Registered TransferSpace 3"

abbreviation transfer_ErrInvalidVersion :: ibc_error where
  "transfer_ErrInvalidVersion \<equiv> Registered TransferSpace 4"

abbreviation transfer_ErrInvalidAmount :: ibc_error where
  "transfer_ErrInvalidAmount \<equiv> Registered TransferSpace 5"

abbreviation transfer_ErrTraceNotFound :: ibc_error where
  "transfer_ErrTraceNotFound \<equiv> Registered TransferSpace 6"

abbreviation transfer_ErrSendDisabled :: ibc_error where
  "transfer_ErrSendDisabled \<equiv> Registered TransferSpace 7"

abbreviation transfer_ErrReceiveDisabled :: ibc_error where
  "transfer_ErrReceiveDisabled \<equiv> Registered TransferSpace 8"

abbreviation transfer_ErrMaxTransferChannels :: ibc_error where
  "transfer_ErrMaxTransferChannels \<equiv> Registered TransferSpace 9"

abbreviation transfer_ErrInvalidAuthorization :: ibc_error where
  "transfer_ErrInvalidAuthorization \<equiv> Registered TransferSpace 10"

abbreviation fee_ErrInvalidVersion :: ibc_error where
  "fee_ErrInvalidVersion \<equiv> Registered FeeSpace 2"

abbreviation fee_ErrRefundAccNotFound :: ibc_error where
  "fee_ErrRefundAccNotFound \<equiv> Registered FeeSpace 3"

abbreviation fee_ErrBalanceNotFound :: ibc_error where
  "fee_ErrBalanceNotFound \<equiv> Registered FeeSpace 4"

abbreviation fee_ErrFeeNotFound :: ibc_error where
  "fee_ErrFeeNotFound \<equiv> Registered FeeSpace 5"

abbreviation fee_ErrRelayersNotEmpty :: ibc_error where
  "fee_ErrRelayersNotEmpty \<equiv> Registered FeeSpace 6"

abbreviation fee_ErrCounterpartyPayeeEmpty :: ibc_error where
  "fee_ErrCounterpartyPayeeEmpty \<equiv> Registered FeeSpace 7"

abbreviation fee_ErrForwardRelayerAddressNotFound :: ibc_error where
  "fee_ErrForwardRelayerAddressNotFound \<equiv> Registered FeeSpace 8"

abbreviation fee_ErrFeeNotEnabled :: ibc_error where
  "fee_ErrFeeNotEnabled \<equiv> Registered FeeSpace 9"

abbreviation fee_ErrRelayerNotFoundForAsyncAck :: ibc_error where
  "fee_ErrRelayerNotFoundForAsyncAck \<equiv> Registered FeeSpace 10"

abbreviation fee_ErrFeeModuleLocked :: ibc_error where
  "fee_ErrFeeModuleLocked \<equiv> Registered FeeSpace 11"

abbreviation ica_ErrUnknownDataType :: ibc_error where
  "ica_ErrUnknownDataType \<equiv> Registered IcaSpace 2"

abbreviation ica_ErrAccountAlreadyExist :: ibc_error where
  "ica_ErrAccountAlreadyExist \<equiv> Registered IcaSpace 3"

abbreviation ica_ErrPortAlreadyBound :: ibc_error where
  "ica_ErrPortAlreadyBound \<equiv> Registered IcaSpace 4"

abbreviation ica_ErrInvalidChannelFlow :: ibc_error where
  "ica_ErrInvalidChannelFlow \<equiv> Registered IcaSpace 5"

abbreviation ica_ErrInvalidOutgoingData :: ibc_error where
  "ica_ErrInvalidOutgoingData \<equiv> Registered IcaSpace 6"

abbreviation ica_ErrInvalidRoute :: ibc_error where
  "ica_ErrInvalidRoute \<equiv> Registered IcaSpace 7"

abbreviation ica_ErrInterchainAccountNotFound :: ibc_error where
  "ica_ErrInterchainAccountNotFound \<equiv> Registered IcaSpace 8"

abbreviation ica_ErrInterchainAccountAlreadySet :: ibc_error where
  "ica_ErrInterchainAccountAlreadySet \<equiv> Registered IcaSpace 9"

abbreviation ica_ErrActiveChannelAlreadySet :: ibc_error where
  "ica_ErrActiveChannelAlreadySet \<equiv> Registered IcaSpace 10"

abbreviation ica_ErrActiveChannelNotFound :: ibc_error where
  "ica_ErrActiveChannelNotFound \<equiv> Registered IcaSpace 11"

abbreviation ica_ErrInvalidVersion :: ibc_error where
  "ica_ErrInvalidVersion \<equiv> Registered IcaSpace 12"

abbreviation ica_ErrInvalidAccountAddress :: ibc_error where
  "ica_ErrInvalidAccountAddress \<equiv> Registered IcaSpace 13"

abbreviation ica_ErrUnsupported :: ibc_error where
  "ica_ErrUnsupported \<equiv> Registered IcaSpace 14"

abbreviation ica_ErrInvalidControllerPort :: ibc_error where
  "ica_ErrInvalidControllerPort \<equiv> Registered IcaSpace 15"

abbreviation ica_ErrInvalidHostPort :: ibc_error where
  "ica_ErrInvalidHostPort \<equiv> Registered IcaSpace 16"

abbreviation ica_ErrInvalidTimeoutTimestamp :: ibc_error where
  "ica_ErrInvalidTimeoutTimestamp \<equiv> Registered IcaSpace 17"

abbreviation ica_ErrInvalidCodec :: ibc_error where
  "ica_ErrInvalidCodec \<equiv> Registered IcaSpace 18"

abbreviation ica_ErrInvalidAccountReopening :: ibc_error where
  "ica_ErrInvalidAccountReopening \<equiv> Registered IcaSpace 19"

abbreviation icahost_ErrHostSubModuleDisabled :: ibc_error where
  "icahost_ErrHostSubModuleDisabled \<equiv> Registered IcaHostSpace 2"

abbreviation icacontroller_ErrControllerSubModuleDisabled :: ibc_error where
  "icacontroller_ErrControllerSubModuleDisabled \<equiv> Registered IcaControllerSpace 2"

end
