(* ===== verification/Prelude.thy ===== *)
theory Prelude
  imports Errors "HOL-Library.Word"
begin

text \<open>
  Shared vocabulary of the development: the result type,
  the parts of Go's \<open>strings\<close>, \<open>strconv\<close> and \<open>fmt\<close> packages the sources use (on byte strings),
  and the generic lemmas on results, strings and separators the component theories rest on.
\<close>

named_theorems store_simps \<open>what a store read returns after a store write\<close>
named_theorems path_simps \<open>equality of host paths\<close>
named_theorems op_defs \<open>definitions of keeper operations, for the success lemmas\<close>

section \<open>Types\<close>

type_synonym u64 = "64 word"
type_synonym bytes = "8 word list"

type_synonym 'a result = "ibc_error + 'a"

text \<open>Sequencing of fallible calls: \<open>if err != nil { return err }\<close> followed by the rest.\<close>

definition and_then :: "'a result \<Rightarrow> ('a \<Rightarrow> 'b result) \<Rightarrow> 'b result" where
  "and_then r f = (case r of Inl e \<Rightarrow> Inl e | Inr x \<Rightarrow> f x)"

lemma and_then_simps [simp]: "and_then (Inl e) f = Inl e" "and_then (Inr x) f = f x"
  by (simp_all add: and_then_def)

lemma and_then_Inr [simp]: "and_then r f = Inr y \<longleftrightarrow> (\<exists>x. r = Inr x \<and> f x = Inr y)"
  by (cases r) simp_all

lemma and_then_Inl: "and_then r f = Inl e \<longleftrightarrow> r = Inl e \<or> (\<exists>x. r = Inr x \<and> f x = Inl e)"
  by (cases r) simp_all

lemma replaced_error_Inr: "(case r of Inl e \<Rightarrow> Inl (f e) | Inr x \<Rightarrow> g x) = Inr y \<longleftrightarrow> (\<exists>x. r = Inr x \<and> g x = Inr y)"
  by (cases r) auto

definition is_ok :: "'a result \<Rightarrow> bool" where
  "is_ok r = (case r of Inl _ \<Rightarrow> False | Inr _ \<Rightarrow> True)"

lemma is_ok_simps [simp]: "is_ok (Inr x)" "\<not> is_ok (Inl e)"
  by (simp_all add: is_ok_def)

lemma is_ok_iff: "is_ok r \<longleftrightarrow> (\<exists>x. r = Inr x)"
  by (cases r) simp_all

section \<open>Byte strings\<close>

text \<open>\<open>strings.HasPrefix\<close>\<close>

fun HasPrefix :: "string \<Rightarrow> string \<Rightarrow> bool" where
  "HasPrefix s [] = True"
| "HasPrefix [] (_ # _) = False"
| "HasPrefix (a # s) (b # p) = (a = b \<and> HasPrefix s p)"

lemma HasPrefix_iff: "HasPrefix s p \<longleftrightarrow> (\<exists>t. s = p @ t)"
  by (induction s p rule: HasPrefix.induct) auto

lemma HasPrefix_append [simp]: "HasPrefix (p @ t) p"
  by (auto simp: HasPrefix_iff)

text \<open>
  \<open>strings.TrimSpace(s) == ""\<close>: every rune of \<open>s\<close> is white space. The white space runes are the six
  ASCII ones and, in UTF-8, U+0085, U+00A0, U+1680, U+2000 to U+200A, U+2028, U+2029, U+202F,
  U+205F and U+3000.
\<close>

definition ascii_space :: "char \<Rightarrow> bool" where
  "ascii_space c = (of_char c \<in> {9, 10, 11, 12, 13, 32 :: nat})"

definition space2 :: "char \<Rightarrow> char \<Rightarrow> bool" where
  "space2 c d = (of_char c = (194 :: nat) \<and> of_char d \<in> {133, 160 :: nat})"

definition space3 :: "char \<Rightarrow> char \<Rightarrow> char \<Rightarrow> bool" where
  "space3 c d e =
     ((of_char c, of_char d, of_char e) = (225 :: nat, 154 :: nat, 128 :: nat)
      \<or> of_char c = (226 :: nat) \<and> of_char d = (128 :: nat)
         \<and> (128 \<le> (of_char e :: nat) \<and> (of_char e :: nat) \<le> 138 \<or> of_char e \<in> {168, 169, 175 :: nat})
      \<or> (of_char c, of_char d, of_char e) = (226 :: nat, 129 :: nat, 159 :: nat)
      \<or> (of_char c, of_char d, of_char e) = (227 :: nat, 128 :: nat, 128 :: nat))"

fun is_blank :: "string \<Rightarrow> bool" where
  "is_blank [] = True"
| "is_blank [c] = ascii_space c"
| "is_blank [c, d] = (ascii_space c \<and> is_blank [d] \<or> space2 c d)"
| "is_blank (c # d # e # s) =
     (ascii_space c \<and> is_blank (d # e # s) \<or> space2 c d \<and> is_blank (e # s)
      \<or> space3 c d e \<and> is_blank s)"

text \<open>A byte that starts no white space rune makes a string non-blank.\<close>

definition solid :: "char \<Rightarrow> bool" where
  "solid c = (\<not> ascii_space c \<and> of_char c \<notin> {194, 225, 226, 227 :: nat})"

lemma solid_not_blank [simp]: "solid c \<Longrightarrow> \<not> is_blank (c # s)"
  by (cases "(c # s)" rule: is_blank.cases) (auto simp: solid_def space2_def space3_def)

text \<open>\<open>strings.Split(s, sep)\<close>: the pieces between the leftmost non-overlapping separators.\<close>

function Split :: "string \<Rightarrow> string \<Rightarrow> string list" where
  "Split s sep =
     (if sep = [] then map (\<lambda>c. [c]) s
      else if HasPrefix s sep then [] # Split (drop (length sep) s) sep
      else (case s of [] \<Rightarrow> [[]]
            | c # t \<Rightarrow> (case Split t sep of [] \<Rightarrow> [[c]] | w # ws \<Rightarrow> (c # w) # ws)))"
  by pat_completeness auto
termination
proof (relation "measure (\<lambda>(s, sep). length s)", goal_cases)
  case (2 s sep)
  then show ?case by (cases s; cases sep) auto
qed auto

declare Split.simps [simp del]

lemma Split_nonempty: "sep \<noteq> [] \<Longrightarrow> Split s sep \<noteq> []"
  by (subst Split.simps) (auto split: list.splits)

text \<open>With a one-byte separator.\<close>

lemma Split_Nil [simp]: "Split [] [c] = [[]]"
  by (subst Split.simps) simp

lemma Split_sep [simp]: "Split (c # s) [c] = [] # Split s [c]"
  by (subst Split.simps) simp

lemma Split_other:
  "d \<noteq> c \<Longrightarrow> Split (d # s) [c] = (d # hd (Split s [c])) # tl (Split s [c])"
  using Split_nonempty [of "[c]" s] by (subst Split.simps) (auto split: list.splits)

lemma Split_no_sep: "c \<notin> set s \<Longrightarrow> Split s [c] = [s]"
  by (induction s) (auto simp: Split_other)

lemma Split_append: "c \<notin> set s \<Longrightarrow> Split (s @ c # t) [c] = s # Split t [c]"
  by (induction s) (auto simp: Split_other)

text \<open>\<open>strings.Join(parts, "/")\<close>\<close>

fun Join :: "string list \<Rightarrow> string \<Rightarrow> string" where
  "Join [] sep = []"
| "Join [x] sep = x"
| "Join (x # y # ys) sep = x @ sep @ Join (y # ys) sep"

lemma Join_Cons: "xs \<noteq> [] \<Longrightarrow> Join (x # xs) sep = x @ sep @ Join xs sep"
  by (cases xs) simp_all

lemma Join_Split: "Join (Split s [c]) [c] = s"
proof (induction s)
  case Nil
  then show ?case by simp
next
  case (Cons d s)
  show ?case
  proof (cases "d = c")
    case True
    with Cons Split_nonempty [of "[c]" s] show ?thesis by (simp add: Join_Cons)
  next
    case False
    obtain w ws where ws: "Split s [c] = w # ws"
      using Split_nonempty [of "[c]" s] by (cases "Split s [c]") auto
    with Cons False show ?thesis by (cases ws) (simp_all add: Split_other)
  qed
qed

text \<open>A separator that occurs in neither part determines the split.\<close>

lemma sep_append_inj:
  "c \<notin> set a \<Longrightarrow> c \<notin> set b \<Longrightarrow> a @ c # x = b @ c # y \<longleftrightarrow> a = b \<and> x = y"
proof (induction a arbitrary: b)
  case Nil
  then show ?case by (cases b) auto
next
  case (Cons d a)
  then show ?case by (cases b) auto
qed

section \<open>Decimal numbers\<close>

definition digit :: "nat \<Rightarrow> char" where
  "digit d = char_of (48 + d)"

definition is_digit :: "char \<Rightarrow> bool" where
  "is_digit c = (48 \<le> (of_char c :: nat) \<and> (of_char c :: nat) \<le> 57)"

definition digit_val :: "char \<Rightarrow> nat" where
  "digit_val c = of_char c - 48"

text \<open>\<open>fmt.Sprintf("%d", n)\<close> on an unsigned number\<close>

fun decimal :: "nat \<Rightarrow> string" where
  "decimal n = (if n < 10 then [digit n] else decimal (n div 10) @ [digit (n mod 10)])"

declare decimal.simps [simp del]

definition dec :: "u64 \<Rightarrow> string" where
  "dec w = decimal (unat w)"

definition digits_val :: "string \<Rightarrow> nat" where
  "digits_val s = foldl (\<lambda>n c. 10 * n + digit_val c) 0 s"

text \<open>\<open>strconv.ParseUint(s, 10, 64)\<close>: digits only, at least one, value below \<open>2 ^ 64\<close>\<close>

definition ParseUint :: "string \<Rightarrow> u64 option" where
  "ParseUint s =
     (if s \<noteq> [] \<and> list_all is_digit s \<and> digits_val s < 2 ^ 64
      then Some (word_of_nat (digits_val s)) else None)"

text \<open>The same on integers, which evaluate in binary.\<close>

definition digits_int :: "string \<Rightarrow> int" where
  "digits_int s = foldl (\<lambda>n c. 10 * n + int (digit_val c)) 0 s"

lemma digits_int: "digits_int s = int (digits_val s)"
proof -
  have "foldl (\<lambda>n c. 10 * n + int (digit_val c)) (int a) s = int (foldl (\<lambda>n c. 10 * n + digit_val c) a s)" for a
  proof (induction s arbitrary: a)
    case (Cons c s)
    from Cons [of "10 * a + digit_val c"] show ?case by simp
  qed simp
  from this [of 0] show ?thesis by (simp add: digits_int_def digits_val_def)
qed

lemma ParseUint_code [code]:
  "ParseUint s =
     (if s \<noteq> [] \<and> list_all is_digit s \<and> digits_int s < 18446744073709551616
      then Some (word_of_int (digits_int s)) else None)"
proof -
  have "(int (digits_val s) < 18446744073709551616) = (digits_val s < 2 ^ 64)" by simp
  then show ?thesis unfolding ParseUint_def digits_int by (simp only: of_int_of_nat_eq)
qed

lemma of_char_digit: "d < 10 \<Longrightarrow> of_char (digit d) = 48 + d"
  by (simp add: digit_def of_char_of)

lemma is_digit_digit: "d < 10 \<Longrightarrow> is_digit (digit d)"
  by (simp add: is_digit_def of_char_digit)

lemma digit_val_digit: "d < 10 \<Longrightarrow> digit_val (digit d) = d"
  by (simp add: digit_val_def of_char_digit)

lemma decimal_nonempty [simp]: "decimal n \<noteq> []"
  by (subst decimal.simps) simp

lemma decimal_digits: "list_all is_digit (decimal n)"
proof (induction n rule: decimal.induct)
  case (1 n)
  then show ?case by (cases "n < 10") (simp_all add: decimal.simps [of n] is_digit_digit)
qed

lemma digits_val_snoc: "digits_val (s @ [c]) = 10 * digits_val s + digit_val c"
  by (simp add: digits_val_def)

lemma digits_val_decimal [simp]: "digits_val (decimal n) = n"
proof (induction n rule: decimal.induct)
  case (1 n)
  show ?case
  proof (cases "n < 10")
    case True
    then show ?thesis by (simp add: decimal.simps [of n] digits_val_def digit_val_digit)
  next
    case False
    with 1 show ?thesis by (simp add: decimal.simps [of n] digits_val_snoc digit_val_digit)
  qed
qed

lemma decimal_inj [simp]: "decimal m = decimal n \<longleftrightarrow> m = n"
  by (metis digits_val_decimal)

lemma dec_inj [simp]: "dec v = dec w \<longleftrightarrow> v = w"
  by (simp add: dec_def word_unat_eq_iff)

lemma unat_lt64: "unat (w :: u64) < 2 ^ 64"
  using unsigned_less [of w] by simp

lemma dec_nonempty [simp]: "dec w \<noteq> []"
  by (simp add: dec_def)

lemma dec_digits: "list_all is_digit (dec w)"
  by (simp add: dec_def decimal_digits)

lemma ParseUint_dec [simp]: "ParseUint (dec w) = Some w"
  using unat_lt64 [of w] by (simp add: ParseUint_def dec_def decimal_digits)

lemma ParseUint_Nil [simp]: "ParseUint [] = None"
  by (simp add: ParseUint_def)

lemma not_digit_notin_decimal: "\<not> is_digit c \<Longrightarrow> c \<notin> set (decimal n)"
  using decimal_digits [of n] by (auto simp: list_all_iff)

lemma not_digit_notin_dec [simp]: "\<not> is_digit c \<Longrightarrow> c \<notin> set (dec w)"
  by (simp add: dec_def not_digit_notin_decimal)

text \<open>At most 20 digits.\<close>

lemma length_decimal_le: "n < 10 ^ k \<Longrightarrow> 0 < k \<Longrightarrow> length (decimal n) \<le> k"
proof (induction k arbitrary: n)
  case 0
  then show ?case by simp
next
  case (Suc k)
  show ?case
  proof (cases "n < 10")
    case True
    then show ?thesis by (simp add: decimal.simps [of n])
  next
    case False
    with Suc.prems have "n div 10 < 10 ^ k" and "0 < k"
      by (simp_all add: less_mult_imp_div_less) (cases k, simp_all)
    then have "length (decimal (n div 10)) \<le> k" by (rule Suc.IH)
    with False show ?thesis by (simp add: decimal.simps [of n])
  qed
qed

lemma length_dec_le: "length (dec w) \<le> 20"
proof -
  have "unat w < 2 ^ 64" by (rule unat_lt64)
  also have "(2 :: nat) ^ 64 < 10 ^ 20" by simp
  finally show ?thesis unfolding dec_def by (rule length_decimal_le) simp
qed


section \<open>Counters\<close>

lemma u64_succ_nonzero: "(w :: u64) \<noteq> - 1 \<Longrightarrow> w + 1 \<noteq> 0"
  by (simp add: eq_neg_iff_add_eq_0)

lemma unat_u64_succ: "(w :: u64) \<noteq> - 1 \<Longrightarrow> unat (w + 1) = Suc (unat w)"
  using u64_succ_nonzero [of w] by (metis add.commute unatSuc)

lemma u64_less_succ: "(w :: u64) \<noteq> - 1 \<Longrightarrow> w < w + 1"
  by (simp add: word_less_nat_alt unat_u64_succ)

end
