(* ===== verification/Host.thy ===== *)
theory Host
  imports Prelude
begin

text \<open>
  ICS-24 host requirements, \<open>modules/core/24-host\<close>: the store paths (\<open>keys.go\<close>), the identifier and path
  validators (\<open>validate.go\<close>) and the path parsers (\<open>parse.go\<close>). A path is a byte string; the \<open>...Path\<close>
  and \<open>...Key\<close> variants of a Go key function differ only in the type of the same bytes, so each pair is
  one definition. The theorems: validated identifiers contain no separator, paths of validated
  identifiers determine their identifiers, paths of different kinds never collide, and the parsers
  invert the path constructors.
\<close>

section \<open>Store paths\<close>

abbreviation KeyClientStorePrefix :: string where "KeyClientStorePrefix \<equiv> ''clients''"
abbreviation KeyClientState :: string where "KeyClientState \<equiv> ''clientState''"
abbreviation KeyConsensusStatePrefix :: string where "KeyConsensusStatePrefix \<equiv> ''consensusStates''"
abbreviation KeyConnectionPrefix :: string where "KeyConnectionPrefix \<equiv> ''connections''"
abbreviation KeyChannelEndPrefix :: string where "KeyChannelEndPrefix \<equiv> ''channelEnds''"
abbreviation KeyChannelPrefix :: string where "KeyChannelPrefix \<equiv> ''channels''"
abbreviation KeyPortPrefix :: string where "KeyPortPrefix \<equiv> ''ports''"
abbreviation KeySequencePrefix :: string where "KeySequencePrefix \<equiv> ''sequences''"
abbreviation KeyChannelCapabilityPrefix :: string where
  "KeyChannelCapabilityPrefix \<equiv> ''capabilities''"
abbreviation KeyNextSeqSendPrefix :: string where "KeyNextSeqSendPrefix \<equiv> ''nextSequenceSend''"
abbreviation KeyNextSeqRecvPrefix :: string where "KeyNextSeqRecvPrefix \<equiv> ''nextSequenceRecv''"
abbreviation KeyNextSeqAckPrefix :: string where "KeyNextSeqAckPrefix \<equiv> ''nextSequenceAck''"
abbreviation KeyPacketCommitmentPrefix :: string where
  "KeyPacketCommitmentPrefix \<equiv> ''commitments''"
abbreviation KeyPacketAckPrefix :: string where "KeyPacketAckPrefix \<equiv> ''acks''"
abbreviation KeyPacketReceiptPrefix :: string where "KeyPacketReceiptPrefix \<equiv> ''receipts''"

definition FullClientPath :: "string \<Rightarrow> string \<Rightarrow> string" where
  "FullClientPath clientID path = KeyClientStorePrefix @ ''/'' @ clientID @ ''/'' @ path"

definition PrefixedClientStorePath :: "string \<Rightarrow> string" where
  "PrefixedClientStorePath pre = KeyClientStorePrefix @ ''/'' @ pre"

definition FullClientStatePath :: "string \<Rightarrow> string" where
  "FullClientStatePath clientID = FullClientPath clientID KeyClientState"

definition ClientStateKey :: string where
  "ClientStateKey = KeyClientState"

text \<open>The consensus state paths take the height in its printed form \<open>{revision}-{height}\<close>.\<close>

definition ConsensusStatePath :: "string \<Rightarrow> string" where
  "ConsensusStatePath height = KeyConsensusStatePrefix @ ''/'' @ height"

definition FullConsensusStatePath :: "string \<Rightarrow> string \<Rightarrow> string" where
  "FullConsensusStatePath clientID height = FullClientPath clientID (ConsensusStatePath height)"

definition ClientConnectionsPath :: "string \<Rightarrow> string" where
  "ClientConnectionsPath clientID = FullClientPath clientID KeyConnectionPrefix"

definition ConnectionPath :: "string \<Rightarrow> string" where
  "ConnectionPath connectionID = KeyConnectionPrefix @ ''/'' @ connectionID"

definition channelPath :: "string \<Rightarrow> string \<Rightarrow> string" where
  "channelPath portID channelID =
     KeyPortPrefix @ ''/'' @ portID @ ''/'' @ KeyChannelPrefix @ ''/'' @ channelID"

definition sequencePath :: "u64 \<Rightarrow> string" where
  "sequencePath sequence = KeySequencePrefix @ ''/'' @ dec sequence"

definition ChannelPath :: "string \<Rightarrow> string \<Rightarrow> string" where
  "ChannelPath portID channelID = KeyChannelEndPrefix @ ''/'' @ channelPath portID channelID"

definition ChannelCapabilityPath :: "string \<Rightarrow> string \<Rightarrow> string" where
  "ChannelCapabilityPath portID channelID =
     KeyChannelCapabilityPrefix @ ''/'' @ channelPath portID channelID"

definition NextSequenceSendPath :: "string \<Rightarrow> string \<Rightarrow> string" where
  "NextSequenceSendPath portID channelID =
     KeyNextSeqSendPrefix @ ''/'' @ channelPath portID channelID"

definition NextSequenceRecvPath :: "string \<Rightarrow> string \<Rightarrow> string" where
  "NextSequenceRecvPath portID channelID =
     KeyNextSeqRecvPrefix @ ''/'' @ channelPath portID channelID"

definition NextSequenceAckPath :: "string \<Rightarrow> string \<Rightarrow> string" where
  "NextSequenceAckPath portID channelID =
     KeyNextSeqAckPrefix @ ''/'' @ channelPath portID channelID"

definition PacketCommitmentPrefixPath :: "string \<Rightarrow> string \<Rightarrow> string" where
  "PacketCommitmentPrefixPath portID channelID =
     KeyPacketCommitmentPrefix @ ''/'' @ channelPath portID channelID @ ''/'' @ KeySequencePrefix"

definition PacketCommitmentPath :: "string \<Rightarrow> string \<Rightarrow> u64 \<Rightarrow> string" where
  "PacketCommitmentPath portID channelID sequence =
     PacketCommitmentPrefixPath portID channelID @ ''/'' @ dec sequence"

definition PacketAcknowledgementPrefixPath :: "string \<Rightarrow> string \<Rightarrow> string" where
  "PacketAcknowledgementPrefixPath portID channelID =
     KeyPacketAckPrefix @ ''/'' @ channelPath portID channelID @ ''/'' @ KeySequencePrefix"

definition PacketAcknowledgementPath :: "string \<Rightarrow> string \<Rightarrow> u64 \<Rightarrow> string" where
  "PacketAcknowledgementPath portID channelID sequence =
     PacketAcknowledgementPrefixPath portID channelID @ ''/'' @ dec sequence"

definition PacketReceiptPath :: "string \<Rightarrow> string \<Rightarrow> u64 \<Rightarrow> string" where
  "PacketReceiptPath portID channelID sequence =
     KeyPacketReceiptPrefix @ ''/'' @ channelPath portID channelID @ ''/'' @ sequencePath sequence"

definition PortPath :: "string \<Rightarrow> string" where
  "PortPath portID = KeyPortPrefix @ ''/'' @ portID"

section \<open>Validators\<close>

abbreviation (input) DefaultMaxCharacterLength :: nat where "DefaultMaxCharacterLength \<equiv> 64"
abbreviation (input) DefaultMaxPortCharacterLength :: nat where "DefaultMaxPortCharacterLength \<equiv> 128"

text \<open>The character class of the regular expression \<open>IsValidID\<close>, as byte values.\<close>

definition id_char :: "char \<Rightarrow> bool" where
  "id_char c =
     (let n = of_char c :: nat in
      97 \<le> n \<and> n \<le> 122 \<or> 65 \<le> n \<and> n \<le> 90 \<or> 48 \<le> n \<and> n \<le> 57
      \<or> c \<in> set ''._+-#[]<>'')"

definition IsValidID :: "string \<Rightarrow> bool" where
  "IsValidID s = (s \<noteq> [] \<and> list_all id_char s)"

definition defaultIdentifierValidator :: "string \<Rightarrow> nat \<Rightarrow> nat \<Rightarrow> unit result" where
  "defaultIdentifierValidator ident mn mx =
     (if is_blank ident then Inl host_ErrInvalidID
      else if CHR ''/'' \<in> set ident then Inl host_ErrInvalidID
      else if length ident < mn \<or> mx < length ident then Inl host_ErrInvalidID
      else if \<not> IsValidID ident then Inl host_ErrInvalidID
      else Inr ())"

definition ClientIdentifierValidator :: "string \<Rightarrow> unit result" where
  "ClientIdentifierValidator ident = defaultIdentifierValidator ident 9 DefaultMaxCharacterLength"

definition ConnectionIdentifierValidator :: "string \<Rightarrow> unit result" where
  "ConnectionIdentifierValidator ident =
     defaultIdentifierValidator ident 10 DefaultMaxCharacterLength"

definition ChannelIdentifierValidator :: "string \<Rightarrow> unit result" where
  "ChannelIdentifierValidator ident = defaultIdentifierValidator ident 8 DefaultMaxCharacterLength"

definition PortIdentifierValidator :: "string \<Rightarrow> unit result" where
  "PortIdentifierValidator ident = defaultIdentifierValidator ident 2 DefaultMaxPortCharacterLength"

text \<open>The loop of the path validator over the path elements.\<close>

fun validatePathElems :: "(string \<Rightarrow> unit result) \<Rightarrow> string list \<Rightarrow> unit result" where
  "validatePathElems idValidator [] = Inr ()"
| "validatePathElems idValidator (p # ps) =
     (if p = [] then Inl host_ErrInvalidPath
      else case idValidator p of Inl e \<Rightarrow> Inl e
      | Inr _ \<Rightarrow> (case defaultIdentifierValidator p 1 DefaultMaxCharacterLength of
            Inl e \<Rightarrow> Inl e
          | Inr _ \<Rightarrow> validatePathElems idValidator ps))"

definition NewPathValidator :: "(string \<Rightarrow> unit result) \<Rightarrow> string \<Rightarrow> unit result" where
  "NewPathValidator idValidator path =
     (let pathArr = Split path ''/'' in
      if 0 < length pathArr \<and> pathArr ! 0 = path then Inl host_ErrInvalidPath
      else validatePathElems idValidator pathArr)"

section \<open>Parsers\<close>

definition ParseIdentifier :: "string \<Rightarrow> string \<Rightarrow> u64 result" where
  "ParseIdentifier identifier pre =
     (if \<not> HasPrefix identifier pre then Inl host_ErrInvalidID
      else let splitStr = Split identifier pre in
        if length splitStr \<noteq> 2 then Inl host_ErrInvalidID
        else if splitStr ! 0 \<noteq> [] then Inl host_ErrInvalidID
        else case ParseUint (splitStr ! 1) of
            None \<Rightarrow> Inl (ErrForeign ''strconv'')
          | Some sequence \<Rightarrow> Inr sequence)"

definition parseClientStatePath :: "string \<Rightarrow> string result" where
  "parseClientStatePath path =
     (let split = Split path ''/'' in
      if length split \<noteq> 3 then Inl host_ErrInvalidPath
      else if split ! 0 \<noteq> KeyClientStorePrefix then Inl host_ErrInvalidPath
      else if split ! 2 \<noteq> KeyClientState then Inl host_ErrInvalidPath
      else if is_blank (split ! 1) then Inl host_ErrInvalidPath
      else Inr (split ! 1))"

definition MustParseClientStatePath :: "string \<Rightarrow> string result" where
  "MustParseClientStatePath path =
     (case parseClientStatePath path of
        Inl e \<Rightarrow> Inl (Panic ''invalid client state path'')
      | Inr clientID \<Rightarrow> Inr clientID)"

definition ParseConnectionPath :: "string \<Rightarrow> string result" where
  "ParseConnectionPath path =
     (let split = Split path ''/'' in
      if length split \<noteq> 2 then Inl host_ErrInvalidPath else Inr (split ! 1))"

definition ParseChannelPath :: "string \<Rightarrow> (string \<times> string) result" where
  "ParseChannelPath path =
     (let split = Split path ''/'' in
      if length split < 5 then Inl host_ErrInvalidPath
      else if split ! 1 \<noteq> KeyPortPrefix \<or> split ! 3 \<noteq> KeyChannelPrefix then Inl host_ErrInvalidPath
      else Inr (split ! 2, split ! 4))"

definition MustParseConnectionPath :: "string \<Rightarrow> string result" where
  "MustParseConnectionPath path =
     (case ParseConnectionPath path of
        Inl e \<Rightarrow> Inl (Panic ''invalid connection path'')
      | Inr connectionID \<Rightarrow> Inr connectionID)"

definition MustParseChannelPath :: "string \<Rightarrow> (string \<times> string) result" where
  "MustParseChannelPath path =
     (case ParseChannelPath path of
        Inl e \<Rightarrow> Inl (Panic ''invalid channel path'')
      | Inr ids \<Rightarrow> Inr ids)"


section \<open>Identifiers contain no separator\<close>

definition slash_free :: "string \<Rightarrow> bool" where
  "slash_free s = (CHR ''/'' \<notin> set s)"

lemma slash_not_digit [simp]: "\<not> is_digit CHR ''/''"
  by (simp add: is_digit_def)

lemma slash_free_dec [simp]: "slash_free (dec n)"
  by (simp add: slash_free_def)

lemma slash_free_append [simp]: "slash_free (s @ t) \<longleftrightarrow> slash_free s \<and> slash_free t"
  by (auto simp: slash_free_def)

lemma slash_free_Cons [simp]: "slash_free (c # s) \<longleftrightarrow> c \<noteq> CHR ''/'' \<and> slash_free s"
  by (auto simp: slash_free_def)

lemma slash_free_Nil [simp]: "slash_free []"
  by (simp add: slash_free_def)

lemma defaultIdentifierValidator_ok:
  "defaultIdentifierValidator i mn mx = Inr () \<longleftrightarrow>
     \<not> is_blank i \<and> slash_free i \<and> mn \<le> length i \<and> length i \<le> mx \<and> IsValidID i"
  by (auto simp: defaultIdentifierValidator_def slash_free_def)

lemma valid_slash_free:
  "ClientIdentifierValidator i = Inr () \<Longrightarrow> slash_free i"
  "ConnectionIdentifierValidator i = Inr () \<Longrightarrow> slash_free i"
  "ChannelIdentifierValidator i = Inr () \<Longrightarrow> slash_free i"
  "PortIdentifierValidator i = Inr () \<Longrightarrow> slash_free i"
  by (simp_all add: ClientIdentifierValidator_def ConnectionIdentifierValidator_def
      ChannelIdentifierValidator_def PortIdentifierValidator_def defaultIdentifierValidator_ok)

lemma id_char_solid: "id_char c \<Longrightarrow> solid c"
  unfolding id_char_def solid_def ascii_space_def Let_def by (elim disjE conjE) auto

lemma id_char_no_slash: "\<not> id_char CHR ''/''"
  by (simp add: id_char_def)

lemma IsValidID_facts:
  assumes "IsValidID s"
  shows "\<not> is_blank s" and "slash_free s"
proof -
  from assms obtain c t where s: "s = c # t" and "id_char c" by (cases s) (auto simp: IsValidID_def)
  then show "\<not> is_blank s" by (simp add: id_char_solid)
  show "slash_free s"
    using assms id_char_no_slash by (auto simp: IsValidID_def slash_free_def list_all_iff)
qed

text \<open>The blank and separator checks are subsumed by the regular expression.\<close>

lemma defaultIdentifierValidator_iff:
  "defaultIdentifierValidator i mn mx = Inr () \<longleftrightarrow>
     mn \<le> length i \<and> length i \<le> mx \<and> IsValidID i"
  using IsValidID_facts by (auto simp: defaultIdentifierValidator_ok)

lemma is_digit_id_char: "is_digit c \<Longrightarrow> id_char c"
  unfolding is_digit_def id_char_def Let_def by blast

lemma list_all_id_char_dec: "list_all id_char (dec n)"
  using dec_digits [of n] by (auto simp: list_all_iff is_digit_id_char)

section \<open>The path space\<close>

text \<open>
  The ICS-24 path space as a datatype: one constructor per kind of path, \<open>render\<close> the byte string the
  code stores it under.
\<close>

datatype host_path =
    PClientState string
  | PConsensusState string string
  | PClientConnections string
  | PConnection string
  | PChannel string string
  | PChannelCapability string string
  | PNextSequenceSend string string
  | PNextSequenceRecv string string
  | PNextSequenceAck string string
  | PPacketCommitment string string u64
  | PPacketAcknowledgement string string u64
  | PPacketReceipt string string u64
  | PPort string

fun render :: "host_path \<Rightarrow> string" where
  "render (PClientState c) = FullClientStatePath c"
| "render (PConsensusState c h) = FullConsensusStatePath c h"
| "render (PClientConnections c) = ClientConnectionsPath c"
| "render (PConnection c) = ConnectionPath c"
| "render (PChannel p c) = ChannelPath p c"
| "render (PChannelCapability p c) = ChannelCapabilityPath p c"
| "render (PNextSequenceSend p c) = NextSequenceSendPath p c"
| "render (PNextSequenceRecv p c) = NextSequenceRecvPath p c"
| "render (PNextSequenceAck p c) = NextSequenceAckPath p c"
| "render (PPacketCommitment p c n) = PacketCommitmentPath p c n"
| "render (PPacketAcknowledgement p c n) = PacketAcknowledgementPath p c n"
| "render (PPacketReceipt p c n) = PacketReceiptPath p c n"
| "render (PPort p) = PortPath p"

text \<open>The identifiers a path is built from.\<close>

fun path_ids :: "host_path \<Rightarrow> string list" where
  "path_ids (PClientState c) = [c]"
| "path_ids (PConsensusState c h) = [c, h]"
| "path_ids (PClientConnections c) = [c]"
| "path_ids (PConnection c) = [c]"
| "path_ids (PChannel p c) = [p, c]"
| "path_ids (PChannelCapability p c) = [p, c]"
| "path_ids (PNextSequenceSend p c) = [p, c]"
| "path_ids (PNextSequenceRecv p c) = [p, c]"
| "path_ids (PNextSequenceAck p c) = [p, c]"
| "path_ids (PPacketCommitment p c n) = [p, c]"
| "path_ids (PPacketAcknowledgement p c n) = [p, c]"
| "path_ids (PPacketReceipt p c n) = [p, c]"
| "path_ids (PPort p) = [p]"

fun segments :: "host_path \<Rightarrow> string list" where
  "segments (PClientState c) = [''clients'', c, ''clientState'']"
| "segments (PConsensusState c h) = [''clients'', c, ''consensusStates'', h]"
| "segments (PClientConnections c) = [''clients'', c, ''connections'']"
| "segments (PConnection c) = [''connections'', c]"
| "segments (PChannel p c) = [''channelEnds'', ''ports'', p, ''channels'', c]"
| "segments (PChannelCapability p c) = [''capabilities'', ''ports'', p, ''channels'', c]"
| "segments (PNextSequenceSend p c) = [''nextSequenceSend'', ''ports'', p, ''channels'', c]"
| "segments (PNextSequenceRecv p c) = [''nextSequenceRecv'', ''ports'', p, ''channels'', c]"
| "segments (PNextSequenceAck p c) = [''nextSequenceAck'', ''ports'', p, ''channels'', c]"
| "segments (PPacketCommitment p c n) =
     [''commitments'', ''ports'', p, ''channels'', c, ''sequences'', dec n]"
| "segments (PPacketAcknowledgement p c n) =
     [''acks'', ''ports'', p, ''channels'', c, ''sequences'', dec n]"
| "segments (PPacketReceipt p c n) =
     [''receipts'', ''ports'', p, ''channels'', c, ''sequences'', dec n]"
| "segments (PPort p) = [''ports'', p]"

lemmas path_defs = FullClientPath_def FullClientStatePath_def ConsensusStatePath_def
  FullConsensusStatePath_def ClientConnectionsPath_def ConnectionPath_def channelPath_def
  sequencePath_def ChannelPath_def ChannelCapabilityPath_def NextSequenceSendPath_def
  NextSequenceRecvPath_def NextSequenceAckPath_def PacketCommitmentPrefixPath_def
  PacketCommitmentPath_def PacketAcknowledgementPrefixPath_def PacketAcknowledgementPath_def
  PacketReceiptPath_def PortPath_def

lemma Split_slash_free: "slash_free s \<Longrightarrow> Split s ''/'' = [s]"
  by (simp add: slash_free_def Split_no_sep)

lemma Split_seg: "slash_free s \<Longrightarrow> Split (s @ CHR ''/'' # t) ''/'' = s # Split t ''/''"
  by (simp add: slash_free_def Split_append)

lemma render_Join: "render x = Join (segments x) ''/''"
  by (cases x) (simp_all add: path_defs)

lemma segments_slash_free: "list_all slash_free (path_ids x) \<Longrightarrow> list_all slash_free (segments x)"
  by (cases x) simp_all

lemma Split_Join:
  "xs \<noteq> [] \<Longrightarrow> list_all slash_free xs \<Longrightarrow> Split (Join xs ''/'') ''/'' = xs"
  by (induction xs rule: induct_list012) (simp_all add: Split_slash_free Split_seg)

lemma Split_render: "list_all slash_free (path_ids x) \<Longrightarrow> Split (render x) ''/'' = segments x"
proof -
  assume "list_all slash_free (path_ids x)"
  moreover have "segments x \<noteq> []" by (cases x) simp_all
  ultimately show ?thesis by (simp add: render_Join Split_Join segments_slash_free)
qed

lemma segments_inj: "segments x = segments y \<Longrightarrow> x = y"
  by (cases x; cases y; simp)

text \<open>A path determines its kind and its identifiers.\<close>

lemma render_inj:
  assumes "list_all slash_free (path_ids x)" and "list_all slash_free (path_ids y)"
    and "render x = render y"
  shows "x = y"
proof (rule segments_inj)
  show "segments x = segments y"
    using assms(3) Split_render [OF assms(1)] Split_render [OF assms(2)] by simp
qed


text \<open>The paths whose identifiers pass the validators of their kind.\<close>

fun valid_path :: "host_path \<Rightarrow> bool" where
  "valid_path (PClientState c) = is_ok (ClientIdentifierValidator c)"
| "valid_path (PConsensusState c h) = (is_ok (ClientIdentifierValidator c) \<and> slash_free h)"
| "valid_path (PClientConnections c) = is_ok (ClientIdentifierValidator c)"
| "valid_path (PConnection c) = is_ok (ConnectionIdentifierValidator c)"
| "valid_path (PChannel p c) =
     (is_ok (PortIdentifierValidator p) \<and> is_ok (ChannelIdentifierValidator c))"
| "valid_path (PChannelCapability p c) =
     (is_ok (PortIdentifierValidator p) \<and> is_ok (ChannelIdentifierValidator c))"
| "valid_path (PNextSequenceSend p c) =
     (is_ok (PortIdentifierValidator p) \<and> is_ok (ChannelIdentifierValidator c))"
| "valid_path (PNextSequenceRecv p c) =
     (is_ok (PortIdentifierValidator p) \<and> is_ok (ChannelIdentifierValidator c))"
| "valid_path (PNextSequenceAck p c) =
     (is_ok (PortIdentifierValidator p) \<and> is_ok (ChannelIdentifierValidator c))"
| "valid_path (PPacketCommitment p c n) =
     (is_ok (PortIdentifierValidator p) \<and> is_ok (ChannelIdentifierValidator c))"
| "valid_path (PPacketAcknowledgement p c n) =
     (is_ok (PortIdentifierValidator p) \<and> is_ok (ChannelIdentifierValidator c))"
| "valid_path (PPacketReceipt p c n) =
     (is_ok (PortIdentifierValidator p) \<and> is_ok (ChannelIdentifierValidator c))"
| "valid_path (PPort p) = is_ok (PortIdentifierValidator p)"

lemma ok_slash_free:
  "is_ok (ClientIdentifierValidator i) \<Longrightarrow> slash_free i"
  "is_ok (ConnectionIdentifierValidator i) \<Longrightarrow> slash_free i"
  "is_ok (ChannelIdentifierValidator i) \<Longrightarrow> slash_free i"
  "is_ok (PortIdentifierValidator i) \<Longrightarrow> slash_free i"
  by (auto simp: is_ok_iff dest: valid_slash_free)

lemma valid_path_slash_free: "valid_path x \<Longrightarrow> list_all slash_free (path_ids x)"
  by (cases x) (simp_all add: ok_slash_free)

lemma ok_not_blank: "is_ok (ClientIdentifierValidator c) \<Longrightarrow> \<not> is_blank c"
  by (auto simp: is_ok_iff ClientIdentifierValidator_def defaultIdentifierValidator_ok)

lemma ParseChannelPath_segments:
  "Split s ''/'' = a # ''ports'' # p # ''channels'' # c # r \<Longrightarrow> ParseChannelPath s = Inr (p, c)"
  by (simp add: ParseChannelPath_def)

section \<open>Properties\<close>

text \<open>
  The store paths are collision free. Two paths built from identifiers that pass the validators
  are the same byte string only if they are of the same kind and have the same identifiers (and
  sequence), so that no write under one path can change what is read under another.
\<close>

theorem host_paths_injective:
  assumes "valid_path x" and "valid_path y"
  shows "render x = render y \<longleftrightarrow> x = y"
  using render_inj [OF valid_path_slash_free [OF assms(1)] valid_path_slash_free [OF assms(2)]]
  by auto

lemma host_paths_injective_witness:
  "render (PChannel ''transfer'' ''channel-0'') \<noteq> render (PNextSequenceSend ''transfer'' ''channel-0'')"
proof -
  have "is_ok (PortIdentifierValidator ''transfer'')" by code_simp
  moreover have "is_ok (ChannelIdentifierValidator ''channel-0'')" by code_simp
  ultimately show ?thesis
    using host_paths_injective [of "PChannel ''transfer'' ''channel-0''"
        "PNextSequenceSend ''transfer'' ''channel-0''"]
    by simp
qed

text \<open>
  The path parsers invert the path constructors on validated identifiers: connection, channel,
  commitment, acknowledgement and client state paths give back the identifiers they were built from.
\<close>

theorem host_paths_roundtrip:
  assumes "is_ok (PortIdentifierValidator p)" and "is_ok (ChannelIdentifierValidator c)"
    and "is_ok (ConnectionIdentifierValidator k)" and "is_ok (ClientIdentifierValidator l)"
  shows "ParseChannelPath (ChannelPath p c) = Inr (p, c)
    \<and> ParseChannelPath (PacketCommitmentPath p c n) = Inr (p, c)
    \<and> ParseChannelPath (PacketAcknowledgementPath p c n) = Inr (p, c)
    \<and> ParseConnectionPath (ConnectionPath k) = Inr k
    \<and> MustParseClientStatePath (FullClientStatePath l) = Inr l"
  using Split_render [of "PChannel p c"] Split_render [of "PPacketCommitment p c n"]
    Split_render [of "PPacketAcknowledgement p c n"] Split_render [of "PConnection k"]
    Split_render [of "PClientState l"] assms
  by (simp add: ok_slash_free ok_not_blank ParseChannelPath_segments ParseConnectionPath_def
      MustParseClientStatePath_def parseClientStatePath_def)

lemma host_paths_roundtrip_witness:
  "ParseChannelPath (PacketCommitmentPath ''transfer'' ''channel-7'' 12) = Inr (''transfer'', ''channel-7'')"
proof -
  have "is_ok (PortIdentifierValidator ''transfer'')" by code_simp
  moreover have "is_ok (ChannelIdentifierValidator ''channel-7'')" by code_simp
  moreover have "is_ok (ConnectionIdentifierValidator ''connection-0'')" by code_simp
  moreover have "is_ok (ClientIdentifierValidator ''07-tendermint-0'')" by code_simp
  ultimately show ?thesis
    using host_paths_roundtrip [of "''transfer''" "''channel-7''" "''connection-0''"
        "''07-tendermint-0''" 12]
    by simp
qed

end
