(* ===== verification/Height.thy ===== *)
theory Height
  imports Host
begin

text \<open>
  Heights and chain revisions, \<open>modules/core/02-client/types/height.go\<close>. A height is a pair of 64-bit
  words; arithmetic on it wraps as in Go. The theorems: the comparison helpers are one linear order
  (the lexicographic one, declared as an instance of \<open>linorder\<close>), printing and parsing are inverse,
  and the chain-id functions return exactly the revision the id ends in, with the panic of
  \<open>ParseChainID\<close> on revisions of \<open>2 ^ 64\<close> or more as an explicit outcome.
\<close>

section \<open>The execution context\<close>

text \<open>What the modelled code reads of \<open>sdk.Context\<close>: the block time is in nanoseconds.\<close>

record sdk_context =
  ChainID :: string
  BlockHeight :: int
  BlockTime :: int

section \<open>Heights\<close>

datatype Height = NewHeight (RevisionNumber: u64) (RevisionHeight: u64)

definition ZeroHeight :: Height where
  "ZeroHeight = NewHeight 0 0"

text \<open>\<open>big.Int.Cmp\<close> on two values set from \<open>uint64\<close>\<close>

definition big_Cmp :: "u64 \<Rightarrow> u64 \<Rightarrow> int" where
  "big_Cmp a b = (if uint a < uint b then - 1 else if uint a = uint b then 0 else 1)"

definition Compare :: "Height \<Rightarrow> Height \<Rightarrow> int" where
  "Compare h other =
     (if RevisionNumber h \<noteq> RevisionNumber other
      then big_Cmp (RevisionNumber h) (RevisionNumber other)
      else big_Cmp (RevisionHeight h) (RevisionHeight other))"

definition LT :: "Height \<Rightarrow> Height \<Rightarrow> bool" where
  "LT h other = (Compare h other = - 1)"

definition LTE :: "Height \<Rightarrow> Height \<Rightarrow> bool" where
  "LTE h other = (Compare h other \<le> 0)"

definition GT :: "Height \<Rightarrow> Height \<Rightarrow> bool" where
  "GT h other = (Compare h other = 1)"

definition GTE :: "Height \<Rightarrow> Height \<Rightarrow> bool" where
  "GTE h other = (Compare h other \<ge> 0)"

definition EQ :: "Height \<Rightarrow> Height \<Rightarrow> bool" where
  "EQ h other = (Compare h other = 0)"

definition Height_String :: "Height \<Rightarrow> string" where
  "Height_String h = dec (RevisionNumber h) @ ''-'' @ dec (RevisionHeight h)"

definition Decrement :: "Height \<Rightarrow> Height \<times> bool" where
  "Decrement h =
     (if RevisionHeight h = 0 then (NewHeight 0 0, False)
      else (NewHeight (RevisionNumber h) (RevisionHeight h - 1), True))"

definition Increment :: "Height \<Rightarrow> Height" where
  "Increment h = NewHeight (RevisionNumber h) (RevisionHeight h + 1)"

definition IsZero :: "Height \<Rightarrow> bool" where
  "IsZero h = (RevisionNumber h = 0 \<and> RevisionHeight h = 0)"

definition ParseHeight :: "string \<Rightarrow> Height result" where
  "ParseHeight heightStr =
     (let splitStr = Split heightStr ''-'' in
      if length splitStr \<noteq> 2 then Inl ibcerrors_ErrInvalidHeight
      else case ParseUint (splitStr ! 0) of
          None \<Rightarrow> Inl ibcerrors_ErrInvalidHeight
        | Some revisionNumber \<Rightarrow> (case ParseUint (splitStr ! 1) of
              None \<Rightarrow> Inl ibcerrors_ErrInvalidHeight
            | Some revisionHeight \<Rightarrow> Inr (NewHeight revisionNumber revisionHeight)))"

definition MustParseHeight :: "string \<Rightarrow> Height result" where
  "MustParseHeight heightStr =
     (case ParseHeight heightStr of
        Inl e \<Rightarrow> Inl (Panic ''invalid height'')
      | Inr height \<Rightarrow> Inr height)"

section \<open>Chain identifiers\<close>

text \<open>
  The regular expression \<open>^.*[^\n-]-{1}[1-9][0-9]*$\<close>, read from the end: the maximal run of digits,
  which does not start with \<open>0\<close>, then one dash, a byte that is neither a dash nor a newline, and no
  newline before it.
\<close>

definition IsRevisionFormat :: "string \<Rightarrow> bool" where
  "IsRevisionFormat s =
     (let r = rev s; ds = takeWhile is_digit r in
      case dropWhile is_digit r of
        d # c # a \<Rightarrow>
          ds \<noteq> [] \<and> last ds \<noteq> CHR ''0'' \<and> d = CHR ''-''
          \<and> c \<noteq> CHR ''-'' \<and> c \<noteq> CHR 0x0A \<and> CHR 0x0A \<notin> set a
      | _ \<Rightarrow> False)"

text \<open>\<open>strconv.Itoa(int(n))\<close>: the conversion reads the 64 bits as a signed number.\<close>

definition Itoa :: "u64 \<Rightarrow> string" where
  "Itoa w = (if sint w < 0 then CHR ''-'' # decimal (nat (- sint w)) else decimal (nat (sint w)))"

definition SetRevisionNumber :: "string \<Rightarrow> u64 \<Rightarrow> string result" where
  "SetRevisionNumber chainID revision =
     (if \<not> IsRevisionFormat chainID then Inl ibcerrors_ErrInvalidChainID
      else let splitStr = Split chainID ''-'' in
        Inr (Join (splitStr[length splitStr - 1 := Itoa revision]) ''-''))"

definition ParseChainID :: "string \<Rightarrow> u64 result" where
  "ParseChainID chainID =
     (if \<not> IsRevisionFormat chainID then Inr 0
      else let splitStr = Split chainID ''-'' in
        case ParseUint (splitStr ! (length splitStr - 1)) of
          None \<Rightarrow> Inl (Panic ''regex allowed non-number value as last split element'')
        | Some revision \<Rightarrow> Inr revision)"

definition GetSelfHeight :: "sdk_context \<Rightarrow> Height result" where
  "GetSelfHeight ctx =
     (case ParseChainID (ChainID ctx) of
        Inl e \<Rightarrow> Inl e
      | Inr revision \<Rightarrow> Inr (NewHeight revision (word_of_int (BlockHeight ctx))))"

section \<open>Heights are linearly ordered\<close>

instantiation Height :: linorder
begin

definition less_eq_Height :: "Height \<Rightarrow> Height \<Rightarrow> bool" where
  "less_eq_Height h k =
     (RevisionNumber h < RevisionNumber k
      \<or> RevisionNumber h = RevisionNumber k \<and> RevisionHeight h \<le> RevisionHeight k)"

definition less_Height :: "Height \<Rightarrow> Height \<Rightarrow> bool" where
  "less_Height h k =
     (RevisionNumber h < RevisionNumber k
      \<or> RevisionNumber h = RevisionNumber k \<and> RevisionHeight h < RevisionHeight k)"

instance
  by standard (auto simp: less_eq_Height_def less_Height_def intro: Height.expand)

end

lemmas height_ord = less_eq_Height_def less_Height_def

lemma big_Cmp_word:
  "big_Cmp a b = - 1 \<longleftrightarrow> a < b" "big_Cmp a b = 0 \<longleftrightarrow> a = b" "big_Cmp a b = 1 \<longleftrightarrow> b < a"
  "big_Cmp a b \<le> 0 \<longleftrightarrow> a \<le> b" "0 \<le> big_Cmp a b \<longleftrightarrow> b \<le> a"
  by (auto simp: big_Cmp_def word_less_def word_le_def word_uint_eq_iff)

lemma height_cmp [simp]:
  "LT h k \<longleftrightarrow> h < k" "LTE h k \<longleftrightarrow> h \<le> k" "GT h k \<longleftrightarrow> k < h" "GTE h k \<longleftrightarrow> k \<le> h"
  "EQ h k \<longleftrightarrow> h = k"
  by (auto simp: LT_def LTE_def GT_def GTE_def EQ_def Compare_def big_Cmp_word height_ord
      intro: Height.expand)

lemma IsZero_iff [simp]: "IsZero h \<longleftrightarrow> h = ZeroHeight"
  by (cases h) (simp add: IsZero_def ZeroHeight_def)

lemma ZeroHeight_least [simp]: "ZeroHeight \<le> h"
  by (auto simp: height_ord ZeroHeight_def word_neq_0_conv)

lemma dash_not_digit [simp]: "\<not> is_digit CHR ''-''"
  by (simp add: is_digit_def)

lemma slash_free_Height_String [simp]: "slash_free (Height_String h)"
  by (simp add: Height_String_def)

lemma ParseHeight_String [simp]: "ParseHeight (Height_String h) = Inr h"
  by (simp add: ParseHeight_def Height_String_def Split_append Split_no_sep)

lemma Height_String_inj [simp]: "Height_String h = Height_String k \<longleftrightarrow> h = k"
  by (metis ParseHeight_String sum.inject(2))

section \<open>Revision numbers of chain identifiers\<close>

lemma Split_snoc:
  assumes "c \<notin> set t"
  shows "Split (s @ c # t) [c] = Split s [c] @ [t]"
proof (induction s)
  case Nil
  from assms show ?case by (simp add: Split_no_sep)
next
  case (Cons d s)
  then show ?case
    using Split_nonempty [of "[c]" s] by (cases "d = c") (simp_all add: Split_other)
qed

lemma Join_snoc: "xs \<noteq> [] \<Longrightarrow> Join (xs @ [x]) sep = Join xs sep @ sep @ x"
  by (induction xs rule: induct_list012) simp_all

text \<open>What a chain identifier in revision format looks like.\<close>

definition rev_format :: "string \<Rightarrow> string \<Rightarrow> string \<Rightarrow> bool" where
  "rev_format s nm ds =
     (s = nm @ CHR ''-'' # ds \<and> list_all is_digit ds \<and> ds \<noteq> [] \<and> hd ds \<noteq> CHR ''0''
      \<and> nm \<noteq> [] \<and> last nm \<noteq> CHR ''-'' \<and> CHR 0x0A \<notin> set nm)"

lemma dropWhile_digits_rev:
  "list_all is_digit ds \<Longrightarrow> dropWhile is_digit (rev ds @ CHR ''-'' # r) = CHR ''-'' # r"
  "list_all is_digit ds \<Longrightarrow> takeWhile is_digit (rev ds @ CHR ''-'' # r) = rev ds"
  by (simp_all add: list_all_iff dropWhile_append takeWhile_append)

lemma IsRevisionFormat_intro:
  assumes "rev_format s nm ds"
  shows "IsRevisionFormat s"
proof -
  from assms obtain a c where nm: "nm = a @ [c]"
    by (cases nm rule: rev_cases) (auto simp: rev_format_def)
  with assms show ?thesis
    by (auto simp: rev_format_def IsRevisionFormat_def Let_def dropWhile_digits_rev last_rev)
qed

lemma IsRevisionFormat_elim:
  assumes "IsRevisionFormat s"
  obtains nm ds where "rev_format s nm ds"
proof -
  let ?r = "rev s" and ?ds = "takeWhile is_digit (rev s)"
  from assms obtain c a where d: "dropWhile is_digit ?r = CHR ''-'' # c # a"
    and ok: "?ds \<noteq> []" "last ?ds \<noteq> CHR ''0''" "c \<noteq> CHR ''-''" "c \<noteq> CHR 0x0A" "CHR 0x0A \<notin> set a"
    by (auto simp: IsRevisionFormat_def Let_def split: list.splits)
  have "?r = ?ds @ CHR ''-'' # c # a" using d by (metis takeWhile_dropWhile_id)
  then have "s = rev (?ds @ CHR ''-'' # c # a)" by (metis rev_rev_ident)
  then have "rev_format s (rev a @ [c]) (rev ?ds)"
    using ok by (auto simp: rev_format_def hd_rev list_all_iff dest: set_takeWhileD)
  then show ?thesis by (rule that)
qed

lemma rev_format_dash: "rev_format s nm ds \<Longrightarrow> CHR ''-'' \<notin> set ds"
  by (auto simp: rev_format_def list_all_iff)

lemma Split_rev_format: "rev_format s nm ds \<Longrightarrow> Split s ''-'' = Split nm ''-'' @ [ds]"
  using rev_format_dash [of s nm ds] by (simp add: rev_format_def Split_snoc)

lemma ParseChainID_format:
  assumes "rev_format s nm ds"
  shows "ParseChainID s =
    (if digits_val ds < 2 ^ 64 then Inr (word_of_nat (digits_val ds))
     else Inl (Panic ''regex allowed non-number value as last split element''))"
  using assms IsRevisionFormat_intro [OF assms] Split_rev_format [OF assms]
  by (simp add: ParseChainID_def ParseUint_def rev_format_def)

lemma SetRevisionNumber_format:
  assumes "rev_format s nm ds"
  shows "SetRevisionNumber s r = Inr (nm @ CHR ''-'' # Itoa r)"
  using IsRevisionFormat_intro [OF assms] Split_rev_format [OF assms]
  by (simp add: SetRevisionNumber_def list_update_append Join_snoc Split_nonempty Join_Split)

lemma digit_zero: "d < 10 \<Longrightarrow> digit d = CHR ''0'' \<Longrightarrow> d = 0"
  using digit_val_digit [of d] by (simp add: digit_val_def)

lemma hd_decimal: "n \<noteq> 0 \<Longrightarrow> hd (decimal n) \<noteq> CHR ''0''"
proof (induction n rule: decimal.induct)
  case (1 n)
  then show ?case
    by (cases "n < 10") (auto simp: decimal.simps [of n] dest: digit_zero)
qed

text \<open>Below \<open>2 ^ 63\<close> the signed conversion of \<open>Itoa\<close> is harmless.\<close>

lemma Itoa_small:
  assumes "unat r < 2 ^ 63"
  shows "Itoa r = dec r"
proof -
  have "int (unat r) < 2 ^ 63"
    using assms by (simp only: of_nat_less_numeral_power_cancel_iff)
  then have "uint r < 2 ^ 63" by simp
  moreover have "- (2 ^ 63) \<le> uint r" by (rule order_trans [of _ 0]) simp_all
  ultimately have "signed_take_bit 63 (uint r) = uint r"
    by (intro signed_take_bit_int_eq_self) simp_all
  then have "sint r = int (unat r)" by (simp add: sint_uint)
  then show ?thesis by (simp add: Itoa_def dec_def)
qed

section \<open>Properties\<close>

text \<open>
  The five comparison helpers of \<open>Height\<close> are one linear order, lexicographic in revision number
  and revision height read as natural numbers; incrementing goes strictly up unless the revision
  height is the largest 64-bit number, where it wraps to the least height of the revision.
\<close>

theorem height_order:
  "(LT h k \<longleftrightarrow> unat (RevisionNumber h) < unat (RevisionNumber k)
      \<or> unat (RevisionNumber h) = unat (RevisionNumber k)
        \<and> unat (RevisionHeight h) < unat (RevisionHeight k))
   \<and> (LTE h k \<longleftrightarrow> LT h k \<or> h = k) \<and> (GT h k \<longleftrightarrow> LT k h) \<and> (GTE h k \<longleftrightarrow> LTE k h)
   \<and> (EQ h k \<longleftrightarrow> h = k) \<and> (LT h k \<or> EQ h k \<or> GT h k)
   \<and> (if RevisionHeight h = - 1 then Increment h = NewHeight (RevisionNumber h) 0
      else LT h (Increment h) \<and> Decrement (Increment h) = (h, True))"
proof -
  have a: "if RevisionHeight h = - 1 then Increment h = NewHeight (RevisionNumber h) 0
      else LT h (Increment h) \<and> Decrement (Increment h) = (h, True)"
    by (simp add: Increment_def Decrement_def height_ord u64_succ_nonzero u64_less_succ)
  have b: "LT h k \<longleftrightarrow> unat (RevisionNumber h) < unat (RevisionNumber k)
      \<or> unat (RevisionNumber h) = unat (RevisionNumber k)
        \<and> unat (RevisionHeight h) < unat (RevisionHeight k)"
    by (simp add: height_ord word_less_nat_alt word_unat_eq_iff)
  have c: "LTE h k \<longleftrightarrow> LT h k \<or> h = k" "GT h k \<longleftrightarrow> LT k h" "GTE h k \<longleftrightarrow> LTE k h" "EQ h k \<longleftrightarrow> h = k"
    "LT h k \<or> EQ h k \<or> GT h k"
    by (auto simp: order_le_less)
  show ?thesis by (intro conjI a b c)
qed

text \<open>
  Printing and parsing heights are inverse, and a printed height contains no path separator, so
  that consensus state paths are injective in the height.
\<close>

theorem height_roundtrip:
  "ParseHeight (Height_String h) = Inr h \<and> slash_free (Height_String h)
   \<and> (Height_String h = Height_String k \<longleftrightarrow> h = k)"
  by simp

text \<open>
  C38: chain identifiers. \<open>ParseChainID\<close> returns the number after the last dash, zero when the
  identifier is not in revision format, and panics exactly when that number is \<open>2 ^ 64\<close> or more; after
  \<open>SetRevisionNumber\<close> with a revision between 1 and \<open>2 ^ 63 - 1\<close> it returns that revision.
\<close>

theorem chain_id_revision:
  "(\<not> IsRevisionFormat s \<and> ParseChainID s = Inr 0 \<and> SetRevisionNumber s r = Inl ibcerrors_ErrInvalidChainID)
   \<or> (\<exists>nm ds. rev_format s nm ds
       \<and> ParseChainID s =
           (if digits_val ds < 2 ^ 64 then Inr (word_of_nat (digits_val ds))
            else Inl (Panic ''regex allowed non-number value as last split element''))
       \<and> (if 0 < unat r \<and> unat r < 2 ^ 63
          then \<exists>t. SetRevisionNumber s r = Inr t \<and> t = nm @ ''-'' @ dec r \<and> ParseChainID t = Inr r
          else True))"
proof (cases "IsRevisionFormat s")
  case True
  then obtain nm ds where f: "rev_format s nm ds" by (rule IsRevisionFormat_elim)
  have "SetRevisionNumber s r = Inr (nm @ ''-'' @ dec r)
      \<and> ParseChainID (nm @ ''-'' @ dec r) = Inr r" if r: "0 < unat r" "unat r < 2 ^ 63"
  proof
    show "SetRevisionNumber s r = Inr (nm @ ''-'' @ dec r)"
      using f r by (simp add: SetRevisionNumber_format Itoa_small)
    have "rev_format (nm @ ''-'' @ dec r) nm (dec r)"
      using f r hd_decimal [of "unat r"] dec_digits [of r] by (simp add: rev_format_def dec_def)
    from ParseChainID_format [OF this] unat_lt64 [of r]
    show "ParseChainID (nm @ ''-'' @ dec r) = Inr r" by (simp add: dec_def)
  qed
  with ParseChainID_format [OF f] f show ?thesis by auto
next
  case False
  then show ?thesis by (simp add: ParseChainID_def SetRevisionNumber_def)
qed

end
