(* ===== verification/Conn_Types.thy ===== *)
theory Conn_Types
  imports Height
begin

text \<open>
  ICS-3 data, \<open>modules/core/03-connection/types\<close>: connection ends, versions and their negotiation,
  connection identifiers. The theorems: \<open>PickVersion\<close> meets its documented contract, a picked version is
  supported by both sides, and generated identifiers parse back to their sequence and are valid.
\<close>

section \<open>Identifiers generated by the chain\<close>

text \<open>\<open>^<prefix>[0-9]{1,20}$\<close>, the format of generated connection and channel identifiers\<close>

definition seq_id_format :: "string \<Rightarrow> string \<Rightarrow> bool" where
  "seq_id_format pre s =
     (HasPrefix s pre \<and>
      (let ds = drop (length pre) s in
       list_all is_digit ds \<and> 1 \<le> length ds \<and> length ds \<le> 20))"

abbreviation ConnectionPrefix :: string where "ConnectionPrefix \<equiv> ''connection-''"
abbreviation KeyNextConnectionSequence :: string where
  "KeyNextConnectionSequence \<equiv> ''nextConnectionSequence''"

definition FormatConnectionIdentifier :: "u64 \<Rightarrow> string" where
  "FormatConnectionIdentifier sequence = ConnectionPrefix @ dec sequence"

definition IsConnectionIDFormat :: "string \<Rightarrow> bool" where
  "IsConnectionIDFormat s = seq_id_format ConnectionPrefix s"

definition ParseConnectionSequence :: "string \<Rightarrow> u64 result" where
  "ParseConnectionSequence connectionID =
     (if \<not> IsConnectionIDFormat connectionID then Inl host_ErrInvalidID
      else ParseIdentifier connectionID ConnectionPrefix)"

definition IsValidConnectionID :: "string \<Rightarrow> bool" where
  "IsValidConnectionID connectionID = is_ok (ParseConnectionSequence connectionID)"

section \<open>Versions\<close>

record Version =
  Identifier :: string
  Features :: "string list"

definition NewVersion :: "string \<Rightarrow> string list \<Rightarrow> Version" where
  "NewVersion identifier features = \<lparr>Identifier = identifier, Features = features\<rparr>"

definition SupportedOrderings :: "string list" where
  "SupportedOrderings = [''ORDER_ORDERED'', ''ORDER_UNORDERED'']"

abbreviation DefaultIBCVersionIdentifier :: string where "DefaultIBCVersionIdentifier \<equiv> ''1''"

definition DefaultIBCVersion :: Version where
  "DefaultIBCVersion = NewVersion DefaultIBCVersionIdentifier SupportedOrderings"

text \<open>A read of the map \<open>allowNilFeatureSet\<close>: its only entry is false, a missing key reads as false.\<close>

definition allowNilFeatureSet :: "string \<Rightarrow> bool" where
  "allowNilFeatureSet identifier =
     (case map_of [(DefaultIBCVersionIdentifier, False)] identifier of Some b \<Rightarrow> b | None \<Rightarrow> False)"

text \<open>A nil pointer is \<open>None\<close>.\<close>

definition ValidateVersion :: "Version option \<Rightarrow> unit result" where
  "ValidateVersion version =
     (case version of None \<Rightarrow> Inl connection_ErrInvalidVersion
      | Some v \<Rightarrow>
          if is_blank (Identifier v) then Inl connection_ErrInvalidVersion
          else if list_ex is_blank (Features v) then Inl connection_ErrInvalidVersion
          else Inr ())"

text \<open>\<open>collections.Contains\<close>\<close>

fun Contains :: "'a \<Rightarrow> 'a list \<Rightarrow> bool" where
  "Contains elem [] = False"
| "Contains elem (e # es) = (if elem = e then True else Contains elem es)"

definition VerifyProposedVersion :: "Version \<Rightarrow> Version \<Rightarrow> unit result" where
  "VerifyProposedVersion version proposedVersion =
     (if Identifier proposedVersion \<noteq> Identifier version then Inl connection_ErrVersionNegotiationFailed
      else if length (Features proposedVersion) = 0 \<and> \<not> allowNilFeatureSet (Identifier proposedVersion)
      then Inl connection_ErrVersionNegotiationFailed
      else if list_ex (\<lambda>f. \<not> Contains f (Features version)) (Features proposedVersion)
      then Inl connection_ErrVersionNegotiationFailed
      else Inr ())"

definition VerifySupportedFeature :: "Version \<Rightarrow> string \<Rightarrow> bool" where
  "VerifySupportedFeature version feature = list_ex (\<lambda>f. f = feature) (Features version)"

definition GetCompatibleVersions :: "Version list" where
  "GetCompatibleVersions = [DefaultIBCVersion]"

fun FindSupportedVersion :: "Version \<Rightarrow> Version list \<Rightarrow> Version option" where
  "FindSupportedVersion version [] = None"
| "FindSupportedVersion version (supportedVersion # rest) =
     (if Identifier version = Identifier supportedVersion then Some supportedVersion
      else FindSupportedVersion version rest)"

definition IsSupportedVersion :: "Version list \<Rightarrow> Version \<Rightarrow> bool" where
  "IsSupportedVersion supportedVersions proposedVersion =
     (case FindSupportedVersion proposedVersion supportedVersions of
        None \<Rightarrow> False
      | Some supportedVersion \<Rightarrow> is_ok (VerifyProposedVersion supportedVersion proposedVersion))"

fun GetFeatureSetIntersection :: "string list \<Rightarrow> string list \<Rightarrow> string list" where
  "GetFeatureSetIntersection [] counterpartyFeatureSet = []"
| "GetFeatureSetIntersection (feature # rest) counterpartyFeatureSet =
     (if Contains feature counterpartyFeatureSet
      then feature # GetFeatureSetIntersection rest counterpartyFeatureSet
      else GetFeatureSetIntersection rest counterpartyFeatureSet)"

fun PickVersion :: "Version list \<Rightarrow> Version list \<Rightarrow> Version result" where
  "PickVersion [] counterpartyVersions = Inl connection_ErrVersionNegotiationFailed"
| "PickVersion (supportedVersion # rest) counterpartyVersions =
     (case FindSupportedVersion supportedVersion counterpartyVersions of
        None \<Rightarrow> PickVersion rest counterpartyVersions
      | Some counterpartyVersion \<Rightarrow>
          let featureSet =
                GetFeatureSetIntersection (Features supportedVersion) (Features counterpartyVersion) in
          if length featureSet = 0 \<and> \<not> allowNilFeatureSet (Identifier supportedVersion)
          then PickVersion rest counterpartyVersions
          else Inr (NewVersion (Identifier supportedVersion) featureSet))"

section \<open>Connection ends\<close>

datatype ConnState = CONN_UNINITIALIZED | CONN_INIT | CONN_TRYOPEN | CONN_OPEN

text \<open>The counterparty's commitment prefix is the key prefix of its Merkle paths.\<close>

record ConnCounterparty =
  cp_ClientId :: string
  cp_ConnectionId :: string
  cp_Prefix :: string

record ConnectionEnd =
  conn_ClientId :: string
  conn_Versions :: "Version list"
  conn_State :: ConnState
  conn_Counterparty :: ConnCounterparty
  conn_DelayPeriod :: u64

definition NewConnectionEnd ::
  "ConnState \<Rightarrow> string \<Rightarrow> ConnCounterparty \<Rightarrow> Version list \<Rightarrow> u64 \<Rightarrow> ConnectionEnd" where
  "NewConnectionEnd state clientID counterparty versions delayPeriod =
     \<lparr>conn_ClientId = clientID, conn_Versions = versions, conn_State = state,
      conn_Counterparty = counterparty, conn_DelayPeriod = delayPeriod\<rparr>"

definition NewConnCounterparty :: "string \<Rightarrow> string \<Rightarrow> string \<Rightarrow> ConnCounterparty" where
  "NewConnCounterparty clientID connectionID pre =
     \<lparr>cp_ClientId = clientID, cp_ConnectionId = connectionID, cp_Prefix = pre\<rparr>"

definition ConnCounterparty_ValidateBasic :: "ConnCounterparty \<Rightarrow> unit result" where
  "ConnCounterparty_ValidateBasic c =
     (case if cp_ConnectionId c \<noteq> [] then ConnectionIdentifierValidator (cp_ConnectionId c) else Inr ()
      of Inl e \<Rightarrow> Inl e
      | Inr _ \<Rightarrow> (case ClientIdentifierValidator (cp_ClientId c) of Inl e \<Rightarrow> Inl e
          | Inr _ \<Rightarrow>
              if cp_Prefix c = [] then Inl connection_ErrInvalidCounterparty else Inr ()))"

fun validateVersions :: "Version list \<Rightarrow> unit result" where
  "validateVersions [] = Inr ()"
| "validateVersions (v # vs) =
     (case ValidateVersion (Some v) of Inl e \<Rightarrow> Inl e | Inr _ \<Rightarrow> validateVersions vs)"

definition ConnectionEnd_ValidateBasic :: "ConnectionEnd \<Rightarrow> unit result" where
  "ConnectionEnd_ValidateBasic c =
     (case ClientIdentifierValidator (conn_ClientId c) of Inl e \<Rightarrow> Inl e
      | Inr _ \<Rightarrow>
          if length (conn_Versions c) = 0 then Inl ibcerrors_ErrInvalidVersion
          else case validateVersions (conn_Versions c) of Inl e \<Rightarrow> Inl e
          | Inr _ \<Rightarrow> ConnCounterparty_ValidateBasic (conn_Counterparty c))"

section \<open>Identifier lemmas\<close>

lemma HasPrefix_nondigit: "c \<in> set sep \<Longrightarrow> \<not> is_digit c \<Longrightarrow> list_all is_digit s \<Longrightarrow> \<not> HasPrefix s sep"
  by (auto simp: HasPrefix_iff list_all_iff)

lemma Split_digits:
  assumes "c \<in> set sep" and "\<not> is_digit c"
  shows "list_all is_digit s \<Longrightarrow> Split s sep = [s]"
proof (induction s)
  case Nil
  with assms show ?case by (subst Split.simps) (cases sep; simp)
next
  case (Cons d s)
  with HasPrefix_nondigit [OF assms, of "d # s"] assms show ?case
    by (subst Split.simps) (cases sep; simp)
qed

lemma Split_prefix_digits:
  assumes "c \<in> set sep" and "\<not> is_digit c" and "list_all is_digit s"
  shows "Split (sep @ s) sep = [[], s]"
  using assms Split_digits [OF assms] by (subst Split.simps) auto

lemma seq_id_format_dec: "seq_id_format pre (pre @ dec n)"
proof -
  have "0 < length (dec n)" by simp
  then have "1 \<le> length (dec n)" by linarith
  then show ?thesis using dec_digits length_dec_le by (simp add: seq_id_format_def)
qed

lemma ParseIdentifier_dec:
  assumes "c \<in> set pre" and "\<not> is_digit c"
  shows "ParseIdentifier (pre @ dec n) pre = Inr n"
  using Split_prefix_digits [OF assms dec_digits [of n]] by (simp add: ParseIdentifier_def)

lemma ParseConnectionSequence_Format [simp]:
  "ParseConnectionSequence (FormatConnectionIdentifier n) = Inr n"
  using ParseIdentifier_dec [of "CHR ''-''" ConnectionPrefix n]
  by (simp add: ParseConnectionSequence_def IsConnectionIDFormat_def FormatConnectionIdentifier_def
      seq_id_format_dec del: append.simps)

lemma FormatConnectionIdentifier_inj [simp]:
  "FormatConnectionIdentifier m = FormatConnectionIdentifier n \<longleftrightarrow> m = n"
  by (simp add: FormatConnectionIdentifier_def)

lemma ConnectionIdentifierValidator_Format [simp]:
  "ConnectionIdentifierValidator (FormatConnectionIdentifier n) = Inr ()"
proof -
  have "0 < length (dec n)" by simp
  moreover have "list_all id_char ''connection-''" by code_simp
  ultimately show ?thesis
    using list_all_id_char_dec [of n] length_dec_le [of n]
    by (simp add: ConnectionIdentifierValidator_def defaultIdentifierValidator_iff
        FormatConnectionIdentifier_def IsValidID_def)
qed

lemma slash_free_FormatConnectionIdentifier [simp]: "slash_free (FormatConnectionIdentifier n)"
  by (simp add: FormatConnectionIdentifier_def)

section \<open>Version lemmas\<close>

lemma Contains_iff [simp]: "Contains x xs \<longleftrightarrow> x \<in> set xs"
  by (induction xs) auto

lemma allowNilFeatureSet_False [simp]: "\<not> allowNilFeatureSet i"
  by (simp add: allowNilFeatureSet_def)

lemma GetFeatureSetIntersection_filter:
  "GetFeatureSetIntersection xs ys = filter (\<lambda>x. x \<in> set ys) xs"
  by (induction xs) auto

lemma FindSupportedVersion_in:
  "FindSupportedVersion v vs = Some w \<Longrightarrow> w \<in> set vs \<and> Identifier w = Identifier v"
  by (induction vs) (auto split: if_splits)

lemma FindSupportedVersion_cong:
  "Identifier v = Identifier w \<Longrightarrow> FindSupportedVersion v vs = FindSupportedVersion w vs"
  by (induction vs) simp_all

lemma VerifyProposedVersion_ok:
  "VerifyProposedVersion v p = Inr () \<longleftrightarrow>
     Identifier p = Identifier v \<and> Features p \<noteq> [] \<and> set (Features p) \<subseteq> set (Features v)"
  by (auto simp: VerifyProposedVersion_def list_ex_iff)

lemma IsSupportedVersion_iff:
  "IsSupportedVersion vs p \<longleftrightarrow>
     (\<exists>v. FindSupportedVersion p vs = Some v \<and> Features p \<noteq> [] \<and> set (Features p) \<subseteq> set (Features v))"
  by (auto simp: IsSupportedVersion_def is_ok_iff VerifyProposedVersion_ok
      dest: FindSupportedVersion_in split: option.splits)

text \<open>
  The reference reading of version negotiation: a version of this chain matches when the first
  counterparty version with its identifier shares a feature with it.
\<close>

definition version_matches :: "Version list \<Rightarrow> Version \<Rightarrow> bool" where
  "version_matches cvs v =
     (case FindSupportedVersion v cvs of None \<Rightarrow> False
      | Some c \<Rightarrow> set (Features v) \<inter> set (Features c) \<noteq> {})"

definition common_version :: "Version list \<Rightarrow> Version \<Rightarrow> Version" where
  "common_version cvs v =
     NewVersion (Identifier v)
       (filter (\<lambda>f. f \<in> set (Features (the (FindSupportedVersion v cvs)))) (Features v))"

lemma PickVersion_find:
  "PickVersion vs cvs =
     (case find (version_matches cvs) vs of
        None \<Rightarrow> Inl connection_ErrVersionNegotiationFailed
      | Some v \<Rightarrow> Inr (common_version cvs v))"
proof (induction vs)
  case Nil
  then show ?case by simp
next
  case (Cons v vs)
  have e: "filter (\<lambda>f. f \<in> set ys) xs = [] \<longleftrightarrow> set xs \<inter> set ys = {}" for xs ys :: "string list"
    by (auto simp: filter_empty_conv)
  show ?case
    using Cons
    by (cases "FindSupportedVersion v cvs")
      (simp_all add: version_matches_def common_version_def GetFeatureSetIntersection_filter Let_def e)
qed

section \<open>Properties\<close>

text \<open>
  Version negotiation. \<open>PickVersion\<close> selects the first version of this chain whose identifier the
  counterparty offers with at least one common feature, and returns exactly the common features in
  the order of this chain; it fails exactly when there is none. A returned version passes
  \<open>VerifyProposedVersion\<close> of the selected version and is supported by the counterparty.
\<close>

theorem PickVersion_contract:
  "case PickVersion vs cvs of
     Inl e \<Rightarrow> e = connection_ErrVersionNegotiationFailed \<and> list_all (\<lambda>v. \<not> version_matches cvs v) vs
   | Inr p \<Rightarrow> \<exists>v. find (version_matches cvs) vs = Some v \<and> p = common_version cvs v
       \<and> VerifyProposedVersion v p = Inr () \<and> IsSupportedVersion cvs p"
proof (cases "find (version_matches cvs) vs")
  case None
  then have "list_all (\<lambda>v. \<not> version_matches cvs v) vs" by (auto simp: find_None_iff list_all_iff)
  with None show ?thesis by (simp add: PickVersion_find)
next
  case (Some v)
  then have "version_matches cvs v" by (auto simp: find_Some_iff)
  then obtain c where c: "FindSupportedVersion v cvs = Some c"
    and i: "set (Features v) \<inter> set (Features c) \<noteq> {}"
    by (auto simp: version_matches_def split: option.splits)
  have "FindSupportedVersion (common_version cvs v) cvs = Some c"
    using c FindSupportedVersion_cong [of "common_version cvs v" v]
    by (simp add: common_version_def NewVersion_def)
  with Some c i show ?thesis
    by (auto simp: PickVersion_find VerifyProposedVersion_ok IsSupportedVersion_iff common_version_def
        NewVersion_def filter_empty_conv)
qed

end
