(* ===== verification/Chan_Types.thy ===== *)
theory Chan_Types
  imports Conn_Types Sha256
begin

text \<open>
  ICS-4 data, \<open>modules/core/04-channel/types\<close>: channel ends, packets and their commitments,
  acknowledgements, channel identifiers, with the stateless checks (\<open>ValidateBasic\<close>) of each. The
  theorems: generated channel identifiers parse back and are valid; a packet commitment binds the
  timeout and the data up to collisions of SHA-256.
\<close>

section \<open>Identifiers\<close>

abbreviation ChannelPrefix :: string where "ChannelPrefix \<equiv> ''channel-''"
abbreviation KeyNextChannelSequence :: string where "KeyNextChannelSequence \<equiv> ''nextChannelSequence''"

definition FormatChannelIdentifier :: "u64 \<Rightarrow> string" where
  "FormatChannelIdentifier sequence = ChannelPrefix @ dec sequence"

definition IsChannelIDFormat :: "string \<Rightarrow> bool" where
  "IsChannelIDFormat s = seq_id_format ChannelPrefix s"

definition ParseChannelSequence :: "string \<Rightarrow> u64 result" where
  "ParseChannelSequence channelID =
     (if \<not> IsChannelIDFormat channelID then Inl host_ErrInvalidID
      else ParseIdentifier channelID ChannelPrefix)"

definition IsValidChannelID :: "string \<Rightarrow> bool" where
  "IsValidChannelID channelID = is_ok (ParseChannelSequence channelID)"

section \<open>Channel ends\<close>

datatype State = UNINITIALIZED | INIT | TRYOPEN | OPEN | CLOSED

datatype Order = ORDER_NONE | UNORDERED | ORDERED

text \<open>\<open>Order.String()\<close>, the generated name of the enumeration value\<close>

fun Order_String :: "Order \<Rightarrow> string" where
  "Order_String ORDER_NONE = ''ORDER_NONE_UNSPECIFIED''"
| "Order_String UNORDERED = ''ORDER_UNORDERED''"
| "Order_String ORDERED = ''ORDER_ORDERED''"

record Counterparty =
  PortId :: string
  ChannelId :: string

record Channel =
  ch_State :: State
  ch_Ordering :: Order
  ch_Counterparty :: Counterparty
  ch_ConnectionHops :: "string list"
  ch_Version :: string

definition NewCounterparty :: "string \<Rightarrow> string \<Rightarrow> Counterparty" where
  "NewCounterparty portID channelID = \<lparr>PortId = portID, ChannelId = channelID\<rparr>"

definition NewChannel ::
  "State \<Rightarrow> Order \<Rightarrow> Counterparty \<Rightarrow> string list \<Rightarrow> string \<Rightarrow> Channel" where
  "NewChannel state order counterparty hops version =
     \<lparr>ch_State = state, ch_Ordering = order, ch_Counterparty = counterparty,
      ch_ConnectionHops = hops, ch_Version = version\<rparr>"

definition Counterparty_ValidateBasic :: "Counterparty \<Rightarrow> unit result" where
  "Counterparty_ValidateBasic c =
     (case PortIdentifierValidator (PortId c) of Inl e \<Rightarrow> Inl e
      | Inr _ \<Rightarrow>
          if ChannelId c \<noteq> [] then ChannelIdentifierValidator (ChannelId c) else Inr ())"

definition Channel_ValidateBasic :: "Channel \<Rightarrow> unit result" where
  "Channel_ValidateBasic ch =
     (if ch_State ch = UNINITIALIZED then Inl channel_ErrInvalidChannelState
      else if \<not> (ch_Ordering ch = ORDERED \<or> ch_Ordering ch = UNORDERED)
      then Inl channel_ErrInvalidChannelOrdering
      else if length (ch_ConnectionHops ch) \<noteq> 1 then Inl channel_ErrTooManyConnectionHops
      else case ConnectionIdentifierValidator (ch_ConnectionHops ch ! 0) of Inl e \<Rightarrow> Inl e
      | Inr _ \<Rightarrow> Counterparty_ValidateBasic (ch_Counterparty ch))"

definition IdentifiedChannel_ValidateBasic :: "string \<Rightarrow> string \<Rightarrow> Channel \<Rightarrow> unit result" where
  "IdentifiedChannel_ValidateBasic portID channelID ch =
     (case ChannelIdentifierValidator channelID of Inl e \<Rightarrow> Inl e
      | Inr _ \<Rightarrow> (case PortIdentifierValidator portID of Inl e \<Rightarrow> Inl e
          | Inr _ \<Rightarrow> Channel_ValidateBasic ch))"

section \<open>Packets\<close>

record Packet =
  Sequence :: u64
  SourcePort :: string
  SourceChannel :: string
  DestinationPort :: string
  DestinationChannel :: string
  Data :: bytes
  TimeoutHeight :: Height
  TimeoutTimestamp :: u64

definition NewPacket ::
  "bytes \<Rightarrow> u64 \<Rightarrow> string \<Rightarrow> string \<Rightarrow> string \<Rightarrow> string \<Rightarrow> Height \<Rightarrow> u64 \<Rightarrow> Packet" where
  "NewPacket data sequence sourcePort sourceChannel destinationPort destinationChannel
     timeoutHeight timeoutTimestamp =
     \<lparr>Sequence = sequence, SourcePort = sourcePort, SourceChannel = sourceChannel,
      DestinationPort = destinationPort, DestinationChannel = destinationChannel, Data = data,
      TimeoutHeight = timeoutHeight, TimeoutTimestamp = timeoutTimestamp\<rparr>"

text \<open>The fixed-length preimage \<open>CommitPacket\<close> hashes.\<close>

definition commit_preimage :: "Packet \<Rightarrow> bytes" where
  "commit_preimage packet =
     Uint64ToBigEndian (TimeoutTimestamp packet)
     @ Uint64ToBigEndian (RevisionNumber (TimeoutHeight packet))
     @ Uint64ToBigEndian (RevisionHeight (TimeoutHeight packet))
     @ Sum256 (Data packet)"

definition CommitPacket :: "Packet \<Rightarrow> bytes" where
  "CommitPacket packet = Sum256 (commit_preimage packet)"

definition CommitAcknowledgement :: "bytes \<Rightarrow> bytes" where
  "CommitAcknowledgement data = Sum256 data"

definition Packet_ValidateBasic :: "Packet \<Rightarrow> unit result" where
  "Packet_ValidateBasic p =
     (case PortIdentifierValidator (SourcePort p) of Inl e \<Rightarrow> Inl e
      | Inr _ \<Rightarrow> (case PortIdentifierValidator (DestinationPort p) of Inl e \<Rightarrow> Inl e
      | Inr _ \<Rightarrow> (case ChannelIdentifierValidator (SourceChannel p) of Inl e \<Rightarrow> Inl e
      | Inr _ \<Rightarrow> (case ChannelIdentifierValidator (DestinationChannel p) of Inl e \<Rightarrow> Inl e
      | Inr _ \<Rightarrow>
          if Sequence p = 0 then Inl channel_ErrInvalidPacket
          else if IsZero (TimeoutHeight p) \<and> TimeoutTimestamp p = 0 then Inl channel_ErrInvalidPacket
          else if length (Data p) = 0 then Inl channel_ErrInvalidPacket
          else Inr ()))))"

record PacketId =
  pid_PortId :: string
  pid_ChannelId :: string
  pid_Sequence :: u64

definition PacketId_Validate :: "PacketId \<Rightarrow> unit result" where
  "PacketId_Validate p =
     (case PortIdentifierValidator (pid_PortId p) of Inl e \<Rightarrow> Inl e
      | Inr _ \<Rightarrow> (case ChannelIdentifierValidator (pid_ChannelId p) of Inl e \<Rightarrow> Inl e
          | Inr _ \<Rightarrow> if pid_Sequence p = 0 then Inl channel_ErrInvalidPacket else Inr ()))"

section \<open>Acknowledgements\<close>

text \<open>The response field is one of the two registered types, or nil.\<close>

datatype Acknowledgement =
    Acknowledgement_Result bytes
  | Acknowledgement_Error string
  | Acknowledgement_Nil

abbreviation ackErrorString :: string where
  "ackErrorString \<equiv> ''error handling packet: see events for details''"

text \<open>The ABCI code of an error is computed by the SDK (\<open>errorsmod.ABCIInfo\<close>): a parameter.\<close>

definition NewErrorAcknowledgement :: "(ibc_error \<Rightarrow> nat) \<Rightarrow> ibc_error \<Rightarrow> Acknowledgement" where
  "NewErrorAcknowledgement ABCICode err =
     Acknowledgement_Error (''ABCI code: '' @ decimal (ABCICode err) @ '': '' @ ackErrorString)"

fun Acknowledgement_ValidateBasic :: "Acknowledgement \<Rightarrow> unit result" where
  "Acknowledgement_ValidateBasic (Acknowledgement_Result res) =
     (if length res = 0 then Inl channel_ErrInvalidAcknowledgement else Inr ())"
| "Acknowledgement_ValidateBasic (Acknowledgement_Error err) =
     (if is_blank err then Inl channel_ErrInvalidAcknowledgement else Inr ())"
| "Acknowledgement_ValidateBasic Acknowledgement_Nil = Inl channel_ErrInvalidAcknowledgement"

fun Success :: "Acknowledgement \<Rightarrow> bool" where
  "Success (Acknowledgement_Result res) = True"
| "Success (Acknowledgement_Error err) = False"
| "Success Acknowledgement_Nil = False"

section \<open>Lemmas\<close>

lemma ParseChannelSequence_Format [simp]: "ParseChannelSequence (FormatChannelIdentifier n) = Inr n"
  using ParseIdentifier_dec [of "CHR ''-''" ChannelPrefix n]
  by (simp add: ParseChannelSequence_def IsChannelIDFormat_def FormatChannelIdentifier_def
      seq_id_format_dec del: append.simps)

lemma FormatChannelIdentifier_inj [simp]:
  "FormatChannelIdentifier m = FormatChannelIdentifier n \<longleftrightarrow> m = n"
  by (simp add: FormatChannelIdentifier_def)

lemma slash_free_FormatChannelIdentifier [simp]: "slash_free (FormatChannelIdentifier n)"
  by (simp add: FormatChannelIdentifier_def)

lemma ChannelIdentifierValidator_Format [simp]:
  "ChannelIdentifierValidator (FormatChannelIdentifier n) = Inr ()"
proof -
  have "0 < length (dec n)" by simp
  moreover have "list_all id_char ''channel-''" by code_simp
  ultimately show ?thesis
    using list_all_id_char_dec [of n] length_dec_le [of n]
    by (simp add: ChannelIdentifierValidator_def defaultIdentifierValidator_iff
        FormatChannelIdentifier_def IsValidID_def)
qed

lemma Packet_ValidateBasic_ok:
  "Packet_ValidateBasic p = Inr () \<longleftrightarrow>
     PortIdentifierValidator (SourcePort p) = Inr () \<and> PortIdentifierValidator (DestinationPort p) = Inr ()
     \<and> ChannelIdentifierValidator (SourceChannel p) = Inr ()
     \<and> ChannelIdentifierValidator (DestinationChannel p) = Inr ()
     \<and> Sequence p \<noteq> 0 \<and> \<not> (IsZero (TimeoutHeight p) \<and> TimeoutTimestamp p = 0) \<and> Data p \<noteq> []"
  by (auto simp: Packet_ValidateBasic_def split: sum.splits)

lemma CommitPacket_nonempty [simp]: "CommitPacket p \<noteq> []"
  by (simp add: CommitPacket_def)

lemma CommitAcknowledgement_nonempty [simp]: "CommitAcknowledgement a \<noteq> []"
  by (simp add: CommitAcknowledgement_def)

lemma length_CommitPacket [simp]: "length (CommitPacket p) = 32"
  by (simp add: CommitPacket_def)

lemma commit_preimage_eq:
  "commit_preimage p = commit_preimage q \<longleftrightarrow>
     TimeoutTimestamp p = TimeoutTimestamp q \<and> TimeoutHeight p = TimeoutHeight q
     \<and> Sum256 (Data p) = Sum256 (Data q)"
  by (cases "TimeoutHeight p"; cases "TimeoutHeight q") (auto simp: commit_preimage_def)

section \<open>Properties\<close>

text \<open>
  Identifiers generated from a counter. The connection and channel identifiers the chain
  generates parse back to the counter value, differ for different values, pass the identifier
  validators and are recognised by the format checks.
\<close>

theorem generated_identifiers:
  "ParseChannelSequence (FormatChannelIdentifier n) = Inr n
   \<and> ParseConnectionSequence (FormatConnectionIdentifier n) = Inr n
   \<and> (FormatChannelIdentifier n = FormatChannelIdentifier m \<longleftrightarrow> n = m)
   \<and> (FormatConnectionIdentifier n = FormatConnectionIdentifier m \<longleftrightarrow> n = m)
   \<and> ChannelIdentifierValidator (FormatChannelIdentifier n) = Inr ()
   \<and> ConnectionIdentifierValidator (FormatConnectionIdentifier n) = Inr ()
   \<and> IsValidChannelID (FormatChannelIdentifier n) \<and> IsValidConnectionID (FormatConnectionIdentifier n)"
  by (simp add: IsValidChannelID_def IsValidConnectionID_def)

text \<open>
  C26: a packet commitment is binding. Two packets with the same commitment have the same timeout
  timestamp, timeout height and data, unless the two packets exhibit a collision of SHA-256 on their
  data or on the 56-byte preimages built from them.
\<close>

theorem CommitPacket_binding:
  "CommitPacket p = CommitPacket q \<longleftrightarrow>
     (TimeoutTimestamp p = TimeoutTimestamp q \<and> TimeoutHeight p = TimeoutHeight q \<and> Data p = Data q)
     \<or> (Data p \<noteq> Data q \<and> Sum256 (Data p) = Sum256 (Data q)
         \<and> TimeoutTimestamp p = TimeoutTimestamp q \<and> TimeoutHeight p = TimeoutHeight q)
     \<or> (commit_preimage p \<noteq> commit_preimage q
         \<and> length (commit_preimage p) = 56 \<and> length (commit_preimage q) = 56
         \<and> Sum256 (commit_preimage p) = Sum256 (commit_preimage q))"
proof -
  have "length (commit_preimage r) = 56" for r by (simp add: commit_preimage_def)
  moreover have "CommitPacket p = CommitPacket q" if "commit_preimage p = commit_preimage q"
    using that by (simp add: CommitPacket_def)
  ultimately show ?thesis
    using commit_preimage_eq [of p q] by (auto simp: CommitPacket_def)
qed

end
