(* ===== verification/Commitment.thy ===== *)
theory Commitment
  imports Height
begin

text \<open>
  ICS-23 commitments, \<open>modules/core/23-commitment/types/merkle.go\<close>: Merkle paths and prefixes and the
  verification of chained existence and non-existence proofs. The proof library \<open>ics23\<close> is outside the
  repository: its three functions are the fields of \<open>ics23\<close>, its specs and proofs are opaque bytes
  tagged with the kind of proof. The theorems say what a successful verification has established.
\<close>

section \<open>URL escaping of path elements (\<open>net/url\<close>)\<close>

definition unreserved :: "char \<Rightarrow> bool" where
  "unreserved c =
     (let n = of_char c :: nat in
      97 \<le> n \<and> n \<le> 122 \<or> 65 \<le> n \<and> n \<le> 90 \<or> 48 \<le> n \<and> n \<le> 57 \<or> c \<in> set ''-_.~$&+=:@'')"

definition hex_digit :: "nat \<Rightarrow> char" where
  "hex_digit n = (if n < 10 then char_of (48 + n) else char_of (55 + n))"

fun PathEscape :: "string \<Rightarrow> string" where
  "PathEscape [] = []"
| "PathEscape (c # s) =
     (if unreserved c then c # PathEscape s
      else CHR ''%'' # hex_digit (of_char c div 16) # hex_digit (of_char c mod 16) # PathEscape s)"

definition unhex :: "char \<Rightarrow> nat option" where
  "unhex c =
     (let n = of_char c :: nat in
      if 48 \<le> n \<and> n \<le> 57 then Some (n - 48)
      else if 97 \<le> n \<and> n \<le> 102 then Some (n - 87)
      else if 65 \<le> n \<and> n \<le> 70 then Some (n - 55)
      else None)"

fun PathUnescape :: "string \<Rightarrow> string option" where
  "PathUnescape [] = Some []"
| "PathUnescape (c # s) =
     (if c = CHR ''%'' then
        (case s of a # b # r \<Rightarrow>
           (case (unhex a, unhex b) of
              (Some x, Some y) \<Rightarrow> map_option (Cons (char_of (16 * x + y))) (PathUnescape r)
            | _ \<Rightarrow> None)
         | _ \<Rightarrow> None)
      else map_option (Cons c) (PathUnescape s))"

section \<open>Paths\<close>

type_synonym MerklePath = "string list"

definition MerklePath_String :: "MerklePath \<Rightarrow> string" where
  "MerklePath_String mp = concat (map (\<lambda>k. CHR ''/'' # PathEscape k) mp)"

definition GetKey :: "MerklePath \<Rightarrow> nat \<Rightarrow> string option" where
  "GetKey mp i = (if length mp \<le> i then None else PathUnescape (mp ! i))"

definition ApplyPrefix :: "string \<Rightarrow> MerklePath \<Rightarrow> MerklePath result" where
  "ApplyPrefix pre path = (if pre = [] then Inl commitment_ErrInvalidPrefix else Inr (pre # path))"

section \<open>Proofs\<close>

datatype CommitmentProof =
    CommitmentProof_Exist bytes
  | CommitmentProof_Nonexist bytes
  | CommitmentProof_Other bytes

type_synonym ProofSpec = bytes
type_synonym MerkleProof = "CommitmentProof list"

text \<open>The functions of the library \<open>ics23\<close>; \<open>None\<close> is an error of \<open>Calculate\<close>.\<close>

record ics23 =
  Calculate :: "CommitmentProof \<Rightarrow> bytes option"
  ics23_VerifyMembership :: "ProofSpec \<Rightarrow> bytes \<Rightarrow> CommitmentProof \<Rightarrow> string \<Rightarrow> bytes \<Rightarrow> bool"
  ics23_VerifyNonMembership :: "ProofSpec \<Rightarrow> bytes \<Rightarrow> CommitmentProof \<Rightarrow> string \<Rightarrow> bool"

text \<open>
  A specification is opaque here and never nil, as in every decoded message, so that the last loop of
  \<open>validateVerificationArgs\<close>, which looks for nil specifications, has nothing to find.
\<close>

definition validateVerificationArgs :: "MerkleProof \<Rightarrow> ProofSpec list \<Rightarrow> bytes \<Rightarrow> unit result" where
  "validateVerificationArgs proofs specs root =
     (if proofs = [] then Inl commitment_ErrInvalidMerkleProof
      else if root = [] then Inl commitment_ErrInvalidMerkleProof
      else if length specs \<noteq> length proofs then Inl commitment_ErrInvalidMerkleProof
      else Inr ())"

text \<open>
  The loop of \<open>verifyChainedMembershipProof\<close> from index \<open>i\<close>, with the current value and subroot; keys
  run from the highest subtree to the lowest, proofs and specs the other way.
\<close>

function chainedLoop ::
  "ics23 \<Rightarrow> ProofSpec list \<Rightarrow> MerkleProof \<Rightarrow> MerklePath \<Rightarrow> bytes \<Rightarrow> bytes \<Rightarrow> nat \<Rightarrow> bytes result" where
  "chainedLoop lib specs proofs keys val subroot i =
     (if length proofs \<le> i then Inr subroot
      else case proofs ! i of
        CommitmentProof_Exist _ \<Rightarrow>
          (case Calculate lib (proofs ! i) of
             None \<Rightarrow> Inl commitment_ErrInvalidProof
           | Some subroot' \<Rightarrow>
               (case (if i < length keys then GetKey keys (length keys - 1 - i) else None) of
                  None \<Rightarrow> Inl commitment_ErrInvalidProof
                | Some key \<Rightarrow>
                    if \<not> ics23_VerifyMembership lib (specs ! i) subroot' (proofs ! i) key val
                    then Inl commitment_ErrInvalidProof
                    else chainedLoop lib specs proofs keys subroot' subroot' (Suc i)))
      | CommitmentProof_Nonexist _ \<Rightarrow> Inl commitment_ErrInvalidProof
      | CommitmentProof_Other _ \<Rightarrow> Inl commitment_ErrInvalidProof)"
  by pat_completeness auto
termination by (relation "measure (\<lambda>(lib, specs, proofs, keys, val, subroot, i). length proofs - i)") auto

declare chainedLoop.simps [simp del]

definition verifyChainedMembershipProof ::
  "ics23 \<Rightarrow> bytes \<Rightarrow> ProofSpec list \<Rightarrow> MerkleProof \<Rightarrow> MerklePath \<Rightarrow> bytes \<Rightarrow> nat \<Rightarrow> unit result" where
  "verifyChainedMembershipProof lib root specs proofs keys val index =
     (case chainedLoop lib specs proofs keys val val index of Inl e \<Rightarrow> Inl e
      | Inr subroot \<Rightarrow> if root \<noteq> subroot then Inl commitment_ErrInvalidProof else Inr ())"

definition MerkleProof_VerifyMembership ::
  "ics23 \<Rightarrow> MerkleProof \<Rightarrow> ProofSpec list \<Rightarrow> bytes \<Rightarrow> MerklePath \<Rightarrow> bytes \<Rightarrow> unit result" where
  "MerkleProof_VerifyMembership lib proofs specs root path val =
     (case validateVerificationArgs proofs specs root of Inl e \<Rightarrow> Inl e
      | Inr _ \<Rightarrow>
          if length path \<noteq> length specs then Inl commitment_ErrInvalidProof
          else if val = [] then Inl commitment_ErrInvalidProof
          else verifyChainedMembershipProof lib root specs proofs path val 0)"

definition MerkleProof_VerifyNonMembership ::
  "ics23 \<Rightarrow> MerkleProof \<Rightarrow> ProofSpec list \<Rightarrow> bytes \<Rightarrow> MerklePath \<Rightarrow> unit result" where
  "MerkleProof_VerifyNonMembership lib proofs specs root path =
     (case validateVerificationArgs proofs specs root of Inl e \<Rightarrow> Inl e
      | Inr _ \<Rightarrow>
          if length path \<noteq> length specs then Inl commitment_ErrInvalidProof
          else case proofs ! 0 of
            CommitmentProof_Nonexist _ \<Rightarrow>
              (case Calculate lib (proofs ! 0) of
                 None \<Rightarrow> Inl commitment_ErrInvalidProof
               | Some subroot \<Rightarrow>
                   (case GetKey path (length path - 1) of
                      None \<Rightarrow> Inl commitment_ErrInvalidProof
                    | Some key \<Rightarrow>
                        if \<not> ics23_VerifyNonMembership lib (specs ! 0) subroot (proofs ! 0) key
                        then Inl commitment_ErrInvalidProof
                        else verifyChainedMembershipProof lib root specs proofs path subroot 1))
          | CommitmentProof_Exist _ \<Rightarrow> Inl commitment_ErrInvalidProof
          | CommitmentProof_Other _ \<Rightarrow> Inl commitment_ErrInvalidProof)"

section \<open>Escaping round trip\<close>

lemma unhex_hex_digit: "n < 16 \<Longrightarrow> unhex (hex_digit n) = Some n"
  by (auto simp: unhex_def hex_digit_def of_char_of Let_def)

lemma PathUnescape_PathEscape: "PathUnescape (PathEscape s) = Some s"
proof (induction s)
  case Nil
  then show ?case by simp
next
  case (Cons c s)
  have "(of_char c :: nat) < 256" by (rule nat_of_char_less_256)
  then have "(of_char c :: nat) div 16 < 16" by (simp add: less_mult_imp_div_less)
  moreover have "\<not> unreserved CHR ''%''" by (simp add: unreserved_def Let_def)
  ultimately show ?case using Cons by (auto simp: unhex_hex_digit)
qed

section \<open>What a chained proof establishes\<close>

text \<open>
  \<open>proof_chain lib specs proofs keys i v r\<close>: from index \<open>i\<close> on, every proof is an existence proof for the
  key of its level that commits to the value handed up from the level below (\<open>v\<close> at level \<open>i\<close>), and
  \<open>r\<close> is the root the topmost proof calculates.
\<close>

inductive proof_chain ::
  "ics23 \<Rightarrow> ProofSpec list \<Rightarrow> MerkleProof \<Rightarrow> MerklePath \<Rightarrow> nat \<Rightarrow> bytes \<Rightarrow> bytes \<Rightarrow> bool"
  for lib specs proofs keys where
  chain_end: "length proofs \<le> i \<Longrightarrow> proof_chain lib specs proofs keys i v v"
| chain_step: "i < length proofs \<Longrightarrow> proofs ! i = CommitmentProof_Exist p \<Longrightarrow>
    Calculate lib (proofs ! i) = Some w \<Longrightarrow> i < length keys \<Longrightarrow>
    GetKey keys (length keys - 1 - i) = Some k \<Longrightarrow>
    ics23_VerifyMembership lib (specs ! i) w (proofs ! i) k v \<Longrightarrow>
    proof_chain lib specs proofs keys (Suc i) w r \<Longrightarrow> proof_chain lib specs proofs keys i v r"

lemma chainedLoop_sound:
  "chainedLoop lib specs proofs keys v v i = Inr r \<Longrightarrow> proof_chain lib specs proofs keys i v r"
proof (induction "length proofs - i" arbitrary: i v)
  case 0
  then show ?case by (subst (asm) chainedLoop.simps) (simp add: chain_end)
next
  case (Suc n)
  then have i: "i < length proofs" by simp
  from Suc(3) i obtain p w k where p: "proofs ! i = CommitmentProof_Exist p"
    "Calculate lib (proofs ! i) = Some w" "i < length keys"
    "GetKey keys (length keys - 1 - i) = Some k"
    "ics23_VerifyMembership lib (specs ! i) w (proofs ! i) k v"
    and r: "chainedLoop lib specs proofs keys w w (Suc i) = Inr r"
    by (subst (asm) chainedLoop.simps) (auto split: CommitmentProof.splits option.splits if_splits)
  from Suc(2) have "n = length proofs - Suc i" by simp
  from Suc(1) [OF this r] show ?case by (rule chain_step [OF i p])
qed

lemma chainedLoop_complete:
  "proof_chain lib specs proofs keys i v r \<Longrightarrow> chainedLoop lib specs proofs keys v v i = Inr r"
proof (induction rule: proof_chain.induct)
  case (chain_end i v)
  then show ?case by (subst chainedLoop.simps) simp
next
  case (chain_step i p w k v r)
  then show ?case by (subst chainedLoop.simps) simp
qed

lemma verifyChainedMembershipProof_iff:
  "verifyChainedMembershipProof lib root specs proofs keys v i = Inr () \<longleftrightarrow>
     proof_chain lib specs proofs keys i v root"
proof -
  have "verifyChainedMembershipProof lib root specs proofs keys v i = Inr () \<longleftrightarrow>
      chainedLoop lib specs proofs keys v v i = Inr root"
    by (auto simp: verifyChainedMembershipProof_def split: sum.splits)
  then show ?thesis using chainedLoop_sound chainedLoop_complete by blast
qed

section \<open>Properties\<close>

text \<open>
  C24: what a verified Merkle proof establishes. When \<open>VerifyMembership\<close> accepts, there is one existence
  proof per path element, the lowest commits the value under the lowest key, each next one commits
  the root calculated by the one below under its own key, and the topmost calculates the given
  root. When \<open>VerifyNonMembership\<close> accepts, the lowest proof is a verified non-existence proof of the
  lowest key and its calculated root is committed by such a chain. An empty root, proof or value is
  never accepted.
\<close>

theorem merkle_verification_sound:
  "(MerkleProof_VerifyMembership lib proofs specs root path v = Inr () \<longleftrightarrow>
      proofs \<noteq> [] \<and> root \<noteq> [] \<and> v \<noteq> [] \<and> length specs = length proofs \<and> length path = length specs
      \<and> proof_chain lib specs proofs path 0 v root)
   \<and> (MerkleProof_VerifyNonMembership lib proofs specs root path = Inr () \<longleftrightarrow>
      proofs \<noteq> [] \<and> root \<noteq> [] \<and> length specs = length proofs \<and> length path = length specs
      \<and> (\<exists>p w k. proofs ! 0 = CommitmentProof_Nonexist p \<and> Calculate lib (proofs ! 0) = Some w
           \<and> GetKey path (length path - 1) = Some k
           \<and> ics23_VerifyNonMembership lib (specs ! 0) w (proofs ! 0) k
           \<and> proof_chain lib specs proofs path 1 w root))"
proof (rule conjI, goal_cases)
  case 1
  show ?case
    by (simp add: MerkleProof_VerifyMembership_def validateVerificationArgs_def
        verifyChainedMembershipProof_iff)
next
  case 2
  show ?case
    by (simp add: MerkleProof_VerifyNonMembership_def validateVerificationArgs_def
        verifyChainedMembershipProof_iff split: CommitmentProof.splits option.splits)
qed

end
