(* ===== verification/Client_Types.thy ===== *)
theory Client_Types
  imports Chan_Types Commitment
begin

text \<open>
  The data of the light clients (\<open>modules/light-clients\<close>, \<open>modules/core/exported/client.go\<close>) and the
  interface to code outside the repository that they call. The three client types of the repository
  are the constructors of \<open>ClientState\<close>, \<open>ConsensusState\<close> and \<open>ClientMessage\<close>, on which the operations of
  the interface \<open>exported.ClientState\<close> dispatch. Times are nanoseconds since the Unix epoch, durations
  are nanoseconds. Objects that only foreign code looks into (validator sets, commits, public keys,
  proof specs) are opaque bytes.
\<close>

section \<open>Client states\<close>

record TmClientState =
  tm_ChainId :: string
  tm_TrustLevel :: "u64 \<times> u64"
  tm_TrustingPeriod :: int
  tm_UnbondingPeriod :: int
  tm_MaxClockDrift :: int
  tm_FrozenHeight :: Height
  tm_LatestHeight :: Height
  tm_ProofSpecs :: "ProofSpec list"
  tm_UpgradePath :: "string list"
  tm_AllowUpdateAfterExpiry :: bool
  tm_AllowUpdateAfterMisbehaviour :: bool

record TmConsensusState =
  tmc_Timestamp :: int
  tmc_Root :: bytes
  tmc_NextValidatorsHash :: bytes

text \<open>A nil public key is \<open>None\<close>.\<close>

record SmConsensusState =
  smc_PublicKey :: "bytes option"
  smc_Diversifier :: string
  smc_Timestamp :: u64

record SmClientState =
  sm_Sequence :: u64
  sm_IsFrozen :: bool
  sm_ConsensusState :: "SmConsensusState option"

datatype ClientState =
    TendermintClient TmClientState
  | SolomachineClient SmClientState
  | LocalhostClient Height

datatype ConsensusState =
    TendermintConsensus TmConsensusState
  | SolomachineConsensus SmConsensusState

section \<open>Client messages\<close>

text \<open>
  The fields of a Tendermint header the repository reads; the signed header, its commit and the
  validator sets are opaque.
\<close>

record TmHeader =
  h_ChainID :: string
  h_Height :: int
  h_Time :: int
  h_AppHash :: bytes
  h_NextValidatorsHash :: bytes
  h_SignedHeader :: bytes
  h_Commit :: bytes
  h_ValidatorSet :: bytes
  h_TrustedHeight :: Height
  h_TrustedValidators :: bytes

record SmHeader =
  smh_Timestamp :: u64
  smh_Signature :: bytes
  smh_NewPublicKey :: "bytes option"
  smh_NewDiversifier :: string

record SignatureAndData =
  sd_Signature :: bytes
  sd_Path :: bytes
  sd_Data :: bytes
  sd_Timestamp :: u64

datatype ClientMessage =
    TmHeaderMsg TmHeader
  | TmMisbehaviourMsg TmHeader TmHeader
  | SmHeaderMsg SmHeader
  | SmMisbehaviourMsg u64 SignatureAndData SignatureAndData

datatype Status = Active | Frozen | Expired | Unknown | Unauthorized

abbreviation Solomachine :: string where "Solomachine \<equiv> ''06-solomachine''"
abbreviation Tendermint :: string where "Tendermint \<equiv> ''07-tendermint''"
abbreviation Localhost :: string where "Localhost \<equiv> ''09-localhost''"
abbreviation LocalhostClientID :: string where "LocalhostClientID \<equiv> Localhost"
abbreviation LocalhostConnectionID :: string where "LocalhostConnectionID \<equiv> ''connection-localhost''"

section \<open>Code outside the repository\<close>

datatype pub_key = MultisigKey bytes | SingleKey bytes

datatype sig_data = MultiSignatureData bytes | SingleSignatureData bytes

text \<open>What the solo machine signs (\<open>SignBytes\<close>): sequence, timestamp, diversifier, path, data.\<close>

type_synonym sign_bytes = "u64 \<times> u64 \<times> string \<times> bytes \<times> bytes"

text \<open>
  The functions of the codec, of CometBFT, of the SDK's key types and of its staking module (the last
  block headers and the unbonding period) that the repository calls, the name of the core store, and the value the platform
  gives a conversion of a too large \<open>float64\<close> to \<open>uint64\<close>. \<open>None\<close> is a returned error.
\<close>

record lib =
  lib_ics23 :: ics23
  MarshalChannel :: "Channel \<Rightarrow> bytes"
  MarshalConnection :: "ConnectionEnd \<Rightarrow> bytes"
  MarshalClientState :: "ClientState \<Rightarrow> bytes"
  MarshalConsensusState :: "ConsensusState \<Rightarrow> bytes"
  MarshalClientPaths :: "string list \<Rightarrow> bytes"
  MarshalClientParams :: "string list \<Rightarrow> bytes"
  MarshalConnectionParams :: "u64 \<Rightarrow> bytes"
  UnmarshalMerkleProof :: "bytes \<Rightarrow> MerkleProof option"
  ValidatorSetFromProto :: "bytes \<Rightarrow> bytes option"
  ValidatorSet_Hash :: "bytes \<Rightarrow> bytes"
  SignedHeaderFromProto :: "bytes \<Rightarrow> bytes option"
  CommitFromProto :: "bytes \<Rightarrow> bytes option"
  BlockIDHashFromProto :: "bytes \<Rightarrow> bytes option"
  light_Verify :: "string \<Rightarrow> int \<Rightarrow> int \<Rightarrow> bytes \<Rightarrow> bytes \<Rightarrow> bytes \<Rightarrow> bytes \<Rightarrow> int \<Rightarrow> int \<Rightarrow> int \<Rightarrow>
    u64 \<times> u64 \<Rightarrow> bool"
  VerifyCommitLightTrusting :: "bytes \<Rightarrow> string \<Rightarrow> bytes \<Rightarrow> u64 \<times> u64 \<Rightarrow> bool"
  ValidateTrustLevel :: "u64 \<times> u64 \<Rightarrow> bool"
  MaxChainIDLen :: nat
  UnpackPubKey :: "bytes \<Rightarrow> pub_key option"
  PubKeyBytes :: "pub_key \<Rightarrow> bytes"
  UnmarshalTimestampedSignatureData :: "bytes \<Rightarrow> (bytes \<times> u64) option"
  UnmarshalSignatureData :: "bytes \<Rightarrow> sig_data option"
  MarshalSignBytes :: "sign_bytes \<Rightarrow> bytes"
  MarshalHeaderData :: "bytes option \<Rightarrow> string \<Rightarrow> bytes"
  UnmarshalsAsMerklePath :: "bytes \<Rightarrow> bool"
  VerifyMultisignature :: "bytes \<Rightarrow> bytes \<Rightarrow> bytes \<Rightarrow> bool"
  PubKey_VerifySignature :: "bytes \<Rightarrow> bytes \<Rightarrow> bytes \<Rightarrow> bool"
  GetHistoricalInfo :: "int \<Rightarrow> TmConsensusState option"
  UnbondingTime :: int
  GetSDKSpecs :: "ProofSpec list"
  float_overflow :: u64
  storeKeyName :: string

text \<open>The bytes of a string and back.\<close>

definition str_bytes :: "string \<Rightarrow> bytes" where
  "str_bytes s = map (\<lambda>c. word_of_nat (of_char c)) s"

definition bytes_str :: "bytes \<Rightarrow> string" where
  "bytes_str bs = map (\<lambda>b. char_of (unat b)) bs"

text \<open>\<open>uint64(t.UnixNano())\<close>\<close>

definition UnixNano64 :: "int \<Rightarrow> u64" where
  "UnixNano64 t = word_of_int t"

section \<open>Lemmas\<close>

lemma bytes_str_str_bytes [simp]: "bytes_str (str_bytes s) = s"
proof (induction s)
  case Nil
  then show ?case by (simp add: bytes_str_def str_bytes_def)
next
  case (Cons c s)
  have "unat (word_of_nat (of_char c) :: 8 word) = of_char c"
    using nat_of_char_less_256 [of c] by (simp add: unat_of_nat take_bit_nat_eq_self)
  with Cons show ?case by (simp add: bytes_str_def str_bytes_def)
qed

lemma str_bytes_inj [simp]: "str_bytes s = str_bytes t \<longleftrightarrow> s = t"
  by (metis bytes_str_str_bytes)

lemma str_bytes_Nil [simp]: "str_bytes s = [] \<longleftrightarrow> s = []"
  by (simp add: str_bytes_def)

end
