(* ===== verification/Ibc_Store.thy ===== *)
theory Ibc_Store
  imports Client_Types "HOL-Library.Finite_Map" "HOL-Library.List_Lexorder" "HOL-Library.Char_ord"
begin

text \<open>
  The key-value store of the core module and the typed accessors the keepers define on it
  (\<open>02-client/keeper/keeper.go\<close>, \<open>03-connection/keeper/keeper.go\<close>, \<open>04-channel/keeper/keeper.go\<close>). The store
  is a finite map from the byte-string paths of ICS-24 to values; a value is what the stored bytes
  encode (\<open>kv_value\<close>), and \<open>kv_bytes\<close> gives the bytes themselves for the client that compares them. The
  store itself is described by the interface \<open>kv_store\<close>, a typed family of keys by the interface \<open>slot\<close>;
  the accessors of each family are an interpretation of it, and what an accessor reads after any
  write follows from the interface.
\<close>

section \<open>The store\<close>

datatype kv_value =
    ChannelBz Channel
  | ConnectionBz ConnectionEnd
  | ClientStateBz ClientState
  | ConsensusStateBz ConsensusState
  | Uint64Bz u64
  | BytesBz bytes
  | StringBz string
  | ClientPathsBz "string list"
  | ClientParamsBz "string list"
  | ConnectionParamsBz u64

type_synonym kvstore = "(string, kv_value) fmap"

definition kv_get :: "kvstore \<Rightarrow> string \<Rightarrow> kv_value option" where
  "kv_get s k = fmlookup s k"

definition kv_set :: "string \<Rightarrow> kv_value \<Rightarrow> kvstore \<Rightarrow> kvstore" where
  "kv_set k v s = fmupd k v s"

definition kv_delete :: "string \<Rightarrow> kvstore \<Rightarrow> kvstore" where
  "kv_delete k s = fmdrop k s"

definition kv_has :: "kvstore \<Rightarrow> string \<Rightarrow> bool" where
  "kv_has s k = (kv_get s k \<noteq> None)"

text \<open>\<open>sdk.KVStorePrefixIterator\<close>: the keys with a prefix, in ascending byte order.\<close>

definition kv_keys :: "kvstore \<Rightarrow> string \<Rightarrow> string list" where
  "kv_keys s pre = filter (\<lambda>k. HasPrefix k pre) (sorted_list_of_fset (fmdom s))"

text \<open>The stored bytes; those of the protobuf messages come from the codec.\<close>

fun kv_bytes :: "lib \<Rightarrow> kv_value \<Rightarrow> bytes" where
  "kv_bytes lib (ChannelBz c) = MarshalChannel lib c"
| "kv_bytes lib (ConnectionBz c) = MarshalConnection lib c"
| "kv_bytes lib (ClientStateBz c) = MarshalClientState lib c"
| "kv_bytes lib (ConsensusStateBz c) = MarshalConsensusState lib c"
| "kv_bytes lib (Uint64Bz n) = Uint64ToBigEndian n"
| "kv_bytes lib (BytesBz b) = b"
| "kv_bytes lib (StringBz s) = str_bytes s"
| "kv_bytes lib (ClientPathsBz ps) = MarshalClientPaths lib ps"
| "kv_bytes lib (ClientParamsBz ps) = MarshalClientParams lib ps"
| "kv_bytes lib (ConnectionParamsBz n) = MarshalConnectionParams lib n"

text \<open>Reading a value back at its type.\<close>

fun asChannel :: "kv_value \<Rightarrow> Channel option" where
  "asChannel (ChannelBz c) = Some c" | "asChannel _ = None"

fun asConnection :: "kv_value \<Rightarrow> ConnectionEnd option" where
  "asConnection (ConnectionBz c) = Some c" | "asConnection _ = None"

fun asClientState :: "kv_value \<Rightarrow> ClientState option" where
  "asClientState (ClientStateBz c) = Some c" | "asClientState _ = None"

fun asConsensusState :: "kv_value \<Rightarrow> ConsensusState option" where
  "asConsensusState (ConsensusStateBz c) = Some c" | "asConsensusState _ = None"

fun asUint64 :: "kv_value \<Rightarrow> u64 option" where
  "asUint64 (Uint64Bz n) = Some n" | "asUint64 _ = None"

fun asBytes :: "kv_value \<Rightarrow> bytes option" where
  "asBytes (BytesBz b) = Some b" | "asBytes _ = None"

fun asString :: "kv_value \<Rightarrow> string option" where
  "asString (StringBz b) = Some b" | "asString _ = None"

fun asClientPaths :: "kv_value \<Rightarrow> string list option" where
  "asClientPaths (ClientPathsBz ps) = Some ps" | "asClientPaths _ = None"

fun asClientParams :: "kv_value \<Rightarrow> string list option" where
  "asClientParams (ClientParamsBz ps) = Some ps" | "asClientParams _ = None"

fun asConnectionParams :: "kv_value \<Rightarrow> u64 option" where
  "asConnectionParams (ConnectionParamsBz n) = Some n" | "asConnectionParams _ = None"

definition kv_typed :: "(kv_value \<Rightarrow> 'a option) \<Rightarrow> kvstore \<Rightarrow> string \<Rightarrow> 'a option" where
  "kv_typed rd s k = Option.bind (kv_get s k) rd"

section \<open>Channel keeper accessors\<close>

definition GetChannel :: "kvstore \<Rightarrow> string \<Rightarrow> string \<Rightarrow> Channel option" where
  "GetChannel s portID channelID = kv_typed asChannel s (ChannelPath portID channelID)"

definition HasChannel :: "kvstore \<Rightarrow> string \<Rightarrow> string \<Rightarrow> bool" where
  "HasChannel s portID channelID = kv_has s (ChannelPath portID channelID)"

definition SetChannel :: "string \<Rightarrow> string \<Rightarrow> Channel \<Rightarrow> kvstore \<Rightarrow> kvstore" where
  "SetChannel portID channelID channel = kv_set (ChannelPath portID channelID) (ChannelBz channel)"

definition GetAppVersion :: "kvstore \<Rightarrow> string \<Rightarrow> string \<Rightarrow> string option" where
  "GetAppVersion s portID channelID = map_option ch_Version (GetChannel s portID channelID)"

definition GetNextChannelSequence :: "kvstore \<Rightarrow> u64 result" where
  "GetNextChannelSequence s =
     (case kv_typed asUint64 s KeyNextChannelSequence of
        None \<Rightarrow> Inl (Panic ''next channel sequence is nil'') | Some n \<Rightarrow> Inr n)"

definition SetNextChannelSequence :: "u64 \<Rightarrow> kvstore \<Rightarrow> kvstore" where
  "SetNextChannelSequence sequence = kv_set KeyNextChannelSequence (Uint64Bz sequence)"

definition GenerateChannelIdentifier :: "kvstore \<Rightarrow> (string \<times> kvstore) result" where
  "GenerateChannelIdentifier s =
     (case GetNextChannelSequence s of Inl e \<Rightarrow> Inl e
      | Inr nextChannelSeq \<Rightarrow>
          Inr (FormatChannelIdentifier nextChannelSeq, SetNextChannelSequence (nextChannelSeq + 1) s))"

definition GetNextSequenceSend :: "kvstore \<Rightarrow> string \<Rightarrow> string \<Rightarrow> u64 option" where
  "GetNextSequenceSend s portID channelID = kv_typed asUint64 s (NextSequenceSendPath portID channelID)"

definition SetNextSequenceSend :: "string \<Rightarrow> string \<Rightarrow> u64 \<Rightarrow> kvstore \<Rightarrow> kvstore" where
  "SetNextSequenceSend portID channelID sequence =
     kv_set (NextSequenceSendPath portID channelID) (Uint64Bz sequence)"

definition GetNextSequenceRecv :: "kvstore \<Rightarrow> string \<Rightarrow> string \<Rightarrow> u64 option" where
  "GetNextSequenceRecv s portID channelID = kv_typed asUint64 s (NextSequenceRecvPath portID channelID)"

definition SetNextSequenceRecv :: "string \<Rightarrow> string \<Rightarrow> u64 \<Rightarrow> kvstore \<Rightarrow> kvstore" where
  "SetNextSequenceRecv portID channelID sequence =
     kv_set (NextSequenceRecvPath portID channelID) (Uint64Bz sequence)"

definition GetNextSequenceAck :: "kvstore \<Rightarrow> string \<Rightarrow> string \<Rightarrow> u64 option" where
  "GetNextSequenceAck s portID channelID = kv_typed asUint64 s (NextSequenceAckPath portID channelID)"

definition SetNextSequenceAck :: "string \<Rightarrow> string \<Rightarrow> u64 \<Rightarrow> kvstore \<Rightarrow> kvstore" where
  "SetNextSequenceAck portID channelID sequence =
     kv_set (NextSequenceAckPath portID channelID) (Uint64Bz sequence)"

definition GetPacketReceipt :: "kvstore \<Rightarrow> string \<Rightarrow> string \<Rightarrow> u64 \<Rightarrow> bytes option" where
  "GetPacketReceipt s portID channelID sequence =
     kv_typed asBytes s (PacketReceiptPath portID channelID sequence)"

definition SetPacketReceipt :: "string \<Rightarrow> string \<Rightarrow> u64 \<Rightarrow> kvstore \<Rightarrow> kvstore" where
  "SetPacketReceipt portID channelID sequence =
     kv_set (PacketReceiptPath portID channelID sequence) (BytesBz [1])"

text \<open>An absent commitment reads as the empty byte slice.\<close>

definition GetPacketCommitment :: "kvstore \<Rightarrow> string \<Rightarrow> string \<Rightarrow> u64 \<Rightarrow> bytes" where
  "GetPacketCommitment s portID channelID sequence =
     (case kv_typed asBytes s (PacketCommitmentPath portID channelID sequence) of
        None \<Rightarrow> [] | Some b \<Rightarrow> b)"

definition HasPacketCommitment :: "kvstore \<Rightarrow> string \<Rightarrow> string \<Rightarrow> u64 \<Rightarrow> bool" where
  "HasPacketCommitment s portID channelID sequence =
     kv_has s (PacketCommitmentPath portID channelID sequence)"

definition SetPacketCommitment :: "string \<Rightarrow> string \<Rightarrow> u64 \<Rightarrow> bytes \<Rightarrow> kvstore \<Rightarrow> kvstore" where
  "SetPacketCommitment portID channelID sequence commitmentHash =
     kv_set (PacketCommitmentPath portID channelID sequence) (BytesBz commitmentHash)"

definition deletePacketCommitment :: "string \<Rightarrow> string \<Rightarrow> u64 \<Rightarrow> kvstore \<Rightarrow> kvstore" where
  "deletePacketCommitment portID channelID sequence =
     kv_delete (PacketCommitmentPath portID channelID sequence)"

definition SetPacketAcknowledgement :: "string \<Rightarrow> string \<Rightarrow> u64 \<Rightarrow> bytes \<Rightarrow> kvstore \<Rightarrow> kvstore" where
  "SetPacketAcknowledgement portID channelID sequence ackHash =
     kv_set (PacketAcknowledgementPath portID channelID sequence) (BytesBz ackHash)"

definition GetPacketAcknowledgement :: "kvstore \<Rightarrow> string \<Rightarrow> string \<Rightarrow> u64 \<Rightarrow> bytes option" where
  "GetPacketAcknowledgement s portID channelID sequence =
     kv_typed asBytes s (PacketAcknowledgementPath portID channelID sequence)"

definition HasPacketAcknowledgement :: "kvstore \<Rightarrow> string \<Rightarrow> string \<Rightarrow> u64 \<Rightarrow> bool" where
  "HasPacketAcknowledgement s portID channelID sequence =
     kv_has s (PacketAcknowledgementPath portID channelID sequence)"

section \<open>Connection keeper accessors\<close>

definition GetConnection :: "kvstore \<Rightarrow> string \<Rightarrow> ConnectionEnd option" where
  "GetConnection s connectionID = kv_typed asConnection s (ConnectionPath connectionID)"

definition HasConnection :: "kvstore \<Rightarrow> string \<Rightarrow> bool" where
  "HasConnection s connectionID = kv_has s (ConnectionPath connectionID)"

definition SetConnection :: "string \<Rightarrow> ConnectionEnd \<Rightarrow> kvstore \<Rightarrow> kvstore" where
  "SetConnection connectionID connection = kv_set (ConnectionPath connectionID) (ConnectionBz connection)"

definition GetClientConnectionPaths :: "kvstore \<Rightarrow> string \<Rightarrow> string list option" where
  "GetClientConnectionPaths s clientID = kv_typed asClientPaths s (ClientConnectionsPath clientID)"

definition SetClientConnectionPaths :: "string \<Rightarrow> string list \<Rightarrow> kvstore \<Rightarrow> kvstore" where
  "SetClientConnectionPaths clientID paths = kv_set (ClientConnectionsPath clientID) (ClientPathsBz paths)"

definition GetNextConnectionSequence :: "kvstore \<Rightarrow> u64 result" where
  "GetNextConnectionSequence s =
     (case kv_typed asUint64 s KeyNextConnectionSequence of
        None \<Rightarrow> Inl (Panic ''next connection sequence is nil'') | Some n \<Rightarrow> Inr n)"

definition SetNextConnectionSequence :: "u64 \<Rightarrow> kvstore \<Rightarrow> kvstore" where
  "SetNextConnectionSequence sequence = kv_set KeyNextConnectionSequence (Uint64Bz sequence)"

definition GenerateConnectionIdentifier :: "kvstore \<Rightarrow> (string \<times> kvstore) result" where
  "GenerateConnectionIdentifier s =
     (case GetNextConnectionSequence s of Inl e \<Rightarrow> Inl e
      | Inr nextConnSeq \<Rightarrow>
          Inr (FormatConnectionIdentifier nextConnSeq, SetNextConnectionSequence (nextConnSeq + 1) s))"

abbreviation ConnectionParamsKey :: string where "ConnectionParamsKey \<equiv> ''connectionParams''"

text \<open>The connection parameters are the one number \<open>MaxExpectedTimePerBlock\<close>.\<close>

definition GetConnectionParams :: "kvstore \<Rightarrow> u64 result" where
  "GetConnectionParams s =
     (case kv_typed asConnectionParams s ConnectionParamsKey of
        None \<Rightarrow> Inl (Panic ''connection params are not set in store'') | Some n \<Rightarrow> Inr n)"

definition SetConnectionParams :: "u64 \<Rightarrow> kvstore \<Rightarrow> kvstore" where
  "SetConnectionParams timePerBlock = kv_set ConnectionParamsKey (ConnectionParamsBz timePerBlock)"

section \<open>Client keeper accessors\<close>

definition GetClientState :: "kvstore \<Rightarrow> string \<Rightarrow> ClientState option" where
  "GetClientState s clientID = kv_typed asClientState s (FullClientPath clientID ClientStateKey)"

definition SetClientState :: "string \<Rightarrow> ClientState \<Rightarrow> kvstore \<Rightarrow> kvstore" where
  "SetClientState clientID clientState =
     kv_set (FullClientPath clientID ClientStateKey) (ClientStateBz clientState)"

definition GetClientConsensusState :: "kvstore \<Rightarrow> string \<Rightarrow> Height \<Rightarrow> ConsensusState option" where
  "GetClientConsensusState s clientID height =
     kv_typed asConsensusState s (FullClientPath clientID (ConsensusStatePath (Height_String height)))"

definition SetClientConsensusState :: "string \<Rightarrow> Height \<Rightarrow> ConsensusState \<Rightarrow> kvstore \<Rightarrow> kvstore" where
  "SetClientConsensusState clientID height consensusState =
     kv_set (FullClientPath clientID (ConsensusStatePath (Height_String height)))
       (ConsensusStateBz consensusState)"

definition HasClientConsensusState :: "kvstore \<Rightarrow> string \<Rightarrow> Height \<Rightarrow> bool" where
  "HasClientConsensusState s clientID height =
     kv_has s (FullClientPath clientID (ConsensusStatePath (Height_String height)))"

abbreviation KeyNextClientSequence :: string where "KeyNextClientSequence \<equiv> ''nextClientSequence''"
abbreviation ClientParamsKey :: string where "ClientParamsKey \<equiv> ''clientParams''"

definition GetNextClientSequence :: "kvstore \<Rightarrow> u64 result" where
  "GetNextClientSequence s =
     (case kv_typed asUint64 s KeyNextClientSequence of
        None \<Rightarrow> Inl (Panic ''next client sequence is nil'') | Some n \<Rightarrow> Inr n)"

definition SetNextClientSequence :: "u64 \<Rightarrow> kvstore \<Rightarrow> kvstore" where
  "SetNextClientSequence sequence = kv_set KeyNextClientSequence (Uint64Bz sequence)"

text \<open>The client parameters are the list \<open>AllowedClients\<close>.\<close>

definition GetClientParams :: "kvstore \<Rightarrow> string list result" where
  "GetClientParams s =
     (case kv_typed asClientParams s ClientParamsKey of
        None \<Rightarrow> Inl (Panic ''client params are not set in store'') | Some ps \<Rightarrow> Inr ps)"

definition SetClientParams :: "string list \<Rightarrow> kvstore \<Rightarrow> kvstore" where
  "SetClientParams allowed = kv_set ClientParamsKey (ClientParamsBz allowed)"

definition IsAllowedClient :: "string list \<Rightarrow> string \<Rightarrow> bool" where
  "IsAllowedClient allowed clientType = list_ex (\<lambda>c. c = clientType) allowed"


section \<open>Interfaces\<close>

text \<open>What every client of the store relies on: reads see the last write or deletion of their key.\<close>

locale kv_store =
  fixes get :: "'s \<Rightarrow> 'k \<Rightarrow> 'v option"
    and put :: "'k \<Rightarrow> 'v \<Rightarrow> 's \<Rightarrow> 's"
    and del :: "'k \<Rightarrow> 's \<Rightarrow> 's"
  assumes get_put: "get (put k v s) k' = (if k' = k then Some v else get s k')"
    and get_del: "get (del k s) k' = (if k' = k then None else get s k')"
    and ext: "(\<And>k. get s k = get t k) \<Longrightarrow> s = t"
begin

lemma put_same: "get (put k v s) k = Some v"
  by (simp add: get_put)

lemma del_same: "get (del k s) k = None"
  by (simp add: get_del)

lemma put_put: "put k v (put k w s) = put k v s"
  by (rule ext) (simp add: get_put)

lemma put_commute: "k \<noteq> k' \<Longrightarrow> put k v (put k' w s) = put k' w (put k v s)"
  by (rule ext) (simp add: get_put)

lemma del_put: "del k (put k v s) = del k s"
  by (rule ext) (simp add: get_put get_del)

lemma put_id: "get s k = Some v \<Longrightarrow> put k v s = s"
  by (rule ext) (simp add: get_put)

end

interpretation kv: kv_store kv_get kv_set kv_delete
  by unfold_locales (auto simp: kv_get_def kv_set_def kv_delete_def intro: fmap_ext)

declare kv.get_put [store_simps] kv.get_del [store_simps]

text \<open>
  A slot is a family of keys under one first path segment, with a reader and a constructor for its
  values. Identifiers that satisfy \<open>ok\<close> have distinct keys.
\<close>

definition first_seg :: "string \<Rightarrow> string" where
  "first_seg k = takeWhile (\<lambda>c. c \<noteq> CHR ''/'') k"

lemma first_seg_append: "slash_free a \<Longrightarrow> first_seg (a @ CHR ''/'' # r) = a"
  unfolding first_seg_def slash_free_def by (subst takeWhile_append2) auto

lemma first_seg_free: "slash_free a \<Longrightarrow> first_seg a = a"
  unfolding first_seg_def slash_free_def by (rule takeWhile_eq_all_conv [THEN iffD2]) auto

locale slot =
  fixes root :: string
    and key :: "'i \<Rightarrow> string"
    and ok :: "'i \<Rightarrow> bool"
    and rd :: "kv_value \<Rightarrow> 'a option"
    and mk :: "'a \<Rightarrow> kv_value"
  assumes key_root: "first_seg (key i) = root"
    and key_inj: "ok j \<Longrightarrow> key i = key j \<Longrightarrow> i = j"
    and rd_mk: "rd (mk a) = Some a"
begin

lemma read_same: "kv_typed rd (kv_set (key i) (mk a) s) (key i) = Some a"
  by (simp add: kv_typed_def kv.get_put rd_mk)

lemma read_set:
  "ok j \<Longrightarrow>
   kv_typed rd (kv_set (key i) (mk a) s) (key j) = (if i = j then Some a else kv_typed rd s (key j))"
  using key_inj [of j i] by (auto simp: kv_typed_def kv.get_put rd_mk)

lemma read_other: "first_seg k \<noteq> root \<Longrightarrow> kv_typed rd (kv_set k v s) (key i) = kv_typed rd s (key i)"
  using key_root [of i] by (auto simp: kv_typed_def kv.get_put)

lemma read_del_same: "kv_typed rd (kv_delete (key i) s) (key i) = None"
  by (simp add: kv_typed_def kv.get_del)

lemma read_del:
  "ok j \<Longrightarrow>
   kv_typed rd (kv_delete (key i) s) (key j) = (if i = j then None else kv_typed rd s (key j))"
  using key_inj [of j i] by (auto simp: kv_typed_def kv.get_del)

lemma read_del_other: "first_seg k \<noteq> root \<Longrightarrow> kv_typed rd (kv_delete k s) (key i) = kv_typed rd s (key i)"
  using key_root [of i] by (auto simp: kv_typed_def kv.get_del)

end

text \<open>Channel identifiers of a slot: the port and channel identifiers contain no separator.\<close>

definition chan_ok :: "string \<times> string \<Rightarrow> bool" where
  "chan_ok i = (slash_free (fst i) \<and> slash_free (snd i))"

definition pkt_ok :: "string \<times> string \<times> u64 \<Rightarrow> bool" where
  "pkt_ok i = (slash_free (fst i) \<and> slash_free (fst (snd i)))"

lemma chan_ok_iff [simp]: "chan_ok (p, c) \<longleftrightarrow> slash_free p \<and> slash_free c"
  by (simp add: chan_ok_def)

lemma pkt_ok_iff [simp]: "pkt_ok (p, c, n) \<longleftrightarrow> slash_free p \<and> slash_free c"
  by (simp add: pkt_ok_def)

lemma first_seg_paths [path_simps]:
  "first_seg (ChannelPath p c) = ''channelEnds''"
  "first_seg (NextSequenceSendPath p c) = ''nextSequenceSend''"
  "first_seg (NextSequenceRecvPath p c) = ''nextSequenceRecv''"
  "first_seg (NextSequenceAckPath p c) = ''nextSequenceAck''"
  "first_seg (PacketCommitmentPath p c n) = ''commitments''"
  "first_seg (PacketAcknowledgementPath p c n) = ''acks''"
  "first_seg (PacketReceiptPath p c n) = ''receipts''"
  "first_seg (ConnectionPath i) = ''connections''"
  "first_seg (FullClientPath i k) = ''clients''"
  "first_seg ''nextChannelSequence'' = ''nextChannelSequence''"
  "first_seg ''nextConnectionSequence'' = ''nextConnectionSequence''"
  "first_seg ''nextClientSequence'' = ''nextClientSequence''"
  "first_seg ''connectionParams'' = ''connectionParams''"
  "first_seg ''clientParams'' = ''clientParams''"
  by (simp_all add: path_defs first_seg_def)

text \<open>
  A key determines its identifiers as soon as one of the two sides has identifiers without a slash:
  the other side then has none either.
\<close>

definition slashes :: "string \<Rightarrow> nat" where
  "slashes s = length (filter (\<lambda>c. c = CHR ''/'') s)"

lemma slashes_simps [simp]:
  "slashes [] = 0" "slashes (c # s) = (if c = CHR ''/'' then Suc (slashes s) else slashes s)"
  "slashes (s @ t) = slashes s + slashes t"
  by (simp_all add: slashes_def)

lemma slashes_free: "slash_free s \<longleftrightarrow> slashes s = 0"
  by (induction s) (auto simp: slash_free_def)

lemma slashes_dec [simp]: "slashes (dec n) = 0"
  using slash_free_dec slashes_free by blast

lemma slashes_paths:
  "slashes (ChannelPath p c) = 4 + slashes p + slashes c"
  "slashes (NextSequenceSendPath p c) = 4 + slashes p + slashes c"
  "slashes (NextSequenceRecvPath p c) = 4 + slashes p + slashes c"
  "slashes (NextSequenceAckPath p c) = 4 + slashes p + slashes c"
  "slashes (PacketCommitmentPath p c n) = 6 + slashes p + slashes c"
  "slashes (PacketReceiptPath p c n) = 6 + slashes p + slashes c"
  "slashes (PacketAcknowledgementPath p c n) = 6 + slashes p + slashes c"
  by (simp_all add: path_defs)

lemma other_ids_free:
  "slash_free p \<Longrightarrow> slash_free c \<Longrightarrow> slashes p + slashes c = slashes q + slashes d \<Longrightarrow> slash_free q \<and> slash_free d"
  by (simp add: slashes_free)

lemma path_inj:
  assumes "chan_ok (q, d)"
  shows "ChannelPath p c = ChannelPath q d \<longleftrightarrow> p = q \<and> c = d"
    and "NextSequenceSendPath p c = NextSequenceSendPath q d \<longleftrightarrow> p = q \<and> c = d"
    and "NextSequenceRecvPath p c = NextSequenceRecvPath q d \<longleftrightarrow> p = q \<and> c = d"
    and "NextSequenceAckPath p c = NextSequenceAckPath q d \<longleftrightarrow> p = q \<and> c = d"
proof -
  have free: "slash_free q" "slash_free d" using assms by simp_all
  have "slash_free p \<and> slash_free c" if "f p c = f q d" "\<And>p c. slashes (f p c) = 4 + slashes p + slashes c"
    for f :: "string \<Rightarrow> string \<Rightarrow> string"
    using arg_cong [OF that(1), of slashes] that(2) other_ids_free [OF free, of p c] by simp
  then show "ChannelPath p c = ChannelPath q d \<longleftrightarrow> p = q \<and> c = d"
    "NextSequenceSendPath p c = NextSequenceSendPath q d \<longleftrightarrow> p = q \<and> c = d"
    "NextSequenceRecvPath p c = NextSequenceRecvPath q d \<longleftrightarrow> p = q \<and> c = d"
    "NextSequenceAckPath p c = NextSequenceAckPath q d \<longleftrightarrow> p = q \<and> c = d"
    using free render_inj [of "PChannel p c" "PChannel q d"]
      render_inj [of "PNextSequenceSend p c" "PNextSequenceSend q d"]
      render_inj [of "PNextSequenceRecv p c" "PNextSequenceRecv q d"]
      render_inj [of "PNextSequenceAck p c" "PNextSequenceAck q d"]
      slashes_paths(1-4)
    by (auto 4 2)
qed

lemma pkt_path_inj:
  assumes "pkt_ok (q, d, m)"
  shows "PacketCommitmentPath p c n = PacketCommitmentPath q d m \<longleftrightarrow> p = q \<and> c = d \<and> n = m"
    and "PacketReceiptPath p c n = PacketReceiptPath q d m \<longleftrightarrow> p = q \<and> c = d \<and> n = m"
    and "PacketAcknowledgementPath p c n = PacketAcknowledgementPath q d m \<longleftrightarrow> p = q \<and> c = d \<and> n = m"
proof -
  have free: "slash_free q" "slash_free d" using assms by simp_all
  have "slash_free p \<and> slash_free c" if "f p c n = f q d m" "\<And>p c n. slashes (f p c n) = 6 + slashes p + slashes c"
    for f :: "string \<Rightarrow> string \<Rightarrow> u64 \<Rightarrow> string"
    using arg_cong [OF that(1), of slashes] that(2) other_ids_free [OF free, of p c] by simp
  then show "PacketCommitmentPath p c n = PacketCommitmentPath q d m \<longleftrightarrow> p = q \<and> c = d \<and> n = m"
    "PacketReceiptPath p c n = PacketReceiptPath q d m \<longleftrightarrow> p = q \<and> c = d \<and> n = m"
    "PacketAcknowledgementPath p c n = PacketAcknowledgementPath q d m \<longleftrightarrow> p = q \<and> c = d \<and> n = m"
    using free render_inj [of "PPacketCommitment p c n" "PPacketCommitment q d m"]
      render_inj [of "PPacketReceipt p c n" "PPacketReceipt q d m"]
      render_inj [of "PPacketAcknowledgement p c n" "PPacketAcknowledgement q d m"]
      slashes_paths(5-7)
    by (auto 4 2)
qed

lemma ConnectionPath_inj [simp]: "ConnectionPath i = ConnectionPath j \<longleftrightarrow> i = j"
  by (simp add: path_defs)

interpretation channel_slot: slot "''channelEnds''" "\<lambda>(p, c). ChannelPath p c" chan_ok asChannel ChannelBz
  by unfold_locales (auto simp: path_simps path_inj split: prod.splits)

interpretation send_slot: slot "''nextSequenceSend''" "\<lambda>(p, c). NextSequenceSendPath p c" chan_ok asUint64 Uint64Bz
  by unfold_locales (auto simp: path_simps path_inj split: prod.splits)

interpretation recv_slot: slot "''nextSequenceRecv''" "\<lambda>(p, c). NextSequenceRecvPath p c" chan_ok asUint64 Uint64Bz
  by unfold_locales (auto simp: path_simps path_inj split: prod.splits)

interpretation ack_slot: slot "''nextSequenceAck''" "\<lambda>(p, c). NextSequenceAckPath p c" chan_ok asUint64 Uint64Bz
  by unfold_locales (auto simp: path_simps path_inj split: prod.splits)

interpretation commitment_slot:
  slot "''commitments''" "\<lambda>(p, c, n). PacketCommitmentPath p c n" pkt_ok asBytes BytesBz
  by unfold_locales (auto simp: path_simps pkt_path_inj split: prod.splits)

interpretation receipt_slot:
  slot "''receipts''" "\<lambda>(p, c, n). PacketReceiptPath p c n" pkt_ok asBytes BytesBz
  by unfold_locales (auto simp: path_simps pkt_path_inj split: prod.splits)

interpretation packet_ack_slot:
  slot "''acks''" "\<lambda>(p, c, n). PacketAcknowledgementPath p c n" pkt_ok asBytes BytesBz
  by unfold_locales (auto simp: path_simps pkt_path_inj split: prod.splits)

interpretation connection_slot: slot "''connections''" ConnectionPath "\<lambda>i. True" asConnection ConnectionBz
  by unfold_locales (simp_all add: path_simps)


section \<open>What the accessors read after a write\<close>

lemmas set_defs = SetChannel_def SetNextChannelSequence_def SetNextSequenceSend_def
  SetNextSequenceRecv_def SetNextSequenceAck_def SetPacketReceipt_def SetPacketCommitment_def
  deletePacketCommitment_def SetPacketAcknowledgement_def SetConnection_def
  SetClientConnectionPaths_def SetNextConnectionSequence_def SetConnectionParams_def
  SetClientState_def SetClientConsensusState_def SetNextClientSequence_def SetClientParams_def

lemma GetChannel_write [store_simps]:
  "GetChannel (kv_set (ChannelPath p c) (ChannelBz a) s) p c = Some a"
  "first_seg k \<noteq> ''channelEnds'' \<Longrightarrow> GetChannel (kv_set k v s) p c = GetChannel s p c"
  "first_seg k \<noteq> ''channelEnds'' \<Longrightarrow> GetChannel (kv_delete k s) p c = GetChannel s p c"
  "GetChannel (kv_delete (ChannelPath p c) s) p c = None"
  using channel_slot.read_same [of "(p, c)"] channel_slot.read_other [of k v s "(p, c)"]
    channel_slot.read_del_other [of k s "(p, c)"] channel_slot.read_del_same [of "(p, c)"]
  by (simp_all add: GetChannel_def)

lemma GetChannel_write_ids:
  "chan_ok (q, d) \<Longrightarrow>
   GetChannel (kv_set (ChannelPath p c) (ChannelBz a) s) q d = (if p = q \<and> c = d then Some a else GetChannel s q d)"
  "chan_ok (q, d) \<Longrightarrow>
   GetChannel (kv_delete (ChannelPath p c) s) q d = (if p = q \<and> c = d then None else GetChannel s q d)"
  using channel_slot.read_set [where i = "(p, c)" and j = "(q, d)" and a = a and s = s]
    channel_slot.read_del [where i = "(p, c)" and j = "(q, d)" and s = s]
  by (simp_all add: GetChannel_def)

lemma GetNextSequenceSend_write [store_simps]:
  "GetNextSequenceSend (kv_set (NextSequenceSendPath p c) (Uint64Bz a) s) p c = Some a"
  "first_seg k \<noteq> ''nextSequenceSend'' \<Longrightarrow> GetNextSequenceSend (kv_set k v s) p c = GetNextSequenceSend s p c"
  "first_seg k \<noteq> ''nextSequenceSend'' \<Longrightarrow> GetNextSequenceSend (kv_delete k s) p c = GetNextSequenceSend s p c"
  "GetNextSequenceSend (kv_delete (NextSequenceSendPath p c) s) p c = None"
  using send_slot.read_same [of "(p, c)"] send_slot.read_other [of k v s "(p, c)"]
    send_slot.read_del_other [of k s "(p, c)"] send_slot.read_del_same [of "(p, c)"]
  by (simp_all add: GetNextSequenceSend_def)

lemma GetNextSequenceSend_write_ids:
  "chan_ok (q, d) \<Longrightarrow>
   GetNextSequenceSend (kv_set (NextSequenceSendPath p c) (Uint64Bz a) s) q d = (if p = q \<and> c = d then Some a else GetNextSequenceSend s q d)"
  "chan_ok (q, d) \<Longrightarrow>
   GetNextSequenceSend (kv_delete (NextSequenceSendPath p c) s) q d = (if p = q \<and> c = d then None else GetNextSequenceSend s q d)"
  using send_slot.read_set [where i = "(p, c)" and j = "(q, d)" and a = a and s = s]
    send_slot.read_del [where i = "(p, c)" and j = "(q, d)" and s = s]
  by (simp_all add: GetNextSequenceSend_def)

lemma GetNextSequenceRecv_write [store_simps]:
  "GetNextSequenceRecv (kv_set (NextSequenceRecvPath p c) (Uint64Bz a) s) p c = Some a"
  "first_seg k \<noteq> ''nextSequenceRecv'' \<Longrightarrow> GetNextSequenceRecv (kv_set k v s) p c = GetNextSequenceRecv s p c"
  "first_seg k \<noteq> ''nextSequenceRecv'' \<Longrightarrow> GetNextSequenceRecv (kv_delete k s) p c = GetNextSequenceRecv s p c"
  "GetNextSequenceRecv (kv_delete (NextSequenceRecvPath p c) s) p c = None"
  using recv_slot.read_same [of "(p, c)"] recv_slot.read_other [of k v s "(p, c)"]
    recv_slot.read_del_other [of k s "(p, c)"] recv_slot.read_del_same [of "(p, c)"]
  by (simp_all add: GetNextSequenceRecv_def)

lemma GetNextSequenceRecv_write_ids:
  "chan_ok (q, d) \<Longrightarrow>
   GetNextSequenceRecv (kv_set (NextSequenceRecvPath p c) (Uint64Bz a) s) q d = (if p = q \<and> c = d then Some a else GetNextSequenceRecv s q d)"
  "chan_ok (q, d) \<Longrightarrow>
   GetNextSequenceRecv (kv_delete (NextSequenceRecvPath p c) s) q d = (if p = q \<and> c = d then None else GetNextSequenceRecv s q d)"
  using recv_slot.read_set [where i = "(p, c)" and j = "(q, d)" and a = a and s = s]
    recv_slot.read_del [where i = "(p, c)" and j = "(q, d)" and s = s]
  by (simp_all add: GetNextSequenceRecv_def)

lemma GetNextSequenceAck_write [store_simps]:
  "GetNextSequenceAck (kv_set (NextSequenceAckPath p c) (Uint64Bz a) s) p c = Some a"
  "first_seg k \<noteq> ''nextSequenceAck'' \<Longrightarrow> GetNextSequenceAck (kv_set k v s) p c = GetNextSequenceAck s p c"
  "first_seg k \<noteq> ''nextSequenceAck'' \<Longrightarrow> GetNextSequenceAck (kv_delete k s) p c = GetNextSequenceAck s p c"
  "GetNextSequenceAck (kv_delete (NextSequenceAckPath p c) s) p c = None"
  using ack_slot.read_same [of "(p, c)"] ack_slot.read_other [of k v s "(p, c)"]
    ack_slot.read_del_other [of k s "(p, c)"] ack_slot.read_del_same [of "(p, c)"]
  by (simp_all add: GetNextSequenceAck_def)

lemma GetNextSequenceAck_write_ids:
  "chan_ok (q, d) \<Longrightarrow>
   GetNextSequenceAck (kv_set (NextSequenceAckPath p c) (Uint64Bz a) s) q d = (if p = q \<and> c = d then Some a else GetNextSequenceAck s q d)"
  "chan_ok (q, d) \<Longrightarrow>
   GetNextSequenceAck (kv_delete (NextSequenceAckPath p c) s) q d = (if p = q \<and> c = d then None else GetNextSequenceAck s q d)"
  using ack_slot.read_set [where i = "(p, c)" and j = "(q, d)" and a = a and s = s]
    ack_slot.read_del [where i = "(p, c)" and j = "(q, d)" and s = s]
  by (simp_all add: GetNextSequenceAck_def)

lemma GetPacketCommitment_write [store_simps]:
  "GetPacketCommitment (kv_set (PacketCommitmentPath p c n) (BytesBz a) s) p c n = a"
  "first_seg k \<noteq> ''commitments'' \<Longrightarrow> GetPacketCommitment (kv_set k v s) p c n = GetPacketCommitment s p c n"
  "first_seg k \<noteq> ''commitments'' \<Longrightarrow> GetPacketCommitment (kv_delete k s) p c n = GetPacketCommitment s p c n"
  "GetPacketCommitment (kv_delete (PacketCommitmentPath p c n) s) p c n = []"
  using commitment_slot.read_same [of "(p, c, n)"] commitment_slot.read_other [of k v s "(p, c, n)"]
    commitment_slot.read_del_other [of k s "(p, c, n)"] commitment_slot.read_del_same [of "(p, c, n)"]
  by (simp_all add: GetPacketCommitment_def)

lemma GetPacketCommitment_write_ids:
  "pkt_ok (q, d, m) \<Longrightarrow>
   GetPacketCommitment (kv_set (PacketCommitmentPath p c n) (BytesBz a) s) q d m = (if p = q \<and> c = d \<and> n = m then a else GetPacketCommitment s q d m)"
  "pkt_ok (q, d, m) \<Longrightarrow>
   GetPacketCommitment (kv_delete (PacketCommitmentPath p c n) s) q d m = (if p = q \<and> c = d \<and> n = m then [] else GetPacketCommitment s q d m)"
  using commitment_slot.read_set [where i = "(p, c, n)" and j = "(q, d, m)" and a = a and s = s]
    commitment_slot.read_del [where i = "(p, c, n)" and j = "(q, d, m)" and s = s]
  by (simp_all add: GetPacketCommitment_def)

lemma GetPacketReceipt_write [store_simps]:
  "GetPacketReceipt (kv_set (PacketReceiptPath p c n) (BytesBz a) s) p c n = Some a"
  "first_seg k \<noteq> ''receipts'' \<Longrightarrow> GetPacketReceipt (kv_set k v s) p c n = GetPacketReceipt s p c n"
  "first_seg k \<noteq> ''receipts'' \<Longrightarrow> GetPacketReceipt (kv_delete k s) p c n = GetPacketReceipt s p c n"
  "GetPacketReceipt (kv_delete (PacketReceiptPath p c n) s) p c n = None"
  using receipt_slot.read_same [of "(p, c, n)"] receipt_slot.read_other [of k v s "(p, c, n)"]
    receipt_slot.read_del_other [of k s "(p, c, n)"] receipt_slot.read_del_same [of "(p, c, n)"]
  by (simp_all add: GetPacketReceipt_def)

lemma GetPacketReceipt_write_ids:
  "pkt_ok (q, d, m) \<Longrightarrow>
   GetPacketReceipt (kv_set (PacketReceiptPath p c n) (BytesBz a) s) q d m = (if p = q \<and> c = d \<and> n = m then Some a else GetPacketReceipt s q d m)"
  "pkt_ok (q, d, m) \<Longrightarrow>
   GetPacketReceipt (kv_delete (PacketReceiptPath p c n) s) q d m = (if p = q \<and> c = d \<and> n = m then None else GetPacketReceipt s q d m)"
  using receipt_slot.read_set [where i = "(p, c, n)" and j = "(q, d, m)" and a = a and s = s]
    receipt_slot.read_del [where i = "(p, c, n)" and j = "(q, d, m)" and s = s]
  by (simp_all add: GetPacketReceipt_def)

lemma GetPacketAcknowledgement_write [store_simps]:
  "GetPacketAcknowledgement (kv_set (PacketAcknowledgementPath p c n) (BytesBz a) s) p c n = Some a"
  "first_seg k \<noteq> ''acks'' \<Longrightarrow> GetPacketAcknowledgement (kv_set k v s) p c n = GetPacketAcknowledgement s p c n"
  "first_seg k \<noteq> ''acks'' \<Longrightarrow> GetPacketAcknowledgement (kv_delete k s) p c n = GetPacketAcknowledgement s p c n"
  "GetPacketAcknowledgement (kv_delete (PacketAcknowledgementPath p c n) s) p c n = None"
  using packet_ack_slot.read_same [of "(p, c, n)"] packet_ack_slot.read_other [of k v s "(p, c, n)"]
    packet_ack_slot.read_del_other [of k s "(p, c, n)"] packet_ack_slot.read_del_same [of "(p, c, n)"]
  by (simp_all add: GetPacketAcknowledgement_def)

lemma GetPacketAcknowledgement_write_ids:
  "pkt_ok (q, d, m) \<Longrightarrow>
   GetPacketAcknowledgement (kv_set (PacketAcknowledgementPath p c n) (BytesBz a) s) q d m = (if p = q \<and> c = d \<and> n = m then Some a else GetPacketAcknowledgement s q d m)"
  "pkt_ok (q, d, m) \<Longrightarrow>
   GetPacketAcknowledgement (kv_delete (PacketAcknowledgementPath p c n) s) q d m = (if p = q \<and> c = d \<and> n = m then None else GetPacketAcknowledgement s q d m)"
  using packet_ack_slot.read_set [where i = "(p, c, n)" and j = "(q, d, m)" and a = a and s = s]
    packet_ack_slot.read_del [where i = "(p, c, n)" and j = "(q, d, m)" and s = s]
  by (simp_all add: GetPacketAcknowledgement_def)

lemma GetConnection_write [store_simps]:
  "GetConnection (kv_set (ConnectionPath i) (ConnectionBz a) s) j = (if i = j then Some a else GetConnection s j)"
  "first_seg k \<noteq> ''connections'' \<Longrightarrow> GetConnection (kv_set k v s) j = GetConnection s j"
  "first_seg k \<noteq> ''connections'' \<Longrightarrow> GetConnection (kv_delete k s) j = GetConnection s j"
  using connection_slot.read_set [where i = i and j = j and a = a and s = s] connection_slot.read_other [of k v s j]
    connection_slot.read_del_other [of k s j]
  by (simp_all add: GetConnection_def)

lemma kv_has_write [store_simps]:
  "first_seg k \<noteq> first_seg k' \<Longrightarrow> kv_has (kv_set k v s) k' = kv_has s k'"
  "first_seg k \<noteq> first_seg k' \<Longrightarrow> kv_has (kv_delete k s) k' = kv_has s k'"
  "kv_has (kv_set k v s) k" "\<not> kv_has (kv_delete k s) k"
  by (auto simp: kv_has_def kv.get_put kv.get_del)

lemmas write_ids = GetChannel_write_ids GetNextSequenceSend_write_ids GetNextSequenceRecv_write_ids
  GetNextSequenceAck_write_ids GetPacketCommitment_write_ids GetPacketReceipt_write_ids
  GetPacketAcknowledgement_write_ids

text \<open>A typed read of a single key.\<close>

lemma kv_typed_write [store_simps]:
  "kv_typed rd (kv_set k v s) k = rd v"
  "first_seg k \<noteq> first_seg k' \<Longrightarrow> kv_typed rd (kv_set k v s) k' = kv_typed rd s k'"
  "first_seg k \<noteq> first_seg k' \<Longrightarrow> kv_typed rd (kv_delete k s) k' = kv_typed rd s k'"
  by (auto simp: kv_typed_def kv.get_put kv.get_del)

section \<open>Client keys\<close>

lemma FullClientPath_inj:
  "slash_free i \<Longrightarrow> slash_free j \<Longrightarrow> FullClientPath i k = FullClientPath j l \<longleftrightarrow> i = j \<and> k = l"
  by (simp add: FullClientPath_def slash_free_def sep_append_inj)

lemma FullClientPath_same [simp]: "FullClientPath i k = FullClientPath i l \<longleftrightarrow> k = l"
  by (simp add: FullClientPath_def)

text \<open>
  Two stores that agree outside the client stores agree on everything the connection and channel
  keepers read, apart from the clients themselves.
\<close>

definition core_eq :: "kvstore \<Rightarrow> kvstore \<Rightarrow> bool" where
  "core_eq s t = (\<forall>k. first_seg k \<noteq> ''clients'' \<longrightarrow> kv_get s k = kv_get t k)"

lemma core_eq_refl [simp]: "core_eq s s"
  by (simp add: core_eq_def)

lemma core_eq_trans: "core_eq s t \<Longrightarrow> core_eq t u \<Longrightarrow> core_eq s u"
  by (simp add: core_eq_def)

lemma core_eq_set_client: "core_eq s (kv_set (FullClientPath i k) v s)"
  "core_eq s (kv_delete (FullClientPath i k) s)"
  by (auto simp: core_eq_def kv.get_put kv.get_del path_simps)

lemma core_eq_reads:
  assumes "core_eq s t"
  shows "GetChannel t p c = GetChannel s p c"
    and "GetNextSequenceSend t p c = GetNextSequenceSend s p c"
    and "GetNextSequenceRecv t p c = GetNextSequenceRecv s p c"
    and "GetNextSequenceAck t p c = GetNextSequenceAck s p c"
    and "GetPacketCommitment t p c n = GetPacketCommitment s p c n"
    and "GetPacketReceipt t p c n = GetPacketReceipt s p c n"
    and "GetPacketAcknowledgement t p c n = GetPacketAcknowledgement s p c n"
    and "HasPacketAcknowledgement t p c n = HasPacketAcknowledgement s p c n"
    and "GetConnection t i = GetConnection s i"
    and "GetNextChannelSequence t = GetNextChannelSequence s"
    and "GetNextConnectionSequence t = GetNextConnectionSequence s"
    and "GetNextClientSequence t = GetNextClientSequence s"
proof -
  have "kv_get t k = kv_get s k" if "first_seg k \<noteq> ''clients''" for k
    using assms that by (simp add: core_eq_def)
  note eq = this
  show "GetChannel t p c = GetChannel s p c"
    "GetNextSequenceSend t p c = GetNextSequenceSend s p c"
    "GetNextSequenceRecv t p c = GetNextSequenceRecv s p c"
    "GetNextSequenceAck t p c = GetNextSequenceAck s p c"
    "GetPacketCommitment t p c n = GetPacketCommitment s p c n"
    "GetPacketReceipt t p c n = GetPacketReceipt s p c n"
    "GetPacketAcknowledgement t p c n = GetPacketAcknowledgement s p c n"
    "HasPacketAcknowledgement t p c n = HasPacketAcknowledgement s p c n"
    "GetConnection t i = GetConnection s i"
    "GetNextChannelSequence t = GetNextChannelSequence s"
    "GetNextConnectionSequence t = GetNextConnectionSequence s"
    "GetNextClientSequence t = GetNextClientSequence s"
    by (simp_all add: GetChannel_def GetNextSequenceSend_def GetNextSequenceRecv_def
        GetNextSequenceAck_def GetPacketCommitment_def GetPacketReceipt_def
        GetPacketAcknowledgement_def HasPacketAcknowledgement_def GetConnection_def
        GetNextChannelSequence_def GetNextConnectionSequence_def GetNextClientSequence_def
        kv_typed_def kv_has_def eq path_simps)
qed

end
