(* ===== verification/Tendermint.thy ===== *)
theory Tendermint
  imports Ibc_Store
begin

text \<open>
  The Tendermint light client, \<open>modules/light-clients/07-tendermint\<close>: its part of the client store
  (\<open>store.go\<close>), verification (\<open>client_state.go\<close>), header updates (\<open>update.go\<close>), misbehaviour
  (\<open>misbehaviour_handle.go\<close>), upgrades (\<open>upgrade.go\<close>) and recovery (\<open>proposal_handle.go\<close>). A client store is
  the whole store with the client identifier its keys are prefixed with. CometBFT's verification
  functions are fields of \<open>lib\<close>.
\<close>

section \<open>The client store\<close>

abbreviation KeyIterateConsensusStatePrefix :: string where
  "KeyIterateConsensusStatePrefix \<equiv> ''iterateConsensusStates''"

definition ConsensusStateKey :: "Height \<Rightarrow> string" where
  "ConsensusStateKey height = ConsensusStatePath (Height_String height)"

definition tm_setClientState :: "string \<Rightarrow> TmClientState \<Rightarrow> kvstore \<Rightarrow> kvstore" where
  "tm_setClientState cid cs = kv_set (FullClientPath cid ClientStateKey) (ClientStateBz (TendermintClient cs))"

definition tm_setConsensusState :: "string \<Rightarrow> TmConsensusState \<Rightarrow> Height \<Rightarrow> kvstore \<Rightarrow> kvstore" where
  "tm_setConsensusState cid consensusState height =
     kv_set (FullClientPath cid (ConsensusStateKey height)) (ConsensusStateBz (TendermintConsensus consensusState))"

text \<open>Only this client writes consensus states, so that the type assertion of the source succeeds.\<close>

definition getTmConsensusState :: "kvstore \<Rightarrow> string \<Rightarrow> string \<Rightarrow> TmConsensusState option" where
  "getTmConsensusState s cid key =
     (case kv_typed asConsensusState s (FullClientPath cid key) of
        Some (TendermintConsensus c) \<Rightarrow> Some c | _ \<Rightarrow> None)"

definition tm_GetConsensusState :: "kvstore \<Rightarrow> string \<Rightarrow> Height \<Rightarrow> TmConsensusState option" where
  "tm_GetConsensusState s cid height = getTmConsensusState s cid (ConsensusStateKey height)"

definition deleteConsensusState :: "string \<Rightarrow> Height \<Rightarrow> kvstore \<Rightarrow> kvstore" where
  "deleteConsensusState cid height = kv_delete (FullClientPath cid (ConsensusStateKey height))"

definition ProcessedTimeKey :: "Height \<Rightarrow> string" where
  "ProcessedTimeKey height = ConsensusStateKey height @ ''/processedTime''"

definition SetProcessedTime :: "string \<Rightarrow> Height \<Rightarrow> u64 \<Rightarrow> kvstore \<Rightarrow> kvstore" where
  "SetProcessedTime cid height timeNs = kv_set (FullClientPath cid (ProcessedTimeKey height)) (Uint64Bz timeNs)"

definition GetProcessedTime :: "kvstore \<Rightarrow> string \<Rightarrow> Height \<Rightarrow> u64 option" where
  "GetProcessedTime s cid height = kv_typed asUint64 s (FullClientPath cid (ProcessedTimeKey height))"

definition deleteProcessedTime :: "string \<Rightarrow> Height \<Rightarrow> kvstore \<Rightarrow> kvstore" where
  "deleteProcessedTime cid height = kv_delete (FullClientPath cid (ProcessedTimeKey height))"

definition ProcessedHeightKey :: "Height \<Rightarrow> string" where
  "ProcessedHeightKey height = ConsensusStateKey height @ ''/processedHeight''"

definition SetProcessedHeight :: "string \<Rightarrow> Height \<Rightarrow> Height \<Rightarrow> kvstore \<Rightarrow> kvstore" where
  "SetProcessedHeight cid consHeight processedHeight =
     kv_set (FullClientPath cid (ProcessedHeightKey consHeight)) (StringBz (Height_String processedHeight))"

definition GetProcessedHeight :: "kvstore \<Rightarrow> string \<Rightarrow> Height \<Rightarrow> Height option" where
  "GetProcessedHeight s cid height =
     (case kv_typed asString s (FullClientPath cid (ProcessedHeightKey height)) of
        None \<Rightarrow> None
      | Some bz \<Rightarrow> (case ParseHeight bz of Inl e \<Rightarrow> None | Inr h \<Rightarrow> Some h))"

definition deleteProcessedHeight :: "string \<Rightarrow> Height \<Rightarrow> kvstore \<Rightarrow> kvstore" where
  "deleteProcessedHeight cid height = kv_delete (FullClientPath cid (ProcessedHeightKey height))"

definition bigEndianHeightBytes :: "Height \<Rightarrow> bytes" where
  "bigEndianHeightBytes height =
     Uint64ToBigEndian (RevisionNumber height) @ Uint64ToBigEndian (RevisionHeight height)"

definition IterationKey :: "Height \<Rightarrow> string" where
  "IterationKey height = KeyIterateConsensusStatePrefix @ bytes_str (bigEndianHeightBytes height)"

definition SetIterationKey :: "string \<Rightarrow> Height \<Rightarrow> kvstore \<Rightarrow> kvstore" where
  "SetIterationKey cid height =
     kv_set (FullClientPath cid (IterationKey height)) (StringBz (ConsensusStateKey height))"

definition deleteIterationKey :: "string \<Rightarrow> Height \<Rightarrow> kvstore \<Rightarrow> kvstore" where
  "deleteIterationKey cid height = kv_delete (FullClientPath cid (IterationKey height))"

definition GetHeightFromIterationKey :: "string \<Rightarrow> Height" where
  "GetHeightFromIterationKey iterKey =
     (let bigEndianBytes = str_bytes (drop (length KeyIterateConsensusStatePrefix) iterKey)
      in NewHeight (BigEndianToUint64 (take 8 bigEndianBytes)) (BigEndianToUint64 (drop 8 bigEndianBytes)))"

text \<open>The iteration keys of a client in ascending order, relative to the client store.\<close>

definition iterationKeys :: "kvstore \<Rightarrow> string \<Rightarrow> string list" where
  "iterationKeys s cid =
     map (drop (length (FullClientPath cid [])))
       (kv_keys s (FullClientPath cid KeyIterateConsensusStatePrefix))"

text \<open>\<open>IterateConsensusStateAscending\<close>: the heights in the order the callback sees them.\<close>

definition consensusHeights :: "kvstore \<Rightarrow> string \<Rightarrow> Height list" where
  "consensusHeights s cid = map GetHeightFromIterationKey (iterationKeys s cid)"

text \<open>The consensus state key stored under an iteration key.\<close>

definition iterationValue :: "kvstore \<Rightarrow> string \<Rightarrow> string \<Rightarrow> string" where
  "iterationValue s cid key =
     (case kv_typed asString s (FullClientPath cid key) of None \<Rightarrow> [] | Some v \<Rightarrow> v)"

definition GetNextConsensusState :: "kvstore \<Rightarrow> string \<Rightarrow> Height \<Rightarrow> TmConsensusState option" where
  "GetNextConsensusState s cid height =
     (case filter (\<lambda>k. IterationKey height \<le> k) (iterationKeys s cid) of
        [] \<Rightarrow> None
      | k # ks \<Rightarrow>
          if iterationValue s cid k = ConsensusStateKey height then
            (case ks of [] \<Rightarrow> None | k' # _ \<Rightarrow> getTmConsensusState s cid (iterationValue s cid k'))
          else getTmConsensusState s cid (iterationValue s cid k))"

definition GetPreviousConsensusState :: "kvstore \<Rightarrow> string \<Rightarrow> Height \<Rightarrow> TmConsensusState option" where
  "GetPreviousConsensusState s cid height =
     (case rev (filter (\<lambda>k. k < IterationKey height) (iterationKeys s cid)) of
        [] \<Rightarrow> None
      | k # _ \<Rightarrow> getTmConsensusState s cid (iterationValue s cid k))"

definition setConsensusMetadataWithValues :: "string \<Rightarrow> Height \<Rightarrow> Height \<Rightarrow> u64 \<Rightarrow> kvstore \<Rightarrow> kvstore" where
  "setConsensusMetadataWithValues cid height processedHeight processedTime s =
     SetIterationKey cid height
       (SetProcessedHeight cid height processedHeight (SetProcessedTime cid height processedTime s))"

definition setConsensusMetadata :: "sdk_context \<Rightarrow> string \<Rightarrow> Height \<Rightarrow> kvstore \<Rightarrow> kvstore result" where
  "setConsensusMetadata ctx cid height s =
     and_then (GetSelfHeight ctx) (\<lambda>selfHeight.
       Inr (setConsensusMetadataWithValues cid height selfHeight (UnixNano64 (BlockTime ctx)) s))"

definition deleteConsensusMetadata :: "string \<Rightarrow> Height \<Rightarrow> kvstore \<Rightarrow> kvstore" where
  "deleteConsensusMetadata cid height s =
     deleteIterationKey cid height (deleteProcessedHeight cid height (deleteProcessedTime cid height s))"

section \<open>The client state\<close>

definition tm_NewClientState ::
  "string \<Rightarrow> u64 \<times> u64 \<Rightarrow> int \<Rightarrow> int \<Rightarrow> int \<Rightarrow> Height \<Rightarrow> ProofSpec list \<Rightarrow> string list \<Rightarrow> TmClientState" where
  "tm_NewClientState chainID trustLevel trustingPeriod ubdPeriod maxClockDrift latestHeight specs upgradePath =
     \<lparr>tm_ChainId = chainID, tm_TrustLevel = trustLevel, tm_TrustingPeriod = trustingPeriod,
      tm_UnbondingPeriod = ubdPeriod, tm_MaxClockDrift = maxClockDrift, tm_FrozenHeight = ZeroHeight,
      tm_LatestHeight = latestHeight, tm_ProofSpecs = specs, tm_UpgradePath = upgradePath,
      tm_AllowUpdateAfterExpiry = False, tm_AllowUpdateAfterMisbehaviour = False\<rparr>"

definition tm_GetTimestampAtHeight :: "kvstore \<Rightarrow> string \<Rightarrow> Height \<Rightarrow> u64 result" where
  "tm_GetTimestampAtHeight s cid height =
     (case tm_GetConsensusState s cid height of
        None \<Rightarrow> Inl client_ErrConsensusStateNotFound
      | Some consState \<Rightarrow> Inr (UnixNano64 (tmc_Timestamp consState)))"

definition IsExpired :: "TmClientState \<Rightarrow> int \<Rightarrow> int \<Rightarrow> bool" where
  "IsExpired cs latestTimestamp now = (\<not> (latestTimestamp + tm_TrustingPeriod cs > now))"

definition tm_Status :: "sdk_context \<Rightarrow> kvstore \<Rightarrow> string \<Rightarrow> TmClientState \<Rightarrow> Status" where
  "tm_Status ctx s cid cs =
     (if \<not> IsZero (tm_FrozenHeight cs) then Frozen
      else case tm_GetConsensusState s cid (tm_LatestHeight cs) of
          None \<Rightarrow> Expired
        | Some consState \<Rightarrow>
            if IsExpired cs (tmc_Timestamp consState) (BlockTime ctx) then Expired else Active)"

text \<open>
  An empty list of proof specifications stands for nil, which is what decoding an absent field gives,
  and no specification of the list is nil.
\<close>

definition tm_Validate :: "lib \<Rightarrow> TmClientState \<Rightarrow> unit result" where
  "tm_Validate lib cs =
     (if is_blank (tm_ChainId cs) then Inl tendermint_ErrInvalidChainID
      else if MaxChainIDLen lib < length (tm_ChainId cs) then Inl tendermint_ErrInvalidChainID
      else if \<not> ValidateTrustLevel lib (tm_TrustLevel cs) then Inl (ErrForeign ''light'')
      else if tm_TrustingPeriod cs \<le> 0 then Inl tendermint_ErrInvalidTrustingPeriod
      else if tm_UnbondingPeriod cs \<le> 0 then Inl tendermint_ErrInvalidUnbondingPeriod
      else if tm_MaxClockDrift cs \<le> 0 then Inl tendermint_ErrInvalidMaxClockDrift
      else and_then (ParseChainID (tm_ChainId cs)) (\<lambda>revision.
        if RevisionNumber (tm_LatestHeight cs) \<noteq> revision then Inl tendermint_ErrInvalidHeaderHeight
        else if RevisionHeight (tm_LatestHeight cs) = 0 then Inl tendermint_ErrInvalidHeaderHeight
        else if tm_UnbondingPeriod cs \<le> tm_TrustingPeriod cs then Inl tendermint_ErrInvalidTrustingPeriod
        else if tm_ProofSpecs cs = [] then Inl tendermint_ErrInvalidProofSpecs
        else if list_ex is_blank (tm_UpgradePath cs) then Inl client_ErrInvalidClient
        else Inr ()))"

definition tm_ZeroCustomFields :: "TmClientState \<Rightarrow> TmClientState" where
  "tm_ZeroCustomFields cs =
     \<lparr>tm_ChainId = tm_ChainId cs, tm_TrustLevel = (0, 0), tm_TrustingPeriod = 0,
      tm_UnbondingPeriod = tm_UnbondingPeriod cs, tm_MaxClockDrift = 0, tm_FrozenHeight = ZeroHeight,
      tm_LatestHeight = tm_LatestHeight cs, tm_ProofSpecs = tm_ProofSpecs cs,
      tm_UpgradePath = tm_UpgradePath cs, tm_AllowUpdateAfterExpiry = False,
      tm_AllowUpdateAfterMisbehaviour = False\<rparr>"

definition tm_Initialize ::
  "sdk_context \<Rightarrow> string \<Rightarrow> TmClientState \<Rightarrow> ConsensusState option \<Rightarrow> kvstore \<Rightarrow> kvstore result" where
  "tm_Initialize ctx cid cs consState s =
     (case consState of
        Some (TendermintConsensus consensusState) \<Rightarrow>
          setConsensusMetadata ctx cid (tm_LatestHeight cs)
            (tm_setConsensusState cid consensusState (tm_LatestHeight cs) (tm_setClientState cid cs s))
      | _ \<Rightarrow> Inl client_ErrInvalidConsensus)"

section \<open>Proof verification\<close>

definition verifyDelayPeriodPassed :: "sdk_context \<Rightarrow> kvstore \<Rightarrow> string \<Rightarrow> Height \<Rightarrow> u64 \<Rightarrow> u64 \<Rightarrow> unit result" where
  "verifyDelayPeriodPassed ctx s cid proofHeight delayTimePeriod delayBlockPeriod =
     and_then
       (if delayTimePeriod = 0 then Inr ()
        else case GetProcessedTime s cid proofHeight of
            None \<Rightarrow> Inl tendermint_ErrProcessedTimeNotFound
          | Some processedTime \<Rightarrow>
              if UnixNano64 (BlockTime ctx) < processedTime + delayTimePeriod
              then Inl tendermint_ErrDelayPeriodNotPassed else Inr ())
       (\<lambda>_.
        if delayBlockPeriod = 0 then Inr ()
        else case GetProcessedHeight s cid proofHeight of
            None \<Rightarrow> Inl tendermint_ErrProcessedHeightNotFound
          | Some processedHeight \<Rightarrow>
              and_then (GetSelfHeight ctx) (\<lambda>currentHeight.
                let validHeight = NewHeight (RevisionNumber processedHeight)
                      (RevisionHeight processedHeight + delayBlockPeriod) in
                if LT currentHeight validHeight
                then Inl tendermint_ErrDelayPeriodNotPassed else Inr ()))"

definition tm_VerifyMembership ::
  "lib \<Rightarrow> sdk_context \<Rightarrow> kvstore \<Rightarrow> string \<Rightarrow> TmClientState \<Rightarrow> Height \<Rightarrow> u64 \<Rightarrow> u64 \<Rightarrow> bytes \<Rightarrow>
     MerklePath \<Rightarrow> bytes \<Rightarrow> unit result" where
  "tm_VerifyMembership lib ctx s cid cs height delayTimePeriod delayBlockPeriod prf path val =
     (if LT (tm_LatestHeight cs) height then Inl ibcerrors_ErrInvalidHeight
      else and_then (verifyDelayPeriodPassed ctx s cid height delayTimePeriod delayBlockPeriod) (\<lambda>_.
        case UnmarshalMerkleProof lib prf of
          None \<Rightarrow> Inl commitment_ErrInvalidProof
        | Some merkleProof \<Rightarrow>
            (case tm_GetConsensusState s cid height of
               None \<Rightarrow> Inl client_ErrConsensusStateNotFound
             | Some consensusState \<Rightarrow>
                 MerkleProof_VerifyMembership (lib_ics23 lib) merkleProof (tm_ProofSpecs cs)
                   (tmc_Root consensusState) path val)))"

definition tm_VerifyNonMembership ::
  "lib \<Rightarrow> sdk_context \<Rightarrow> kvstore \<Rightarrow> string \<Rightarrow> TmClientState \<Rightarrow> Height \<Rightarrow> u64 \<Rightarrow> u64 \<Rightarrow> bytes \<Rightarrow>
     MerklePath \<Rightarrow> unit result" where
  "tm_VerifyNonMembership lib ctx s cid cs height delayTimePeriod delayBlockPeriod prf path =
     (if LT (tm_LatestHeight cs) height then Inl ibcerrors_ErrInvalidHeight
      else and_then (verifyDelayPeriodPassed ctx s cid height delayTimePeriod delayBlockPeriod) (\<lambda>_.
        case UnmarshalMerkleProof lib prf of
          None \<Rightarrow> Inl commitment_ErrInvalidProof
        | Some merkleProof \<Rightarrow>
            (case tm_GetConsensusState s cid height of
               None \<Rightarrow> Inl client_ErrConsensusStateNotFound
             | Some consensusState \<Rightarrow>
                 MerkleProof_VerifyNonMembership (lib_ics23 lib) merkleProof (tm_ProofSpecs cs)
                   (tmc_Root consensusState) path)))"

section \<open>Headers\<close>

definition TmHeader_GetHeight :: "TmHeader \<Rightarrow> Height result" where
  "TmHeader_GetHeight h =
     and_then (ParseChainID (h_ChainID h)) (\<lambda>revision. Inr (NewHeight revision (word_of_int (h_Height h))))"

definition TmHeader_ConsensusState :: "TmHeader \<Rightarrow> TmConsensusState" where
  "TmHeader_ConsensusState h =
     \<lparr>tmc_Timestamp = h_Time h, tmc_Root = h_AppHash h, tmc_NextValidatorsHash = h_NextValidatorsHash h\<rparr>"

definition checkTrustedHeader :: "lib \<Rightarrow> TmHeader \<Rightarrow> TmConsensusState \<Rightarrow> unit result" where
  "checkTrustedHeader lib header consState =
     (case ValidatorSetFromProto lib (h_TrustedValidators header) of
        None \<Rightarrow> Inl (ErrForeign ''tmtypes'')
      | Some tmTrustedValidators \<Rightarrow>
          if tmc_NextValidatorsHash consState \<noteq> ValidatorSet_Hash lib tmTrustedValidators
          then Inl tendermint_ErrInvalidValidatorSet else Inr ())"

definition tm_verifyHeader :: "lib \<Rightarrow> sdk_context \<Rightarrow> kvstore \<Rightarrow> string \<Rightarrow> TmClientState \<Rightarrow> TmHeader \<Rightarrow> unit result" where
  "tm_verifyHeader lib ctx s cid cs header =
     (case tm_GetConsensusState s cid (h_TrustedHeight header) of
        None \<Rightarrow> Inl client_ErrConsensusStateNotFound
      | Some consState \<Rightarrow>
          and_then (checkTrustedHeader lib header consState) (\<lambda>_.
          and_then (TmHeader_GetHeight header) (\<lambda>height.
            if RevisionNumber height \<noteq> RevisionNumber (h_TrustedHeight header)
            then Inl tendermint_ErrInvalidHeaderHeight
            else case ValidatorSetFromProto lib (h_TrustedValidators header) of
                None \<Rightarrow> Inl (ErrForeign ''tmtypes'')
              | Some tmTrustedValidators \<Rightarrow>
                  (case SignedHeaderFromProto lib (h_SignedHeader header) of
                     None \<Rightarrow> Inl (ErrForeign ''tmtypes'')
                   | Some tmSignedHeader \<Rightarrow>
                       (case ValidatorSetFromProto lib (h_ValidatorSet header) of
                          None \<Rightarrow> Inl (ErrForeign ''tmtypes'')
                        | Some tmValidatorSet \<Rightarrow>
                            if LTE height (h_TrustedHeight header) then Inl client_ErrInvalidHeader
                            else if \<not> light_Verify lib (tm_ChainId cs)
                                 (sint (RevisionHeight (h_TrustedHeight header)))
                                 (tmc_Timestamp consState) (tmc_NextValidatorsHash consState)
                                 tmTrustedValidators tmSignedHeader tmValidatorSet
                                 (tm_TrustingPeriod cs) (BlockTime ctx) (tm_MaxClockDrift cs) (tm_TrustLevel cs)
                            then Inl (ErrForeign ''light'') else Inr ())))))"

section \<open>Updates\<close>

definition pruneOldestConsensusState :: "sdk_context \<Rightarrow> string \<Rightarrow> TmClientState \<Rightarrow> kvstore \<Rightarrow> kvstore result" where
  "pruneOldestConsensusState ctx cid cs s =
     (case consensusHeights s cid of
        [] \<Rightarrow> Inr s
      | height # _ \<Rightarrow>
          (case tm_GetConsensusState s cid height of
             None \<Rightarrow> Inl (Panic ''failed to retrieve consensus state'')
           | Some consState \<Rightarrow>
               if IsExpired cs (tmc_Timestamp consState) (BlockTime ctx)
               then Inr (deleteConsensusMetadata cid height (deleteConsensusState cid height s))
               else Inr s))"

definition tm_UpdateState ::
  "sdk_context \<Rightarrow> string \<Rightarrow> TmClientState \<Rightarrow> ClientMessage \<Rightarrow> kvstore \<Rightarrow> (Height list \<times> kvstore) result" where
  "tm_UpdateState ctx cid cs clientMsg s =
     (case clientMsg of
        TmHeaderMsg header \<Rightarrow>
          and_then (pruneOldestConsensusState ctx cid cs s) (\<lambda>s1.
          and_then (TmHeader_GetHeight header) (\<lambda>height.
            if tm_GetConsensusState s1 cid height \<noteq> None then Inr ([height], s1)
            else
              let cs' = (if GT height (tm_LatestHeight cs) then cs\<lparr>tm_LatestHeight := height\<rparr> else cs);
                  s2 = tm_setClientState cid cs' s1;
                  s3 = tm_setConsensusState cid (TmHeader_ConsensusState header) height s2 in
              and_then (setConsensusMetadata ctx cid height s3) (\<lambda>s4. Inr ([height], s4))))
      | _ \<Rightarrow> Inl (Panic ''expected type Header''))"

definition tm_FrozenHeightConst :: Height where
  "tm_FrozenHeightConst = NewHeight 0 1"

definition tm_UpdateStateOnMisbehaviour :: "string \<Rightarrow> TmClientState \<Rightarrow> kvstore \<Rightarrow> kvstore" where
  "tm_UpdateStateOnMisbehaviour cid cs s = tm_setClientState cid (cs\<lparr>tm_FrozenHeight := tm_FrozenHeightConst\<rparr>) s"

text \<open>\<open>PruneAllExpiredConsensusStates\<close>: the callback stops at a height without consensus state.\<close>

fun expiredHeights :: "sdk_context \<Rightarrow> string \<Rightarrow> TmClientState \<Rightarrow> kvstore \<Rightarrow> Height list \<Rightarrow> Height list" where
  "expiredHeights ctx cid cs s [] = []"
| "expiredHeights ctx cid cs s (height # rest) =
     (case tm_GetConsensusState s cid height of
        None \<Rightarrow> []
      | Some consState \<Rightarrow>
          if IsExpired cs (tmc_Timestamp consState) (BlockTime ctx)
          then height # expiredHeights ctx cid cs s rest
          else expiredHeights ctx cid cs s rest)"

definition PruneAllExpiredConsensusStates ::
  "sdk_context \<Rightarrow> string \<Rightarrow> TmClientState \<Rightarrow> kvstore \<Rightarrow> nat \<times> kvstore" where
  "PruneAllExpiredConsensusStates ctx cid cs s =
     (let heights = expiredHeights ctx cid cs s (consensusHeights s cid) in
      (length heights,
       fold (\<lambda>height t. deleteConsensusMetadata cid height (deleteConsensusState cid height t)) heights s))"

section \<open>Misbehaviour\<close>

text \<open>\<open>Time.Sub\<close> saturates at the range of \<open>Duration\<close>.\<close>

definition time_Sub :: "int \<Rightarrow> int \<Rightarrow> int" where
  "time_Sub t u = max (- (2 ^ 63)) (min (2 ^ 63 - 1) (t - u))"

definition checkMisbehaviourHeader ::
  "lib \<Rightarrow> TmClientState \<Rightarrow> TmConsensusState \<Rightarrow> TmHeader \<Rightarrow> int \<Rightarrow> unit result" where
  "checkMisbehaviourHeader lib clientState consState header currentTimestamp =
     (case ValidatorSetFromProto lib (h_TrustedValidators header) of
        None \<Rightarrow> Inl (ErrForeign ''tmtypes'')
      | Some tmTrustedValset \<Rightarrow>
          (case CommitFromProto lib (h_Commit header) of
             None \<Rightarrow> Inl (ErrForeign ''tmtypes'')
           | Some tmCommit \<Rightarrow>
               and_then (checkTrustedHeader lib header consState) (\<lambda>_.
               if time_Sub currentTimestamp (tmc_Timestamp consState) \<ge> tm_TrustingPeriod clientState
               then Inl tendermint_ErrTrustingPeriodExpired
               else and_then
                 (if IsRevisionFormat (tm_ChainId clientState)
                  then and_then (TmHeader_GetHeight header) (\<lambda>height.
                         SetRevisionNumber (tm_ChainId clientState) (RevisionNumber height))
                  else Inr (tm_ChainId clientState))
                 (\<lambda>chainID.
                    if \<not> VerifyCommitLightTrusting lib tmTrustedValset chainID tmCommit (tm_TrustLevel clientState)
                    then Inl client_ErrInvalidMisbehaviour else Inr ()))))"

definition tm_verifyMisbehaviour ::
  "lib \<Rightarrow> sdk_context \<Rightarrow> kvstore \<Rightarrow> string \<Rightarrow> TmClientState \<Rightarrow> TmHeader \<Rightarrow> TmHeader \<Rightarrow> unit result" where
  "tm_verifyMisbehaviour lib ctx s cid cs header1 header2 =
     (case tm_GetConsensusState s cid (h_TrustedHeight header1) of
        None \<Rightarrow> Inl client_ErrConsensusStateNotFound
      | Some tmConsensusState1 \<Rightarrow>
          (case tm_GetConsensusState s cid (h_TrustedHeight header2) of
             None \<Rightarrow> Inl client_ErrConsensusStateNotFound
           | Some tmConsensusState2 \<Rightarrow>
               and_then (checkMisbehaviourHeader lib cs tmConsensusState1 header1 (BlockTime ctx)) (\<lambda>_.
               checkMisbehaviourHeader lib cs tmConsensusState2 header2 (BlockTime ctx))))"

definition tm_VerifyClientMessage ::
  "lib \<Rightarrow> sdk_context \<Rightarrow> kvstore \<Rightarrow> string \<Rightarrow> TmClientState \<Rightarrow> ClientMessage \<Rightarrow> unit result" where
  "tm_VerifyClientMessage lib ctx s cid cs clientMsg =
     (case clientMsg of
        TmHeaderMsg header \<Rightarrow> tm_verifyHeader lib ctx s cid cs header
      | TmMisbehaviourMsg header1 header2 \<Rightarrow> tm_verifyMisbehaviour lib ctx s cid cs header1 header2
      | _ \<Rightarrow> Inl client_ErrInvalidClientType)"

definition tm_CheckForMisbehaviour :: "lib \<Rightarrow> kvstore \<Rightarrow> string \<Rightarrow> ClientMessage \<Rightarrow> bool result" where
  "tm_CheckForMisbehaviour lib s cid msg =
     (case msg of
        TmHeaderMsg tmHeader \<Rightarrow>
          and_then (TmHeader_GetHeight tmHeader) (\<lambda>height.
          let consState = TmHeader_ConsensusState tmHeader in
          case tm_GetConsensusState s cid height of
            Some existingConsState \<Rightarrow> Inr (existingConsState \<noteq> consState)
          | None \<Rightarrow>
              Inr ((case GetPreviousConsensusState s cid height of
                      None \<Rightarrow> False
                    | Some prevCons \<Rightarrow> \<not> tmc_Timestamp prevCons < tmc_Timestamp consState)
                   \<or> (case GetNextConsensusState s cid height of
                        None \<Rightarrow> False
                      | Some nextCons \<Rightarrow> \<not> tmc_Timestamp nextCons > tmc_Timestamp consState)))
      | TmMisbehaviourMsg header1 header2 \<Rightarrow>
          and_then (TmHeader_GetHeight header1) (\<lambda>height1.
          and_then (TmHeader_GetHeight header2) (\<lambda>height2.
            if EQ height1 height2 then
              (case BlockIDHashFromProto lib (h_Commit header1) of
                 None \<Rightarrow> Inr False
               | Some hash1 \<Rightarrow>
                   (case BlockIDHashFromProto lib (h_Commit header2) of
                      None \<Rightarrow> Inr False
                    | Some hash2 \<Rightarrow> Inr (hash1 \<noteq> hash2)))
            else Inr (\<not> h_Time header1 > h_Time header2)))
      | _ \<Rightarrow> Inr False)"

section \<open>Upgrade and recovery\<close>

definition constructUpgradeMerklePath :: "string list \<Rightarrow> Height \<Rightarrow> string \<Rightarrow> MerklePath" where
  "constructUpgradeMerklePath upgradePath lastHeight key =
     butlast upgradePath @ [last upgradePath @ ''/'' @ dec (RevisionHeight lastHeight) @ ''/'' @ key]"

definition constructUpgradeClientMerklePath :: "string list \<Rightarrow> Height \<Rightarrow> MerklePath" where
  "constructUpgradeClientMerklePath upgradePath lastHeight =
     constructUpgradeMerklePath upgradePath lastHeight ''upgradedClient''"

definition constructUpgradeConsStateMerklePath :: "string list \<Rightarrow> Height \<Rightarrow> MerklePath" where
  "constructUpgradeConsStateMerklePath upgradePath lastHeight =
     constructUpgradeMerklePath upgradePath lastHeight ''upgradedConsState''"

abbreviation SentinelRoot :: string where "SentinelRoot \<equiv> ''sentinel_root''"

definition IsMatchingClientState :: "TmClientState \<Rightarrow> TmClientState \<Rightarrow> bool" where
  "IsMatchingClientState subject substitute =
     (let zero = (\<lambda>cs. cs\<lparr>tm_LatestHeight := ZeroHeight, tm_FrozenHeight := ZeroHeight, tm_TrustingPeriod := 0,
                         tm_ChainId := [], tm_AllowUpdateAfterExpiry := True,
                         tm_AllowUpdateAfterMisbehaviour := True\<rparr>)
      in zero subject = zero substitute)"


definition tm_VerifyUpgradeAndUpdateState ::
  "lib \<Rightarrow> sdk_context \<Rightarrow> string \<Rightarrow> TmClientState \<Rightarrow> ClientState \<Rightarrow> Height \<Rightarrow> ConsensusState \<Rightarrow> bytes \<Rightarrow> bytes \<Rightarrow>
     kvstore \<Rightarrow> kvstore result" where
  "tm_VerifyUpgradeAndUpdateState lib ctx cid cs upgradedClient upgradedHeight upgradedConsState
     proofUpgradeClient proofUpgradeConsState s =
     (if length (tm_UpgradePath cs) = 0 then Inl client_ErrInvalidUpgradeClient
      else
        let lastHeight = tm_LatestHeight cs in
        if \<not> GT upgradedHeight lastHeight then Inl ibcerrors_ErrInvalidHeight
        else case upgradedClient of
          TendermintClient tmUpgradeClient \<Rightarrow>
            (case upgradedConsState of
               TendermintConsensus tmUpgradeConsState \<Rightarrow>
                 (case UnmarshalMerkleProof lib proofUpgradeClient of
                    None \<Rightarrow> Inl commitment_ErrInvalidProof
                  | Some merkleProofClient \<Rightarrow>
                      (case UnmarshalMerkleProof lib proofUpgradeConsState of
                         None \<Rightarrow> Inl commitment_ErrInvalidProof
                       | Some merkleProofConsState \<Rightarrow>
                           (case tm_GetConsensusState s cid lastHeight of
                              None \<Rightarrow> Inl client_ErrConsensusStateNotFound
                            | Some consState \<Rightarrow>
                                and_then (MerkleProof_VerifyMembership (lib_ics23 lib) merkleProofClient
                                  (tm_ProofSpecs cs) (tmc_Root consState)
                                  (constructUpgradeClientMerklePath (tm_UpgradePath cs) lastHeight)
                                  (MarshalClientState lib (TendermintClient (tm_ZeroCustomFields tmUpgradeClient))))
                                (\<lambda>_.
                                and_then (MerkleProof_VerifyMembership (lib_ics23 lib) merkleProofConsState
                                  (tm_ProofSpecs cs) (tmc_Root consState)
                                  (constructUpgradeConsStateMerklePath (tm_UpgradePath cs) lastHeight)
                                  (MarshalConsensusState lib upgradedConsState))
                                (\<lambda>_.
                                let newClientState = tm_NewClientState (tm_ChainId tmUpgradeClient)
                                      (tm_TrustLevel cs) (tm_TrustingPeriod cs)
                                      (tm_UnbondingPeriod tmUpgradeClient) (tm_MaxClockDrift cs)
                                      (tm_LatestHeight tmUpgradeClient) (tm_ProofSpecs tmUpgradeClient)
                                      (tm_UpgradePath tmUpgradeClient) in
                                and_then (tm_Validate lib newClientState) (\<lambda>_.
                                let newConsState = \<lparr>tmc_Timestamp = tmc_Timestamp tmUpgradeConsState,
                                      tmc_Root = str_bytes SentinelRoot,
                                      tmc_NextValidatorsHash = tmc_NextValidatorsHash tmUpgradeConsState\<rparr> in
                                setConsensusMetadata ctx cid (tm_LatestHeight tmUpgradeClient)
                                  (tm_setConsensusState cid newConsState (tm_LatestHeight newClientState)
                                    (tm_setClientState cid newClientState s))))))))
             | _ \<Rightarrow> Inl client_ErrInvalidConsensus)
        | _ \<Rightarrow> Inl client_ErrInvalidClientType)"

definition tm_CheckSubstituteAndUpdateState ::
  "sdk_context \<Rightarrow> string \<Rightarrow> string \<Rightarrow> TmClientState \<Rightarrow> ClientState \<Rightarrow> kvstore \<Rightarrow> kvstore result" where
  "tm_CheckSubstituteAndUpdateState ctx subject substitute cs substituteClient s =
     (case substituteClient of
        TendermintClient substituteClientState \<Rightarrow>
          if \<not> IsMatchingClientState cs substituteClientState then Inl client_ErrInvalidSubstitute
          else
            let cs1 = (if tm_Status ctx s subject cs = Frozen
                       then cs\<lparr>tm_FrozenHeight := ZeroHeight\<rparr> else cs);
                height = tm_LatestHeight substituteClientState in
            (case tm_GetConsensusState s substitute height of
               None \<Rightarrow> Inl client_ErrConsensusStateNotFound
             | Some consensusState \<Rightarrow>
                 let s1 = tm_setConsensusState subject consensusState height s in
                 (case GetProcessedHeight s1 substitute height of
                    None \<Rightarrow> Inl client_ErrUpdateClientFailed
                  | Some processedHeight \<Rightarrow>
                      (case GetProcessedTime s1 substitute height of
                         None \<Rightarrow> Inl client_ErrUpdateClientFailed
                       | Some processedTime \<Rightarrow>
                           let s2 = setConsensusMetadataWithValues subject height processedHeight processedTime s1;
                               cs2 = cs1\<lparr>tm_LatestHeight := tm_LatestHeight substituteClientState,
                                         tm_ChainId := tm_ChainId substituteClientState,
                                         tm_TrustingPeriod := tm_TrustingPeriod substituteClientState\<rparr> in
                           Inr (tm_setClientState subject cs2 s2))))
      | _ \<Rightarrow> Inl client_ErrInvalidClient)"


section \<open>The keys of a client store\<close>

lemma suffix_slash_neq: "slash_free a \<Longrightarrow> a \<noteq> b @ CHR ''/'' # c"
  by (auto simp: slash_free_def)

lemma client_keys [path_simps]:
  "ConsensusStateKey h \<noteq> ClientStateKey" "ProcessedTimeKey h \<noteq> ClientStateKey"
  "ProcessedHeightKey h \<noteq> ClientStateKey" "IterationKey h \<noteq> ClientStateKey"
  "ConsensusStateKey h = ConsensusStateKey k \<longleftrightarrow> h = k"
  "ProcessedTimeKey h = ProcessedTimeKey k \<longleftrightarrow> h = k"
  "ProcessedHeightKey h = ProcessedHeightKey k \<longleftrightarrow> h = k"
  "ProcessedTimeKey h \<noteq> ConsensusStateKey k" "ProcessedHeightKey h \<noteq> ConsensusStateKey k"
  "ProcessedTimeKey h \<noteq> ProcessedHeightKey k" "IterationKey h \<noteq> ConsensusStateKey k"
  "IterationKey h \<noteq> ProcessedTimeKey k" "IterationKey h \<noteq> ProcessedHeightKey k"
proof -
  have a: "Height_String h \<noteq> Height_String k @ CHR ''/'' # r" for h k r
    by (rule suffix_slash_neq) simp
  note [simp] = a a [symmetric]
  have b: "Height_String h @ CHR ''/'' # x = Height_String k @ CHR ''/'' # y \<longleftrightarrow> h = k \<and> x = y" for h k x y
    by (subst sep_append_inj) (simp_all add: slash_free_def [symmetric])
  note defs = ConsensusStateKey_def ProcessedTimeKey_def ProcessedHeightKey_def IterationKey_def
    ClientStateKey_def ConsensusStatePath_def
  show "ConsensusStateKey h \<noteq> ClientStateKey" "ProcessedTimeKey h \<noteq> ClientStateKey"
    "ProcessedHeightKey h \<noteq> ClientStateKey" "IterationKey h \<noteq> ClientStateKey"
    "ConsensusStateKey h = ConsensusStateKey k \<longleftrightarrow> h = k"
    "ProcessedTimeKey h = ProcessedTimeKey k \<longleftrightarrow> h = k"
    "ProcessedHeightKey h = ProcessedHeightKey k \<longleftrightarrow> h = k"
    "ProcessedTimeKey h \<noteq> ConsensusStateKey k" "ProcessedHeightKey h \<noteq> ConsensusStateKey k"
    "ProcessedTimeKey h \<noteq> ProcessedHeightKey k" "IterationKey h \<noteq> ConsensusStateKey k"
    "IterationKey h \<noteq> ProcessedTimeKey k" "IterationKey h \<noteq> ProcessedHeightKey k"
    by (simp_all add: defs b)
qed

lemmas client_keys_sym [path_simps] = client_keys(1-4) [symmetric] client_keys(8-13) [symmetric]

text \<open>Reads of one client after a write to it.\<close>

lemma kv_typed_client:
  "kv_typed rd (kv_set (FullClientPath c k) v s) (FullClientPath c l) =
     (if l = k then rd v else kv_typed rd s (FullClientPath c l))"
  "kv_typed rd (kv_delete (FullClientPath c k) s) (FullClientPath c l) =
     (if l = k then None else kv_typed rd s (FullClientPath c l))"
  by (simp_all add: kv_typed_def kv.get_put kv.get_del)

lemmas client_get_defs = GetClientState_def tm_GetConsensusState_def getTmConsensusState_def
  GetProcessedTime_def GetProcessedHeight_def

lemma bytes_str_inj: "bytes_str a = bytes_str b \<longleftrightarrow> a = b"
proof -
  have "str_bytes (bytes_str x) = x" for x
  proof (induction x)
    case Nil
    then show ?case by (simp add: bytes_str_def str_bytes_def)
  next
    case (Cons w x)
    have "unat w < 256" using unsigned_less [of w] by simp
    with Cons show ?case by (simp add: bytes_str_def str_bytes_def of_char_of)
  qed
  then show ?thesis by metis
qed

lemma IterationKey_inj [path_simps]: "IterationKey h = IterationKey k \<longleftrightarrow> h = k"
  by (cases h; cases k) (auto simp: IterationKey_def bytes_str_inj bigEndianHeightBytes_def)

section \<open>What an update stores\<close>

lemma setConsensusMetadata_reads:
  assumes "setConsensusMetadata ctx cid h s = Inr t"
  shows "GetClientState t cid = GetClientState s cid"
    and "tm_GetConsensusState t cid k = tm_GetConsensusState s cid k"
    and "GetProcessedTime t cid h = Some (UnixNano64 (BlockTime ctx))"
    and "\<exists>self. GetSelfHeight ctx = Inr self \<and> GetProcessedHeight t cid h = Some self"
  using assms
  by (auto simp: setConsensusMetadata_def setConsensusMetadataWithValues_def SetIterationKey_def
      SetProcessedHeight_def SetProcessedTime_def client_get_defs kv_typed_client path_simps)

lemma delete_consensus_reads:
  "GetClientState (deleteConsensusMetadata cid h (deleteConsensusState cid h s)) cid = GetClientState s cid"
  "tm_GetConsensusState (deleteConsensusMetadata cid h (deleteConsensusState cid h s)) cid k =
     (if k = h then None else tm_GetConsensusState s cid k)"
  by (simp_all add: deleteConsensusMetadata_def deleteConsensusState_def deleteIterationKey_def
      deleteProcessedHeight_def deleteProcessedTime_def client_get_defs kv_typed_client path_simps)

text \<open>The consensus state an update may remove: the first one of the iteration, once it has expired.\<close>

definition oldest_expired :: "sdk_context \<Rightarrow> string \<Rightarrow> TmClientState \<Rightarrow> kvstore \<Rightarrow> Height \<Rightarrow> bool" where
  "oldest_expired ctx cid cs s k =
     (case consensusHeights s cid of
        [] \<Rightarrow> False
      | first # _ \<Rightarrow> k = first \<and> (case tm_GetConsensusState s cid k of None \<Rightarrow> False | Some c \<Rightarrow> IsExpired cs (tmc_Timestamp c) (BlockTime ctx)))"

lemma oldest_expired_unique: "\<forall>k k'. oldest_expired ctx cid cs s k \<and> oldest_expired ctx cid cs s k' \<longrightarrow> k = k'"
  by (auto simp: oldest_expired_def split: list.splits)

lemma pruneOldest_reads:
  assumes "pruneOldestConsensusState ctx cid cs s = Inr t"
  shows "GetClientState t cid = GetClientState s cid"
    and "tm_GetConsensusState t cid k = (if oldest_expired ctx cid cs s k then None else tm_GetConsensusState s cid k)"
  using assms
  by (auto simp: oldest_expired_def pruneOldestConsensusState_def delete_consensus_reads
      split: list.splits option.splits if_splits)


lemma tm_set_reads:
  "GetClientState (tm_setConsensusState cid c h s) cid = GetClientState s cid"
  "tm_GetConsensusState (tm_setConsensusState cid c h s) cid k =
     (if k = h then Some c else tm_GetConsensusState s cid k)"
  "GetClientState (tm_setClientState cid cs s) cid = Some (TendermintClient cs)"
  "tm_GetConsensusState (tm_setClientState cid cs s) cid k = tm_GetConsensusState s cid k"
  by (simp_all add: tm_setConsensusState_def tm_setClientState_def client_get_defs kv_typed_client path_simps)

lemma tm_UpdateState_cases:
  assumes "tm_UpdateState ctx cid cs (TmHeaderMsg hdr) s = Inr (hs, t)"
  obtains s1 h where "pruneOldestConsensusState ctx cid cs s = Inr s1" and "TmHeader_GetHeight hdr = Inr h"
    and "hs = [h]" and "tm_GetConsensusState s1 cid h \<noteq> None" and "t = s1"
  | s1 h where "pruneOldestConsensusState ctx cid cs s = Inr s1" and "TmHeader_GetHeight hdr = Inr h"
    and "hs = [h]" and "tm_GetConsensusState s1 cid h = None"
    and "setConsensusMetadata ctx cid h
      (tm_setConsensusState cid (TmHeader_ConsensusState hdr) h
        (tm_setClientState cid (cs\<lparr>tm_LatestHeight := max (tm_LatestHeight cs) h\<rparr>) s1)) = Inr t"
proof -
  from assms obtain s1 h where a: "pruneOldestConsensusState ctx cid cs s = Inr s1"
    "TmHeader_GetHeight hdr = Inr h" by (auto simp: tm_UpdateState_def)
  have m: "(if tm_LatestHeight cs < h then cs\<lparr>tm_LatestHeight := h\<rparr> else cs) =
      cs\<lparr>tm_LatestHeight := max (tm_LatestHeight cs) h\<rparr>"
    by (auto simp: max_def)
  show thesis
  proof (cases "tm_GetConsensusState s1 cid h = None")
    case True
    with assms a show thesis by (intro that(2) [OF a]) (auto simp: tm_UpdateState_def Let_def m)
  next
    case False
    with assms a show thesis by (intro that(1) [OF a]) (auto simp: tm_UpdateState_def)
  qed
qed

section \<open>Properties\<close>

text \<open>
  C25: a header update of a Tendermint client. The stored client state keeps all its parameters, its
  latest height becomes the maximum of the old one and the header's height (it never decreases);
  when the header's height is new, exactly the consensus state of the header is stored for it,
  together with the current block time as its processing time; a header for a stored, unexpired
  height changes nothing about the client state. Of the other consensus states at most one is
  removed: the first one in the order of iteration, exactly when its trusting period is over; all
  others are kept.
\<close>

theorem tm_update_effect:
  assumes "tm_UpdateState ctx cid cs (TmHeaderMsg hdr) s = Inr (hs, t)"
    and "GetClientState s cid = Some (TendermintClient cs)"
  shows "\<exists>h cs'. TmHeader_GetHeight hdr = Inr h \<and> hs = [h]
    \<and> GetClientState t cid = Some (TendermintClient cs')
    \<and> (cs' = cs \<or> cs' = cs\<lparr>tm_LatestHeight := max (tm_LatestHeight cs) h\<rparr>)
    \<and> tm_LatestHeight cs \<le> tm_LatestHeight cs'
    \<and> (tm_GetConsensusState s cid h = None \<longrightarrow>
         cs' = cs\<lparr>tm_LatestHeight := max (tm_LatestHeight cs) h\<rparr>
         \<and> tm_GetConsensusState t cid h = Some (TmHeader_ConsensusState hdr)
         \<and> GetProcessedTime t cid h = Some (UnixNano64 (BlockTime ctx)))
    \<and> (\<forall>c. tm_GetConsensusState s cid h = Some c \<and> \<not> IsExpired cs (tmc_Timestamp c) (BlockTime ctx) \<longrightarrow>
         cs' = cs \<and> tm_GetConsensusState t cid h = Some c)
    \<and> (\<forall>k. k \<noteq> h \<longrightarrow> tm_GetConsensusState t cid k = (if oldest_expired ctx cid cs s k then None else tm_GetConsensusState s cid k))
    \<and> (\<forall>k k'. oldest_expired ctx cid cs s k \<and> oldest_expired ctx cid cs s k' \<longrightarrow> k = k')"
  using assms(1)
proof (cases rule: tm_UpdateState_cases)
  case (1 s1 h)
  note p = pruneOldest_reads [OF 1(1)]
  have "tm_GetConsensusState s1 cid h = tm_GetConsensusState s cid h" using p(2) [of h] 1(4) by (auto split: if_splits)
  then show ?thesis
    using 1 p assms(2) oldest_expired_unique by (intro exI [of _ h] exI [of _ cs] conjI) auto
next
  case (2 s1 h)
  note p = pruneOldest_reads [OF 2(1)] and r = setConsensusMetadata_reads [OF 2(5)]
  let ?cs = "cs\<lparr>tm_LatestHeight := max (tm_LatestHeight cs) h\<rparr>"
  have c: "tm_GetConsensusState t cid k =
      (if k = h then Some (TmHeader_ConsensusState hdr) else tm_GetConsensusState s1 cid k)" for k
    by (simp add: r tm_set_reads)
  have n: "\<forall>c. tm_GetConsensusState s cid h = Some c \<and> \<not> IsExpired cs (tmc_Timestamp c) (BlockTime ctx) \<longrightarrow>
      ?cs = cs \<and> tm_GetConsensusState t cid h = Some c"
    using p(2) [of h] 2(4) by (auto simp: oldest_expired_def split: if_splits list.splits)
  have "GetClientState t cid = Some (TendermintClient ?cs)" by (simp add: r tm_set_reads)
  with 2(2,3) r(3) c p(2) show ?thesis
    using oldest_expired_unique by (intro exI [of _ h] exI [of _ ?cs] conjI n) simp_all
qed


text \<open>A concrete client, header and store.\<close>

definition ex_ctx :: sdk_context where
  "ex_ctx = \<lparr>ChainID = ''chain'', BlockHeight = 10, BlockTime = 50\<rparr>"

definition ex_tm :: TmClientState where
  "ex_tm = tm_NewClientState ''other'' (1, 3) 100 200 10 (NewHeight 0 1) [[1]] []"

definition ex_header :: TmHeader where
  "ex_header = \<lparr>h_ChainID = ''other'', h_Height = 7, h_Time = 40, h_AppHash = [5], h_NextValidatorsHash = [6],
     h_SignedHeader = [], h_Commit = [], h_ValidatorSet = [], h_TrustedHeight = NewHeight 0 1,
     h_TrustedValidators = []\<rparr>"

definition ex_tm_store :: kvstore where
  "ex_tm_store = tm_setClientState ''07-tendermint-0'' ex_tm fmempty"

lemma tm_update_effect_witness:
  "\<exists>hs t. tm_UpdateState ex_ctx ''07-tendermint-0'' ex_tm (TmHeaderMsg ex_header) ex_tm_store = Inr (hs, t)
     \<and> tm_GetConsensusState t ''07-tendermint-0'' (NewHeight 0 7) = Some (TmHeader_ConsensusState ex_header)"
proof -
  have "is_ok (tm_UpdateState ex_ctx ''07-tendermint-0'' ex_tm (TmHeaderMsg ex_header) ex_tm_store)"
    by code_simp
  then obtain hs t where
    u: "tm_UpdateState ex_ctx ''07-tendermint-0'' ex_tm (TmHeaderMsg ex_header) ex_tm_store = Inr (hs, t)"
    by (auto simp: is_ok_iff)
  have "GetClientState ex_tm_store ''07-tendermint-0'' = Some (TendermintClient ex_tm)"
    by (simp add: ex_tm_store_def tm_set_reads)
  moreover have "TmHeader_GetHeight ex_header = Inr (NewHeight 0 7)" by code_simp
  moreover have "tm_GetConsensusState ex_tm_store ''07-tendermint-0'' (NewHeight 0 7) = None" by code_simp
  ultimately show ?thesis using tm_update_effect [OF u] u by auto
qed

end
