(* ===== verification/Light_Client.thy ===== *)
theory Light_Client
  imports Tendermint
begin

text \<open>
  The solo machine and the localhost client (\<open>modules/light-clients/06-solomachine\<close>,
  \<open>modules/light-clients/09-localhost\<close>) and the dispatch of the interface \<open>exported.ClientState\<close> over the
  three client types. Verification returns the store because the solo machine consumes a sequence
  number with every proof.
\<close>

section \<open>Solo machine\<close>

definition sm_setClientState :: "string \<Rightarrow> SmClientState \<Rightarrow> kvstore \<Rightarrow> kvstore" where
  "sm_setClientState cid cs = kv_set (FullClientPath cid ClientStateKey) (ClientStateBz (SolomachineClient cs))"

definition sm_GetPubKey :: "lib \<Rightarrow> SmConsensusState \<Rightarrow> pub_key result" where
  "sm_GetPubKey lib cs =
     (case smc_PublicKey cs of
        None \<Rightarrow> Inl client_ErrInvalidConsensus
      | Some any \<Rightarrow>
          (case UnpackPubKey lib any of
             None \<Rightarrow> Inl client_ErrInvalidConsensus
           | Some publicKey \<Rightarrow> Inr publicKey))"

definition sm_ConsensusState_ValidateBasic :: "lib \<Rightarrow> SmConsensusState \<Rightarrow> unit result" where
  "sm_ConsensusState_ValidateBasic lib cs =
     (if smc_Timestamp cs = 0 then Inl client_ErrInvalidConsensus
      else if smc_Diversifier cs \<noteq> [] \<and> is_blank (smc_Diversifier cs) then Inl client_ErrInvalidConsensus
      else case sm_GetPubKey lib cs of
          Inl e \<Rightarrow> Inl client_ErrInvalidConsensus
        | Inr publicKey \<Rightarrow>
            if PubKeyBytes lib publicKey = [] then Inl client_ErrInvalidConsensus else Inr ())"

definition sm_Validate :: "lib \<Rightarrow> SmClientState \<Rightarrow> unit result" where
  "sm_Validate lib cs =
     (if sm_Sequence cs = 0 then Inl client_ErrInvalidClient
      else case sm_ConsensusState cs of
          None \<Rightarrow> Inl client_ErrInvalidConsensus
        | Some consState \<Rightarrow> sm_ConsensusState_ValidateBasic lib consState)"

definition sm_Status :: "SmClientState \<Rightarrow> Status" where
  "sm_Status cs = (if sm_IsFrozen cs then Frozen else Active)"

definition sm_Initialize :: "string \<Rightarrow> SmClientState \<Rightarrow> ConsensusState option \<Rightarrow> kvstore \<Rightarrow> kvstore result" where
  "sm_Initialize cid cs consState s =
     (case consState of
        Some (SolomachineConsensus c) \<Rightarrow>
          if sm_ConsensusState cs \<noteq> Some c then Inl client_ErrInvalidConsensus
          else Inr (sm_setClientState cid cs s)
      | _ \<Rightarrow> Inl client_ErrInvalidConsensus)"

definition VerifySignature :: "lib \<Rightarrow> pub_key \<Rightarrow> bytes \<Rightarrow> sig_data \<Rightarrow> unit result" where
  "VerifySignature lib pubKey signBytes sigData =
     (case pubKey of
        MultisigKey k \<Rightarrow>
          (case sigData of
             MultiSignatureData d \<Rightarrow>
               if VerifyMultisignature lib k signBytes d then Inr () else Inl (ErrForeign ''multisig'')
           | SingleSignatureData _ \<Rightarrow> Inl solomachine_ErrSignatureVerificationFailed)
      | SingleKey k \<Rightarrow>
          (case sigData of
             SingleSignatureData d \<Rightarrow>
               if PubKey_VerifySignature lib k signBytes d then Inr ()
               else Inl solomachine_ErrSignatureVerificationFailed
           | MultiSignatureData _ \<Rightarrow> Inl solomachine_ErrSignatureVerificationFailed))"

text \<open>Dereferencing a nil consensus state panics.\<close>

definition sm_cons :: "SmClientState \<Rightarrow> SmConsensusState result" where
  "sm_cons cs = (case sm_ConsensusState cs of None \<Rightarrow> Inl (Panic ''nil pointer'') | Some c \<Rightarrow> Inr c)"

text \<open>An empty byte slice of a decoded message is nil.\<close>

definition produceVerificationArgs ::
  "lib \<Rightarrow> SmClientState \<Rightarrow> bytes \<Rightarrow> (pub_key \<times> sig_data \<times> u64 \<times> u64 \<times> SmConsensusState) result" where
  "produceVerificationArgs lib cs prf =
     (if prf = [] then Inl solomachine_ErrInvalidProof
      else case UnmarshalTimestampedSignatureData lib prf of
          None \<Rightarrow> Inl (ErrForeign ''codec'')
        | Some (signatureData, timestamp) \<Rightarrow>
            if length signatureData = 0 then Inl solomachine_ErrInvalidProof
            else case UnmarshalSignatureData lib signatureData of
                None \<Rightarrow> Inl (ErrForeign ''codec'')
              | Some sigData \<Rightarrow>
                  and_then (sm_cons cs) (\<lambda>consState.
                    if timestamp < smc_Timestamp consState then Inl solomachine_ErrInvalidProof
                    else and_then (sm_GetPubKey lib consState) (\<lambda>publicKey.
                      Inr (publicKey, sigData, timestamp, sm_Sequence cs, consState))))"

definition sm_accept :: "string \<Rightarrow> SmClientState \<Rightarrow> SmConsensusState \<Rightarrow> u64 \<Rightarrow> kvstore \<Rightarrow> kvstore" where
  "sm_accept cid cs consState timestamp =
     sm_setClientState cid
       (cs\<lparr>sm_Sequence := sm_Sequence cs + 1,
           sm_ConsensusState := Some (consState\<lparr>smc_Timestamp := timestamp\<rparr>)\<rparr>)"

definition sm_VerifyMembership ::
  "lib \<Rightarrow> string \<Rightarrow> SmClientState \<Rightarrow> bytes \<Rightarrow> MerklePath \<Rightarrow> bytes \<Rightarrow> kvstore \<Rightarrow> kvstore result" where
  "sm_VerifyMembership lib cid cs prf path val s =
     and_then (produceVerificationArgs lib cs prf) (\<lambda>(publicKey, sigData, timestamp, sequence, consState).
       if path = [] then Inl commitment_ErrInvalidProof
       else
         let signBz = MarshalSignBytes lib
               (sequence, timestamp, smc_Diversifier consState, str_bytes (MerklePath_String path), val) in
         and_then (VerifySignature lib publicKey signBz sigData) (\<lambda>_.
           Inr (sm_accept cid cs consState timestamp s)))"

definition sm_VerifyNonMembership ::
  "lib \<Rightarrow> string \<Rightarrow> SmClientState \<Rightarrow> bytes \<Rightarrow> MerklePath \<Rightarrow> kvstore \<Rightarrow> kvstore result" where
  "sm_VerifyNonMembership lib cid cs prf path s =
     and_then (produceVerificationArgs lib cs prf) (\<lambda>(publicKey, sigData, timestamp, sequence, consState).
       let signBz = MarshalSignBytes lib
             (sequence, timestamp, smc_Diversifier consState, str_bytes (MerklePath_String path), []) in
       and_then (VerifySignature lib publicKey signBz sigData) (\<lambda>_.
         Inr (sm_accept cid cs consState timestamp s)))"

abbreviation SentinelHeaderPath :: string where "SentinelHeaderPath \<equiv> ''solomachine:header''"

definition sm_verifyHeader :: "lib \<Rightarrow> SmClientState \<Rightarrow> SmHeader \<Rightarrow> unit result" where
  "sm_verifyHeader lib cs header =
     and_then (sm_cons cs) (\<lambda>consState.
       if smh_Timestamp header < smc_Timestamp consState then Inl client_ErrInvalidHeader
       else
         let dataBz = MarshalHeaderData lib (smh_NewPublicKey header) (smh_NewDiversifier header);
             data = MarshalSignBytes lib (sm_Sequence cs, smh_Timestamp header,
                      smc_Diversifier consState, str_bytes SentinelHeaderPath, dataBz) in
         case UnmarshalSignatureData lib (smh_Signature header) of
           None \<Rightarrow> Inl (ErrForeign ''codec'')
         | Some sigData \<Rightarrow>
             and_then (sm_GetPubKey lib consState) (\<lambda>publicKey.
               case VerifySignature lib publicKey data sigData of
                 Inl e \<Rightarrow> Inl solomachine_ErrInvalidHeader
               | Inr _ \<Rightarrow> Inr ()))"

definition verifySignatureAndData :: "lib \<Rightarrow> SmClientState \<Rightarrow> u64 \<Rightarrow> SignatureAndData \<Rightarrow> unit result" where
  "verifySignatureAndData lib cs misbehaviourSequence sigAndData =
     (if \<not> UnmarshalsAsMerklePath lib (sd_Path sigAndData) then Inl (ErrForeign ''codec'')
      else and_then (sm_cons cs) (\<lambda>consState.
        let data = MarshalSignBytes lib (misbehaviourSequence, sd_Timestamp sigAndData,
                     smc_Diversifier consState, sd_Path sigAndData, sd_Data sigAndData) in
        case UnmarshalSignatureData lib (sd_Signature sigAndData) of
          None \<Rightarrow> Inl (ErrForeign ''codec'')
        | Some sigData \<Rightarrow>
            and_then (sm_GetPubKey lib consState) (\<lambda>publicKey. VerifySignature lib publicKey data sigData)))"

definition sm_VerifyClientMessage :: "lib \<Rightarrow> SmClientState \<Rightarrow> ClientMessage \<Rightarrow> unit result" where
  "sm_VerifyClientMessage lib cs clientMsg =
     (case clientMsg of
        SmHeaderMsg header \<Rightarrow> sm_verifyHeader lib cs header
      | SmMisbehaviourMsg sequence signatureOne signatureTwo \<Rightarrow>
          and_then (verifySignatureAndData lib cs sequence signatureOne) (\<lambda>_.
          verifySignatureAndData lib cs sequence signatureTwo)
      | _ \<Rightarrow> Inl client_ErrInvalidClientType)"

definition sm_CheckForMisbehaviour :: "ClientMessage \<Rightarrow> bool" where
  "sm_CheckForMisbehaviour clientMsg = (case clientMsg of SmMisbehaviourMsg _ _ _ \<Rightarrow> True | _ \<Rightarrow> False)"

definition sm_UpdateState :: "string \<Rightarrow> SmClientState \<Rightarrow> ClientMessage \<Rightarrow> kvstore \<Rightarrow> (Height list \<times> kvstore) result" where
  "sm_UpdateState cid cs clientMsg s =
     (case clientMsg of
        SmHeaderMsg smHeader \<Rightarrow>
          let consensusState = \<lparr>smc_PublicKey = smh_NewPublicKey smHeader,
                smc_Diversifier = smh_NewDiversifier smHeader, smc_Timestamp = smh_Timestamp smHeader\<rparr>;
              cs' = cs\<lparr>sm_Sequence := sm_Sequence cs + 1, sm_ConsensusState := Some consensusState\<rparr> in
          Inr ([NewHeight 0 (sm_Sequence cs')], sm_setClientState cid cs' s)
      | _ \<Rightarrow> Inl (Panic ''unsupported ClientMessage''))"

definition sm_UpdateStateOnMisbehaviour :: "string \<Rightarrow> SmClientState \<Rightarrow> kvstore \<Rightarrow> kvstore" where
  "sm_UpdateStateOnMisbehaviour cid cs s = sm_setClientState cid (cs\<lparr>sm_IsFrozen := True\<rparr>) s"

definition sm_CheckSubstituteAndUpdateState ::
  "lib \<Rightarrow> string \<Rightarrow> SmClientState \<Rightarrow> ClientState \<Rightarrow> kvstore \<Rightarrow> kvstore result" where
  "sm_CheckSubstituteAndUpdateState lib subject cs substituteClient s =
     (case substituteClient of
        SolomachineClient substituteClientState \<Rightarrow>
          and_then (sm_cons cs) (\<lambda>subjectCons.
          and_then (sm_GetPubKey lib subjectCons) (\<lambda>subjectPublicKey.
          and_then (sm_cons substituteClientState) (\<lambda>substituteCons.
          and_then (sm_GetPubKey lib substituteCons) (\<lambda>substitutePublicKey.
            if subjectPublicKey = substitutePublicKey then Inl client_ErrInvalidHeader
            else Inr (sm_setClientState subject
                   (cs\<lparr>sm_Sequence := sm_Sequence substituteClientState,
                       sm_ConsensusState := sm_ConsensusState substituteClientState,
                       sm_IsFrozen := False\<rparr>) s)))))
      | _ \<Rightarrow> Inl client_ErrInvalidClientType)"

section \<open>Localhost\<close>

definition SentinelProof :: bytes where
  "SentinelProof = [1]"

definition lh_setClientState :: "string \<Rightarrow> Height \<Rightarrow> kvstore \<Rightarrow> kvstore" where
  "lh_setClientState cid height = kv_set (FullClientPath cid ClientStateKey) (ClientStateBz (LocalhostClient height))"

definition lh_Validate :: "Height \<Rightarrow> unit result" where
  "lh_Validate latest = (if RevisionHeight latest = 0 then Inl ibcerrors_ErrInvalidHeight else Inr ())"

definition lh_Initialize :: "sdk_context \<Rightarrow> string \<Rightarrow> ConsensusState option \<Rightarrow> kvstore \<Rightarrow> kvstore result" where
  "lh_Initialize ctx cid consState s =
     (if consState \<noteq> None then Inl client_ErrInvalidConsensus
      else and_then (GetSelfHeight ctx) (\<lambda>h. Inr (lh_setClientState cid h s)))"

text \<open>
  The localhost client reads the store it is given: under its sentinel identifier that is the core
  store itself, otherwise the store of the client (\<open>getClientStateAndVerificationStore\<close>).
\<close>

definition verification_prefix :: "string \<Rightarrow> string" where
  "verification_prefix clientID = (if clientID = LocalhostClientID then [] else FullClientPath clientID [])"

definition lh_VerifyMembership :: "lib \<Rightarrow> kvstore \<Rightarrow> string \<Rightarrow> bytes \<Rightarrow> MerklePath \<Rightarrow> bytes \<Rightarrow> unit result" where
  "lh_VerifyMembership lib s cid prf path val =
     (if prf \<noteq> SentinelProof then Inl commitment_ErrInvalidProof
      else if length path \<noteq> 2 then Inl host_ErrInvalidPath
      else case kv_get s (verification_prefix cid @ path ! 1) of
          None \<Rightarrow> Inl client_ErrFailedMembershipVerification
        | Some bz \<Rightarrow>
            if kv_bytes lib bz \<noteq> val then Inl client_ErrFailedMembershipVerification else Inr ())"

definition lh_VerifyNonMembership :: "kvstore \<Rightarrow> string \<Rightarrow> bytes \<Rightarrow> MerklePath \<Rightarrow> unit result" where
  "lh_VerifyNonMembership s cid prf path =
     (if prf \<noteq> SentinelProof then Inl commitment_ErrInvalidProof
      else if length path \<noteq> 2 then Inl host_ErrInvalidPath
      else if kv_has s (verification_prefix cid @ path ! 1) then Inl client_ErrFailedNonMembershipVerification else Inr ())"

definition lh_UpdateState :: "sdk_context \<Rightarrow> string \<Rightarrow> kvstore \<Rightarrow> (Height list \<times> kvstore) result" where
  "lh_UpdateState ctx cid s =
     and_then (GetSelfHeight ctx) (\<lambda>height. Inr ([height], lh_setClientState cid height s))"

section \<open>Dispatch\<close>

fun ClientType :: "ClientState \<Rightarrow> string" where
  "ClientType (TendermintClient _) = Tendermint"
| "ClientType (SolomachineClient _) = Solomachine"
| "ClientType (LocalhostClient _) = Localhost"

fun ConsensusState_ClientType :: "ConsensusState \<Rightarrow> string" where
  "ConsensusState_ClientType (TendermintConsensus _) = Tendermint"
| "ConsensusState_ClientType (SolomachineConsensus _) = Solomachine"

fun GetLatestHeight :: "ClientState \<Rightarrow> Height" where
  "GetLatestHeight (TendermintClient cs) = tm_LatestHeight cs"
| "GetLatestHeight (SolomachineClient cs) = NewHeight 0 (sm_Sequence cs)"
| "GetLatestHeight (LocalhostClient h) = h"

fun ClientState_Validate :: "lib \<Rightarrow> ClientState \<Rightarrow> unit result" where
  "ClientState_Validate lib (TendermintClient cs) = tm_Validate lib cs"
| "ClientState_Validate lib (SolomachineClient cs) = sm_Validate lib cs"
| "ClientState_Validate lib (LocalhostClient h) = lh_Validate h"

fun Client_Status :: "sdk_context \<Rightarrow> kvstore \<Rightarrow> string \<Rightarrow> ClientState \<Rightarrow> Status" where
  "Client_Status ctx s cid (TendermintClient cs) = tm_Status ctx s cid cs"
| "Client_Status ctx s cid (SolomachineClient cs) = sm_Status cs"
| "Client_Status ctx s cid (LocalhostClient h) = Active"

fun Client_Initialize :: "sdk_context \<Rightarrow> string \<Rightarrow> ClientState \<Rightarrow> ConsensusState option \<Rightarrow> kvstore \<Rightarrow> kvstore result" where
  "Client_Initialize ctx cid (TendermintClient cs) consState s = tm_Initialize ctx cid cs consState s"
| "Client_Initialize ctx cid (SolomachineClient cs) consState s = sm_Initialize cid cs consState s"
| "Client_Initialize ctx cid (LocalhostClient h) consState s = lh_Initialize ctx cid consState s"

fun Client_GetTimestampAtHeight :: "sdk_context \<Rightarrow> kvstore \<Rightarrow> string \<Rightarrow> ClientState \<Rightarrow> Height \<Rightarrow> u64 result" where
  "Client_GetTimestampAtHeight ctx s cid (TendermintClient cs) height = tm_GetTimestampAtHeight s cid height"
| "Client_GetTimestampAtHeight ctx s cid (SolomachineClient cs) height = and_then (sm_cons cs) (\<lambda>c. Inr (smc_Timestamp c))"
| "Client_GetTimestampAtHeight ctx s cid (LocalhostClient h) height = Inr (UnixNano64 (BlockTime ctx))"

fun Client_VerifyMembership ::
  "lib \<Rightarrow> sdk_context \<Rightarrow> string \<Rightarrow> ClientState \<Rightarrow> Height \<Rightarrow> u64 \<Rightarrow> u64 \<Rightarrow> bytes \<Rightarrow> MerklePath \<Rightarrow> bytes \<Rightarrow>
     kvstore \<Rightarrow> kvstore result" where
  "Client_VerifyMembership lib ctx cid (TendermintClient cs) height delayTime delayBlocks prf path val s =
     and_then (tm_VerifyMembership lib ctx s cid cs height delayTime delayBlocks prf path val) (\<lambda>_. Inr s)"
| "Client_VerifyMembership lib ctx cid (SolomachineClient cs) height delayTime delayBlocks prf path val s =
     sm_VerifyMembership lib cid cs prf path val s"
| "Client_VerifyMembership lib ctx cid (LocalhostClient h) height delayTime delayBlocks prf path val s =
     and_then (lh_VerifyMembership lib s cid prf path val) (\<lambda>_. Inr s)"

fun Client_VerifyNonMembership ::
  "lib \<Rightarrow> sdk_context \<Rightarrow> string \<Rightarrow> ClientState \<Rightarrow> Height \<Rightarrow> u64 \<Rightarrow> u64 \<Rightarrow> bytes \<Rightarrow> MerklePath \<Rightarrow>
     kvstore \<Rightarrow> kvstore result" where
  "Client_VerifyNonMembership lib ctx cid (TendermintClient cs) height delayTime delayBlocks prf path s =
     and_then (tm_VerifyNonMembership lib ctx s cid cs height delayTime delayBlocks prf path) (\<lambda>_. Inr s)"
| "Client_VerifyNonMembership lib ctx cid (SolomachineClient cs) height delayTime delayBlocks prf path s =
     sm_VerifyNonMembership lib cid cs prf path s"
| "Client_VerifyNonMembership lib ctx cid (LocalhostClient h) height delayTime delayBlocks prf path s =
     and_then (lh_VerifyNonMembership s cid prf path) (\<lambda>_. Inr s)"

fun Client_VerifyClientMessage :: "lib \<Rightarrow> sdk_context \<Rightarrow> kvstore \<Rightarrow> string \<Rightarrow> ClientState \<Rightarrow> ClientMessage \<Rightarrow> unit result" where
  "Client_VerifyClientMessage lib ctx s cid (TendermintClient cs) msg = tm_VerifyClientMessage lib ctx s cid cs msg"
| "Client_VerifyClientMessage lib ctx s cid (SolomachineClient cs) msg = sm_VerifyClientMessage lib cs msg"
| "Client_VerifyClientMessage lib ctx s cid (LocalhostClient h) msg = Inl client_ErrUpdateClientFailed"

fun Client_CheckForMisbehaviour :: "lib \<Rightarrow> kvstore \<Rightarrow> string \<Rightarrow> ClientState \<Rightarrow> ClientMessage \<Rightarrow> bool result" where
  "Client_CheckForMisbehaviour lib s cid (TendermintClient cs) msg = tm_CheckForMisbehaviour lib s cid msg"
| "Client_CheckForMisbehaviour lib s cid (SolomachineClient cs) msg = Inr (sm_CheckForMisbehaviour msg)"
| "Client_CheckForMisbehaviour lib s cid (LocalhostClient h) msg = Inr False"

fun Client_UpdateStateOnMisbehaviour :: "string \<Rightarrow> ClientState \<Rightarrow> kvstore \<Rightarrow> kvstore" where
  "Client_UpdateStateOnMisbehaviour cid (TendermintClient cs) s = tm_UpdateStateOnMisbehaviour cid cs s"
| "Client_UpdateStateOnMisbehaviour cid (SolomachineClient cs) s = sm_UpdateStateOnMisbehaviour cid cs s"
| "Client_UpdateStateOnMisbehaviour cid (LocalhostClient h) s = s"

fun Client_UpdateState ::
  "sdk_context \<Rightarrow> string \<Rightarrow> ClientState \<Rightarrow> ClientMessage option \<Rightarrow> kvstore \<Rightarrow> (Height list \<times> kvstore) result" where
  "Client_UpdateState ctx cid (TendermintClient cs) (Some msg) s = tm_UpdateState ctx cid cs msg s"
| "Client_UpdateState ctx cid (TendermintClient cs) None s = Inl (Panic ''expected type Header'')"
| "Client_UpdateState ctx cid (SolomachineClient cs) (Some msg) s = sm_UpdateState cid cs msg s"
| "Client_UpdateState ctx cid (SolomachineClient cs) None s = Inl (Panic ''unsupported ClientMessage'')"
| "Client_UpdateState ctx cid (LocalhostClient h) msg s = lh_UpdateState ctx cid s"

fun Client_VerifyUpgradeAndUpdateState ::
  "lib \<Rightarrow> sdk_context \<Rightarrow> string \<Rightarrow> ClientState \<Rightarrow> ClientState \<Rightarrow> ConsensusState \<Rightarrow> bytes \<Rightarrow> bytes \<Rightarrow>
     kvstore \<Rightarrow> kvstore result" where
  "Client_VerifyUpgradeAndUpdateState lib ctx cid (TendermintClient cs) upgraded upgradedCons prf1 prf2 s =
     tm_VerifyUpgradeAndUpdateState lib ctx cid cs upgraded (GetLatestHeight upgraded) upgradedCons prf1 prf2 s"
| "Client_VerifyUpgradeAndUpdateState lib ctx cid (SolomachineClient cs) upgraded upgradedCons prf1 prf2 s =
     Inl client_ErrInvalidUpgradeClient"
| "Client_VerifyUpgradeAndUpdateState lib ctx cid (LocalhostClient h) upgraded upgradedCons prf1 prf2 s =
     Inl client_ErrInvalidUpgradeClient"

fun Client_CheckSubstituteAndUpdateState ::
  "lib \<Rightarrow> sdk_context \<Rightarrow> string \<Rightarrow> string \<Rightarrow> ClientState \<Rightarrow> ClientState \<Rightarrow> kvstore \<Rightarrow> kvstore result" where
  "Client_CheckSubstituteAndUpdateState lib ctx subject substitute (TendermintClient cs) substituteClient s =
     tm_CheckSubstituteAndUpdateState ctx subject substitute cs substituteClient s"
| "Client_CheckSubstituteAndUpdateState lib ctx subject substitute (SolomachineClient cs) substituteClient s =
     sm_CheckSubstituteAndUpdateState lib subject cs substituteClient s"
| "Client_CheckSubstituteAndUpdateState lib ctx subject substitute (LocalhostClient h) substituteClient s =
     Inl client_ErrUpdateClientFailed"


section \<open>Frame lemmas\<close>

text \<open>
  Every operation of a client writes only below the path of that client, so that stores before and
  after it agree on connections, channels and packets.
\<close>

definition client_writes :: "string \<Rightarrow> kvstore \<Rightarrow> kvstore \<Rightarrow> bool" where
  "client_writes cid s t = (\<forall>k. (\<nexists>x. k = FullClientPath cid x) \<longrightarrow> kv_get s k = kv_get t k)"

lemma client_writes_refl [simp]: "client_writes cid s s"
  by (simp add: client_writes_def)

lemma client_writes_trans: "client_writes cid s t \<Longrightarrow> client_writes cid t u \<Longrightarrow> client_writes cid s u"
  by (simp add: client_writes_def)

lemma client_writes_set: "client_writes cid s t \<Longrightarrow> client_writes cid s (kv_set (FullClientPath cid k) v t)"
  by (auto simp: client_writes_def kv.get_put)

lemma client_writes_delete: "client_writes cid s t \<Longrightarrow> client_writes cid s (kv_delete (FullClientPath cid k) t)"
  by (auto simp: client_writes_def kv.get_del)

lemma client_writes_core: "client_writes cid s t \<Longrightarrow> core_eq s t"
  unfolding client_writes_def core_eq_def by (metis first_seg_paths(9))

lemma client_writes_other:
  assumes "client_writes cid s t" and "slash_free cid" and "slash_free d" and "d \<noteq> cid"
  shows "kv_get t (FullClientPath d k) = kv_get s (FullClientPath d k)"
  using assms FullClientPath_inj [of d cid k] by (auto simp: client_writes_def)

lemmas client_set_defs = tm_setClientState_def tm_setConsensusState_def deleteConsensusState_def
  SetProcessedTime_def deleteProcessedTime_def SetProcessedHeight_def deleteProcessedHeight_def
  SetIterationKey_def deleteIterationKey_def setConsensusMetadataWithValues_def
  deleteConsensusMetadata_def sm_setClientState_def sm_accept_def lh_setClientState_def

lemmas client_writes_intros = client_writes_refl client_writes_set client_writes_delete

lemma setConsensusMetadata_writes:
  "client_writes cid s t \<Longrightarrow> setConsensusMetadata ctx cid h t = Inr u \<Longrightarrow> client_writes cid s u"
  by (auto simp: setConsensusMetadata_def client_set_defs intro!: client_writes_intros)

lemma VerifyMembership_writes:
  "Client_VerifyMembership lib ctx cid cs h dt db prf path v s = Inr t \<Longrightarrow> client_writes cid s t"
  by (cases cs) (auto simp: sm_VerifyMembership_def Let_def client_set_defs split: if_splits
      intro!: client_writes_intros)

lemma VerifyNonMembership_writes:
  "Client_VerifyNonMembership lib ctx cid cs h dt db prf path s = Inr t \<Longrightarrow> client_writes cid s t"
  by (cases cs) (auto simp: sm_VerifyNonMembership_def Let_def client_set_defs split: if_splits
      intro!: client_writes_intros)

lemma Initialize_writes:
  "Client_Initialize ctx cid cs c s = Inr t \<Longrightarrow> client_writes cid s t"
  by (cases cs)
    (auto simp: tm_Initialize_def sm_Initialize_def lh_Initialize_def client_set_defs
      split: option.splits ConsensusState.splits if_splits
      intro!: client_writes_intros elim!: setConsensusMetadata_writes [rotated])

lemma pruneOldest_writes:
  "pruneOldestConsensusState ctx cid cs s = Inr t \<Longrightarrow> client_writes cid s t"
  by (auto simp: pruneOldestConsensusState_def client_set_defs split: list.splits option.splits if_splits
      intro!: client_writes_intros)

lemma tm_UpdateState_writes:
  assumes "tm_UpdateState ctx cid cs msg s = Inr (hs, t)"
  shows "client_writes cid s t"
proof -
  from assms obtain header s1 where msg: "msg = TmHeaderMsg header"
    and s1: "pruneOldestConsensusState ctx cid cs s = Inr s1"
    by (auto simp: tm_UpdateState_def split: ClientMessage.splits)
  have w: "client_writes cid s s1" using s1 by (rule pruneOldest_writes)
  from assms msg s1 w show ?thesis
    by (auto simp: tm_UpdateState_def Let_def client_set_defs split: if_splits
        intro!: client_writes_set elim!: setConsensusMetadata_writes [rotated])
qed

lemma UpdateState_writes:
  "Client_UpdateState ctx cid cs msg s = Inr (hs, t) \<Longrightarrow> client_writes cid s t"
proof (cases cs)
  case (TendermintClient tm)
  assume "Client_UpdateState ctx cid cs msg s = Inr (hs, t)"
  with TendermintClient show ?thesis by (cases msg) (auto elim: tm_UpdateState_writes)
next
  case (SolomachineClient sm)
  assume "Client_UpdateState ctx cid cs msg s = Inr (hs, t)"
  with SolomachineClient show ?thesis
    by (cases msg) (auto simp: sm_UpdateState_def Let_def client_set_defs split: ClientMessage.splits
        intro!: client_writes_intros)
next
  case (LocalhostClient h)
  assume "Client_UpdateState ctx cid cs msg s = Inr (hs, t)"
  with LocalhostClient show ?thesis
    by (auto simp: lh_UpdateState_def client_set_defs intro!: client_writes_intros)
qed

lemma UpdateStateOnMisbehaviour_writes: "client_writes cid s (Client_UpdateStateOnMisbehaviour cid cs s)"
  by (cases cs) (auto simp: tm_UpdateStateOnMisbehaviour_def sm_UpdateStateOnMisbehaviour_def
      client_set_defs intro!: client_writes_intros)

end
