(* ===== verification/Client_Keeper.thy ===== *)
theory Client_Keeper
  imports Light_Client
begin

text \<open>
  ICS-2, \<open>modules/core/02-client\<close>: client identifiers (\<open>types/keys.go\<close>) and the operations of the client
  keeper (\<open>keeper/keeper.go\<close>, \<open>keeper/client.go\<close>, \<open>keeper/proposal.go\<close>). The theorems: generated client
  identifiers are fresh and parse back, only active clients are updated or upgraded, misbehaviour
  freezes a client, and no operation of one client writes outside its own store.
\<close>

section \<open>Client identifiers\<close>

definition FormatClientIdentifier :: "string \<Rightarrow> u64 \<Rightarrow> string" where
  "FormatClientIdentifier clientType sequence = clientType @ ''-'' @ dec sequence"

text \<open>\<open>\w\<close> of the regular expressions: letters, digits and the underscore\<close>

definition word_char :: "char \<Rightarrow> bool" where
  "word_char c =
     (let n = of_char c :: nat in
      97 \<le> n \<and> n \<le> 122 \<or> 65 \<le> n \<and> n \<le> 90 \<or> 48 \<le> n \<and> n \<le> 57 \<or> n = 95)"

text \<open>
  The expression \<open>^\w+([\w-]+\w)?-[0-9]{1,20}$\<close>, read from the end: one to twenty digits, a dash, and
  before it word characters and dashes that start and end with a word character.
\<close>

definition IsClientIDFormat :: "string \<Rightarrow> bool" where
  "IsClientIDFormat s =
     (let r = rev s; ds = takeWhile is_digit r in
      case dropWhile is_digit r of
        [] \<Rightarrow> False
      | d # t \<Rightarrow>
          d = CHR ''-'' \<and> 1 \<le> length ds \<and> length ds \<le> 20
          \<and> t \<noteq> [] \<and> list_all (\<lambda>c. word_char c \<or> c = CHR ''-'') t \<and> word_char (hd t) \<and> word_char (last t))"

definition ParseClientIdentifier :: "string \<Rightarrow> (string \<times> u64) result" where
  "ParseClientIdentifier clientID =
     (if clientID = LocalhostClientID then Inr (clientID, 0)
      else if \<not> IsClientIDFormat clientID then Inl host_ErrInvalidID
      else
        let splitStr = Split clientID ''-''; lastIndex = length splitStr - 1;
            clientType = Join (take lastIndex splitStr) ''-'' in
        if is_blank clientType then Inl host_ErrInvalidID
        else case ParseUint (splitStr ! lastIndex) of
            None \<Rightarrow> Inl (ErrForeign ''strconv'')
          | Some sequence \<Rightarrow> Inr (clientType, sequence))"

definition IsValidClientID :: "string \<Rightarrow> bool" where
  "IsValidClientID clientID = is_ok (ParseClientIdentifier clientID)"

definition ValidateClientType :: "string \<Rightarrow> unit result" where
  "ValidateClientType clientType =
     (if is_blank clientType then Inl client_ErrInvalidClientType
      else
        let smallestPossibleClientID = FormatClientIdentifier clientType 0;
            largestPossibleClientID = FormatClientIdentifier clientType (- 1) in
        if \<not> IsValidClientID smallestPossibleClientID then Inl client_ErrInvalidClientType
        else and_then (ClientIdentifierValidator smallestPossibleClientID) (\<lambda>_.
          ClientIdentifierValidator largestPossibleClientID))"

definition GenerateClientIdentifier :: "string \<Rightarrow> kvstore \<Rightarrow> (string \<times> kvstore) result" where
  "GenerateClientIdentifier clientType s =
     and_then (GetNextClientSequence s) (\<lambda>nextClientSeq.
       Inr (FormatClientIdentifier clientType nextClientSeq, SetNextClientSequence (nextClientSeq + 1) s))"

section \<open>Keeper operations\<close>

definition GetClientStatus :: "sdk_context \<Rightarrow> kvstore \<Rightarrow> ClientState \<Rightarrow> string \<Rightarrow> Status result" where
  "GetClientStatus ctx s clientState clientID =
     and_then (GetClientParams s) (\<lambda>params.
       if \<not> IsAllowedClient params (ClientType clientState) then Inr Unauthorized
       else Inr (Client_Status ctx s clientID clientState))"

definition GetLatestClientConsensusState :: "kvstore \<Rightarrow> string \<Rightarrow> ConsensusState option" where
  "GetLatestClientConsensusState s clientID =
     (case GetClientState s clientID of None \<Rightarrow> None
      | Some clientState \<Rightarrow> GetClientConsensusState s clientID (GetLatestHeight clientState))"

definition CreateLocalhostClient :: "sdk_context \<Rightarrow> kvstore \<Rightarrow> kvstore result" where
  "CreateLocalhostClient ctx s = Client_Initialize ctx LocalhostClientID (LocalhostClient ZeroHeight) None s"

definition UpdateLocalhostClient :: "sdk_context \<Rightarrow> ClientState \<Rightarrow> kvstore \<Rightarrow> (Height list \<times> kvstore) result" where
  "UpdateLocalhostClient ctx clientState s = Client_UpdateState ctx LocalhostClientID clientState None s"

definition CreateClient ::
  "sdk_context \<Rightarrow> ClientState \<Rightarrow> ConsensusState \<Rightarrow> kvstore \<Rightarrow> (string \<times> kvstore) result" where
  "CreateClient ctx clientState consensusState s =
     (if ClientType clientState = Localhost then Inl client_ErrInvalidClientType
      else and_then (GetClientParams s) (\<lambda>params.
        if \<not> IsAllowedClient params (ClientType clientState) then Inl client_ErrInvalidClientType
        else and_then (GenerateClientIdentifier (ClientType clientState) s) (\<lambda>(clientID, s1).
          and_then (Client_Initialize ctx clientID clientState (Some consensusState) s1) (\<lambda>s2.
          and_then (GetClientStatus ctx s2 clientState clientID) (\<lambda>status.
            if status \<noteq> Active then Inl client_ErrClientNotActive
            else Inr (clientID, s2))))))"

definition UpdateClient :: "lib \<Rightarrow> sdk_context \<Rightarrow> string \<Rightarrow> ClientMessage \<Rightarrow> kvstore \<Rightarrow> kvstore result" where
  "UpdateClient lib ctx clientID clientMsg s =
     (case GetClientState s clientID of
        None \<Rightarrow> Inl client_ErrClientNotFound
      | Some clientState \<Rightarrow>
          and_then (GetClientStatus ctx s clientState clientID) (\<lambda>status.
            if status \<noteq> Active then Inl client_ErrClientNotActive
            else
              and_then (Client_VerifyClientMessage lib ctx s clientID clientState clientMsg) (\<lambda>_.
              and_then (Client_CheckForMisbehaviour lib s clientID clientState clientMsg) (\<lambda>foundMisbehaviour.
                if foundMisbehaviour then Inr (Client_UpdateStateOnMisbehaviour clientID clientState s)
                else and_then (Client_UpdateState ctx clientID clientState (Some clientMsg) s)
                       (\<lambda>(consensusHeights, s'). Inr s')))))"

definition UpgradeClient ::
  "lib \<Rightarrow> sdk_context \<Rightarrow> string \<Rightarrow> ClientState \<Rightarrow> ConsensusState \<Rightarrow> bytes \<Rightarrow> bytes \<Rightarrow> kvstore \<Rightarrow> kvstore result" where
  "UpgradeClient lib ctx clientID upgradedClient upgradedConsState proofUpgradeClient proofUpgradeConsState s =
     (case GetClientState s clientID of
        None \<Rightarrow> Inl client_ErrClientNotFound
      | Some clientState \<Rightarrow>
          and_then (GetClientStatus ctx s clientState clientID) (\<lambda>status.
            if status \<noteq> Active then Inl client_ErrClientNotActive
            else Client_VerifyUpgradeAndUpdateState lib ctx clientID clientState upgradedClient
                   upgradedConsState proofUpgradeClient proofUpgradeConsState s))"

definition ClientUpdateProposal :: "lib \<Rightarrow> sdk_context \<Rightarrow> string \<Rightarrow> string \<Rightarrow> kvstore \<Rightarrow> kvstore result" where
  "ClientUpdateProposal lib ctx subjectClientId substituteClientId s =
     (case GetClientState s subjectClientId of
        None \<Rightarrow> Inl client_ErrClientNotFound
      | Some subjectClientState \<Rightarrow>
          and_then (GetClientStatus ctx s subjectClientState subjectClientId) (\<lambda>status.
            if status = Active then Inl client_ErrInvalidUpdateClientProposal
            else case GetClientState s substituteClientId of
                None \<Rightarrow> Inl client_ErrClientNotFound
              | Some substituteClientState \<Rightarrow>
                  if GTE (GetLatestHeight subjectClientState) (GetLatestHeight substituteClientState)
                  then Inl client_ErrInvalidHeight
                  else and_then (GetClientStatus ctx s substituteClientState substituteClientId) (\<lambda>status.
                    if status \<noteq> Active then Inl client_ErrClientNotActive
                    else Client_CheckSubstituteAndUpdateState lib ctx subjectClientId substituteClientId
                           subjectClientState substituteClientState s)))"

section \<open>The chain's own client on the counterparty\<close>

definition GetSelfConsensusState :: "lib \<Rightarrow> sdk_context \<Rightarrow> Height \<Rightarrow> ConsensusState result" where
  "GetSelfConsensusState lib ctx height =
     and_then (ParseChainID (ChainID ctx)) (\<lambda>revision.
       if revision \<noteq> RevisionNumber height then Inl client_ErrInvalidHeight
       else case GetHistoricalInfo lib (sint (RevisionHeight height)) of
           None \<Rightarrow> Inl ibcerrors_ErrNotFound
         | Some consensusState \<Rightarrow> Inr (TendermintConsensus consensusState))"

definition ValidateSelfClient :: "lib \<Rightarrow> sdk_context \<Rightarrow> ClientState \<Rightarrow> unit result" where
  "ValidateSelfClient lib ctx clientState =
     (case clientState of
        TendermintClient tmClient \<Rightarrow>
          if \<not> IsZero (tm_FrozenHeight tmClient) then Inl client_ErrClientFrozen
          else if ChainID ctx \<noteq> tm_ChainId tmClient then Inl client_ErrInvalidClient
          else and_then (ParseChainID (ChainID ctx)) (\<lambda>revision.
            if RevisionNumber (tm_LatestHeight tmClient) \<noteq> revision then Inl client_ErrInvalidClient
            else if GTE (tm_LatestHeight tmClient) (NewHeight revision (word_of_int (BlockHeight ctx)))
            then Inl client_ErrInvalidClient
            else if GetSDKSpecs lib \<noteq> tm_ProofSpecs tmClient then Inl client_ErrInvalidClient
            else if \<not> ValidateTrustLevel lib (tm_TrustLevel tmClient) then Inl client_ErrInvalidClient
            else if UnbondingTime lib \<noteq> tm_UnbondingPeriod tmClient then Inl client_ErrInvalidClient
            else if tm_UnbondingPeriod tmClient < tm_TrustingPeriod tmClient then Inl client_ErrInvalidClient
            else if length (tm_UpgradePath tmClient) \<noteq> 0
                    \<and> [''upgrade'', ''upgradedIBCState''] \<noteq> tm_UpgradePath tmClient
            then Inl client_ErrInvalidClient
            else Inr ())
      | _ \<Rightarrow> Inl client_ErrInvalidClient)"

section \<open>Client identifiers parse back\<close>

definition client_type_ok :: "string \<Rightarrow> bool" where
  "client_type_ok t =
     (t \<noteq> [] \<and> list_all (\<lambda>c. word_char c \<or> c = CHR ''-'') t \<and> word_char (hd t) \<and> word_char (last t))"

lemma word_char_solid: "word_char c \<Longrightarrow> solid c"
  unfolding word_char_def solid_def ascii_space_def Let_def by (elim disjE conjE) auto

lemma client_type_not_blank: "client_type_ok t \<Longrightarrow> \<not> is_blank t"
  by (cases t) (auto simp: client_type_ok_def word_char_solid)

lemma IsClientIDFormat_Format: "client_type_ok t \<Longrightarrow> IsClientIDFormat (FormatClientIdentifier t n)"
proof -
  assume t: "client_type_ok t"
  have "1 \<le> length (dec n)" by (metis One_nat_def Suc_leI dec_nonempty length_greater_0_conv)
  with t show ?thesis
    using length_dec_le [of n] dec_digits [of n]
    by (auto simp: IsClientIDFormat_def FormatClientIdentifier_def Let_def dropWhile_digits_rev
        client_type_ok_def hd_rev last_rev list_all_iff)
qed

lemma ParseClientIdentifier_Format:
  assumes "client_type_ok t" and "FormatClientIdentifier t n \<noteq> LocalhostClientID"
  shows "ParseClientIdentifier (FormatClientIdentifier t n) = Inr (t, n)"
proof -
  have "Split (FormatClientIdentifier t n) ''-'' = Split t ''-'' @ [dec n]"
    by (simp add: FormatClientIdentifier_def Split_snoc)
  moreover have "Join (Split t ''-'') ''-'' = t" by (rule Join_Split)
  ultimately show ?thesis
    using assms IsClientIDFormat_Format [OF assms(1)] client_type_not_blank [OF assms(1)]
    by (simp add: ParseClientIdentifier_def Let_def)
qed

lemma FormatClientIdentifier_inj:
  "FormatClientIdentifier t n = FormatClientIdentifier u m \<longleftrightarrow> t = u \<and> n = m"
proof -
  have "dec n = dec m \<and> t = u" if "t @ CHR ''-'' # dec n = u @ CHR ''-'' # dec m"
  proof -
    have "rev (dec n) @ CHR ''-'' # rev t = rev (dec m) @ CHR ''-'' # rev u"
      using arg_cong [OF that, of rev] by simp
    then show ?thesis by (subst (asm) sep_append_inj) simp_all
  qed
  then show ?thesis by (auto simp: FormatClientIdentifier_def)
qed

lemma client_types_ok: "client_type_ok Tendermint" "client_type_ok Solomachine"
  by code_simp+

lemma slash_free_FormatClientIdentifier [simp]:
  "slash_free (FormatClientIdentifier t n) \<longleftrightarrow> slash_free t"
  by (simp add: FormatClientIdentifier_def)

lemma FormatClientIdentifier_not_localhost: "FormatClientIdentifier (ClientType cs) n \<noteq> LocalhostClientID"
  by (cases cs) (simp_all add: FormatClientIdentifier_def)


section \<open>Effect of the keeper operations\<close>

lemma GetClientStatus_Inr:
  "GetClientStatus ctx s cs cid = Inr st \<longleftrightarrow>
     (\<exists>allowed. GetClientParams s = Inr allowed
        \<and> st = (if ClientType cs \<in> set allowed then Client_Status ctx s cid cs else Unauthorized))"
  by (auto simp: GetClientStatus_def IsAllowedClient_def list_ex_iff)

lemma UpdateClient_writes:
  "UpdateClient lib ctx cid msg s = Inr t \<Longrightarrow> client_writes cid s t"
  by (auto simp: UpdateClient_def split: option.splits if_splits
      intro: UpdateStateOnMisbehaviour_writes UpdateState_writes)

lemma SetNextClientSequence_reads:
  "GetNextClientSequence (SetNextClientSequence n s) = Inr n"
  "GetClientParams (SetNextClientSequence n s) = GetClientParams s"
  "GetClientState (SetNextClientSequence n s) cid = GetClientState s cid"
  by (simp_all add: SetNextClientSequence_def GetNextClientSequence_def GetClientParams_def
      GetClientState_def store_simps path_simps)

lemma frozen_status:
  "Client_UpdateStateOnMisbehaviour cid cs s = t \<Longrightarrow> ClientType cs \<noteq> Localhost \<Longrightarrow>
   \<exists>cs'. GetClientState t cid = Some cs' \<and> ClientType cs' = ClientType cs \<and> Client_Status ctx t' cid cs' = Frozen"
  by (cases cs)
    (auto simp: tm_UpdateStateOnMisbehaviour_def sm_UpdateStateOnMisbehaviour_def client_set_defs
      GetClientState_def kv_typed_client tm_Status_def sm_Status_def tm_FrozenHeightConst_def ZeroHeight_def)

section \<open>Properties\<close>

text \<open>
  Only active clients can be used. When the status of a client is frozen, expired or
  unauthorized, neither a header or misbehaviour update nor an upgrade of it is accepted; and a
  client for which verified misbehaviour is submitted is frozen afterwards, whatever the context.
\<close>

theorem inactive_client_rejected:
  assumes "GetClientState s cid = Some cs" and "GetClientStatus ctx s cs cid = Inr st"
  shows "(st \<noteq> Active \<longrightarrow>
      UpdateClient lib ctx cid msg s = Inl client_ErrClientNotActive
      \<and> UpgradeClient lib ctx cid up upc p1 p2 s = Inl client_ErrClientNotActive)
    \<and> (UpdateClient lib ctx cid msg s = Inr t \<and> Client_CheckForMisbehaviour lib s cid cs msg = Inr True \<longrightarrow>
      (\<exists>cs'. GetClientState t cid = Some cs' \<and> ClientType cs' = ClientType cs
         \<and> Client_Status ctx' t' cid cs' = Frozen))"
proof -
  have "\<exists>cs'. GetClientState t cid = Some cs' \<and> ClientType cs' = ClientType cs
         \<and> Client_Status ctx' t' cid cs' = Frozen"
    if "UpdateClient lib ctx cid msg s = Inr t" and "Client_CheckForMisbehaviour lib s cid cs msg = Inr True"
  proof (rule frozen_status)
    show "Client_UpdateStateOnMisbehaviour cid cs s = t"
      using that assms by (auto simp: UpdateClient_def split: if_splits)
    show "ClientType cs \<noteq> Localhost" using that(2) by (cases cs) simp_all
  qed
  with assms show ?thesis by (simp add: UpdateClient_def UpgradeClient_def)
qed

text \<open>A store whose only client is a frozen Tendermint client.\<close>

definition ex_frozen :: TmClientState where
  "ex_frozen = ex_tm\<lparr>tm_FrozenHeight := NewHeight 0 1\<rparr>"

definition ex_frozen_store :: kvstore where
  "ex_frozen_store = SetClientParams [Tendermint] (tm_setClientState ''07-tendermint-0'' ex_frozen fmempty)"

lemma inactive_client_rejected_witness:
  "GetClientStatus ex_ctx ex_frozen_store (TendermintClient ex_frozen) ''07-tendermint-0'' = Inr Frozen
   \<and> (\<forall>lib msg. UpdateClient lib ex_ctx ''07-tendermint-0'' msg ex_frozen_store = Inl client_ErrClientNotActive)"
proof -
  have "GetClientState ex_frozen_store ''07-tendermint-0'' = Some (TendermintClient ex_frozen)"
    and st: "GetClientStatus ex_ctx ex_frozen_store (TendermintClient ex_frozen) ''07-tendermint-0'' = Inr Frozen"
    by code_simp+
  from inactive_client_rejected [OF this] st show ?thesis by simp
qed

text \<open>
  Creating a client. A successful \<open>CreateClient\<close> stores a client of the given type under a new
  identifier built from the type and the client counter, increments the counter, makes that client
  active, and leaves connections, channels, packets and all other clients as they were; the
  identifier parses back to type and counter value and is never the localhost identifier.
\<close>

theorem create_client_effect:
  assumes "CreateClient ctx cs cons s = Inr (cid, t)" and "GetNextClientSequence s = Inr n"
  shows "cid = FormatClientIdentifier (ClientType cs) n \<and> cid \<noteq> LocalhostClientID
    \<and> ParseClientIdentifier cid = Inr (ClientType cs, n)
    \<and> GetNextClientSequence t = Inr (n + 1)
    \<and> (\<exists>cs'. GetClientState t cid = Some cs' \<and> ClientType cs' = ClientType cs
        \<and> GetClientStatus ctx t cs cid = Inr Active)
    \<and> core_eq (SetNextClientSequence (n + 1) s) t
    \<and> (slash_free d \<and> d \<noteq> cid \<longrightarrow> GetClientState t d = GetClientState s d)"
proof -
  from assms have lh: "ClientType cs \<noteq> Localhost" and cid: "cid = FormatClientIdentifier (ClientType cs) n"
    and init: "Client_Initialize ctx cid cs (Some cons) (SetNextClientSequence (n + 1) s) = Inr t"
    and st: "GetClientStatus ctx t cs cid = Inr Active"
    by (auto simp: CreateClient_def GenerateClientIdentifier_def split: if_splits)
  note w = Initialize_writes [OF init]
  have type_ok: "client_type_ok (ClientType cs)" "slash_free (ClientType cs)"
    using lh client_types_ok by (cases cs; simp)+
  have nl: "cid \<noteq> LocalhostClientID" unfolding cid by (rule FormatClientIdentifier_not_localhost)
  have "GetNextClientSequence t = GetNextClientSequence (SetNextClientSequence (n + 1) s)"
    by (rule core_eq_reads(12) [OF client_writes_core [OF w]])
  then have "GetNextClientSequence t = Inr (n + 1)" by (simp add: SetNextClientSequence_reads)
  moreover have "\<exists>cs'. GetClientState t cid = Some cs' \<and> ClientType cs' = ClientType cs"
    using init lh
    by (cases cs) (auto simp: tm_Initialize_def sm_Initialize_def sm_setClientState_def GetClientState_def
        kv_typed_client tm_set_reads [unfolded GetClientState_def]
        dest!: setConsensusMetadata_reads(1) [unfolded GetClientState_def]
        split: option.splits ConsensusState.splits if_splits)
  moreover have "GetClientState t d = GetClientState s d" if "slash_free d" "d \<noteq> cid"
    using client_writes_other [OF w _ that] type_ok SetNextClientSequence_reads(3) [of "n + 1" s d] cid
    by (simp add: GetClientState_def kv_typed_def)
  ultimately show ?thesis
    using cid nl st ParseClientIdentifier_Format [OF type_ok(1), of n] client_writes_core [OF w] by simp
qed

definition ex_consensus :: ConsensusState where
  "ex_consensus = TendermintConsensus \<lparr>tmc_Timestamp = 20, tmc_Root = [5], tmc_NextValidatorsHash = [6]\<rparr>"

definition ex_empty_store :: kvstore where
  "ex_empty_store = SetNextClientSequence 4 (SetClientParams [Tendermint] fmempty)"

lemma create_client_effect_witness:
  "\<exists>t. CreateClient ex_ctx (TendermintClient ex_tm) ex_consensus ex_empty_store = Inr (''07-tendermint-4'', t)
     \<and> GetClientStatus ex_ctx t (TendermintClient ex_tm) ''07-tendermint-4'' = Inr Active"
proof -
  have "is_ok (CreateClient ex_ctx (TendermintClient ex_tm) ex_consensus ex_empty_store)" by code_simp
  then obtain i t where u: "CreateClient ex_ctx (TendermintClient ex_tm) ex_consensus ex_empty_store = Inr (i, t)"
    by (auto simp: is_ok_iff)
  have "GetNextClientSequence ex_empty_store = Inr 4" by code_simp
  moreover have "FormatClientIdentifier (ClientType (TendermintClient ex_tm)) 4 = ''07-tendermint-4''" by code_simp
  ultimately show ?thesis using create_client_effect [OF u, where d = "[]"] u by auto
qed

end
