(* ===== verification/Connection_Keeper.thy ===== *)
theory Connection_Keeper
  imports Client_Keeper
begin

text \<open>
  ICS-3, \<open>modules/core/03-connection/keeper\<close>: the proof verifications the connection keeper offers
  (\<open>verify.go\<close>), the connection handshake (\<open>handshake.go\<close>) and the bookkeeping of connections
  (\<open>keeper.go\<close>). The verifications share the contract \<open>verifier\<close>: they change nothing but the client they
  query. The theorems: the handshake moves a connection only along INIT, TRYOPEN, OPEN, its
  identifiers are fresh, and no proof is accepted from a client that is not active.
\<close>

section \<open>Block delay\<close>

text \<open>
  \<open>float64\<close>: a positive rational \<open>a / b\<close> is rounded to 53 significant bits, ties to even. A float is kept
  as its significand and the (possibly negative) exponent of two.
\<close>

fun bit_length :: "nat \<Rightarrow> nat" where
  "bit_length n = (if n = 0 then 0 else Suc (bit_length (n div 2)))"

declare bit_length.simps [simp del]

definition round_half_even :: "nat \<Rightarrow> nat \<Rightarrow> nat" where
  "round_half_even num den =
     (let q = num div den; r = num mod den in
      if 2 * r < den then q
      else if 2 * r > den then q + 1
      else if even q then q else q + 1)"

text \<open>\<open>(m, s)\<close> stands for \<open>m / 2 ^ s\<close> when \<open>s \<ge> 0\<close> and for \<open>m * 2 ^ (- s)\<close> otherwise.\<close>

type_synonym float64 = "nat \<times> int"

definition float_ratio :: "nat \<Rightarrow> nat \<Rightarrow> float64" where
  "float_ratio a b =
     (if a = 0 then (0, 0)
      else
        let k = int (bit_length a) - int (bit_length b);
            lg = (if (if 0 \<le> k then b * 2 ^ nat k \<le> a else b \<le> a * 2 ^ nat (- k)) then k else k - 1);
            s = 52 - lg in
        (if 0 \<le> s then (round_half_even (a * 2 ^ nat s) b, s)
         else (round_half_even a (b * 2 ^ nat (- s)), s)))"

text \<open>A float as a fraction; \<open>float64(n)\<close>, the quotient of two floats, and \<open>math.Ceil\<close>.\<close>

definition float_num :: "float64 \<Rightarrow> nat" where
  "float_num f = (if 0 \<le> snd f then fst f else fst f * 2 ^ nat (- snd f))"

definition float_den :: "float64 \<Rightarrow> nat" where
  "float_den f = (if 0 \<le> snd f then 2 ^ nat (snd f) else 1)"

definition float_of_u64 :: "u64 \<Rightarrow> float64" where
  "float_of_u64 n = float_ratio (unat n) 1"

definition float_div :: "float64 \<Rightarrow> float64 \<Rightarrow> float64" where
  "float_div f g = float_ratio (float_num f * float_den g) (float_den f * float_num g)"

definition float_ceil :: "float64 \<Rightarrow> nat" where
  "float_ceil f = (float_num f + float_den f - 1) div float_den f"

definition u64_of_nat :: "lib \<Rightarrow> nat \<Rightarrow> u64" where
  "u64_of_nat lib n = (if n < 2 ^ 64 then word_of_nat n else float_overflow lib)"

definition getBlockDelay :: "lib \<Rightarrow> kvstore \<Rightarrow> ConnectionEnd \<Rightarrow> u64 result" where
  "getBlockDelay lib s connection =
     and_then (GetConnectionParams s) (\<lambda>expectedTimePerBlock.
       if expectedTimePerBlock = 0 then Inr 0
       else Inr (u64_of_nat lib (float_ceil
              (float_div (float_of_u64 (conn_DelayPeriod connection)) (float_of_u64 expectedTimePerBlock)))))"

section \<open>Proof verification\<close>

text \<open>The client of a connection, when it is active.\<close>

definition getActiveClient :: "sdk_context \<Rightarrow> kvstore \<Rightarrow> string \<Rightarrow> ClientState result" where
  "getActiveClient ctx s clientID =
     (case GetClientState s clientID of
        None \<Rightarrow> Inl client_ErrClientNotFound
      | Some clientState \<Rightarrow>
          and_then (GetClientStatus ctx s clientState clientID) (\<lambda>status.
            if status \<noteq> Active then Inl client_ErrClientNotActive else Inr clientState))"

definition VerifyClientState ::
  "lib \<Rightarrow> sdk_context \<Rightarrow> ConnectionEnd \<Rightarrow> Height \<Rightarrow> bytes \<Rightarrow> ClientState \<Rightarrow> kvstore \<Rightarrow> kvstore result" where
  "VerifyClientState lib ctx connection height pf clientState s =
     (let clientID = conn_ClientId connection in
      and_then (getActiveClient ctx s clientID) (\<lambda>targetClient.
      and_then (ApplyPrefix (cp_Prefix (conn_Counterparty connection))
                 [FullClientStatePath (cp_ClientId (conn_Counterparty connection))]) (\<lambda>merklePath.
      Client_VerifyMembership lib ctx clientID targetClient height 0 0 pf merklePath
        (MarshalClientState lib clientState) s)))"

definition VerifyClientConsensusState ::
  "lib \<Rightarrow> sdk_context \<Rightarrow> ConnectionEnd \<Rightarrow> Height \<Rightarrow> Height \<Rightarrow> bytes \<Rightarrow> ConsensusState \<Rightarrow> kvstore \<Rightarrow> kvstore result" where
  "VerifyClientConsensusState lib ctx connection height consensusHeight pf consensusState s =
     (let clientID = conn_ClientId connection in
      and_then (getActiveClient ctx s clientID) (\<lambda>clientState.
      and_then (ApplyPrefix (cp_Prefix (conn_Counterparty connection))
                 [FullConsensusStatePath (cp_ClientId (conn_Counterparty connection)) (Height_String consensusHeight)])
        (\<lambda>merklePath.
      Client_VerifyMembership lib ctx clientID clientState height 0 0 pf merklePath
        (MarshalConsensusState lib consensusState) s)))"

definition VerifyConnectionState ::
  "lib \<Rightarrow> sdk_context \<Rightarrow> ConnectionEnd \<Rightarrow> Height \<Rightarrow> bytes \<Rightarrow> string \<Rightarrow> ConnectionEnd \<Rightarrow> kvstore \<Rightarrow> kvstore result" where
  "VerifyConnectionState lib ctx connection height pf connectionID counterpartyConnection s =
     (let clientID = conn_ClientId connection in
      and_then (getActiveClient ctx s clientID) (\<lambda>clientState.
      and_then (ApplyPrefix (cp_Prefix (conn_Counterparty connection)) [ConnectionPath connectionID]) (\<lambda>merklePath.
      Client_VerifyMembership lib ctx clientID clientState height 0 0 pf merklePath
        (MarshalConnection lib counterpartyConnection) s)))"

definition VerifyChannelState ::
  "lib \<Rightarrow> sdk_context \<Rightarrow> ConnectionEnd \<Rightarrow> Height \<Rightarrow> bytes \<Rightarrow> string \<Rightarrow> string \<Rightarrow> Channel \<Rightarrow> kvstore \<Rightarrow> kvstore result" where
  "VerifyChannelState lib ctx connection height pf portID channelID channel s =
     (let clientID = conn_ClientId connection in
      and_then (getActiveClient ctx s clientID) (\<lambda>clientState.
      and_then (ApplyPrefix (cp_Prefix (conn_Counterparty connection)) [ChannelPath portID channelID]) (\<lambda>merklePath.
      Client_VerifyMembership lib ctx clientID clientState height 0 0 pf merklePath
        (MarshalChannel lib channel) s)))"

definition VerifyPacketCommitment ::
  "lib \<Rightarrow> sdk_context \<Rightarrow> ConnectionEnd \<Rightarrow> Height \<Rightarrow> bytes \<Rightarrow> string \<Rightarrow> string \<Rightarrow> u64 \<Rightarrow> bytes \<Rightarrow> kvstore \<Rightarrow>
     kvstore result" where
  "VerifyPacketCommitment lib ctx connection height pf portID channelID sequence commitmentBytes s =
     (let clientID = conn_ClientId connection in
      and_then (getActiveClient ctx s clientID) (\<lambda>clientState.
      and_then (getBlockDelay lib s connection) (\<lambda>blockDelay.
      and_then (ApplyPrefix (cp_Prefix (conn_Counterparty connection))
                 [PacketCommitmentPath portID channelID sequence]) (\<lambda>merklePath.
      Client_VerifyMembership lib ctx clientID clientState height (conn_DelayPeriod connection) blockDelay
        pf merklePath commitmentBytes s))))"

definition VerifyPacketAcknowledgement ::
  "lib \<Rightarrow> sdk_context \<Rightarrow> ConnectionEnd \<Rightarrow> Height \<Rightarrow> bytes \<Rightarrow> string \<Rightarrow> string \<Rightarrow> u64 \<Rightarrow> bytes \<Rightarrow> kvstore \<Rightarrow>
     kvstore result" where
  "VerifyPacketAcknowledgement lib ctx connection height pf portID channelID sequence acknowledgement s =
     (let clientID = conn_ClientId connection in
      and_then (getActiveClient ctx s clientID) (\<lambda>clientState.
      and_then (getBlockDelay lib s connection) (\<lambda>blockDelay.
      and_then (ApplyPrefix (cp_Prefix (conn_Counterparty connection))
                 [PacketAcknowledgementPath portID channelID sequence]) (\<lambda>merklePath.
      Client_VerifyMembership lib ctx clientID clientState height (conn_DelayPeriod connection) blockDelay
        pf merklePath (CommitAcknowledgement acknowledgement) s))))"

definition VerifyPacketReceiptAbsence ::
  "lib \<Rightarrow> sdk_context \<Rightarrow> ConnectionEnd \<Rightarrow> Height \<Rightarrow> bytes \<Rightarrow> string \<Rightarrow> string \<Rightarrow> u64 \<Rightarrow> kvstore \<Rightarrow> kvstore result" where
  "VerifyPacketReceiptAbsence lib ctx connection height pf portID channelID sequence s =
     (let clientID = conn_ClientId connection in
      and_then (getActiveClient ctx s clientID) (\<lambda>clientState.
      and_then (getBlockDelay lib s connection) (\<lambda>blockDelay.
      and_then (ApplyPrefix (cp_Prefix (conn_Counterparty connection))
                 [PacketReceiptPath portID channelID sequence]) (\<lambda>merklePath.
      Client_VerifyNonMembership lib ctx clientID clientState height (conn_DelayPeriod connection) blockDelay
        pf merklePath s))))"

definition VerifyNextSequenceRecv ::
  "lib \<Rightarrow> sdk_context \<Rightarrow> ConnectionEnd \<Rightarrow> Height \<Rightarrow> bytes \<Rightarrow> string \<Rightarrow> string \<Rightarrow> u64 \<Rightarrow> kvstore \<Rightarrow> kvstore result" where
  "VerifyNextSequenceRecv lib ctx connection height pf portID channelID nextSequenceRecv s =
     (let clientID = conn_ClientId connection in
      and_then (getActiveClient ctx s clientID) (\<lambda>clientState.
      and_then (getBlockDelay lib s connection) (\<lambda>blockDelay.
      and_then (ApplyPrefix (cp_Prefix (conn_Counterparty connection))
                 [NextSequenceRecvPath portID channelID]) (\<lambda>merklePath.
      Client_VerifyMembership lib ctx clientID clientState height (conn_DelayPeriod connection) blockDelay
        pf merklePath (Uint64ToBigEndian nextSequenceRecv) s))))"

section \<open>Connections\<close>

definition Connection_GetTimestampAtHeight :: "sdk_context \<Rightarrow> kvstore \<Rightarrow> ConnectionEnd \<Rightarrow> Height \<Rightarrow> u64 result" where
  "Connection_GetTimestampAtHeight ctx s connection height =
     (case GetClientState s (conn_ClientId connection) of
        None \<Rightarrow> Inl client_ErrClientNotFound
      | Some clientState \<Rightarrow> Client_GetTimestampAtHeight ctx s (conn_ClientId connection) clientState height)"

definition CreateSentinelLocalhostConnection :: "lib \<Rightarrow> kvstore \<Rightarrow> kvstore" where
  "CreateSentinelLocalhostConnection lib s =
     SetConnection LocalhostConnectionID
       (NewConnectionEnd CONN_OPEN LocalhostClientID
         (NewConnCounterparty LocalhostClientID LocalhostConnectionID (storeKeyName lib))
         GetCompatibleVersions 0) s"

definition addConnectionToClient :: "string \<Rightarrow> string \<Rightarrow> kvstore \<Rightarrow> kvstore result" where
  "addConnectionToClient clientID connectionID s =
     (case GetClientState s clientID of
        None \<Rightarrow> Inl client_ErrClientNotFound
      | Some _ \<Rightarrow>
          let conns = (case GetClientConnectionPaths s clientID of None \<Rightarrow> [] | Some conns \<Rightarrow> conns) in
          Inr (SetClientConnectionPaths clientID (conns @ [connectionID]) s))"

section \<open>The handshake\<close>

definition ConnOpenInit ::
  "sdk_context \<Rightarrow> string \<Rightarrow> ConnCounterparty \<Rightarrow> Version option \<Rightarrow> u64 \<Rightarrow> kvstore \<Rightarrow> (string \<times> kvstore) result" where
  "ConnOpenInit ctx clientID counterparty version delayPeriod s =
     and_then
       (case version of
          None \<Rightarrow> Inr GetCompatibleVersions
        | Some v \<Rightarrow> if \<not> IsSupportedVersion GetCompatibleVersions v then Inl connection_ErrInvalidVersion else Inr [v])
     (\<lambda>versions.
     and_then (getActiveClient ctx s clientID) (\<lambda>clientState.
     and_then (GenerateConnectionIdentifier s) (\<lambda>(connectionID, s1).
     and_then (addConnectionToClient clientID connectionID s1) (\<lambda>s2.
       Inr (connectionID,
            SetConnection connectionID (NewConnectionEnd CONN_INIT clientID counterparty versions delayPeriod) s2)))))"

definition ConnOpenTry ::
  "lib \<Rightarrow> sdk_context \<Rightarrow> ConnCounterparty \<Rightarrow> u64 \<Rightarrow> string \<Rightarrow> ClientState \<Rightarrow> Version list \<Rightarrow> bytes \<Rightarrow> bytes \<Rightarrow> bytes \<Rightarrow>
     Height \<Rightarrow> Height \<Rightarrow> kvstore \<Rightarrow> (string \<times> kvstore) result" where
  "ConnOpenTry lib ctx counterparty delayPeriod clientID clientState counterpartyVersions
     proofInit proofClient proofConsensus proofHeight consensusHeight s =
     and_then (GenerateConnectionIdentifier s) (\<lambda>(connectionID, s1).
     and_then (GetSelfHeight ctx) (\<lambda>selfHeight.
     if GTE consensusHeight selfHeight then Inl ibcerrors_ErrInvalidHeight
     else
     and_then (ValidateSelfClient lib ctx clientState) (\<lambda>_.
     and_then (GetSelfConsensusState lib ctx consensusHeight) (\<lambda>expectedConsensusState.
     let expectedCounterparty = NewConnCounterparty clientID [] (storeKeyName lib);
         expectedConnection = NewConnectionEnd CONN_INIT (cp_ClientId counterparty) expectedCounterparty
           counterpartyVersions delayPeriod in
     and_then (PickVersion GetCompatibleVersions counterpartyVersions) (\<lambda>version.
     let connection = NewConnectionEnd CONN_TRYOPEN clientID counterparty [version] delayPeriod in
     and_then (VerifyConnectionState lib ctx connection proofHeight proofInit (cp_ConnectionId counterparty)
       expectedConnection s1) (\<lambda>s2.
     and_then (VerifyClientState lib ctx connection proofHeight proofClient clientState s2) (\<lambda>s3.
     and_then (VerifyClientConsensusState lib ctx connection proofHeight consensusHeight proofConsensus
       expectedConsensusState s3) (\<lambda>s4.
     and_then (addConnectionToClient clientID connectionID s4) (\<lambda>s5.
       Inr (connectionID, SetConnection connectionID connection s5))))))))))"

definition ConnOpenAck ::
  "lib \<Rightarrow> sdk_context \<Rightarrow> string \<Rightarrow> ClientState \<Rightarrow> Version \<Rightarrow> string \<Rightarrow> bytes \<Rightarrow> bytes \<Rightarrow> bytes \<Rightarrow> Height \<Rightarrow> Height \<Rightarrow>
     kvstore \<Rightarrow> kvstore result" where
  "ConnOpenAck lib ctx connectionID clientState version counterpartyConnectionID
     proofTry proofClient proofConsensus proofHeight consensusHeight s =
     and_then (GetSelfHeight ctx) (\<lambda>selfHeight.
     if GTE consensusHeight selfHeight then Inl ibcerrors_ErrInvalidHeight
     else case GetConnection s connectionID of
       None \<Rightarrow> Inl connection_ErrConnectionNotFound
     | Some connection \<Rightarrow>
         if conn_State connection \<noteq> CONN_INIT then Inl connection_ErrInvalidConnectionState
         else if \<not> IsSupportedVersion (conn_Versions connection) version
         then Inl connection_ErrInvalidConnectionState
         else
         and_then (ValidateSelfClient lib ctx clientState) (\<lambda>_.
         and_then (GetSelfConsensusState lib ctx consensusHeight) (\<lambda>expectedConsensusState.
         let expectedCounterparty = NewConnCounterparty (conn_ClientId connection) connectionID (storeKeyName lib);
             expectedConnection = NewConnectionEnd CONN_TRYOPEN (cp_ClientId (conn_Counterparty connection))
               expectedCounterparty [version] (conn_DelayPeriod connection) in
         and_then (VerifyConnectionState lib ctx connection proofHeight proofTry counterpartyConnectionID
           expectedConnection s) (\<lambda>s1.
         and_then (VerifyClientState lib ctx connection proofHeight proofClient clientState s1) (\<lambda>s2.
         and_then (VerifyClientConsensusState lib ctx connection proofHeight consensusHeight proofConsensus
           expectedConsensusState s2) (\<lambda>s3.
           Inr (SetConnection connectionID
             (connection\<lparr>conn_State := CONN_OPEN, conn_Versions := [version],
                conn_Counterparty := (conn_Counterparty connection)\<lparr>cp_ConnectionId := counterpartyConnectionID\<rparr>\<rparr>)
             s3)))))))"

definition ConnOpenConfirm ::
  "lib \<Rightarrow> sdk_context \<Rightarrow> string \<Rightarrow> bytes \<Rightarrow> Height \<Rightarrow> kvstore \<Rightarrow> kvstore result" where
  "ConnOpenConfirm lib ctx connectionID proofAck proofHeight s =
     (case GetConnection s connectionID of
        None \<Rightarrow> Inl connection_ErrConnectionNotFound
      | Some connection \<Rightarrow>
          if conn_State connection \<noteq> CONN_TRYOPEN then Inl connection_ErrInvalidConnectionState
          else
          let expectedCounterparty = NewConnCounterparty (conn_ClientId connection) connectionID (storeKeyName lib);
              expectedConnection = NewConnectionEnd CONN_OPEN (cp_ClientId (conn_Counterparty connection))
                expectedCounterparty (conn_Versions connection) (conn_DelayPeriod connection) in
          and_then (VerifyConnectionState lib ctx connection proofHeight proofAck
            (cp_ConnectionId (conn_Counterparty connection)) expectedConnection s) (\<lambda>s1.
            Inr (SetConnection connectionID (connection\<lparr>conn_State := CONN_OPEN\<rparr>) s1)))"


section \<open>The contract of the verifications\<close>

text \<open>
  A verification queries one client, which has to be active; it writes nothing outside the store of
  that client.
\<close>

locale verifier =
  fixes verify :: "kvstore \<Rightarrow> kvstore result"
    and ctx :: sdk_context
    and cid :: string
  assumes writes: "verify s = Inr t \<Longrightarrow> client_writes cid s t"
    and active: "verify s = Inr t \<Longrightarrow> \<exists>cs. getActiveClient ctx s cid = Inr cs"
begin

lemma core: "verify s = Inr t \<Longrightarrow> core_eq s t"
  by (rule client_writes_core [OF writes])

lemma rejects_inactive:
  "GetClientState s cid = Some cs \<Longrightarrow> GetClientStatus ctx s cs cid = Inr st \<Longrightarrow> st \<noteq> Active \<Longrightarrow>
   \<exists>e. verify s = Inl e"
  using active [of s] by (cases "verify s") (auto simp: getActiveClient_def)

lemma needs_client: "GetClientState s cid = None \<Longrightarrow> \<exists>e. verify s = Inl e"
  using active [of s] by (cases "verify s") (auto simp: getActiveClient_def)

end

interpretation client_state_v: verifier "VerifyClientState lib ctx conn h pf cs" ctx "conn_ClientId conn"
  for lib ctx conn h pf cs
  by unfold_locales (auto simp: VerifyClientState_def Let_def intro: VerifyMembership_writes)

interpretation consensus_v:
  verifier "VerifyClientConsensusState lib ctx conn h ch pf cons" ctx "conn_ClientId conn"
  for lib ctx conn h ch pf cons
  by unfold_locales (auto simp: VerifyClientConsensusState_def Let_def intro: VerifyMembership_writes)

interpretation connection_v: verifier "VerifyConnectionState lib ctx conn h pf i cp" ctx "conn_ClientId conn"
  for lib ctx conn h pf i cp
  by unfold_locales (auto simp: VerifyConnectionState_def Let_def intro: VerifyMembership_writes)

interpretation channel_v: verifier "VerifyChannelState lib ctx conn h pf p c ch" ctx "conn_ClientId conn"
  for lib ctx conn h pf p c ch
  by unfold_locales (auto simp: VerifyChannelState_def Let_def intro: VerifyMembership_writes)

interpretation commitment_v: verifier "VerifyPacketCommitment lib ctx conn h pf p c n bz" ctx "conn_ClientId conn"
  for lib ctx conn h pf p c n bz
  by unfold_locales (auto simp: VerifyPacketCommitment_def Let_def intro: VerifyMembership_writes)

interpretation ack_v: verifier "VerifyPacketAcknowledgement lib ctx conn h pf p c n a" ctx "conn_ClientId conn"
  for lib ctx conn h pf p c n a
  by unfold_locales (auto simp: VerifyPacketAcknowledgement_def Let_def intro: VerifyMembership_writes)

interpretation absence_v: verifier "VerifyPacketReceiptAbsence lib ctx conn h pf p c n" ctx "conn_ClientId conn"
  for lib ctx conn h pf p c n
  by unfold_locales (auto simp: VerifyPacketReceiptAbsence_def Let_def intro: VerifyNonMembership_writes)

interpretation next_recv_v: verifier "VerifyNextSequenceRecv lib ctx conn h pf p c n" ctx "conn_ClientId conn"
  for lib ctx conn h pf p c n
  by unfold_locales (auto simp: VerifyNextSequenceRecv_def Let_def intro: VerifyMembership_writes)

lemmas verify_core = client_state_v.core consensus_v.core connection_v.core channel_v.core
  commitment_v.core ack_v.core absence_v.core next_recv_v.core

section \<open>Effect of the handshake\<close>

lemma addConnectionToClient_core: "addConnectionToClient clientID i s = Inr t \<Longrightarrow> core_eq s t"
  by (auto simp: addConnectionToClient_def SetClientConnectionPaths_def ClientConnectionsPath_def
      core_eq_set_client split: option.splits)

lemma GenerateConnectionIdentifier_Inr:
  "GenerateConnectionIdentifier s = Inr (i, t) \<longleftrightarrow>
     (\<exists>n. GetNextConnectionSequence s = Inr n \<and> i = FormatConnectionIdentifier n
        \<and> t = SetNextConnectionSequence (n + 1) s)"
  by (auto simp: GenerateConnectionIdentifier_def split: sum.splits)

lemma SetNextConnectionSequence_reads:
  "GetNextConnectionSequence (SetNextConnectionSequence n s) = Inr n"
  "GetConnection (SetNextConnectionSequence n s) i = GetConnection s i"
  by (simp_all add: set_defs GetNextConnectionSequence_def store_simps path_simps)

lemma SetConnection_reads:
  "GetConnection (SetConnection i c s) j = (if i = j then Some c else GetConnection s j)"
  "GetNextConnectionSequence (SetConnection i c s) = GetNextConnectionSequence s"
  by (simp_all add: set_defs GetNextConnectionSequence_def store_simps path_simps)

text \<open>
  The stores of a handshake step, seen through the reads of connections: \<open>conn_added\<close> for a step that
  creates a connection from the counter, \<open>conn_changed\<close> for one that replaces an existing connection.
\<close>

definition conn_added :: "kvstore \<Rightarrow> string \<Rightarrow> ConnectionEnd \<Rightarrow> kvstore \<Rightarrow> bool" where
  "conn_added s i c t =
     (\<exists>n. GetNextConnectionSequence s = Inr n \<and> i = FormatConnectionIdentifier n
        \<and> GetNextConnectionSequence t = Inr (n + 1)
        \<and> (\<forall>j. GetConnection t j = (if j = i then Some c else GetConnection s j)))"

definition conn_changed :: "kvstore \<Rightarrow> string \<Rightarrow> ConnectionEnd \<Rightarrow> kvstore \<Rightarrow> bool" where
  "conn_changed s i c t =
     (GetNextConnectionSequence t = GetNextConnectionSequence s
      \<and> (\<forall>j. GetConnection t j = (if j = i then Some c else GetConnection s j)))"

lemma conn_added_intro:
  assumes "GenerateConnectionIdentifier s = Inr (i, s1)" and "core_eq s1 t"
  shows "conn_added s i c (SetConnection i c t)"
  using assms(1) core_eq_reads [OF assms(2)]
  by (auto simp: conn_added_def GenerateConnectionIdentifier_Inr SetConnection_reads
      SetNextConnectionSequence_reads)

lemma conn_changed_intro: "core_eq s t \<Longrightarrow> conn_changed s i c (SetConnection i c t)"
  by (auto simp: conn_changed_def SetConnection_reads dest: core_eq_reads)

lemma ConnOpenInit_effect:
  assumes "ConnOpenInit ctx clientID counterparty version delayPeriod s = Inr (i, t)"
  shows "\<exists>vs. conn_added s i (NewConnectionEnd CONN_INIT clientID counterparty vs delayPeriod) t"
  using assms
  by (auto simp: ConnOpenInit_def split: option.splits if_splits
      intro!: conn_added_intro dest: addConnectionToClient_core)

lemma ConnOpenTry_effect:
  assumes "ConnOpenTry lib ctx counterparty delayPeriod clientID clientState cvs p1 p2 p3 h ch s = Inr (i, t)"
  shows "\<exists>v. PickVersion GetCompatibleVersions cvs = Inr v
    \<and> conn_added s i (NewConnectionEnd CONN_TRYOPEN clientID counterparty [v] delayPeriod) t"
  using assms
  by (auto simp: ConnOpenTry_def Let_def split: if_splits
      intro!: conn_added_intro dest!: verify_core addConnectionToClient_core intro: core_eq_trans)

text \<open>
  The end of an open connection: after INIT the acknowledgement fixes the counterparty's connection
  identifier and one of the proposed versions, after TRYOPEN nothing but the state changes.
\<close>

definition conn_acked :: "ConnectionEnd \<Rightarrow> Version \<Rightarrow> string \<Rightarrow> ConnectionEnd" where
  "conn_acked c v cpi = c\<lparr>conn_State := CONN_OPEN, conn_Versions := [v],
     conn_Counterparty := (conn_Counterparty c)\<lparr>cp_ConnectionId := cpi\<rparr>\<rparr>"

lemma ConnOpenAck_effect:
  assumes "ConnOpenAck lib ctx i clientState version cpi p1 p2 p3 h ch s = Inr t"
  shows "\<exists>c. GetConnection s i = Some c \<and> conn_State c = CONN_INIT
    \<and> IsSupportedVersion (conn_Versions c) version
    \<and> conn_changed s i (conn_acked c version cpi) t"
  using assms
  by (auto simp: ConnOpenAck_def conn_acked_def Let_def split: if_splits option.splits
      intro!: conn_changed_intro dest!: verify_core intro: core_eq_trans)

lemma ConnOpenConfirm_effect:
  assumes "ConnOpenConfirm lib ctx i pf h s = Inr t"
  shows "\<exists>c. GetConnection s i = Some c \<and> conn_State c = CONN_TRYOPEN
    \<and> conn_changed s i (c\<lparr>conn_State := CONN_OPEN\<rparr>) t"
  using assms
  by (auto simp: ConnOpenConfirm_def Let_def split: if_splits option.splits
      intro!: conn_changed_intro dest!: verify_core)

section \<open>The connection state machine\<close>

inductive conn_step :: "lib \<Rightarrow> kvstore \<Rightarrow> kvstore \<Rightarrow> bool" for lib where
  step_init: "ConnOpenInit ctx clientID counterparty version delayPeriod s = Inr (i, t) \<Longrightarrow> conn_step lib s t"
| step_try: "ConnOpenTry lib ctx counterparty delayPeriod clientID clientState cvs p1 p2 p3 h ch s = Inr (i, t) \<Longrightarrow>
    conn_step lib s t"
| step_ack: "ConnOpenAck lib ctx i clientState version cpi p1 p2 p3 h ch s = Inr t \<Longrightarrow> conn_step lib s t"
| step_confirm: "ConnOpenConfirm lib ctx i pf h s = Inr t \<Longrightarrow> conn_step lib s t"
| step_update_client: "UpdateClient lib ctx clientID msg s = Inr t \<Longrightarrow> conn_step lib s t"

inductive conn_reachable :: "lib \<Rightarrow> kvstore \<Rightarrow> kvstore \<Rightarrow> bool" for lib s where
  conn_start: "conn_reachable lib s s"
| conn_next: "conn_reachable lib s t \<Longrightarrow> conn_step lib t u \<Longrightarrow> GetNextConnectionSequence t \<noteq> Inr (- 1) \<Longrightarrow>
    conn_reachable lib s u"

text \<open>No connection is stored at or above the counter.\<close>

definition conn_inv :: "kvstore \<Rightarrow> bool" where
  "conn_inv s =
     (\<exists>n. GetNextConnectionSequence s = Inr n
        \<and> (\<forall>m. n \<le> m \<longrightarrow> GetConnection s (FormatConnectionIdentifier m) = None))"

text \<open>How the entry of one connection identifier may develop.\<close>

fun conn_allowed :: "ConnectionEnd option \<Rightarrow> ConnectionEnd option \<Rightarrow> bool" where
  "conn_allowed None None = True"
| "conn_allowed None (Some d) = True"
| "conn_allowed (Some c) None = False"
| "conn_allowed (Some c) (Some d) =
     (d = c
      \<or> conn_State c = CONN_INIT \<and> (\<exists>v cpi. IsSupportedVersion (conn_Versions c) v \<and> d = conn_acked c v cpi)
      \<or> conn_State c = CONN_TRYOPEN \<and> d = c\<lparr>conn_State := CONN_OPEN\<rparr>)"

lemma conn_acked_State [simp]: "conn_State (conn_acked c v cpi) = CONN_OPEN"
  by (simp add: conn_acked_def)

lemma conn_allowed_refl [simp]: "conn_allowed c c"
  by (cases c) simp_all

lemma conn_allowed_trans: "conn_allowed a b \<Longrightarrow> conn_allowed b c \<Longrightarrow> conn_allowed a c"
  by (cases a; cases b; cases c) auto

lemma conn_added_step:
  assumes "conn_added s i c t" and "conn_inv s" and "GetNextConnectionSequence s \<noteq> Inr (- 1)"
  shows "conn_inv t \<and> conn_allowed (GetConnection s j) (GetConnection t j)"
proof -
  from assms(1) obtain n where n: "GetNextConnectionSequence s = Inr n" "i = FormatConnectionIdentifier n"
    "GetNextConnectionSequence t = Inr (n + 1)"
    and g: "\<And>j. GetConnection t j = (if j = i then Some c else GetConnection s j)"
    by (auto simp: conn_added_def)
  with assms(2) have fresh: "GetConnection s (FormatConnectionIdentifier m) = None" if "n \<le> m" for m
    using that by (auto simp: conn_inv_def)
  from n(1) assms(3) have "n < n + 1" by (intro u64_less_succ) auto
  then have "n \<le> m \<and> m \<noteq> n" if "n + 1 \<le> m" for m using that by auto
  then have "conn_inv t" using n g fresh by (auto simp: conn_inv_def)
  then show ?thesis using g fresh n by auto
qed

lemma conn_changed_step:
  assumes "conn_changed s i d t" and "conn_inv s" and "GetConnection s i = Some c"
    and "conn_allowed (Some c) (Some d)"
  shows "conn_inv t \<and> conn_allowed (GetConnection s j) (GetConnection t j)"
  using assms unfolding conn_inv_def conn_changed_def by (auto split: if_splits)

lemma conn_step_inv:
  assumes "conn_step lib s t" and "conn_inv s" and "GetNextConnectionSequence s \<noteq> Inr (- 1)"
  shows "conn_inv t \<and> conn_allowed (GetConnection s j) (GetConnection t j)"
  using assms(1)
proof cases
  case step_init
  then show ?thesis using conn_added_step assms(2,3) ConnOpenInit_effect by blast
next
  case (step_try ctx counterparty delayPeriod clientID clientState cvs p1 p2 p3 h ch i)
  then obtain v where "conn_added s i (NewConnectionEnd CONN_TRYOPEN clientID counterparty [v] delayPeriod) t"
    using ConnOpenTry_effect by blast
  from conn_added_step [OF this assms(2,3)] show ?thesis .
next
  case (step_ack ctx i clientState version cpi p1 p2 p3 h ch)
  from ConnOpenAck_effect [OF this] obtain c where c: "GetConnection s i = Some c" "conn_State c = CONN_INIT"
    "IsSupportedVersion (conn_Versions c) version" "conn_changed s i (conn_acked c version cpi) t" by blast
  then have "conn_allowed (Some c) (Some (conn_acked c version cpi))" by auto
  with c show ?thesis using conn_changed_step [OF _ assms(2)] by blast
next
  case (step_confirm ctx i pf h)
  from ConnOpenConfirm_effect [OF this] obtain c where "GetConnection s i = Some c"
    "conn_State c = CONN_TRYOPEN" "conn_changed s i (c\<lparr>conn_State := CONN_OPEN\<rparr>) t" by blast
  then show ?thesis using conn_changed_step [OF _ assms(2)] by simp
next
  case step_update_client
  then have "core_eq s t" by (intro client_writes_core UpdateClient_writes)
  from core_eq_reads [OF this] show ?thesis using assms(2) by (simp add: conn_inv_def)
qed

section \<open>Properties\<close>

text \<open>
  C14: the connection handshake. Along every run of connection handshake and client update steps (as
  long as the connection counter does not wrap around), a stored connection is never removed and
  never overwritten by a new one. The only change of it is a single move to OPEN: out of TRYOPEN
  nothing else changes, and out of INIT only the versions, which become one of those proposed, and
  the connection identifier of the counterparty. An open connection never changes again. The version
  and the identifier that \<open>ConnOpenAck\<close> stores are those of its message.
\<close>

theorem connection_handshake_safe:
  assumes "conn_reachable lib s t" and "conn_inv s"
  shows "conn_inv t \<and> conn_allowed (GetConnection s i) (GetConnection t i)
    \<and> (ConnOpenAck lib ctx i clientState version cpi p1 p2 p3 h ch t = Inr u \<longrightarrow>
        (\<exists>c. GetConnection t i = Some c \<and> conn_State c = CONN_INIT \<and> GetConnection u i = Some (conn_acked c version cpi)))"
proof -
  have "conn_inv t \<and> conn_allowed (GetConnection s i) (GetConnection t i)"
    using assms
  proof (induction rule: conn_reachable.induct)
    case (conn_next t u)
    then show ?case using conn_step_inv [OF conn_next(2) _ conn_next(3)] conn_allowed_trans by blast
  qed simp
  moreover have "\<exists>c. GetConnection t i = Some c \<and> conn_State c = CONN_INIT \<and> GetConnection u i = Some (conn_acked c version cpi)"
    if "ConnOpenAck lib ctx i clientState version cpi p1 p2 p3 h ch t = Inr u"
    using ConnOpenAck_effect [OF that] by (auto simp: conn_changed_def)
  ultimately show ?thesis by blast
qed

text \<open>A store with an active Tendermint client and no connection, and one step from it.\<close>

definition ex_conn_store :: kvstore where
  "ex_conn_store = SetNextConnectionSequence 0 (SetClientParams [Tendermint]
     (SetClientConsensusState ''07-tendermint-0'' (NewHeight 0 1) ex_consensus ex_tm_store))"

definition ex_cp :: ConnCounterparty where
  "ex_cp = NewConnCounterparty ''07-tendermint-9'' [] ''ibc''"

lemma ex_conn_store_inv: "conn_inv ex_conn_store \<and> GetNextConnectionSequence ex_conn_store = Inr 0"
proof -
  have "GetConnection ex_conn_store i = None" for i
    by (simp add: ex_conn_store_def ex_tm_store_def tm_setClientState_def set_defs SetClientParams_def
        client_set_defs store_simps path_simps) (simp add: GetConnection_def kv_typed_def kv_get_def)
  moreover have "GetNextConnectionSequence ex_conn_store = Inr 0" by code_simp
  ultimately show ?thesis by (simp add: conn_inv_def)
qed

lemma connection_handshake_safe_witness:
  "\<exists>i t. ConnOpenInit ex_ctx ''07-tendermint-0'' ex_cp None 0 ex_conn_store = Inr (i, t)
     \<and> conn_inv t \<and> (\<forall>lib u j. conn_reachable lib t u \<longrightarrow> conn_allowed (GetConnection t j) (GetConnection u j))"
proof -
  have "is_ok (ConnOpenInit ex_ctx ''07-tendermint-0'' ex_cp None 0 ex_conn_store)" by code_simp
  then obtain i t where u: "ConnOpenInit ex_ctx ''07-tendermint-0'' ex_cp None 0 ex_conn_store = Inr (i, t)"
    by (auto simp: is_ok_iff)
  then have "conn_reachable lib ex_conn_store t" for lib
    using ex_conn_store_inv by (intro conn_next [OF conn_start] step_init) simp_all
  then have "conn_inv t" using connection_handshake_safe ex_conn_store_inv by blast
  with u show ?thesis using connection_handshake_safe by blast
qed

end
