(* ===== verification/Capability.thy ===== *)
theory Capability
  imports Host Sha256 "HOL-Library.Finite_Map" "HOL-Library.List_Lexorder" "HOL-Library.Char_ord"
begin

text \<open>
  \<open>modules/capability\<close>: capability references, the sorted owner sets (\<open>types/types.go\<close>), the keys of the
  in-memory store (\<open>types/keys.go\<close>), the keeper and its scoped keepers (\<open>keeper/keeper.go\<close>) and the genesis
  functions (\<open>genesis.go\<close>, \<open>types/genesis.go\<close>). A pointer \<open>*Capability\<close> is the object's address together
  with its immutable index; the address of a newly allocated object is an argument of the operations
  that allocate. The theorems: the binary search of an owner set finds the position a linear scan
  finds, authentication is exclusive and unforgeable, the three stores of the keeper stay in step,
  and a restart rebuilds the in-memory store from the persisted one.
\<close>

section \<open>Capabilities and their owners\<close>

record Capability =
  cap_addr :: u64
  Index :: u64

record Owner =
  own_Module :: string
  own_Name :: string

text \<open>The result of \<open>&Capability{Index: index}\<close> when the runtime places it at \<open>addr\<close>.\<close>

definition types_NewCapability :: "u64 \<Rightarrow> u64 \<Rightarrow> Capability" where
  "types_NewCapability addr index = \<lparr>cap_addr = addr, Index = index\<rparr>"

definition NewOwner :: "string \<Rightarrow> string \<Rightarrow> Owner" where
  "NewOwner module name = \<lparr>own_Module = module, own_Name = name\<rparr>"

definition Owner_Key :: "Owner \<Rightarrow> string" where
  "Owner_Key ow = own_Module ow @ ''/'' @ own_Name ow"

text \<open>\<open>sort.Search\<close>: the bisection of the standard library.\<close>

function sort_Search :: "(nat \<Rightarrow> bool) \<Rightarrow> nat \<Rightarrow> nat \<Rightarrow> nat" where
  "sort_Search f i j =
     (if i < j then
        let h = (i + j) div 2 in
        if \<not> f h then sort_Search f (h + 1) j else sort_Search f i h
      else i)"
  by pat_completeness auto
termination
  by (relation "measure (\<lambda>(f, i, j). j - i)") auto

declare sort_Search.simps [simp del]

definition Owners_Get :: "Owner list \<Rightarrow> Owner \<Rightarrow> nat \<times> bool" where
  "Owners_Get owners owner =
     (let i = sort_Search (\<lambda>i. Owner_Key owner \<le> Owner_Key (owners ! i)) 0 (length owners) in
      if i < length owners \<and> Owner_Key (owners ! i) = Owner_Key owner then (i, True) else (i, False))"

definition Owners_Set :: "Owner list \<Rightarrow> Owner \<Rightarrow> Owner list result" where
  "Owners_Set owners owner =
     (let (i, ok) = Owners_Get owners owner in
      if ok then Inl capability_ErrOwnerClaimed
      else Inr (take i owners @ owner # drop i owners))"

definition Owners_Remove :: "Owner list \<Rightarrow> Owner \<Rightarrow> Owner list" where
  "Owners_Remove owners owner =
     (if length owners = 0 then owners
      else
        let (i, ok) = Owners_Get owners owner in
        if ok then take i owners @ drop (i + 1) owners else owners)"

section \<open>Keys of the in-memory store\<close>

text \<open>\<open>%#016p\<close>: the address as sixteen hexadecimal digits\<close>

fun hex_digits :: "nat \<Rightarrow> nat \<Rightarrow> string" where
  "hex_digits 0 n = []"
| "hex_digits (Suc k) n = hex_digits k (n div 16) @ [''0123456789abcdef'' ! (n mod 16)]"

definition FwdCapabilityKey :: "string \<Rightarrow> Capability \<Rightarrow> string" where
  "FwdCapabilityKey module c = module @ ''/fwd/'' @ hex_digits 16 (unat (cap_addr c))"

definition RevCapabilityKey :: "string \<Rightarrow> string \<Rightarrow> string" where
  "RevCapabilityKey module name = module @ ''/rev/'' @ name"

abbreviation KeyMemInitialized :: string where "KeyMemInitialized \<equiv> ''mem_initialized''"

section \<open>State\<close>

text \<open>
  The persistent store holds the next index and the owners per index (the key of an index is its
  eight-byte encoding under the prefix \<open>capability_index\<close>, so that iteration is in numerical order);
  the memory store holds names, indices and the initialised flag; \<open>capMap\<close> is the Go map, which is
  not part of any store.
\<close>

datatype mem_value = MemName string | MemIndex u64 | MemFlag

record cap_state =
  store_index :: "u64 option"
  store_owners :: "(u64, Owner list) fmap"
  memStore :: "(string, mem_value) fmap"
  capMap :: "(u64, Capability) fmap"

record cap_keeper =
  scopedModules :: "string list"
  keeper_sealed :: bool

definition ScopeToModule :: "string \<Rightarrow> cap_keeper \<Rightarrow> (string \<times> cap_keeper) result" where
  "ScopeToModule moduleName k =
     (if keeper_sealed k then Inl (Panic ''cannot scope to module via a sealed capability keeper'')
      else if is_blank moduleName then Inl (Panic ''cannot scope to an empty module name'')
      else if moduleName \<in> set (scopedModules k)
      then Inl (Panic ''cannot create multiple scoped keepers for the same module name'')
      else Inr (moduleName, k\<lparr>scopedModules := moduleName # scopedModules k\<rparr>))"

definition capability_Seal :: "cap_keeper \<Rightarrow> cap_keeper result" where
  "capability_Seal k =
     (if keeper_sealed k then Inl (Panic ''cannot initialize and seal an already sealed capability keeper'')
      else Inr (k\<lparr>keeper_sealed := True\<rparr>))"

text \<open>\<open>sdk.BigEndianToUint64\<close> of an absent value is zero.\<close>

definition GetLatestIndex :: "cap_state \<Rightarrow> u64" where
  "GetLatestIndex st = (case store_index st of None \<Rightarrow> 0 | Some i \<Rightarrow> i)"

definition InitializeIndex :: "u64 \<Rightarrow> cap_state \<Rightarrow> cap_state result" where
  "InitializeIndex index st =
     (if index = 0 then Inl (Panic ''SetIndex requires index > 0'')
      else if GetLatestIndex st > 0 then Inl (Panic ''SetIndex requires index to not be set'')
      else Inr (st\<lparr>store_index := Some index\<rparr>))"

definition SetOwners :: "u64 \<Rightarrow> Owner list \<Rightarrow> cap_state \<Rightarrow> cap_state" where
  "SetOwners index owners st = st\<lparr>store_owners := fmupd index owners (store_owners st)\<rparr>"

definition keeper_GetOwners :: "cap_state \<Rightarrow> u64 \<Rightarrow> Owner list option" where
  "keeper_GetOwners st index = fmlookup (store_owners st) index"

text \<open>The marshalled empty owner set has no bytes, like an absent one.\<close>

definition getOwners :: "cap_state \<Rightarrow> Capability \<Rightarrow> Owner list" where
  "getOwners st c = (case fmlookup (store_owners st) (Index c) of None \<Rightarrow> [] | Some ows \<Rightarrow> ows)"

section \<open>Scoped keeper operations\<close>

definition addOwner :: "string \<Rightarrow> Capability \<Rightarrow> string \<Rightarrow> cap_state \<Rightarrow> cap_state result" where
  "addOwner module c name st =
     and_then (Owners_Set (getOwners st c) (NewOwner module name)) (\<lambda>capOwners.
       Inr (st\<lparr>store_owners := fmupd (Index c) capOwners (store_owners st)\<rparr>))"

definition GetCapability :: "string \<Rightarrow> cap_state \<Rightarrow> string \<Rightarrow> Capability option result" where
  "GetCapability module st name =
     (if is_blank name then Inr None
      else case fmlookup (memStore st) (RevCapabilityKey module name) of
          Some (MemIndex index) \<Rightarrow>
            (case fmlookup (capMap st) index of
               None \<Rightarrow> Inl (Panic ''capability found in memstore is missing from map'')
             | Some c \<Rightarrow> Inr (Some c))
        | _ \<Rightarrow> Inr None)"

definition GetCapabilityName :: "string \<Rightarrow> cap_state \<Rightarrow> Capability option \<Rightarrow> string" where
  "GetCapabilityName module st cap =
     (case cap of
        None \<Rightarrow> []
      | Some c \<Rightarrow>
          (case fmlookup (memStore st) (FwdCapabilityKey module c) of Some (MemName n) \<Rightarrow> n | _ \<Rightarrow> []))"

definition setCapabilityKeys :: "string \<Rightarrow> Capability \<Rightarrow> string \<Rightarrow> cap_state \<Rightarrow> cap_state" where
  "setCapabilityKeys module c name st =
     st\<lparr>memStore := fmupd (RevCapabilityKey module name) (MemIndex (Index c))
          (fmupd (FwdCapabilityKey module c) (MemName name) (memStore st))\<rparr>"

definition NewCapability :: "string \<Rightarrow> u64 \<Rightarrow> string \<Rightarrow> cap_state \<Rightarrow> (Capability \<times> cap_state) result" where
  "NewCapability module addr name st =
     (if is_blank name then Inl capability_ErrInvalidCapabilityName
      else and_then (GetCapability module st name) (\<lambda>found.
        if found \<noteq> None then Inl capability_ErrCapabilityTaken
        else
          let index = GetLatestIndex st; c = types_NewCapability addr index in
          and_then (addOwner module c name st) (\<lambda>st1.
            let st2 = setCapabilityKeys module c name (st1\<lparr>store_index := Some (index + 1)\<rparr>) in
            Inr (c, st2\<lparr>capMap := fmupd index c (capMap st2)\<rparr>))))"

definition AuthenticateCapability :: "string \<Rightarrow> cap_state \<Rightarrow> Capability option \<Rightarrow> string \<Rightarrow> bool" where
  "AuthenticateCapability module st cap name =
     (if is_blank name \<or> cap = None then False else GetCapabilityName module st cap = name)"

definition ClaimCapability :: "string \<Rightarrow> Capability option \<Rightarrow> string \<Rightarrow> cap_state \<Rightarrow> cap_state result" where
  "ClaimCapability module cap name st =
     (case cap of
        None \<Rightarrow> Inl capability_ErrNilCapability
      | Some c \<Rightarrow>
          if is_blank name then Inl capability_ErrInvalidCapabilityName
          else and_then (addOwner module c name st) (\<lambda>st1. Inr (setCapabilityKeys module c name st1)))"

definition ReleaseCapability :: "string \<Rightarrow> Capability option \<Rightarrow> cap_state \<Rightarrow> cap_state result" where
  "ReleaseCapability module cap st =
     (case cap of
        None \<Rightarrow> Inl capability_ErrNilCapability
      | Some c \<Rightarrow>
          let name = GetCapabilityName module st cap in
          if length name = 0 then Inl capability_ErrCapabilityNotOwned
          else
            let st1 = st\<lparr>memStore := fmdrop (RevCapabilityKey module name)
                  (fmdrop (FwdCapabilityKey module c) (memStore st))\<rparr>;
                capOwners = Owners_Remove (getOwners st1 c) (NewOwner module name) in
            if length capOwners = 0
            then Inr (st1\<lparr>store_owners := fmdrop (Index c) (store_owners st1),
                         capMap := fmdrop (Index c) (capMap st1)\<rparr>)
            else Inr (st1\<lparr>store_owners := fmupd (Index c) capOwners (store_owners st1)\<rparr>))"

definition GetOwners :: "string \<Rightarrow> cap_state \<Rightarrow> string \<Rightarrow> Owner list option result" where
  "GetOwners module st name =
     (if is_blank name then Inr None
      else and_then (GetCapability module st name) (\<lambda>found.
        case found of
          None \<Rightarrow> Inr None
        | Some c \<Rightarrow>
            (case fmlookup (store_owners st) (Index c) of
               None \<Rightarrow> Inr None
             | Some ows \<Rightarrow> Inr (if ows = [] then None else Some ows))))"

definition LookupModules :: "string \<Rightarrow> cap_state \<Rightarrow> string \<Rightarrow> (string list \<times> Capability) result" where
  "LookupModules module st name =
     (if is_blank name then Inl capability_ErrInvalidCapabilityName
      else and_then (GetCapability module st name) (\<lambda>found.
        case found of
          None \<Rightarrow> Inl capability_ErrCapabilityNotFound
        | Some c \<Rightarrow>
            and_then (GetOwners module st name) (\<lambda>owners.
              case owners of
                None \<Rightarrow> Inl capability_ErrCapabilityOwnersNotFound
              | Some ows \<Rightarrow> Inr (map own_Module ows, c))))"

section \<open>Start of the chain and genesis\<close>

text \<open>\<open>alloc\<close> gives the address of the object allocated for an index.\<close>

definition InitializeCapability :: "(u64 \<Rightarrow> u64) \<Rightarrow> u64 \<Rightarrow> Owner list \<Rightarrow> cap_state \<Rightarrow> cap_state" where
  "InitializeCapability alloc index owners st =
     (let c = types_NewCapability (alloc index) index in
      fold (\<lambda>owner st.
        st\<lparr>memStore := fmupd (RevCapabilityKey (own_Module owner) (own_Name owner)) (MemIndex index)
             (fmupd (FwdCapabilityKey (own_Module owner) c) (MemName (own_Name owner)) (memStore st)),
           capMap := fmupd index c (capMap st)\<rparr>)
        owners st)"

definition IsInitialized :: "cap_state \<Rightarrow> bool" where
  "IsInitialized st = (fmlookup (memStore st) KeyMemInitialized \<noteq> None)"

definition InitMemStore :: "(u64 \<Rightarrow> u64) \<Rightarrow> cap_state \<Rightarrow> cap_state" where
  "InitMemStore alloc st =
     (if IsInitialized st then st
      else
        let st1 = fold (\<lambda>index st.
              case fmlookup (store_owners st) index of
                None \<Rightarrow> st | Some capOwners \<Rightarrow> InitializeCapability alloc index capOwners st)
              (sorted_list_of_fset (fmdom (store_owners st))) st in
        st1\<lparr>memStore := fmupd KeyMemInitialized MemFlag (memStore st1)\<rparr>)"

record GenesisState =
  gen_Index :: u64
  gen_Owners :: "(u64 \<times> Owner list) list"

definition InitGenesis :: "(u64 \<Rightarrow> u64) \<Rightarrow> GenesisState \<Rightarrow> cap_state \<Rightarrow> cap_state result" where
  "InitGenesis alloc genState st =
     and_then (InitializeIndex (gen_Index genState) st) (\<lambda>st1.
       Inr (InitMemStore alloc (fold (\<lambda>(index, owners). SetOwners index owners) (gen_Owners genState) st1)))"

definition ExportGenesis :: "cap_state \<Rightarrow> GenesisState" where
  "ExportGenesis st =
     (let index = GetLatestIndex st in
      \<lparr>gen_Index = index,
       gen_Owners = List.map_filter (\<lambda>n.
         let i = word_of_nat n in
         case keeper_GetOwners st i of
           None \<Rightarrow> None
         | Some capabilityOwners \<Rightarrow> if length capabilityOwners = 0 then None else Some (i, capabilityOwners))
         [1..<unat index]\<rparr>)"

definition Genesis_Validate :: "GenesisState \<Rightarrow> bool" where
  "Genesis_Validate gs =
     (gen_Index gs \<noteq> 0
      \<and> list_all (\<lambda>(index, owners).
           length owners \<noteq> 0 \<and> index \<noteq> 0 \<and> index < gen_Index gs
           \<and> list_all (\<lambda>ow. \<not> is_blank (own_Module ow) \<and> \<not> is_blank (own_Name ow)) owners)
         (gen_Owners gs))"

section \<open>Owner sets\<close>

definition mono_below :: "(nat \<Rightarrow> bool) \<Rightarrow> nat \<Rightarrow> bool" where
  "mono_below f n = (\<forall>a b. a \<le> b \<and> b < n \<and> f a \<longrightarrow> f b)"

lemma mono_belowD: "mono_below f n \<Longrightarrow> a \<le> b \<Longrightarrow> b < n \<Longrightarrow> f a \<Longrightarrow> f b"
  unfolding mono_below_def by blast

lemma sort_Search_bounds:
  assumes "i \<le> j" and "mono_below f n" and "j \<le> n"
    and "\<forall>k < i. \<not> f k" and "j < n \<longrightarrow> f j"
  shows "(\<forall>k < sort_Search f i j. \<not> f k) \<and> sort_Search f i j \<le> n
    \<and> (sort_Search f i j < n \<longrightarrow> f (sort_Search f i j))"
  using assms
proof (induction f i j rule: sort_Search.induct)
  case (1 f i j)
  show ?case
  proof (cases "i < j")
    case True
    let ?h = "(i + j) div 2"
    have h: "i \<le> ?h" "?h < j" "?h < n" using True 1(5) by auto
    show ?thesis
    proof (cases "f ?h")
      case fh: True
      have "sort_Search f i j = sort_Search f i ?h"
        by (subst sort_Search.simps) (simp add: True fh Let_def)
      then show ?thesis using 1(2) [OF True refl _ h(1) 1(4) less_imp_le [OF h(3)] 1(6)] fh by simp
    next
      case fh: False
      have "\<forall>k < ?h + 1. \<not> f k"
        using mono_belowD [OF 1(4) _ h(3)] fh by (auto simp: less_Suc_eq_le)
      moreover have "sort_Search f i j = sort_Search f (?h + 1) j"
        by (subst sort_Search.simps) (simp add: True fh Let_def)
      ultimately show ?thesis using 1(1) [OF True refl fh _ 1(4,5) _ 1(7)] h(2) by simp
    qed
  next
    case False
    then have "sort_Search f i j = i" by (subst sort_Search.simps) simp
    with False 1(3-7) show ?thesis by simp
  qed
qed

definition owners_ok :: "Owner list \<Rightarrow> bool" where
  "owners_ok owners = sorted_wrt (<) (map Owner_Key owners)"

text \<open>The position a linear scan finds.\<close>

definition owner_pos :: "Owner list \<Rightarrow> Owner \<Rightarrow> nat" where
  "owner_pos owners owner = length (takeWhile (\<lambda>x. Owner_Key x < Owner_Key owner) owners)"

lemma search_owner_pos:
  assumes "owners_ok owners"
  shows "sort_Search (\<lambda>i. Owner_Key owner \<le> Owner_Key (owners ! i)) 0 (length owners) = owner_pos owners owner"
proof -
  let ?f = "\<lambda>i. Owner_Key owner \<le> Owner_Key (owners ! i)"
  let ?r = "sort_Search ?f 0 (length owners)"
  have "?f b" if "a \<le> b" "b < length owners" "?f a" for a b
  proof (cases "a = b")
    case False
    with that(1,2) assms have "Owner_Key (owners ! a) < Owner_Key (owners ! b)"
      by (simp add: owners_ok_def sorted_wrt_iff_nth_less)
    with that(3) show ?thesis by (rule order.trans [OF _ less_imp_le])
  qed (use that in simp)
  then have "mono_below ?f (length owners)" unfolding mono_below_def by blast
  from sort_Search_bounds [OF _ this, of 0 "length owners"]
  have r: "\<forall>k < ?r. \<not> ?f k" "?r \<le> length owners" "?r < length owners \<longrightarrow> ?f ?r" by simp_all
  have "takeWhile (\<lambda>x. Owner_Key x < Owner_Key owner) owners = take ?r owners"
  proof (rule takeWhile_eq_take_P_nth)
    show "Owner_Key (owners ! i) < Owner_Key owner" if "i < ?r" for i
      using r(1) that by (simp add: not_le)
    show "\<not> Owner_Key (owners ! ?r) < Owner_Key owner" if "?r < length owners"
      using r(3) that by (simp add: not_less)
  qed
  then show ?thesis using r(2) by (simp add: owner_pos_def)
qed

lemma owner_pos_drop: "drop (owner_pos owners ow) owners = dropWhile (\<lambda>x. Owner_Key x < Owner_Key ow) owners"
  by (simp add: owner_pos_def dropWhile_eq_drop)

lemma owner_pos_take: "take (owner_pos owners ow) owners = takeWhile (\<lambda>x. Owner_Key x < Owner_Key ow) owners"
  by (simp add: owner_pos_def takeWhile_eq_take [symmetric])

lemma owners_ok_Cons: "owners_ok (x # xs) \<longleftrightarrow> (\<forall>y\<in>set xs. Owner_Key x < Owner_Key y) \<and> owners_ok xs"
  by (auto simp: owners_ok_def)

lemma owners_ok_Nil [simp]: "owners_ok []"
  by (simp add: owners_ok_def)

lemma owner_at_pos:
  "owners_ok owners \<Longrightarrow>
   owner_pos owners ow < length owners \<and> Owner_Key (owners ! owner_pos owners ow) = Owner_Key ow
     \<longleftrightarrow> Owner_Key ow \<in> Owner_Key ` set owners"
proof (induction owners)
  case (Cons x xs)
  show ?case
  proof (cases "Owner_Key x < Owner_Key ow")
    case True
    then have "owner_pos (x # xs) ow = Suc (owner_pos xs ow)" by (simp add: owner_pos_def)
    with True Cons show ?thesis by (auto simp: owners_ok_Cons)
  next
    case False
    then have "owner_pos (x # xs) ow = 0" by (simp add: owner_pos_def)
    with False Cons show ?thesis by (auto simp: owners_ok_Cons)
  qed
qed simp

lemma Owners_Get_linear:
  "owners_ok owners \<Longrightarrow> Owners_Get owners ow = (owner_pos owners ow, Owner_Key ow \<in> Owner_Key ` set owners)"
  using owner_at_pos [of owners ow] by (simp add: Owners_Get_def search_owner_pos Let_def)

lemma insort_key_split:
  "insort_key f x xs = takeWhile (\<lambda>y. f y < f x) xs @ x # dropWhile (\<lambda>y. f y < f x) xs"
  by (induction xs) (auto simp: not_less)

lemma Owners_Set_insort:
  "owners_ok owners \<Longrightarrow>
   Owners_Set owners ow =
     (if Owner_Key ow \<in> Owner_Key ` set owners then Inl capability_ErrOwnerClaimed
      else Inr (insort_key Owner_Key ow owners))"
  by (simp add: Owners_Set_def Owners_Get_linear insort_key_split owner_pos_take owner_pos_drop)

lemma drop_Suc_pos:
  "owners_ok owners \<Longrightarrow> Owner_Key ow \<in> Owner_Key ` set owners \<Longrightarrow>
   take (owner_pos owners ow) owners @ drop (Suc (owner_pos owners ow)) owners =
     filter (\<lambda>x. Owner_Key x \<noteq> Owner_Key ow) owners"
proof (induction owners)
  case (Cons x xs)
  from Cons.prems have lt: "\<forall>y\<in>set xs. Owner_Key x < Owner_Key y" and ok: "owners_ok xs"
    by (simp_all add: owners_ok_Cons)
  show ?case
  proof (cases "Owner_Key x < Owner_Key ow")
    case True
    then have "Owner_Key x \<noteq> Owner_Key ow" by simp
    moreover from this Cons.prems(2) have "Owner_Key ow \<in> Owner_Key ` set xs" by simp
    moreover have "owner_pos (x # xs) ow = Suc (owner_pos xs ow)" using True by (simp add: owner_pos_def)
    ultimately show ?thesis using Cons.IH [OF ok] by simp
  next
    case False
    then have "owner_pos (x # xs) ow = 0" by (simp add: owner_pos_def)
    moreover have eq: "Owner_Key x = Owner_Key ow"
    proof (rule ccontr)
      assume "Owner_Key x \<noteq> Owner_Key ow"
      with Cons.prems(2) obtain y where "y \<in> set xs" "Owner_Key ow = Owner_Key y" by auto
      with lt False show False by simp
    qed
    moreover have "filter (\<lambda>y. Owner_Key y \<noteq> Owner_Key ow) xs = xs"
      using lt unfolding eq by (intro filter_True) (metis less_irrefl)
    ultimately show ?thesis by simp
  qed
qed simp

lemma Owners_Remove_filter:
  assumes "owners_ok owners"
  shows "Owners_Remove owners ow = filter (\<lambda>x. Owner_Key x \<noteq> Owner_Key ow) owners"
proof (cases "Owner_Key ow \<in> Owner_Key ` set owners")
  case True
  then have "owners \<noteq> []" by auto
  with True drop_Suc_pos [OF assms True] show ?thesis
    by (simp add: Owners_Remove_def Owners_Get_linear [OF assms])
next
  case False
  then have "filter (\<lambda>x. Owner_Key x \<noteq> Owner_Key ow) owners = owners" by (intro filter_True) (metis image_eqI)
  with False show ?thesis by (simp add: Owners_Remove_def Owners_Get_linear [OF assms])
qed

lemma owners_ok_filter: "owners_ok owners \<Longrightarrow> owners_ok (filter P owners)"
  by (simp add: owners_ok_def sorted_wrt_map sorted_wrt_filter)

lemma owners_ok_insort:
  "owners_ok owners \<Longrightarrow> Owner_Key ow \<notin> Owner_Key ` set owners \<Longrightarrow> owners_ok (insort_key Owner_Key ow owners)"
  by (induction owners) (auto simp: owners_ok_Cons set_insort_key not_le)

section \<open>Keys\<close>

lemma hex_digit_inj: "a < 16 \<Longrightarrow> b < 16 \<Longrightarrow> ''0123456789abcdef'' ! a = ''0123456789abcdef'' ! b \<longleftrightarrow> a = b"
  by (rule nth_eq_iff_index_eq) simp_all

lemma length_hex_digits [simp]: "length (hex_digits k n) = k"
  by (induction k arbitrary: n) simp_all

lemma hex_digits_inj: "a < 16 ^ k \<Longrightarrow> b < 16 ^ k \<Longrightarrow> hex_digits k a = hex_digits k b \<Longrightarrow> a = b"
proof (induction k arbitrary: a b)
  case (Suc k)
  have "a div 16 < 16 ^ k" "b div 16 < 16 ^ k" using Suc.prems by (simp_all add: less_mult_imp_div_less)
  with Suc.IH Suc.prems have "a div 16 = b div 16" by simp
  moreover have "a mod 16 = b mod 16" using Suc.prems hex_digit_inj [of "a mod 16" "b mod 16"] by simp
  ultimately show ?case by (metis mult_div_mod_eq)
qed simp

lemma addr_key_inj: "hex_digits 16 (unat a) = hex_digits 16 (unat b) \<longleftrightarrow> a = (b :: u64)"
proof
  assume "hex_digits 16 (unat a) = hex_digits 16 (unat b)"
  moreover have "unat x < 16 ^ 16" for x :: u64
    using unsigned_less [of x, where ?'a = nat] by simp
  ultimately have "unat a = unat b" by (intro hex_digits_inj)
  then show "a = b" by (rule unsigned_word_eqI)
qed simp

lemma slash_append_inj:
  "slash_free m \<Longrightarrow> slash_free m' \<Longrightarrow> m @ CHR ''/'' # x = m' @ CHR ''/'' # y \<longleftrightarrow> m = m' \<and> x = y"
  by (simp add: slash_free_def sep_append_inj)

lemma key_inj [simp]:
  assumes "slash_free m" and "slash_free m'"
  shows "RevCapabilityKey m n = RevCapabilityKey m' n' \<longleftrightarrow> m = m' \<and> n = n'"
    and "FwdCapabilityKey m c = FwdCapabilityKey m' c' \<longleftrightarrow> m = m' \<and> cap_addr c = cap_addr c'"
    and "RevCapabilityKey m n \<noteq> FwdCapabilityKey m' c"
    and "FwdCapabilityKey m c \<noteq> RevCapabilityKey m' n"
  using assms by (auto simp: RevCapabilityKey_def FwdCapabilityKey_def slash_append_inj addr_key_inj)

lemma flag_key [simp]:
  "KeyMemInitialized \<noteq> RevCapabilityKey m n" "KeyMemInitialized \<noteq> FwdCapabilityKey m c"
proof -
  have "CHR ''/'' \<notin> set KeyMemInitialized" by simp
  moreover have "CHR ''/'' \<in> set (RevCapabilityKey m n)" "CHR ''/'' \<in> set (FwdCapabilityKey m c)"
    by (simp_all add: RevCapabilityKey_def FwdCapabilityKey_def)
  ultimately show "KeyMemInitialized \<noteq> RevCapabilityKey m n" "KeyMemInitialized \<noteq> FwdCapabilityKey m c" by metis+
qed

lemma Owner_Key_inj:
  "slash_free (own_Module a) \<Longrightarrow> slash_free (own_Module b) \<Longrightarrow> Owner_Key a = Owner_Key b \<longleftrightarrow> a = b"
  by (cases a; cases b) (simp add: Owner_Key_def slash_append_inj)

section \<open>The invariant of the keeper\<close>

definition rev_of :: "cap_state \<Rightarrow> string \<Rightarrow> string \<Rightarrow> u64 option" where
  "rev_of st m n = (case fmlookup (memStore st) (RevCapabilityKey m n) of Some (MemIndex i) \<Rightarrow> Some i | _ \<Rightarrow> None)"

definition fwd_of :: "cap_state \<Rightarrow> string \<Rightarrow> Capability \<Rightarrow> string option" where
  "fwd_of st m c = (case fmlookup (memStore st) (FwdCapabilityKey m c) of Some (MemName n) \<Rightarrow> Some n | _ \<Rightarrow> None)"

definition owners_at :: "cap_state \<Rightarrow> u64 \<Rightarrow> Owner list" where
  "owners_at st i = (case fmlookup (store_owners st) i of None \<Rightarrow> [] | Some ows \<Rightarrow> ows)"

abbreviation owned :: "cap_state \<Rightarrow> u64 \<Rightarrow> string \<Rightarrow> string \<Rightarrow> bool" where
  "owned st i m n \<equiv> NewOwner m n \<in> set (owners_at st i)"

text \<open>A pointer that the keeper handed out and that is still in its map.\<close>

definition genuine :: "cap_state \<Rightarrow> Capability \<Rightarrow> bool" where
  "genuine st c = (fmlookup (capMap st) (Index c) = Some c \<and> owners_at st (Index c) \<noteq> [])"

definition owner_names_ok :: "Owner list \<Rightarrow> bool" where
  "owner_names_ok ows = list_all (\<lambda>ow. slash_free (own_Module ow) \<and> own_Name ow \<noteq> []) ows"

text \<open>
  The three stores in step: an owner set is sorted, below the next index and has its capability in
  the map; two owned capabilities have different addresses; a reverse key names an owner of its index
  and a forward key an owner of the capability at its address.
\<close>

definition cap_inv :: "cap_state \<Rightarrow> bool" where
  "cap_inv st =
     ((\<forall>i. owners_at st i \<noteq> [] \<longrightarrow> i < GetLatestIndex st \<and> fmlookup (capMap st) i \<noteq> None)
      \<and> (\<forall>i. owners_ok (owners_at st i) \<and> owner_names_ok (owners_at st i))
      \<and> (\<forall>i c. fmlookup (capMap st) i = Some c \<longrightarrow> Index c = i)
      \<and> (\<forall>c d. genuine st c \<and> genuine st d \<and> cap_addr c = cap_addr d \<longrightarrow> c = d)
      \<and> (\<forall>m n i. slash_free m \<and> rev_of st m n = Some i \<longrightarrow> owned st i m n)
      \<and> (\<forall>m c n. slash_free m \<and> fwd_of st m c = Some n \<longrightarrow>
           (\<exists>d. genuine st d \<and> cap_addr d = cap_addr c \<and> owned st (Index d) m n)))"

lemma cap_invD:
  assumes "cap_inv st"
  shows "owners_at st i \<noteq> [] \<Longrightarrow> i < GetLatestIndex st"
    and "owners_at st i \<noteq> [] \<Longrightarrow> \<exists>c. fmlookup (capMap st) i = Some c"
    and "owners_ok (owners_at st i)" "owner_names_ok (owners_at st i)"
    and "fmlookup (capMap st) i = Some c \<Longrightarrow> Index c = i"
    and "genuine st c \<Longrightarrow> genuine st d \<Longrightarrow> cap_addr c = cap_addr d \<Longrightarrow> c = d"
    and "slash_free m \<Longrightarrow> rev_of st m n = Some i \<Longrightarrow> owned st i m n"
    and "slash_free m \<Longrightarrow> fwd_of st m c = Some n \<Longrightarrow>
           \<exists>d. genuine st d \<and> cap_addr d = cap_addr c \<and> owned st (Index d) m n"
  using assms unfolding cap_inv_def by blast+

lemma getOwners_at: "getOwners st c = owners_at st (Index c)"
  by (simp add: getOwners_def owners_at_def)

lemma owner_names_owned: "owner_names_ok ows \<Longrightarrow> NewOwner m n \<in> set ows \<Longrightarrow> slash_free m \<and> n \<noteq> []"
  by (auto simp: owner_names_ok_def list_all_iff NewOwner_def)

lemma owned_key:
  assumes "owner_names_ok ows" and "slash_free m"
  shows "Owner_Key (NewOwner m n) \<in> Owner_Key ` set ows \<longleftrightarrow> NewOwner m n \<in> set ows"
proof -
  have "Owner_Key x = Owner_Key (NewOwner m n) \<longleftrightarrow> x = NewOwner m n" if "x \<in> set ows" for x
    using assms that by (intro Owner_Key_inj) (auto simp: owner_names_ok_def list_all_iff NewOwner_def)
  then show ?thesis by (auto simp: image_iff) metis
qed

text \<open>A genuine capability authenticates exactly through its forward key.\<close>

lemma AuthenticateCapability_iff:
  "AuthenticateCapability m st (Some c) n \<longleftrightarrow> \<not> is_blank n \<and> fwd_of st m c = Some n"
  by (auto simp: AuthenticateCapability_def GetCapabilityName_def fwd_of_def split: option.splits mem_value.splits)

lemma GetCapability_iff:
  "GetCapability m st n = Inr (Some c) \<longleftrightarrow>
     \<not> is_blank n \<and> (\<exists>i. rev_of st m n = Some i \<and> fmlookup (capMap st) i = Some c)"
  by (auto simp: GetCapability_def rev_of_def split: option.splits mem_value.splits)

lemma GetCapability_None:
  "GetCapability m st n = Inr None \<longleftrightarrow> is_blank n \<or> rev_of st m n = None"
  by (auto simp: GetCapability_def rev_of_def split: option.splits mem_value.splits)

lemma GetCapability_ok:
  assumes "cap_inv st" and "slash_free m"
  shows "is_ok (GetCapability m st n)"
proof (cases "is_blank n \<or> rev_of st m n = None")
  case False
  then obtain i where "rev_of st m n = Some i" by auto
  with cap_invD(7) [OF assms this] cap_invD(2) [OF assms(1)] False show ?thesis
    by (metis GetCapability_iff empty_iff empty_set is_ok_simps(1))
qed (metis GetCapability_None is_ok_simps(1))

section \<open>Effect of the operations\<close>

text \<open>What the views see after the writes of the operations.\<close>

lemma view_simps [store_simps]:
  "owners_at (st\<lparr>store_owners := fmupd j ows (store_owners st)\<rparr>) i = (if i = j then ows else owners_at st i)"
  "owners_at (st\<lparr>store_owners := fmdrop j (store_owners st)\<rparr>) i = (if i = j then [] else owners_at st i)"
  "owners_at (st\<lparr>memStore := x\<rparr>) i = owners_at st i"
  "owners_at (st\<lparr>capMap := y\<rparr>) i = owners_at st i"
  "owners_at (st\<lparr>store_index := z\<rparr>) i = owners_at st i"
  "rev_of (st\<lparr>store_owners := w\<rparr>) m n = rev_of st m n"
  "rev_of (st\<lparr>capMap := y\<rparr>) m n = rev_of st m n"
  "rev_of (st\<lparr>store_index := z\<rparr>) m n = rev_of st m n"
  "fwd_of (st\<lparr>store_owners := w\<rparr>) m c = fwd_of st m c"
  "fwd_of (st\<lparr>capMap := y\<rparr>) m c = fwd_of st m c"
  "fwd_of (st\<lparr>store_index := z\<rparr>) m c = fwd_of st m c"
  by (simp_all add: owners_at_def rev_of_def fwd_of_def)

lemma setCapabilityKeys_views [store_simps]:
  assumes "slash_free m" and "slash_free m'"
  shows "rev_of (setCapabilityKeys m c n st) m' n' =
      (if m' = m \<and> n' = n then Some (Index c) else rev_of st m' n')"
    and "fwd_of (setCapabilityKeys m c n st) m' c' =
      (if m' = m \<and> cap_addr c' = cap_addr c then Some n else fwd_of st m' c')"
  using assms by (auto simp: setCapabilityKeys_def rev_of_def fwd_of_def)

lemma setCapabilityKeys_other [store_simps]:
  "owners_at (setCapabilityKeys m c n st) i = owners_at st i"
  "capMap (setCapabilityKeys m c n st) = capMap st"
  "store_index (setCapabilityKeys m c n st) = store_index st"
  "store_owners (setCapabilityKeys m c n st) = store_owners st"
  "GetLatestIndex (setCapabilityKeys m c n st) = GetLatestIndex st"
  by (simp_all add: setCapabilityKeys_def owners_at_def GetLatestIndex_def)

text \<open>\<open>cap_added\<close>: a module became a further owner of a capability; \<open>cap_removed\<close>: it ceased to be one.\<close>

definition cap_added :: "cap_state \<Rightarrow> string \<Rightarrow> Capability \<Rightarrow> string \<Rightarrow> cap_state \<Rightarrow> bool" where
  "cap_added st m c n st' =
     (\<not> is_blank n \<and> \<not> owned st (Index c) m n
      \<and> (\<forall>i. owners_at st' i = (if i = Index c then insort_key Owner_Key (NewOwner m n) (owners_at st i) else owners_at st i))
      \<and> (\<forall>m' n'. slash_free m' \<longrightarrow> rev_of st' m' n' = (if m' = m \<and> n' = n then Some (Index c) else rev_of st m' n'))
      \<and> (\<forall>m' c'. slash_free m' \<longrightarrow>
           fwd_of st' m' c' = (if m' = m \<and> cap_addr c' = cap_addr c then Some n else fwd_of st m' c')))"

lemma ClaimCapability_effect:
  assumes "cap_inv st" and "slash_free m" and "ClaimCapability m (Some c) n st = Inr st'"
  shows "cap_added st m c n st' \<and> capMap st' = capMap st \<and> GetLatestIndex st' = GetLatestIndex st"
  using assms(3) cap_invD(3,4) [OF assms(1)] assms(2)
  by (auto simp: ClaimCapability_def addOwner_def getOwners_at Owners_Set_insort owned_key cap_added_def
      store_simps GetLatestIndex_def split: if_splits)

lemma NewCapability_effect:
  assumes "cap_inv st" and "slash_free m" and "NewCapability m addr n st = Inr (c, st')"
  shows "c = types_NewCapability addr (GetLatestIndex st) \<and> rev_of st m n = None \<and> cap_added st m c n st'
    \<and> capMap st' = fmupd (Index c) c (capMap st) \<and> GetLatestIndex st' = GetLatestIndex st + 1"
  using assms(3) cap_invD(3,4) [OF assms(1)] assms(2)
  by (auto simp: NewCapability_def addOwner_def getOwners_at Owners_Set_insort owned_key cap_added_def
      store_simps GetLatestIndex_def GetCapability_None types_NewCapability_def Let_def split: if_splits)

section \<open>Preservation of the invariant\<close>

lemma owner_names_insort:
  "owner_names_ok ows \<Longrightarrow> slash_free m \<Longrightarrow> n \<noteq> [] \<Longrightarrow> owner_names_ok (insort_key Owner_Key (NewOwner m n) ows)"
  by (auto simp: owner_names_ok_def list_all_iff set_insort_key NewOwner_def)

lemma insort_key_not_Nil [simp]: "insort_key f x xs \<noteq> []"
  by (cases xs) simp_all

lemma cap_added_inv:
  assumes inv: "cap_inv st" and m: "slash_free m" and a: "cap_added st m c n st'"
    and idx: "GetLatestIndex st \<le> GetLatestIndex st'" "Index c < GetLatestIndex st'"
    and c: "fmlookup (capMap st') (Index c) = Some c"
    and cm: "\<And>i. i \<noteq> Index c \<Longrightarrow> fmlookup (capMap st') i = fmlookup (capMap st) i"
    and same: "owners_at st (Index c) \<noteq> [] \<Longrightarrow> fmlookup (capMap st) (Index c) = Some c"
    and fresh: "\<And>d. genuine st d \<Longrightarrow> cap_addr d = cap_addr c \<Longrightarrow> d = c"
  shows "cap_inv st'"
proof -
  note inv' = cap_invD [OF inv]
  from a have n: "n \<noteq> []" and no: "\<not> owned st (Index c) m n"
    and ow: "\<And>i. owners_at st' i = (if i = Index c then insort_key Owner_Key (NewOwner m n) (owners_at st i) else owners_at st i)"
    and rv: "\<And>m' n'. slash_free m' \<Longrightarrow> rev_of st' m' n' = (if m' = m \<and> n' = n then Some (Index c) else rev_of st m' n')"
    and fw: "\<And>m' c'. slash_free m' \<Longrightarrow>
      fwd_of st' m' c' = (if m' = m \<and> cap_addr c' = cap_addr c then Some n else fwd_of st m' c')"
    by (auto simp: cap_added_def)
  have gen: "genuine st' d \<longleftrightarrow> d = c \<or> genuine st d" for d
  proof (cases "Index d = Index c")
    case True
    then show ?thesis using c ow [of "Index c"] same by (auto simp: genuine_def)
  next
    case False
    then show ?thesis using cm [OF False] ow [of "Index d"] by (auto simp: genuine_def)
  qed
  have own: "owned st' i m' n' \<longleftrightarrow> i = Index c \<and> m' = m \<and> n' = n \<or> owned st i m' n'" for i m' n'
    using ow [of i] by (cases "i = Index c") (auto simp: set_insort_key NewOwner_def)
  have "owners_ok (owners_at st' i) \<and> owner_names_ok (owners_at st' i)" for i
    using ow inv'(3,4) no m n owned_key [OF inv'(4) [of "Index c"] m, of n]
    by (simp add: owners_ok_insort owner_names_insort)
  moreover have "i < GetLatestIndex st' \<and> fmlookup (capMap st') i \<noteq> None" if "owners_at st' i \<noteq> []" for i
    using that ow [of i] inv'(1,2) [of i] idx c cm [of i] by (cases "i = Index c") auto
  moreover have "Index d = i" if "fmlookup (capMap st') i = Some d" for i d
    using that c cm [of i] inv'(5) by (cases "i = Index c") auto
  moreover have "d = e" if "genuine st' d" "genuine st' e" "cap_addr d = cap_addr e" for d e
    using that gen inv'(6) fresh by metis
  moreover have "owned st' i m' n'" if "slash_free m'" "rev_of st' m' n' = Some i" for m' n' i
    using that rv [of m' n'] own inv'(7) by (cases "m' = m \<and> n' = n") auto
  moreover have "\<exists>d. genuine st' d \<and> cap_addr d = cap_addr c' \<and> owned st' (Index d) m' n'"
    if "slash_free m'" "fwd_of st' m' c' = Some n'" for m' c' n'
  proof (cases "m' = m \<and> cap_addr c' = cap_addr c")
    case True
    then show ?thesis using that fw [of m' c'] gen own by (intro exI [of _ c]) auto
  next
    case False
    with that fw [of m' c'] have "fwd_of st m' c' = Some n'" by auto
    from inv'(8) [OF that(1) this] show ?thesis using gen own by blast
  qed
  ultimately show ?thesis unfolding cap_inv_def by blast
qed

definition cap_removed :: "cap_state \<Rightarrow> string \<Rightarrow> Capability \<Rightarrow> string \<Rightarrow> cap_state \<Rightarrow> bool" where
  "cap_removed st m c n st' =
     (fwd_of st m c = Some n
      \<and> (\<forall>i. owners_at st' i =
           (if i = Index c then filter (\<lambda>ow. Owner_Key ow \<noteq> Owner_Key (NewOwner m n)) (owners_at st i) else owners_at st i))
      \<and> (\<forall>m' n'. slash_free m' \<longrightarrow> rev_of st' m' n' = (if m' = m \<and> n' = n then None else rev_of st m' n'))
      \<and> (\<forall>m' c'. slash_free m' \<longrightarrow>
           fwd_of st' m' c' = (if m' = m \<and> cap_addr c' = cap_addr c then None else fwd_of st m' c'))
      \<and> capMap st' = (if owners_at st' (Index c) = [] then fmdrop (Index c) (capMap st) else capMap st)
      \<and> GetLatestIndex st' = GetLatestIndex st)"

lemma drop_keys_views:
  assumes "slash_free m" and "slash_free m'"
  shows "rev_of (st\<lparr>memStore := fmdrop (RevCapabilityKey m n) (fmdrop (FwdCapabilityKey m c) (memStore st))\<rparr>) m' n' =
      (if m' = m \<and> n' = n then None else rev_of st m' n')"
    and "fwd_of (st\<lparr>memStore := fmdrop (RevCapabilityKey m n) (fmdrop (FwdCapabilityKey m c) (memStore st))\<rparr>) m' c' =
      (if m' = m \<and> cap_addr c' = cap_addr c then None else fwd_of st m' c')"
  using assms by (auto simp: rev_of_def fwd_of_def)

lemma GetCapabilityName_fwd: "GetCapabilityName m st (Some c) = n \<Longrightarrow> n \<noteq> [] \<Longrightarrow> fwd_of st m c = Some n"
  by (auto simp: GetCapabilityName_def fwd_of_def split: option.splits mem_value.splits)

lemma ReleaseCapability_effect:
  assumes "cap_inv st" and "slash_free m" and "ReleaseCapability m (Some c) st = Inr st'"
  shows "\<exists>n. cap_removed st m c n st'"
proof -
  let ?n = "GetCapabilityName m st (Some c)"
  from assms(3) have n: "?n \<noteq> []" by (auto simp: ReleaseCapability_def split: if_splits)
  have "cap_removed st m c ?n st'"
    using assms(3) n GetCapabilityName_fwd [OF refl n] cap_invD(3) [OF assms(1), of "Index c"] assms(2)
    by (auto simp: ReleaseCapability_def cap_removed_def Let_def getOwners_at store_simps Owners_Remove_filter
        drop_keys_views GetLatestIndex_def owners_at_def split: if_splits)
  then show ?thesis ..
qed

lemma cap_removed_inv:
  assumes inv: "cap_inv st" and m: "slash_free m" and g: "genuine st c" and r: "cap_removed st m c n st'"
  shows "cap_inv st'"
proof -
  note inv' = cap_invD [OF inv]
  let ?keep = "\<lambda>ow. Owner_Key ow \<noteq> Owner_Key (NewOwner m n)"
  from r have ow: "\<And>i. owners_at st' i = (if i = Index c then filter ?keep (owners_at st i) else owners_at st i)"
    and rv: "\<And>m' n'. slash_free m' \<Longrightarrow> rev_of st' m' n' = (if m' = m \<and> n' = n then None else rev_of st m' n')"
    and fw: "\<And>m' c'. slash_free m' \<Longrightarrow>
      fwd_of st' m' c' = (if m' = m \<and> cap_addr c' = cap_addr c then None else fwd_of st m' c')"
    and cm: "capMap st' = (if owners_at st' (Index c) = [] then fmdrop (Index c) (capMap st) else capMap st)"
    and idx: "GetLatestIndex st' = GetLatestIndex st"
    unfolding cap_removed_def by blast+
  have keep: "owned st' i m' n'" if "owned st i m' n'" "\<not> (m' = m \<and> n' = n)" for i m' n'
  proof -
    have "slash_free m'" using owner_names_owned [OF inv'(4) that(1)] by simp
    then have "Owner_Key (NewOwner m' n') \<noteq> Owner_Key (NewOwner m n)"
      using that(2) m Owner_Key_inj [of "NewOwner m' n'" "NewOwner m n"] by (auto simp: NewOwner_def)
    then show ?thesis using that(1) ow [of i] by (cases "i = Index c") simp_all
  qed
  have gen: "genuine st' d \<longleftrightarrow> genuine st d \<and> owners_at st' (Index d) \<noteq> []" for d
    using ow [of "Index d"] cm by (cases "Index d = Index c") (auto simp: genuine_def)
  have "i < GetLatestIndex st' \<and> fmlookup (capMap st') i \<noteq> None" if "owners_at st' i \<noteq> []" for i
    using that ow [of i] inv'(1,2) [of i] idx cm g by (cases "i = Index c") (auto simp: genuine_def split: if_splits)
  moreover have "owners_ok (owners_at st' i) \<and> owner_names_ok (owners_at st' i)" for i
    using inv'(3,4) [of i] ow [of i]
    by (cases "i = Index c") (simp_all add: owners_ok_filter owner_names_ok_def list_all_iff)
  moreover have "Index d = i" if "fmlookup (capMap st') i = Some d" for i d
    using that cm inv'(5) by (auto split: if_splits)
  moreover have "d = e" if "genuine st' d" "genuine st' e" "cap_addr d = cap_addr e" for d e
    using that gen inv'(6) by blast
  moreover have "owned st' i m' n'" if "slash_free m'" "rev_of st' m' n' = Some i" for m' n' i
    using that rv [of m' n'] keep inv'(7) by (auto split: if_splits)
  moreover have "\<exists>d. genuine st' d \<and> cap_addr d = cap_addr c' \<and> owned st' (Index d) m' n'"
    if "slash_free m'" "fwd_of st' m' c' = Some n'" for m' c' n'
  proof -
    from that fw [of m' c'] have f: "fwd_of st m' c' = Some n'" and ne: "\<not> (m' = m \<and> cap_addr c' = cap_addr c)"
      by (auto split: if_splits)
    from inv'(8) [OF that(1) f] obtain d where d: "genuine st d" "cap_addr d = cap_addr c'" "owned st (Index d) m' n'"
      by blast
    have "owned st' (Index d) m' n'"
    proof (cases "d = c")
      case True
      with ne d(2) have "m' \<noteq> m" by auto
      with d(3) show ?thesis by (intro keep) auto
    next
      case False
      then have "Index d \<noteq> Index c" using d(1) g by (auto simp: genuine_def)
      with d(3) ow show ?thesis by simp
    qed
    with d gen show ?thesis by (metis empty_iff empty_set)
  qed
  ultimately show ?thesis unfolding cap_inv_def by blast
qed

section \<open>Runs of the keeper\<close>

text \<open>
  The steps that create and claim, the runs of them, and the steps of the keeper: the address of a
  new capability is not the address of one in use; a module claims and releases pointers the keeper
  handed out; and when a transaction that created or claimed capabilities fails, the stores are
  restored while the map keeps its entries.
\<close>

inductive cap_grow :: "cap_state \<Rightarrow> cap_state \<Rightarrow> bool" where
  grow_new: "slash_free m \<Longrightarrow> (\<And>d. genuine st d \<Longrightarrow> cap_addr d \<noteq> addr) \<Longrightarrow> GetLatestIndex st \<noteq> - 1 \<Longrightarrow>
    NewCapability m addr n st = Inr (c, st') \<Longrightarrow> cap_grow st st'"
| grow_claim: "slash_free m \<Longrightarrow> genuine st c \<Longrightarrow> ClaimCapability m (Some c) n st = Inr st' \<Longrightarrow> cap_grow st st'"

inductive cap_grows :: "cap_state \<Rightarrow> cap_state \<Rightarrow> bool" for st where
  grows_refl: "cap_grows st st"
| grows_next: "cap_grows st st' \<Longrightarrow> cap_grow st' st'' \<Longrightarrow> cap_grows st st''"

inductive cap_step :: "cap_state \<Rightarrow> cap_state \<Rightarrow> bool" where
  step_grow: "cap_grow st st' \<Longrightarrow> cap_step st st'"
| step_release: "slash_free m \<Longrightarrow> genuine st c \<Longrightarrow> ReleaseCapability m (Some c) st = Inr st' \<Longrightarrow> cap_step st st'"
| step_failed_tx: "cap_grows st st' \<Longrightarrow> cap_step st (st\<lparr>capMap := capMap st'\<rparr>)"

lemma genuine_own: "cap_inv st \<Longrightarrow> genuine st c \<Longrightarrow> Index c < GetLatestIndex st"
  using cap_invD(1) [of st "Index c"] by (simp add: genuine_def)

lemma cap_grow_inv:
  assumes "cap_grow st st'" and "cap_inv st"
  shows "cap_inv st' \<and> GetLatestIndex st \<le> GetLatestIndex st'
    \<and> (\<forall>i < GetLatestIndex st. fmlookup (capMap st') i = fmlookup (capMap st) i)"
  using assms(1)
proof cases
  case (grow_new m addr n c)
  from NewCapability_effect [OF assms(2) grow_new(1,4)]
  have c: "Index c = GetLatestIndex st" "cap_addr c = addr" "cap_added st m c n st'"
    "capMap st' = fmupd (Index c) c (capMap st)" "GetLatestIndex st' = GetLatestIndex st + 1"
    by (auto simp: types_NewCapability_def)
  from grow_new(3) have lt: "GetLatestIndex st < GetLatestIndex st'" unfolding c(5) by (rule u64_less_succ)
  have none: "owners_at st (Index c) = []" using cap_invD(1) [OF assms(2), of "Index c"] c(1) by auto
  have "cap_inv st'"
  proof (rule cap_added_inv [OF assms(2) grow_new(1) c(3)])
    show "d = c" if "genuine st d" "cap_addr d = cap_addr c" for d
      using grow_new(2) [OF that(1)] that(2) c(2) by simp
  qed (use lt c none in simp_all)
  with lt c(1,4) show ?thesis by auto
next
  case (grow_claim m c n)
  note e = ClaimCapability_effect [OF assms(2) grow_claim(1,3)]
  have "cap_inv st'"
  proof (rule cap_added_inv [OF assms(2) grow_claim(1)])
    show "cap_added st m c n st'" using e by simp
    show "d = c" if "genuine st d" "cap_addr d = cap_addr c" for d
      by (rule cap_invD(6) [OF assms(2) that(1) grow_claim(2) that(2)])
  qed (use e genuine_own [OF assms(2) grow_claim(2)] grow_claim(2) in \<open>simp_all add: genuine_def\<close>)
  with e show ?thesis by simp
qed

lemma cap_grows_inv:
  assumes "cap_grows st st'" and "cap_inv st"
  shows "cap_inv st' \<and> GetLatestIndex st \<le> GetLatestIndex st'
    \<and> (\<forall>i < GetLatestIndex st. fmlookup (capMap st') i = fmlookup (capMap st) i)"
  using assms
proof (induction rule: cap_grows.induct)
  case (grows_next st' st'')
  then show ?case using cap_grow_inv [OF grows_next(2)] by (metis order.strict_trans2 order.trans)
qed simp

lemma failed_tx_inv:
  assumes "cap_inv st" and "cap_inv st'"
    and "\<forall>i < GetLatestIndex st. fmlookup (capMap st') i = fmlookup (capMap st) i"
  shows "cap_inv (st\<lparr>capMap := capMap st'\<rparr>)"
proof -
  have "genuine (st\<lparr>capMap := capMap st'\<rparr>) c \<longleftrightarrow> genuine st c" for c
    using assms(3) cap_invD(1) [OF assms(1), of "Index c"] by (auto simp: genuine_def store_simps)
  then show ?thesis
    using assms cap_invD(5) [OF assms(2)] unfolding cap_inv_def
    by (simp add: store_simps GetLatestIndex_def)
qed

lemma cap_step_inv:
  assumes "cap_step st st'" and "cap_inv st"
  shows "cap_inv st'"
  using assms(1)
proof cases
  case step_grow
  with cap_grow_inv assms(2) show ?thesis by blast
next
  case (step_release m c)
  from ReleaseCapability_effect [OF assms(2) step_release(1,3)] show ?thesis
    using cap_removed_inv [OF assms(2) step_release(1,2)] by blast
next
  case (step_failed_tx st1)
  from cap_grows_inv [OF step_failed_tx(2) assms(2)] show ?thesis
    unfolding step_failed_tx(1) using failed_tx_inv [OF assms(2)] by blast
qed

text \<open>
  Any transaction, releases included. The map entry of a capability that had owners before it is gone
  exactly when its last owner released it, and else unchanged.
\<close>

inductive cap_tx :: "cap_state \<Rightarrow> cap_state \<Rightarrow> bool" for st where
  tx_refl: "cap_tx st st"
| tx_grow: "cap_tx st st' \<Longrightarrow> cap_grow st' st'' \<Longrightarrow> cap_tx st st''"
| tx_release: "cap_tx st st' \<Longrightarrow> slash_free m \<Longrightarrow> genuine st' c \<Longrightarrow> ReleaseCapability m (Some c) st' = Inr st'' \<Longrightarrow> cap_tx st st''"

definition map_follows :: "cap_state \<Rightarrow> cap_state \<Rightarrow> bool" where
  "map_follows st st' = (\<forall>i. owners_at st i \<noteq> [] \<longrightarrow>
     fmlookup (capMap st') i = (if owners_at st' i = [] then None else fmlookup (capMap st) i))"

lemma map_follows_grow:
  assumes "cap_grow st' st''" and "cap_inv st'" and "map_follows st st'" and "\<And>i. owners_at st i \<noteq> [] \<Longrightarrow> i < GetLatestIndex st'"
  shows "map_follows st st''"
  using assms(1)
proof cases
  case (grow_new m addr n c)
  from NewCapability_effect [OF assms(2) grow_new(1,4)] have "Index c = GetLatestIndex st'" "cap_added st' m c n st''"
    "capMap st'' = fmupd (Index c) c (capMap st')" by (auto simp: types_NewCapability_def)
  then show ?thesis using assms(3,4) unfolding map_follows_def cap_added_def by force
next
  case (grow_claim m c n)
  from ClaimCapability_effect [OF assms(2) grow_claim(1,3)] grow_claim(2) show ?thesis
    using assms(3) by (auto simp: map_follows_def cap_added_def genuine_def)
qed

lemma cap_tx_inv:
  assumes "cap_tx st st'" and "cap_inv st"
  shows "cap_inv st' \<and> GetLatestIndex st \<le> GetLatestIndex st' \<and> map_follows st st'"
  using assms
proof (induction rule: cap_tx.induct)
  case tx_refl
  then show ?case by (simp add: map_follows_def)
next
  case (tx_grow st' st'')
  then have IH: "cap_inv st'" "GetLatestIndex st \<le> GetLatestIndex st'" "map_follows st st'" by blast+
  have "i < GetLatestIndex st'" if "owners_at st i \<noteq> []" for i
    using cap_invD(1) [OF tx_grow.prems that] IH(2) by (rule order.strict_trans2)
  then show ?case using cap_grow_inv [OF tx_grow(2) IH(1)] map_follows_grow [OF tx_grow(2) IH(1,3)] IH(2) by auto
next
  case (tx_release st' m c st'')
  then have IH: "cap_inv st'" "GetLatestIndex st \<le> GetLatestIndex st'" "map_follows st st'" by blast+
  from ReleaseCapability_effect [OF IH(1) tx_release(2,4)] obtain n where r: "cap_removed st' m c n st''" by blast
  moreover have "map_follows st st''" using IH(3) r tx_release(3) by (auto simp: map_follows_def cap_removed_def genuine_def)
  ultimately show ?case using cap_removed_inv [OF IH(1) tx_release(2,3)] IH(2) by (simp add: cap_removed_def)
qed

text \<open>The lookups after a failed transaction, which restores the stores and leaves the map.\<close>

lemma failed_tx_lookup:
  assumes inv: "cap_inv st" and tx: "cap_tx st st'" and m: "slash_free m"
  shows "GetCapability m (st\<lparr>capMap := capMap st'\<rparr>) n =
    (case GetCapability m st n of
       Inr (Some c) \<Rightarrow> if getOwners st' c = [] then Inl (Panic ''capability found in memstore is missing from map'') else Inr (Some c)
     | r \<Rightarrow> r)"
proof (cases "is_blank n \<or> rev_of st m n = None")
  case True
  then show ?thesis by (auto simp: GetCapability_def rev_of_def split: option.splits mem_value.splits)
next
  case False
  then obtain i where i: "\<not> is_blank n" "rev_of st m n = Some i" by auto
  have o: "owners_at st i \<noteq> []" using cap_invD(7) [OF inv m i(2)] by auto
  with cap_invD(2) [OF inv] obtain c where c: "fmlookup (capMap st) i = Some c" by blast
  then have "GetCapability m st n = Inr (Some c)" "Index c = i" using i cap_invD(5) [OF inv c] by (auto simp: GetCapability_iff)
  moreover have "fmlookup (capMap st') i = (if owners_at st' i = [] then None else Some c)"
    using cap_tx_inv [OF tx inv] o c by (simp add: map_follows_def)
  ultimately show ?thesis using i
    by (auto simp: getOwners_at GetCapability_def rev_of_def split: option.splits mem_value.splits if_splits)
qed

section \<open>Restart\<close>

text \<open>What the persisted store has to satisfy when a node starts.\<close>

definition persisted_ok :: "cap_state \<Rightarrow> bool" where
  "persisted_ok st =
     (\<forall>i ows. fmlookup (store_owners st) i = Some ows \<longrightarrow>
        ows \<noteq> [] \<and> i < GetLatestIndex st \<and> owners_ok ows \<and> owner_names_ok ows)"

definition setOwnerKeys :: "Capability \<Rightarrow> Owner \<Rightarrow> cap_state \<Rightarrow> cap_state" where
  "setOwnerKeys c ow st =
     (setCapabilityKeys (own_Module ow) c (own_Name ow) st)\<lparr>capMap := fmupd (Index c) c (capMap st)\<rparr>"

lemma InitializeCapability_fold:
  "InitializeCapability alloc i ows st = fold (setOwnerKeys (types_NewCapability (alloc i) i)) ows st"
  unfolding InitializeCapability_def setOwnerKeys_def setCapabilityKeys_def
  by (auto simp: Let_def types_NewCapability_def intro!: fold_cong)

lemma setOwnerKeys_same [simp]:
  "store_owners (setOwnerKeys c ow st) = store_owners st" "store_index (setOwnerKeys c ow st) = store_index st"
  by (simp_all add: setOwnerKeys_def store_simps)

lemma fold_setOwnerKeys_same [simp]:
  "store_owners (fold (setOwnerKeys c) ows st) = store_owners st"
  "store_index (fold (setOwnerKeys c) ows st) = store_index st"
  by (induction ows arbitrary: st) simp_all

lemma fold_setOwnerKeys_capMap:
  "fmlookup (capMap (fold (setOwnerKeys c) ows st)) j =
     (if ows \<noteq> [] \<and> j = Index c then Some c else fmlookup (capMap st) j)"
  by (induction ows arbitrary: st) (auto simp: setOwnerKeys_def)

lemma NewOwner_eq: "NewOwner m n = ow \<longleftrightarrow> m = own_Module ow \<and> n = own_Name ow"
  by (cases ow) (auto simp: NewOwner_def)

lemma fold_setOwnerKeys_rev:
  "owner_names_ok ows \<Longrightarrow> slash_free m \<Longrightarrow>
   rev_of (fold (setOwnerKeys c) ows st) m n = (if NewOwner m n \<in> set ows then Some (Index c) else rev_of st m n)"
  by (induction ows arbitrary: st)
    (simp_all add: owner_names_ok_def NewOwner_eq setOwnerKeys_def store_simps)

lemma fold_setOwnerKeys_fwd:
  "owner_names_ok ows \<Longrightarrow> slash_free m \<Longrightarrow> fwd_of (fold (setOwnerKeys c) ows st) m d = Some x \<Longrightarrow>
   cap_addr d = cap_addr c \<and> NewOwner m x \<in> set ows \<or> fwd_of st m d = Some x"
proof (induction ows arbitrary: st)
  case (Cons ow ows)
  then have ok: "slash_free (own_Module ow)" "owner_names_ok ows" by (simp_all add: owner_names_ok_def)
  have "fwd_of (setOwnerKeys c ow st) m d = Some x \<Longrightarrow>
      cap_addr d = cap_addr c \<and> NewOwner m x = ow \<or> fwd_of st m d = Some x"
    using ok Cons.prems(2) by (simp add: setOwnerKeys_def store_simps NewOwner_eq split: if_splits)
  with Cons.IH [OF ok(2) Cons.prems(2)] Cons.prems(3) show ?case by fastforce
qed simp

definition initAll :: "(u64 \<Rightarrow> u64) \<Rightarrow> u64 list \<Rightarrow> cap_state \<Rightarrow> cap_state" where
  "initAll alloc = fold (\<lambda>index st. case fmlookup (store_owners st) index of
      None \<Rightarrow> st | Some capOwners \<Rightarrow> InitializeCapability alloc index capOwners st)"

lemma initAll_Cons:
  "initAll alloc (i # is) st =
     initAll alloc is (fold (setOwnerKeys (types_NewCapability (alloc i) i)) (owners_at st i) st)"
  by (simp add: initAll_def owners_at_def InitializeCapability_fold split: option.splits)

lemma initAll_Nil [simp]: "initAll alloc [] st = st"
  by (simp add: initAll_def)

lemma owners_at_fold [simp]: "owners_at (fold (setOwnerKeys c) ows st) i = owners_at st i"
  by (simp add: owners_at_def)

lemma initAll_same:
  "store_owners (initAll alloc is st) = store_owners st \<and> store_index (initAll alloc is st) = store_index st"
  by (induction "is" arbitrary: st) (simp_all add: initAll_Cons)

lemma NewCapability_sel [simp]: "Index (types_NewCapability a i) = i" "cap_addr (types_NewCapability a i) = a"
  by (simp_all add: types_NewCapability_def)

lemma initAll_capMap:
  "fmlookup (capMap (initAll alloc is st)) j =
     (if j \<in> set is \<and> owners_at st j \<noteq> [] then Some (types_NewCapability (alloc j) j) else fmlookup (capMap st) j)"
  by (induction "is" arbitrary: st) (auto simp: initAll_Cons fold_setOwnerKeys_capMap)

lemma initAll_rev:
  assumes "\<And>i. owner_names_ok (owners_at st i)" and "slash_free m"
  shows "(\<forall>i. rev_of (initAll alloc is st) m n = Some i \<longrightarrow> i \<in> set is \<and> owned st i m n \<or> rev_of st m n = Some i)
    \<and> (rev_of st m n \<noteq> None \<or> (\<exists>i\<in>set is. owned st i m n) \<longrightarrow> rev_of (initAll alloc is st) m n \<noteq> None)"
  using assms(1)
proof (induction "is" arbitrary: st)
  case (Cons i "is")
  let ?st = "fold (setOwnerKeys (types_NewCapability (alloc i) i)) (owners_at st i) st"
  have "rev_of ?st m n = (if owned st i m n then Some i else rev_of st m n)"
    using fold_setOwnerKeys_rev [OF Cons.prems assms(2)] by simp
  moreover have "owner_names_ok (owners_at ?st k)" for k using Cons.prems by simp
  from Cons.IH [OF this] have
    "\<forall>k. rev_of (initAll alloc is ?st) m n = Some k \<longrightarrow> k \<in> set is \<and> owned st k m n \<or> rev_of ?st m n = Some k"
    "rev_of ?st m n \<noteq> None \<or> (\<exists>i\<in>set is. owned st i m n) \<longrightarrow> rev_of (initAll alloc is ?st) m n \<noteq> None"
    by simp_all
  ultimately show ?case unfolding initAll_Cons by (cases "owned st i m n") auto
qed simp

lemma initAll_fwd:
  assumes "\<And>i. owner_names_ok (owners_at st i)" and "slash_free m" and "fwd_of (initAll alloc is st) m d = Some x"
  shows "(\<exists>i\<in>set is. cap_addr d = alloc i \<and> owned st i m x) \<or> fwd_of st m d = Some x"
  using assms(1,3)
proof (induction "is" arbitrary: st)
  case (Cons i "is")
  let ?st = "fold (setOwnerKeys (types_NewCapability (alloc i) i)) (owners_at st i) st"
  have "owner_names_ok (owners_at ?st k)" for k using Cons.prems by simp
  from Cons.IH [OF this] Cons.prems(2) have
    "(\<exists>i\<in>set is. cap_addr d = alloc i \<and> owned st i m x) \<or> fwd_of ?st m d = Some x"
    by (simp add: initAll_Cons)
  with fold_setOwnerKeys_fwd [OF Cons.prems(1) [of i] assms(2)] show ?case by fastforce
qed simp

text \<open>The state after a restart: nothing in memory but what \<open>InitMemStore\<close> puts there.\<close>

definition restart :: "(u64 \<Rightarrow> u64) \<Rightarrow> cap_state \<Rightarrow> cap_state" where
  "restart alloc st = InitMemStore alloc (st\<lparr>memStore := fmempty, capMap := fmempty\<rparr>)"

lemma persisted_okD:
  assumes "persisted_ok st"
  shows "owners_at st i \<noteq> [] \<Longrightarrow> i < GetLatestIndex st" "owners_ok (owners_at st i)" "owner_names_ok (owners_at st i)"
    "i |\<in>| fmdom (store_owners st) \<longleftrightarrow> owners_at st i \<noteq> []"
  using assms by (auto simp: persisted_ok_def owners_at_def owner_names_ok_def fmlookup_dom_iff split: option.splits)

lemma restart_views:
  assumes "persisted_ok st" and m: "slash_free m"
  shows "store_owners (restart alloc st) = store_owners st" "store_index (restart alloc st) = store_index st"
    and "fmlookup (capMap (restart alloc st)) j =
      (if owners_at st j \<noteq> [] then Some (types_NewCapability (alloc j) j) else None)"
    and "rev_of (restart alloc st) m n = Some i \<Longrightarrow> owned st i m n"
    and "owned st i m n \<Longrightarrow> rev_of (restart alloc st) m n \<noteq> None"
    and "fwd_of (restart alloc st) m d = Some x \<Longrightarrow> \<exists>i. cap_addr d = alloc i \<and> owned st i m x"
proof -
  let ?st = "st\<lparr>memStore := fmempty, capMap := fmempty\<rparr>" and ?is = "sorted_list_of_fset (fmdom (store_owners st))"
  let ?all = "initAll alloc ?is ?st"
  have r: "restart alloc st = ?all\<lparr>memStore := fmupd KeyMemInitialized MemFlag (memStore ?all)\<rparr>"
    by (simp add: restart_def InitMemStore_def IsInitialized_def Let_def initAll_def)
  have [simp]: "rev_of (restart alloc st) m n = rev_of ?all m n" "fwd_of (restart alloc st) m d = fwd_of ?all m d" for n d
    by (simp_all add: r rev_of_def fwd_of_def)
  have ows: "owners_at ?st k = owners_at st k" for k by (simp add: owners_at_def)
  note p = persisted_okD [OF assms(1)]
  have names: "owner_names_ok (owners_at ?st k)" for k using p(3) by (simp add: ows)
  have ini: "rev_of ?st m n = None" "fwd_of ?st m d = None" for n d by (simp_all add: rev_of_def fwd_of_def)
  have dom: "k \<in> set ?is \<longleftrightarrow> owners_at st k \<noteq> []" for k using p(4) [of k] by simp
  show "store_owners (restart alloc st) = store_owners st" "store_index (restart alloc st) = store_index st"
    using initAll_same [of alloc ?is ?st] by (simp_all add: r)
  show "fmlookup (capMap (restart alloc st)) j =
      (if owners_at st j \<noteq> [] then Some (types_NewCapability (alloc j) j) else None)"
    using dom by (simp add: r initAll_capMap ows)
  show "owned st i m n" if "rev_of (restart alloc st) m n = Some i"
    using initAll_rev [OF names m] that ini(1) ows by auto
  show "rev_of (restart alloc st) m n \<noteq> None" if "owned st i m n"
    using initAll_rev [OF names m, of alloc ?is n] that dom [of i] ows by auto
  show "\<exists>i. cap_addr d = alloc i \<and> owned st i m x" if "fwd_of (restart alloc st) m d = Some x"
    using initAll_fwd [OF names m, of alloc ?is d x] that ini(2) ows by auto
qed

lemma restart_inv:
  assumes p: "persisted_ok st" and "inj alloc"
  shows "cap_inv (restart alloc st)"
proof -
  note r = restart_views [OF p]
  have s: "store_owners (restart alloc st) = store_owners st" "store_index (restart alloc st) = store_index st"
    by (rule r(1) [of "[]"], simp) (rule r(2) [of "[]"], simp)
  have ows [simp]: "owners_at (restart alloc st) k = owners_at st k" for k using s by (simp add: owners_at_def)
  have cm: "fmlookup (capMap (restart alloc st)) j =
      (if owners_at st j \<noteq> [] then Some (types_NewCapability (alloc j) j) else None)" for j
    by (rule r(3) [of "[]"]) simp
  have [simp]: "GetLatestIndex (restart alloc st) = GetLatestIndex st" using s by (simp add: GetLatestIndex_def)
  have gen: "genuine (restart alloc st) c \<longleftrightarrow> owners_at st (Index c) \<noteq> [] \<and> c = types_NewCapability (alloc (Index c)) (Index c)" for c
    using cm [of "Index c"] by (auto simp: genuine_def)
  have "c = d" if "genuine (restart alloc st) c" "genuine (restart alloc st) d" "cap_addr c = cap_addr d" for c d
    using that assms(2) gen by (metis NewCapability_sel(2) injD)
  moreover have "\<exists>d. genuine (restart alloc st) d \<and> cap_addr d = cap_addr c \<and> owned st (Index d) m n"
    if "slash_free m" "fwd_of (restart alloc st) m c = Some n" for m c n
  proof -
    from r(6) [OF that] obtain i where "cap_addr c = alloc i" "owned st i m n" by blast
    then show ?thesis by (intro exI [of _ "types_NewCapability (alloc i) i"]) (auto simp: gen)
  qed
  ultimately show ?thesis
    unfolding cap_inv_def using persisted_okD [OF p] cm r(4) by auto
qed

section \<open>Genesis\<close>

lemma fold_SetOwners:
  "distinct (map fst xs) \<Longrightarrow>
   fmlookup (store_owners (fold (\<lambda>(i, ows). SetOwners i ows) xs st)) k =
     (case map_of xs k of None \<Rightarrow> fmlookup (store_owners st) k | Some ows \<Rightarrow> Some ows)"
proof (induction xs arbitrary: st)
  case (Cons x xs)
  obtain i ows where x: "x = (i, ows)" by (cases x)
  from Cons.prems have "map_of xs i = None" by (simp add: x map_of_eq_None_iff)
  with Cons.IH [of "SetOwners i ows st"] Cons.prems show ?case
    by (auto simp: x SetOwners_def split: option.splits)
qed simp

lemma fold_SetOwners_other:
  "store_index (fold (\<lambda>(i, ows). SetOwners i ows) xs st) = store_index st"
  "memStore (fold (\<lambda>(i, ows). SetOwners i ows) xs st) = memStore st"
  "capMap (fold (\<lambda>(i, ows). SetOwners i ows) xs st) = capMap st"
  by (induction xs arbitrary: st) (auto simp: SetOwners_def)

lemma ExportGenesis_owners:
  "gen_Owners (ExportGenesis st) =
     map (\<lambda>n. (word_of_nat n, owners_at st (word_of_nat n)))
       (filter (\<lambda>n. owners_at st (word_of_nat n) \<noteq> []) [1..<unat (GetLatestIndex st)])"
  unfolding map_filter_map_filter
  by (auto simp: ExportGenesis_def Let_def keeper_GetOwners_def owners_at_def
      intro!: arg_cong [where f = "\<lambda>f. List.map_filter f _"] split: option.splits)

lemma u64_one_le: "k \<noteq> 0 \<Longrightarrow> 1 \<le> (k :: u64)"
  using inc_le [of 0 k] by (simp add: word_gt_0)

lemma exported_set:
  "(k, ows) \<in> set (gen_Owners (ExportGenesis st)) \<longleftrightarrow>
     1 \<le> k \<and> k < GetLatestIndex st \<and> ows \<noteq> [] \<and> ows = owners_at st k"
proof -
  have "(\<exists>n. 1 \<le> n \<and> n < unat (GetLatestIndex st) \<and> k = word_of_nat n) \<longleftrightarrow> 1 \<le> k \<and> k < GetLatestIndex st"
  proof
    assume "\<exists>n. 1 \<le> n \<and> n < unat (GetLatestIndex st) \<and> k = word_of_nat n"
    then obtain n where n: "1 \<le> n" "n < unat (GetLatestIndex st)" "k = word_of_nat n" by blast
    then have "unat k = n" using unsigned_less [of "GetLatestIndex st", where ?'a = nat]
      by (simp add: unat_of_nat take_bit_nat_eq_self)
    with n show "1 \<le> k \<and> k < GetLatestIndex st" by (simp add: word_le_nat_alt word_less_nat_alt)
  next
    assume "1 \<le> k \<and> k < GetLatestIndex st"
    then show "\<exists>n. 1 \<le> n \<and> n < unat (GetLatestIndex st) \<and> k = word_of_nat n"
      by (intro exI [of _ "unat k"]) (simp add: word_le_nat_alt word_less_nat_alt)
  qed
  then show ?thesis
    by (auto simp: ExportGenesis_owners)
qed

lemma exported_distinct: "distinct (map fst (gen_Owners (ExportGenesis st)))"
proof -
  let ?ns = "filter (\<lambda>n. owners_at st (word_of_nat n) \<noteq> []) [1..<unat (GetLatestIndex st)]"
  have "map fst (gen_Owners (ExportGenesis st)) = map word_of_nat ?ns"
    by (simp add: ExportGenesis_owners comp_def)
  moreover have "inj_on (word_of_nat :: nat \<Rightarrow> u64) (set ?ns)"
  proof (rule inj_onI)
    fix a b assume ab: "a \<in> set ?ns" "b \<in> set ?ns" and eq: "(word_of_nat a :: u64) = word_of_nat b"
    have "unat (word_of_nat x :: u64) = x" if "x \<in> set ?ns" for x
    proof -
      from that have "x < unat (GetLatestIndex st)" by simp
      then have "x < 2 ^ 64" using unsigned_less [of "GetLatestIndex st", where ?'a = nat] by simp
      then show ?thesis by (simp add: unat_of_nat take_bit_nat_eq_self)
    qed
    from this [OF ab(1)] this [OF ab(2)] eq show "a = b" by metis
  qed
  ultimately show ?thesis by (simp add: distinct_map)
qed

definition empty_caps :: cap_state where
  "empty_caps = \<lparr>store_index = None, store_owners = fmempty, memStore = fmempty, capMap = fmempty\<rparr>"

lemma genesis_state:
  assumes "persisted_ok st" and "owners_at st 0 = []" and "GetLatestIndex st \<noteq> 0"
  shows "InitGenesis alloc (ExportGenesis st) empty_caps = Inr (restart alloc (st\<lparr>store_index := Some (GetLatestIndex st)\<rparr>))"
proof -
  let ?xs = "gen_Owners (ExportGenesis st)"
  have "fmlookup (store_owners (fold (\<lambda>(i, ows). SetOwners i ows) ?xs (empty_caps\<lparr>store_index := z\<rparr>))) k =
      fmlookup (store_owners st) k" for k z
  proof (cases "owners_at st k = []")
    case True
    then have "fmlookup (store_owners st) k = None"
      using persisted_okD(4) [OF assms(1), of k] by (simp add: fmdom_notD)
    moreover have "map_of ?xs k = None" using True exported_set [of k] by (auto simp: map_of_eq_None_iff)
    ultimately show ?thesis by (simp add: fold_SetOwners [OF exported_distinct] empty_caps_def)
  next
    case False
    then have "k \<noteq> 0" using assms(2) by auto
    then have "1 \<le> k" by (rule u64_one_le)
    with False have "map_of ?xs k = Some (owners_at st k)"
      using exported_set [of k] persisted_okD(1) [OF assms(1) False] exported_distinct
      by (simp add: map_of_eq_Some_iff)
    moreover have "fmlookup (store_owners st) k = Some (owners_at st k)"
      using False by (auto simp: owners_at_def split: option.splits)
    ultimately show ?thesis by (simp add: fold_SetOwners [OF exported_distinct])
  qed
  then have "store_owners (fold (\<lambda>(i, ows). SetOwners i ows) ?xs (empty_caps\<lparr>store_index := z\<rparr>)) = store_owners st" for z
    by (intro fmap_ext) simp
  then have "fold (\<lambda>(i, ows). SetOwners i ows) ?xs (empty_caps\<lparr>store_index := Some (GetLatestIndex st)\<rparr>) =
      st\<lparr>store_index := Some (GetLatestIndex st), memStore := fmempty, capMap := fmempty\<rparr>"
    by (intro cap_state.equality) (simp_all add: fold_SetOwners_other empty_caps_def)
  moreover have "gen_Index (ExportGenesis st) = GetLatestIndex st" by (simp add: ExportGenesis_def Let_def)
  moreover have "GetLatestIndex empty_caps = 0" by (simp add: GetLatestIndex_def empty_caps_def)
  ultimately show ?thesis using assms(3) by (simp add: InitGenesis_def InitializeIndex_def restart_def)
qed

section \<open>The interface of a scoped keeper\<close>

text \<open>
  What the port and channel keepers rely on: creating a capability under a name gives an object that
  authenticates under that name only, and disturbs no other object.
\<close>

locale scoped_capabilities =
  fixes create :: "u64 \<Rightarrow> string \<Rightarrow> cap_state \<Rightarrow> (Capability \<times> cap_state) result"
    and auth :: "cap_state \<Rightarrow> Capability option \<Rightarrow> string \<Rightarrow> bool"
    and lookup :: "cap_state \<Rightarrow> string \<Rightarrow> Capability option result"
    and inv :: "cap_state \<Rightarrow> bool"
    and addr_free :: "cap_state \<Rightarrow> u64 \<Rightarrow> bool"
  assumes create_auth: "inv s \<Longrightarrow> addr_free s a \<Longrightarrow> create a n s = Inr (c, s') \<Longrightarrow> auth s' (Some c) x \<longleftrightarrow> x = n"
    and create_keeps: "inv s \<Longrightarrow> create a n s = Inr (c, s') \<Longrightarrow> cap_addr d \<noteq> a \<Longrightarrow> auth s' (Some d) x = auth s (Some d) x"
    and create_addr: "create a n s = Inr (c, s') \<Longrightarrow> cap_addr c = a"
    and create_lookup: "inv s \<Longrightarrow> create a n s = Inr (c, s') \<Longrightarrow> lookup s' n = Inr (Some c)"
    and create_taken: "lookup s n = Inr (Some c) \<Longrightarrow> \<exists>e. create a n s = Inl e"
    and create_inv: "inv s \<Longrightarrow> addr_free s a \<Longrightarrow> GetLatestIndex s \<noteq> - 1 \<Longrightarrow> create a n s = Inr (c, s') \<Longrightarrow> inv s'"
    and nil_auth: "\<not> auth s None x"
    and auth_name: "auth s oc x \<Longrightarrow> auth s oc y \<Longrightarrow> x = y"
begin

lemma create_once: "inv s \<Longrightarrow> create a n s = Inr (c, s') \<Longrightarrow> \<exists>e. create b n s' = Inl e"
  by (rule create_taken [OF create_lookup])

lemma not_shared:
  assumes "inv s" and "addr_free s a" and "create a n s = Inr (c, s')" and "GetLatestIndex s \<noteq> - 1"
    and "addr_free s' b" and "b \<noteq> a" and "create b k s' = Inr (d, s'')"
  shows "c \<noteq> d \<and> k \<noteq> n \<and> (auth s'' (Some c) x \<longleftrightarrow> x = n) \<and> (auth s'' (Some d) x \<longleftrightarrow> x = k)"
proof -
  note inv' = create_inv [OF assms(1,2,4,3)]
  have ne: "cap_addr c \<noteq> b" using create_addr [OF assms(3)] assms(6) by simp
  have "k \<noteq> n" using create_once [OF assms(1,3), of b] assms(7) by auto
  with ne show ?thesis
    using create_keeps [OF inv' assms(7) ne] create_auth [OF assms(1,2,3)] create_auth [OF inv' assms(5,7)]
      create_addr [OF assms(7)] by auto
qed

end

definition addr_unused :: "cap_state \<Rightarrow> u64 \<Rightarrow> bool" where
  "addr_unused st a = (\<forall>d. genuine st d \<longrightarrow> cap_addr d \<noteq> a)"

lemma NewCapability_auth:
  assumes inv: "cap_inv st" and m: "slash_free m" and new: "NewCapability m addr n st = Inr (c, st')" and m': "slash_free m'"
  shows "addr_unused st addr \<Longrightarrow> AuthenticateCapability m' st' (Some c) x \<longleftrightarrow> m' = m \<and> x = n"
    and "cap_addr d \<noteq> addr \<Longrightarrow> AuthenticateCapability m' st' (Some d) x = AuthenticateCapability m' st (Some d) x"
    and "GetCapability m st' n = Inr (Some c)" and "cap_addr c = addr"
    and "owners_at st' (Index c) = [NewOwner m n]" and "\<not> is_blank n"
proof -
  from NewCapability_effect [OF inv m new] have c: "c = types_NewCapability addr (GetLatestIndex st)"
    and a: "cap_added st m c n st'" and cm: "capMap st' = fmupd (Index c) c (capMap st)" by auto
  from a have blank: "\<not> is_blank n" and rv: "rev_of st' m n = Some (Index c)"
    and ow: "owners_at st' (Index c) = insort_key Owner_Key (NewOwner m n) (owners_at st (Index c))"
    and fw: "\<And>e. fwd_of st' m' e = (if m' = m \<and> cap_addr e = cap_addr c then Some n else fwd_of st m' e)"
    using m m' by (auto simp: cap_added_def)
  show "AuthenticateCapability m' st' (Some c) x \<longleftrightarrow> m' = m \<and> x = n" if "addr_unused st addr"
  proof -
    have "fwd_of st m' c = None"
    proof (rule ccontr)
      assume "fwd_of st m' c \<noteq> None"
      then obtain d where "genuine st d" "cap_addr d = cap_addr c" using cap_invD(8) [OF inv m'] by blast
      with that c show False by (simp add: addr_unused_def)
    qed
    with fw [of c] blank show ?thesis by (auto simp: AuthenticateCapability_iff)
  qed
  show "AuthenticateCapability m' st' (Some d) x = AuthenticateCapability m' st (Some d) x" if "cap_addr d \<noteq> addr"
    using fw [of d] that c by (simp add: AuthenticateCapability_iff)
  show "GetCapability m st' n = Inr (Some c)" using blank rv cm by (simp add: GetCapability_iff)
  have "owners_at st (Index c) = []" using cap_invD(1) [OF inv, of "Index c"] c by auto
  then show "owners_at st' (Index c) = [NewOwner m n]" using ow by simp
  show "cap_addr c = addr" "\<not> is_blank n" using c blank by simp_all
qed

lemma AuthenticateCapability_name:
  "AuthenticateCapability m s c x \<Longrightarrow> AuthenticateCapability m s c y \<Longrightarrow> x = y"
  by (auto simp: AuthenticateCapability_def split: if_splits)

interpretation ibc_caps: scoped_capabilities
  "NewCapability ''ibc''" "AuthenticateCapability ''ibc''" "GetCapability ''ibc''" cap_inv addr_unused
proof unfold_locales
  have sf: "slash_free ''ibc''" by simp
  fix s a n c s' x d
  show "AuthenticateCapability ''ibc'' s' (Some c) x \<longleftrightarrow> x = n"
    if "cap_inv s" "addr_unused s a" "NewCapability ''ibc'' a n s = Inr (c, s')"
    using NewCapability_auth(1) [OF that(1) sf that(3) sf that(2)] by simp
  show "AuthenticateCapability ''ibc'' s' (Some d) x = AuthenticateCapability ''ibc'' s (Some d) x"
    if "cap_inv s" "NewCapability ''ibc'' a n s = Inr (c, s')" "cap_addr d \<noteq> a"
    by (rule NewCapability_auth(2) [OF that(1) sf that(2) sf that(3)])
  show "cap_addr c = a" if "NewCapability ''ibc'' a n s = Inr (c, s')"
    using that by (auto simp: NewCapability_def Let_def split: if_splits)
  show "GetCapability ''ibc'' s' n = Inr (Some c)" if "cap_inv s" "NewCapability ''ibc'' a n s = Inr (c, s')"
    by (rule NewCapability_auth(3) [OF that(1) sf that(2) sf])
  show "\<exists>e. NewCapability ''ibc'' a n s = Inl e" if "GetCapability ''ibc'' s n = Inr (Some c)"
    using that by (simp add: NewCapability_def)
  show "cap_inv s'" if "cap_inv s" "addr_unused s a" "GetLatestIndex s \<noteq> - 1" "NewCapability ''ibc'' a n s = Inr (c, s')"
    using cap_grow_inv [OF grow_new [OF sf _ that(3,4)] that(1)] that(2) by (auto simp: addr_unused_def)
qed (auto simp: AuthenticateCapability_def split: if_splits)

section \<open>Properties\<close>

text \<open>
  Owner sets. On a sorted owner set the binary search returns the position and the membership a
  linear scan finds; adding an owner is the sorted insertion, or the error \<open>ErrOwnerClaimed\<close> when it
  is there already; removing one filters it out; and both keep the set sorted and without duplicates.
\<close>

theorem owner_sets_refine:
  assumes "owners_ok owners"
  shows "Owners_Get owners ow = (length (takeWhile (\<lambda>x. Owner_Key x < Owner_Key ow) owners), Owner_Key ow \<in> Owner_Key ` set owners)
    \<and> Owners_Set owners ow = (if Owner_Key ow \<in> Owner_Key ` set owners then Inl capability_ErrOwnerClaimed
         else Inr (insort_key Owner_Key ow owners))
    \<and> Owners_Remove owners ow = filter (\<lambda>x. Owner_Key x \<noteq> Owner_Key ow) owners
    \<and> owners_ok (Owners_Remove owners ow)
    \<and> (\<forall>ows. Owners_Set owners ow = Inr ows \<longrightarrow> owners_ok ows \<and> set ows = insert ow (set owners))"
  using assms owners_ok_insort [OF assms]
  by (simp add: Owners_Get_linear Owners_Set_insort Owners_Remove_filter owner_pos_def owners_ok_filter set_insort_key)

lemma owner_sets_refine_witness:
  "Owners_Get [NewOwner ''ibc'' ''a'', NewOwner ''icahost'' ''b'', NewOwner ''transfer'' ''a''] (NewOwner ''icahost'' ''b'') = (1, True)
   \<and> Owners_Set [NewOwner ''ibc'' ''a'', NewOwner ''transfer'' ''a''] (NewOwner ''icahost'' ''b'') =
       Inr [NewOwner ''ibc'' ''a'', NewOwner ''icahost'' ''b'', NewOwner ''transfer'' ''a'']"
proof -
  have "owners_ok [NewOwner ''ibc'' ''a'', NewOwner ''icahost'' ''b'', NewOwner ''transfer'' ''a'']"
    "owners_ok [NewOwner ''ibc'' ''a'', NewOwner ''transfer'' ''a'']" by code_simp+
  note r = owner_sets_refine [OF this(1), of "NewOwner ''icahost'' ''b''"] owner_sets_refine [OF this(2), of "NewOwner ''icahost'' ''b''"]
  have "length (takeWhile (\<lambda>x. Owner_Key x < Owner_Key (NewOwner ''icahost'' ''b''))
      [NewOwner ''ibc'' ''a'', NewOwner ''icahost'' ''b'', NewOwner ''transfer'' ''a'']) = 1"
    "insort_key Owner_Key (NewOwner ''icahost'' ''b'') [NewOwner ''ibc'' ''a'', NewOwner ''transfer'' ''a''] =
      [NewOwner ''ibc'' ''a'', NewOwner ''icahost'' ''b'', NewOwner ''transfer'' ''a'']"
    "Owner_Key (NewOwner ''icahost'' ''b'') \<notin> Owner_Key ` set [NewOwner ''ibc'' ''a'', NewOwner ''transfer'' ''a'']"
    by code_simp+
  with r show ?thesis by simp
qed

text \<open>
  C23: object capabilities. A successful \<open>NewCapability\<close> returns a capability with the current index;
  the scoped keeper finds it under its name, it authenticates for that module and name and for no
  other module or name, whatever authenticated before still does, the module is its only owner, and
  the name cannot be taken a second time. (The runtime places a new object at an address that no
  capability in use has; module names contain no slash.)
\<close>

theorem new_capability_exclusive:
  assumes inv: "cap_inv st" and m: "slash_free m" and fresh: "\<And>d. genuine st d \<Longrightarrow> cap_addr d \<noteq> addr"
    and new: "NewCapability m addr n st = Inr (c, st')" and m': "slash_free m'"
  shows "Index c = GetLatestIndex st \<and> GetCapability m st' n = Inr (Some c)
    \<and> (AuthenticateCapability m' st' (Some c) n' \<longleftrightarrow> m' = m \<and> n' = n)
    \<and> (cap_addr d \<noteq> addr \<longrightarrow> AuthenticateCapability m' st' (Some d) n' = AuthenticateCapability m' st (Some d) n')
    \<and> LookupModules m st' n = Inr ([m], c)
    \<and> NewCapability m addr' n st' = Inl capability_ErrCapabilityTaken"
proof -
  note a = NewCapability_auth [OF inv m new m']
  have idx: "Index c = GetLatestIndex st" using NewCapability_effect [OF inv m new] by simp
  have "fmlookup (store_owners st') (Index c) = Some [NewOwner m n]"
    using a(5) by (auto simp: owners_at_def split: option.splits)
  then have "LookupModules m st' n = Inr ([m], c)"
    using a(3,6) by (simp add: LookupModules_def GetOwners_def NewOwner_def)
  moreover have "NewCapability m addr' n st' = Inl capability_ErrCapabilityTaken"
    using a(3,6) by (simp add: NewCapability_def)
  moreover have "addr_unused st addr" using fresh by (simp add: addr_unused_def)
  ultimately show ?thesis using idx a(1-3) by simp
qed

text \<open>A fresh chain: the genesis index is one and nothing is owned.\<close>

definition ex_caps :: cap_state where
  "ex_caps = empty_caps\<lparr>store_index := Some 1\<rparr>"

lemma ex_caps_inv: "cap_inv ex_caps" and ex_caps_none: "\<not> genuine ex_caps d"
  by (simp_all add: cap_inv_def ex_caps_def empty_caps_def owners_at_def rev_of_def fwd_of_def genuine_def owner_names_ok_def)

lemma new_capability_exclusive_witness:
  "\<exists>c st. NewCapability ''ibc'' 16 ''ports/transfer'' ex_caps = Inr (c, st)
     \<and> AuthenticateCapability ''ibc'' st (Some c) ''ports/transfer''
     \<and> \<not> AuthenticateCapability ''transfer'' st (Some c) ''ports/transfer''"
proof -
  have "is_ok (NewCapability ''ibc'' 16 ''ports/transfer'' ex_caps)" by code_simp
  then obtain c st where n: "NewCapability ''ibc'' 16 ''ports/transfer'' ex_caps = Inr (c, st)"
    by (auto simp: is_ok_iff)
  have "slash_free ''ibc''" "slash_free ''transfer''" by code_simp+
  with new_capability_exclusive [OF ex_caps_inv _ _ n] ex_caps_none n show ?thesis by auto
qed

inductive cap_reachable :: "cap_state \<Rightarrow> bool" where
  reach_start: "persisted_ok st \<Longrightarrow> inj alloc \<Longrightarrow> cap_reachable (restart alloc st)"
| reach_step: "cap_reachable st \<Longrightarrow> cap_step st st' \<Longrightarrow> cap_reachable st'"

lemma cap_reachable_inv: "cap_reachable st \<Longrightarrow> cap_inv st"
  by (induction rule: cap_reachable.induct) (auto intro: restart_inv cap_step_inv)

text \<open>
  C22: the stores of the capability keeper stay in step. In every state a node reaches from a start on
  a well-formed persisted store, by creating, claiming and releasing capabilities and by failed
  transactions that had created or claimed some but released none, a lookup by name never hits the
  panic of the source, what it returns is a live capability owned by that module under that name, and
  a live capability authenticates only for a recorded owner. After a failed transaction that also
  released capabilities, exactly those lookups panic whose capability the transaction had left without
  an owner; every other lookup answers as before.
\<close>

theorem capability_stores_in_step:
  assumes "cap_reachable st" and m: "slash_free m"
  shows "is_ok (GetCapability m st n)
    \<and> (GetCapability m st n = Inr (Some c) \<longrightarrow> genuine st c \<and> NewOwner m n \<in> set (getOwners st c))
    \<and> (genuine st c \<and> AuthenticateCapability m st (Some c) n \<longrightarrow> NewOwner m n \<in> set (getOwners st c))
    \<and> (cap_tx st st' \<longrightarrow> GetCapability m (st\<lparr>capMap := capMap st'\<rparr>) n =
         (case GetCapability m st n of
            Inr (Some c) \<Rightarrow> if getOwners st' c = [] then Inl (Panic ''capability found in memstore is missing from map'') else Inr (Some c)
          | r \<Rightarrow> r))"
proof -
  note inv = cap_reachable_inv [OF assms(1)]
  note inv' = cap_invD [OF inv]
  have "genuine st c \<and> owned st (Index c) m n" if "GetCapability m st n = Inr (Some c)"
  proof -
    from that obtain i where i: "rev_of st m n = Some i" "fmlookup (capMap st) i = Some c"
      by (auto simp: GetCapability_iff)
    with inv'(5) [OF i(2)] inv'(7) [OF m i(1)] show ?thesis by (auto simp: genuine_def)
  qed
  moreover have "owned st (Index c) m n" if "genuine st c" "AuthenticateCapability m st (Some c) n"
    using that(2) inv'(8) [OF m] inv'(6) [OF _ that(1)] by (auto simp: AuthenticateCapability_iff)
  ultimately have "is_ok (GetCapability m st n) \<and> (GetCapability m st n = Inr (Some c) \<longrightarrow> genuine st c \<and> NewOwner m n \<in> set (getOwners st c))
    \<and> (genuine st c \<and> AuthenticateCapability m st (Some c) n \<longrightarrow> NewOwner m n \<in> set (getOwners st c))"
    using GetCapability_ok [OF inv m] by (simp add: getOwners_at)
  then show ?thesis using failed_tx_lookup [OF inv _ m] by blast
qed

lemma capability_stores_in_step_witness:
  "\<exists>c st. NewCapability ''ibc'' 16 ''ports/transfer'' (restart id ex_caps) = Inr (c, st) \<and> cap_reachable st
     \<and> (\<forall>n. is_ok (GetCapability ''ibc'' st n))"
proof -
  have "is_ok (NewCapability ''ibc'' 16 ''ports/transfer'' (restart id ex_caps))" by code_simp
  then obtain c st where n: "NewCapability ''ibc'' 16 ''ports/transfer'' (restart id ex_caps) = Inr (c, st)"
    by (auto simp: is_ok_iff)
  have p: "persisted_ok ex_caps" by (simp add: persisted_ok_def ex_caps_def empty_caps_def)
  have sf: "slash_free ''ibc''" by code_simp
  have "\<not> genuine (restart id ex_caps) d" for d
    using restart_views(3) [OF p sf, of id "Index d"] by (simp add: genuine_def ex_caps_def empty_caps_def owners_at_def)
  moreover have "GetLatestIndex (restart id ex_caps) \<noteq> - 1" by code_simp
  ultimately have "cap_grow (restart id ex_caps) st" using n sf by (intro grow_new) auto
  with p have "cap_reachable st" by (intro reach_step [OF reach_start] step_grow) auto
  with n capability_stores_in_step [OF this sf] show ?thesis by blast
qed

text \<open>
  C39: a released capability and a failed transaction. When the only owner of a capability releases it
  and the transaction then fails, the stores are restored but the Go map is not: from then on the
  lookup of that name panics.
\<close>

theorem release_rollback_panics:
  assumes "cap_inv st" and "slash_free m" and "GetCapability m st n = Inr (Some c)"
    and "AuthenticateCapability m st (Some c) n" and "getOwners st c = [NewOwner m n]"
  shows "\<exists>st'. ReleaseCapability m (Some c) st = Inr st'
    \<and> GetCapability m (st\<lparr>capMap := capMap st'\<rparr>) n = Inl (Panic ''capability found in memstore is missing from map'')"
proof -
  from assms(3) have rv: "\<not> is_blank n" "rev_of st m n = Some (Index c)" "fmlookup (capMap st) (Index c) = Some c"
    using cap_invD(5) [OF assms(1)] by (auto simp: GetCapability_iff)
  have nm: "GetCapabilityName m st (Some c) = n" "n \<noteq> []" using assms(4) by (auto simp: AuthenticateCapability_def split: if_splits)
  have "owners_ok [NewOwner m n]" by (simp add: owners_ok_Cons)
  then have "Owners_Remove [NewOwner m n] (NewOwner m n) = []" by (simp add: Owners_Remove_filter)
  then obtain st' where r: "ReleaseCapability m (Some c) st = Inr st'" and cm: "capMap st' = fmdrop (Index c) (capMap st)"
    using nm assms(5) by (simp add: ReleaseCapability_def Let_def getOwners_def)
  have "GetCapability m (st\<lparr>capMap := capMap st'\<rparr>) n = Inl (Panic ''capability found in memstore is missing from map'')"
    using rv cm by (auto simp: GetCapability_def rev_of_def split: option.splits mem_value.splits)
  with r show ?thesis by blast
qed

lemma release_rollback_panics_witness:
  "\<exists>c st st'. NewCapability ''ibc'' 16 ''ports/transfer'' ex_caps = Inr (c, st)
     \<and> ReleaseCapability ''ibc'' (Some c) st = Inr st'
     \<and> \<not> is_ok (GetCapability ''ibc'' (st\<lparr>capMap := capMap st'\<rparr>) ''ports/transfer'')"
proof -
  define c st where "c = fst (projr (NewCapability ''ibc'' 16 ''ports/transfer'' ex_caps))"
    and "st = snd (projr (NewCapability ''ibc'' 16 ''ports/transfer'' ex_caps))"
  have n: "NewCapability ''ibc'' 16 ''ports/transfer'' ex_caps = Inr (c, st)" unfolding c_def st_def by code_simp
  have sf: "slash_free ''ibc''" by code_simp
  have "cap_grow ex_caps st"
    using n sf ex_caps_none by (intro grow_new) (auto simp: ex_caps_def GetLatestIndex_def)
  then have inv: "cap_inv st" using cap_grow_inv ex_caps_inv by blast
  have "GetCapability ''ibc'' st ''ports/transfer'' = Inr (Some c)" "AuthenticateCapability ''ibc'' st (Some c) ''ports/transfer''"
    "getOwners st c = [NewOwner ''ibc'' ''ports/transfer'']"
    unfolding c_def st_def by code_simp+
  from release_rollback_panics [OF inv sf this] n show ?thesis by auto
qed

text \<open>
  Restart and genesis. After a restart the keeper finds every capability under each name a module
  owned it by (when the name stands for one capability of the module), with the persisted index, and
  its stores are in step; exporting a genesis state and importing it into an empty chain gives the
  same state as a restart.
\<close>

theorem restart_rebuilds:
  assumes p: "persisted_ok st" and alloc: "inj alloc" and m: "slash_free m" and n: "\<not> is_blank n"
    and own: "NewOwner m n \<in> set (getOwners st \<lparr>cap_addr = a, Index = i\<rparr>)"
    and uniq: "\<And>j. NewOwner m n \<in> set (getOwners st \<lparr>cap_addr = a, Index = j\<rparr>) \<Longrightarrow> j = i"
  shows "cap_inv (restart alloc st)
    \<and> GetCapability m (restart alloc st) n = Inr (Some (types_NewCapability (alloc i) i))
    \<and> (owners_at st 0 = [] \<and> GetLatestIndex st \<noteq> 0 \<longrightarrow>
        InitGenesis alloc (ExportGenesis st) empty_caps = Inr (restart alloc (st\<lparr>store_index := Some (GetLatestIndex st)\<rparr>)))"
proof -
  note r = restart_views [OF p m]
  from own have o: "owned st i m n" by (simp add: getOwners_at)
  from uniq have u: "owned st j m n \<Longrightarrow> j = i" for j by (simp add: getOwners_at)
  from r(5) [OF o] r(4) u have "rev_of (restart alloc st) m n = Some i" by blast
  moreover have "fmlookup (capMap (restart alloc st)) i = Some (types_NewCapability (alloc i) i)"
    using o r(3) by auto
  ultimately show ?thesis using n restart_inv [OF p alloc] genesis_state [OF p] by (simp add: GetCapability_iff)
qed

definition ex_persisted :: cap_state where
  "ex_persisted = \<lparr>store_index = Some 2, store_owners = fmap_of_list [(1, [NewOwner ''ibc'' ''p'', NewOwner ''transfer'' ''p''])],
     memStore = fmempty, capMap = fmempty\<rparr>"

lemma restart_rebuilds_witness:
  "GetCapability ''transfer'' (restart (\<lambda>i. 16 + i) ex_persisted) ''p'' = Inr (Some (types_NewCapability 17 1))"
proof -
  have "owners_ok [NewOwner ''ibc'' ''p'', NewOwner ''transfer'' ''p'']"
    "owner_names_ok [NewOwner ''ibc'' ''p'', NewOwner ''transfer'' ''p'']" "\<not> is_blank ''p''" "slash_free ''transfer''" by code_simp+
  moreover from this have "persisted_ok ex_persisted"
    by (simp add: persisted_ok_def ex_persisted_def fmlookup_of_list GetLatestIndex_def)
  moreover have "inj (\<lambda>i. 16 + i :: u64)" by (simp add: inj_def)
  moreover have "NewOwner ''transfer'' ''p'' \<in> set (getOwners ex_persisted \<lparr>cap_addr = 0, Index = 1\<rparr>)" by code_simp
  moreover have "j = 1" if "NewOwner ''transfer'' ''p'' \<in> set (getOwners ex_persisted \<lparr>cap_addr = 0, Index = j\<rparr>)" for j
    using that by (auto simp: ex_persisted_def getOwners_def fmlookup_of_list split: if_splits)
  ultimately show ?thesis using restart_rebuilds [of ex_persisted "\<lambda>i. 16 + i" "''transfer''" "''p''" 0 1] by simp
qed

end
