(* ===== verification/Port.thy ===== *)
theory Port
  imports Capability
begin

text \<open>
  ICS-5, \<open>modules/core/05-port\<close>: binding ports to modules through the capability keeper
  (\<open>keeper/keeper.go\<close>), the owner of a port (\<open>types/utils.go\<close>) and the router from module names to their
  callbacks (\<open>types/router.go\<close>). The core's scoped keeper is the one of the module \<open>ibc\<close>. The theorem:
  a port is bound once, its capability authenticates for that port alone, and the module that
  claims the capability is the one packets for the port are routed to.
\<close>

section \<open>Router\<close>

record 'cbs Router =
  routes :: "(string, 'cbs) fmap"
  router_sealed :: bool

definition NewRouter :: "'cbs Router" where
  "NewRouter = \<lparr>routes = fmempty, router_sealed = False\<rparr>"

definition Router_Seal :: "'cbs Router \<Rightarrow> 'cbs Router result" where
  "Router_Seal rtr =
     (if router_sealed rtr then Inl (Panic ''router already sealed'') else Inr (rtr\<lparr>router_sealed := True\<rparr>))"

definition HasRoute :: "'cbs Router \<Rightarrow> string \<Rightarrow> bool" where
  "HasRoute rtr module = (fmlookup (routes rtr) module \<noteq> None)"

text \<open>\<open>sdk.IsAlphaNumeric\<close> is a function of the SDK.\<close>

definition AddRoute :: "(string \<Rightarrow> bool) \<Rightarrow> string \<Rightarrow> 'cbs \<Rightarrow> 'cbs Router \<Rightarrow> 'cbs Router result" where
  "AddRoute IsAlphaNumeric module cbs rtr =
     (if router_sealed rtr then Inl (Panic ''router sealed; cannot register route callbacks'')
      else if \<not> IsAlphaNumeric module then Inl (Panic ''route expressions can only contain alphanumeric characters'')
      else if HasRoute rtr module then Inl (Panic ''route has already been registered'')
      else Inr (rtr\<lparr>routes := fmupd module cbs (routes rtr)\<rparr>))"

definition GetRoute :: "'cbs Router \<Rightarrow> string \<Rightarrow> 'cbs option" where
  "GetRoute rtr module = (if \<not> HasRoute rtr module then None else fmlookup (routes rtr) module)"

section \<open>Port keeper\<close>

definition GetModuleOwner :: "string list \<Rightarrow> string result" where
  "GetModuleOwner modules =
     (if length modules \<noteq> 2 then Inl (Panic ''capability should only be owned by port or channel owner and ibc module'')
      else if modules ! 0 = ''ibc'' then Inr (modules ! 1)
      else Inr (modules ! 0))"

definition IsBound :: "cap_state \<Rightarrow> string \<Rightarrow> bool result" where
  "IsBound st portID = and_then (GetCapability ''ibc'' st (PortPath portID)) (\<lambda>found. Inr (found \<noteq> None))"

text \<open>Every error of \<open>BindPort\<close> is raised as a panic.\<close>

definition BindPort :: "u64 \<Rightarrow> string \<Rightarrow> cap_state \<Rightarrow> (Capability \<times> cap_state) result" where
  "BindPort addr portID st =
     (case PortIdentifierValidator portID of
        Inl e \<Rightarrow> Inl (Panic ''invalid port identifier'')
      | Inr _ \<Rightarrow>
          and_then (IsBound st portID) (\<lambda>bound.
            if bound then Inl (Panic ''port is already bound'')
            else case NewCapability ''ibc'' addr (PortPath portID) st of
                Inl e \<Rightarrow> Inl (Panic ''cannot create port capability'')
              | Inr r \<Rightarrow> Inr r))"

definition Authenticate :: "cap_state \<Rightarrow> Capability option \<Rightarrow> string \<Rightarrow> bool result" where
  "Authenticate st key portID =
     (case PortIdentifierValidator portID of
        Inl e \<Rightarrow> Inl (Panic ''invalid port identifier'')
      | Inr _ \<Rightarrow> Inr (AuthenticateCapability ''ibc'' st key (PortPath portID)))"

definition LookupModuleByPort :: "cap_state \<Rightarrow> string \<Rightarrow> (string \<times> Capability) result" where
  "LookupModuleByPort st portID =
     and_then (LookupModules ''ibc'' st (PortPath portID)) (\<lambda>(modules, capability).
       and_then (GetModuleOwner modules) (\<lambda>module. Inr (module, capability)))"

section \<open>Lemmas\<close>

lemma PortPath_inj [simp]: "PortPath p = PortPath q \<longleftrightarrow> p = q"
  by (simp add: PortPath_def)

lemma PortPath_not_blank [simp]: "\<not> is_blank (PortPath p)"
proof -
  have "solid CHR ''p''" by code_simp
  then show ?thesis using solid_not_blank [of "CHR ''p''" "''orts/'' @ p"] by (simp add: PortPath_def del: is_blank.simps)
qed

lemma BindPort_new:
  "BindPort addr p st = Inr (c, st') \<Longrightarrow>
   is_ok (PortIdentifierValidator p) \<and> NewCapability ''ibc'' addr (PortPath p) st = Inr (c, st')"
  by (auto simp: BindPort_def split: sum.splits if_splits)

lemma GetModuleOwner_pair:
  "m \<noteq> ''ibc'' \<Longrightarrow> GetModuleOwner [''ibc'', m] = Inr m \<and> GetModuleOwner [m, ''ibc''] = Inr m"
  by (simp add: GetModuleOwner_def)

lemma slash_free_ibc: "slash_free ''ibc''"
  by simp

lemma claimed_by_second:
  assumes inv: "cap_inv st" and m: "slash_free m" "m \<noteq> ''ibc''" and own: "owners_at st (Index c) = [NewOwner ''ibc'' n]"
    and look: "GetCapability ''ibc'' st n = Inr (Some c)" and blank: "\<not> is_blank n"
    and claim: "ClaimCapability m (Some c) k st = Inr st'"
  shows "\<exists>mods. LookupModules ''ibc'' st' n = Inr (mods, c) \<and> GetModuleOwner mods = Inr m"
proof -
  from ClaimCapability_effect [OF inv m(1) claim]
  have a: "cap_added st m c k st'" and cm: "capMap st' = capMap st" by auto
  have "rev_of st' ''ibc'' n = rev_of st ''ibc'' n" using a m(2) slash_free_ibc by (simp add: cap_added_def)
  with look cm have g: "GetCapability ''ibc'' st' n = Inr (Some c)" by (simp add: GetCapability_iff)
  have "owners_at st' (Index c) \<in> {[NewOwner ''ibc'' n, NewOwner m k], [NewOwner m k, NewOwner ''ibc'' n]}"
    using a own by (auto simp: cap_added_def)
  moreover from this have "fmlookup (store_owners st') (Index c) = Some (owners_at st' (Index c))"
    by (auto simp: owners_at_def split: option.splits)
  ultimately show ?thesis using g blank GetModuleOwner_pair [OF m(2)]
    by (auto simp: LookupModules_def GetOwners_def NewOwner_def)
qed

section \<open>Properties\<close>

text \<open>
  Ports. When a port is bound, the returned capability authenticates for that port and for no
  other valid port, capabilities of other ports authenticate as before, the port counts as bound and
  cannot be bound again (the source panics), and once a module has claimed the capability, the lookup
  of the port gives that module.
\<close>

theorem port_binding:
  assumes inv: "cap_inv st" and fresh: "addr_unused st addr" and idx: "GetLatestIndex st \<noteq> - 1"
    and bind: "BindPort addr p st = Inr (c, st')"
  shows "Authenticate st' (Some c) p = Inr True
    \<and> (is_ok (PortIdentifierValidator q) \<and> q \<noteq> p \<longrightarrow> Authenticate st' (Some c) q = Inr False)
    \<and> (cap_addr d \<noteq> addr \<longrightarrow> Authenticate st' (Some d) q = Authenticate st (Some d) q)
    \<and> IsBound st' p = Inr True \<and> BindPort addr' p st' = Inl (Panic ''port is already bound'')
    \<and> (\<forall>m n st''. slash_free m \<and> m \<noteq> ''ibc'' \<and> ClaimCapability m (Some c) n st' = Inr st'' \<longrightarrow>
         LookupModuleByPort st'' p = Inr (m, c))"
proof -
  from BindPort_new [OF bind] obtain u where v: "PortIdentifierValidator p = Inr u"
    and new: "NewCapability ''ibc'' addr (PortPath p) st = Inr (c, st')" by (auto simp: is_ok_iff)
  note auth = ibc_caps.create_auth [OF inv fresh new] and keep = ibc_caps.create_keeps [OF inv new]
    and look = ibc_caps.create_lookup [OF inv new] and inv' = ibc_caps.create_inv [OF inv fresh idx new]
    and own = NewCapability_auth(5) [OF inv slash_free_ibc new slash_free_ibc]
  have bound: "IsBound st' p = Inr True" using look by (simp add: IsBound_def)
  have "LookupModuleByPort st'' p = Inr (m, c)"
    if "slash_free m" "m \<noteq> ''ibc''" "ClaimCapability m (Some c) n st' = Inr st''" for m n st''
    using claimed_by_second [OF inv' that(1,2) own look _ that(3)] by (auto simp: LookupModuleByPort_def)
  moreover have "Authenticate st' (Some c) q = Inr False" if "is_ok (PortIdentifierValidator q)" "q \<noteq> p"
    using that auth by (auto simp: Authenticate_def is_ok_iff)
  moreover have "Authenticate st' (Some d) q = Authenticate st (Some d) q" if "cap_addr d \<noteq> addr"
    using keep [OF that] by (simp add: Authenticate_def split: sum.split)
  moreover have "Authenticate st' (Some c) p = Inr True" "BindPort addr' p st' = Inl (Panic ''port is already bound'')"
    using v auth bound by (simp_all add: Authenticate_def BindPort_def)
  ultimately show ?thesis using bound by blast
qed

lemma port_binding_witness:
  "\<exists>c st. BindPort 16 ''transfer'' ex_caps = Inr (c, st) \<and> Authenticate st (Some c) ''transfer'' = Inr True
     \<and> Authenticate st (Some c) ''icahost'' = Inr False"
proof -
  have "is_ok (BindPort 16 ''transfer'' ex_caps)" by code_simp
  then obtain c st where b: "BindPort 16 ''transfer'' ex_caps = Inr (c, st)" by (auto simp: is_ok_iff)
  have v: "is_ok (PortIdentifierValidator ''icahost'')" by code_simp
  have "GetLatestIndex ex_caps \<noteq> - 1" by (simp add: ex_caps_def GetLatestIndex_def)
  moreover have "addr_unused ex_caps 16" using ex_caps_none by (simp add: addr_unused_def)
  ultimately have "Authenticate st (Some c) ''transfer'' = Inr True \<and> Authenticate st (Some c) ''icahost'' = Inr False"
    using port_binding [OF ex_caps_inv _ _ b, of "''icahost''"] v by simp
  with b show ?thesis by blast
qed

end
