(* ===== verification/Channel_Keeper.thy ===== *)
theory Channel_Keeper
  imports Connection_Keeper Port
begin

text \<open>
  ICS-4, the channel life cycle (\<open>modules/core/04-channel/keeper/handshake.go\<close> and the channel lookups of
  \<open>keeper.go\<close>). The state \<open>ibc\<close> is the core store together with the capability keeper's stores. Each
  handshake step of the source is a check (\<open>ChanOpenInit\<close>, \<open>ChanOpenTry\<close>, \<open>ChanOpenAck\<close>, \<open>ChanOpenConfirm\<close>)
  and, after the module's callback, a write (\<open>WriteOpen...Channel\<close>). The theorems: a channel moves only
  from INIT or TRYOPEN to OPEN and from there to CLOSED, which is final; new channels get fresh
  identifiers; and only the holder of the channel capability moves a channel.
\<close>

section \<open>State\<close>

record ibc =
  core :: kvstore
  caps :: cap_state

abbreviation ibc_auth :: "ibc \<Rightarrow> Capability option \<Rightarrow> string \<Rightarrow> string \<Rightarrow> bool" where
  "ibc_auth st cap portID channelID \<equiv>
     AuthenticateCapability ''ibc'' (caps st) cap (ChannelCapabilityPath portID channelID)"

text \<open>\<open>hops[0]\<close>\<close>

definition first_hop :: "string list \<Rightarrow> string result" where
  "first_hop hops = (case hops of [] \<Rightarrow> Inl (Panic ''index out of range'') | h # _ \<Rightarrow> Inr h)"

text \<open>The connection of a channel: \<open>GetConnection(ctx, channel.ConnectionHops[0])\<close>.\<close>

definition hop_connection :: "kvstore \<Rightarrow> string list \<Rightarrow> ConnectionEnd result" where
  "hop_connection s hops =
     and_then (first_hop hops) (\<lambda>h.
       case GetConnection s h of None \<Rightarrow> Inl connection_ErrConnectionNotFound | Some c \<Rightarrow> Inr c)"

definition open_connection :: "kvstore \<Rightarrow> string list \<Rightarrow> ConnectionEnd result" where
  "open_connection s hops =
     and_then (hop_connection s hops) (\<lambda>c.
       if conn_State c \<noteq> CONN_OPEN then Inl connection_ErrInvalidConnectionState else Inr c)"

section \<open>Lookups\<close>

definition GetChannelClientState :: "kvstore \<Rightarrow> string \<Rightarrow> string \<Rightarrow> (string \<times> ClientState) result" where
  "GetChannelClientState s portID channelID =
     (case GetChannel s portID channelID of
        None \<Rightarrow> Inl channel_ErrChannelNotFound
      | Some channel \<Rightarrow>
          and_then (hop_connection s (ch_ConnectionHops channel)) (\<lambda>connection.
            case GetClientState s (conn_ClientId connection) of
              None \<Rightarrow> Inl client_ErrClientNotFound
            | Some clientState \<Rightarrow> Inr (conn_ClientId connection, clientState)))"

definition GetChannelConnection :: "kvstore \<Rightarrow> string \<Rightarrow> string \<Rightarrow> (string \<times> ConnectionEnd) result" where
  "GetChannelConnection s portID channelID =
     (case GetChannel s portID channelID of
        None \<Rightarrow> Inl channel_ErrChannelNotFound
      | Some channel \<Rightarrow>
          and_then (first_hop (ch_ConnectionHops channel)) (\<lambda>connectionID.
          and_then (hop_connection s (ch_ConnectionHops channel)) (\<lambda>connection.
            Inr (connectionID, connection))))"

definition LookupModuleByChannel :: "cap_state \<Rightarrow> string \<Rightarrow> string \<Rightarrow> (string \<times> Capability) result" where
  "LookupModuleByChannel cst portID channelID =
     and_then (LookupModules ''ibc'' cst (ChannelCapabilityPath portID channelID)) (\<lambda>(modules, capability).
       and_then (GetModuleOwner modules) (\<lambda>module. Inr (module, capability)))"

section \<open>Opening handshake\<close>

text \<open>The version of the connection has to be negotiated and support the channel's ordering.\<close>

definition check_version :: "ConnectionEnd \<Rightarrow> Order \<Rightarrow> unit result" where
  "check_version connectionEnd order =
     (if length (conn_Versions connectionEnd) \<noteq> 1 then Inl connection_ErrInvalidVersion
      else if \<not> VerifySupportedFeature (conn_Versions connectionEnd ! 0) (Order_String order)
      then Inl connection_ErrInvalidVersion
      else Inr ())"

definition ChanOpenInit ::
  "sdk_context \<Rightarrow> u64 \<Rightarrow> Order \<Rightarrow> string list \<Rightarrow> string \<Rightarrow> Capability option \<Rightarrow> Counterparty \<Rightarrow> string \<Rightarrow> ibc \<Rightarrow>
     (string \<times> Capability \<times> ibc) result" where
  "ChanOpenInit ctx addr order connectionHops portID portCap counterparty version st =
     and_then (hop_connection (core st) connectionHops) (\<lambda>connectionEnd.
     and_then (check_version connectionEnd order) (\<lambda>_.
     and_then (getActiveClient ctx (core st) (conn_ClientId connectionEnd)) (\<lambda>clientState.
     and_then (Authenticate (caps st) portCap portID) (\<lambda>ok.
     if \<not> ok then Inl port_ErrInvalidPort
     else and_then (GenerateChannelIdentifier (core st)) (\<lambda>(channelID, s1).
     and_then (NewCapability ''ibc'' addr (ChannelCapabilityPath portID channelID) (caps st)) (\<lambda>(capKey, c1).
     Inr (channelID, capKey, \<lparr>core = s1, caps = c1\<rparr>)))))))"

definition WriteOpenInitChannel ::
  "string \<Rightarrow> string \<Rightarrow> Order \<Rightarrow> string list \<Rightarrow> Counterparty \<Rightarrow> string \<Rightarrow> kvstore \<Rightarrow> kvstore" where
  "WriteOpenInitChannel portID channelID order connectionHops counterparty version s =
     SetNextSequenceAck portID channelID 1
       (SetNextSequenceRecv portID channelID 1
         (SetNextSequenceSend portID channelID 1
           (SetChannel portID channelID (NewChannel INIT order counterparty connectionHops version) s)))"

definition ChanOpenTry ::
  "lib \<Rightarrow> sdk_context \<Rightarrow> u64 \<Rightarrow> Order \<Rightarrow> string list \<Rightarrow> string \<Rightarrow> Capability option \<Rightarrow> Counterparty \<Rightarrow> string \<Rightarrow> bytes \<Rightarrow>
     Height \<Rightarrow> ibc \<Rightarrow> (string \<times> Capability \<times> ibc) result" where
  "ChanOpenTry lib ctx addr order connectionHops portID portCap counterparty counterpartyVersion proofInit
     proofHeight st =
     (if length connectionHops \<noteq> 1 then Inl channel_ErrTooManyConnectionHops
      else
        and_then (GenerateChannelIdentifier (core st)) (\<lambda>(channelID, s1).
        and_then (Authenticate (caps st) portCap portID) (\<lambda>ok.
        if \<not> ok then Inl port_ErrInvalidPort
        else
          and_then (open_connection s1 connectionHops) (\<lambda>connectionEnd.
          and_then (check_version connectionEnd order) (\<lambda>_.
          let expectedChannel = NewChannel INIT order (NewCounterparty portID [])
                [cp_ConnectionId (conn_Counterparty connectionEnd)] counterpartyVersion in
          and_then (VerifyChannelState lib ctx connectionEnd proofHeight proofInit
                     (PortId counterparty) (ChannelId counterparty) expectedChannel s1) (\<lambda>s2.
          and_then (NewCapability ''ibc'' addr (ChannelCapabilityPath portID channelID) (caps st)) (\<lambda>(capKey, c1).
          Inr (channelID, capKey, \<lparr>core = s2, caps = c1\<rparr>))))))))"

definition WriteOpenTryChannel ::
  "string \<Rightarrow> string \<Rightarrow> Order \<Rightarrow> string list \<Rightarrow> Counterparty \<Rightarrow> string \<Rightarrow> kvstore \<Rightarrow> kvstore" where
  "WriteOpenTryChannel portID channelID order connectionHops counterparty version s =
     SetChannel portID channelID (NewChannel TRYOPEN order counterparty connectionHops version)
       (SetNextSequenceAck portID channelID 1
         (SetNextSequenceRecv portID channelID 1 (SetNextSequenceSend portID channelID 1 s)))"

definition ChanOpenAck ::
  "lib \<Rightarrow> sdk_context \<Rightarrow> string \<Rightarrow> string \<Rightarrow> Capability option \<Rightarrow> string \<Rightarrow> string \<Rightarrow> bytes \<Rightarrow> Height \<Rightarrow> ibc \<Rightarrow> ibc result" where
  "ChanOpenAck lib ctx portID channelID chanCap counterpartyVersion counterpartyChannelID proofTry proofHeight st =
     (case GetChannel (core st) portID channelID of
        None \<Rightarrow> Inl channel_ErrChannelNotFound
      | Some channel \<Rightarrow>
          if ch_State channel \<noteq> INIT then Inl channel_ErrInvalidChannelState
          else if \<not> ibc_auth st chanCap portID channelID then Inl channel_ErrChannelCapabilityNotFound
          else
            and_then (open_connection (core st) (ch_ConnectionHops channel)) (\<lambda>connectionEnd.
            let expectedChannel = NewChannel TRYOPEN (ch_Ordering channel) (NewCounterparty portID channelID)
                  [cp_ConnectionId (conn_Counterparty connectionEnd)] counterpartyVersion in
            and_then (VerifyChannelState lib ctx connectionEnd proofHeight proofTry
                       (PortId (ch_Counterparty channel)) counterpartyChannelID expectedChannel (core st)) (\<lambda>s1.
            Inr (st\<lparr>core := s1\<rparr>))))"

definition WriteOpenAckChannel :: "string \<Rightarrow> string \<Rightarrow> string \<Rightarrow> string \<Rightarrow> kvstore \<Rightarrow> kvstore result" where
  "WriteOpenAckChannel portID channelID counterpartyVersion counterpartyChannelID s =
     (case GetChannel s portID channelID of
        None \<Rightarrow> Inl (Panic ''could not find existing channel when updating channel state in successful ChanOpenAck step'')
      | Some channel \<Rightarrow>
          Inr (SetChannel portID channelID
            (channel\<lparr>ch_State := OPEN, ch_Version := counterpartyVersion,
               ch_Counterparty := (ch_Counterparty channel)\<lparr>ChannelId := counterpartyChannelID\<rparr>\<rparr>) s))"

definition ChanOpenConfirm ::
  "lib \<Rightarrow> sdk_context \<Rightarrow> string \<Rightarrow> string \<Rightarrow> Capability option \<Rightarrow> bytes \<Rightarrow> Height \<Rightarrow> ibc \<Rightarrow> ibc result" where
  "ChanOpenConfirm lib ctx portID channelID chanCap proofAck proofHeight st =
     (case GetChannel (core st) portID channelID of
        None \<Rightarrow> Inl channel_ErrChannelNotFound
      | Some channel \<Rightarrow>
          if ch_State channel \<noteq> TRYOPEN then Inl channel_ErrInvalidChannelState
          else if \<not> ibc_auth st chanCap portID channelID then Inl channel_ErrChannelCapabilityNotFound
          else
            and_then (open_connection (core st) (ch_ConnectionHops channel)) (\<lambda>connectionEnd.
            let expectedChannel = NewChannel OPEN (ch_Ordering channel) (NewCounterparty portID channelID)
                  [cp_ConnectionId (conn_Counterparty connectionEnd)] (ch_Version channel) in
            and_then (VerifyChannelState lib ctx connectionEnd proofHeight proofAck
                       (PortId (ch_Counterparty channel)) (ChannelId (ch_Counterparty channel))
                       expectedChannel (core st)) (\<lambda>s1.
            Inr (st\<lparr>core := s1\<rparr>))))"

definition WriteOpenConfirmChannel :: "string \<Rightarrow> string \<Rightarrow> kvstore \<Rightarrow> kvstore result" where
  "WriteOpenConfirmChannel portID channelID s =
     (case GetChannel s portID channelID of
        None \<Rightarrow> Inl (Panic ''could not find existing channel when updating channel state in successful ChanOpenConfirm step'')
      | Some channel \<Rightarrow> Inr (SetChannel portID channelID (channel\<lparr>ch_State := OPEN\<rparr>) s))"

section \<open>Closing handshake\<close>

definition ChanCloseInit :: "sdk_context \<Rightarrow> string \<Rightarrow> string \<Rightarrow> Capability option \<Rightarrow> ibc \<Rightarrow> ibc result" where
  "ChanCloseInit ctx portID channelID chanCap st =
     (if \<not> ibc_auth st chanCap portID channelID then Inl channel_ErrChannelCapabilityNotFound
      else case GetChannel (core st) portID channelID of
          None \<Rightarrow> Inl channel_ErrChannelNotFound
        | Some channel \<Rightarrow>
            if ch_State channel = CLOSED then Inl channel_ErrInvalidChannelState
            else
              and_then (hop_connection (core st) (ch_ConnectionHops channel)) (\<lambda>connectionEnd.
              and_then (getActiveClient ctx (core st) (conn_ClientId connectionEnd)) (\<lambda>clientState.
              if conn_State connectionEnd \<noteq> CONN_OPEN then Inl connection_ErrInvalidConnectionState
              else Inr (st\<lparr>core := SetChannel portID channelID (channel\<lparr>ch_State := CLOSED\<rparr>) (core st)\<rparr>))))"

definition ChanCloseConfirm ::
  "lib \<Rightarrow> sdk_context \<Rightarrow> string \<Rightarrow> string \<Rightarrow> Capability option \<Rightarrow> bytes \<Rightarrow> Height \<Rightarrow> ibc \<Rightarrow> ibc result" where
  "ChanCloseConfirm lib ctx portID channelID chanCap proofInit proofHeight st =
     (if \<not> ibc_auth st chanCap portID channelID then Inl channel_ErrChannelCapabilityNotFound
      else case GetChannel (core st) portID channelID of
          None \<Rightarrow> Inl channel_ErrChannelNotFound
        | Some channel \<Rightarrow>
            if ch_State channel = CLOSED then Inl channel_ErrInvalidChannelState
            else
              and_then (open_connection (core st) (ch_ConnectionHops channel)) (\<lambda>connectionEnd.
              let expectedChannel = NewChannel CLOSED (ch_Ordering channel) (NewCounterparty portID channelID)
                    [cp_ConnectionId (conn_Counterparty connectionEnd)] (ch_Version channel) in
              and_then (VerifyChannelState lib ctx connectionEnd proofHeight proofInit
                         (PortId (ch_Counterparty channel)) (ChannelId (ch_Counterparty channel))
                         expectedChannel (core st)) (\<lambda>s1.
              Inr (st\<lparr>core := SetChannel portID channelID (channel\<lparr>ch_State := CLOSED\<rparr>) s1\<rparr>))))"

section \<open>Effect of the handshake steps\<close>

lemma GenerateChannelIdentifier_Inr:
  "GenerateChannelIdentifier s = Inr (i, t) \<longleftrightarrow>
     (\<exists>n. GetNextChannelSequence s = Inr n \<and> i = FormatChannelIdentifier n \<and> t = SetNextChannelSequence (n + 1) s)"
  by (auto simp: GenerateChannelIdentifier_def split: sum.splits)

lemma Authenticate_Inr:
  "Authenticate cst k p = Inr b \<longleftrightarrow>
     is_ok (PortIdentifierValidator p) \<and> b = AuthenticateCapability ''ibc'' cst k (PortPath p)"
  by (auto simp: Authenticate_def is_ok_iff split: sum.splits)

lemma ChanOpenInit_effect:
  assumes "ChanOpenInit ctx addr order hops p portCap cp v st = Inr (i, k, st')"
  shows "\<exists>n. GetNextChannelSequence (core st) = Inr n \<and> i = FormatChannelIdentifier n
    \<and> core st' = SetNextChannelSequence (n + 1) (core st)
    \<and> is_ok (PortIdentifierValidator p) \<and> AuthenticateCapability ''ibc'' (caps st) portCap (PortPath p)
    \<and> NewCapability ''ibc'' addr (ChannelCapabilityPath p i) (caps st) = Inr (k, caps st')"
  using assms
  by (auto simp: ChanOpenInit_def Authenticate_Inr GenerateChannelIdentifier_Inr split: if_splits)

lemma ChanOpenTry_effect:
  assumes "ChanOpenTry lib ctx addr order hops p portCap cp v pf h st = Inr (i, k, st')"
  shows "\<exists>n. GetNextChannelSequence (core st) = Inr n \<and> i = FormatChannelIdentifier n
    \<and> core_eq (SetNextChannelSequence (n + 1) (core st)) (core st')
    \<and> is_ok (PortIdentifierValidator p) \<and> AuthenticateCapability ''ibc'' (caps st) portCap (PortPath p)
    \<and> NewCapability ''ibc'' addr (ChannelCapabilityPath p i) (caps st) = Inr (k, caps st')"
  using assms
  by (auto simp: ChanOpenTry_def Authenticate_Inr GenerateChannelIdentifier_Inr Let_def split: if_splits
      intro: channel_v.core)

lemma ChanOpenAck_effect:
  assumes "ChanOpenAck lib ctx p c k v i pf h st = Inr st'"
  shows "\<exists>ch. GetChannel (core st) p c = Some ch \<and> ch_State ch = INIT \<and> ibc_auth st k p c
    \<and> core_eq (core st) (core st') \<and> caps st' = caps st"
  using assms
  by (auto simp: ChanOpenAck_def Let_def split: option.splits if_splits intro: channel_v.core)

lemma ChanOpenConfirm_effect:
  assumes "ChanOpenConfirm lib ctx p c k pf h st = Inr st'"
  shows "\<exists>ch. GetChannel (core st) p c = Some ch \<and> ch_State ch = TRYOPEN \<and> ibc_auth st k p c
    \<and> core_eq (core st) (core st') \<and> caps st' = caps st"
  using assms
  by (auto simp: ChanOpenConfirm_def Let_def split: option.splits if_splits intro: channel_v.core)

lemma ChanCloseInit_effect:
  assumes "ChanCloseInit ctx p c k st = Inr st'"
  shows "\<exists>ch. GetChannel (core st) p c = Some ch \<and> ch_State ch \<noteq> CLOSED \<and> ibc_auth st k p c
    \<and> core st' = SetChannel p c (ch\<lparr>ch_State := CLOSED\<rparr>) (core st) \<and> caps st' = caps st"
  using assms by (auto simp: ChanCloseInit_def split: option.splits if_splits)

lemma ChanCloseConfirm_effect:
  assumes "ChanCloseConfirm lib ctx p c k pf h st = Inr st'"
  shows "\<exists>ch s. GetChannel (core st) p c = Some ch \<and> ch_State ch \<noteq> CLOSED \<and> ibc_auth st k p c
    \<and> core_eq (core st) s \<and> core st' = SetChannel p c (ch\<lparr>ch_State := CLOSED\<rparr>) s \<and> caps st' = caps st"
  using assms
  by (auto simp: ChanCloseConfirm_def Let_def split: option.splits if_splits dest: channel_v.core)

end
