(* ===== verification/Packet_Keeper.thy ===== *)
theory Packet_Keeper
  imports Channel_Keeper
begin

text \<open>
  ICS-4, packets (\<open>modules/core/04-channel/keeper/packet.go\<close> and \<open>timeout.go\<close>): sending, receiving,
  acknowledging and timing out a packet. The theorems: sequences are assigned once and in order; a
  packet is received at most once, and on an ordered channel in the order of its sequence; the
  commitment of a sent packet is removed exactly once, by its acknowledgement or its timeout;
  an ordered channel is closed by a timeout; and over the loopback client a sent packet is received.
\<close>

section \<open>Sending\<close>

definition SendPacket ::
  "sdk_context \<Rightarrow> Capability option \<Rightarrow> string \<Rightarrow> string \<Rightarrow> Height \<Rightarrow> u64 \<Rightarrow> bytes \<Rightarrow> ibc \<Rightarrow> (u64 \<times> ibc) result" where
  "SendPacket ctx channelCap sourcePort sourceChannel timeoutHeight timeoutTimestamp data st =
     (case GetChannel (core st) sourcePort sourceChannel of
        None \<Rightarrow> Inl channel_ErrChannelNotFound
      | Some channel \<Rightarrow>
          if ch_State channel \<noteq> OPEN then Inl channel_ErrInvalidChannelState
          else if \<not> ibc_auth st channelCap sourcePort sourceChannel then Inl channel_ErrChannelCapabilityNotFound
          else case GetNextSequenceSend (core st) sourcePort sourceChannel of
              None \<Rightarrow> Inl channel_ErrSequenceSendNotFound
            | Some sequence \<Rightarrow>
                let packet = NewPacket data sequence sourcePort sourceChannel (PortId (ch_Counterparty channel))
                      (ChannelId (ch_Counterparty channel)) timeoutHeight timeoutTimestamp in
                and_then (Packet_ValidateBasic packet) (\<lambda>_.
                and_then (hop_connection (core st) (ch_ConnectionHops channel)) (\<lambda>connectionEnd.
                and_then (getActiveClient ctx (core st) (conn_ClientId connectionEnd)) (\<lambda>clientState.
                let latestHeight = GetLatestHeight clientState in
                if \<not> IsZero timeoutHeight \<and> GTE latestHeight timeoutHeight then Inl channel_ErrPacketTimeout
                else and_then (Connection_GetTimestampAtHeight ctx (core st) connectionEnd latestHeight) (\<lambda>latestTimestamp.
                if TimeoutTimestamp packet \<noteq> 0 \<and> latestTimestamp \<ge> TimeoutTimestamp packet
                then Inl channel_ErrPacketTimeout
                else Inr (Sequence packet,
                  st\<lparr>core := SetPacketCommitment sourcePort sourceChannel (Sequence packet) (CommitPacket packet)
                       (SetNextSequenceSend sourcePort sourceChannel (sequence + 1) (core st))\<rparr>))))))"

section \<open>Receiving\<close>

text \<open>The state update of a verified packet, by the ordering of the channel.\<close>

definition recv_update :: "Order \<Rightarrow> Packet \<Rightarrow> kvstore \<Rightarrow> kvstore result" where
  "recv_update order packet s =
     (case order of
        UNORDERED \<Rightarrow>
          if GetPacketReceipt s (DestinationPort packet) (DestinationChannel packet) (Sequence packet) \<noteq> None
          then Inl channel_ErrNoOpMsg
          else Inr (SetPacketReceipt (DestinationPort packet) (DestinationChannel packet) (Sequence packet) s)
      | ORDERED \<Rightarrow>
          (case GetNextSequenceRecv s (DestinationPort packet) (DestinationChannel packet) of
             None \<Rightarrow> Inl channel_ErrSequenceReceiveNotFound
           | Some nextSequenceRecv \<Rightarrow>
               if Sequence packet < nextSequenceRecv then Inl channel_ErrNoOpMsg
               else if Sequence packet \<noteq> nextSequenceRecv then Inl channel_ErrPacketSequenceOutOfOrder
               else Inr (SetNextSequenceRecv (DestinationPort packet) (DestinationChannel packet)
                          (nextSequenceRecv + 1) s))
      | ORDER_NONE \<Rightarrow> Inr s)"

definition RecvPacket ::
  "lib \<Rightarrow> sdk_context \<Rightarrow> Capability option \<Rightarrow> Packet \<Rightarrow> bytes \<Rightarrow> Height \<Rightarrow> ibc \<Rightarrow> ibc result" where
  "RecvPacket lib ctx chanCap packet pf proofHeight st =
     (case GetChannel (core st) (DestinationPort packet) (DestinationChannel packet) of
        None \<Rightarrow> Inl channel_ErrChannelNotFound
      | Some channel \<Rightarrow>
          if ch_State channel \<noteq> OPEN then Inl channel_ErrInvalidChannelState
          else if \<not> ibc_auth st chanCap (DestinationPort packet) (DestinationChannel packet)
          then Inl channel_ErrInvalidChannelCapability
          else if SourcePort packet \<noteq> PortId (ch_Counterparty channel) then Inl channel_ErrInvalidPacket
          else if SourceChannel packet \<noteq> ChannelId (ch_Counterparty channel) then Inl channel_ErrInvalidPacket
          else
            and_then (open_connection (core st) (ch_ConnectionHops channel)) (\<lambda>connectionEnd.
            and_then (GetSelfHeight ctx) (\<lambda>selfHeight.
            if \<not> IsZero (TimeoutHeight packet) \<and> GTE selfHeight (TimeoutHeight packet) then Inl channel_ErrPacketTimeout
            else if TimeoutTimestamp packet \<noteq> 0 \<and> UnixNano64 (BlockTime ctx) \<ge> TimeoutTimestamp packet
            then Inl channel_ErrPacketTimeout
            else
              and_then (VerifyPacketCommitment lib ctx connectionEnd proofHeight pf (SourcePort packet)
                         (SourceChannel packet) (Sequence packet) (CommitPacket packet) (core st)) (\<lambda>s1.
              and_then (recv_update (ch_Ordering channel) packet s1) (\<lambda>s2.
              Inr (st\<lparr>core := s2\<rparr>))))))"

text \<open>An acknowledgement is the bytes its interface method returns, or nil.\<close>

definition WriteAcknowledgement :: "Capability option \<Rightarrow> Packet \<Rightarrow> bytes option \<Rightarrow> ibc \<Rightarrow> ibc result" where
  "WriteAcknowledgement chanCap packet acknowledgement st =
     (case GetChannel (core st) (DestinationPort packet) (DestinationChannel packet) of
        None \<Rightarrow> Inl channel_ErrChannelNotFound
      | Some channel \<Rightarrow>
          if ch_State channel \<noteq> OPEN then Inl channel_ErrInvalidChannelState
          else if \<not> ibc_auth st chanCap (DestinationPort packet) (DestinationChannel packet)
          then Inl channel_ErrInvalidChannelCapability
          else if HasPacketAcknowledgement (core st) (DestinationPort packet) (DestinationChannel packet) (Sequence packet)
          then Inl channel_ErrAcknowledgementExists
          else case acknowledgement of
              None \<Rightarrow> Inl channel_ErrInvalidAcknowledgement
            | Some bz \<Rightarrow>
                if length bz = 0 then Inl channel_ErrInvalidAcknowledgement
                else Inr (st\<lparr>core := SetPacketAcknowledgement (DestinationPort packet) (DestinationChannel packet)
                           (Sequence packet) (CommitAcknowledgement bz) (core st)\<rparr>))"

section \<open>Acknowledging\<close>

text \<open>Packets of an ordered channel are acknowledged in order.\<close>

definition ack_update :: "Order \<Rightarrow> Packet \<Rightarrow> kvstore \<Rightarrow> kvstore result" where
  "ack_update order packet s =
     (if order = ORDERED then
        (case GetNextSequenceAck s (SourcePort packet) (SourceChannel packet) of
           None \<Rightarrow> Inl channel_ErrSequenceAckNotFound
         | Some nextSequenceAck \<Rightarrow>
             if Sequence packet \<noteq> nextSequenceAck then Inl channel_ErrPacketSequenceOutOfOrder
             else Inr (SetNextSequenceAck (SourcePort packet) (SourceChannel packet) (nextSequenceAck + 1) s))
      else Inr s)"

definition AcknowledgePacket ::
  "lib \<Rightarrow> sdk_context \<Rightarrow> Capability option \<Rightarrow> Packet \<Rightarrow> bytes \<Rightarrow> bytes \<Rightarrow> Height \<Rightarrow> ibc \<Rightarrow> ibc result" where
  "AcknowledgePacket lib ctx chanCap packet acknowledgement pf proofHeight st =
     (case GetChannel (core st) (SourcePort packet) (SourceChannel packet) of
        None \<Rightarrow> Inl channel_ErrChannelNotFound
      | Some channel \<Rightarrow>
          if ch_State channel \<noteq> OPEN then Inl channel_ErrInvalidChannelState
          else if \<not> ibc_auth st chanCap (SourcePort packet) (SourceChannel packet)
          then Inl channel_ErrInvalidChannelCapability
          else if DestinationPort packet \<noteq> PortId (ch_Counterparty channel) then Inl channel_ErrInvalidPacket
          else if DestinationChannel packet \<noteq> ChannelId (ch_Counterparty channel) then Inl channel_ErrInvalidPacket
          else
            and_then (open_connection (core st) (ch_ConnectionHops channel)) (\<lambda>connectionEnd.
            let commitment = GetPacketCommitment (core st) (SourcePort packet) (SourceChannel packet) (Sequence packet) in
            if length commitment = 0 then Inl channel_ErrNoOpMsg
            else if commitment \<noteq> CommitPacket packet then Inl channel_ErrInvalidPacket
            else
              and_then (VerifyPacketAcknowledgement lib ctx connectionEnd proofHeight pf (DestinationPort packet)
                         (DestinationChannel packet) (Sequence packet) acknowledgement (core st)) (\<lambda>s1.
              and_then (ack_update (ch_Ordering channel) packet s1) (\<lambda>s2.
              Inr (st\<lparr>core := deletePacketCommitment (SourcePort packet) (SourceChannel packet) (Sequence packet) s2\<rparr>)))))"

section \<open>Timeouts\<close>

text \<open>The proof that the packet was not received, by the ordering of the channel.\<close>

definition verify_unreceived ::
  "lib \<Rightarrow> sdk_context \<Rightarrow> ibc_error \<Rightarrow> Order \<Rightarrow> ConnectionEnd \<Rightarrow> Height \<Rightarrow> bytes \<Rightarrow> Packet \<Rightarrow> u64 \<Rightarrow> kvstore \<Rightarrow>
     kvstore result" where
  "verify_unreceived lib ctx received order connectionEnd proofHeight pf packet nextSequenceRecv s =
     (case order of
        ORDERED \<Rightarrow>
          if nextSequenceRecv > Sequence packet then Inl received
          else VerifyNextSequenceRecv lib ctx connectionEnd proofHeight pf (DestinationPort packet)
                 (DestinationChannel packet) nextSequenceRecv s
      | UNORDERED \<Rightarrow>
          VerifyPacketReceiptAbsence lib ctx connectionEnd proofHeight pf (DestinationPort packet)
            (DestinationChannel packet) (Sequence packet) s
      | ORDER_NONE \<Rightarrow> Inl (Panic ''invalid channel ordering''))"

definition TimeoutPacket ::
  "lib \<Rightarrow> sdk_context \<Rightarrow> Packet \<Rightarrow> bytes \<Rightarrow> Height \<Rightarrow> u64 \<Rightarrow> ibc \<Rightarrow> ibc result" where
  "TimeoutPacket lib ctx packet pf proofHeight nextSequenceRecv st =
     (case GetChannel (core st) (SourcePort packet) (SourceChannel packet) of
        None \<Rightarrow> Inl channel_ErrChannelNotFound
      | Some channel \<Rightarrow>
          if DestinationPort packet \<noteq> PortId (ch_Counterparty channel) then Inl channel_ErrInvalidPacket
          else if DestinationChannel packet \<noteq> ChannelId (ch_Counterparty channel) then Inl channel_ErrInvalidPacket
          else
            and_then (hop_connection (core st) (ch_ConnectionHops channel)) (\<lambda>connectionEnd.
            and_then (Connection_GetTimestampAtHeight ctx (core st) connectionEnd proofHeight) (\<lambda>proofTimestamp.
            if (IsZero (TimeoutHeight packet) \<or> LT proofHeight (TimeoutHeight packet))
               \<and> (TimeoutTimestamp packet = 0 \<or> proofTimestamp < TimeoutTimestamp packet)
            then Inl channel_ErrPacketTimeout
            else
              let commitment = GetPacketCommitment (core st) (SourcePort packet) (SourceChannel packet) (Sequence packet) in
              if length commitment = 0 then Inl channel_ErrNoOpMsg
              else if ch_State channel \<noteq> OPEN then Inl channel_ErrInvalidChannelState
              else if commitment \<noteq> CommitPacket packet then Inl channel_ErrInvalidPacket
              else
                and_then (verify_unreceived lib ctx channel_ErrPacketReceived (ch_Ordering channel) connectionEnd
                           proofHeight pf packet nextSequenceRecv (core st)) (\<lambda>s1.
                Inr (st\<lparr>core := s1\<rparr>)))))"

definition TimeoutExecuted :: "Capability option \<Rightarrow> Packet \<Rightarrow> ibc \<Rightarrow> ibc result" where
  "TimeoutExecuted chanCap packet st =
     (case GetChannel (core st) (SourcePort packet) (SourceChannel packet) of
        None \<Rightarrow> Inl channel_ErrChannelNotFound
      | Some channel \<Rightarrow>
          if \<not> ibc_auth st chanCap (SourcePort packet) (SourceChannel packet)
          then Inl channel_ErrChannelCapabilityNotFound
          else
            let s1 = deletePacketCommitment (SourcePort packet) (SourceChannel packet) (Sequence packet) (core st) in
            if ch_Ordering channel = ORDERED
            then Inr (st\<lparr>core := SetChannel (SourcePort packet) (SourceChannel packet) (channel\<lparr>ch_State := CLOSED\<rparr>) s1\<rparr>)
            else Inr (st\<lparr>core := s1\<rparr>))"

definition TimeoutOnClose ::
  "lib \<Rightarrow> sdk_context \<Rightarrow> Capability option \<Rightarrow> Packet \<Rightarrow> bytes \<Rightarrow> bytes \<Rightarrow> Height \<Rightarrow> u64 \<Rightarrow> ibc \<Rightarrow> ibc result" where
  "TimeoutOnClose lib ctx chanCap packet pf proofClosed proofHeight nextSequenceRecv st =
     (case GetChannel (core st) (SourcePort packet) (SourceChannel packet) of
        None \<Rightarrow> Inl channel_ErrChannelNotFound
      | Some channel \<Rightarrow>
          if \<not> ibc_auth st chanCap (SourcePort packet) (SourceChannel packet)
          then Inl channel_ErrInvalidChannelCapability
          else if DestinationPort packet \<noteq> PortId (ch_Counterparty channel) then Inl channel_ErrInvalidPacket
          else if DestinationChannel packet \<noteq> ChannelId (ch_Counterparty channel) then Inl channel_ErrInvalidPacket
          else
            and_then (hop_connection (core st) (ch_ConnectionHops channel)) (\<lambda>connectionEnd.
            let commitment = GetPacketCommitment (core st) (SourcePort packet) (SourceChannel packet) (Sequence packet) in
            if length commitment = 0 then Inl channel_ErrNoOpMsg
            else if commitment \<noteq> CommitPacket packet then Inl channel_ErrInvalidPacket
            else
              let expectedChannel = NewChannel CLOSED (ch_Ordering channel)
                    (NewCounterparty (SourcePort packet) (SourceChannel packet))
                    [cp_ConnectionId (conn_Counterparty connectionEnd)] (ch_Version channel) in
              and_then (VerifyChannelState lib ctx connectionEnd proofHeight proofClosed
                         (PortId (ch_Counterparty channel)) (ChannelId (ch_Counterparty channel))
                         expectedChannel (core st)) (\<lambda>s1.
              and_then (verify_unreceived lib ctx channel_ErrInvalidPacket (ch_Ordering channel) connectionEnd
                         proofHeight pf packet nextSequenceRecv s1) (\<lambda>s2.
              Inr (st\<lparr>core := s2\<rparr>)))))"

section \<open>Effect of the packet operations\<close>

lemma NewPacket_sel [simp]:
  "Sequence (NewPacket d n p c q e th tt) = n" "SourcePort (NewPacket d n p c q e th tt) = p"
  "SourceChannel (NewPacket d n p c q e th tt) = c" "DestinationPort (NewPacket d n p c q e th tt) = q"
  "DestinationChannel (NewPacket d n p c q e th tt) = e" "Data (NewPacket d n p c q e th tt) = d"
  "TimeoutHeight (NewPacket d n p c q e th tt) = th" "TimeoutTimestamp (NewPacket d n p c q e th tt) = tt"
  by (simp_all add: NewPacket_def)

text \<open>The packet a send on a channel commits to.\<close>

definition sent_packet :: "Channel \<Rightarrow> bytes \<Rightarrow> u64 \<Rightarrow> string \<Rightarrow> string \<Rightarrow> Height \<Rightarrow> u64 \<Rightarrow> Packet" where
  "sent_packet ch d n p c th tt = NewPacket d n p c (PortId (ch_Counterparty ch)) (ChannelId (ch_Counterparty ch)) th tt"

lemma SendPacket_effect:
  assumes "SendPacket ctx k p c th tt d st = Inr (n, st')"
  shows "\<exists>ch conn cs ts. GetChannel (core st) p c = Some ch \<and> ch_State ch = OPEN \<and> ibc_auth st k p c
    \<and> GetNextSequenceSend (core st) p c = Some n \<and> is_ok (Packet_ValidateBasic (sent_packet ch d n p c th tt))
    \<and> hop_connection (core st) (ch_ConnectionHops ch) = Inr conn
    \<and> getActiveClient ctx (core st) (conn_ClientId conn) = Inr cs
    \<and> (IsZero th \<or> \<not> GTE (GetLatestHeight cs) th)
    \<and> Connection_GetTimestampAtHeight ctx (core st) conn (GetLatestHeight cs) = Inr ts \<and> (tt = 0 \<or> ts < tt)
    \<and> st' = st\<lparr>core := SetPacketCommitment p c n (CommitPacket (sent_packet ch d n p c th tt))
          (SetNextSequenceSend p c (n + 1) (core st))\<rparr>"
proof -
  from assms obtain ch where ch: "GetChannel (core st) p c = Some ch" "ch_State ch = OPEN" "ibc_auth st k p c"
    by (auto simp: SendPacket_def split: option.splits if_splits)
  with assms obtain m where m: "GetNextSequenceSend (core st) p c = Some m"
    by (auto simp: SendPacket_def split: option.splits)
  from assms show ?thesis
    by (auto simp: SendPacket_def ch m sent_packet_def Let_def not_le split: if_splits)
qed

text \<open>What an accepted packet changes, by the ordering of the channel.\<close>

definition recv_written :: "Order \<Rightarrow> Packet \<Rightarrow> kvstore \<Rightarrow> kvstore \<Rightarrow> kvstore \<Rightarrow> bool" where
  "recv_written order pkt s0 s t =
     (case order of
        UNORDERED \<Rightarrow> GetPacketReceipt s0 (DestinationPort pkt) (DestinationChannel pkt) (Sequence pkt) = None
          \<and> t = SetPacketReceipt (DestinationPort pkt) (DestinationChannel pkt) (Sequence pkt) s
      | ORDERED \<Rightarrow> GetNextSequenceRecv s0 (DestinationPort pkt) (DestinationChannel pkt) = Some (Sequence pkt)
          \<and> t = SetNextSequenceRecv (DestinationPort pkt) (DestinationChannel pkt) (Sequence pkt + 1) s
      | ORDER_NONE \<Rightarrow> t = s)"

lemma recv_update_written:
  "recv_update order pkt s = Inr t \<Longrightarrow> core_eq s0 s \<Longrightarrow> recv_written order pkt s0 s t"
  by (auto simp: recv_update_def recv_written_def core_eq_reads split: Order.splits option.splits if_splits)

lemma RecvPacket_effect:
  assumes "RecvPacket lib ctx k pkt pf h st = Inr st'"
  shows "\<exists>ch s. GetChannel (core st) (DestinationPort pkt) (DestinationChannel pkt) = Some ch \<and> ch_State ch = OPEN
    \<and> ibc_auth st k (DestinationPort pkt) (DestinationChannel pkt)
    \<and> SourcePort pkt = PortId (ch_Counterparty ch) \<and> SourceChannel pkt = ChannelId (ch_Counterparty ch)
    \<and> core_eq (core st) s \<and> caps st' = caps st \<and> recv_written (ch_Ordering ch) pkt (core st) s (core st')"
proof -
  from assms obtain ch conn s t where ch: "GetChannel (core st) (DestinationPort pkt) (DestinationChannel pkt) = Some ch"
    "ch_State ch = OPEN" "ibc_auth st k (DestinationPort pkt) (DestinationChannel pkt)"
    "SourcePort pkt = PortId (ch_Counterparty ch)" "SourceChannel pkt = ChannelId (ch_Counterparty ch)"
    and v: "VerifyPacketCommitment lib ctx conn h pf (SourcePort pkt) (SourceChannel pkt) (Sequence pkt)
      (CommitPacket pkt) (core st) = Inr s"
    and u: "recv_update (ch_Ordering ch) pkt s = Inr t" "st' = st\<lparr>core := t\<rparr>"
    by (auto simp: RecvPacket_def split: option.splits if_splits)
  from recv_update_written [OF u(1) commitment_v.core [OF v]] ch commitment_v.core [OF v] u(2)
  show ?thesis by auto
qed

lemma WriteAcknowledgement_effect:
  assumes "WriteAcknowledgement k pkt a st = Inr st'"
  shows "\<exists>ch bz. GetChannel (core st) (DestinationPort pkt) (DestinationChannel pkt) = Some ch \<and> ch_State ch = OPEN
    \<and> ibc_auth st k (DestinationPort pkt) (DestinationChannel pkt) \<and> a = Some bz \<and> bz \<noteq> []
    \<and> \<not> HasPacketAcknowledgement (core st) (DestinationPort pkt) (DestinationChannel pkt) (Sequence pkt)
    \<and> st' = st\<lparr>core := SetPacketAcknowledgement (DestinationPort pkt) (DestinationChannel pkt) (Sequence pkt)
          (CommitAcknowledgement bz) (core st)\<rparr>"
  using assms by (auto simp: WriteAcknowledgement_def split: option.splits if_splits)

definition ack_written :: "Order \<Rightarrow> Packet \<Rightarrow> kvstore \<Rightarrow> kvstore \<Rightarrow> kvstore \<Rightarrow> bool" where
  "ack_written order pkt s0 s t =
     (if order = ORDERED then GetNextSequenceAck s0 (SourcePort pkt) (SourceChannel pkt) = Some (Sequence pkt)
        \<and> t = SetNextSequenceAck (SourcePort pkt) (SourceChannel pkt) (Sequence pkt + 1) s
      else t = s)"

lemma ack_update_written:
  "ack_update order pkt s = Inr t \<Longrightarrow> core_eq s0 s \<Longrightarrow> ack_written order pkt s0 s t"
  by (auto simp: ack_update_def ack_written_def core_eq_reads split: option.splits if_splits)

lemma AcknowledgePacket_effect:
  assumes "AcknowledgePacket lib ctx k pkt a pf h st = Inr st'"
  shows "\<exists>ch s t. GetChannel (core st) (SourcePort pkt) (SourceChannel pkt) = Some ch \<and> ch_State ch = OPEN
    \<and> ibc_auth st k (SourcePort pkt) (SourceChannel pkt)
    \<and> GetPacketCommitment (core st) (SourcePort pkt) (SourceChannel pkt) (Sequence pkt) = CommitPacket pkt
    \<and> CommitPacket pkt \<noteq> [] \<and> core_eq (core st) s \<and> caps st' = caps st
    \<and> ack_written (ch_Ordering ch) pkt (core st) s t
    \<and> core st' = deletePacketCommitment (SourcePort pkt) (SourceChannel pkt) (Sequence pkt) t"
proof -
  from assms obtain ch conn s t where "GetChannel (core st) (SourcePort pkt) (SourceChannel pkt) = Some ch" "ch_State ch = OPEN"
    "ibc_auth st k (SourcePort pkt) (SourceChannel pkt)"
    "GetPacketCommitment (core st) (SourcePort pkt) (SourceChannel pkt) (Sequence pkt) = CommitPacket pkt" "CommitPacket pkt \<noteq> []"
    and v: "VerifyPacketAcknowledgement lib ctx conn h pf (DestinationPort pkt) (DestinationChannel pkt) (Sequence pkt) a
      (core st) = Inr s"
    and u: "ack_update (ch_Ordering ch) pkt s = Inr t"
    and "st' = st\<lparr>core := deletePacketCommitment (SourcePort pkt) (SourceChannel pkt) (Sequence pkt) t\<rparr>"
    by (auto simp: AcknowledgePacket_def Let_def split: option.splits if_splits)
  then show ?thesis using ack_update_written [OF u ack_v.core [OF v]] ack_v.core [OF v]
    by (intro exI [of _ ch] exI [of _ s] exI [of _ t] conjI) simp_all
qed

lemma verify_unreceived_core:
  "verify_unreceived lib ctx e ord conn h pf pkt n s = Inr t \<Longrightarrow> core_eq s t"
  by (auto simp: verify_unreceived_def split: Order.splits if_splits intro: next_recv_v.core absence_v.core)

lemma TimeoutPacket_effect:
  assumes "TimeoutPacket lib ctx pkt pf h n st = Inr st'"
  shows "\<exists>ch. GetChannel (core st) (SourcePort pkt) (SourceChannel pkt) = Some ch \<and> ch_State ch = OPEN
    \<and> GetPacketCommitment (core st) (SourcePort pkt) (SourceChannel pkt) (Sequence pkt) = CommitPacket pkt
    \<and> CommitPacket pkt \<noteq> [] \<and> core_eq (core st) (core st') \<and> caps st' = caps st"
  using assms
  by (auto simp: TimeoutPacket_def Let_def split: option.splits if_splits dest: verify_unreceived_core)

lemma TimeoutOnClose_effect:
  assumes "TimeoutOnClose lib ctx k pkt pf pf' h n st = Inr st'"
  shows "\<exists>ch. GetChannel (core st) (SourcePort pkt) (SourceChannel pkt) = Some ch
    \<and> ibc_auth st k (SourcePort pkt) (SourceChannel pkt)
    \<and> GetPacketCommitment (core st) (SourcePort pkt) (SourceChannel pkt) (Sequence pkt) = CommitPacket pkt
    \<and> CommitPacket pkt \<noteq> [] \<and> core_eq (core st) (core st') \<and> caps st' = caps st"
  using assms
  by (auto simp: TimeoutOnClose_def Let_def split: option.splits if_splits
      dest!: verify_unreceived_core channel_v.core intro: core_eq_trans)

lemma TimeoutExecuted_effect:
  assumes "TimeoutExecuted k pkt st = Inr st'"
  shows "\<exists>ch. GetChannel (core st) (SourcePort pkt) (SourceChannel pkt) = Some ch
    \<and> ibc_auth st k (SourcePort pkt) (SourceChannel pkt) \<and> caps st' = caps st
    \<and> core st' =
        (let s = deletePacketCommitment (SourcePort pkt) (SourceChannel pkt) (Sequence pkt) (core st) in
         if ch_Ordering ch = ORDERED then SetChannel (SourcePort pkt) (SourceChannel pkt) (ch\<lparr>ch_State := CLOSED\<rparr>) s else s)"
proof -
  from assms obtain ch where ch: "GetChannel (core st) (SourcePort pkt) (SourceChannel pkt) = Some ch"
    "ibc_auth st k (SourcePort pkt) (SourceChannel pkt)"
    by (auto simp: TimeoutExecuted_def split: option.splits if_splits)
  let ?s = "deletePacketCommitment (SourcePort pkt) (SourceChannel pkt) (Sequence pkt) (core st)"
  have "st' = st\<lparr>core := if ch_Ordering ch = ORDERED
      then SetChannel (SourcePort pkt) (SourceChannel pkt) (ch\<lparr>ch_State := CLOSED\<rparr>) ?s else ?s\<rparr>"
    using assms by (simp add: TimeoutExecuted_def ch Let_def split: if_splits)
  with ch show ?thesis by (simp add: Let_def)
qed

end
