(* ===== verification/Msgs.thy ===== *)
theory Msgs
  imports Packet_Keeper
begin

text \<open>
  The transaction messages of the connection and channel modules and their stateless checks
  (\<open>modules/core/03-connection/types/msgs.go\<close>, \<open>modules/core/04-channel/types/msgs.go\<close>, the parameters of
  \<open>modules/core/02-client/types/params.go\<close> and \<open>modules/core/03-connection/types/params.go\<close>). The decoding
  of addresses is the SDK's (\<open>sdk.AccAddressFromBech32\<close>): a parameter, \<open>None\<close> is an error. A client state packed
  in a message is \<open>None\<close> when it does not unpack.
\<close>

section \<open>Signers\<close>

type_synonym bech32 = "string \<Rightarrow> bytes option"

definition check_signer :: "bech32 \<Rightarrow> string \<Rightarrow> unit result" where
  "check_signer bech signer = (case bech signer of None \<Rightarrow> Inl ibcerrors_ErrInvalidAddress | Some _ \<Rightarrow> Inr ())"

definition GetSigners :: "bech32 \<Rightarrow> string \<Rightarrow> bytes list result" where
  "GetSigners bech signer = (case bech signer of None \<Rightarrow> Inl (Panic ''address'') | Some a \<Rightarrow> Inr [a])"

definition check_proof :: "bytes \<Rightarrow> unit result" where
  "check_proof pf = (if length pf = 0 then Inl commitment_ErrInvalidProof else Inr ())"

section \<open>Channel messages\<close>

record MsgChannelOpenInit =
  coi_PortId :: string
  coi_Channel :: Channel
  coi_Signer :: string

definition NewMsgChannelOpenInit :: "string \<Rightarrow> string \<Rightarrow> Order \<Rightarrow> string list \<Rightarrow> string \<Rightarrow> string \<Rightarrow> MsgChannelOpenInit" where
  "NewMsgChannelOpenInit portID version channelOrder connectionHops counterpartyPortID signer =
     \<lparr>coi_PortId = portID,
      coi_Channel = NewChannel INIT channelOrder (NewCounterparty counterpartyPortID []) connectionHops version,
      coi_Signer = signer\<rparr>"

definition MsgChannelOpenInit_ValidateBasic :: "bech32 \<Rightarrow> MsgChannelOpenInit \<Rightarrow> unit result" where
  "MsgChannelOpenInit_ValidateBasic bech msg =
     and_then (PortIdentifierValidator (coi_PortId msg)) (\<lambda>_.
     if ch_State (coi_Channel msg) \<noteq> INIT then Inl channel_ErrInvalidChannelState
     else if ChannelId (ch_Counterparty (coi_Channel msg)) \<noteq> [] then Inl channel_ErrInvalidCounterparty
     else and_then (check_signer bech (coi_Signer msg)) (\<lambda>_. Channel_ValidateBasic (coi_Channel msg)))"

record MsgChannelOpenTry =
  cot_PortId :: string
  cot_PreviousChannelId :: string
  cot_Channel :: Channel
  cot_CounterpartyVersion :: string
  cot_ProofInit :: bytes
  cot_ProofHeight :: Height
  cot_Signer :: string

definition NewMsgChannelOpenTry ::
  "string \<Rightarrow> string \<Rightarrow> Order \<Rightarrow> string list \<Rightarrow> string \<Rightarrow> string \<Rightarrow> string \<Rightarrow> bytes \<Rightarrow> Height \<Rightarrow> string \<Rightarrow> MsgChannelOpenTry" where
  "NewMsgChannelOpenTry portID version channelOrder connectionHops counterpartyPortID counterpartyChannelID
     counterpartyVersion proofInit proofHeight signer =
     \<lparr>cot_PortId = portID, cot_PreviousChannelId = [],
      cot_Channel = NewChannel TRYOPEN channelOrder (NewCounterparty counterpartyPortID counterpartyChannelID)
        connectionHops version,
      cot_CounterpartyVersion = counterpartyVersion, cot_ProofInit = proofInit, cot_ProofHeight = proofHeight,
      cot_Signer = signer\<rparr>"

definition MsgChannelOpenTry_ValidateBasic :: "bech32 \<Rightarrow> MsgChannelOpenTry \<Rightarrow> unit result" where
  "MsgChannelOpenTry_ValidateBasic bech msg =
     and_then (PortIdentifierValidator (cot_PortId msg)) (\<lambda>_.
     if cot_PreviousChannelId msg \<noteq> [] then Inl channel_ErrInvalidChannelIdentifier
     else and_then (check_proof (cot_ProofInit msg)) (\<lambda>_.
     if ch_State (cot_Channel msg) \<noteq> TRYOPEN then Inl channel_ErrInvalidChannelState
     else and_then (ChannelIdentifierValidator (ChannelId (ch_Counterparty (cot_Channel msg)))) (\<lambda>_.
     and_then (check_signer bech (cot_Signer msg)) (\<lambda>_. Channel_ValidateBasic (cot_Channel msg)))))"

record MsgChannelOpenAck =
  coa_PortId :: string
  coa_ChannelId :: string
  coa_CounterpartyChannelId :: string
  coa_CounterpartyVersion :: string
  coa_ProofTry :: bytes
  coa_ProofHeight :: Height
  coa_Signer :: string

definition NewMsgChannelOpenAck :: "string \<Rightarrow> string \<Rightarrow> string \<Rightarrow> string \<Rightarrow> bytes \<Rightarrow> Height \<Rightarrow> string \<Rightarrow> MsgChannelOpenAck" where
  "NewMsgChannelOpenAck portID channelID counterpartyChannelID cpv proofTry proofHeight signer =
     \<lparr>coa_PortId = portID, coa_ChannelId = channelID, coa_CounterpartyChannelId = counterpartyChannelID,
      coa_CounterpartyVersion = cpv, coa_ProofTry = proofTry, coa_ProofHeight = proofHeight, coa_Signer = signer\<rparr>"

text \<open>The port and the channel of a message about an existing channel.\<close>

definition check_channel :: "string \<Rightarrow> string \<Rightarrow> unit result" where
  "check_channel portID channelID =
     and_then (PortIdentifierValidator portID) (\<lambda>_.
     if \<not> IsValidChannelID channelID then Inl channel_ErrInvalidChannelIdentifier else Inr ())"

definition MsgChannelOpenAck_ValidateBasic :: "bech32 \<Rightarrow> MsgChannelOpenAck \<Rightarrow> unit result" where
  "MsgChannelOpenAck_ValidateBasic bech msg =
     and_then (check_channel (coa_PortId msg) (coa_ChannelId msg)) (\<lambda>_.
     and_then (ChannelIdentifierValidator (coa_CounterpartyChannelId msg)) (\<lambda>_.
     and_then (check_proof (coa_ProofTry msg)) (\<lambda>_. check_signer bech (coa_Signer msg))))"

record MsgChannelOpenConfirm =
  coc_PortId :: string
  coc_ChannelId :: string
  coc_ProofAck :: bytes
  coc_ProofHeight :: Height
  coc_Signer :: string

definition NewMsgChannelOpenConfirm :: "string \<Rightarrow> string \<Rightarrow> bytes \<Rightarrow> Height \<Rightarrow> string \<Rightarrow> MsgChannelOpenConfirm" where
  "NewMsgChannelOpenConfirm portID channelID proofAck proofHeight signer =
     \<lparr>coc_PortId = portID, coc_ChannelId = channelID, coc_ProofAck = proofAck, coc_ProofHeight = proofHeight,
      coc_Signer = signer\<rparr>"

definition MsgChannelOpenConfirm_ValidateBasic :: "bech32 \<Rightarrow> MsgChannelOpenConfirm \<Rightarrow> unit result" where
  "MsgChannelOpenConfirm_ValidateBasic bech msg =
     and_then (check_channel (coc_PortId msg) (coc_ChannelId msg)) (\<lambda>_.
     and_then (check_proof (coc_ProofAck msg)) (\<lambda>_. check_signer bech (coc_Signer msg)))"

record MsgChannelCloseInit =
  cci_PortId :: string
  cci_ChannelId :: string
  cci_Signer :: string

definition NewMsgChannelCloseInit :: "string \<Rightarrow> string \<Rightarrow> string \<Rightarrow> MsgChannelCloseInit" where
  "NewMsgChannelCloseInit portID channelID signer =
     \<lparr>cci_PortId = portID, cci_ChannelId = channelID, cci_Signer = signer\<rparr>"

definition MsgChannelCloseInit_ValidateBasic :: "bech32 \<Rightarrow> MsgChannelCloseInit \<Rightarrow> unit result" where
  "MsgChannelCloseInit_ValidateBasic bech msg =
     and_then (check_channel (cci_PortId msg) (cci_ChannelId msg)) (\<lambda>_. check_signer bech (cci_Signer msg))"

record MsgChannelCloseConfirm =
  ccc_PortId :: string
  ccc_ChannelId :: string
  ccc_ProofInit :: bytes
  ccc_ProofHeight :: Height
  ccc_Signer :: string

definition NewMsgChannelCloseConfirm :: "string \<Rightarrow> string \<Rightarrow> bytes \<Rightarrow> Height \<Rightarrow> string \<Rightarrow> MsgChannelCloseConfirm" where
  "NewMsgChannelCloseConfirm portID channelID proofInit proofHeight signer =
     \<lparr>ccc_PortId = portID, ccc_ChannelId = channelID, ccc_ProofInit = proofInit, ccc_ProofHeight = proofHeight,
      ccc_Signer = signer\<rparr>"

definition MsgChannelCloseConfirm_ValidateBasic :: "bech32 \<Rightarrow> MsgChannelCloseConfirm \<Rightarrow> unit result" where
  "MsgChannelCloseConfirm_ValidateBasic bech msg =
     and_then (check_channel (ccc_PortId msg) (ccc_ChannelId msg)) (\<lambda>_.
     and_then (check_proof (ccc_ProofInit msg)) (\<lambda>_. check_signer bech (ccc_Signer msg)))"

section \<open>Packet messages\<close>

record MsgRecvPacket =
  rp_Packet :: Packet
  rp_ProofCommitment :: bytes
  rp_ProofHeight :: Height
  rp_Signer :: string

definition NewMsgRecvPacket :: "Packet \<Rightarrow> bytes \<Rightarrow> Height \<Rightarrow> string \<Rightarrow> MsgRecvPacket" where
  "NewMsgRecvPacket packet proofCommitment proofHeight signer =
     \<lparr>rp_Packet = packet, rp_ProofCommitment = proofCommitment, rp_ProofHeight = proofHeight, rp_Signer = signer\<rparr>"

definition MsgRecvPacket_ValidateBasic :: "bech32 \<Rightarrow> MsgRecvPacket \<Rightarrow> unit result" where
  "MsgRecvPacket_ValidateBasic bech msg =
     and_then (check_proof (rp_ProofCommitment msg)) (\<lambda>_.
     and_then (check_signer bech (rp_Signer msg)) (\<lambda>_. Packet_ValidateBasic (rp_Packet msg)))"

record MsgTimeout =
  to_Packet :: Packet
  to_ProofUnreceived :: bytes
  to_ProofHeight :: Height
  to_NextSequenceRecv :: u64
  to_Signer :: string

definition NewMsgTimeout :: "Packet \<Rightarrow> u64 \<Rightarrow> bytes \<Rightarrow> Height \<Rightarrow> string \<Rightarrow> MsgTimeout" where
  "NewMsgTimeout packet nextSequenceRecv proofUnreceived proofHeight signer =
     \<lparr>to_Packet = packet, to_ProofUnreceived = proofUnreceived, to_ProofHeight = proofHeight,
      to_NextSequenceRecv = nextSequenceRecv, to_Signer = signer\<rparr>"

definition MsgTimeout_ValidateBasic :: "bech32 \<Rightarrow> MsgTimeout \<Rightarrow> unit result" where
  "MsgTimeout_ValidateBasic bech msg =
     and_then (check_proof (to_ProofUnreceived msg)) (\<lambda>_.
     if to_NextSequenceRecv msg = 0 then Inl ibcerrors_ErrInvalidSequence
     else and_then (check_signer bech (to_Signer msg)) (\<lambda>_. Packet_ValidateBasic (to_Packet msg)))"

record MsgTimeoutOnClose =
  toc_Packet :: Packet
  toc_ProofUnreceived :: bytes
  toc_ProofClose :: bytes
  toc_ProofHeight :: Height
  toc_NextSequenceRecv :: u64
  toc_Signer :: string

definition NewMsgTimeoutOnClose :: "Packet \<Rightarrow> u64 \<Rightarrow> bytes \<Rightarrow> bytes \<Rightarrow> Height \<Rightarrow> string \<Rightarrow> MsgTimeoutOnClose" where
  "NewMsgTimeoutOnClose packet nextSequenceRecv proofUnreceived proofClose proofHeight signer =
     \<lparr>toc_Packet = packet, toc_ProofUnreceived = proofUnreceived, toc_ProofClose = proofClose,
      toc_ProofHeight = proofHeight, toc_NextSequenceRecv = nextSequenceRecv, toc_Signer = signer\<rparr>"

definition MsgTimeoutOnClose_ValidateBasic :: "bech32 \<Rightarrow> MsgTimeoutOnClose \<Rightarrow> unit result" where
  "MsgTimeoutOnClose_ValidateBasic bech msg =
     (if toc_NextSequenceRecv msg = 0 then Inl ibcerrors_ErrInvalidSequence
      else and_then (check_proof (toc_ProofUnreceived msg)) (\<lambda>_.
      and_then (check_proof (toc_ProofClose msg)) (\<lambda>_.
      and_then (check_signer bech (toc_Signer msg)) (\<lambda>_. Packet_ValidateBasic (toc_Packet msg)))))"

record MsgAcknowledgement =
  ma_Packet :: Packet
  ma_Acknowledgement :: bytes
  ma_ProofAcked :: bytes
  ma_ProofHeight :: Height
  ma_Signer :: string

definition NewMsgAcknowledgement :: "Packet \<Rightarrow> bytes \<Rightarrow> bytes \<Rightarrow> Height \<Rightarrow> string \<Rightarrow> MsgAcknowledgement" where
  "NewMsgAcknowledgement packet ack proofAcked proofHeight signer =
     \<lparr>ma_Packet = packet, ma_Acknowledgement = ack, ma_ProofAcked = proofAcked, ma_ProofHeight = proofHeight,
      ma_Signer = signer\<rparr>"

definition MsgAcknowledgement_ValidateBasic :: "bech32 \<Rightarrow> MsgAcknowledgement \<Rightarrow> unit result" where
  "MsgAcknowledgement_ValidateBasic bech msg =
     and_then (check_proof (ma_ProofAcked msg)) (\<lambda>_.
     if length (ma_Acknowledgement msg) = 0 then Inl channel_ErrInvalidAcknowledgement
     else and_then (check_signer bech (ma_Signer msg)) (\<lambda>_. Packet_ValidateBasic (ma_Packet msg)))"

section \<open>Connection messages\<close>

record MsgConnectionOpenInit =
  noi_ClientId :: string
  noi_Counterparty :: ConnCounterparty
  noi_Version :: "Version option"
  noi_DelayPeriod :: u64
  noi_Signer :: string

definition NewMsgConnectionOpenInit :: "string \<Rightarrow> string \<Rightarrow> string \<Rightarrow> Version option \<Rightarrow> u64 \<Rightarrow> string \<Rightarrow> MsgConnectionOpenInit" where
  "NewMsgConnectionOpenInit clientID counterpartyClientID counterpartyPrefix version delayPeriod signer =
     \<lparr>noi_ClientId = clientID, noi_Counterparty = NewConnCounterparty counterpartyClientID [] counterpartyPrefix,
      noi_Version = version, noi_DelayPeriod = delayPeriod, noi_Signer = signer\<rparr>"

definition MsgConnectionOpenInit_ValidateBasic :: "bech32 \<Rightarrow> MsgConnectionOpenInit \<Rightarrow> unit result" where
  "MsgConnectionOpenInit_ValidateBasic bech msg =
     (if noi_ClientId msg = LocalhostClientID then Inl client_ErrInvalidClientType
      else and_then (ClientIdentifierValidator (noi_ClientId msg)) (\<lambda>_.
      if cp_ConnectionId (noi_Counterparty msg) \<noteq> [] then Inl connection_ErrInvalidCounterparty
      else and_then (case noi_Version msg of None \<Rightarrow> Inr () | Some v \<Rightarrow> ValidateVersion (Some v)) (\<lambda>_.
      and_then (check_signer bech (noi_Signer msg)) (\<lambda>_. ConnCounterparty_ValidateBasic (noi_Counterparty msg)))))"

record MsgConnectionOpenTry =
  not_ClientId :: string
  not_PreviousConnectionId :: string
  not_ClientState :: "ClientState option"
  not_Counterparty :: ConnCounterparty
  not_DelayPeriod :: u64
  not_CounterpartyVersions :: "Version list"
  not_ProofHeight :: Height
  not_ProofInit :: bytes
  not_ProofClient :: bytes
  not_ProofConsensus :: bytes
  not_ConsensusHeight :: Height
  not_Signer :: string

text \<open>The counterparty's client state in a handshake message.\<close>

definition check_client_state :: "lib \<Rightarrow> ClientState option \<Rightarrow> unit result" where
  "check_client_state lib ocs =
     (case ocs of None \<Rightarrow> Inl client_ErrInvalidClient | Some clientState \<Rightarrow> ClientState_Validate lib clientState)"

definition MsgConnectionOpenTry_ValidateBasic :: "lib \<Rightarrow> bech32 \<Rightarrow> MsgConnectionOpenTry \<Rightarrow> unit result" where
  "MsgConnectionOpenTry_ValidateBasic lib bech msg =
     (if not_ClientId msg = LocalhostClientID then Inl client_ErrInvalidClientType
      else if not_PreviousConnectionId msg \<noteq> [] then Inl connection_ErrInvalidConnectionIdentifier
      else and_then (ClientIdentifierValidator (not_ClientId msg)) (\<lambda>_.
      and_then (ConnectionIdentifierValidator (cp_ConnectionId (not_Counterparty msg))) (\<lambda>_.
      and_then (check_client_state lib (not_ClientState msg)) (\<lambda>_.
      if length (not_CounterpartyVersions msg) = 0 then Inl ibcerrors_ErrInvalidVersion
      else and_then (validateVersions (not_CounterpartyVersions msg)) (\<lambda>_.
      and_then (check_proof (not_ProofInit msg)) (\<lambda>_.
      and_then (check_proof (not_ProofClient msg)) (\<lambda>_.
      and_then (check_proof (not_ProofConsensus msg)) (\<lambda>_.
      if IsZero (not_ConsensusHeight msg) then Inl ibcerrors_ErrInvalidHeight
      else and_then (check_signer bech (not_Signer msg)) (\<lambda>_. ConnCounterparty_ValidateBasic (not_Counterparty msg))))))))))"

record MsgConnectionOpenAck =
  noa_ConnectionId :: string
  noa_CounterpartyConnectionId :: string
  noa_Version :: "Version option"
  noa_ClientState :: "ClientState option"
  noa_ProofHeight :: Height
  noa_ProofTry :: bytes
  noa_ProofClient :: bytes
  noa_ProofConsensus :: bytes
  noa_ConsensusHeight :: Height
  noa_Signer :: string

definition MsgConnectionOpenAck_ValidateBasic :: "lib \<Rightarrow> bech32 \<Rightarrow> MsgConnectionOpenAck \<Rightarrow> unit result" where
  "MsgConnectionOpenAck_ValidateBasic lib bech msg =
     (if \<not> IsValidConnectionID (noa_ConnectionId msg) then Inl connection_ErrInvalidConnectionIdentifier
      else and_then (ConnectionIdentifierValidator (noa_CounterpartyConnectionId msg)) (\<lambda>_.
      and_then (ValidateVersion (noa_Version msg)) (\<lambda>_.
      and_then (check_client_state lib (noa_ClientState msg)) (\<lambda>_.
      and_then (check_proof (noa_ProofTry msg)) (\<lambda>_.
      and_then (check_proof (noa_ProofClient msg)) (\<lambda>_.
      and_then (check_proof (noa_ProofConsensus msg)) (\<lambda>_.
      if IsZero (noa_ConsensusHeight msg) then Inl ibcerrors_ErrInvalidHeight
      else check_signer bech (noa_Signer msg))))))))"

record MsgConnectionOpenConfirm =
  noc_ConnectionId :: string
  noc_ProofAck :: bytes
  noc_ProofHeight :: Height
  noc_Signer :: string

definition NewMsgConnectionOpenConfirm :: "string \<Rightarrow> bytes \<Rightarrow> Height \<Rightarrow> string \<Rightarrow> MsgConnectionOpenConfirm" where
  "NewMsgConnectionOpenConfirm connectionID proofAck proofHeight signer =
     \<lparr>noc_ConnectionId = connectionID, noc_ProofAck = proofAck, noc_ProofHeight = proofHeight, noc_Signer = signer\<rparr>"

definition MsgConnectionOpenConfirm_ValidateBasic :: "bech32 \<Rightarrow> MsgConnectionOpenConfirm \<Rightarrow> unit result" where
  "MsgConnectionOpenConfirm_ValidateBasic bech msg =
     (if \<not> IsValidConnectionID (noc_ConnectionId msg) then Inl connection_ErrInvalidConnectionIdentifier
      else and_then (check_proof (noc_ProofAck msg)) (\<lambda>_. check_signer bech (noc_Signer msg)))"

section \<open>Parameters\<close>

definition validateClients :: "string list \<Rightarrow> unit result" where
  "validateClients clients = (if list_ex is_blank clients then Inl (ErrForeign ''client type cannot be blank'') else Inr ())"

definition ClientMsgUpdateParams_ValidateBasic :: "bech32 \<Rightarrow> string \<Rightarrow> string list \<Rightarrow> unit result" where
  "ClientMsgUpdateParams_ValidateBasic bech authority allowedClients =
     and_then (check_signer bech authority) (\<lambda>_. validateClients allowedClients)"

definition ConnectionParams_Validate :: "u64 \<Rightarrow> unit result" where
  "ConnectionParams_Validate maxExpectedTimePerBlock =
     (if maxExpectedTimePerBlock = 0 then Inl (ErrForeign ''MaxExpectedTimePerBlock cannot be zero'') else Inr ())"

definition ConnectionMsgUpdateParams_ValidateBasic :: "bech32 \<Rightarrow> string \<Rightarrow> u64 \<Rightarrow> unit result" where
  "ConnectionMsgUpdateParams_ValidateBasic bech authority maxExpectedTimePerBlock =
     and_then (check_signer bech authority) (\<lambda>_. ConnectionParams_Validate maxExpectedTimePerBlock)"

section \<open>What a validated message guarantees\<close>

lemma IsValidChannelID_slash_free:
  assumes "IsValidChannelID c"
  shows "slash_free c"
proof -
  from assms have "seq_id_format ChannelPrefix c"
    by (auto simp: IsValidChannelID_def ParseChannelSequence_def IsChannelIDFormat_def split: if_splits)
  then show ?thesis by (auto simp: seq_id_format_def HasPrefix_iff slash_free_def list_all_iff dest: bspec [where x = "CHR ''/''"])
qed

lemma check_channel_ok: "check_channel p c = Inr u \<Longrightarrow> slash_free p \<and> slash_free c"
  by (auto simp: check_channel_def split: if_splits intro: IsValidChannelID_slash_free valid_slash_free(4))

lemma Packet_ValidateBasic_ids:
  "Packet_ValidateBasic pkt = Inr u \<Longrightarrow>
     slash_free (SourcePort pkt) \<and> slash_free (SourceChannel pkt) \<and> slash_free (DestinationPort pkt) \<and> slash_free (DestinationChannel pkt)"
  using Packet_ValidateBasic_ok [of pkt] by (auto intro: valid_slash_free)

lemma Channel_ValidateBasic_ordering: "Channel_ValidateBasic ch = Inr u \<Longrightarrow> ch_Ordering ch \<noteq> ORDER_NONE \<and> (\<exists>h. ch_ConnectionHops ch = [h])"
  by (auto simp: Channel_ValidateBasic_def length_Suc_conv split: if_splits)

end
