(* ===== verification/Transfer_Types.thy ===== *)
theory Transfer_Types
  imports Msgs
begin

text \<open>
  ICS-20, \<open>modules/apps/transfer/types\<close>: denomination traces (\<open>trace.go\<close>), which chain a token comes from
  (\<open>coin.go\<close>), the packet data (\<open>packet.go\<close>), keys and escrow addresses (\<open>keys.go\<close>), messages (\<open>msgs.go\<close>),
  genesis (\<open>genesis.go\<close>), parameters and the transfer authorization (\<open>transfer_authorization.go\<close>). What the
  code takes from the SDK and from CometBFT (coins, big integers as strings, addresses, JSON) is the
  record \<open>tlib\<close> of functions. The theorems: parsing a denomination and printing it back, with the one
  shape of denomination for which it fails, and that the trace a chain adds to a token is the one it
  recognises and removes when the token comes back.
\<close>

section \<open>The SDK\<close>

record Coin =
  Denom :: string
  Amount :: int

record FungibleTokenPacketData =
  ftpd_Denom :: string
  ftpd_Amount :: string
  ftpd_Sender :: string
  ftpd_Receiver :: string
  ftpd_Memo :: string

record tlib =
  AccAddressFromBech32 :: bech32
  AccAddress_String :: "bytes \<Rightarrow> string"
  HexBytes_String :: "bytes \<Rightarrow> string"
  ValidateHash :: "bytes \<Rightarrow> bool"
  ValidateDenom :: "string \<Rightarrow> bool"
  NewIntFromString :: "string \<Rightarrow> int option"
  Int_String :: "int \<Rightarrow> string"
  NewCoin :: "string \<Rightarrow> int \<Rightarrow> Coin result"
  NewCoins :: "Coin list \<Rightarrow> Coin list result"
  Coin_Add :: "Coin \<Rightarrow> Coin \<Rightarrow> Coin result"
  Coin_Sub :: "Coin \<Rightarrow> Coin \<Rightarrow> Coin result"
  Coin_IsValid :: "Coin \<Rightarrow> bool"
  Coins_Add :: "Coin list \<Rightarrow> Coin list \<Rightarrow> Coin list result"
  Coins_Validate :: "Coin list \<Rightarrow> bool"
  Coins_AmountOf :: "Coin list \<Rightarrow> string \<Rightarrow> int"
  Coins_SafeSub :: "Coin list \<Rightarrow> Coin \<Rightarrow> Coin list \<times> bool"
  Coins_IsAllGTE :: "Coin list \<Rightarrow> Coin list \<Rightarrow> bool"
  MarshalData :: "FungibleTokenPacketData \<Rightarrow> bytes"
  UnmarshalData :: "bytes \<Rightarrow> FungibleTokenPacketData option"
  MarshalAck :: "Acknowledgement \<Rightarrow> bytes"
  UnmarshalAck :: "bytes \<Rightarrow> Acknowledgement option"
  ABCICode :: "ibc_error \<Rightarrow> nat"

section \<open>Keys\<close>

abbreviation transfer_ModuleName :: string where "transfer_ModuleName \<equiv> ''transfer''"
abbreviation transfer_Version :: string where "transfer_Version \<equiv> ''ics20-1''"
abbreviation transfer_PortID :: string where "transfer_PortID \<equiv> ''transfer''"
abbreviation DenomPrefix :: string where "DenomPrefix \<equiv> ''ibc''"
abbreviation KeyTotalEscrowPrefix :: string where "KeyTotalEscrowPrefix \<equiv> ''totalEscrowForDenom''"
abbreviation transfer_ParamsKey :: string where "transfer_ParamsKey \<equiv> ''params''"

definition PortKey :: bytes where
  "PortKey = [1]"

definition DenomTraceKey :: bytes where
  "DenomTraceKey = [2]"

definition escrow_preimage :: "string \<Rightarrow> string \<Rightarrow> bytes" where
  "escrow_preimage portID channelID = str_bytes transfer_Version @ [0] @ str_bytes (portID @ ''/'' @ channelID)"

definition GetEscrowAddress :: "string \<Rightarrow> string \<Rightarrow> bytes" where
  "GetEscrowAddress portID channelID = take 20 (Sum256 (escrow_preimage portID channelID))"

definition TotalEscrowForDenomKey :: "string \<Rightarrow> bytes" where
  "TotalEscrowForDenomKey denom = str_bytes (KeyTotalEscrowPrefix @ ''/'' @ denom)"

section \<open>Denomination traces\<close>

record DenomTrace =
  Path :: string
  BaseDenom :: string

text \<open>
  The loop over the slash separated items, two at a time; \<open>len\<close> is the number of all items. The items
  that are left when the loop breaks are those of the base denomination.
\<close>

fun extract_loop :: "nat \<Rightarrow> string list \<Rightarrow> string list \<times> string list" where
  "extract_loop len (p # c # items) =
     (if 2 < len \<and> IsValidChannelID c then (let (path, base) = extract_loop len items in (p # c # path, base))
      else ([], p # c # items))"
| "extract_loop len items = ([], items)"

definition extractPathAndBaseFromFullDenom :: "string list \<Rightarrow> string \<times> string" where
  "extractPathAndBaseFromFullDenom fullDenomItems =
     (let (path, base) = extract_loop (length fullDenomItems) fullDenomItems in (Join path ''/'', Join base ''/''))"

definition ParseDenomTrace :: "string \<Rightarrow> DenomTrace" where
  "ParseDenomTrace rawDenom =
     (let denomSplit = Split rawDenom ''/'' in
      if hd denomSplit = rawDenom then \<lparr>Path = [], BaseDenom = rawDenom\<rparr>
      else let (path, baseDenom) = extractPathAndBaseFromFullDenom denomSplit in \<lparr>Path = path, BaseDenom = baseDenom\<rparr>)"

definition GetPrefix :: "DenomTrace \<Rightarrow> string" where
  "GetPrefix dt = Path dt @ ''/''"

definition GetFullDenomPath :: "DenomTrace \<Rightarrow> string" where
  "GetFullDenomPath dt = (if Path dt = [] then BaseDenom dt else GetPrefix dt @ BaseDenom dt)"

definition DenomTrace_Hash :: "DenomTrace \<Rightarrow> bytes" where
  "DenomTrace_Hash dt = Sum256 (str_bytes (GetFullDenomPath dt))"

definition IBCDenom :: "tlib \<Rightarrow> DenomTrace \<Rightarrow> string" where
  "IBCDenom sdk dt = (if Path dt \<noteq> [] then DenomPrefix @ ''/'' @ HexBytes_String sdk (DenomTrace_Hash dt) else BaseDenom dt)"

definition IsNativeDenom :: "DenomTrace \<Rightarrow> bool" where
  "IsNativeDenom dt = (Path dt = [])"

fun validate_pairs :: "string list \<Rightarrow> unit result" where
  "validate_pairs (p # c # ids) =
     and_then (PortIdentifierValidator p) (\<lambda>_. and_then (ChannelIdentifierValidator c) (\<lambda>_. validate_pairs ids))"
| "validate_pairs _ = Inr ()"

definition validateTraceIdentifiers :: "string list \<Rightarrow> unit result" where
  "validateTraceIdentifiers identifiers =
     (if length identifiers = 0 \<or> length identifiers mod 2 \<noteq> 0
      then Inl (ErrForeign ''trace info must come in pairs of port and channel identifiers'')
      else validate_pairs identifiers)"

definition DenomTrace_Validate :: "DenomTrace \<Rightarrow> unit result" where
  "DenomTrace_Validate dt =
     (if Path dt = [] \<and> BaseDenom dt \<noteq> [] then Inr ()
      else if is_blank (BaseDenom dt) then Inl (ErrForeign ''base denomination cannot be blank'')
      else validateTraceIdentifiers (Split (Path dt) ''/''))"

text \<open>The map of the hashes already seen holds the hashes of the traces before the current one.\<close>

fun Traces_Validate :: "bytes list \<Rightarrow> DenomTrace list \<Rightarrow> unit result" where
  "Traces_Validate seen [] = Inr ()"
| "Traces_Validate seen (t # ts) =
     (if DenomTrace_Hash t \<in> set seen then Inl (ErrForeign ''duplicated denomination trace'')
      else and_then (DenomTrace_Validate t) (\<lambda>_. Traces_Validate (DenomTrace_Hash t # seen) ts))"

definition Traces_Sort :: "DenomTrace list \<Rightarrow> DenomTrace list" where
  "Traces_Sort ts = sort_key GetFullDenomPath ts"

definition ValidatePrefixedDenom :: "string \<Rightarrow> unit result" where
  "ValidatePrefixedDenom denom =
     (let denomSplit = Split denom ''/'' in
      if hd denomSplit = denom \<and> \<not> is_blank denom then Inr ()
      else if is_blank (last denomSplit) then Inl transfer_ErrInvalidDenomForTransfer
      else let (path, base) = extractPathAndBaseFromFullDenom denomSplit in
        if path = [] then Inr () else validateTraceIdentifiers (Split path ''/''))"

text \<open>\<open>hex.DecodeString\<close>\<close>

fun hex_DecodeString :: "string \<Rightarrow> bytes option" where
  "hex_DecodeString [] = Some []"
| "hex_DecodeString [a] = None"
| "hex_DecodeString (a # b # s) =
     (case (unhex a, unhex b) of
        (Some x, Some y) \<Rightarrow> map_option (Cons (word_of_nat (16 * x + y))) (hex_DecodeString s)
      | _ \<Rightarrow> None)"

definition ParseHexHash :: "tlib \<Rightarrow> string \<Rightarrow> bytes result" where
  "ParseHexHash sdk hexHash =
     (case hex_DecodeString hexHash of
        None \<Rightarrow> Inl (ErrForeign ''encoding/hex'')
      | Some hash \<Rightarrow> if \<not> ValidateHash sdk hash then Inl (ErrForeign ''invalid hash size'') else Inr hash)"

text \<open>\<open>strings.SplitN(denom, "/", 2)\<close> has two parts when there is a slash: what precedes and what follows the first one.\<close>

definition ValidateIBCDenom :: "tlib \<Rightarrow> string \<Rightarrow> unit result" where
  "ValidateIBCDenom sdk denom =
     (if \<not> ValidateDenom sdk denom then Inl (ErrForeign ''invalid denom'')
      else if denom = DenomPrefix then Inl transfer_ErrInvalidDenomForTransfer
      else if CHR ''/'' \<in> set denom \<and> hd (Split denom ''/'') = DenomPrefix then
        let rest = Join (tl (Split denom ''/'')) ''/'' in
        if is_blank rest then Inl transfer_ErrInvalidDenomForTransfer
        else and_then (ParseHexHash sdk rest) (\<lambda>_. Inr ())
      else Inr ())"

section \<open>Source and sink zones\<close>

definition GetDenomPrefix :: "string \<Rightarrow> string \<Rightarrow> string" where
  "GetDenomPrefix portID channelID = portID @ ''/'' @ channelID @ ''/''"

definition GetPrefixedDenom :: "string \<Rightarrow> string \<Rightarrow> string \<Rightarrow> string" where
  "GetPrefixedDenom portID channelID baseDenom = portID @ ''/'' @ channelID @ ''/'' @ baseDenom"

definition ReceiverChainIsSource :: "string \<Rightarrow> string \<Rightarrow> string \<Rightarrow> bool" where
  "ReceiverChainIsSource sourcePort sourceChannel denom = HasPrefix denom (GetDenomPrefix sourcePort sourceChannel)"

definition SenderChainIsSource :: "string \<Rightarrow> string \<Rightarrow> string \<Rightarrow> bool" where
  "SenderChainIsSource sourcePort sourceChannel denom = (\<not> ReceiverChainIsSource sourcePort sourceChannel denom)"

definition GetTransferCoin :: "tlib \<Rightarrow> string \<Rightarrow> string \<Rightarrow> string \<Rightarrow> int \<Rightarrow> Coin result" where
  "GetTransferCoin sdk portID channelID baseDenom amount =
     NewCoin sdk (IBCDenom sdk (ParseDenomTrace (GetPrefixedDenom portID channelID baseDenom))) amount"

section \<open>Packet data, messages, genesis\<close>

definition NewFungibleTokenPacketData :: "string \<Rightarrow> string \<Rightarrow> string \<Rightarrow> string \<Rightarrow> string \<Rightarrow> FungibleTokenPacketData" where
  "NewFungibleTokenPacketData denom amount sender receiver memo =
     \<lparr>ftpd_Denom = denom, ftpd_Amount = amount, ftpd_Sender = sender, ftpd_Receiver = receiver, ftpd_Memo = memo\<rparr>"

definition FungibleTokenPacketData_ValidateBasic :: "tlib \<Rightarrow> FungibleTokenPacketData \<Rightarrow> unit result" where
  "FungibleTokenPacketData_ValidateBasic sdk data =
     (case NewIntFromString sdk (ftpd_Amount data) of
        None \<Rightarrow> Inl transfer_ErrInvalidAmount
      | Some amount \<Rightarrow>
          if \<not> 0 < amount then Inl transfer_ErrInvalidAmount
          else if is_blank (ftpd_Sender data) then Inl ibcerrors_ErrInvalidAddress
          else if is_blank (ftpd_Receiver data) then Inl ibcerrors_ErrInvalidAddress
          else ValidatePrefixedDenom (ftpd_Denom data))"

record transfer_Params =
  SendEnabled :: bool
  ReceiveEnabled :: bool

definition DefaultParams :: transfer_Params where
  "DefaultParams = \<lparr>SendEnabled = True, ReceiveEnabled = True\<rparr>"

record MsgTransfer =
  mt_SourcePort :: string
  mt_SourceChannel :: string
  mt_Token :: Coin
  mt_Sender :: string
  mt_Receiver :: string
  mt_TimeoutHeight :: Height
  mt_TimeoutTimestamp :: u64
  mt_Memo :: string

definition MsgTransfer_ValidateBasic :: "tlib \<Rightarrow> MsgTransfer \<Rightarrow> unit result" where
  "MsgTransfer_ValidateBasic sdk msg =
     and_then (PortIdentifierValidator (mt_SourcePort msg)) (\<lambda>_.
     and_then (ChannelIdentifierValidator (mt_SourceChannel msg)) (\<lambda>_.
     if \<not> Coin_IsValid sdk (mt_Token msg) then Inl ibcerrors_ErrInvalidCoins
     else if \<not> 0 < Amount (mt_Token msg) then Inl ibcerrors_ErrInsufficientFunds
     else if AccAddressFromBech32 sdk (mt_Sender msg) = None then Inl ibcerrors_ErrInvalidAddress
     else if is_blank (mt_Receiver msg) then Inl ibcerrors_ErrInvalidAddress
     else ValidateIBCDenom sdk (Denom (mt_Token msg))))"

definition MsgTransfer_GetSigners :: "tlib \<Rightarrow> MsgTransfer \<Rightarrow> bytes list result" where
  "MsgTransfer_GetSigners sdk msg = GetSigners (AccAddressFromBech32 sdk) (mt_Sender msg)"

record transfer_GenesisState =
  gs_PortId :: string
  gs_DenomTraces :: "DenomTrace list"
  gs_Params :: transfer_Params
  gs_TotalEscrowed :: "Coin list"

definition transfer_DefaultGenesisState :: transfer_GenesisState where
  "transfer_DefaultGenesisState = \<lparr>gs_PortId = transfer_PortID, gs_DenomTraces = [], gs_Params = DefaultParams, gs_TotalEscrowed = []\<rparr>"

definition transfer_GenesisState_Validate :: "tlib \<Rightarrow> transfer_GenesisState \<Rightarrow> unit result" where
  "transfer_GenesisState_Validate sdk gs =
     and_then (PortIdentifierValidator (gs_PortId gs)) (\<lambda>_.
     and_then (Traces_Validate [] (gs_DenomTraces gs)) (\<lambda>_.
     if Coins_Validate sdk (gs_TotalEscrowed gs) then Inr () else Inl (ErrForeign ''invalid coins'')))"

section \<open>Transfer authorization\<close>

record Allocation =
  al_SourcePort :: string
  al_SourceChannel :: string
  al_SpendLimit :: "Coin list option"
  al_AllowList :: "string list"

definition UnboundedSpendLimit :: int where
  "UnboundedSpendLimit = 2 ^ 256 - 1"

text \<open>The gas consumed per compared address is not modelled.\<close>

definition isAllowedAddress :: "string \<Rightarrow> string list \<Rightarrow> bool" where
  "isAllowedAddress receiver allowedAddrs = (allowedAddrs = [] \<or> receiver \<in> set allowedAddrs)"

text \<open>What \<open>Accept\<close> answers: delete the grant, keep it as it is, or replace its allocations.\<close>

datatype AcceptResponse =
    AcceptDelete
  | AcceptKeep
  | AcceptUpdated "Allocation list"

definition al_limit :: "Allocation \<Rightarrow> Coin list" where
  "al_limit a = (case al_SpendLimit a of None \<Rightarrow> [] | Some l \<Rightarrow> l)"

text \<open>\<open>before\<close> are the allocations the loop has passed. \<open>Coins.IsZero\<close> holds if every coin is zero.\<close>

fun Accept_loop :: "tlib \<Rightarrow> MsgTransfer \<Rightarrow> Allocation list \<Rightarrow> Allocation list \<Rightarrow> AcceptResponse result" where
  "Accept_loop sdk msg before [] = Inl ibcerrors_ErrNotFound"
| "Accept_loop sdk msg before (a # rest) =
     (if \<not> (al_SourceChannel a = mt_SourceChannel msg \<and> al_SourcePort a = mt_SourcePort msg)
      then Accept_loop sdk msg (before @ [a]) rest
      else if \<not> isAllowedAddress (mt_Receiver msg) (al_AllowList a) then Inl ibcerrors_ErrInvalidAddress
      else if Coins_AmountOf sdk (al_limit a) (Denom (mt_Token msg)) = UnboundedSpendLimit then Inr AcceptKeep
      else let (limitLeft, isNegative) = Coins_SafeSub sdk (al_limit a) (mt_Token msg) in
        if isNegative then Inl ibcerrors_ErrInsufficientFunds
        else if list_all (\<lambda>c. Amount c = 0) limitLeft then
          (if before @ rest = [] then Inr AcceptDelete else Inr (AcceptUpdated (before @ rest)))
        else Inr (AcceptUpdated (before @ a\<lparr>al_SpendLimit := Some limitLeft\<rparr> # rest)))"

definition Accept :: "tlib \<Rightarrow> Allocation list \<Rightarrow> MsgTransfer \<Rightarrow> AcceptResponse result" where
  "Accept sdk allocations msg = Accept_loop sdk msg [] allocations"

fun check_allocations :: "tlib \<Rightarrow> string list \<Rightarrow> Allocation list \<Rightarrow> unit result" where
  "check_allocations sdk found [] = Inr ()"
| "check_allocations sdk found (a # rest) =
     (if al_SourceChannel a \<in> set found then Inl channel_ErrInvalidChannel
      else case al_SpendLimit a of
        None \<Rightarrow> Inl ibcerrors_ErrInvalidCoins
      | Some limit \<Rightarrow>
          if \<not> Coins_Validate sdk limit then Inl ibcerrors_ErrInvalidCoins
          else and_then (PortIdentifierValidator (al_SourcePort a)) (\<lambda>_.
            and_then (ChannelIdentifierValidator (al_SourceChannel a)) (\<lambda>_.
            if \<not> distinct (al_AllowList a) then Inl transfer_ErrInvalidAuthorization
            else check_allocations sdk (al_SourceChannel a # found) rest)))"

definition TransferAuthorization_ValidateBasic :: "tlib \<Rightarrow> Allocation list \<Rightarrow> unit result" where
  "TransferAuthorization_ValidateBasic sdk allocations =
     (if length allocations = 0 then Inl transfer_ErrInvalidAuthorization else check_allocations sdk [] allocations)"

section \<open>Parsing and printing denominations\<close>

text \<open>Denominations made of two or more port/channel pairs and nothing else: no item is left for the base.\<close>

fun pairs_only :: "string list \<Rightarrow> bool" where
  "pairs_only [] = True"
| "pairs_only [x] = False"
| "pairs_only (p # c # items) = (IsValidChannelID c \<and> pairs_only items)"

definition no_base :: "string \<Rightarrow> bool" where
  "no_base denom = (2 < length (Split denom ''/'') \<and> pairs_only (Split denom ''/''))"

lemma extract_loop_append:
  "extract_loop len items = (path, base) \<Longrightarrow> items = path @ base \<and> (path \<noteq> [] \<longrightarrow> 2 < len \<and> (\<exists>p c r. path = p # c # r))"
  by (induction len items arbitrary: path base rule: extract_loop.induct) (auto split: if_splits prod.splits)

lemma extract_loop_base: "2 < len \<Longrightarrow> extract_loop len items = (path, base) \<Longrightarrow> base = [] \<longleftrightarrow> pairs_only items"
  by (induction len items arbitrary: path base rule: extract_loop.induct) (auto split: if_splits prod.splits)

lemma extract_loop_snoc: "2 < len \<Longrightarrow> pairs_only items \<Longrightarrow> extract_loop len (items @ [x]) = (items, [x])"
  by (induction items rule: pairs_only.induct) simp_all

lemma Join_append: "xs \<noteq> [] \<Longrightarrow> ys \<noteq> [] \<Longrightarrow> Join (xs @ ys) sep = Join xs sep @ sep @ Join ys sep"
  by (induction xs) (simp_all add: Join_Cons, metis Join.simps(2) Join_Cons append_Nil append_assoc)

lemma Split_trailing: "Split (s @ [c]) [c] = Split s [c] @ [[]]"
proof (induction s)
  case (Cons d s)
  obtain w ws where "Split s [c] = w # ws" using Split_nonempty [of "[c]" s] by (cases "Split s [c]") auto
  with Cons show ?case by (cases "d = c") (simp_all add: Split_other)
qed simp

lemma hd_Split: "hd (Split s [c]) = s \<longleftrightarrow> c \<notin> set s"
proof (cases "c \<in> set s")
  case True
  then obtain a b where s: "s = a @ c # b" "c \<notin> set a" by (meson split_list_first)
  then show ?thesis by (auto simp: Split_append)
next
  case False
  then show ?thesis by (simp add: Split_no_sep)
qed

lemma Split_one: "c \<notin> set s \<longleftrightarrow> length (Split s [c]) = 1"
proof (cases "c \<in> set s")
  case True
  then obtain a b where "s = a @ c # b" "c \<notin> set a" by (meson split_list_first)
  then show ?thesis using True Split_nonempty [of "[c]" b] by (simp add: Split_append)
next
  case False
  then show ?thesis by (simp add: Split_no_sep)
qed

text \<open>The parsed trace in terms of the items.\<close>

lemma ParseDenomTrace_items:
  "ParseDenomTrace d = (let (path, base) = extract_loop (length (Split d ''/'')) (Split d ''/'') in
     \<lparr>Path = Join path ''/'', BaseDenom = Join base ''/''\<rparr>)"
proof (cases "CHR ''/'' \<in> set d")
  case True
  then show ?thesis by (simp add: ParseDenomTrace_def hd_Split extractPathAndBaseFromFullDenom_def split: prod.split)
next
  case False
  then show ?thesis by (simp add: ParseDenomTrace_def hd_Split Split_no_sep)
qed

lemma full_path:
  "GetFullDenomPath (ParseDenomTrace d) = (if no_base d then d @ ''/'' else d)"
proof -
  let ?items = "Split d ''/''"
  obtain path base where e: "extract_loop (length ?items) ?items = (path, base)" by (cases "extract_loop (length ?items) ?items")
  note f = extract_loop_append [OF e]
  have d: "d = Join (path @ base) ''/''" using f Join_Split [of d "CHR ''/''"] by simp
  have t: "ParseDenomTrace d = \<lparr>Path = Join path ''/'', BaseDenom = Join base ''/''\<rparr>" by (simp add: ParseDenomTrace_items e)
  show ?thesis
  proof (cases "path = []")
    case True
    have "\<not> no_base d"
    proof
      assume n: "no_base d"
      with e extract_loop_base have "base = []" by (auto simp: no_base_def)
      with True f n show False by (auto simp: no_base_def)
    qed
    moreover have "GetFullDenomPath (ParseDenomTrace d) = Join (path @ base) ''/''" unfolding t using True by (simp add: GetFullDenomPath_def)
    ultimately show ?thesis using d by simp
  next
    case False
    with f obtain p c r where p: "path = p # c # r" and len: "2 < length ?items" by blast
    have nb: "no_base d \<longleftrightarrow> base = []" using extract_loop_base [OF len e] len by (simp add: no_base_def)
    have "Join path ''/'' \<noteq> []" using p by (cases r) simp_all
    then have g: "GetFullDenomPath (ParseDenomTrace d) = Join path ''/'' @ ''/'' @ Join base ''/''"
      unfolding t by (simp add: GetFullDenomPath_def GetPrefix_def)
    show ?thesis
    proof (cases "base = []")
      case True
      then have "d = Join path ''/''" using d by simp
      with True nb g show ?thesis by simp
    next
      case b: False
      have "d = Join path ''/'' @ ''/'' @ Join base ''/''" using d Join_append [OF False b] by simp
      with b nb g show ?thesis by simp
    qed
  qed
qed

lemma reparse: "ParseDenomTrace (GetFullDenomPath (ParseDenomTrace d)) = ParseDenomTrace d"
proof (cases "no_base d")
  case True
  then have n: "2 < length (Split d ''/'')" "pairs_only (Split d ''/'')" by (auto simp: no_base_def)
  obtain path base where e: "extract_loop (length (Split d ''/'')) (Split d ''/'') = (path, base)"
    by (cases "extract_loop (length (Split d ''/'')) (Split d ''/'')")
  have "base = []" using extract_loop_base [OF n(1) e] n(2) by blast
  moreover have "Split d ''/'' = path @ base" using extract_loop_append [OF e] by blast
  ultimately have "extract_loop (length (Split d ''/'')) (Split d ''/'') = (Split d ''/'', [])" using e by simp
  then have "ParseDenomTrace d = \<lparr>Path = Join (Split d ''/'') ''/'', BaseDenom = []\<rparr>" by (simp add: ParseDenomTrace_items)
  moreover have "ParseDenomTrace (d @ ''/'') = \<lparr>Path = Join (Split d ''/'') ''/'', BaseDenom = []\<rparr>"
    using n by (simp add: ParseDenomTrace_items Split_trailing extract_loop_snoc)
  moreover have "GetFullDenomPath (ParseDenomTrace d) = d @ ''/''" using True full_path by simp
  ultimately show ?thesis by simp
next
  case False
  then show ?thesis by (simp add: full_path)
qed

text \<open>The trace added on receipt.\<close>

lemma Split_prefixed:
  assumes "slash_free p" and "IsValidChannelID c"
  shows "Split (GetPrefixedDenom p c d) ''/'' = p # c # Split d ''/''"
  using Split_seg [OF assms(1)] Split_seg [OF IsValidChannelID_slash_free [OF assms(2)]] by (simp add: GetPrefixedDenom_def)

lemma prefixed_trace:
  assumes "slash_free p" and "IsValidChannelID c"
  shows "Path (ParseDenomTrace (GetPrefixedDenom p c d)) \<noteq> []"
proof -
  have "2 < length (p # c # Split d ''/'')" using Split_nonempty [of "''/''" d] by (cases "Split d ''/''") simp_all
  moreover have "Join (p # c # path) ''/'' \<noteq> []" for path by (cases path) simp_all
  ultimately show ?thesis using assms(2) by (simp add: ParseDenomTrace_items Split_prefixed [OF assms] split: prod.split)
qed

lemma ReceiverChainIsSource_prefixed:
  assumes "slash_free p" "slash_free c" "slash_free q" "slash_free e"
  shows "ReceiverChainIsSource q e (GetPrefixedDenom p c d) \<longleftrightarrow> q = p \<and> e = c"
  using assms sep_append_inj [of "CHR ''/''" p q] sep_append_inj [of "CHR ''/''" c e]
  by (auto simp: ReceiverChainIsSource_def GetPrefixedDenom_def GetDenomPrefix_def HasPrefix_iff slash_free_def)

section \<open>Properties\<close>

text \<open>
  C27: denomination traces. Printing a parsed denomination gives the denomination back, and parsing that
  again gives the same trace, except for denominations that consist of two or more port/channel
  pairs and nothing else: such a trace prints with a slash too many, and a packet with the printed
  denomination is rejected by every receiving chain.
\<close>

theorem denom_trace_roundtrip:
  "GetFullDenomPath (ParseDenomTrace d) = (if no_base d then d @ ''/'' else d)
   \<and> ParseDenomTrace (GetFullDenomPath (ParseDenomTrace d)) = ParseDenomTrace d
   \<and> (no_base d \<longrightarrow> ValidatePrefixedDenom (GetFullDenomPath (ParseDenomTrace d)) = Inl transfer_ErrInvalidDenomForTransfer)"
proof -
  have "ValidatePrefixedDenom (d @ ''/'') = Inl transfer_ErrInvalidDenomForTransfer"
    using hd_Split [of "d @ ''/''" "CHR ''/''"] by (simp add: ValidatePrefixedDenom_def Let_def Split_trailing)
  then show ?thesis using full_path [of d] reparse [of d] by simp
qed

lemma denom_trace_roundtrip_witness:
  "ValidatePrefixedDenom ''transfer/channel-0/gamm/channel-1'' = Inr ()
   \<and> ValidatePrefixedDenom (GetFullDenomPath (ParseDenomTrace ''transfer/channel-0/gamm/channel-1'')) = Inl transfer_ErrInvalidDenomForTransfer"
proof -
  have "no_base ''transfer/channel-0/gamm/channel-1''" "ValidatePrefixedDenom ''transfer/channel-0/gamm/channel-1'' = Inr ()"
    by code_simp+
  with denom_trace_roundtrip [of "''transfer/channel-0/gamm/channel-1''"] show ?thesis by blast
qed

text \<open>
  C28: a token finds its way back. A token of denomination \<open>d\<close> received over a channel gets a voucher whose
  full denomination is \<open>d\<close> prefixed with the receiving end's port and channel. Among all channels, only
  sending the voucher back over that channel end makes the sender a sink zone, and the prefix the other
  chain then strips leaves exactly \<open>d\<close>. The exception are denominations \<open>d\<close> that consist of port/channel
  pairs only: their voucher prints with a trailing slash, which is left after stripping.
\<close>

theorem token_returns:
  assumes "slash_free p" and "IsValidChannelID c"
  shows "\<not> IsNativeDenom (ParseDenomTrace (GetPrefixedDenom p c d))
    \<and> GetFullDenomPath (ParseDenomTrace (GetPrefixedDenom p c d)) = GetPrefixedDenom p c (if pairs_only (Split d ''/'') then d @ ''/'' else d)
    \<and> drop (length (GetDenomPrefix p c)) (GetFullDenomPath (ParseDenomTrace (GetPrefixedDenom p c d)))
        = (if pairs_only (Split d ''/'') then d @ ''/'' else d)
    \<and> (\<forall>q e. slash_free q \<and> slash_free e \<longrightarrow>
         SenderChainIsSource q e (GetFullDenomPath (ParseDenomTrace (GetPrefixedDenom p c d))) = (\<not> (q = p \<and> e = c)))"
proof -
  let ?d = "if pairs_only (Split d ''/'') then d @ ''/'' else d"
  have "2 < length (p # c # Split d ''/'')" using Split_nonempty [of "''/''" d] by (cases "Split d ''/''") simp_all
  then have "no_base (GetPrefixedDenom p c d) \<longleftrightarrow> pairs_only (Split d ''/'')"
    using assms(2) by (simp add: no_base_def Split_prefixed [OF assms])
  then have f: "GetFullDenomPath (ParseDenomTrace (GetPrefixedDenom p c d)) = GetPrefixedDenom p c ?d"
    by (simp add: full_path) (simp add: GetPrefixedDenom_def)
  have "drop (length (GetDenomPrefix p c)) (GetPrefixedDenom p c ?d) = ?d" by (simp add: GetPrefixedDenom_def GetDenomPrefix_def)
  then show ?thesis
    using assms(1) prefixed_trace [OF assms] IsValidChannelID_slash_free [OF assms(2)]
    unfolding f IsNativeDenom_def SenderChainIsSource_def by (simp add: ReceiverChainIsSource_prefixed)
qed

lemma token_returns_witness:
  "GetFullDenomPath (ParseDenomTrace (GetPrefixedDenom ''transfer'' ''channel-7'' ''uatom''))
     = GetPrefixedDenom ''transfer'' ''channel-7'' ''uatom''
   \<and> GetFullDenomPath (ParseDenomTrace (GetPrefixedDenom ''transfer'' ''channel-7'' ''gamm/channel-1''))
     = GetPrefixedDenom ''transfer'' ''channel-7'' ''gamm/channel-1/''"
proof -
  have v: "slash_free ''transfer''" "IsValidChannelID ''channel-7''" by code_simp+
  have "\<not> pairs_only (Split ''uatom'' ''/'')" "pairs_only (Split ''gamm/channel-1'' ''/'')" by code_simp+
  then show ?thesis using token_returns [OF v, of "''uatom''"] token_returns [OF v, of "''gamm/channel-1''"] by simp
qed

end
