(* ===== verification/Fee_Types.thy ===== *)
theory Fee_Types
  imports Transfer_Types
begin

text \<open>
  ICS-29, the types of the fee middleware (\<open>modules/apps/29-fee/types\<close>): fees and packet fees (\<open>fee.go\<close>), the
  incentivized acknowledgement (\<open>ack.go\<close>), the store keys and their parsers (\<open>keys.go\<close>), the messages
  (\<open>msgs.go\<close>) and the genesis state (\<open>genesis.go\<close>). Coins and addresses come from the SDK (\<open>tlib\<close>), the JSON
  encoding of the channel version and of the acknowledgement from the codec (\<open>flib\<close>). The lemmas: every
  key parses back to what it was built from, keys of different families differ, and the keys under
  the prefix of a channel are those of all channels whose identifier extends it.
\<close>

section \<open>Fees\<close>

record Fee =
  RecvFee :: "Coin list"
  AckFee :: "Coin list"
  TimeoutFee :: "Coin list"

record PacketFee =
  pf_Fee :: Fee
  pf_RefundAddress :: string
  pf_Relayers :: "string list"

record IdentifiedPacketFees =
  if_PacketId :: PacketId
  if_PacketFees :: "PacketFee list"

definition NewPacketFee :: "Fee \<Rightarrow> string \<Rightarrow> string list \<Rightarrow> PacketFee" where
  "NewPacketFee fee refundAddr relayers = \<lparr>pf_Fee = fee, pf_RefundAddress = refundAddr, pf_Relayers = relayers\<rparr>"

definition NewIdentifiedPacketFees :: "PacketId \<Rightarrow> PacketFee list \<Rightarrow> IdentifiedPacketFees" where
  "NewIdentifiedPacketFees packetID packetFees = \<lparr>if_PacketId = packetID, if_PacketFees = packetFees\<rparr>"

definition NewFee :: "Coin list \<Rightarrow> Coin list \<Rightarrow> Coin list \<Rightarrow> Fee" where
  "NewFee recvFee ackFee timeoutFee = \<lparr>RecvFee = recvFee, AckFee = ackFee, TimeoutFee = timeoutFee\<rparr>"

text \<open>\<open>Coins.Add\<close> panics when an amount exceeds 256 bits.\<close>

definition Fee_Total :: "tlib \<Rightarrow> Fee \<Rightarrow> Coin list result" where
  "Fee_Total sdk f = and_then (Coins_Add sdk (RecvFee f) (AckFee f)) (\<lambda>cs. Coins_Add sdk cs (TimeoutFee f))"

definition Coins_IsZero :: "Coin list \<Rightarrow> bool" where
  "Coins_IsZero cs = list_all (\<lambda>c. Amount c = 0) cs"

definition Fee_Validate :: "tlib \<Rightarrow> Fee \<Rightarrow> unit result" where
  "Fee_Validate sdk f =
     (if \<not> (Coins_Validate sdk (AckFee f) \<and> Coins_Validate sdk (RecvFee f) \<and> Coins_Validate sdk (TimeoutFee f))
      then Inl ibcerrors_ErrInvalidCoins
      else if Coins_IsZero (AckFee f) \<and> Coins_IsZero (RecvFee f) \<and> Coins_IsZero (TimeoutFee f)
      then Inl ibcerrors_ErrInvalidCoins
      else Inr ())"

text \<open>An address is parsed for its errors only.\<close>

definition check_address :: "tlib \<Rightarrow> string \<Rightarrow> unit result" where
  "check_address sdk a = (if AccAddressFromBech32 sdk a = None then Inl (ErrForeign ''bech32'') else Inr ())"

definition PacketFee_Validate :: "tlib \<Rightarrow> PacketFee \<Rightarrow> unit result" where
  "PacketFee_Validate sdk p =
     and_then (check_address sdk (pf_RefundAddress p)) (\<lambda>_.
     if pf_Relayers p \<noteq> [] then Inl fee_ErrRelayersNotEmpty else Fee_Validate sdk (pf_Fee p))"

section \<open>Versions and acknowledgements\<close>

record Metadata =
  FeeVersion :: string
  AppVersion :: string

record IncentivizedAcknowledgement =
  AppAcknowledgement :: bytes
  ForwardRelayerAddress :: string
  UnderlyingAppSuccess :: bool

record flib =
  fl_sdk :: tlib
  MarshalMetadata :: "Metadata \<Rightarrow> string result"
  UnmarshalMetadata :: "string \<Rightarrow> Metadata result"
  MarshalIncentivizedAck :: "IncentivizedAcknowledgement \<Rightarrow> bytes"
  UnmarshalIncentivizedAck :: "bytes \<Rightarrow> IncentivizedAcknowledgement result"

definition NewIncentivizedAcknowledgement :: "string \<Rightarrow> bytes \<Rightarrow> bool \<Rightarrow> IncentivizedAcknowledgement" where
  "NewIncentivizedAcknowledgement relayer ack success =
     \<lparr>AppAcknowledgement = ack, ForwardRelayerAddress = relayer, UnderlyingAppSuccess = success\<rparr>"

definition IncentivizedAcknowledgement_Success :: "IncentivizedAcknowledgement \<Rightarrow> bool" where
  "IncentivizedAcknowledgement_Success ack = UnderlyingAppSuccess ack"

definition IncentivizedAcknowledgement_Acknowledgement :: "flib \<Rightarrow> IncentivizedAcknowledgement \<Rightarrow> bytes" where
  "IncentivizedAcknowledgement_Acknowledgement fl ack = MarshalIncentivizedAck fl ack"

section \<open>Keys\<close>

abbreviation fee_ModuleName :: string where "fee_ModuleName \<equiv> ''feeibc''"
abbreviation fee_Version :: string where "fee_Version \<equiv> ''ics29-1''"
abbreviation FeeEnabledKeyPrefix :: string where "FeeEnabledKeyPrefix \<equiv> ''feeEnabled''"
abbreviation PayeeKeyPrefix :: string where "PayeeKeyPrefix \<equiv> ''payee''"
abbreviation CounterpartyPayeeKeyPrefix :: string where "CounterpartyPayeeKeyPrefix \<equiv> ''counterpartyPayee''"
abbreviation FeesInEscrowPrefix :: string where "FeesInEscrowPrefix \<equiv> ''feesInEscrow''"
abbreviation ForwardRelayerPrefix :: string where "ForwardRelayerPrefix \<equiv> ''forwardRelayer''"

definition KeyLocked :: string where
  "KeyLocked = ''locked''"

definition KeyFeeEnabled :: "string \<Rightarrow> string \<Rightarrow> string" where
  "KeyFeeEnabled portID channelID = FeeEnabledKeyPrefix @ ''/'' @ portID @ ''/'' @ channelID"

definition ParseKeyFeeEnabled :: "string \<Rightarrow> (string \<times> string) result" where
  "ParseKeyFeeEnabled key =
     (let keySplit = Split key ''/'' in
      if length keySplit \<noteq> 3 then Inl ibcerrors_ErrLogic
      else if keySplit ! 0 \<noteq> FeeEnabledKeyPrefix then Inl ibcerrors_ErrLogic
      else Inr (keySplit ! 1, keySplit ! 2))"

definition KeyPayee :: "string \<Rightarrow> string \<Rightarrow> string" where
  "KeyPayee relayerAddr channelID = PayeeKeyPrefix @ ''/'' @ relayerAddr @ ''/'' @ channelID"

definition ParseKeyPayeeAddress :: "string \<Rightarrow> (string \<times> string) result" where
  "ParseKeyPayeeAddress key =
     (let keySplit = Split key ''/'' in
      if length keySplit \<noteq> 3 then Inl ibcerrors_ErrLogic else Inr (keySplit ! 1, keySplit ! 2))"

definition KeyCounterpartyPayee :: "string \<Rightarrow> string \<Rightarrow> string" where
  "KeyCounterpartyPayee address channelID = CounterpartyPayeeKeyPrefix @ ''/'' @ address @ ''/'' @ channelID"

definition ParseKeyCounterpartyPayee :: "string \<Rightarrow> (string \<times> string) result" where
  "ParseKeyCounterpartyPayee key =
     (let keySplit = Split key ''/'' in
      if length keySplit \<noteq> 3 then Inl ibcerrors_ErrLogic else Inr (keySplit ! 1, keySplit ! 2))"

definition KeyRelayerAddressForAsyncAck :: "PacketId \<Rightarrow> string" where
  "KeyRelayerAddressForAsyncAck p =
     ForwardRelayerPrefix @ ''/'' @ pid_PortId p @ ''/'' @ pid_ChannelId p @ ''/'' @ dec (pid_Sequence p)"

definition ParseKeyRelayerAddressForAsyncAck :: "string \<Rightarrow> PacketId result" where
  "ParseKeyRelayerAddressForAsyncAck key =
     (let keySplit = Split key ''/'' in
      if length keySplit \<noteq> 4 then Inl ibcerrors_ErrLogic
      else case ParseUint (keySplit ! 3) of
        None \<Rightarrow> Inl (ErrForeign ''strconv'')
      | Some seq \<Rightarrow> Inr \<lparr>pid_PortId = keySplit ! 1, pid_ChannelId = keySplit ! 2, pid_Sequence = seq\<rparr>)"

definition KeyFeesInEscrowChannelPrefix :: "string \<Rightarrow> string \<Rightarrow> string" where
  "KeyFeesInEscrowChannelPrefix portID channelID = FeesInEscrowPrefix @ ''/'' @ portID @ ''/'' @ channelID"

definition KeyFeesInEscrow :: "PacketId \<Rightarrow> string" where
  "KeyFeesInEscrow p = KeyFeesInEscrowChannelPrefix (pid_PortId p) (pid_ChannelId p) @ ''/'' @ dec (pid_Sequence p)"

definition ParseKeyFeesInEscrow :: "string \<Rightarrow> PacketId result" where
  "ParseKeyFeesInEscrow key =
     (let keySplit = Split key ''/'' in
      if length keySplit \<noteq> 4 then Inl ibcerrors_ErrLogic
      else case ParseUint (keySplit ! 3) of
        None \<Rightarrow> Inl (ErrForeign ''strconv'')
      | Some seq \<Rightarrow> Inr \<lparr>pid_PortId = keySplit ! 1, pid_ChannelId = keySplit ! 2, pid_Sequence = seq\<rparr>)"

section \<open>Messages\<close>

record MsgRegisterPayee =
  rgp_PortId :: string
  rgp_ChannelId :: string
  rgp_Relayer :: string
  rgp_Payee :: string

definition MsgRegisterPayee_ValidateBasic :: "tlib \<Rightarrow> MsgRegisterPayee \<Rightarrow> unit result" where
  "MsgRegisterPayee_ValidateBasic sdk msg =
     and_then (PortIdentifierValidator (rgp_PortId msg)) (\<lambda>_.
     and_then (ChannelIdentifierValidator (rgp_ChannelId msg)) (\<lambda>_.
     if rgp_Relayer msg = rgp_Payee msg then Inl ibcerrors_ErrInvalidRequest
     else and_then (check_address sdk (rgp_Relayer msg)) (\<lambda>_. check_address sdk (rgp_Payee msg))))"

definition MsgRegisterPayee_GetSigners :: "tlib \<Rightarrow> MsgRegisterPayee \<Rightarrow> bytes list result" where
  "MsgRegisterPayee_GetSigners sdk msg = GetSigners (AccAddressFromBech32 sdk) (rgp_Relayer msg)"

record MsgRegisterCounterpartyPayee =
  rcp_PortId :: string
  rcp_ChannelId :: string
  rcp_Relayer :: string
  rcp_CounterpartyPayee :: string

definition MsgRegisterCounterpartyPayee_ValidateBasic :: "tlib \<Rightarrow> MsgRegisterCounterpartyPayee \<Rightarrow> unit result" where
  "MsgRegisterCounterpartyPayee_ValidateBasic sdk msg =
     and_then (PortIdentifierValidator (rcp_PortId msg)) (\<lambda>_.
     and_then (ChannelIdentifierValidator (rcp_ChannelId msg)) (\<lambda>_.
     and_then (check_address sdk (rcp_Relayer msg)) (\<lambda>_.
     if is_blank (rcp_CounterpartyPayee msg) then Inl fee_ErrCounterpartyPayeeEmpty else Inr ())))"

definition MsgRegisterCounterpartyPayee_GetSigners :: "tlib \<Rightarrow> MsgRegisterCounterpartyPayee \<Rightarrow> bytes list result" where
  "MsgRegisterCounterpartyPayee_GetSigners sdk msg = GetSigners (AccAddressFromBech32 sdk) (rcp_Relayer msg)"

record MsgPayPacketFee =
  ppf_Fee :: Fee
  ppf_SourcePortId :: string
  ppf_SourceChannelId :: string
  ppf_Signer :: string
  ppf_Relayers :: "string list"

definition MsgPayPacketFee_ValidateBasic :: "tlib \<Rightarrow> MsgPayPacketFee \<Rightarrow> unit result" where
  "MsgPayPacketFee_ValidateBasic sdk msg =
     and_then (ChannelIdentifierValidator (ppf_SourceChannelId msg)) (\<lambda>_.
     and_then (PortIdentifierValidator (ppf_SourcePortId msg)) (\<lambda>_.
     and_then (check_address sdk (ppf_Signer msg)) (\<lambda>_.
     if ppf_Relayers msg \<noteq> [] then Inl fee_ErrRelayersNotEmpty else Fee_Validate sdk (ppf_Fee msg))))"

definition MsgPayPacketFee_GetSigners :: "tlib \<Rightarrow> MsgPayPacketFee \<Rightarrow> bytes list result" where
  "MsgPayPacketFee_GetSigners sdk msg = GetSigners (AccAddressFromBech32 sdk) (ppf_Signer msg)"

record MsgPayPacketFeeAsync =
  ppa_PacketId :: PacketId
  ppa_PacketFee :: PacketFee

definition MsgPayPacketFeeAsync_ValidateBasic :: "tlib \<Rightarrow> MsgPayPacketFeeAsync \<Rightarrow> unit result" where
  "MsgPayPacketFeeAsync_ValidateBasic sdk msg =
     and_then (PacketId_Validate (ppa_PacketId msg)) (\<lambda>_. PacketFee_Validate sdk (ppa_PacketFee msg))"

definition MsgPayPacketFeeAsync_GetSigners :: "tlib \<Rightarrow> MsgPayPacketFeeAsync \<Rightarrow> bytes list result" where
  "MsgPayPacketFeeAsync_GetSigners sdk msg = GetSigners (AccAddressFromBech32 sdk) (pf_RefundAddress (ppa_PacketFee msg))"

section \<open>Genesis\<close>

record FeeEnabledChannel =
  fec_PortId :: string
  fec_ChannelId :: string

record RegisteredPayee =
  rp_ChannelId :: string
  rp_Relayer :: string
  rp_Payee :: string

record RegisteredCounterpartyPayee =
  rc_ChannelId :: string
  rc_Relayer :: string
  rc_CounterpartyPayee :: string

record ForwardRelayerAddr =
  fr_Address :: string
  fr_PacketId :: PacketId

record fee_GenesisState =
  fg_IdentifiedFees :: "IdentifiedPacketFees list"
  fg_FeeEnabledChannels :: "FeeEnabledChannel list"
  fg_RegisteredPayees :: "RegisteredPayee list"
  fg_RegisteredCounterpartyPayees :: "RegisteredCounterpartyPayee list"
  fg_ForwardRelayers :: "ForwardRelayerAddr list"

definition fee_DefaultGenesisState :: fee_GenesisState where
  "fee_DefaultGenesisState =
     \<lparr>fg_IdentifiedFees = [], fg_FeeEnabledChannels = [], fg_RegisteredPayees = [], fg_RegisteredCounterpartyPayees = [],
      fg_ForwardRelayers = []\<rparr>"

text \<open>A loop that stops at the first error.\<close>

fun for_each :: "('a \<Rightarrow> unit result) \<Rightarrow> 'a list \<Rightarrow> unit result" where
  "for_each f [] = Inr ()"
| "for_each f (x # xs) = and_then (f x) (\<lambda>_. for_each f xs)"

definition fee_GenesisState_Validate :: "tlib \<Rightarrow> fee_GenesisState \<Rightarrow> unit result" where
  "fee_GenesisState_Validate sdk gs =
     and_then (for_each (\<lambda>i. and_then (PacketId_Validate (if_PacketId i)) (\<lambda>_. for_each (PacketFee_Validate sdk) (if_PacketFees i)))
       (fg_IdentifiedFees gs)) (\<lambda>_.
     and_then (for_each (\<lambda>c. and_then (PortIdentifierValidator (fec_PortId c)) (\<lambda>_. ChannelIdentifierValidator (fec_ChannelId c)))
       (fg_FeeEnabledChannels gs)) (\<lambda>_.
     and_then (for_each (\<lambda>r. if rp_Relayer r = rp_Payee r then Inl ibcerrors_ErrInvalidAddress
         else and_then (check_address sdk (rp_Relayer r)) (\<lambda>_. and_then (check_address sdk (rp_Payee r)) (\<lambda>_.
           ChannelIdentifierValidator (rp_ChannelId r))))
       (fg_RegisteredPayees gs)) (\<lambda>_.
     and_then (for_each (\<lambda>r. and_then (check_address sdk (rc_Relayer r)) (\<lambda>_.
         if is_blank (rc_CounterpartyPayee r) then Inl fee_ErrCounterpartyPayeeEmpty else ChannelIdentifierValidator (rc_ChannelId r)))
       (fg_RegisteredCounterpartyPayees gs)) (\<lambda>_.
     for_each (\<lambda>r. and_then (check_address sdk (fr_Address r)) (\<lambda>_. PacketId_Validate (fr_PacketId r))) (fg_ForwardRelayers gs)))))"

lemma for_each_ok: "for_each f xs = Inr () \<longleftrightarrow> (\<forall>x\<in>set xs. f x = Inr ())"
  by (induction xs) auto

section \<open>Keys parse back\<close>

lemma Split_three: "slash_free a \<Longrightarrow> slash_free b \<Longrightarrow> slash_free c \<Longrightarrow> Split (a @ ''/'' @ b @ ''/'' @ c) ''/'' = [a, b, c]"
  by (simp add: slash_free_def Split_append Split_no_sep)

lemma Split_four:
  "slash_free a \<Longrightarrow> slash_free b \<Longrightarrow> slash_free c \<Longrightarrow> slash_free d \<Longrightarrow>
     Split (a @ ''/'' @ b @ ''/'' @ c @ ''/'' @ d) ''/'' = [a, b, c, d]"
  by (simp add: slash_free_def Split_append Split_no_sep)

lemma fee_prefixes_slash_free [simp]:
  "slash_free FeeEnabledKeyPrefix" "slash_free PayeeKeyPrefix" "slash_free CounterpartyPayeeKeyPrefix"
  "slash_free FeesInEscrowPrefix" "slash_free ForwardRelayerPrefix" "slash_free (dec n)"
  by (simp_all add: slash_free_def is_digit_def)

definition pid_slash_free :: "PacketId \<Rightarrow> bool" where
  "pid_slash_free p = (slash_free (pid_PortId p) \<and> slash_free (pid_ChannelId p))"

lemma fee_keys_parse:
  "slash_free p \<Longrightarrow> slash_free c \<Longrightarrow> ParseKeyFeeEnabled (KeyFeeEnabled p c) = Inr (p, c)"
  "slash_free r \<Longrightarrow> slash_free c \<Longrightarrow> ParseKeyPayeeAddress (KeyPayee r c) = Inr (r, c)"
  "slash_free r \<Longrightarrow> slash_free c \<Longrightarrow> ParseKeyCounterpartyPayee (KeyCounterpartyPayee r c) = Inr (r, c)"
  "pid_slash_free i \<Longrightarrow> ParseKeyRelayerAddressForAsyncAck (KeyRelayerAddressForAsyncAck i) = Inr i"
  "pid_slash_free i \<Longrightarrow> ParseKeyFeesInEscrow (KeyFeesInEscrow i) = Inr i"
  unfolding ParseKeyFeeEnabled_def KeyFeeEnabled_def ParseKeyPayeeAddress_def KeyPayee_def ParseKeyCounterpartyPayee_def
    KeyCounterpartyPayee_def ParseKeyRelayerAddressForAsyncAck_def KeyRelayerAddressForAsyncAck_def ParseKeyFeesInEscrow_def
    KeyFeesInEscrow_def KeyFeesInEscrowChannelPrefix_def pid_slash_free_def Let_def append_assoc
  by (simp_all only: Split_three Split_four fee_prefixes_slash_free) simp_all

text \<open>The families differ in their first segment, in fact within the first five characters.\<close>

definition fee_family :: "string \<Rightarrow> string" where
  "fee_family k = take 5 k"

lemma fee_family_simps [simp]:
  "fee_family (KeyFeeEnabled p c) = ''feeEn''" "fee_family (KeyPayee r c) = ''payee''"
  "fee_family (KeyCounterpartyPayee r c) = ''count''" "fee_family (KeyRelayerAddressForAsyncAck i) = ''forwa''"
  "fee_family (KeyFeesInEscrow i) = ''feesI''" "fee_family KeyLocked = ''locke''"
  by (simp_all add: fee_family_def KeyFeeEnabled_def KeyPayee_def KeyCounterpartyPayee_def KeyRelayerAddressForAsyncAck_def
      KeyFeesInEscrow_def KeyFeesInEscrowChannelPrefix_def KeyLocked_def)

lemma fee_keys_inj:
  "pid_slash_free i \<Longrightarrow> pid_slash_free j \<Longrightarrow> KeyFeesInEscrow i = KeyFeesInEscrow j \<longleftrightarrow> i = j"
  by (metis fee_keys_parse(5) sum.inject(2))

text \<open>
  The prefix the keeper iterates over for a channel ends with the identifier of the channel, without a
  separator: the keys of every channel whose identifier starts with it have the prefix.
\<close>

lemma sep_prefix:
  "CHR ''/'' \<notin> set a \<Longrightarrow> CHR ''/'' \<notin> set b \<Longrightarrow> HasPrefix (b @ CHR ''/'' # s) (a @ CHR ''/'' # t) \<longleftrightarrow> a = b \<and> HasPrefix s t"
proof (induction a arbitrary: b)
  case Nil
  then show ?case by (cases b) auto
next
  case (Cons x a)
  then show ?case by (cases b) auto
qed

lemma within_segment:
  "CHR ''/'' \<notin> set a \<Longrightarrow> HasPrefix (b @ CHR ''/'' # s) a \<longleftrightarrow> HasPrefix b a"
proof (induction a arbitrary: b)
  case Nil
  then show ?case by simp
next
  case (Cons x a)
  then show ?case by (cases b) auto
qed

lemma channel_prefix_keys:
  assumes "slash_free p" "slash_free c" "pid_slash_free i"
  shows "HasPrefix (KeyFeesInEscrow i) (KeyFeesInEscrowChannelPrefix p c) \<longleftrightarrow> pid_PortId i = p \<and> HasPrefix (pid_ChannelId i) c"
proof -
  have "HasPrefix (KeyFeesInEscrow i) (KeyFeesInEscrowChannelPrefix p c) \<longleftrightarrow>
    HasPrefix (pid_PortId i @ CHR ''/'' # pid_ChannelId i @ CHR ''/'' # dec (pid_Sequence i)) (p @ CHR ''/'' # c)"
    by (simp add: KeyFeesInEscrow_def KeyFeesInEscrowChannelPrefix_def)
  also have "\<dots> \<longleftrightarrow> p = pid_PortId i \<and> HasPrefix (pid_ChannelId i) c"
    using assms by (simp add: sep_prefix within_segment slash_free_def pid_slash_free_def)
  finally show ?thesis by auto
qed

end
