(* ===== verification/Channel_Run.thy ===== *)
theory Channel_Run
  imports Packet_Keeper
begin

text \<open>
  Runs of the channel keeper: a step relation whose steps are the operations of the keeper (the two
  halves of an opening step with whatever the module's callback does in between), arbitrary activity
  of the client, connection and capability keepers, and the properties that hold along every run.
  One channel end is observed, given by its port and channel identifier (without slashes, as every
  validated identifier); the steps range over all channels.
\<close>

section \<open>What the other keepers leave alone\<close>

definition other_segs :: "string set" where
  "other_segs = {''clients'', ''connections'', ''nextConnectionSequence'', ''nextClientSequence'',
     ''connectionParams'', ''clientParams''}"

definition chan_frame :: "kvstore \<Rightarrow> kvstore \<Rightarrow> bool" where
  "chan_frame s t = (\<forall>k. first_seg k \<notin> other_segs \<longrightarrow> kv_get s k = kv_get t k)"

lemma chan_frame_refl [simp]: "chan_frame s s"
  by (simp add: chan_frame_def)

lemma chan_frame_trans: "chan_frame s t \<Longrightarrow> chan_frame t u \<Longrightarrow> chan_frame s u"
  by (simp add: chan_frame_def)

lemma chan_frame_set: "first_seg k \<in> other_segs \<Longrightarrow> chan_frame s (kv_set k v s)"
  by (auto simp: chan_frame_def kv.get_put)

lemma core_eq_frame: "core_eq s t \<Longrightarrow> chan_frame s t"
  by (auto simp: core_eq_def chan_frame_def other_segs_def)

lemma chan_frame_reads:
  assumes "chan_frame s t"
  shows "GetChannel t p c = GetChannel s p c"
    and "GetNextSequenceSend t p c = GetNextSequenceSend s p c"
    and "GetNextSequenceRecv t p c = GetNextSequenceRecv s p c"
    and "GetNextSequenceAck t p c = GetNextSequenceAck s p c"
    and "GetPacketCommitment t p c n = GetPacketCommitment s p c n"
    and "GetPacketReceipt t p c n = GetPacketReceipt s p c n"
    and "GetPacketAcknowledgement t p c n = GetPacketAcknowledgement s p c n"
    and "HasPacketAcknowledgement t p c n = HasPacketAcknowledgement s p c n"
    and "GetNextChannelSequence t = GetNextChannelSequence s"
proof -
  have eq: "kv_get t k = kv_get s k" if "first_seg k \<notin> other_segs" for k
    using assms that by (simp add: chan_frame_def)
  show "GetChannel t p c = GetChannel s p c"
    "GetNextSequenceSend t p c = GetNextSequenceSend s p c"
    "GetNextSequenceRecv t p c = GetNextSequenceRecv s p c"
    "GetNextSequenceAck t p c = GetNextSequenceAck s p c"
    "GetPacketCommitment t p c n = GetPacketCommitment s p c n"
    "GetPacketReceipt t p c n = GetPacketReceipt s p c n"
    "GetPacketAcknowledgement t p c n = GetPacketAcknowledgement s p c n"
    "HasPacketAcknowledgement t p c n = HasPacketAcknowledgement s p c n"
    "GetNextChannelSequence t = GetNextChannelSequence s"
    by (simp_all add: GetChannel_def GetNextSequenceSend_def GetNextSequenceRecv_def
        GetNextSequenceAck_def GetPacketCommitment_def GetPacketReceipt_def
        GetPacketAcknowledgement_def HasPacketAcknowledgement_def GetNextChannelSequence_def
        kv_typed_def kv_has_def eq path_simps other_segs_def)
qed

section \<open>Steps\<close>

text \<open>
  \<open>chan_step\<close> is one operation, \<open>chan_run\<close> a sequence of them. An operation that advances a counter starts
  in a state in which no counter is about to wrap around.
  The write of a new channel follows its check after a run of steps: what the module does in its
  callback.
\<close>

definition no_wrap :: "ibc \<Rightarrow> bool" where
  "no_wrap st =
     (GetNextChannelSequence (core st) \<noteq> Inr (- 1)
      \<and> (\<forall>p c. GetNextSequenceSend (core st) p c \<noteq> Some (- 1) \<and> GetNextSequenceRecv (core st) p c \<noteq> Some (- 1)
           \<and> GetNextSequenceAck (core st) p c \<noteq> Some (- 1)))"

inductive chan_step :: "lib \<Rightarrow> ibc \<Rightarrow> ibc \<Rightarrow> bool"
  and chan_run :: "lib \<Rightarrow> ibc \<Rightarrow> ibc \<Rightarrow> bool"
  for lib
where
  step_send: "no_wrap st \<Longrightarrow> SendPacket ctx k p c th tt d st = Inr (n, st') \<Longrightarrow> chan_step lib st st'"
| step_recv: "no_wrap st \<Longrightarrow> RecvPacket lib ctx k pkt pf h st = Inr st' \<Longrightarrow> chan_step lib st st'"
| step_write_ack: "WriteAcknowledgement k pkt a st = Inr st' \<Longrightarrow> chan_step lib st st'"
| step_acknowledge: "no_wrap st \<Longrightarrow> AcknowledgePacket lib ctx k pkt a pf h st = Inr st' \<Longrightarrow> chan_step lib st st'"
| step_timeout: "TimeoutPacket lib ctx pkt pf h n st = Inr st' \<Longrightarrow> chan_step lib st st'"
| step_timeout_close: "TimeoutOnClose lib ctx k pkt pf pf' h n st = Inr st' \<Longrightarrow> chan_step lib st st'"
| step_timeout_executed: "TimeoutExecuted k pkt st = Inr st' \<Longrightarrow> chan_step lib st st'"
| step_open_init: "no_wrap st \<Longrightarrow> ChanOpenInit ctx addr ord hops p k cp v st = Inr (i, k', st1) \<Longrightarrow> chan_run lib st1 st2 \<Longrightarrow>
    chan_step lib st (st2\<lparr>core := WriteOpenInitChannel p i ord hops cp v' (core st2)\<rparr>)"
| step_open_try: "no_wrap st \<Longrightarrow> ChanOpenTry lib ctx addr ord hops p k cp v pf h st = Inr (i, k', st1) \<Longrightarrow> chan_run lib st1 st2 \<Longrightarrow>
    chan_step lib st (st2\<lparr>core := WriteOpenTryChannel p i ord hops cp v' (core st2)\<rparr>)"
| step_open_ack: "ChanOpenAck lib ctx p c k v i pf h st = Inr st1 \<Longrightarrow> WriteOpenAckChannel p c v i (core st1) = Inr s \<Longrightarrow>
    chan_step lib st (st1\<lparr>core := s\<rparr>)"
| step_open_confirm: "ChanOpenConfirm lib ctx p c k pf h st = Inr st1 \<Longrightarrow> WriteOpenConfirmChannel p c (core st1) = Inr s \<Longrightarrow>
    chan_step lib st (st1\<lparr>core := s\<rparr>)"
| step_close_init: "ChanCloseInit ctx p c k st = Inr st' \<Longrightarrow> chan_step lib st st'"
| step_close_confirm: "ChanCloseConfirm lib ctx p c k pf h st = Inr st' \<Longrightarrow> chan_step lib st st'"
| step_others: "chan_frame (core st) (core st') \<Longrightarrow> chan_step lib st st'"
| run_refl: "chan_run lib st st"
| run_next: "chan_run lib st st' \<Longrightarrow> chan_step lib st' st'' \<Longrightarrow> chan_run lib st st''"

section \<open>How an observed channel end develops\<close>

fun state_rank :: "State \<Rightarrow> nat" where
  "state_rank OPEN = 1"
| "state_rank CLOSED = 2"
| "state_rank _ = 0"

text \<open>
  The ordering, the connection and the port of the counterparty never change; a change moves the state
  forward, and only the move from INIT to OPEN may set the version and the counterparty's channel.
\<close>

definition chan_allowed :: "Channel \<Rightarrow> Channel \<Rightarrow> bool" where
  "chan_allowed a b =
     (ch_Ordering b = ch_Ordering a \<and> ch_ConnectionHops b = ch_ConnectionHops a
      \<and> PortId (ch_Counterparty b) = PortId (ch_Counterparty a)
      \<and> (b = a \<or> state_rank (ch_State a) < state_rank (ch_State b))
      \<and> (ch_State a \<noteq> INIT \<longrightarrow> ch_Counterparty b = ch_Counterparty a \<and> ch_Version b = ch_Version a))"

lemma chan_allowed_refl [simp]: "chan_allowed a a"
  by (simp add: chan_allowed_def)

lemma chan_allowed_trans: "chan_allowed a b \<Longrightarrow> chan_allowed b c \<Longrightarrow> chan_allowed a c"
  by (cases "ch_State a"; cases "ch_State b") (auto simp: chan_allowed_def)

lemma chan_allowed_closed: "chan_allowed a b \<Longrightarrow> ch_State a = CLOSED \<Longrightarrow> b = a"
  by (cases "ch_State b") (auto simp: chan_allowed_def)

lemma chan_allowed_writes:
  "chan_allowed a (a\<lparr>ch_State := CLOSED\<rparr>)"
  "ch_State a = TRYOPEN \<Longrightarrow> chan_allowed a (a\<lparr>ch_State := OPEN\<rparr>)"
  "ch_State a = INIT \<Longrightarrow> chan_allowed a (a\<lparr>ch_State := OPEN, ch_Version := v,
     ch_Counterparty := (ch_Counterparty a)\<lparr>ChannelId := i\<rparr>\<rparr>)"
  by (cases a; cases "ch_State a"; simp add: chan_allowed_def)+

definition seq_le :: "u64 option \<Rightarrow> u64 option \<Rightarrow> bool" where
  "seq_le x y = (\<exists>a b. x = Some a \<and> y = Some b \<and> a \<le> b)"

lemma seq_le_trans: "seq_le x y \<Longrightarrow> seq_le y z \<Longrightarrow> seq_le x z"
  by (auto simp: seq_le_def)

definition packets_evolve :: "string \<Rightarrow> string \<Rightarrow> kvstore \<Rightarrow> kvstore \<Rightarrow> bool" where
  "packets_evolve p c s t =
     (seq_le (GetNextSequenceSend s p c) (GetNextSequenceSend t p c)
      \<and> seq_le (GetNextSequenceRecv s p c) (GetNextSequenceRecv t p c)
      \<and> seq_le (GetNextSequenceAck s p c) (GetNextSequenceAck t p c)
      \<and> (\<forall>k. GetPacketReceipt s p c k \<noteq> None \<longrightarrow> GetPacketReceipt t p c k \<noteq> None)
      \<and> (\<forall>k. HasPacketAcknowledgement s p c k \<longrightarrow> HasPacketAcknowledgement t p c k
           \<and> GetPacketAcknowledgement t p c k = GetPacketAcknowledgement s p c k)
      \<and> (\<forall>k. GetPacketCommitment t p c k = GetPacketCommitment s p c k \<or> GetPacketCommitment t p c k = []
           \<or> (\<exists>a. GetNextSequenceSend s p c = Some a \<and> a \<le> k)))"

definition chan_inv :: "string \<Rightarrow> string \<Rightarrow> kvstore \<Rightarrow> bool" where
  "chan_inv p c s =
     ((\<exists>n. GetNextChannelSequence s = Inr n \<and> (\<forall>m. c = FormatChannelIdentifier m \<and> n \<le> m \<longrightarrow> GetChannel s p c = None))
      \<and> (GetChannel s p c = None \<longrightarrow>
           (\<forall>k. GetPacketCommitment s p c k = [] \<and> GetPacketReceipt s p c k = None \<and> \<not> HasPacketAcknowledgement s p c k))
      \<and> (GetChannel s p c \<noteq> None \<longrightarrow>
           (\<exists>a. GetNextSequenceSend s p c = Some a \<and> (\<forall>k. GetPacketCommitment s p c k \<noteq> [] \<longrightarrow> k < a))
           \<and> GetNextSequenceRecv s p c \<noteq> None \<and> GetNextSequenceAck s p c \<noteq> None))"

definition evolves :: "string \<Rightarrow> string \<Rightarrow> kvstore \<Rightarrow> kvstore \<Rightarrow> bool" where
  "evolves p c s t =
     ((\<exists>a b. GetNextChannelSequence s = Inr a \<and> GetNextChannelSequence t = Inr b \<and> a \<le> b
         \<and> (\<forall>m. c = FormatChannelIdentifier m \<and> m < a \<and> GetChannel s p c = None \<longrightarrow> GetChannel t p c = None))
      \<and> (\<forall>ch. GetChannel s p c = Some ch \<longrightarrow>
           (\<exists>ch'. GetChannel t p c = Some ch' \<and> chan_allowed ch ch') \<and> packets_evolve p c s t))"

text \<open>A change that keeps the invariant of the observed channel end and develops it as allowed.\<close>

definition good :: "string \<Rightarrow> string \<Rightarrow> kvstore \<Rightarrow> kvstore \<Rightarrow> bool" where
  "good p c s t = (chan_inv p c s \<longrightarrow> chan_inv p c t \<and> evolves p c s t)"

lemma packets_evolve_trans:
  assumes st: "packets_evolve p c s t" and tu: "packets_evolve p c t u"
  shows "packets_evolve p c s u"
proof -
  have send: "seq_le (GetNextSequenceSend s p c) (GetNextSequenceSend t p c)"
    using st unfolding packets_evolve_def by blast
  have "GetPacketCommitment u p c k = GetPacketCommitment s p c k \<or> GetPacketCommitment u p c k = []
      \<or> (\<exists>a. GetNextSequenceSend s p c = Some a \<and> a \<le> k)" for k
  proof -
    have 1: "GetPacketCommitment t p c k = GetPacketCommitment s p c k \<or> GetPacketCommitment t p c k = []
        \<or> (\<exists>a. GetNextSequenceSend s p c = Some a \<and> a \<le> k)"
      using st unfolding packets_evolve_def by blast
    have 2: "GetPacketCommitment u p c k = GetPacketCommitment t p c k \<or> GetPacketCommitment u p c k = []
        \<or> (\<exists>a. GetNextSequenceSend t p c = Some a \<and> a \<le> k)"
      using tu unfolding packets_evolve_def by blast
    have "\<exists>a. GetNextSequenceSend s p c = Some a \<and> a \<le> k" if "GetNextSequenceSend t p c = Some b" "b \<le> k" for b
      using send that by (auto simp: seq_le_def intro: order.trans)
    with 1 2 show ?thesis by auto
  qed
  moreover have "seq_le (GetNextSequenceSend s p c) (GetNextSequenceSend u p c)"
    "seq_le (GetNextSequenceRecv s p c) (GetNextSequenceRecv u p c)"
    "seq_le (GetNextSequenceAck s p c) (GetNextSequenceAck u p c)"
    using assms seq_le_trans unfolding packets_evolve_def by blast+
  moreover have "\<forall>k. GetPacketReceipt s p c k \<noteq> None \<longrightarrow> GetPacketReceipt u p c k \<noteq> None"
    "\<forall>k. HasPacketAcknowledgement s p c k \<longrightarrow> HasPacketAcknowledgement u p c k
       \<and> GetPacketAcknowledgement u p c k = GetPacketAcknowledgement s p c k"
    using assms unfolding packets_evolve_def by metis+
  ultimately show ?thesis unfolding packets_evolve_def by blast
qed

lemma evolves_trans:
  assumes "evolves p c s t" and "evolves p c t u"
  shows "evolves p c s u"
proof -
  from assms obtain a b d where n: "GetNextChannelSequence s = Inr a" "GetNextChannelSequence t = Inr b"
    "GetNextChannelSequence u = Inr d" "a \<le> b" "b \<le> d"
    and u1: "\<And>m. c = FormatChannelIdentifier m \<Longrightarrow> m < a \<Longrightarrow> GetChannel s p c = None \<Longrightarrow> GetChannel t p c = None"
    and u2: "\<And>m. c = FormatChannelIdentifier m \<Longrightarrow> m < b \<Longrightarrow> GetChannel t p c = None \<Longrightarrow> GetChannel u p c = None"
    unfolding evolves_def by auto
  have "GetChannel u p c = None" if "c = FormatChannelIdentifier m" "m < a" "GetChannel s p c = None" for m
    using u2 [OF that(1) order.strict_trans2 [OF that(2) n(4)] u1 [OF that]] .
  moreover have "(\<exists>ch'. GetChannel u p c = Some ch' \<and> chan_allowed ch ch') \<and> packets_evolve p c s u"
    if s: "GetChannel s p c = Some ch" for ch
  proof -
    from assms(1) s obtain x where x: "GetChannel t p c = Some x" "chan_allowed ch x" "packets_evolve p c s t"
      unfolding evolves_def by blast
    from assms(2) x(1) obtain y where "GetChannel u p c = Some y" "chan_allowed x y" "packets_evolve p c t u"
      unfolding evolves_def by blast
    then show ?thesis using chan_allowed_trans [OF x(2)] packets_evolve_trans [OF x(3)] by blast
  qed
  moreover have "a \<le> d" using n(4,5) by (rule order.trans)
  ultimately show ?thesis unfolding evolves_def using n(1,3) by blast
qed

lemma good_trans: "good p c s t \<Longrightarrow> good p c t u \<Longrightarrow> good p c s u"
  unfolding good_def using evolves_trans by blast

section \<open>Reads of the observed end after a write\<close>

lemma HasPacketAcknowledgement_write:
  "slash_free p \<Longrightarrow> slash_free c \<Longrightarrow>
   HasPacketAcknowledgement (kv_set (PacketAcknowledgementPath q d k) v s) p c j \<longleftrightarrow>
     q = p \<and> d = c \<and> k = j \<or> HasPacketAcknowledgement s p c j"
  using pkt_path_inj(3) [of p c j q d k] by (auto simp: HasPacketAcknowledgement_def kv_has_def kv.get_put)

lemma HasPacketAcknowledgement_other [store_simps]:
  "first_seg k \<noteq> ''acks'' \<Longrightarrow> HasPacketAcknowledgement (kv_set k v s) p c j = HasPacketAcknowledgement s p c j"
  "first_seg k \<noteq> ''acks'' \<Longrightarrow> HasPacketAcknowledgement (kv_delete k s) p c j = HasPacketAcknowledgement s p c j"
  by (simp_all add: HasPacketAcknowledgement_def store_simps path_simps)

lemma GetNextChannelSequence_write [store_simps]:
  "GetNextChannelSequence (kv_set ''nextChannelSequence'' (Uint64Bz n) s) = Inr n"
  "first_seg k \<noteq> ''nextChannelSequence'' \<Longrightarrow> GetNextChannelSequence (kv_set k v s) = GetNextChannelSequence s"
  "first_seg k \<noteq> ''nextChannelSequence'' \<Longrightarrow> GetNextChannelSequence (kv_delete k s) = GetNextChannelSequence s"
  by (simp_all add: GetNextChannelSequence_def store_simps path_simps)

lemmas view_rules = set_defs store_simps path_simps write_ids HasPacketAcknowledgement_write

lemma same_good:
  assumes "GetChannel t p c = GetChannel s p c" "GetNextChannelSequence t = GetNextChannelSequence s"
    "GetNextSequenceSend t p c = GetNextSequenceSend s p c" "GetNextSequenceRecv t p c = GetNextSequenceRecv s p c"
    "GetNextSequenceAck t p c = GetNextSequenceAck s p c" "\<And>k. GetPacketCommitment t p c k = GetPacketCommitment s p c k"
    "\<And>k. GetPacketReceipt t p c k = GetPacketReceipt s p c k"
    "\<And>k. HasPacketAcknowledgement t p c k = HasPacketAcknowledgement s p c k"
    "\<And>k. GetPacketAcknowledgement t p c k = GetPacketAcknowledgement s p c k"
  shows "good p c s t"
  unfolding good_def chan_inv_def evolves_def packets_evolve_def seq_le_def assms by auto

lemma frame_good: "chan_frame s t \<Longrightarrow> good p c s t"
  by (rule same_good) (simp_all add: chan_frame_reads)

lemma delete_good:
  assumes "slash_free p" and "slash_free c"
  shows "good p c s (deletePacketCommitment q d k s)"
  using assms unfolding good_def chan_inv_def evolves_def packets_evolve_def seq_le_def
  by (auto simp: view_rules)

lemma receipt_good:
  assumes "slash_free p" and "slash_free c" and "GetChannel s q d \<noteq> None"
  shows "good p c s (SetPacketReceipt q d k s)"
  using assms unfolding good_def chan_inv_def evolves_def packets_evolve_def seq_le_def
  by (auto simp: view_rules)

lemma write_ack_good:
  assumes "slash_free p" and "slash_free c" and "GetChannel s q d \<noteq> None" and "\<not> HasPacketAcknowledgement s q d k"
  shows "good p c s (SetPacketAcknowledgement q d k x s)"
  using assms unfolding good_def chan_inv_def evolves_def packets_evolve_def seq_le_def
  by (auto simp: view_rules)

lemma recv_good:
  assumes "slash_free p" and "slash_free c" and "GetNextSequenceRecv s q d = Some n" and "n \<noteq> - 1"
  shows "good p c s (SetNextSequenceRecv q d (n + 1) s)"
  using assms u64_less_succ [OF assms(4)] unfolding good_def chan_inv_def evolves_def packets_evolve_def seq_le_def
  by (auto simp: view_rules)

lemma ack_good:
  assumes "slash_free p" and "slash_free c" and "GetNextSequenceAck s q d = Some n" and "n \<noteq> - 1"
  shows "good p c s (SetNextSequenceAck q d (n + 1) s)"
  using assms u64_less_succ [OF assms(4)] unfolding good_def chan_inv_def evolves_def packets_evolve_def seq_le_def
  by (auto simp: view_rules)

lemma channel_good:
  assumes "slash_free p" and "slash_free c" and "GetChannel s q d = Some ch" and "chan_allowed ch ch'"
  shows "good p c s (SetChannel q d ch' s)"
  using assms unfolding good_def chan_inv_def evolves_def packets_evolve_def seq_le_def
  by (auto simp: view_rules)

lemma counter_good:
  assumes "GetNextChannelSequence s = Inr n" and "n \<noteq> - 1"
  shows "good p c s (SetNextChannelSequence (n + 1) s)"
  using assms u64_less_succ [OF assms(2)] unfolding good_def chan_inv_def evolves_def packets_evolve_def seq_le_def
  by (auto simp: view_rules)

lemma send_good:
  assumes "slash_free p" and "slash_free c" and "GetNextSequenceSend s q d = Some n" and "n \<noteq> - 1"
    and "GetChannel s q d \<noteq> None"
  shows "good p c s (SetPacketCommitment q d n x (SetNextSequenceSend q d (n + 1) s))"
  using assms u64_less_succ [OF assms(4)] unfolding good_def chan_inv_def evolves_def packets_evolve_def seq_le_def
  by (auto simp: view_rules)

section \<open>Every step is good\<close>

text \<open>The write of a new channel, after the callback.\<close>

definition channel_written :: "string \<Rightarrow> string \<Rightarrow> Channel \<Rightarrow> kvstore \<Rightarrow> kvstore \<Rightarrow> bool" where
  "channel_written q d ch s t =
     (t = SetNextSequenceAck q d 1 (SetNextSequenceRecv q d 1 (SetNextSequenceSend q d 1 (SetChannel q d ch s)))
      \<or> t = SetChannel q d ch (SetNextSequenceAck q d 1 (SetNextSequenceRecv q d 1 (SetNextSequenceSend q d 1 s))))"

lemma channel_written_reads:
  assumes "channel_written q d ch s t" and "slash_free p" and "slash_free c"
  shows "GetChannel t p c = (if q = p \<and> d = c then Some ch else GetChannel s p c)"
    and "GetNextSequenceSend t p c = (if q = p \<and> d = c then Some 1 else GetNextSequenceSend s p c)"
    and "GetNextSequenceRecv t p c = (if q = p \<and> d = c then Some 1 else GetNextSequenceRecv s p c)"
    and "GetNextSequenceAck t p c = (if q = p \<and> d = c then Some 1 else GetNextSequenceAck s p c)"
    and "GetPacketCommitment t p c k = GetPacketCommitment s p c k"
    and "GetPacketReceipt t p c k = GetPacketReceipt s p c k"
    and "HasPacketAcknowledgement t p c k = HasPacketAcknowledgement s p c k"
    and "GetPacketAcknowledgement t p c k = GetPacketAcknowledgement s p c k"
    and "GetNextChannelSequence t = GetNextChannelSequence s"
  using assms unfolding channel_written_def by (auto simp: view_rules)

lemma open_good:
  assumes sf: "slash_free p" "slash_free c" and n: "GetNextChannelSequence s = Inr n" "n \<noteq> - 1"
    and s1: "chan_frame (SetNextChannelSequence (n + 1) s) s1" and run: "good p c s1 s2"
    and t: "channel_written q (FormatChannelIdentifier n) ch s2 t"
  shows "good p c s t"
  unfolding good_def
proof
  assume inv: "chan_inv p c s"
  have inc: "chan_inv p c s1 \<and> evolves p c s s1"
    using good_trans [OF counter_good [OF n] frame_good [OF s1]] inv by (simp add: good_def)
  with run have inv2: "chan_inv p c s2" and ev2: "evolves p c s1 s2" by (simp_all add: good_def)
  have ev: "evolves p c s s2" by (rule evolves_trans [OF conjunct2 [OF inc] ev2])
  note r = channel_written_reads [OF t sf]
  have n1: "GetNextChannelSequence s1 = Inr (n + 1)" "GetChannel s1 p c = GetChannel s p c"
    using chan_frame_reads(1,9) [OF s1] by (simp_all add: view_rules)
  show "chan_inv p c t \<and> evolves p c s t"
  proof (cases "q = p \<and> FormatChannelIdentifier n = c")
    case False
    then have "good p c s2 t" by (intro same_good) (auto simp: r)
    with inv2 evolves_trans [OF ev] show ?thesis by (simp add: good_def)
  next
    case True
    then have old: "GetChannel s p c = None" using inv n(1) by (auto simp: chan_inv_def)
    have c2: "GetChannel s2 p c = None"
      using ev2 n1 old True u64_less_succ [OF n(2)] by (auto simp: evolves_def)
    with inv2 have "GetPacketCommitment t p c k = []" for k by (simp add: r chan_inv_def)
    moreover obtain b where b: "GetNextChannelSequence s2 = Inr b" "n + 1 \<le> b"
      using ev2 n1(1) by (auto simp: evolves_def)
    moreover have lt: "n < b" by (rule order.strict_trans2 [OF u64_less_succ [OF n(2)] b(2)])
    ultimately have "chan_inv p c t" using True by (auto simp: chan_inv_def r)
    moreover have "evolves p c s t" using True old n(1) b(1) lt by (auto simp: evolves_def r)
    ultimately show ?thesis by simp
  qed
qed

lemma no_wrapD:
  assumes "no_wrap st"
  shows "GetNextChannelSequence (core st) = Inr n \<Longrightarrow> n \<noteq> - 1"
    and "GetNextSequenceSend (core st) p c = Some n \<Longrightarrow> n \<noteq> - 1"
    and "GetNextSequenceRecv (core st) p c = Some n \<Longrightarrow> n \<noteq> - 1"
    and "GetNextSequenceAck (core st) p c = Some n \<Longrightarrow> n \<noteq> - 1"
  using assms unfolding no_wrap_def by auto

lemma step_good_cases:
  assumes sf: "slash_free p" "slash_free c"
  shows "SendPacket ctx k q d th tt bz st = Inr (n, st') \<Longrightarrow> no_wrap st \<Longrightarrow> good p c (core st) (core st')"
    and "RecvPacket lib ctx k pkt pf h st = Inr st' \<Longrightarrow> no_wrap st \<Longrightarrow> good p c (core st) (core st')"
    and "WriteAcknowledgement k pkt a st = Inr st' \<Longrightarrow> good p c (core st) (core st')"
    and "AcknowledgePacket lib ctx k pkt bz pf h st = Inr st' \<Longrightarrow> no_wrap st \<Longrightarrow> good p c (core st) (core st')"
    and "TimeoutExecuted k pkt st = Inr st' \<Longrightarrow> good p c (core st) (core st')"
proof -
  show "good p c (core st) (core st')" if "SendPacket ctx k q d th tt bz st = Inr (n, st')" "no_wrap st"
  proof -
    from SendPacket_effect [OF that(1)] obtain ch where "GetChannel (core st) q d = Some ch"
      "GetNextSequenceSend (core st) q d = Some n"
      and st': "st' = st\<lparr>core := SetPacketCommitment q d n (CommitPacket (sent_packet ch bz n q d th tt))
        (SetNextSequenceSend q d (n + 1) (core st))\<rparr>" by blast
    with send_good [OF sf, of "core st" q d n] no_wrapD(2) [OF that(2)] show ?thesis by simp
  qed
  show "good p c (core st) (core st')" if r: "RecvPacket lib ctx k pkt pf h st = Inr st'" "no_wrap st"
  proof -
    from RecvPacket_effect [OF r(1)] obtain ch s where ch:
      "GetChannel (core st) (DestinationPort pkt) (DestinationChannel pkt) = Some ch"
      and e: "core_eq (core st) s" and w: "recv_written (ch_Ordering ch) pkt (core st) s (core st')" by blast
    note f = core_eq_frame [OF e]
    show ?thesis
    proof (rule good_trans [OF frame_good [OF f]], cases "ch_Ordering ch")
      case ORDER_NONE
      with w show "good p c s (core st')" by (simp add: recv_written_def frame_good)
    next
      case UNORDERED
      with w ch show "good p c s (core st')"
        by (auto simp: recv_written_def chan_frame_reads [OF f] intro!: receipt_good [OF sf])
    next
      case ORDERED
      with w no_wrapD(3) [OF r(2)] show "good p c s (core st')"
        by (auto simp: recv_written_def chan_frame_reads [OF f] intro!: recv_good [OF sf])
    qed
  qed
  show "good p c (core st) (core st')" if "WriteAcknowledgement k pkt a st = Inr st'"
    using WriteAcknowledgement_effect [OF that] by (auto intro!: write_ack_good [OF sf])
  show "good p c (core st) (core st')" if a: "AcknowledgePacket lib ctx k pkt bz pf h st = Inr st'" "no_wrap st"
  proof -
    from AcknowledgePacket_effect [OF a(1)] obtain ch :: Channel and s t where e: "core_eq (core st) s"
      and t: "ack_written (ch_Ordering ch) pkt (core st) s t"
      and d: "core st' = deletePacketCommitment (SourcePort pkt) (SourceChannel pkt) (Sequence pkt) t" by blast
    note f = core_eq_frame [OF e]
    have "good p c s t"
      using t no_wrapD(4) [OF a(2)] chan_frame_reads(4) [OF f]
      by (cases "ch_Ordering ch = ORDERED") (auto simp: ack_written_def frame_good intro!: ack_good [OF sf])
    from good_trans [OF good_trans [OF frame_good [OF f] this] delete_good [OF sf]] show ?thesis unfolding d .
  qed
  show "good p c (core st) (core st')" if "TimeoutExecuted k pkt st = Inr st'"
  proof -
    from TimeoutExecuted_effect [OF that] obtain ch where ch: "GetChannel (core st) (SourcePort pkt) (SourceChannel pkt) = Some ch"
      and st': "core st' = (let s = deletePacketCommitment (SourcePort pkt) (SourceChannel pkt) (Sequence pkt) (core st) in
         if ch_Ordering ch = ORDERED then SetChannel (SourcePort pkt) (SourceChannel pkt) (ch\<lparr>ch_State := CLOSED\<rparr>) s else s)"
      by blast
    have "GetChannel (deletePacketCommitment (SourcePort pkt) (SourceChannel pkt) (Sequence pkt) (core st))
        (SourcePort pkt) (SourceChannel pkt) = Some ch"
      using ch by (simp add: set_defs store_simps path_simps)
    from channel_good [OF sf this chan_allowed_writes(1)] show ?thesis
      using good_trans [OF delete_good [OF sf]] delete_good [OF sf] unfolding st' Let_def by auto
  qed
qed

lemma write_good:
  assumes sf: "slash_free p" "slash_free c" and "core_eq s s1" and "GetChannel s q d = Some ch" and "chan_allowed ch ch'"
  shows "good p c s (SetChannel q d ch' s1)"
proof (rule good_trans [OF frame_good [OF core_eq_frame [OF assms(3)]]])
  have "GetChannel s1 q d = Some ch" using core_eq_reads(1) [OF assms(3)] assms(4) by simp
  then show "good p c s1 (SetChannel q d ch' s1)" using assms(5) by (rule channel_good [OF sf])
qed

lemma WriteOpen_written:
  "channel_written q d (NewChannel INIT ord cp hops v) s (WriteOpenInitChannel q d ord hops cp v s)"
  "channel_written q d (NewChannel TRYOPEN ord cp hops v) s (WriteOpenTryChannel q d ord hops cp v s)"
  by (simp_all add: channel_written_def WriteOpenInitChannel_def WriteOpenTryChannel_def)

lemma step_run_good:
  assumes sf: "slash_free p" "slash_free c"
  shows "chan_step lib st st' \<Longrightarrow> good p c (core st) (core st')"
    and "chan_run lib st st' \<Longrightarrow> good p c (core st) (core st')"
proof (induction rule: chan_step_chan_run.inducts)
  case (step_open_init st ctx addr ord hops q k cp v i k' st1 st2 v')
  from ChanOpenInit_effect [OF step_open_init(2)] obtain n where n: "GetNextChannelSequence (core st) = Inr n"
    and i: "i = FormatChannelIdentifier n" and c1: "core st1 = SetNextChannelSequence (n + 1) (core st)" by blast
  have "n \<noteq> - 1" using step_open_init(1) n by (rule no_wrapD(1))
  from open_good [OF sf n this _ step_open_init(4) WriteOpen_written(1) [of q "FormatChannelIdentifier n"]] c1 i
  show ?case by simp
next
  case (step_open_try st ctx addr ord hops q k cp v pf h i k' st1 st2 v')
  from ChanOpenTry_effect [OF step_open_try(2)] obtain n where n: "GetNextChannelSequence (core st) = Inr n"
    and i: "i = FormatChannelIdentifier n" and c1: "core_eq (SetNextChannelSequence (n + 1) (core st)) (core st1)" by blast
  have "n \<noteq> - 1" using step_open_try(1) n by (rule no_wrapD(1))
  from open_good [OF sf n this core_eq_frame [OF c1] step_open_try(4) WriteOpen_written(2) [of q "FormatChannelIdentifier n"]] i
  show ?case by simp
next
  case (step_open_ack ctx q d k v i pf h st st1 s)
  from ChanOpenAck_effect [OF step_open_ack(1)] obtain ch where ch: "GetChannel (core st) q d = Some ch"
    "ch_State ch = INIT" and e: "core_eq (core st) (core st1)" by blast
  from step_open_ack(2) ch(1) core_eq_reads(1) [OF e] show ?case
    by (auto simp: WriteOpenAckChannel_def intro!: write_good [OF sf e ch(1)] chan_allowed_writes ch)
next
  case (step_open_confirm ctx q d k pf h st st1 s)
  from ChanOpenConfirm_effect [OF step_open_confirm(1)] obtain ch where ch: "GetChannel (core st) q d = Some ch"
    "ch_State ch = TRYOPEN" and e: "core_eq (core st) (core st1)" by blast
  from step_open_confirm(2) ch(1) core_eq_reads(1) [OF e] show ?case
    by (auto simp: WriteOpenConfirmChannel_def intro!: write_good [OF sf e ch(1)] chan_allowed_writes ch)
next
  case (step_close_init ctx q d k st st')
  from ChanCloseInit_effect [OF this] show ?case by (auto intro!: channel_good [OF sf] chan_allowed_writes)
next
  case (step_close_confirm ctx q d k pf h st st')
  from ChanCloseConfirm_effect [OF this] show ?case by (auto intro!: write_good [OF sf] chan_allowed_writes)
next
  case (step_timeout ctx pkt pf h n st st')
  from TimeoutPacket_effect [OF this] show ?case by (auto intro: frame_good core_eq_frame)
next
  case (step_timeout_close ctx k pkt pf pf' h n st st')
  from TimeoutOnClose_effect [OF this] show ?case by (auto intro: frame_good core_eq_frame)
next
  case (run_next st st' st'')
  then show ?case using good_trans by blast
next
  case step_send
  then show ?case using step_good_cases(1) [OF sf] by simp
next
  case step_recv
  then show ?case using step_good_cases(2) [OF sf] by simp
next
  case step_write_ack
  then show ?case using step_good_cases(3) [OF sf] by simp
next
  case step_acknowledge
  then show ?case using step_good_cases(4) [OF sf] by simp
next
  case step_timeout_executed
  then show ?case using step_good_cases(5) [OF sf] by simp
qed (simp_all add: frame_good)

end
