(* ===== verification/Loopback.thy ===== *)
theory Loopback
  imports Channel_Run
begin

text \<open>
  Two channel ends of one chain that are connected through the sentinel connection of the localhost
  client (\<open>modules/light-clients/09-localhost\<close>, \<open>CreateSentinelLocalhostConnection\<close>): proofs are reads of
  the chain's own store, so the whole life of a packet can be followed. A packet that was sent is
  received, and its acknowledgement, once written, is accepted by the sender.
\<close>

section \<open>A chain with the localhost client\<close>

definition loop_connection :: "lib \<Rightarrow> ConnectionEnd" where
  "loop_connection lib = NewConnectionEnd CONN_OPEN LocalhostClientID
     (NewConnCounterparty LocalhostClientID LocalhostConnectionID (storeKeyName lib)) GetCompatibleVersions 0"

lemma loop_conn_sel [simp]:
  "conn_ClientId (loop_connection lib) = LocalhostClientID"
  "cp_Prefix (conn_Counterparty (loop_connection lib)) = storeKeyName lib"
  "cp_ConnectionId (conn_Counterparty (loop_connection lib)) = LocalhostConnectionID"
  "conn_State (loop_connection lib) = CONN_OPEN" "conn_DelayPeriod (loop_connection lib) = 0"
  by (simp_all add: loop_connection_def NewConnectionEnd_def NewConnCounterparty_def)

text \<open>What \<open>CreateLocalhostClient\<close> and \<open>CreateSentinelLocalhostConnection\<close> leave in the store at genesis.\<close>

definition loop_ready :: "lib \<Rightarrow> kvstore \<Rightarrow> bool" where
  "loop_ready lib s =
     (storeKeyName lib \<noteq> []
      \<and> GetConnection s LocalhostConnectionID = Some (loop_connection lib)
      \<and> (case GetClientState s LocalhostClientID of Some (LocalhostClient h) \<Rightarrow> True | _ \<Rightarrow> False)
      \<and> (case GetClientParams s of Inr ps \<Rightarrow> IsAllowedClient ps Localhost | _ \<Rightarrow> False)
      \<and> is_ok (GetConnectionParams s))"

lemma loop_ready_frame:
  assumes "loop_ready lib s" and "\<And>k. first_seg k \<in> {''connections'', ''clients'', ''clientParams'', ''connectionParams''} \<Longrightarrow> kv_get t k = kv_get s k"
  shows "loop_ready lib t"
proof -
  have "GetConnection t LocalhostConnectionID = GetConnection s LocalhostConnectionID"
    "GetClientState t LocalhostClientID = GetClientState s LocalhostClientID"
    "GetClientParams t = GetClientParams s" "GetConnectionParams t = GetConnectionParams s"
    by (simp_all add: GetConnection_def GetClientState_def GetClientParams_def GetConnectionParams_def kv_typed_def
        assms(2) path_simps)
  with assms(1) show ?thesis by (simp add: loop_ready_def)
qed

lemma loop_ready_write [store_simps]:
  assumes "first_seg k \<notin> {''connections'', ''clients'', ''clientParams'', ''connectionParams''}"
  shows "loop_ready lib s \<Longrightarrow> loop_ready lib (kv_set k v s)" and "loop_ready lib s \<Longrightarrow> loop_ready lib (kv_delete k s)"
proof -
  have same: "kv_get (kv_set k v s) j = kv_get s j" "kv_get (kv_delete k s) j = kv_get s j"
    if "first_seg j \<in> {''connections'', ''clients'', ''clientParams'', ''connectionParams''}" for j
  proof -
    have "k \<noteq> j" using assms that by blast
    then show "kv_get (kv_set k v s) j = kv_get s j" "kv_get (kv_delete k s) j = kv_get s j"
      by (simp_all add: kv.get_put kv.get_del)
  qed
  show "loop_ready lib s \<Longrightarrow> loop_ready lib (kv_set k v s)" by (erule loop_ready_frame) (rule same(1))
  show "loop_ready lib s \<Longrightarrow> loop_ready lib (kv_delete k s)" by (erule loop_ready_frame) (rule same(2))
qed

lemma loop_client:
  assumes "loop_ready lib s"
  shows "\<exists>h. GetClientState s LocalhostClientID = Some (LocalhostClient h)
    \<and> getActiveClient ctx s LocalhostClientID = Inr (LocalhostClient h)"
proof -
  from assms obtain h ps where "GetClientState s LocalhostClientID = Some (LocalhostClient h)"
    "GetClientParams s = Inr ps" "IsAllowedClient ps Localhost"
    unfolding loop_ready_def by (auto split: option.split_asm ClientState.split_asm sum.split_asm)
  then show ?thesis by (simp add: getActiveClient_def GetClientStatus_def)
qed

lemma loop_hop:
  assumes "loop_ready lib s"
  shows "hop_connection s [LocalhostConnectionID] = Inr (loop_connection lib)"
    and "open_connection s [LocalhostConnectionID] = Inr (loop_connection lib)"
proof -
  have "GetConnection s LocalhostConnectionID = Some (loop_connection lib)" using assms unfolding loop_ready_def by blast
  then show h: "hop_connection s [LocalhostConnectionID] = Inr (loop_connection lib)"
    by (simp add: hop_connection_def first_hop_def)
  show "open_connection s [LocalhostConnectionID] = Inr (loop_connection lib)" by (simp add: open_connection_def h)
qed

lemma loop_delay:
  assumes "loop_ready lib s"
  shows "\<exists>b. getBlockDelay lib s conn = Inr b"
proof -
  from assms obtain x where "GetConnectionParams s = Inr x" by (auto simp: loop_ready_def is_ok_iff)
  then show ?thesis by (cases "x = 0") (simp_all add: getBlockDelay_def)
qed

text \<open>A membership proof is a read of the chain's own store.\<close>

lemma loop_VerifyMembership:
  assumes "kv_get s key = Some bz" and "kv_bytes lib bz = v"
  shows "Client_VerifyMembership lib ctx LocalhostClientID (LocalhostClient h) ph dt db SentinelProof [pre, key] v s = Inr s"
  using assms by (simp add: lh_VerifyMembership_def verification_prefix_def)

lemma ApplyPrefix_one: "pre \<noteq> [] \<Longrightarrow> ApplyPrefix pre [k] = Inr [pre, k]"
  by (simp add: ApplyPrefix_def)

lemma loop_VerifyPacketCommitment:
  assumes "loop_ready lib s" and "GetPacketCommitment s p c n = cm" and "cm \<noteq> []"
  shows "VerifyPacketCommitment lib ctx (loop_connection lib) ph SentinelProof p c n cm s = Inr s"
proof -
  from assms(2,3) have "kv_get s (PacketCommitmentPath p c n) = Some (BytesBz cm)"
    by (auto simp: GetPacketCommitment_def kv_typed_def bind_eq_Some_conv split: option.splits elim: asBytes.elims)
  moreover from loop_client [OF assms(1)] obtain h where "getActiveClient ctx s LocalhostClientID = Inr (LocalhostClient h)" by blast
  moreover from loop_delay [OF assms(1)] obtain b where "getBlockDelay lib s (loop_connection lib) = Inr b" by blast
  moreover have "storeKeyName lib \<noteq> []" using assms(1) by (simp add: loop_ready_def)
  ultimately show ?thesis
    by (simp add: VerifyPacketCommitment_def Let_def ApplyPrefix_one loop_VerifyMembership del: Client_VerifyMembership.simps)
qed

lemma loop_VerifyPacketAcknowledgement:
  assumes "loop_ready lib s" and "GetPacketAcknowledgement s p c n = Some (CommitAcknowledgement a)"
  shows "VerifyPacketAcknowledgement lib ctx (loop_connection lib) ph SentinelProof p c n a s = Inr s"
proof -
  from assms(2) have "kv_get s (PacketAcknowledgementPath p c n) = Some (BytesBz (CommitAcknowledgement a))"
    by (auto simp: GetPacketAcknowledgement_def kv_typed_def bind_eq_Some_conv elim: asBytes.elims)
  moreover from loop_client [OF assms(1)] obtain h where "getActiveClient ctx s LocalhostClientID = Inr (LocalhostClient h)" by blast
  moreover from loop_delay [OF assms(1)] obtain b where "getBlockDelay lib s (loop_connection lib) = Inr b" by blast
  moreover have "storeKeyName lib \<noteq> []" using assms(1) by (simp add: loop_ready_def)
  ultimately show ?thesis
    by (simp add: VerifyPacketAcknowledgement_def Let_def ApplyPrefix_one loop_VerifyMembership del: Client_VerifyMembership.simps)
qed

section \<open>Two connected channel ends\<close>

text \<open>One end of an open loopback channel whose other end is \<open>(q, d)\<close>.\<close>

definition loop_end :: "Order \<Rightarrow> string \<Rightarrow> string \<Rightarrow> string \<Rightarrow> string \<Rightarrow> kvstore \<Rightarrow> bool" where
  "loop_end ord p c q d s =
     (case GetChannel s p c of
        None \<Rightarrow> False
      | Some ch \<Rightarrow> ch_State ch = OPEN \<and> ch_Ordering ch = ord \<and> ch_ConnectionHops ch = [LocalhostConnectionID]
          \<and> ch_Counterparty ch = NewCounterparty q d)"

lemma loop_endE:
  assumes "loop_end ord p c q d s"
  obtains ch where "GetChannel s p c = Some ch" and "ch_State ch = OPEN" and "ch_Ordering ch = ord"
    and "ch_ConnectionHops ch = [LocalhostConnectionID]" and "PortId (ch_Counterparty ch) = q" and "ChannelId (ch_Counterparty ch) = d"
  using assms that by (auto simp: loop_end_def NewCounterparty_def split: option.splits)

lemma loop_end_write [store_simps]:
  "first_seg k \<noteq> ''channelEnds'' \<Longrightarrow> loop_end ord p c q d (kv_set k v s) = loop_end ord p c q d s"
  "first_seg k \<noteq> ''channelEnds'' \<Longrightarrow> loop_end ord p c q d (kv_delete k s) = loop_end ord p c q d s"
  by (simp_all add: loop_end_def store_simps)

text \<open>A packet that is not timed out in a block.\<close>

definition in_time :: "sdk_context \<Rightarrow> Packet \<Rightarrow> bool" where
  "in_time ctx pkt =
     (case GetSelfHeight ctx of
        Inl e \<Rightarrow> False
      | Inr h \<Rightarrow> (IsZero (TimeoutHeight pkt) \<or> \<not> GTE h (TimeoutHeight pkt))
          \<and> (TimeoutTimestamp pkt = 0 \<or> UnixNano64 (BlockTime ctx) < TimeoutTimestamp pkt))"

lemma loop_recv:
  assumes ready: "loop_ready lib (core st)" and dst: "loop_end ord q d p c (core st)"
    and auth: "ibc_auth st k q d" and time: "in_time ctx pkt"
    and pkt: "SourcePort pkt = p" "SourceChannel pkt = c" "DestinationPort pkt = q" "DestinationChannel pkt = d"
    and cm: "GetPacketCommitment (core st) p c (Sequence pkt) = CommitPacket pkt"
  shows "RecvPacket lib ctx k pkt SentinelProof ph st =
    and_then (recv_update ord pkt (core st)) (\<lambda>s. Inr (st\<lparr>core := s\<rparr>))"
proof -
  from time obtain h where h: "GetSelfHeight ctx = Inr h"
    "\<not> (\<not> IsZero (TimeoutHeight pkt) \<and> GTE h (TimeoutHeight pkt))"
    "\<not> (TimeoutTimestamp pkt \<noteq> 0 \<and> UnixNano64 (BlockTime ctx) \<ge> TimeoutTimestamp pkt)"
    by (auto simp: in_time_def not_le split: sum.splits)
  have v: "VerifyPacketCommitment lib ctx (loop_connection lib) ph SentinelProof p c (Sequence pkt) (CommitPacket pkt) (core st)
    = Inr (core st)" using loop_VerifyPacketCommitment [OF ready cm] by simp
  from dst obtain ch where ch: "GetChannel (core st) q d = Some ch" "ch_State ch = OPEN" "ch_Ordering ch = ord"
    "ch_ConnectionHops ch = [LocalhostConnectionID]" "PortId (ch_Counterparty ch) = p" "ChannelId (ch_Counterparty ch) = c"
    by (rule loop_endE)
  show ?thesis using ch auth h loop_hop(2) [OF ready] v pkt by (auto simp: RecvPacket_def)
qed

lemma loop_acknowledge:
  assumes ready: "loop_ready lib (core st)" and src: "loop_end ord p c q d (core st)" and auth: "ibc_auth st k p c"
    and pkt: "SourcePort pkt = p" "SourceChannel pkt = c" "DestinationPort pkt = q" "DestinationChannel pkt = d"
    and cm: "GetPacketCommitment (core st) p c (Sequence pkt) = CommitPacket pkt"
    and ack: "GetPacketAcknowledgement (core st) q d (Sequence pkt) = Some (CommitAcknowledgement a)"
  shows "AcknowledgePacket lib ctx k pkt a SentinelProof ph st =
    and_then (ack_update ord pkt (core st)) (\<lambda>s. Inr (st\<lparr>core := deletePacketCommitment p c (Sequence pkt) s\<rparr>))"
proof -
  from src obtain ch where ch: "GetChannel (core st) p c = Some ch" "ch_State ch = OPEN" "ch_Ordering ch = ord"
    "ch_ConnectionHops ch = [LocalhostConnectionID]" "PortId (ch_Counterparty ch) = q" "ChannelId (ch_Counterparty ch) = d"
    by (rule loop_endE)
  show ?thesis
    using ch auth loop_hop(2) [OF ready] pkt cm loop_VerifyPacketAcknowledgement [OF ready ack]
    by (simp add: AcknowledgePacket_def Let_def)
qed

text \<open>The receiving end is ready for the packet, and the sending end for its acknowledgement.\<close>

definition recv_ready :: "Order \<Rightarrow> Packet \<Rightarrow> kvstore \<Rightarrow> bool" where
  "recv_ready ord pkt s =
     (case ord of
        UNORDERED \<Rightarrow> GetPacketReceipt s (DestinationPort pkt) (DestinationChannel pkt) (Sequence pkt) = None
      | ORDERED \<Rightarrow> GetNextSequenceRecv s (DestinationPort pkt) (DestinationChannel pkt) = Some (Sequence pkt)
      | ORDER_NONE \<Rightarrow> False)"

definition ack_ready :: "Order \<Rightarrow> Packet \<Rightarrow> kvstore \<Rightarrow> bool" where
  "ack_ready ord pkt s = (ord = ORDERED \<longrightarrow> GetNextSequenceAck s (SourcePort pkt) (SourceChannel pkt) = Some (Sequence pkt))"

lemma recv_update_ready:
  "recv_ready ord pkt s \<Longrightarrow> recv_update ord pkt s =
     Inr (if ord = UNORDERED then SetPacketReceipt (DestinationPort pkt) (DestinationChannel pkt) (Sequence pkt) s
          else SetNextSequenceRecv (DestinationPort pkt) (DestinationChannel pkt) (Sequence pkt + 1) s)"
  by (auto simp: recv_ready_def recv_update_def split: Order.splits)

lemma ack_update_ready:
  "ack_ready ord pkt s \<Longrightarrow> ack_update ord pkt s =
     Inr (if ord = ORDERED then SetNextSequenceAck (SourcePort pkt) (SourceChannel pkt) (Sequence pkt + 1) s else s)"
  by (auto simp: ack_ready_def ack_update_def)

lemma loop_send:
  assumes send: "SendPacket ctx k p c th tt bz st = Inr (n, st1)" and src: "loop_end ord p c q d (core st)"
  shows "core st1 = SetPacketCommitment p c n (CommitPacket (NewPacket bz n p c q d th tt)) (SetNextSequenceSend p c (n + 1) (core st))"
    and "caps st1 = caps st" and "ibc_auth st k p c"
proof -
  from src obtain ch where ch: "GetChannel (core st) p c = Some ch" "PortId (ch_Counterparty ch) = q" "ChannelId (ch_Counterparty ch) = d"
    by (rule loop_endE)
  from SendPacket_effect [OF send] ch have "ibc_auth st k p c" and st1: "st1 = st\<lparr>core := SetPacketCommitment p c n
      (CommitPacket (NewPacket bz n p c q d th tt)) (SetNextSequenceSend p c (n + 1) (core st))\<rparr>"
    by (auto simp: sent_packet_def)
  then show "core st1 = SetPacketCommitment p c n (CommitPacket (NewPacket bz n p c q d th tt)) (SetNextSequenceSend p c (n + 1) (core st))"
    "caps st1 = caps st" "ibc_auth st k p c" by simp_all
qed

lemma loop_write_ack:
  assumes dst: "loop_end ord q d p c (core st)" and auth: "ibc_auth st k q d" and a: "a \<noteq> []"
    and pkt: "DestinationPort pkt = q" "DestinationChannel pkt = d"
    and new: "\<not> HasPacketAcknowledgement (core st) q d (Sequence pkt)"
  shows "WriteAcknowledgement k pkt (Some a) st = Inr (st\<lparr>core := SetPacketAcknowledgement q d (Sequence pkt) (CommitAcknowledgement a) (core st)\<rparr>)"
proof -
  from dst obtain ch where "GetChannel (core st) q d = Some ch" "ch_State ch = OPEN" by (rule loop_endE)
  with auth a pkt new show ?thesis by (simp add: WriteAcknowledgement_def)
qed

lemmas loop_simps = set_defs store_simps path_simps

text \<open>The three later steps of a packet's life, one after the other.\<close>

lemma loop_life:
  assumes ready: "loop_ready lib (core st)" and src: "loop_end ord p c q d (core st)" and dst: "loop_end ord q d p c (core st)"
    and send: "SendPacket ctx k p c th tt bz st = Inr (n, st1)" and auth: "ibc_auth st k' q d"
    and time: "in_time ctx' (NewPacket bz n p c q d th tt)"
    and rr: "recv_ready ord (NewPacket bz n p c q d th tt) (core st)" and ar: "ack_ready ord (NewPacket bz n p c q d th tt) (core st)"
    and new: "\<not> HasPacketAcknowledgement (core st) q d n" and a: "a \<noteq> []"
  shows "\<exists>st2 st3 st4. RecvPacket lib ctx' k' (NewPacket bz n p c q d th tt) SentinelProof ph st1 = Inr st2
    \<and> WriteAcknowledgement k' (NewPacket bz n p c q d th tt) (Some a) st2 = Inr st3
    \<and> AcknowledgePacket lib ctx'' k (NewPacket bz n p c q d th tt) a SentinelProof ph' st3 = Inr st4
    \<and> GetPacketCommitment (core st4) p c n = []"
proof -
  let ?pkt = "NewPacket bz n p c q d th tt"
  note st1 = loop_send [OF send src]
  define s2 where "s2 = (if ord = UNORDERED then SetPacketReceipt q d n (core st1) else SetNextSequenceRecv q d (n + 1) (core st1))"
  define st2 where "st2 = st1\<lparr>core := s2\<rparr>"
  define st3 where "st3 = st2\<lparr>core := SetPacketAcknowledgement q d n (CommitAcknowledgement a) s2\<rparr>"
  have caps: "caps st2 = caps st" "caps st3 = caps st" using st1(2) by (simp_all add: st2_def st3_def)
  have "recv_ready ord ?pkt (core st1)" using rr by (auto simp: recv_ready_def st1(1) loop_simps split: Order.splits)
  moreover have "loop_ready lib (core st1)" "loop_end ord q d p c (core st1)" "GetPacketCommitment (core st1) p c n = CommitPacket ?pkt"
    using ready dst by (simp_all add: st1(1) loop_simps)
  ultimately have "RecvPacket lib ctx' k' ?pkt SentinelProof ph st1 = Inr st2"
    using loop_recv [of lib st1 ord q d p c k' ctx' ?pkt] auth time st1(2) by (simp add: recv_update_ready st2_def s2_def)
  moreover have s2: "loop_ready lib s2" "loop_end ord q d p c s2" "loop_end ord p c q d s2"
    "GetPacketCommitment s2 p c n = CommitPacket ?pkt" "\<not> HasPacketAcknowledgement s2 q d n" "ack_ready ord ?pkt s2"
    using ready src dst new ar by (auto simp: s2_def st1(1) ack_ready_def HasPacketAcknowledgement_def loop_simps)
  moreover have "WriteAcknowledgement k' ?pkt (Some a) st2 = Inr st3"
    using loop_write_ack [of ord q d p c st2 k' a ?pkt] s2 auth a caps(1) by (simp add: st2_def st3_def)
  moreover have "\<exists>st4. AcknowledgePacket lib ctx'' k ?pkt a SentinelProof ph' st3 = Inr st4 \<and> GetPacketCommitment (core st4) p c n = []"
  proof -
    have "loop_ready lib (core st3)" "loop_end ord p c q d (core st3)" "GetPacketCommitment (core st3) p c n = CommitPacket ?pkt"
      "GetPacketAcknowledgement (core st3) q d n = Some (CommitAcknowledgement a)" "ack_ready ord ?pkt (core st3)"
      using s2 by (simp_all add: st3_def ack_ready_def loop_simps)
    then show ?thesis
      using loop_acknowledge [of lib st3 ord p c q d k ?pkt a ctx'' ph'] st1(3) caps(2)
      by (simp add: ack_update_ready loop_simps)
  qed
  ultimately show ?thesis by blast
qed

text \<open>A send over the loopback goes through as soon as the packet is valid and its timeouts lie ahead.\<close>

definition send_ready :: "sdk_context \<Rightarrow> Packet \<Rightarrow> kvstore \<Rightarrow> bool" where
  "send_ready ctx pkt s =
     (Packet_ValidateBasic pkt = Inr ()
      \<and> (case GetClientState s LocalhostClientID of
           Some (LocalhostClient h) \<Rightarrow> IsZero (TimeoutHeight pkt) \<or> \<not> GTE h (TimeoutHeight pkt) | _ \<Rightarrow> False)
      \<and> (TimeoutTimestamp pkt = 0 \<or> UnixNano64 (BlockTime ctx) < TimeoutTimestamp pkt))"

lemma loop_send_ok:
  assumes ready: "loop_ready lib (core st)" and src: "loop_end ord p c q d (core st)" and auth: "ibc_auth st k p c"
    and n: "GetNextSequenceSend (core st) p c = Some n" and pkt: "send_ready ctx (NewPacket bz n p c q d th tt) (core st)"
  shows "\<exists>st1. SendPacket ctx k p c th tt bz st = Inr (n, st1)"
proof -
  from src obtain ch where ch: "GetChannel (core st) p c = Some ch" "ch_State ch = OPEN"
    "ch_ConnectionHops ch = [LocalhostConnectionID]" "PortId (ch_Counterparty ch) = q" "ChannelId (ch_Counterparty ch) = d"
    by (rule loop_endE)
  from loop_client [OF ready, of ctx] obtain h where h: "GetClientState (core st) LocalhostClientID = Some (LocalhostClient h)"
    "getActiveClient ctx (core st) LocalhostClientID = Inr (LocalhostClient h)" by blast
  have ts: "Connection_GetTimestampAtHeight ctx (core st) (loop_connection lib) x = Inr (UnixNano64 (BlockTime ctx))" for x
    using h(1) by (simp add: Connection_GetTimestampAtHeight_def)
  show ?thesis
    using ch auth n h pkt loop_hop(1) [OF ready]
    by (auto simp: SendPacket_def Let_def send_ready_def ts)
qed

section \<open>Properties\<close>

text \<open>
  C21: packets are delivered. Over the localhost connection, between two open ends of a channel, a
  valid packet can be sent, and the packet that was sent is accepted by the receiving end in every
  block before its timeout, the acknowledgement the application then writes is accepted, and the
  sending end accepts that acknowledgement and clears the commitment of the packet.
\<close>

theorem loopback_packet_delivered:
  assumes "loop_ready lib (core st)" and "loop_end ord p c q d (core st)" and "loop_end ord q d p c (core st)"
    and "ibc_auth st k p c" and "ibc_auth st k' q d" and "GetNextSequenceSend (core st) p c = Some n"
    and "send_ready ctx (NewPacket bz n p c q d th tt) (core st)" and "in_time ctx' (NewPacket bz n p c q d th tt)"
    and "recv_ready ord (NewPacket bz n p c q d th tt) (core st)" and "ack_ready ord (NewPacket bz n p c q d th tt) (core st)"
    and "\<not> HasPacketAcknowledgement (core st) q d n" and "a \<noteq> []"
  shows "\<exists>st1 st2 st3 st4. SendPacket ctx k p c th tt bz st = Inr (n, st1)
    \<and> RecvPacket lib ctx' k' (NewPacket bz n p c q d th tt) SentinelProof ph st1 = Inr st2
    \<and> WriteAcknowledgement k' (NewPacket bz n p c q d th tt) (Some a) st2 = Inr st3
    \<and> AcknowledgePacket lib ctx'' k (NewPacket bz n p c q d th tt) a SentinelProof ph' st3 = Inr st4
    \<and> GetPacketCommitment (core st4) p c n = []"
proof -
  from loop_send_ok [OF assms(1,2,4,6,7)] obtain st1 where st1: "SendPacket ctx k p c th tt bz st = Inr (n, st1)" by blast
  from loop_life [OF assms(1-3) st1 assms(5,8-12)] st1 show ?thesis by blast
qed

section \<open>A concrete chain\<close>

definition ex_lib :: lib where
  "ex_lib = \<lparr>lib_ics23 = \<lparr>Calculate = \<lambda>_. None, ics23_VerifyMembership = \<lambda>_ _ _ _ _. False,
       ics23_VerifyNonMembership = \<lambda>_ _ _ _. False\<rparr>,
     MarshalChannel = \<lambda>_. [1], MarshalConnection = \<lambda>_. [2], MarshalClientState = \<lambda>_. [3],
     MarshalConsensusState = \<lambda>_. [4], MarshalClientPaths = \<lambda>_. [5], MarshalClientParams = \<lambda>_. [6],
     MarshalConnectionParams = \<lambda>_. [7], UnmarshalMerkleProof = \<lambda>_. None, ValidatorSetFromProto = Some,
     ValidatorSet_Hash = \<lambda>b. b, SignedHeaderFromProto = Some, CommitFromProto = Some, BlockIDHashFromProto = Some,
     light_Verify = \<lambda>_ _ _ _ _ _ _ _ _ _ _. False, VerifyCommitLightTrusting = \<lambda>_ _ _ _. False,
     ValidateTrustLevel = \<lambda>_. True, MaxChainIDLen = 50, UnpackPubKey = \<lambda>_. None, PubKeyBytes = \<lambda>_. [],
     UnmarshalTimestampedSignatureData = \<lambda>_. None, UnmarshalSignatureData = \<lambda>_. None,
     MarshalSignBytes = \<lambda>_. [], MarshalHeaderData = \<lambda>_ _. [], UnmarshalsAsMerklePath = \<lambda>_. False,
     VerifyMultisignature = \<lambda>_ _ _. False, PubKey_VerifySignature = \<lambda>_ _ _. False,
     GetHistoricalInfo = \<lambda>_. None, UnbondingTime = 0, GetSDKSpecs = [], float_overflow = 0, storeKeyName = ''ibc''\<rparr>"

definition ex_end :: "Order \<Rightarrow> string \<Rightarrow> string \<Rightarrow> string \<Rightarrow> string \<Rightarrow> kvstore \<Rightarrow> kvstore" where
  "ex_end ord p c q d s =
     SetNextSequenceAck p c 1 (SetNextSequenceRecv p c 1 (SetNextSequenceSend p c 1
       (SetChannel p c (NewChannel OPEN ord (NewCounterparty q d) [LocalhostConnectionID] ''v1'') s)))"

text \<open>The localhost client and connection, and a channel between two ends on the port transfer.\<close>

definition ex_loop_base :: kvstore where
  "ex_loop_base =
     SetNextChannelSequence 2 (SetConnectionParams 30 (SetClientParams [Localhost]
       (SetConnection LocalhostConnectionID (loop_connection ex_lib)
         (lh_setClientState LocalhostClientID (NewHeight 0 9) fmempty))))"

definition ex_loop_core :: "Order \<Rightarrow> kvstore" where
  "ex_loop_core ord =
     ex_end ord ''transfer'' ''channel-0'' ''transfer'' ''channel-1''
       (ex_end ord ''transfer'' ''channel-1'' ''transfer'' ''channel-0'' ex_loop_base)"

definition ex_new_cap :: "u64 \<Rightarrow> string \<Rightarrow> cap_state \<Rightarrow> cap_state" where
  "ex_new_cap a n s = (case NewCapability ''ibc'' a n s of Inr (k, t) \<Rightarrow> t | Inl _ \<Rightarrow> s)"

text \<open>Both ends belong to the module transfer.\<close>

definition ex_claim :: "Capability option \<Rightarrow> string \<Rightarrow> cap_state \<Rightarrow> cap_state" where
  "ex_claim k n s = (case ClaimCapability ''transfer'' k n s of Inr t \<Rightarrow> t | Inl _ \<Rightarrow> s)"

definition ex_src_cap :: "Capability option" where
  "ex_src_cap = Some (types_NewCapability 16 1)"

definition ex_dst_cap :: "Capability option" where
  "ex_dst_cap = Some (types_NewCapability 17 2)"

definition ex_loop_caps :: cap_state where
  "ex_loop_caps = ex_claim ex_dst_cap (ChannelCapabilityPath ''transfer'' ''channel-1'')
     (ex_claim ex_src_cap (ChannelCapabilityPath ''transfer'' ''channel-0'')
     (ex_new_cap 17 (ChannelCapabilityPath ''transfer'' ''channel-1'')
     (ex_new_cap 16 (ChannelCapabilityPath ''transfer'' ''channel-0'') ex_caps)))"

definition ex_loop :: "Order \<Rightarrow> ibc" where
  "ex_loop ord = \<lparr>core = ex_loop_core ord, caps = ex_loop_caps\<rparr>"

abbreviation ex_pkt :: Packet where
  "ex_pkt \<equiv> NewPacket [65] 1 ''transfer'' ''channel-0'' ''transfer'' ''channel-1'' ZeroHeight 100"

lemma ex_loop_auth:
  "ibc_auth (ex_loop ord) ex_src_cap ''transfer'' ''channel-0''" "ibc_auth (ex_loop ord) ex_dst_cap ''transfer'' ''channel-1''"
proof -
  have "AuthenticateCapability ''ibc'' ex_loop_caps ex_src_cap (ChannelCapabilityPath ''transfer'' ''channel-0'')"
    "AuthenticateCapability ''ibc'' ex_loop_caps ex_dst_cap (ChannelCapabilityPath ''transfer'' ''channel-1'')"
    by code_simp+
  then show "ibc_auth (ex_loop ord) ex_src_cap ''transfer'' ''channel-0''" "ibc_auth (ex_loop ord) ex_dst_cap ''transfer'' ''channel-1''"
    by (simp_all add: ex_loop_def)
qed

lemma ex_loop_ends:
  "loop_end ord ''transfer'' ''channel-0'' ''transfer'' ''channel-1'' (core (ex_loop ord))"
  "loop_end ord ''transfer'' ''channel-1'' ''transfer'' ''channel-0'' (core (ex_loop ord))"
  by (simp_all add: ex_loop_def ex_loop_core_def ex_end_def loop_end_def NewChannel_def view_rules)

lemma ex_loop_seq:
  "GetNextSequenceSend (core (ex_loop ord)) ''transfer'' ''channel-0'' = Some 1"
  "ack_ready ord ex_pkt (core (ex_loop ord))"
  by (simp_all add: ex_loop_def ex_loop_core_def ex_end_def ack_ready_def view_rules)

lemma ex_loop_base_reads:
  "GetPacketReceipt ex_loop_base p c n = None" "\<not> HasPacketAcknowledgement ex_loop_base p c n"
  "GetPacketCommitment ex_loop_base p c n = []" "GetChannel ex_loop_base p c = None"
  "GetNextChannelSequence ex_loop_base = Inr 2"
  "GetClientState ex_loop_base LocalhostClientID = Some (LocalhostClient (NewHeight 0 9))"
proof -
  have e: "GetPacketReceipt fmempty p c n = None" "\<not> HasPacketAcknowledgement fmempty p c n"
    "GetPacketCommitment fmempty p c n = []" "GetChannel fmempty p c = None"
    by (simp_all add: GetPacketReceipt_def HasPacketAcknowledgement_def GetPacketCommitment_def GetChannel_def
        kv_typed_def kv_has_def kv_get_def)
  show "GetPacketReceipt ex_loop_base p c n = None" "\<not> HasPacketAcknowledgement ex_loop_base p c n"
    "GetPacketCommitment ex_loop_base p c n = []" "GetChannel ex_loop_base p c = None" "GetNextChannelSequence ex_loop_base = Inr 2"
    "GetClientState ex_loop_base LocalhostClientID = Some (LocalhostClient (NewHeight 0 9))"
    by (simp_all add: ex_loop_base_def lh_setClientState_def SetConnectionParams_def SetClientParams_def
        GetClientState_def view_rules e)
qed

lemma ex_loop_pkt: "send_ready ex_ctx ex_pkt (core (ex_loop ord))"
proof -
  have "Packet_ValidateBasic ex_pkt = Inr ()" "UnixNano64 (BlockTime ex_ctx) < 100" by code_simp+
  moreover have "GetClientState (core (ex_loop ord)) LocalhostClientID = Some (LocalhostClient (NewHeight 0 9))"
    using ex_loop_base_reads(6) by (simp add: ex_loop_def ex_loop_core_def ex_end_def GetClientState_def view_rules)
  ultimately show ?thesis by (simp add: send_ready_def)
qed

lemma ex_loop_time: "in_time ex_ctx ex_pkt"
  by code_simp

lemma ex_loop_client: "loop_ready ex_lib (core (ex_loop ord))"
proof -
  have "loop_ready ex_lib ex_loop_base" by code_simp
  then show ?thesis by (simp add: ex_loop_def ex_loop_core_def ex_end_def loop_simps)
qed

lemma ex_loop_new:
  "\<not> HasPacketAcknowledgement (core (ex_loop ord)) p c n"
  "ord \<noteq> ORDER_NONE \<Longrightarrow> recv_ready ord ex_pkt (core (ex_loop ord))"
  by (cases ord;
      simp add: ex_loop_def ex_loop_core_def ex_end_def recv_ready_def view_rules ex_loop_base_reads)+

lemma loopback_packet_delivered_witness:
  "\<exists>st1 st2 st3 st4. SendPacket ex_ctx ex_src_cap ''transfer'' ''channel-0'' ZeroHeight 100 [65] (ex_loop ORDERED) = Inr (1, st1)
    \<and> RecvPacket ex_lib ex_ctx ex_dst_cap ex_pkt SentinelProof ZeroHeight st1 = Inr st2
    \<and> WriteAcknowledgement ex_dst_cap ex_pkt (Some [1]) st2 = Inr st3
    \<and> AcknowledgePacket ex_lib ex_ctx ex_src_cap ex_pkt [1] SentinelProof ZeroHeight st3 = Inr st4
    \<and> GetPacketCommitment (core st4) ''transfer'' ''channel-0'' 1 = []"
  by (rule loopback_packet_delivered [OF ex_loop_client ex_loop_ends ex_loop_auth ex_loop_seq(1) ex_loop_pkt
      ex_loop_time ex_loop_new(2) ex_loop_seq(2) ex_loop_new(1)]) simp_all

end
