(* ===== verification/Packet_Life.thy ===== *)
theory Packet_Life
  imports Loopback
begin

text \<open>
  The guarantees of ICS-4 over whole runs of the channel keeper (\<open>modules/core/04-channel/keeper\<close>),
  with any interleaving of operations on all channels and any activity of the other keepers in
  between: sequences are assigned once; a packet is received at most once, and on an ordered channel
  in order; an acknowledgement is written at most once and never changes; the commitment of a packet
  is cleared at most once, by its acknowledgement or its timeout; closed channels stay closed.
\<close>

section \<open>What a run preserves at the observed end\<close>

lemma run_channel:
  assumes "slash_free p" "slash_free c" "chan_run lib st st'" "chan_inv p c (core st)" "GetChannel (core st) p c = Some ch"
  shows "chan_inv p c (core st')" and "\<exists>ch'. GetChannel (core st') p c = Some ch' \<and> chan_allowed ch ch'"
    and "packets_evolve p c (core st) (core st')"
  using step_run_good(2) [OF assms(1-3)] assms(4,5) unfolding good_def evolves_def by auto

text \<open>One operation followed by a run is a run.\<close>

lemma run_append_aux:
  shows "chan_step lib a b \<Longrightarrow> True" and "chan_run lib st1 st2 \<Longrightarrow> chan_run lib st st1 \<longrightarrow> chan_run lib st st2"
  by (induction rule: chan_step_chan_run.inducts) (auto intro: run_next)

lemma run_append: "chan_run lib st st1 \<Longrightarrow> chan_run lib st1 st2 \<Longrightarrow> chan_run lib st st2"
  using run_append_aux(2) by blast

lemma step_then_run: "chan_step lib st st1 \<Longrightarrow> chan_run lib st1 st2 \<Longrightarrow> chan_run lib st st2"
  by (rule run_append [OF run_next [OF run_refl]])

section \<open>A concrete run\<close>

text \<open>The loopback chain after the first packet was sent.\<close>

definition ex_sent :: "Order \<Rightarrow> ibc" where
  "ex_sent ord = \<lparr>core = SetPacketCommitment ''transfer'' ''channel-0'' 1 (CommitPacket ex_pkt)
     (SetNextSequenceSend ''transfer'' ''channel-0'' 2 (ex_loop_core ord)), caps = ex_loop_caps\<rparr>"

lemma no_wrap_values: "(\<And>k. kv_typed asUint64 (core st) k \<noteq> Some (- 1)) \<Longrightarrow> no_wrap st"
  by (auto simp: no_wrap_def GetNextChannelSequence_def GetNextSequenceSend_def GetNextSequenceRecv_def
      GetNextSequenceAck_def split: option.splits)

lemma ex_no_wrap: "no_wrap (ex_loop ord)" "no_wrap (ex_sent ord)"
proof -
  have e: "kv_get fmempty k = None" for k by (simp add: kv_get_def)
  have "kv_typed asUint64 ex_loop_base k \<noteq> Some (- 1)" for k
    by (auto simp: ex_loop_base_def lh_setClientState_def SetConnectionParams_def SetClientParams_def set_defs
        kv_typed_def kv.get_put e split: if_splits)
  then have "kv_typed asUint64 (ex_loop_core ord) k \<noteq> Some (- 1)" for k
    by (auto simp: ex_loop_core_def ex_end_def set_defs kv_typed_def kv.get_put split: if_splits)
  then show "no_wrap (ex_loop ord)" "no_wrap (ex_sent ord)"
    by (auto intro!: no_wrap_values simp: ex_loop_def ex_sent_def set_defs kv_typed_def kv.get_put split: if_splits)
qed

lemma ex_ids: "slash_free ''transfer''" "slash_free ''channel-0''" "slash_free ''transfer''" "slash_free ''channel-1''"
  "FormatChannelIdentifier 0 = ''channel-0''" "FormatChannelIdentifier 1 = ''channel-1''"
  by code_simp+

lemma ex_ids_less:
  "\<not> (''channel-0'' = FormatChannelIdentifier m \<and> 2 \<le> m)" "\<not> (''channel-1'' = FormatChannelIdentifier m \<and> 2 \<le> m)"
proof -
  have "\<not> (2 :: u64) \<le> 0" "\<not> (2 :: u64) \<le> 1" by code_simp+
  then show "\<not> (''channel-0'' = FormatChannelIdentifier m \<and> 2 \<le> m)" "\<not> (''channel-1'' = FormatChannelIdentifier m \<and> 2 \<le> m)"
    unfolding ex_ids(5,6) [symmetric] FormatChannelIdentifier_inj by blast+
qed

lemma ex_chan_inv:
  "chan_inv ''transfer'' ''channel-0'' (core (ex_loop ord))" "chan_inv ''transfer'' ''channel-1'' (core (ex_loop ord))"
  "chan_inv ''transfer'' ''channel-0'' (core (ex_sent ord))" "chan_inv ''transfer'' ''channel-1'' (core (ex_sent ord))"
  using ex_ids_less unfolding chan_inv_def
  by (auto simp: ex_loop_def ex_sent_def ex_loop_core_def ex_end_def view_rules ex_loop_base_reads)

lemma ex_sent_ready:
  "loop_ready ex_lib (core (ex_sent ord))"
  "loop_end ord ''transfer'' ''channel-0'' ''transfer'' ''channel-1'' (core (ex_sent ord))"
  "loop_end ord ''transfer'' ''channel-1'' ''transfer'' ''channel-0'' (core (ex_sent ord))"
  "GetPacketCommitment (core (ex_sent ord)) ''transfer'' ''channel-0'' 1 = CommitPacket ex_pkt"
  "\<not> HasPacketAcknowledgement (core (ex_sent ord)) p c n"
  "ibc_auth (ex_sent ord) ex_src_cap ''transfer'' ''channel-0''" "ibc_auth (ex_sent ord) ex_dst_cap ''transfer'' ''channel-1''"
  using ex_loop_client [of ord] ex_loop_ends [of ord] ex_loop_new(1) [of ord p c n] ex_loop_auth [of ord]
  by (simp_all add: ex_sent_def ex_loop_def HasPacketAcknowledgement_def loop_simps)

lemma ex_recv:
  assumes "ord \<noteq> ORDER_NONE"
  shows "\<exists>st. RecvPacket ex_lib ex_ctx ex_dst_cap ex_pkt SentinelProof ZeroHeight (ex_sent ord) = Inr st"
proof -
  have "recv_ready ord ex_pkt (core (ex_sent ord))" using ex_loop_new(2) [OF assms]
    by (simp add: ex_sent_def ex_loop_def recv_ready_def loop_simps split: Order.splits)
  then show ?thesis using loop_recv [OF ex_sent_ready(1,3,7) ex_loop_time] ex_sent_ready(4) by (simp add: recv_update_ready)
qed

lemma ex_channel: "\<exists>ch. GetChannel (core (ex_sent ord)) ''transfer'' ''channel-1'' = Some ch \<and> ch_Ordering ch = ord"
  "\<exists>ch. GetChannel (core (ex_sent ord)) ''transfer'' ''channel-0'' = Some ch \<and> ch_Ordering ch = ord"
  using ex_sent_ready(2,3) [of ord] by (auto elim: loop_endE)

lemma ex_timeout: "\<exists>st. TimeoutExecuted ex_src_cap ex_pkt (ex_sent ord) = Inr st"
  using ex_channel(2) [of ord] ex_sent_ready(6) by (auto simp: TimeoutExecuted_def Let_def)

section \<open>Properties\<close>

text \<open>
  C13: the channel life cycle. Along every run a stored channel end is never removed, and never replaced
  by a new channel: its ordering, its connection and its counterparty's port stay the same, its
  state only moves forward (INIT or TRYOPEN, then OPEN, then CLOSED), and only the move out of INIT
  sets its version and its counterparty's channel; its three sequence counters never decrease. The
  invariant of the channel store (fresh identifiers have no channel; commitments lie below the send
  counter) is kept.
\<close>

theorem channel_life_cycle:
  assumes "slash_free p" and "slash_free c" and "chan_run lib st st'" and "chan_inv p c (core st)"
  shows "chan_inv p c (core st')
    \<and> (\<forall>ch. GetChannel (core st) p c = Some ch \<longrightarrow>
         (\<exists>ch'. GetChannel (core st') p c = Some ch' \<and> chan_allowed ch ch')
         \<and> seq_le (GetNextSequenceSend (core st) p c) (GetNextSequenceSend (core st') p c)
         \<and> seq_le (GetNextSequenceRecv (core st) p c) (GetNextSequenceRecv (core st') p c)
         \<and> seq_le (GetNextSequenceAck (core st) p c) (GetNextSequenceAck (core st') p c))"
  using step_run_good(2) [OF assms(1-3)] assms(4)
  unfolding good_def evolves_def packets_evolve_def by auto

lemma channel_life_cycle_witness:
  "\<exists>st. chan_run ex_lib (ex_loop ORDERED) st \<and> chan_inv ''transfer'' ''channel-0'' (core st)
     \<and> GetNextSequenceSend (core st) ''transfer'' ''channel-0'' = Some 2
     \<and> (\<exists>ch. GetChannel (core st) ''transfer'' ''channel-0'' = Some ch)"
proof -
  from loop_send_ok [OF ex_loop_client ex_loop_ends(1) ex_loop_auth(1) ex_loop_seq(1) ex_loop_pkt]
  obtain st where st: "SendPacket ex_ctx ex_src_cap ''transfer'' ''channel-0'' ZeroHeight 100 [65] (ex_loop ORDERED) = Inr (1, st)" by blast
  have run: "chan_run ex_lib (ex_loop ORDERED) st" by (rule run_next [OF run_refl step_send [OF ex_no_wrap(1) st]])
  have "GetNextSequenceSend (core st) ''transfer'' ''channel-0'' = Some 2"
    using loop_send(1) [OF st ex_loop_ends(1)] by (simp add: loop_simps)
  moreover obtain ch where "GetChannel (core (ex_loop ORDERED)) ''transfer'' ''channel-0'' = Some ch"
    using ex_loop_ends(1) by (rule loop_endE)
  ultimately show ?thesis using run channel_life_cycle [OF ex_ids(1,2) run ex_chan_inv(1)] by blast
qed

lemma RecvPacket_next:
  assumes sf: "slash_free (DestinationPort pkt)" "slash_free (DestinationChannel pkt)"
    and r: "RecvPacket lib ctx k pkt pf h st = Inr st1" and ch: "GetChannel (core st) (DestinationPort pkt) (DestinationChannel pkt) = Some ch"
  shows "ch_Ordering ch = ORDERED \<Longrightarrow> GetNextSequenceRecv (core st) (DestinationPort pkt) (DestinationChannel pkt) = Some (Sequence pkt)
      \<and> GetNextSequenceRecv (core st1) (DestinationPort pkt) (DestinationChannel pkt) = Some (Sequence pkt + 1)"
    and "ch_Ordering ch = UNORDERED \<Longrightarrow> GetPacketReceipt (core st) (DestinationPort pkt) (DestinationChannel pkt) (Sequence pkt) = None
      \<and> GetPacketReceipt (core st1) (DestinationPort pkt) (DestinationChannel pkt) (Sequence pkt) \<noteq> None"
    and "GetChannel (core st1) (DestinationPort pkt) (DestinationChannel pkt) = Some ch"
proof -
  from RecvPacket_effect [OF r] ch obtain s where e: "core_eq (core st) s"
    and w: "recv_written (ch_Ordering ch) pkt (core st) s (core st1)" by auto
  from w show "ch_Ordering ch = ORDERED \<Longrightarrow> GetNextSequenceRecv (core st) (DestinationPort pkt) (DestinationChannel pkt) = Some (Sequence pkt)
      \<and> GetNextSequenceRecv (core st1) (DestinationPort pkt) (DestinationChannel pkt) = Some (Sequence pkt + 1)"
    by (simp add: recv_written_def set_defs store_simps)
  from w show "ch_Ordering ch = UNORDERED \<Longrightarrow> GetPacketReceipt (core st) (DestinationPort pkt) (DestinationChannel pkt) (Sequence pkt) = None
      \<and> GetPacketReceipt (core st1) (DestinationPort pkt) (DestinationChannel pkt) (Sequence pkt) \<noteq> None"
    by (simp add: recv_written_def set_defs store_simps)
  from w show "GetChannel (core st1) (DestinationPort pkt) (DestinationChannel pkt) = Some ch"
    using core_eq_reads(1) [OF e] ch
    by (cases "ch_Ordering ch") (simp_all add: recv_written_def set_defs store_simps path_simps)
qed

lemma received_once:
  assumes sf: "slash_free (DestinationPort pkt)" "slash_free (DestinationChannel pkt)"
    and inv: "chan_inv (DestinationPort pkt) (DestinationChannel pkt) (core st)" and nw: "no_wrap st"
    and ch: "GetChannel (core st) (DestinationPort pkt) (DestinationChannel pkt) = Some ch" "ch_Ordering ch \<noteq> ORDER_NONE"
    and recv: "RecvPacket lib ctx k pkt pf h st = Inr st1" and run: "chan_run lib st1 st2"
    and same: "DestinationPort pkt' = DestinationPort pkt" "DestinationChannel pkt' = DestinationChannel pkt" "Sequence pkt' = Sequence pkt"
  shows "\<not> is_ok (RecvPacket lib ctx' k' pkt' pf' h' st2)"
proof
  assume "is_ok (RecvPacket lib ctx' k' pkt' pf' h' st2)"
  then obtain st3 where again: "RecvPacket lib ctx' k' pkt' pf' h' st2 = Inr st3" by (auto simp: is_ok_iff)
  let ?p = "DestinationPort pkt" and ?c = "DestinationChannel pkt"
  note first = RecvPacket_next [OF sf recv ch(1)]
  have inv1: "chan_inv ?p ?c (core st1)" using step_good_cases(2) [OF sf recv nw] inv by (simp add: good_def)
  from run_channel [OF sf run inv1 first(3)] obtain ch' where ch': "GetChannel (core st2) ?p ?c = Some ch'" "chan_allowed ch ch'"
    and ev: "packets_evolve ?p ?c (core st1) (core st2)" by blast
  note second = RecvPacket_next [of pkt', unfolded same, OF sf again ch'(1)]
  have ord: "ch_Ordering ch' = ch_Ordering ch" using ch'(2) by (simp add: chan_allowed_def)
  consider "ch_Ordering ch = UNORDERED" | "ch_Ordering ch = ORDERED" using ch(2) by (cases "ch_Ordering ch") auto
  then show False
  proof cases
    case 1
    then show False using first(2) second(2) ord ev by (auto simp: packets_evolve_def)
  next
    case 2
    then have "Sequence pkt + 1 \<le> Sequence pkt" using first(1) second(1) ord ev by (auto simp: packets_evolve_def seq_le_def)
    moreover have "Sequence pkt \<noteq> - 1" using first(1) 2 no_wrapD(3) [OF nw] by blast
    ultimately show False using u64_less_succ [of "Sequence pkt"] by simp
  qed
qed

text \<open>
  C1: a packet is received at most once. After a packet was accepted on a channel end, no later
  \<open>RecvPacket\<close> of a packet with the same destination and sequence succeeds, however the run continues
  and whatever proof, capability or data it is called with. (The source accepts channels of ordering
  ORDERED and UNORDERED only: \<open>Channel.ValidateBasic\<close>.)
\<close>

theorem packet_received_once:
  assumes sf: "slash_free (DestinationPort pkt)" "slash_free (DestinationChannel pkt)"
    and inv: "chan_inv (DestinationPort pkt) (DestinationChannel pkt) (core st)" and nw: "no_wrap st"
    and ch: "GetChannel (core st) (DestinationPort pkt) (DestinationChannel pkt) = Some ch" "ch_Ordering ch \<noteq> ORDER_NONE"
    and recv: "RecvPacket lib ctx k pkt pf h st = Inr st1" and run: "chan_run lib st1 st2"
    and same: "DestinationPort pkt' = DestinationPort pkt" "DestinationChannel pkt' = DestinationChannel pkt" "Sequence pkt' = Sequence pkt"
  shows "\<not> is_ok (RecvPacket lib ctx' k' pkt' pf' h' st2)"
  by (rule received_once [OF assms])

lemma packet_received_once_witness:
  "\<exists>st. RecvPacket ex_lib ex_ctx ex_dst_cap ex_pkt SentinelProof ZeroHeight (ex_sent UNORDERED) = Inr st
     \<and> \<not> is_ok (RecvPacket ex_lib ex_ctx ex_dst_cap ex_pkt SentinelProof ZeroHeight st)"
proof -
  obtain st where st: "RecvPacket ex_lib ex_ctx ex_dst_cap ex_pkt SentinelProof ZeroHeight (ex_sent UNORDERED) = Inr st"
    using ex_recv [of UNORDERED] by blast
  obtain ch where "GetChannel (core (ex_sent UNORDERED)) ''transfer'' ''channel-1'' = Some ch" "ch_Ordering ch = UNORDERED"
    using ex_channel(1) by blast
  with packet_received_once [of ex_pkt "ex_sent UNORDERED" ch, OF _ _ _ ex_no_wrap(2) _ _ st run_refl] ex_ids ex_chan_inv(4) st
  show ?thesis by auto
qed

text \<open>
  C12: ordered delivery. On an ordered channel end the accepted packet is exactly the next expected one,
  the counter advances by one, and a packet accepted later in the run has a larger sequence.
\<close>

theorem ordered_delivery:
  assumes sf: "slash_free (DestinationPort pkt)" "slash_free (DestinationChannel pkt)"
    and inv: "chan_inv (DestinationPort pkt) (DestinationChannel pkt) (core st)" and nw: "no_wrap st"
    and ch: "GetChannel (core st) (DestinationPort pkt) (DestinationChannel pkt) = Some ch" "ch_Ordering ch = ORDERED"
    and recv: "RecvPacket lib ctx k pkt pf h st = Inr st1"
  shows "GetNextSequenceRecv (core st) (DestinationPort pkt) (DestinationChannel pkt) = Some (Sequence pkt)
    \<and> GetNextSequenceRecv (core st1) (DestinationPort pkt) (DestinationChannel pkt) = Some (Sequence pkt + 1)
    \<and> (\<forall>st2 ctx' k' pkt' pf' h' st3. chan_run lib st1 st2 \<and> RecvPacket lib ctx' k' pkt' pf' h' st2 = Inr st3
        \<and> DestinationPort pkt' = DestinationPort pkt \<and> DestinationChannel pkt' = DestinationChannel pkt \<longrightarrow>
        Sequence pkt < Sequence pkt')"
proof (intro conjI allI impI)
  let ?p = "DestinationPort pkt" and ?c = "DestinationChannel pkt"
  note first = RecvPacket_next [OF sf recv ch(1)]
  from first(1) ch(2) show "GetNextSequenceRecv (core st) ?p ?c = Some (Sequence pkt)"
    "GetNextSequenceRecv (core st1) ?p ?c = Some (Sequence pkt + 1)" by blast+
  fix st2 ctx' k' pkt' pf' h' st3
  assume a: "chan_run lib st1 st2 \<and> RecvPacket lib ctx' k' pkt' pf' h' st2 = Inr st3
    \<and> DestinationPort pkt' = ?p \<and> DestinationChannel pkt' = ?c"
  then have run: "chan_run lib st1 st2" and again: "RecvPacket lib ctx' k' pkt' pf' h' st2 = Inr st3"
    and same: "DestinationPort pkt' = ?p" "DestinationChannel pkt' = ?c" by simp_all
  have inv1: "chan_inv ?p ?c (core st1)" using step_good_cases(2) [OF sf recv nw] inv by (simp add: good_def)
  from run_channel [OF sf run inv1 first(3)] obtain ch' where ch': "GetChannel (core st2) ?p ?c = Some ch'" "chan_allowed ch ch'"
    and ev: "packets_evolve ?p ?c (core st1) (core st2)" by blast
  have "Sequence pkt + 1 \<le> Sequence pkt'"
    using RecvPacket_next(1) [of pkt', unfolded same, OF sf again ch'(1)] first(1) ch(2) ch'(2) ev
    by (auto simp: packets_evolve_def seq_le_def chan_allowed_def)
  moreover have "Sequence pkt \<noteq> - 1" using first(1) ch(2) no_wrapD(3) [OF nw] by blast
  ultimately show "Sequence pkt < Sequence pkt'" using order.strict_trans2 [OF u64_less_succ] by blast
qed

lemma ordered_delivery_witness:
  "\<exists>st. RecvPacket ex_lib ex_ctx ex_dst_cap ex_pkt SentinelProof ZeroHeight (ex_sent ORDERED) = Inr st
     \<and> GetNextSequenceRecv (core st) ''transfer'' ''channel-1'' = Some 2"
proof -
  obtain st where st: "RecvPacket ex_lib ex_ctx ex_dst_cap ex_pkt SentinelProof ZeroHeight (ex_sent ORDERED) = Inr st"
    using ex_recv [of ORDERED] by blast
  obtain ch where "GetChannel (core (ex_sent ORDERED)) ''transfer'' ''channel-1'' = Some ch" "ch_Ordering ch = ORDERED"
    using ex_channel(1) by blast
  with ordered_delivery [of ex_pkt "ex_sent ORDERED" ch, OF _ _ _ ex_no_wrap(2) _ _ st] ex_ids ex_chan_inv(4) st
  show ?thesis by auto
qed

text \<open>
  C15: sequences are assigned once. A successful send returns the value of the send counter, stores the
  commitment of exactly the packet that was sent under it and advances the counter; a later send on
  the same channel returns a larger sequence, so that no commitment is ever overwritten.
\<close>

theorem sequences_assigned_once:
  assumes sf: "slash_free p" "slash_free c" and inv: "chan_inv p c (core st)" and nw: "no_wrap st"
    and send: "SendPacket ctx k p c th tt d st = Inr (n, st1)"
  shows "GetNextSequenceSend (core st) p c = Some n \<and> GetNextSequenceSend (core st1) p c = Some (n + 1)
    \<and> (\<exists>ch. GetChannel (core st) p c = Some ch
         \<and> GetPacketCommitment (core st1) p c n = CommitPacket (sent_packet ch d n p c th tt))
    \<and> GetPacketCommitment (core st) p c n = []
    \<and> (\<forall>m. m \<noteq> n \<longrightarrow> GetPacketCommitment (core st1) p c m = GetPacketCommitment (core st) p c m)
    \<and> (\<forall>st2 ctx' k' th' tt' d' m st3. chan_run lib st1 st2 \<and> SendPacket ctx' k' p c th' tt' d' st2 = Inr (m, st3) \<longrightarrow> n < m)"
proof -
  from SendPacket_effect [OF send] obtain ch where ch: "GetChannel (core st) p c = Some ch" "GetNextSequenceSend (core st) p c = Some n"
    and st1: "st1 = st\<lparr>core := SetPacketCommitment p c n (CommitPacket (sent_packet ch d n p c th tt))
      (SetNextSequenceSend p c (n + 1) (core st))\<rparr>" by blast
  have n: "n < n + 1" using u64_less_succ no_wrapD(2) [OF nw ch(2)] by blast
  have later: "n < m" if run: "chan_run lib st1 st2" and s: "SendPacket ctx' k' p c th' tt' d' st2 = Inr (m, st3)"
    for st2 ctx' k' th' tt' d' m st3
  proof -
    have inv1: "chan_inv p c (core st1)" using step_good_cases(1) [OF sf send nw] inv by (simp add: good_def)
    have "GetChannel (core st1) p c = Some ch" "GetNextSequenceSend (core st1) p c = Some (n + 1)"
      using ch by (simp_all add: st1 set_defs store_simps path_simps)
    with run_channel(3) [OF sf run inv1] SendPacket_effect [OF s] have "n + 1 \<le> m"
      by (auto simp: packets_evolve_def seq_le_def)
    with n show ?thesis by (rule order.strict_trans2)
  qed
  moreover have "GetPacketCommitment (core st) p c n = []" using inv ch by (auto simp: chan_inv_def)
  moreover have "GetPacketCommitment (core st1) p c m = (if n = m then CommitPacket (sent_packet ch d n p c th tt) else GetPacketCommitment (core st) p c m)" for m
    using sf by (simp add: st1 view_rules)
  moreover have "GetNextSequenceSend (core st1) p c = Some (n + 1)" by (simp add: st1 set_defs store_simps path_simps)
  ultimately show ?thesis using ch by auto
qed

lemma sequences_assigned_once_witness:
  "\<exists>st. SendPacket ex_ctx ex_src_cap ''transfer'' ''channel-0'' ZeroHeight 100 [65] (ex_loop ORDERED) = Inr (1, st)
     \<and> GetNextSequenceSend (core st) ''transfer'' ''channel-0'' = Some 2"
proof -
  from loop_send_ok [OF ex_loop_client ex_loop_ends(1) ex_loop_auth(1) ex_loop_seq(1) ex_loop_pkt]
  obtain st where st: "SendPacket ex_ctx ex_src_cap ''transfer'' ''channel-0'' ZeroHeight 100 [65] (ex_loop ORDERED) = Inr (1, st)" by blast
  from sequences_assigned_once [OF ex_ids(1,2) ex_chan_inv(1) ex_no_wrap(1) st] st show ?thesis by auto
qed

lemma committed_sent:
  assumes "chan_inv p c s" and "GetChannel s p c \<noteq> None" and "GetPacketCommitment s p c n \<noteq> []"
  shows "\<exists>b. GetNextSequenceSend s p c = Some b \<and> n < b"
  using assms by (auto simp: chan_inv_def)

text \<open>A sequence below the send counter stays there.\<close>

lemma run_sent:
  assumes sf: "slash_free p" "slash_free c" and run: "chan_run lib st st'" and inv: "chan_inv p c (core st)"
    and ch: "GetChannel (core st) p c \<noteq> None" and b: "\<exists>b. GetNextSequenceSend (core st) p c = Some b \<and> n < b"
  shows "\<exists>b. GetNextSequenceSend (core st') p c = Some b \<and> n < b"
proof -
  from ch obtain a where a: "GetChannel (core st) p c = Some a" by blast
  from run_channel(3) [OF sf run inv a] b show ?thesis by (auto simp: packets_evolve_def seq_le_def intro: order.strict_trans2)
qed

lemma cleared:
  assumes op: "AcknowledgePacket lib ctx k pkt a pf h st = Inr st1 \<or> TimeoutExecuted k pkt st = Inr st1"
    and sent: "\<exists>b. GetNextSequenceSend (core st) (SourcePort pkt) (SourceChannel pkt) = Some b \<and> Sequence pkt < b"
  shows "GetPacketCommitment (core st1) (SourcePort pkt) (SourceChannel pkt) (Sequence pkt) = []"
    and "GetChannel (core st1) (SourcePort pkt) (SourceChannel pkt) \<noteq> None"
    and "\<exists>b. GetNextSequenceSend (core st1) (SourcePort pkt) (SourceChannel pkt) = Some b \<and> Sequence pkt < b"
proof -
  let ?p = "SourcePort pkt" and ?c = "SourceChannel pkt" and ?n = "Sequence pkt"
  have "\<exists>s ch. GetChannel (core st) ?p ?c \<noteq> None
    \<and> core_eq (core st) s \<and> core st1 \<in> {deletePacketCommitment ?p ?c ?n s,
        deletePacketCommitment ?p ?c ?n (SetNextSequenceAck ?p ?c (?n + 1) s), SetChannel ?p ?c ch (deletePacketCommitment ?p ?c ?n s)}"
    using op
  proof
    assume "AcknowledgePacket lib ctx k pkt a pf h st = Inr st1"
    from AcknowledgePacket_effect [OF this] show ?thesis unfolding ack_written_def by (auto split: if_splits)
  next
    assume t: "TimeoutExecuted k pkt st = Inr st1"
    from TimeoutExecuted_effect [OF t] show ?thesis by (auto simp: Let_def split: if_splits intro: core_eq_refl)
  qed
  then obtain s ch where s: "GetChannel (core st) ?p ?c \<noteq> None" "core_eq (core st) s"
    and st1: "core st1 \<in> {deletePacketCommitment ?p ?c ?n s,
        deletePacketCommitment ?p ?c ?n (SetNextSequenceAck ?p ?c (?n + 1) s), SetChannel ?p ?c ch (deletePacketCommitment ?p ?c ?n s)}"
    by blast
  note r = core_eq_reads(1,2) [OF s(2)]
  from st1 show "GetPacketCommitment (core st1) ?p ?c ?n = []" by (auto simp: set_defs store_simps path_simps)
  from st1 s(1) show "GetChannel (core st1) ?p ?c \<noteq> None" by (auto simp: set_defs store_simps path_simps r)
  from sent st1 show "\<exists>b. GetNextSequenceSend (core st1) ?p ?c = Some b \<and> ?n < b" by (auto simp: set_defs store_simps path_simps r)
qed

lemma cleared_inv:
  assumes "slash_free p" "slash_free c" "chan_inv p c (core st)"
    and "AcknowledgePacket lib ctx k pkt a pf h st = Inr st1 \<and> no_wrap st \<or> TimeoutExecuted k pkt st = Inr st1"
  shows "chan_inv p c (core st1)"
  using assms step_good_cases(4,5) [OF assms(1,2)] by (auto simp: good_def)

text \<open>Once the commitment of an assigned sequence is gone, the packet is settled.\<close>

lemma settled_later:
  assumes sf: "slash_free (SourcePort pkt)" "slash_free (SourceChannel pkt)"
    and inv: "chan_inv (SourcePort pkt) (SourceChannel pkt) (core st1)"
    and gone: "GetPacketCommitment (core st1) (SourcePort pkt) (SourceChannel pkt) (Sequence pkt) = []"
      "GetChannel (core st1) (SourcePort pkt) (SourceChannel pkt) \<noteq> None"
      "\<exists>b. GetNextSequenceSend (core st1) (SourcePort pkt) (SourceChannel pkt) = Some b \<and> Sequence pkt < b"
    and run: "chan_run lib st1 st2"
    and same: "SourcePort pkt' = SourcePort pkt" "SourceChannel pkt' = SourceChannel pkt" "Sequence pkt' = Sequence pkt"
  shows "\<not> is_ok (AcknowledgePacket lib ctx' k' pkt' a' pf' h' st2)" "\<not> is_ok (TimeoutPacket lib ctx' pkt' pf' h' m st2)"
    "\<not> is_ok (TimeoutOnClose lib ctx' k' pkt' pf' pf'' h' m st2)"
proof -
  let ?p = "SourcePort pkt" and ?c = "SourceChannel pkt" and ?n = "Sequence pkt"
  from gone(2) obtain ch where "GetChannel (core st1) ?p ?c = Some ch" by blast
  from run_channel(3) [OF sf run inv this] gone(1,3)
  have "GetPacketCommitment (core st2) ?p ?c ?n = []" by (force simp: packets_evolve_def)
  moreover have "[] \<noteq> CommitPacket pkt'" by (rule CommitPacket_nonempty [symmetric])
  ultimately show "\<not> is_ok (AcknowledgePacket lib ctx' k' pkt' a' pf' h' st2)" "\<not> is_ok (TimeoutPacket lib ctx' pkt' pf' h' m st2)"
    "\<not> is_ok (TimeoutOnClose lib ctx' k' pkt' pf' pf'' h' m st2)"
    using AcknowledgePacket_effect [of lib ctx' k' pkt' a' pf' h' st2] TimeoutPacket_effect [of lib ctx' pkt' pf' h' m st2]
      TimeoutOnClose_effect [of lib ctx' k' pkt' pf' pf'' h' m st2]
    by (auto simp: is_ok_iff same)
qed

text \<open>
  C2: a packet is settled at most once. When a sent packet was acknowledged, or its timeout executed,
  neither an acknowledgement nor a timeout of it (in either form) is accepted at any later point of
  the run.
\<close>

theorem packet_settled_once:
  assumes sf: "slash_free (SourcePort pkt)" "slash_free (SourceChannel pkt)"
    and inv: "chan_inv (SourcePort pkt) (SourceChannel pkt) (core st)" and nw: "no_wrap st"
    and settled: "AcknowledgePacket lib ctx k pkt a pf h st = Inr st1
      \<or> TimeoutExecuted k pkt st = Inr st1 \<and> GetPacketCommitment (core st) (SourcePort pkt) (SourceChannel pkt) (Sequence pkt) \<noteq> []"
    and run: "chan_run lib st1 st2"
    and same: "SourcePort pkt' = SourcePort pkt" "SourceChannel pkt' = SourceChannel pkt" "Sequence pkt' = Sequence pkt"
  shows "\<not> is_ok (AcknowledgePacket lib ctx' k' pkt' a' pf' h' st2)
    \<and> \<not> is_ok (TimeoutPacket lib ctx' pkt' pf' h' m st2)
    \<and> \<not> is_ok (TimeoutOnClose lib ctx' k' pkt' pf' pf'' h' m st2)"
proof -
  have c: "GetPacketCommitment (core st) (SourcePort pkt) (SourceChannel pkt) (Sequence pkt) \<noteq> []"
    "GetChannel (core st) (SourcePort pkt) (SourceChannel pkt) \<noteq> None"
    using settled AcknowledgePacket_effect [of lib ctx k pkt a pf h st st1] TimeoutExecuted_effect [of k pkt st st1]
      CommitPacket_nonempty [of pkt, symmetric] by auto
  have op: "AcknowledgePacket lib ctx k pkt a pf h st = Inr st1 \<or> TimeoutExecuted k pkt st = Inr st1" using settled by blast
  note gone = cleared [OF op committed_sent [OF inv c(2,1)]]
  have "chan_inv (SourcePort pkt) (SourceChannel pkt) (core st1)" using cleared_inv [OF sf inv] settled nw by blast
  from settled_later [OF sf this gone run same] show ?thesis by blast
qed

lemma packet_settled_once_witness:
  "\<exists>st. TimeoutExecuted ex_src_cap ex_pkt (ex_sent UNORDERED) = Inr st
     \<and> \<not> is_ok (AcknowledgePacket ex_lib ex_ctx ex_src_cap ex_pkt [1] SentinelProof ZeroHeight st)"
proof -
  obtain st where st: "TimeoutExecuted ex_src_cap ex_pkt (ex_sent UNORDERED) = Inr st" using ex_timeout by blast
  moreover have "\<not> is_ok (AcknowledgePacket ex_lib ex_ctx ex_src_cap ex_pkt [1] SentinelProof ZeroHeight st)"
    by (rule packet_settled_once [THEN conjunct1, of ex_pkt "ex_sent UNORDERED", OF _ _ _ ex_no_wrap(2)
        disjI2 [OF conjI [OF st]] run_refl])
      (use ex_ids ex_chan_inv(3) ex_sent_ready(4) [of UNORDERED] st in simp_all)
  ultimately show ?thesis by blast
qed

text \<open>
  C20: acknowledgements are final. After an acknowledgement was written, exactly its hash is stored, it
  stays there unchanged through every run, and no second acknowledgement of the packet is accepted.
\<close>

theorem acknowledgement_final:
  assumes sf: "slash_free (DestinationPort pkt)" "slash_free (DestinationChannel pkt)"
    and inv: "chan_inv (DestinationPort pkt) (DestinationChannel pkt) (core st)"
    and w: "WriteAcknowledgement k pkt (Some bz) st = Inr st1" and run: "chan_run lib st1 st2"
    and same: "DestinationPort pkt' = DestinationPort pkt" "DestinationChannel pkt' = DestinationChannel pkt" "Sequence pkt' = Sequence pkt"
  shows "GetPacketAcknowledgement (core st2) (DestinationPort pkt) (DestinationChannel pkt) (Sequence pkt) = Some (CommitAcknowledgement bz)
    \<and> \<not> is_ok (WriteAcknowledgement k' pkt' a' st2)"
proof -
  let ?p = "DestinationPort pkt" and ?c = "DestinationChannel pkt" and ?n = "Sequence pkt"
  from WriteAcknowledgement_effect [OF w] obtain ch where ch: "GetChannel (core st) ?p ?c = Some ch"
    and st1: "st1 = st\<lparr>core := SetPacketAcknowledgement ?p ?c ?n (CommitAcknowledgement bz) (core st)\<rparr>" by auto
  have "GetChannel (core st1) ?p ?c = Some ch" using ch by (simp add: st1 set_defs store_simps path_simps)
  moreover have inv1: "chan_inv ?p ?c (core st1)" using step_good_cases(3) [OF sf w] inv by (simp add: good_def)
  moreover have "HasPacketAcknowledgement (core st1) ?p ?c ?n" "GetPacketAcknowledgement (core st1) ?p ?c ?n = Some (CommitAcknowledgement bz)"
    by (simp_all add: st1 HasPacketAcknowledgement_def set_defs store_simps)
  ultimately have "HasPacketAcknowledgement (core st2) ?p ?c ?n"
    "GetPacketAcknowledgement (core st2) ?p ?c ?n = Some (CommitAcknowledgement bz)"
    using run_channel(3) [OF sf run inv1] by (auto simp: packets_evolve_def)
  then show ?thesis using WriteAcknowledgement_effect [of k' pkt' a' st2] by (auto simp: is_ok_iff same)
qed

lemma acknowledgement_final_witness:
  "\<exists>st. WriteAcknowledgement ex_dst_cap ex_pkt (Some [1]) (ex_sent UNORDERED) = Inr st
     \<and> \<not> is_ok (WriteAcknowledgement ex_dst_cap ex_pkt (Some [2]) st)"
proof -
  obtain st where st: "WriteAcknowledgement ex_dst_cap ex_pkt (Some [1]) (ex_sent UNORDERED) = Inr st"
    using loop_write_ack [OF ex_sent_ready(3,7), of "[1]" ex_pkt] ex_sent_ready(5) by auto
  with acknowledgement_final [of ex_pkt "ex_sent UNORDERED", OF _ _ _ st run_refl] ex_ids ex_chan_inv(4) show ?thesis by auto
qed

text \<open>
  C19: closed channels stay closed. The timeout of a packet closes an ordered channel; and once a
  channel end is closed, it is the same at every later point of the run: nothing can be sent,
  received, acknowledged or timed out by \<open>TimeoutPacket\<close> over it, nor can it be opened or closed again.
  What is left is to settle packets in flight: \<open>TimeoutOnClose\<close> and \<open>TimeoutExecuted\<close> do not look at the
  state. The first succeeds only for a packet whose commitment is stored, the second succeeds for the
  owner of the channel and deletes the commitment; both leave the closed channel as it is.
\<close>

theorem closed_channel_final:
  assumes sf: "slash_free p" "slash_free c" and inv: "chan_inv p c (core st)"
    and ch: "GetChannel (core st) p c = Some ch" "ch_State ch = CLOSED" and run: "chan_run lib st st2"
    and dst: "DestinationPort pkt = p" "DestinationChannel pkt = c" and src: "SourcePort pkt' = p" "SourceChannel pkt' = c"
  shows "GetChannel (core st2) p c = Some ch
    \<and> \<not> is_ok (SendPacket ctx k p c th tt d st2) \<and> \<not> is_ok (RecvPacket lib ctx k pkt pf h st2)
    \<and> \<not> is_ok (WriteAcknowledgement k pkt oa st2) \<and> \<not> is_ok (AcknowledgePacket lib ctx k pkt' a pf h st2)
    \<and> \<not> is_ok (TimeoutPacket lib ctx pkt' pf h n st2) \<and> \<not> is_ok (ChanOpenAck lib ctx p c k v i pf h st2)
    \<and> \<not> is_ok (ChanOpenConfirm lib ctx p c k pf h st2) \<and> \<not> is_ok (ChanCloseInit ctx p c k st2)
    \<and> \<not> is_ok (ChanCloseConfirm lib ctx p c k pf h st2)
    \<and> (TimeoutOnClose lib ctx k pkt' pf pf' h n st2 = Inr st3 \<longrightarrow> GetPacketCommitment (core st2) p c (Sequence pkt') = CommitPacket pkt'
        \<and> CommitPacket pkt' \<noteq> [] \<and> GetChannel (core st3) p c = Some ch)
    \<and> is_ok (TimeoutExecuted k pkt' st2) = ibc_auth st2 k p c
    \<and> (TimeoutExecuted k pkt' st2 = Inr st3 \<longrightarrow>
        GetChannel (core st3) p c = Some ch \<and> GetPacketCommitment (core st3) p c (Sequence pkt') = [])
    \<and> (TimeoutExecuted k pkt'' st' = Inr st'' \<and> GetChannel (core st') (SourcePort pkt'') (SourceChannel pkt'') = Some ch''
        \<and> ch_Ordering ch'' = ORDERED \<longrightarrow>
        GetChannel (core st'') (SourcePort pkt'') (SourceChannel pkt'') = Some (ch''\<lparr>ch_State := CLOSED\<rparr>))"
proof -
  from run_channel(2) [OF sf run inv ch(1)] chan_allowed_closed [OF _ ch(2)]
  have c2: "GetChannel (core st2) p c = Some ch" by auto
  moreover have "GetChannel (core st'') (SourcePort pkt'') (SourceChannel pkt'') = Some (ch''\<lparr>ch_State := CLOSED\<rparr>)"
    if "TimeoutExecuted k pkt'' st' = Inr st''" "GetChannel (core st') (SourcePort pkt'') (SourceChannel pkt'') = Some ch''"
      "ch_Ordering ch'' = ORDERED"
    using TimeoutExecuted_effect [OF that(1)] that(2,3) by (auto simp: Let_def set_defs store_simps)
  moreover have "\<not> is_ok (SendPacket ctx k p c th tt d st2)" using SendPacket_effect [of ctx k p c th tt d st2] c2 ch(2)
    by (fastforce simp: is_ok_iff)
  moreover have "\<not> is_ok (RecvPacket lib ctx k pkt pf h st2)" "\<not> is_ok (WriteAcknowledgement k pkt oa st2)"
    using c2 ch(2) dst by (simp_all add: RecvPacket_def WriteAcknowledgement_def)
  moreover have "\<not> is_ok (AcknowledgePacket lib ctx k pkt' a pf h st2)" using c2 ch(2) src by (simp add: AcknowledgePacket_def)
  moreover have "\<not> is_ok (TimeoutPacket lib ctx pkt' pf h n st2)"
    using TimeoutPacket_effect [of lib ctx pkt' pf h n st2] c2 ch(2) src by (auto simp: is_ok_iff)
  moreover have "\<not> is_ok (ChanOpenAck lib ctx p c k v i pf h st2)" "\<not> is_ok (ChanOpenConfirm lib ctx p c k pf h st2)"
    "\<not> is_ok (ChanCloseInit ctx p c k st2)" "\<not> is_ok (ChanCloseConfirm lib ctx p c k pf h st2)"
    using c2 ch(2) by (simp_all add: ChanOpenAck_def ChanOpenConfirm_def ChanCloseInit_def ChanCloseConfirm_def)
  moreover have "GetPacketCommitment (core st2) p c (Sequence pkt') = CommitPacket pkt' \<and> CommitPacket pkt' \<noteq> [] \<and> GetChannel (core st3) p c = Some ch"
    if "TimeoutOnClose lib ctx k pkt' pf pf' h n st2 = Inr st3"
    using TimeoutOnClose_effect [OF that] core_eq_reads [of "core st2" "core st3"] c2 src by auto
  moreover have "is_ok (TimeoutExecuted k pkt' st2) = ibc_auth st2 k p c" using c2 src by (simp add: TimeoutExecuted_def Let_def)
  moreover have "GetChannel (core st3) p c = Some ch \<and> GetPacketCommitment (core st3) p c (Sequence pkt') = []"
    if "TimeoutExecuted k pkt' st2 = Inr st3"
  proof -
    have "ch\<lparr>ch_State := CLOSED\<rparr> = ch" using ch(2) by (cases ch) simp
    then have "core st3 = deletePacketCommitment p c (Sequence pkt') (core st2)
        \<or> core st3 = SetChannel p c ch (deletePacketCommitment p c (Sequence pkt') (core st2))"
      using TimeoutExecuted_effect [OF that] c2 src by (auto simp: Let_def)
    then show ?thesis using c2 by (auto simp: set_defs store_simps path_simps)
  qed
  ultimately show ?thesis by blast
qed

lemma closed_channel_final_witness:
  "\<exists>st. TimeoutExecuted ex_src_cap ex_pkt (ex_sent ORDERED) = Inr st
     \<and> \<not> is_ok (SendPacket ex_ctx ex_src_cap ''transfer'' ''channel-0'' ZeroHeight 100 [65] st)"
proof -
  obtain st where st: "TimeoutExecuted ex_src_cap ex_pkt (ex_sent ORDERED) = Inr st" using ex_timeout by blast
  obtain ch where ch: "GetChannel (core (ex_sent ORDERED)) ''transfer'' ''channel-0'' = Some ch" "ch_Ordering ch = ORDERED"
    using ex_channel(2) by blast
  have "chan_inv ''transfer'' ''channel-0'' (core st)"
    using step_good_cases(5) [OF ex_ids(1,2) st] ex_chan_inv(3) by (simp add: good_def)
  moreover have "GetChannel (core st) ''transfer'' ''channel-0'' = Some (ch\<lparr>ch_State := CLOSED\<rparr>)"
    using TimeoutExecuted_effect [OF st] ch by (auto simp: Let_def set_defs store_simps)
  ultimately have "\<not> is_ok (SendPacket ex_ctx ex_src_cap ''transfer'' ''channel-0'' ZeroHeight 100 [65] st)"
    by (intro closed_channel_final [OF ex_ids(1,2) _ _ _ run_refl [of _ st], THEN conjunct2, THEN conjunct1,
          of "ch\<lparr>ch_State := CLOSED\<rparr>" "ex_pkt\<lparr>DestinationPort := ''transfer'', DestinationChannel := ''channel-0''\<rparr>" ex_pkt]) simp_all
  with st show ?thesis by blast
qed

end
