(* ===== verification/Msg_Server.thy ===== *)
theory Msg_Server
  imports Msgs Packet_Life
begin

text \<open>
  The message server (\<open>modules/core/keeper/msg_server.go\<close>): every rpc handler, from the lookup of the
  module that owns the port or channel through the keeper's checks to the application's callback.
  The state of a transaction is the ibc state together with the state of the applications; the
  callbacks of an application (\<open>porttypes.IBCModule\<close>) are functions on it. \<open>CacheContext\<close> is a copy of the state
  that is kept or dropped; the Go map of the capability keeper is not part of the copied stores.
\<close>

section \<open>Applications\<close>

record 'a world =
  ibc_state :: ibc
  app :: 'a

text \<open>What the message server reads of an \<open>exported.Acknowledgement\<close>.\<close>

record app_ack =
  ack_Success :: bool
  ack_Acknowledgement :: bytes

text \<open>An \<open>Inl\<close> of \<open>OnRecvPacket\<close> is a panic.\<close>

record 'a IBCModule =
  OnChanOpenInit :: "sdk_context \<Rightarrow> Order \<Rightarrow> string list \<Rightarrow> string \<Rightarrow> string \<Rightarrow> Capability option \<Rightarrow> Counterparty \<Rightarrow> string \<Rightarrow>
    'a world \<Rightarrow> (string \<times> 'a world) result"
  OnChanOpenTry :: "sdk_context \<Rightarrow> Order \<Rightarrow> string list \<Rightarrow> string \<Rightarrow> string \<Rightarrow> Capability option \<Rightarrow> Counterparty \<Rightarrow> string \<Rightarrow>
    'a world \<Rightarrow> (string \<times> 'a world) result"
  OnChanOpenAck :: "sdk_context \<Rightarrow> string \<Rightarrow> string \<Rightarrow> string \<Rightarrow> string \<Rightarrow> 'a world \<Rightarrow> 'a world result"
  OnChanOpenConfirm :: "sdk_context \<Rightarrow> string \<Rightarrow> string \<Rightarrow> 'a world \<Rightarrow> 'a world result"
  OnChanCloseInit :: "sdk_context \<Rightarrow> string \<Rightarrow> string \<Rightarrow> 'a world \<Rightarrow> 'a world result"
  OnChanCloseConfirm :: "sdk_context \<Rightarrow> string \<Rightarrow> string \<Rightarrow> 'a world \<Rightarrow> 'a world result"
  OnRecvPacket :: "sdk_context \<Rightarrow> Packet \<Rightarrow> bytes \<Rightarrow> 'a world \<Rightarrow> (app_ack option \<times> 'a world) result"
  OnAcknowledgementPacket :: "sdk_context \<Rightarrow> Packet \<Rightarrow> bytes \<Rightarrow> bytes \<Rightarrow> 'a world \<Rightarrow> 'a world result"
  OnTimeoutPacket :: "sdk_context \<Rightarrow> Packet \<Rightarrow> bytes \<Rightarrow> 'a world \<Rightarrow> 'a world result"

record 'a server =
  srv_lib :: lib
  srv_Router :: "'a IBCModule Router"
  srv_authority :: string
  srv_bech32 :: bech32

datatype ResponseResultType = NOOP | SUCCESS

definition route :: "'a server \<Rightarrow> string \<Rightarrow> 'a IBCModule result" where
  "route sv module = (case GetRoute (srv_Router sv) module of None \<Rightarrow> Inl port_ErrInvalidRoute | Some cbs \<Rightarrow> Inr cbs)"

definition relayer_of :: "'a server \<Rightarrow> string \<Rightarrow> bytes result" where
  "relayer_of sv signer = (case srv_bech32 sv signer of None \<Rightarrow> Inl (ErrForeign ''bech32'') | Some a \<Rightarrow> Inr a)"

text \<open>The module that owns a port or a channel, with its capability and its callbacks.\<close>

definition port_module :: "'a server \<Rightarrow> string \<Rightarrow> 'a world \<Rightarrow> (Capability \<times> 'a IBCModule) result" where
  "port_module sv portID w =
     and_then (LookupModuleByPort (caps (ibc_state w)) portID) (\<lambda>(module, portCap).
     and_then (route sv module) (\<lambda>cbs. Inr (portCap, cbs)))"

definition channel_module :: "'a server \<Rightarrow> string \<Rightarrow> string \<Rightarrow> 'a world \<Rightarrow> (Capability \<times> 'a IBCModule) result" where
  "channel_module sv portID channelID w =
     and_then (LookupModuleByChannel (caps (ibc_state w)) portID channelID) (\<lambda>(module, capability).
     and_then (route sv module) (\<lambda>cbs. Inr (capability, cbs)))"

section \<open>Clients and connections\<close>

text \<open>A client state, consensus state or client message that does not unpack is \<open>None\<close>.\<close>

definition unpack :: "'b option \<Rightarrow> 'b result" where
  "unpack x = (case x of None \<Rightarrow> Inl ibcerrors_ErrUnpackAny | Some y \<Rightarrow> Inr y)"

definition msg_CreateClient :: "sdk_context \<Rightarrow> ClientState option \<Rightarrow> ConsensusState option \<Rightarrow> 'a world \<Rightarrow> 'a world result" where
  "msg_CreateClient ctx clientState consensusState w =
     and_then (unpack clientState) (\<lambda>cs.
     and_then (unpack consensusState) (\<lambda>cons.
     and_then (CreateClient ctx cs cons (core (ibc_state w))) (\<lambda>(clientID, s).
     Inr (w\<lparr>ibc_state := (ibc_state w)\<lparr>core := s\<rparr>\<rparr>))))"

definition msg_UpdateClient :: "'a server \<Rightarrow> sdk_context \<Rightarrow> string \<Rightarrow> ClientMessage option \<Rightarrow> 'a world \<Rightarrow> 'a world result" where
  "msg_UpdateClient sv ctx clientID clientMessage w =
     and_then (unpack clientMessage) (\<lambda>clientMsg.
     and_then (UpdateClient (srv_lib sv) ctx clientID clientMsg (core (ibc_state w))) (\<lambda>s.
     Inr (w\<lparr>ibc_state := (ibc_state w)\<lparr>core := s\<rparr>\<rparr>)))"

definition msg_UpgradeClient ::
  "'a server \<Rightarrow> sdk_context \<Rightarrow> string \<Rightarrow> ClientState option \<Rightarrow> ConsensusState option \<Rightarrow> bytes \<Rightarrow> bytes \<Rightarrow> 'a world \<Rightarrow> 'a world result" where
  "msg_UpgradeClient sv ctx clientID clientState consensusState proofUpgradeClient proofUpgradeConsState w =
     and_then (unpack clientState) (\<lambda>upgradedClient.
     and_then (unpack consensusState) (\<lambda>upgradedConsState.
     and_then (UpgradeClient (srv_lib sv) ctx clientID upgradedClient upgradedConsState proofUpgradeClient
                proofUpgradeConsState (core (ibc_state w))) (\<lambda>s.
     Inr (w\<lparr>ibc_state := (ibc_state w)\<lparr>core := s\<rparr>\<rparr>))))"

definition msg_SubmitMisbehaviour :: "'a server \<Rightarrow> sdk_context \<Rightarrow> string \<Rightarrow> ClientMessage option \<Rightarrow> 'a world \<Rightarrow> 'a world result" where
  "msg_SubmitMisbehaviour sv ctx clientID misbehaviour w =
     and_then (unpack misbehaviour) (\<lambda>clientMsg.
     and_then (UpdateClient (srv_lib sv) ctx clientID clientMsg (core (ibc_state w))) (\<lambda>s.
     Inr (w\<lparr>ibc_state := (ibc_state w)\<lparr>core := s\<rparr>\<rparr>)))"

definition msg_ConnectionOpenInit :: "sdk_context \<Rightarrow> MsgConnectionOpenInit \<Rightarrow> 'a world \<Rightarrow> 'a world result" where
  "msg_ConnectionOpenInit ctx msg w =
     and_then (ConnOpenInit ctx (noi_ClientId msg) (noi_Counterparty msg) (noi_Version msg) (noi_DelayPeriod msg)
                (core (ibc_state w))) (\<lambda>(connectionID, s).
     Inr (w\<lparr>ibc_state := (ibc_state w)\<lparr>core := s\<rparr>\<rparr>))"

definition msg_ConnectionOpenTry :: "'a server \<Rightarrow> sdk_context \<Rightarrow> MsgConnectionOpenTry \<Rightarrow> 'a world \<Rightarrow> 'a world result" where
  "msg_ConnectionOpenTry sv ctx msg w =
     and_then (unpack (not_ClientState msg)) (\<lambda>targetClient.
     and_then (ConnOpenTry (srv_lib sv) ctx (not_Counterparty msg) (not_DelayPeriod msg) (not_ClientId msg) targetClient
                (not_CounterpartyVersions msg) (not_ProofInit msg) (not_ProofClient msg) (not_ProofConsensus msg)
                (not_ProofHeight msg) (not_ConsensusHeight msg) (core (ibc_state w))) (\<lambda>(connectionID, s).
     Inr (w\<lparr>ibc_state := (ibc_state w)\<lparr>core := s\<rparr>\<rparr>)))"

text \<open>A nil version of \<open>MsgConnectionOpenAck\<close> is refused by \<open>ValidateBasic\<close>; the handler would dereference it.\<close>

definition msg_ConnectionOpenAck :: "'a server \<Rightarrow> sdk_context \<Rightarrow> MsgConnectionOpenAck \<Rightarrow> 'a world \<Rightarrow> 'a world result" where
  "msg_ConnectionOpenAck sv ctx msg w =
     and_then (unpack (noa_ClientState msg)) (\<lambda>targetClient.
     case noa_Version msg of
       None \<Rightarrow> Inl (Panic ''nil pointer dereference'')
     | Some version \<Rightarrow>
         and_then (ConnOpenAck (srv_lib sv) ctx (noa_ConnectionId msg) targetClient version
                    (noa_CounterpartyConnectionId msg) (noa_ProofTry msg) (noa_ProofClient msg) (noa_ProofConsensus msg)
                    (noa_ProofHeight msg) (noa_ConsensusHeight msg) (core (ibc_state w))) (\<lambda>s.
         Inr (w\<lparr>ibc_state := (ibc_state w)\<lparr>core := s\<rparr>\<rparr>)))"

definition msg_ConnectionOpenConfirm :: "'a server \<Rightarrow> sdk_context \<Rightarrow> MsgConnectionOpenConfirm \<Rightarrow> 'a world \<Rightarrow> 'a world result" where
  "msg_ConnectionOpenConfirm sv ctx msg w =
     and_then (ConnOpenConfirm (srv_lib sv) ctx (noc_ConnectionId msg) (noc_ProofAck msg) (noc_ProofHeight msg)
                (core (ibc_state w))) (\<lambda>s.
     Inr (w\<lparr>ibc_state := (ibc_state w)\<lparr>core := s\<rparr>\<rparr>))"

section \<open>Channels\<close>

text \<open>\<open>addr\<close> is the address at which the runtime places a new capability object.\<close>

definition msg_ChannelOpenInit ::
  "'a server \<Rightarrow> sdk_context \<Rightarrow> u64 \<Rightarrow> MsgChannelOpenInit \<Rightarrow> 'a world \<Rightarrow> ((string \<times> string) \<times> 'a world) result" where
  "msg_ChannelOpenInit sv ctx addr msg w =
     and_then (port_module sv (coi_PortId msg) w) (\<lambda>(portCap, cbs).
     let ch = coi_Channel msg in
     and_then (ChanOpenInit ctx addr (ch_Ordering ch) (ch_ConnectionHops ch) (coi_PortId msg) (Some portCap)
                (ch_Counterparty ch) (ch_Version ch) (ibc_state w)) (\<lambda>(channelID, capability, st).
     and_then (OnChanOpenInit cbs ctx (ch_Ordering ch) (ch_ConnectionHops ch) (coi_PortId msg) channelID (Some capability)
                (ch_Counterparty ch) (ch_Version ch) (w\<lparr>ibc_state := st\<rparr>)) (\<lambda>(version, w1).
     Inr ((channelID, version), w1\<lparr>ibc_state := (ibc_state w1)\<lparr>core := WriteOpenInitChannel (coi_PortId msg) channelID
            (ch_Ordering ch) (ch_ConnectionHops ch) (ch_Counterparty ch) version (core (ibc_state w1))\<rparr>\<rparr>))))"

definition msg_ChannelOpenTry ::
  "'a server \<Rightarrow> sdk_context \<Rightarrow> u64 \<Rightarrow> MsgChannelOpenTry \<Rightarrow> 'a world \<Rightarrow> ((string \<times> string) \<times> 'a world) result" where
  "msg_ChannelOpenTry sv ctx addr msg w =
     and_then (port_module sv (cot_PortId msg) w) (\<lambda>(portCap, cbs).
     let ch = cot_Channel msg in
     and_then (ChanOpenTry (srv_lib sv) ctx addr (ch_Ordering ch) (ch_ConnectionHops ch) (cot_PortId msg) (Some portCap)
                (ch_Counterparty ch) (cot_CounterpartyVersion msg) (cot_ProofInit msg) (cot_ProofHeight msg)
                (ibc_state w)) (\<lambda>(channelID, capability, st).
     and_then (OnChanOpenTry cbs ctx (ch_Ordering ch) (ch_ConnectionHops ch) (cot_PortId msg) channelID (Some capability)
                (ch_Counterparty ch) (cot_CounterpartyVersion msg) (w\<lparr>ibc_state := st\<rparr>)) (\<lambda>(version, w1).
     Inr ((channelID, version), w1\<lparr>ibc_state := (ibc_state w1)\<lparr>core := WriteOpenTryChannel (cot_PortId msg) channelID
            (ch_Ordering ch) (ch_ConnectionHops ch) (ch_Counterparty ch) version (core (ibc_state w1))\<rparr>\<rparr>))))"

definition msg_ChannelOpenAck :: "'a server \<Rightarrow> sdk_context \<Rightarrow> MsgChannelOpenAck \<Rightarrow> 'a world \<Rightarrow> 'a world result" where
  "msg_ChannelOpenAck sv ctx msg w =
     and_then (channel_module sv (coa_PortId msg) (coa_ChannelId msg) w) (\<lambda>(capability, cbs).
     and_then (ChanOpenAck (srv_lib sv) ctx (coa_PortId msg) (coa_ChannelId msg) (Some capability)
                (coa_CounterpartyVersion msg) (coa_CounterpartyChannelId msg) (coa_ProofTry msg) (coa_ProofHeight msg)
                (ibc_state w)) (\<lambda>st.
     and_then (WriteOpenAckChannel (coa_PortId msg) (coa_ChannelId msg) (coa_CounterpartyVersion msg)
                (coa_CounterpartyChannelId msg) (core st)) (\<lambda>s.
     OnChanOpenAck cbs ctx (coa_PortId msg) (coa_ChannelId msg) (coa_CounterpartyChannelId msg)
       (coa_CounterpartyVersion msg) (w\<lparr>ibc_state := st\<lparr>core := s\<rparr>\<rparr>))))"

definition msg_ChannelOpenConfirm :: "'a server \<Rightarrow> sdk_context \<Rightarrow> MsgChannelOpenConfirm \<Rightarrow> 'a world \<Rightarrow> 'a world result" where
  "msg_ChannelOpenConfirm sv ctx msg w =
     and_then (channel_module sv (coc_PortId msg) (coc_ChannelId msg) w) (\<lambda>(capability, cbs).
     and_then (ChanOpenConfirm (srv_lib sv) ctx (coc_PortId msg) (coc_ChannelId msg) (Some capability)
                (coc_ProofAck msg) (coc_ProofHeight msg) (ibc_state w)) (\<lambda>st.
     and_then (WriteOpenConfirmChannel (coc_PortId msg) (coc_ChannelId msg) (core st)) (\<lambda>s.
     OnChanOpenConfirm cbs ctx (coc_PortId msg) (coc_ChannelId msg) (w\<lparr>ibc_state := st\<lparr>core := s\<rparr>\<rparr>))))"

definition msg_ChannelCloseInit :: "'a server \<Rightarrow> sdk_context \<Rightarrow> MsgChannelCloseInit \<Rightarrow> 'a world \<Rightarrow> 'a world result" where
  "msg_ChannelCloseInit sv ctx msg w =
     and_then (channel_module sv (cci_PortId msg) (cci_ChannelId msg) w) (\<lambda>(capability, cbs).
     and_then (OnChanCloseInit cbs ctx (cci_PortId msg) (cci_ChannelId msg) w) (\<lambda>w1.
     and_then (ChanCloseInit ctx (cci_PortId msg) (cci_ChannelId msg) (Some capability) (ibc_state w1)) (\<lambda>st.
     Inr (w1\<lparr>ibc_state := st\<rparr>))))"

definition msg_ChannelCloseConfirm :: "'a server \<Rightarrow> sdk_context \<Rightarrow> MsgChannelCloseConfirm \<Rightarrow> 'a world \<Rightarrow> 'a world result" where
  "msg_ChannelCloseConfirm sv ctx msg w =
     and_then (channel_module sv (ccc_PortId msg) (ccc_ChannelId msg) w) (\<lambda>(capability, cbs).
     and_then (OnChanCloseConfirm cbs ctx (ccc_PortId msg) (ccc_ChannelId msg) w) (\<lambda>w1.
     and_then (ChanCloseConfirm (srv_lib sv) ctx (ccc_PortId msg) (ccc_ChannelId msg) (Some capability)
                (ccc_ProofInit msg) (ccc_ProofHeight msg) (ibc_state w1)) (\<lambda>st.
     Inr (w1\<lparr>ibc_state := st\<rparr>))))"

section \<open>Packets\<close>

text \<open>
  The verification of a packet message runs on a cached context: the error \<open>ErrNoOpMsg\<close> is turned into
  the response NOOP, and the state is that before the call.
\<close>

definition tao :: "ibc result \<Rightarrow> 'a world \<Rightarrow> ('a world \<Rightarrow> (ResponseResultType \<times> 'a world) result) \<Rightarrow> (ResponseResultType \<times> 'a world) result" where
  "tao r w continue =
     (case r of
        Inr st \<Rightarrow> continue (w\<lparr>ibc_state := st\<rparr>)
      | Inl e \<Rightarrow> if e = channel_ErrNoOpMsg then Inr (NOOP, w) else Inl e)"

text \<open>Dropping the writes of a callback: the Go map of the capability keeper keeps its changes.\<close>

definition discard :: "'a world \<Rightarrow> 'a world \<Rightarrow> 'a world" where
  "discard w w' = w\<lparr>ibc_state := (ibc_state w)\<lparr>caps := (caps (ibc_state w))\<lparr>capMap := capMap (caps (ibc_state w'))\<rparr>\<rparr>\<rparr>"

text \<open>The application's changes are kept for an asynchronous and for a successful acknowledgement.\<close>

definition after_callback :: "'a world \<Rightarrow> app_ack option \<Rightarrow> 'a world \<Rightarrow> 'a world" where
  "after_callback w1 ack w2 =
     (case ack of None \<Rightarrow> w2 | Some a \<Rightarrow> if ack_Success a then w2 else discard w1 w2)"

definition msg_RecvPacket :: "'a server \<Rightarrow> sdk_context \<Rightarrow> MsgRecvPacket \<Rightarrow> 'a world \<Rightarrow> (ResponseResultType \<times> 'a world) result" where
  "msg_RecvPacket sv ctx msg w =
     (let packet = rp_Packet msg in
      and_then (relayer_of sv (rp_Signer msg)) (\<lambda>relayer.
      and_then (channel_module sv (DestinationPort packet) (DestinationChannel packet) w) (\<lambda>(capability, cbs).
      tao (RecvPacket (srv_lib sv) ctx (Some capability) packet (rp_ProofCommitment msg) (rp_ProofHeight msg) (ibc_state w)) w (\<lambda>w1.
      and_then (OnRecvPacket cbs ctx packet relayer w1) (\<lambda>(ack, w2).
      let w3 = after_callback w1 ack w2 in
      case ack of
        None \<Rightarrow> Inr (SUCCESS, w3)
      | Some a \<Rightarrow>
          and_then (WriteAcknowledgement (Some capability) packet (Some (ack_Acknowledgement a)) (ibc_state w3)) (\<lambda>st.
          Inr (SUCCESS, w3\<lparr>ibc_state := st\<rparr>)))))))"

definition msg_Timeout :: "'a server \<Rightarrow> sdk_context \<Rightarrow> MsgTimeout \<Rightarrow> 'a world \<Rightarrow> (ResponseResultType \<times> 'a world) result" where
  "msg_Timeout sv ctx msg w =
     (let packet = to_Packet msg in
      and_then (relayer_of sv (to_Signer msg)) (\<lambda>relayer.
      and_then (channel_module sv (SourcePort packet) (SourceChannel packet) w) (\<lambda>(capability, cbs).
      tao (TimeoutPacket (srv_lib sv) ctx packet (to_ProofUnreceived msg) (to_ProofHeight msg) (to_NextSequenceRecv msg)
            (ibc_state w)) w (\<lambda>w1.
      and_then (OnTimeoutPacket cbs ctx packet relayer w1) (\<lambda>w2.
      and_then (TimeoutExecuted (Some capability) packet (ibc_state w2)) (\<lambda>st.
      Inr (SUCCESS, w2\<lparr>ibc_state := st\<rparr>)))))))"

definition msg_TimeoutOnClose :: "'a server \<Rightarrow> sdk_context \<Rightarrow> MsgTimeoutOnClose \<Rightarrow> 'a world \<Rightarrow> (ResponseResultType \<times> 'a world) result" where
  "msg_TimeoutOnClose sv ctx msg w =
     (let packet = toc_Packet msg in
      and_then (relayer_of sv (toc_Signer msg)) (\<lambda>relayer.
      and_then (channel_module sv (SourcePort packet) (SourceChannel packet) w) (\<lambda>(capability, cbs).
      tao (TimeoutOnClose (srv_lib sv) ctx (Some capability) packet (toc_ProofUnreceived msg) (toc_ProofClose msg)
            (toc_ProofHeight msg) (toc_NextSequenceRecv msg) (ibc_state w)) w (\<lambda>w1.
      and_then (OnTimeoutPacket cbs ctx packet relayer w1) (\<lambda>w2.
      and_then (TimeoutExecuted (Some capability) packet (ibc_state w2)) (\<lambda>st.
      Inr (SUCCESS, w2\<lparr>ibc_state := st\<rparr>)))))))"

definition msg_Acknowledgement :: "'a server \<Rightarrow> sdk_context \<Rightarrow> MsgAcknowledgement \<Rightarrow> 'a world \<Rightarrow> (ResponseResultType \<times> 'a world) result" where
  "msg_Acknowledgement sv ctx msg w =
     (let packet = ma_Packet msg in
      and_then (relayer_of sv (ma_Signer msg)) (\<lambda>relayer.
      and_then (channel_module sv (SourcePort packet) (SourceChannel packet) w) (\<lambda>(capability, cbs).
      tao (AcknowledgePacket (srv_lib sv) ctx (Some capability) packet (ma_Acknowledgement msg) (ma_ProofAcked msg)
            (ma_ProofHeight msg) (ibc_state w)) w (\<lambda>w1.
      and_then (OnAcknowledgementPacket cbs ctx packet (ma_Acknowledgement msg) relayer w1) (\<lambda>w2.
      Inr (SUCCESS, w2))))))"

section \<open>Parameters\<close>

definition msg_UpdateClientParams :: "'a server \<Rightarrow> string \<Rightarrow> string list \<Rightarrow> 'a world \<Rightarrow> 'a world result" where
  "msg_UpdateClientParams sv authority allowedClients w =
     (if srv_authority sv \<noteq> authority then Inl ibcerrors_ErrUnauthorized
      else Inr (w\<lparr>ibc_state := (ibc_state w)\<lparr>core := SetClientParams allowedClients (core (ibc_state w))\<rparr>\<rparr>))"

definition msg_UpdateConnectionParams :: "'a server \<Rightarrow> string \<Rightarrow> u64 \<Rightarrow> 'a world \<Rightarrow> 'a world result" where
  "msg_UpdateConnectionParams sv authority maxExpectedTimePerBlock w =
     (if srv_authority sv \<noteq> authority then Inl ibcerrors_ErrUnauthorized
      else Inr (w\<lparr>ibc_state := (ibc_state w)\<lparr>core := SetConnectionParams maxExpectedTimePerBlock (core (ibc_state w))\<rparr>\<rparr>))"

end
