(* ===== verification/Msg_Run.thy ===== *)
theory Msg_Run
  imports Msg_Server
begin

text \<open>
  Runs of the message server. The contract of an application is a locale: whatever a callback does to
  the ibc state, it does through the keepers. Under that contract every handler is a run of the
  channel keeper, so that the guarantees of \<open>Packet_Life\<close> hold for whole transactions, and the
  application sees a packet, its acknowledgement or its timeout at most once.
\<close>

section \<open>Client and connection messages leave the channels alone\<close>

lemma UpgradeClient_writes:
  assumes "UpgradeClient lib ctx cid up upc p1 p2 s = Inr t"
  shows "client_writes cid s t"
proof -
  from assms obtain cs where "Client_VerifyUpgradeAndUpdateState lib ctx cid (TendermintClient cs) up upc p1 p2 s = Inr t"
    by (auto simp: UpgradeClient_def split: option.splits if_splits elim!: Client_VerifyUpgradeAndUpdateState.elims)
  then obtain h tc tn s1 where "setConsensusMetadata ctx cid h s1 = Inr t"
    "s1 = tm_setConsensusState cid tn h (tm_setClientState cid tc s)"
    by (auto simp: tm_VerifyUpgradeAndUpdateState_def tm_NewClientState_def Let_def
        split: if_splits option.splits ClientState.splits ConsensusState.splits)
  then show ?thesis
    by (auto simp: client_set_defs intro!: client_writes_intros elim!: setConsensusMetadata_writes [rotated])
qed

lemma CreateClient_frame:
  assumes "CreateClient ctx cs cons s = Inr (i, t)"
  shows "chan_frame s t"
proof -
  from assms obtain n where t: "Client_Initialize ctx i cs (Some cons) (SetNextClientSequence n s) = Inr t"
    by (auto simp: CreateClient_def GenerateClientIdentifier_def split: if_splits)
  have "chan_frame s (SetNextClientSequence n s)"
    unfolding SetNextClientSequence_def by (rule chan_frame_set) (simp add: other_segs_def path_simps)
  then show ?thesis by (rule chan_frame_trans) (rule core_eq_frame [OF client_writes_core [OF Initialize_writes [OF t]]])
qed

lemmas client_update_frames =
  core_eq_frame [OF client_writes_core [OF UpdateClient_writes]] core_eq_frame [OF client_writes_core [OF UpgradeClient_writes]]

lemma conn_write_frames:
  "GenerateConnectionIdentifier s = Inr (i, t) \<Longrightarrow> chan_frame s t" "chan_frame s (SetConnection i c s)"
  by (auto simp: GenerateConnectionIdentifier_Inr set_defs other_segs_def path_simps intro!: chan_frame_set)

lemma conn_added_frame:
  assumes "GenerateConnectionIdentifier s = Inr (i, s1)" and "core_eq s1 s2"
  shows "chan_frame s (SetConnection i c s2)"
  by (rule chan_frame_trans [OF chan_frame_trans [OF conn_write_frames(1) [OF assms(1)] core_eq_frame [OF assms(2)]]
    conn_write_frames(2)])

lemma conn_changed_frame: "core_eq s s1 \<Longrightarrow> chan_frame s (SetConnection i c s1)"
  by (rule chan_frame_trans [OF core_eq_frame conn_write_frames(2)])

lemma ConnOpenInit_frame: "ConnOpenInit ctx cid cp v d s = Inr (i, t) \<Longrightarrow> chan_frame s t"
  unfolding ConnOpenInit_def
  by (auto split: if_splits option.splits dest: addConnectionToClient_core intro: conn_added_frame)

lemma ConnOpenTry_frame: "ConnOpenTry lib ctx cp d cid cs vs p1 p2 p3 h ch s = Inr (i, t) \<Longrightarrow> chan_frame s t"
  unfolding ConnOpenTry_def Let_def
  by (auto split: if_splits dest!: verify_core addConnectionToClient_core intro!: conn_added_frame intro: core_eq_trans)

lemma ConnOpenAck_frame: "ConnOpenAck lib ctx i cs v ci p1 p2 p3 h ch s = Inr t \<Longrightarrow> chan_frame s t"
  unfolding ConnOpenAck_def Let_def
  by (auto split: if_splits option.splits dest!: verify_core intro!: conn_changed_frame intro: core_eq_trans)

lemma ConnOpenConfirm_frame: "ConnOpenConfirm lib ctx i pf h s = Inr t \<Longrightarrow> chan_frame s t"
  unfolding ConnOpenConfirm_def Let_def
  by (auto split: if_splits option.splits dest!: verify_core intro!: conn_changed_frame)

section \<open>The contract of an application\<close>

locale ibc_application =
  fixes lib :: lib
    and cbs :: "'a IBCModule"
  assumes open_init: "OnChanOpenInit cbs ctx ord hops p c k cp v w = Inr (v', w') \<Longrightarrow> chan_run lib (ibc_state w) (ibc_state w')"
    and open_try: "OnChanOpenTry cbs ctx ord hops p c k cp v w = Inr (v', w') \<Longrightarrow> chan_run lib (ibc_state w) (ibc_state w')"
    and open_ack: "OnChanOpenAck cbs ctx p c i v w = Inr w' \<Longrightarrow> chan_run lib (ibc_state w) (ibc_state w')"
    and open_confirm: "OnChanOpenConfirm cbs ctx p c w = Inr w' \<Longrightarrow> chan_run lib (ibc_state w) (ibc_state w')"
    and close_init: "OnChanCloseInit cbs ctx p c w = Inr w' \<Longrightarrow> chan_run lib (ibc_state w) (ibc_state w')"
    and close_confirm: "OnChanCloseConfirm cbs ctx p c w = Inr w' \<Longrightarrow> chan_run lib (ibc_state w) (ibc_state w')"
    and recv: "OnRecvPacket cbs ctx pkt r w = Inr (a, w') \<Longrightarrow> chan_run lib (ibc_state w) (ibc_state w')"
    and acknowledge: "OnAcknowledgementPacket cbs ctx pkt bz r w = Inr w' \<Longrightarrow> chan_run lib (ibc_state w) (ibc_state w')"
    and timeout: "OnTimeoutPacket cbs ctx pkt r w = Inr w' \<Longrightarrow> chan_run lib (ibc_state w) (ibc_state w')"
begin

lemma recv_run:
  assumes "no_wrap (ibc_state w)" and "RecvPacket lib ctx k pkt pf h (ibc_state w) = Inr st"
    and "OnRecvPacket cbs ctx pkt r (w\<lparr>ibc_state := st\<rparr>) = Inr (a, w')"
  shows "chan_run lib (ibc_state w) st" and "chan_run lib st (ibc_state (after_callback (w\<lparr>ibc_state := st\<rparr>) a w'))"
proof -
  show "chan_run lib (ibc_state w) st" by (rule run_next [OF run_refl step_recv [OF assms(1,2)]])
  have "chan_run lib st (ibc_state (discard (w\<lparr>ibc_state := st\<rparr>) w'))"
    by (rule run_next [OF run_refl step_others]) (simp add: discard_def)
  with recv [OF assms(3)] show "chan_run lib st (ibc_state (after_callback (w\<lparr>ibc_state := st\<rparr>) a w'))"
    by (simp add: after_callback_def split: option.split)
qed

lemma acknowledge_run:
  assumes "no_wrap (ibc_state w)" and "AcknowledgePacket lib ctx k pkt bz pf h (ibc_state w) = Inr st"
    and "OnAcknowledgementPacket cbs ctx pkt bz r (w\<lparr>ibc_state := st\<rparr>) = Inr w'"
  shows "chan_run lib (ibc_state w) (ibc_state w')"
  using run_append [OF run_next [OF run_refl step_acknowledge [OF assms(1,2)]]] acknowledge [OF assms(3)] by simp

lemma timeout_run:
  assumes "chan_step lib (ibc_state w) st" and "OnTimeoutPacket cbs ctx pkt r (w\<lparr>ibc_state := st\<rparr>) = Inr w'"
    and "TimeoutExecuted k pkt (ibc_state w') = Inr st'"
  shows "chan_run lib (ibc_state w) st'"
  using run_next [OF run_append [OF run_next [OF run_refl assms(1)]] step_timeout_executed [OF assms(3)]] timeout [OF assms(2)] by simp

end

text \<open>Every module the router knows keeps the contract.\<close>

definition routes_ok :: "'a server \<Rightarrow> bool" where
  "routes_ok sv = (\<forall>m cbs. GetRoute (srv_Router sv) m = Some cbs \<longrightarrow> ibc_application (srv_lib sv) cbs)"

lemma channel_module_app: "routes_ok sv \<Longrightarrow> channel_module sv p c w = Inr (k, cbs) \<Longrightarrow> ibc_application (srv_lib sv) cbs"
  by (auto simp: channel_module_def route_def routes_ok_def split: option.splits)

lemma port_module_app: "routes_ok sv \<Longrightarrow> port_module sv p w = Inr (k, cbs) \<Longrightarrow> ibc_application (srv_lib sv) cbs"
  by (auto simp: port_module_def route_def routes_ok_def split: option.splits)

section \<open>Handlers are runs of the channel keeper\<close>

lemma msg_ChannelOpen_runs:
  assumes ok: "routes_ok sv" and nw: "no_wrap (ibc_state w)"
  shows "msg_ChannelOpenInit sv ctx addr m1 w = Inr (r, w') \<Longrightarrow> chan_run (srv_lib sv) (ibc_state w) (ibc_state w')"
    and "msg_ChannelOpenTry sv ctx addr m2 w = Inr (r, w') \<Longrightarrow> chan_run (srv_lib sv) (ibc_state w) (ibc_state w')"
proof -
  show "chan_run (srv_lib sv) (ibc_state w) (ibc_state w')" if m: "msg_ChannelOpenInit sv ctx addr m1 w = Inr (r, w')"
  proof -
    from m obtain k cbs i cap st v w1 where pm: "port_module sv (coi_PortId m1) w = Inr (k, cbs)"
      and o: "ChanOpenInit ctx addr (ch_Ordering (coi_Channel m1)) (ch_ConnectionHops (coi_Channel m1)) (coi_PortId m1) (Some k)
        (ch_Counterparty (coi_Channel m1)) (ch_Version (coi_Channel m1)) (ibc_state w) = Inr (i, cap, st)"
      and cb: "OnChanOpenInit cbs ctx (ch_Ordering (coi_Channel m1)) (ch_ConnectionHops (coi_Channel m1)) (coi_PortId m1) i (Some cap)
        (ch_Counterparty (coi_Channel m1)) (ch_Version (coi_Channel m1)) (w\<lparr>ibc_state := st\<rparr>) = Inr (v, w1)"
      and w': "ibc_state w' = (ibc_state w1)\<lparr>core := WriteOpenInitChannel (coi_PortId m1) i (ch_Ordering (coi_Channel m1))
        (ch_ConnectionHops (coi_Channel m1)) (ch_Counterparty (coi_Channel m1)) v (core (ibc_state w1))\<rparr>"
      by (auto simp: msg_ChannelOpenInit_def Let_def)
    have "chan_run (srv_lib sv) st (ibc_state w1)" using ibc_application.open_init [OF port_module_app [OF ok pm] cb] by simp
    from run_next [OF run_refl step_open_init [OF nw o this]] show ?thesis unfolding w' .
  qed
  show "chan_run (srv_lib sv) (ibc_state w) (ibc_state w')" if m: "msg_ChannelOpenTry sv ctx addr m2 w = Inr (r, w')"
  proof -
    from m obtain k cbs i cap st v w1 where pm: "port_module sv (cot_PortId m2) w = Inr (k, cbs)"
      and o: "ChanOpenTry (srv_lib sv) ctx addr (ch_Ordering (cot_Channel m2)) (ch_ConnectionHops (cot_Channel m2)) (cot_PortId m2) (Some k)
        (ch_Counterparty (cot_Channel m2)) (cot_CounterpartyVersion m2) (cot_ProofInit m2) (cot_ProofHeight m2) (ibc_state w) = Inr (i, cap, st)"
      and cb: "OnChanOpenTry cbs ctx (ch_Ordering (cot_Channel m2)) (ch_ConnectionHops (cot_Channel m2)) (cot_PortId m2) i (Some cap)
        (ch_Counterparty (cot_Channel m2)) (cot_CounterpartyVersion m2) (w\<lparr>ibc_state := st\<rparr>) = Inr (v, w1)"
      and w': "ibc_state w' = (ibc_state w1)\<lparr>core := WriteOpenTryChannel (cot_PortId m2) i (ch_Ordering (cot_Channel m2))
        (ch_ConnectionHops (cot_Channel m2)) (ch_Counterparty (cot_Channel m2)) v (core (ibc_state w1))\<rparr>"
      by (auto simp: msg_ChannelOpenTry_def Let_def)
    have "chan_run (srv_lib sv) st (ibc_state w1)" using ibc_application.open_try [OF port_module_app [OF ok pm] cb] by simp
    from run_next [OF run_refl step_open_try [OF nw o this]] show ?thesis unfolding w' .
  qed
qed

lemma msg_Channel_runs:
  assumes ok: "routes_ok sv"
  shows "msg_ChannelOpenAck sv ctx m1 w = Inr w' \<Longrightarrow> chan_run (srv_lib sv) (ibc_state w) (ibc_state w')"
    and "msg_ChannelOpenConfirm sv ctx m2 w = Inr w' \<Longrightarrow> chan_run (srv_lib sv) (ibc_state w) (ibc_state w')"
    and "msg_ChannelCloseInit sv ctx m3 w = Inr w' \<Longrightarrow> chan_run (srv_lib sv) (ibc_state w) (ibc_state w')"
    and "msg_ChannelCloseConfirm sv ctx m4 w = Inr w' \<Longrightarrow> chan_run (srv_lib sv) (ibc_state w) (ibc_state w')"
proof -
  show "chan_run (srv_lib sv) (ibc_state w) (ibc_state w')" if m: "msg_ChannelOpenAck sv ctx m1 w = Inr w'"
  proof -
    from m obtain k cbs st s where c: "channel_module sv (coa_PortId m1) (coa_ChannelId m1) w = Inr (k, cbs)"
      and a: "ChanOpenAck (srv_lib sv) ctx (coa_PortId m1) (coa_ChannelId m1) (Some k) (coa_CounterpartyVersion m1)
        (coa_CounterpartyChannelId m1) (coa_ProofTry m1) (coa_ProofHeight m1) (ibc_state w) = Inr st"
      and wr: "WriteOpenAckChannel (coa_PortId m1) (coa_ChannelId m1) (coa_CounterpartyVersion m1) (coa_CounterpartyChannelId m1) (core st) = Inr s"
      and cb: "OnChanOpenAck cbs ctx (coa_PortId m1) (coa_ChannelId m1) (coa_CounterpartyChannelId m1) (coa_CounterpartyVersion m1)
        (w\<lparr>ibc_state := st\<lparr>core := s\<rparr>\<rparr>) = Inr w'"
      by (auto simp: msg_ChannelOpenAck_def)
    show ?thesis
      using run_append [OF run_next [OF run_refl step_open_ack [OF a wr]]] ibc_application.open_ack [OF channel_module_app [OF ok c] cb] by simp
  qed
  show "chan_run (srv_lib sv) (ibc_state w) (ibc_state w')" if m: "msg_ChannelOpenConfirm sv ctx m2 w = Inr w'"
  proof -
    from m obtain k cbs st s where c: "channel_module sv (coc_PortId m2) (coc_ChannelId m2) w = Inr (k, cbs)"
      and a: "ChanOpenConfirm (srv_lib sv) ctx (coc_PortId m2) (coc_ChannelId m2) (Some k) (coc_ProofAck m2) (coc_ProofHeight m2) (ibc_state w) = Inr st"
      and wr: "WriteOpenConfirmChannel (coc_PortId m2) (coc_ChannelId m2) (core st) = Inr s"
      and cb: "OnChanOpenConfirm cbs ctx (coc_PortId m2) (coc_ChannelId m2) (w\<lparr>ibc_state := st\<lparr>core := s\<rparr>\<rparr>) = Inr w'"
      by (auto simp: msg_ChannelOpenConfirm_def)
    show ?thesis
      using run_append [OF run_next [OF run_refl step_open_confirm [OF a wr]]] ibc_application.open_confirm [OF channel_module_app [OF ok c] cb] by simp
  qed
  show "chan_run (srv_lib sv) (ibc_state w) (ibc_state w')" if m: "msg_ChannelCloseInit sv ctx m3 w = Inr w'"
  proof -
    from m obtain k cbs w1 st where c: "channel_module sv (cci_PortId m3) (cci_ChannelId m3) w = Inr (k, cbs)"
      and cb: "OnChanCloseInit cbs ctx (cci_PortId m3) (cci_ChannelId m3) w = Inr w1"
      and a: "ChanCloseInit ctx (cci_PortId m3) (cci_ChannelId m3) (Some k) (ibc_state w1) = Inr st" and "w' = w1\<lparr>ibc_state := st\<rparr>"
      by (auto simp: msg_ChannelCloseInit_def)
    then show ?thesis using run_next [OF ibc_application.close_init [OF channel_module_app [OF ok c] cb] step_close_init [OF a]] by simp
  qed
  show "chan_run (srv_lib sv) (ibc_state w) (ibc_state w')" if m: "msg_ChannelCloseConfirm sv ctx m4 w = Inr w'"
  proof -
    from m obtain k cbs w1 st where c: "channel_module sv (ccc_PortId m4) (ccc_ChannelId m4) w = Inr (k, cbs)"
      and cb: "OnChanCloseConfirm cbs ctx (ccc_PortId m4) (ccc_ChannelId m4) w = Inr w1"
      and a: "ChanCloseConfirm (srv_lib sv) ctx (ccc_PortId m4) (ccc_ChannelId m4) (Some k) (ccc_ProofInit m4) (ccc_ProofHeight m4) (ibc_state w1) = Inr st"
      and "w' = w1\<lparr>ibc_state := st\<rparr>"
      by (auto simp: msg_ChannelCloseConfirm_def)
    then show ?thesis using run_next [OF ibc_application.close_confirm [OF channel_module_app [OF ok c] cb] step_close_confirm [OF a]] by simp
  qed
qed

text \<open>What a packet message with the response SUCCESS did, and that NOOP did nothing.\<close>

lemma tao_Inr:
  "tao r w f = Inr (x, w') \<longleftrightarrow> (\<exists>st. r = Inr st \<and> f (w\<lparr>ibc_state := st\<rparr>) = Inr (x, w')) \<or> r = Inl channel_ErrNoOpMsg \<and> x = NOOP \<and> w' = w"
  by (auto simp: tao_def split: sum.splits)

lemma msg_RecvPacket_noop: "msg_RecvPacket sv ctx msg w = Inr (NOOP, w') \<Longrightarrow> w' = w"
  unfolding msg_RecvPacket_def Let_def by (auto simp: tao_Inr split: option.splits)

lemma msg_RecvPacket_success:
  assumes "msg_RecvPacket sv ctx msg w = Inr (SUCCESS, w')"
  shows "\<exists>r k cbs st a w2. channel_module sv (DestinationPort (rp_Packet msg)) (DestinationChannel (rp_Packet msg)) w = Inr (k, cbs)
    \<and> RecvPacket (srv_lib sv) ctx (Some k) (rp_Packet msg) (rp_ProofCommitment msg) (rp_ProofHeight msg) (ibc_state w) = Inr st
    \<and> OnRecvPacket cbs ctx (rp_Packet msg) r (w\<lparr>ibc_state := st\<rparr>) = Inr (a, w2)
    \<and> (a = None \<and> w' = w2 \<or> (\<exists>ak st'. a = Some ak
         \<and> WriteAcknowledgement (Some k) (rp_Packet msg) (Some (ack_Acknowledgement ak))
             (ibc_state (after_callback (w\<lparr>ibc_state := st\<rparr>) a w2)) = Inr st'
         \<and> w' = (after_callback (w\<lparr>ibc_state := st\<rparr>) a w2)\<lparr>ibc_state := st'\<rparr>))"
proof -
  let ?pkt = "rp_Packet msg"
  from assms obtain r k cbs st a w2 where 1: "channel_module sv (DestinationPort ?pkt) (DestinationChannel ?pkt) w = Inr (k, cbs)"
    "RecvPacket (srv_lib sv) ctx (Some k) ?pkt (rp_ProofCommitment msg) (rp_ProofHeight msg) (ibc_state w) = Inr st"
    "OnRecvPacket cbs ctx ?pkt r (w\<lparr>ibc_state := st\<rparr>) = Inr (a, w2)"
    and 2: "(let w3 = after_callback (w\<lparr>ibc_state := st\<rparr>) a w2 in
      case a of None \<Rightarrow> Inr (SUCCESS, w3)
      | Some a \<Rightarrow> and_then (WriteAcknowledgement (Some k) ?pkt (Some (ack_Acknowledgement a)) (ibc_state w3)) (\<lambda>st.
          Inr (SUCCESS, w3\<lparr>ibc_state := st\<rparr>))) = Inr (SUCCESS, w')"
    unfolding msg_RecvPacket_def Let_def by (auto simp: tao_Inr)
  from 2 have "a = None \<and> w' = w2 \<or> (\<exists>ak st'. a = Some ak
     \<and> WriteAcknowledgement (Some k) ?pkt (Some (ack_Acknowledgement ak)) (ibc_state (after_callback (w\<lparr>ibc_state := st\<rparr>) a w2)) = Inr st'
     \<and> w' = (after_callback (w\<lparr>ibc_state := st\<rparr>) a w2)\<lparr>ibc_state := st'\<rparr>)"
    by (cases a) (auto simp: Let_def after_callback_def)
  with 1 show ?thesis by blast
qed

text \<open>Behind the verification the handler is a run: the callback, kept or dropped, and the acknowledgement.\<close>

lemma msg_RecvPacket_verified:
  assumes ok: "routes_ok sv" and nw: "no_wrap (ibc_state w)" and m: "msg_RecvPacket sv ctx msg w = Inr (SUCCESS, w')"
  shows "\<exists>k st. RecvPacket (srv_lib sv) ctx k (rp_Packet msg) (rp_ProofCommitment msg) (rp_ProofHeight msg) (ibc_state w) = Inr st
    \<and> chan_run (srv_lib sv) (ibc_state w) st \<and> chan_run (srv_lib sv) st (ibc_state w')"
proof -
  let ?pkt = "rp_Packet msg"
  from msg_RecvPacket_success [OF m]
  obtain r k cbs st a w2 where c: "channel_module sv (DestinationPort ?pkt) (DestinationChannel ?pkt) w = Inr (k, cbs)"
    and v: "RecvPacket (srv_lib sv) ctx (Some k) ?pkt (rp_ProofCommitment msg) (rp_ProofHeight msg) (ibc_state w) = Inr st"
    and cb: "OnRecvPacket cbs ctx ?pkt r (w\<lparr>ibc_state := st\<rparr>) = Inr (a, w2)"
    and a: "a = None \<and> w' = w2 \<or> (\<exists>ak st'. a = Some ak
         \<and> WriteAcknowledgement (Some k) ?pkt (Some (ack_Acknowledgement ak)) (ibc_state (after_callback (w\<lparr>ibc_state := st\<rparr>) a w2)) = Inr st'
         \<and> w' = (after_callback (w\<lparr>ibc_state := st\<rparr>) a w2)\<lparr>ibc_state := st'\<rparr>)"
    by blast
  note runs = ibc_application.recv_run [OF channel_module_app [OF ok c] nw v cb]
  from a have "chan_run (srv_lib sv) st (ibc_state w')"
  proof (elim disjE exE conjE)
    assume "a = None" "w' = w2"
    with runs(2) show ?thesis by (simp add: after_callback_def)
  next
    fix ak st'
    assume "WriteAcknowledgement (Some k) ?pkt (Some (ack_Acknowledgement ak)) (ibc_state (after_callback (w\<lparr>ibc_state := st\<rparr>) a w2)) = Inr st'"
      and "w' = (after_callback (w\<lparr>ibc_state := st\<rparr>) a w2)\<lparr>ibc_state := st'\<rparr>"
    with run_next [OF runs(2) step_write_ack] show ?thesis by simp
  qed
  with v runs(1) show ?thesis by blast
qed

lemma msg_RecvPacket_run:
  assumes ok: "routes_ok sv" and nw: "no_wrap (ibc_state w)" and m: "msg_RecvPacket sv ctx msg w = Inr (x, w')"
  shows "chan_run (srv_lib sv) (ibc_state w) (ibc_state w')"
proof (cases x)
  case NOOP
  with msg_RecvPacket_noop m show ?thesis by (fastforce intro: run_refl)
next
  case SUCCESS
  with msg_RecvPacket_verified [OF ok nw] m run_append show ?thesis by fastforce
qed

lemma msg_packet_runs:
  assumes ok: "routes_ok sv"
  shows "msg_Timeout sv ctx m1 w = Inr (x, w') \<Longrightarrow> chan_run (srv_lib sv) (ibc_state w) (ibc_state w')"
    and "msg_TimeoutOnClose sv ctx m2 w = Inr (x, w') \<Longrightarrow> chan_run (srv_lib sv) (ibc_state w) (ibc_state w')"
    and "msg_Acknowledgement sv ctx m3 w = Inr (x, w') \<Longrightarrow> no_wrap (ibc_state w) \<Longrightarrow> chan_run (srv_lib sv) (ibc_state w) (ibc_state w')"
proof -
  show "chan_run (srv_lib sv) (ibc_state w) (ibc_state w')" if m: "msg_Timeout sv ctx m1 w = Inr (x, w')"
    using m unfolding msg_Timeout_def Let_def
    by (auto simp: tao_Inr run_refl elim: ibc_application.timeout_run [OF channel_module_app [OF ok] step_timeout])
  show "chan_run (srv_lib sv) (ibc_state w) (ibc_state w')" if m: "msg_TimeoutOnClose sv ctx m2 w = Inr (x, w')"
    using m unfolding msg_TimeoutOnClose_def Let_def
    by (auto simp: tao_Inr run_refl elim: ibc_application.timeout_run [OF channel_module_app [OF ok] step_timeout_close])
  show "chan_run (srv_lib sv) (ibc_state w) (ibc_state w')" if m: "msg_Acknowledgement sv ctx m3 w = Inr (x, w')" "no_wrap (ibc_state w)"
    using m unfolding msg_Acknowledgement_def Let_def
    by (auto simp: tao_Inr run_refl elim: ibc_application.acknowledge_run [OF channel_module_app [OF ok]])
qed

section \<open>Runs of the message server\<close>

text \<open>
  A step is a message that the chain executes, or a transaction of an application (a send, an
  asynchronous acknowledgement), which changes the ibc state through the keepers.
\<close>

inductive msg_step :: "'a server \<Rightarrow> 'a world \<Rightarrow> 'a world \<Rightarrow> bool"
  for sv
where
  create_client: "msg_CreateClient ctx cs cons w = Inr w' \<Longrightarrow> msg_step sv w w'"
| update_client: "msg_UpdateClient sv ctx i cm w = Inr w' \<Longrightarrow> msg_step sv w w'"
| upgrade_client: "msg_UpgradeClient sv ctx i cso conso p1 p2 w = Inr w' \<Longrightarrow> msg_step sv w w'"
| misbehaviour: "msg_SubmitMisbehaviour sv ctx i cm w = Inr w' \<Longrightarrow> msg_step sv w w'"
| connection_init: "msg_ConnectionOpenInit ctx noi w = Inr w' \<Longrightarrow> msg_step sv w w'"
| connection_try: "msg_ConnectionOpenTry sv ctx nt w = Inr w' \<Longrightarrow> msg_step sv w w'"
| connection_ack: "msg_ConnectionOpenAck sv ctx noa w = Inr w' \<Longrightarrow> msg_step sv w w'"
| connection_confirm: "msg_ConnectionOpenConfirm sv ctx noc w = Inr w' \<Longrightarrow> msg_step sv w w'"
| channel_init: "no_wrap (ibc_state w) \<Longrightarrow> msg_ChannelOpenInit sv ctx addr coi w = Inr (r, w') \<Longrightarrow> msg_step sv w w'"
| channel_try: "no_wrap (ibc_state w) \<Longrightarrow> msg_ChannelOpenTry sv ctx addr cot w = Inr (r, w') \<Longrightarrow> msg_step sv w w'"
| channel_ack: "msg_ChannelOpenAck sv ctx coa w = Inr w' \<Longrightarrow> msg_step sv w w'"
| channel_confirm: "msg_ChannelOpenConfirm sv ctx coc w = Inr w' \<Longrightarrow> msg_step sv w w'"
| channel_close_init: "msg_ChannelCloseInit sv ctx cci w = Inr w' \<Longrightarrow> msg_step sv w w'"
| channel_close_confirm: "msg_ChannelCloseConfirm sv ctx ccc w = Inr w' \<Longrightarrow> msg_step sv w w'"
| recv_packet: "no_wrap (ibc_state w) \<Longrightarrow> msg_RecvPacket sv ctx rp w = Inr (x, w') \<Longrightarrow> msg_step sv w w'"
| timeout_packet: "msg_Timeout sv ctx to w = Inr (x, w') \<Longrightarrow> msg_step sv w w'"
| timeout_on_close: "msg_TimeoutOnClose sv ctx toc w = Inr (x, w') \<Longrightarrow> msg_step sv w w'"
| acknowledge_packet: "no_wrap (ibc_state w) \<Longrightarrow> msg_Acknowledgement sv ctx ma w = Inr (x, w') \<Longrightarrow> msg_step sv w w'"
| client_params: "msg_UpdateClientParams sv au cl w = Inr w' \<Longrightarrow> msg_step sv w w'"
| connection_params: "msg_UpdateConnectionParams sv au t w = Inr w' \<Longrightarrow> msg_step sv w w'"
| application: "chan_run (srv_lib sv) (ibc_state w) (ibc_state w') \<Longrightarrow> msg_step sv w w'"

abbreviation msg_run :: "'a server \<Rightarrow> 'a world \<Rightarrow> 'a world \<Rightarrow> bool" where
  "msg_run sv \<equiv> (msg_step sv)\<^sup>*\<^sup>*"

text \<open>Messages of the client and connection modules.\<close>

lemma msg_ConnectionOpenAck_frame:
  assumes "msg_ConnectionOpenAck sv ctx noa w = Inr w'"
  shows "chan_frame (core (ibc_state w)) (core (ibc_state w'))"
proof -
  from assms obtain cs v s where "ConnOpenAck (srv_lib sv) ctx (noa_ConnectionId noa) cs v (noa_CounterpartyConnectionId noa)
      (noa_ProofTry noa) (noa_ProofClient noa) (noa_ProofConsensus noa) (noa_ProofHeight noa) (noa_ConsensusHeight noa)
      (core (ibc_state w)) = Inr s" "w' = w\<lparr>ibc_state := (ibc_state w)\<lparr>core := s\<rparr>\<rparr>"
    by (auto simp: msg_ConnectionOpenAck_def split: option.splits)
  then show ?thesis using ConnOpenAck_frame by simp
qed

lemma msg_core_frames:
  "msg_CreateClient ctx cs cons w = Inr w' \<Longrightarrow> chan_frame (core (ibc_state w)) (core (ibc_state w'))"
  "msg_UpdateClient sv ctx i cm w = Inr w' \<Longrightarrow> chan_frame (core (ibc_state w)) (core (ibc_state w'))"
  "msg_UpgradeClient sv ctx i cso conso p1 p2 w = Inr w' \<Longrightarrow> chan_frame (core (ibc_state w)) (core (ibc_state w'))"
  "msg_SubmitMisbehaviour sv ctx i cm w = Inr w' \<Longrightarrow> chan_frame (core (ibc_state w)) (core (ibc_state w'))"
  "msg_ConnectionOpenInit ctx noi w = Inr w' \<Longrightarrow> chan_frame (core (ibc_state w)) (core (ibc_state w'))"
  "msg_ConnectionOpenTry sv ctx nt w = Inr w' \<Longrightarrow> chan_frame (core (ibc_state w)) (core (ibc_state w'))"
  "msg_ConnectionOpenConfirm sv ctx noc w = Inr w' \<Longrightarrow> chan_frame (core (ibc_state w)) (core (ibc_state w'))"
  "msg_UpdateClientParams sv au cl w = Inr w' \<Longrightarrow> chan_frame (core (ibc_state w)) (core (ibc_state w'))"
  "msg_UpdateConnectionParams sv au t w = Inr w' \<Longrightarrow> chan_frame (core (ibc_state w)) (core (ibc_state w'))"
  by (auto simp: msg_CreateClient_def msg_UpdateClient_def msg_UpgradeClient_def msg_SubmitMisbehaviour_def
      msg_ConnectionOpenInit_def msg_ConnectionOpenTry_def msg_ConnectionOpenConfirm_def
      msg_UpdateClientParams_def msg_UpdateConnectionParams_def SetClientParams_def SetConnectionParams_def
      other_segs_def path_simps
      split: option.splits if_splits
      intro: CreateClient_frame ConnOpenInit_frame ConnOpenTry_frame ConnOpenConfirm_frame
        client_update_frames intro!: chan_frame_set)

lemma msg_step_run:
  assumes ok: "routes_ok sv" and step: "msg_step sv w w'"
  shows "chan_run (srv_lib sv) (ibc_state w) (ibc_state w')"
  using step
proof cases
  case application
  then show ?thesis .
qed (auto dest: msg_core_frames msg_ConnectionOpenAck_frame msg_ChannelOpen_runs [OF ok] msg_Channel_runs [OF ok] msg_packet_runs [OF ok]
    msg_RecvPacket_run [OF ok] intro: run_next [OF run_refl step_others])

lemma msg_run_run: "msg_run sv w w' \<Longrightarrow> routes_ok sv \<Longrightarrow> chan_run (srv_lib sv) (ibc_state w) (ibc_state w')"
  by (induction rule: rtranclp_induct) (auto intro: run_refl run_append msg_step_run)

end
