(* ===== verification/Iterate.thy ===== *)
theory Iterate
  imports Prelude "HOL-Library.Finite_Map" "HOL-Library.List_Lexorder" "HOL-Library.Char_ord"
begin

text \<open>
  Iteration over the keys of a store with a prefix (\<open>sdk.KVStorePrefixIterator\<close>), which the keepers of the
  applications use for their genesis export, and what exporting and importing the entries of a
  prefix gives back.
\<close>

section \<open>Prefix iterators\<close>

text \<open>The keys with a prefix and their values, in the order of the keys.\<close>

definition prefix_values :: "(string, 'v) fmap \<Rightarrow> string \<Rightarrow> (string \<times> 'v) list" where
  "prefix_values s pre = map (\<lambda>k. (k, the (fmlookup s k))) (filter (\<lambda>k. HasPrefix k pre) (sorted_list_of_fset (fmdom s)))"

text \<open>A loop over an iterator that collects what its body returns and stops at a panic.\<close>

fun collect :: "('x \<Rightarrow> 'y result) \<Rightarrow> 'x list \<Rightarrow> 'y list result" where
  "collect f [] = Inr []"
| "collect f (x # xs) = and_then (f x) (\<lambda>y. and_then (collect f xs) (\<lambda>ys. Inr (y # ys)))"

section \<open>Export and import\<close>

lemma prefix_values_iff: "(key, v) \<in> set (prefix_values s pre) \<longleftrightarrow> fmlookup s key = Some v \<and> HasPrefix key pre"
  by (auto simp: prefix_values_def fmlookup_dom_iff image_iff)

lemma prefix_values_distinct: "distinct (map fst (prefix_values s pre))"
  by (simp add: prefix_values_def comp_def sorted_list_of_fset.rep_eq)

lemma collect_append:
  "collect f (xs @ ys) = and_then (collect f xs) (\<lambda>as. and_then (collect f ys) (\<lambda>bs. Inr (as @ bs)))"
  by (induction xs) (auto split: sum.splits simp: and_then_def)

lemma collect_via:
  "collect f (map g xs) = collect (\<lambda>x. f (g x)) xs"
  by (induction xs) simp_all

lemma collect_cong:
  "xs = ys \<Longrightarrow> (\<And>x. x \<in> set ys \<Longrightarrow> f x = g x) \<Longrightarrow> collect f xs = collect g ys"
  by (induction ys arbitrary: xs) auto

lemma collect_map_all:
  assumes "\<And>key v. (key, v) \<in> set kvs \<Longrightarrow> \<exists>x. f (key, v) = Inr x \<and> P x \<and> e x = (key, v)"
  shows "\<exists>xs. collect f kvs = Inr xs \<and> list_all P xs \<and> map e xs = kvs"
  using assms
proof (induction kvs)
  case (Cons kv kvs)
  obtain key v where kv: "kv = (key, v)" by (cases kv)
  with Cons.prems [of key v] obtain x where "f kv = Inr x" "P x" "e x = kv" by auto
  moreover from Cons obtain xs where "collect f kvs = Inr xs" "list_all P xs" "map e xs = kvs" by auto
  ultimately show ?case by (intro exI [of _ "x # xs"]) simp
qed simp

lemma collect_map:
  assumes "\<And>key v. (key, v) \<in> set kvs \<Longrightarrow> \<exists>x. f (key, v) = Inr x \<and> e x = (key, v)"
  shows "\<exists>xs. collect f kvs = Inr xs \<and> map e xs = kvs"
  using collect_map_all [of kvs f "\<lambda>_. True" e] assms by auto

definition put_entries :: "(string \<times> 'v) list \<Rightarrow> (string, 'v) fmap \<Rightarrow> (string, 'v) fmap" where
  "put_entries kvs s = fold (\<lambda>(key, v). fmupd key v) kvs s"

lemma put_entries_simps [simp]: "put_entries [] s = s" "put_entries ((k, v) # kvs) s = put_entries kvs (fmupd k v s)"
  by (simp_all add: put_entries_def)

lemma put_entries_lookup:
  "distinct (map fst kvs) \<Longrightarrow>
     fmlookup (put_entries kvs s) key = (case map_of kvs key of None \<Rightarrow> fmlookup s key | Some v \<Rightarrow> Some v)"
proof (induction kvs arbitrary: s)
  case (Cons kv kvs)
  obtain k v where kv: "kv = (k, v)" by (cases kv)
  have "map_of kvs k = None" using Cons.prems by (simp add: kv map_of_eq_None_iff)
  then show ?case using Cons by (auto simp: kv split: option.splits)
qed simp

lemma put_entries_append [simp]: "put_entries (a @ b) s = put_entries b (put_entries a s)"
  by (simp add: put_entries_def)

text \<open>Entries that agree with a store, in whatever order and number, put back its values.\<close>

lemma put_agreeing_lookup:
  assumes "\<And>k v. (k, v) \<in> set kvs \<Longrightarrow> fmlookup s k = Some v"
  shows "fmlookup (put_entries kvs s') key = (if key \<in> fst ` set kvs then fmlookup s key else fmlookup s' key)"
  using assms
proof (induction kvs arbitrary: s')
  case (Cons kv kvs)
  obtain k v where kv: "kv = (k, v)" by (cases kv)
  have s: "fmlookup s k = Some v" using Cons.prems [of k v] by (simp add: kv)
  have "fmlookup (put_entries kvs (fmupd k v s')) key = (if key \<in> fst ` set kvs then fmlookup s key else fmlookup (fmupd k v s') key)"
    by (rule Cons.IH) (simp add: Cons.prems)
  then show ?case using s by (cases "key = k") (simp_all add: kv)
qed simp

lemma map_of_prefix_values: "map_of (prefix_values s pre) key = (if HasPrefix key pre then fmlookup s key else None)"
proof (cases "map_of (prefix_values s pre) key")
  case None
  then have "(key, v) \<notin> set (prefix_values s pre)" for v by (auto simp: map_of_eq_None_iff image_iff)
  with None show ?thesis by (cases "fmlookup s key") (auto simp: prefix_values_iff)
next
  case (Some v)
  then have "(key, v) \<in> set (prefix_values s pre)" by (rule map_of_SomeD)
  with Some show ?thesis by (simp add: prefix_values_iff)
qed

lemma put_prefix_lookup:
  "fmlookup (put_entries (prefix_values s pre) s') key =
     (if HasPrefix key pre \<and> fmlookup s key \<noteq> None then fmlookup s key else fmlookup s' key)"
  by (simp add: put_entries_lookup [OF prefix_values_distinct] map_of_prefix_values split: option.split)

end
