(* ===== verification/Fee_Keeper.thy ===== *)
theory Fee_Keeper
  imports Fee_Types Msg_Run Iterate
begin

text \<open>
  ICS-29, the fee middleware (\<open>modules/apps/29-fee\<close>): the store (\<open>keeper/keeper.go\<close>), escrow, distribution and refund of
  fees (\<open>keeper/escrow.go\<close>), the message server (\<open>keeper/msg_server.go\<close>), the ICS-4 wrapper (\<open>keeper/relay.go\<close>), the
  callbacks around those of the underlying application (\<open>ibc_middleware.go\<close>) and genesis. The state is the store
  of the middleware next to the state of the application below it; the bank and the accounts are part
  of the latter, as the application uses them too. \<open>CacheContext\<close> is a copy of the state that is kept or dropped.
  The bank's operations are functions of the keeper record: a payment out of the module account that
  fails returns what it has already written, since the middleware goes on after it. The module
  account is registered, so the bank does not panic on it.
\<close>

section \<open>State\<close>

datatype fee_value =
    FlagBz
  | AddressBz string
  | PacketFeesBz "PacketFee list"

record 'a fee_app =
  fe_store :: "(string, fee_value) fmap"
  fe_app :: 'a

record 'a fee_keeper =
  fk_lib :: flib
  GetModuleAddress :: "string \<Rightarrow> bytes"
  HasAccount :: "sdk_context \<Rightarrow> bytes \<Rightarrow> 'a \<Rightarrow> bool"
  HasBalance :: "sdk_context \<Rightarrow> bytes \<Rightarrow> Coin \<Rightarrow> 'a \<Rightarrow> bool"
  EscrowCoins :: "sdk_context \<Rightarrow> bytes \<Rightarrow> string \<Rightarrow> Coin list \<Rightarrow> 'a \<Rightarrow> 'a result"
  PayCoins :: "sdk_context \<Rightarrow> string \<Rightarrow> bytes \<Rightarrow> Coin list \<Rightarrow> 'a \<Rightarrow> ibc_error option \<times> 'a"
  fee_BlockedAddr :: "bytes \<Rightarrow> bool"
  IsSendEnabledCoins :: "sdk_context \<Rightarrow> Coin list \<Rightarrow> 'a \<Rightarrow> unit result"

abbreviation fk_sdk :: "'a fee_keeper \<Rightarrow> tlib" where "fk_sdk k \<equiv> fl_sdk (fk_lib k)"

definition fe_set :: "string \<Rightarrow> fee_value \<Rightarrow> 'a fee_app \<Rightarrow> 'a fee_app" where
  "fe_set k v st = st\<lparr>fe_store := fmupd k v (fe_store st)\<rparr>"

definition fe_delete :: "string \<Rightarrow> 'a fee_app \<Rightarrow> 'a fee_app" where
  "fe_delete k st = st\<lparr>fe_store := fmdrop k (fe_store st)\<rparr>"

definition fe_has :: "'a fee_app \<Rightarrow> string \<Rightarrow> bool" where
  "fe_has st k = (fmlookup (fe_store st) k \<noteq> None)"

text \<open>The keys with a prefix and their values, in the order of the keys.\<close>

definition fe_values :: "'a fee_app \<Rightarrow> string \<Rightarrow> (string \<times> fee_value) list" where
  "fe_values st pre = prefix_values (fe_store st) pre"

text \<open>The keys of a family hold values of one kind; the bytes of another kind do not decode.\<close>

fun fe_address :: "fee_value \<Rightarrow> string result" where
  "fe_address (AddressBz a) = Inr a"
| "fe_address v = Inl (Panic ''not an address'')"

fun MustUnmarshalFees :: "fee_value \<Rightarrow> PacketFee list result" where
  "MustUnmarshalFees (PacketFeesBz fees) = Inr fees"
| "MustUnmarshalFees v = Inl (Panic ''unmarshal'')"

section \<open>Accessors\<close>

definition EscrowAccountHasBalance :: "'a fee_keeper \<Rightarrow> sdk_context \<Rightarrow> Coin list \<Rightarrow> 'a \<Rightarrow> bool" where
  "EscrowAccountHasBalance k ctx coins a = list_all (\<lambda>c. HasBalance k ctx (GetModuleAddress k fee_ModuleName) c a) coins"

definition lockFeeModule :: "'a fee_app \<Rightarrow> 'a fee_app" where
  "lockFeeModule st = fe_set KeyLocked FlagBz st"

definition IsLocked :: "'a fee_app \<Rightarrow> bool" where
  "IsLocked st = fe_has st KeyLocked"

definition SetFeeEnabled :: "string \<Rightarrow> string \<Rightarrow> 'a fee_app \<Rightarrow> 'a fee_app" where
  "SetFeeEnabled portID channelID st = fe_set (KeyFeeEnabled portID channelID) FlagBz st"

definition DeleteFeeEnabled :: "string \<Rightarrow> string \<Rightarrow> 'a fee_app \<Rightarrow> 'a fee_app" where
  "DeleteFeeEnabled portID channelID st = fe_delete (KeyFeeEnabled portID channelID) st"

definition IsFeeEnabled :: "'a fee_app \<Rightarrow> string \<Rightarrow> string \<Rightarrow> bool" where
  "IsFeeEnabled st portID channelID = fe_has st (KeyFeeEnabled portID channelID)"

definition GetAllFeeEnabledChannels :: "'a fee_app \<Rightarrow> FeeEnabledChannel list result" where
  "GetAllFeeEnabledChannels st =
     collect (\<lambda>(key, v). case ParseKeyFeeEnabled key of
         Inl e \<Rightarrow> Inl (Panic ''key'')
       | Inr (portID, channelID) \<Rightarrow> Inr \<lparr>fec_PortId = portID, fec_ChannelId = channelID\<rparr>)
       (fe_values st FeeEnabledKeyPrefix)"

definition GetPayeeAddress :: "'a fee_app \<Rightarrow> string \<Rightarrow> string \<Rightarrow> string option" where
  "GetPayeeAddress st relayerAddr channelID =
     (case fmlookup (fe_store st) (KeyPayee relayerAddr channelID) of Some (AddressBz a) \<Rightarrow> Some a | _ \<Rightarrow> None)"

definition SetPayeeAddress :: "string \<Rightarrow> string \<Rightarrow> string \<Rightarrow> 'a fee_app \<Rightarrow> 'a fee_app" where
  "SetPayeeAddress relayerAddr payeeAddr channelID st = fe_set (KeyPayee relayerAddr channelID) (AddressBz payeeAddr) st"

definition GetAllPayees :: "'a fee_app \<Rightarrow> RegisteredPayee list result" where
  "GetAllPayees st =
     collect (\<lambda>(key, v). case ParseKeyPayeeAddress key of
         Inl e \<Rightarrow> Inl (Panic ''key'')
       | Inr (relayerAddr, channelID) \<Rightarrow>
           and_then (fe_address v) (\<lambda>a. Inr \<lparr>rp_ChannelId = channelID, rp_Relayer = relayerAddr, rp_Payee = a\<rparr>))
       (fe_values st PayeeKeyPrefix)"

definition SetCounterpartyPayeeAddress :: "string \<Rightarrow> string \<Rightarrow> string \<Rightarrow> 'a fee_app \<Rightarrow> 'a fee_app" where
  "SetCounterpartyPayeeAddress address counterpartyAddress channelID st =
     fe_set (KeyCounterpartyPayee address channelID) (AddressBz counterpartyAddress) st"

definition GetCounterpartyPayeeAddress :: "'a fee_app \<Rightarrow> string \<Rightarrow> string \<Rightarrow> string option" where
  "GetCounterpartyPayeeAddress st address channelID =
     (case fmlookup (fe_store st) (KeyCounterpartyPayee address channelID) of Some (AddressBz a) \<Rightarrow> Some a | _ \<Rightarrow> None)"

definition GetAllCounterpartyPayees :: "'a fee_app \<Rightarrow> RegisteredCounterpartyPayee list result" where
  "GetAllCounterpartyPayees st =
     collect (\<lambda>(key, v). case ParseKeyCounterpartyPayee key of
         Inl e \<Rightarrow> Inl (Panic ''key'')
       | Inr (relayerAddr, channelID) \<Rightarrow>
           and_then (fe_address v) (\<lambda>a. Inr \<lparr>rc_ChannelId = channelID, rc_Relayer = relayerAddr, rc_CounterpartyPayee = a\<rparr>))
       (fe_values st CounterpartyPayeeKeyPrefix)"

definition SetRelayerAddressForAsyncAck :: "PacketId \<Rightarrow> string \<Rightarrow> 'a fee_app \<Rightarrow> 'a fee_app" where
  "SetRelayerAddressForAsyncAck packetID address st = fe_set (KeyRelayerAddressForAsyncAck packetID) (AddressBz address) st"

definition GetRelayerAddressForAsyncAck :: "'a fee_app \<Rightarrow> PacketId \<Rightarrow> string option" where
  "GetRelayerAddressForAsyncAck st packetID =
     (case fmlookup (fe_store st) (KeyRelayerAddressForAsyncAck packetID) of Some (AddressBz a) \<Rightarrow> Some a | _ \<Rightarrow> None)"

definition GetAllForwardRelayerAddresses :: "'a fee_app \<Rightarrow> ForwardRelayerAddr list result" where
  "GetAllForwardRelayerAddresses st =
     collect (\<lambda>(key, v). case ParseKeyRelayerAddressForAsyncAck key of
         Inl e \<Rightarrow> Inl (Panic ''key'')
       | Inr packetID \<Rightarrow> and_then (fe_address v) (\<lambda>a. Inr \<lparr>fr_Address = a, fr_PacketId = packetID\<rparr>))
       (fe_values st ForwardRelayerPrefix)"

definition DeleteForwardRelayerAddress :: "PacketId \<Rightarrow> 'a fee_app \<Rightarrow> 'a fee_app" where
  "DeleteForwardRelayerAddress packetID st = fe_delete (KeyRelayerAddressForAsyncAck packetID) st"

text \<open>No packet fees are encoded by no bytes and read as absent.\<close>

definition GetFeesInEscrow :: "'a fee_app \<Rightarrow> PacketId \<Rightarrow> PacketFee list option" where
  "GetFeesInEscrow st packetID =
     (case fmlookup (fe_store st) (KeyFeesInEscrow packetID) of
        Some (PacketFeesBz fees) \<Rightarrow> if fees = [] then None else Some fees
      | _ \<Rightarrow> None)"

definition HasFeesInEscrow :: "'a fee_app \<Rightarrow> PacketId \<Rightarrow> bool" where
  "HasFeesInEscrow st packetID = fe_has st (KeyFeesInEscrow packetID)"

definition SetFeesInEscrow :: "PacketId \<Rightarrow> PacketFee list \<Rightarrow> 'a fee_app \<Rightarrow> 'a fee_app" where
  "SetFeesInEscrow packetID fees st = fe_set (KeyFeesInEscrow packetID) (PacketFeesBz fees) st"

definition DeleteFeesInEscrow :: "PacketId \<Rightarrow> 'a fee_app \<Rightarrow> 'a fee_app" where
  "DeleteFeesInEscrow packetID st = fe_delete (KeyFeesInEscrow packetID) st"

definition identified_fees :: "string \<times> fee_value \<Rightarrow> IdentifiedPacketFees result" where
  "identified_fees kv =
     (case ParseKeyFeesInEscrow (fst kv) of
        Inl e \<Rightarrow> Inl (Panic ''key'')
      | Inr packetID \<Rightarrow> and_then (MustUnmarshalFees (snd kv)) (\<lambda>fees. Inr (NewIdentifiedPacketFees packetID fees)))"

definition GetIdentifiedPacketFeesForChannel :: "'a fee_app \<Rightarrow> string \<Rightarrow> string \<Rightarrow> IdentifiedPacketFees list result" where
  "GetIdentifiedPacketFeesForChannel st portID channelID =
     collect identified_fees (fe_values st (KeyFeesInEscrowChannelPrefix portID channelID))"

definition GetAllIdentifiedPacketFees :: "'a fee_app \<Rightarrow> IdentifiedPacketFees list result" where
  "GetAllIdentifiedPacketFees st = collect identified_fees (fe_values st FeesInEscrowPrefix)"

section \<open>Escrow and distribution\<close>

definition escrowPacketFee :: "'a fee_keeper \<Rightarrow> sdk_context \<Rightarrow> PacketId \<Rightarrow> PacketFee \<Rightarrow> 'a fee_app \<Rightarrow> 'a fee_app result" where
  "escrowPacketFee k ctx packetID packetFee st =
     (case AccAddressFromBech32 (fk_sdk k) (pf_RefundAddress packetFee) of
        None \<Rightarrow> Inl (ErrForeign ''bech32'')
      | Some refundAddr \<Rightarrow>
          if \<not> HasAccount k ctx refundAddr (fe_app st) then Inl fee_ErrRefundAccNotFound
          else
            and_then (Fee_Total (fk_sdk k) (pf_Fee packetFee)) (\<lambda>coins.
            and_then (EscrowCoins k ctx refundAddr fee_ModuleName coins (fe_app st)) (\<lambda>a.
            let fees = (case GetFeesInEscrow st packetID of None \<Rightarrow> [packetFee] | Some feesInEscrow \<Rightarrow> packetFee # feesInEscrow) in
            Inr (SetFeesInEscrow packetID fees (st\<lparr>fe_app := a\<rparr>)))))"

text \<open>
  A payment runs on a cached context; what the failed first attempt has written is part of it when the
  refund succeeds.
\<close>

definition distributeFee :: "'a fee_keeper \<Rightarrow> sdk_context \<Rightarrow> bytes \<Rightarrow> bytes \<Rightarrow> Coin list \<Rightarrow> 'a \<Rightarrow> 'a" where
  "distributeFee k ctx receiver refundAccAddress fee a =
     (case PayCoins k ctx fee_ModuleName receiver fee a of
        (None, a1) \<Rightarrow> a1
      | (Some err, a1) \<Rightarrow>
          if receiver = refundAccAddress then a
          else case PayCoins k ctx fee_ModuleName refundAccAddress fee a1 of
            (None, a2) \<Rightarrow> a2
          | (Some err2, a2) \<Rightarrow> a)"

definition distributePacketFeeOnAcknowledgement ::
  "'a fee_keeper \<Rightarrow> sdk_context \<Rightarrow> bytes \<Rightarrow> bytes \<Rightarrow> bytes \<Rightarrow> PacketFee \<Rightarrow> 'a \<Rightarrow> 'a" where
  "distributePacketFeeOnAcknowledgement k ctx refundAddr forwardRelayer reverseRelayer packetFee a =
     (let a1 = (if forwardRelayer \<noteq> [] \<and> \<not> fee_BlockedAddr k forwardRelayer
                then distributeFee k ctx forwardRelayer refundAddr (RecvFee (pf_Fee packetFee)) a
                else distributeFee k ctx refundAddr refundAddr (RecvFee (pf_Fee packetFee)) a);
          a2 = distributeFee k ctx reverseRelayer refundAddr (AckFee (pf_Fee packetFee)) a1 in
      distributeFee k ctx refundAddr refundAddr (TimeoutFee (pf_Fee packetFee)) a2)"

definition distributePacketFeeOnTimeout :: "'a fee_keeper \<Rightarrow> sdk_context \<Rightarrow> bytes \<Rightarrow> bytes \<Rightarrow> PacketFee \<Rightarrow> 'a \<Rightarrow> 'a" where
  "distributePacketFeeOnTimeout k ctx refundAddr timeoutRelayer packetFee a =
     (let a1 = distributeFee k ctx refundAddr refundAddr (RecvFee (pf_Fee packetFee)) a;
          a2 = distributeFee k ctx refundAddr refundAddr (AckFee (pf_Fee packetFee)) a1 in
      distributeFee k ctx timeoutRelayer refundAddr (TimeoutFee (pf_Fee packetFee)) a2)"

text \<open>
  The loop of the two distributions on the cached context, with the payment of one packet fee as an
  argument: \<open>None\<close> is the early return that locks the module.
\<close>

fun distribute_each ::
  "'a fee_keeper \<Rightarrow> sdk_context \<Rightarrow> (bytes \<Rightarrow> PacketFee \<Rightarrow> 'a \<Rightarrow> 'a) \<Rightarrow> PacketFee list \<Rightarrow> 'a \<Rightarrow> 'a option result" where
  "distribute_each k ctx pay [] a = Inr (Some a)"
| "distribute_each k ctx pay (packetFee # rest) a =
     and_then (Fee_Total (fk_sdk k) (pf_Fee packetFee)) (\<lambda>total.
     if \<not> EscrowAccountHasBalance k ctx total a then Inr None
     else case AccAddressFromBech32 (fk_sdk k) (pf_RefundAddress packetFee) of
       None \<Rightarrow> Inl (Panic ''could not parse refundAcc to sdk.AccAddress'')
     | Some refundAddr \<Rightarrow> distribute_each k ctx pay rest (pay refundAddr packetFee a))"

definition DistributePacketFeesOnAcknowledgement ::
  "'a fee_keeper \<Rightarrow> sdk_context \<Rightarrow> string \<Rightarrow> bytes \<Rightarrow> PacketFee list \<Rightarrow> PacketId \<Rightarrow> 'a fee_app \<Rightarrow> 'a fee_app result" where
  "DistributePacketFeesOnAcknowledgement k ctx forwardRelayer reverseRelayer packetFees packetID st =
     (let forwardAddr = (case AccAddressFromBech32 (fk_sdk k) forwardRelayer of None \<Rightarrow> [] | Some f \<Rightarrow> f) in
      and_then (distribute_each k ctx
        (\<lambda>refundAddr. distributePacketFeeOnAcknowledgement k ctx refundAddr forwardAddr reverseRelayer) packetFees (fe_app st)) (\<lambda>r.
      case r of
        None \<Rightarrow> Inr (lockFeeModule st)
      | Some a \<Rightarrow> Inr (DeleteFeesInEscrow packetID (st\<lparr>fe_app := a\<rparr>))))"

definition DistributePacketFeesOnTimeout ::
  "'a fee_keeper \<Rightarrow> sdk_context \<Rightarrow> bytes \<Rightarrow> PacketFee list \<Rightarrow> PacketId \<Rightarrow> 'a fee_app \<Rightarrow> 'a fee_app result" where
  "DistributePacketFeesOnTimeout k ctx timeoutRelayer packetFees packetID st =
     and_then (distribute_each k ctx
       (\<lambda>refundAddr. distributePacketFeeOnTimeout k ctx refundAddr timeoutRelayer) packetFees (fe_app st)) (\<lambda>r.
     case r of
       None \<Rightarrow> Inr (lockFeeModule st)
     | Some a \<Rightarrow> Inr (DeleteFeesInEscrow packetID (st\<lparr>fe_app := a\<rparr>)))"

text \<open>The two loops of the refund; the flag is \<open>failedToSendCoins\<close>.\<close>

fun refund_packet :: "'a fee_keeper \<Rightarrow> sdk_context \<Rightarrow> PacketFee list \<Rightarrow> bool \<Rightarrow> 'a \<Rightarrow> (bool \<times> 'a) option result" where
  "refund_packet k ctx [] failed a = Inr (Some (failed, a))"
| "refund_packet k ctx (packetFee # rest) failed a =
     and_then (Fee_Total (fk_sdk k) (pf_Fee packetFee)) (\<lambda>total.
     if \<not> EscrowAccountHasBalance k ctx total a then Inr None
     else case AccAddressFromBech32 (fk_sdk k) (pf_RefundAddress packetFee) of
       None \<Rightarrow> refund_packet k ctx rest True a
     | Some refundAddr \<Rightarrow>
         (case PayCoins k ctx fee_ModuleName refundAddr total a of
            (None, a1) \<Rightarrow> refund_packet k ctx rest failed a1
          | (Some err, a1) \<Rightarrow> refund_packet k ctx rest True a1))"

fun refund_all :: "'a fee_keeper \<Rightarrow> sdk_context \<Rightarrow> IdentifiedPacketFees list \<Rightarrow> 'a fee_app \<Rightarrow> 'a fee_app option result" where
  "refund_all k ctx [] st = Inr (Some st)"
| "refund_all k ctx (i # rest) st =
     and_then (refund_packet k ctx (if_PacketFees i) False (fe_app st)) (\<lambda>r.
     case r of
       None \<Rightarrow> Inr None
     | Some (failed, a) \<Rightarrow>
         let st1 = st\<lparr>fe_app := a\<rparr> in
         refund_all k ctx rest (if failed then st1 else DeleteFeesInEscrow (if_PacketId i) st1))"

definition RefundFeesOnChannelClosure :: "'a fee_keeper \<Rightarrow> sdk_context \<Rightarrow> string \<Rightarrow> string \<Rightarrow> 'a fee_app \<Rightarrow> 'a fee_app result" where
  "RefundFeesOnChannelClosure k ctx portID channelID st =
     and_then (GetIdentifiedPacketFeesForChannel st portID channelID) (\<lambda>identifiedPacketFees.
     and_then (refund_all k ctx identifiedPacketFees st) (\<lambda>r.
     case r of None \<Rightarrow> Inr (lockFeeModule st) | Some st' \<Rightarrow> Inr st'))"

end
