(* ===== verification/Fee_Middleware.thy ===== *)
theory Fee_Middleware
  imports Fee_Keeper
begin

text \<open>
  ICS-29, the parts that other components call: the message server of the middleware (\<open>keeper/msg_server.go\<close>), its
  ICS-4 wrapper (\<open>keeper/relay.go\<close>), its callbacks around an underlying application (\<open>ibc_middleware.go\<close>) and genesis
  (\<open>keeper/genesis.go\<close>). The middleware over an application is an \<open>IBCModule\<close> again, on the state of the application
  extended by the store of the middleware, and it keeps the contract of an application when the
  application below does: every theorem on the message server holds for the stack.
\<close>

section \<open>Message server\<close>

definition RegisterPayee :: "'a fee_keeper \<Rightarrow> MsgRegisterPayee \<Rightarrow> 'a fee_app world \<Rightarrow> 'a fee_app world result" where
  "RegisterPayee k msg w =
     (case AccAddressFromBech32 (fk_sdk k) (rgp_Payee msg) of
        None \<Rightarrow> Inl (ErrForeign ''bech32'')
      | Some payee \<Rightarrow>
          if fee_BlockedAddr k payee then Inl ibcerrors_ErrUnauthorized
          else if GetChannel (core (ibc_state w)) (rgp_PortId msg) (rgp_ChannelId msg) = None then Inl channel_ErrChannelNotFound
          else if \<not> IsFeeEnabled (app w) (rgp_PortId msg) (rgp_ChannelId msg) then Inl fee_ErrFeeNotEnabled
          else Inr (w\<lparr>app := SetPayeeAddress (rgp_Relayer msg) (rgp_Payee msg) (rgp_ChannelId msg) (app w)\<rparr>))"

definition RegisterCounterpartyPayee :: "MsgRegisterCounterpartyPayee \<Rightarrow> 'a fee_app world \<Rightarrow> 'a fee_app world result" where
  "RegisterCounterpartyPayee msg w =
     (if GetChannel (core (ibc_state w)) (rcp_PortId msg) (rcp_ChannelId msg) = None then Inl channel_ErrChannelNotFound
      else if \<not> IsFeeEnabled (app w) (rcp_PortId msg) (rcp_ChannelId msg) then Inl fee_ErrFeeNotEnabled
      else Inr (w\<lparr>app := SetCounterpartyPayeeAddress (rcp_Relayer msg) (rcp_CounterpartyPayee msg) (rcp_ChannelId msg) (app w)\<rparr>))"

definition PayPacketFee :: "'a fee_keeper \<Rightarrow> sdk_context \<Rightarrow> MsgPayPacketFee \<Rightarrow> 'a fee_app world \<Rightarrow> 'a fee_app world result" where
  "PayPacketFee k ctx msg w =
     (if \<not> IsFeeEnabled (app w) (ppf_SourcePortId msg) (ppf_SourceChannelId msg) then Inl fee_ErrFeeNotEnabled
      else if IsLocked (app w) then Inl fee_ErrFeeModuleLocked
      else case AccAddressFromBech32 (fk_sdk k) (ppf_Signer msg) of
        None \<Rightarrow> Inl (ErrForeign ''bech32'')
      | Some refundAcc \<Rightarrow>
          and_then (Fee_Total (fk_sdk k) (ppf_Fee msg)) (\<lambda>total.
          and_then (IsSendEnabledCoins k ctx total (fe_app (app w))) (\<lambda>_.
          if fee_BlockedAddr k refundAcc then Inl ibcerrors_ErrUnauthorized
          else case GetNextSequenceSend (core (ibc_state w)) (ppf_SourcePortId msg) (ppf_SourceChannelId msg) of
            None \<Rightarrow> Inl channel_ErrSequenceSendNotFound
          | Some sequence \<Rightarrow>
              and_then (escrowPacketFee k ctx
                \<lparr>pid_PortId = ppf_SourcePortId msg, pid_ChannelId = ppf_SourceChannelId msg, pid_Sequence = sequence\<rparr>
                (NewPacketFee (ppf_Fee msg) (ppf_Signer msg) (ppf_Relayers msg)) (app w)) (\<lambda>st.
              Inr (w\<lparr>app := st\<rparr>)))))"

definition PayPacketFeeAsync :: "'a fee_keeper \<Rightarrow> sdk_context \<Rightarrow> MsgPayPacketFeeAsync \<Rightarrow> 'a fee_app world \<Rightarrow> 'a fee_app world result" where
  "PayPacketFeeAsync k ctx msg w =
     (let i = ppa_PacketId msg; f = ppa_PacketFee msg in
      if \<not> IsFeeEnabled (app w) (pid_PortId i) (pid_ChannelId i) then Inl fee_ErrFeeNotEnabled
      else if IsLocked (app w) then Inl fee_ErrFeeModuleLocked
      else case AccAddressFromBech32 (fk_sdk k) (pf_RefundAddress f) of
        None \<Rightarrow> Inl (ErrForeign ''bech32'')
      | Some refundAcc \<Rightarrow>
          and_then (Fee_Total (fk_sdk k) (pf_Fee f)) (\<lambda>total.
          and_then (IsSendEnabledCoins k ctx total (fe_app (app w))) (\<lambda>_.
          if fee_BlockedAddr k refundAcc then Inl ibcerrors_ErrUnauthorized
          else case GetNextSequenceSend (core (ibc_state w)) (pid_PortId i) (pid_ChannelId i) of
            None \<Rightarrow> Inl channel_ErrSequenceSendNotFound
          | Some nextSeqSend \<Rightarrow>
              if nextSeqSend \<le> pid_Sequence i then Inl channel_ErrPacketNotSent
              else if GetPacketCommitment (core (ibc_state w)) (pid_PortId i) (pid_ChannelId i) (pid_Sequence i) = []
              then Inl channel_ErrPacketCommitmentNotFound
              else and_then (escrowPacketFee k ctx i f (app w)) (\<lambda>st. Inr (w\<lparr>app := st\<rparr>)))))"

section \<open>ICS-4 wrapper\<close>

definition fee_SendPacket ::
  "sdk_context \<Rightarrow> Capability option \<Rightarrow> string \<Rightarrow> string \<Rightarrow> Height \<Rightarrow> u64 \<Rightarrow> bytes \<Rightarrow> ibc \<Rightarrow> (u64 \<times> ibc) result" where
  "fee_SendPacket ctx chanCap sourcePort sourceChannel timeoutHeight timeoutTimestamp data st =
     SendPacket ctx chanCap sourcePort sourceChannel timeoutHeight timeoutTimestamp data st"

definition incentivized :: "flib \<Rightarrow> string option \<Rightarrow> app_ack \<Rightarrow> app_ack" where
  "incentivized fl forwardRelayer ack =
     (let inc = NewIncentivizedAcknowledgement (case forwardRelayer of None \<Rightarrow> [] | Some r \<Rightarrow> r) (ack_Acknowledgement ack) (ack_Success ack) in
      \<lparr>ack_Success = IncentivizedAcknowledgement_Success inc, ack_Acknowledgement = IncentivizedAcknowledgement_Acknowledgement fl inc\<rparr>)"

definition dest_id :: "Packet \<Rightarrow> PacketId" where
  "dest_id packet = \<lparr>pid_PortId = DestinationPort packet, pid_ChannelId = DestinationChannel packet, pid_Sequence = Sequence packet\<rparr>"

definition source_id :: "Packet \<Rightarrow> PacketId" where
  "source_id packet = \<lparr>pid_PortId = SourcePort packet, pid_ChannelId = SourceChannel packet, pid_Sequence = Sequence packet\<rparr>"

text \<open>The method of a nil acknowledgement is called only after the lookup of the relayer.\<close>

definition fee_WriteAcknowledgement ::
  "'a fee_keeper \<Rightarrow> Capability option \<Rightarrow> Packet \<Rightarrow> app_ack option \<Rightarrow> 'a fee_app world \<Rightarrow> 'a fee_app world result" where
  "fee_WriteAcknowledgement k chanCap packet acknowledgement w =
     (if \<not> IsFeeEnabled (app w) (DestinationPort packet) (DestinationChannel packet) then
        and_then (WriteAcknowledgement chanCap packet (map_option ack_Acknowledgement acknowledgement) (ibc_state w)) (\<lambda>st.
        Inr (w\<lparr>ibc_state := st\<rparr>))
      else case GetRelayerAddressForAsyncAck (app w) (dest_id packet) of
        None \<Rightarrow> Inl fee_ErrRelayerNotFoundForAsyncAck
      | Some relayer \<Rightarrow>
          (case acknowledgement of
             None \<Rightarrow> Inl (Panic ''nil acknowledgement'')
           | Some ack \<Rightarrow>
               let inc = incentivized (fk_lib k) (GetCounterpartyPayeeAddress (app w) relayer (DestinationChannel packet)) ack;
                   w1 = w\<lparr>app := DeleteForwardRelayerAddress (dest_id packet) (app w)\<rparr> in
               and_then (WriteAcknowledgement chanCap packet (Some (ack_Acknowledgement inc)) (ibc_state w1)) (\<lambda>st.
               Inr (w1\<lparr>ibc_state := st\<rparr>))))"

definition fee_GetAppVersion :: "'a fee_keeper \<Rightarrow> 'a fee_app world \<Rightarrow> string \<Rightarrow> string \<Rightarrow> string option result" where
  "fee_GetAppVersion k w portID channelID =
     (case GetAppVersion (core (ibc_state w)) portID channelID of
        None \<Rightarrow> Inr None
      | Some version \<Rightarrow>
          if \<not> IsFeeEnabled (app w) portID channelID then Inr (Some version)
          else case UnmarshalMetadata (fk_lib k) version of
            Inl e \<Rightarrow> Inl (Panic ''unable to unmarshal metadata for fee enabled channel'')
          | Inr metadata \<Rightarrow> Inr (Some (AppVersion metadata)))"

section \<open>Callbacks\<close>

text \<open>The underlying application runs on its part of the state.\<close>

definition lower :: "'a fee_app world \<Rightarrow> 'a world" where
  "lower w = \<lparr>ibc_state = ibc_state w, app = fe_app (app w)\<rparr>"

definition raise :: "'a fee_app world \<Rightarrow> 'a world \<Rightarrow> 'a fee_app world" where
  "raise w w' = \<lparr>ibc_state = ibc_state w', app = (app w)\<lparr>fe_app := app w'\<rparr>\<rparr>"

definition below :: "('a world \<Rightarrow> 'a world result) \<Rightarrow> 'a fee_app world \<Rightarrow> 'a fee_app world result" where
  "below f w = and_then (f (lower w)) (\<lambda>w'. Inr (raise w w'))"

definition below2 :: "('a world \<Rightarrow> ('r \<times> 'a world) result) \<Rightarrow> 'a fee_app world \<Rightarrow> ('r \<times> 'a fee_app world) result" where
  "below2 f w = and_then (f (lower w)) (\<lambda>(r, w'). Inr (r, raise w w'))"

definition on_fees :: "('a fee_app \<Rightarrow> 'a fee_app) \<Rightarrow> 'a fee_app world \<Rightarrow> 'a fee_app world" where
  "on_fees f w = w\<lparr>app := f (app w)\<rparr>"

definition fee_OnChanOpenInit ::
  "'a fee_keeper \<Rightarrow> 'a IBCModule \<Rightarrow> sdk_context \<Rightarrow> Order \<Rightarrow> string list \<Rightarrow> string \<Rightarrow> string \<Rightarrow> Capability option \<Rightarrow> Counterparty \<Rightarrow> string \<Rightarrow>
     'a fee_app world \<Rightarrow> (string \<times> 'a fee_app world) result" where
  "fee_OnChanOpenInit k cbs ctx order connectionHops portID channelID chanCap counterparty version w =
     (let parsed = (if is_blank version then Inr \<lparr>FeeVersion = fee_Version, AppVersion = []\<rparr> else UnmarshalMetadata (fk_lib k) version) in
      case parsed of
        Inl e \<Rightarrow> below2 (OnChanOpenInit cbs ctx order connectionHops portID channelID chanCap counterparty version) w
      | Inr versionMetadata \<Rightarrow>
          if FeeVersion versionMetadata \<noteq> fee_Version then Inl fee_ErrInvalidVersion
          else
            and_then (below2 (OnChanOpenInit cbs ctx order connectionHops portID channelID chanCap counterparty
              (AppVersion versionMetadata)) w) (\<lambda>(appVersion, w1).
            and_then (MarshalMetadata (fk_lib k) (versionMetadata\<lparr>AppVersion := appVersion\<rparr>)) (\<lambda>versionBytes.
            Inr (versionBytes, on_fees (SetFeeEnabled portID channelID) w1))))"

definition fee_OnChanOpenTry ::
  "'a fee_keeper \<Rightarrow> 'a IBCModule \<Rightarrow> sdk_context \<Rightarrow> Order \<Rightarrow> string list \<Rightarrow> string \<Rightarrow> string \<Rightarrow> Capability option \<Rightarrow> Counterparty \<Rightarrow> string \<Rightarrow>
     'a fee_app world \<Rightarrow> (string \<times> 'a fee_app world) result" where
  "fee_OnChanOpenTry k cbs ctx order connectionHops portID channelID chanCap counterparty counterpartyVersion w =
     (case UnmarshalMetadata (fk_lib k) counterpartyVersion of
        Inl e \<Rightarrow> below2 (OnChanOpenTry cbs ctx order connectionHops portID channelID chanCap counterparty counterpartyVersion) w
      | Inr versionMetadata \<Rightarrow>
          if FeeVersion versionMetadata \<noteq> fee_Version then Inl fee_ErrInvalidVersion
          else
            and_then (below2 (OnChanOpenTry cbs ctx order connectionHops portID channelID chanCap counterparty
              (AppVersion versionMetadata)) (on_fees (SetFeeEnabled portID channelID) w)) (\<lambda>(appVersion, w1).
            and_then (MarshalMetadata (fk_lib k) (versionMetadata\<lparr>AppVersion := appVersion\<rparr>)) (\<lambda>versionBytes.
            Inr (versionBytes, w1))))"

definition fee_OnChanOpenAck ::
  "'a fee_keeper \<Rightarrow> 'a IBCModule \<Rightarrow> sdk_context \<Rightarrow> string \<Rightarrow> string \<Rightarrow> string \<Rightarrow> string \<Rightarrow> 'a fee_app world \<Rightarrow> 'a fee_app world result" where
  "fee_OnChanOpenAck k cbs ctx portID channelID counterpartyChannelID counterpartyVersion w =
     (if IsFeeEnabled (app w) portID channelID then
        and_then (UnmarshalMetadata (fk_lib k) counterpartyVersion) (\<lambda>versionMetadata.
        if FeeVersion versionMetadata \<noteq> fee_Version then Inl fee_ErrInvalidVersion
        else below (OnChanOpenAck cbs ctx portID channelID counterpartyChannelID (AppVersion versionMetadata)) w)
      else below (OnChanOpenAck cbs ctx portID channelID counterpartyChannelID counterpartyVersion) w)"

definition fee_OnChanOpenConfirm ::
  "'a IBCModule \<Rightarrow> sdk_context \<Rightarrow> string \<Rightarrow> string \<Rightarrow> 'a fee_app world \<Rightarrow> 'a fee_app world result" where
  "fee_OnChanOpenConfirm cbs ctx portID channelID w = below (OnChanOpenConfirm cbs ctx portID channelID) w"

text \<open>Both closing callbacks refund the fees after the application has agreed.\<close>

definition refund_on_closure ::
  "'a fee_keeper \<Rightarrow> sdk_context \<Rightarrow> string \<Rightarrow> string \<Rightarrow> 'a fee_app world \<Rightarrow> 'a fee_app world result" where
  "refund_on_closure k ctx portID channelID w =
     (if \<not> IsFeeEnabled (app w) portID channelID then Inr w
      else if IsLocked (app w) then Inl fee_ErrFeeModuleLocked
      else and_then (RefundFeesOnChannelClosure k ctx portID channelID (app w)) (\<lambda>st. Inr (w\<lparr>app := st\<rparr>)))"

definition fee_OnChanCloseInit ::
  "'a fee_keeper \<Rightarrow> 'a IBCModule \<Rightarrow> sdk_context \<Rightarrow> string \<Rightarrow> string \<Rightarrow> 'a fee_app world \<Rightarrow> 'a fee_app world result" where
  "fee_OnChanCloseInit k cbs ctx portID channelID w =
     and_then (below (OnChanCloseInit cbs ctx portID channelID) w) (\<lambda>w1. refund_on_closure k ctx portID channelID w1)"

definition fee_OnChanCloseConfirm ::
  "'a fee_keeper \<Rightarrow> 'a IBCModule \<Rightarrow> sdk_context \<Rightarrow> string \<Rightarrow> string \<Rightarrow> 'a fee_app world \<Rightarrow> 'a fee_app world result" where
  "fee_OnChanCloseConfirm k cbs ctx portID channelID w =
     and_then (below (OnChanCloseConfirm cbs ctx portID channelID) w) (\<lambda>w1. refund_on_closure k ctx portID channelID w1)"

definition fee_OnRecvPacket ::
  "'a fee_keeper \<Rightarrow> 'a IBCModule \<Rightarrow> sdk_context \<Rightarrow> Packet \<Rightarrow> bytes \<Rightarrow> 'a fee_app world \<Rightarrow> (app_ack option \<times> 'a fee_app world) result" where
  "fee_OnRecvPacket k cbs ctx packet relayer w =
     (if \<not> IsFeeEnabled (app w) (DestinationPort packet) (DestinationChannel packet)
      then below2 (OnRecvPacket cbs ctx packet relayer) w
      else
        and_then (below2 (OnRecvPacket cbs ctx packet relayer) w) (\<lambda>(ack, w1).
        case ack of
          None \<Rightarrow> Inr (None, on_fees (SetRelayerAddressForAsyncAck (dest_id packet) (AccAddress_String (fk_sdk k) relayer)) w1)
        | Some a \<Rightarrow>
            Inr (Some (incentivized (fk_lib k)
              (GetCounterpartyPayeeAddress (app w1) (AccAddress_String (fk_sdk k) relayer) (DestinationChannel packet)) a), w1)))"

text \<open>The account that is paid for relaying: the registered payee of the relayer or the relayer itself.\<close>

definition payee_of :: "'a fee_keeper \<Rightarrow> 'a fee_app \<Rightarrow> bytes \<Rightarrow> string \<Rightarrow> bytes result" where
  "payee_of k st relayer channelID =
     (let payee = (case GetPayeeAddress st (AccAddress_String (fk_sdk k) relayer) channelID of
                     None \<Rightarrow> AccAddress_String (fk_sdk k) relayer | Some p \<Rightarrow> p) in
      case AccAddressFromBech32 (fk_sdk k) payee of None \<Rightarrow> Inl (ErrForeign ''bech32'') | Some a \<Rightarrow> Inr a)"

definition fee_OnAcknowledgementPacket ::
  "'a fee_keeper \<Rightarrow> 'a IBCModule \<Rightarrow> sdk_context \<Rightarrow> Packet \<Rightarrow> bytes \<Rightarrow> bytes \<Rightarrow> 'a fee_app world \<Rightarrow> 'a fee_app world result" where
  "fee_OnAcknowledgementPacket k cbs ctx packet acknowledgement relayer w =
     (if \<not> IsFeeEnabled (app w) (SourcePort packet) (SourceChannel packet)
      then below (OnAcknowledgementPacket cbs ctx packet acknowledgement relayer) w
      else
        and_then (UnmarshalIncentivizedAck (fk_lib k) acknowledgement) (\<lambda>ack.
        if IsLocked (app w) then below (OnAcknowledgementPacket cbs ctx packet (AppAcknowledgement ack) relayer) w
        else case GetFeesInEscrow (app w) (source_id packet) of
          None \<Rightarrow> below (OnAcknowledgementPacket cbs ctx packet (AppAcknowledgement ack) relayer) w
        | Some packetFees \<Rightarrow>
            and_then (payee_of k (app w) relayer (SourceChannel packet)) (\<lambda>payeeAddr.
            and_then (DistributePacketFeesOnAcknowledgement k ctx (ForwardRelayerAddress ack) payeeAddr packetFees (source_id packet)
              (app w)) (\<lambda>st.
            below (OnAcknowledgementPacket cbs ctx packet (AppAcknowledgement ack) relayer) (w\<lparr>app := st\<rparr>)))))"

definition fee_OnTimeoutPacket ::
  "'a fee_keeper \<Rightarrow> 'a IBCModule \<Rightarrow> sdk_context \<Rightarrow> Packet \<Rightarrow> bytes \<Rightarrow> 'a fee_app world \<Rightarrow> 'a fee_app world result" where
  "fee_OnTimeoutPacket k cbs ctx packet relayer w =
     (if \<not> IsFeeEnabled (app w) (SourcePort packet) (SourceChannel packet) \<or> IsLocked (app w)
      then below (OnTimeoutPacket cbs ctx packet relayer) w
      else case GetFeesInEscrow (app w) (source_id packet) of
        None \<Rightarrow> below (OnTimeoutPacket cbs ctx packet relayer) w
      | Some packetFees \<Rightarrow>
          and_then (payee_of k (app w) relayer (SourceChannel packet)) (\<lambda>payeeAddr.
          and_then (DistributePacketFeesOnTimeout k ctx payeeAddr packetFees (source_id packet) (app w)) (\<lambda>st.
          below (OnTimeoutPacket cbs ctx packet relayer) (w\<lparr>app := st\<rparr>))))"

definition fee_module :: "'a fee_keeper \<Rightarrow> 'a IBCModule \<Rightarrow> 'a fee_app IBCModule" where
  "fee_module k cbs =
     \<lparr>OnChanOpenInit = fee_OnChanOpenInit k cbs, OnChanOpenTry = fee_OnChanOpenTry k cbs, OnChanOpenAck = fee_OnChanOpenAck k cbs,
      OnChanOpenConfirm = fee_OnChanOpenConfirm cbs, OnChanCloseInit = fee_OnChanCloseInit k cbs,
      OnChanCloseConfirm = fee_OnChanCloseConfirm k cbs, OnRecvPacket = fee_OnRecvPacket k cbs,
      OnAcknowledgementPacket = fee_OnAcknowledgementPacket k cbs, OnTimeoutPacket = fee_OnTimeoutPacket k cbs\<rparr>"

section \<open>Genesis\<close>

definition fee_InitGenesis :: "fee_GenesisState \<Rightarrow> 'a fee_app \<Rightarrow> 'a fee_app" where
  "fee_InitGenesis gs st =
     (let st1 = fold (\<lambda>i. SetFeesInEscrow (if_PacketId i) (if_PacketFees i)) (fg_IdentifiedFees gs) st;
          st2 = fold (\<lambda>r. SetPayeeAddress (rp_Relayer r) (rp_Payee r) (rp_ChannelId r)) (fg_RegisteredPayees gs) st1;
          st3 = fold (\<lambda>r. SetCounterpartyPayeeAddress (rc_Relayer r) (rc_CounterpartyPayee r) (rc_ChannelId r))
                  (fg_RegisteredCounterpartyPayees gs) st2;
          st4 = fold (\<lambda>r. SetRelayerAddressForAsyncAck (fr_PacketId r) (fr_Address r)) (fg_ForwardRelayers gs) st3 in
      fold (\<lambda>c. SetFeeEnabled (fec_PortId c) (fec_ChannelId c)) (fg_FeeEnabledChannels gs) st4)"

definition fee_ExportGenesis :: "'a fee_app \<Rightarrow> fee_GenesisState result" where
  "fee_ExportGenesis st =
     and_then (GetAllIdentifiedPacketFees st) (\<lambda>identifiedFees.
     and_then (GetAllFeeEnabledChannels st) (\<lambda>feeEnabledChannels.
     and_then (GetAllPayees st) (\<lambda>registeredPayees.
     and_then (GetAllCounterpartyPayees st) (\<lambda>registeredCounterpartyPayees.
     and_then (GetAllForwardRelayerAddresses st) (\<lambda>forwardRelayers.
     Inr \<lparr>fg_IdentifiedFees = identifiedFees, fg_FeeEnabledChannels = feeEnabledChannels, fg_RegisteredPayees = registeredPayees,
          fg_RegisteredCounterpartyPayees = registeredCounterpartyPayees, fg_ForwardRelayers = forwardRelayers\<rparr>)))))"

end
