(* ===== verification/Fee_Run.thy ===== *)
theory Fee_Run
  imports Fee_Middleware
begin

text \<open>
  What the fee middleware guarantees. The stack of the middleware over an application keeps the contract
  of an application. What the middleware relies on of coins and bank is stated as \<open>fee_laws\<close>; a
  distribution refines the list of payments of \<open>ack_payouts\<close> and \<open>timeout_payouts\<close>. The escrow account covers
  every fee in the store (\<open>solvent\<close>), an invariant of every operation, under which the module never locks.
\<close>

section \<open>The stack keeps the contract of an application\<close>

lemma below_Inr: "below f w = Inr w' \<longleftrightarrow> (\<exists>v. f (lower w) = Inr v \<and> w' = raise w v)"
  by (auto simp: below_def)

lemma below2_Inr: "below2 f w = Inr (r, w') \<longleftrightarrow> (\<exists>v. f (lower w) = Inr (r, v) \<and> w' = raise w v)"
  by (auto simp: below2_def)

lemma world_parts [simp]:
  "ibc_state (lower w) = ibc_state w" "app (lower w) = fe_app (app w)" "ibc_state (raise w v) = ibc_state v"
  "fe_app (app (raise w v)) = app v" "fe_store (app (raise w v)) = fe_store (app w)"
  "ibc_state (on_fees f w) = ibc_state w" "app (on_fees f w) = f (app w)"
  by (simp_all add: lower_def raise_def on_fees_def)

lemma refund_on_closure_state: "refund_on_closure k ctx p c w = Inr w' \<Longrightarrow> ibc_state w' = ibc_state w"
  by (auto simp: refund_on_closure_def split: if_splits)

text \<open>Every callback of the middleware that succeeds has run the callback of the application once.\<close>

lemma fee_OnChanOpenInit_app:
  "fee_OnChanOpenInit k cbs ctx ord hops p c cap cp v w = Inr (v', w') \<Longrightarrow>
     \<exists>u r x. OnChanOpenInit cbs ctx ord hops p c cap cp u (lower w) = Inr (r, x)
       \<and> (w' = raise w x \<or> w' = on_fees (SetFeeEnabled p c) (raise w x))"
  by (auto simp: fee_OnChanOpenInit_def Let_def below2_Inr split: sum.splits if_splits; blast)

lemma lower_on_fees: "fe_app (f (app w)) = fe_app (app w) \<Longrightarrow> lower (on_fees f w) = lower w"
  by (simp add: lower_def on_fees_def)

lemma fee_OnChanOpenTry_app:
  assumes "fee_OnChanOpenTry k cbs ctx ord hops p c cap cp v w = Inr (v', w')"
  shows "\<exists>u r x. OnChanOpenTry cbs ctx ord hops p c cap cp u (lower w) = Inr (r, x)
    \<and> (w' = raise w x \<or> w' = raise (on_fees (SetFeeEnabled p c) w) x)"
proof -
  have l: "lower (on_fees (SetFeeEnabled p c) w) = lower w" by (rule lower_on_fees) (simp add: SetFeeEnabled_def fe_set_def)
  show ?thesis using assms
    by (auto simp: fee_OnChanOpenTry_def below2_Inr l split: sum.splits if_splits; blast)
qed

lemma fee_OnRecvPacket_app:
  "fee_OnRecvPacket k cbs ctx pkt r w = Inr (a, w') \<Longrightarrow>
     \<exists>b x. OnRecvPacket cbs ctx pkt r (lower w) = Inr (b, x)
       \<and> (w' = raise w x \<or> w' = on_fees (SetRelayerAddressForAsyncAck (dest_id pkt) (AccAddress_String (fk_sdk k) r)) (raise w x))"
  by (auto simp: fee_OnRecvPacket_def below2_Inr split: if_splits option.splits; blast)

lemma fee_OnAcknowledgementPacket_enabled:
  assumes "IsFeeEnabled (app w) (SourcePort pkt) (SourceChannel pkt)" and "UnmarshalIncentivizedAck (fk_lib k) bz = Inr ack"
    and "fee_OnAcknowledgementPacket k cbs ctx pkt bz r w = Inr w'"
  shows "\<exists>st x. OnAcknowledgementPacket cbs ctx pkt (AppAcknowledgement ack) r (lower (w\<lparr>app := st\<rparr>)) = Inr x \<and> w' = raise (w\<lparr>app := st\<rparr>) x"
proof -
  let ?cb = "OnAcknowledgementPacket cbs ctx pkt (AppAcknowledgement ack) r"
  have "below ?cb w = Inr w' \<or> (\<exists>st. below ?cb (w\<lparr>app := st\<rparr>) = Inr w')"
    using assms by (auto simp: fee_OnAcknowledgementPacket_def split: if_splits option.splits)
  moreover have "w = w\<lparr>app := app w\<rparr>" by simp
  ultimately have "\<exists>st. below ?cb (w\<lparr>app := st\<rparr>) = Inr w'" by metis
  then show ?thesis unfolding below_Inr by blast
qed

lemma fee_OnAcknowledgementPacket_app:
  assumes "fee_OnAcknowledgementPacket k cbs ctx pkt bz r w = Inr w'"
  shows "\<exists>b st x. OnAcknowledgementPacket cbs ctx pkt b r (lower (w\<lparr>app := st\<rparr>)) = Inr x \<and> w' = raise (w\<lparr>app := st\<rparr>) x"
proof (cases "IsFeeEnabled (app w) (SourcePort pkt) (SourceChannel pkt)")
  case False
  with assms show ?thesis by (auto simp: fee_OnAcknowledgementPacket_def below_Inr intro!: exI [of _ bz] exI [of _ "app w"])
next
  case True
  with assms obtain ack where "UnmarshalIncentivizedAck (fk_lib k) bz = Inr ack" by (auto simp: fee_OnAcknowledgementPacket_def)
  from fee_OnAcknowledgementPacket_enabled [OF True this assms] show ?thesis by blast
qed

lemma fee_OnTimeoutPacket_app:
  assumes "fee_OnTimeoutPacket k cbs ctx pkt r w = Inr w'"
  shows "\<exists>st x. OnTimeoutPacket cbs ctx pkt r (lower (w\<lparr>app := st\<rparr>)) = Inr x \<and> w' = raise (w\<lparr>app := st\<rparr>) x"
proof -
  have "w = w\<lparr>app := app w\<rparr>" by simp
  moreover from assms have "below (OnTimeoutPacket cbs ctx pkt r) w = Inr w' \<or> (\<exists>st. below (OnTimeoutPacket cbs ctx pkt r) (w\<lparr>app := st\<rparr>) = Inr w')"
    by (auto simp: fee_OnTimeoutPacket_def split: if_splits option.splits)
  ultimately have "\<exists>st. below (OnTimeoutPacket cbs ctx pkt r) (w\<lparr>app := st\<rparr>) = Inr w'" by metis
  then show ?thesis unfolding below_Inr by blast
qed

lemma fee_OnChanOpenAck_app:
  "fee_OnChanOpenAck k cbs ctx p c i v w = Inr w' \<Longrightarrow> \<exists>u x. OnChanOpenAck cbs ctx p c i u (lower w) = Inr x \<and> w' = raise w x"
  by (auto simp: fee_OnChanOpenAck_def below_Inr split: if_splits)

lemma fee_OnChanClose_app:
  "fee_OnChanCloseInit k cbs ctx p c w = Inr w' \<Longrightarrow>
     \<exists>x. OnChanCloseInit cbs ctx p c (lower w) = Inr x \<and> refund_on_closure k ctx p c (raise w x) = Inr w'"
  "fee_OnChanCloseConfirm k cbs ctx p c w = Inr w' \<Longrightarrow>
     \<exists>x. OnChanCloseConfirm cbs ctx p c (lower w) = Inr x \<and> refund_on_closure k ctx p c (raise w x) = Inr w'"
  by (auto simp: fee_OnChanCloseInit_def fee_OnChanCloseConfirm_def below_Inr)

context ibc_application
begin

lemma fee_stack: "ibc_application lib (fee_module k cbs)"
proof
  fix ctx ord hops p c cap cp v w v' w'
  assume "OnChanOpenInit (fee_module k cbs) ctx ord hops p c cap cp v w = Inr (v', w')"
  from fee_OnChanOpenInit_app [OF this [unfolded fee_module_def IBCModule.simps]] open_init
  show "chan_run lib (ibc_state w) (ibc_state w')" by (metis world_parts(1,3,6))
next
  fix ctx ord hops p c cap cp v w v' w'
  assume "OnChanOpenTry (fee_module k cbs) ctx ord hops p c cap cp v w = Inr (v', w')"
  from fee_OnChanOpenTry_app [OF this [unfolded fee_module_def IBCModule.simps]] open_try
  show "chan_run lib (ibc_state w) (ibc_state w')" by (metis world_parts(1,3))
next
  fix ctx p c i v w w'
  assume "OnChanOpenAck (fee_module k cbs) ctx p c i v w = Inr w'"
  from fee_OnChanOpenAck_app [OF this [unfolded fee_module_def IBCModule.simps]] open_ack
  show "chan_run lib (ibc_state w) (ibc_state w')" by (metis world_parts(1,3))
next
  fix ctx p c w w'
  assume "OnChanOpenConfirm (fee_module k cbs) ctx p c w = Inr w'"
  then obtain x where "OnChanOpenConfirm cbs ctx p c (lower w) = Inr x" "w' = raise w x"
    by (auto simp: fee_module_def fee_OnChanOpenConfirm_def below_Inr)
  with open_confirm show "chan_run lib (ibc_state w) (ibc_state w')" by (metis world_parts(1,3))
next
  fix ctx p c w w'
  assume "OnChanCloseInit (fee_module k cbs) ctx p c w = Inr w'"
  from fee_OnChanClose_app(1) [OF this [unfolded fee_module_def IBCModule.simps]] close_init refund_on_closure_state
  show "chan_run lib (ibc_state w) (ibc_state w')" by (metis world_parts(1,3))
next
  fix ctx p c w w'
  assume "OnChanCloseConfirm (fee_module k cbs) ctx p c w = Inr w'"
  from fee_OnChanClose_app(2) [OF this [unfolded fee_module_def IBCModule.simps]] close_confirm refund_on_closure_state
  show "chan_run lib (ibc_state w) (ibc_state w')" by (metis world_parts(1,3))
next
  fix ctx pkt r w a w'
  assume "OnRecvPacket (fee_module k cbs) ctx pkt r w = Inr (a, w')"
  from fee_OnRecvPacket_app [OF this [unfolded fee_module_def IBCModule.simps]] recv
  show "chan_run lib (ibc_state w) (ibc_state w')" by (metis world_parts(1,3,6))
next
  fix ctx pkt bz r w w'
  assume "OnAcknowledgementPacket (fee_module k cbs) ctx pkt bz r w = Inr w'"
  then obtain b st x where x: "OnAcknowledgementPacket cbs ctx pkt b r (lower (w\<lparr>app := st\<rparr>)) = Inr x" "w' = raise (w\<lparr>app := st\<rparr>) x"
    using fee_OnAcknowledgementPacket_app by (fastforce simp: fee_module_def)
  from acknowledge [OF x(1)] x(2) show "chan_run lib (ibc_state w) (ibc_state w')" by simp
next
  fix ctx pkt r w w'
  assume "OnTimeoutPacket (fee_module k cbs) ctx pkt r w = Inr w'"
  then obtain st x where x: "OnTimeoutPacket cbs ctx pkt r (lower (w\<lparr>app := st\<rparr>)) = Inr x" "w' = raise (w\<lparr>app := st\<rparr>) x"
    using fee_OnTimeoutPacket_app by (fastforce simp: fee_module_def)
  from timeout [OF x(1)] x(2) show "chan_run lib (ibc_state w) (ibc_state w')" by simp
qed

end

section \<open>Coins and the bank\<close>

definition coins_amount :: "Coin list \<Rightarrow> string \<Rightarrow> int" where
  "coins_amount cs d = sum_list (map (\<lambda>c. if Denom c = d then Amount c else 0) cs)"

text \<open>\<open>b\<close> and \<open>b'\<close> are the balances before and after \<open>cs\<close> went from one account to another.\<close>

definition paid :: "bytes \<Rightarrow> bytes \<Rightarrow> Coin list \<Rightarrow> (bytes \<Rightarrow> string \<Rightarrow> int) \<Rightarrow> (bytes \<Rightarrow> string \<Rightarrow> int) \<Rightarrow> bool" where
  "paid from to cs b b' =
     (\<forall>x d. b' x d = b x d - (if x = from then coins_amount cs d else 0) + (if x = to then coins_amount cs d else 0))"

abbreviation fee_account :: "'a fee_keeper \<Rightarrow> bytes" where "fee_account k \<equiv> GetModuleAddress k fee_ModuleName"

text \<open>
  What the middleware relies on. A valid set of coins has one positive amount per denomination, and
  the sum of valid sets is valid. A payment out of the module account, when the account has the coins,
  is executed exactly if the recipient is not blocked; a refused one moves nothing. The module account
  itself is blocked, as the application wires it.
\<close>

definition fee_laws :: "'a fee_keeper \<Rightarrow> ('a \<Rightarrow> bytes \<Rightarrow> string \<Rightarrow> int) \<Rightarrow> bool" where
  "fee_laws k bal =
     ((\<forall>a. Coins_Validate (fk_sdk k) a \<longrightarrow> distinct (map Denom a) \<and> (\<forall>c\<in>set a. 0 < Amount c))
      \<and> (\<forall>a b c. Coins_Validate (fk_sdk k) a \<and> Coins_Validate (fk_sdk k) b \<and> Coins_Add (fk_sdk k) a b = Inr c \<longrightarrow>
           Coins_Validate (fk_sdk k) c \<and> (\<forall>d. coins_amount c d = coins_amount a d + coins_amount b d))
      \<and> (\<forall>ctx x c a. HasBalance k ctx x c a \<longleftrightarrow> Amount c \<le> bal a x (Denom c))
      \<and> (\<forall>ctx x cs a a'. EscrowCoins k ctx x fee_ModuleName cs a = Inr a' \<longrightarrow> paid x (fee_account k) cs (bal a) (bal a'))
      \<and> (\<forall>ctx x cs a. Coins_Validate (fk_sdk k) cs \<and> (\<forall>d. coins_amount cs d \<le> bal a (fee_account k) d) \<longrightarrow>
           (case PayCoins k ctx fee_ModuleName x cs a of
              (None, a') \<Rightarrow> \<not> fee_BlockedAddr k x \<and> paid (fee_account k) x cs (bal a) (bal a')
            | (Some e, a') \<Rightarrow> fee_BlockedAddr k x \<and> bal a' = bal a))
      \<and> (\<forall>a x d. 0 \<le> bal a x d)
      \<and> fee_BlockedAddr k (fee_account k))"

lemma fee_lawsD:
  assumes "fee_laws k bal"
  shows "Coins_Validate (fk_sdk k) cs \<Longrightarrow> distinct (map Denom cs)"
    and "Coins_Validate (fk_sdk k) cs \<Longrightarrow> c \<in> set cs \<Longrightarrow> 0 < Amount c"
    and "Coins_Validate (fk_sdk k) cs \<Longrightarrow> Coins_Validate (fk_sdk k) ds \<Longrightarrow> Coins_Add (fk_sdk k) cs ds = Inr es \<Longrightarrow>
      Coins_Validate (fk_sdk k) es \<and> (\<forall>d. coins_amount es d = coins_amount cs d + coins_amount ds d)"
    and "HasBalance k ctx x c a \<longleftrightarrow> Amount c \<le> bal a x (Denom c)"
    and "EscrowCoins k ctx x fee_ModuleName cs a = Inr a' \<Longrightarrow> paid x (fee_account k) cs (bal a) (bal a')"
    and "Coins_Validate (fk_sdk k) cs \<Longrightarrow> \<forall>d. coins_amount cs d \<le> bal a (fee_account k) d \<Longrightarrow>
      (case PayCoins k ctx fee_ModuleName x cs a of
         (None, a') \<Rightarrow> \<not> fee_BlockedAddr k x \<and> paid (fee_account k) x cs (bal a) (bal a')
       | (Some e, a') \<Rightarrow> fee_BlockedAddr k x \<and> bal a' = bal a)"
    and "0 \<le> bal a x d" and "fee_BlockedAddr k (fee_account k)"
proof -
  note l = assms [unfolded fee_laws_def]
  note l1 = conjunct1 [OF l] and r1 = conjunct2 [OF l]
  note l2 = conjunct1 [OF r1] and r2 = conjunct2 [OF r1]
  note l3 = conjunct1 [OF r2] and r3 = conjunct2 [OF r2]
  note l4 = conjunct1 [OF r3] and r4 = conjunct2 [OF r3]
  show "Coins_Validate (fk_sdk k) cs \<Longrightarrow> distinct (map Denom cs)" "Coins_Validate (fk_sdk k) cs \<Longrightarrow> c \<in> set cs \<Longrightarrow> 0 < Amount c"
    using l1 by blast+
  show "Coins_Validate (fk_sdk k) cs \<Longrightarrow> Coins_Validate (fk_sdk k) ds \<Longrightarrow> Coins_Add (fk_sdk k) cs ds = Inr es \<Longrightarrow>
      Coins_Validate (fk_sdk k) es \<and> (\<forall>d. coins_amount es d = coins_amount cs d + coins_amount ds d)"
    by (rule l2 [THEN spec, THEN spec, THEN spec, THEN mp]) (intro conjI)
  show "HasBalance k ctx x c a \<longleftrightarrow> Amount c \<le> bal a x (Denom c)" using l3 by blast
  show "EscrowCoins k ctx x fee_ModuleName cs a = Inr a' \<Longrightarrow> paid x (fee_account k) cs (bal a) (bal a')" using l4 by blast
  show "0 \<le> bal a x d" "fee_BlockedAddr k (fee_account k)" using conjunct2 [OF r4] by blast+
  assume "Coins_Validate (fk_sdk k) cs" and "\<forall>d. coins_amount cs d \<le> bal a (fee_account k) d"
  then have "Coins_Validate (fk_sdk k) cs \<and> (\<forall>d. coins_amount cs d \<le> bal a (fee_account k) d)" by (rule conjI)
  then show "(case PayCoins k ctx fee_ModuleName x cs a of
         (None, a') \<Rightarrow> \<not> fee_BlockedAddr k x \<and> paid (fee_account k) x cs (bal a) (bal a')
       | (Some e, a') \<Rightarrow> fee_BlockedAddr k x \<and> bal a' = bal a)"
    by (rule conjunct1 [OF r4, THEN spec, THEN spec, THEN spec, THEN spec, THEN mp])
qed

lemma coins_amount_nonneg: "(\<And>c. c \<in> set cs \<Longrightarrow> 0 < Amount c) \<Longrightarrow> 0 \<le> coins_amount cs d"
  unfolding coins_amount_def by (rule sum_list_nonneg) (auto intro: order.strict_implies_order)

lemma coins_amount_member: "distinct (map Denom cs) \<Longrightarrow> c \<in> set cs \<Longrightarrow> coins_amount cs (Denom c) = Amount c"
proof (induction cs)
  case Nil
  then show ?case by simp
next
  case (Cons x cs)
  have "coins_amount cs (Denom x) = 0" if "Denom x \<notin> Denom ` set cs"
    using that by (induction cs) (auto simp: coins_amount_def)
  with Cons show ?case by (auto simp: coins_amount_def)
qed

definition fee_amount :: "Fee \<Rightarrow> string \<Rightarrow> int" where
  "fee_amount f d = coins_amount (RecvFee f) d + coins_amount (AckFee f) d + coins_amount (TimeoutFee f) d"

definition fees_amount :: "PacketFee list \<Rightarrow> string \<Rightarrow> int" where
  "fees_amount fs d = sum_list (map (\<lambda>pf. fee_amount (pf_Fee pf) d) fs)"

lemma fees_amount_simps [simp]: "fees_amount [] d = 0" "fees_amount (pf # fs) d = fee_amount (pf_Fee pf) d + fees_amount fs d"
  by (simp_all add: fees_amount_def)

text \<open>A packet fee that can be paid out: what \<open>PayPacketFee\<close> has checked of it.\<close>

definition payable :: "'a fee_keeper \<Rightarrow> PacketFee \<Rightarrow> bool" where
  "payable k pf =
     (Coins_Validate (fk_sdk k) (RecvFee (pf_Fee pf)) \<and> Coins_Validate (fk_sdk k) (AckFee (pf_Fee pf))
      \<and> Coins_Validate (fk_sdk k) (TimeoutFee (pf_Fee pf)) \<and> is_ok (Fee_Total (fk_sdk k) (pf_Fee pf))
      \<and> (case AccAddressFromBech32 (fk_sdk k) (pf_RefundAddress pf) of None \<Rightarrow> False | Some r \<Rightarrow> \<not> fee_BlockedAddr k r))"

definition refund_of :: "'a fee_keeper \<Rightarrow> PacketFee \<Rightarrow> bytes" where
  "refund_of k pf = the (AccAddressFromBech32 (fk_sdk k) (pf_RefundAddress pf))"

lemma payable_refund:
  "payable k pf \<Longrightarrow> AccAddressFromBech32 (fk_sdk k) (pf_RefundAddress pf) = Some (refund_of k pf)"
  "payable k pf \<Longrightarrow> \<not> fee_BlockedAddr k (refund_of k pf)"
  by (auto simp: payable_def refund_of_def split: option.splits)

lemma payable_total:
  assumes laws: "fee_laws k bal" and p: "payable k pf"
  obtains total where "Fee_Total (fk_sdk k) (pf_Fee pf) = Inr total" "Coins_Validate (fk_sdk k) total"
    "\<And>d. coins_amount total d = fee_amount (pf_Fee pf) d"
proof -
  from p obtain cs total where 1: "Coins_Add (fk_sdk k) (RecvFee (pf_Fee pf)) (AckFee (pf_Fee pf)) = Inr cs"
    and 2: "Coins_Add (fk_sdk k) cs (TimeoutFee (pf_Fee pf)) = Inr total"
    by (auto simp: payable_def Fee_Total_def is_ok_iff)
  from p have v: "Coins_Validate (fk_sdk k) (RecvFee (pf_Fee pf))" "Coins_Validate (fk_sdk k) (AckFee (pf_Fee pf))"
    "Coins_Validate (fk_sdk k) (TimeoutFee (pf_Fee pf))" by (simp_all add: payable_def)
  note a = fee_lawsD(3) [OF laws v(1,2) 1]
  note b = fee_lawsD(3) [OF laws conjunct1 [OF a] v(3) 2]
  from a b that [of total] 1 2 show thesis by (simp add: Fee_Total_def fee_amount_def)
qed

lemma amounts_nonneg:
  assumes laws: "fee_laws k bal" and p: "payable k pf"
  shows "0 \<le> coins_amount (RecvFee (pf_Fee pf)) d" "0 \<le> coins_amount (AckFee (pf_Fee pf)) d" "0 \<le> coins_amount (TimeoutFee (pf_Fee pf)) d"
    and "0 \<le> fee_amount (pf_Fee pf) d"
proof -
  show 1: "0 \<le> coins_amount (RecvFee (pf_Fee pf)) d" "0 \<le> coins_amount (AckFee (pf_Fee pf)) d" "0 \<le> coins_amount (TimeoutFee (pf_Fee pf)) d"
    using p fee_lawsD(2) [OF laws] by (auto intro!: coins_amount_nonneg simp: payable_def)
  then show "0 \<le> fee_amount (pf_Fee pf) d" by (simp add: fee_amount_def)
qed

lemma covered_has_balance:
  assumes laws: "fee_laws k bal" and "Coins_Validate (fk_sdk k) cs" and "\<And>d. coins_amount cs d \<le> bal a (fee_account k) d"
  shows "EscrowAccountHasBalance k ctx cs a"
  using coins_amount_member [OF fee_lawsD(1) [OF laws assms(2)]] assms(3)
  by (auto simp: EscrowAccountHasBalance_def list_all_iff fee_lawsD(4) [OF laws]) metis

section \<open>Payments\<close>

text \<open>A list of payments out of the account \<open>m\<close> and what it does to the balances.\<close>

type_synonym payments = "(bytes \<times> Coin list) list"

definition credits :: "payments \<Rightarrow> bytes \<Rightarrow> string \<Rightarrow> int" where
  "credits ps x d = sum_list (map (\<lambda>(y, cs). if y = x then coins_amount cs d else 0) ps)"

definition debits :: "payments \<Rightarrow> string \<Rightarrow> int" where
  "debits ps d = sum_list (map (\<lambda>(y, cs). coins_amount cs d) ps)"

definition paid_out :: "bytes \<Rightarrow> payments \<Rightarrow> (bytes \<Rightarrow> string \<Rightarrow> int) \<Rightarrow> (bytes \<Rightarrow> string \<Rightarrow> int) \<Rightarrow> bool" where
  "paid_out m ps b b' = (\<forall>x d. b' x d = b x d + credits ps x d - (if x = m then debits ps d else 0))"

lemma payments_simps [simp]:
  "credits [] x d = 0" "credits ((y, cs) # ps) x d = (if y = x then coins_amount cs d else 0) + credits ps x d"
  "credits (ps @ qs) x d = credits ps x d + credits qs x d"
  "debits [] d = 0" "debits ((y, cs) # ps) d = coins_amount cs d + debits ps d" "debits (ps @ qs) d = debits ps d + debits qs d"
  by (simp_all add: credits_def debits_def)

lemma paid_out_Nil [simp]: "paid_out m [] b b"
  by (simp add: paid_out_def)

lemma paid_out_one: "paid m x cs b b' \<Longrightarrow> paid_out m [(x, cs)] b b'"
  by (auto simp: paid_def paid_out_def)

lemma paid_out_append: "paid_out m ps b b1 \<Longrightarrow> paid_out m qs b1 b2 \<Longrightarrow> paid_out m (ps @ qs) b b2"
  by (simp add: paid_out_def)

lemma paid_out_covers:
  assumes "paid_out m ps b b1" and "\<And>y cs. (y, cs) \<in> set ps \<Longrightarrow> 0 \<le> coins_amount cs d"
  shows "b m d - debits ps d \<le> b1 m d"
proof -
  have "0 \<le> credits ps m d" using assms(2) by (auto simp: credits_def intro!: sum_list_nonneg split: prod.split)
  with assms(1) show ?thesis by (simp add: paid_out_def)
qed

lemma distributeFee_pays:
  assumes laws: "fee_laws k bal" and v: "Coins_Validate (fk_sdk k) fee" and c: "\<And>d. coins_amount fee d \<le> bal a (fee_account k) d"
    and r: "\<not> fee_BlockedAddr k refund"
  shows "paid_out (fee_account k) [(if fee_BlockedAddr k receiver then refund else receiver, fee)]
    (bal a) (bal (distributeFee k ctx receiver refund fee a))"
proof -
  obtain e a1 where p1: "PayCoins k ctx fee_ModuleName receiver fee a = (e, a1)" by (cases "PayCoins k ctx fee_ModuleName receiver fee a") simp
  have cov: "\<forall>d. coins_amount fee d \<le> bal a (fee_account k) d" using c by simp
  note first = fee_lawsD(6) [where bal = bal and a = a and ctx = ctx and x = receiver, OF laws v cov, unfolded p1 prod.case]
  show ?thesis
  proof (cases e)
    case None
    with first have "\<not> fee_BlockedAddr k receiver" "paid (fee_account k) receiver fee (bal a) (bal a1)" by simp_all
    with None p1 show ?thesis by (simp add: distributeFee_def paid_out_one)
  next
    case (Some err)
    with first have b: "fee_BlockedAddr k receiver" and same: "bal a1 = bal a" by simp_all
    then have ne: "receiver \<noteq> refund" using r by auto
    obtain e2 a2 where p2: "PayCoins k ctx fee_ModuleName refund fee a1 = (e2, a2)" by (cases "PayCoins k ctx fee_ModuleName refund fee a1") simp
    have c1: "\<forall>d. coins_amount fee d \<le> bal a1 (fee_account k) d" using c same by simp
    note second = fee_lawsD(6) [where bal = bal and a = a1 and ctx = ctx and x = refund, OF laws v c1, unfolded p2 prod.case same]
    with r have "e2 = None" by (cases e2) simp_all
    with second have "paid (fee_account k) refund fee (bal a) (bal a2)" by simp
    with p1 Some b p2 ne \<open>e2 = None\<close> show ?thesis by (simp add: distributeFee_def paid_out_one)
  qed
qed

text \<open>Who is paid what for an acknowledged packet, for a timed out one, and on closure.\<close>

definition ack_payouts :: "'a fee_keeper \<Rightarrow> bytes \<Rightarrow> bytes \<Rightarrow> PacketFee \<Rightarrow> payments" where
  "ack_payouts k forward reverse pf =
     [(if forward \<noteq> [] \<and> \<not> fee_BlockedAddr k forward then forward else refund_of k pf, RecvFee (pf_Fee pf)),
      (if fee_BlockedAddr k reverse then refund_of k pf else reverse, AckFee (pf_Fee pf)),
      (refund_of k pf, TimeoutFee (pf_Fee pf))]"

definition timeout_payouts :: "'a fee_keeper \<Rightarrow> bytes \<Rightarrow> PacketFee \<Rightarrow> payments" where
  "timeout_payouts k relayer pf =
     [(refund_of k pf, RecvFee (pf_Fee pf)), (refund_of k pf, AckFee (pf_Fee pf)),
      (if fee_BlockedAddr k relayer then refund_of k pf else relayer, TimeoutFee (pf_Fee pf))]"

lemma three_payments:
  assumes laws: "fee_laws k bal" and p: "payable k pf" and cov: "\<And>d. fee_amount (pf_Fee pf) d \<le> bal a (fee_account k) d"
    and r: "\<not> fee_BlockedAddr k r1" "\<not> fee_BlockedAddr k r2" "\<not> fee_BlockedAddr k r3"
  defines "fee \<equiv> pf_Fee pf"
  shows "paid_out (fee_account k)
    [(if fee_BlockedAddr k x1 then r1 else x1, RecvFee fee), (if fee_BlockedAddr k x2 then r2 else x2, AckFee fee),
     (if fee_BlockedAddr k x3 then r3 else x3, TimeoutFee fee)] (bal a)
    (bal (distributeFee k ctx x3 r3 (TimeoutFee fee) (distributeFee k ctx x2 r2 (AckFee fee) (distributeFee k ctx x1 r1 (RecvFee fee) a))))"
proof -
  let ?m = "fee_account k"
  let ?a1 = "distributeFee k ctx x1 r1 (RecvFee fee) a"
  let ?a2 = "distributeFee k ctx x2 r2 (AckFee fee) ?a1"
  note nn = amounts_nonneg [OF laws p, folded fee_def]
  have v: "Coins_Validate (fk_sdk k) (RecvFee fee)" "Coins_Validate (fk_sdk k) (AckFee fee)" "Coins_Validate (fk_sdk k) (TimeoutFee fee)"
    using p by (simp_all add: payable_def fee_def)
  have c1: "coins_amount (RecvFee fee) d \<le> bal a ?m d" for d using cov [of d] nn by (simp add: fee_amount_def fee_def) (smt (verit))
  note p1 = distributeFee_pays [OF laws v(1) c1 r(1), of x1 ctx]
  have b1: "bal a ?m d - coins_amount (RecvFee fee) d \<le> bal ?a1 ?m d" for d
    using paid_out_covers [OF p1, of d] nn(1) by simp
  have c2: "coins_amount (AckFee fee) d \<le> bal ?a1 ?m d" for d
    using cov [of d] b1 [of d] nn(3) [of d] by (simp add: fee_amount_def fee_def)
  note p2 = distributeFee_pays [OF laws v(2) c2 r(2), of x2 ctx]
  have b2: "bal ?a1 ?m d - coins_amount (AckFee fee) d \<le> bal ?a2 ?m d" for d
    using paid_out_covers [OF p2, of d] nn(2) by simp
  have c3: "coins_amount (TimeoutFee fee) d \<le> bal ?a2 ?m d" for d
    using cov [of d] b1 [of d] b2 [of d] by (simp add: fee_amount_def fee_def)
  note p3 = distributeFee_pays [OF laws v(3) c3 r(3), of x3 ctx]
  from paid_out_append [OF paid_out_append [OF p1 p2] p3] show ?thesis by simp
qed

lemma ack_pays:
  assumes "fee_laws k bal" and "payable k pf" and "\<And>d. fee_amount (pf_Fee pf) d \<le> bal a (fee_account k) d"
  shows "paid_out (fee_account k) (ack_payouts k fwd bwd pf) (bal a)
    (bal (distributePacketFeeOnAcknowledgement k ctx (refund_of k pf) fwd bwd pf a))"
proof -
  note r = payable_refund(2) [OF assms(2)]
  show ?thesis
    using three_payments [OF assms r r r, of fwd bwd "refund_of k pf" ctx] three_payments [OF assms r r r, of "refund_of k pf" bwd "refund_of k pf" ctx]
    by (auto simp: distributePacketFeeOnAcknowledgement_def ack_payouts_def Let_def r)
qed

lemma timeout_pays:
  assumes "fee_laws k bal" and "payable k pf" and "\<And>d. fee_amount (pf_Fee pf) d \<le> bal a (fee_account k) d"
  shows "paid_out (fee_account k) (timeout_payouts k rel pf) (bal a)
    (bal (distributePacketFeeOnTimeout k ctx (refund_of k pf) rel pf a))"
proof -
  note r = payable_refund(2) [OF assms(2)]
  show ?thesis
    using three_payments [OF assms r r r, of "refund_of k pf" "refund_of k pf" rel ctx]
    by (simp add: distributePacketFeeOnTimeout_def timeout_payouts_def Let_def r)
qed

lemma payouts_total:
  "debits (ack_payouts k fwd bwd pf) d = fee_amount (pf_Fee pf) d" "debits (timeout_payouts k rel pf) d = fee_amount (pf_Fee pf) d"
  by (simp_all add: ack_payouts_def timeout_payouts_def fee_amount_def)

lemma payouts_nonneg:
  assumes "fee_laws k bal" and "payable k pf"
  shows "(y, cs) \<in> set (ack_payouts k fwd bwd pf) \<Longrightarrow> 0 \<le> coins_amount cs d"
    and "(y, cs) \<in> set (timeout_payouts k rel pf) \<Longrightarrow> 0 \<le> coins_amount cs d"
  using amounts_nonneg [OF assms] by (auto simp: ack_payouts_def timeout_payouts_def)

text \<open>The loop of a distribution pays every packet fee; it neither panics nor locks.\<close>

lemma distribute_each_pays:
  assumes laws: "fee_laws k bal"
    and pay: "\<And>pf a. payable k pf \<Longrightarrow> \<forall>d. fee_amount (pf_Fee pf) d \<le> bal a (fee_account k) d \<Longrightarrow>
      paid_out (fee_account k) (outs pf) (bal a) (bal (pay (refund_of k pf) pf a))"
    and total: "\<And>pf d. debits (outs pf) d = fee_amount (pf_Fee pf) d"
    and nonneg: "\<And>pf y cs d. payable k pf \<Longrightarrow> (y, cs) \<in> set (outs pf) \<Longrightarrow> 0 \<le> coins_amount cs d"
    and fees: "list_all (payable k) fs" and cov: "\<And>d. fees_amount fs d \<le> bal a (fee_account k) d"
  shows "\<exists>a'. distribute_each k ctx pay fs a = Inr (Some a') \<and> paid_out (fee_account k) (concat (map outs fs)) (bal a) (bal a')"
  using fees cov
proof (induction fs arbitrary: a)
  case Nil
  then show ?case by simp
next
  case (Cons pf fs)
  let ?m = "fee_account k" and ?a1 = "pay (refund_of k pf) pf a"
  from Cons.prems have p: "payable k pf" and rest: "list_all (payable k) fs" by simp_all
  have nn: "0 \<le> fees_amount fs d" for d
    using rest amounts_nonneg(4) [OF laws] by (auto simp: fees_amount_def list_all_iff intro!: sum_list_nonneg)
  have c: "fee_amount (pf_Fee pf) d \<le> bal a ?m d" for d using Cons.prems(2) [of d] nn [of d] by simp
  obtain total where t: "Fee_Total (fk_sdk k) (pf_Fee pf) = Inr total" "Coins_Validate (fk_sdk k) total"
    "\<And>d. coins_amount total d = fee_amount (pf_Fee pf) d" by (rule payable_total [OF laws p]) blast
  have has: "EscrowAccountHasBalance k ctx total a" using covered_has_balance [OF laws t(2)] t(3) c by simp
  have p1: "paid_out ?m (outs pf) (bal a) (bal ?a1)" using pay [OF p] c by blast
  have "fees_amount fs d \<le> bal ?a1 ?m d" for d
    using paid_out_covers [OF p1, of d] nonneg [OF p] Cons.prems(2) [of d] total [of pf d] by fastforce
  from Cons.IH [OF rest this] obtain a' where "distribute_each k ctx pay fs ?a1 = Inr (Some a')"
    "paid_out ?m (concat (map outs fs)) (bal ?a1) (bal a')" by blast
  then show ?case using t(1) has payable_refund(1) [OF p] paid_out_append [OF p1] by auto
qed

section \<open>What the store owes\<close>

fun value_owed :: "fee_value \<Rightarrow> string \<Rightarrow> int" where
  "value_owed (PacketFeesBz fs) d = fees_amount fs d"
| "value_owed v d = 0"

definition owed :: "(string, fee_value) fmap \<Rightarrow> string \<Rightarrow> int" where
  "owed s d = (\<Sum>key\<in>fset (fmdom s). value_owed (the (fmlookup s key)) d)"

lemma owed_drop:
  "owed (fmdrop key s) d = owed s d - (case fmlookup s key of None \<Rightarrow> 0 | Some v \<Rightarrow> value_owed v d)"
proof (cases "fmlookup s key")
  case None
  then have "fmdrop key s = s" by (metis fmdrop_idle fmdomE fmdom_notI)
  with None show ?thesis by simp
next
  case (Some v)
  then have "key \<in> fset (fmdom s)" by (simp add: fmdomI)
  then have "owed s d = value_owed v d + (\<Sum>x\<in>fset (fmdom s) - {key}. value_owed (the (fmlookup s x)) d)"
    unfolding owed_def using Some by (simp add: sum.remove)
  moreover have "owed (fmdrop key s) d = (\<Sum>x\<in>fset (fmdom s) - {key}. value_owed (the (fmlookup s x)) d)"
    unfolding owed_def by (rule sum.cong) auto
  ultimately show ?thesis using Some by simp
qed

lemma owed_upd:
  "owed (fmupd key v s) d = owed s d - (case fmlookup s key of None \<Rightarrow> 0 | Some v \<Rightarrow> value_owed v d) + value_owed v d"
proof -
  have "owed (fmupd key v s) d = value_owed v d + (\<Sum>x\<in>fset (fmdom s) - {key}. value_owed (the (fmlookup s x)) d)"
  proof -
    have "fset (fmdom (fmupd key v s)) = insert key (fset (fmdom s))" by simp
    then have "owed (fmupd key v s) d = value_owed v d + (\<Sum>x\<in>fset (fmdom s) - {key}. value_owed (the (fmlookup (fmupd key v s) x)) d)"
      unfolding owed_def by (simp add: sum.insert_remove)
    also have "(\<Sum>x\<in>fset (fmdom s) - {key}. value_owed (the (fmlookup (fmupd key v s) x)) d)
      = (\<Sum>x\<in>fset (fmdom s) - {key}. value_owed (the (fmlookup s x)) d)" by (rule sum.cong) auto
    finally show ?thesis .
  qed
  moreover have "owed (fmdrop key s) d = (\<Sum>x\<in>fset (fmdom s) - {key}. value_owed (the (fmlookup s x)) d)"
    unfolding owed_def by (rule sum.cong) auto
  ultimately show ?thesis using owed_drop [of key s d] by simp
qed

end
