(* ===== verification/Fee_Solvency.thy ===== *)
theory Fee_Solvency
  imports Fee_Run
begin

text \<open>
  The escrow account of the fee middleware is solvent: it holds at least what the store owes. The entries
  of the store can be paid out (\<open>fees_ok\<close>), every operation of the middleware keeps both, and from a
  solvent state no distribution and no refund locks the module or panics.
\<close>

section \<open>Solvency\<close>

definition fee_entry :: "'a fee_keeper \<Rightarrow> string \<Rightarrow> fee_value \<Rightarrow> bool" where
  "fee_entry k key v =
     (\<exists>i fs. pid_slash_free i \<and> key = KeyFeesInEscrow i \<and> v = PacketFeesBz fs \<and> fs \<noteq> [] \<and> list_all (payable k) fs)"

definition fees_ok :: "'a fee_keeper \<Rightarrow> (string, fee_value) fmap \<Rightarrow> bool" where
  "fees_ok k s =
     (\<forall>key v. fmlookup s key = Some v \<longrightarrow> HasPrefix key FeesInEscrowPrefix \<or> (\<exists>fs. v = PacketFeesBz fs) \<longrightarrow> fee_entry k key v)"

definition solvent :: "'a fee_keeper \<Rightarrow> ('a \<Rightarrow> bytes \<Rightarrow> string \<Rightarrow> int) \<Rightarrow> 'a fee_app \<Rightarrow> bool" where
  "solvent k bal st = (fees_ok k (fe_store st) \<and> (\<forall>d. owed (fe_store st) d \<le> bal (fe_app st) (fee_account k) d))"

lemma fee_entry_family: "fee_entry k key v \<Longrightarrow> fee_family key = ''feesI''"
  by (auto simp: fee_entry_def)

lemma escrow_prefix_family: "HasPrefix key FeesInEscrowPrefix \<Longrightarrow> fee_family key = ''feesI''"
  by (auto simp: HasPrefix_iff fee_family_def)

lemma fees_ok_entry: "fees_ok k s \<Longrightarrow> fmlookup s key = Some (PacketFeesBz fs) \<Longrightarrow> fs \<noteq> [] \<and> list_all (payable k) fs"
  unfolding fees_ok_def fee_entry_def by blast

lemma fees_ok_lookup:
  "fees_ok k s \<Longrightarrow> fmlookup s (KeyFeesInEscrow i) = Some v \<Longrightarrow> \<exists>fs. v = PacketFeesBz fs \<and> fs \<noteq> [] \<and> list_all (payable k) fs"
proof -
  assume ok: "fees_ok k s" and l: "fmlookup s (KeyFeesInEscrow i) = Some v"
  have "HasPrefix (KeyFeesInEscrow i) FeesInEscrowPrefix" by (simp add: KeyFeesInEscrow_def KeyFeesInEscrowChannelPrefix_def)
  with ok l have "fee_entry k (KeyFeesInEscrow i) v" unfolding fees_ok_def by blast
  then show ?thesis by (auto simp: fee_entry_def)
qed

lemma fees_ok_drop: "fees_ok k s \<Longrightarrow> fees_ok k (fmdrop key s)"
  by (auto simp: fees_ok_def split: if_splits)

lemma other_key:
  assumes "fees_ok k s" and "fee_family key \<noteq> ''feesI''" and "\<And>fs. v \<noteq> PacketFeesBz fs"
  shows "fees_ok k (fmupd key v s)" and "owed (fmupd key v s) d = owed s d" and "owed (fmdrop key s) d = owed s d"
proof -
  show "fees_ok k (fmupd key v s)" using assms escrow_prefix_family by (auto simp: fees_ok_def)
  have "value_owed u d = 0" if "fmlookup s key = Some u" for u
  proof (cases u)
    case (PacketFeesBz fs)
    with that assms(1) have "fee_entry k key u" unfolding fees_ok_def by blast
    with assms(2) fee_entry_family show ?thesis by blast
  qed simp_all
  moreover have "value_owed v d = 0" using assms(3) by (cases v) auto
  ultimately show "owed (fmupd key v s) d = owed s d" "owed (fmdrop key s) d = owed s d"
    by (simp_all add: owed_upd owed_drop split: option.split)
qed

lemma solvent_other:
  assumes "solvent k bal st" and "fee_family key \<noteq> ''feesI''"
  shows "(\<And>fs. v \<noteq> PacketFeesBz fs) \<Longrightarrow> solvent k bal (fe_set key v st)" and "solvent k bal (fe_delete key st)"
  using assms other_key [of k "fe_store st" key v] other_key(3) [of k "fe_store st" key FlagBz] fees_ok_drop
  by (auto simp: solvent_def fe_set_def fe_delete_def)

lemma solvent_accessors:
  assumes "solvent k bal st"
  shows "solvent k bal (SetFeeEnabled p c st)" "solvent k bal (SetPayeeAddress r a c st)" "solvent k bal (SetCounterpartyPayeeAddress r a c st)"
    "solvent k bal (SetRelayerAddressForAsyncAck i a st)" "solvent k bal (DeleteForwardRelayerAddress i st)"
  using solvent_other [OF assms]
  by (simp_all add: SetFeeEnabled_def SetPayeeAddress_def SetCounterpartyPayeeAddress_def SetRelayerAddressForAsyncAck_def
      DeleteForwardRelayerAddress_def)

lemma solvent_app: "solvent k bal st \<Longrightarrow> (\<And>d. bal (fe_app st) (fee_account k) d \<le> bal a (fee_account k) d) \<Longrightarrow> solvent k bal (st\<lparr>fe_app := a\<rparr>)"
  unfolding solvent_def by (auto intro: order.trans)

lemma entries_nonneg:
  assumes "fee_laws k bal" and "fees_ok k s" and "fmlookup s key = Some v"
  shows "0 \<le> value_owed v d"
proof (cases v)
  case (PacketFeesBz fs)
  with fees_ok_entry assms(2,3) have "list_all (payable k) fs" by fastforce
  with PacketFeesBz show ?thesis
    using amounts_nonneg(4) [OF assms(1)] by (auto simp: fees_amount_def list_all_iff intro!: sum_list_nonneg)
qed simp_all

lemma owed_nonneg: "fee_laws k bal \<Longrightarrow> fees_ok k s \<Longrightarrow> 0 \<le> owed s d"
  unfolding owed_def by (rule sum_nonneg) (use entries_nonneg in fastforce)

section \<open>Escrow\<close>

lemma escrowPacketFee_solvent:
  assumes laws: "fee_laws k bal" and sol: "solvent k bal st" and p: "payable k pf" and i: "pid_slash_free i"
    and e: "escrowPacketFee k ctx i pf st = Inr st'"
  shows "solvent k bal st'"
proof -
  define r where "r = refund_of k pf"
  have "r \<noteq> fee_account k" using payable_refund(2) [OF p] fee_lawsD(8) [OF laws] by (auto simp: r_def)
  from e payable_refund(1) [OF p, folded r_def] obtain coins a where t: "Fee_Total (fk_sdk k) (pf_Fee pf) = Inr coins"
    and s: "EscrowCoins k ctx r fee_ModuleName coins (fe_app st) = Inr a"
    and st': "st' = SetFeesInEscrow i (case GetFeesInEscrow st i of None \<Rightarrow> [pf] | Some fs \<Rightarrow> pf # fs) (st\<lparr>fe_app := a\<rparr>)"
    by (auto simp: escrowPacketFee_def Let_def split: if_splits)
  obtain t' where "Fee_Total (fk_sdk k) (pf_Fee pf) = Inr t'" "\<And>d. coins_amount t' d = fee_amount (pf_Fee pf) d"
    by (rule payable_total [OF laws p]) blast
  with t have amt: "coins_amount coins d = fee_amount (pf_Fee pf) d" for d by simp
  have ok: "fees_ok k (fe_store st)" and ow: "owed (fe_store st) d \<le> bal (fe_app st) (fee_account k) d" for d using sol by (simp_all add: solvent_def)
  define old where "old = (case GetFeesInEscrow st i of None \<Rightarrow> [] | Some fs \<Rightarrow> fs)"
  have old: "fmlookup (fe_store st) (KeyFeesInEscrow i) = (if old = [] then None else Some (PacketFeesBz old))" "list_all (payable k) old"
    using fees_ok_lookup [OF ok, of i] by (auto simp: old_def GetFeesInEscrow_def split: option.splits)
  have store: "fe_store st' = fmupd (KeyFeesInEscrow i) (PacketFeesBz (pf # old)) (fe_store st)" "fe_app st' = a"
    unfolding st' old_def by (simp_all add: SetFeesInEscrow_def fe_set_def split: option.split)
  have "fees_ok k (fe_store st')"
    using ok old(2) p i by (auto simp: store fees_ok_def fee_entry_def)
  moreover have "owed (fe_store st') d = owed (fe_store st) d + fee_amount (pf_Fee pf) d" for d
    using old(1) by (simp add: store owed_upd)
  moreover have "bal a (fee_account k) d = bal (fe_app st) (fee_account k) d + fee_amount (pf_Fee pf) d" for d
    using fee_lawsD(5) [OF laws s] \<open>r \<noteq> fee_account k\<close> by (simp add: paid_def amt)
  ultimately show ?thesis using ow by (simp add: solvent_def store(2))
qed

text \<open>What the two paying messages have checked makes the fee payable.\<close>

lemma Fee_Validate_coins:
  "Fee_Validate sdk f = Inr () \<Longrightarrow> Coins_Validate sdk (RecvFee f) \<and> Coins_Validate sdk (AckFee f) \<and> Coins_Validate sdk (TimeoutFee f)"
  by (auto simp: Fee_Validate_def split: if_splits)

lemma PayPacketFee_solvent:
  assumes laws: "fee_laws k bal" and sol: "solvent k bal (app w)"
    and v: "MsgPayPacketFee_ValidateBasic (fk_sdk k) msg = Inr ()" and r: "PayPacketFee k ctx msg w = Inr w'"
  shows "solvent k bal (app w')"
proof -
  let ?pf = "NewPacketFee (ppf_Fee msg) (ppf_Signer msg) (ppf_Relayers msg)"
  from r obtain seq st where e: "escrowPacketFee k ctx \<lparr>pid_PortId = ppf_SourcePortId msg, pid_ChannelId = ppf_SourceChannelId msg, pid_Sequence = seq\<rparr>
      ?pf (app w) = Inr st" and w': "app w' = st" and p: "payable k ?pf"
    using v Fee_Validate_coins [of "fk_sdk k" "ppf_Fee msg"]
    by (auto simp: PayPacketFee_def MsgPayPacketFee_ValidateBasic_def payable_def NewPacketFee_def is_ok_iff split: if_splits option.splits)
  have "pid_slash_free \<lparr>pid_PortId = ppf_SourcePortId msg, pid_ChannelId = ppf_SourceChannelId msg, pid_Sequence = seq\<rparr>"
    using v by (auto simp: MsgPayPacketFee_ValidateBasic_def pid_slash_free_def valid_slash_free)
  from escrowPacketFee_solvent [OF laws sol p this e] w' show ?thesis by simp
qed

lemma PayPacketFeeAsync_solvent:
  assumes laws: "fee_laws k bal" and sol: "solvent k bal (app w)"
    and v: "MsgPayPacketFeeAsync_ValidateBasic (fk_sdk k) msg = Inr ()" and r: "PayPacketFeeAsync k ctx msg w = Inr w'"
  shows "solvent k bal (app w')"
proof -
  from r obtain st where e: "escrowPacketFee k ctx (ppa_PacketId msg) (ppa_PacketFee msg) (app w) = Inr st" and w': "app w' = st"
    and p: "payable k (ppa_PacketFee msg)"
    using v Fee_Validate_coins [of "fk_sdk k" "pf_Fee (ppa_PacketFee msg)"]
    by (auto simp: PayPacketFeeAsync_def MsgPayPacketFeeAsync_ValidateBasic_def PacketFee_Validate_def payable_def is_ok_iff Let_def
        split: if_splits option.splits)
  have "pid_slash_free (ppa_PacketId msg)"
    using v by (auto simp: MsgPayPacketFeeAsync_ValidateBasic_def PacketId_Validate_def pid_slash_free_def valid_slash_free split: sum.splits)
  from escrowPacketFee_solvent [OF laws sol p this e] w' show ?thesis by simp
qed

section \<open>Distribution\<close>

lemma escrowed_fees:
  assumes laws: "fee_laws k bal" and sol: "solvent k bal st" and g: "GetFeesInEscrow st i = Some fs"
  shows "list_all (payable k) fs" and "fees_amount fs d \<le> bal (fe_app st) (fee_account k) d"
    and "owed (fe_store (DeleteFeesInEscrow i st)) d = owed (fe_store st) d - fees_amount fs d"
proof -
  have ok: "fees_ok k (fe_store st)" and ow: "owed (fe_store st) d \<le> bal (fe_app st) (fee_account k) d" using sol by (simp_all add: solvent_def)
  have l: "fmlookup (fe_store st) (KeyFeesInEscrow i) = Some (PacketFeesBz fs)"
    using g by (auto simp: GetFeesInEscrow_def split: option.splits fee_value.splits if_splits)
  show "list_all (payable k) fs" using fees_ok_entry [OF ok l] by simp
  show 3: "owed (fe_store (DeleteFeesInEscrow i st)) d = owed (fe_store st) d - fees_amount fs d"
    by (simp add: DeleteFeesInEscrow_def fe_delete_def owed_drop l)
  have "0 \<le> owed (fe_store (DeleteFeesInEscrow i st)) d"
    using owed_nonneg [OF laws fees_ok_drop [OF ok]] by (simp add: DeleteFeesInEscrow_def fe_delete_def)
  with 3 ow show "fees_amount fs d \<le> bal (fe_app st) (fee_account k) d" by simp
qed

lemma concat_debits: "(\<And>pf d. debits (outs pf) d = fee_amount (pf_Fee pf) d) \<Longrightarrow> debits (concat (map outs fs)) d = fees_amount fs d"
  by (induction fs) simp_all

lemma concat_nonneg:
  "(\<And>pf y cs d. payable k pf \<Longrightarrow> (y, cs) \<in> set (outs pf) \<Longrightarrow> 0 \<le> coins_amount cs d) \<Longrightarrow> list_all (payable k) fs \<Longrightarrow>
     (y, cs) \<in> set (concat (map outs fs)) \<Longrightarrow> 0 \<le> coins_amount cs d"
  by (auto simp: list_all_iff)

text \<open>
  From a solvent state the distribution for a packet pays out what the list of payments says, forgets
  the fees and leaves the module solvent and unlocked.
\<close>

definition distributed :: "'a fee_keeper \<Rightarrow> ('a \<Rightarrow> bytes \<Rightarrow> string \<Rightarrow> int) \<Rightarrow> PacketId \<Rightarrow> payments \<Rightarrow> 'a fee_app \<Rightarrow> 'a fee_app \<Rightarrow> bool" where
  "distributed k bal i ps st st' =
     (fe_store st' = fmdrop (KeyFeesInEscrow i) (fe_store st) \<and> paid_out (fee_account k) ps (bal (fe_app st)) (bal (fe_app st'))
      \<and> solvent k bal st')"

lemma distributedI:
  assumes laws: "fee_laws k bal" and sol: "solvent k bal st" and g: "GetFeesInEscrow st i = Some fs"
    and outs: "\<And>pf d. debits (outs pf) d = fee_amount (pf_Fee pf) d"
      "\<And>pf y cs d. payable k pf \<Longrightarrow> (y, cs) \<in> set (outs pf) \<Longrightarrow> 0 \<le> coins_amount cs d"
    and p: "paid_out (fee_account k) (concat (map outs fs)) (bal (fe_app st)) (bal a)"
  shows "distributed k bal i (concat (map outs fs)) st (DeleteFeesInEscrow i (st\<lparr>fe_app := a\<rparr>))"
proof -
  note e = escrowed_fees [OF laws sol g]
  have "bal (fe_app st) (fee_account k) d - fees_amount fs d \<le> bal a (fee_account k) d" for d
    using paid_out_covers [OF p, of d] concat_nonneg [where outs = outs, OF outs(2) e(1)] concat_debits [of outs, OF outs(1)] by fastforce
  moreover have "owed (fe_store st) d \<le> bal (fe_app st) (fee_account k) d" "fees_ok k (fe_store st)" for d
    using sol by (simp_all add: solvent_def)
  ultimately have "owed (fe_store st) d - fees_amount fs d \<le> bal a (fee_account k) d" "fees_ok k (fe_store st)" for d
    by (smt (verit))+
  then show ?thesis using p e(3) fees_ok_drop
    by (auto simp: distributed_def solvent_def DeleteFeesInEscrow_def fe_delete_def)
qed

lemma ack_distributed:
  assumes laws: "fee_laws k bal" and sol: "solvent k bal st" and g: "GetFeesInEscrow st i = Some fs"
  shows "\<exists>st'. DistributePacketFeesOnAcknowledgement k ctx fwd bwd fs i st = Inr st'
    \<and> distributed k bal i (concat (map (ack_payouts k (case AccAddressFromBech32 (fk_sdk k) fwd of None \<Rightarrow> [] | Some f \<Rightarrow> f) bwd) fs)) st st'"
proof -
  let ?fwd = "case AccAddressFromBech32 (fk_sdk k) fwd of None \<Rightarrow> [] | Some f \<Rightarrow> f"
  note e = escrowed_fees [OF laws sol g]
  obtain a' where a': "distribute_each k ctx (\<lambda>r. distributePacketFeeOnAcknowledgement k ctx r ?fwd bwd) fs (fe_app st) = Inr (Some a')"
    "paid_out (fee_account k) (concat (map (ack_payouts k ?fwd bwd) fs)) (bal (fe_app st)) (bal a')"
    using distribute_each_pays [where bal = bal and outs = "ack_payouts k ?fwd bwd" and pay = "\<lambda>r. distributePacketFeeOnAcknowledgement k ctx r ?fwd bwd" and fs = fs and a = "fe_app st" and ctx = ctx, OF laws]
      ack_pays [OF laws] payouts_total(1) payouts_nonneg(1) [OF laws] e(1,2) by meson
  note out = payouts_total(1) payouts_nonneg(1) [OF laws]
  from distributedI [where bal = bal and outs = "ack_payouts k ?fwd bwd", OF laws sol g out a'(2)] a'(1)
  show ?thesis by (simp add: DistributePacketFeesOnAcknowledgement_def Let_def)
qed

lemma timeout_distributed:
  assumes laws: "fee_laws k bal" and sol: "solvent k bal st" and g: "GetFeesInEscrow st i = Some fs"
  shows "\<exists>st'. DistributePacketFeesOnTimeout k ctx rel fs i st = Inr st'
    \<and> distributed k bal i (concat (map (timeout_payouts k rel) fs)) st st'"
proof -
  note e = escrowed_fees [OF laws sol g]
  obtain a' where a': "distribute_each k ctx (\<lambda>r. distributePacketFeeOnTimeout k ctx r rel) fs (fe_app st) = Inr (Some a')"
    "paid_out (fee_account k) (concat (map (timeout_payouts k rel) fs)) (bal (fe_app st)) (bal a')"
    using distribute_each_pays [where bal = bal and outs = "timeout_payouts k rel" and pay = "\<lambda>r. distributePacketFeeOnTimeout k ctx r rel" and fs = fs and a = "fe_app st" and ctx = ctx, OF laws]
      timeout_pays [OF laws] payouts_total(2) payouts_nonneg(2) [OF laws] e(1,2) by meson
  note out = payouts_total(2) payouts_nonneg(2) [OF laws]
  from distributedI [where bal = bal and outs = "timeout_payouts k rel", OF laws sol g out a'(2)] a'(1)
  show ?thesis by (simp add: DistributePacketFeesOnTimeout_def)
qed

section \<open>Iteration\<close>

lemma fe_values_iff: "(key, v) \<in> set (fe_values st pre) \<longleftrightarrow> fmlookup (fe_store st) key = Some v \<and> HasPrefix key pre"
  by (simp add: fe_values_def prefix_values_iff)

lemma fe_values_distinct: "distinct (map fst (fe_values st pre))"
  by (simp add: fe_values_def prefix_values_distinct)

definition entry :: "IdentifiedPacketFees \<Rightarrow> string \<times> fee_value" where
  "entry i = (KeyFeesInEscrow (if_PacketId i), PacketFeesBz (if_PacketFees i))"

lemma entry_simps [simp]: "entry \<lparr>if_PacketId = j, if_PacketFees = fs\<rparr> = (KeyFeesInEscrow j, PacketFeesBz fs)"
  by (simp add: entry_def)

lemma collect_entries:
  assumes "\<And>key v. (key, v) \<in> set kvs \<Longrightarrow> fee_entry k key v"
  shows "\<exists>is. collect identified_fees kvs = Inr is \<and> map entry is = kvs
    \<and> list_all (\<lambda>i. pid_slash_free (if_PacketId i) \<and> list_all (payable k) (if_PacketFees i)) is"
  using assms
proof (induction kvs)
  case Nil
  then show ?case by simp
next
  case (Cons kv kvs)
  obtain key v where kv: "kv = (key, v)" by (cases kv) simp
  with Cons.prems [of key v] obtain j fs where j: "pid_slash_free j" "key = KeyFeesInEscrow j" "v = PacketFeesBz fs" "list_all (payable k) fs"
    by (auto simp: fee_entry_def)
  then have "identified_fees kv = Inr \<lparr>if_PacketId = j, if_PacketFees = fs\<rparr>"
    by (simp add: kv identified_fees_def fee_keys_parse NewIdentifiedPacketFees_def)
  moreover from Cons obtain "is" where "collect identified_fees kvs = Inr is" "map entry is = kvs"
    "list_all (\<lambda>i. pid_slash_free (if_PacketId i) \<and> list_all (payable k) (if_PacketFees i)) is" by auto
  ultimately show ?case using j by (intro exI [of _ "\<lparr>if_PacketId = j, if_PacketFees = fs\<rparr> # is"]) (simp add: kv)
qed

lemma escrow_values_entries:
  assumes "fees_ok k (fe_store st)" and "HasPrefix pre FeesInEscrowPrefix" and "(key, v) \<in> set (fe_values st pre)"
  shows "fee_entry k key v"
proof -
  from assms(2,3) have "fmlookup (fe_store st) key = Some v" "HasPrefix key FeesInEscrowPrefix"
    by (auto simp: fe_values_iff HasPrefix_iff)
  with assms(1) show ?thesis unfolding fees_ok_def by blast
qed

lemma channel_entries:
  assumes "fees_ok k (fe_store st)"
  shows "\<exists>is. GetIdentifiedPacketFeesForChannel st p c = Inr is \<and> map entry is = fe_values st (KeyFeesInEscrowChannelPrefix p c)
    \<and> list_all (\<lambda>i. pid_slash_free (if_PacketId i) \<and> list_all (payable k) (if_PacketFees i)) is"
  unfolding GetIdentifiedPacketFeesForChannel_def
  by (rule collect_entries, rule escrow_values_entries [OF assms]) (simp_all add: KeyFeesInEscrowChannelPrefix_def)

section \<open>Refunds\<close>

definition refund_payouts :: "'a fee_keeper \<Rightarrow> PacketFee \<Rightarrow> payments" where
  "refund_payouts k pf =
     [(refund_of k pf, RecvFee (pf_Fee pf)), (refund_of k pf, AckFee (pf_Fee pf)), (refund_of k pf, TimeoutFee (pf_Fee pf))]"

definition refunds :: "'a fee_keeper \<Rightarrow> IdentifiedPacketFees list \<Rightarrow> payments" where
  "refunds k is = concat (map (\<lambda>i. concat (map (refund_payouts k) (if_PacketFees i))) is)"

lemma refund_payouts_facts:
  "debits (refund_payouts k pf) d = fee_amount (pf_Fee pf) d"
  "fee_laws k bal \<Longrightarrow> payable k pf \<Longrightarrow> (y, cs) \<in> set (refund_payouts k pf) \<Longrightarrow> 0 \<le> coins_amount cs d"
  using amounts_nonneg [of k bal pf] by (auto simp: refund_payouts_def fee_amount_def)

lemma pay_total:
  assumes laws: "fee_laws k bal" and p: "payable k pf" and c: "\<And>d. fee_amount (pf_Fee pf) d \<le> bal a (fee_account k) d"
  obtains total a1 where "Fee_Total (fk_sdk k) (pf_Fee pf) = Inr total" "EscrowAccountHasBalance k ctx total a"
    "PayCoins k ctx fee_ModuleName (refund_of k pf) total a = (None, a1)" "paid_out (fee_account k) (refund_payouts k pf) (bal a) (bal a1)"
proof -
  obtain total where t: "Fee_Total (fk_sdk k) (pf_Fee pf) = Inr total" "Coins_Validate (fk_sdk k) total"
    "\<And>d. coins_amount total d = fee_amount (pf_Fee pf) d" by (rule payable_total [OF laws p]) blast
  have cov: "\<forall>d. coins_amount total d \<le> bal a (fee_account k) d" using t(3) c by simp
  obtain e a1 where pc: "PayCoins k ctx fee_ModuleName (refund_of k pf) total a = (e, a1)"
    by (cases "PayCoins k ctx fee_ModuleName (refund_of k pf) total a") simp
  note law = fee_lawsD(6) [where bal = bal and a = a and ctx = ctx and x = "refund_of k pf", OF laws t(2) cov, unfolded pc prod.case]
  with payable_refund(2) [OF p] have "e = None" by (cases e) simp_all
  with law have "paid (fee_account k) (refund_of k pf) total (bal a) (bal a1)" by simp
  then have "paid_out (fee_account k) (refund_payouts k pf) (bal a) (bal a1)"
    by (auto simp: paid_def paid_out_def refund_payouts_def t(3) fee_amount_def)
  with that t(1) pc \<open>e = None\<close> covered_has_balance [OF laws t(2)] cov show thesis by blast
qed

lemma fees_amount_nonneg: "fee_laws k bal \<Longrightarrow> list_all (payable k) fs \<Longrightarrow> 0 \<le> fees_amount fs d"
  using amounts_nonneg(4) [of k bal] by (auto simp: fees_amount_def list_all_iff intro!: sum_list_nonneg)

lemma refund_packet_pays:
  assumes laws: "fee_laws k bal" and "list_all (payable k) fs" and "\<And>d. fees_amount fs d \<le> bal a (fee_account k) d"
  shows "\<exists>a'. refund_packet k ctx fs False a = Inr (Some (False, a'))
    \<and> paid_out (fee_account k) (concat (map (refund_payouts k) fs)) (bal a) (bal a')"
  using assms(2,3)
proof (induction fs arbitrary: a)
  case Nil
  then show ?case by simp
next
  case (Cons pf fs)
  from Cons.prems have p: "payable k pf" and rest: "list_all (payable k) fs" by simp_all
  have c: "fee_amount (pf_Fee pf) d \<le> bal a (fee_account k) d" for d
    using Cons.prems(2) [of d] fees_amount_nonneg [OF laws rest, of d] by simp
  obtain total a1 where t: "Fee_Total (fk_sdk k) (pf_Fee pf) = Inr total" "EscrowAccountHasBalance k ctx total a"
    "PayCoins k ctx fee_ModuleName (refund_of k pf) total a = (None, a1)" "paid_out (fee_account k) (refund_payouts k pf) (bal a) (bal a1)"
    by (rule pay_total [where bal = bal and a = a and ctx = ctx, OF laws p c]) blast
  have "bal a (fee_account k) d - fee_amount (pf_Fee pf) d \<le> bal a1 (fee_account k) d" for d
    using paid_out_covers [OF t(4), of d, OF refund_payouts_facts(2) [OF laws p]] by (simp add: refund_payouts_facts(1))
  then have "fees_amount fs d \<le> bal a1 (fee_account k) d" for d using Cons.prems(2) [of d] by (smt (verit) fees_amount_simps(2))
  from Cons.IH [OF rest this] obtain a' where a': "refund_packet k ctx fs False a1 = Inr (Some (False, a'))"
    "paid_out (fee_account k) (concat (map (refund_payouts k) fs)) (bal a1) (bal a')" by blast
  with t payable_refund(1) [OF p] have "refund_packet k ctx (pf # fs) False a = Inr (Some (False, a'))" by simp
  with paid_out_append [OF t(4) a'(2)] show ?case by (intro exI [of _ a']) simp
qed

definition drop_entries :: "IdentifiedPacketFees list \<Rightarrow> (string, fee_value) fmap \<Rightarrow> (string, fee_value) fmap" where
  "drop_entries is s = fold (\<lambda>i. fmdrop (KeyFeesInEscrow (if_PacketId i))) is s"

definition entries_amount :: "IdentifiedPacketFees list \<Rightarrow> string \<Rightarrow> int" where
  "entries_amount is d = sum_list (map (\<lambda>i. fees_amount (if_PacketFees i) d) is)"

lemma refund_all_pays:
  assumes laws: "fee_laws k bal" and "list_all (\<lambda>i. list_all (payable k) (if_PacketFees i)) is"
    and "\<And>d. entries_amount is d \<le> bal (fe_app st) (fee_account k) d"
  shows "\<exists>st'. refund_all k ctx is st = Inr (Some st') \<and> fe_store st' = drop_entries is (fe_store st)
    \<and> paid_out (fee_account k) (refunds k is) (bal (fe_app st)) (bal (fe_app st'))"
  using assms(2,3)
proof (induction "is" arbitrary: st)
  case Nil
  then show ?case by (simp add: drop_entries_def refunds_def)
next
  case (Cons i "is")
  let ?m = "fee_account k"
  from Cons.prems have p: "list_all (payable k) (if_PacketFees i)" and rest: "list_all (\<lambda>i. list_all (payable k) (if_PacketFees i)) is" by simp_all
  have nn: "0 \<le> entries_amount is d" for d
    using rest fees_amount_nonneg [OF laws] by (auto simp: entries_amount_def list_all_iff intro!: sum_list_nonneg)
  have c: "fees_amount (if_PacketFees i) d \<le> bal (fe_app st) ?m d" for d
    using Cons.prems(2) [of d] nn [of d] by (simp add: entries_amount_def)
  obtain a where a: "refund_packet k ctx (if_PacketFees i) False (fe_app st) = Inr (Some (False, a))"
    "paid_out ?m (concat (map (refund_payouts k) (if_PacketFees i))) (bal (fe_app st)) (bal a)"
    using refund_packet_pays [where bal = bal and a = "fe_app st" and ctx = ctx, OF laws p c] by blast
  let ?st = "DeleteFeesInEscrow (if_PacketId i) (st\<lparr>fe_app := a\<rparr>)"
  have "bal (fe_app st) ?m d - fees_amount (if_PacketFees i) d \<le> bal a ?m d" for d
    using paid_out_covers [OF a(2), of d] concat_nonneg [where outs = "refund_payouts k", OF refund_payouts_facts(2) [OF laws] p]
      concat_debits [of "refund_payouts k", OF refund_payouts_facts(1)] by fastforce
  then have "entries_amount is d \<le> bal (fe_app ?st) ?m d" for d
    using Cons.prems(2) [of d] by (simp add: entries_amount_def DeleteFeesInEscrow_def fe_delete_def) (smt (verit))
  from Cons.IH [OF rest this] obtain st' where st': "refund_all k ctx is ?st = Inr (Some st')" "fe_store st' = drop_entries is (fe_store ?st)"
    "paid_out ?m (refunds k is) (bal (fe_app ?st)) (bal (fe_app st'))" by blast
  from st'(1) a(1) have "refund_all k ctx (i # is) st = Inr (Some st')" by simp
  moreover have "fe_store st' = drop_entries (i # is) (fe_store st)"
    using st'(2) by (simp add: drop_entries_def DeleteFeesInEscrow_def fe_delete_def)
  moreover have "paid_out ?m (refunds k (i # is)) (bal (fe_app st)) (bal (fe_app st'))"
    using paid_out_append [OF a(2)] st'(3) by (simp add: refunds_def DeleteFeesInEscrow_def fe_delete_def)
  ultimately show ?case by blast
qed

lemma drop_entries_lookup:
  "fmlookup (drop_entries is s) key = (if \<exists>i\<in>set is. key = KeyFeesInEscrow (if_PacketId i) then None else fmlookup s key)"
proof (induction "is" arbitrary: s)
  case Nil
  then show ?case by (simp add: drop_entries_def)
next
  case (Cons i "is")
  have "drop_entries (i # is) s = drop_entries is (fmdrop (KeyFeesInEscrow (if_PacketId i)) s)" by (simp add: drop_entries_def)
  then show ?case using Cons.IH [of "fmdrop (KeyFeesInEscrow (if_PacketId i)) s"] by auto
qed

lemma fees_ok_drop_entries: "fees_ok k s \<Longrightarrow> fees_ok k (drop_entries is s)"
  by (auto simp: fees_ok_def drop_entries_lookup split: if_splits)

lemma owed_drop_entries:
  assumes "distinct (map fst (map entry is))" and "\<And>i. i \<in> set is \<Longrightarrow> fmlookup s (fst (entry i)) = Some (snd (entry i))"
  shows "owed (drop_entries is s) d = owed s d - entries_amount is d"
  using assms
proof (induction "is" arbitrary: s)
  case Nil
  then show ?case by (simp add: drop_entries_def entries_amount_def)
next
  case (Cons i "is")
  let ?s = "fmdrop (KeyFeesInEscrow (if_PacketId i)) s"
  have "drop_entries (i # is) s = drop_entries is ?s" by (simp add: drop_entries_def)
  moreover have "owed (drop_entries is ?s) d = owed ?s d - entries_amount is d"
  proof (rule Cons.IH)
    show "distinct (map fst (map entry is))" using Cons.prems(1) by simp
    show "fmlookup ?s (fst (entry j)) = Some (snd (entry j))" if "j \<in> set is" for j
    proof -
      have "fst (entry j) \<noteq> KeyFeesInEscrow (if_PacketId i)" using Cons.prems(1) that by (force simp: entry_def image_iff)
      then show ?thesis using Cons.prems(2) [of j] that by simp
    qed
  qed
  moreover have "owed ?s d = owed s d - fees_amount (if_PacketFees i) d"
    using Cons.prems(2) [of i] by (simp add: owed_drop entry_def)
  ultimately show ?case by (simp add: entries_amount_def)
qed

text \<open>
  From a solvent state the closure of a channel refunds all the fees it finds, forgets them, and leaves
  the module solvent and unlocked.
\<close>

lemma closure_refunds:
  assumes laws: "fee_laws k bal" and sol: "solvent k bal st"
  shows "\<exists>is st'. GetIdentifiedPacketFeesForChannel st p c = Inr is \<and> map entry is = fe_values st (KeyFeesInEscrowChannelPrefix p c)
    \<and> list_all (\<lambda>i. pid_slash_free (if_PacketId i)) is
    \<and> RefundFeesOnChannelClosure k ctx p c st = Inr st' \<and> fe_store st' = drop_entries is (fe_store st)
    \<and> paid_out (fee_account k) (refunds k is) (bal (fe_app st)) (bal (fe_app st')) \<and> solvent k bal st'"
proof -
  have ok: "fees_ok k (fe_store st)" and ow: "owed (fe_store st) d \<le> bal (fe_app st) (fee_account k) d" for d using sol by (simp_all add: solvent_def)
  obtain "is" where i: "GetIdentifiedPacketFeesForChannel st p c = Inr is" "map entry is = fe_values st (KeyFeesInEscrowChannelPrefix p c)"
    "list_all (\<lambda>i. pid_slash_free (if_PacketId i) \<and> list_all (payable k) (if_PacketFees i)) is"
    using channel_entries [OF ok] by blast
  have dist: "distinct (map fst (map entry is))" unfolding i(2) by (rule fe_values_distinct)
  have look: "fmlookup (fe_store st) (fst (entry j)) = Some (snd (entry j))" if "j \<in> set is" for j
  proof -
    have "(fst (entry j), snd (entry j)) \<in> set (fe_values st (KeyFeesInEscrowChannelPrefix p c))" using that unfolding i(2) [symmetric] by simp
    then show ?thesis by (simp only: fe_values_iff)
  qed
  note drop = owed_drop_entries [OF dist look]
  have "entries_amount is d \<le> bal (fe_app st) (fee_account k) d" for d
    using owed_nonneg [OF laws fees_ok_drop_entries [OF ok], of "is" d] drop [of d] ow [of d] by simp
  moreover have pl: "list_all (\<lambda>i. list_all (payable k) (if_PacketFees i)) is" using i(3) by (simp add: list_all_iff)
  ultimately obtain st' where st': "refund_all k ctx is st = Inr (Some st')" "fe_store st' = drop_entries is (fe_store st)"
    "paid_out (fee_account k) (refunds k is) (bal (fe_app st)) (bal (fe_app st'))"
    using refund_all_pays [where bal = bal and ctx = ctx and st = st, OF laws] by blast
  have nn: "(y, cs) \<in> set (refunds k is) \<Longrightarrow> 0 \<le> coins_amount cs d" for y cs d
    using pl refund_payouts_facts(2) [OF laws, of _ y cs d] by (fastforce simp: refunds_def list_all_iff)
  have "debits (refunds k is) d = entries_amount is d" for d
    by (induction "is") (simp_all add: refunds_def entries_amount_def concat_debits refund_payouts_facts(1))
  then have "bal (fe_app st) (fee_account k) d - entries_amount is d \<le> bal (fe_app st') (fee_account k) d" for d
    using paid_out_covers [OF st'(3), of d, OF nn] by simp
  then have "owed (fe_store st') d \<le> bal (fe_app st') (fee_account k) d" for d
    using drop [of d] ow [of d] st'(2) by (smt (verit))
  then have "solvent k bal st'" using fees_ok_drop_entries [OF ok] st'(2) by (simp add: solvent_def)
  moreover have "RefundFeesOnChannelClosure k ctx p c st = Inr st'" using i(1) st'(1) by (simp add: RefundFeesOnChannelClosure_def)
  moreover have "list_all (\<lambda>i. pid_slash_free (if_PacketId i)) is" using i(3) by (simp add: list_all_iff)
  ultimately show ?thesis using i(1,2) st'(2,3) by blast
qed

section \<open>Every step\<close>

text \<open>The application never takes coins from the account of the middleware.\<close>

definition keeps_account :: "'a fee_keeper \<Rightarrow> ('a \<Rightarrow> bytes \<Rightarrow> string \<Rightarrow> int) \<Rightarrow> 'a \<Rightarrow> 'a \<Rightarrow> bool" where
  "keeps_account k bal a a' = (\<forall>d. bal a (fee_account k) d \<le> bal a' (fee_account k) d)"

inductive app_step :: "'a IBCModule \<Rightarrow> 'a world \<Rightarrow> 'a world \<Rightarrow> bool" for cbs where
  app_open_init: "OnChanOpenInit cbs ctx ord hops p c cap cp v w = Inr (r, w') \<Longrightarrow> app_step cbs w w'"
| app_open_try: "OnChanOpenTry cbs ctx ord hops p c cap cp v w = Inr (r, w') \<Longrightarrow> app_step cbs w w'"
| app_open_ack: "OnChanOpenAck cbs ctx p c i v w = Inr w' \<Longrightarrow> app_step cbs w w'"
| app_open_confirm: "OnChanOpenConfirm cbs ctx p c w = Inr w' \<Longrightarrow> app_step cbs w w'"
| app_close_init: "OnChanCloseInit cbs ctx p c w = Inr w' \<Longrightarrow> app_step cbs w w'"
| app_close_confirm: "OnChanCloseConfirm cbs ctx p c w = Inr w' \<Longrightarrow> app_step cbs w w'"
| app_recv: "OnRecvPacket cbs ctx pkt rel w = Inr (a, w') \<Longrightarrow> app_step cbs w w'"
| app_acknowledge: "OnAcknowledgementPacket cbs ctx pkt bz rel w = Inr w' \<Longrightarrow> app_step cbs w w'"
| app_timeout: "OnTimeoutPacket cbs ctx pkt rel w = Inr w' \<Longrightarrow> app_step cbs w w'"

definition spares :: "'a fee_keeper \<Rightarrow> ('a \<Rightarrow> bytes \<Rightarrow> string \<Rightarrow> int) \<Rightarrow> 'a IBCModule \<Rightarrow> bool" where
  "spares k bal cbs = (\<forall>w w'. app_step cbs w w' \<longrightarrow> keeps_account k bal (app w) (app w'))"

text \<open>
  The steps of a chain with the middleware over an application: its messages, its ICS-4 wrapper, its
  callbacks, and everything else, which neither writes its store nor takes from its account.
\<close>

inductive fee_step :: "'a fee_keeper \<Rightarrow> ('a \<Rightarrow> bytes \<Rightarrow> string \<Rightarrow> int) \<Rightarrow> 'a IBCModule \<Rightarrow> 'a fee_app world \<Rightarrow> 'a fee_app world \<Rightarrow> bool"
  for k bal cbs where
  step_register_payee: "RegisterPayee k m w = Inr w' \<Longrightarrow> fee_step k bal cbs w w'"
| step_register_counterparty: "RegisterCounterpartyPayee m w = Inr w' \<Longrightarrow> fee_step k bal cbs w w'"
| step_pay: "MsgPayPacketFee_ValidateBasic (fk_sdk k) m = Inr () \<Longrightarrow> PayPacketFee k ctx m w = Inr w' \<Longrightarrow> fee_step k bal cbs w w'"
| step_pay_async:
    "MsgPayPacketFeeAsync_ValidateBasic (fk_sdk k) m = Inr () \<Longrightarrow> PayPacketFeeAsync k ctx m w = Inr w' \<Longrightarrow> fee_step k bal cbs w w'"
| step_write_ack: "fee_WriteAcknowledgement k cap pkt a w = Inr w' \<Longrightarrow> fee_step k bal cbs w w'"
| step_fee_open_init: "fee_OnChanOpenInit k cbs ctx ord hops p c cap cp v w = Inr (r, w') \<Longrightarrow> fee_step k bal cbs w w'"
| step_fee_open_try: "fee_OnChanOpenTry k cbs ctx ord hops p c cap cp v w = Inr (r, w') \<Longrightarrow> fee_step k bal cbs w w'"
| step_fee_open_ack: "fee_OnChanOpenAck k cbs ctx p c i v w = Inr w' \<Longrightarrow> fee_step k bal cbs w w'"
| step_fee_open_confirm: "fee_OnChanOpenConfirm cbs ctx p c w = Inr w' \<Longrightarrow> fee_step k bal cbs w w'"
| step_fee_close_init: "fee_OnChanCloseInit k cbs ctx p c w = Inr w' \<Longrightarrow> fee_step k bal cbs w w'"
| step_fee_close_confirm: "fee_OnChanCloseConfirm k cbs ctx p c w = Inr w' \<Longrightarrow> fee_step k bal cbs w w'"
| step_fee_recv: "fee_OnRecvPacket k cbs ctx pkt rel w = Inr (a, w') \<Longrightarrow> fee_step k bal cbs w w'"
| step_fee_acknowledge: "fee_OnAcknowledgementPacket k cbs ctx pkt bz rel w = Inr w' \<Longrightarrow> fee_step k bal cbs w w'"
| step_fee_timeout: "fee_OnTimeoutPacket k cbs ctx pkt rel w = Inr w' \<Longrightarrow> fee_step k bal cbs w w'"
| step_elsewhere: "fe_store (app w') = fe_store (app w) \<Longrightarrow> keeps_account k bal (fe_app (app w)) (fe_app (app w')) \<Longrightarrow> fee_step k bal cbs w w'"

text \<open>What a step keeps: the module is solvent, and as locked as it was.\<close>

definition sound_step :: "'a fee_keeper \<Rightarrow> ('a \<Rightarrow> bytes \<Rightarrow> string \<Rightarrow> int) \<Rightarrow> 'a fee_app \<Rightarrow> 'a fee_app \<Rightarrow> bool" where
  "sound_step k bal st st' = (solvent k bal st' \<and> fmlookup (fe_store st') KeyLocked = fmlookup (fe_store st) KeyLocked)"

lemma below_sound:
  assumes sol: "solvent k bal (app w)" and "keeps_account k bal (fe_app (app w)) (app x)"
  shows "sound_step k bal (app w) (app (raise w x))"
  using solvent_app [OF sol, of "app x"] assms(2) by (simp add: sound_step_def keeps_account_def raise_def)

lemma sound_trans: "sound_step k bal a b \<Longrightarrow> sound_step k bal b c \<Longrightarrow> sound_step k bal a c"
  by (simp add: sound_step_def)

lemma key_not_locked [simp]:
  "KeyFeeEnabled p c \<noteq> KeyLocked" "KeyPayee r c \<noteq> KeyLocked" "KeyCounterpartyPayee r c \<noteq> KeyLocked"
  "KeyRelayerAddressForAsyncAck i \<noteq> KeyLocked" "KeyFeesInEscrow i \<noteq> KeyLocked"
  by (rule notI, drule arg_cong [where f = fee_family], simp)+

lemmas locked_not_key [simp] = key_not_locked [THEN not_sym]

lemma accessors_sound:
  assumes "solvent k bal st"
  shows "sound_step k bal st (SetFeeEnabled p c st)" "sound_step k bal st (SetPayeeAddress r a c st)"
    "sound_step k bal st (SetCounterpartyPayeeAddress r a c st)" "sound_step k bal st (SetRelayerAddressForAsyncAck i a st)"
    "sound_step k bal st (DeleteForwardRelayerAddress i st)"
  using solvent_accessors [OF assms]
  by (simp_all add: sound_step_def SetFeeEnabled_def SetPayeeAddress_def SetCounterpartyPayeeAddress_def SetRelayerAddressForAsyncAck_def
      DeleteForwardRelayerAddress_def fe_set_def fe_delete_def)

lemma escrowPacketFee_locked: "escrowPacketFee k ctx i pf st = Inr st' \<Longrightarrow> fmlookup (fe_store st') KeyLocked = fmlookup (fe_store st) KeyLocked"
  by (auto simp: escrowPacketFee_def SetFeesInEscrow_def fe_set_def Let_def split: option.splits if_splits)

lemma pay_sound:
  assumes "fee_laws k bal" and "solvent k bal (app w)"
  shows "MsgPayPacketFee_ValidateBasic (fk_sdk k) m = Inr () \<Longrightarrow> PayPacketFee k ctx m w = Inr w' \<Longrightarrow> sound_step k bal (app w) (app w')"
    and "MsgPayPacketFeeAsync_ValidateBasic (fk_sdk k) n = Inr () \<Longrightarrow> PayPacketFeeAsync k ctx n w = Inr w' \<Longrightarrow> sound_step k bal (app w) (app w')"
proof -
  assume v: "MsgPayPacketFee_ValidateBasic (fk_sdk k) m = Inr ()" and r: "PayPacketFee k ctx m w = Inr w'"
  from r have "fmlookup (fe_store (app w')) KeyLocked = fmlookup (fe_store (app w)) KeyLocked"
    by (auto simp: PayPacketFee_def dest: escrowPacketFee_locked split: if_splits option.splits)
  with PayPacketFee_solvent [OF assms v r] show "sound_step k bal (app w) (app w')" by (simp add: sound_step_def)
next
  assume v: "MsgPayPacketFeeAsync_ValidateBasic (fk_sdk k) n = Inr ()" and r: "PayPacketFeeAsync k ctx n w = Inr w'"
  from r have "fmlookup (fe_store (app w')) KeyLocked = fmlookup (fe_store (app w)) KeyLocked"
    by (auto simp: PayPacketFeeAsync_def Let_def dest: escrowPacketFee_locked split: if_splits option.splits)
  with PayPacketFeeAsync_solvent [OF assms v r] show "sound_step k bal (app w) (app w')" by (simp add: sound_step_def)
qed

lemma write_ack_sound:
  "solvent k bal (app w) \<Longrightarrow> fee_WriteAcknowledgement k cap pkt a w = Inr w' \<Longrightarrow> sound_step k bal (app w) (app w')"
  using accessors_sound(5) [of k bal "app w" "dest_id pkt"]
  by (auto simp: fee_WriteAcknowledgement_def Let_def sound_step_def split: if_splits option.splits)

lemma distributed_sound: "distributed k bal i ps st st' \<Longrightarrow> sound_step k bal st st'"
  by (simp add: distributed_def sound_step_def)

lemma closure_sound:
  assumes laws: "fee_laws k bal" and sol: "solvent k bal (app w)" and r: "refund_on_closure k ctx p c w = Inr w'"
  shows "sound_step k bal (app w) (app w')"
proof (cases "IsFeeEnabled (app w) p c \<and> \<not> IsLocked (app w)")
  case True
  from closure_refunds [OF laws sol, of p c ctx] obtain "is" st' where st': "RefundFeesOnChannelClosure k ctx p c (app w) = Inr st'"
    "fe_store st' = drop_entries is (fe_store (app w))" "solvent k bal st'" by blast
  with True r have "app w' = st'" by (simp add: refund_on_closure_def split: if_splits) auto
  then show ?thesis using st' by (simp add: sound_step_def drop_entries_lookup)
next
  case False
  with r sol show ?thesis by (auto simp: refund_on_closure_def sound_step_def split: if_splits)
qed

text \<open>The callbacks that pay fees, on every path.\<close>

definition fees_settled :: "'a fee_keeper \<Rightarrow> ('a \<Rightarrow> bytes \<Rightarrow> string \<Rightarrow> int) \<Rightarrow> PacketId \<Rightarrow> 'a fee_app \<Rightarrow> 'a fee_app \<Rightarrow> bool" where
  "fees_settled k bal i st st' = (st' = st \<or> (\<exists>ps. distributed k bal i ps st st'))"

lemma acknowledge_settles:
  assumes laws: "fee_laws k bal" and sol: "solvent k bal (app w)" and r: "fee_OnAcknowledgementPacket k cbs ctx pkt bz rel w = Inr w'"
  shows "\<exists>b st x. fees_settled k bal (source_id pkt) (app w) st \<and> OnAcknowledgementPacket cbs ctx pkt b rel (lower (w\<lparr>app := st\<rparr>)) = Inr x
    \<and> w' = raise (w\<lparr>app := st\<rparr>) x"
proof (cases "IsFeeEnabled (app w) (SourcePort pkt) (SourceChannel pkt)")
  case False
  with r have "below (OnAcknowledgementPacket cbs ctx pkt bz rel) (w\<lparr>app := app w\<rparr>) = Inr w'" by (simp add: fee_OnAcknowledgementPacket_def)
  then show ?thesis unfolding below_Inr fees_settled_def by blast
next
  case True
  with r obtain ack where u: "UnmarshalIncentivizedAck (fk_lib k) bz = Inr ack" by (auto simp: fee_OnAcknowledgementPacket_def)
  show ?thesis
  proof (cases "IsLocked (app w) \<or> GetFeesInEscrow (app w) (source_id pkt) = None")
    case skip: True
    with True r u have "below (OnAcknowledgementPacket cbs ctx pkt (AppAcknowledgement ack) rel) (w\<lparr>app := app w\<rparr>) = Inr w'"
      by (auto simp: fee_OnAcknowledgementPacket_def split: if_splits)
    then show ?thesis unfolding below_Inr fees_settled_def by blast
  next
    case False
    then obtain fs where f: "GetFeesInEscrow (app w) (source_id pkt) = Some fs" by blast
    with True False r u obtain payee st where d: "DistributePacketFeesOnAcknowledgement k ctx (ForwardRelayerAddress ack) payee fs (source_id pkt) (app w) = Inr st"
      and b: "below (OnAcknowledgementPacket cbs ctx pkt (AppAcknowledgement ack) rel) (w\<lparr>app := st\<rparr>) = Inr w'"
      by (auto simp: fee_OnAcknowledgementPacket_def)
    from ack_distributed [OF laws sol f, of ctx "ForwardRelayerAddress ack" payee] d have "fees_settled k bal (source_id pkt) (app w) st"
      by (auto simp: fees_settled_def)
    with b show ?thesis unfolding below_Inr by blast
  qed
qed

lemma timeout_settles:
  assumes laws: "fee_laws k bal" and sol: "solvent k bal (app w)" and r: "fee_OnTimeoutPacket k cbs ctx pkt rel w = Inr w'"
  shows "\<exists>st x. fees_settled k bal (source_id pkt) (app w) st \<and> OnTimeoutPacket cbs ctx pkt rel (lower (w\<lparr>app := st\<rparr>)) = Inr x
    \<and> w' = raise (w\<lparr>app := st\<rparr>) x"
proof (cases "\<not> IsFeeEnabled (app w) (SourcePort pkt) (SourceChannel pkt) \<or> IsLocked (app w) \<or> GetFeesInEscrow (app w) (source_id pkt) = None")
  case True
  with r have "below (OnTimeoutPacket cbs ctx pkt rel) (w\<lparr>app := app w\<rparr>) = Inr w'" by (auto simp: fee_OnTimeoutPacket_def split: if_splits)
  then show ?thesis unfolding below_Inr fees_settled_def by blast
next
  case False
  then obtain fs where f: "GetFeesInEscrow (app w) (source_id pkt) = Some fs" by blast
  with False r obtain payee st where d: "DistributePacketFeesOnTimeout k ctx payee fs (source_id pkt) (app w) = Inr st"
    and b: "below (OnTimeoutPacket cbs ctx pkt rel) (w\<lparr>app := st\<rparr>) = Inr w'"
    by (auto simp: fee_OnTimeoutPacket_def)
  from timeout_distributed [OF laws sol f, of ctx payee] d have "fees_settled k bal (source_id pkt) (app w) st" by (auto simp: fees_settled_def)
  with b show ?thesis unfolding below_Inr by blast
qed

lemma settled_sound: "solvent k bal st \<Longrightarrow> fees_settled k bal i st st' \<Longrightarrow> sound_step k bal st st'"
  by (metis distributed_sound fees_settled_def sound_step_def)

lemma sparesD: "spares k bal cbs \<Longrightarrow> app_step cbs w w' \<Longrightarrow> keeps_account k bal (app w) (app w')"
  by (simp add: spares_def)

lemma below_on_fees_sound:
  assumes "solvent k bal (app w)" and "keeps_account k bal (fe_app (app w)) (app x)"
    and "\<And>st. solvent k bal st \<Longrightarrow> sound_step k bal st (f st)"
  shows "sound_step k bal (app w) (app (on_fees f (raise w x)))"
proof -
  note 1 = below_sound [OF assms(1,2)]
  then have "sound_step k bal (app (raise w x)) (f (app (raise w x)))" using assms(3) by (simp add: sound_step_def)
  from sound_trans [OF 1 this] show ?thesis by simp
qed

lemma fee_step_sound:
  assumes "fee_step k bal cbs w w'" and laws: "fee_laws k bal" and sp: "spares k bal cbs" and sol: "solvent k bal (app w)"
  shows "sound_step k bal (app w) (app w')"
  using assms(1)
proof cases
  case (step_register_payee m)
  then show ?thesis using accessors_sound(2) [OF sol] by (auto simp: RegisterPayee_def split: option.splits if_splits)
next
  case (step_register_counterparty m)
  then show ?thesis using accessors_sound(3) [OF sol] by (auto simp: RegisterCounterpartyPayee_def split: if_splits)
next
  case (step_pay m ctx)
  then show ?thesis by (rule pay_sound(1) [OF laws sol])
next
  case (step_pay_async m ctx)
  then show ?thesis by (rule pay_sound(2) [OF laws sol])
next
  case (step_write_ack cap pkt a)
  then show ?thesis by (rule write_ack_sound [OF sol])
next
  case (step_fee_open_init ctx ord hops p c cap cp v r)
  from fee_OnChanOpenInit_app [OF this] obtain x where x: "keeps_account k bal (fe_app (app w)) (app x)"
    and "w' = raise w x \<or> w' = on_fees (SetFeeEnabled p c) (raise w x)" using sparesD [OF sp app_open_init] by fastforce
  then show ?thesis using below_sound [OF sol x] below_on_fees_sound [where f = "SetFeeEnabled p c", OF sol x accessors_sound(1)] by blast
next
  case (step_fee_open_try ctx ord hops p c cap cp v r)
  from fee_OnChanOpenTry_app [OF this] obtain x where x: "keeps_account k bal (fe_app (app w)) (app x)"
    and w': "w' = raise w x \<or> w' = raise (on_fees (SetFeeEnabled p c) w) x" using sparesD [OF sp app_open_try] by fastforce
  have s: "sound_step k bal (app w) (app (on_fees (SetFeeEnabled p c) w))" using accessors_sound(1) [OF sol] by simp
  then have "sound_step k bal (app (on_fees (SetFeeEnabled p c) w)) (app (raise (on_fees (SetFeeEnabled p c) w) x))"
    using x by (intro below_sound) (simp_all add: sound_step_def SetFeeEnabled_def fe_set_def)
  from sound_trans [OF s this] w' below_sound [OF sol x] show ?thesis by blast
next
  case (step_fee_open_ack ctx p c i v)
  from fee_OnChanOpenAck_app [OF this] obtain x where "keeps_account k bal (fe_app (app w)) (app x)" "w' = raise w x"
    using sparesD [OF sp app_open_ack] by fastforce
  then show ?thesis using below_sound [OF sol] by blast
next
  case (step_fee_open_confirm ctx p c)
  then obtain x where "keeps_account k bal (fe_app (app w)) (app x)" "w' = raise w x"
    using sparesD [OF sp app_open_confirm] by (fastforce simp: fee_OnChanOpenConfirm_def below_Inr)
  then show ?thesis using below_sound [OF sol] by blast
next
  case (step_fee_close_init ctx p c)
  from fee_OnChanClose_app(1) [OF this] obtain x where x: "keeps_account k bal (fe_app (app w)) (app x)"
    and r: "refund_on_closure k ctx p c (raise w x) = Inr w'" using sparesD [OF sp app_close_init] by fastforce
  note s = below_sound [OF sol x]
  with closure_sound [OF laws _ r] show ?thesis using sound_trans [OF s] by (simp add: sound_step_def)
next
  case (step_fee_close_confirm ctx p c)
  from fee_OnChanClose_app(2) [OF this] obtain x where x: "keeps_account k bal (fe_app (app w)) (app x)"
    and r: "refund_on_closure k ctx p c (raise w x) = Inr w'" using sparesD [OF sp app_close_confirm] by fastforce
  note s = below_sound [OF sol x]
  with closure_sound [OF laws _ r] show ?thesis using sound_trans [OF s] by (simp add: sound_step_def)
next
  case (step_fee_recv ctx pkt rel a)
  from fee_OnRecvPacket_app [OF this] obtain x where x: "keeps_account k bal (fe_app (app w)) (app x)"
    and "w' = raise w x \<or> w' = on_fees (SetRelayerAddressForAsyncAck (dest_id pkt) (AccAddress_String (fk_sdk k) rel)) (raise w x)"
    using sparesD [OF sp app_recv] by fastforce
  then show ?thesis using below_sound [OF sol x] below_on_fees_sound [where f = "SetRelayerAddressForAsyncAck (dest_id pkt) (AccAddress_String (fk_sdk k) rel)", OF sol x accessors_sound(4)] by blast
next
  case (step_fee_acknowledge ctx pkt bz rel)
  from acknowledge_settles [OF laws sol this] obtain b st x where s: "fees_settled k bal (source_id pkt) (app w) st"
    and o: "OnAcknowledgementPacket cbs ctx pkt b rel (lower (w\<lparr>app := st\<rparr>)) = Inr x" and w': "w' = raise (w\<lparr>app := st\<rparr>) x" by blast
  note 1 = settled_sound [OF sol s]
  have "sound_step k bal st (app w')" unfolding w'
    using below_sound [of k bal "w\<lparr>app := st\<rparr>" x] 1 sparesD [OF sp app_acknowledge [OF o]] by (simp add: sound_step_def)
  with sound_trans [OF 1] show ?thesis by blast
next
  case (step_fee_timeout ctx pkt rel)
  from timeout_settles [OF laws sol this] obtain st x where s: "fees_settled k bal (source_id pkt) (app w) st"
    and o: "OnTimeoutPacket cbs ctx pkt rel (lower (w\<lparr>app := st\<rparr>)) = Inr x" and w': "w' = raise (w\<lparr>app := st\<rparr>) x" by blast
  note 1 = settled_sound [OF sol s]
  have "sound_step k bal st (app w')" unfolding w'
    using below_sound [of k bal "w\<lparr>app := st\<rparr>" x] 1 sparesD [OF sp app_timeout [OF o]] by (simp add: sound_step_def)
  with sound_trans [OF 1] show ?thesis by blast
next
  case step_elsewhere
  then show ?thesis using sol by (auto simp: sound_step_def solvent_def keeps_account_def intro: order.trans)
qed

end
