(* ===== verification/Transfer_Keeper.thy ===== *)
theory Transfer_Keeper
  imports Transfer_Types Msg_Run
begin

text \<open>
  ICS-20, the transfer module: its store (\<open>keeper/keeper.go\<close>), sending, receiving and refunding tokens
  (\<open>keeper/relay.go\<close>), the message server (\<open>keeper/msg_server.go\<close>), the module callbacks (\<open>ibc_module.go\<close>),
  genesis, the registered invariant and the store migrations. The bank keeper belongs to the SDK: a
  record of functions on the state of the bank. The ICS-4 wrapper is the channel keeper, without
  middleware in between.
\<close>

section \<open>The bank keeper\<close>

record 'b bank =
  SendCoins :: "sdk_context \<Rightarrow> bytes \<Rightarrow> bytes \<Rightarrow> Coin list \<Rightarrow> 'b \<Rightarrow> 'b result"
  MintCoins :: "sdk_context \<Rightarrow> string \<Rightarrow> Coin list \<Rightarrow> 'b \<Rightarrow> 'b result"
  BurnCoins :: "sdk_context \<Rightarrow> string \<Rightarrow> Coin list \<Rightarrow> 'b \<Rightarrow> 'b result"
  SendCoinsFromModuleToAccount :: "sdk_context \<Rightarrow> string \<Rightarrow> bytes \<Rightarrow> Coin list \<Rightarrow> 'b \<Rightarrow> 'b result"
  SendCoinsFromAccountToModule :: "sdk_context \<Rightarrow> bytes \<Rightarrow> string \<Rightarrow> Coin list \<Rightarrow> 'b \<Rightarrow> 'b result"
  BlockedAddr :: "bytes \<Rightarrow> bool"
  IsSendEnabledCoin :: "sdk_context \<Rightarrow> Coin \<Rightarrow> 'b \<Rightarrow> bool"
  GetAllBalances :: "'b \<Rightarrow> bytes \<Rightarrow> Coin list"

section \<open>The store\<close>

datatype tr_value =
    PortBz string
  | DenomTraceBz DenomTrace
  | TransferParamsBz transfer_Params
  | IntProtoBz int

record 'b transfer =
  tr_store :: "(bytes, tr_value) fmap"
  tr_bank :: 'b

text \<open>What the keeper is built with: the SDK, the bank keeper and the authority.\<close>

record 'b transfer_keeper =
  tk_sdk :: tlib
  tk_bank :: "'b bank"
  tk_authority :: string

definition tr_set :: "bytes \<Rightarrow> tr_value \<Rightarrow> 'b transfer \<Rightarrow> 'b transfer" where
  "tr_set k v st = st\<lparr>tr_store := fmupd k v (tr_store st)\<rparr>"

definition GetPort :: "'b transfer \<Rightarrow> string" where
  "GetPort st = (case fmlookup (tr_store st) PortKey of Some (PortBz portID) \<Rightarrow> portID | _ \<Rightarrow> [])"

definition SetPort :: "string \<Rightarrow> 'b transfer \<Rightarrow> 'b transfer" where
  "SetPort portID st = tr_set PortKey (PortBz portID) st"

definition transfer_GetParams :: "'b transfer \<Rightarrow> transfer_Params result" where
  "transfer_GetParams st =
     (case fmlookup (tr_store st) (str_bytes transfer_ParamsKey) of
        Some (TransferParamsBz ps) \<Rightarrow> Inr ps
      | _ \<Rightarrow> Inl (Panic ''transfer params are not set in store''))"

definition transfer_SetParams :: "transfer_Params \<Rightarrow> 'b transfer \<Rightarrow> 'b transfer" where
  "transfer_SetParams ps st = tr_set (str_bytes transfer_ParamsKey) (TransferParamsBz ps) st"

text \<open>The empty trace is encoded by no bytes and reads as absent.\<close>

definition GetDenomTrace :: "'b transfer \<Rightarrow> bytes \<Rightarrow> DenomTrace option" where
  "GetDenomTrace st denomTraceHash =
     (case fmlookup (tr_store st) (DenomTraceKey @ denomTraceHash) of
        Some (DenomTraceBz t) \<Rightarrow> if Path t = [] \<and> BaseDenom t = [] then None else Some t
      | _ \<Rightarrow> None)"

definition HasDenomTrace :: "'b transfer \<Rightarrow> bytes \<Rightarrow> bool" where
  "HasDenomTrace st denomTraceHash = (fmlookup (tr_store st) (DenomTraceKey @ denomTraceHash) \<noteq> None)"

definition SetDenomTrace :: "DenomTrace \<Rightarrow> 'b transfer \<Rightarrow> 'b transfer" where
  "SetDenomTrace t st = tr_set (DenomTraceKey @ DenomTrace_Hash t) (DenomTraceBz t) st"

text \<open>The values under a prefix, in the order of their keys.\<close>

definition tr_values :: "'b transfer \<Rightarrow> bytes \<Rightarrow> (bytes \<times> tr_value) list" where
  "tr_values st pre =
     map (\<lambda>k. (k, the (fmlookup (tr_store st) k)))
       (filter (\<lambda>k. take (length pre) k = pre) (sorted_list_of_fset (fmdom (tr_store st))))"

definition IterateDenomTraces :: "'b transfer \<Rightarrow> DenomTrace list" where
  "IterateDenomTraces st =
     List.map_filter (\<lambda>(k, v). case v of DenomTraceBz t \<Rightarrow> Some t | _ \<Rightarrow> None) (tr_values st DenomTraceKey)"

definition GetAllDenomTraces :: "'b transfer \<Rightarrow> DenomTrace list" where
  "GetAllDenomTraces st = Traces_Sort (IterateDenomTraces st)"

definition GetTotalEscrowForDenom :: "tlib \<Rightarrow> 'b transfer \<Rightarrow> string \<Rightarrow> Coin result" where
  "GetTotalEscrowForDenom sdk st denom =
     (case fmlookup (tr_store st) (TotalEscrowForDenomKey denom) of
        Some (IntProtoBz amount) \<Rightarrow> NewCoin sdk denom amount
      | _ \<Rightarrow> NewCoin sdk denom 0)"

definition SetTotalEscrowForDenom :: "Coin \<Rightarrow> 'b transfer \<Rightarrow> 'b transfer result" where
  "SetTotalEscrowForDenom coin st =
     (if Amount coin < 0 then Inl (Panic ''amount cannot be negative'')
      else if Amount coin = 0 then Inr (st\<lparr>tr_store := fmdrop (TotalEscrowForDenomKey (Denom coin)) (tr_store st)\<rparr>)
      else Inr (tr_set (TotalEscrowForDenomKey (Denom coin)) (IntProtoBz (Amount coin)) st))"

text \<open>
  The iteration over the prefix of the escrow keys: a key without the separating slash keeps its name
  (\<open>strings.TrimPrefix\<close>), a blank denomination and a value that is not an integer are skipped.
\<close>

definition escrow_denom :: "bytes \<Rightarrow> string" where
  "escrow_denom k =
     (let s = bytes_str k; pre = KeyTotalEscrowPrefix @ ''/'' in if HasPrefix s pre then drop (length pre) s else s)"

fun collect_escrows :: "tlib \<Rightarrow> (bytes \<times> tr_value) list \<Rightarrow> Coin list \<Rightarrow> Coin list result" where
  "collect_escrows sdk [] escrows = Inr escrows"
| "collect_escrows sdk ((k, v) # rest) escrows =
     (if is_blank (escrow_denom k) then collect_escrows sdk rest escrows
      else case v of
        IntProtoBz amount \<Rightarrow>
          and_then (NewCoin sdk (escrow_denom k) amount) (\<lambda>c.
          and_then (Coins_Add sdk escrows [c]) (\<lambda>es. collect_escrows sdk rest es))
      | _ \<Rightarrow> collect_escrows sdk rest escrows)"

definition GetAllTotalEscrowed :: "tlib \<Rightarrow> 'b transfer \<Rightarrow> Coin list result" where
  "GetAllTotalEscrowed sdk st = collect_escrows sdk (tr_values st (str_bytes KeyTotalEscrowPrefix)) []"

section \<open>Escrow, burn, mint\<close>

definition escrowToken :: "'b transfer_keeper \<Rightarrow> sdk_context \<Rightarrow> bytes \<Rightarrow> bytes \<Rightarrow> Coin \<Rightarrow> 'b transfer \<Rightarrow> 'b transfer result" where
  "escrowToken k ctx sender escrowAddress token st =
     and_then (NewCoins (tk_sdk k) [token]) (\<lambda>coins.
     and_then (SendCoins (tk_bank k) ctx sender escrowAddress coins (tr_bank st)) (\<lambda>b.
     let st1 = st\<lparr>tr_bank := b\<rparr> in
     and_then (GetTotalEscrowForDenom (tk_sdk k) st1 (Denom token)) (\<lambda>currentTotalEscrow.
     and_then (Coin_Add (tk_sdk k) currentTotalEscrow token) (\<lambda>newTotalEscrow.
     SetTotalEscrowForDenom newTotalEscrow st1))))"

definition unescrowToken :: "'b transfer_keeper \<Rightarrow> sdk_context \<Rightarrow> bytes \<Rightarrow> bytes \<Rightarrow> Coin \<Rightarrow> 'b transfer \<Rightarrow> 'b transfer result" where
  "unescrowToken k ctx escrowAddress receiver token st =
     and_then (NewCoins (tk_sdk k) [token]) (\<lambda>coins.
     and_then (SendCoins (tk_bank k) ctx escrowAddress receiver coins (tr_bank st)) (\<lambda>b.
     let st1 = st\<lparr>tr_bank := b\<rparr> in
     and_then (GetTotalEscrowForDenom (tk_sdk k) st1 (Denom token)) (\<lambda>currentTotalEscrow.
     and_then (Coin_Sub (tk_sdk k) currentTotalEscrow token) (\<lambda>newTotalEscrow.
     SetTotalEscrowForDenom newTotalEscrow st1))))"

definition DenomPathFromHash :: "'b transfer_keeper \<Rightarrow> 'b transfer \<Rightarrow> string \<Rightarrow> string result" where
  "DenomPathFromHash k st denom =
     (case ParseHexHash (tk_sdk k) (drop (length (DenomPrefix @ ''/'')) denom) of
        Inl e \<Rightarrow> Inl transfer_ErrInvalidDenomForTransfer
      | Inr hash \<Rightarrow>
          (case GetDenomTrace st hash of
             None \<Rightarrow> Inl transfer_ErrTraceNotFound
           | Some denomTrace \<Rightarrow> Inr (GetFullDenomPath denomTrace)))"

text \<open>Taking the tokens from the sender: into escrow, or out of circulation.\<close>

definition burn_vouchers :: "'b transfer_keeper \<Rightarrow> sdk_context \<Rightarrow> bytes \<Rightarrow> Coin \<Rightarrow> 'b transfer \<Rightarrow> 'b transfer result" where
  "burn_vouchers k ctx sender token st =
     and_then (NewCoins (tk_sdk k) [token]) (\<lambda>coins.
     and_then (SendCoinsFromAccountToModule (tk_bank k) ctx sender transfer_ModuleName coins (tr_bank st)) (\<lambda>b.
     case BurnCoins (tk_bank k) ctx transfer_ModuleName coins b of
       Inl e \<Rightarrow> Inl (Panic ''cannot burn coins after a successful send to a module account'')
     | Inr b' \<Rightarrow> Inr (st\<lparr>tr_bank := b'\<rparr>)))"

definition take_tokens ::
  "'b transfer_keeper \<Rightarrow> sdk_context \<Rightarrow> string \<Rightarrow> string \<Rightarrow> string \<Rightarrow> bytes \<Rightarrow> Coin \<Rightarrow> 'b transfer \<Rightarrow> 'b transfer result" where
  "take_tokens k ctx sourcePort sourceChannel fullDenomPath sender token st =
     (if SenderChainIsSource sourcePort sourceChannel fullDenomPath
      then escrowToken k ctx sender (GetEscrowAddress sourcePort sourceChannel) token st
      else burn_vouchers k ctx sender token st)"

definition full_denom :: "'b transfer_keeper \<Rightarrow> 'b transfer \<Rightarrow> string \<Rightarrow> string result" where
  "full_denom k st denom = (if HasPrefix denom ''ibc/'' then DenomPathFromHash k st denom else Inr denom)"

definition sendTransfer ::
  "'b transfer_keeper \<Rightarrow> sdk_context \<Rightarrow> string \<Rightarrow> string \<Rightarrow> Coin \<Rightarrow> bytes \<Rightarrow> string \<Rightarrow> Height \<Rightarrow> u64 \<Rightarrow> string \<Rightarrow>
     'b transfer world \<Rightarrow> (u64 \<times> 'b transfer world) result" where
  "sendTransfer k ctx sourcePort sourceChannel token sender receiver timeoutHeight timeoutTimestamp memo w =
     (case GetChannel (core (ibc_state w)) sourcePort sourceChannel of
        None \<Rightarrow> Inl channel_ErrChannelNotFound
      | Some channel \<Rightarrow>
          and_then (GetCapability transfer_ModuleName (caps (ibc_state w)) (ChannelCapabilityPath sourcePort sourceChannel)) (\<lambda>found.
          case found of
            None \<Rightarrow> Inl channel_ErrChannelCapabilityNotFound
          | Some channelCap \<Rightarrow>
              and_then (full_denom k (app w) (Denom token)) (\<lambda>fullDenomPath.
              and_then (take_tokens k ctx sourcePort sourceChannel fullDenomPath sender token (app w)) (\<lambda>st.
              let packetData = NewFungibleTokenPacketData fullDenomPath (Int_String (tk_sdk k) (Amount token))
                    (AccAddress_String (tk_sdk k) sender) receiver memo in
              and_then (SendPacket ctx (Some channelCap) sourcePort sourceChannel timeoutHeight timeoutTimestamp
                          (MarshalData (tk_sdk k) packetData) (ibc_state w)) (\<lambda>(sequence, ibc).
              Inr (sequence, \<lparr>ibc_state = ibc, app = st\<rparr>))))))"

section \<open>Receiving\<close>

definition mint_vouchers :: "'b transfer_keeper \<Rightarrow> sdk_context \<Rightarrow> bytes \<Rightarrow> Coin \<Rightarrow> 'b transfer \<Rightarrow> 'b transfer result" where
  "mint_vouchers k ctx receiver voucher st =
     and_then (NewCoins (tk_sdk k) [voucher]) (\<lambda>coins.
     and_then (MintCoins (tk_bank k) ctx transfer_ModuleName coins (tr_bank st)) (\<lambda>b.
     and_then (SendCoinsFromModuleToAccount (tk_bank k) ctx transfer_ModuleName receiver coins b) (\<lambda>b'.
     Inr (st\<lparr>tr_bank := b'\<rparr>))))"

definition received_denom :: "tlib \<Rightarrow> string \<Rightarrow> string" where
  "received_denom sdk unprefixedDenom =
     (let denomTrace = ParseDenomTrace unprefixedDenom in
      if \<not> IsNativeDenom denomTrace then IBCDenom sdk denomTrace else unprefixedDenom)"

definition transfer_OnRecvPacket ::
  "'b transfer_keeper \<Rightarrow> sdk_context \<Rightarrow> Packet \<Rightarrow> FungibleTokenPacketData \<Rightarrow> 'b transfer \<Rightarrow> 'b transfer result" where
  "transfer_OnRecvPacket k ctx packet data st =
     (let sdk = tk_sdk k in
      and_then (FungibleTokenPacketData_ValidateBasic sdk data) (\<lambda>_.
      and_then (transfer_GetParams st) (\<lambda>params.
      if \<not> ReceiveEnabled params then Inl transfer_ErrReceiveDisabled
      else case AccAddressFromBech32 sdk (ftpd_Receiver data) of
        None \<Rightarrow> Inl (ErrForeign ''bech32'')
      | Some receiver \<Rightarrow>
          (case NewIntFromString sdk (ftpd_Amount data) of
             None \<Rightarrow> Inl transfer_ErrInvalidAmount
           | Some transferAmount \<Rightarrow>
               if ReceiverChainIsSource (SourcePort packet) (SourceChannel packet) (ftpd_Denom data) then
                 let unprefixedDenom = drop (length (GetDenomPrefix (SourcePort packet) (SourceChannel packet))) (ftpd_Denom data) in
                 and_then (NewCoin sdk (received_denom sdk unprefixedDenom) transferAmount) (\<lambda>token.
                 if BlockedAddr (tk_bank k) receiver then Inl ibcerrors_ErrUnauthorized
                 else unescrowToken k ctx (GetEscrowAddress (DestinationPort packet) (DestinationChannel packet)) receiver token st)
               else
                 let denomTrace = ParseDenomTrace (GetDenomPrefix (DestinationPort packet) (DestinationChannel packet) @ ftpd_Denom data);
                   st1 = (if \<not> HasDenomTrace st (DenomTrace_Hash denomTrace) then SetDenomTrace denomTrace st else st) in
                 and_then (NewCoin sdk (IBCDenom sdk denomTrace) transferAmount) (\<lambda>voucher.
                 mint_vouchers k ctx receiver voucher st1)))))"

section \<open>Refunds\<close>

definition refundPacketToken ::
  "'b transfer_keeper \<Rightarrow> sdk_context \<Rightarrow> Packet \<Rightarrow> FungibleTokenPacketData \<Rightarrow> 'b transfer \<Rightarrow> 'b transfer result" where
  "refundPacketToken k ctx packet data st =
     (let sdk = tk_sdk k; trace = ParseDenomTrace (ftpd_Denom data) in
      case NewIntFromString sdk (ftpd_Amount data) of
        None \<Rightarrow> Inl transfer_ErrInvalidAmount
      | Some transferAmount \<Rightarrow>
          and_then (NewCoin sdk (IBCDenom sdk trace) transferAmount) (\<lambda>token.
          case AccAddressFromBech32 sdk (ftpd_Sender data) of
            None \<Rightarrow> Inl (ErrForeign ''bech32'')
          | Some sender \<Rightarrow>
              if SenderChainIsSource (SourcePort packet) (SourceChannel packet) (ftpd_Denom data) then
                unescrowToken k ctx (GetEscrowAddress (SourcePort packet) (SourceChannel packet)) sender token st
              else
                and_then (NewCoins sdk [token]) (\<lambda>coins.
                and_then (MintCoins (tk_bank k) ctx transfer_ModuleName coins (tr_bank st)) (\<lambda>b.
                case SendCoinsFromModuleToAccount (tk_bank k) ctx transfer_ModuleName sender coins b of
                  Inl e \<Rightarrow> Inl (Panic ''unable to send coins from module to account despite previously minting coins to module account'')
                | Inr b' \<Rightarrow> Inr (st\<lparr>tr_bank := b'\<rparr>)))))"

definition transfer_OnAcknowledgementPacket ::
  "'b transfer_keeper \<Rightarrow> sdk_context \<Rightarrow> Packet \<Rightarrow> FungibleTokenPacketData \<Rightarrow> Acknowledgement \<Rightarrow> 'b transfer \<Rightarrow> 'b transfer result" where
  "transfer_OnAcknowledgementPacket k ctx packet data ack st =
     (case ack of Acknowledgement_Error e \<Rightarrow> refundPacketToken k ctx packet data st | _ \<Rightarrow> Inr st)"

definition transfer_OnTimeoutPacket ::
  "'b transfer_keeper \<Rightarrow> sdk_context \<Rightarrow> Packet \<Rightarrow> FungibleTokenPacketData \<Rightarrow> 'b transfer \<Rightarrow> 'b transfer result" where
  "transfer_OnTimeoutPacket k ctx packet data st = refundPacketToken k ctx packet data st"

section \<open>Messages\<close>

definition msg_Transfer :: "'b transfer_keeper \<Rightarrow> sdk_context \<Rightarrow> MsgTransfer \<Rightarrow> 'b transfer world \<Rightarrow> (u64 \<times> 'b transfer world) result" where
  "msg_Transfer k ctx msg w =
     and_then (transfer_GetParams (app w)) (\<lambda>params.
     if \<not> SendEnabled params then Inl transfer_ErrSendDisabled
     else case AccAddressFromBech32 (tk_sdk k) (mt_Sender msg) of
       None \<Rightarrow> Inl (ErrForeign ''bech32'')
     | Some sender \<Rightarrow>
         if \<not> IsSendEnabledCoin (tk_bank k) ctx (mt_Token msg) (tr_bank (app w)) then Inl transfer_ErrSendDisabled
         else if BlockedAddr (tk_bank k) sender then Inl ibcerrors_ErrUnauthorized
         else sendTransfer k ctx (mt_SourcePort msg) (mt_SourceChannel msg) (mt_Token msg) sender (mt_Receiver msg)
                (mt_TimeoutHeight msg) (mt_TimeoutTimestamp msg) (mt_Memo msg) w)"

definition transfer_UpdateParams :: "'b transfer_keeper \<Rightarrow> string \<Rightarrow> transfer_Params \<Rightarrow> 'b transfer \<Rightarrow> 'b transfer result" where
  "transfer_UpdateParams k authority params st =
     (if tk_authority k \<noteq> authority then Inl ibcerrors_ErrUnauthorized else Inr (transfer_SetParams params st))"

section \<open>Module callbacks\<close>

definition ValidateTransferChannelParams :: "Order \<Rightarrow> string \<Rightarrow> string \<Rightarrow> 'b transfer \<Rightarrow> unit result" where
  "ValidateTransferChannelParams order portID channelID st =
     and_then (ParseChannelSequence channelID) (\<lambda>channelSequence.
     if 4294967295 < channelSequence then Inl transfer_ErrMaxTransferChannels
     else if order \<noteq> UNORDERED then Inl channel_ErrInvalidChannelOrdering
     else if GetPort st \<noteq> portID then Inl port_ErrInvalidPort
     else Inr ())"

definition claim_channel :: "string \<Rightarrow> string \<Rightarrow> Capability option \<Rightarrow> 'b transfer world \<Rightarrow> 'b transfer world result" where
  "claim_channel portID channelID chanCap w =
     and_then (ClaimCapability transfer_ModuleName chanCap (ChannelCapabilityPath portID channelID) (caps (ibc_state w))) (\<lambda>c.
     Inr (w\<lparr>ibc_state := (ibc_state w)\<lparr>caps := c\<rparr>\<rparr>))"

definition im_OnChanOpenInit ::
  "Order \<Rightarrow> string \<Rightarrow> string \<Rightarrow> Capability option \<Rightarrow> string \<Rightarrow> 'b transfer world \<Rightarrow> (string \<times> 'b transfer world) result" where
  "im_OnChanOpenInit order portID channelID chanCap version w =
     and_then (ValidateTransferChannelParams order portID channelID (app w)) (\<lambda>_.
     let version = (if is_blank version then transfer_Version else version) in
     if version \<noteq> transfer_Version then Inl transfer_ErrInvalidVersion
     else and_then (claim_channel portID channelID chanCap w) (\<lambda>w1. Inr (version, w1)))"

definition im_OnChanOpenTry ::
  "Order \<Rightarrow> string \<Rightarrow> string \<Rightarrow> Capability option \<Rightarrow> string \<Rightarrow> 'b transfer world \<Rightarrow> (string \<times> 'b transfer world) result" where
  "im_OnChanOpenTry order portID channelID chanCap counterpartyVersion w =
     and_then (ValidateTransferChannelParams order portID channelID (app w)) (\<lambda>_.
     if counterpartyVersion \<noteq> transfer_Version then Inl transfer_ErrInvalidVersion
     else and_then (claim_channel portID channelID chanCap w) (\<lambda>w1. Inr (transfer_Version, w1)))"

definition im_OnChanOpenAck :: "string \<Rightarrow> 'b transfer world \<Rightarrow> 'b transfer world result" where
  "im_OnChanOpenAck counterpartyVersion w =
     (if counterpartyVersion \<noteq> transfer_Version then Inl transfer_ErrInvalidVersion else Inr w)"

definition ack_of :: "tlib \<Rightarrow> Acknowledgement \<Rightarrow> app_ack" where
  "ack_of sdk a = \<lparr>ack_Success = Success a, ack_Acknowledgement = MarshalAck sdk a\<rparr>"

text \<open>
  An error of the keeper becomes an error acknowledgement. What the keeper wrote before the error is
  in the cached context, which the message server drops together with an unsuccessful
  acknowledgement; here the state is that before the call.
\<close>

definition im_OnRecvPacket :: "'b transfer_keeper \<Rightarrow> sdk_context \<Rightarrow> Packet \<Rightarrow> 'b transfer world \<Rightarrow> (app_ack option \<times> 'b transfer world) result" where
  "im_OnRecvPacket k ctx packet w =
     (let sdk = tk_sdk k; failed = (\<lambda>e. Inr (Some (ack_of sdk (NewErrorAcknowledgement (ABCICode sdk) e)), w)) in
      case UnmarshalData sdk (Data packet) of
        None \<Rightarrow> failed ibcerrors_ErrInvalidType
      | Some data \<Rightarrow>
          (case transfer_OnRecvPacket k ctx packet data (app w) of
             Inl (Panic m) \<Rightarrow> Inl (Panic m)
           | Inl e \<Rightarrow> failed e
           | Inr st \<Rightarrow> Inr (Some (ack_of sdk (Acknowledgement_Result [1])), w\<lparr>app := st\<rparr>)))"

definition im_OnAcknowledgementPacket :: "'b transfer_keeper \<Rightarrow> sdk_context \<Rightarrow> Packet \<Rightarrow> bytes \<Rightarrow> 'b transfer world \<Rightarrow> 'b transfer world result" where
  "im_OnAcknowledgementPacket k ctx packet acknowledgement w =
     (case UnmarshalAck (tk_sdk k) acknowledgement of
        None \<Rightarrow> Inl ibcerrors_ErrUnknownRequest
      | Some ack \<Rightarrow>
          (case UnmarshalData (tk_sdk k) (Data packet) of
             None \<Rightarrow> Inl ibcerrors_ErrUnknownRequest
           | Some data \<Rightarrow> and_then (transfer_OnAcknowledgementPacket k ctx packet data ack (app w)) (\<lambda>st. Inr (w\<lparr>app := st\<rparr>))))"

definition im_OnTimeoutPacket :: "'b transfer_keeper \<Rightarrow> sdk_context \<Rightarrow> Packet \<Rightarrow> 'b transfer world \<Rightarrow> 'b transfer world result" where
  "im_OnTimeoutPacket k ctx packet w =
     (case UnmarshalData (tk_sdk k) (Data packet) of
        None \<Rightarrow> Inl ibcerrors_ErrUnknownRequest
      | Some data \<Rightarrow> and_then (transfer_OnTimeoutPacket k ctx packet data (app w)) (\<lambda>st. Inr (w\<lparr>app := st\<rparr>)))"

definition transfer_module :: "'b transfer_keeper \<Rightarrow> 'b transfer IBCModule" where
  "transfer_module k =
     \<lparr>OnChanOpenInit = \<lambda>ctx order hops portID channelID chanCap cp version. im_OnChanOpenInit order portID channelID chanCap version,
      OnChanOpenTry = \<lambda>ctx order hops portID channelID chanCap cp version. im_OnChanOpenTry order portID channelID chanCap version,
      OnChanOpenAck = \<lambda>ctx portID channelID cpChannel version. im_OnChanOpenAck version,
      OnChanOpenConfirm = \<lambda>ctx portID channelID w. Inr w,
      OnChanCloseInit = \<lambda>ctx portID channelID w. Inl ibcerrors_ErrInvalidRequest,
      OnChanCloseConfirm = \<lambda>ctx portID channelID w. Inr w,
      OnRecvPacket = \<lambda>ctx packet relayer. im_OnRecvPacket k ctx packet,
      OnAcknowledgementPacket = \<lambda>ctx packet acknowledgement relayer. im_OnAcknowledgementPacket k ctx packet acknowledgement,
      OnTimeoutPacket = \<lambda>ctx packet relayer. im_OnTimeoutPacket k ctx packet\<rparr>"

section \<open>Genesis, invariants, migrations\<close>

definition transfer_hasCapability :: "cap_state \<Rightarrow> string \<Rightarrow> bool result" where
  "transfer_hasCapability c portID = and_then (GetCapability transfer_ModuleName c (PortPath portID)) (\<lambda>found. Inr (found \<noteq> None))"

definition transfer_BindPort :: "u64 \<Rightarrow> string \<Rightarrow> cap_state \<Rightarrow> cap_state result" where
  "transfer_BindPort addr portID c =
     and_then (BindPort addr portID c) (\<lambda>(capability, c1).
     ClaimCapability transfer_ModuleName (Some capability) (PortPath portID) c1)"

fun set_escrows :: "Coin list \<Rightarrow> 'b transfer \<Rightarrow> 'b transfer result" where
  "set_escrows [] st = Inr st"
| "set_escrows (c # cs) st = and_then (SetTotalEscrowForDenom c st) (set_escrows cs)"

definition transfer_InitGenesis :: "u64 \<Rightarrow> transfer_GenesisState \<Rightarrow> 'b transfer world \<Rightarrow> 'b transfer world result" where
  "transfer_InitGenesis addr gs w =
     (let st = fold SetDenomTrace (gs_DenomTraces gs) (SetPort (gs_PortId gs) (app w)) in
      and_then (transfer_hasCapability (caps (ibc_state w)) (gs_PortId gs)) (\<lambda>has.
      and_then (if has then Inr (caps (ibc_state w))
                else case transfer_BindPort addr (gs_PortId gs) (caps (ibc_state w)) of
                  Inl e \<Rightarrow> Inl (Panic ''could not claim port capability'')
                | Inr c \<Rightarrow> Inr c) (\<lambda>c.
      and_then (set_escrows (gs_TotalEscrowed gs) (transfer_SetParams (gs_Params gs) st)) (\<lambda>st1.
      Inr \<lparr>ibc_state = (ibc_state w)\<lparr>caps := c\<rparr>, app = st1\<rparr>))))"

definition transfer_ExportGenesis :: "tlib \<Rightarrow> 'b transfer \<Rightarrow> transfer_GenesisState result" where
  "transfer_ExportGenesis sdk st =
     and_then (transfer_GetParams st) (\<lambda>params.
     and_then (GetAllTotalEscrowed sdk st) (\<lambda>escrowed.
     Inr \<lparr>gs_PortId = GetPort st, gs_DenomTraces = GetAllDenomTraces st, gs_Params = params, gs_TotalEscrowed = escrowed\<rparr>))"

text \<open>\<open>channels\<close> are the identifiers of the channels with the port's prefix.\<close>

fun sum_balances :: "'b transfer_keeper \<Rightarrow> string \<Rightarrow> string list \<Rightarrow> 'b \<Rightarrow> Coin list \<Rightarrow> Coin list result" where
  "sum_balances k portID [] b acc = Inr acc"
| "sum_balances k portID (c # cs) b acc =
     and_then (Coins_Add (tk_sdk k) acc (GetAllBalances (tk_bank k) b (GetEscrowAddress portID c))) (sum_balances k portID cs b)"

text \<open>\<open>True\<close>: the invariant is broken.\<close>

definition TotalEscrowPerDenomInvariants :: "'b transfer_keeper \<Rightarrow> string list \<Rightarrow> 'b transfer \<Rightarrow> bool result" where
  "TotalEscrowPerDenomInvariants k channels st =
     and_then (GetAllTotalEscrowed (tk_sdk k) st) (\<lambda>expected.
     and_then (sum_balances k (GetPort st) channels (tr_bank st) []) (\<lambda>actual.
     Inr (\<not> Coins_IsAllGTE (tk_sdk k) actual expected)))"

definition equalTraces :: "DenomTrace \<Rightarrow> DenomTrace \<Rightarrow> bool" where
  "equalTraces a b = (BaseDenom a = BaseDenom b \<and> Path a = Path b)"

fun migrated_traces :: "tlib \<Rightarrow> DenomTrace list \<Rightarrow> DenomTrace list result" where
  "migrated_traces sdk [] = Inr []"
| "migrated_traces sdk (dt # dts) =
     (let newTrace = ParseDenomTrace (GetFullDenomPath dt) in
      case DenomTrace_Validate newTrace of
        Inl e \<Rightarrow> Inl (Panic ''invalid trace'')
      | Inr _ \<Rightarrow>
          if IBCDenom sdk dt \<noteq> IBCDenom sdk newTrace then Inl (Panic ''migration will result in corrupted state'')
          else and_then (migrated_traces sdk dts) (\<lambda>nts. Inr (if equalTraces newTrace dt then nts else newTrace # nts)))"

definition MigrateTraces :: "tlib \<Rightarrow> 'b transfer \<Rightarrow> 'b transfer result" where
  "MigrateTraces sdk st = and_then (migrated_traces sdk (IterateDenomTraces st)) (\<lambda>newTraces. Inr (fold SetDenomTrace newTraces st))"

definition MigrateTotalEscrowForDenom :: "'b transfer_keeper \<Rightarrow> string list \<Rightarrow> 'b transfer \<Rightarrow> 'b transfer result" where
  "MigrateTotalEscrowForDenom k channels st =
     and_then (sum_balances k (GetPort st) channels (tr_bank st) []) (\<lambda>totalEscrowed. set_escrows totalEscrowed st)"

end
