(* ===== verification/Transfer_Run.thy ===== *)
theory Transfer_Run
  imports Transfer_Keeper
begin

text \<open>
  What the transfer module guarantees. Its callbacks keep the contract of an application. What the
  module relies on of the SDK and of the bank is stated as \<open>sdk_laws\<close>, \<open>bank_laws\<close> and \<open>bank_progress\<close>. Under
  these, tokens are conserved: every send takes exactly the sent amount out of reach, every receipt
  and every refund puts exactly the amount back, and a refund undoes the send.
\<close>

section \<open>The callbacks keep the contract\<close>

lemma same_core_run: "core st' = core st \<Longrightarrow> chan_run lib st st'"
  by (rule run_next [OF run_refl step_others]) simp

lemma claim_channel_core: "claim_channel p c k w = Inr w' \<Longrightarrow> core (ibc_state w') = core (ibc_state w)"
  by (auto simp: claim_channel_def)

lemma im_OnRecvPacket_cases:
  "im_OnRecvPacket k ctx pkt w = Inr (a, w') \<longleftrightarrow>
     (\<exists>data st. UnmarshalData (tk_sdk k) (Data pkt) = Some data \<and> transfer_OnRecvPacket k ctx pkt data (app w) = Inr st
        \<and> a = Some (ack_of (tk_sdk k) (Acknowledgement_Result [1])) \<and> w' = w\<lparr>app := st\<rparr>)
     \<or> (\<exists>e. (UnmarshalData (tk_sdk k) (Data pkt) = None \<and> e = ibcerrors_ErrInvalidType
           \<or> (\<exists>data. UnmarshalData (tk_sdk k) (Data pkt) = Some data \<and> transfer_OnRecvPacket k ctx pkt data (app w) = Inl e)
             \<and> (\<forall>m. e \<noteq> Panic m))
        \<and> a = Some (ack_of (tk_sdk k) (NewErrorAcknowledgement (ABCICode (tk_sdk k)) e)) \<and> w' = w)"
proof (cases "UnmarshalData (tk_sdk k) (Data pkt)")
  case None
  then show ?thesis by (auto simp: im_OnRecvPacket_def Let_def)
next
  case (Some data)
  show ?thesis
  proof (cases "transfer_OnRecvPacket k ctx pkt data (app w)")
    case (Inl e)
    with Some show ?thesis by (cases e) (auto simp: im_OnRecvPacket_def Let_def)
  next
    case (Inr st)
    with Some show ?thesis by (auto simp: im_OnRecvPacket_def Let_def)
  qed
qed

lemma im_OnRecvPacket_state: "im_OnRecvPacket k ctx pkt w = Inr (a, w') \<Longrightarrow> ibc_state w' = ibc_state w"
  unfolding im_OnRecvPacket_cases by auto

lemma im_packet_states:
  "im_OnAcknowledgementPacket k ctx pkt bz w = Inr w' \<Longrightarrow> ibc_state w' = ibc_state w"
  "im_OnTimeoutPacket k ctx pkt w = Inr w' \<Longrightarrow> ibc_state w' = ibc_state w"
  by (auto simp: im_OnAcknowledgementPacket_def im_OnTimeoutPacket_def split: option.splits)

lemma im_open_cores:
  "im_OnChanOpenInit ord p c cap v w = Inr (v', w') \<Longrightarrow> core (ibc_state w') = core (ibc_state w)"
  "im_OnChanOpenTry ord p c cap v w = Inr (v', w') \<Longrightarrow> core (ibc_state w') = core (ibc_state w)"
  by (auto simp: im_OnChanOpenInit_def im_OnChanOpenTry_def Let_def claim_channel_core split: if_splits)

interpretation transfer_app: ibc_application lib "transfer_module k" for lib k
  by unfold_locales
     (rule same_core_run, simp add: transfer_module_def im_OnChanOpenAck_def im_OnRecvPacket_state im_packet_states im_open_cores
        split: if_splits)+

section \<open>The SDK\<close>

text \<open>\<open>sdkmath.Int\<close> holds integers of at most 256 bits.\<close>

definition sdk_laws :: "tlib \<Rightarrow> bool" where
  "sdk_laws sdk =
     ((\<forall>d a c. NewCoin sdk d a = Inr c \<longleftrightarrow> ValidateDenom sdk d \<and> 0 \<le> a \<and> c = \<lparr>Denom = d, Amount = a\<rparr>)
      \<and> (\<forall>c. ValidateDenom sdk (Denom c) \<and> 0 < Amount c \<longrightarrow> NewCoins sdk [c] = Inr [c])
      \<and> (\<forall>x y c. Coin_Add sdk x y = Inr c \<longrightarrow> Denom x = Denom y \<and> c = \<lparr>Denom = Denom x, Amount = Amount x + Amount y\<rparr>)
      \<and> (\<forall>x y c. Coin_Sub sdk x y = Inr c \<longleftrightarrow>
           Denom x = Denom y \<and> Amount y \<le> Amount x \<and> c = \<lparr>Denom = Denom x, Amount = Amount x - Amount y\<rparr>)
      \<and> (\<forall>n. 0 \<le> n \<and> n < 2 ^ 256 \<longrightarrow> NewIntFromString sdk (Int_String sdk n) = Some n)
      \<and> (\<forall>a. a \<noteq> [] \<and> length a \<le> 255 \<longrightarrow> AccAddressFromBech32 sdk (AccAddress_String sdk a) = Some a)
      \<and> (\<forall>h. length h = 32 \<longrightarrow> hex_DecodeString (HexBytes_String sdk h) = Some h \<and> ValidateHash sdk h)
      \<and> (\<forall>d. UnmarshalData sdk (MarshalData sdk d) = Some d)
      \<and> (\<forall>a. a \<noteq> Acknowledgement_Nil \<longrightarrow> UnmarshalAck sdk (MarshalAck sdk a) = Some a))"

lemma sdk_lawsD:
  assumes "sdk_laws sdk"
  shows "NewCoin sdk d a = Inr c \<longleftrightarrow> ValidateDenom sdk d \<and> 0 \<le> a \<and> c = \<lparr>Denom = d, Amount = a\<rparr>"
    and "ValidateDenom sdk (Denom c) \<Longrightarrow> 0 < Amount c \<Longrightarrow> NewCoins sdk [c] = Inr [c]"
    and "Coin_Add sdk x y = Inr c \<Longrightarrow> Denom x = Denom y \<and> c = \<lparr>Denom = Denom x, Amount = Amount x + Amount y\<rparr>"
    and "Coin_Sub sdk x y = Inr c \<longleftrightarrow>
           Denom x = Denom y \<and> Amount y \<le> Amount x \<and> c = \<lparr>Denom = Denom x, Amount = Amount x - Amount y\<rparr>"
    and "0 \<le> n \<Longrightarrow> n < 2 ^ 256 \<Longrightarrow> NewIntFromString sdk (Int_String sdk n) = Some n"
    and "b \<noteq> [] \<Longrightarrow> length b \<le> 255 \<Longrightarrow> AccAddressFromBech32 sdk (AccAddress_String sdk b) = Some b"
    and "length h = 32 \<Longrightarrow> hex_DecodeString (HexBytes_String sdk h) = Some h \<and> ValidateHash sdk h"
    and "UnmarshalData sdk (MarshalData sdk data) = Some data"
    and "ack \<noteq> Acknowledgement_Nil \<Longrightarrow> UnmarshalAck sdk (MarshalAck sdk ack) = Some ack"
  using assms unfolding sdk_laws_def by (elim conjE; simp)+

section \<open>The bank\<close>

text \<open>\<open>bal\<close> gives the balance of an account, \<open>supply\<close> the supply of a denomination.\<close>

definition moved :: "(bytes \<Rightarrow> string \<Rightarrow> int) \<Rightarrow> (bytes \<Rightarrow> string \<Rightarrow> int) \<Rightarrow> bytes \<Rightarrow> bytes \<Rightarrow> Coin \<Rightarrow> bool" where
  "moved x y from to c =
     (Amount c \<le> x from (Denom c)
      \<and> (\<forall>a d. y a d = x a d - (if a = from \<and> d = Denom c then Amount c else 0) + (if a = to \<and> d = Denom c then Amount c else 0)))"

definition bank_laws :: "'b bank \<Rightarrow> ('b \<Rightarrow> bytes \<Rightarrow> string \<Rightarrow> int) \<Rightarrow> ('b \<Rightarrow> string \<Rightarrow> int) \<Rightarrow> bytes \<Rightarrow> bool" where
  "bank_laws bk bal supply maddr =
     ((\<forall>ctx a b c s t. SendCoins bk ctx a b [c] s = Inr t \<longrightarrow> moved (bal s) (bal t) a b c \<and> supply t = supply s)
      \<and> (\<forall>ctx a c s t. SendCoinsFromAccountToModule bk ctx a transfer_ModuleName [c] s = Inr t \<longrightarrow>
           moved (bal s) (bal t) a maddr c \<and> supply t = supply s)
      \<and> (\<forall>ctx b c s t. SendCoinsFromModuleToAccount bk ctx transfer_ModuleName b [c] s = Inr t \<longrightarrow>
           moved (bal s) (bal t) maddr b c \<and> supply t = supply s)
      \<and> (\<forall>ctx c s t. MintCoins bk ctx transfer_ModuleName [c] s = Inr t \<longrightarrow>
           (\<forall>a d. bal t a d = bal s a d + (if a = maddr \<and> d = Denom c then Amount c else 0))
           \<and> (\<forall>d. supply t d = supply s d + (if d = Denom c then Amount c else 0)))
      \<and> (\<forall>ctx c s t. BurnCoins bk ctx transfer_ModuleName [c] s = Inr t \<longrightarrow>
           (\<forall>a d. bal t a d = bal s a d - (if a = maddr \<and> d = Denom c then Amount c else 0))
           \<and> (\<forall>d. supply t d = supply s d - (if d = Denom c then Amount c else 0))))"

text \<open>
  When the bank executes a transfer: the sender has the amount and none of it is locked (\<open>free\<close>), the
  recipient of a module's coins is not blocked, and a mint does not exceed 256 bits.
\<close>

definition bank_progress :: "'b bank \<Rightarrow> ('b \<Rightarrow> bytes \<Rightarrow> string \<Rightarrow> int) \<Rightarrow> ('b \<Rightarrow> string \<Rightarrow> int) \<Rightarrow> bytes \<Rightarrow> (bytes \<Rightarrow> bool) \<Rightarrow> bool" where
  "bank_progress bk bal supply maddr free =
     ((\<forall>ctx a b c s. free a \<and> 0 < Amount c \<and> Amount c \<le> bal s a (Denom c) \<longrightarrow> is_ok (SendCoins bk ctx a b [c] s))
      \<and> (\<forall>ctx b c s. \<not> BlockedAddr bk b \<and> 0 < Amount c \<and> Amount c \<le> bal s maddr (Denom c) \<longrightarrow>
           is_ok (SendCoinsFromModuleToAccount bk ctx transfer_ModuleName b [c] s))
      \<and> (\<forall>ctx c s. 0 < Amount c \<and> supply s (Denom c) + Amount c < 2 ^ 256 \<longrightarrow> is_ok (MintCoins bk ctx transfer_ModuleName [c] s))
      \<and> (\<forall>s d. supply s d < 2 ^ 256) \<and> (\<forall>s a d. 0 \<le> bal s a d))"

lemma bank_lawsD:
  assumes "bank_laws bk bal supply maddr"
  shows "SendCoins bk ctx a b [c] s = Inr t \<Longrightarrow> moved (bal s) (bal t) a b c" "SendCoins bk ctx a b [c] s = Inr t \<Longrightarrow> supply t = supply s"
    and "SendCoinsFromAccountToModule bk ctx a transfer_ModuleName [c] s = Inr t \<Longrightarrow> moved (bal s) (bal t) a maddr c"
      "SendCoinsFromAccountToModule bk ctx a transfer_ModuleName [c] s = Inr t \<Longrightarrow> supply t = supply s"
    and "SendCoinsFromModuleToAccount bk ctx transfer_ModuleName b [c] s = Inr t \<Longrightarrow> moved (bal s) (bal t) maddr b c"
      "SendCoinsFromModuleToAccount bk ctx transfer_ModuleName b [c] s = Inr t \<Longrightarrow> supply t = supply s"
    and "MintCoins bk ctx transfer_ModuleName [c] s = Inr t \<Longrightarrow> bal t x d = bal s x d + (if x = maddr \<and> d = Denom c then Amount c else 0)"
      "MintCoins bk ctx transfer_ModuleName [c] s = Inr t \<Longrightarrow> supply t d = supply s d + (if d = Denom c then Amount c else 0)"
    and "BurnCoins bk ctx transfer_ModuleName [c] s = Inr t \<Longrightarrow> bal t x d = bal s x d - (if x = maddr \<and> d = Denom c then Amount c else 0)"
      "BurnCoins bk ctx transfer_ModuleName [c] s = Inr t \<Longrightarrow> supply t d = supply s d - (if d = Denom c then Amount c else 0)"
  using assms unfolding bank_laws_def by (elim conjE; simp; blast?)+

lemma bank_progressD:
  assumes "bank_progress bk bal supply maddr free"
  shows "free a \<Longrightarrow> 0 < Amount c \<Longrightarrow> Amount c \<le> bal s a (Denom c) \<Longrightarrow> \<exists>t. SendCoins bk ctx a b [c] s = Inr t"
    and "\<not> BlockedAddr bk b \<Longrightarrow> 0 < Amount c \<Longrightarrow> Amount c \<le> bal s maddr (Denom c) \<Longrightarrow>
      \<exists>t. SendCoinsFromModuleToAccount bk ctx transfer_ModuleName b [c] s = Inr t"
    and "0 < Amount c \<Longrightarrow> supply s (Denom c) + Amount c < 2 ^ 256 \<Longrightarrow> \<exists>t. MintCoins bk ctx transfer_ModuleName [c] s = Inr t"
    and "supply s d < 2 ^ 256" and "0 \<le> bal s a d"
  using assms unfolding bank_progress_def is_ok_iff by (elim conjE; simp)+

section \<open>The total in escrow\<close>

definition escrow_total :: "'b transfer \<Rightarrow> string \<Rightarrow> int" where
  "escrow_total st d = (case fmlookup (tr_store st) (TotalEscrowForDenomKey d) of Some (IntProtoBz n) \<Rightarrow> n | _ \<Rightarrow> 0)"

lemma GetTotalEscrow_total: "GetTotalEscrowForDenom sdk st d = NewCoin sdk d (escrow_total st d)"
  by (simp add: GetTotalEscrowForDenom_def escrow_total_def split: option.split tr_value.split)

lemma TotalEscrowForDenomKey_inj [simp]: "TotalEscrowForDenomKey d = TotalEscrowForDenomKey e \<longleftrightarrow> d = e"
  by (simp add: TotalEscrowForDenomKey_def)

lemma SetTotalEscrow_total:
  assumes "SetTotalEscrowForDenom c st = Inr st'"
  shows "escrow_total st' d = (if d = Denom c then Amount c else escrow_total st d)" and "tr_bank st' = tr_bank st" and "0 \<le> Amount c"
  using assms by (auto simp: SetTotalEscrowForDenom_def escrow_total_def tr_set_def split: if_splits)

lemma SetDenomTrace_total [simp]: "escrow_total (SetDenomTrace t st) d = escrow_total st d" "tr_bank (SetDenomTrace t st) = tr_bank st"
proof -
  have "DenomTraceKey @ h \<noteq> TotalEscrowForDenomKey d" for h by (simp add: DenomTraceKey_def TotalEscrowForDenomKey_def str_bytes_def)
  then show "escrow_total (SetDenomTrace t st) d = escrow_total st d" "tr_bank (SetDenomTrace t st) = tr_bank st"
    by (simp_all add: escrow_total_def SetDenomTrace_def tr_set_def)
qed

lemma escrow_total_bank [simp]: "escrow_total (st\<lparr>tr_bank := b\<rparr>) d = escrow_total st d"
  by (simp add: escrow_total_def)

section \<open>What each operation does to balances, supply and escrow\<close>

lemma escrowToken_effect:
  assumes sdk: "sdk_laws (tk_sdk k)" and bank: "bank_laws (tk_bank k) bal supply maddr" and pos: "0 < Amount token"
    and e: "escrowToken k ctx sender ea token st = Inr st'"
  shows "moved (bal (tr_bank st)) (bal (tr_bank st')) sender ea token" and "supply (tr_bank st') = supply (tr_bank st)"
    and "escrow_total st' d = escrow_total st d + (if d = Denom token then Amount token else 0)"
    and "ValidateDenom (tk_sdk k) (Denom token)"
proof -
  from e obtain coins b cur new where c: "NewCoins (tk_sdk k) [token] = Inr coins" "SendCoins (tk_bank k) ctx sender ea coins (tr_bank st) = Inr b"
    "NewCoin (tk_sdk k) (Denom token) (escrow_total st (Denom token)) = Inr cur"
    "Coin_Add (tk_sdk k) cur token = Inr new" "SetTotalEscrowForDenom new (st\<lparr>tr_bank := b\<rparr>) = Inr st'"
    by (auto simp: escrowToken_def Let_def GetTotalEscrow_total)
  from c(3) show v: "ValidateDenom (tk_sdk k) (Denom token)" by (simp add: sdk_lawsD(1) [OF sdk])
  from c(1) v pos have coins: "coins = [token]" by (simp add: sdk_lawsD(2) [OF sdk])
  have new: "Denom new = Denom token" "Amount new = escrow_total st (Denom token) + Amount token"
    using sdk_lawsD(3) [OF sdk c(4)] c(3) by (simp_all add: sdk_lawsD(1) [OF sdk])
  have b: "tr_bank st' = b" using SetTotalEscrow_total(2) [OF c(5)] by simp
  show "moved (bal (tr_bank st)) (bal (tr_bank st')) sender ea token" "supply (tr_bank st') = supply (tr_bank st)"
    using bank_lawsD(1,2) [OF bank c(2) [unfolded coins]] b by simp_all
  show "escrow_total st' d = escrow_total st d + (if d = Denom token then Amount token else 0)"
    using SetTotalEscrow_total(1) [OF c(5), of d] new by simp
qed

lemma unescrowToken_effect:
  assumes sdk: "sdk_laws (tk_sdk k)" and bank: "bank_laws (tk_bank k) bal supply maddr" and pos: "0 < Amount token"
    and e: "unescrowToken k ctx ea receiver token st = Inr st'"
  shows "moved (bal (tr_bank st)) (bal (tr_bank st')) ea receiver token" and "supply (tr_bank st') = supply (tr_bank st)"
    and "escrow_total st' d = escrow_total st d - (if d = Denom token then Amount token else 0)"
    and "Amount token \<le> escrow_total st (Denom token)"
proof -
  from e obtain coins b cur new where c: "NewCoins (tk_sdk k) [token] = Inr coins" "SendCoins (tk_bank k) ctx ea receiver coins (tr_bank st) = Inr b"
    "NewCoin (tk_sdk k) (Denom token) (escrow_total st (Denom token)) = Inr cur"
    "Coin_Sub (tk_sdk k) cur token = Inr new" "SetTotalEscrowForDenom new (st\<lparr>tr_bank := b\<rparr>) = Inr st'"
    by (auto simp: unescrowToken_def Let_def GetTotalEscrow_total)
  from c(3) have v: "ValidateDenom (tk_sdk k) (Denom token)" by (simp add: sdk_lawsD(1) [OF sdk])
  from c(1) v pos have coins: "coins = [token]" by (simp add: sdk_lawsD(2) [OF sdk])
  have new: "Denom new = Denom token" "Amount new = escrow_total st (Denom token) - Amount token"
    "Amount token \<le> escrow_total st (Denom token)"
    using c(3,4) by (simp_all add: sdk_lawsD(1,4) [OF sdk])
  from new(3) show "Amount token \<le> escrow_total st (Denom token)" .
  have b: "tr_bank st' = b" using SetTotalEscrow_total(2) [OF c(5)] by simp
  show "moved (bal (tr_bank st)) (bal (tr_bank st')) ea receiver token" "supply (tr_bank st') = supply (tr_bank st)"
    using bank_lawsD(1,2) [OF bank c(2) [unfolded coins]] b by simp_all
  show "escrow_total st' d = escrow_total st d - (if d = Denom token then Amount token else 0)"
    using SetTotalEscrow_total(1) [OF c(5), of d] new by simp
qed

text \<open>Unescrowing goes through when the escrow account holds the tokens and the total covers them.\<close>

lemma unescrowToken_ok:
  assumes sdk: "sdk_laws (tk_sdk k)" and bank: "bank_progress (tk_bank k) bal supply maddr free" and pos: "0 < Amount token"
    and free: "free ea" and v: "ValidateDenom (tk_sdk k) (Denom token)"
    and has: "Amount token \<le> bal (tr_bank st) ea (Denom token)" "Amount token \<le> escrow_total st (Denom token)"
  shows "\<exists>st'. unescrowToken k ctx ea receiver token st = Inr st'"
proof -
  from bank_progressD(1) [OF bank free pos has(1)] obtain b where b: "SendCoins (tk_bank k) ctx ea receiver [token] (tr_bank st) = Inr b" by blast
  let ?cur = "\<lparr>Denom = Denom token, Amount = escrow_total st (Denom token)\<rparr>"
  let ?new = "\<lparr>Denom = Denom token, Amount = escrow_total st (Denom token) - Amount token\<rparr>"
  have cur: "NewCoin (tk_sdk k) (Denom token) (escrow_total st (Denom token)) = Inr ?cur" using has(2) pos v by (simp add: sdk_lawsD(1) [OF sdk])
  have new: "Coin_Sub (tk_sdk k) ?cur token = Inr ?new" using has(2) by (simp add: sdk_lawsD(4) [OF sdk])
  have set: "\<exists>st'. SetTotalEscrowForDenom ?new (st\<lparr>tr_bank := b\<rparr>) = Inr st'" using has(2) by (simp add: SetTotalEscrowForDenom_def)
  show ?thesis using b cur new set
    by (simp add: unescrowToken_def sdk_lawsD(2) [OF sdk v pos] GetTotalEscrow_total)
qed

lemma burn_vouchers_effect:
  assumes sdk: "sdk_laws (tk_sdk k)" and bank: "bank_laws (tk_bank k) bal supply maddr" and pos: "0 < Amount token"
    and v: "ValidateDenom (tk_sdk k) (Denom token)" and e: "burn_vouchers k ctx sender token st = Inr st'"
  shows "bal (tr_bank st') a d = bal (tr_bank st) a d - (if a = sender \<and> d = Denom token then Amount token else 0)"
    and "supply (tr_bank st') d = supply (tr_bank st) d - (if d = Denom token then Amount token else 0)"
    and "tr_store st' = tr_store st"
proof -
  from e obtain b b' where b: "SendCoinsFromAccountToModule (tk_bank k) ctx sender transfer_ModuleName [token] (tr_bank st) = Inr b"
    "BurnCoins (tk_bank k) ctx transfer_ModuleName [token] b = Inr b'" and st': "st' = st\<lparr>tr_bank := b'\<rparr>"
    by (auto simp: burn_vouchers_def sdk_lawsD(2) [OF sdk v pos] replaced_error_Inr)
  show "bal (tr_bank st') a d = bal (tr_bank st) a d - (if a = sender \<and> d = Denom token then Amount token else 0)"
    using bank_lawsD(3) [OF bank b(1)] bank_lawsD(9) [OF bank b(2), of a d] by (simp add: st' moved_def)
  show "supply (tr_bank st') d = supply (tr_bank st) d - (if d = Denom token then Amount token else 0)"
    using bank_lawsD(4) [OF bank b(1)] bank_lawsD(10) [OF bank b(2), of d] by (simp add: st')
  show "tr_store st' = tr_store st" by (simp add: st')
qed

text \<open>Minting to an account, on receipt and on refund.\<close>

lemma minted:
  assumes bank: "bank_laws (tk_bank k) bal supply maddr"
    and b: "MintCoins (tk_bank k) ctx transfer_ModuleName [token] s = Inr t"
      "SendCoinsFromModuleToAccount (tk_bank k) ctx transfer_ModuleName r [token] t = Inr u"
  shows "bal u a d = bal s a d + (if a = r \<and> d = Denom token then Amount token else 0)"
    and "supply u d = supply s d + (if d = Denom token then Amount token else 0)"
  using bank_lawsD(5,6) [OF bank b(2)] bank_lawsD(7) [OF bank b(1), of a d] bank_lawsD(8) [OF bank b(1), of d]
  by (simp_all add: moved_def)

lemma mint_ok:
  assumes bank: "bank_laws (tk_bank k) bal supply maddr" and prog: "bank_progress (tk_bank k) bal supply maddr free"
    and pos: "0 < Amount token" and r: "\<not> BlockedAddr (tk_bank k) r" and room: "supply s (Denom token) + Amount token < 2 ^ 256"
  shows "\<exists>t u. MintCoins (tk_bank k) ctx transfer_ModuleName [token] s = Inr t
    \<and> SendCoinsFromModuleToAccount (tk_bank k) ctx transfer_ModuleName r [token] t = Inr u"
proof -
  from bank_progressD(3) [OF prog pos room] obtain t where t: "MintCoins (tk_bank k) ctx transfer_ModuleName [token] s = Inr t" by blast
  have "Amount token \<le> bal t maddr (Denom token)"
    using bank_lawsD(7) [OF bank t, of maddr "Denom token"] bank_progressD(5) [OF prog, of s maddr "Denom token"] by simp
  from bank_progressD(2) [OF prog r pos this] t show ?thesis by blast
qed

section \<open>Conservation\<close>

text \<open>The tokens of a denomination that are not in escrow.\<close>

definition at_large :: "('b \<Rightarrow> string \<Rightarrow> int) \<Rightarrow> 'b transfer \<Rightarrow> string \<Rightarrow> int" where
  "at_large supply st d = supply (tr_bank st) d - escrow_total st d"

text \<open>
  The amount of one denomination came in (or, negative, went out), to the account \<open>x\<close>: nobody else's balance
  changed but that of the escrow account \<open>ea\<close>.
\<close>

definition gained ::
  "('b \<Rightarrow> bytes \<Rightarrow> string \<Rightarrow> int) \<Rightarrow> ('b \<Rightarrow> string \<Rightarrow> int) \<Rightarrow> bytes \<Rightarrow> bytes \<Rightarrow> string \<Rightarrow> int \<Rightarrow> 'b transfer \<Rightarrow> 'b transfer \<Rightarrow> bool" where
  "gained bal supply ea x denom amount st st' =
     ((\<forall>d. at_large supply st' d = at_large supply st d + (if d = denom then amount else 0))
      \<and> (\<forall>a d. a \<noteq> ea \<longrightarrow> bal (tr_bank st') a d = bal (tr_bank st) a d + (if a = x \<and> d = denom then amount else 0)))"

lemma escrow_gained:
  assumes "sdk_laws (tk_sdk k)" "bank_laws (tk_bank k) bal supply maddr" "0 < Amount token" "escrowToken k ctx sender ea token st = Inr st'"
  shows "gained bal supply ea sender (Denom token) (- Amount token) st st'"
  using escrowToken_effect [OF assms] by (simp add: gained_def at_large_def moved_def)

lemma unescrow_gained:
  assumes "sdk_laws (tk_sdk k)" "bank_laws (tk_bank k) bal supply maddr" "0 < Amount token" "unescrowToken k ctx ea r token st = Inr st'"
  shows "gained bal supply ea r (Denom token) (Amount token) st st'"
  using unescrowToken_effect [OF assms] by (simp add: gained_def at_large_def moved_def)

lemma burn_gained:
  assumes "sdk_laws (tk_sdk k)" "bank_laws (tk_bank k) bal supply maddr" "0 < Amount token" "ValidateDenom (tk_sdk k) (Denom token)"
    "burn_vouchers k ctx sender token st = Inr st'"
  shows "gained bal supply ea sender (Denom token) (- Amount token) st st'"
  using burn_vouchers_effect [OF assms] by (simp add: gained_def at_large_def escrow_total_def)

lemma mint_gained:
  assumes "bank_laws (tk_bank k) bal supply maddr" "MintCoins (tk_bank k) ctx transfer_ModuleName [token] (tr_bank st) = Inr t"
    "SendCoinsFromModuleToAccount (tk_bank k) ctx transfer_ModuleName r [token] t = Inr u"
  shows "gained bal supply ea r (Denom token) (Amount token) st (st\<lparr>tr_bank := u\<rparr>)"
  using minted [OF assms] by (simp add: gained_def at_large_def)

lemma take_tokens_gained:
  assumes "sdk_laws (tk_sdk k)" "bank_laws (tk_bank k) bal supply maddr" "0 < Amount token" "ValidateDenom (tk_sdk k) (Denom token)"
    "take_tokens k ctx p c f sender token st = Inr st'"
  shows "gained bal supply (GetEscrowAddress p c) sender (Denom token) (- Amount token) st st'"
proof (cases "SenderChainIsSource p c f")
  case True
  with assms(5) have "escrowToken k ctx sender (GetEscrowAddress p c) token st = Inr st'" by (simp add: take_tokens_def)
  then show ?thesis by (rule escrow_gained [OF assms(1-3)])
next
  case False
  with assms(5) have "burn_vouchers k ctx sender token st = Inr st'" by (simp add: take_tokens_def)
  then show ?thesis by (rule burn_gained [OF assms(1-4)])
qed

lemma sendTransfer_parts:
  assumes "sendTransfer k ctx p c token sender rcv th tt memo w = Inr (n, w1)"
  shows "\<exists>ch cap f. GetChannel (core (ibc_state w)) p c = Some ch \<and> full_denom k (app w) (Denom token) = Inr f
    \<and> take_tokens k ctx p c f sender token (app w) = Inr (app w1)
    \<and> SendPacket ctx (Some cap) p c th tt (MarshalData (tk_sdk k) (NewFungibleTokenPacketData f
        (Int_String (tk_sdk k) (Amount token)) (AccAddress_String (tk_sdk k) sender) rcv memo)) (ibc_state w) = Inr (n, ibc_state w1)"
  using assms by (auto simp: sendTransfer_def Let_def split: option.splits) blast

text \<open>The denomination credited on receipt.\<close>

definition credited_denom :: "tlib \<Rightarrow> Packet \<Rightarrow> FungibleTokenPacketData \<Rightarrow> string" where
  "credited_denom sdk pkt data =
     (if ReceiverChainIsSource (SourcePort pkt) (SourceChannel pkt) (ftpd_Denom data)
      then received_denom sdk (drop (length (GetDenomPrefix (SourcePort pkt) (SourceChannel pkt))) (ftpd_Denom data))
      else IBCDenom sdk (ParseDenomTrace (GetDenomPrefix (DestinationPort pkt) (DestinationChannel pkt) @ ftpd_Denom data)))"

lemma recv_gained:
  assumes sdk: "sdk_laws (tk_sdk k)" and bank: "bank_laws (tk_bank k) bal supply maddr"
    and r: "transfer_OnRecvPacket k ctx pkt data st = Inr st'"
  shows "\<exists>amount r. NewIntFromString (tk_sdk k) (ftpd_Amount data) = Some amount \<and> 0 < amount
    \<and> AccAddressFromBech32 (tk_sdk k) (ftpd_Receiver data) = Some r
    \<and> gained bal supply (GetEscrowAddress (DestinationPort pkt) (DestinationChannel pkt)) r (credited_denom (tk_sdk k) pkt data) amount st st'"
proof -
  from r have "FungibleTokenPacketData_ValidateBasic (tk_sdk k) data = Inr ()" by (auto simp: transfer_OnRecvPacket_def Let_def)
  then obtain amount where am: "NewIntFromString (tk_sdk k) (ftpd_Amount data) = Some amount" "0 < amount"
    by (auto simp: FungibleTokenPacketData_ValidateBasic_def split: option.splits if_splits)
  from r obtain x where x: "AccAddressFromBech32 (tk_sdk k) (ftpd_Receiver data) = Some x"
    by (auto simp: transfer_OnRecvPacket_def Let_def split: option.splits if_splits)
  let ?ea = "GetEscrowAddress (DestinationPort pkt) (DestinationChannel pkt)" and ?d = "credited_denom (tk_sdk k) pkt data"
  have "gained bal supply ?ea x ?d amount st st'"
  proof (cases "ReceiverChainIsSource (SourcePort pkt) (SourceChannel pkt) (ftpd_Denom data)")
    case True
    with r am x obtain token where t: "NewCoin (tk_sdk k) ?d amount = Inr token" "unescrowToken k ctx ?ea x token st = Inr st'"
      by (auto simp: transfer_OnRecvPacket_def Let_def credited_denom_def split: if_splits)
    from t(1) have tok: "Denom token = ?d" "Amount token = amount" by (simp_all add: sdk_lawsD(1) [OF sdk])
    with unescrow_gained [OF sdk bank _ t(2)] am(2) show ?thesis by simp
  next
    case False
    with r am x obtain token st1 where t: "NewCoin (tk_sdk k) ?d amount = Inr token" "mint_vouchers k ctx x token st1 = Inr st'"
      and st1: "st1 = st \<or> (\<exists>tr. st1 = SetDenomTrace tr st)"
      by (auto simp: transfer_OnRecvPacket_def Let_def credited_denom_def split: if_splits)
    from t(1) have tok: "Denom token = ?d" "Amount token = amount" "ValidateDenom (tk_sdk k) (Denom token)"
      by (simp_all add: sdk_lawsD(1) [OF sdk])
    with am(2) have nc: "NewCoins (tk_sdk k) [token] = Inr [token]" by (intro sdk_lawsD(2) [OF sdk]) simp_all
    from t(2) obtain b b' where b: "MintCoins (tk_bank k) ctx transfer_ModuleName [token] (tr_bank st1) = Inr b"
      "SendCoinsFromModuleToAccount (tk_bank k) ctx transfer_ModuleName x [token] b = Inr b'" "st' = st1\<lparr>tr_bank := b'\<rparr>"
      by (auto simp: mint_vouchers_def nc)
    from mint_gained [OF bank b(1,2)] have "gained bal supply ?ea x ?d amount st1 st'" unfolding b(3) tok .
    then show ?thesis using st1 by (auto simp: gained_def at_large_def)
  qed
  with am x show ?thesis by blast
qed

lemma refund_gained:
  assumes sdk: "sdk_laws (tk_sdk k)" and bank: "bank_laws (tk_bank k) bal supply maddr"
    and am: "NewIntFromString (tk_sdk k) (ftpd_Amount data) = Some amount" "0 < amount"
    and r: "refundPacketToken k ctx pkt data st = Inr st'"
  shows "\<exists>x. AccAddressFromBech32 (tk_sdk k) (ftpd_Sender data) = Some x
    \<and> gained bal supply (GetEscrowAddress (SourcePort pkt) (SourceChannel pkt)) x (IBCDenom (tk_sdk k) (ParseDenomTrace (ftpd_Denom data))) amount st st'"
proof -
  let ?ea = "GetEscrowAddress (SourcePort pkt) (SourceChannel pkt)" and ?d = "IBCDenom (tk_sdk k) (ParseDenomTrace (ftpd_Denom data))"
  from r am(1) obtain token x where t: "NewCoin (tk_sdk k) ?d amount = Inr token" and x: "AccAddressFromBech32 (tk_sdk k) (ftpd_Sender data) = Some x"
    by (auto simp: refundPacketToken_def Let_def split: option.splits)
  from t have tok: "Denom token = ?d" "Amount token = amount" "ValidateDenom (tk_sdk k) (Denom token)"
    by (simp_all add: sdk_lawsD(1) [OF sdk])
  with am(2) have nc: "NewCoins (tk_sdk k) [token] = Inr [token]" by (intro sdk_lawsD(2) [OF sdk]) simp_all
  have "gained bal supply ?ea x ?d amount st st'"
  proof (cases "SenderChainIsSource (SourcePort pkt) (SourceChannel pkt) (ftpd_Denom data)")
    case True
    with r am(1) t x have "unescrowToken k ctx ?ea x token st = Inr st'" by (simp add: refundPacketToken_def)
    with unescrow_gained [OF sdk bank _ this] am(2) tok show ?thesis by simp
  next
    case False
    with r am(1) t x nc obtain b b' where b: "MintCoins (tk_bank k) ctx transfer_ModuleName [token] (tr_bank st) = Inr b"
      "SendCoinsFromModuleToAccount (tk_bank k) ctx transfer_ModuleName x [token] b = Inr b'" "st' = st\<lparr>tr_bank := b'\<rparr>"
      by (auto simp: refundPacketToken_def Let_def replaced_error_Inr)
    from mint_gained [OF bank b(1,2)] show ?thesis unfolding b(3) tok .
  qed
  with x show ?thesis by blast
qed

section \<open>Refunds undo sends\<close>

text \<open>
  The denominations a chain gives out itself: vouchers whose trace is recorded, and native
  denominations that do not look like a trace.
\<close>

definition own_denom :: "tlib \<Rightarrow> 'b transfer \<Rightarrow> string \<Rightarrow> bool" where
  "own_denom sdk st d =
     (if HasPrefix d ''ibc/''
      then \<exists>t. d = IBCDenom sdk t \<and> Path t \<noteq> [] \<and> GetDenomTrace st (DenomTrace_Hash t) = Some t
        \<and> ParseDenomTrace (GetFullDenomPath t) = t
      else Path (ParseDenomTrace d) = [])"

lemma native_base: "Path (ParseDenomTrace d) = [] \<Longrightarrow> BaseDenom (ParseDenomTrace d) = d"
proof -
  assume p: "Path (ParseDenomTrace d) = []"
  have "\<not> no_base d"
  proof
    assume "no_base d"
    then obtain path where e: "extract_loop (length (Split d ''/'')) (Split d ''/'') = (path, [])" and l: "2 < length (Split d ''/'')"
      using extract_loop_base [of "length (Split d ''/'')" "Split d ''/''"] unfolding no_base_def by (metis surj_pair)
    have "path \<noteq> []" using extract_loop_append [OF e] l by (metis append_Nil2 list.size(3) not_less_zero)
    with extract_loop_append [OF e] obtain x y r where "path = x # y # r" by blast
    then have "Join path ''/'' \<noteq> []" by (cases r) simp_all
    with p e show False by (simp add: ParseDenomTrace_items)
  qed
  with full_path [of d] p show ?thesis by (simp add: GetFullDenomPath_def)
qed

lemma own_denom_full:
  assumes sdk: "sdk_laws (tk_sdk k)" and own: "own_denom (tk_sdk k) st d" and f: "full_denom k st d = Inr f"
  shows "IBCDenom (tk_sdk k) (ParseDenomTrace f) = d"
proof (cases "HasPrefix d ''ibc/''")
  case True
  with own obtain t where t: "d = IBCDenom (tk_sdk k) t" "Path t \<noteq> []" "GetDenomTrace st (DenomTrace_Hash t) = Some t"
    "ParseDenomTrace (GetFullDenomPath t) = t" by (auto simp: own_denom_def)
  have "length (DenomTrace_Hash t) = 32" by (simp add: DenomTrace_Hash_def)
  from sdk_lawsD(7) [OF sdk this] have "ParseHexHash (tk_sdk k) (HexBytes_String (tk_sdk k) (DenomTrace_Hash t)) = Inr (DenomTrace_Hash t)"
    by (simp add: ParseHexHash_def)
  moreover have "drop (length (DenomPrefix @ ''/'')) d = HexBytes_String (tk_sdk k) (DenomTrace_Hash t)" using t(1,2) by (simp add: IBCDenom_def)
  ultimately have "f = GetFullDenomPath t" using f True t(3)
    by (simp add: full_denom_def DenomPathFromHash_def del: length_append list.size)
  with t(1,4) show ?thesis by simp
next
  case False
  with own f native_base [of d] show ?thesis by (simp add: own_denom_def full_denom_def IBCDenom_def)
qed

definition restored :: "('b \<Rightarrow> bytes \<Rightarrow> string \<Rightarrow> int) \<Rightarrow> ('b \<Rightarrow> string \<Rightarrow> int) \<Rightarrow> 'b transfer \<Rightarrow> 'b transfer \<Rightarrow> bool" where
  "restored bal supply st st' =
     ((\<forall>a d. bal (tr_bank st') a d = bal (tr_bank st) a d) \<and> (\<forall>d. supply (tr_bank st') d = supply (tr_bank st) d)
      \<and> (\<forall>d. escrow_total st' d = escrow_total st d))"

lemma refund_restores:
  assumes sdk: "sdk_laws (tk_sdk k)" and bank: "bank_laws (tk_bank k) bal supply maddr" and prog: "bank_progress (tk_bank k) bal supply maddr free"
    and take: "take_tokens k ctx p c f sender token st = Inr st1"
    and tok: "0 < Amount token" "ValidateDenom (tk_sdk k) (Denom token)" "IBCDenom (tk_sdk k) (ParseDenomTrace f) = Denom token"
    and am: "NewIntFromString (tk_sdk k) (ftpd_Amount data) = Some (Amount token)"
    and snd: "AccAddressFromBech32 (tk_sdk k) (ftpd_Sender data) = Some sender" "\<not> BlockedAddr (tk_bank k) sender" "free (GetEscrowAddress p c)"
    and data: "ftpd_Denom data = f" "SourcePort pkt = p" "SourceChannel pkt = c"
  shows "\<exists>st2. refundPacketToken k ctx' pkt data st1 = Inr st2 \<and> restored bal supply st st2"
proof -
  have nc: "NewCoin (tk_sdk k) (IBCDenom (tk_sdk k) (ParseDenomTrace f)) (Amount token) = Inr token"
    using tok by (simp add: sdk_lawsD(1) [OF sdk])
  show ?thesis
  proof (cases "SenderChainIsSource p c f")
    case True
    let ?ea = "GetEscrowAddress p c"
    from take True have e: "escrowToken k ctx sender ?ea token st = Inr st1" by (simp add: take_tokens_def)
    note eff = escrowToken_effect [OF sdk bank tok(1) e]
    have "Amount token \<le> bal (tr_bank st1) ?ea (Denom token)"
      using eff(1) bank_progressD(5) [OF prog, of "tr_bank st" ?ea "Denom token"] by (auto simp: moved_def)
    moreover have "0 \<le> escrow_total st (Denom token)"
      using e by (auto simp: escrowToken_def Let_def GetTotalEscrow_total sdk_lawsD(1) [OF sdk])
    then have "Amount token \<le> escrow_total st1 (Denom token)" using eff(3) by simp
    ultimately obtain st2 where st2: "unescrowToken k ctx' ?ea sender token st1 = Inr st2"
      using unescrowToken_ok [OF sdk prog tok(1) snd(3) tok(2)] by blast
    note eff2 = unescrowToken_effect [OF sdk bank tok(1) st2]
    have "restored bal supply st st2" using eff eff2 by (simp add: restored_def moved_def)
    with st2 True nc am snd(1) data show ?thesis by (simp add: refundPacketToken_def)
  next
    case False
    with take have e: "burn_vouchers k ctx sender token st = Inr st1" by (simp add: take_tokens_def)
    note eff = burn_vouchers_effect [OF sdk bank tok(1,2) e]
    have "supply (tr_bank st1) (Denom token) + Amount token < 2 ^ 256"
      using eff(2) [of "Denom token"] bank_progressD(4) [OF prog, of "tr_bank st" "Denom token"] by simp
    from mint_ok [OF bank prog tok(1) snd(2) this] obtain b b' where
      b: "MintCoins (tk_bank k) ctx' transfer_ModuleName [token] (tr_bank st1) = Inr b"
        "SendCoinsFromModuleToAccount (tk_bank k) ctx' transfer_ModuleName sender [token] b = Inr b'" by blast
    have "restored bal supply st (st1\<lparr>tr_bank := b'\<rparr>)"
      using minted [OF bank b] eff by (simp add: restored_def escrow_total_def)
    with False nc am snd(1) data b show ?thesis
      by (simp add: refundPacketToken_def sdk_lawsD(2) [OF sdk tok(2,1)])
  qed
qed

end
