(* ===== verification/Transfer_Props.thy ===== *)
theory Transfer_Props
  imports Transfer_Run
begin

text \<open>
  The properties of the transfer module, and a concrete SDK, bank and chain on which their
  hypotheses hold.
\<close>

section \<open>A concrete SDK\<close>

text \<open>Strings as bytes, each byte announced by a one, the end by a zero.\<close>

definition put_str :: "string \<Rightarrow> bytes" where
  "put_str s = concat (map (\<lambda>b. [1, b]) (str_bytes s)) @ [0]"

fun get_str :: "bytes \<Rightarrow> (string \<times> bytes) option" where
  "get_str [] = None"
| "get_str (x # bs) =
     (if x = 0 then Some ([], bs)
      else case bs of [] \<Rightarrow> None | b # r \<Rightarrow> map_option (\<lambda>(s, r'). (char_of (unat b) # s, r')) (get_str r))"

lemma get_put_str: "get_str (put_str s @ r) = Some (s, r)"
proof (induction s)
  case Nil
  then show ?case by (simp add: put_str_def str_bytes_def)
next
  case (Cons c s)
  have "unat (word_of_nat (of_char c) :: 8 word) = of_char c"
    using nat_of_char_less_256 [of c] by (simp add: unat_of_nat take_bit_nat_eq_self)
  with Cons show ?case by (simp add: put_str_def str_bytes_def)
qed

definition ex_MarshalData :: "FungibleTokenPacketData \<Rightarrow> bytes" where
  "ex_MarshalData d = put_str (ftpd_Denom d) @ put_str (ftpd_Amount d) @ put_str (ftpd_Sender d) @ put_str (ftpd_Receiver d) @ put_str (ftpd_Memo d)"

definition ex_UnmarshalData :: "bytes \<Rightarrow> FungibleTokenPacketData option" where
  "ex_UnmarshalData bs =
     (case get_str bs of None \<Rightarrow> None | Some (d, bs) \<Rightarrow>
     (case get_str bs of None \<Rightarrow> None | Some (a, bs) \<Rightarrow>
     (case get_str bs of None \<Rightarrow> None | Some (s, bs) \<Rightarrow>
     (case get_str bs of None \<Rightarrow> None | Some (r, bs) \<Rightarrow>
     (case get_str bs of None \<Rightarrow> None | Some (m, bs) \<Rightarrow> Some (NewFungibleTokenPacketData d a s r m))))))"

lemma ex_UnmarshalData_MarshalData: "ex_UnmarshalData (ex_MarshalData d) = Some d"
  using get_put_str [of "ftpd_Memo d" "[]"]
  by (simp add: ex_UnmarshalData_def ex_MarshalData_def get_put_str NewFungibleTokenPacketData_def)

fun ex_MarshalAck :: "Acknowledgement \<Rightarrow> bytes" where
  "ex_MarshalAck (Acknowledgement_Result r) = 1 # r"
| "ex_MarshalAck (Acknowledgement_Error e) = 2 # str_bytes e"
| "ex_MarshalAck Acknowledgement_Nil = []"

fun ex_UnmarshalAck :: "bytes \<Rightarrow> Acknowledgement option" where
  "ex_UnmarshalAck [] = None"
| "ex_UnmarshalAck (x # bs) = (if x = 1 then Some (Acknowledgement_Result bs) else Some (Acknowledgement_Error (bytes_str bs)))"

definition ex_hex :: "bytes \<Rightarrow> string" where
  "ex_hex bs = concat (map (\<lambda>b. [hex_digit (unat b div 16), hex_digit (unat b mod 16)]) bs)"

lemma unat_byte_less: "unat (b :: 8 word) < 256"
  using unsigned_less [of b, where ?'a = nat] by simp

lemma ex_hex_decode: "hex_DecodeString (ex_hex bs) = Some bs"
proof (induction bs)
  case (Cons b bs)
  have "unat b < 256" by (rule unat_byte_less)
  then have "unat b div 16 < 16" by (simp add: less_mult_imp_div_less)
  moreover have "(word_of_nat (16 * (unat b div 16) + unat b mod 16) :: 8 word) = b" by simp
  ultimately show ?case using Cons by (simp add: ex_hex_def unhex_hex_digit)
qed (simp add: ex_hex_def)

definition ex_sdk :: tlib where
  "ex_sdk =
     \<lparr>AccAddressFromBech32 = \<lambda>s. if s = [] then None else Some (str_bytes s), AccAddress_String = bytes_str,
      HexBytes_String = ex_hex, ValidateHash = \<lambda>h. h = [] \<or> length h = 32, ValidateDenom = \<lambda>d. d \<noteq> [],
      NewIntFromString = \<lambda>s. if s \<noteq> [] \<and> list_all is_digit s then Some (digits_int s) else None,
      Int_String = \<lambda>n. decimal (nat n),
      NewCoin = \<lambda>d a. if d \<noteq> [] \<and> 0 \<le> a then Inr \<lparr>Denom = d, Amount = a\<rparr> else Inl (Panic ''invalid coin''),
      NewCoins = \<lambda>cs. Inr (filter (\<lambda>c. Amount c \<noteq> 0) cs),
      Coin_Add = \<lambda>x y. if Denom x = Denom y then Inr \<lparr>Denom = Denom x, Amount = Amount x + Amount y\<rparr> else Inl (Panic ''invalid coin denominations''),
      Coin_Sub = \<lambda>x y. if Denom x = Denom y \<and> Amount y \<le> Amount x then Inr \<lparr>Denom = Denom x, Amount = Amount x - Amount y\<rparr>
        else Inl (Panic ''negative coin amount''),
      Coin_IsValid = \<lambda>c. Denom c \<noteq> [] \<and> 0 \<le> Amount c, Coins_Add = \<lambda>cs ds. Inr (cs @ ds), Coins_Validate = \<lambda>cs. True,
      Coins_AmountOf = \<lambda>cs d. sum_list (map Amount (filter (\<lambda>c. Denom c = d) cs)),
      Coins_SafeSub = \<lambda>cs c. (cs @ [c\<lparr>Amount := - Amount c\<rparr>], False), Coins_IsAllGTE = \<lambda>cs ds. True,
      MarshalData = ex_MarshalData, UnmarshalData = ex_UnmarshalData, MarshalAck = ex_MarshalAck, UnmarshalAck = ex_UnmarshalAck,
      ABCICode = \<lambda>e. 1\<rparr>"

lemma str_bytes_bytes_str [simp]: "str_bytes (bytes_str bs) = bs"
proof (induction bs)
  case (Cons b bs)
  have "unat b mod 256 = unat b" using unat_byte_less [of b] by (rule mod_less)
  with Cons show ?case by (simp add: str_bytes_def bytes_str_def of_char_of)
qed (simp add: str_bytes_def bytes_str_def)

lemma bytes_str_Nil [simp]: "bytes_str bs = [] \<longleftrightarrow> bs = []"
  by (simp add: bytes_str_def)

lemma ex_sdk_laws: "sdk_laws ex_sdk"
proof -
  have "ex_UnmarshalAck (ex_MarshalAck a) = Some a" if "a \<noteq> Acknowledgement_Nil" for a
    using that by (cases a) simp_all
  moreover have "list_all is_digit (decimal n)" for n by (rule decimal_digits)
  ultimately show ?thesis
    by (auto simp: sdk_laws_def ex_sdk_def ex_UnmarshalData_MarshalData ex_hex_decode digits_int)
qed

section \<open>A concrete bank\<close>

record ledger =
  led_bal :: "bytes \<Rightarrow> string \<Rightarrow> nat"
  led_supply :: "string \<Rightarrow> 256 word"

abbreviation ex_maddr :: bytes where "ex_maddr \<equiv> [77]"

definition led_sub :: "bytes \<Rightarrow> Coin \<Rightarrow> ledger \<Rightarrow> ledger result" where
  "led_sub a c s =
     (if 0 \<le> Amount c \<and> nat (Amount c) \<le> led_bal s a (Denom c)
      then Inr (s\<lparr>led_bal := (led_bal s)(a := (led_bal s a)(Denom c := led_bal s a (Denom c) - nat (Amount c)))\<rparr>)
      else Inl (ErrForeign ''insufficient funds''))"

definition led_add :: "bytes \<Rightarrow> Coin \<Rightarrow> ledger \<Rightarrow> ledger" where
  "led_add a c s = s\<lparr>led_bal := (led_bal s)(a := (led_bal s a)(Denom c := led_bal s a (Denom c) + nat (Amount c)))\<rparr>"

definition led_move :: "bytes \<Rightarrow> bytes \<Rightarrow> Coin list \<Rightarrow> ledger \<Rightarrow> ledger result" where
  "led_move a b cs s =
     (case cs of [] \<Rightarrow> Inr s | [c] \<Rightarrow> and_then (led_sub a c s) (\<lambda>t. Inr (led_add b c t)) | _ \<Rightarrow> Inl (ErrForeign ''one coin''))"

definition led_mint :: "Coin list \<Rightarrow> ledger \<Rightarrow> ledger result" where
  "led_mint cs s =
     (case cs of [] \<Rightarrow> Inr s
      | [c] \<Rightarrow> if 0 \<le> Amount c \<and> uint (led_supply s (Denom c)) + Amount c < 2 ^ 256
          then Inr (led_add ex_maddr c (s\<lparr>led_supply := (led_supply s)(Denom c := led_supply s (Denom c) + word_of_int (Amount c))\<rparr>))
          else Inl (Panic ''Int overflow'')
      | _ \<Rightarrow> Inl (ErrForeign ''one coin''))"

definition led_burn :: "Coin list \<Rightarrow> ledger \<Rightarrow> ledger result" where
  "led_burn cs s =
     (case cs of [] \<Rightarrow> Inr s
      | [c] \<Rightarrow> if Amount c \<le> uint (led_supply s (Denom c))
          then and_then (led_sub ex_maddr c s) (\<lambda>t.
            Inr (t\<lparr>led_supply := (led_supply t)(Denom c := led_supply t (Denom c) - word_of_int (Amount c))\<rparr>))
          else Inl (ErrForeign ''insufficient funds'')
      | _ \<Rightarrow> Inl (ErrForeign ''one coin''))"

definition ex_bank :: "ledger bank" where
  "ex_bank =
     \<lparr>SendCoins = \<lambda>ctx. led_move, MintCoins = \<lambda>ctx m. led_mint, BurnCoins = \<lambda>ctx m. led_burn,
      SendCoinsFromModuleToAccount = \<lambda>ctx m. led_move ex_maddr, SendCoinsFromAccountToModule = \<lambda>ctx a m. led_move a ex_maddr,
      BlockedAddr = \<lambda>a. a = ex_maddr, IsSendEnabledCoin = \<lambda>ctx c s. True, GetAllBalances = \<lambda>s a. []\<rparr>"

abbreviation ex_bal :: "ledger \<Rightarrow> bytes \<Rightarrow> string \<Rightarrow> int" where "ex_bal s a d \<equiv> int (led_bal s a d)"
abbreviation ex_supply :: "ledger \<Rightarrow> string \<Rightarrow> int" where "ex_supply s d \<equiv> uint (led_supply s d)"

lemma led_move_moved: "led_move a b [c] s = Inr t \<Longrightarrow> moved (ex_bal s) (ex_bal t) a b c \<and> ex_supply t = ex_supply s"
  by (auto simp: led_move_def led_sub_def led_add_def moved_def fun_eq_iff split: if_splits)

lemma uint_add_small: "0 \<le> n \<Longrightarrow> uint (w :: 256 word) + n < 2 ^ 256 \<Longrightarrow> uint (w + word_of_int n) = uint w + n"
proof -
  assume n: "0 \<le> n" "uint w + n < 2 ^ 256"
  then have "(uint w + n) mod 2 ^ 256 = uint w + n" by (intro mod_pos_pos_trivial) simp_all
  then show ?thesis by (simp add: uint_word_ariths uint_word_of_int mod_simps)
qed

lemma uint_sub_small: "0 \<le> n \<Longrightarrow> n \<le> uint (w :: 256 word) \<Longrightarrow> uint (w - word_of_int n) = uint w - n"
proof -
  assume n: "0 \<le> n" "n \<le> uint w"
  have "uint w - n < 2 ^ 256" using n uint_lt2p [of w] by simp
  then have "(uint w - n) mod 2 ^ 256 = uint w - n" using n by (intro mod_pos_pos_trivial) simp_all
  then show ?thesis by (simp add: uint_word_ariths uint_word_of_int mod_simps)
qed

lemma ex_bank_laws: "bank_laws ex_bank ex_bal ex_supply ex_maddr"
proof -
  have mint: "(\<forall>a d. ex_bal t a d = ex_bal s a d + (if a = ex_maddr \<and> d = Denom c then Amount c else 0))
      \<and> (\<forall>d. ex_supply t d = ex_supply s d + (if d = Denom c then Amount c else 0))" if "led_mint [c] s = Inr t" for c s t
    using that by (auto simp: led_mint_def led_add_def uint_add_small split: if_splits)
  have burn: "(\<forall>a d. ex_bal t a d = ex_bal s a d - (if a = ex_maddr \<and> d = Denom c then Amount c else 0))
      \<and> (\<forall>d. ex_supply t d = ex_supply s d - (if d = Denom c then Amount c else 0))" if "led_burn [c] s = Inr t" for c s t
    using that by (auto simp: led_burn_def led_sub_def uint_sub_small split: if_splits)
  show ?thesis unfolding bank_laws_def using led_move_moved mint burn by (simp add: ex_bank_def)
qed

lemma ex_bank_progress: "bank_progress ex_bank ex_bal ex_supply ex_maddr (\<lambda>a. True)"
  using uint_lt2p [where 'a = 256] by (auto simp: bank_progress_def ex_bank_def led_move_def led_sub_def led_mint_def is_ok_iff)

section \<open>A concrete chain\<close>

text \<open>The loopback chain, on which an account owns 50 of the native token and 7 of a voucher.\<close>

definition ex_keeper :: "ledger transfer_keeper" where
  "ex_keeper = \<lparr>tk_sdk = ex_sdk, tk_bank = ex_bank, tk_authority = ''gov''\<rparr>"

abbreviation ex_alice :: bytes where "ex_alice \<equiv> [65]"

definition ex_transfer :: "ledger transfer" where
  "ex_transfer =
     transfer_SetParams DefaultParams (SetPort transfer_PortID
       \<lparr>tr_store = fmempty, tr_bank = \<lparr>led_bal = \<lambda>a d. if a = ex_alice \<and> d = ''uatom'' then 50 else 0,
          led_supply = \<lambda>d. if d = ''uatom'' then 50 else 0\<rparr>\<rparr>)"

definition ex_world :: "ledger transfer world" where
  "ex_world = \<lparr>ibc_state = ex_loop UNORDERED, app = ex_transfer\<rparr>"

abbreviation ex_token :: Coin where "ex_token \<equiv> \<lparr>Denom = ''uatom'', Amount = 20\<rparr>"

lemma ex_cap: "GetCapability transfer_ModuleName ex_loop_caps (ChannelCapabilityPath ''transfer'' ''channel-0'') = Inr ex_src_cap"
  by code_simp

lemma ex_send_any:
  assumes "bz \<noteq> []"
  shows "\<exists>st. SendPacket ex_ctx ex_src_cap ''transfer'' ''channel-0'' ZeroHeight 100 bz (ex_loop ord) = Inr (1, st)"
proof -
  have "PortIdentifierValidator ''transfer'' = Inr ()" "ChannelIdentifierValidator ''channel-0'' = Inr ()"
    "ChannelIdentifierValidator ''channel-1'' = Inr ()" by code_simp+
  with assms have v: "Packet_ValidateBasic (NewPacket bz 1 ''transfer'' ''channel-0'' ''transfer'' ''channel-1'' ZeroHeight 100) = Inr ()"
    by (simp add: Packet_ValidateBasic_def)
  have "send_ready ex_ctx (NewPacket bz 1 ''transfer'' ''channel-0'' ''transfer'' ''channel-1'' ZeroHeight 100) (core (ex_loop ord))"
    using ex_loop_pkt [of ord] unfolding send_ready_def v NewPacket_sel by simp
  from loop_send_ok [OF ex_loop_client ex_loop_ends(1) ex_loop_auth(1) ex_loop_seq(1) this] show ?thesis .
qed

lemma ex_native: "\<not> HasPrefix ''uatom'' ''ibc/''" "SenderChainIsSource ''transfer'' ''channel-0'' ''uatom''"
  "Path (ParseDenomTrace ''uatom'') = []"
  by code_simp+

lemma ex_transfer_facts: "escrow_total ex_transfer ''uatom'' = 0" "led_bal (tr_bank ex_transfer) ex_alice ''uatom'' = 50"
proof -
  have "PortKey \<noteq> TotalEscrowForDenomKey ''uatom''" "str_bytes transfer_ParamsKey \<noteq> TotalEscrowForDenomKey ''uatom''" by code_simp+
  then show "escrow_total ex_transfer ''uatom'' = 0"
    by (simp add: escrow_total_def ex_transfer_def transfer_SetParams_def SetPort_def tr_set_def)
  show "led_bal (tr_bank ex_transfer) ex_alice ''uatom'' = 50"
    by (simp add: ex_transfer_def transfer_SetParams_def SetPort_def tr_set_def)
qed

lemma ex_escrow:
  "\<exists>st. escrowToken ex_keeper ex_ctx ex_alice (GetEscrowAddress ''transfer'' ''channel-0'') ex_token ex_transfer = Inr st"
  using ex_transfer_facts
  by (simp add: escrowToken_def ex_keeper_def ex_sdk_def ex_bank_def led_move_def led_sub_def GetTotalEscrow_total
      SetTotalEscrowForDenom_def Let_def)

lemma ex_sendTransfer:
  "\<exists>w. sendTransfer ex_keeper ex_ctx ''transfer'' ''channel-0'' ex_token ex_alice ''bob'' ZeroHeight 100 [] ex_world = Inr (1, w)"
proof -
  obtain ch where ch: "GetChannel (core (ex_loop UNORDERED)) ''transfer'' ''channel-0'' = Some ch" using ex_loop_ends(1) by (rule loop_endE)
  obtain st where st: "escrowToken ex_keeper ex_ctx ex_alice (GetEscrowAddress ''transfer'' ''channel-0'') ex_token ex_transfer = Inr st"
    using ex_escrow by blast
  have "MarshalData (tk_sdk ex_keeper) d \<noteq> []" for d by (simp add: ex_keeper_def ex_sdk_def ex_MarshalData_def put_str_def)
  from ex_send_any [OF this] ch st ex_cap ex_native show ?thesis
    by (simp add: sendTransfer_def ex_world_def ex_loop_def full_denom_def take_tokens_def ex_src_cap_def)
qed

section \<open>Properties\<close>

text \<open>
  C5: tokens are conserved. A successful send takes exactly the sent amount of the sent denomination out
  of the tokens at large (supply less escrow) and from the sender; a successful receipt and a
  successful refund put exactly the amount of the packet back, to its receiver or its sender. No
  other denomination and, the escrow account apart, no other account changes.
\<close>

theorem transfer_conservation:
  assumes sdk: "sdk_laws (tk_sdk k)" and bank: "bank_laws (tk_bank k) bal supply maddr"
  shows "(sendTransfer k ctx p c token sender rcv th tt memo w = Inr (n, w1) \<and> 0 < Amount token \<and> ValidateDenom (tk_sdk k) (Denom token) \<longrightarrow>
      gained bal supply (GetEscrowAddress p c) sender (Denom token) (- Amount token) (app w) (app w1))
    \<and> (transfer_OnRecvPacket k ctx pkt data st = Inr st1 \<longrightarrow>
        (\<exists>amount r. NewIntFromString (tk_sdk k) (ftpd_Amount data) = Some amount \<and> AccAddressFromBech32 (tk_sdk k) (ftpd_Receiver data) = Some r
          \<and> gained bal supply (GetEscrowAddress (DestinationPort pkt) (DestinationChannel pkt)) r (credited_denom (tk_sdk k) pkt data) amount st st1))
    \<and> (refundPacketToken k ctx pkt data st = Inr st2 \<and> NewIntFromString (tk_sdk k) (ftpd_Amount data) = Some amount \<and> 0 < amount \<longrightarrow>
        (\<exists>x. AccAddressFromBech32 (tk_sdk k) (ftpd_Sender data) = Some x
          \<and> gained bal supply (GetEscrowAddress (SourcePort pkt) (SourceChannel pkt)) x
              (IBCDenom (tk_sdk k) (ParseDenomTrace (ftpd_Denom data))) amount st st2))"
proof (intro conjI impI)
  assume a: "sendTransfer k ctx p c token sender rcv th tt memo w = Inr (n, w1) \<and> 0 < Amount token \<and> ValidateDenom (tk_sdk k) (Denom token)"
  then obtain f where "take_tokens k ctx p c f sender token (app w) = Inr (app w1)"
    using sendTransfer_parts [of k ctx p c token sender rcv th tt memo w n w1] by blast
  with a show "gained bal supply (GetEscrowAddress p c) sender (Denom token) (- Amount token) (app w) (app w1)"
    by (intro take_tokens_gained [OF sdk bank]) auto
next
  assume "transfer_OnRecvPacket k ctx pkt data st = Inr st1"
  from recv_gained [OF sdk bank this] show "\<exists>amount r. NewIntFromString (tk_sdk k) (ftpd_Amount data) = Some amount
      \<and> AccAddressFromBech32 (tk_sdk k) (ftpd_Receiver data) = Some r
      \<and> gained bal supply (GetEscrowAddress (DestinationPort pkt) (DestinationChannel pkt)) r (credited_denom (tk_sdk k) pkt data) amount st st1"
    by blast
next
  assume "refundPacketToken k ctx pkt data st = Inr st2 \<and> NewIntFromString (tk_sdk k) (ftpd_Amount data) = Some amount \<and> 0 < amount"
  then show "\<exists>x. AccAddressFromBech32 (tk_sdk k) (ftpd_Sender data) = Some x
      \<and> gained bal supply (GetEscrowAddress (SourcePort pkt) (SourceChannel pkt)) x
          (IBCDenom (tk_sdk k) (ParseDenomTrace (ftpd_Denom data))) amount st st2"
    using refund_gained [OF sdk bank] by blast
qed

lemma transfer_conservation_witness:
  "\<exists>w. sendTransfer ex_keeper ex_ctx ''transfer'' ''channel-0'' ex_token ex_alice ''bob'' ZeroHeight 100 [] ex_world = Inr (1, w)
     \<and> gained ex_bal ex_supply (GetEscrowAddress ''transfer'' ''channel-0'') ex_alice ''uatom'' (- 20) (app ex_world) (app w)"
proof -
  obtain w where w: "sendTransfer ex_keeper ex_ctx ''transfer'' ''channel-0'' ex_token ex_alice ''bob'' ZeroHeight 100 [] ex_world = Inr (1, w)"
    using ex_sendTransfer by blast
  have "sdk_laws (tk_sdk ex_keeper)" "bank_laws (tk_bank ex_keeper) ex_bal ex_supply ex_maddr" "ValidateDenom (tk_sdk ex_keeper) ''uatom''"
    using ex_sdk_laws ex_bank_laws by (simp_all add: ex_keeper_def ex_sdk_def)
  then have "gained ex_bal ex_supply (GetEscrowAddress ''transfer'' ''channel-0'') ex_alice (Denom ex_token) (- Amount ex_token) (app ex_world) (app w)"
    using w by (intro transfer_conservation [THEN conjunct1, THEN mp]) simp_all
  with w show ?thesis by simp
qed

text \<open>
  C6: a refund undoes the send. When a transfer was sent, the committed packet is one for which the module's
  timeout callback, and its callback for an error acknowledgement, succeed right after the send and
  restore every balance, every supply and every escrow total. The sent token is one of the chain's
  own: a voucher with a recorded trace, or a native token that does not look like a trace.
\<close>

theorem refund_undoes_send:
  assumes sdk: "sdk_laws (tk_sdk k)" and bank: "bank_laws (tk_bank k) bal supply maddr" and prog: "bank_progress (tk_bank k) bal supply maddr free"
    and send: "sendTransfer k ctx p c token sender rcv th tt memo w = Inr (n, w1)"
    and tok: "0 < Amount token" "Amount token < 2 ^ 256" "ValidateDenom (tk_sdk k) (Denom token)" "own_denom (tk_sdk k) (app w) (Denom token)"
    and snd: "sender \<noteq> []" "length sender \<le> 255" "\<not> BlockedAddr (tk_bank k) sender" "free (GetEscrowAddress p c)"
    and sf: "slash_free p" "slash_free c"
  shows "\<exists>pkt. GetPacketCommitment (core (ibc_state w1)) p c n = CommitPacket pkt
    \<and> SourcePort pkt = p \<and> SourceChannel pkt = c \<and> Sequence pkt = n
    \<and> (\<exists>w2. im_OnTimeoutPacket k ctx' pkt w1 = Inr w2 \<and> restored bal supply (app w) (app w2))
    \<and> (\<exists>w2. im_OnAcknowledgementPacket k ctx' pkt (MarshalAck (tk_sdk k) (Acknowledgement_Error e)) w1 = Inr w2
         \<and> restored bal supply (app w) (app w2))"
proof -
  from sendTransfer_parts [OF send] obtain ch cap f where f: "full_denom k (app w) (Denom token) = Inr f"
    and take: "take_tokens k ctx p c f sender token (app w) = Inr (app w1)"
    and sp: "SendPacket ctx (Some cap) p c th tt (MarshalData (tk_sdk k) (NewFungibleTokenPacketData f
        (Int_String (tk_sdk k) (Amount token)) (AccAddress_String (tk_sdk k) sender) rcv memo)) (ibc_state w) = Inr (n, ibc_state w1)" by blast
  let ?data = "NewFungibleTokenPacketData f (Int_String (tk_sdk k) (Amount token)) (AccAddress_String (tk_sdk k) sender) rcv memo"
  from SendPacket_effect [OF sp] obtain ch' where st1: "ibc_state w1 = (ibc_state w)\<lparr>core := SetPacketCommitment p c n
      (CommitPacket (sent_packet ch' (MarshalData (tk_sdk k) ?data) n p c th tt)) (SetNextSequenceSend p c (n + 1) (core (ibc_state w)))\<rparr>" by blast
  let ?pkt = "sent_packet ch' (MarshalData (tk_sdk k) ?data) n p c th tt"
  have pkt: "SourcePort ?pkt = p" "SourceChannel ?pkt = c" "Sequence ?pkt = n" "Data ?pkt = MarshalData (tk_sdk k) ?data"
    by (simp_all add: sent_packet_def)
  have am: "NewIntFromString (tk_sdk k) (ftpd_Amount ?data) = Some (Amount token)"
    using sdk_lawsD(5) [OF sdk, of "Amount token"] tok(1,2) by (simp add: NewFungibleTokenPacketData_def)
  have se: "AccAddressFromBech32 (tk_sdk k) (ftpd_Sender ?data) = Some sender"
    using sdk_lawsD(6) [OF sdk snd(1,2)] by (simp add: NewFungibleTokenPacketData_def)
  have fd: "ftpd_Denom ?data = f" by (simp add: NewFungibleTokenPacketData_def)
  from refund_restores [OF sdk bank prog take tok(1,3) own_denom_full [OF sdk tok(4) f] am se snd(3,4) fd pkt(1,2)]
  obtain st2 where st2: "refundPacketToken k ctx' ?pkt ?data (app w1) = Inr st2" "restored bal supply (app w) st2" by blast
  have u: "UnmarshalData (tk_sdk k) (Data ?pkt) = Some ?data" using sdk_lawsD(8) [OF sdk] pkt(4) by simp
  have "im_OnTimeoutPacket k ctx' ?pkt w1 = Inr (w1\<lparr>app := st2\<rparr>)"
    by (simp add: im_OnTimeoutPacket_def u transfer_OnTimeoutPacket_def st2(1))
  moreover have "im_OnAcknowledgementPacket k ctx' ?pkt (MarshalAck (tk_sdk k) (Acknowledgement_Error e)) w1 = Inr (w1\<lparr>app := st2\<rparr>)"
    using sdk_lawsD(9) [OF sdk, of "Acknowledgement_Error e"]
    by (simp add: im_OnAcknowledgementPacket_def u transfer_OnAcknowledgementPacket_def st2(1))
  moreover have "GetPacketCommitment (core (ibc_state w1)) p c n = CommitPacket ?pkt" using sf by (simp add: st1 view_rules)
  ultimately show ?thesis using pkt st2(2) by (intro exI [of _ ?pkt]) simp
qed

lemma refund_undoes_send_witness:
  "\<exists>w1 w2 pkt. sendTransfer ex_keeper ex_ctx ''transfer'' ''channel-0'' ex_token ex_alice ''bob'' ZeroHeight 100 [] ex_world = Inr (1, w1)
     \<and> im_OnTimeoutPacket ex_keeper ex_ctx pkt w1 = Inr w2 \<and> restored ex_bal ex_supply (app ex_world) (app w2)"
proof -
  obtain w1 where w1: "sendTransfer ex_keeper ex_ctx ''transfer'' ''channel-0'' ex_token ex_alice ''bob'' ZeroHeight 100 [] ex_world = Inr (1, w1)"
    using ex_sendTransfer by blast
  have k: "sdk_laws (tk_sdk ex_keeper)" "bank_laws (tk_bank ex_keeper) ex_bal ex_supply ex_maddr"
    "bank_progress (tk_bank ex_keeper) ex_bal ex_supply ex_maddr (\<lambda>a. True)"
    using ex_sdk_laws ex_bank_laws ex_bank_progress by (simp_all add: ex_keeper_def)
  have own: "own_denom (tk_sdk ex_keeper) (app ex_world) (Denom ex_token)" using ex_native by (simp add: own_denom_def)
  have "ValidateDenom (tk_sdk ex_keeper) (Denom ex_token)" "\<not> BlockedAddr (tk_bank ex_keeper) ex_alice"
    by (simp_all add: ex_keeper_def ex_sdk_def ex_bank_def)
  from refund_undoes_send [OF k w1 _ _ this(1) own _ _ this(2), where ctx' = ex_ctx and e = "[]"]
  obtain pkt w2 where "im_OnTimeoutPacket ex_keeper ex_ctx pkt w1 = Inr w2" "restored ex_bal ex_supply (app ex_world) (app w2)" by auto
  with w1 show ?thesis by blast
qed

end
