(* ===== verification/Msg_Life.thy ===== *)
theory Msg_Life
  imports Transfer_Props
begin

text \<open>
  The guarantees of the message server (\<open>modules/core/keeper/msg_server.go\<close>) towards the applications, over
  whole sequences of messages: the application is handed a packet at most once, and its outcome (an
  acknowledgement or a timeout) at most once; what it does on a packet it refuses is undone; the
  parameters of the core change only by a message of the authority.
\<close>

section \<open>Settling messages\<close>

text \<open>The three messages that settle a packet, with the packet they carry.\<close>

datatype settle_msg =
    SettleAck MsgAcknowledgement
  | SettleTimeout MsgTimeout
  | SettleTimeoutOnClose MsgTimeoutOnClose

fun settle_packet :: "settle_msg \<Rightarrow> Packet" where
  "settle_packet (SettleAck m) = ma_Packet m"
| "settle_packet (SettleTimeout m) = to_Packet m"
| "settle_packet (SettleTimeoutOnClose m) = toc_Packet m"

fun msg_settle :: "'a server \<Rightarrow> sdk_context \<Rightarrow> settle_msg \<Rightarrow> 'a world \<Rightarrow> (ResponseResultType \<times> 'a world) result" where
  "msg_settle sv ctx (SettleAck m) w = msg_Acknowledgement sv ctx m w"
| "msg_settle sv ctx (SettleTimeout m) w = msg_Timeout sv ctx m w"
| "msg_settle sv ctx (SettleTimeoutOnClose m) w = msg_TimeoutOnClose sv ctx m w"

fun settle_valid :: "bech32 \<Rightarrow> settle_msg \<Rightarrow> bool" where
  "settle_valid bech (SettleAck m) = is_ok (MsgAcknowledgement_ValidateBasic bech m)"
| "settle_valid bech (SettleTimeout m) = is_ok (MsgTimeout_ValidateBasic bech m)"
| "settle_valid bech (SettleTimeoutOnClose m) = is_ok (MsgTimeoutOnClose_ValidateBasic bech m)"

lemma settle_valid_ids:
  assumes "settle_valid bech m"
  shows "slash_free (SourcePort (settle_packet m))" and "slash_free (SourceChannel (settle_packet m))"
proof -
  from assms have "Packet_ValidateBasic (settle_packet m) = Inr ()"
    by (cases m) (auto simp: is_ok_iff MsgAcknowledgement_ValidateBasic_def MsgTimeout_ValidateBasic_def
        MsgTimeoutOnClose_ValidateBasic_def split: if_splits)
  from Packet_ValidateBasic_ids [OF this] show "slash_free (SourcePort (settle_packet m))" "slash_free (SourceChannel (settle_packet m))"
    by simp_all
qed

text \<open>
  What a settling message that is not a no-op did: the packet was committed, and between whatever the
  callback did its commitment was cleared.
\<close>

definition committed :: "Packet \<Rightarrow> ibc \<Rightarrow> bool" where
  "committed pkt st =
     (GetPacketCommitment (core st) (SourcePort pkt) (SourceChannel pkt) (Sequence pkt) \<noteq> []
      \<and> GetChannel (core st) (SourcePort pkt) (SourceChannel pkt) \<noteq> None)"

definition settles :: "lib \<Rightarrow> sdk_context \<Rightarrow> Packet \<Rightarrow> ibc \<Rightarrow> ibc \<Rightarrow> bool" where
  "settles lib ctx pkt st st2 =
     (committed pkt st \<and> (\<exists>k a pf h s s'. chan_run lib st s
        \<and> (AcknowledgePacket lib ctx k pkt a pf h s = Inr s' \<and> no_wrap s \<or> TimeoutExecuted k pkt s = Inr s') \<and> chan_run lib s' st2))"

lemma committed_ack: "AcknowledgePacket lib ctx k pkt a pf h st = Inr st' \<Longrightarrow> committed pkt st"
  using AcknowledgePacket_effect [of lib ctx k pkt a pf h st st'] CommitPacket_nonempty [of pkt, symmetric] by (auto simp: committed_def)

lemma committed_timeout: "TimeoutPacket lib ctx pkt pf h n st = Inr st' \<Longrightarrow> committed pkt st"
  using TimeoutPacket_effect [of lib ctx pkt pf h n st st'] CommitPacket_nonempty [of pkt, symmetric] by (auto simp: committed_def)

lemma committed_close: "TimeoutOnClose lib ctx k pkt pf pf' h n st = Inr st' \<Longrightarrow> committed pkt st"
  using TimeoutOnClose_effect [of lib ctx k pkt pf pf' h n st st'] CommitPacket_nonempty [of pkt, symmetric] by (auto simp: committed_def)

lemma settles_ack:
  assumes "AcknowledgePacket lib ctx k pkt a pf h st = Inr s'" and "no_wrap st" and "chan_run lib s' st2"
  shows "settles lib ctx pkt st st2"
  unfolding settles_def using committed_ack [OF assms(1)] assms run_refl [of lib st] by blast

lemma settles_timeout:
  assumes "committed pkt st" and "chan_run lib st s" and "TimeoutExecuted k pkt s = Inr s'"
  shows "settles lib ctx pkt st s'"
  unfolding settles_def using assms run_refl [of lib s'] by blast

lemma msg_settle_success:
  assumes ok: "routes_ok sv" and nw: "no_wrap (ibc_state w)" and m: "msg_settle sv ctx m w = Inr (SUCCESS, w')"
  shows "settles (srv_lib sv) ctx (settle_packet m) (ibc_state w) (ibc_state w')"
proof (cases m)
  case (SettleAck ma)
  let ?pkt = "ma_Packet ma"
  from m SettleAck obtain r k cbs st where c: "channel_module sv (SourcePort ?pkt) (SourceChannel ?pkt) w = Inr (k, cbs)"
    and a: "AcknowledgePacket (srv_lib sv) ctx (Some k) ?pkt (ma_Acknowledgement ma) (ma_ProofAcked ma) (ma_ProofHeight ma) (ibc_state w) = Inr st"
    and cb: "OnAcknowledgementPacket cbs ctx ?pkt (ma_Acknowledgement ma) r (w\<lparr>ibc_state := st\<rparr>) = Inr w'"
    by (auto simp: msg_Acknowledgement_def Let_def tao_Inr)
  have "chan_run (srv_lib sv) st (ibc_state w')" using ibc_application.acknowledge [OF channel_module_app [OF ok c] cb] by simp
  from settles_ack [OF a nw this] SettleAck show ?thesis by simp
next
  case (SettleTimeout mt)
  let ?pkt = "to_Packet mt"
  from m SettleTimeout obtain r k cbs st w2 st' where c: "channel_module sv (SourcePort ?pkt) (SourceChannel ?pkt) w = Inr (k, cbs)"
    and a: "TimeoutPacket (srv_lib sv) ctx ?pkt (to_ProofUnreceived mt) (to_ProofHeight mt) (to_NextSequenceRecv mt) (ibc_state w) = Inr st"
    and cb: "OnTimeoutPacket cbs ctx ?pkt r (w\<lparr>ibc_state := st\<rparr>) = Inr w2"
    and e: "TimeoutExecuted (Some k) ?pkt (ibc_state w2) = Inr st'" "ibc_state w' = st'"
    by (auto simp: msg_Timeout_def Let_def tao_Inr)
  have "chan_run (srv_lib sv) (ibc_state w) (ibc_state w2)"
    using step_then_run [OF step_timeout [OF a]] ibc_application.timeout [OF channel_module_app [OF ok c] cb] by simp
  from settles_timeout [OF committed_timeout [OF a] this e(1)] e(2) SettleTimeout show ?thesis by simp
next
  case (SettleTimeoutOnClose mc)
  let ?pkt = "toc_Packet mc"
  from m SettleTimeoutOnClose obtain r k cbs st w2 st' where c: "channel_module sv (SourcePort ?pkt) (SourceChannel ?pkt) w = Inr (k, cbs)"
    and a: "TimeoutOnClose (srv_lib sv) ctx (Some k) ?pkt (toc_ProofUnreceived mc) (toc_ProofClose mc) (toc_ProofHeight mc)
      (toc_NextSequenceRecv mc) (ibc_state w) = Inr st"
    and cb: "OnTimeoutPacket cbs ctx ?pkt r (w\<lparr>ibc_state := st\<rparr>) = Inr w2"
    and e: "TimeoutExecuted (Some k) ?pkt (ibc_state w2) = Inr st'" "ibc_state w' = st'"
    by (auto simp: msg_TimeoutOnClose_def Let_def tao_Inr)
  have "chan_run (srv_lib sv) (ibc_state w) (ibc_state w2)"
    using step_then_run [OF step_timeout_close [OF a]] ibc_application.timeout [OF channel_module_app [OF ok c] cb] by simp
  from settles_timeout [OF committed_close [OF a] this e(1)] e(2) SettleTimeoutOnClose show ?thesis by simp
qed

lemma msg_settle_ok:
  assumes "msg_settle sv ctx m w = Inr (x, w')"
  shows "x = NOOP \<and> w' = w
    \<or> (\<exists>k a pf h. is_ok (AcknowledgePacket (srv_lib sv) ctx k (settle_packet m) a pf h (ibc_state w)))
    \<or> (\<exists>pf h n. is_ok (TimeoutPacket (srv_lib sv) ctx (settle_packet m) pf h n (ibc_state w)))
    \<or> (\<exists>k pf pf' h n. is_ok (TimeoutOnClose (srv_lib sv) ctx k (settle_packet m) pf pf' h n (ibc_state w)))"
proof (cases m)
  case (SettleAck ma)
  with assms show ?thesis unfolding is_ok_iff by (auto simp: msg_Acknowledgement_def Let_def tao_Inr)
next
  case (SettleTimeout mt)
  with assms show ?thesis unfolding is_ok_iff by (auto simp: msg_Timeout_def Let_def tao_Inr)
next
  case (SettleTimeoutOnClose mc)
  with assms show ?thesis unfolding is_ok_iff by (auto simp: msg_TimeoutOnClose_def Let_def tao_Inr)
qed

lemma settles_final:
  assumes sf: "slash_free (SourcePort pkt)" "slash_free (SourceChannel pkt)"
    and inv: "chan_inv (SourcePort pkt) (SourceChannel pkt) (core st)" and s: "settles lib ctx pkt st st1" and run: "chan_run lib st1 st2"
    and same: "SourcePort pkt' = SourcePort pkt" "SourceChannel pkt' = SourceChannel pkt" "Sequence pkt' = Sequence pkt"
  shows "\<not> is_ok (AcknowledgePacket lib ctx' k' pkt' a' pf' h' st2)" "\<not> is_ok (TimeoutPacket lib ctx' pkt' pf' h' m st2)"
    "\<not> is_ok (TimeoutOnClose lib ctx' k' pkt' pf' pf'' h' m st2)"
proof -
  let ?p = "SourcePort pkt" and ?c = "SourceChannel pkt"
  from s obtain k a pf h u u' where com: "committed pkt st" and r: "chan_run lib st u"
    and op: "AcknowledgePacket lib ctx k pkt a pf h u = Inr u' \<and> no_wrap u \<or> TimeoutExecuted k pkt u = Inr u'" and r': "chan_run lib u' st1"
    unfolding settles_def by blast
  from com have c: "GetPacketCommitment (core st) ?p ?c (Sequence pkt) \<noteq> []" "GetChannel (core st) ?p ?c \<noteq> None" by (simp_all add: committed_def)
  from c(2) obtain ch where ch: "GetChannel (core st) ?p ?c = Some ch" by blast
  have invu: "chan_inv ?p ?c (core u)" by (rule run_channel(1) [OF sf r inv ch])
  have sent: "\<exists>b. GetNextSequenceSend (core u) ?p ?c = Some b \<and> Sequence pkt < b"
    by (rule run_sent [OF sf r inv c(2) committed_sent [OF inv c(2,1)]])
  have op': "AcknowledgePacket lib ctx k pkt a pf h u = Inr u' \<or> TimeoutExecuted k pkt u = Inr u'" using op by blast
  note gone = cleared [OF op' sent] and inv' = cleared_inv [OF sf invu op]
  note final = settled_later [OF sf inv' gone run_append [OF r' run] same]
  show "\<not> is_ok (AcknowledgePacket lib ctx' k' pkt' a' pf' h' st2)" "\<not> is_ok (TimeoutPacket lib ctx' pkt' pf' h' m st2)"
    "\<not> is_ok (TimeoutOnClose lib ctx' k' pkt' pf' pf'' h' m st2)" by (rule final)+
qed

section \<open>A concrete server\<close>

text \<open>The loopback chain with the transfer module behind its port.\<close>

definition ex_server :: "ledger transfer server" where
  "ex_server =
     \<lparr>srv_lib = ex_lib, srv_Router = \<lparr>routes = fmupd ''transfer'' (transfer_module ex_keeper) fmempty, router_sealed = True\<rparr>,
      srv_authority = ''gov'', srv_bech32 = AccAddressFromBech32 ex_sdk\<rparr>"

lemma ex_routes_ok: "routes_ok ex_server"
  using transfer_app.ibc_application_axioms [of ex_lib ex_keeper]
  by (auto simp: routes_ok_def ex_server_def GetRoute_def HasRoute_def split: if_splits)

lemma ex_lookup:
  "LookupModuleByChannel ex_loop_caps ''transfer'' ''channel-0'' = Inr (''transfer'', the ex_src_cap)"
  "LookupModuleByChannel ex_loop_caps ''transfer'' ''channel-1'' = Inr (''transfer'', the ex_dst_cap)"
  by code_simp+

lemma ex_channel_module:
  "caps (ibc_state w) = ex_loop_caps \<Longrightarrow> channel_module ex_server ''transfer'' ''channel-0'' w = Inr (the ex_src_cap, transfer_module ex_keeper)"
  "caps (ibc_state w) = ex_loop_caps \<Longrightarrow> channel_module ex_server ''transfer'' ''channel-1'' w = Inr (the ex_dst_cap, transfer_module ex_keeper)"
  by (simp_all add: channel_module_def ex_lookup route_def ex_server_def GetRoute_def HasRoute_def)

lemma ex_relayer: "relayer_of ex_server ''relayer'' = Inr (str_bytes ''relayer'')"
  by (simp add: relayer_of_def ex_server_def ex_sdk_def)

definition ex_recv_msg :: MsgRecvPacket where
  "ex_recv_msg = NewMsgRecvPacket ex_pkt SentinelProof ZeroHeight ''relayer''"

definition ex_sent_world :: "ledger transfer world" where
  "ex_sent_world = \<lparr>ibc_state = ex_sent UNORDERED, app = ex_transfer\<rparr>"

text \<open>The module refuses the packet, whose data does not decode.\<close>

lemma ex_msg_recv: "\<exists>w. msg_RecvPacket ex_server ex_ctx ex_recv_msg ex_sent_world = Inr (SUCCESS, w)"
proof -
  let ?e = "ack_of ex_sdk (NewErrorAcknowledgement (ABCICode ex_sdk) ibcerrors_ErrInvalidType)"
  obtain st where st: "RecvPacket ex_lib ex_ctx ex_dst_cap ex_pkt SentinelProof ZeroHeight (ex_sent UNORDERED) = Inr st"
    using ex_recv [of UNORDERED] by blast
  have rr: "recv_ready UNORDERED ex_pkt (core (ex_sent UNORDERED))" using ex_loop_new(2) [of UNORDERED]
    by (simp add: ex_sent_def ex_loop_def recv_ready_def loop_simps split: Order.splits)
  have st': "st = (ex_sent UNORDERED)\<lparr>core := SetPacketReceipt ''transfer'' ''channel-1'' 1 (core (ex_sent UNORDERED))\<rparr>"
    using loop_recv [OF ex_sent_ready(1,3,7) ex_loop_time] ex_sent_ready(4) st rr by (simp add: recv_update_ready)
  have cb: "im_OnRecvPacket ex_keeper ex_ctx ex_pkt w = Inr (Some ?e, w)" for w
    by (simp add: im_OnRecvPacket_def ex_keeper_def ex_sdk_def ex_UnmarshalData_def)
  have "loop_end UNORDERED ''transfer'' ''channel-1'' ''transfer'' ''channel-0'' (core st)" "ibc_auth st ex_dst_cap ''transfer'' ''channel-1''"
    "\<not> HasPacketAcknowledgement (core st) ''transfer'' ''channel-1'' (Sequence ex_pkt)"
    using ex_sent_ready(3,5,7) [of UNORDERED] by (simp_all add: st' HasPacketAcknowledgement_def loop_simps)
  from loop_write_ack [OF this(1,2) _ _ _ this(3), of "ack_Acknowledgement ?e"]
  have wr: "is_ok (WriteAcknowledgement ex_dst_cap ex_pkt (Some (ack_Acknowledgement ?e)) st)"
    by (simp add: ack_of_def NewErrorAcknowledgement_def ex_sdk_def)
  have d: "discard w w = w" for w :: "'a world" by (simp add: discard_def)
  have "\<not> ack_Success ?e" by (simp add: ack_of_def NewErrorAcknowledgement_def)
  moreover have "caps (ibc_state ex_sent_world) = ex_loop_caps" "Some (the ex_dst_cap) = ex_dst_cap"
    by (simp_all add: ex_sent_world_def ex_sent_def ex_dst_cap_def)
  ultimately show ?thesis
    using st wr cb ex_relayer ex_channel_module(2) [of ex_sent_world]
    by (auto simp: msg_RecvPacket_def ex_recv_msg_def NewMsgRecvPacket_def tao_def ex_sent_world_def ex_server_def
        transfer_module_def after_callback_def d is_ok_iff)
qed

text \<open>The chain after a transfer was sent, received and acknowledged.\<close>

definition ex_data :: bytes where
  "ex_data = ex_MarshalData (NewFungibleTokenPacketData ''uatom'' ''20'' ''A'' ''bob'' [])"

abbreviation ex_tpkt :: Packet where
  "ex_tpkt \<equiv> NewPacket ex_data 1 ''transfer'' ''channel-0'' ''transfer'' ''channel-1'' ZeroHeight 100"

definition ex_acked :: ibc where
  "ex_acked = \<lparr>core = SetPacketAcknowledgement ''transfer'' ''channel-1'' 1 (CommitAcknowledgement [1, 1])
     (SetPacketCommitment ''transfer'' ''channel-0'' 1 (CommitPacket ex_tpkt)
       (SetNextSequenceSend ''transfer'' ''channel-0'' 2 (ex_loop_core UNORDERED))), caps = ex_loop_caps\<rparr>"

definition ex_acked_world :: "ledger transfer world" where
  "ex_acked_world = \<lparr>ibc_state = ex_acked, app = ex_transfer\<rparr>"

definition ex_ack_msg :: MsgAcknowledgement where
  "ex_ack_msg = NewMsgAcknowledgement ex_tpkt [1, 1] SentinelProof ZeroHeight ''relayer''"

lemma ex_acked_inv: "chan_inv ''transfer'' ''channel-0'' (core ex_acked)"
  using ex_ids_less unfolding chan_inv_def
  by (auto simp: ex_acked_def ex_loop_core_def ex_end_def view_rules ex_loop_base_reads)

lemma ex_acked_no_wrap: "no_wrap ex_acked"
proof -
  have "no_wrap (ex_loop UNORDERED)" by (rule ex_no_wrap)
  then show ?thesis
    unfolding no_wrap_def by (auto simp: ex_acked_def ex_loop_def GetNextSequenceSend_def GetNextSequenceRecv_def GetNextSequenceAck_def
        GetNextChannelSequence_def set_defs kv_typed_def kv.get_put split: if_splits)
qed

lemma ex_msg_ack: "\<exists>w. msg_Acknowledgement ex_server ex_ctx ex_ack_msg ex_acked_world = Inr (SUCCESS, w)"
proof -
  have l: "loop_ready ex_lib (core ex_acked)" "loop_end UNORDERED ''transfer'' ''channel-0'' ''transfer'' ''channel-1'' (core ex_acked)"
    "ibc_auth ex_acked ex_src_cap ''transfer'' ''channel-0''"
    "GetPacketCommitment (core ex_acked) ''transfer'' ''channel-0'' 1 = CommitPacket ex_tpkt"
    "GetPacketAcknowledgement (core ex_acked) ''transfer'' ''channel-1'' 1 = Some (CommitAcknowledgement [1, 1])"
    using ex_loop_client [of UNORDERED] ex_loop_ends(1) [of UNORDERED] ex_loop_auth(1) [of UNORDERED]
    by (simp_all add: ex_acked_def ex_loop_def loop_simps)
  from loop_acknowledge [OF l(1-3), of ex_tpkt "[1, 1]" ex_ctx ZeroHeight] l(4,5)
  have a: "is_ok (AcknowledgePacket ex_lib ex_ctx ex_src_cap ex_tpkt [1, 1] SentinelProof ZeroHeight ex_acked)"
    by (simp add: ack_update_def is_ok_iff)
  have "ex_UnmarshalData ex_data = Some (NewFungibleTokenPacketData ''uatom'' ''20'' ''A'' ''bob'' [])"
    by (simp add: ex_data_def ex_UnmarshalData_MarshalData)
  then have cb: "im_OnAcknowledgementPacket ex_keeper ex_ctx ex_tpkt [1, 1] w = Inr w" for w
    by (simp add: im_OnAcknowledgementPacket_def ex_keeper_def ex_sdk_def transfer_OnAcknowledgementPacket_def)
  have "caps (ibc_state ex_acked_world) = ex_loop_caps" "Some (the ex_src_cap) = ex_src_cap"
    by (simp_all add: ex_acked_world_def ex_acked_def ex_src_cap_def)
  then show ?thesis using a cb ex_relayer ex_channel_module(1) [of ex_acked_world]
    by (auto simp: msg_Acknowledgement_def ex_ack_msg_def NewMsgAcknowledgement_def tao_def ex_acked_world_def ex_server_def
        transfer_module_def is_ok_iff)
qed

lemma received_again:
  assumes ok: "routes_ok sv" and valid: "MsgRecvPacket_ValidateBasic (srv_bech32 sv) msg = Inr ()" and nw: "no_wrap (ibc_state w)"
    and inv: "chan_inv (DestinationPort (rp_Packet msg)) (DestinationChannel (rp_Packet msg)) (core (ibc_state w))"
    and ch: "GetChannel (core (ibc_state w)) (DestinationPort (rp_Packet msg)) (DestinationChannel (rp_Packet msg)) = Some ch"
      "ch_Ordering ch \<noteq> ORDER_NONE"
    and recv: "msg_RecvPacket sv ctx msg w = Inr (SUCCESS, w1)" and run: "msg_run sv w1 w2"
    and same: "DestinationPort (rp_Packet msg') = DestinationPort (rp_Packet msg)"
      "DestinationChannel (rp_Packet msg') = DestinationChannel (rp_Packet msg)" "Sequence (rp_Packet msg') = Sequence (rp_Packet msg)"
    and again: "msg_RecvPacket sv ctx' msg' w2 = Inr (x, w3)"
  shows "x = NOOP \<and> w3 = w2"
proof (cases x)
  case NOOP
  with again msg_RecvPacket_noop show ?thesis by fastforce
next
  case SUCCESS
  have "Packet_ValidateBasic (rp_Packet msg) = Inr ()" using valid by (auto simp: MsgRecvPacket_ValidateBasic_def)
  from Packet_ValidateBasic_ids [OF this] have sf: "slash_free (DestinationPort (rp_Packet msg))" "slash_free (DestinationChannel (rp_Packet msg))" by simp_all
  from msg_RecvPacket_verified [OF ok nw recv] obtain k st where
    v: "RecvPacket (srv_lib sv) ctx k (rp_Packet msg) (rp_ProofCommitment msg) (rp_ProofHeight msg) (ibc_state w) = Inr st"
    and r: "chan_run (srv_lib sv) st (ibc_state w1)" by blast
  have r2: "chan_run (srv_lib sv) st (ibc_state w2)" by (rule run_append [OF r msg_run_run [OF run ok]])
  from msg_RecvPacket_success [of sv ctx' msg' w2 w3] again SUCCESS obtain k' where
    "is_ok (RecvPacket (srv_lib sv) ctx' k' (rp_Packet msg') (rp_ProofCommitment msg') (rp_ProofHeight msg') (ibc_state w2))"
    by (auto simp: is_ok_iff)
  with received_once [OF sf inv nw ch v r2 same] show ?thesis by simp
qed

section \<open>Properties\<close>

text \<open>
  C3: an application is handed a packet at most once. After a \<open>MsgRecvPacket\<close> was answered with SUCCESS, every
  later \<open>MsgRecvPacket\<close> for the same destination and sequence fails or is answered with NOOP and leaves the
  state, the application's included, as it is, whatever messages and application transactions came
  in between.
\<close>

theorem message_received_once:
  assumes ok: "routes_ok sv" and valid: "MsgRecvPacket_ValidateBasic (srv_bech32 sv) msg = Inr ()" and nw: "no_wrap (ibc_state w)"
    and inv: "chan_inv (DestinationPort (rp_Packet msg)) (DestinationChannel (rp_Packet msg)) (core (ibc_state w))"
    and ch: "GetChannel (core (ibc_state w)) (DestinationPort (rp_Packet msg)) (DestinationChannel (rp_Packet msg)) = Some ch"
      "ch_Ordering ch \<noteq> ORDER_NONE"
    and recv: "msg_RecvPacket sv ctx msg w = Inr (SUCCESS, w1)" and run: "msg_run sv w1 w2"
    and same: "DestinationPort (rp_Packet msg') = DestinationPort (rp_Packet msg)"
      "DestinationChannel (rp_Packet msg') = DestinationChannel (rp_Packet msg)" "Sequence (rp_Packet msg') = Sequence (rp_Packet msg)"
    and again: "msg_RecvPacket sv ctx' msg' w2 = Inr (x, w3)"
  shows "x = NOOP \<and> w3 = w2"
  by (rule received_again [OF assms])

lemma message_received_once_witness:
  "\<exists>w1. msg_RecvPacket ex_server ex_ctx ex_recv_msg ex_sent_world = Inr (SUCCESS, w1)
     \<and> (\<nexists>w3. msg_RecvPacket ex_server ex_ctx ex_recv_msg w1 = Inr (SUCCESS, w3))"
proof -
  obtain w1 where w1: "msg_RecvPacket ex_server ex_ctx ex_recv_msg ex_sent_world = Inr (SUCCESS, w1)" using ex_msg_recv by blast
  obtain ch where ch: "GetChannel (core (ex_sent UNORDERED)) ''transfer'' ''channel-1'' = Some ch" "ch_Ordering ch = UNORDERED"
    using ex_channel(1) by blast
  have "MsgRecvPacket_ValidateBasic (srv_bech32 ex_server) ex_recv_msg = Inr ()" by code_simp
  then have "x = NOOP \<and> w3 = w1" if "msg_RecvPacket ex_server ex_ctx ex_recv_msg w1 = Inr (x, w3)" for x w3
    by (rule message_received_once [OF ex_routes_ok _ _ _ _ _ w1 rtranclp.rtrancl_refl _ _ _ that, of ch])
       (use ch ex_no_wrap(2) ex_chan_inv(4) in \<open>simp_all add: ex_sent_world_def ex_recv_msg_def NewMsgRecvPacket_def\<close>)
  with w1 show ?thesis by blast
qed

text \<open>
  C4: an application learns the outcome of a packet at most once. After an acknowledgement, a timeout or a
  timeout on close of a sent packet was answered with SUCCESS, every later message of any of the three
  kinds for that packet fails or is answered with NOOP and changes nothing.
\<close>

theorem message_settled_once:
  assumes ok: "routes_ok sv" and valid: "settle_valid (srv_bech32 sv) m" and nw: "no_wrap (ibc_state w)"
    and inv: "chan_inv (SourcePort (settle_packet m)) (SourceChannel (settle_packet m)) (core (ibc_state w))"
    and settled: "msg_settle sv ctx m w = Inr (SUCCESS, w1)" and run: "msg_run sv w1 w2"
    and same: "SourcePort (settle_packet m') = SourcePort (settle_packet m)" "SourceChannel (settle_packet m') = SourceChannel (settle_packet m)"
      "Sequence (settle_packet m') = Sequence (settle_packet m)"
    and again: "msg_settle sv ctx' m' w2 = Inr (x, w3)"
  shows "x = NOOP \<and> w3 = w2"
proof -
  note sf = settle_valid_ids [OF valid]
  note final = settles_final [OF sf inv msg_settle_success [OF ok nw settled] msg_run_run [OF run ok] same]
  from msg_settle_ok [OF again] final show ?thesis by blast
qed

lemma message_settled_once_witness:
  "\<exists>w1. msg_settle ex_server ex_ctx (SettleAck ex_ack_msg) ex_acked_world = Inr (SUCCESS, w1)
     \<and> (\<nexists>w3. msg_settle ex_server ex_ctx (SettleAck ex_ack_msg) w1 = Inr (SUCCESS, w3))"
proof -
  obtain w1 where w1: "msg_settle ex_server ex_ctx (SettleAck ex_ack_msg) ex_acked_world = Inr (SUCCESS, w1)" using ex_msg_ack by auto
  have v: "settle_valid (srv_bech32 ex_server) (SettleAck ex_ack_msg)" by code_simp
  have "x = NOOP \<and> w3 = w1" if "msg_settle ex_server ex_ctx (SettleAck ex_ack_msg) w1 = Inr (x, w3)" for x w3
    by (rule message_settled_once [OF ex_routes_ok v _ _ w1 rtranclp.rtrancl_refl _ _ _ that])
       (use ex_acked_no_wrap ex_acked_inv in \<open>simp_all add: ex_acked_world_def ex_ack_msg_def NewMsgAcknowledgement_def\<close>)
  with w1 show ?thesis by blast
qed

text \<open>
  C7: a refused packet leaves no trace in the application. When a received packet is answered with SUCCESS, the
  packet was verified and handed to the module that owns the channel. If the module acknowledged
  asynchronously, its writes are kept; if it acknowledged the packet, exactly that acknowledgement is
  stored, its state is kept for a successful acknowledgement and is the old one for an error
  acknowledgement, and then the core's store has changed by the receipt and the acknowledgement only.
\<close>

theorem refused_packet_undone:
  assumes "msg_RecvPacket sv ctx msg w = Inr (SUCCESS, w')"
  shows "\<exists>relayer k cbs st a w2.
    channel_module sv (DestinationPort (rp_Packet msg)) (DestinationChannel (rp_Packet msg)) w = Inr (k, cbs)
    \<and> RecvPacket (srv_lib sv) ctx (Some k) (rp_Packet msg) (rp_ProofCommitment msg) (rp_ProofHeight msg) (ibc_state w) = Inr st
    \<and> OnRecvPacket cbs ctx (rp_Packet msg) relayer (w\<lparr>ibc_state := st\<rparr>) = Inr (a, w2)
    \<and> (case a of
         None \<Rightarrow> w' = w2
       | Some ak \<Rightarrow>
           GetPacketAcknowledgement (core (ibc_state w')) (DestinationPort (rp_Packet msg)) (DestinationChannel (rp_Packet msg))
             (Sequence (rp_Packet msg)) = Some (CommitAcknowledgement (ack_Acknowledgement ak))
           \<and> app w' = (if ack_Success ak then app w2 else app w)
           \<and> (\<not> ack_Success ak \<longrightarrow> core (ibc_state w') = SetPacketAcknowledgement (DestinationPort (rp_Packet msg))
                (DestinationChannel (rp_Packet msg)) (Sequence (rp_Packet msg)) (CommitAcknowledgement (ack_Acknowledgement ak)) (core st)))"
proof -
  let ?pkt = "rp_Packet msg"
  from msg_RecvPacket_success [OF assms]
  obtain r k cbs st a w2 where 1: "channel_module sv (DestinationPort ?pkt) (DestinationChannel ?pkt) w = Inr (k, cbs)"
    "RecvPacket (srv_lib sv) ctx (Some k) ?pkt (rp_ProofCommitment msg) (rp_ProofHeight msg) (ibc_state w) = Inr st"
    "OnRecvPacket cbs ctx ?pkt r (w\<lparr>ibc_state := st\<rparr>) = Inr (a, w2)"
    and a: "a = None \<and> w' = w2 \<or> (\<exists>ak st'. a = Some ak
         \<and> WriteAcknowledgement (Some k) ?pkt (Some (ack_Acknowledgement ak)) (ibc_state (after_callback (w\<lparr>ibc_state := st\<rparr>) a w2)) = Inr st'
         \<and> w' = (after_callback (w\<lparr>ibc_state := st\<rparr>) a w2)\<lparr>ibc_state := st'\<rparr>)"
    by blast
  show ?thesis
  proof (cases a)
    case None
    with a 1 show ?thesis by (intro exI conjI) auto
  next
    case (Some ak)
    let ?w = "after_callback (w\<lparr>ibc_state := st\<rparr>) a w2"
    from a Some obtain st' where wr: "WriteAcknowledgement (Some k) ?pkt (Some (ack_Acknowledgement ak)) (ibc_state ?w) = Inr st'"
      and w': "w' = ?w\<lparr>ibc_state := st'\<rparr>" by auto
    from WriteAcknowledgement_effect [OF wr] have c: "core st' = SetPacketAcknowledgement (DestinationPort ?pkt) (DestinationChannel ?pkt)
      (Sequence ?pkt) (CommitAcknowledgement (ack_Acknowledgement ak)) (core (ibc_state ?w))" by auto
    have "app w' = (if ack_Success ak then app w2 else app w)" using Some by (simp add: w' after_callback_def discard_def)
    moreover have "\<not> ack_Success ak \<Longrightarrow> core (ibc_state ?w) = core st" using Some by (simp add: after_callback_def discard_def)
    moreover have "GetPacketAcknowledgement (core (ibc_state w')) (DestinationPort ?pkt) (DestinationChannel ?pkt) (Sequence ?pkt)
      = Some (CommitAcknowledgement (ack_Acknowledgement ak))" by (simp add: w' c set_defs store_simps)
    ultimately show ?thesis using 1 Some c w' by (intro exI conjI) auto
  qed
qed

lemma refused_packet_undone_witness:
  "\<exists>w. msg_RecvPacket ex_server ex_ctx ex_recv_msg ex_sent_world = Inr (SUCCESS, w) \<and> app w = app ex_sent_world"
proof -
  obtain w where w: "msg_RecvPacket ex_server ex_ctx ex_recv_msg ex_sent_world = Inr (SUCCESS, w)" using ex_msg_recv by blast
  have pkt: "rp_Packet ex_recv_msg = ex_pkt" by (simp add: ex_recv_msg_def NewMsgRecvPacket_def)
  have "caps (ibc_state ex_sent_world) = ex_loop_caps" by (simp add: ex_sent_world_def ex_sent_def)
  note cm = ex_channel_module(2) [OF this]
  have cb: "im_OnRecvPacket ex_keeper ex_ctx ex_pkt v = Inr (a, w2) \<Longrightarrow> \<exists>ak. a = Some ak \<and> \<not> ack_Success ak" for v a w2
    by (auto simp: im_OnRecvPacket_def ex_keeper_def ex_sdk_def ex_UnmarshalData_def ack_of_def NewErrorAcknowledgement_def)
  from refused_packet_undone [OF w] pkt cm cb have "app w = app ex_sent_world" by (fastforce simp: transfer_module_def)
  with w show ?thesis by blast
qed

end
