(* ===== verification/Fee_Props.thy ===== *)
theory Fee_Props
  imports Fee_Solvency Msg_Life
begin

text \<open>
  The properties of the fee middleware and a concrete chain on which they hold: the middleware over the
  transfer module, on the ledger of \<open>Transfer_Props\<close>.
\<close>

section \<open>The stack over the transfer module\<close>

interpretation fee_transfer_app: ibc_application lib "fee_module k (transfer_module tk)" for lib k tk
  by (rule ibc_application.fee_stack [OF transfer_app.ibc_application_axioms])

section \<open>A concrete bank of many coins\<close>

fun put_coin :: "Coin \<Rightarrow> Coin list \<Rightarrow> Coin list" where
  "put_coin c [] = [c]"
| "put_coin c (x # xs) = (if Denom x = Denom c then x\<lparr>Amount := Amount x + Amount c\<rparr> # xs else x # put_coin c xs)"

definition valid_coins :: "Coin list \<Rightarrow> bool" where
  "valid_coins cs = (distinct (map Denom cs) \<and> list_all (\<lambda>c. 0 < Amount c) cs)"

lemma put_coin_amount: "coins_amount (put_coin c cs) d = coins_amount cs d + (if Denom c = d then Amount c else 0)"
  by (induction cs) (auto simp: coins_amount_def)

lemma put_coin_denoms: "Denom ` set (put_coin c cs) = insert (Denom c) (Denom ` set cs)"
  by (induction cs) auto

lemma put_coin_valid: "valid_coins cs \<Longrightarrow> 0 < Amount c \<Longrightarrow> valid_coins (put_coin c cs)"
proof (induction cs)
  case (Cons x xs)
  then show ?case using put_coin_denoms [of c xs] by (auto simp: valid_coins_def)
qed (simp add: valid_coins_def)

lemma put_coins:
  "valid_coins cs \<Longrightarrow> list_all (\<lambda>c. 0 < Amount c) ds \<Longrightarrow>
     valid_coins (fold put_coin ds cs) \<and> coins_amount (fold put_coin ds cs) d = coins_amount cs d + coins_amount ds d"
proof (induction ds arbitrary: cs)
  case (Cons c ds)
  then have "valid_coins (fold put_coin ds (put_coin c cs)) \<and>
    coins_amount (fold put_coin ds (put_coin c cs)) d = coins_amount (put_coin c cs) d + coins_amount ds d"
    using put_coin_valid by simp
  then show ?case by (simp add: put_coin_amount) (simp add: coins_amount_def)
qed (simp add: coins_amount_def)

definition ex_fee_sdk :: tlib where
  "ex_fee_sdk = ex_sdk\<lparr>Coins_Validate := valid_coins, Coins_Add := \<lambda>cs ds. Inr (fold put_coin ds cs)\<rparr>"

text \<open>A payment of coins between two accounts of the ledger.\<close>

definition led_covers :: "bytes \<Rightarrow> Coin list \<Rightarrow> ledger \<Rightarrow> bool" where
  "led_covers a cs s = list_all (\<lambda>c. 0 \<le> Amount c \<and> coins_amount cs (Denom c) \<le> int (led_bal s a (Denom c))) cs"

definition led_pay :: "bytes \<Rightarrow> bytes \<Rightarrow> Coin list \<Rightarrow> ledger \<Rightarrow> ledger" where
  "led_pay a b cs s =
     s\<lparr>led_bal := \<lambda>x d. nat (int (led_bal s x d) - (if x = a then coins_amount cs d else 0) + (if x = b then coins_amount cs d else 0))\<rparr>"

lemma coins_amount_absent: "d \<notin> Denom ` set cs \<Longrightarrow> coins_amount cs d = 0"
  by (induction cs) (auto simp: coins_amount_def)

lemma led_covers_amount: "led_covers a cs s \<Longrightarrow> 0 \<le> coins_amount cs d \<and> coins_amount cs d \<le> int (led_bal s a d)"
proof (cases "d \<in> Denom ` set cs")
  case True
  assume c: "led_covers a cs s"
  have "0 \<le> coins_amount cs d" unfolding coins_amount_def using c by (intro sum_list_nonneg) (auto simp: led_covers_def list_all_iff)
  with True c show ?thesis by (auto simp: led_covers_def list_all_iff)
qed (simp add: coins_amount_absent)

lemma led_pay_paid: "led_covers a cs s \<Longrightarrow> paid a b cs (ex_bal s) (ex_bal (led_pay a b cs s))"
  using led_covers_amount [of a cs s] by (auto simp: paid_def led_pay_def)

lemma covered_led_covers:
  "valid_coins cs \<Longrightarrow> \<forall>d. coins_amount cs d \<le> int (led_bal s a d) \<Longrightarrow> led_covers a cs s"
  by (auto simp: led_covers_def valid_coins_def list_all_iff)

abbreviation ex_fee_account :: bytes where "ex_fee_account \<equiv> [70]"

definition ex_blocked :: "bytes \<Rightarrow> bool" where
  "ex_blocked a = (a = ex_maddr \<or> a = ex_fee_account)"

text \<open>The codec of the channel version and of the acknowledgement.\<close>

definition ex_MarshalIncentivizedAck :: "IncentivizedAcknowledgement \<Rightarrow> bytes" where
  "ex_MarshalIncentivizedAck a = put_str (ForwardRelayerAddress a) @ (if UnderlyingAppSuccess a then 1 else 0) # AppAcknowledgement a"

definition ex_UnmarshalIncentivizedAck :: "bytes \<Rightarrow> IncentivizedAcknowledgement result" where
  "ex_UnmarshalIncentivizedAck bz =
     (case get_str bz of
        Some (f, s # a) \<Rightarrow> Inr \<lparr>AppAcknowledgement = a, ForwardRelayerAddress = f, UnderlyingAppSuccess = s = 1\<rparr>
      | _ \<Rightarrow> Inl (ErrForeign ''json''))"

lemma ex_incentivized_roundtrip: "ex_UnmarshalIncentivizedAck (ex_MarshalIncentivizedAck a) = Inr a"
  by (simp add: ex_UnmarshalIncentivizedAck_def ex_MarshalIncentivizedAck_def get_put_str)

definition ex_MarshalMetadata :: "Metadata \<Rightarrow> string" where
  "ex_MarshalMetadata m = FeeVersion m @ ''|'' @ AppVersion m"

definition ex_UnmarshalMetadata :: "string \<Rightarrow> Metadata result" where
  "ex_UnmarshalMetadata s =
     (case Split s ''|'' of [f, v] \<Rightarrow> Inr \<lparr>FeeVersion = f, AppVersion = v\<rparr> | _ \<Rightarrow> Inl (ErrForeign ''json''))"

definition ex_flib :: flib where
  "ex_flib =
     \<lparr>fl_sdk = ex_fee_sdk, MarshalMetadata = \<lambda>m. Inr (ex_MarshalMetadata m), UnmarshalMetadata = ex_UnmarshalMetadata,
      MarshalIncentivizedAck = ex_MarshalIncentivizedAck, UnmarshalIncentivizedAck = ex_UnmarshalIncentivizedAck\<rparr>"

definition ex_fee_keeper :: "ledger transfer fee_keeper" where
  "ex_fee_keeper =
     \<lparr>fk_lib = ex_flib, GetModuleAddress = \<lambda>m. ex_fee_account, HasAccount = \<lambda>ctx a s. True,
      HasBalance = \<lambda>ctx a c s. Amount c \<le> int (led_bal (tr_bank s) a (Denom c)),
      EscrowCoins = \<lambda>ctx a m cs s. if led_covers a cs (tr_bank s) then Inr (s\<lparr>tr_bank := led_pay a ex_fee_account cs (tr_bank s)\<rparr>)
        else Inl (ErrForeign ''insufficient funds''),
      PayCoins = \<lambda>ctx m a cs s. if ex_blocked a then (Some ibcerrors_ErrUnauthorized, s)
        else if led_covers ex_fee_account cs (tr_bank s) then (None, s\<lparr>tr_bank := led_pay ex_fee_account a cs (tr_bank s)\<rparr>)
        else (Some (ErrForeign ''insufficient funds''), s),
      fee_BlockedAddr = ex_blocked, IsSendEnabledCoins = \<lambda>ctx cs s. Inr ()\<rparr>"

definition ex_fee_bal :: "ledger transfer \<Rightarrow> bytes \<Rightarrow> string \<Rightarrow> int" where
  "ex_fee_bal s a d = int (led_bal (tr_bank s) a d)"

lemma ex_fee_bal_ledger: "ex_fee_bal s = (\<lambda>a d. ex_bal (tr_bank s) a d)"
  by (simp add: ex_fee_bal_def fun_eq_iff)

lemma ex_fee_laws: "fee_laws ex_fee_keeper ex_fee_bal"
proof -
  have add: "valid_coins c \<and> (\<forall>d. coins_amount c d = coins_amount a d + coins_amount b d)"
    if "valid_coins a" "valid_coins b" "fold put_coin b a = c" for a b c
    using that put_coins [of a b] by (auto simp: valid_coins_def [of b])
  have pay: "case PayCoins ex_fee_keeper ctx fee_ModuleName x cs a of
        (None, a') \<Rightarrow> \<not> ex_blocked x \<and> paid ex_fee_account x cs (ex_fee_bal a) (ex_fee_bal a')
      | (Some e, a') \<Rightarrow> ex_blocked x \<and> ex_fee_bal a' = ex_fee_bal a"
    if "valid_coins cs" "\<forall>d. coins_amount cs d \<le> ex_fee_bal a ex_fee_account d" for ctx x cs a
  proof -
    have "led_covers ex_fee_account cs (tr_bank a)" using covered_led_covers that by (simp add: ex_fee_bal_def)
    then show ?thesis using led_pay_paid [of ex_fee_account cs "tr_bank a" x] by (simp add: ex_fee_keeper_def ex_fee_bal_ledger)
  qed
  have esc: "paid x ex_fee_account cs (ex_fee_bal a) (ex_fee_bal a')" if "EscrowCoins ex_fee_keeper ctx x fee_ModuleName cs a = Inr a'" for ctx x cs a a'
  proof -
    from that have "led_covers x cs (tr_bank a)" "a' = a\<lparr>tr_bank := led_pay x ex_fee_account cs (tr_bank a)\<rparr>"
      by (auto simp: ex_fee_keeper_def split: if_splits)
    then show ?thesis using led_pay_paid [of x cs "tr_bank a" ex_fee_account] by (simp add: ex_fee_bal_ledger)
  qed
  have k: "Coins_Validate (fk_sdk ex_fee_keeper) = valid_coins" "Coins_Add (fk_sdk ex_fee_keeper) = (\<lambda>cs ds. Inr (fold put_coin ds cs))"
    "fee_account ex_fee_keeper = ex_fee_account" "fee_BlockedAddr ex_fee_keeper = ex_blocked"
    by (simp_all add: ex_fee_keeper_def ex_flib_def ex_fee_sdk_def)
  have hb: "HasBalance ex_fee_keeper ctx x c a \<longleftrightarrow> Amount c \<le> ex_fee_bal a x (Denom c)" for ctx x c a
    by (simp add: ex_fee_keeper_def ex_fee_bal_def)
  have valid: "distinct (map Denom a)" "\<forall>c\<in>set a. 0 < Amount c" if "valid_coins a" for a
    using that by (simp_all add: valid_coins_def list_all_iff)
  show ?thesis unfolding fee_laws_def k
  proof (intro conjI allI impI)
    fix a b c d assume "valid_coins a \<and> valid_coins b \<and> Inr (fold put_coin b a) = Inr c"
    then have "fold put_coin b a = c" "valid_coins a" "valid_coins b" by simp_all
    then show "valid_coins c" "coins_amount c d = coins_amount a d + coins_amount b d" using add by blast+
  next
    fix ctx x cs a assume "valid_coins cs \<and> (\<forall>d. coins_amount cs d \<le> ex_fee_bal a ex_fee_account d)"
    then show "case PayCoins ex_fee_keeper ctx fee_ModuleName x cs a of
        (None, a') \<Rightarrow> \<not> ex_blocked x \<and> paid ex_fee_account x cs (ex_fee_bal a) (ex_fee_bal a')
      | (Some e, a') \<Rightarrow> ex_blocked x \<and> ex_fee_bal a' = ex_fee_bal a" by (intro pay) simp_all
  next
    show "0 \<le> ex_fee_bal a x d" for a x d by (simp add: ex_fee_bal_def)
  next
    show "ex_blocked ex_fee_account" by (simp add: ex_blocked_def)
  qed (rule hb | erule valid | erule esc)+
qed

section \<open>The transfer module spares the account\<close>

lemma gained_keeps:
  assumes "gained ex_bal ex_supply ea x denom amount st st'" and "0 \<le> amount" and "ea \<noteq> ex_fee_account"
  shows "keeps_account ex_fee_keeper ex_fee_bal st st'"
  using assms by (auto simp: gained_def keeps_account_def ex_fee_keeper_def ex_fee_bal_def)

lemma escrow_not_fee: "GetEscrowAddress p c \<noteq> ex_fee_account"
proof -
  have "length (GetEscrowAddress p c) = 20" by (simp add: GetEscrowAddress_def length_Sum256)
  then show ?thesis by auto
qed

lemma keeps_refl: "keeps_account k bal a a"
  by (simp add: keeps_account_def)

lemma ex_refund_keeps:
  assumes "refundPacketToken ex_keeper ctx pkt data st = Inr st'"
  shows "keeps_account ex_fee_keeper ex_fee_bal st st'"
proof -
  from assms obtain amount where am: "NewIntFromString ex_sdk (ftpd_Amount data) = Some amount" "0 \<le> amount"
    by (auto simp: refundPacketToken_def ex_keeper_def Let_def ex_sdk_def split: option.splits if_splits)
  show ?thesis
  proof (cases "amount = 0")
    case True
    with assms am have "tr_bank st' = tr_bank st"
      by (auto simp: refundPacketToken_def unescrowToken_def SetTotalEscrowForDenom_def GetTotalEscrow_total tr_set_def ex_keeper_def Let_def ex_sdk_def
          ex_bank_def led_move_def led_mint_def split: option.splits if_splits sum.splits)
    then show ?thesis by (simp add: keeps_account_def ex_fee_bal_def)
  next
    case False
    with am assms refund_gained [of ex_keeper ex_bal ex_supply ex_maddr data amount ctx pkt st st'] ex_sdk_laws ex_bank_laws gained_keeps escrow_not_fee
    show ?thesis by (fastforce simp: ex_keeper_def)
  qed
qed

lemma ex_recv_keeps:
  assumes "transfer_OnRecvPacket ex_keeper ctx pkt data st = Inr st'"
  shows "keeps_account ex_fee_keeper ex_fee_bal st st'"
  using recv_gained [of ex_keeper ex_bal ex_supply ex_maddr, OF _ _ assms] ex_sdk_laws ex_bank_laws gained_keeps escrow_not_fee
  by (fastforce simp: ex_keeper_def)

lemma claim_channel_app: "claim_channel p c cap w = Inr w' \<Longrightarrow> app w' = app w"
  by (auto simp: claim_channel_def)

lemma im_open_apps:
  "im_OnChanOpenInit ord p c cap v w = Inr (r, w') \<Longrightarrow> app w' = app w"
  "im_OnChanOpenTry ord p c cap v w = Inr (r, w') \<Longrightarrow> app w' = app w"
  by (auto simp: im_OnChanOpenInit_def im_OnChanOpenTry_def Let_def dest: claim_channel_app split: if_splits)

lemma ex_spares: "spares ex_fee_keeper ex_fee_bal (transfer_module ex_keeper)"
  unfolding spares_def
proof (intro allI impI)
  fix w w' :: "ledger transfer world"
  assume "app_step (transfer_module ex_keeper) w w'"
  then show "keeps_account ex_fee_keeper ex_fee_bal (app w) (app w')"
  proof cases
    case (app_recv ctx pkt rel a)
    then show ?thesis using ex_recv_keeps keeps_refl by (auto simp: transfer_module_def im_OnRecvPacket_cases)
  next
    case (app_acknowledge ctx pkt bz rel)
    then show ?thesis using ex_refund_keeps keeps_refl
      by (auto simp: transfer_module_def im_OnAcknowledgementPacket_def transfer_OnAcknowledgementPacket_def split: option.splits Acknowledgement.splits)
  next
    case (app_timeout ctx pkt rel)
    then show ?thesis using ex_refund_keeps by (auto simp: transfer_module_def im_OnTimeoutPacket_def transfer_OnTimeoutPacket_def split: option.splits)
  next
    case (app_open_init ctx ord hops p c cap cp v r)
    then show ?thesis using im_open_apps(1) [of ord p c cap v w r w'] keeps_refl by (simp add: transfer_module_def)
  next
    case (app_open_try ctx ord hops p c cap cp v r)
    then show ?thesis using im_open_apps(2) [of ord p c cap v w r w'] keeps_refl by (simp add: transfer_module_def)
  next
    case (app_open_ack ctx p c i v)
    then have "w' = w" by (simp add: transfer_module_def im_OnChanOpenAck_def split: if_splits)
    then show ?thesis by (simp add: keeps_refl)
  qed (simp_all add: transfer_module_def keeps_refl)
qed

section \<open>A concrete chain\<close>

text \<open>The channel end \<open>channel-0\<close> of the loopback chain is fee enabled; the account escrows a fee for its next packet.\<close>

definition ex_fee_world :: "ledger transfer fee_app world" where
  "ex_fee_world =
     \<lparr>ibc_state = ex_loop UNORDERED, app = SetFeeEnabled ''transfer'' ''channel-0'' \<lparr>fe_store = fmempty, fe_app = ex_transfer\<rparr>\<rparr>"

definition ex_fee :: Fee where
  "ex_fee = NewFee [\<lparr>Denom = ''uatom'', Amount = 5\<rparr>] [\<lparr>Denom = ''uatom'', Amount = 3\<rparr>] [\<lparr>Denom = ''uatom'', Amount = 2\<rparr>]"

definition ex_pay_msg :: MsgPayPacketFee where
  "ex_pay_msg =
     \<lparr>ppf_Fee = ex_fee, ppf_SourcePortId = ''transfer'', ppf_SourceChannelId = ''channel-0'', ppf_Signer = ''A'', ppf_Relayers = []\<rparr>"

abbreviation ex_packet_fee :: PacketFee where "ex_packet_fee \<equiv> NewPacketFee ex_fee ''A'' []"
abbreviation ex_pid :: "string \<Rightarrow> PacketId" where "ex_pid c \<equiv> \<lparr>pid_PortId = ''transfer'', pid_ChannelId = c, pid_Sequence = 1\<rparr>"

definition ex_escrowed :: "PacketId list \<Rightarrow> ledger transfer fee_app \<Rightarrow> ledger transfer fee_app" where
  "ex_escrowed is st = fold (\<lambda>i st. SetFeesInEscrow i [ex_packet_fee]
     (st\<lparr>fe_app := (fe_app st)\<lparr>tr_bank := led_pay ex_alice ex_fee_account [\<lparr>Denom = ''uatom'', Amount = 10\<rparr>] (tr_bank (fe_app st))\<rparr>\<rparr>)) is st"

lemma ex_fee_total: "Fee_Total (fk_sdk ex_fee_keeper) ex_fee = Inr [\<lparr>Denom = ''uatom'', Amount = 10\<rparr>]"
  by (simp add: Fee_Total_def ex_fee_keeper_def ex_flib_def ex_fee_sdk_def ex_fee_def NewFee_def)

lemma ex_payable: "payable ex_fee_keeper ex_packet_fee"
  using ex_fee_total
  by (simp add: payable_def NewPacketFee_def) (simp add: ex_fee_keeper_def ex_flib_def ex_fee_sdk_def ex_sdk_def valid_coins_def ex_fee_def NewFee_def
      ex_blocked_def str_bytes_def)

lemma ex_next_send: "GetNextSequenceSend (core (ex_loop UNORDERED)) ''transfer'' ''channel-0'' = Some 1"
  by code_simp

lemma ex_pay: "PayPacketFee ex_fee_keeper ex_ctx ex_pay_msg ex_fee_world = Inr (ex_fee_world\<lparr>app := ex_escrowed [ex_pid ''channel-0''] (app ex_fee_world)\<rparr>)"
proof -
  have acc: "AccAddressFromBech32 (fk_sdk ex_fee_keeper) ''A'' = Some ex_alice" "\<not> fee_BlockedAddr ex_fee_keeper ex_alice"
    by (simp_all add: ex_fee_keeper_def ex_flib_def ex_fee_sdk_def ex_sdk_def str_bytes_def ex_blocked_def)
  have st: "IsFeeEnabled (app ex_fee_world) ''transfer'' ''channel-0''" "\<not> IsLocked (app ex_fee_world)"
    "GetFeesInEscrow (app ex_fee_world) (ex_pid ''channel-0'') = None"
    by (simp_all add: ex_fee_world_def IsFeeEnabled_def IsLocked_def SetFeeEnabled_def GetFeesInEscrow_def fe_set_def fe_has_def
        KeyFeeEnabled_def KeyLocked_def KeyFeesInEscrow_def KeyFeesInEscrowChannelPrefix_def)
  have "led_covers ex_alice [\<lparr>Denom = ''uatom'', Amount = 10\<rparr>] (tr_bank ex_transfer)"
    by (simp add: led_covers_def coins_amount_def ex_transfer_def transfer_SetParams_def SetPort_def tr_set_def)
  then have "escrowPacketFee ex_fee_keeper ex_ctx (ex_pid ''channel-0'') ex_packet_fee (app ex_fee_world)
    = Inr (ex_escrowed [ex_pid ''channel-0''] (app ex_fee_world))"
    using acc(1) ex_fee_total st(3)
    by (simp add: escrowPacketFee_def NewPacketFee_def ex_escrowed_def)
       (simp add: ex_fee_keeper_def ex_fee_world_def SetFeeEnabled_def fe_set_def NewPacketFee_def)
  then show ?thesis
    using acc st ex_fee_total ex_next_send
    by (simp add: PayPacketFee_def ex_pay_msg_def) (simp add: ex_fee_keeper_def ex_fee_world_def)
qed

lemma ex_start_solvent: "solvent ex_fee_keeper ex_fee_bal (app ex_fee_world)"
  by (simp add: solvent_def fees_ok_def owed_def ex_fee_world_def SetFeeEnabled_def fe_set_def KeyFeeEnabled_def ex_fee_bal_def)

lemma ex_pay_valid: "MsgPayPacketFee_ValidateBasic (fk_sdk ex_fee_keeper) ex_pay_msg = Inr ()"
  by code_simp

section \<open>Properties\<close>

text \<open>
  C8: the escrow account of the fee module is solvent. Along every run of the messages and callbacks of the
  middleware over an application that leaves the account alone, the account holds at least the sum
  of all fees in the store, and therefore the module never locks itself.
\<close>

theorem fee_module_solvent:
  assumes laws: "fee_laws k bal" and sp: "spares k bal cbs" and sol: "solvent k bal (app w)" and run: "(fee_step k bal cbs)\<^sup>*\<^sup>* w w'"
  shows "solvent k bal (app w') \<and> (IsLocked (app w') \<longleftrightarrow> IsLocked (app w))"
  using run
proof (induction rule: rtranclp_induct)
  case base
  with sol show ?case by simp
next
  case (step w1 w2)
  then have "sound_step k bal (app w1) (app w2)" using fee_step_sound [OF _ laws sp] by blast
  with step show ?case by (simp add: sound_step_def IsLocked_def fe_has_def)
qed

lemma fee_module_solvent_witness:
  "solvent ex_fee_keeper ex_fee_bal (ex_escrowed [ex_pid ''channel-0''] (app ex_fee_world))
   \<and> \<not> IsLocked (ex_escrowed [ex_pid ''channel-0''] (app ex_fee_world))"
proof -
  have "fee_step ex_fee_keeper ex_fee_bal (transfer_module ex_keeper) ex_fee_world
    (ex_fee_world\<lparr>app := ex_escrowed [ex_pid ''channel-0''] (app ex_fee_world)\<rparr>)"
    by (rule step_pay [OF ex_pay_valid ex_pay])
  moreover have "\<not> IsLocked (app ex_fee_world)"
    by (simp add: ex_fee_world_def IsLocked_def SetFeeEnabled_def fe_set_def fe_has_def)
  ultimately show ?thesis
    using fee_module_solvent [OF ex_fee_laws ex_spares ex_start_solvent r_into_rtranclp] by fastforce
qed

text \<open>
  C9: fees are paid out exactly as promised. When a packet with escrowed fees is acknowledged or times out, the
  middleware of a solvent, unlocked module makes exactly these payments for every fee: on
  acknowledgement the receive fee to the forward relayer (or back, when its address is missing,
  malformed or blocked), the acknowledgement fee to the payee of the relayer (or back, when blocked)
  and the timeout fee back; on timeout the timeout fee to the payee and the others back. No other
  balance changes, the fees are forgotten, and the application runs its callback on the result.
\<close>

theorem packet_fees_distributed:
  assumes laws: "fee_laws k bal" and sol: "solvent k bal (app w)" and en: "IsFeeEnabled (app w) (SourcePort pkt) (SourceChannel pkt)"
    and nl: "\<not> IsLocked (app w)" and fs: "GetFeesInEscrow (app w) (source_id pkt) = Some fs"
    and payee: "payee_of k (app w) rel (SourceChannel pkt) = Inr payee"
    and ack: "UnmarshalIncentivizedAck (fk_lib k) bz = Inr ack"
    and fwd: "fwd = (case AccAddressFromBech32 (fk_sdk k) (ForwardRelayerAddress ack) of None \<Rightarrow> [] | Some f \<Rightarrow> f)"
  shows "(\<exists>st. distributed k bal (source_id pkt) (concat (map (ack_payouts k fwd payee) fs)) (app w) st \<and> \<not> IsLocked st
      \<and> fee_OnAcknowledgementPacket k cbs ctx pkt bz rel w =
          below (OnAcknowledgementPacket cbs ctx pkt (AppAcknowledgement ack) rel) (w\<lparr>app := st\<rparr>))
    \<and> (\<exists>st. distributed k bal (source_id pkt) (concat (map (timeout_payouts k payee) fs)) (app w) st \<and> \<not> IsLocked st
      \<and> fee_OnTimeoutPacket k cbs ctx pkt rel w = below (OnTimeoutPacket cbs ctx pkt rel) (w\<lparr>app := st\<rparr>))"
proof -
  have unlocked: "\<not> IsLocked st" if "distributed k bal i ps (app w) st" for i ps st
    using distributed_sound [OF that] nl by (simp add: sound_step_def IsLocked_def fe_has_def)
  obtain st where "DistributePacketFeesOnAcknowledgement k ctx (ForwardRelayerAddress ack) payee fs (source_id pkt) (app w) = Inr st"
    "distributed k bal (source_id pkt) (concat (map (ack_payouts k fwd payee) fs)) (app w) st"
    using ack_distributed [OF laws sol fs] unfolding fwd by blast
  moreover obtain st' where "DistributePacketFeesOnTimeout k ctx payee fs (source_id pkt) (app w) = Inr st'"
    "distributed k bal (source_id pkt) (concat (map (timeout_payouts k payee) fs)) (app w) st'"
    using timeout_distributed [OF laws sol fs] by blast
  ultimately show ?thesis using en nl fs payee ack unlocked
    by (auto simp: fee_OnAcknowledgementPacket_def fee_OnTimeoutPacket_def)
qed

definition ex_paid_world :: "ledger transfer fee_app world" where
  "ex_paid_world = ex_fee_world\<lparr>app := ex_escrowed [ex_pid ''channel-0''] (app ex_fee_world)\<rparr>"

lemma ex_paid_solvent: "solvent ex_fee_keeper ex_fee_bal (app ex_paid_world)"
  using PayPacketFee_solvent [OF ex_fee_laws ex_start_solvent ex_pay_valid ex_pay] by (simp add: ex_paid_world_def)

lemma ex_paid_facts:
  "IsFeeEnabled (app ex_paid_world) ''transfer'' ''channel-0''" "\<not> IsLocked (app ex_paid_world)"
  "GetFeesInEscrow (app ex_paid_world) (ex_pid ''channel-0'') = Some [ex_packet_fee]"
  "payee_of ex_fee_keeper (app ex_paid_world) [82] ''channel-0'' = Inr [82]"
  by (simp_all add: ex_paid_world_def ex_fee_world_def ex_escrowed_def IsFeeEnabled_def IsLocked_def SetFeeEnabled_def GetFeesInEscrow_def
      SetFeesInEscrow_def payee_of_def GetPayeeAddress_def fe_set_def fe_has_def KeyFeeEnabled_def KeyLocked_def KeyFeesInEscrow_def
      KeyFeesInEscrowChannelPrefix_def KeyPayee_def ex_fee_keeper_def ex_flib_def ex_fee_sdk_def ex_sdk_def)

lemma packet_fees_distributed_witness:
  "\<exists>st. distributed ex_fee_keeper ex_fee_bal (source_id ex_pkt)
      (ack_payouts ex_fee_keeper [70, 87] [82] ex_packet_fee) (app ex_paid_world) st
    \<and> fee_OnAcknowledgementPacket ex_fee_keeper (transfer_module ex_keeper) ex_ctx ex_pkt
        (ex_MarshalIncentivizedAck (NewIncentivizedAcknowledgement ''FW'' [1, 1] True)) [82] ex_paid_world
      = below (OnAcknowledgementPacket (transfer_module ex_keeper) ex_ctx ex_pkt [1, 1] [82]) (ex_paid_world\<lparr>app := st\<rparr>)"
proof -
  have ids: "SourcePort ex_pkt = ''transfer''" "SourceChannel ex_pkt = ''channel-0''" "source_id ex_pkt = ex_pid ''channel-0''"
    by (simp_all add: source_id_def NewPacket_def)
  have un: "UnmarshalIncentivizedAck (fk_lib ex_fee_keeper) (ex_MarshalIncentivizedAck (NewIncentivizedAcknowledgement ''FW'' [1, 1] True))
    = Inr (NewIncentivizedAcknowledgement ''FW'' [1, 1] True)"
    by (simp add: ex_fee_keeper_def ex_flib_def ex_incentivized_roundtrip)
  have fw: "[70, 87] = (case AccAddressFromBech32 (fk_sdk ex_fee_keeper)
      (ForwardRelayerAddress (NewIncentivizedAcknowledgement ''FW'' [1, 1] True)) of None \<Rightarrow> [] | Some f \<Rightarrow> f)"
    by (simp add: ex_fee_keeper_def ex_flib_def ex_fee_sdk_def ex_sdk_def NewIncentivizedAcknowledgement_def str_bytes_def)
  have facts: "IsFeeEnabled (app ex_paid_world) (SourcePort ex_pkt) (SourceChannel ex_pkt)" "\<not> IsLocked (app ex_paid_world)"
    "GetFeesInEscrow (app ex_paid_world) (source_id ex_pkt) = Some [ex_packet_fee]"
    "payee_of ex_fee_keeper (app ex_paid_world) [82] (SourceChannel ex_pkt) = Inr [82]"
    unfolding ids by (rule ex_paid_facts)+
  show ?thesis
    using packet_fees_distributed [OF ex_fee_laws ex_paid_solvent facts(1,2,3) facts(4) un fw,
        where cbs = "transfer_module ex_keeper" and ctx = ex_ctx]
    by (auto simp: NewIncentivizedAcknowledgement_def)
qed

text \<open>
  C32: what the closure of a channel refunds. The closing callbacks of a solvent module refund, to the accounts
  that paid them, exactly the fees of the packets whose port is that of the closed channel and whose
  channel identifier starts with that of the closed channel, and forget them: closing \<open>channel-1\<close> also
  refunds and forgets the fees of packets in flight on \<open>channel-10\<close>, whose relayers then go unpaid.
\<close>

theorem channel_closure_refunds:
  assumes laws: "fee_laws k bal" and sol: "solvent k bal st" and p: "slash_free p" and c: "slash_free c"
  shows "\<exists>is st'. RefundFeesOnChannelClosure k ctx p c st = Inr st' \<and> distinct is
    \<and> (\<forall>i. i \<in> set is \<longleftrightarrow> pid_slash_free (if_PacketId i) \<and> GetFeesInEscrow st (if_PacketId i) = Some (if_PacketFees i)
          \<and> pid_PortId (if_PacketId i) = p \<and> HasPrefix (pid_ChannelId (if_PacketId i)) c)
    \<and> paid_out (fee_account k) (refunds k is) (bal (fe_app st)) (bal (fe_app st'))
    \<and> (\<forall>i. pid_slash_free i \<longrightarrow>
          GetFeesInEscrow st' i = (if pid_PortId i = p \<and> HasPrefix (pid_ChannelId i) c then None else GetFeesInEscrow st i))"
proof -
  from closure_refunds [OF laws sol, of p c ctx] obtain "is" st' where
    ent: "map entry is = fe_values st (KeyFeesInEscrowChannelPrefix p c)" and sf: "list_all (\<lambda>i. pid_slash_free (if_PacketId i)) is"
    and r: "RefundFeesOnChannelClosure k ctx p c st = Inr st'" and store: "fe_store st' = drop_entries is (fe_store st)"
    and pay: "paid_out (fee_account k) (refunds k is) (bal (fe_app st)) (bal (fe_app st'))" by blast
  have ok: "fees_ok k (fe_store st)" using sol by (simp add: solvent_def)
  have look: "GetFeesInEscrow st i = Some fs \<longleftrightarrow> fmlookup (fe_store st) (KeyFeesInEscrow i) = Some (PacketFeesBz fs)" for i fs
    using fees_ok_lookup [OF ok, of i] by (auto simp: GetFeesInEscrow_def split: option.splits fee_value.splits)
  have mem: "i \<in> set is \<longleftrightarrow> pid_slash_free (if_PacketId i) \<and> GetFeesInEscrow st (if_PacketId i) = Some (if_PacketFees i)
      \<and> pid_PortId (if_PacketId i) = p \<and> HasPrefix (pid_ChannelId (if_PacketId i)) c" for i
  proof (cases "pid_slash_free (if_PacketId i)")
    case True
    have "i \<in> set is \<longleftrightarrow> entry i \<in> set (map entry is)"
    proof
      assume "entry i \<in> set (map entry is)"
      then obtain j where j: "j \<in> set is" "entry j = entry i" by auto
      then have "if_PacketId j = if_PacketId i" "if_PacketFees j = if_PacketFees i"
        using sf True fee_keys_inj by (auto simp: entry_def list_all_iff)
      then have "j = i" by (simp add: IdentifiedPacketFees.equality)
      with j show "i \<in> set is" by simp
    qed simp
    also have "\<dots> \<longleftrightarrow> GetFeesInEscrow st (if_PacketId i) = Some (if_PacketFees i) \<and> HasPrefix (KeyFeesInEscrow (if_PacketId i)) (KeyFeesInEscrowChannelPrefix p c)"
      unfolding ent entry_def fe_values_iff look ..
    finally show ?thesis using channel_prefix_keys [OF p c True] True by blast
  next
    case False
    with sf show ?thesis by (auto simp: list_all_iff)
  qed
  have "distinct (map entry is)" unfolding ent using fe_values_distinct [of st] by (simp add: distinct_map)
  then have dist: "distinct is" by (simp add: distinct_map)
  have "GetFeesInEscrow st' i = (if pid_PortId i = p \<and> HasPrefix (pid_ChannelId i) c then None else GetFeesInEscrow st i)"
    if i: "pid_slash_free i" for i
  proof -
    have "(\<exists>j\<in>set is. KeyFeesInEscrow i = KeyFeesInEscrow (if_PacketId j)) \<longleftrightarrow> (\<exists>j\<in>set is. if_PacketId j = i)"
      using sf fee_keys_inj [OF i] by (fastforce simp: list_all_iff)
    also have "\<dots> \<longleftrightarrow> GetFeesInEscrow st i \<noteq> None \<and> pid_PortId i = p \<and> HasPrefix (pid_ChannelId i) c"
    proof
      assume "GetFeesInEscrow st i \<noteq> None \<and> pid_PortId i = p \<and> HasPrefix (pid_ChannelId i) c"
      then obtain fs where "GetFeesInEscrow st i = Some fs" "pid_PortId i = p" "HasPrefix (pid_ChannelId i) c" by blast
      then have "\<lparr>if_PacketId = i, if_PacketFees = fs\<rparr> \<in> set is" using i mem by simp
      then show "\<exists>j\<in>set is. if_PacketId j = i" by force
    qed (use mem in auto)
    finally show ?thesis using store
      by (auto simp: GetFeesInEscrow_def drop_entries_lookup split: option.splits fee_value.splits if_splits)
  qed
  with r dist mem pay show ?thesis by blast
qed

lemma ex_two_solvent: "solvent ex_fee_keeper ex_fee_bal (ex_escrowed [ex_pid ''channel-1'', ex_pid ''channel-10''] (app ex_fee_world))"
proof -
  let ?s = "fe_store (ex_escrowed [ex_pid ''channel-1'', ex_pid ''channel-10''] (app ex_fee_world))"
  have s: "?s = fmupd (KeyFeesInEscrow (ex_pid ''channel-10'')) (PacketFeesBz [ex_packet_fee])
    (fmupd (KeyFeesInEscrow (ex_pid ''channel-1'')) (PacketFeesBz [ex_packet_fee]) (fe_store (app ex_fee_world)))"
    by (simp add: ex_escrowed_def SetFeesInEscrow_def fe_set_def)
  have sf: "pid_slash_free (ex_pid ''channel-1'')" "pid_slash_free (ex_pid ''channel-10'')" by (simp_all add: pid_slash_free_def)
  have ne: "KeyFeesInEscrow (ex_pid ''channel-10'') \<noteq> KeyFeesInEscrow (ex_pid ''channel-1'')" using fee_keys_inj [OF sf] by auto
  have ok: "fees_ok ex_fee_keeper (fe_store (app ex_fee_world))" using ex_start_solvent by (simp add: solvent_def)
  have "fees_ok ex_fee_keeper ?s" unfolding s using ok ex_payable sf by (auto simp: fees_ok_def fee_entry_def split: if_splits)
  moreover have "owed (fe_store (app ex_fee_world)) d = 0" for d
    by (simp add: owed_def ex_fee_world_def SetFeeEnabled_def fe_set_def)
  moreover have "fmlookup (fe_store (app ex_fee_world)) (KeyFeesInEscrow i) = None" for i
    by (simp add: ex_fee_world_def SetFeeEnabled_def fe_set_def KeyFeeEnabled_def KeyFeesInEscrow_def KeyFeesInEscrowChannelPrefix_def)
  ultimately show ?thesis using ne
    by (simp add: solvent_def s owed_upd)
       (simp add: ex_fee_bal_def ex_escrowed_def SetFeesInEscrow_def fe_set_def led_pay_def fee_amount_def coins_amount_def NewPacketFee_def
          ex_fee_def NewFee_def ex_fee_keeper_def ex_fee_world_def SetFeeEnabled_def ex_transfer_def transfer_SetParams_def SetPort_def tr_set_def)
qed

lemma channel_closure_refunds_witness:
  "\<exists>st'. RefundFeesOnChannelClosure ex_fee_keeper ex_ctx ''transfer'' ''channel-1''
      (ex_escrowed [ex_pid ''channel-1'', ex_pid ''channel-10''] (app ex_fee_world)) = Inr st'
    \<and> GetFeesInEscrow (ex_escrowed [ex_pid ''channel-1'', ex_pid ''channel-10''] (app ex_fee_world)) (ex_pid ''channel-10'') = Some [ex_packet_fee]
    \<and> GetFeesInEscrow st' (ex_pid ''channel-10'') = None"
proof -
  have sf: "slash_free ''transfer''" "slash_free ''channel-1''" "pid_slash_free (ex_pid ''channel-10'')" by (simp_all add: pid_slash_free_def)
  have "GetFeesInEscrow (ex_escrowed [ex_pid ''channel-1'', ex_pid ''channel-10''] (app ex_fee_world)) (ex_pid ''channel-10'') = Some [ex_packet_fee]"
    by (simp add: GetFeesInEscrow_def ex_escrowed_def SetFeesInEscrow_def fe_set_def)
  moreover have "HasPrefix ''channel-10'' ''channel-1''" by simp
  ultimately show ?thesis using channel_closure_refunds [OF ex_fee_laws ex_two_solvent sf(1,2), of ex_ctx] sf(3) by fastforce
qed

text \<open>
  C29: the middleware is transparent to the application. On a channel that is not fee enabled every packet
  callback is that of the application. On a fee enabled channel the receiving application produces
  its acknowledgement as always, the success flag the core acts on is the application's, and when the
  incentivized acknowledgement arrives at the sending chain, the application there is handed exactly
  the acknowledgement the receiving application produced.
\<close>

theorem fee_middleware_transparent:
  assumes codec: "\<And>a. UnmarshalIncentivizedAck (fk_lib k') (MarshalIncentivizedAck (fk_lib k) a) = Inr a"
    and en: "IsFeeEnabled (app w) (DestinationPort pkt) (DestinationChannel pkt)" "IsFeeEnabled (app w') (SourcePort pkt') (SourceChannel pkt')"
    and recv: "fee_OnRecvPacket k cbs ctx pkt rel w = Inr (Some b, w1)"
    and ack: "fee_OnAcknowledgementPacket k' cbs' ctx' pkt' (ack_Acknowledgement b) rel' w' = Inr w2"
  shows "(\<exists>a x st y. OnRecvPacket cbs ctx pkt rel (lower w) = Inr (Some a, x) \<and> w1 = raise w x \<and> ack_Success b = ack_Success a
      \<and> OnAcknowledgementPacket cbs' ctx' pkt' (ack_Acknowledgement a) rel' (lower (w'\<lparr>app := st\<rparr>)) = Inr y \<and> w2 = raise (w'\<lparr>app := st\<rparr>) y)
    \<and> (\<forall>v. \<not> IsFeeEnabled (app v) (DestinationPort pkt) (DestinationChannel pkt) \<longrightarrow>
         fee_OnRecvPacket k cbs ctx pkt rel v = below2 (OnRecvPacket cbs ctx pkt rel) v)
    \<and> (\<forall>v bz. \<not> IsFeeEnabled (app v) (SourcePort pkt) (SourceChannel pkt) \<longrightarrow>
         fee_OnAcknowledgementPacket k cbs ctx pkt bz rel v = below (OnAcknowledgementPacket cbs ctx pkt bz rel) v
         \<and> fee_OnTimeoutPacket k cbs ctx pkt rel v = below (OnTimeoutPacket cbs ctx pkt rel) v)"
proof -
  from recv en(1) obtain a x f where a: "OnRecvPacket cbs ctx pkt rel (lower w) = Inr (Some a, x)" "w1 = raise w x"
    and b: "b = incentivized (fk_lib k) f a"
    by (auto simp: fee_OnRecvPacket_def below2_Inr split: option.splits)
  let ?i = "NewIncentivizedAcknowledgement (case f of None \<Rightarrow> [] | Some r \<Rightarrow> r) (ack_Acknowledgement a) (ack_Success a)"
  have b': "ack_Success b = ack_Success a" "ack_Acknowledgement b = MarshalIncentivizedAck (fk_lib k) ?i"
    unfolding b by (simp_all add: incentivized_def Let_def IncentivizedAcknowledgement_Success_def IncentivizedAcknowledgement_Acknowledgement_def
        NewIncentivizedAcknowledgement_def)
  have "UnmarshalIncentivizedAck (fk_lib k') (ack_Acknowledgement b) = Inr ?i" unfolding b'(2) by (rule codec)
  from fee_OnAcknowledgementPacket_enabled [OF en(2) this ack] obtain st y where
    "OnAcknowledgementPacket cbs' ctx' pkt' (ack_Acknowledgement a) rel' (lower (w'\<lparr>app := st\<rparr>)) = Inr y" "w2 = raise (w'\<lparr>app := st\<rparr>) y"
    by (auto simp: NewIncentivizedAcknowledgement_def)
  with a b'(1) show ?thesis by (auto simp: fee_OnRecvPacket_def fee_OnAcknowledgementPacket_def fee_OnTimeoutPacket_def)
qed

text \<open>
  Both ends of the loopback channel are fee enabled and a transfer is in escrow: the receiving module
  refuses a packet that does not decode, and the error makes the sending module refund the transfer.
\<close>

definition ex_both_world :: "ledger transfer \<Rightarrow> ledger transfer fee_app world" where
  "ex_both_world a =
     \<lparr>ibc_state = ex_loop UNORDERED,
      app = SetFeeEnabled ''transfer'' ''channel-1'' (SetFeeEnabled ''transfer'' ''channel-0'' \<lparr>fe_store = fmempty, fe_app = a\<rparr>)\<rparr>"

lemma ex_refund_ok:
  "\<exists>st st'. refundPacketToken ex_keeper ex_ctx ex_tpkt (NewFungibleTokenPacketData ''uatom'' ''20'' ''A'' ''bob'' []) st = Inr st'"
proof -
  let ?ea = "GetEscrowAddress ''transfer'' ''channel-0''"
  have k: "sdk_laws (tk_sdk ex_keeper)" "bank_laws (tk_bank ex_keeper) ex_bal ex_supply ex_maddr"
    "bank_progress (tk_bank ex_keeper) ex_bal ex_supply ex_maddr (\<lambda>a. True)"
    using ex_sdk_laws ex_bank_laws ex_bank_progress by (simp_all add: ex_keeper_def)
  obtain st where st: "escrowToken ex_keeper ex_ctx ex_alice ?ea ex_token ex_transfer = Inr st" using ex_escrow by blast
  have "length ?ea = 20" by (simp add: GetEscrowAddress_def)
  then have ne: "?ea \<noteq> ex_alice" by auto
  have pos: "0 < Amount ex_token" by simp
  note e = escrowToken_effect [OF k(1,2) pos st]
  have v: "ValidateDenom (tk_sdk ex_keeper) (Denom ex_token)" by (simp add: ex_keeper_def ex_sdk_def)
  have "Amount ex_token \<le> ex_bal (tr_bank st) ?ea (Denom ex_token)" using e(1) ne by (simp add: moved_def)
  moreover have "Amount ex_token \<le> escrow_total st (Denom ex_token)" using e(3) [of "''uatom''"] ex_transfer_facts(1) by simp
  ultimately obtain st' where "unescrowToken ex_keeper ex_ctx ?ea ex_alice ex_token st = Inr st'"
    using unescrowToken_ok [OF k(1,3) pos TrueI v, of st ?ea ex_ctx ex_alice] by blast
  moreover have "IBCDenom ex_sdk (ParseDenomTrace ''uatom'') = ''uatom''" by code_simp
  moreover have "NewIntFromString ex_sdk ''20'' = Some 20" by code_simp
  ultimately have "refundPacketToken ex_keeper ex_ctx ex_tpkt (NewFungibleTokenPacketData ''uatom'' ''20'' ''A'' ''bob'' []) st = Inr st'"
    using ex_native(2) by (simp add: refundPacketToken_def NewFungibleTokenPacketData_def ex_keeper_def NewPacket_def)
      (simp add: ex_sdk_def str_bytes_def)
  then show ?thesis by blast
qed

lemma fee_middleware_transparent_witness:
  "\<exists>s b w1 w2. fee_OnRecvPacket ex_fee_keeper (transfer_module ex_keeper) ex_ctx ex_pkt [82] (ex_both_world s) = Inr (Some b, w1)
    \<and> fee_OnAcknowledgementPacket ex_fee_keeper (transfer_module ex_keeper) ex_ctx ex_tpkt (ack_Acknowledgement b) [82] (ex_both_world s) = Inr w2
    \<and> (\<exists>a x. OnRecvPacket (transfer_module ex_keeper) ex_ctx ex_pkt [82] (lower (ex_both_world s)) = Inr (Some a, x) \<and> ack_Success b = ack_Success a)"
proof -
  let ?k = ex_fee_keeper and ?m = "transfer_module ex_keeper" and ?e = "NewErrorAcknowledgement (ABCICode ex_sdk) ibcerrors_ErrInvalidType"
  obtain s s' where s: "refundPacketToken ex_keeper ex_ctx ex_tpkt (NewFungibleTokenPacketData ''uatom'' ''20'' ''A'' ''bob'' []) s = Inr s'"
    using ex_refund_ok by blast
  let ?w = "ex_both_world s"
  have en: "IsFeeEnabled (app ?w) (DestinationPort ex_pkt) (DestinationChannel ex_pkt)"
    "IsFeeEnabled (app ?w) (SourcePort ex_tpkt) (SourceChannel ex_tpkt)"
    by (simp_all add: ex_both_world_def IsFeeEnabled_def SetFeeEnabled_def fe_set_def fe_has_def NewPacket_def KeyFeeEnabled_def)
  have none: "GetFeesInEscrow (app ?w) i = None" "GetCounterpartyPayeeAddress (app ?w) r c = None" for i r c
    by (simp_all add: GetFeesInEscrow_def GetCounterpartyPayeeAddress_def ex_both_world_def SetFeeEnabled_def fe_set_def KeyFeeEnabled_def
        KeyFeesInEscrow_def KeyFeesInEscrowChannelPrefix_def KeyCounterpartyPayee_def)
  have codec: "UnmarshalIncentivizedAck (fk_lib ?k) (MarshalIncentivizedAck (fk_lib ?k) a) = Inr a" for a
    by (simp add: ex_fee_keeper_def ex_flib_def ex_incentivized_roundtrip)
  have cb: "OnRecvPacket ?m ex_ctx ex_pkt [82] v = Inr (Some (ack_of ex_sdk ?e), v)" for v
    by (simp add: transfer_module_def im_OnRecvPacket_def ex_keeper_def ex_sdk_def ex_UnmarshalData_def)
  have r: "fee_OnRecvPacket ?k ?m ex_ctx ex_pkt [82] ?w = Inr (Some (incentivized (fk_lib ?k) None (ack_of ex_sdk ?e)), raise ?w (lower ?w))"
    using en(1) by (simp add: fee_OnRecvPacket_def below2_def cb) (simp add: GetCounterpartyPayeeAddress_def ex_both_world_def SetFeeEnabled_def
        fe_set_def KeyFeeEnabled_def KeyCounterpartyPayee_def raise_def)
  have "UnmarshalData ex_sdk (Data ex_tpkt) = Some (NewFungibleTokenPacketData ''uatom'' ''20'' ''A'' ''bob'' [])"
    by (simp add: ex_data_def NewPacket_def ex_sdk_def ex_UnmarshalData_MarshalData)
  then have "\<exists>x. OnAcknowledgementPacket ?m ex_ctx ex_tpkt (ex_MarshalAck ?e) [82] (lower ?w) = Inr x"
    using s by (simp add: transfer_module_def im_OnAcknowledgementPacket_def ex_keeper_def transfer_OnAcknowledgementPacket_def NewErrorAcknowledgement_def)
      (simp add: ex_sdk_def transfer_OnAcknowledgementPacket_def ex_both_world_def lower_def SetFeeEnabled_def fe_set_def)
  then obtain w2 where a: "fee_OnAcknowledgementPacket ?k ?m ex_ctx ex_tpkt (ack_Acknowledgement (incentivized (fk_lib ?k) None (ack_of ex_sdk ?e))) [82] ?w = Inr w2"
    using en(2) codec none(1)
    by (auto simp: fee_OnAcknowledgementPacket_def incentivized_def Let_def IncentivizedAcknowledgement_Acknowledgement_def
        NewIncentivizedAcknowledgement_def ack_of_def ex_sdk_def below_def)
  show ?thesis using fee_middleware_transparent [OF codec en r a] r a by blast
qed

end
