(* ===== verification/Fee_Genesis.thy ===== *)
theory Fee_Genesis
  imports Fee_Props
begin

text \<open>
  The genesis state of the fee middleware: exporting it and importing the export into an empty store gives
  back the store, entry by entry, except for the lock, which the genesis state does not carry.
\<close>

section \<open>Well-formed stores\<close>

text \<open>Every entry belongs to one of the families and holds a value of its kind.\<close>

definition fee_store_wf :: "(string, fee_value) fmap \<Rightarrow> bool" where
  "fee_store_wf s =
     (\<forall>key v. fmlookup s key = Some v \<longrightarrow>
        key = KeyLocked
        \<or> (\<exists>p c. slash_free p \<and> slash_free c \<and> key = KeyFeeEnabled p c \<and> v = FlagBz)
        \<or> (\<exists>r c a. slash_free r \<and> slash_free c \<and> key = KeyPayee r c \<and> v = AddressBz a)
        \<or> (\<exists>r c a. slash_free r \<and> slash_free c \<and> key = KeyCounterpartyPayee r c \<and> v = AddressBz a)
        \<or> (\<exists>i a. pid_slash_free i \<and> key = KeyRelayerAddressForAsyncAck i \<and> v = AddressBz a)
        \<or> (\<exists>i fs. pid_slash_free i \<and> key = KeyFeesInEscrow i \<and> v = PacketFeesBz fs))"

lemma fee_prefix_cases [simp]:
  "HasPrefix (KeyFeeEnabled p c) FeeEnabledKeyPrefix" "\<not> HasPrefix (KeyFeeEnabled p c) PayeeKeyPrefix"
  "\<not> HasPrefix (KeyFeeEnabled p c) CounterpartyPayeeKeyPrefix" "\<not> HasPrefix (KeyFeeEnabled p c) ForwardRelayerPrefix"
  "\<not> HasPrefix (KeyFeeEnabled p c) FeesInEscrowPrefix"
  "HasPrefix (KeyPayee r c) PayeeKeyPrefix" "\<not> HasPrefix (KeyPayee r c) FeeEnabledKeyPrefix"
  "\<not> HasPrefix (KeyPayee r c) CounterpartyPayeeKeyPrefix" "\<not> HasPrefix (KeyPayee r c) ForwardRelayerPrefix"
  "\<not> HasPrefix (KeyPayee r c) FeesInEscrowPrefix"
  "HasPrefix (KeyCounterpartyPayee r c) CounterpartyPayeeKeyPrefix" "\<not> HasPrefix (KeyCounterpartyPayee r c) FeeEnabledKeyPrefix"
  "\<not> HasPrefix (KeyCounterpartyPayee r c) PayeeKeyPrefix" "\<not> HasPrefix (KeyCounterpartyPayee r c) ForwardRelayerPrefix"
  "\<not> HasPrefix (KeyCounterpartyPayee r c) FeesInEscrowPrefix"
  "HasPrefix (KeyRelayerAddressForAsyncAck i) ForwardRelayerPrefix" "\<not> HasPrefix (KeyRelayerAddressForAsyncAck i) FeeEnabledKeyPrefix"
  "\<not> HasPrefix (KeyRelayerAddressForAsyncAck i) PayeeKeyPrefix" "\<not> HasPrefix (KeyRelayerAddressForAsyncAck i) CounterpartyPayeeKeyPrefix"
  "\<not> HasPrefix (KeyRelayerAddressForAsyncAck i) FeesInEscrowPrefix"
  "HasPrefix (KeyFeesInEscrow i) FeesInEscrowPrefix" "\<not> HasPrefix (KeyFeesInEscrow i) FeeEnabledKeyPrefix"
  "\<not> HasPrefix (KeyFeesInEscrow i) PayeeKeyPrefix" "\<not> HasPrefix (KeyFeesInEscrow i) CounterpartyPayeeKeyPrefix"
  "\<not> HasPrefix (KeyFeesInEscrow i) ForwardRelayerPrefix"
  "\<not> HasPrefix KeyLocked FeeEnabledKeyPrefix" "\<not> HasPrefix KeyLocked PayeeKeyPrefix" "\<not> HasPrefix KeyLocked CounterpartyPayeeKeyPrefix"
  "\<not> HasPrefix KeyLocked ForwardRelayerPrefix" "\<not> HasPrefix KeyLocked FeesInEscrowPrefix"
  by (simp_all add: KeyFeeEnabled_def KeyPayee_def KeyCounterpartyPayee_def KeyRelayerAddressForAsyncAck_def KeyFeesInEscrow_def
      KeyFeesInEscrowChannelPrefix_def KeyLocked_def)

section \<open>Export\<close>

definition enabled_entry :: "FeeEnabledChannel \<Rightarrow> string \<times> fee_value" where
  "enabled_entry c = (KeyFeeEnabled (fec_PortId c) (fec_ChannelId c), FlagBz)"

definition payee_entry :: "RegisteredPayee \<Rightarrow> string \<times> fee_value" where
  "payee_entry r = (KeyPayee (rp_Relayer r) (rp_ChannelId r), AddressBz (rp_Payee r))"

definition counterparty_entry :: "RegisteredCounterpartyPayee \<Rightarrow> string \<times> fee_value" where
  "counterparty_entry r = (KeyCounterpartyPayee (rc_Relayer r) (rc_ChannelId r), AddressBz (rc_CounterpartyPayee r))"

definition forward_entry :: "ForwardRelayerAddr \<Rightarrow> string \<times> fee_value" where
  "forward_entry r = (KeyRelayerAddressForAsyncAck (fr_PacketId r), AddressBz (fr_Address r))"

lemma wf_family:
  assumes "fee_store_wf (fe_store st)"
  shows "(key, v) \<in> set (fe_values st FeeEnabledKeyPrefix) \<Longrightarrow> \<exists>p c. slash_free p \<and> slash_free c \<and> key = KeyFeeEnabled p c \<and> v = FlagBz"
    and "(key, v) \<in> set (fe_values st PayeeKeyPrefix) \<Longrightarrow> \<exists>r c a. slash_free r \<and> slash_free c \<and> key = KeyPayee r c \<and> v = AddressBz a"
    and "(key, v) \<in> set (fe_values st CounterpartyPayeeKeyPrefix) \<Longrightarrow>
      \<exists>r c a. slash_free r \<and> slash_free c \<and> key = KeyCounterpartyPayee r c \<and> v = AddressBz a"
    and "(key, v) \<in> set (fe_values st ForwardRelayerPrefix) \<Longrightarrow>
      \<exists>i a. pid_slash_free i \<and> key = KeyRelayerAddressForAsyncAck i \<and> v = AddressBz a"
    and "(key, v) \<in> set (fe_values st FeesInEscrowPrefix) \<Longrightarrow> \<exists>i fs. pid_slash_free i \<and> key = KeyFeesInEscrow i \<and> v = PacketFeesBz fs"
proof -
  have w: "fmlookup (fe_store st) key = Some v \<Longrightarrow> key = KeyLocked
        \<or> (\<exists>p c. slash_free p \<and> slash_free c \<and> key = KeyFeeEnabled p c \<and> v = FlagBz)
        \<or> (\<exists>r c a. slash_free r \<and> slash_free c \<and> key = KeyPayee r c \<and> v = AddressBz a)
        \<or> (\<exists>r c a. slash_free r \<and> slash_free c \<and> key = KeyCounterpartyPayee r c \<and> v = AddressBz a)
        \<or> (\<exists>i a. pid_slash_free i \<and> key = KeyRelayerAddressForAsyncAck i \<and> v = AddressBz a)
        \<or> (\<exists>i fs. pid_slash_free i \<and> key = KeyFeesInEscrow i \<and> v = PacketFeesBz fs)"
    using assms unfolding fee_store_wf_def by blast
  show "\<exists>p c. slash_free p \<and> slash_free c \<and> key = KeyFeeEnabled p c \<and> v = FlagBz" if "(key, v) \<in> set (fe_values st FeeEnabledKeyPrefix)"
    using that w by (fastforce simp only: fe_values_iff fee_prefix_cases)
  show "\<exists>r c a. slash_free r \<and> slash_free c \<and> key = KeyPayee r c \<and> v = AddressBz a" if "(key, v) \<in> set (fe_values st PayeeKeyPrefix)"
    using that w by (fastforce simp only: fe_values_iff fee_prefix_cases)
  show "\<exists>r c a. slash_free r \<and> slash_free c \<and> key = KeyCounterpartyPayee r c \<and> v = AddressBz a" if "(key, v) \<in> set (fe_values st CounterpartyPayeeKeyPrefix)"
    using that w by (fastforce simp only: fe_values_iff fee_prefix_cases)
  show "\<exists>i a. pid_slash_free i \<and> key = KeyRelayerAddressForAsyncAck i \<and> v = AddressBz a" if "(key, v) \<in> set (fe_values st ForwardRelayerPrefix)"
    using that w by (fastforce simp only: fe_values_iff fee_prefix_cases)
  show "\<exists>i fs. pid_slash_free i \<and> key = KeyFeesInEscrow i \<and> v = PacketFeesBz fs" if "(key, v) \<in> set (fe_values st FeesInEscrowPrefix)"
    using that w by (fastforce simp only: fe_values_iff fee_prefix_cases)
qed

lemma export_lists:
  assumes wf: "fee_store_wf (fe_store st)"
  shows "\<exists>xs. GetAllFeeEnabledChannels st = Inr xs \<and> map enabled_entry xs = fe_values st FeeEnabledKeyPrefix"
    and "\<exists>xs. GetAllPayees st = Inr xs \<and> map payee_entry xs = fe_values st PayeeKeyPrefix"
    and "\<exists>xs. GetAllCounterpartyPayees st = Inr xs \<and> map counterparty_entry xs = fe_values st CounterpartyPayeeKeyPrefix"
    and "\<exists>xs. GetAllForwardRelayerAddresses st = Inr xs \<and> map forward_entry xs = fe_values st ForwardRelayerPrefix"
    and "\<exists>xs. GetAllIdentifiedPacketFees st = Inr xs \<and> map entry xs = fe_values st FeesInEscrowPrefix"
proof -
  show "\<exists>xs. GetAllFeeEnabledChannels st = Inr xs \<and> map enabled_entry xs = fe_values st FeeEnabledKeyPrefix"
    unfolding GetAllFeeEnabledChannels_def
  proof (rule collect_map)
    fix key v assume "(key, v) \<in> set (fe_values st FeeEnabledKeyPrefix)"
    then obtain p c where "slash_free p" "slash_free c" "key = KeyFeeEnabled p c" "v = FlagBz" using wf_family(1) [OF wf] by blast
    then show "\<exists>x. (case (key, v) of (key, v) \<Rightarrow> case ParseKeyFeeEnabled key of Inl e \<Rightarrow> Inl (Panic ''key'')
         | Inr (portID, channelID) \<Rightarrow> Inr \<lparr>fec_PortId = portID, fec_ChannelId = channelID\<rparr>) = Inr x \<and> enabled_entry x = (key, v)"
      by (intro exI [of _ "\<lparr>fec_PortId = p, fec_ChannelId = c\<rparr>"]) (simp add: fee_keys_parse enabled_entry_def)
  qed
  show "\<exists>xs. GetAllPayees st = Inr xs \<and> map payee_entry xs = fe_values st PayeeKeyPrefix"
    unfolding GetAllPayees_def
  proof (rule collect_map)
    fix key v assume "(key, v) \<in> set (fe_values st PayeeKeyPrefix)"
    then obtain r c a where "slash_free r" "slash_free c" "key = KeyPayee r c" "v = AddressBz a" using wf_family(2) [OF wf] by blast
    then show "\<exists>x. (case (key, v) of (key, v) \<Rightarrow> case ParseKeyPayeeAddress key of Inl e \<Rightarrow> Inl (Panic ''key'')
         | Inr (relayerAddr, channelID) \<Rightarrow> and_then (fe_address v) (\<lambda>a. Inr \<lparr>rp_ChannelId = channelID, rp_Relayer = relayerAddr, rp_Payee = a\<rparr>))
         = Inr x \<and> payee_entry x = (key, v)"
      by (intro exI [of _ "\<lparr>rp_ChannelId = c, rp_Relayer = r, rp_Payee = a\<rparr>"]) (simp add: fee_keys_parse payee_entry_def)
  qed
  show "\<exists>xs. GetAllCounterpartyPayees st = Inr xs \<and> map counterparty_entry xs = fe_values st CounterpartyPayeeKeyPrefix"
    unfolding GetAllCounterpartyPayees_def
  proof (rule collect_map)
    fix key v assume "(key, v) \<in> set (fe_values st CounterpartyPayeeKeyPrefix)"
    then obtain r c a where "slash_free r" "slash_free c" "key = KeyCounterpartyPayee r c" "v = AddressBz a" using wf_family(3) [OF wf] by blast
    then show "\<exists>x. (case (key, v) of (key, v) \<Rightarrow> case ParseKeyCounterpartyPayee key of Inl e \<Rightarrow> Inl (Panic ''key'')
         | Inr (relayerAddr, channelID) \<Rightarrow> and_then (fe_address v) (\<lambda>a. Inr \<lparr>rc_ChannelId = channelID, rc_Relayer = relayerAddr, rc_CounterpartyPayee = a\<rparr>))
         = Inr x \<and> counterparty_entry x = (key, v)"
      by (intro exI [of _ "\<lparr>rc_ChannelId = c, rc_Relayer = r, rc_CounterpartyPayee = a\<rparr>"]) (simp add: fee_keys_parse counterparty_entry_def)
  qed
  show "\<exists>xs. GetAllForwardRelayerAddresses st = Inr xs \<and> map forward_entry xs = fe_values st ForwardRelayerPrefix"
    unfolding GetAllForwardRelayerAddresses_def
  proof (rule collect_map)
    fix key v assume "(key, v) \<in> set (fe_values st ForwardRelayerPrefix)"
    then obtain i a where "pid_slash_free i" "key = KeyRelayerAddressForAsyncAck i" "v = AddressBz a" using wf_family(4) [OF wf] by blast
    then show "\<exists>x. (case (key, v) of (key, v) \<Rightarrow> case ParseKeyRelayerAddressForAsyncAck key of Inl e \<Rightarrow> Inl (Panic ''key'')
         | Inr packetID \<Rightarrow> and_then (fe_address v) (\<lambda>a. Inr \<lparr>fr_Address = a, fr_PacketId = packetID\<rparr>)) = Inr x \<and> forward_entry x = (key, v)"
      by (intro exI [of _ "\<lparr>fr_Address = a, fr_PacketId = i\<rparr>"]) (simp add: fee_keys_parse forward_entry_def)
  qed
  show "\<exists>xs. GetAllIdentifiedPacketFees st = Inr xs \<and> map entry xs = fe_values st FeesInEscrowPrefix"
    unfolding GetAllIdentifiedPacketFees_def
  proof (rule collect_map)
    fix key v assume "(key, v) \<in> set (fe_values st FeesInEscrowPrefix)"
    then obtain i fs where "pid_slash_free i" "key = KeyFeesInEscrow i" "v = PacketFeesBz fs" using wf_family(5) [OF wf] by blast
    then show "\<exists>x. identified_fees (key, v) = Inr x \<and> entry x = (key, v)"
      by (intro exI [of _ "\<lparr>if_PacketId = i, if_PacketFees = fs\<rparr>"]) (simp add: fee_keys_parse identified_fees_def NewIdentifiedPacketFees_def)
  qed
qed

section \<open>Import\<close>

definition put_all :: "(string \<times> fee_value) list \<Rightarrow> 'a fee_app \<Rightarrow> 'a fee_app" where
  "put_all kvs st = fold (\<lambda>(key, v). fe_set key v) kvs st"

lemma setters_put:
  "SetFeesInEscrow i fs = fe_set (KeyFeesInEscrow i) (PacketFeesBz fs)" "SetPayeeAddress r x c = fe_set (KeyPayee r c) (AddressBz x)"
  "SetCounterpartyPayeeAddress r x c = fe_set (KeyCounterpartyPayee r c) (AddressBz x)"
  "SetRelayerAddressForAsyncAck i x = fe_set (KeyRelayerAddressForAsyncAck i) (AddressBz x)" "SetFeeEnabled p c = fe_set (KeyFeeEnabled p c) FlagBz"
  by (simp_all add: fun_eq_iff SetFeesInEscrow_def SetPayeeAddress_def SetCounterpartyPayeeAddress_def SetRelayerAddressForAsyncAck_def SetFeeEnabled_def)

lemma fee_InitGenesis_put:
  "fee_InitGenesis gs st = put_all (map enabled_entry (fg_FeeEnabledChannels gs)) (put_all (map forward_entry (fg_ForwardRelayers gs))
     (put_all (map counterparty_entry (fg_RegisteredCounterpartyPayees gs)) (put_all (map payee_entry (fg_RegisteredPayees gs))
     (put_all (map entry (fg_IdentifiedFees gs)) st))))"
  by (simp add: fee_InitGenesis_def put_all_def fold_map comp_def Let_def enabled_entry_def forward_entry_def counterparty_entry_def
      payee_entry_def entry_def setters_put)

lemma put_all_store: "fe_store (put_all kvs st) = put_entries kvs (fe_store st)"
proof (induction kvs arbitrary: st)
  case (Cons kv kvs)
  then show ?case by (cases kv) (simp add: put_all_def fe_set_def)
qed (simp add: put_all_def)

lemma put_values_lookup:
  "fmlookup (fe_store (put_all (fe_values st pre) st')) key =
     (if HasPrefix key pre \<and> fmlookup (fe_store st) key \<noteq> None then fmlookup (fe_store st) key else fmlookup (fe_store st') key)"
  by (simp add: put_all_store fe_values_def put_prefix_lookup)

text \<open>
  Genesis export and import of the fee middleware. The export of a well-formed store never panics, and
  importing it into an empty store gives back every fee, payee, counterparty payee, forward relayer
  and fee enabled channel; only the lock is lost.
\<close>

theorem fee_genesis_roundtrip:
  assumes wf: "fee_store_wf (fe_store st)"
  shows "\<exists>gs. fee_ExportGenesis st = Inr gs
    \<and> fe_store (fee_InitGenesis gs \<lparr>fe_store = fmempty, fe_app = a\<rparr>) = fmdrop KeyLocked (fe_store st)"
proof -
  obtain x1 x2 x3 x4 x5 where x: "GetAllFeeEnabledChannels st = Inr x1" "map enabled_entry x1 = fe_values st FeeEnabledKeyPrefix"
    "GetAllPayees st = Inr x2" "map payee_entry x2 = fe_values st PayeeKeyPrefix"
    "GetAllCounterpartyPayees st = Inr x3" "map counterparty_entry x3 = fe_values st CounterpartyPayeeKeyPrefix"
    "GetAllForwardRelayerAddresses st = Inr x4" "map forward_entry x4 = fe_values st ForwardRelayerPrefix"
    "GetAllIdentifiedPacketFees st = Inr x5" "map entry x5 = fe_values st FeesInEscrowPrefix"
    using export_lists [OF wf] by metis
  let ?gs = "\<lparr>fg_IdentifiedFees = x5, fg_FeeEnabledChannels = x1, fg_RegisteredPayees = x2, fg_RegisteredCounterpartyPayees = x3,
    fg_ForwardRelayers = x4\<rparr>"
  have "fee_ExportGenesis st = Inr ?gs" by (simp add: fee_ExportGenesis_def x)
  moreover have "fmlookup (fe_store (fee_InitGenesis ?gs \<lparr>fe_store = fmempty, fe_app = a\<rparr>)) key = fmlookup (fmdrop KeyLocked (fe_store st)) key" for key
  proof (cases "fmlookup (fe_store st) key")
    case None
    then show ?thesis by (simp add: fee_InitGenesis_put x put_values_lookup)
  next
    case (Some v)
    with wf have "key = KeyLocked \<or> (\<exists>p c. key = KeyFeeEnabled p c) \<or> (\<exists>r c. key = KeyPayee r c) \<or> (\<exists>r c. key = KeyCounterpartyPayee r c)
      \<or> (\<exists>i. key = KeyRelayerAddressForAsyncAck i) \<or> (\<exists>i. key = KeyFeesInEscrow i)"
      unfolding fee_store_wf_def by blast
    with Some show ?thesis by (auto simp: fee_InitGenesis_put x put_values_lookup)
  qed
  then have "fe_store (fee_InitGenesis ?gs \<lparr>fe_store = fmempty, fe_app = a\<rparr>) = fmdrop KeyLocked (fe_store st)" by (rule fmap_ext)
  ultimately show ?thesis by blast
qed

lemma fee_genesis_roundtrip_witness:
  "\<exists>gs. fee_ExportGenesis (lockFeeModule (app ex_paid_world)) = Inr gs
    \<and> fe_store (fee_InitGenesis gs \<lparr>fe_store = fmempty, fe_app = ()\<rparr>) = fmdrop KeyLocked (fe_store (lockFeeModule (app ex_paid_world)))"
proof -
  let ?st = "lockFeeModule (app ex_paid_world)"
  have s: "fe_store ?st = fmupd KeyLocked FlagBz (fmupd (KeyFeesInEscrow (ex_pid ''channel-0'')) (PacketFeesBz [ex_packet_fee])
      (fmupd (KeyFeeEnabled ''transfer'' ''channel-0'') FlagBz fmempty))"
    by (simp add: ex_paid_world_def ex_fee_world_def ex_escrowed_def SetFeeEnabled_def SetFeesInEscrow_def lockFeeModule_def fe_set_def)
  have sf: "pid_slash_free (ex_pid ''channel-0'')" "slash_free ''transfer''" "slash_free ''channel-0''" by (simp_all add: pid_slash_free_def)
  have "fee_store_wf (fe_store ?st)"
    unfolding fee_store_wf_def
  proof (intro allI impI)
    fix key v assume "fmlookup (fe_store ?st) key = Some v"
    then have "key = KeyLocked \<or> key = KeyFeesInEscrow (ex_pid ''channel-0'') \<and> v = PacketFeesBz [ex_packet_fee]
      \<or> key = KeyFeeEnabled ''transfer'' ''channel-0'' \<and> v = FlagBz" by (auto simp: s split: if_splits)
    with sf show "key = KeyLocked
        \<or> (\<exists>p c. slash_free p \<and> slash_free c \<and> key = KeyFeeEnabled p c \<and> v = FlagBz)
        \<or> (\<exists>r c a. slash_free r \<and> slash_free c \<and> key = KeyPayee r c \<and> v = AddressBz a)
        \<or> (\<exists>r c a. slash_free r \<and> slash_free c \<and> key = KeyCounterpartyPayee r c \<and> v = AddressBz a)
        \<or> (\<exists>i a. pid_slash_free i \<and> key = KeyRelayerAddressForAsyncAck i \<and> v = AddressBz a)
        \<or> (\<exists>i fs. pid_slash_free i \<and> key = KeyFeesInEscrow i \<and> v = PacketFeesBz fs)" by blast
  qed
  from fee_genesis_roundtrip [OF this, of "()"] show ?thesis .
qed

end
