(* ===== verification/Ica_Types.thy ===== *)
theory Ica_Types
  imports Transfer_Types Iterate Msg_Run
begin

text \<open>
  ICS-27, what the two sides of interchain accounts share (\<open>modules/apps/27-interchain-accounts/types\<close>, the
  genesis types and the messages of both submodules): the account (\<open>account.go\<close>), channel metadata
  (\<open>metadata.go\<close>), packet data and the encoding of a transaction (\<open>packet.go\<close>, \<open>codec.go\<close>), the store keys
  (\<open>keys.go\<close>) and the accessors that the keepers of both submodules define on their stores. The messages
  of the chain belong to the SDK and the modules built on it: their type is a parameter, like the
  codec, the addresses and the derivation of module accounts (\<open>ilib\<close>).
\<close>

section \<open>Constants\<close>

abbreviation ica_ModuleName :: string where "ica_ModuleName \<equiv> ''interchainaccounts''"
abbreviation HostPortID :: string where "HostPortID \<equiv> ''icahost''"
abbreviation ControllerPortPrefix :: string where "ControllerPortPrefix \<equiv> ''icacontroller-''"
abbreviation ica_Version :: string where "ica_Version \<equiv> ''ics27-1''"
abbreviation hostAccountsKey :: string where "hostAccountsKey \<equiv> ''icahost-accounts''"
abbreviation host_SubModuleName :: string where "host_SubModuleName \<equiv> ''icahost''"
abbreviation controller_SubModuleName :: string where "controller_SubModuleName \<equiv> ''icacontroller''"
abbreviation EncodingProtobuf :: string where "EncodingProtobuf \<equiv> ''proto3''"
abbreviation TxTypeSDKMultiMsg :: string where "TxTypeSDKMultiMsg \<equiv> ''sdk_multi_msg''"
abbreviation ActiveChannelKeyPrefix :: string where "ActiveChannelKeyPrefix \<equiv> ''activeChannel''"
abbreviation OwnerKeyPrefix :: string where "OwnerKeyPrefix \<equiv> ''owner''"
abbreviation PortKeyPrefix :: string where "PortKeyPrefix \<equiv> ''port''"
abbreviation IsMiddlewareEnabledPrefix :: string where "IsMiddlewareEnabledPrefix \<equiv> ''isMiddlewareEnabled''"
abbreviation ica_ParamsKey :: string where "ica_ParamsKey \<equiv> ''params''"
abbreviation AllowAllHostMsgs :: string where "AllowAllHostMsgs \<equiv> ''*''"
abbreviation MaxMemoCharLength :: nat where "MaxMemoCharLength \<equiv> 256"
abbreviation DefaultMaxAddrLength :: nat where "DefaultMaxAddrLength \<equiv> 128"

section \<open>Data\<close>

record ica_Metadata =
  md_Version :: string
  md_ControllerConnectionId :: string
  md_HostConnectionId :: string
  md_Address :: string
  md_Encoding :: string
  md_TxType :: string

text \<open>The type of a packet is an \<open>int32\<close>, of which 0 and 1 have names.\<close>

abbreviation ica_UNSPECIFIED :: int where "ica_UNSPECIFIED \<equiv> 0"
abbreviation EXECUTE_TX :: int where "EXECUTE_TX \<equiv> 1"

record InterchainAccountPacketData =
  ipd_Type :: int
  ipd_Data :: bytes
  ipd_Memo :: string

record Any =
  any_TypeUrl :: string
  any_Value :: bytes

record BaseAccount =
  ba_Address :: string
  ba_AccountNumber :: u64
  ba_Sequence :: u64

record InterchainAccount =
  ia_BaseAccount :: BaseAccount
  ia_AccountOwner :: string

record interchainAccountPretty =
  iap_Address :: bytes
  iap_PubKey :: string
  iap_AccountNumber :: u64
  iap_Sequence :: u64
  iap_AccountOwner :: string

text \<open>The parameters of the two submodules and their genesis states.\<close>

record host_Params =
  HostEnabled :: bool
  AllowMessages :: "string list"

record controller_Params =
  ControllerEnabled :: bool

record ActiveChannel =
  ac_ConnectionId :: string
  ac_PortId :: string
  ac_ChannelId :: string
  ac_IsMiddlewareEnabled :: bool

record RegisteredInterchainAccount =
  ra_ConnectionId :: string
  ra_PortId :: string
  ra_AccountAddress :: string

record ControllerGenesisState =
  cg_ActiveChannels :: "ActiveChannel list"
  cg_InterchainAccounts :: "RegisteredInterchainAccount list"
  cg_Ports :: "string list"
  cg_Params :: controller_Params

record HostGenesisState =
  hg_ActiveChannels :: "ActiveChannel list"
  hg_InterchainAccounts :: "RegisteredInterchainAccount list"
  hg_Port :: string
  hg_Params :: host_Params

record ica_GenesisState =
  ControllerGenesisState :: ControllerGenesisState
  HostGenesisState :: HostGenesisState

text \<open>
  What the submodules take from the SDK: the methods of a message (\<open>sdk.Msg\<close>, of type \<open>'m\<close>), the codec,
  the derivation of addresses and the hashes in the header of the current block.
\<close>

record 'm ilib =
  il_sdk :: tlib
  MsgTypeURL :: "'m \<Rightarrow> string"
  GetSigners :: "'m \<Rightarrow> bytes list result"
  Msg_ValidateBasic :: "'m \<Rightarrow> unit result"
  IsProtoCodec :: bool
  NewAnyWithValue :: "'m \<Rightarrow> Any result"
  UnpackAny :: "Any \<Rightarrow> 'm result"
  MarshalCosmosTx :: "Any list \<Rightarrow> bytes result"
  UnmarshalCosmosTx :: "bytes \<Rightarrow> Any list result"
  MarshalTxMsgData :: "Any list \<Rightarrow> bytes result"
  MarshalIcaData :: "InterchainAccountPacketData \<Rightarrow> bytes"
  UnmarshalIcaData :: "bytes \<Rightarrow> InterchainAccountPacketData option"
  MarshalIcaMetadata :: "ica_Metadata \<Rightarrow> string result"
  UnmarshalIcaMetadata :: "string \<Rightarrow> ica_Metadata option"
  MarshalPretty :: "interchainAccountPretty \<Rightarrow> bytes result"
  UnmarshalPretty :: "bytes \<Rightarrow> interchainAccountPretty result"
  address_Module :: "string \<Rightarrow> bytes \<Rightarrow> bytes"
  address_Derive :: "bytes \<Rightarrow> bytes \<Rightarrow> bytes"
  NewBaseAccountWithAddress :: "bytes \<Rightarrow> BaseAccount"
  NewBaseAccount :: "bytes \<Rightarrow> u64 \<Rightarrow> u64 \<Rightarrow> BaseAccount"
  BaseAccount_Validate :: "BaseAccount \<Rightarrow> unit result"
  AppHash :: "sdk_context \<Rightarrow> bytes"
  DataHash :: "sdk_context \<Rightarrow> bytes"

section \<open>Accounts\<close>

definition GenerateAddress :: "'m ilib \<Rightarrow> sdk_context \<Rightarrow> string \<Rightarrow> string \<Rightarrow> bytes" where
  "GenerateAddress il ctx connectionID portID =
     (let hostModuleAcc = address_Module il ica_ModuleName (str_bytes hostAccountsKey);
          buf = str_bytes (connectionID @ portID) @ AppHash il ctx @ DataHash il ctx in
      address_Derive il hostModuleAcc buf)"

text \<open>The regular expression \<open>^[a-zA-Z0-9]+$\<close>\<close>

definition alphanumeric :: "char \<Rightarrow> bool" where
  "alphanumeric c = (let n = of_char c :: nat in 48 \<le> n \<and> n \<le> 57 \<or> 65 \<le> n \<and> n \<le> 90 \<or> 97 \<le> n \<and> n \<le> 122)"

definition isValidAddr :: "string \<Rightarrow> bool" where
  "isValidAddr addr = (addr \<noteq> [] \<and> list_all alphanumeric addr)"

definition ValidateAccountAddress :: "string \<Rightarrow> unit result" where
  "ValidateAccountAddress addr =
     (if \<not> isValidAddr addr \<or> DefaultMaxAddrLength < length addr then Inl ica_ErrInvalidAccountAddress else Inr ())"

definition NewInterchainAccount :: "BaseAccount \<Rightarrow> string \<Rightarrow> InterchainAccount" where
  "NewInterchainAccount ba accountOwner = \<lparr>ia_BaseAccount = ba, ia_AccountOwner = accountOwner\<rparr>"

definition ia_SetPubKey :: "InterchainAccount \<Rightarrow> bytes \<Rightarrow> InterchainAccount result" where
  "ia_SetPubKey ia pubKey = Inl ica_ErrUnsupported"

definition ia_SetSequence :: "InterchainAccount \<Rightarrow> u64 \<Rightarrow> InterchainAccount result" where
  "ia_SetSequence ia s = Inl ica_ErrUnsupported"

definition ia_Validate :: "'m ilib \<Rightarrow> InterchainAccount \<Rightarrow> unit result" where
  "ia_Validate il ia =
     (if is_blank (ia_AccountOwner ia) then Inl ica_ErrInvalidAccountAddress else BaseAccount_Validate il (ia_BaseAccount ia))"

definition ia_MarshalJSON :: "'m ilib \<Rightarrow> InterchainAccount \<Rightarrow> bytes result" where
  "ia_MarshalJSON il ia =
     (let ba = ia_BaseAccount ia in
      case AccAddressFromBech32 (il_sdk il) (ba_Address ba) of
        None \<Rightarrow> Inl (ErrForeign ''bech32'')
      | Some accAddr \<Rightarrow>
          MarshalPretty il \<lparr>iap_Address = accAddr, iap_PubKey = [], iap_AccountNumber = ba_AccountNumber ba,
            iap_Sequence = ba_Sequence ba, iap_AccountOwner = ia_AccountOwner ia\<rparr>)"

definition ia_UnmarshalJSON :: "'m ilib \<Rightarrow> bytes \<Rightarrow> InterchainAccount result" where
  "ia_UnmarshalJSON il bz =
     and_then (UnmarshalPretty il bz) (\<lambda>alias.
     Inr \<lparr>ia_BaseAccount = NewBaseAccount il (iap_Address alias) (iap_AccountNumber alias) (iap_Sequence alias),
          ia_AccountOwner = iap_AccountOwner alias\<rparr>)"

section \<open>Metadata\<close>

definition NewMetadata :: "string \<Rightarrow> string \<Rightarrow> string \<Rightarrow> string \<Rightarrow> string \<Rightarrow> string \<Rightarrow> ica_Metadata" where
  "NewMetadata version controllerConnectionID hostConnectionID accAddress encoding txType =
     \<lparr>md_Version = version, md_ControllerConnectionId = controllerConnectionID, md_HostConnectionId = hostConnectionID,
      md_Address = accAddress, md_Encoding = encoding, md_TxType = txType\<rparr>"

definition NewDefaultMetadata :: "string \<Rightarrow> string \<Rightarrow> ica_Metadata" where
  "NewDefaultMetadata controllerConnectionID hostConnectionID =
     \<lparr>md_Version = ica_Version, md_ControllerConnectionId = controllerConnectionID, md_HostConnectionId = hostConnectionID,
      md_Address = [], md_Encoding = EncodingProtobuf, md_TxType = TxTypeSDKMultiMsg\<rparr>"

definition must :: "'x result \<Rightarrow> 'x result" where
  "must r = (case r of Inl e \<Rightarrow> Inl (Panic ''must'') | Inr x \<Rightarrow> Inr x)"

lemma must_Inr [simp]: "must r = Inr x \<longleftrightarrow> r = Inr x"
  by (simp add: must_def split: sum.split)

definition NewDefaultMetadataString :: "'m ilib \<Rightarrow> string \<Rightarrow> string \<Rightarrow> string result" where
  "NewDefaultMetadataString il controllerConnectionID hostConnectionID =
     must (MarshalIcaMetadata il (NewDefaultMetadata controllerConnectionID hostConnectionID))"

definition IsPreviousMetadataEqual :: "'m ilib \<Rightarrow> string \<Rightarrow> ica_Metadata \<Rightarrow> bool" where
  "IsPreviousMetadataEqual il previousVersion metadata =
     (case UnmarshalIcaMetadata il previousVersion of
        None \<Rightarrow> False
      | Some previous \<Rightarrow>
          md_Version previous = md_Version metadata
          \<and> md_ControllerConnectionId previous = md_ControllerConnectionId metadata
          \<and> md_HostConnectionId previous = md_HostConnectionId metadata
          \<and> md_Encoding previous = md_Encoding metadata
          \<and> md_TxType previous = md_TxType metadata)"

definition getSupportedEncoding :: "string list" where
  "getSupportedEncoding = [EncodingProtobuf]"

definition isSupportedEncoding :: "string \<Rightarrow> bool" where
  "isSupportedEncoding encoding = list_ex (\<lambda>enc. enc = encoding) getSupportedEncoding"

definition getSupportedTxTypes :: "string list" where
  "getSupportedTxTypes = [TxTypeSDKMultiMsg]"

definition isSupportedTxType :: "string \<Rightarrow> bool" where
  "isSupportedTxType txType = list_ex (\<lambda>t. t = txType) getSupportedTxTypes"

definition validateConnectionParams :: "ica_Metadata \<Rightarrow> string \<Rightarrow> string \<Rightarrow> unit result" where
  "validateConnectionParams metadata controllerConnectionID hostConnectionID =
     (if md_ControllerConnectionId metadata \<noteq> controllerConnectionID then Inl connection_ErrInvalidConnection
      else if md_HostConnectionId metadata \<noteq> hostConnectionID then Inl connection_ErrInvalidConnection
      else Inr ())"

text \<open>\<open>GetConnection\<close> of the channel keeper, which returns an error when there is none.\<close>

definition chan_GetConnection :: "kvstore \<Rightarrow> string \<Rightarrow> ConnectionEnd result" where
  "chan_GetConnection s connectionID =
     (case GetConnection s connectionID of None \<Rightarrow> Inl connection_ErrConnectionNotFound | Some c \<Rightarrow> Inr c)"

definition metadata_tail :: "ica_Metadata \<Rightarrow> unit result" where
  "metadata_tail metadata =
     and_then (if md_Address metadata \<noteq> [] then ValidateAccountAddress (md_Address metadata) else Inr ()) (\<lambda>_.
     if md_Version metadata \<noteq> ica_Version then Inl ica_ErrInvalidVersion else Inr ())"

definition ValidateControllerMetadata :: "kvstore \<Rightarrow> string list \<Rightarrow> ica_Metadata \<Rightarrow> unit result" where
  "ValidateControllerMetadata s connectionHops metadata =
     (if \<not> isSupportedEncoding (md_Encoding metadata) then Inl ica_ErrInvalidCodec
      else if \<not> isSupportedTxType (md_TxType metadata) then Inl ica_ErrUnknownDataType
      else
        and_then (first_hop connectionHops) (\<lambda>hop.
        and_then (chan_GetConnection s hop) (\<lambda>connection.
        and_then (validateConnectionParams metadata hop (cp_ConnectionId (conn_Counterparty connection))) (\<lambda>_.
        metadata_tail metadata))))"

definition ValidateHostMetadata :: "kvstore \<Rightarrow> string list \<Rightarrow> ica_Metadata \<Rightarrow> unit result" where
  "ValidateHostMetadata s connectionHops metadata =
     (if \<not> isSupportedEncoding (md_Encoding metadata) then Inl ica_ErrInvalidCodec
      else if \<not> isSupportedTxType (md_TxType metadata) then Inl ica_ErrUnknownDataType
      else
        and_then (first_hop connectionHops) (\<lambda>hop.
        and_then (chan_GetConnection s hop) (\<lambda>connection.
        and_then (validateConnectionParams metadata (cp_ConnectionId (conn_Counterparty connection)) hop) (\<lambda>_.
        metadata_tail metadata))))"

section \<open>Packets and transactions\<close>

definition ipd_ValidateBasic :: "InterchainAccountPacketData \<Rightarrow> unit result" where
  "ipd_ValidateBasic d =
     (if ipd_Type d = ica_UNSPECIFIED then Inl ica_ErrInvalidOutgoingData
      else if length (ipd_Data d) = 0 then Inl ica_ErrInvalidOutgoingData
      else if MaxMemoCharLength < length (ipd_Memo d) then Inl ica_ErrInvalidOutgoingData
      else Inr ())"

definition ipd_GetBytes :: "'m ilib \<Rightarrow> InterchainAccountPacketData \<Rightarrow> bytes" where
  "ipd_GetBytes il d = MarshalIcaData il d"

definition SerializeCosmosTx :: "'m ilib \<Rightarrow> 'm list \<Rightarrow> bytes result" where
  "SerializeCosmosTx il msgs =
     (if \<not> IsProtoCodec il then Inl ica_ErrInvalidCodec
      else and_then (collect (NewAnyWithValue il) msgs) (MarshalCosmosTx il))"

definition DeserializeCosmosTx :: "'m ilib \<Rightarrow> bytes \<Rightarrow> 'm list result" where
  "DeserializeCosmosTx il data =
     (if \<not> IsProtoCodec il then Inl ica_ErrInvalidCodec
      else and_then (UnmarshalCosmosTx il data) (collect (UnpackAny il)))"

definition NewControllerPortID :: "string \<Rightarrow> string result" where
  "NewControllerPortID owner =
     (if is_blank owner then Inl ica_ErrInvalidAccountAddress else Inr (ControllerPortPrefix @ owner))"

section \<open>Keys\<close>

definition KeyActiveChannel :: "string \<Rightarrow> string \<Rightarrow> string" where
  "KeyActiveChannel portID connectionID = ActiveChannelKeyPrefix @ ''/'' @ portID @ ''/'' @ connectionID"

definition KeyOwnerAccount :: "string \<Rightarrow> string \<Rightarrow> string" where
  "KeyOwnerAccount portID connectionID = OwnerKeyPrefix @ ''/'' @ portID @ ''/'' @ connectionID"

definition KeyPort :: "string \<Rightarrow> string" where
  "KeyPort portID = PortKeyPrefix @ ''/'' @ portID"

definition KeyIsMiddlewareEnabled :: "string \<Rightarrow> string \<Rightarrow> string" where
  "KeyIsMiddlewareEnabled portID connectionID = IsMiddlewareEnabledPrefix @ ''/'' @ portID @ ''/'' @ connectionID"

section \<open>The stores\<close>

text \<open>
  Each submodule has its own store, with the same keys. Its values are byte strings and, under
  \<open>ParamsKey\<close>, the encoded parameters.
\<close>

datatype 'p ica_value =
    IcaBz string
  | IcaParamsBz 'p

type_synonym 'p ica_store = "(string, 'p ica_value) fmap"

definition ica_get :: "'p ica_store \<Rightarrow> string \<Rightarrow> string option" where
  "ica_get s key = (case fmlookup s key of Some (IcaBz v) \<Rightarrow> Some v | _ \<Rightarrow> None)"

abbreviation MiddlewareEnabled :: string where "MiddlewareEnabled \<equiv> [char_of (1 :: nat)]"
abbreviation MiddlewareDisabled :: string where "MiddlewareDisabled \<equiv> [char_of (2 :: nat)]"

text \<open>The second and third part of a key (\<open>strings.Split(key, "/")\<close>) and the value, as the iterators read them.\<close>

definition split_entry :: "string \<times> 'p ica_value \<Rightarrow> (string \<times> string \<times> string) result" where
  "split_entry kv =
     (case (Split (fst kv) ''/'', snd kv) of
        (_ # portID # connectionID # _, IcaBz v) \<Rightarrow> Inr (portID, connectionID, v)
      | _ \<Rightarrow> Inl (Panic ''index out of range''))"

section \<open>Genesis\<close>

definition validate_channels :: "ActiveChannel list \<Rightarrow> unit result" where
  "validate_channels chs =
     and_then (collect (\<lambda>ch. and_then (ChannelIdentifierValidator (ac_ChannelId ch)) (\<lambda>_. PortIdentifierValidator (ac_PortId ch))) chs)
       (\<lambda>_. Inr ())"

definition validate_accounts :: "RegisteredInterchainAccount list \<Rightarrow> unit result" where
  "validate_accounts accs =
     and_then (collect (\<lambda>acc. and_then (PortIdentifierValidator (ra_PortId acc)) (\<lambda>_. ValidateAccountAddress (ra_AccountAddress acc))) accs)
       (\<lambda>_. Inr ())"

definition DefaultControllerEnabled :: bool where
  "DefaultControllerEnabled = True"

definition controller_NewParams :: "bool \<Rightarrow> controller_Params" where
  "controller_NewParams enableController = \<lparr>ControllerEnabled = enableController\<rparr>"

definition controller_DefaultParams :: controller_Params where
  "controller_DefaultParams = controller_NewParams DefaultControllerEnabled"

definition DefaultHostEnabled :: bool where
  "DefaultHostEnabled = True"

definition host_NewParams :: "bool \<Rightarrow> string list \<Rightarrow> host_Params" where
  "host_NewParams enableHost allowMsgs = \<lparr>HostEnabled = enableHost, AllowMessages = allowMsgs\<rparr>"

definition host_DefaultParams :: host_Params where
  "host_DefaultParams = host_NewParams DefaultHostEnabled [AllowAllHostMsgs]"

definition validateAllowlist :: "string list \<Rightarrow> unit result" where
  "validateAllowlist allowMsgs = (if list_ex is_blank allowMsgs then Inl (ErrForeign ''parameter must not contain empty strings'') else Inr ())"

definition host_Params_Validate :: "host_Params \<Rightarrow> unit result" where
  "host_Params_Validate p = validateAllowlist (AllowMessages p)"

definition DefaultControllerGenesis :: ControllerGenesisState where
  "DefaultControllerGenesis = \<lparr>cg_ActiveChannels = [], cg_InterchainAccounts = [], cg_Ports = [], cg_Params = controller_DefaultParams\<rparr>"

definition DefaultHostGenesis :: HostGenesisState where
  "DefaultHostGenesis = \<lparr>hg_ActiveChannels = [], hg_InterchainAccounts = [], hg_Port = HostPortID, hg_Params = host_DefaultParams\<rparr>"

definition ica_DefaultGenesis :: ica_GenesisState where
  "ica_DefaultGenesis = \<lparr>ControllerGenesisState = DefaultControllerGenesis, HostGenesisState = DefaultHostGenesis\<rparr>"

definition ControllerGenesis_Validate :: "ControllerGenesisState \<Rightarrow> unit result" where
  "ControllerGenesis_Validate gs =
     and_then (validate_channels (cg_ActiveChannels gs)) (\<lambda>_.
     and_then (validate_accounts (cg_InterchainAccounts gs)) (\<lambda>_.
     and_then (collect PortIdentifierValidator (cg_Ports gs)) (\<lambda>_. Inr ())))"

definition HostGenesis_Validate :: "HostGenesisState \<Rightarrow> unit result" where
  "HostGenesis_Validate gs =
     and_then (validate_channels (hg_ActiveChannels gs)) (\<lambda>_.
     and_then (validate_accounts (hg_InterchainAccounts gs)) (\<lambda>_.
     and_then (PortIdentifierValidator (hg_Port gs)) (\<lambda>_.
     host_Params_Validate (hg_Params gs))))"

definition ica_Genesis_Validate :: "ica_GenesisState \<Rightarrow> unit result" where
  "ica_Genesis_Validate gs =
     and_then (ControllerGenesis_Validate (ControllerGenesisState gs)) (\<lambda>_. HostGenesis_Validate (HostGenesisState gs))"

section \<open>Messages\<close>

record MsgRegisterInterchainAccount =
  mri_Owner :: string
  mri_ConnectionId :: string
  mri_Version :: string

record MsgSendTx =
  mst_Owner :: string
  mst_ConnectionId :: string
  mst_PacketData :: InterchainAccountPacketData
  mst_RelativeTimeout :: u64

record controller_MsgUpdateParams =
  cup_Authority :: string
  cup_Params :: controller_Params

record host_MsgUpdateParams =
  hup_Authority :: string
  hup_Params :: host_Params

definition MsgRegisterInterchainAccount_ValidateBasic :: "MsgRegisterInterchainAccount \<Rightarrow> unit result" where
  "MsgRegisterInterchainAccount_ValidateBasic msg =
     and_then (ConnectionIdentifierValidator (mri_ConnectionId msg)) (\<lambda>_.
     if is_blank (mri_Owner msg) then Inl ibcerrors_ErrInvalidAddress else Inr ())"

definition MsgSendTx_ValidateBasic :: "MsgSendTx \<Rightarrow> unit result" where
  "MsgSendTx_ValidateBasic msg =
     and_then (ConnectionIdentifierValidator (mst_ConnectionId msg)) (\<lambda>_.
     if is_blank (mst_Owner msg) then Inl ibcerrors_ErrInvalidAddress
     else and_then (ipd_ValidateBasic (mst_PacketData msg)) (\<lambda>_.
       if mst_RelativeTimeout msg = 0 then Inl ibcerrors_ErrInvalidRequest else Inr ()))"

definition controller_MsgUpdateParams_ValidateBasic :: "'m ilib \<Rightarrow> controller_MsgUpdateParams \<Rightarrow> unit result" where
  "controller_MsgUpdateParams_ValidateBasic il msg =
     (if AccAddressFromBech32 (il_sdk il) (cup_Authority msg) = None then Inl ibcerrors_ErrInvalidAddress else Inr ())"

definition host_MsgUpdateParams_ValidateBasic :: "'m ilib \<Rightarrow> host_MsgUpdateParams \<Rightarrow> unit result" where
  "host_MsgUpdateParams_ValidateBasic il msg =
     (if AccAddressFromBech32 (il_sdk il) (hup_Authority msg) = None then Inl ibcerrors_ErrInvalidAddress
      else host_Params_Validate (hup_Params msg))"

text \<open>\<open>GetSigners\<close> of the four messages: the owner or the authority, with a panic when it is not an address.\<close>

definition signer_of :: "'m ilib \<Rightarrow> string \<Rightarrow> bytes list result" where
  "signer_of il a = (case AccAddressFromBech32 (il_sdk il) a of None \<Rightarrow> Inl (Panic ''bech32'') | Some addr \<Rightarrow> Inr [addr])"

definition MsgRegisterInterchainAccount_GetSigners :: "'m ilib \<Rightarrow> MsgRegisterInterchainAccount \<Rightarrow> bytes list result" where
  "MsgRegisterInterchainAccount_GetSigners il msg = signer_of il (mri_Owner msg)"

definition MsgSendTx_GetSigners :: "'m ilib \<Rightarrow> MsgSendTx \<Rightarrow> bytes list result" where
  "MsgSendTx_GetSigners il msg = signer_of il (mst_Owner msg)"

definition controller_MsgUpdateParams_GetSigners :: "'m ilib \<Rightarrow> controller_MsgUpdateParams \<Rightarrow> bytes list result" where
  "controller_MsgUpdateParams_GetSigners il msg = signer_of il (cup_Authority msg)"

definition host_MsgUpdateParams_GetSigners :: "'m ilib \<Rightarrow> host_MsgUpdateParams \<Rightarrow> bytes list result" where
  "host_MsgUpdateParams_GetSigners il msg = signer_of il (hup_Authority msg)"

section \<open>Lemmas\<close>

lemma Split_segments:
  "slash_free a \<Longrightarrow> slash_free b \<Longrightarrow> slash_free c \<Longrightarrow> Split (a @ ''/'' @ b @ ''/'' @ c) ''/'' = [a, b, c]"
  "slash_free a \<Longrightarrow> slash_free b \<Longrightarrow> Split (a @ ''/'' @ b) ''/'' = [a, b]"
  by (simp_all add: slash_free_def Split_append Split_no_sep)

lemma ica_prefixes_slash_free [simp]:
  "slash_free ActiveChannelKeyPrefix" "slash_free OwnerKeyPrefix" "slash_free PortKeyPrefix" "slash_free IsMiddlewareEnabledPrefix"
  by (simp_all add: slash_free_def)

lemma ica_keys_parse:
  assumes "slash_free p" and "slash_free c"
  shows "split_entry (KeyActiveChannel p c, IcaBz v) = Inr (p, c, v)"
    and "split_entry (KeyOwnerAccount p c, IcaBz v) = Inr (p, c, v)"
  unfolding split_entry_def fst_conv snd_conv KeyActiveChannel_def KeyOwnerAccount_def
  by (simp_all only: Split_segments(1) [OF _ assms] ica_prefixes_slash_free prod.case list.case ica_value.case)

text \<open>Keys of one family determine their identifiers and keys of different families differ.\<close>

lemma ica_keys_inj:
  assumes "slash_free p" "slash_free q"
  shows "KeyActiveChannel p c = KeyActiveChannel q d \<longleftrightarrow> p = q \<and> c = d"
    and "KeyOwnerAccount p c = KeyOwnerAccount q d \<longleftrightarrow> p = q \<and> c = d"
    and "KeyIsMiddlewareEnabled p c = KeyIsMiddlewareEnabled q d \<longleftrightarrow> p = q \<and> c = d"
  using assms by (simp_all add: KeyActiveChannel_def KeyOwnerAccount_def KeyIsMiddlewareEnabled_def slash_free_def sep_append_inj)

lemma ica_keys_differ [simp]:
  "KeyActiveChannel p c \<noteq> KeyOwnerAccount q d" "KeyActiveChannel p c \<noteq> KeyPort q" "KeyActiveChannel p c \<noteq> KeyIsMiddlewareEnabled q d"
  "KeyOwnerAccount p c \<noteq> KeyActiveChannel q d" "KeyOwnerAccount p c \<noteq> KeyPort q" "KeyOwnerAccount p c \<noteq> KeyIsMiddlewareEnabled q d"
  "KeyPort q \<noteq> KeyActiveChannel p c" "KeyPort q \<noteq> KeyOwnerAccount p c" "KeyPort q \<noteq> KeyIsMiddlewareEnabled p c"
  "KeyIsMiddlewareEnabled p c \<noteq> KeyActiveChannel q d" "KeyIsMiddlewareEnabled p c \<noteq> KeyOwnerAccount q d" "KeyIsMiddlewareEnabled p c \<noteq> KeyPort q"
  "KeyActiveChannel p c \<noteq> ica_ParamsKey" "KeyOwnerAccount p c \<noteq> ica_ParamsKey" "KeyPort q \<noteq> ica_ParamsKey"
  "KeyIsMiddlewareEnabled p c \<noteq> ica_ParamsKey" "ica_ParamsKey \<noteq> KeyActiveChannel p c" "ica_ParamsKey \<noteq> KeyOwnerAccount p c"
  "ica_ParamsKey \<noteq> KeyPort q" "ica_ParamsKey \<noteq> KeyIsMiddlewareEnabled p c"
  by (simp_all add: KeyActiveChannel_def KeyOwnerAccount_def KeyIsMiddlewareEnabled_def KeyPort_def)

end
