(* ===== verification/Ica_Host.thy ===== *)
theory Ica_Host
  imports Ica_Types Transfer_Keeper
begin

text \<open>
  ICS-27, the host submodule (\<open>modules/apps/27-interchain-accounts/host\<close>): its store (\<open>keeper/keeper.go\<close>), creation of
  accounts (\<open>keeper/account.go\<close>), the handshake (\<open>keeper/handshake.go\<close>), the execution of transactions
  (\<open>keeper/relay.go\<close>), the message server, genesis, and the callbacks (\<open>ibc_module.go\<close>). The state is the store of
  the submodule next to the state of the rest of the chain. The accounts and the handlers of the
  messages are functions of the keeper record: a handler runs on the whole state and returns the
  state also when it fails, as the capabilities it created stay in the memory of the process. The
  ICS-4 wrapper is the channel keeper.
\<close>

section \<open>State\<close>

record 'a ica_host =
  ih_store :: "host_Params ica_store"
  ih_app :: 'a

text \<open>An account is an interchain account or of some other type.\<close>

datatype account = IcaAccount InterchainAccount | OtherAccount

type_synonym ('m, 'a) msg_handler = "sdk_context \<Rightarrow> 'm \<Rightarrow> 'a ica_host world \<Rightarrow> Any option list result \<times> 'a ica_host world"

record ('m, 'a) host_keeper =
  hk_lib :: "'m ilib"
  GetAccount :: "sdk_context \<Rightarrow> bytes \<Rightarrow> 'a \<Rightarrow> account option"
  NewAccount :: "sdk_context \<Rightarrow> InterchainAccount \<Rightarrow> 'a \<Rightarrow> InterchainAccount \<times> 'a"
  SetAccount :: "sdk_context \<Rightarrow> InterchainAccount \<Rightarrow> 'a \<Rightarrow> 'a"
  msgRouter :: "'m \<Rightarrow> ('m, 'a) msg_handler option"
  hk_authority :: string

abbreviation hk_sdk :: "('m, 'a) host_keeper \<Rightarrow> tlib" where "hk_sdk k \<equiv> il_sdk (hk_lib k)"

definition ih_set :: "string \<Rightarrow> host_Params ica_value \<Rightarrow> 'a ica_host \<Rightarrow> 'a ica_host" where
  "ih_set key v st = st\<lparr>ih_store := fmupd key v (ih_store st)\<rparr>"

section \<open>Accessors\<close>

definition host_GetActiveChannelID :: "'a ica_host \<Rightarrow> string \<Rightarrow> string \<Rightarrow> string option" where
  "host_GetActiveChannelID st connectionID portID = ica_get (ih_store st) (KeyActiveChannel portID connectionID)"

definition host_GetOpenActiveChannel :: "'a ica_host world \<Rightarrow> string \<Rightarrow> string \<Rightarrow> string option" where
  "host_GetOpenActiveChannel w connectionID portID =
     (case host_GetActiveChannelID (app w) connectionID portID of
        None \<Rightarrow> None
      | Some channelID \<Rightarrow>
          (case GetChannel (core (ibc_state w)) portID channelID of
             Some channel \<Rightarrow> if ch_State channel = OPEN then Some channelID else None
           | None \<Rightarrow> None))"

definition host_GetAllActiveChannels :: "'a ica_host \<Rightarrow> ActiveChannel list result" where
  "host_GetAllActiveChannels st =
     collect (\<lambda>kv. and_then (split_entry kv) (\<lambda>(portID, connectionID, channelID).
         Inr \<lparr>ac_ConnectionId = connectionID, ac_PortId = portID, ac_ChannelId = channelID, ac_IsMiddlewareEnabled = False\<rparr>))
       (prefix_values (ih_store st) ActiveChannelKeyPrefix)"

definition host_SetActiveChannelID :: "string \<Rightarrow> string \<Rightarrow> string \<Rightarrow> 'a ica_host \<Rightarrow> 'a ica_host" where
  "host_SetActiveChannelID connectionID portID channelID st = ih_set (KeyActiveChannel portID connectionID) (IcaBz channelID) st"

definition host_IsActiveChannel :: "'a ica_host \<Rightarrow> string \<Rightarrow> string \<Rightarrow> bool" where
  "host_IsActiveChannel st connectionID portID = (host_GetActiveChannelID st connectionID portID \<noteq> None)"

definition host_GetInterchainAccountAddress :: "'a ica_host \<Rightarrow> string \<Rightarrow> string \<Rightarrow> string option" where
  "host_GetInterchainAccountAddress st connectionID portID = ica_get (ih_store st) (KeyOwnerAccount portID connectionID)"

definition host_GetAllInterchainAccounts :: "'a ica_host \<Rightarrow> RegisteredInterchainAccount list result" where
  "host_GetAllInterchainAccounts st =
     collect (\<lambda>kv. and_then (split_entry kv) (\<lambda>(portID, connectionID, address).
         Inr \<lparr>ra_ConnectionId = connectionID, ra_PortId = portID, ra_AccountAddress = address\<rparr>))
       (prefix_values (ih_store st) OwnerKeyPrefix)"

definition host_SetInterchainAccountAddress :: "string \<Rightarrow> string \<Rightarrow> string \<Rightarrow> 'a ica_host \<Rightarrow> 'a ica_host" where
  "host_SetInterchainAccountAddress connectionID portID address st = ih_set (KeyOwnerAccount portID connectionID) (IcaBz address) st"

definition host_GetParams :: "'a ica_host \<Rightarrow> host_Params result" where
  "host_GetParams st =
     (case fmlookup (ih_store st) ica_ParamsKey of
        Some (IcaParamsBz params) \<Rightarrow> Inr params
      | _ \<Rightarrow> Inl (Panic ''ica/host params are not set in store''))"

definition host_SetParams :: "host_Params \<Rightarrow> 'a ica_host \<Rightarrow> 'a ica_host" where
  "host_SetParams params st = ih_set ica_ParamsKey (IcaParamsBz params) st"

definition host_hasCapability :: "cap_state \<Rightarrow> string \<Rightarrow> bool result" where
  "host_hasCapability c portID = and_then (GetCapability host_SubModuleName c (PortPath portID)) (\<lambda>found. Inr (found \<noteq> None))"

definition host_BindPort :: "u64 \<Rightarrow> string \<Rightarrow> 'a ica_host world \<Rightarrow> (Capability \<times> 'a ica_host world) result" where
  "host_BindPort addr portID w =
     (let st = ih_set (KeyPort portID) (IcaBz [char_of (1 :: nat)]) (app w) in
      and_then (BindPort addr portID (caps (ibc_state w))) (\<lambda>(capability, c).
      Inr (capability, \<lparr>ibc_state = (ibc_state w)\<lparr>caps := c\<rparr>, app = st\<rparr>)))"

definition host_ClaimCapability :: "Capability option \<Rightarrow> string \<Rightarrow> 'a ica_host world \<Rightarrow> 'a ica_host world result" where
  "host_ClaimCapability cap name w =
     and_then (ClaimCapability host_SubModuleName cap name (caps (ibc_state w))) (\<lambda>c.
     Inr (w\<lparr>ibc_state := (ibc_state w)\<lparr>caps := c\<rparr>\<rparr>))"

section \<open>Handshake\<close>

definition createInterchainAccount ::
  "('m, 'a) host_keeper \<Rightarrow> sdk_context \<Rightarrow> string \<Rightarrow> string \<Rightarrow> 'a ica_host \<Rightarrow> (bytes \<times> 'a ica_host) result" where
  "createInterchainAccount k ctx connectionID controllerPortID st =
     (let accAddress = GenerateAddress (hk_lib k) ctx connectionID controllerPortID in
      if GetAccount k ctx accAddress (ih_app st) \<noteq> None then Inl ica_ErrAccountAlreadyExist
      else
        let interchainAccount = NewInterchainAccount (NewBaseAccountWithAddress (hk_lib k) accAddress) controllerPortID;
            (acc, a1) = NewAccount k ctx interchainAccount (ih_app st);
            a2 = SetAccount k ctx acc a1 in
        Inr (accAddress, host_SetInterchainAccountAddress connectionID controllerPortID (ba_Address (ia_BaseAccount acc)) (st\<lparr>ih_app := a2\<rparr>)))"

text \<open>The check of both sides that an earlier active channel may be replaced, with the lookup of its version.\<close>

definition check_active_channel :: "'m ilib \<Rightarrow> kvstore \<Rightarrow> string \<Rightarrow> string option \<Rightarrow> ica_Metadata \<Rightarrow> unit result" where
  "check_active_channel il s portID active metadata =
     (case active of
        None \<Rightarrow> Inr ()
      | Some activeChannelID \<Rightarrow>
          (case GetChannel s portID activeChannelID of
             None \<Rightarrow> Inl (Panic ''active channel mapping set but channel does not exist in channel store'')
           | Some channel \<Rightarrow>
               if ch_State channel = OPEN then Inl ica_ErrActiveChannelAlreadySet
               else case GetAppVersion s portID activeChannelID of
                 None \<Rightarrow> Inl (Panic ''active channel mapping set but channel does not exist in channel store'')
               | Some appVersion \<Rightarrow>
                   if \<not> IsPreviousMetadataEqual il appVersion metadata then Inl ica_ErrInvalidVersion else Inr ()))"

definition reopen_or_create ::
  "('m, 'a) host_keeper \<Rightarrow> sdk_context \<Rightarrow> string \<Rightarrow> string \<Rightarrow> 'a ica_host \<Rightarrow> (bytes \<times> 'a ica_host) result" where
  "reopen_or_create k ctx connectionID portID st =
     (case host_GetInterchainAccountAddress st connectionID portID of
        Some interchainAccAddr \<Rightarrow>
          (case AccAddressFromBech32 (hk_sdk k) interchainAccAddr of
             None \<Rightarrow> Inl (Panic ''bech32'')
           | Some accAddress \<Rightarrow>
               (case GetAccount k ctx accAddress (ih_app st) of
                  Some (IcaAccount acc) \<Rightarrow> Inr (accAddress, st)
                | _ \<Rightarrow> Inl ica_ErrInvalidAccountReopening))
      | None \<Rightarrow> createInterchainAccount k ctx connectionID portID st)"

definition host_OnChanOpenTry_keeper ::
  "('m, 'a) host_keeper \<Rightarrow> sdk_context \<Rightarrow> Order \<Rightarrow> string list \<Rightarrow> string \<Rightarrow> string \<Rightarrow> Capability option \<Rightarrow> Counterparty \<Rightarrow> string \<Rightarrow>
     'a ica_host world \<Rightarrow> (string \<times> 'a ica_host world) result" where
  "host_OnChanOpenTry_keeper k ctx order connectionHops portID channelID chanCap counterparty counterpartyVersion w =
     (if order \<noteq> ORDERED then Inl channel_ErrInvalidChannelOrdering
      else if portID \<noteq> HostPortID then Inl ica_ErrInvalidHostPort
      else case UnmarshalIcaMetadata (hk_lib k) counterpartyVersion of
        None \<Rightarrow> Inl ica_ErrUnknownDataType
      | Some metadata \<Rightarrow>
          and_then (ValidateHostMetadata (core (ibc_state w)) connectionHops metadata) (\<lambda>_.
          and_then (first_hop connectionHops) (\<lambda>hop.
          and_then (check_active_channel (hk_lib k) (core (ibc_state w)) portID
            (host_GetActiveChannelID (app w) hop (PortId counterparty)) metadata) (\<lambda>_.
          and_then (host_ClaimCapability chanCap (ChannelCapabilityPath portID channelID) w) (\<lambda>w1.
          and_then (reopen_or_create k ctx (md_HostConnectionId metadata) (PortId counterparty) (app w1)) (\<lambda>(accAddress, st).
          and_then (MarshalIcaMetadata (hk_lib k) (metadata\<lparr>md_Address := AccAddress_String (hk_sdk k) accAddress\<rparr>)) (\<lambda>versionBytes.
          Inr (versionBytes, w1\<lparr>app := st\<rparr>))))))))"

definition host_OnChanOpenConfirm_keeper :: "string \<Rightarrow> string \<Rightarrow> 'a ica_host world \<Rightarrow> 'a ica_host world result" where
  "host_OnChanOpenConfirm_keeper portID channelID w =
     (case GetChannel (core (ibc_state w)) portID channelID of
        None \<Rightarrow> Inl channel_ErrChannelNotFound
      | Some channel \<Rightarrow>
          and_then (first_hop (ch_ConnectionHops channel)) (\<lambda>hop.
          Inr (w\<lparr>app := host_SetActiveChannelID hop (PortId (ch_Counterparty channel)) channelID (app w)\<rparr>)))"

definition host_OnChanCloseConfirm_keeper :: "string \<Rightarrow> string \<Rightarrow> 'a ica_host world \<Rightarrow> 'a ica_host world result" where
  "host_OnChanCloseConfirm_keeper portID channelID w = Inr w"

section \<open>Execution of transactions\<close>

definition ContainsMsgType :: "'m ilib \<Rightarrow> string list \<Rightarrow> 'm \<Rightarrow> bool" where
  "ContainsMsgType il allowMsgs msg =
     (if length allowMsgs = 1 \<and> allowMsgs ! 0 = AllowAllHostMsgs then True
      else list_ex (\<lambda>v. v = MsgTypeURL il msg) allowMsgs)"

fun check_signers :: "tlib \<Rightarrow> string \<Rightarrow> bytes list \<Rightarrow> unit result" where
  "check_signers sdk addr [] = Inr ()"
| "check_signers sdk addr (signer # rest) =
     (if addr \<noteq> AccAddress_String sdk signer then Inl ibcerrors_ErrUnauthorized else check_signers sdk addr rest)"

fun authenticate_msgs :: "'m ilib \<Rightarrow> string \<Rightarrow> string list \<Rightarrow> 'm list \<Rightarrow> unit result" where
  "authenticate_msgs il addr allowMsgs [] = Inr ()"
| "authenticate_msgs il addr allowMsgs (msg # rest) =
     (if \<not> ContainsMsgType il allowMsgs msg then Inl ibcerrors_ErrUnauthorized
      else
        and_then (GetSigners il msg) (\<lambda>signers.
        and_then (check_signers (il_sdk il) addr signers) (\<lambda>_.
        authenticate_msgs il addr allowMsgs rest)))"

definition authenticateTx :: "('m, 'a) host_keeper \<Rightarrow> 'm list \<Rightarrow> string \<Rightarrow> string \<Rightarrow> 'a ica_host \<Rightarrow> unit result" where
  "authenticateTx k msgs connectionID portID st =
     (case host_GetInterchainAccountAddress st connectionID portID of
        None \<Rightarrow> Inl ica_ErrInterchainAccountNotFound
      | Some interchainAccountAddr \<Rightarrow>
          and_then (host_GetParams st) (\<lambda>params.
          authenticate_msgs (hk_lib k) interchainAccountAddr (AllowMessages params) msgs))"

definition executeMsg ::
  "('m, 'a) host_keeper \<Rightarrow> sdk_context \<Rightarrow> 'm \<Rightarrow> 'a ica_host world \<Rightarrow> Any result \<times> 'a ica_host world" where
  "executeMsg k ctx msg w =
     (case msgRouter k msg of
        None \<Rightarrow> (Inl ica_ErrInvalidRoute, w)
      | Some handler \<Rightarrow>
          (case handler ctx msg w of
             (Inl err, w1) \<Rightarrow> (Inl err, w1)
           | (Inr [], w1) \<Rightarrow> (Inl (Panic ''index out of range''), w1)
           | (Inr (None # _), w1) \<Rightarrow> (Inl ibcerrors_ErrLogic, w1)
           | (Inr (Some msgResponse # _), w1) \<Rightarrow> (Inr msgResponse, w1)))"

text \<open>The loop of \<open>executeTx\<close> on the cached context.\<close>

fun execute_msgs ::
  "('m, 'a) host_keeper \<Rightarrow> sdk_context \<Rightarrow> 'm list \<Rightarrow> 'a ica_host world \<Rightarrow> Any list result \<times> 'a ica_host world" where
  "execute_msgs k ctx [] w = (Inr [], w)"
| "execute_msgs k ctx (msg # rest) w =
     (case Msg_ValidateBasic (hk_lib k) msg of
        Inl err \<Rightarrow> (Inl err, w)
      | Inr _ \<Rightarrow>
          (case executeMsg k ctx msg w of
             (Inl err, w1) \<Rightarrow> (Inl err, w1)
           | (Inr protoAny, w1) \<Rightarrow>
               (case execute_msgs k ctx rest w1 of
                  (Inl err, w2) \<Rightarrow> (Inl err, w2)
                | (Inr responses, w2) \<Rightarrow> (Inr (protoAny # responses), w2))))"

definition executeTx ::
  "('m, 'a) host_keeper \<Rightarrow> sdk_context \<Rightarrow> string \<Rightarrow> string \<Rightarrow> string \<Rightarrow> 'm list \<Rightarrow> 'a ica_host world \<Rightarrow> bytes result \<times> 'a ica_host world" where
  "executeTx k ctx sourcePort destPort destChannel msgs w =
     (case GetChannel (core (ibc_state w)) destPort destChannel of
        None \<Rightarrow> (Inl channel_ErrChannelNotFound, w)
      | Some channel \<Rightarrow>
          (case and_then (first_hop (ch_ConnectionHops channel)) (\<lambda>hop. authenticateTx k msgs hop sourcePort (app w)) of
             Inl err \<Rightarrow> (Inl err, w)
           | Inr _ \<Rightarrow>
               (case execute_msgs k ctx msgs w of
                  (Inl err, cached) \<Rightarrow> (Inl err, discard w cached)
                | (Inr msgResponses, cached) \<Rightarrow> (MarshalTxMsgData (hk_lib k) msgResponses, cached))))"

definition host_OnRecvPacket_keeper ::
  "('m, 'a) host_keeper \<Rightarrow> sdk_context \<Rightarrow> Packet \<Rightarrow> 'a ica_host world \<Rightarrow> bytes result \<times> 'a ica_host world" where
  "host_OnRecvPacket_keeper k ctx packet w =
     (case UnmarshalIcaData (hk_lib k) (Data packet) of
        None \<Rightarrow> (Inl ica_ErrUnknownDataType, w)
      | Some data \<Rightarrow>
          if ipd_Type data = EXECUTE_TX then
            (case DeserializeCosmosTx (hk_lib k) (ipd_Data data) of
               Inl err \<Rightarrow> (Inl err, w)
             | Inr msgs \<Rightarrow> executeTx k ctx (SourcePort packet) (DestinationPort packet) (DestinationChannel packet) msgs w)
          else (Inl ica_ErrUnknownDataType, w))"

section \<open>Callbacks\<close>

definition host_OnChanOpenTry ::
  "('m, 'a) host_keeper \<Rightarrow> sdk_context \<Rightarrow> Order \<Rightarrow> string list \<Rightarrow> string \<Rightarrow> string \<Rightarrow> Capability option \<Rightarrow> Counterparty \<Rightarrow> string \<Rightarrow>
     'a ica_host world \<Rightarrow> (string \<times> 'a ica_host world) result" where
  "host_OnChanOpenTry k ctx order connectionHops portID channelID chanCap counterparty counterpartyVersion w =
     and_then (host_GetParams (app w)) (\<lambda>params.
     if \<not> HostEnabled params then Inl icahost_ErrHostSubModuleDisabled
     else host_OnChanOpenTry_keeper k ctx order connectionHops portID channelID chanCap counterparty counterpartyVersion w)"

definition host_OnChanOpenConfirm :: "string \<Rightarrow> string \<Rightarrow> 'a ica_host world \<Rightarrow> 'a ica_host world result" where
  "host_OnChanOpenConfirm portID channelID w =
     and_then (host_GetParams (app w)) (\<lambda>params.
     if \<not> HostEnabled params then Inl icahost_ErrHostSubModuleDisabled else host_OnChanOpenConfirm_keeper portID channelID w)"

text \<open>An error of the keeper is answered by an error acknowledgement; a panic ends the transaction.\<close>

definition host_OnRecvPacket ::
  "('m, 'a) host_keeper \<Rightarrow> sdk_context \<Rightarrow> Packet \<Rightarrow> 'a ica_host world \<Rightarrow> (app_ack option \<times> 'a ica_host world) result" where
  "host_OnRecvPacket k ctx packet w =
     (let sdk = hk_sdk k; failed = (\<lambda>e. Some (ack_of sdk (NewErrorAcknowledgement (ABCICode sdk) e))) in
      and_then (host_GetParams (app w)) (\<lambda>params.
      if \<not> HostEnabled params then Inr (failed icahost_ErrHostSubModuleDisabled, w)
      else case host_OnRecvPacket_keeper k ctx packet w of
        (Inl (Panic m), w1) \<Rightarrow> Inl (Panic m)
      | (Inl err, w1) \<Rightarrow> Inr (failed err, w1)
      | (Inr txResponse, w1) \<Rightarrow> Inr (Some (ack_of sdk (Acknowledgement_Result txResponse)), w1)))"

definition host_module :: "('m, 'a) host_keeper \<Rightarrow> 'a ica_host IBCModule" where
  "host_module k =
     \<lparr>OnChanOpenInit = \<lambda>ctx order hops portID channelID chanCap cp version w. Inl ica_ErrInvalidChannelFlow,
      OnChanOpenTry = host_OnChanOpenTry k,
      OnChanOpenAck = \<lambda>ctx portID channelID cpChannel version w. Inl ica_ErrInvalidChannelFlow,
      OnChanOpenConfirm = \<lambda>ctx. host_OnChanOpenConfirm,
      OnChanCloseInit = \<lambda>ctx portID channelID w. Inl ibcerrors_ErrInvalidRequest,
      OnChanCloseConfirm = \<lambda>ctx. host_OnChanCloseConfirm_keeper,
      OnRecvPacket = \<lambda>ctx packet relayer. host_OnRecvPacket k ctx packet,
      OnAcknowledgementPacket = \<lambda>ctx packet acknowledgement relayer w. Inl ica_ErrInvalidChannelFlow,
      OnTimeoutPacket = \<lambda>ctx packet relayer w. Inl ica_ErrInvalidChannelFlow\<rparr>"

section \<open>Message server and genesis\<close>

definition host_UpdateParams :: "('m, 'a) host_keeper \<Rightarrow> host_MsgUpdateParams \<Rightarrow> 'a ica_host world \<Rightarrow> 'a ica_host world result" where
  "host_UpdateParams k msg w =
     (if hk_authority k \<noteq> hup_Authority msg then Inl ibcerrors_ErrUnauthorized
      else Inr (w\<lparr>app := host_SetParams (hup_Params msg) (app w)\<rparr>))"

definition host_InitGenesis :: "u64 \<Rightarrow> HostGenesisState \<Rightarrow> 'a ica_host world \<Rightarrow> 'a ica_host world result" where
  "host_InitGenesis addr gs w =
     and_then (host_hasCapability (caps (ibc_state w)) (hg_Port gs)) (\<lambda>has.
     and_then (if has then Inr w
       else and_then (host_BindPort addr (hg_Port gs) w) (\<lambda>(capability, w1).
         must (host_ClaimCapability (Some capability) (PortPath (hg_Port gs)) w1))) (\<lambda>w1.
     let st1 = fold (\<lambda>ch. host_SetActiveChannelID (ac_ConnectionId ch) (ac_PortId ch) (ac_ChannelId ch)) (hg_ActiveChannels gs) (app w1);
         st2 = fold (\<lambda>acc. host_SetInterchainAccountAddress (ra_ConnectionId acc) (ra_PortId acc) (ra_AccountAddress acc))
                 (hg_InterchainAccounts gs) st1 in
     and_then (must (host_Params_Validate (hg_Params gs))) (\<lambda>_.
     Inr (w1\<lparr>app := host_SetParams (hg_Params gs) st2\<rparr>))))"

definition host_ExportGenesis :: "'a ica_host \<Rightarrow> HostGenesisState result" where
  "host_ExportGenesis st =
     and_then (host_GetAllActiveChannels st) (\<lambda>channels.
     and_then (host_GetAllInterchainAccounts st) (\<lambda>accounts.
     and_then (host_GetParams st) (\<lambda>params.
     Inr \<lparr>hg_ActiveChannels = channels, hg_InterchainAccounts = accounts, hg_Port = HostPortID, hg_Params = params\<rparr>)))"

end
