(* ===== verification/Ica_Controller.thy ===== *)
theory Ica_Controller
  imports Ica_Host
begin

text \<open>
  ICS-27, the controller submodule (\<open>modules/apps/27-interchain-accounts/controller\<close>): its store
  (\<open>keeper/keeper.go\<close>), registration of accounts (\<open>keeper/account.go\<close>), the handshake (\<open>keeper/handshake.go\<close>),
  sending of transactions (\<open>keeper/relay.go\<close>), the message server, genesis, the capability migration and the
  middleware around an optional authentication module (\<open>ibc_middleware.go\<close>). A registration routes a
  \<open>MsgChannelOpenInit\<close> through the router of the chain, whose handler for it is that of the core message
  server (\<open>Msg_Server\<close>); \<open>addr\<close> and \<open>addr'\<close> are the addresses of the new port and channel capability.
\<close>

section \<open>State\<close>

record 'a ica_ctrl =
  ic_store :: "controller_Params ica_store"
  ic_app :: 'a

text \<open>\<open>ck_address\<close> is the address of the module account of interchain accounts, the signer of the routed message.\<close>

record 'm ctrl_keeper =
  ck_lib :: "'m ilib"
  ck_address :: string
  ck_authority :: string

definition ic_set :: "string \<Rightarrow> controller_Params ica_value \<Rightarrow> 'a ica_ctrl \<Rightarrow> 'a ica_ctrl" where
  "ic_set key v st = st\<lparr>ic_store := fmupd key v (ic_store st)\<rparr>"

section \<open>Accessors\<close>

definition ctrl_GetConnectionID :: "kvstore \<Rightarrow> string \<Rightarrow> string \<Rightarrow> string result" where
  "ctrl_GetConnectionID s portID channelID =
     (case GetChannel s portID channelID of
        None \<Rightarrow> Inl channel_ErrChannelNotFound
      | Some channel \<Rightarrow> first_hop (ch_ConnectionHops channel))"

definition ctrl_GetAllPorts :: "'a ica_ctrl \<Rightarrow> string list result" where
  "ctrl_GetAllPorts st =
     collect (\<lambda>kv. case Split (fst kv) ''/'' of _ # portID # _ \<Rightarrow> Inr portID | _ \<Rightarrow> Inl (Panic ''index out of range''))
       (prefix_values (ic_store st) PortKeyPrefix)"

definition ctrl_BindPort :: "u64 \<Rightarrow> string \<Rightarrow> 'a ica_ctrl world \<Rightarrow> (Capability \<times> 'a ica_ctrl world) result" where
  "ctrl_BindPort addr portID w =
     (let st = ic_set (KeyPort portID) (IcaBz [char_of (1 :: nat)]) (app w) in
      and_then (BindPort addr portID (caps (ibc_state w))) (\<lambda>(capability, c).
      Inr (capability, \<lparr>ibc_state = (ibc_state w)\<lparr>caps := c\<rparr>, app = st\<rparr>)))"

definition ctrl_hasCapability :: "cap_state \<Rightarrow> string \<Rightarrow> bool result" where
  "ctrl_hasCapability c portID = and_then (GetCapability controller_SubModuleName c (PortPath portID)) (\<lambda>found. Inr (found \<noteq> None))"

definition ctrl_ClaimCapability :: "Capability option \<Rightarrow> string \<Rightarrow> 'a ica_ctrl world \<Rightarrow> 'a ica_ctrl world result" where
  "ctrl_ClaimCapability cap name w =
     and_then (ClaimCapability controller_SubModuleName cap name (caps (ibc_state w))) (\<lambda>c.
     Inr (w\<lparr>ibc_state := (ibc_state w)\<lparr>caps := c\<rparr>\<rparr>))"

definition ctrl_GetActiveChannelID :: "'a ica_ctrl \<Rightarrow> string \<Rightarrow> string \<Rightarrow> string option" where
  "ctrl_GetActiveChannelID st connectionID portID = ica_get (ic_store st) (KeyActiveChannel portID connectionID)"

definition ctrl_GetOpenActiveChannel :: "'a ica_ctrl world \<Rightarrow> string \<Rightarrow> string \<Rightarrow> string option" where
  "ctrl_GetOpenActiveChannel w connectionID portID =
     (case ctrl_GetActiveChannelID (app w) connectionID portID of
        None \<Rightarrow> None
      | Some channelID \<Rightarrow>
          (case GetChannel (core (ibc_state w)) portID channelID of
             Some channel \<Rightarrow> if ch_State channel = OPEN then Some channelID else None
           | None \<Rightarrow> None))"

definition ctrl_IsActiveChannelClosed :: "'a ica_ctrl world \<Rightarrow> string \<Rightarrow> string \<Rightarrow> bool" where
  "ctrl_IsActiveChannelClosed w connectionID portID =
     (case ctrl_GetActiveChannelID (app w) connectionID portID of
        None \<Rightarrow> False
      | Some channelID \<Rightarrow>
          (case GetChannel (core (ibc_state w)) portID channelID of
             Some channel \<Rightarrow> ch_State channel = CLOSED
           | None \<Rightarrow> False))"

definition ctrl_SetActiveChannelID :: "string \<Rightarrow> string \<Rightarrow> string \<Rightarrow> 'a ica_ctrl \<Rightarrow> 'a ica_ctrl" where
  "ctrl_SetActiveChannelID connectionID portID channelID st = ic_set (KeyActiveChannel portID connectionID) (IcaBz channelID) st"

definition ctrl_IsActiveChannel :: "'a ica_ctrl \<Rightarrow> string \<Rightarrow> string \<Rightarrow> bool" where
  "ctrl_IsActiveChannel st connectionID portID = (ctrl_GetActiveChannelID st connectionID portID \<noteq> None)"

definition ctrl_GetInterchainAccountAddress :: "'a ica_ctrl \<Rightarrow> string \<Rightarrow> string \<Rightarrow> string option" where
  "ctrl_GetInterchainAccountAddress st connectionID portID = ica_get (ic_store st) (KeyOwnerAccount portID connectionID)"

definition ctrl_GetAllInterchainAccounts :: "'a ica_ctrl \<Rightarrow> RegisteredInterchainAccount list result" where
  "ctrl_GetAllInterchainAccounts st =
     collect (\<lambda>kv. and_then (split_entry kv) (\<lambda>(portID, connectionID, address).
         Inr \<lparr>ra_ConnectionId = connectionID, ra_PortId = portID, ra_AccountAddress = address\<rparr>))
       (prefix_values (ic_store st) OwnerKeyPrefix)"

definition ctrl_SetInterchainAccountAddress :: "string \<Rightarrow> string \<Rightarrow> string \<Rightarrow> 'a ica_ctrl \<Rightarrow> 'a ica_ctrl" where
  "ctrl_SetInterchainAccountAddress connectionID portID address st = ic_set (KeyOwnerAccount portID connectionID) (IcaBz address) st"

definition IsMiddlewareEnabled :: "'a ica_ctrl \<Rightarrow> string \<Rightarrow> string \<Rightarrow> bool" where
  "IsMiddlewareEnabled st portID connectionID = (ica_get (ic_store st) (KeyIsMiddlewareEnabled portID connectionID) = Some MiddlewareEnabled)"

definition IsMiddlewareDisabled :: "'a ica_ctrl \<Rightarrow> string \<Rightarrow> string \<Rightarrow> bool" where
  "IsMiddlewareDisabled st portID connectionID = (ica_get (ic_store st) (KeyIsMiddlewareEnabled portID connectionID) = Some MiddlewareDisabled)"

definition SetMiddlewareEnabled :: "string \<Rightarrow> string \<Rightarrow> 'a ica_ctrl \<Rightarrow> 'a ica_ctrl" where
  "SetMiddlewareEnabled portID connectionID st = ic_set (KeyIsMiddlewareEnabled portID connectionID) (IcaBz MiddlewareEnabled) st"

definition SetMiddlewareDisabled :: "string \<Rightarrow> string \<Rightarrow> 'a ica_ctrl \<Rightarrow> 'a ica_ctrl" where
  "SetMiddlewareDisabled portID connectionID st = ic_set (KeyIsMiddlewareEnabled portID connectionID) (IcaBz MiddlewareDisabled) st"

definition DeleteMiddlewareEnabled :: "string \<Rightarrow> string \<Rightarrow> 'a ica_ctrl \<Rightarrow> 'a ica_ctrl" where
  "DeleteMiddlewareEnabled portID connectionID st = st\<lparr>ic_store := fmdrop (KeyIsMiddlewareEnabled portID connectionID) (ic_store st)\<rparr>"

definition ctrl_GetAllActiveChannels :: "'a ica_ctrl \<Rightarrow> ActiveChannel list result" where
  "ctrl_GetAllActiveChannels st =
     collect (\<lambda>kv. and_then (split_entry kv) (\<lambda>(portID, connectionID, channelID).
         Inr \<lparr>ac_ConnectionId = connectionID, ac_PortId = portID, ac_ChannelId = channelID,
              ac_IsMiddlewareEnabled = IsMiddlewareEnabled st portID connectionID\<rparr>))
       (prefix_values (ic_store st) ActiveChannelKeyPrefix)"

definition ctrl_GetParams :: "'a ica_ctrl \<Rightarrow> controller_Params result" where
  "ctrl_GetParams st =
     (case fmlookup (ic_store st) ica_ParamsKey of
        Some (IcaParamsBz params) \<Rightarrow> Inr params
      | _ \<Rightarrow> Inl (Panic ''ica/controller params are not set in store''))"

definition ctrl_SetParams :: "controller_Params \<Rightarrow> 'a ica_ctrl \<Rightarrow> 'a ica_ctrl" where
  "ctrl_SetParams params st = ic_set ica_ParamsKey (IcaParamsBz params) st"

section \<open>Registration\<close>

definition bind_if_unbound :: "u64 \<Rightarrow> string \<Rightarrow> 'a ica_ctrl world \<Rightarrow> 'a ica_ctrl world result" where
  "bind_if_unbound addr portID w =
     and_then (IsBound (caps (ibc_state w)) portID) (\<lambda>bound.
     if bound then
       and_then (ctrl_hasCapability (caps (ibc_state w)) portID) (\<lambda>has. if \<not> has then Inl ica_ErrPortAlreadyBound else Inr w)
     else
       and_then (ctrl_BindPort addr portID w) (\<lambda>(capability, w1). ctrl_ClaimCapability (Some capability) (PortPath portID) w1))"

text \<open>
  The source takes the handler of \<open>MsgChannelOpenInit\<close> from the message router of the application; the
  handler registered there is the one of the core message server, which is called directly.
\<close>

definition registerInterchainAccount ::
  "'m ctrl_keeper \<Rightarrow> 'a ica_ctrl server \<Rightarrow> sdk_context \<Rightarrow> u64 \<Rightarrow> u64 \<Rightarrow> string \<Rightarrow> string \<Rightarrow> string \<Rightarrow> 'a ica_ctrl world \<Rightarrow>
     (string \<times> 'a ica_ctrl world) result" where
  "registerInterchainAccount k sv ctx addr addr' connectionID portID version w =
     (if ctrl_GetOpenActiveChannel w connectionID portID \<noteq> None then Inl ica_ErrActiveChannelAlreadySet
      else
        and_then (bind_if_unbound addr portID w) (\<lambda>w1.
        let msg = NewMsgChannelOpenInit portID version ORDERED [connectionID] HostPortID (ck_address k) in
        and_then (msg_ChannelOpenInit sv ctx addr' msg w1) (\<lambda>((channelID, _), w2). Inr (channelID, w2))))"

definition RegisterInterchainAccount_legacy ::
  "'m ctrl_keeper \<Rightarrow> 'a ica_ctrl server \<Rightarrow> sdk_context \<Rightarrow> u64 \<Rightarrow> u64 \<Rightarrow> string \<Rightarrow> string \<Rightarrow> string \<Rightarrow> 'a ica_ctrl world \<Rightarrow> 'a ica_ctrl world result" where
  "RegisterInterchainAccount_legacy k sv ctx addr addr' connectionID owner version w =
     and_then (NewControllerPortID owner) (\<lambda>portID.
     if IsMiddlewareDisabled (app w) portID connectionID \<and> \<not> ctrl_IsActiveChannelClosed w connectionID portID
     then Inl ica_ErrInvalidChannelFlow
     else
       let w1 = w\<lparr>app := SetMiddlewareEnabled portID connectionID (app w)\<rparr> in
       and_then (registerInterchainAccount k sv ctx addr addr' connectionID portID version w1) (\<lambda>(_, w2). Inr w2))"

definition msg_RegisterInterchainAccount ::
  "'m ctrl_keeper \<Rightarrow> 'a ica_ctrl server \<Rightarrow> sdk_context \<Rightarrow> u64 \<Rightarrow> u64 \<Rightarrow> MsgRegisterInterchainAccount \<Rightarrow> 'a ica_ctrl world \<Rightarrow>
     ((string \<times> string) \<times> 'a ica_ctrl world) result" where
  "msg_RegisterInterchainAccount k sv ctx addr addr' msg w =
     and_then (NewControllerPortID (mri_Owner msg)) (\<lambda>portID.
     if IsMiddlewareEnabled (app w) portID (mri_ConnectionId msg) \<and> \<not> ctrl_IsActiveChannelClosed w (mri_ConnectionId msg) portID
     then Inl ica_ErrInvalidChannelFlow
     else
       let w1 = w\<lparr>app := SetMiddlewareDisabled portID (mri_ConnectionId msg) (app w)\<rparr> in
       and_then (registerInterchainAccount k sv ctx addr addr' (mri_ConnectionId msg) portID (mri_Version msg) w1) (\<lambda>(channelID, w2).
       Inr ((channelID, portID), w2)))"

section \<open>Sending\<close>

definition sendTx ::
  "'m ctrl_keeper \<Rightarrow> sdk_context \<Rightarrow> string \<Rightarrow> string \<Rightarrow> InterchainAccountPacketData \<Rightarrow> u64 \<Rightarrow> 'a ica_ctrl world \<Rightarrow> (u64 \<times> 'a ica_ctrl world) result" where
  "sendTx k ctx connectionID portID icaPacketData timeoutTimestamp w =
     (case ctrl_GetOpenActiveChannel w connectionID portID of
        None \<Rightarrow> Inl ica_ErrActiveChannelNotFound
      | Some activeChannelID \<Rightarrow>
          and_then (GetCapability controller_SubModuleName (caps (ibc_state w)) (ChannelCapabilityPath portID activeChannelID)) (\<lambda>found.
          case found of
            None \<Rightarrow> Inl capability_ErrCapabilityNotFound
          | Some chanCap \<Rightarrow>
              if UnixNano64 (BlockTime ctx) \<ge> timeoutTimestamp then Inl ica_ErrInvalidTimeoutTimestamp
              else
                and_then (ipd_ValidateBasic icaPacketData) (\<lambda>_.
                and_then (SendPacket ctx (Some chanCap) portID activeChannelID ZeroHeight timeoutTimestamp
                  (ipd_GetBytes (ck_lib k) icaPacketData) (ibc_state w)) (\<lambda>(sequence, st).
                Inr (sequence, w\<lparr>ibc_state := st\<rparr>)))))"

definition SendTx_legacy ::
  "'m ctrl_keeper \<Rightarrow> sdk_context \<Rightarrow> Capability option \<Rightarrow> string \<Rightarrow> string \<Rightarrow> InterchainAccountPacketData \<Rightarrow> u64 \<Rightarrow> 'a ica_ctrl world \<Rightarrow>
     (u64 \<times> 'a ica_ctrl world) result" where
  "SendTx_legacy k ctx chanCap connectionID portID icaPacketData timeoutTimestamp w =
     sendTx k ctx connectionID portID icaPacketData timeoutTimestamp w"

text \<open>The sum of the block time and the relative timeout wraps around at 64 bits.\<close>

definition msg_SendTx :: "'m ctrl_keeper \<Rightarrow> sdk_context \<Rightarrow> MsgSendTx \<Rightarrow> 'a ica_ctrl world \<Rightarrow> (u64 \<times> 'a ica_ctrl world) result" where
  "msg_SendTx k ctx msg w =
     and_then (NewControllerPortID (mst_Owner msg)) (\<lambda>portID.
     let absoluteTimeout = UnixNano64 (BlockTime ctx) + mst_RelativeTimeout msg in
     sendTx k ctx (mst_ConnectionId msg) portID (mst_PacketData msg) absoluteTimeout w)"

definition ctrl_UpdateParams :: "'m ctrl_keeper \<Rightarrow> controller_MsgUpdateParams \<Rightarrow> 'a ica_ctrl world \<Rightarrow> 'a ica_ctrl world result" where
  "ctrl_UpdateParams k msg w =
     (if ck_authority k \<noteq> cup_Authority msg then Inl ibcerrors_ErrUnauthorized
      else Inr (w\<lparr>app := ctrl_SetParams (cup_Params msg) (app w)\<rparr>))"

definition ctrl_OnTimeoutPacket_keeper :: "Packet \<Rightarrow> 'a ica_ctrl world \<Rightarrow> 'a ica_ctrl world result" where
  "ctrl_OnTimeoutPacket_keeper packet w = Inr w"

section \<open>Handshake\<close>

definition ctrl_OnChanOpenInit_keeper ::
  "'m ctrl_keeper \<Rightarrow> Order \<Rightarrow> string list \<Rightarrow> string \<Rightarrow> Counterparty \<Rightarrow> string \<Rightarrow> 'a ica_ctrl world \<Rightarrow> string result" where
  "ctrl_OnChanOpenInit_keeper k order connectionHops portID counterparty version w =
     (if order \<noteq> ORDERED then Inl channel_ErrInvalidChannelOrdering
      else if \<not> HasPrefix portID ControllerPortPrefix then Inl ica_ErrInvalidControllerPort
      else if PortId counterparty \<noteq> HostPortID then Inl ica_ErrInvalidHostPort
      else
        and_then (if is_blank version then
            and_then (first_hop connectionHops) (\<lambda>hop.
            and_then (chan_GetConnection (core (ibc_state w)) hop) (\<lambda>connection.
            Inr (NewDefaultMetadata hop (cp_ConnectionId (conn_Counterparty connection)))))
          else case UnmarshalIcaMetadata (ck_lib k) version of None \<Rightarrow> Inl ica_ErrUnknownDataType | Some m \<Rightarrow> Inr m) (\<lambda>metadata.
        and_then (ValidateControllerMetadata (core (ibc_state w)) connectionHops metadata) (\<lambda>_.
        and_then (first_hop connectionHops) (\<lambda>hop.
        and_then (check_active_channel (ck_lib k) (core (ibc_state w)) portID (ctrl_GetActiveChannelID (app w) hop portID) metadata) (\<lambda>_.
        must (MarshalIcaMetadata (ck_lib k) metadata))))))"

definition ctrl_OnChanOpenAck_keeper ::
  "'m ctrl_keeper \<Rightarrow> string \<Rightarrow> string \<Rightarrow> string \<Rightarrow> 'a ica_ctrl world \<Rightarrow> 'a ica_ctrl world result" where
  "ctrl_OnChanOpenAck_keeper k portID channelID counterpartyVersion w =
     (if portID = HostPortID then Inl ica_ErrInvalidControllerPort
      else if \<not> HasPrefix portID ControllerPortPrefix then Inl ica_ErrInvalidControllerPort
      else case UnmarshalIcaMetadata (ck_lib k) counterpartyVersion of
        None \<Rightarrow> Inl ica_ErrUnknownDataType
      | Some metadata \<Rightarrow>
          if ctrl_GetOpenActiveChannel w (md_ControllerConnectionId metadata) portID \<noteq> None then Inl ica_ErrActiveChannelAlreadySet
          else case GetChannel (core (ibc_state w)) portID channelID of
            None \<Rightarrow> Inl channel_ErrChannelNotFound
          | Some channel \<Rightarrow>
              and_then (ValidateControllerMetadata (core (ibc_state w)) (ch_ConnectionHops channel) metadata) (\<lambda>_.
              if is_blank (md_Address metadata) then Inl ica_ErrInvalidAccountAddress
              else Inr (w\<lparr>app := ctrl_SetInterchainAccountAddress (md_ControllerConnectionId metadata) portID (md_Address metadata)
                      (ctrl_SetActiveChannelID (md_ControllerConnectionId metadata) portID channelID (app w))\<rparr>)))"

definition ctrl_OnChanCloseConfirm_keeper :: "string \<Rightarrow> string \<Rightarrow> 'a ica_ctrl world \<Rightarrow> 'a ica_ctrl world result" where
  "ctrl_OnChanCloseConfirm_keeper portID channelID w = Inr w"

section \<open>Callbacks\<close>

text \<open>The authentication module runs on its part of the state.\<close>

definition ctrl_lower :: "'a ica_ctrl world \<Rightarrow> 'a world" where
  "ctrl_lower w = \<lparr>ibc_state = ibc_state w, app = ic_app (app w)\<rparr>"

definition ctrl_raise :: "'a ica_ctrl world \<Rightarrow> 'a world \<Rightarrow> 'a ica_ctrl world" where
  "ctrl_raise w w' = \<lparr>ibc_state = ibc_state w', app = (app w)\<lparr>ic_app := app w'\<rparr>\<rparr>"

text \<open>\<open>if im.app != nil && im.keeper.IsMiddlewareEnabled(ctx, portID, connectionID)\<close>\<close>

definition when_enabled ::
  "'a IBCModule option \<Rightarrow> string \<Rightarrow> string \<Rightarrow> ('a IBCModule \<Rightarrow> 'a world \<Rightarrow> 'a world result) \<Rightarrow> 'a ica_ctrl world \<Rightarrow> 'a ica_ctrl world result" where
  "when_enabled auth portID connectionID f w =
     (case auth of
        Some cbs \<Rightarrow>
          if IsMiddlewareEnabled (app w) portID connectionID
          then and_then (f cbs (ctrl_lower w)) (\<lambda>w'. Inr (ctrl_raise w w'))
          else Inr w
      | None \<Rightarrow> Inr w)"

definition ctrl_OnChanOpenInit ::
  "'m ctrl_keeper \<Rightarrow> 'a IBCModule option \<Rightarrow> sdk_context \<Rightarrow> Order \<Rightarrow> string list \<Rightarrow> string \<Rightarrow> string \<Rightarrow> Capability option \<Rightarrow> Counterparty \<Rightarrow> string \<Rightarrow>
     'a ica_ctrl world \<Rightarrow> (string \<times> 'a ica_ctrl world) result" where
  "ctrl_OnChanOpenInit k auth ctx order connectionHops portID channelID chanCap counterparty version w =
     and_then (ctrl_GetParams (app w)) (\<lambda>params.
     if \<not> ControllerEnabled params then Inl icacontroller_ErrControllerSubModuleDisabled
     else
       and_then (ctrl_OnChanOpenInit_keeper k order connectionHops portID counterparty version w) (\<lambda>version'.
       and_then (ctrl_ClaimCapability chanCap (ChannelCapabilityPath portID channelID) w) (\<lambda>w1.
       and_then (first_hop connectionHops) (\<lambda>hop.
       and_then (when_enabled auth portID hop (\<lambda>cbs w'.
           and_then (OnChanOpenInit cbs ctx order connectionHops portID channelID None counterparty version' w') (\<lambda>(_, w''). Inr w'')) w1)
         (\<lambda>w2. Inr (version', w2))))))"

definition ctrl_OnChanOpenAck ::
  "'m ctrl_keeper \<Rightarrow> 'a IBCModule option \<Rightarrow> sdk_context \<Rightarrow> string \<Rightarrow> string \<Rightarrow> string \<Rightarrow> string \<Rightarrow> 'a ica_ctrl world \<Rightarrow> 'a ica_ctrl world result" where
  "ctrl_OnChanOpenAck k auth ctx portID channelID counterpartyChannelID counterpartyVersion w =
     and_then (ctrl_GetParams (app w)) (\<lambda>params.
     if \<not> ControllerEnabled params then Inl icacontroller_ErrControllerSubModuleDisabled
     else
       and_then (ctrl_OnChanOpenAck_keeper k portID channelID counterpartyVersion w) (\<lambda>w1.
       and_then (ctrl_GetConnectionID (core (ibc_state w1)) portID channelID) (\<lambda>connectionID.
       when_enabled auth portID connectionID (\<lambda>cbs. OnChanOpenAck cbs ctx portID channelID counterpartyChannelID counterpartyVersion) w1)))"

definition ctrl_OnChanCloseConfirm ::
  "'a IBCModule option \<Rightarrow> sdk_context \<Rightarrow> string \<Rightarrow> string \<Rightarrow> 'a ica_ctrl world \<Rightarrow> 'a ica_ctrl world result" where
  "ctrl_OnChanCloseConfirm auth ctx portID channelID w =
     and_then (ctrl_OnChanCloseConfirm_keeper portID channelID w) (\<lambda>w1.
     and_then (ctrl_GetConnectionID (core (ibc_state w1)) portID channelID) (\<lambda>connectionID.
     when_enabled auth portID connectionID (\<lambda>cbs. OnChanCloseConfirm cbs ctx portID channelID) w1))"

definition ctrl_OnRecvPacket :: "'m ctrl_keeper \<Rightarrow> Packet \<Rightarrow> 'a ica_ctrl world \<Rightarrow> (app_ack option \<times> 'a ica_ctrl world) result" where
  "ctrl_OnRecvPacket k packet w =
     (let sdk = il_sdk (ck_lib k) in Inr (Some (ack_of sdk (NewErrorAcknowledgement (ABCICode sdk) ica_ErrInvalidChannelFlow)), w))"

definition ctrl_OnAcknowledgementPacket ::
  "'a IBCModule option \<Rightarrow> sdk_context \<Rightarrow> Packet \<Rightarrow> bytes \<Rightarrow> bytes \<Rightarrow> 'a ica_ctrl world \<Rightarrow> 'a ica_ctrl world result" where
  "ctrl_OnAcknowledgementPacket auth ctx packet acknowledgement relayer w =
     and_then (ctrl_GetParams (app w)) (\<lambda>params.
     if \<not> ControllerEnabled params then Inl icacontroller_ErrControllerSubModuleDisabled
     else
       and_then (ctrl_GetConnectionID (core (ibc_state w)) (SourcePort packet) (SourceChannel packet)) (\<lambda>connectionID.
       when_enabled auth (SourcePort packet) connectionID (\<lambda>cbs. OnAcknowledgementPacket cbs ctx packet acknowledgement relayer) w))"

definition ctrl_OnTimeoutPacket ::
  "'a IBCModule option \<Rightarrow> sdk_context \<Rightarrow> Packet \<Rightarrow> bytes \<Rightarrow> 'a ica_ctrl world \<Rightarrow> 'a ica_ctrl world result" where
  "ctrl_OnTimeoutPacket auth ctx packet relayer w =
     and_then (ctrl_GetParams (app w)) (\<lambda>params.
     if \<not> ControllerEnabled params then Inl icacontroller_ErrControllerSubModuleDisabled
     else
       and_then (ctrl_OnTimeoutPacket_keeper packet w) (\<lambda>w1.
       and_then (ctrl_GetConnectionID (core (ibc_state w1)) (SourcePort packet) (SourceChannel packet)) (\<lambda>connectionID.
       when_enabled auth (SourcePort packet) connectionID (\<lambda>cbs. OnTimeoutPacket cbs ctx packet relayer) w1)))"

definition controller_module :: "'m ctrl_keeper \<Rightarrow> 'a IBCModule option \<Rightarrow> 'a ica_ctrl IBCModule" where
  "controller_module k auth =
     \<lparr>OnChanOpenInit = ctrl_OnChanOpenInit k auth,
      OnChanOpenTry = \<lambda>ctx order hops portID channelID chanCap cp version w. Inl ica_ErrInvalidChannelFlow,
      OnChanOpenAck = ctrl_OnChanOpenAck k auth,
      OnChanOpenConfirm = \<lambda>ctx portID channelID w. Inl ica_ErrInvalidChannelFlow,
      OnChanCloseInit = \<lambda>ctx portID channelID w. Inl ibcerrors_ErrInvalidRequest,
      OnChanCloseConfirm = ctrl_OnChanCloseConfirm auth,
      OnRecvPacket = \<lambda>ctx packet relayer. ctrl_OnRecvPacket k packet,
      OnAcknowledgementPacket = ctrl_OnAcknowledgementPacket auth,
      OnTimeoutPacket = ctrl_OnTimeoutPacket auth\<rparr>"

text \<open>The ICS-4 wrapper of the middleware refuses to send and to acknowledge.\<close>

definition ctrl_SendPacket ::
  "Capability option \<Rightarrow> string \<Rightarrow> string \<Rightarrow> Height \<Rightarrow> u64 \<Rightarrow> bytes \<Rightarrow> 'a ica_ctrl world \<Rightarrow> (u64 \<times> 'a ica_ctrl world) result" where
  "ctrl_SendPacket chanCap sourcePort sourceChannel timeoutHeight timeoutTimestamp data w = Inl (Panic ''SendPacket not supported for ICA controller module. Please use SendTx'')"

definition ctrl_WriteAcknowledgement :: "Capability option \<Rightarrow> Packet \<Rightarrow> app_ack \<Rightarrow> 'a ica_ctrl world \<Rightarrow> 'a ica_ctrl world result" where
  "ctrl_WriteAcknowledgement chanCap packet ack w = Inl (Panic ''WriteAcknowledgement not supported for ICA controller module'')"

definition ctrl_GetAppVersion :: "'a ica_ctrl world \<Rightarrow> string \<Rightarrow> string \<Rightarrow> string option" where
  "ctrl_GetAppVersion w portID channelID = GetAppVersion (core (ibc_state w)) portID channelID"

section \<open>Genesis and migration\<close>

fun init_ports :: "u64 list \<Rightarrow> string list \<Rightarrow> 'a ica_ctrl world \<Rightarrow> 'a ica_ctrl world result" where
  "init_ports addrs [] w = Inr w"
| "init_ports addrs (portID # ports) w =
     and_then (ctrl_hasCapability (caps (ibc_state w)) portID) (\<lambda>has.
     if has then init_ports (drop 1 addrs) ports w
     else
       and_then (ctrl_BindPort (if addrs = [] then 0 else addrs ! 0) portID w) (\<lambda>(capability, w1).
       and_then (must (ctrl_ClaimCapability (Some capability) (PortPath portID) w1)) (\<lambda>w2.
       init_ports (drop 1 addrs) ports w2)))"

definition init_channel :: "ActiveChannel \<Rightarrow> 'a ica_ctrl \<Rightarrow> 'a ica_ctrl" where
  "init_channel ch st =
     (let st1 = ctrl_SetActiveChannelID (ac_ConnectionId ch) (ac_PortId ch) (ac_ChannelId ch) st in
      if ac_IsMiddlewareEnabled ch then SetMiddlewareEnabled (ac_PortId ch) (ac_ConnectionId ch) st1
      else SetMiddlewareDisabled (ac_PortId ch) (ac_ConnectionId ch) st1)"

definition ctrl_InitGenesis :: "u64 list \<Rightarrow> ControllerGenesisState \<Rightarrow> 'a ica_ctrl world \<Rightarrow> 'a ica_ctrl world result" where
  "ctrl_InitGenesis addrs gs w =
     and_then (init_ports addrs (cg_Ports gs) w) (\<lambda>w1.
     let st1 = fold init_channel (cg_ActiveChannels gs) (app w1);
         st2 = fold (\<lambda>acc. ctrl_SetInterchainAccountAddress (ra_ConnectionId acc) (ra_PortId acc) (ra_AccountAddress acc))
                 (cg_InterchainAccounts gs) st1 in
     Inr (w1\<lparr>app := ctrl_SetParams (cg_Params gs) st2\<rparr>))"

definition ctrl_ExportGenesis :: "'a ica_ctrl \<Rightarrow> ControllerGenesisState result" where
  "ctrl_ExportGenesis st =
     and_then (ctrl_GetAllActiveChannels st) (\<lambda>channels.
     and_then (ctrl_GetAllInterchainAccounts st) (\<lambda>accounts.
     and_then (ctrl_GetAllPorts st) (\<lambda>ports.
     and_then (ctrl_GetParams st) (\<lambda>params.
     Inr \<lparr>cg_ActiveChannels = channels, cg_InterchainAccounts = accounts, cg_Ports = ports, cg_Params = params\<rparr>))))"

text \<open>\<open>channels\<close> are the port, the identifier and the hops of the channels with the controller's port prefix.\<close>

fun AssertChannelCapabilityMigrations ::
  "(string \<times> string \<times> string list) list \<Rightarrow> 'a ica_ctrl world \<Rightarrow> 'a ica_ctrl world result" where
  "AssertChannelCapabilityMigrations [] w = Inr w"
| "AssertChannelCapabilityMigrations ((portID, channelID, hops) # channels) w =
     (let name = ChannelCapabilityPath portID channelID; c = caps (ibc_state w) in
      and_then (GetCapability controller_SubModuleName c name) (\<lambda>found.
      case found of
        None \<Rightarrow> Inl capability_ErrCapabilityNotFound
      | Some capability \<Rightarrow>
          if \<not> AuthenticateCapability controller_SubModuleName c (Some capability) name then Inl capability_ErrCapabilityNotOwned
          else
            and_then (first_hop hops) (\<lambda>hop.
            AssertChannelCapabilityMigrations channels (w\<lparr>app := SetMiddlewareEnabled portID hop (app w)\<rparr>))))"

end
