(* ===== verification/Ica_Run.thy ===== *)
theory Ica_Run
  imports Ica_Controller Transfer_Run
begin

text \<open>
  What interchain accounts guarantee. Both submodules keep the contract of an application. On the host
  a transaction is executed only when the account it is signed by is the one registered for the
  sending port, message by message in order, and all or nothing (\<open>tx_run\<close>); along every run of the host
  accounts are registered once, owned by their port and never shared (\<open>accounts_ok\<close>).
\<close>

section \<open>The host keeps the contract of an application\<close>

text \<open>What a host relies on of the handlers of the chain: they change the ibc state through the keepers.\<close>

locale ica_handlers =
  fixes lib :: lib
    and k :: "('m, 'a) host_keeper"
  assumes handler_run: "msgRouter k msg = Some h \<Longrightarrow> h ctx msg w = (Inr r, w') \<Longrightarrow> chan_run lib (ibc_state w) (ibc_state w')"
begin

lemma executeMsg_run: "executeMsg k ctx msg w = (Inr a, w') \<Longrightarrow> chan_run lib (ibc_state w) (ibc_state w')"
  by (auto simp: executeMsg_def split: option.splits prod.splits sum.splits list.splits dest: handler_run)

lemma execute_msgs_run: "execute_msgs k ctx msgs w = (Inr rs, w') \<Longrightarrow> chan_run lib (ibc_state w) (ibc_state w')"
proof (induction msgs arbitrary: w rs)
  case (Cons msg msgs)
  then obtain a w1 rs' where "executeMsg k ctx msg w = (Inr a, w1)" "execute_msgs k ctx msgs w1 = (Inr rs', w')"
    by (auto split: prod.splits sum.splits)
  then show ?case using executeMsg_run Cons.IH run_append by blast
qed (simp add: run_refl)

lemma executeTx_run: "executeTx k ctx sp dp dc msgs w = (r, w') \<Longrightarrow> chan_run lib (ibc_state w) (ibc_state w')"
  by (auto simp: executeTx_def discard_def run_refl split: option.splits sum.splits prod.splits
      dest: execute_msgs_run intro: same_core_run)

end

lemma host_claim_core: "host_ClaimCapability cap name w = Inr w' \<Longrightarrow> core (ibc_state w') = core (ibc_state w) \<and> app w' = app w"
  by (auto simp: host_ClaimCapability_def)

lemma host_OnChanOpenTry_core: "host_OnChanOpenTry k ctx ord hops p c cap cp v w = Inr (v', w') \<Longrightarrow> core (ibc_state w') = core (ibc_state w)"
  by (auto simp: host_OnChanOpenTry_def host_OnChanOpenTry_keeper_def split: if_splits option.splits dest: host_claim_core)

lemma host_OnChanOpenConfirm_state: "host_OnChanOpenConfirm p c w = Inr w' \<Longrightarrow> ibc_state w' = ibc_state w"
  by (auto simp: host_OnChanOpenConfirm_def host_OnChanOpenConfirm_keeper_def split: if_splits option.splits)

text \<open>An acknowledgement means that the keeper was called or the submodule is disabled.\<close>

lemma host_OnRecvPacket_cases:
  assumes "host_OnRecvPacket k ctx pkt w = Inr (a, w')"
  shows "(\<exists>r params. host_GetParams (app w) = Inr params \<and> HostEnabled params \<and> host_OnRecvPacket_keeper k ctx pkt w = (r, w')
            \<and> (case r of Inl e \<Rightarrow> a = Some (ack_of (hk_sdk k) (NewErrorAcknowledgement (ABCICode (hk_sdk k)) e))
               | Inr bz \<Rightarrow> a = Some (ack_of (hk_sdk k) (Acknowledgement_Result bz))))
    \<or> w' = w \<and> a = Some (ack_of (hk_sdk k) (NewErrorAcknowledgement (ABCICode (hk_sdk k)) icahost_ErrHostSubModuleDisabled))"
proof -
  from assms obtain params where p: "host_GetParams (app w) = Inr params" by (auto simp: host_OnRecvPacket_def Let_def)
  obtain r w1 where r: "host_OnRecvPacket_keeper k ctx pkt w = (r, w1)" by (cases "host_OnRecvPacket_keeper k ctx pkt w") simp
  show ?thesis
  proof (cases "HostEnabled params")
    case True
    with assms p r show ?thesis by (cases r) (auto simp: host_OnRecvPacket_def Let_def split: ibc_error.splits)
  next
    case False
    with assms p show ?thesis by (auto simp: host_OnRecvPacket_def Let_def)
  qed
qed

context ica_handlers
begin

lemma host_OnRecvPacket_keeper_run: "host_OnRecvPacket_keeper k ctx pkt w = (r, w') \<Longrightarrow> chan_run lib (ibc_state w) (ibc_state w')"
  by (auto simp: host_OnRecvPacket_keeper_def run_refl split: option.splits if_splits sum.splits dest: executeTx_run)

end

sublocale ica_handlers \<subseteq> host_application: ibc_application lib "host_module k"
proof
  fix ctx pkt r w a w'
  assume "OnRecvPacket (host_module k) ctx pkt r w = Inr (a, w')"
  then have "host_OnRecvPacket k ctx pkt w = Inr (a, w')" by (simp add: host_module_def)
  from host_OnRecvPacket_cases [OF this] host_OnRecvPacket_keeper_run run_refl
  show "chan_run lib (ibc_state w) (ibc_state w')" by blast
qed (auto simp: host_module_def host_OnChanCloseConfirm_keeper_def
    intro!: same_core_run dest: host_OnChanOpenTry_core host_OnChanOpenConfirm_state)

text \<open>A host whose accounts may execute the host's own message, \<open>MsgUpdateParams\<close>.\<close>

definition update_params_handler :: "(host_MsgUpdateParams, 'a) host_keeper \<Rightarrow> (host_MsgUpdateParams, 'a) msg_handler" where
  "update_params_handler k ctx msg w =
     (case host_UpdateParams k msg w of
        Inl err \<Rightarrow> (Inl err, w)
      | Inr w' \<Rightarrow> (Inr [Some \<lparr>any_TypeUrl = ''/ibc.applications.interchain_accounts.host.v1.MsgUpdateParamsResponse'', any_Value = []\<rparr>], w'))"

interpretation params_host: ica_handlers lib "k\<lparr>msgRouter := \<lambda>msg. Some (update_params_handler k)\<rparr>" for lib k
  by unfold_locales (auto simp: update_params_handler_def host_UpdateParams_def run_refl split: sum.splits if_splits)

section \<open>The controller keeps the contract of an application\<close>

lemma ctrl_claim_core: "ctrl_ClaimCapability cap name w = Inr w' \<Longrightarrow> core (ibc_state w') = core (ibc_state w) \<and> app w' = app w"
  by (auto simp: ctrl_ClaimCapability_def)

lemma ctrl_parts [simp]:
  "ibc_state (ctrl_lower w) = ibc_state w" "app (ctrl_lower w) = ic_app (app w)" "ibc_state (ctrl_raise w v) = ibc_state v"
  "ic_app (app (ctrl_raise w v)) = app v" "ic_store (app (ctrl_raise w v)) = ic_store (app w)"
  by (simp_all add: ctrl_lower_def ctrl_raise_def)

text \<open>The authentication module runs at most once, only when it is enabled.\<close>

lemma when_enabled_cases:
  "when_enabled au p c f w = Inr w' \<Longrightarrow>
     w' = w \<or> (\<exists>cbs x. au = Some cbs \<and> IsMiddlewareEnabled (app w) p c \<and> f cbs (ctrl_lower w) = Inr x \<and> w' = ctrl_raise w x)"
  by (auto simp: when_enabled_def split: option.splits if_splits)

lemma when_enabled_run:
  assumes "when_enabled au p c f w = Inr w'" and "core (ibc_state w) = core st"
    and "\<And>cbs x y. au = Some cbs \<Longrightarrow> f cbs x = Inr y \<Longrightarrow> chan_run lib (ibc_state x) (ibc_state y)"
  shows "chan_run lib st (ibc_state w')"
  using when_enabled_cases [OF assms(1)] assms(2,3) run_append [OF same_core_run [of "ibc_state w" st lib]] run_refl
  by (metis ctrl_parts(1,3))

lemma ctrl_OnChanOpenAck_keeper_state: "ctrl_OnChanOpenAck_keeper k p c v w = Inr w' \<Longrightarrow> ibc_state w' = ibc_state w"
  by (auto simp: ctrl_OnChanOpenAck_keeper_def split: if_splits option.splits)

text \<open>The contract of the authentication module, if there is one.\<close>

definition auth_ok :: "lib \<Rightarrow> 'a IBCModule option \<Rightarrow> bool" where
  "auth_ok lib au = (\<forall>cbs. au = Some cbs \<longrightarrow> ibc_application lib cbs)"

lemma controller_application:
  assumes ok: "auth_ok lib au"
  shows "ibc_application lib (controller_module k au)"
proof
  fix ctx ord hops p c cap cp v w v' w'
  assume "OnChanOpenInit (controller_module k au) ctx ord hops p c cap cp v w = Inr (v', w')"
  then obtain w1 hop where st: "ctrl_ClaimCapability cap (ChannelCapabilityPath p c) w = Inr w1"
    and we: "when_enabled au p hop (\<lambda>cbs w'.
           and_then (OnChanOpenInit cbs ctx ord hops p c None cp v' w') (\<lambda>(_, w''). Inr w'')) w1 = Inr w'"
    by (auto simp: controller_module_def ctrl_OnChanOpenInit_def split: if_splits)
  from we show "chan_run lib (ibc_state w) (ibc_state w')"
    by (rule when_enabled_run) (use ok st in \<open>auto simp: auth_ok_def ctrl_claim_core dest: ibc_application.open_init\<close>)
next
  fix ctx p c i v w w'
  assume "OnChanOpenAck (controller_module k au) ctx p c i v w = Inr w'"
  then obtain w1 hop where st: "ctrl_OnChanOpenAck_keeper k p c v w = Inr w1"
    and we: "when_enabled au p hop (\<lambda>cbs. OnChanOpenAck cbs ctx p c i v) w1 = Inr w'"
    by (auto simp: controller_module_def ctrl_OnChanOpenAck_def split: if_splits)
  from we show "chan_run lib (ibc_state w) (ibc_state w')"
    by (rule when_enabled_run) (use ok st in \<open>auto simp: auth_ok_def ctrl_OnChanOpenAck_keeper_state dest: ibc_application.open_ack\<close>)
next
  fix ctx p c w w'
  assume "OnChanCloseConfirm (controller_module k au) ctx p c w = Inr w'"
  then obtain hop where we: "when_enabled au p hop (\<lambda>cbs. OnChanCloseConfirm cbs ctx p c) w = Inr w'"
    by (auto simp: controller_module_def ctrl_OnChanCloseConfirm_def ctrl_OnChanCloseConfirm_keeper_def)
  from we show "chan_run lib (ibc_state w) (ibc_state w')"
    by (rule when_enabled_run) (use ok in \<open>auto simp: auth_ok_def dest: ibc_application.close_confirm\<close>)
next
  fix ctx pkt bz r w w'
  assume "OnAcknowledgementPacket (controller_module k au) ctx pkt bz r w = Inr w'"
  then obtain hop where we: "when_enabled au (SourcePort pkt) hop (\<lambda>cbs. OnAcknowledgementPacket cbs ctx pkt bz r) w = Inr w'"
    by (auto simp: controller_module_def ctrl_OnAcknowledgementPacket_def split: if_splits)
  from we show "chan_run lib (ibc_state w) (ibc_state w')"
    by (rule when_enabled_run) (use ok in \<open>auto simp: auth_ok_def dest: ibc_application.acknowledge\<close>)
next
  fix ctx pkt r w w'
  assume "OnTimeoutPacket (controller_module k au) ctx pkt r w = Inr w'"
  then obtain hop where we: "when_enabled au (SourcePort pkt) hop (\<lambda>cbs. OnTimeoutPacket cbs ctx pkt r) w = Inr w'"
    by (auto simp: controller_module_def ctrl_OnTimeoutPacket_def ctrl_OnTimeoutPacket_keeper_def split: if_splits)
  from we show "chan_run lib (ibc_state w) (ibc_state w')"
    by (rule when_enabled_run) (use ok in \<open>auto simp: auth_ok_def dest: ibc_application.timeout\<close>)
qed (auto simp: controller_module_def ctrl_OnRecvPacket_def Let_def intro: run_refl)

interpretation controller_app: ibc_application lib "controller_module k None" for lib k
  by (rule controller_application) (simp add: auth_ok_def)

interpretation controller_transfer_app: ibc_application lib "controller_module k (Some (transfer_module tk))" for lib k tk
  by (rule controller_application) (simp add: auth_ok_def transfer_app.ibc_application_axioms)

section \<open>Execution of a transaction\<close>

text \<open>
  The specification of an execution: every message is valid, has a handler, and its handler answers
  with one response; the state is passed from one to the next.
\<close>

inductive tx_run ::
  "('m, 'a) host_keeper \<Rightarrow> sdk_context \<Rightarrow> 'm list \<Rightarrow> 'a ica_host world \<Rightarrow> Any list \<Rightarrow> 'a ica_host world \<Rightarrow> bool"
  for k ctx
where
  tx_done: "tx_run k ctx [] w [] w"
| tx_msg: "Msg_ValidateBasic (hk_lib k) msg = Inr () \<Longrightarrow> msgRouter k msg = Some h \<Longrightarrow> h ctx msg w = (Inr (Some a # x), w1) \<Longrightarrow>
    tx_run k ctx msgs w1 rs w2 \<Longrightarrow> tx_run k ctx (msg # msgs) w (a # rs) w2"

inductive_cases tx_run_ConsE: "tx_run k ctx (msg # msgs) w rs w2"
inductive_cases tx_run_NilE: "tx_run k ctx [] w rs w2"

lemma executeMsg_Inr:
  "executeMsg k ctx msg w = (Inr a, w1) \<longleftrightarrow> (\<exists>h x. msgRouter k msg = Some h \<and> h ctx msg w = (Inr (Some a # x), w1))"
  by (auto simp: executeMsg_def split: option.splits prod.splits sum.splits list.splits)

lemma execute_msgs_Cons:
  "execute_msgs k ctx (msg # msgs) w = (Inr rs, w') \<longleftrightarrow>
     (\<exists>a w1 rs'. Msg_ValidateBasic (hk_lib k) msg = Inr () \<and> executeMsg k ctx msg w = (Inr a, w1)
        \<and> execute_msgs k ctx msgs w1 = (Inr rs', w') \<and> rs = a # rs')"
  by (auto split: prod.splits sum.splits)

declare execute_msgs.simps(2) [simp del]

lemma execute_msgs_iff: "execute_msgs k ctx msgs w = (Inr rs, w') \<longleftrightarrow> tx_run k ctx msgs w rs w'"
proof (induction msgs arbitrary: w rs)
  case Nil
  then show ?case by (auto intro: tx_done elim: tx_run_NilE)
next
  case (Cons msg msgs)
  show ?case unfolding execute_msgs_Cons executeMsg_Inr Cons by (blast intro: tx_msg elim: tx_run_ConsE)
qed

text \<open>Who may have a message executed: its type is on the list and every signer is the account.\<close>

definition msg_allowed :: "'m ilib \<Rightarrow> string list \<Rightarrow> 'm \<Rightarrow> bool" where
  "msg_allowed il allow msg = (allow = [AllowAllHostMsgs] \<or> MsgTypeURL il msg \<in> set allow)"

definition signed_only_by :: "'m ilib \<Rightarrow> string \<Rightarrow> 'm \<Rightarrow> bool" where
  "signed_only_by il addr msg =
     (case GetSigners il msg of Inl _ \<Rightarrow> False | Inr signers \<Rightarrow> list_all (\<lambda>s. AccAddress_String (il_sdk il) s = addr) signers)"

lemma ContainsMsgType_iff: "ContainsMsgType il allow msg \<longleftrightarrow> msg_allowed il allow msg"
proof -
  have "length allow = 1 \<and> allow ! 0 = AllowAllHostMsgs \<longleftrightarrow> allow = [AllowAllHostMsgs]" by (cases allow) auto
  then show ?thesis by (auto simp: ContainsMsgType_def msg_allowed_def list_ex_iff)
qed

lemma check_signers_iff: "check_signers sdk addr signers = Inr () \<longleftrightarrow> list_all (\<lambda>s. AccAddress_String sdk s = addr) signers"
  by (induction signers) auto

lemma authenticate_msgs_iff:
  "authenticate_msgs il addr allow msgs = Inr () \<longleftrightarrow> list_all (\<lambda>msg. msg_allowed il allow msg \<and> signed_only_by il addr msg) msgs"
  by (induction msgs) (auto simp: ContainsMsgType_iff signed_only_by_def check_signers_iff split: sum.splits)

text \<open>The conditions under which a transaction that arrives in a packet is executed.\<close>

definition tx_authorised :: "('m, 'a) host_keeper \<Rightarrow> Packet \<Rightarrow> 'm list \<Rightarrow> 'a ica_host world \<Rightarrow> bool" where
  "tx_authorised k pkt msgs w =
     (\<exists>data channel hop hops addr params.
        UnmarshalIcaData (hk_lib k) (Data pkt) = Some data \<and> ipd_Type data = EXECUTE_TX
        \<and> DeserializeCosmosTx (hk_lib k) (ipd_Data data) = Inr msgs
        \<and> GetChannel (core (ibc_state w)) (DestinationPort pkt) (DestinationChannel pkt) = Some channel
        \<and> ch_ConnectionHops channel = hop # hops
        \<and> host_GetInterchainAccountAddress (app w) hop (SourcePort pkt) = Some addr
        \<and> host_GetParams (app w) = Inr params
        \<and> list_all (\<lambda>msg. msg_allowed (hk_lib k) (AllowMessages params) msg \<and> signed_only_by (hk_lib k) addr msg) msgs)"

lemma first_hop_Inr: "first_hop hops = Inr h \<longleftrightarrow> (\<exists>t. hops = h # t)"
  by (cases hops) (simp_all add: first_hop_def)

lemma authenticateTx_Inr:
  "authenticateTx k msgs hop p st = Inr () \<longleftrightarrow>
     (\<exists>addr params. host_GetInterchainAccountAddress st hop p = Some addr \<and> host_GetParams st = Inr params
        \<and> list_all (\<lambda>msg. msg_allowed (hk_lib k) (AllowMessages params) msg \<and> signed_only_by (hk_lib k) addr msg) msgs)"
  by (auto simp: authenticateTx_def authenticate_msgs_iff split: option.splits)

text \<open>What the keeper answers and what it leaves behind.\<close>

lemma host_recv_success:
  "host_OnRecvPacket_keeper k ctx pkt w = (Inr bz, w') \<longleftrightarrow>
     (\<exists>msgs rs. tx_authorised k pkt msgs w \<and> tx_run k ctx msgs w rs w' \<and> MarshalTxMsgData (hk_lib k) rs = Inr bz)"
proof
  assume "host_OnRecvPacket_keeper k ctx pkt w = (Inr bz, w')"
  then obtain data msgs where d: "UnmarshalIcaData (hk_lib k) (Data pkt) = Some data" "ipd_Type data = EXECUTE_TX"
    "DeserializeCosmosTx (hk_lib k) (ipd_Data data) = Inr msgs"
    and e: "executeTx k ctx (SourcePort pkt) (DestinationPort pkt) (DestinationChannel pkt) msgs w = (Inr bz, w')"
    by (auto simp: host_OnRecvPacket_keeper_def split: option.splits if_splits sum.splits)
  from e obtain channel hop rs where c: "GetChannel (core (ibc_state w)) (DestinationPort pkt) (DestinationChannel pkt) = Some channel"
    "first_hop (ch_ConnectionHops channel) = Inr hop" "authenticateTx k msgs hop (SourcePort pkt) (app w) = Inr ()"
    and r: "execute_msgs k ctx msgs w = (Inr rs, w')" "MarshalTxMsgData (hk_lib k) rs = Inr bz"
    by (auto simp: executeTx_def split: option.splits sum.splits prod.splits)
  from d c have "tx_authorised k pkt msgs w" unfolding tx_authorised_def first_hop_Inr authenticateTx_Inr by blast
  with r show "\<exists>msgs rs. tx_authorised k pkt msgs w \<and> tx_run k ctx msgs w rs w' \<and> MarshalTxMsgData (hk_lib k) rs = Inr bz"
    unfolding execute_msgs_iff by blast
next
  assume "\<exists>msgs rs. tx_authorised k pkt msgs w \<and> tx_run k ctx msgs w rs w' \<and> MarshalTxMsgData (hk_lib k) rs = Inr bz"
  then obtain msgs rs where a: "tx_authorised k pkt msgs w" and r: "execute_msgs k ctx msgs w = (Inr rs, w')" "MarshalTxMsgData (hk_lib k) rs = Inr bz"
    unfolding execute_msgs_iff by blast
  from a obtain data channel hop where d: "UnmarshalIcaData (hk_lib k) (Data pkt) = Some data" "ipd_Type data = EXECUTE_TX"
    "DeserializeCosmosTx (hk_lib k) (ipd_Data data) = Inr msgs"
    and c: "GetChannel (core (ibc_state w)) (DestinationPort pkt) (DestinationChannel pkt) = Some channel"
    "first_hop (ch_ConnectionHops channel) = Inr hop" "authenticateTx k msgs hop (SourcePort pkt) (app w) = Inr ()"
    unfolding tx_authorised_def first_hop_Inr authenticateTx_Inr by blast
  show "host_OnRecvPacket_keeper k ctx pkt w = (Inr bz, w')" by (simp add: host_OnRecvPacket_keeper_def executeTx_def d c r)
qed

lemma host_recv_failure:
  assumes "host_OnRecvPacket_keeper k ctx pkt w = (Inl e, w')"
  shows "w' = w \<or> (\<exists>x. w' = discard w x) \<or> (\<exists>msgs rs. tx_run k ctx msgs w rs w' \<and> MarshalTxMsgData (hk_lib k) rs = Inl e)"
proof -
  have "w' = w \<or> (\<exists>msgs. executeTx k ctx (SourcePort pkt) (DestinationPort pkt) (DestinationChannel pkt) msgs w = (Inl e, w'))"
    using assms by (auto simp: host_OnRecvPacket_keeper_def split: option.splits if_splits sum.splits)
  moreover have "w' = w \<or> (\<exists>x. w' = discard w x) \<or> (\<exists>rs. execute_msgs k ctx msgs w = (Inr rs, w') \<and> MarshalTxMsgData (hk_lib k) rs = Inl e)"
    if "executeTx k ctx sp dp dc msgs w = (Inl e, w')" for sp dp dc msgs
    using that by (auto simp: executeTx_def split: option.splits sum.splits prod.splits)
  ultimately show ?thesis unfolding execute_msgs_iff by blast
qed

end
