(* ===== verification/Ica_Accounts.thy ===== *)
theory Ica_Accounts
  imports Ica_Run
begin

text \<open>
  Registered interchain accounts along the runs of a host. What the host relies on of the account
  keeper of the SDK is the locale \<open>account_keeper\<close>; under it a registration is for good, its address is
  an interchain account owned by the controller's port, and no two registrations share an address.
\<close>

section \<open>The account keeper\<close>

locale account_keeper =
  fixes k :: "('m, 'a) host_keeper"
  assumes get_set: "GetAccount k ctx a (SetAccount k ctx' acc s) =
      (if AccAddressFromBech32 (hk_sdk k) (ba_Address (ia_BaseAccount acc)) = Some a then Some (IcaAccount acc) else GetAccount k ctx a s)"
    and new_account: "NewAccount k ctx acc s = (acc', s') \<Longrightarrow> ba_Address (ia_BaseAccount acc') = ba_Address (ia_BaseAccount acc)
      \<and> ia_AccountOwner acc' = ia_AccountOwner acc \<and> GetAccount k ctx a s' = GetAccount k ctx a s"
    and same_state: "GetAccount k ctx a s = GetAccount k ctx' a s"
    and base_address: "ba_Address (NewBaseAccountWithAddress (hk_lib k) a) = AccAddress_String (hk_sdk k) a"
    and bech32_string: "a \<noteq> [] \<Longrightarrow> AccAddressFromBech32 (hk_sdk k) (AccAddress_String (hk_sdk k) a) = Some a"
    and derived: "address_Derive (hk_lib k) m key \<noteq> []"

text \<open>The rest of the chain never turns an interchain account into something else.\<close>

definition keeps_accounts :: "('m, 'a) host_keeper \<Rightarrow> 'a \<Rightarrow> 'a \<Rightarrow> bool" where
  "keeps_accounts k s s' =
     (\<forall>ctx a acc. GetAccount k ctx a s = Some (IcaAccount acc) \<longrightarrow>
        (\<exists>acc'. GetAccount k ctx a s' = Some (IcaAccount acc') \<and> ia_AccountOwner acc' = ia_AccountOwner acc))"

lemma keeps_accounts_refl [simp]: "keeps_accounts k s s"
  by (simp add: keeps_accounts_def)

lemma keeps_accounts_trans: "keeps_accounts k s t \<Longrightarrow> keeps_accounts k t u \<Longrightarrow> keeps_accounts k s u"
  unfolding keeps_accounts_def by metis

section \<open>The invariant\<close>

definition owned_account :: "('m, 'a) host_keeper \<Rightarrow> 'a \<Rightarrow> string \<Rightarrow> string \<Rightarrow> bool" where
  "owned_account k s addr p =
     (\<exists>a. addr = AccAddress_String (hk_sdk k) a \<and> AccAddressFromBech32 (hk_sdk k) addr = Some a
        \<and> (\<forall>ctx. \<exists>acc. GetAccount k ctx a s = Some (IcaAccount acc) \<and> ia_AccountOwner acc = p))"

definition accounts_ok :: "('m, 'a) host_keeper \<Rightarrow> 'a ica_host \<Rightarrow> bool" where
  "accounts_ok k st \<longleftrightarrow>
     (\<forall>p c addr. slash_free p \<and> host_GetInterchainAccountAddress st c p = Some addr \<longrightarrow> owned_account k (ih_app st) addr p)
     \<and> (\<forall>p q c d addr. slash_free p \<and> slash_free q \<and> host_GetInterchainAccountAddress st c p = Some addr
          \<and> host_GetInterchainAccountAddress st d q = Some addr \<longrightarrow> p = q \<and> c = d)"

text \<open>
  A step of the host: no registration is lost, accounts are kept, and at most one registration is
  added, for an address that had no account.
\<close>

definition accounts_step :: "('m, 'a) host_keeper \<Rightarrow> 'a ica_host \<Rightarrow> 'a ica_host \<Rightarrow> bool" where
  "accounts_step k st st' \<longleftrightarrow>
     keeps_accounts k (ih_app st) (ih_app st')
     \<and> ((\<forall>p c. host_GetInterchainAccountAddress st' c p = host_GetInterchainAccountAddress st c p)
        \<or> (\<exists>p c addr a. slash_free p \<and> host_GetInterchainAccountAddress st c p = None
             \<and> (\<forall>q d. host_GetInterchainAccountAddress st' d q =
                  (if KeyOwnerAccount q d = KeyOwnerAccount p c then Some addr else host_GetInterchainAccountAddress st d q))
             \<and> AccAddressFromBech32 (hk_sdk k) addr = Some a \<and> (\<forall>ctx. GetAccount k ctx a (ih_app st) = None)
             \<and> owned_account k (ih_app st') addr p))"

lemma owned_kept: "owned_account k s addr p \<Longrightarrow> keeps_accounts k s s' \<Longrightarrow> owned_account k s' addr p"
  unfolding owned_account_def keeps_accounts_def by metis

lemma owned_exists: "owned_account k s addr p \<Longrightarrow> AccAddressFromBech32 (hk_sdk k) addr = Some a \<Longrightarrow> GetAccount k ctx a s \<noteq> None"
  unfolding owned_account_def by force

lemma accounts_step_ok:
  assumes ok: "accounts_ok k st" and step: "accounts_step k st st'"
  shows "accounts_ok k st'"
proof -
  let ?get = host_GetInterchainAccountAddress
  from step have keep: "keeps_accounts k (ih_app st) (ih_app st')" by (simp add: accounts_step_def)
  from step consider (same) "\<forall>p c. ?get st' c p = ?get st c p"
    | (new) p c addr a where "slash_free p" "?get st c p = None"
        "\<forall>q d. ?get st' d q = (if KeyOwnerAccount q d = KeyOwnerAccount p c then Some addr else ?get st d q)"
        "AccAddressFromBech32 (hk_sdk k) addr = Some a" "\<forall>ctx. GetAccount k ctx a (ih_app st) = None" "owned_account k (ih_app st') addr p"
    unfolding accounts_step_def by blast
  then show ?thesis
  proof cases
    case same
    with ok keep show ?thesis unfolding accounts_ok_def by (metis owned_kept)
  next
    case new
    have get: "?get st' d q = (if q = p \<and> d = c then Some addr else ?get st d q)" if "slash_free q" for q d
      using new(3) ica_keys_inj(2) [OF that new(1)] by simp
    have fresh: "?get st d q \<noteq> Some addr" if "slash_free q" for q d
      using ok owned_exists [of k "ih_app st" addr q a] new(4,5) that unfolding accounts_ok_def by blast
    have "owned_account k (ih_app st') addr' q" if "slash_free q" "?get st' d q = Some addr'" for q d addr'
      using that get [of q d] new(6) ok keep owned_kept unfolding accounts_ok_def by (metis option.inject)
    moreover have "q = r \<and> d = e" if "slash_free q" "slash_free r" "?get st' d q = Some addr'" "?get st' e r = Some addr'" for q r d e addr'
      using that get [of q d] get [of r e] fresh [of q d] fresh [of r e] ok unfolding accounts_ok_def by (metis option.inject)
    ultimately show ?thesis unfolding accounts_ok_def by blast
  qed
qed

lemma accounts_step_keeps:
  assumes step: "accounts_step k st st'" and get: "host_GetInterchainAccountAddress st c p = Some addr"
  shows "host_GetInterchainAccountAddress st' c p = Some addr"
proof -
  have same: "host_GetInterchainAccountAddress st c p = host_GetInterchainAccountAddress st d q" if "KeyOwnerAccount p c = KeyOwnerAccount q d" for q d
    using that by (simp add: host_GetInterchainAccountAddress_def)
  from step show ?thesis unfolding accounts_step_def
  proof (elim conjE disjE exE)
    assume "\<forall>p c. host_GetInterchainAccountAddress st' c p = host_GetInterchainAccountAddress st c p"
    with get show ?thesis by simp
  next
    fix q d addr' a
    assume none: "host_GetInterchainAccountAddress st d q = None" and st': "\<forall>p c. host_GetInterchainAccountAddress st' c p =
        (if KeyOwnerAccount p c = KeyOwnerAccount q d then Some addr' else host_GetInterchainAccountAddress st c p)"
    have "KeyOwnerAccount p c \<noteq> KeyOwnerAccount q d" using same [of q d] none get by auto
    with st' get show ?thesis by simp
  qed
qed

section \<open>Operations of the host\<close>

lemma host_writes [simp]:
  "host_GetInterchainAccountAddress (host_SetActiveChannelID c p ch st) d q = host_GetInterchainAccountAddress st d q"
  "host_GetInterchainAccountAddress (host_SetParams ps st) d q = host_GetInterchainAccountAddress st d q"
  "host_GetInterchainAccountAddress (host_SetInterchainAccountAddress c p a st) d q =
     (if KeyOwnerAccount q d = KeyOwnerAccount p c then Some a else host_GetInterchainAccountAddress st d q)"
  "ih_app (host_SetActiveChannelID c p ch st) = ih_app st" "ih_app (host_SetParams ps st) = ih_app st"
  "ih_app (host_SetInterchainAccountAddress c p a st) = ih_app st"
  by (simp_all add: host_GetInterchainAccountAddress_def ica_get_def host_SetActiveChannelID_def host_SetParams_def
      host_SetInterchainAccountAddress_def ih_set_def)

lemma same_accounts:
  "ih_store st' = ih_store st \<Longrightarrow> keeps_accounts k (ih_app st) (ih_app st') \<Longrightarrow> accounts_step k st st'"
  "accounts_step k st (host_SetActiveChannelID c p ch st)" "accounts_step k st (host_SetParams ps st)" "accounts_step k st st"
  by (simp_all add: accounts_step_def) (simp add: host_GetInterchainAccountAddress_def)

context account_keeper
begin

lemma create_account:
  assumes "createInterchainAccount k ctx c p st = Inr (addr, st')" and "slash_free p" and "host_GetInterchainAccountAddress st c p = None"
  shows "accounts_step k st st'" and "host_GetInterchainAccountAddress st' c p = Some (AccAddress_String (hk_sdk k) addr)"
proof -
  obtain acc a1 where n: "NewAccount k ctx (NewInterchainAccount (NewBaseAccountWithAddress (hk_lib k) addr) p) (ih_app st) = (acc, a1)"
    by (cases "NewAccount k ctx (NewInterchainAccount (NewBaseAccountWithAddress (hk_lib k) addr) p) (ih_app st)") simp
  from assms(1) have a: "addr = GenerateAddress (hk_lib k) ctx c p" by (auto simp: createInterchainAccount_def Let_def split: if_splits prod.splits)
  with assms(1) n have none: "GetAccount k ctx addr (ih_app st) = None"
    and st': "st' = host_SetInterchainAccountAddress c p (ba_Address (ia_BaseAccount acc)) (st\<lparr>ih_app := SetAccount k ctx acc a1\<rparr>)"
    by (auto simp: createInterchainAccount_def Let_def split: if_splits)
  have acc: "ba_Address (ia_BaseAccount acc) = AccAddress_String (hk_sdk k) addr" "ia_AccountOwner acc = p"
    using new_account [OF n] by (simp_all add: NewInterchainAccount_def base_address)
  have a1: "GetAccount k cx b a1 = GetAccount k cx b (ih_app st)" for cx b
    using new_account [OF n, of b] same_state [of cx b a1 ctx] same_state [of cx b "ih_app st" ctx] by simp
  have bech: "AccAddressFromBech32 (hk_sdk k) (AccAddress_String (hk_sdk k) addr) = Some addr"
    using bech32_string derived by (simp add: a GenerateAddress_def Let_def)
  have get: "GetAccount k cx b (ih_app st') = (if b = addr then Some (IcaAccount acc) else GetAccount k cx b (ih_app st))" for cx b
    by (simp add: st' get_set acc bech a1)
  have nowhere: "GetAccount k cx addr (ih_app st) = None" for cx using none same_state [of cx addr "ih_app st" ctx] by simp
  then have "keeps_accounts k (ih_app st) (ih_app st')" by (auto simp: keeps_accounts_def get)
  moreover have "owned_account k (ih_app st') (AccAddress_String (hk_sdk k) addr) p" by (simp add: owned_account_def bech get acc)
  moreover have g: "host_GetInterchainAccountAddress st' d q = (if KeyOwnerAccount q d = KeyOwnerAccount p c
      then Some (AccAddress_String (hk_sdk k) addr) else host_GetInterchainAccountAddress st d q)" for d q
    by (simp add: st' acc) (simp add: host_GetInterchainAccountAddress_def)
  ultimately show "accounts_step k st st'" unfolding accounts_step_def using assms(2,3) bech nowhere by blast
  show "host_GetInterchainAccountAddress st' c p = Some (AccAddress_String (hk_sdk k) addr)" by (simp add: g)
qed

lemma open_try_accounts:
  assumes "host_OnChanOpenTry k ctx ord hops p c cap cp v w = Inr (v', w')" and "slash_free (PortId cp)"
  shows "accounts_step k (app w) (app w')"
proof -
  from assms(1) obtain w1 con addr st where "host_ClaimCapability cap (ChannelCapabilityPath p c) w = Inr w1"
    and r: "reopen_or_create k ctx con (PortId cp) (app w1) = Inr (addr, st)" and w': "w' = w1\<lparr>app := st\<rparr>"
    by (auto simp: host_OnChanOpenTry_def host_OnChanOpenTry_keeper_def split: if_splits option.splits)
  then have "app w1 = app w" using host_claim_core by blast
  with r have "st = app w \<or> host_GetInterchainAccountAddress (app w) con (PortId cp) = None
    \<and> createInterchainAccount k ctx con (PortId cp) (app w) = Inr (addr, st)"
    by (auto simp: reopen_or_create_def split: option.splits account.splits)
  with create_account assms(2) same_accounts(4) show ?thesis unfolding w' by auto
qed

end

section \<open>Runs\<close>

text \<open>
  The steps of a host other than the execution of transactions: its callbacks, its message, and
  whatever the rest of the chain does without changing the store of the host.
\<close>

inductive host_step :: "('m, 'a) host_keeper \<Rightarrow> 'a ica_host world \<Rightarrow> 'a ica_host world \<Rightarrow> bool"
  for k
where
  host_try: "host_OnChanOpenTry k ctx ord hops p c cap cp v w = Inr (v', w') \<Longrightarrow> slash_free (PortId cp) \<Longrightarrow> host_step k w w'"
| host_confirm: "host_OnChanOpenConfirm p c w = Inr w' \<Longrightarrow> host_step k w w'"
| host_params: "host_UpdateParams k msg w = Inr w' \<Longrightarrow> host_step k w w'"
| host_others: "ih_store (app w') = ih_store (app w) \<Longrightarrow> keeps_accounts k (ih_app (app w)) (ih_app (app w')) \<Longrightarrow> host_step k w w'"

text \<open>The messages a transaction may contain are themselves made of such steps.\<close>

definition handlers_step :: "('m, 'a) host_keeper \<Rightarrow> bool" where
  "handlers_step k = (\<forall>msg h ctx w r w'. msgRouter k msg = Some h \<and> h ctx msg w = (Inr r, w') \<longrightarrow> (host_step k)\<^sup>*\<^sup>* w w')"

inductive host_trace :: "('m, 'a) host_keeper \<Rightarrow> 'a ica_host world \<Rightarrow> 'a ica_host world \<Rightarrow> bool"
  for k
where
  trace_refl: "host_trace k w w"
| trace_step: "host_trace k w w1 \<Longrightarrow> host_step k w1 w2 \<Longrightarrow> host_trace k w w2"
| trace_recv: "host_trace k w w1 \<Longrightarrow> host_OnRecvPacket k ctx pkt w1 = Inr (a, w2) \<Longrightarrow> host_trace k w w2"

lemma discard_parts [simp]: "app (discard w x) = app w"
  by (simp add: discard_def)

lemma tx_run_steps: "tx_run k ctx msgs w rs w' \<Longrightarrow> handlers_step k \<Longrightarrow> (host_step k)\<^sup>*\<^sup>* w w'"
proof (induction rule: tx_run.induct)
  case (tx_msg msg h w a x w1 msgs rs w2)
  then have "(host_step k)\<^sup>*\<^sup>* w w1" unfolding handlers_step_def by blast
  with tx_msg show ?case by (meson rtranclp_trans)
qed simp

lemma recv_steps:
  assumes "host_OnRecvPacket k ctx pkt w = Inr (a, w')" and h: "handlers_step k"
  shows "(host_step k)\<^sup>*\<^sup>* w w'"
proof -
  have "w' = w \<or> (\<exists>x. w' = discard w x) \<or> (\<exists>msgs rs. tx_run k ctx msgs w rs w')"
    using host_OnRecvPacket_cases [OF assms(1)] host_recv_failure [of k ctx pkt w _ w'] host_recv_success [of k ctx pkt w _ w']
    by (metis sum.exhaust_sel)
  moreover have "host_step k w (discard w x)" for x by (rule host_others) simp_all
  ultimately show ?thesis using tx_run_steps [OF _ h] by blast
qed

context account_keeper
begin

lemma step_accounts: "host_step k w w' \<Longrightarrow> accounts_step k (app w) (app w')"
proof (induction rule: host_step.cases)
  case (host_confirm p c w w')
  then show ?case by (auto simp: host_OnChanOpenConfirm_def host_OnChanOpenConfirm_keeper_def same_accounts split: if_splits option.splits)
qed (auto simp: host_UpdateParams_def same_accounts intro: open_try_accounts split: if_splits)

lemma steps_accounts:
  assumes "(host_step k)\<^sup>*\<^sup>* w w'" and "accounts_ok k (app w)"
  shows "accounts_ok k (app w') \<and> (\<forall>p c addr. host_GetInterchainAccountAddress (app w) c p = Some addr \<longrightarrow>
    host_GetInterchainAccountAddress (app w') c p = Some addr)"
  using assms(1)
proof (induction rule: rtranclp_induct)
  case base
  then show ?case using assms(2) by blast
next
  case (step x y)
  then show ?case using step_accounts accounts_step_ok accounts_step_keeps by blast
qed

lemma trace_steps: "host_trace k w w' \<Longrightarrow> handlers_step k \<Longrightarrow> (host_step k)\<^sup>*\<^sup>* w w'"
  by (induction rule: host_trace.induct) (auto intro: rtranclp_trans recv_steps)

end

end
