(* ===== verification/Ica_Props.thy ===== *)
theory Ica_Props
  imports Ica_Accounts Transfer_Props
begin

text \<open>
  The properties of interchain accounts: what the host executes and for whom, that accounts are
  exclusive, that the handshake leaves both chains with the same account, and what the controller
  sends and until when. A concrete host and controller on which their hypotheses hold.
\<close>

section \<open>Lemmas\<close>

lemma ack_of_Success [simp]:
  "ack_Success (ack_of sdk (Acknowledgement_Result bz))" "\<not> ack_Success (ack_of sdk (NewErrorAcknowledgement f e))"
  by (simp_all add: ack_of_def NewErrorAcknowledgement_def)

lemma alphanumeric_solid: "alphanumeric c \<Longrightarrow> solid c"
  by (auto simp: alphanumeric_def solid_def ascii_space_def Let_def)

lemma valid_address_not_blank: "ValidateAccountAddress addr = Inr () \<Longrightarrow> addr \<noteq> [] \<and> \<not> is_blank addr"
  by (cases addr) (auto simp: ValidateAccountAddress_def isValidAddr_def alphanumeric_solid split: if_splits)

text \<open>A sum of two words that is above one of them has not wrapped around.\<close>

lemma u64_sum_no_wrap:
  assumes "(a :: u64) < a + b"
  shows "unat (a + b) = unat a + unat b \<and> 0 < b"
proof -
  have "unat a < unat (a + b)" using assms by (simp add: word_less_nat_alt)
  then have "unat a + unat b < 2 ^ 64" using unat_lt64 [of b] by (auto simp: unat_plus_if' split: if_splits)
  then have "unat (a + b) = unat a + unat b" by (simp add: unat_plus_if')
  with \<open>unat a < unat (a + b)\<close> show ?thesis by (auto simp: word_less_nat_alt)
qed

lemma metadata_tail_Inr:
  "metadata_tail m = Inr () \<longleftrightarrow> (md_Address m = [] \<or> ValidateAccountAddress (md_Address m) = Inr ()) \<and> md_Version m = ica_Version"
  by (auto simp: metadata_tail_def)

lemma ValidateMetadata_Inr:
  "ValidateControllerMetadata s hops m = Inr () \<longleftrightarrow>
     isSupportedEncoding (md_Encoding m) \<and> isSupportedTxType (md_TxType m) \<and> metadata_tail m = Inr ()
     \<and> (\<exists>h t con. hops = h # t \<and> GetConnection s h = Some con \<and> md_ControllerConnectionId m = h
          \<and> md_HostConnectionId m = cp_ConnectionId (conn_Counterparty con))"
  "ValidateHostMetadata s hops m = Inr () \<longleftrightarrow>
     isSupportedEncoding (md_Encoding m) \<and> isSupportedTxType (md_TxType m) \<and> metadata_tail m = Inr ()
     \<and> (\<exists>h t con. hops = h # t \<and> GetConnection s h = Some con \<and> md_HostConnectionId m = h
          \<and> md_ControllerConnectionId m = cp_ConnectionId (conn_Counterparty con))"
  by (auto simp: ValidateControllerMetadata_def ValidateHostMetadata_def validateConnectionParams_def chan_GetConnection_def first_hop_Inr
      split: if_splits option.splits)

section \<open>Properties\<close>

text \<open>
  C10: the host executes exactly the authorised transactions. An acknowledgement of success means that
  the packet carried a transaction whose messages are all of an allowed type and signed only by the
  account registered for the sending port on the connection of the channel, and that the state is
  that after all of them, one after the other, with their responses in the acknowledgement; and every
  such transaction that can run is executed. After an acknowledgement of an error the stores are as
  before, unless the responses of a complete run could not be encoded.
\<close>

theorem host_executes_authorised:
  assumes params: "host_GetParams (app w) = Inr params" "HostEnabled params"
  shows "(host_OnRecvPacket k ctx pkt w = Inr (Some ack, w') \<longrightarrow>
      (if ack_Success ack
       then \<exists>msgs rs bz. tx_authorised k pkt msgs w \<and> tx_run k ctx msgs w rs w' \<and> MarshalTxMsgData (hk_lib k) rs = Inr bz
              \<and> ack_Acknowledgement ack = MarshalAck (hk_sdk k) (Acknowledgement_Result bz)
       else w' = w \<or> (\<exists>x. w' = discard w x) \<or> (\<exists>msgs rs e. tx_run k ctx msgs w rs w' \<and> MarshalTxMsgData (hk_lib k) rs = Inl e)))
    \<and> (tx_authorised k pkt msgs w \<and> tx_run k ctx msgs w rs w' \<and> MarshalTxMsgData (hk_lib k) rs = Inr bz \<longrightarrow>
        host_OnRecvPacket k ctx pkt w = Inr (Some (ack_of (hk_sdk k) (Acknowledgement_Result bz)), w'))"
proof (intro conjI impI)
  assume r: "host_OnRecvPacket k ctx pkt w = Inr (Some ack, w')"
  obtain res w1 where kr: "host_OnRecvPacket_keeper k ctx pkt w = (res, w1)" by (cases "host_OnRecvPacket_keeper k ctx pkt w") simp
  from host_OnRecvPacket_cases [OF r] params kr
  consider (bad) e where "res = Inl e" "w1 = w'" "\<not> ack_Success ack" | (good) bz where "res = Inr bz" "w1 = w'"
      "ack = ack_of (hk_sdk k) (Acknowledgement_Result bz)" | (off) "w' = w" "\<not> ack_Success ack"
    by (auto split: sum.splits)
  then show "if ack_Success ack
       then \<exists>msgs rs bz. tx_authorised k pkt msgs w \<and> tx_run k ctx msgs w rs w' \<and> MarshalTxMsgData (hk_lib k) rs = Inr bz
              \<and> ack_Acknowledgement ack = MarshalAck (hk_sdk k) (Acknowledgement_Result bz)
       else w' = w \<or> (\<exists>x. w' = discard w x) \<or> (\<exists>msgs rs e. tx_run k ctx msgs w rs w' \<and> MarshalTxMsgData (hk_lib k) rs = Inl e)"
  proof cases
    case bad
    with kr host_recv_failure [of k ctx pkt w e w'] show ?thesis by simp blast
  next
    case good
    with kr have "host_OnRecvPacket_keeper k ctx pkt w = (Inr bz, w')" by simp
    then have "\<exists>msgs rs. tx_authorised k pkt msgs w \<and> tx_run k ctx msgs w rs w' \<and> MarshalTxMsgData (hk_lib k) rs = Inr bz"
      by (simp only: host_recv_success)
    moreover have "ack_Success ack" "ack_Acknowledgement ack = MarshalAck (hk_sdk k) (Acknowledgement_Result bz)"
      unfolding good(3) by simp (simp add: ack_of_def)
    ultimately show ?thesis by auto
  next
    case off
    then show ?thesis by simp
  qed
next
  assume "tx_authorised k pkt msgs w \<and> tx_run k ctx msgs w rs w' \<and> MarshalTxMsgData (hk_lib k) rs = Inr bz"
  then have "host_OnRecvPacket_keeper k ctx pkt w = (Inr bz, w')" using host_recv_success [of k ctx pkt w bz w'] by blast
  with params show "host_OnRecvPacket k ctx pkt w = Inr (Some (ack_of (hk_sdk k) (Acknowledgement_Result bz)), w')"
    by (simp add: host_OnRecvPacket_def Let_def)
qed

text \<open>
  C11: interchain accounts are registered once and for all and never shared. Along every run of the
  host, transactions of interchain accounts included, an account registered for a connection and a
  controller port stays the same; its address is that of an interchain account whose owner is the
  port; and two different pairs of connection and port have different addresses.
\<close>

theorem interchain_accounts_exclusive:
  assumes laws: "account_keeper k" and handlers: "handlers_step k" and start: "accounts_ok k (app w0)" and run: "host_trace k w0 w"
  shows "(host_GetInterchainAccountAddress (app w0) c p = Some addr \<longrightarrow> host_GetInterchainAccountAddress (app w) c p = Some addr)
    \<and> (slash_free p \<and> host_GetInterchainAccountAddress (app w) c p = Some addr \<longrightarrow> owned_account k (ih_app (app w)) addr p)
    \<and> (slash_free p \<and> slash_free q \<and> (p, c) \<noteq> (q, d) \<and> host_GetInterchainAccountAddress (app w) c p = Some addr \<longrightarrow>
        host_GetInterchainAccountAddress (app w) d q \<noteq> Some addr)"
  using account_keeper.steps_accounts [OF laws account_keeper.trace_steps [OF laws run handlers] start]
  unfolding accounts_ok_def by blast

text \<open>The authentication module works on its own part of the state: what the controller stored stays.\<close>

lemma when_enabled_store: "when_enabled auth p c f w = Inr d \<Longrightarrow> ic_store (app d) = ic_store (app w)"
  by (auto simp: when_enabled_def ctrl_raise_def split: option.splits if_splits)

text \<open>The account that the host has registered after its step of the handshake is the one it answers with.\<close>

lemma host_try_registers:
  assumes laws: "account_keeper k" and ok: "accounts_ok k (app h)"
    and tried: "host_OnChanOpenTry k ctx ord' hops' p' ch' cap cp' v1 h = Inr (v2, h')" and port: "PortId cp' = p" "slash_free p"
    and v1: "UnmarshalIcaMetadata (hk_lib k) v1 = Some m"
  shows "\<exists>y t a. hops' = y # t \<and> host_GetInterchainAccountAddress (app h') y p = Some (AccAddress_String (hk_sdk k) a)
    \<and> MarshalIcaMetadata (hk_lib k) (m\<lparr>md_Address := AccAddress_String (hk_sdk k) a\<rparr>) = Inr v2"
proof -
  from tried v1 obtain w1 a st where hv: "ValidateHostMetadata (core (ibc_state h)) hops' m = Inr ()"
    and claim: "host_ClaimCapability cap (ChannelCapabilityPath p' ch') h = Inr w1"
    and acc: "reopen_or_create k ctx (md_HostConnectionId m) p (app w1) = Inr (a, st)" and h': "app h' = st"
    and v2: "MarshalIcaMetadata (hk_lib k) (m\<lparr>md_Address := AccAddress_String (hk_sdk k) a\<rparr>) = Inr v2"
    by (auto simp: host_OnChanOpenTry_def host_OnChanOpenTry_keeper_def port split: if_splits option.splits)
  from hv obtain y t' where hops': "hops' = y # t'" "md_HostConnectionId m = y" unfolding ValidateMetadata_Inr by blast
  have w1: "app w1 = app h" using host_claim_core [OF claim] by blast
  have "host_GetInterchainAccountAddress (app h') y p = Some (AccAddress_String (hk_sdk k) a)"
  proof (cases "host_GetInterchainAccountAddress (app h) y p")
    case None
    with acc have "createInterchainAccount k ctx y p (app h) = Inr (a, st)" by (simp add: reopen_or_create_def w1 hops')
    from account_keeper.create_account(2) [OF laws this port(2) None] show ?thesis by (simp add: h')
  next
    case (Some s)
    with acc have "AccAddressFromBech32 (hk_sdk k) s = Some a" "st = app h"
      by (auto simp: reopen_or_create_def w1 hops' split: option.splits account.splits)
    moreover from Some ok port(2) have "owned_account k (ih_app (app h)) s p" unfolding accounts_ok_def by blast
    ultimately show ?thesis using Some by (auto simp: owned_account_def h')
  qed
  with v2 hops' show ?thesis by blast
qed

text \<open>
  C30: the handshake leaves both chains with the same account. The callback \<open>OnChanOpenInit\<close> of the controller
  proposed a version, \<open>OnChanOpenTry\<close> of the host accepted it and answered with another. Then both submodules were
  enabled and the host has registered an account for the controller's port. Suppose its address is
  well-formed and the two codecs decode what the other one encodes. On the controller, as long as it is
  enabled, its channel is in place over the same connection and the authentication module agrees,
  \<open>OnChanOpenAck\<close> with the answer of the host succeeds, makes the channel the active one and stores the same
  address as the owner's account; but if another open channel has become the active one in the
  meantime, it is refused. On the host, as long as it is enabled and still has its channel and the
  account, \<open>OnChanOpenConfirm\<close> makes its end the active channel and leaves the account.
\<close>

theorem ica_handshake_agrees:
  assumes codec: "\<And>m v. MarshalIcaMetadata (ck_lib ck) m = Inr v \<Longrightarrow> UnmarshalIcaMetadata (hk_lib k) v = Some m"
      "\<And>m v. MarshalIcaMetadata (hk_lib k) m = Inr v \<Longrightarrow> UnmarshalIcaMetadata (ck_lib ck) v = Some m"
    and laws: "account_keeper k" and ok: "accounts_ok k (app h)"
    and init: "ctrl_OnChanOpenInit ck auth cctx ord hops p ch ccap cp v0 c = Inr (v1, c1)"
    and tried: "host_OnChanOpenTry k ctx ord' hops' p' ch' cap cp' v1 h = Inr (v2, h')" and port: "PortId cp' = p" "slash_free p"
    and chan: "GetChannel (core (ibc_state c')) p ch = Some channel" "ch_ConnectionHops channel = hops"
    and conn: "GetConnection (core (ibc_state c')) (hops ! 0) = GetConnection (core (ibc_state c)) (hops ! 0)"
    and enabled: "ctrl_GetParams (app c') = Inr prm" "ControllerEnabled prm"
    and agrees: "\<And>w. is_ok (when_enabled auth p (hops ! 0) (\<lambda>cbs. OnChanOpenAck cbs cctx' p ch ch' v2) w)"
    and valid: "\<And>addr. host_GetInterchainAccountAddress (app h') (hops' ! 0) p = Some addr \<Longrightarrow> ValidateAccountAddress addr = Inr ()"
    and host_chan: "GetChannel (core (ibc_state h'')) p' ch' = Some host_channel" "ch_ConnectionHops host_channel = hops'"
      "PortId (ch_Counterparty host_channel) = p"
    and host_kept: "host_GetInterchainAccountAddress (app h'') (hops' ! 0) p = host_GetInterchainAccountAddress (app h') (hops' ! 0) p"
    and host_enabled: "host_GetParams (app h'') = Inr hprm" "HostEnabled hprm"
  shows "(\<exists>prm0. ctrl_GetParams (app c) = Inr prm0 \<and> ControllerEnabled prm0) \<and> (\<exists>hprm0. host_GetParams (app h) = Inr hprm0 \<and> HostEnabled hprm0)
    \<and> (\<exists>addr. host_GetInterchainAccountAddress (app h') (hops' ! 0) p = Some addr
      \<and> (ctrl_GetOpenActiveChannel c' (hops ! 0) p = None \<longrightarrow>
          (\<exists>d. ctrl_OnChanOpenAck ck auth cctx' p ch ch' v2 c' = Inr d
            \<and> ctrl_GetActiveChannelID (app d) (hops ! 0) p = Some ch \<and> ctrl_GetInterchainAccountAddress (app d) (hops ! 0) p = Some addr))
      \<and> (ctrl_GetOpenActiveChannel c' (hops ! 0) p \<noteq> None \<longrightarrow>
          ctrl_OnChanOpenAck ck auth cctx' p ch ch' v2 c' = Inl ica_ErrActiveChannelAlreadySet)
      \<and> (\<exists>e. host_OnChanOpenConfirm p' ch' h'' = Inr e \<and> host_GetActiveChannelID (app e) (hops' ! 0) p = Some ch'
            \<and> host_GetInterchainAccountAddress (app e) (hops' ! 0) p = Some addr))"
proof -
  from init obtain m where pre: "HasPrefix p ControllerPortPrefix" and m: "ValidateControllerMetadata (core (ibc_state c)) hops m = Inr ()"
      "MarshalIcaMetadata (ck_lib ck) m = Inr v1"
    by (auto simp: ctrl_OnChanOpenInit_def ctrl_OnChanOpenInit_keeper_def split: if_splits)
  from m(1) obtain x t con where hops: "hops = x # t" "GetConnection (core (ibc_state c)) x = Some con" "md_ControllerConnectionId m = x"
    "md_HostConnectionId m = cp_ConnectionId (conn_Counterparty con)" unfolding ValidateMetadata_Inr by blast
  from host_try_registers [OF laws ok tried port codec(1) [OF m(2)]] obtain y t' a where hops': "hops' = y # t'"
    and reg: "host_GetInterchainAccountAddress (app h') y p = Some (AccAddress_String (hk_sdk k) a)"
    and v2: "MarshalIcaMetadata (hk_lib k) (m\<lparr>md_Address := AccAddress_String (hk_sdk k) a\<rparr>) = Inr v2" by blast
  let ?addr = "AccAddress_String (hk_sdk k) a"
  let ?m = "m\<lparr>md_Address := ?addr\<rparr>"
  have va: "ValidateAccountAddress ?addr = Inr ()" using valid reg by (simp add: hops')
  have cm: "ValidateControllerMetadata (core (ibc_state c')) hops ?m = Inr ()"
    using m(1) va conn hops unfolding ValidateMetadata_Inr metadata_tail_Inr by simp
  have np: "p \<noteq> HostPortID" using pre by auto
  let ?w = "c'\<lparr>app := ctrl_SetInterchainAccountAddress x p ?addr (ctrl_SetActiveChannelID x p ch (app c'))\<rparr>"
  have kept: "ctrl_OnChanOpenAck_keeper ck p ch v2 c' =
      (if ctrl_GetOpenActiveChannel c' x p \<noteq> None then Inl ica_ErrActiveChannelAlreadySet else Inr ?w)"
    using codec(2) [OF v2] pre np chan cm valid_address_not_blank [OF va] by (simp add: ctrl_OnChanOpenAck_keeper_def hops)
  have acked: "\<exists>d. ctrl_OnChanOpenAck ck auth cctx' p ch ch' v2 c' = Inr d
      \<and> ctrl_GetActiveChannelID (app d) x p = Some ch \<and> ctrl_GetInterchainAccountAddress (app d) x p = Some ?addr"
    if "ctrl_GetOpenActiveChannel c' x p = None"
  proof -
    obtain d where d: "when_enabled auth p x (\<lambda>cbs. OnChanOpenAck cbs cctx' p ch ch' v2) ?w = Inr d"
      using agrees [of ?w] by (auto simp: is_ok_iff hops)
    then have "ctrl_OnChanOpenAck ck auth cctx' p ch ch' v2 c' = Inr d"
      using enabled chan that by (simp add: ctrl_OnChanOpenAck_def kept ctrl_GetConnectionID_def first_hop_def hops)
    moreover have "ic_store (app d) = ic_store (app ?w)" by (rule when_enabled_store [OF d])
    ultimately show ?thesis
      by (simp add: ctrl_GetActiveChannelID_def ctrl_GetInterchainAccountAddress_def ctrl_SetInterchainAccountAddress_def
          ctrl_SetActiveChannelID_def ic_set_def ica_get_def)
  qed
  have "ctrl_OnChanOpenAck ck auth cctx' p ch ch' v2 c' = Inl ica_ErrActiveChannelAlreadySet" if "ctrl_GetOpenActiveChannel c' x p \<noteq> None"
    using enabled that by (simp add: ctrl_OnChanOpenAck_def kept)
  moreover have "\<exists>e. host_OnChanOpenConfirm p' ch' h'' = Inr e \<and> host_GetActiveChannelID (app e) y p = Some ch'
      \<and> host_GetInterchainAccountAddress (app e) y p = Some ?addr"
    using host_chan host_kept host_enabled reg
    by (simp add: host_OnChanOpenConfirm_def host_OnChanOpenConfirm_keeper_def hops' first_hop_def host_GetActiveChannelID_def
        host_GetInterchainAccountAddress_def host_SetActiveChannelID_def ih_set_def ica_get_def)
  moreover have "\<exists>prm0. ctrl_GetParams (app c) = Inr prm0 \<and> ControllerEnabled prm0"
    using init by (auto simp: ctrl_OnChanOpenInit_def split: if_splits)
  moreover have "\<exists>hprm0. host_GetParams (app h) = Inr hprm0 \<and> HostEnabled hprm0"
    using tried by (auto simp: host_OnChanOpenTry_def split: if_splits)
  ultimately show ?thesis using reg acked by (simp add: hops hops')
qed

text \<open>
  C31: what the controller sends and until when. A transaction that is accepted goes out as the next
  packet of the owner's active channel, which is open and whose capability the controller holds, and
  nothing else of the controller's state changes. Its timeout is the block time plus the relative
  timeout as natural numbers: a sum that leaves 64 bits is refused, like a relative timeout of zero.
\<close>

theorem send_tx_bounds:
  assumes "msg_SendTx k ctx msg w = Inr (n, w')"
  shows "\<exists>ch channel cap t. ctrl_GetActiveChannelID (app w) (mst_ConnectionId msg) (ControllerPortPrefix @ mst_Owner msg) = Some ch
    \<and> GetChannel (core (ibc_state w)) (ControllerPortPrefix @ mst_Owner msg) ch = Some channel \<and> ch_State channel = OPEN
    \<and> GetCapability controller_SubModuleName (caps (ibc_state w)) (ChannelCapabilityPath (ControllerPortPrefix @ mst_Owner msg) ch) = Inr (Some cap)
    \<and> unat t = unat (UnixNano64 (BlockTime ctx)) + unat (mst_RelativeTimeout msg) \<and> 0 < mst_RelativeTimeout msg
    \<and> GetNextSequenceSend (core (ibc_state w)) (ControllerPortPrefix @ mst_Owner msg) ch = Some n
    \<and> GetPacketCommitment (core (ibc_state w')) (ControllerPortPrefix @ mst_Owner msg) ch n =
        CommitPacket (NewPacket (ipd_GetBytes (ck_lib k) (mst_PacketData msg)) n (ControllerPortPrefix @ mst_Owner msg) ch
          (PortId (ch_Counterparty channel)) (ChannelId (ch_Counterparty channel)) ZeroHeight t)
    \<and> app w' = app w"
proof -
  let ?p = "ControllerPortPrefix @ mst_Owner msg" and ?t = "UnixNano64 (BlockTime ctx) + mst_RelativeTimeout msg"
  from assms have s: "sendTx k ctx (mst_ConnectionId msg) ?p (mst_PacketData msg) ?t w = Inr (n, w')"
    by (auto simp: msg_SendTx_def NewControllerPortID_def Let_def split: if_splits)
  then obtain ch cap st where o: "ctrl_GetOpenActiveChannel w (mst_ConnectionId msg) ?p = Some ch"
    and cap: "GetCapability controller_SubModuleName (caps (ibc_state w)) (ChannelCapabilityPath ?p ch) = Inr (Some cap)"
    and t: "UnixNano64 (BlockTime ctx) < ?t"
    and sp: "SendPacket ctx (Some cap) ?p ch ZeroHeight ?t (ipd_GetBytes (ck_lib k) (mst_PacketData msg)) (ibc_state w) = Inr (n, st)"
    and w': "w' = w\<lparr>ibc_state := st\<rparr>"
    by (auto simp: sendTx_def split: option.splits if_splits)
  from o obtain channel where ch: "ctrl_GetActiveChannelID (app w) (mst_ConnectionId msg) ?p = Some ch"
    "GetChannel (core (ibc_state w)) ?p ch = Some channel" "ch_State channel = OPEN"
    by (auto simp: ctrl_GetOpenActiveChannel_def split: option.splits if_splits)
  from sp ch(2) have n: "GetNextSequenceSend (core (ibc_state w)) ?p ch = Some n"
    and st: "core st = SetPacketCommitment ?p ch n (CommitPacket (NewPacket (ipd_GetBytes (ck_lib k) (mst_PacketData msg)) n ?p ch
          (PortId (ch_Counterparty channel)) (ChannelId (ch_Counterparty channel)) ZeroHeight ?t))
        (SetNextSequenceSend ?p ch (n + 1) (core (ibc_state w)))"
    by (auto simp: SendPacket_def Let_def NewPacket_def split: option.splits if_splits)
  have "unat ?t = unat (UnixNano64 (BlockTime ctx)) + unat (mst_RelativeTimeout msg) \<and> 0 < mst_RelativeTimeout msg"
    using u64_sum_no_wrap [OF t] by simp
  then show ?thesis using ch cap n by (intro exI [of _ ch] exI [of _ channel] exI [of _ cap] exI [of _ ?t]) (simp add: w' st SetPacketCommitment_def store_simps)
qed

section \<open>A concrete chain\<close>

text \<open>
  A chain that is host and controller, over the localhost connection. Its messages name a signer and
  carry a text, which the handler appends to a log.
\<close>

datatype ex_msg = ExCall bytes string

record ex_chain =
  ex_accounts :: "(bytes \<times> account) list"
  ex_log :: "(bytes \<times> string) list"

definition ex_put_any :: "Any \<Rightarrow> bytes" where
  "ex_put_any a = 1 # put_str (any_TypeUrl a) @ put_str (bytes_str (any_Value a))"

fun ex_get_anys :: "nat \<Rightarrow> bytes \<Rightarrow> Any list result" where
  "ex_get_anys (Suc n) (x # bs) =
     (if x = 0 then Inr []
      else case get_str bs of None \<Rightarrow> Inl (ErrForeign ''proto'') | Some (url, bs) \<Rightarrow>
        (case get_str bs of None \<Rightarrow> Inl (ErrForeign ''proto'') | Some (v, bs) \<Rightarrow>
           and_then (ex_get_anys n bs) (\<lambda>as. Inr (\<lparr>any_TypeUrl = url, any_Value = str_bytes v\<rparr> # as))))"
| "ex_get_anys _ _ = Inl (ErrForeign ''proto'')"

definition ex_MarshalAnys :: "Any list \<Rightarrow> bytes result" where
  "ex_MarshalAnys as = Inr (concat (map ex_put_any as) @ [0])"

fun ex_NewAny :: "ex_msg \<Rightarrow> Any result" where
  "ex_NewAny (ExCall s t) = Inr \<lparr>any_TypeUrl = ''/ex.Call'', any_Value = put_str (bytes_str s) @ put_str t\<rparr>"

definition ex_UnpackAny :: "Any \<Rightarrow> ex_msg result" where
  "ex_UnpackAny a =
     (case get_str (any_Value a) of None \<Rightarrow> Inl (ErrForeign ''proto'') | Some (s, bs) \<Rightarrow>
       (case get_str bs of None \<Rightarrow> Inl (ErrForeign ''proto'') | Some (t, _) \<Rightarrow> Inr (ExCall (str_bytes s) t)))"

definition ex_MarshalIcaMetadata :: "ica_Metadata \<Rightarrow> string" where
  "ex_MarshalIcaMetadata m = bytes_str (put_str (md_Version m) @ put_str (md_ControllerConnectionId m) @ put_str (md_HostConnectionId m)
     @ put_str (md_Address m) @ put_str (md_Encoding m) @ put_str (md_TxType m))"

definition ex_UnmarshalIcaMetadata :: "string \<Rightarrow> ica_Metadata option" where
  "ex_UnmarshalIcaMetadata v =
     (case get_str (str_bytes v) of None \<Rightarrow> None | Some (ver, bs) \<Rightarrow>
     (case get_str bs of None \<Rightarrow> None | Some (con, bs) \<Rightarrow>
     (case get_str bs of None \<Rightarrow> None | Some (hst, bs) \<Rightarrow>
     (case get_str bs of None \<Rightarrow> None | Some (addr, bs) \<Rightarrow>
     (case get_str bs of None \<Rightarrow> None | Some (enc, bs) \<Rightarrow>
     (case get_str bs of None \<Rightarrow> None | Some (txt, bs) \<Rightarrow> Some (NewMetadata ver con hst addr enc txt)))))))"

lemma ex_metadata_roundtrip: "ex_UnmarshalIcaMetadata (ex_MarshalIcaMetadata m) = Some m"
  using get_put_str [of "md_TxType m" "[]"]
  by (simp add: ex_UnmarshalIcaMetadata_def ex_MarshalIcaMetadata_def get_put_str NewMetadata_def)

definition ex_MarshalIcaData :: "InterchainAccountPacketData \<Rightarrow> bytes" where
  "ex_MarshalIcaData d = (if ipd_Type d = 1 then 1 else 0) # put_str (ipd_Memo d) @ ipd_Data d"

definition ex_UnmarshalIcaData :: "bytes \<Rightarrow> InterchainAccountPacketData option" where
  "ex_UnmarshalIcaData bz =
     (case bz of [] \<Rightarrow> None | x # bs \<Rightarrow>
       (case get_str bs of None \<Rightarrow> None | Some (m, d) \<Rightarrow> Some \<lparr>ipd_Type = (if x = 1 then 1 else 0), ipd_Data = d, ipd_Memo = m\<rparr>))"

definition ex_ilib :: "ex_msg ilib" where
  "ex_ilib =
     \<lparr>il_sdk = ex_sdk, MsgTypeURL = \<lambda>m. ''/ex.Call'', GetSigners = \<lambda>m. case m of ExCall s t \<Rightarrow> Inr [s],
      Msg_ValidateBasic = \<lambda>m. case m of ExCall s t \<Rightarrow> if t = [] then Inl ibcerrors_ErrInvalidRequest else Inr (),
      IsProtoCodec = True, NewAnyWithValue = ex_NewAny, UnpackAny = ex_UnpackAny, MarshalCosmosTx = ex_MarshalAnys,
      UnmarshalCosmosTx = \<lambda>bz. ex_get_anys (length bz) bz, MarshalTxMsgData = ex_MarshalAnys,
      MarshalIcaData = ex_MarshalIcaData, UnmarshalIcaData = ex_UnmarshalIcaData,
      MarshalIcaMetadata = \<lambda>m. Inr (ex_MarshalIcaMetadata m), UnmarshalIcaMetadata = ex_UnmarshalIcaMetadata,
      MarshalPretty = \<lambda>p. Inr [], UnmarshalPretty = \<lambda>bz. Inl (ErrForeign ''json''),
      address_Module = \<lambda>m key. str_bytes m @ key, address_Derive = \<lambda>m key. str_bytes (''ica'' @ ex_hex key),
      NewBaseAccountWithAddress = \<lambda>a. \<lparr>ba_Address = bytes_str a, ba_AccountNumber = 0, ba_Sequence = 0\<rparr>,
      NewBaseAccount = \<lambda>a n s. \<lparr>ba_Address = bytes_str a, ba_AccountNumber = n, ba_Sequence = s\<rparr>,
      BaseAccount_Validate = \<lambda>a. Inr (), AppHash = \<lambda>ctx. [7], DataHash = \<lambda>ctx. [8]\<rparr>"

definition ex_handler :: "(ex_msg, ex_chain) msg_handler" where
  "ex_handler ctx msg w =
     (case msg of ExCall s t \<Rightarrow>
        (Inr [Some \<lparr>any_TypeUrl = ''/ex.CallResponse'', any_Value = str_bytes t\<rparr>],
         w\<lparr>app := (app w)\<lparr>ih_app := (ih_app (app w))\<lparr>ex_log := ex_log (ih_app (app w)) @ [(s, t)]\<rparr>\<rparr>\<rparr>))"

definition ex_host :: "(ex_msg, ex_chain) host_keeper" where
  "ex_host =
     \<lparr>hk_lib = ex_ilib, GetAccount = \<lambda>ctx a s. map_of (ex_accounts s) a,
      NewAccount = \<lambda>ctx acc s. (acc\<lparr>ia_BaseAccount := (ia_BaseAccount acc)\<lparr>ba_AccountNumber := word_of_nat (length (ex_accounts s))\<rparr>\<rparr>, s),
      SetAccount = \<lambda>ctx acc s.
        (case AccAddressFromBech32 ex_sdk (ba_Address (ia_BaseAccount acc)) of
           None \<Rightarrow> s | Some a \<Rightarrow> s\<lparr>ex_accounts := (a, IcaAccount acc) # ex_accounts s\<rparr>),
      msgRouter = \<lambda>msg. Some ex_handler, hk_authority = ''gov''\<rparr>"

lemma ex_accounts_laws: "account_keeper ex_host"
  by unfold_locales (auto simp: ex_host_def ex_ilib_def ex_sdk_def split: option.splits)

lemma ex_handlers: "handlers_step ex_host"
  unfolding handlers_step_def
proof (intro allI impI)
  fix msg h ctx w r w'
  assume "msgRouter ex_host msg = Some h \<and> h ctx msg w = (Inr r, w')"
  then have "host_step ex_host w w'"
    by (intro host_others) (auto simp: ex_host_def ex_handler_def keeps_accounts_def split: ex_msg.splits)
  then show "(host_step ex_host)\<^sup>*\<^sup>* w w'" by blast
qed

interpretation ex_host_app: ica_handlers lib ex_host for lib
  by unfold_locales (auto simp: ex_host_def ex_handler_def run_refl split: ex_msg.splits)

text \<open>The controller of alice, and the host, over one channel of the localhost connection.\<close>

abbreviation ex_port :: string where "ex_port \<equiv> ''icacontroller-alice''"

definition ex_ctrl :: "ex_msg ctrl_keeper" where
  "ex_ctrl = \<lparr>ck_lib = ex_ilib, ck_address = ''ica'', ck_authority = ''gov''\<rparr>"

definition ex_ica_core :: kvstore where
  "ex_ica_core =
     ex_end ORDERED ex_port ''channel-0'' HostPortID ''channel-1'' (ex_end ORDERED HostPortID ''channel-1'' ex_port ''channel-0'' ex_loop_base)"

definition ex_cap0 :: Capability where "ex_cap0 = types_NewCapability 16 1"
definition ex_cap1 :: Capability where "ex_cap1 = types_NewCapability 17 2"

definition ex_ica_caps :: cap_state where
  "ex_ica_caps =
     (let s = ex_new_cap 17 (ChannelCapabilityPath HostPortID ''channel-1'') (ex_new_cap 16 (ChannelCapabilityPath ex_port ''channel-0'') ex_caps) in
      case ClaimCapability controller_SubModuleName (Some ex_cap0) (ChannelCapabilityPath ex_port ''channel-0'') s of Inr t \<Rightarrow> t | Inl _ \<Rightarrow> s)"

definition ex_host_store :: "host_Params ica_store" where
  "ex_host_store = fmupd ica_ParamsKey (IcaParamsBz host_DefaultParams) fmempty"

definition ex_ctrl_store :: "controller_Params ica_store" where
  "ex_ctrl_store = fmupd ica_ParamsKey (IcaParamsBz controller_DefaultParams) fmempty"

definition ex_host_world :: "ex_chain ica_host world" where
  "ex_host_world = \<lparr>ibc_state = \<lparr>core = ex_loop_base, caps = ex_ica_caps\<rparr>,
     app = \<lparr>ih_store = ex_host_store, ih_app = \<lparr>ex_accounts = [], ex_log = []\<rparr>\<rparr>\<rparr>"

definition ex_ctrl_world :: "unit ica_ctrl world" where
  "ex_ctrl_world = \<lparr>ibc_state = \<lparr>core = ex_ica_core, caps = ex_ica_caps\<rparr>, app = \<lparr>ic_store = ex_ctrl_store, ic_app = ()\<rparr>\<rparr>"

definition ex_v1 :: string where
  "ex_v1 = ex_MarshalIcaMetadata (NewDefaultMetadata LocalhostConnectionID LocalhostConnectionID)"

lemma ex_conn:
  "GetConnection ex_loop_base LocalhostConnectionID = Some (loop_connection ex_lib)"
  "GetConnection ex_ica_core LocalhostConnectionID = Some (loop_connection ex_lib)"
  "cp_ConnectionId (conn_Counterparty (loop_connection ex_lib)) = LocalhostConnectionID"
proof -
  show b: "GetConnection ex_loop_base LocalhostConnectionID = Some (loop_connection ex_lib)" by code_simp
  then show "GetConnection ex_ica_core LocalhostConnectionID = Some (loop_connection ex_lib)"
    by (simp add: ex_ica_core_def ex_end_def GetConnection_def view_rules)
  show "cp_ConnectionId (conn_Counterparty (loop_connection ex_lib)) = LocalhostConnectionID" by code_simp
qed

lemma ex_metadata_valid:
  "ValidateControllerMetadata ex_ica_core [LocalhostConnectionID] (NewDefaultMetadata LocalhostConnectionID LocalhostConnectionID) = Inr ()"
  "ValidateHostMetadata ex_loop_base [LocalhostConnectionID] (NewDefaultMetadata LocalhostConnectionID LocalhostConnectionID) = Inr ()"
  by (simp_all add: ValidateMetadata_Inr metadata_tail_Inr ex_conn NewDefaultMetadata_def isSupportedEncoding_def getSupportedEncoding_def
      isSupportedTxType_def getSupportedTxTypes_def)

text \<open>The controller before the handshake.\<close>

definition ex_unclaimed :: cap_state where
  "ex_unclaimed = ex_new_cap 16 (ChannelCapabilityPath ex_port ''channel-0'') ex_caps"

definition ex_ctrl_start :: "unit ica_ctrl world" where
  "ex_ctrl_start = ex_ctrl_world\<lparr>ibc_state := \<lparr>core = ex_ica_core, caps = ex_unclaimed\<rparr>\<rparr>"

lemma ex_init: "ctrl_OnChanOpenInit_keeper ex_ctrl ORDERED [LocalhostConnectionID] ex_port (NewCounterparty HostPortID []) [] ex_ctrl_start = Inr ex_v1"
  by (simp add: ctrl_OnChanOpenInit_keeper_def ex_ctrl_start_def ex_ctrl_world_def chan_GetConnection_def first_hop_def ex_conn ex_metadata_valid NewCounterparty_def
      check_active_channel_def ctrl_GetActiveChannelID_def ica_get_def ex_ctrl_store_def ex_ctrl_def ex_ilib_def ex_v1_def)

lemma ex_claim1: "is_ok (ClaimCapability host_SubModuleName (Some ex_cap1) (ChannelCapabilityPath HostPortID ''channel-1'') ex_ica_caps)"
  by code_simp

lemma ex_address: "ValidateAccountAddress (AccAddress_String ex_sdk (GenerateAddress ex_ilib ex_ctx LocalhostConnectionID ex_port)) = Inr ()"
  by code_simp

lemma ex_port_slash_free: "slash_free ex_port"
  by (simp add: slash_free_def)

lemma ex_no_accounts: "accounts_ok ex_host (app ex_host_world)"
  by (simp add: accounts_ok_def ex_host_world_def host_GetInterchainAccountAddress_def ica_get_def ex_host_store_def)

lemma ex_tried:
  obtains v w addr where "host_OnChanOpenTry ex_host ex_ctx ORDERED [LocalhostConnectionID] HostPortID ''channel-1'' (Some ex_cap1)
     (NewCounterparty ex_port ''channel-0'') ex_v1 ex_host_world = Inr (v, w)"
    "host_GetInterchainAccountAddress (app w) LocalhostConnectionID ex_port = Some addr" "ValidateAccountAddress addr = Inr ()"
    "host_GetParams (app w) = Inr host_DefaultParams"
proof -
  let ?a = "GenerateAddress ex_ilib ex_ctx LocalhostConnectionID ex_port"
  let ?acc = "NewInterchainAccount \<lparr>ba_Address = bytes_str ?a, ba_AccountNumber = 0, ba_Sequence = 0\<rparr> ex_port"
  obtain t where t: "ClaimCapability host_SubModuleName (Some ex_cap1) (ChannelCapabilityPath HostPortID ''channel-1'') ex_ica_caps = Inr t"
    using ex_claim1 by (auto simp: is_ok_iff)
  have ne: "bytes_str ?a \<noteq> []" by (simp add: GenerateAddress_def ex_ilib_def Let_def str_bytes_def)
  have v1: "UnmarshalIcaMetadata (hk_lib ex_host) ex_v1 = Some (NewDefaultMetadata LocalhostConnectionID LocalhostConnectionID)"
    by (simp add: ex_host_def ex_ilib_def ex_v1_def ex_metadata_roundtrip)
  have none: "host_GetInterchainAccountAddress (app ex_host_world) c p = None" "host_GetActiveChannelID (app ex_host_world) c p = None" for c p
    by (simp_all add: ex_host_world_def host_GetInterchainAccountAddress_def host_GetActiveChannelID_def ica_get_def ex_host_store_def)
  have params: "host_GetParams (app ex_host_world) = Inr host_DefaultParams" by (simp add: host_GetParams_def ex_host_world_def ex_host_store_def)
  have core: "core (ibc_state ex_host_world) = ex_loop_base" by (simp add: ex_host_world_def)
  obtain st where c: "createInterchainAccount ex_host ex_ctx LocalhostConnectionID ex_port (app ex_host_world) = Inr (?a, st)"
    by (simp add: createInterchainAccount_def ex_host_def Let_def ex_host_world_def split: prod.splits)
  have caps: "caps (ibc_state ex_host_world) = ex_ica_caps" by (simp add: ex_host_world_def)
  have js: "\<exists>v. MarshalIcaMetadata (hk_lib ex_host) m = Inr v" for m by (simp add: ex_host_def ex_ilib_def)
  obtain v where v: "MarshalIcaMetadata (hk_lib ex_host) (NewDefaultMetadata LocalhostConnectionID LocalhostConnectionID
      \<lparr>md_Address := AccAddress_String (hk_sdk ex_host) ?a\<rparr>) = Inr v" using js by blast
  have md: "md_HostConnectionId (NewDefaultMetadata LocalhostConnectionID LocalhostConnectionID) = LocalhostConnectionID"
    by (simp add: NewDefaultMetadata_def)
  let ?w1 = "ex_host_world\<lparr>ibc_state := (ibc_state ex_host_world)\<lparr>caps := t\<rparr>\<rparr>"
  have "host_OnChanOpenTry ex_host ex_ctx ORDERED [LocalhostConnectionID] HostPortID ''channel-1'' (Some ex_cap1)
     (NewCounterparty ex_port ''channel-0'') ex_v1 ex_host_world = Inr (v, ?w1\<lparr>app := st\<rparr>)"
    by (simp add: host_OnChanOpenTry_def params host_DefaultParams_def host_NewParams_def DefaultHostEnabled_def host_OnChanOpenTry_keeper_def v1
        core caps ex_metadata_valid first_hop_def none check_active_channel_def NewCounterparty_def host_ClaimCapability_def t md
        reopen_or_create_def c v)
  moreover have "host_GetInterchainAccountAddress (app (?w1\<lparr>app := st\<rparr>)) LocalhostConnectionID ex_port = Some (AccAddress_String (hk_sdk ex_host) ?a)"
    using account_keeper.create_account(2) [OF ex_accounts_laws c ex_port_slash_free none(1)] by simp
  moreover have "ValidateAccountAddress (AccAddress_String (hk_sdk ex_host) ?a) = Inr ()"
    using ex_address by (simp add: ex_host_def ex_ilib_def)
  moreover have "host_GetParams (app (?w1\<lparr>app := st\<rparr>)) = Inr host_DefaultParams"
    using c params by (auto simp: createInterchainAccount_def host_GetParams_def host_SetInterchainAccountAddress_def ih_set_def KeyOwnerAccount_def
        Let_def split: option.splits if_splits prod.splits)
  ultimately show thesis by (rule that)
qed

text \<open>The host once its channel is stored.\<close>

definition ex_host_channel :: Channel where
  "ex_host_channel = NewChannel TRYOPEN ORDERED (NewCounterparty ex_port ''channel-0'') [LocalhostConnectionID] ''v1''"

definition ex_host_opening :: "ex_chain ica_host world \<Rightarrow> ex_chain ica_host world" where
  "ex_host_opening w = w\<lparr>ibc_state := (ibc_state w)\<lparr>core := SetChannel HostPortID ''channel-1'' ex_host_channel (core (ibc_state w))\<rparr>\<rparr>"

lemma ex_ctrl_init: "\<exists>c1. ctrl_OnChanOpenInit ex_ctrl None ex_ctx ORDERED [LocalhostConnectionID] ex_port ''channel-0'' (Some ex_cap0)
    (NewCounterparty HostPortID []) [] ex_ctrl_start = Inr (ex_v1, c1)"
proof -
  have "is_ok (ClaimCapability controller_SubModuleName (Some ex_cap0) (ChannelCapabilityPath ex_port ''channel-0'') ex_unclaimed)" by code_simp
  then obtain t where t: "ClaimCapability controller_SubModuleName (Some ex_cap0) (ChannelCapabilityPath ex_port ''channel-0'') ex_unclaimed = Inr t"
    by (auto simp: is_ok_iff)
  show ?thesis
    unfolding ctrl_OnChanOpenInit_def ex_init by (simp add: ctrl_GetParams_def ex_ctrl_start_def ex_ctrl_world_def ex_ctrl_store_def controller_DefaultParams_def
        controller_NewParams_def DefaultControllerEnabled_def ctrl_ClaimCapability_def t first_hop_def when_enabled_def)
qed

lemma ica_handshake_agrees_witness:
  "\<exists>v2 h' addr d e. host_OnChanOpenTry ex_host ex_ctx ORDERED [LocalhostConnectionID] HostPortID ''channel-1'' (Some ex_cap1)
     (NewCounterparty ex_port ''channel-0'') ex_v1 ex_host_world = Inr (v2, h')
    \<and> host_GetInterchainAccountAddress (app h') LocalhostConnectionID ex_port = Some addr
    \<and> ctrl_OnChanOpenAck ex_ctrl None ex_ctx ex_port ''channel-0'' ''channel-1'' v2 ex_ctrl_world = Inr d
    \<and> ctrl_GetInterchainAccountAddress (app d) LocalhostConnectionID ex_port = Some addr
    \<and> host_OnChanOpenConfirm HostPortID ''channel-1'' (ex_host_opening h') = Inr e"
proof -
  obtain v2 h' addr where t: "host_OnChanOpenTry ex_host ex_ctx ORDERED [LocalhostConnectionID] HostPortID ''channel-1'' (Some ex_cap1)
     (NewCounterparty ex_port ''channel-0'') ex_v1 ex_host_world = Inr (v2, h')"
    and addr: "host_GetInterchainAccountAddress (app h') LocalhostConnectionID ex_port = Some addr" "ValidateAccountAddress addr = Inr ()"
    and prm: "host_GetParams (app h') = Inr host_DefaultParams"
    by (rule ex_tried)
  obtain c1 where i: "ctrl_OnChanOpenInit ex_ctrl None ex_ctx ORDERED [LocalhostConnectionID] ex_port ''channel-0'' (Some ex_cap0)
    (NewCounterparty HostPortID []) [] ex_ctrl_start = Inr (ex_v1, c1)" using ex_ctrl_init by blast
  have chan: "GetChannel (core (ibc_state ex_ctrl_world)) ex_port ''channel-0'' =
      Some (NewChannel OPEN ORDERED (NewCounterparty HostPortID ''channel-1'') [LocalhostConnectionID] ''v1'')"
    by (simp add: ex_ctrl_world_def ex_ica_core_def ex_end_def view_rules)
  have free: "ctrl_GetOpenActiveChannel ex_ctrl_world LocalhostConnectionID ex_port = None"
    by (simp add: ctrl_GetOpenActiveChannel_def ctrl_GetActiveChannelID_def ica_get_def ex_ctrl_world_def ex_ctrl_store_def)
  have codec: "MarshalIcaMetadata (ck_lib ex_ctrl) m = Inr v \<Longrightarrow> UnmarshalIcaMetadata (hk_lib ex_host) v = Some m"
    "MarshalIcaMetadata (hk_lib ex_host) m = Inr v \<Longrightarrow> UnmarshalIcaMetadata (ck_lib ex_ctrl) v = Some m" for m v
    using ex_metadata_roundtrip by (auto simp: ex_ctrl_def ex_host_def ex_ilib_def)
  have cprm: "ctrl_GetParams (app ex_ctrl_world) = Inr controller_DefaultParams" "ControllerEnabled controller_DefaultParams"
    by (simp_all add: ctrl_GetParams_def ex_ctrl_world_def ex_ctrl_store_def controller_DefaultParams_def controller_NewParams_def DefaultControllerEnabled_def)
  have hprm: "host_GetParams (app (ex_host_opening h')) = Inr host_DefaultParams" "HostEnabled host_DefaultParams"
    using prm by (simp_all add: ex_host_opening_def host_DefaultParams_def host_NewParams_def DefaultHostEnabled_def)
  have hchan: "GetChannel (core (ibc_state (ex_host_opening h'))) HostPortID ''channel-1'' = Some ex_host_channel"
    by (simp add: ex_host_opening_def set_defs store_simps)
  have "\<exists>addr. host_GetInterchainAccountAddress (app h') ([LocalhostConnectionID] ! 0) ex_port = Some addr
      \<and> (ctrl_GetOpenActiveChannel ex_ctrl_world ([LocalhostConnectionID] ! 0) ex_port = None \<longrightarrow>
          (\<exists>d. ctrl_OnChanOpenAck ex_ctrl None ex_ctx ex_port ''channel-0'' ''channel-1'' v2 ex_ctrl_world = Inr d
            \<and> ctrl_GetActiveChannelID (app d) ([LocalhostConnectionID] ! 0) ex_port = Some ''channel-0''
            \<and> ctrl_GetInterchainAccountAddress (app d) ([LocalhostConnectionID] ! 0) ex_port = Some addr))
      \<and> (ctrl_GetOpenActiveChannel ex_ctrl_world ([LocalhostConnectionID] ! 0) ex_port \<noteq> None \<longrightarrow>
          ctrl_OnChanOpenAck ex_ctrl None ex_ctx ex_port ''channel-0'' ''channel-1'' v2 ex_ctrl_world = Inl ica_ErrActiveChannelAlreadySet)
      \<and> (\<exists>e. host_OnChanOpenConfirm HostPortID ''channel-1'' (ex_host_opening h') = Inr e
            \<and> host_GetActiveChannelID (app e) ([LocalhostConnectionID] ! 0) ex_port = Some ''channel-1''
            \<and> host_GetInterchainAccountAddress (app e) ([LocalhostConnectionID] ! 0) ex_port = Some addr)"
    using addr by (intro ica_handshake_agrees [OF codec ex_accounts_laws ex_no_accounts i t _ _ chan _ _ cprm _ _ hchan _ _ _ hprm, THEN conjunct2, THEN conjunct2])
       (auto simp: NewCounterparty_def NewChannel_def ex_port_slash_free ex_host_channel_def ex_host_opening_def when_enabled_def ex_ctrl_start_def ex_ctrl_world_def)
  with t free show ?thesis by auto
qed

lemma interchain_accounts_exclusive_witness:
  "\<exists>w addr. host_trace ex_host ex_host_world w \<and> host_GetInterchainAccountAddress (app w) LocalhostConnectionID ex_port = Some addr
    \<and> owned_account ex_host (ih_app (app w)) addr ex_port"
proof -
  obtain v w addr where t: "host_OnChanOpenTry ex_host ex_ctx ORDERED [LocalhostConnectionID] HostPortID ''channel-1'' (Some ex_cap1)
     (NewCounterparty ex_port ''channel-0'') ex_v1 ex_host_world = Inr (v, w)"
    and addr: "host_GetInterchainAccountAddress (app w) LocalhostConnectionID ex_port = Some addr" by (rule ex_tried)
  have run: "host_trace ex_host ex_host_world w"
    by (rule trace_step [OF trace_refl host_try [OF t]]) (simp add: NewCounterparty_def ex_port_slash_free)
  with interchain_accounts_exclusive [OF ex_accounts_laws ex_handlers ex_no_accounts run, of LocalhostConnectionID ex_port addr] addr ex_port_slash_free
  show ?thesis by blast
qed

text \<open>A transaction of two messages for an account that is already registered.\<close>

definition ex_calls :: "ex_msg list" where
  "ex_calls = [ExCall (str_bytes ''abc'') ''hello'', ExCall (str_bytes ''abc'') ''again'']"

definition ex_tx :: bytes where
  "ex_tx = (case SerializeCosmosTx ex_ilib ex_calls of Inr bz \<Rightarrow> bz | Inl _ \<Rightarrow> [])"

definition ex_ica_data :: InterchainAccountPacketData where
  "ex_ica_data = \<lparr>ipd_Type = EXECUTE_TX, ipd_Data = ex_tx, ipd_Memo = []\<rparr>"

definition ex_ica_packet :: Packet where
  "ex_ica_packet = NewPacket (ex_MarshalIcaData ex_ica_data) 1 ex_port ''channel-0'' HostPortID ''channel-1'' ZeroHeight 100"

definition ex_registered :: "ex_chain ica_host world" where
  "ex_registered = ex_host_world\<lparr>ibc_state := \<lparr>core = ex_ica_core, caps = ex_ica_caps\<rparr>,
     app := host_SetInterchainAccountAddress LocalhostConnectionID ex_port ''abc'' (app ex_host_world)\<rparr>"

definition ex_logged :: "(bytes \<times> string) list \<Rightarrow> ex_chain ica_host world" where
  "ex_logged l = ex_registered\<lparr>app := (app ex_registered)\<lparr>ih_app := (ih_app (app ex_registered))\<lparr>ex_log := l\<rparr>\<rparr>\<rparr>"

lemma ex_tx_decodes: "DeserializeCosmosTx ex_ilib ex_tx = Inr ex_calls"
  by code_simp

lemma ex_data_decodes: "ex_UnmarshalIcaData (ex_MarshalIcaData ex_ica_data) = Some ex_ica_data"
  by (simp add: ex_UnmarshalIcaData_def ex_MarshalIcaData_def ex_ica_data_def get_put_str)

lemma ex_ica_channels:
  "GetChannel ex_ica_core ex_port ''channel-0'' = Some (NewChannel OPEN ORDERED (NewCounterparty HostPortID ''channel-1'') [LocalhostConnectionID] ''v1'')"
  "GetChannel ex_ica_core HostPortID ''channel-1'' = Some (NewChannel OPEN ORDERED (NewCounterparty ex_port ''channel-0'') [LocalhostConnectionID] ''v1'')"
  by (simp_all add: ex_ica_core_def ex_end_def view_rules)

lemma ex_authorised: "tx_authorised ex_host ex_ica_packet ex_calls ex_registered"
  unfolding tx_authorised_def
proof (intro exI conjI)
  show "UnmarshalIcaData (hk_lib ex_host) (Data ex_ica_packet) = Some ex_ica_data"
    using ex_data_decodes by (simp add: ex_host_def ex_ilib_def ex_ica_packet_def NewPacket_def)
  show "ipd_Type ex_ica_data = EXECUTE_TX" by (simp add: ex_ica_data_def)
  show "DeserializeCosmosTx (hk_lib ex_host) (ipd_Data ex_ica_data) = Inr ex_calls"
    using ex_tx_decodes by (simp add: ex_host_def ex_ica_data_def)
  show "GetChannel (core (ibc_state ex_registered)) (DestinationPort ex_ica_packet) (DestinationChannel ex_ica_packet) =
      Some (NewChannel OPEN ORDERED (NewCounterparty ex_port ''channel-0'') [LocalhostConnectionID] ''v1'')"
    using ex_ica_channels(2) by (simp add: ex_registered_def ex_ica_packet_def NewPacket_def)
  show "ch_ConnectionHops (NewChannel OPEN ORDERED (NewCounterparty ex_port ''channel-0'') [LocalhostConnectionID] ''v1'') = LocalhostConnectionID # []"
    by (simp add: NewChannel_def)
  show "host_GetInterchainAccountAddress (app ex_registered) LocalhostConnectionID (SourcePort ex_ica_packet) = Some ''abc''"
    by (simp add: ex_registered_def ex_ica_packet_def NewPacket_def)
  show "host_GetParams (app ex_registered) = Inr host_DefaultParams"
    by (simp add: host_GetParams_def ex_registered_def host_SetInterchainAccountAddress_def ih_set_def ex_host_world_def ex_host_store_def)
  show "list_all (\<lambda>msg. msg_allowed (hk_lib ex_host) (AllowMessages host_DefaultParams) msg \<and> signed_only_by (hk_lib ex_host) ''abc'' msg) ex_calls"
    by (simp add: ex_calls_def msg_allowed_def signed_only_by_def host_DefaultParams_def host_NewParams_def ex_host_def ex_ilib_def ex_sdk_def)
qed

lemma ex_tx_runs: "\<exists>rs. tx_run ex_host ex_ctx ex_calls ex_registered rs (ex_logged [(str_bytes ''abc'', ''hello''), (str_bytes ''abc'', ''again'')])
    \<and> (\<exists>bz. MarshalTxMsgData (hk_lib ex_host) rs = Inr bz)"
proof -
  let ?r = "\<lambda>t. \<lparr>any_TypeUrl = ''/ex.CallResponse'', any_Value = str_bytes t\<rparr>"
  have h: "ex_handler ex_ctx (ExCall (str_bytes ''abc'') t) (ex_logged l) = (Inr [Some (?r t)], ex_logged (l @ [(str_bytes ''abc'', t)]))" for t l
    by (simp add: ex_handler_def ex_logged_def)
  have reg: "ex_registered = ex_logged []" by (simp add: ex_logged_def ex_registered_def ex_host_world_def host_SetInterchainAccountAddress_def ih_set_def)
  have "tx_run ex_host ex_ctx ex_calls ex_registered [?r ''hello'', ?r ''again'']
      (ex_logged (([] @ [(str_bytes ''abc'', ''hello'')]) @ [(str_bytes ''abc'', ''again'')]))"
    unfolding reg ex_calls_def by (rule tx_msg [where h = ex_handler, OF _ _ h], simp add: ex_host_def ex_ilib_def, simp add: ex_host_def,
      rule tx_msg [where h = ex_handler, OF _ _ h], simp add: ex_host_def ex_ilib_def, simp add: ex_host_def, rule tx_done)
  then show ?thesis by (auto simp: ex_host_def ex_ilib_def ex_MarshalAnys_def)
qed

lemma host_executes_authorised_witness:
  "\<exists>ack. host_OnRecvPacket ex_host ex_ctx ex_ica_packet ex_registered =
     Inr (Some ack, ex_logged [(str_bytes ''abc'', ''hello''), (str_bytes ''abc'', ''again'')]) \<and> ack_Success ack"
proof -
  have p: "host_GetParams (app ex_registered) = Inr host_DefaultParams" "HostEnabled host_DefaultParams"
    by (simp_all add: host_GetParams_def ex_registered_def host_SetInterchainAccountAddress_def ih_set_def ex_host_world_def ex_host_store_def
        host_DefaultParams_def host_NewParams_def DefaultHostEnabled_def)
  let ?w = "ex_logged [(str_bytes ''abc'', ''hello''), (str_bytes ''abc'', ''again'')]"
  obtain rs bz where "tx_run ex_host ex_ctx ex_calls ex_registered rs ?w" "MarshalTxMsgData (hk_lib ex_host) rs = Inr bz" using ex_tx_runs by blast
  with host_executes_authorised [OF p, where k = ex_host and ctx = ex_ctx and pkt = ex_ica_packet and msgs = ex_calls and rs = rs and bz = bz and w' = ?w]
    ex_authorised
  have "host_OnRecvPacket ex_host ex_ctx ex_ica_packet ex_registered = Inr (Some (ack_of (hk_sdk ex_host) (Acknowledgement_Result bz)), ?w)" by blast
  then show ?thesis by (intro exI [of _ "ack_of (hk_sdk ex_host) (Acknowledgement_Result bz)"]) simp
qed

text \<open>The same transaction sent by alice, with fifty nanoseconds to go.\<close>

definition ex_active_world :: "unit ica_ctrl world" where
  "ex_active_world = ex_ctrl_world\<lparr>app := ctrl_SetActiveChannelID LocalhostConnectionID ex_port ''channel-0'' (app ex_ctrl_world)\<rparr>"

definition ex_send_msg :: MsgSendTx where
  "ex_send_msg = \<lparr>mst_Owner = ''alice'', mst_ConnectionId = LocalhostConnectionID, mst_PacketData = ex_ica_data, mst_RelativeTimeout = 50\<rparr>"

lemma ex_sent:
  "\<exists>w. msg_SendTx ex_ctrl ex_ctx ex_send_msg ex_active_world = Inr (1, w)"
proof -
  let ?st = "\<lparr>core = ex_ica_core, caps = ex_ica_caps\<rparr>" and ?bz = "ex_MarshalIcaData ex_ica_data"
  let ?t = "UnixNano64 (BlockTime ex_ctx) + 50"
  have ready: "loop_ready ex_lib ex_ica_core"
  proof -
    have "loop_ready ex_lib ex_loop_base" by code_simp
    then show ?thesis by (simp add: ex_ica_core_def ex_end_def loop_simps)
  qed
  have e: "loop_end ORDERED ex_port ''channel-0'' HostPortID ''channel-1'' ex_ica_core" using ex_ica_channels(1) by (simp add: loop_end_def NewChannel_def)
  have auth: "AuthenticateCapability ''ibc'' ex_ica_caps (Some ex_cap0) (ChannelCapabilityPath ex_port ''channel-0'')"
    and cap: "GetCapability controller_SubModuleName ex_ica_caps (ChannelCapabilityPath ex_port ''channel-0'') = Inr (Some ex_cap0)" by code_simp+
  have n: "GetNextSequenceSend ex_ica_core ex_port ''channel-0'' = Some 1" by (simp add: ex_ica_core_def ex_end_def view_rules)
  have ids: "PortIdentifierValidator ex_port = Inr ()" "PortIdentifierValidator HostPortID = Inr ()"
    "ChannelIdentifierValidator ''channel-0'' = Inr ()" "ChannelIdentifierValidator ''channel-1'' = Inr ()" "UnixNano64 (BlockTime ex_ctx) < ?t"
    "?t \<noteq> 0" by code_simp+
  have "GetClientState ex_ica_core LocalhostClientID = Some (LocalhostClient (NewHeight 0 9))"
    using ex_loop_base_reads(6) by (simp add: ex_ica_core_def ex_end_def GetClientState_def view_rules)
  with ids have "send_ready ex_ctx (NewPacket ?bz 1 ex_port ''channel-0'' HostPortID ''channel-1'' ZeroHeight ?t) ex_ica_core"
    by (simp add: send_ready_def Packet_ValidateBasic_def ex_MarshalIcaData_def NewPacket_def ZeroHeight_def IsZero_def)
  with loop_send_ok [of ex_lib ?st ORDERED ex_port "''channel-0''" HostPortID "''channel-1''" "Some ex_cap0" 1 ex_ctx ?bz ZeroHeight ?t] ready e auth n
  obtain st where "SendPacket ex_ctx (Some ex_cap0) ex_port ''channel-0'' ZeroHeight ?t ?bz ?st = Inr (1, st)" by auto
  moreover have "ipd_ValidateBasic ex_ica_data = Inr ()" by code_simp
  moreover have "ctrl_GetOpenActiveChannel ex_active_world LocalhostConnectionID ex_port = Some ''channel-0''"
    using ex_ica_channels(1) by (simp add: ctrl_GetOpenActiveChannel_def ctrl_GetActiveChannelID_def ex_active_world_def ctrl_SetActiveChannelID_def
        ic_set_def ica_get_def ex_ctrl_world_def NewChannel_def)
  moreover have "NewControllerPortID ''alice'' = Inr ex_port" by code_simp
  moreover have "ipd_GetBytes (ck_lib ex_ctrl) ex_ica_data = ?bz" by (simp add: ipd_GetBytes_def ex_ctrl_def ex_ilib_def)
  moreover have "ibc_state ex_active_world = ?st" by (simp add: ex_active_world_def ex_ctrl_world_def)
  ultimately show ?thesis using cap ids(5) by (simp add: msg_SendTx_def ex_send_msg_def sendTx_def Let_def not_le [symmetric])
qed

lemma send_tx_bounds_witness:
  "\<exists>w (t :: u64) ch. msg_SendTx ex_ctrl ex_ctx ex_send_msg ex_active_world = Inr (1, w)
    \<and> ctrl_GetActiveChannelID (app ex_active_world) LocalhostConnectionID ex_port = Some ch
    \<and> unat t = unat (UnixNano64 (BlockTime ex_ctx)) + 50
    \<and> GetPacketCommitment (core (ibc_state w)) ex_port ch 1 \<noteq> []"
proof -
  obtain w where w: "msg_SendTx ex_ctrl ex_ctx ex_send_msg ex_active_world = Inr (1, w)" using ex_sent by blast
  have "CommitPacket x \<noteq> []" for x using length_Sum256 by (auto simp: CommitPacket_def)
  with send_tx_bounds [OF w] w show ?thesis by (auto simp: ex_send_msg_def)
qed

end
