(* ===== verification/Core_Iterate.thy ===== *)
theory Core_Iterate
  imports Channel_Keeper Iterate
begin

text \<open>
  The iterators of the core keepers over their parts of the store: channels, sequences and packet
  hashes (\<open>04-channel/keeper/keeper.go\<close>), connections and the connections of clients
  (\<open>03-connection/keeper/keeper.go\<close>), client states, consensus states and client metadata
  (\<open>02-client/keeper/keeper.go\<close>, \<open>07-tendermint/store.go\<close> and \<open>genesis.go\<close>). No callback of the source stops an
  iterator, so each is the list of what its callback sees, in the order of the keys; a key or value
  that does not decode is a panic. The genesis export and the queries use them.
\<close>

section \<open>Data\<close>

record IdentifiedChannel = Channel +
  idc_PortId :: string
  idc_ChannelId :: string

definition NewIdentifiedChannel :: "string \<Rightarrow> string \<Rightarrow> Channel \<Rightarrow> IdentifiedChannel" where
  "NewIdentifiedChannel portID channelID ch =
     \<lparr>ch_State = ch_State ch, ch_Ordering = ch_Ordering ch, ch_Counterparty = ch_Counterparty ch,
      ch_ConnectionHops = ch_ConnectionHops ch, ch_Version = ch_Version ch, idc_PortId = portID, idc_ChannelId = channelID\<rparr>"

record IdentifiedConnection = ConnectionEnd +
  idn_Id :: string

definition NewIdentifiedConnection :: "string \<Rightarrow> ConnectionEnd \<Rightarrow> IdentifiedConnection" where
  "NewIdentifiedConnection connectionID conn =
     \<lparr>conn_ClientId = conn_ClientId conn, conn_Versions = conn_Versions conn, conn_State = conn_State conn,
      conn_Counterparty = conn_Counterparty conn, conn_DelayPeriod = conn_DelayPeriod conn, idn_Id = connectionID\<rparr>"

record PacketState =
  pst_PortId :: string
  pst_ChannelId :: string
  pst_Sequence :: u64
  pst_Data :: bytes

definition NewPacketState :: "string \<Rightarrow> string \<Rightarrow> u64 \<Rightarrow> bytes \<Rightarrow> PacketState" where
  "NewPacketState portID channelID s data = \<lparr>pst_PortId = portID, pst_ChannelId = channelID, pst_Sequence = s, pst_Data = data\<rparr>"

record PacketSequence =
  psq_PortId :: string
  psq_ChannelId :: string
  psq_Sequence :: u64

definition NewPacketSequence :: "string \<Rightarrow> string \<Rightarrow> u64 \<Rightarrow> PacketSequence" where
  "NewPacketSequence portID channelID s = \<lparr>psq_PortId = portID, psq_ChannelId = channelID, psq_Sequence = s\<rparr>"

record ConnectionPaths =
  cps_ClientId :: string
  cps_Paths :: "string list"

definition NewConnectionPaths :: "string \<Rightarrow> string list \<Rightarrow> ConnectionPaths" where
  "NewConnectionPaths i paths = \<lparr>cps_ClientId = i, cps_Paths = paths\<rparr>"

text \<open>A packed client or consensus state is \<open>None\<close> when its cached value is of another type.\<close>

record IdentifiedClientState =
  ics_ClientId :: string
  ics_ClientState :: "ClientState option"

record ConsensusStateWithHeight =
  csh_Height :: Height
  csh_ConsensusState :: "ConsensusState option"

record ClientConsensusStates =
  ccs_ClientId :: string
  ccs_ConsensusStates :: "ConsensusStateWithHeight list"

text \<open>The value of a metadata entry is what its bytes encode, as in the store.\<close>

record GenesisMetadata =
  gm_Key :: string
  gm_Value :: kv_value

record IdentifiedGenesisMetadata =
  igm_ClientId :: string
  igm_ClientMetadata :: "GenesisMetadata list"

section \<open>Channels\<close>

definition IterateChannels :: "kvstore \<Rightarrow> string \<Rightarrow> IdentifiedChannel list result" where
  "IterateChannels s pre =
     collect (\<lambda>(key, v).
       case asChannel v of
         None \<Rightarrow> Inl (Panic ''cannot unmarshal channel'')
       | Some channel \<Rightarrow>
           and_then (MustParseChannelPath key) (\<lambda>(portID, channelID). Inr (NewIdentifiedChannel portID channelID channel)))
       (prefix_values s pre)"

definition GetAllChannels :: "kvstore \<Rightarrow> IdentifiedChannel list result" where
  "GetAllChannels s = IterateChannels s KeyChannelEndPrefix"

definition FilteredPortPrefix :: "string \<Rightarrow> string" where
  "FilteredPortPrefix portPrefix = KeyChannelEndPrefix @ ''/'' @ KeyPortPrefix @ ''/'' @ portPrefix"

definition GetAllChannelsWithPortPrefix :: "kvstore \<Rightarrow> string \<Rightarrow> IdentifiedChannel list result" where
  "GetAllChannelsWithPortPrefix s portPrefix =
     (if is_blank portPrefix then GetAllChannels s else IterateChannels s (FilteredPortPrefix portPrefix))"

text \<open>The iteration over sequences ends at the first key that is not a channel path.\<close>

fun IteratePacketSequence :: "(string \<times> kv_value) list \<Rightarrow> PacketSequence list result" where
  "IteratePacketSequence [] = Inr []"
| "IteratePacketSequence ((key, v) # rest) =
     (case ParseChannelPath key of
        Inl e \<Rightarrow> Inr []
      | Inr (portID, channelID) \<Rightarrow>
          (case asUint64 v of
             None \<Rightarrow> Inl (Panic ''cannot decode sequence'')
           | Some sequence \<Rightarrow>
               and_then (IteratePacketSequence rest) (\<lambda>seqs. Inr (NewPacketSequence portID channelID sequence # seqs))))"

definition GetAllPacketSendSeqs :: "kvstore \<Rightarrow> PacketSequence list result" where
  "GetAllPacketSendSeqs s = IteratePacketSequence (prefix_values s KeyNextSeqSendPrefix)"

definition GetAllPacketRecvSeqs :: "kvstore \<Rightarrow> PacketSequence list result" where
  "GetAllPacketRecvSeqs s = IteratePacketSequence (prefix_values s KeyNextSeqRecvPrefix)"

definition GetAllPacketAckSeqs :: "kvstore \<Rightarrow> PacketSequence list result" where
  "GetAllPacketAckSeqs s = IteratePacketSequence (prefix_values s KeyNextSeqAckPrefix)"

definition iterateHashes :: "(string \<times> kv_value) list \<Rightarrow> PacketState list result" where
  "iterateHashes kvs =
     collect (\<lambda>(key, v).
       let keySplit = Split key ''/'' in
       if length keySplit \<le> 4 then Inl (Panic ''index out of range'')
       else case ParseUint (last keySplit) of
         None \<Rightarrow> Inl (Panic ''strconv.ParseUint'')
       | Some sequence \<Rightarrow>
           (case asBytes v of
              None \<Rightarrow> Inl (Panic ''not a hash'')
            | Some bz \<Rightarrow> Inr (NewPacketState (keySplit ! 2) (keySplit ! 4) sequence bz)))
       kvs"

definition GetAllPacketCommitments :: "kvstore \<Rightarrow> PacketState list result" where
  "GetAllPacketCommitments s = iterateHashes (prefix_values s KeyPacketCommitmentPrefix)"

definition GetAllPacketCommitmentsAtChannel :: "kvstore \<Rightarrow> string \<Rightarrow> string \<Rightarrow> PacketState list result" where
  "GetAllPacketCommitmentsAtChannel s portID channelID =
     and_then (iterateHashes (prefix_values s (PacketCommitmentPrefixPath portID channelID))) (\<lambda>xs.
     Inr (map (\<lambda>x. NewPacketState portID channelID (pst_Sequence x) (pst_Data x)) xs))"

definition GetAllPacketReceipts :: "kvstore \<Rightarrow> PacketState list result" where
  "GetAllPacketReceipts s = iterateHashes (prefix_values s KeyPacketReceiptPrefix)"

definition GetAllPacketAcks :: "kvstore \<Rightarrow> PacketState list result" where
  "GetAllPacketAcks s = iterateHashes (prefix_values s KeyPacketAckPrefix)"

section \<open>Clients\<close>

text \<open>\<open>strings.Contains\<close>\<close>

fun strings_Contains :: "string \<Rightarrow> string \<Rightarrow> bool" where
  "strings_Contains [] sub = (sub = [])"
| "strings_Contains (c # s) sub = (HasPrefix (c # s) sub \<or> strings_Contains s sub)"

definition IterateClientStates :: "kvstore \<Rightarrow> string \<Rightarrow> (string \<times> ClientState) list result" where
  "IterateClientStates s pre =
     collect (\<lambda>(path, v).
       and_then (MustParseClientStatePath path) (\<lambda>clientID.
       case asClientState v of
         None \<Rightarrow> Inl (Panic ''cannot unmarshal client state'')
       | Some clientState \<Rightarrow> Inr (clientID, clientState)))
       (filter (\<lambda>(path, v). strings_Contains path KeyClientState) (prefix_values s (PrefixedClientStorePath pre)))"

definition GetAllClients :: "kvstore \<Rightarrow> ClientState list result" where
  "GetAllClients s = and_then (IterateClientStates s []) (\<lambda>cs. Inr (map snd cs))"

definition NewIdentifiedClientState :: "string \<Rightarrow> ClientState \<Rightarrow> IdentifiedClientState" where
  "NewIdentifiedClientState clientID clientState = \<lparr>ics_ClientId = clientID, ics_ClientState = Some clientState\<rparr>"

text \<open>The identifiers of stored clients are distinct, so that sorting by them has one result.\<close>

definition IdentifiedClientStates_Sort :: "IdentifiedClientState list \<Rightarrow> IdentifiedClientState list" where
  "IdentifiedClientStates_Sort ics = sort_key ics_ClientId ics"

definition GetAllGenesisClients :: "kvstore \<Rightarrow> IdentifiedClientState list result" where
  "GetAllGenesisClients s =
     and_then (IterateClientStates s []) (\<lambda>cs.
     Inr (IdentifiedClientStates_Sort (map (\<lambda>(clientID, c). NewIdentifiedClientState clientID c) cs)))"

definition is_consensus_key :: "string \<Rightarrow> bool" where
  "is_consensus_key key =
     (let keySplit = Split key ''/'' in length keySplit = 4 \<and> keySplit ! 2 = KeyConsensusStatePrefix)"

definition NewConsensusStateWithHeight :: "Height \<Rightarrow> ConsensusState \<Rightarrow> ConsensusStateWithHeight" where
  "NewConsensusStateWithHeight height consensusState = \<lparr>csh_Height = height, csh_ConsensusState = Some consensusState\<rparr>"

definition IterateConsensusStates :: "kvstore \<Rightarrow> (string \<times> ConsensusStateWithHeight) list result" where
  "IterateConsensusStates s =
     collect (\<lambda>(key, v).
       let keySplit = Split key ''/'' in
       and_then (MustParseHeight (keySplit ! 3)) (\<lambda>height.
       case asConsensusState v of
         None \<Rightarrow> Inl (Panic ''cannot unmarshal consensus state'')
       | Some consensusState \<Rightarrow> Inr (keySplit ! 1, NewConsensusStateWithHeight height consensusState)))
       (filter (\<lambda>(key, v). is_consensus_key key) (prefix_values s KeyClientStorePrefix))"

text \<open>The callback of \<open>GetAllConsensusStates\<close>: the states of one client are appended at its index.\<close>

fun add_consensus :: "string \<Rightarrow> ConsensusStateWithHeight \<Rightarrow> ClientConsensusStates list \<Rightarrow> ClientConsensusStates list" where
  "add_consensus clientID cs [] = [\<lparr>ccs_ClientId = clientID, ccs_ConsensusStates = [cs]\<rparr>]"
| "add_consensus clientID cs (x # xs) =
     (if ccs_ClientId x = clientID then x\<lparr>ccs_ConsensusStates := ccs_ConsensusStates x @ [cs]\<rparr> # xs
      else x # add_consensus clientID cs xs)"

definition ClientsConsensusStates_Sort :: "ClientConsensusStates list \<Rightarrow> ClientConsensusStates list" where
  "ClientsConsensusStates_Sort ccs = sort_key ccs_ClientId ccs"

definition GetAllConsensusStates :: "kvstore \<Rightarrow> ClientConsensusStates list result" where
  "GetAllConsensusStates s =
     and_then (IterateConsensusStates s) (\<lambda>cs.
     Inr (ClientsConsensusStates_Sort (fold (\<lambda>(clientID, c). add_consensus clientID c) cs [])))"

section \<open>Client metadata\<close>

definition NewGenesisMetadata :: "string \<Rightarrow> kv_value \<Rightarrow> GenesisMetadata" where
  "NewGenesisMetadata key val = \<lparr>gm_Key = key, gm_Value = val\<rparr>"

text \<open>The entries of a client store with a prefix, with keys relative to it.\<close>

definition client_values :: "kvstore \<Rightarrow> string \<Rightarrow> string \<Rightarrow> (string \<times> kv_value) list" where
  "client_values s cid pre =
     map (\<lambda>(key, v). (drop (length (FullClientPath cid [])) key, v)) (prefix_values s (FullClientPath cid pre))"

definition is_metadata_key :: "string \<Rightarrow> bool" where
  "is_metadata_key key =
     (let keySplit = Split key ''/'' in
      length keySplit = 3 \<and> (keySplit ! 2 = ''processedTime'' \<or> keySplit ! 2 = ''processedHeight''))"

definition IterateConsensusMetadata :: "kvstore \<Rightarrow> string \<Rightarrow> (string \<times> kv_value) list" where
  "IterateConsensusMetadata s cid =
     filter (\<lambda>(key, v). is_metadata_key key) (client_values s cid KeyConsensusStatePrefix)
     @ client_values s cid KeyIterateConsensusStatePrefix"

definition tm_ExportMetadata :: "kvstore \<Rightarrow> string \<Rightarrow> GenesisMetadata list" where
  "tm_ExportMetadata s cid = map (\<lambda>(key, v). NewGenesisMetadata key v) (IterateConsensusMetadata s cid)"

fun ExportMetadata :: "kvstore \<Rightarrow> string \<Rightarrow> ClientState \<Rightarrow> GenesisMetadata list" where
  "ExportMetadata s cid (TendermintClient cs) = tm_ExportMetadata s cid"
| "ExportMetadata s cid (SolomachineClient cs) = []"
| "ExportMetadata s cid (LocalhostClient h) = []"

definition NewIdentifiedGenesisMetadata :: "string \<Rightarrow> GenesisMetadata list \<Rightarrow> IdentifiedGenesisMetadata" where
  "NewIdentifiedGenesisMetadata clientID gms = \<lparr>igm_ClientId = clientID, igm_ClientMetadata = gms\<rparr>"

text \<open>Every metadata entry of the three clients is of the type \<open>GenesisMetadata\<close>.\<close>

fun GetAllClientMetadata :: "kvstore \<Rightarrow> IdentifiedClientState list \<Rightarrow> IdentifiedGenesisMetadata list result" where
  "GetAllClientMetadata s [] = Inr []"
| "GetAllClientMetadata s (ic # rest) =
     (case ics_ClientState ic of
        None \<Rightarrow> Inl ibcerrors_ErrUnpackAny
      | Some cs \<Rightarrow>
          (let gms = ExportMetadata s (ics_ClientId ic) cs in
           if gms = [] then GetAllClientMetadata s rest
           else and_then (GetAllClientMetadata s rest) (\<lambda>ms. Inr (NewIdentifiedGenesisMetadata (ics_ClientId ic) gms # ms))))"

definition SetAllClientMetadata :: "IdentifiedGenesisMetadata list \<Rightarrow> kvstore \<Rightarrow> kvstore" where
  "SetAllClientMetadata genMetadata s =
     fold (\<lambda>igm. fold (\<lambda>md. kv_set (FullClientPath (igm_ClientId igm) (gm_Key md)) (gm_Value md)) (igm_ClientMetadata igm)) genMetadata s"

section \<open>Connections\<close>

definition IterateConnections :: "kvstore \<Rightarrow> IdentifiedConnection list result" where
  "IterateConnections s =
     collect (\<lambda>(key, v).
       case asConnection v of
         None \<Rightarrow> Inl (Panic ''cannot unmarshal connection'')
       | Some connection \<Rightarrow>
           and_then (MustParseConnectionPath key) (\<lambda>connectionID. Inr (NewIdentifiedConnection connectionID connection)))
       (prefix_values s KeyConnectionPrefix)"

definition GetAllConnections :: "kvstore \<Rightarrow> IdentifiedConnection list result" where
  "GetAllConnections s = IterateConnections s"

definition GetAllClientConnectionPaths :: "kvstore \<Rightarrow> ConnectionPaths list result" where
  "GetAllClientConnectionPaths s =
     and_then (IterateClientStates s []) (\<lambda>cs.
     Inr (concat (map (\<lambda>(clientID, c).
       case GetClientConnectionPaths s clientID of None \<Rightarrow> [] | Some paths \<Rightarrow> [NewConnectionPaths clientID paths]) cs)))"

end
