(* ===== verification/Core_Queries.thy ===== *)
theory Core_Queries
  imports Core_Iterate Packet_Keeper
begin

text \<open>
  The gRPC queries of the core module: \<open>grpc_query.go\<close> of \<open>02-client/keeper\<close>, \<open>03-connection/keeper\<close> and
  \<open>04-channel/keeper\<close>. A request is the tuple of its fields, \<open>None\<close> when it is nil; a response is the tuple
  of its fields without the proof, which is nil in every response. The errors are gRPC codes. The
  pagination of the SDK is a parameter: which entries a page visits, in which order and with which
  flags. That the queries with which relayers look for work agree with what the keeper accepts is shown
  in \<open>Query_Props\<close>.
\<close>

section \<open>Responses and pages\<close>

abbreviation status_InvalidArgument :: ibc_error where "status_InvalidArgument \<equiv> ErrForeign ''InvalidArgument''"
abbreviation status_NotFound :: ibc_error where "status_NotFound \<equiv> ErrForeign ''NotFound''"

text \<open>\<open>if req == nil\<close>, and an error of the given code for an identifier that is not valid or a value that is missing.\<close>

definition nonnil :: "'q option \<Rightarrow> ('q \<Rightarrow> 'r result) \<Rightarrow> 'r result" where
  "nonnil req f = (case req of None \<Rightarrow> Inl status_InvalidArgument | Some q \<Rightarrow> f q)"

definition check_id :: "unit result \<Rightarrow> (unit \<Rightarrow> 'r result) \<Rightarrow> 'r result" where
  "check_id v f = (case v of Inl e \<Rightarrow> Inl status_InvalidArgument | Inr u \<Rightarrow> f u)"

definition lookup_or :: "'x option \<Rightarrow> ('x \<Rightarrow> 'r result) \<Rightarrow> 'r result" where
  "lookup_or v f = (case v of None \<Rightarrow> Inl status_NotFound | Some x \<Rightarrow> f x)"

definition at_self_height :: "sdk_context \<Rightarrow> 'x \<Rightarrow> ('x \<times> Height) result" where
  "at_self_height ctx x = and_then (GetSelfHeight ctx) (\<lambda>h. Inr (x, h))"

text \<open>
  \<open>Paginate\<close> gives the entries of a page and the page response. \<open>FilteredPaginate\<close> is also given which
  entries are hits; it gives the entries the callback is called with, each with the flag \<open>accumulate\<close>.
\<close>

record ('k, 'v, 'q, 'p) pager =
  Paginate :: "'q \<Rightarrow> ('k \<times> 'v) list \<Rightarrow> (('k \<times> 'v) list \<times> 'p) result"
  FilteredPaginate :: "'q \<Rightarrow> ('k \<times> 'v \<Rightarrow> bool result) \<Rightarrow> ('k \<times> 'v) list \<Rightarrow> ((('k \<times> 'v) \<times> bool) list \<times> 'p) result"

definition paginated ::
  "('k, 'v, 'q, 'p) pager \<Rightarrow> 'q \<Rightarrow> ('k \<times> 'v \<Rightarrow> 'x result) \<Rightarrow> ('k \<times> 'v) list \<Rightarrow> ('x list \<times> 'p) result" where
  "paginated pg q f kvs =
     and_then (Paginate pg q kvs) (\<lambda>(page, res). and_then (collect f page) (\<lambda>xs. Inr (xs, res)))"

text \<open>The callbacks of the source append every hit, whatever the flag.\<close>

definition filtered ::
  "('k, 'v, 'q, 'p) pager \<Rightarrow> 'q \<Rightarrow> ('k \<times> 'v \<Rightarrow> 'x option result) \<Rightarrow> ('k \<times> 'v) list \<Rightarrow> ('x list \<times> 'p) result" where
  "filtered pg q f kvs =
     and_then (FilteredPaginate pg q (\<lambda>kv. and_then (f kv) (\<lambda>x. Inr (x \<noteq> None))) kvs) (\<lambda>(calls, res).
     and_then (collect (\<lambda>(kv, accumulate). f kv) calls) (\<lambda>xs. Inr (concat (map (\<lambda>x. case x of None \<Rightarrow> [] | Some y \<Rightarrow> [y]) xs), res)))"

text \<open>A prefix store: the entries under a prefix, with keys relative to it.\<close>

definition prefix_store :: "(string, 'v) fmap \<Rightarrow> string \<Rightarrow> (string \<times> 'v) list" where
  "prefix_store s pre = map (\<lambda>(k, v). (drop (length pre) k, v)) (prefix_values s pre)"

section \<open>Channels\<close>

definition validategRPCRequest :: "string \<Rightarrow> string \<Rightarrow> unit result" where
  "validategRPCRequest portID channelID =
     check_id (PortIdentifierValidator portID) (\<lambda>_. check_id (ChannelIdentifierValidator channelID) (\<lambda>_. Inr ()))"

definition q_Channel :: "kvstore \<Rightarrow> sdk_context \<Rightarrow> (string \<times> string) option \<Rightarrow> (Channel \<times> Height) result" where
  "q_Channel s ctx req =
     nonnil req (\<lambda>(portID, channelID).
     and_then (validategRPCRequest portID channelID) (\<lambda>_.
     lookup_or (GetChannel s portID channelID) (at_self_height ctx)))"

definition channel_entry_of :: "string \<times> kv_value \<Rightarrow> Channel \<Rightarrow> IdentifiedChannel result" where
  "channel_entry_of kv channel =
     and_then (ParseChannelPath (fst kv)) (\<lambda>(portID, channelID). Inr (NewIdentifiedChannel portID channelID channel))"

definition q_Channels ::
  "(string, kv_value, 'q, 'p) pager \<Rightarrow> kvstore \<Rightarrow> sdk_context \<Rightarrow> 'q option \<Rightarrow> ((IdentifiedChannel list \<times> 'p) \<times> Height) result" where
  "q_Channels pg s ctx req =
     nonnil req (\<lambda>q.
     and_then (paginated pg q (\<lambda>kv. case asChannel (snd kv) of None \<Rightarrow> Inl (ErrForeign ''proto'') | Some c \<Rightarrow> channel_entry_of kv c)
       (prefix_store s KeyChannelEndPrefix)) (at_self_height ctx))"

definition q_ConnectionChannels ::
  "(string, kv_value, 'q, 'p) pager \<Rightarrow> kvstore \<Rightarrow> sdk_context \<Rightarrow> (string \<times> 'q) option \<Rightarrow> ((IdentifiedChannel list \<times> 'p) \<times> Height) result" where
  "q_ConnectionChannels pg s ctx req =
     nonnil req (\<lambda>(connection, q).
     check_id (ConnectionIdentifierValidator connection) (\<lambda>_.
     and_then (filtered pg q (\<lambda>kv.
         case asChannel (snd kv) of
           None \<Rightarrow> Inl (ErrForeign ''proto'')
         | Some c \<Rightarrow>
             and_then (first_hop (ch_ConnectionHops c)) (\<lambda>hop.
             if hop \<noteq> connection then Inr None
             else and_then (channel_entry_of kv c) (\<lambda>ic. Inr (Some ic))))
       (prefix_store s KeyChannelEndPrefix)) (at_self_height ctx)))"

definition q_ChannelClientState :: "kvstore \<Rightarrow> sdk_context \<Rightarrow> (string \<times> string) option \<Rightarrow> (IdentifiedClientState \<times> Height) result" where
  "q_ChannelClientState s ctx req =
     nonnil req (\<lambda>(portID, channelID).
     and_then (validategRPCRequest portID channelID) (\<lambda>_.
     case GetChannelClientState s portID channelID of
       Inl (Panic m) \<Rightarrow> Inl (Panic m)
     | Inl e \<Rightarrow> Inl status_NotFound
     | Inr (clientID, clientState) \<Rightarrow> at_self_height ctx (NewIdentifiedClientState clientID clientState)))"

definition q_ChannelConsensusState ::
  "kvstore \<Rightarrow> sdk_context \<Rightarrow> (string \<times> string \<times> u64 \<times> u64) option \<Rightarrow> ((string \<times> ConsensusState \<times> Height) \<times> Height) result" where
  "q_ChannelConsensusState s ctx req =
     nonnil req (\<lambda>(portID, channelID, revisionNumber, revisionHeight).
     and_then (validategRPCRequest portID channelID) (\<lambda>_.
     lookup_or (GetChannel s portID channelID) (\<lambda>channel.
     and_then (first_hop (ch_ConnectionHops channel)) (\<lambda>hop.
     lookup_or (GetConnection s hop) (\<lambda>connection.
     let consHeight = NewHeight revisionNumber revisionHeight in
     lookup_or (GetClientConsensusState s (conn_ClientId connection) consHeight) (\<lambda>consensusState.
     at_self_height ctx (conn_ClientId connection, consensusState, consHeight)))))))"

definition q_PacketCommitment :: "kvstore \<Rightarrow> sdk_context \<Rightarrow> (string \<times> string \<times> u64) option \<Rightarrow> (bytes \<times> Height) result" where
  "q_PacketCommitment s ctx req =
     nonnil req (\<lambda>(portID, channelID, sequence).
     and_then (validategRPCRequest portID channelID) (\<lambda>_.
     if sequence = 0 then Inl status_InvalidArgument
     else
       let commitmentBz = GetPacketCommitment s portID channelID sequence in
       if length commitmentBz = 0 then Inl status_NotFound else at_self_height ctx commitmentBz))"

definition packet_state_of :: "string \<Rightarrow> string \<Rightarrow> string \<times> kv_value \<Rightarrow> PacketState result" where
  "packet_state_of portID channelID kv =
     (case (ParseUint (last (Split (fst kv) ''/'')), asBytes (snd kv)) of
        (Some sequence, Some bz) \<Rightarrow> Inr (NewPacketState portID channelID sequence bz)
      | _ \<Rightarrow> Inl (ErrForeign ''strconv''))"

definition q_PacketCommitments ::
  "(string, kv_value, 'q, 'p) pager \<Rightarrow> kvstore \<Rightarrow> sdk_context \<Rightarrow> (string \<times> string \<times> 'q) option \<Rightarrow> ((PacketState list \<times> 'p) \<times> Height) result" where
  "q_PacketCommitments pg s ctx req =
     nonnil req (\<lambda>(portID, channelID, q).
     and_then (validategRPCRequest portID channelID) (\<lambda>_.
     and_then (paginated pg q (packet_state_of portID channelID) (prefix_store s (PacketCommitmentPrefixPath portID channelID)))
       (at_self_height ctx)))"

definition q_PacketReceipt :: "kvstore \<Rightarrow> sdk_context \<Rightarrow> (string \<times> string \<times> u64) option \<Rightarrow> (bool \<times> Height) result" where
  "q_PacketReceipt s ctx req =
     nonnil req (\<lambda>(portID, channelID, sequence).
     and_then (validategRPCRequest portID channelID) (\<lambda>_.
     if sequence = 0 then Inl status_InvalidArgument
     else at_self_height ctx (GetPacketReceipt s portID channelID sequence \<noteq> None)))"

definition q_PacketAcknowledgement :: "kvstore \<Rightarrow> sdk_context \<Rightarrow> (string \<times> string \<times> u64) option \<Rightarrow> (bytes \<times> Height) result" where
  "q_PacketAcknowledgement s ctx req =
     nonnil req (\<lambda>(portID, channelID, sequence).
     and_then (validategRPCRequest portID channelID) (\<lambda>_.
     if sequence = 0 then Inl status_InvalidArgument
     else lookup_or (GetPacketAcknowledgement s portID channelID sequence) (\<lambda>bz.
       if length bz = 0 then Inl status_NotFound else at_self_height ctx bz)))"

definition found_acks :: "kvstore \<Rightarrow> string \<Rightarrow> string \<Rightarrow> u64 list \<Rightarrow> PacketState list" where
  "found_acks s portID channelID sequences =
     concat (map (\<lambda>n. case GetPacketAcknowledgement s portID channelID n of
        None \<Rightarrow> [] | Some bz \<Rightarrow> if length bz = 0 then [] else [NewPacketState portID channelID n bz]) sequences)"

definition q_PacketAcknowledgements ::
  "(string, kv_value, 'q, 'p) pager \<Rightarrow> kvstore \<Rightarrow> sdk_context \<Rightarrow> (string \<times> string \<times> u64 list \<times> 'q) option \<Rightarrow>
     ((PacketState list \<times> 'p option) \<times> Height) result" where
  "q_PacketAcknowledgements pg s ctx req =
     nonnil req (\<lambda>(portID, channelID, sequences, q).
     and_then (validategRPCRequest portID channelID) (\<lambda>_.
     if 0 < length sequences then at_self_height ctx (found_acks s portID channelID sequences, None)
     else
       and_then (paginated pg q (packet_state_of portID channelID) (prefix_store s (PacketAcknowledgementPrefixPath portID channelID))) (\<lambda>(acks, res).
       at_self_height ctx (acks, Some res))))"

definition unreceived :: "(u64 \<Rightarrow> bool) \<Rightarrow> u64 list \<Rightarrow> u64 list result" where
  "unreceived missing sequences = (if 0 \<in> set sequences then Inl status_InvalidArgument else Inr (filter missing sequences))"

definition q_UnreceivedPackets :: "kvstore \<Rightarrow> sdk_context \<Rightarrow> (string \<times> string \<times> u64 list) option \<Rightarrow> (u64 list \<times> Height) result" where
  "q_UnreceivedPackets s ctx req =
     nonnil req (\<lambda>(portID, channelID, sequences).
     and_then (validategRPCRequest portID channelID) (\<lambda>_.
     lookup_or (GetChannel s portID channelID) (\<lambda>channel.
     and_then (case ch_Ordering channel of
         UNORDERED \<Rightarrow> unreceived (\<lambda>n. GetPacketReceipt s portID channelID n = None) sequences
       | ORDERED \<Rightarrow>
           lookup_or (GetNextSequenceRecv s portID channelID) (\<lambda>nextSequenceRecv. unreceived (\<lambda>n. nextSequenceRecv \<le> n) sequences)
       | ORDER_NONE \<Rightarrow> Inl status_InvalidArgument) (at_self_height ctx))))"

definition q_UnreceivedAcks :: "kvstore \<Rightarrow> sdk_context \<Rightarrow> (string \<times> string \<times> u64 list) option \<Rightarrow> (u64 list \<times> Height) result" where
  "q_UnreceivedAcks s ctx req =
     nonnil req (\<lambda>(portID, channelID, sequences).
     and_then (validategRPCRequest portID channelID) (\<lambda>_.
     and_then (unreceived (\<lambda>n. length (GetPacketCommitment s portID channelID n) \<noteq> 0) sequences) (at_self_height ctx)))"

definition q_NextSequenceReceive :: "kvstore \<Rightarrow> sdk_context \<Rightarrow> (string \<times> string) option \<Rightarrow> (u64 \<times> Height) result" where
  "q_NextSequenceReceive s ctx req =
     nonnil req (\<lambda>(portID, channelID).
     and_then (validategRPCRequest portID channelID) (\<lambda>_.
     lookup_or (GetChannel s portID channelID) (\<lambda>channel.
     and_then (if ch_Ordering channel \<noteq> UNORDERED then lookup_or (GetNextSequenceRecv s portID channelID) Inr else Inr 0) (at_self_height ctx))))"

definition q_NextSequenceSend :: "kvstore \<Rightarrow> sdk_context \<Rightarrow> (string \<times> string) option \<Rightarrow> (u64 \<times> Height) result" where
  "q_NextSequenceSend s ctx req =
     nonnil req (\<lambda>(portID, channelID).
     and_then (validategRPCRequest portID channelID) (\<lambda>_.
     lookup_or (GetChannel s portID channelID) (\<lambda>channel.
     and_then (if ch_Ordering channel \<noteq> UNORDERED then lookup_or (GetNextSequenceSend s portID channelID) Inr else Inr 0) (at_self_height ctx))))"

section \<open>Connections\<close>

definition q_Connection :: "kvstore \<Rightarrow> sdk_context \<Rightarrow> string option \<Rightarrow> (ConnectionEnd \<times> Height) result" where
  "q_Connection s ctx req =
     nonnil req (\<lambda>connectionID.
     check_id (ConnectionIdentifierValidator connectionID) (\<lambda>_. lookup_or (GetConnection s connectionID) (at_self_height ctx)))"

definition q_Connections ::
  "(string, kv_value, 'q, 'p) pager \<Rightarrow> kvstore \<Rightarrow> sdk_context \<Rightarrow> 'q option \<Rightarrow> ((IdentifiedConnection list \<times> 'p) \<times> Height) result" where
  "q_Connections pg s ctx req =
     nonnil req (\<lambda>q.
     and_then (paginated pg q (\<lambda>kv.
         case asConnection (snd kv) of
           None \<Rightarrow> Inl (ErrForeign ''proto'')
         | Some c \<Rightarrow> and_then (ParseConnectionPath (fst kv)) (\<lambda>connectionID. Inr (NewIdentifiedConnection connectionID c)))
       (prefix_store s KeyConnectionPrefix)) (at_self_height ctx))"

definition q_ClientConnections :: "kvstore \<Rightarrow> sdk_context \<Rightarrow> string option \<Rightarrow> (string list \<times> Height) result" where
  "q_ClientConnections s ctx req =
     nonnil req (\<lambda>clientID.
     check_id (ClientIdentifierValidator clientID) (\<lambda>_. lookup_or (GetClientConnectionPaths s clientID) (at_self_height ctx)))"

definition q_ConnectionClientState :: "kvstore \<Rightarrow> sdk_context \<Rightarrow> string option \<Rightarrow> (IdentifiedClientState \<times> Height) result" where
  "q_ConnectionClientState s ctx req =
     nonnil req (\<lambda>connectionID.
     check_id (ConnectionIdentifierValidator connectionID) (\<lambda>_.
     lookup_or (GetConnection s connectionID) (\<lambda>connection.
     lookup_or (GetClientState s (conn_ClientId connection)) (\<lambda>clientState.
     at_self_height ctx (NewIdentifiedClientState (conn_ClientId connection) clientState)))))"

definition q_ConnectionConsensusState ::
  "kvstore \<Rightarrow> sdk_context \<Rightarrow> (string \<times> u64 \<times> u64) option \<Rightarrow> ((string \<times> ConsensusState \<times> Height) \<times> Height) result" where
  "q_ConnectionConsensusState s ctx req =
     nonnil req (\<lambda>(connectionID, revisionNumber, revisionHeight).
     check_id (ConnectionIdentifierValidator connectionID) (\<lambda>_.
     lookup_or (GetConnection s connectionID) (\<lambda>connection.
     let height = NewHeight revisionNumber revisionHeight in
     lookup_or (GetClientConsensusState s (conn_ClientId connection) height) (\<lambda>consensusState.
     at_self_height ctx (conn_ClientId connection, consensusState, height)))))"

definition q_ConnectionParams :: "kvstore \<Rightarrow> u64 result" where
  "q_ConnectionParams s = GetConnectionParams s"

section \<open>Clients\<close>

definition q_ClientState :: "kvstore \<Rightarrow> sdk_context \<Rightarrow> string option \<Rightarrow> (ClientState \<times> Height) result" where
  "q_ClientState s ctx req =
     nonnil req (\<lambda>clientID.
     check_id (ClientIdentifierValidator clientID) (\<lambda>_. lookup_or (GetClientState s clientID) (at_self_height ctx)))"

definition q_ClientStates :: "(string, kv_value, 'q, 'p) pager \<Rightarrow> kvstore \<Rightarrow> 'q option \<Rightarrow> (IdentifiedClientState list \<times> 'p) result" where
  "q_ClientStates pg s req =
     nonnil req (\<lambda>q.
     and_then (filtered pg q (\<lambda>kv.
         let keySplit = Split (fst kv) ''/'' in
         if last keySplit \<noteq> KeyClientState then Inr None
         else case asClientState (snd kv) of
           None \<Rightarrow> Inl (ErrForeign ''proto'')
         | Some clientState \<Rightarrow>
             if length keySplit \<le> 1 then Inl (Panic ''index out of range'')
             else and_then (ClientIdentifierValidator (keySplit ! 1)) (\<lambda>_. Inr (Some (NewIdentifiedClientState (keySplit ! 1) clientState))))
       (prefix_store s KeyClientStorePrefix)) (\<lambda>(clientStates, res).
     Inr (IdentifiedClientStates_Sort clientStates, res)))"

definition q_ConsensusState :: "kvstore \<Rightarrow> sdk_context \<Rightarrow> (string \<times> u64 \<times> u64 \<times> bool) option \<Rightarrow> (ConsensusState \<times> Height) result" where
  "q_ConsensusState s ctx req =
     nonnil req (\<lambda>(clientID, revisionNumber, revisionHeight, latestHeight).
     check_id (ClientIdentifierValidator clientID) (\<lambda>_.
     if latestHeight then lookup_or (GetLatestClientConsensusState s clientID) (at_self_height ctx)
     else if revisionHeight = 0 then Inl status_InvalidArgument
     else lookup_or (GetClientConsensusState s clientID (NewHeight revisionNumber revisionHeight)) (at_self_height ctx)))"

definition consensus_entries :: "kvstore \<Rightarrow> string \<Rightarrow> (string \<times> kv_value) list" where
  "consensus_entries s clientID = prefix_store s (FullClientPath clientID (KeyConsensusStatePrefix @ ''/''))"

definition q_ConsensusStates ::
  "(string, kv_value, 'q, 'p) pager \<Rightarrow> kvstore \<Rightarrow> (string \<times> 'q) option \<Rightarrow> (ConsensusStateWithHeight list \<times> 'p) result" where
  "q_ConsensusStates pg s req =
     nonnil req (\<lambda>(clientID, q).
     check_id (ClientIdentifierValidator clientID) (\<lambda>_.
     filtered pg q (\<lambda>kv.
       if \<not> slash_free (fst kv) then Inr None
       else
         and_then (ParseHeight (fst kv)) (\<lambda>height.
         case asConsensusState (snd kv) of
           None \<Rightarrow> Inl (ErrForeign ''proto'')
         | Some consensusState \<Rightarrow> Inr (Some (NewConsensusStateWithHeight height consensusState))))
       (consensus_entries s clientID)))"

definition q_ConsensusStateHeights ::
  "(string, kv_value, 'q, 'p) pager \<Rightarrow> kvstore \<Rightarrow> (string \<times> 'q) option \<Rightarrow> (Height list \<times> 'p) result" where
  "q_ConsensusStateHeights pg s req =
     nonnil req (\<lambda>(clientID, q).
     check_id (ClientIdentifierValidator clientID) (\<lambda>_.
     filtered pg q (\<lambda>kv.
       if \<not> slash_free (fst kv) then Inr None else and_then (ParseHeight (fst kv)) (\<lambda>height. Inr (Some height)))
       (consensus_entries s clientID)))"

definition q_ClientStatus :: "kvstore \<Rightarrow> sdk_context \<Rightarrow> string option \<Rightarrow> Status result" where
  "q_ClientStatus s ctx req =
     nonnil req (\<lambda>clientID.
     check_id (ClientIdentifierValidator clientID) (\<lambda>_.
     lookup_or (GetClientState s clientID) (\<lambda>clientState. GetClientStatus ctx s clientState clientID)))"

definition q_ClientParams :: "kvstore \<Rightarrow> string list result" where
  "q_ClientParams s = GetClientParams s"

text \<open>The plan, the upgraded client and the upgraded consensus state come from the upgrade module; decoding them may fail.\<close>

definition q_UpgradedClientState :: "int option \<Rightarrow> (int \<Rightarrow> ClientState option option) \<Rightarrow> unit option \<Rightarrow> ClientState result" where
  "q_UpgradedClientState plan_height upgraded req =
     nonnil req (\<lambda>_.
     lookup_or plan_height (\<lambda>height.
     lookup_or (upgraded height) (\<lambda>decoded.
     case decoded of None \<Rightarrow> Inl (ErrForeign ''Internal'') | Some clientState \<Rightarrow> Inr clientState)))"

definition q_UpgradedConsensusState :: "(int \<Rightarrow> ConsensusState option option) \<Rightarrow> sdk_context \<Rightarrow> unit option \<Rightarrow> ConsensusState result" where
  "q_UpgradedConsensusState upgraded ctx req =
     nonnil req (\<lambda>_.
     lookup_or (upgraded (BlockHeight ctx)) (\<lambda>decoded.
     case decoded of None \<Rightarrow> Inl (ErrForeign ''Internal'') | Some consensusState \<Rightarrow> Inr consensusState))"

end
