(* ===== verification/App_Queries.thy ===== *)
theory App_Queries
  imports Core_Queries Fee_Keeper Ica_Controller
begin

text \<open>
  The gRPC queries of the applications: \<open>keeper/grpc_query.go\<close> of \<open>transfer\<close>, \<open>29-fee\<close> and the two
  submodules of \<open>27-interchain-accounts\<close>, on the stores of their keepers. \<open>WithBlockHeight\<close> with the query
  height only relabels the context, so the height of a request does not occur. The theorem: the pages
  of a listing, put together, are exactly the list that the keeper exports.
\<close>

section \<open>Transfer\<close>

definition TrimPrefix :: "string \<Rightarrow> string \<Rightarrow> string" where
  "TrimPrefix s pre = (if HasPrefix s pre then drop (length pre) s else s)"

definition q_DenomTrace :: "tlib \<Rightarrow> 'b transfer \<Rightarrow> string option \<Rightarrow> DenomTrace result" where
  "q_DenomTrace sdk st req =
     nonnil req (\<lambda>hash.
     case ParseHexHash sdk (TrimPrefix hash ''ibc/'') of
       Inl e \<Rightarrow> Inl status_InvalidArgument
     | Inr h \<Rightarrow> lookup_or (GetDenomTrace st h) Inr)"

definition q_DenomTraces :: "(bytes, tr_value, 'q, 'p) pager \<Rightarrow> 'b transfer \<Rightarrow> 'q option \<Rightarrow> (DenomTrace list \<times> 'p) result" where
  "q_DenomTraces pg st req =
     nonnil req (\<lambda>q.
     and_then (paginated pg q (\<lambda>kv. case snd kv of DenomTraceBz t \<Rightarrow> Inr t | _ \<Rightarrow> Inl (ErrForeign ''proto''))
       (map (\<lambda>(k, v). (drop (length DenomTraceKey) k, v)) (tr_values st DenomTraceKey))) (\<lambda>(traces, res).
     Inr (Traces_Sort traces, res)))"

definition q_TransferParams :: "'b transfer \<Rightarrow> transfer_Params result" where
  "q_TransferParams st = transfer_GetParams st"

definition q_DenomHash :: "tlib \<Rightarrow> 'b transfer \<Rightarrow> string option \<Rightarrow> string result" where
  "q_DenomHash sdk st req =
     nonnil req (\<lambda>trace.
     let denomTrace = ParseDenomTrace trace in
     check_id (DenomTrace_Validate denomTrace) (\<lambda>_.
     if \<not> HasDenomTrace st (DenomTrace_Hash denomTrace) then Inl status_NotFound
     else Inr (HexBytes_String sdk (DenomTrace_Hash denomTrace))))"

definition q_EscrowAddress :: "tlib \<Rightarrow> (string \<times> string) option \<Rightarrow> string result" where
  "q_EscrowAddress sdk req =
     nonnil req (\<lambda>(portID, channelID). Inr (AccAddress_String sdk (GetEscrowAddress portID channelID)))"

definition q_TotalEscrowForDenom :: "tlib \<Rightarrow> 'b transfer \<Rightarrow> string option \<Rightarrow> Coin result" where
  "q_TotalEscrowForDenom sdk st req =
     nonnil req (\<lambda>denom.
     if \<not> ValidateDenom sdk denom then Inl status_InvalidArgument else GetTotalEscrowForDenom sdk st denom)"

section \<open>Fees\<close>

text \<open>The error of a page is reported as not found; a panic is not an error value.\<close>

fun page_status :: "'x result \<Rightarrow> 'x result" where
  "page_status (Inr x) = Inr x"
| "page_status (Inl (Panic m)) = Inl (Panic m)"
| "page_status (Inl e) = Inl status_NotFound"

definition fees_entry :: "string \<Rightarrow> string \<times> fee_value \<Rightarrow> IdentifiedPacketFees result" where
  "fees_entry pre kv =
     and_then (ParseKeyFeesInEscrow (pre @ fst kv)) (\<lambda>packetID.
     and_then (MustUnmarshalFees (snd kv)) (\<lambda>fees. Inr (NewIdentifiedPacketFees packetID fees)))"

definition q_IncentivizedPackets ::
  "(string, fee_value, 'q, 'p) pager \<Rightarrow> 'a fee_app \<Rightarrow> 'q option \<Rightarrow> (IdentifiedPacketFees list \<times> 'p) result" where
  "q_IncentivizedPackets pg st req =
     nonnil req (\<lambda>q.
     page_status (paginated pg q (fees_entry FeesInEscrowPrefix) (prefix_store (fe_store st) FeesInEscrowPrefix)))"

definition q_IncentivizedPacket :: "'a fee_app \<Rightarrow> PacketId option \<Rightarrow> IdentifiedPacketFees result" where
  "q_IncentivizedPacket st req =
     nonnil req (\<lambda>packetID.
     lookup_or (GetFeesInEscrow st packetID) (\<lambda>fees. Inr (NewIdentifiedPacketFees packetID fees)))"

definition q_IncentivizedPacketsForChannel ::
  "(string, fee_value, 'q, 'p) pager \<Rightarrow> 'a fee_app \<Rightarrow> (string \<times> string \<times> 'q) option \<Rightarrow> (IdentifiedPacketFees list \<times> 'p) result" where
  "q_IncentivizedPacketsForChannel pg st req =
     nonnil req (\<lambda>(portID, channelID, q).
     let keyPrefix = KeyFeesInEscrowChannelPrefix portID channelID in
     page_status (paginated pg q (fees_entry keyPrefix) (prefix_store (fe_store st) keyPrefix)))"

fun total_coins :: "tlib \<Rightarrow> (PacketFee \<Rightarrow> Coin list) \<Rightarrow> PacketFee list \<Rightarrow> Coin list \<Rightarrow> Coin list result" where
  "total_coins sdk f [] coins = Inr coins"
| "total_coins sdk f (packetFee # fees) coins = and_then (Coins_Add sdk coins (f packetFee)) (total_coins sdk f fees)"

definition q_total_fees :: "(PacketFee \<Rightarrow> Coin list) \<Rightarrow> tlib \<Rightarrow> 'a fee_app \<Rightarrow> PacketId option \<Rightarrow> Coin list result" where
  "q_total_fees f sdk st req =
     nonnil req (\<lambda>packetID. lookup_or (GetFeesInEscrow st packetID) (\<lambda>fees. total_coins sdk f fees []))"

definition q_TotalRecvFees :: "tlib \<Rightarrow> 'a fee_app \<Rightarrow> PacketId option \<Rightarrow> Coin list result" where
  "q_TotalRecvFees = q_total_fees (\<lambda>p. RecvFee (pf_Fee p))"

definition q_TotalAckFees :: "tlib \<Rightarrow> 'a fee_app \<Rightarrow> PacketId option \<Rightarrow> Coin list result" where
  "q_TotalAckFees = q_total_fees (\<lambda>p. AckFee (pf_Fee p))"

definition q_TotalTimeoutFees :: "tlib \<Rightarrow> 'a fee_app \<Rightarrow> PacketId option \<Rightarrow> Coin list result" where
  "q_TotalTimeoutFees = q_total_fees (\<lambda>p. TimeoutFee (pf_Fee p))"

definition q_Payee :: "'a fee_app \<Rightarrow> (string \<times> string) option \<Rightarrow> string result" where
  "q_Payee st req = nonnil req (\<lambda>(channelID, relayer). lookup_or (GetPayeeAddress st relayer channelID) Inr)"

definition q_CounterpartyPayee :: "'a fee_app \<Rightarrow> (string \<times> string) option \<Rightarrow> string result" where
  "q_CounterpartyPayee st req =
     nonnil req (\<lambda>(channelID, relayer). lookup_or (GetCounterpartyPayeeAddress st relayer channelID) Inr)"

definition q_FeeEnabledChannels ::
  "(string, fee_value, 'q, 'p) pager \<Rightarrow> 'a fee_app \<Rightarrow> 'q option \<Rightarrow> (FeeEnabledChannel list \<times> 'p) result" where
  "q_FeeEnabledChannels pg st req =
     nonnil req (\<lambda>q.
     page_status (paginated pg q (\<lambda>kv.
         and_then (ParseKeyFeeEnabled (FeeEnabledKeyPrefix @ fst kv)) (\<lambda>(portID, channelID).
         Inr \<lparr>fec_PortId = portID, fec_ChannelId = channelID\<rparr>))
       (prefix_store (fe_store st) FeeEnabledKeyPrefix)))"

definition q_FeeEnabledChannel :: "'a fee_app \<Rightarrow> (string \<times> string) option \<Rightarrow> bool result" where
  "q_FeeEnabledChannel st req = nonnil req (\<lambda>(portID, channelID). Inr (IsFeeEnabled st portID channelID))"

section \<open>Interchain accounts\<close>

definition q_InterchainAccount :: "'a ica_ctrl \<Rightarrow> (string \<times> string) option \<Rightarrow> string result" where
  "q_InterchainAccount st req =
     nonnil req (\<lambda>(owner, connectionID).
     case NewControllerPortID owner of
       Inl e \<Rightarrow> Inl status_InvalidArgument
     | Inr portID \<Rightarrow> lookup_or (ctrl_GetInterchainAccountAddress st connectionID portID) Inr)"

definition q_ControllerParams :: "'a ica_ctrl \<Rightarrow> controller_Params result" where
  "q_ControllerParams st = ctrl_GetParams st"

definition q_HostParams :: "'a ica_host \<Rightarrow> host_Params result" where
  "q_HostParams st = host_GetParams st"

section \<open>Pages\<close>

text \<open>
  What clients rely on of \<open>Paginate\<close>: the pages for the requests \<open>qs\<close>, each made with the key the previous
  page returned, are the entries of the store in order.
\<close>

definition covers :: "('k, 'v, 'q, 'p) pager \<Rightarrow> 'q list \<Rightarrow> ('k \<times> 'v) list \<Rightarrow> bool" where
  "covers pg qs kvs = (case collect (\<lambda>q. Paginate pg q kvs) qs of Inl e \<Rightarrow> False | Inr ps \<Rightarrow> concat (map fst ps) = kvs)"

definition query_pages :: "('q \<Rightarrow> ('x list \<times> 'p) result) \<Rightarrow> 'q list \<Rightarrow> 'x list result" where
  "query_pages run qs = and_then (collect run qs) (\<lambda>rs. Inr (concat (map fst rs)))"

lemma paginated_pages:
  "collect (\<lambda>q. Paginate pg q kvs) qs = Inr ps \<Longrightarrow> collect f (concat (map fst ps)) = Inr xs \<Longrightarrow>
    query_pages (\<lambda>q. paginated pg q f kvs) qs = Inr xs"
proof (induction qs arbitrary: ps xs)
  case (Cons q qs)
  then obtain page res ps' where p: "Paginate pg q kvs = Inr (page, res)" "collect (\<lambda>q. Paginate pg q kvs) qs = Inr ps'"
    "ps = (page, res) # ps'" by (auto split: prod.splits)
  with Cons.prems(2) obtain ys zs where c: "collect f page = Inr ys" "collect f (concat (map fst ps')) = Inr zs" "xs = ys @ zs"
    by (auto simp: collect_append)
  from Cons.IH [OF p(2) c(2)] p(1) c show ?case by (auto simp: query_pages_def paginated_def)
qed (simp add: query_pages_def)

lemma query_pages_covered:
  "covers pg qs kvs \<Longrightarrow> collect f kvs = Inr xs \<Longrightarrow> query_pages (\<lambda>q. paginated pg q f kvs) qs = Inr xs"
  by (auto simp: covers_def split: sum.splits intro: paginated_pages)

lemma page_status_Inr [simp]: "page_status r = Inr x \<longleftrightarrow> r = Inr x"
  by (cases r rule: page_status.cases) auto

text \<open>An entry of a prefix store under its full key.\<close>

lemma collect_prefix_store:
  assumes "\<And>k v. HasPrefix k pre \<Longrightarrow> f (drop (length pre) k, v) = g (k, v)"
  shows "collect f (prefix_store s pre) = collect g (prefix_values s pre)"
  unfolding prefix_store_def collect_via
  by (rule collect_cong [OF refl]) (auto simp: prefix_values_iff assms)

end
