(* ===== verification/Core_Genesis.thy ===== *)
theory Core_Genesis
  imports Core_Iterate Msgs
begin

text \<open>
  Genesis of the core module: the genesis states of clients, connections and channels with their
  defaults and validation (\<open>types/genesis.go\<close> of \<open>core/02-client\<close>, \<open>03-connection\<close>, \<open>04-channel\<close> and \<open>core\<close>), and
  import and export (\<open>genesis.go\<close> of the same four). \<open>InitGenesis\<close> panics where the source does. The check
  of a hash by CometBFT is a parameter of the validation.
\<close>

section \<open>Genesis states\<close>

record client_GenesisState =
  cgs_Clients :: "IdentifiedClientState list"
  cgs_ClientsConsensus :: "ClientConsensusStates list"
  cgs_ClientsMetadata :: "IdentifiedGenesisMetadata list"
  cgs_Params :: "string list"
  cgs_CreateLocalhost :: bool
  cgs_NextClientSequence :: u64

record connection_GenesisState =
  ngs_Connections :: "IdentifiedConnection list"
  ngs_ClientConnectionPaths :: "ConnectionPaths list"
  ngs_NextConnectionSequence :: u64
  ngs_Params :: u64

record channel_GenesisState =
  hgs_Channels :: "IdentifiedChannel list"
  hgs_Acknowledgements :: "PacketState list"
  hgs_Commitments :: "PacketState list"
  hgs_Receipts :: "PacketState list"
  hgs_SendSequences :: "PacketSequence list"
  hgs_RecvSequences :: "PacketSequence list"
  hgs_AckSequences :: "PacketSequence list"
  hgs_NextChannelSequence :: u64

record core_GenesisState =
  ClientGenesis :: client_GenesisState
  ConnectionGenesis :: connection_GenesisState
  ChannelGenesis :: channel_GenesisState

definition DefaultAllowedClients :: "string list" where
  "DefaultAllowedClients = [Solomachine, Tendermint, Localhost]"

definition client_NewGenesisState ::
  "IdentifiedClientState list \<Rightarrow> ClientConsensusStates list \<Rightarrow> IdentifiedGenesisMetadata list \<Rightarrow> string list \<Rightarrow> bool \<Rightarrow> u64 \<Rightarrow>
     client_GenesisState" where
  "client_NewGenesisState clients clientsConsensus clientsMetadata params createLocalhost nextClientSequence =
     \<lparr>cgs_Clients = clients, cgs_ClientsConsensus = clientsConsensus, cgs_ClientsMetadata = clientsMetadata,
      cgs_Params = params, cgs_CreateLocalhost = createLocalhost, cgs_NextClientSequence = nextClientSequence\<rparr>"

definition client_DefaultGenesisState :: client_GenesisState where
  "client_DefaultGenesisState =
     \<lparr>cgs_Clients = [], cgs_ClientsConsensus = [], cgs_ClientsMetadata = [], cgs_Params = DefaultAllowedClients,
      cgs_CreateLocalhost = False, cgs_NextClientSequence = 0\<rparr>"

abbreviation DefaultTimePerBlock :: u64 where "DefaultTimePerBlock \<equiv> 30000000000"

definition connection_NewGenesisState ::
  "IdentifiedConnection list \<Rightarrow> ConnectionPaths list \<Rightarrow> u64 \<Rightarrow> u64 \<Rightarrow> connection_GenesisState" where
  "connection_NewGenesisState connections connPaths nextConnectionSequence params =
     \<lparr>ngs_Connections = connections, ngs_ClientConnectionPaths = connPaths,
      ngs_NextConnectionSequence = nextConnectionSequence, ngs_Params = params\<rparr>"

definition connection_DefaultGenesisState :: connection_GenesisState where
  "connection_DefaultGenesisState =
     \<lparr>ngs_Connections = [], ngs_ClientConnectionPaths = [], ngs_NextConnectionSequence = 0, ngs_Params = DefaultTimePerBlock\<rparr>"

text \<open>The receipts that the constructor is given do not reach the genesis state.\<close>

definition channel_NewGenesisState ::
  "IdentifiedChannel list \<Rightarrow> PacketState list \<Rightarrow> PacketState list \<Rightarrow> PacketState list \<Rightarrow> PacketSequence list \<Rightarrow> PacketSequence list \<Rightarrow>
     PacketSequence list \<Rightarrow> u64 \<Rightarrow> channel_GenesisState" where
  "channel_NewGenesisState channels acks receipts commitments sendSeqs recvSeqs ackSeqs nextChannelSequence =
     \<lparr>hgs_Channels = channels, hgs_Acknowledgements = acks, hgs_Commitments = commitments, hgs_Receipts = [],
      hgs_SendSequences = sendSeqs, hgs_RecvSequences = recvSeqs, hgs_AckSequences = ackSeqs,
      hgs_NextChannelSequence = nextChannelSequence\<rparr>"

definition channel_DefaultGenesisState :: channel_GenesisState where
  "channel_DefaultGenesisState =
     \<lparr>hgs_Channels = [], hgs_Acknowledgements = [], hgs_Commitments = [], hgs_Receipts = [], hgs_SendSequences = [],
      hgs_RecvSequences = [], hgs_AckSequences = [], hgs_NextChannelSequence = 0\<rparr>"

definition core_DefaultGenesisState :: core_GenesisState where
  "core_DefaultGenesisState =
     \<lparr>ClientGenesis = client_DefaultGenesisState, ConnectionGenesis = connection_DefaultGenesisState,
      ChannelGenesis = channel_DefaultGenesisState\<rparr>"

section \<open>Validation\<close>

definition GenesisMetadata_Validate :: "lib \<Rightarrow> GenesisMetadata \<Rightarrow> unit result" where
  "GenesisMetadata_Validate lib gm =
     (if length (gm_Key gm) = 0 then Inl (ErrForeign ''genesis metadata key cannot be empty'')
      else if length (kv_bytes lib (gm_Value gm)) = 0 then Inl (ErrForeign ''genesis metadata value cannot be empty'')
      else Inr ())"

text \<open>\<open>ValidateHash\<close> is the function \<open>tmtypes.ValidateHash\<close> of CometBFT.\<close>

definition tm_ConsensusState_ValidateBasic :: "(bytes \<Rightarrow> bool) \<Rightarrow> TmConsensusState \<Rightarrow> unit result" where
  "tm_ConsensusState_ValidateBasic ValidateHash cs =
     (if tmc_Root cs = [] then Inl client_ErrInvalidConsensus
      else if \<not> ValidateHash (tmc_NextValidatorsHash cs) then Inl (ErrForeign ''next validators hash is invalid'')
      else if tmc_Timestamp cs div 1000000000 \<le> 0 then Inl client_ErrInvalidConsensus
      else Inr ())"

fun ConsensusState_ValidateBasic :: "(bytes \<Rightarrow> bool) \<Rightarrow> lib \<Rightarrow> ConsensusState \<Rightarrow> unit result" where
  "ConsensusState_ValidateBasic vh lib (TendermintConsensus cs) = tm_ConsensusState_ValidateBasic vh cs"
| "ConsensusState_ValidateBasic vh lib (SolomachineConsensus cs) = sm_ConsensusState_ValidateBasic lib cs"

text \<open>The loop over the clients, with the largest sequence and the types of the clients seen so far.\<close>

fun validate_clients ::
  "lib \<Rightarrow> string list \<Rightarrow> IdentifiedClientState list \<Rightarrow> u64 \<Rightarrow> (string \<rightharpoonup> string) \<Rightarrow> (u64 \<times> (string \<rightharpoonup> string)) result" where
  "validate_clients lib params [] maxSequence validClients = Inr (maxSequence, validClients)"
| "validate_clients lib params (client # rest) maxSequence validClients =
     and_then (ClientIdentifierValidator (ics_ClientId client)) (\<lambda>_.
     case ics_ClientState client of
       None \<Rightarrow> Inl (ErrForeign ''invalid client state'')
     | Some clientState \<Rightarrow>
         if \<not> IsAllowedClient params (ClientType clientState) then Inl (ErrForeign ''client type not allowed by genesis params'')
         else
           and_then (ClientState_Validate lib clientState) (\<lambda>_.
           and_then (ParseClientIdentifier (ics_ClientId client)) (\<lambda>(clientType, sequence).
           if clientType \<noteq> ClientType clientState then Inl (ErrForeign ''client state type does not equal client type in client identifier'')
           else
             and_then (ValidateClientType clientType) (\<lambda>_.
             validate_clients lib params rest (if maxSequence < sequence then sequence else maxSequence)
               (validClients(ics_ClientId client \<mapsto> ClientType clientState))))))"

definition validate_consensus :: "(bytes \<Rightarrow> bool) \<Rightarrow> lib \<Rightarrow> (string \<rightharpoonup> string) \<Rightarrow> ClientConsensusStates list \<Rightarrow> unit result" where
  "validate_consensus vh lib validClients ccs =
     and_then (collect (\<lambda>cc.
       case validClients (ccs_ClientId cc) of
         None \<Rightarrow> Inl (ErrForeign ''client id does not map to a genesis client'')
       | Some clientType \<Rightarrow>
           collect (\<lambda>consensusState.
             if IsZero (csh_Height consensusState) then Inl (ErrForeign ''consensus state height cannot be zero'')
             else case csh_ConsensusState consensusState of
               None \<Rightarrow> Inl (ErrForeign ''invalid consensus state'')
             | Some cs \<Rightarrow>
                 and_then (ConsensusState_ValidateBasic vh lib cs) (\<lambda>_.
                 if clientType \<noteq> ConsensusState_ClientType cs
                 then Inl (ErrForeign ''consensus state client type does not equal client state client type'') else Inr ()))
             (ccs_ConsensusStates cc)) ccs) (\<lambda>_. Inr ())"

definition validate_metadata :: "lib \<Rightarrow> (string \<rightharpoonup> string) \<Rightarrow> IdentifiedGenesisMetadata list \<Rightarrow> unit result" where
  "validate_metadata lib validClients igms =
     and_then (collect (\<lambda>igm.
       if validClients (igm_ClientId igm) = None then Inl (ErrForeign ''client id does not map to a genesis client'')
       else collect (GenesisMetadata_Validate lib) (igm_ClientMetadata igm)) igms) (\<lambda>_. Inr ())"

definition check_next_sequence :: "u64 \<Rightarrow> u64 \<Rightarrow> unit result" where
  "check_next_sequence maxSequence nextSequence =
     (if maxSequence \<noteq> 0 \<and> nextSequence \<le> maxSequence then Inl (ErrForeign ''next sequence must be greater than the maximum sequence'')
      else Inr ())"

definition client_GenesisState_Validate :: "(bytes \<Rightarrow> bool) \<Rightarrow> lib \<Rightarrow> client_GenesisState \<Rightarrow> unit result" where
  "client_GenesisState_Validate vh lib gs =
     and_then (validateClients (cgs_Params gs)) (\<lambda>_.
     and_then (validate_clients lib (cgs_Params gs) (cgs_Clients gs) 0 Map.empty) (\<lambda>(maxSequence, validClients).
     and_then (validate_consensus vh lib validClients (cgs_ClientsConsensus gs)) (\<lambda>_.
     and_then (validate_metadata lib validClients (cgs_ClientsMetadata gs)) (\<lambda>_.
     check_next_sequence maxSequence (cgs_NextClientSequence gs)))))"

definition IdentifiedConnection_ValidateBasic :: "IdentifiedConnection \<Rightarrow> unit result" where
  "IdentifiedConnection_ValidateBasic ic =
     and_then (ConnectionIdentifierValidator (idn_Id ic)) (\<lambda>_.
     ConnectionEnd_ValidateBasic (NewConnectionEnd (conn_State ic) (conn_ClientId ic) (conn_Counterparty ic) (conn_Versions ic) (conn_DelayPeriod ic)))"

fun validate_connections :: "IdentifiedConnection list \<Rightarrow> u64 \<Rightarrow> u64 result" where
  "validate_connections [] maxSequence = Inr maxSequence"
| "validate_connections (conn # rest) maxSequence =
     and_then (ParseConnectionSequence (idn_Id conn)) (\<lambda>sequence.
     and_then (IdentifiedConnection_ValidateBasic conn) (\<lambda>_.
     validate_connections rest (if maxSequence < sequence then sequence else maxSequence)))"

definition connection_GenesisState_Validate :: "connection_GenesisState \<Rightarrow> unit result" where
  "connection_GenesisState_Validate gs =
     and_then (validate_connections (ngs_Connections gs) 0) (\<lambda>maxSequence.
     and_then (collect (\<lambda>conPaths.
         and_then (ClientIdentifierValidator (cps_ClientId conPaths)) (\<lambda>_. collect ConnectionIdentifierValidator (cps_Paths conPaths)))
       (ngs_ClientConnectionPaths gs)) (\<lambda>_.
     and_then (check_next_sequence maxSequence (ngs_NextConnectionSequence gs)) (\<lambda>_.
     ConnectionParams_Validate (ngs_Params gs))))"

definition validateGenFields :: "string \<Rightarrow> string \<Rightarrow> u64 \<Rightarrow> unit result" where
  "validateGenFields portID channelID sequence =
     and_then (PortIdentifierValidator portID) (\<lambda>_.
     and_then (ChannelIdentifierValidator channelID) (\<lambda>_.
     if sequence = 0 then Inl (ErrForeign ''sequence cannot be 0'') else Inr ()))"

text \<open>The model does not tell a nil slice, which the source rejects first, from an empty one.\<close>

definition PacketState_Validate :: "PacketState \<Rightarrow> unit result" where
  "PacketState_Validate pa = validateGenFields (pst_PortId pa) (pst_ChannelId pa) (pst_Sequence pa)"

definition PacketSequence_Validate :: "PacketSequence \<Rightarrow> unit result" where
  "PacketSequence_Validate ps = validateGenFields (psq_PortId ps) (psq_ChannelId ps) (psq_Sequence ps)"

definition nonempty_state :: "PacketState \<Rightarrow> unit result" where
  "nonempty_state pa =
     and_then (PacketState_Validate pa) (\<lambda>_.
     if length (pst_Data pa) = 0 then Inl (ErrForeign ''data bytes cannot be empty'') else Inr ())"

fun validate_genesis_channels :: "IdentifiedChannel list \<Rightarrow> u64 \<Rightarrow> u64 result" where
  "validate_genesis_channels [] maxSequence = Inr maxSequence"
| "validate_genesis_channels (channel # rest) maxSequence =
     and_then (ParseChannelSequence (idc_ChannelId channel)) (\<lambda>sequence.
     and_then (IdentifiedChannel_ValidateBasic (idc_PortId channel) (idc_ChannelId channel)
       (NewChannel (ch_State channel) (ch_Ordering channel) (ch_Counterparty channel) (ch_ConnectionHops channel) (ch_Version channel))) (\<lambda>_.
     validate_genesis_channels rest (if maxSequence < sequence then sequence else maxSequence)))"

definition channel_GenesisState_Validate :: "channel_GenesisState \<Rightarrow> unit result" where
  "channel_GenesisState_Validate gs =
     and_then (validate_genesis_channels (hgs_Channels gs) 0) (\<lambda>maxSequence.
     and_then (check_next_sequence maxSequence (hgs_NextChannelSequence gs)) (\<lambda>_.
     and_then (collect nonempty_state (hgs_Acknowledgements gs)) (\<lambda>_.
     and_then (collect PacketState_Validate (hgs_Receipts gs)) (\<lambda>_.
     and_then (collect nonempty_state (hgs_Commitments gs)) (\<lambda>_.
     and_then (collect PacketSequence_Validate (hgs_SendSequences gs)) (\<lambda>_.
     and_then (collect PacketSequence_Validate (hgs_RecvSequences gs)) (\<lambda>_.
     and_then (collect PacketSequence_Validate (hgs_AckSequences gs)) (\<lambda>_. Inr ()))))))))"

definition core_GenesisState_Validate :: "(bytes \<Rightarrow> bool) \<Rightarrow> lib \<Rightarrow> core_GenesisState \<Rightarrow> unit result" where
  "core_GenesisState_Validate vh lib gs =
     and_then (client_GenesisState_Validate vh lib (ClientGenesis gs)) (\<lambda>_.
     and_then (connection_GenesisState_Validate (ConnectionGenesis gs)) (\<lambda>_.
     channel_GenesisState_Validate (ChannelGenesis gs)))"

section \<open>Import\<close>

fun init_clients :: "string list \<Rightarrow> IdentifiedClientState list \<Rightarrow> kvstore \<Rightarrow> kvstore result" where
  "init_clients params [] s = Inr s"
| "init_clients params (client # rest) s =
     (case ics_ClientState client of
        None \<Rightarrow> Inl (Panic ''invalid client state'')
      | Some cs \<Rightarrow>
          if \<not> IsAllowedClient params (ClientType cs) then Inl (Panic ''client state type is not registered on the allowlist'')
          else init_clients params rest (SetClientState (ics_ClientId client) cs s))"

fun init_consensus :: "string \<Rightarrow> ConsensusStateWithHeight list \<Rightarrow> kvstore \<Rightarrow> kvstore result" where
  "init_consensus clientID [] s = Inr s"
| "init_consensus clientID (consState # rest) s =
     (case csh_ConsensusState consState of
        None \<Rightarrow> Inl (Panic ''invalid consensus state'')
      | Some consensusState \<Rightarrow>
          init_consensus clientID rest (SetClientConsensusState clientID (csh_Height consState) consensusState s))"

fun init_all_consensus :: "ClientConsensusStates list \<Rightarrow> kvstore \<Rightarrow> kvstore result" where
  "init_all_consensus [] s = Inr s"
| "init_all_consensus (cs # rest) s =
     and_then (init_consensus (ccs_ClientId cs) (ccs_ConsensusStates cs) s) (init_all_consensus rest)"

definition client_InitGenesis :: "sdk_context \<Rightarrow> client_GenesisState \<Rightarrow> kvstore \<Rightarrow> kvstore result" where
  "client_InitGenesis ctx gs s =
     (if \<not> is_ok (validateClients (cgs_Params gs)) then Inl (Panic ''invalid ibc client genesis state parameters'')
      else
        let s1 = SetClientParams (cgs_Params gs) s;
            s2 = (if length (cgs_ClientsMetadata gs) \<noteq> 0 then SetAllClientMetadata (cgs_ClientsMetadata gs) s1 else s1) in
        and_then (init_clients (cgs_Params gs) (cgs_Clients gs) s2) (\<lambda>s3.
        and_then (init_all_consensus (cgs_ClientsConsensus gs) s3) (\<lambda>s4.
        case CreateLocalhostClient ctx (SetNextClientSequence (cgs_NextClientSequence gs) s4) of
          Inl e \<Rightarrow> Inl (Panic ''failed to initialise localhost client'')
        | Inr s5 \<Rightarrow> Inr s5)))"

definition connection_InitGenesis :: "lib \<Rightarrow> connection_GenesisState \<Rightarrow> kvstore \<Rightarrow> kvstore" where
  "connection_InitGenesis lib gs s =
     (let s1 = fold (\<lambda>connection. SetConnection (idn_Id connection)
                 (NewConnectionEnd (conn_State connection) (conn_ClientId connection) (conn_Counterparty connection)
                   (conn_Versions connection) (conn_DelayPeriod connection))) (ngs_Connections gs) s;
          s2 = fold (\<lambda>connPaths. SetClientConnectionPaths (cps_ClientId connPaths) (cps_Paths connPaths)) (ngs_ClientConnectionPaths gs) s1;
          s3 = SetNextConnectionSequence (ngs_NextConnectionSequence gs) s2;
          s4 = SetConnectionParams (ngs_Params gs) s3 in
      CreateSentinelLocalhostConnection lib s4)"

definition channel_InitGenesis :: "channel_GenesisState \<Rightarrow> kvstore \<Rightarrow> kvstore" where
  "channel_InitGenesis gs s =
     (let s1 = fold (\<lambda>channel. SetChannel (idc_PortId channel) (idc_ChannelId channel)
                 (NewChannel (ch_State channel) (ch_Ordering channel) (ch_Counterparty channel) (ch_ConnectionHops channel) (ch_Version channel)))
                 (hgs_Channels gs) s;
          s2 = fold (\<lambda>a. SetPacketAcknowledgement (pst_PortId a) (pst_ChannelId a) (pst_Sequence a) (pst_Data a)) (hgs_Acknowledgements gs) s1;
          s3 = fold (\<lambda>a. SetPacketCommitment (pst_PortId a) (pst_ChannelId a) (pst_Sequence a) (pst_Data a)) (hgs_Commitments gs) s2;
          s4 = fold (\<lambda>a. SetPacketReceipt (pst_PortId a) (pst_ChannelId a) (pst_Sequence a)) (hgs_Receipts gs) s3;
          s5 = fold (\<lambda>a. SetNextSequenceSend (psq_PortId a) (psq_ChannelId a) (psq_Sequence a)) (hgs_SendSequences gs) s4;
          s6 = fold (\<lambda>a. SetNextSequenceRecv (psq_PortId a) (psq_ChannelId a) (psq_Sequence a)) (hgs_RecvSequences gs) s5;
          s7 = fold (\<lambda>a. SetNextSequenceAck (psq_PortId a) (psq_ChannelId a) (psq_Sequence a)) (hgs_AckSequences gs) s6 in
      SetNextChannelSequence (hgs_NextChannelSequence gs) s7)"

definition core_InitGenesis :: "lib \<Rightarrow> sdk_context \<Rightarrow> core_GenesisState \<Rightarrow> kvstore \<Rightarrow> kvstore result" where
  "core_InitGenesis lib ctx gs s =
     and_then (client_InitGenesis ctx (ClientGenesis gs) s) (\<lambda>s1.
     Inr (channel_InitGenesis (ChannelGenesis gs) (connection_InitGenesis lib (ConnectionGenesis gs) s1)))"

section \<open>Export\<close>

definition client_ExportGenesis :: "kvstore \<Rightarrow> client_GenesisState result" where
  "client_ExportGenesis s =
     and_then (GetAllGenesisClients s) (\<lambda>genClients.
     case GetAllClientMetadata s genClients of
       Inl e \<Rightarrow> Inl (Panic ''client metadata'')
     | Inr clientsMetadata \<Rightarrow>
         and_then (GetAllConsensusStates s) (\<lambda>clientsConsensus.
         and_then (GetClientParams s) (\<lambda>params.
         and_then (GetNextClientSequence s) (\<lambda>nextClientSequence.
         Inr \<lparr>cgs_Clients = genClients, cgs_ClientsConsensus = clientsConsensus, cgs_ClientsMetadata = clientsMetadata,
              cgs_Params = params, cgs_CreateLocalhost = False, cgs_NextClientSequence = nextClientSequence\<rparr>))))"

definition connection_ExportGenesis :: "kvstore \<Rightarrow> connection_GenesisState result" where
  "connection_ExportGenesis s =
     and_then (GetAllConnections s) (\<lambda>connections.
     and_then (GetAllClientConnectionPaths s) (\<lambda>paths.
     and_then (GetNextConnectionSequence s) (\<lambda>n.
     and_then (GetConnectionParams s) (\<lambda>params.
     Inr \<lparr>ngs_Connections = connections, ngs_ClientConnectionPaths = paths, ngs_NextConnectionSequence = n, ngs_Params = params\<rparr>))))"

definition channel_ExportGenesis :: "kvstore \<Rightarrow> channel_GenesisState result" where
  "channel_ExportGenesis s =
     and_then (GetAllChannels s) (\<lambda>channels.
     and_then (GetAllPacketAcks s) (\<lambda>acks.
     and_then (GetAllPacketCommitments s) (\<lambda>commitments.
     and_then (GetAllPacketReceipts s) (\<lambda>receipts.
     and_then (GetAllPacketSendSeqs s) (\<lambda>sendSeqs.
     and_then (GetAllPacketRecvSeqs s) (\<lambda>recvSeqs.
     and_then (GetAllPacketAckSeqs s) (\<lambda>ackSeqs.
     and_then (GetNextChannelSequence s) (\<lambda>n.
     Inr \<lparr>hgs_Channels = channels, hgs_Acknowledgements = acks, hgs_Commitments = commitments, hgs_Receipts = receipts,
          hgs_SendSequences = sendSeqs, hgs_RecvSequences = recvSeqs, hgs_AckSequences = ackSeqs, hgs_NextChannelSequence = n\<rparr>))))))))"

definition core_ExportGenesis :: "kvstore \<Rightarrow> core_GenesisState result" where
  "core_ExportGenesis s =
     and_then (client_ExportGenesis s) (\<lambda>clients.
     and_then (connection_ExportGenesis s) (\<lambda>connections.
     and_then (channel_ExportGenesis s) (\<lambda>channels.
     Inr \<lparr>ClientGenesis = clients, ConnectionGenesis = connections, ChannelGenesis = channels\<rparr>)))"

end
