(* ===== verification/Core_Genesis_Props.thy ===== *)
theory Core_Genesis_Props
  imports Core_Genesis
begin

text \<open>
  What genesis of the core module guarantees: exporting the store of a running chain never panics and
  importing the export gives back every entry, apart from the localhost client and connection, which
  every import creates anew; what the validation of a genesis state promises about identifiers; and
  that it rejects the export of every running chain.
\<close>

section \<open>Well-formed stores\<close>

text \<open>
  Every entry belongs to one of the families of the three submodules. The connections of a client are
  stored for existing clients, consensus metadata for Tendermint clients; and only the path of a
  client state contains the word \<open>clientState\<close>.
\<close>

inductive core_entry :: "kvstore \<Rightarrow> string \<Rightarrow> kv_value \<Rightarrow> bool" for s where
  channel_entry: "slash_free p \<Longrightarrow> slash_free c \<Longrightarrow> core_entry s (ChannelPath p c) (ChannelBz ch)"
| send_entry: "slash_free p \<Longrightarrow> slash_free c \<Longrightarrow> core_entry s (NextSequenceSendPath p c) (Uint64Bz n)"
| recv_entry: "slash_free p \<Longrightarrow> slash_free c \<Longrightarrow> core_entry s (NextSequenceRecvPath p c) (Uint64Bz n)"
| ack_entry: "slash_free p \<Longrightarrow> slash_free c \<Longrightarrow> core_entry s (NextSequenceAckPath p c) (Uint64Bz n)"
| commitment_entry: "slash_free p \<Longrightarrow> slash_free c \<Longrightarrow> core_entry s (PacketCommitmentPath p c n) (BytesBz bz)"
| acknowledgement_entry: "slash_free p \<Longrightarrow> slash_free c \<Longrightarrow> core_entry s (PacketAcknowledgementPath p c n) (BytesBz bz)"
| receipt_entry: "slash_free p \<Longrightarrow> slash_free c \<Longrightarrow> core_entry s (PacketReceiptPath p c n) (BytesBz [1])"
| connection_entry: "slash_free c \<Longrightarrow> core_entry s (ConnectionPath c) (ConnectionBz conn)"
| client_entry: "slash_free c \<Longrightarrow> \<not> is_blank c \<Longrightarrow> core_entry s (FullClientPath c ClientStateKey) (ClientStateBz cs)"
| paths_entry: "slash_free c \<Longrightarrow> GetClientState s c \<noteq> None \<Longrightarrow> \<not> strings_Contains (ClientConnectionsPath c) KeyClientState \<Longrightarrow>
    core_entry s (ClientConnectionsPath c) (ClientPathsBz ps)"
| consensus_entry: "slash_free c \<Longrightarrow> \<not> strings_Contains (FullClientPath c (ConsensusStateKey h)) KeyClientState \<Longrightarrow>
    core_entry s (FullClientPath c (ConsensusStateKey h)) (ConsensusStateBz cons)"
| metadata_entry: "slash_free c \<Longrightarrow> GetClientState s c = Some (TendermintClient cs) \<Longrightarrow>
    \<not> strings_Contains (FullClientPath c key) KeyClientState \<Longrightarrow> key = ProcessedTimeKey h \<or> key = ProcessedHeightKey h \<or> key = IterationKey h \<Longrightarrow>
    core_entry s (FullClientPath c key) v"
| next_client: "core_entry s KeyNextClientSequence (Uint64Bz n)"
| next_connection: "core_entry s KeyNextConnectionSequence (Uint64Bz n)"
| next_channel: "core_entry s KeyNextChannelSequence (Uint64Bz n)"
| client_params: "core_entry s ClientParamsKey (ClientParamsBz ps)"
| connection_params: "core_entry s ConnectionParamsKey (ConnectionParamsBz n)"

definition core_wf :: "kvstore \<Rightarrow> bool" where
  "core_wf s = (\<forall>key v. kv_get s key = Some v \<longrightarrow> core_entry s key v)"

lemma core_wfD: "core_wf s \<Longrightarrow> fmlookup s key = Some v \<Longrightarrow> core_entry s key v"
  by (simp add: core_wf_def kv_get_def)

lemma family_of_prefix:
  assumes "core_entry s key v"
  shows "HasPrefix key KeyChannelEndPrefix \<Longrightarrow> \<exists>p c ch. slash_free p \<and> slash_free c \<and> key = ChannelPath p c \<and> v = ChannelBz ch"
    and "HasPrefix key KeyNextSeqSendPrefix \<Longrightarrow> \<exists>p c n. slash_free p \<and> slash_free c \<and> key = NextSequenceSendPath p c \<and> v = Uint64Bz n"
    and "HasPrefix key KeyNextSeqRecvPrefix \<Longrightarrow> \<exists>p c n. slash_free p \<and> slash_free c \<and> key = NextSequenceRecvPath p c \<and> v = Uint64Bz n"
    and "HasPrefix key KeyNextSeqAckPrefix \<Longrightarrow> \<exists>p c n. slash_free p \<and> slash_free c \<and> key = NextSequenceAckPath p c \<and> v = Uint64Bz n"
    and "HasPrefix key KeyPacketCommitmentPrefix \<Longrightarrow> \<exists>p c n b. slash_free p \<and> slash_free c \<and> key = PacketCommitmentPath p c n \<and> v = BytesBz b"
    and "HasPrefix key KeyPacketAckPrefix \<Longrightarrow> \<exists>p c n b. slash_free p \<and> slash_free c \<and> key = PacketAcknowledgementPath p c n \<and> v = BytesBz b"
    and "HasPrefix key KeyPacketReceiptPrefix \<Longrightarrow> \<exists>p c n. slash_free p \<and> slash_free c \<and> key = PacketReceiptPath p c n \<and> v = BytesBz [1]"
    and "HasPrefix key KeyConnectionPrefix \<Longrightarrow> \<exists>c conn. slash_free c \<and> key = ConnectionPath c \<and> v = ConnectionBz conn"
  using assms by (cases; (simp add: path_defs, fail | auto simp: path_defs))+


lemma strings_Contains_append: "strings_Contains s sub \<Longrightarrow> strings_Contains (t @ s) sub"
  by (induction t) simp_all

lemma strings_Contains_self [simp]: "strings_Contains s s"
  by (cases s) (simp_all add: HasPrefix_iff)

lemma Split_first: "slash_free x \<Longrightarrow> \<exists>y ys. Split (x @ r) ''/'' = (x @ y) # ys"
proof (induction x)
  case Nil
  then show ?case using Split_nonempty [of "''/''" r] by (cases "Split r ''/''") auto
next
  case (Cons c x)
  then obtain y ys where "Split (x @ r) ''/'' = (x @ y) # ys" by auto
  then show ?case using Cons.prems by (auto simp: Split_other)
qed

lemma Split_client: "slash_free c \<Longrightarrow> Split (FullClientPath c k) ''/'' = ''clients'' # c # Split k ''/''"
  using Split_seg [of "''clients''" "c @ ''/'' @ k"] Split_seg [of c k] by (simp add: FullClientPath_def)

lemma Split_processed:
  "Split (ConsensusStateKey h) ''/'' = [''consensusStates'', Height_String h]"
  "Split (ProcessedTimeKey h) ''/'' = [''consensusStates'', Height_String h, ''processedTime'']"
  "Split (ProcessedHeightKey h) ''/'' = [''consensusStates'', Height_String h, ''processedHeight'']"
  using Split_Join [of "[''consensusStates'', Height_String h]"] Split_Join [of "[''consensusStates'', Height_String h, ''processedTime'']"]
    Split_Join [of "[''consensusStates'', Height_String h, ''processedHeight'']"]
  by (simp_all add: ProcessedTimeKey_def ProcessedHeightKey_def ConsensusStateKey_def ConsensusStatePath_def)

lemma Split_iteration: "\<exists>y ys. Split (IterationKey h) ''/'' = (KeyIterateConsensusStatePrefix @ y) # ys"
  unfolding IterationKey_def by (rule Split_first) simp

lemma client_family:
  assumes "core_entry s key v" and "HasPrefix key KeyClientStorePrefix"
  shows "strings_Contains key KeyClientState \<Longrightarrow>
      \<exists>c cs. slash_free c \<and> \<not> is_blank c \<and> key = FullClientPath c ClientStateKey \<and> v = ClientStateBz cs"
    and "is_consensus_key key \<Longrightarrow> \<exists>c h cons. slash_free c \<and> key = FullClientPath c (ConsensusStateKey h) \<and> v = ConsensusStateBz cons"
proof -
  show "\<exists>c cs. slash_free c \<and> \<not> is_blank c \<and> key = FullClientPath c ClientStateKey \<and> v = ClientStateBz cs"
    if "strings_Contains key KeyClientState"
    using assms that by cases (auto simp: path_defs)
  show "\<exists>c h cons. slash_free c \<and> key = FullClientPath c (ConsensusStateKey h) \<and> v = ConsensusStateBz cons" if k: "is_consensus_key key"
    using assms(1)
  proof cases
    case (client_entry c cs)
    then have "Split key ''/'' = segments (PClientState c)" using Split_render [of "PClientState c"] by (simp add: FullClientStatePath_def ClientStateKey_def)
    then show ?thesis using k by (simp add: is_consensus_key_def)
  next
    case (paths_entry c ps)
    then have "Split key ''/'' = segments (PClientConnections c)" using Split_render [of "PClientConnections c"] by simp
    then show ?thesis using k by (simp add: is_consensus_key_def)
  next
    case (metadata_entry c cs key' h)
    obtain y ys where "Split (IterationKey h) ''/'' = (KeyIterateConsensusStatePrefix @ y) # ys" using Split_iteration by blast
    with metadata_entry k show ?thesis by (auto simp: is_consensus_key_def Split_client Split_processed)
  qed (use assms(2) in \<open>auto simp: path_defs\<close>)
qed

section \<open>Export\<close>

definition put_channel :: "IdentifiedChannel \<Rightarrow> string \<times> kv_value" where
  "put_channel x = (ChannelPath (idc_PortId x) (idc_ChannelId x),
     ChannelBz (NewChannel (ch_State x) (ch_Ordering x) (ch_Counterparty x) (ch_ConnectionHops x) (ch_Version x)))"

definition put_sequence :: "(string \<Rightarrow> string \<Rightarrow> string) \<Rightarrow> PacketSequence \<Rightarrow> string \<times> kv_value" where
  "put_sequence path x = (path (psq_PortId x) (psq_ChannelId x), Uint64Bz (psq_Sequence x))"

definition put_hash :: "(string \<Rightarrow> string \<Rightarrow> u64 \<Rightarrow> string) \<Rightarrow> PacketState \<Rightarrow> string \<times> kv_value" where
  "put_hash path x = (path (pst_PortId x) (pst_ChannelId x) (pst_Sequence x), BytesBz (pst_Data x))"

definition put_receipt :: "PacketState \<Rightarrow> string \<times> kv_value" where
  "put_receipt x = (PacketReceiptPath (pst_PortId x) (pst_ChannelId x) (pst_Sequence x), BytesBz [1])"

definition put_connection :: "IdentifiedConnection \<Rightarrow> string \<times> kv_value" where
  "put_connection x = (ConnectionPath (idn_Id x),
     ConnectionBz (NewConnectionEnd (conn_State x) (conn_ClientId x) (conn_Counterparty x) (conn_Versions x) (conn_DelayPeriod x)))"

definition put_paths :: "ConnectionPaths \<Rightarrow> string \<times> kv_value" where
  "put_paths x = (ClientConnectionsPath (cps_ClientId x), ClientPathsBz (cps_Paths x))"

lemma path_parses:
  assumes "slash_free p" "slash_free c"
  shows "ParseChannelPath (ChannelPath p c) = Inr (p, c)" "ParseChannelPath (NextSequenceSendPath p c) = Inr (p, c)"
    "ParseChannelPath (NextSequenceRecvPath p c) = Inr (p, c)" "ParseChannelPath (NextSequenceAckPath p c) = Inr (p, c)"
  using Split_render [of "PChannel p c"] Split_render [of "PNextSequenceSend p c"] Split_render [of "PNextSequenceRecv p c"]
    Split_render [of "PNextSequenceAck p c"] assms
  by (simp_all add: ParseChannelPath_segments)

lemma path_splits:
  assumes "slash_free p" "slash_free c"
  shows "Split (PacketCommitmentPath p c n) ''/'' = [''commitments'', ''ports'', p, ''channels'', c, ''sequences'', dec n]"
    "Split (PacketAcknowledgementPath p c n) ''/'' = [''acks'', ''ports'', p, ''channels'', c, ''sequences'', dec n]"
    "Split (PacketReceiptPath p c n) ''/'' = [''receipts'', ''ports'', p, ''channels'', c, ''sequences'', dec n]"
  using Split_render [of "PPacketCommitment p c n"] Split_render [of "PPacketAcknowledgement p c n"] Split_render [of "PPacketReceipt p c n"] assms
  by simp_all

lemma wf_values: "core_wf s \<Longrightarrow> (key, v) \<in> set (prefix_values s pre) \<Longrightarrow> core_entry s key v \<and> HasPrefix key pre"
  by (auto simp: prefix_values_iff dest: core_wfD)

lemma all_channels:
  assumes wf: "core_wf s"
  shows "\<exists>xs. GetAllChannels s = Inr xs \<and> map put_channel xs = prefix_values s KeyChannelEndPrefix"
  unfolding GetAllChannels_def IterateChannels_def
proof (rule collect_map)
  fix key v assume "(key, v) \<in> set (prefix_values s KeyChannelEndPrefix)"
  then obtain p c ch where "slash_free p" "slash_free c" "key = ChannelPath p c" "v = ChannelBz ch"
    using wf_values [OF wf] family_of_prefix(1) by blast
  then show "\<exists>x. (case (key, v) of (key, v) \<Rightarrow> case asChannel v of None \<Rightarrow> Inl (Panic ''cannot unmarshal channel'')
      | Some channel \<Rightarrow> and_then (MustParseChannelPath key) (\<lambda>(portID, channelID). Inr (NewIdentifiedChannel portID channelID channel))) = Inr x
      \<and> put_channel x = (key, v)"
    by (simp add: MustParseChannelPath_def path_parses put_channel_def NewIdentifiedChannel_def NewChannel_def)
qed

lemma sequences_map:
  assumes "\<And>key v. (key, v) \<in> set kvs \<Longrightarrow> \<exists>p c n. ParseChannelPath key = Inr (p, c) \<and> key = path p c \<and> v = Uint64Bz n"
  shows "\<exists>xs. IteratePacketSequence kvs = Inr xs \<and> map (put_sequence path) xs = kvs"
  using assms
proof (induction kvs)
  case (Cons kv kvs)
  obtain key v where kv: "kv = (key, v)" by (cases kv)
  from Cons.prems [of key v] kv obtain p c n where k: "ParseChannelPath key = Inr (p, c)" "key = path p c" "v = Uint64Bz n" by auto
  from Cons obtain xs where "IteratePacketSequence kvs = Inr xs" "map (put_sequence path) xs = kvs" by auto
  with k show ?case by (auto simp: kv put_sequence_def NewPacketSequence_def)
qed simp

lemma all_sequences:
  assumes wf: "core_wf s"
  shows "\<exists>xs. GetAllPacketSendSeqs s = Inr xs \<and> map (put_sequence NextSequenceSendPath) xs = prefix_values s KeyNextSeqSendPrefix"
    and "\<exists>xs. GetAllPacketRecvSeqs s = Inr xs \<and> map (put_sequence NextSequenceRecvPath) xs = prefix_values s KeyNextSeqRecvPrefix"
    and "\<exists>xs. GetAllPacketAckSeqs s = Inr xs \<and> map (put_sequence NextSequenceAckPath) xs = prefix_values s KeyNextSeqAckPrefix"
  unfolding GetAllPacketSendSeqs_def GetAllPacketRecvSeqs_def GetAllPacketAckSeqs_def
  by (rule sequences_map, metis wf_values [OF wf] family_of_prefix(2-4) path_parses)+

lemma hashes_map:
  assumes "\<And>key v. (key, v) \<in> set kvs \<Longrightarrow> \<exists>a p c n b. Split key ''/'' = [a, ''ports'', p, ''channels'', c, ''sequences'', dec n] \<and> v = BytesBz b
      \<and> e (NewPacketState p c n b) = (key, v)"
  shows "\<exists>xs. iterateHashes kvs = Inr xs \<and> map e xs = kvs"
  unfolding iterateHashes_def
proof (rule collect_map)
  fix key v assume "(key, v) \<in> set kvs"
  with assms obtain a p c n b where "Split key ''/'' = [a, ''ports'', p, ''channels'', c, ''sequences'', dec n]" "v = BytesBz b"
    "e (NewPacketState p c n b) = (key, v)" by blast
  then show "\<exists>x. (case (key, v) of (key, v) \<Rightarrow> let keySplit = Split key ''/'' in
       if length keySplit \<le> 4 then Inl (Panic ''index out of range'')
       else case ParseUint (last keySplit) of None \<Rightarrow> Inl (Panic ''strconv.ParseUint'')
       | Some sequence \<Rightarrow> (case asBytes v of None \<Rightarrow> Inl (Panic ''not a hash'')
            | Some bz \<Rightarrow> Inr (NewPacketState (keySplit ! 2) (keySplit ! 4) sequence bz))) = Inr x \<and> e x = (key, v)"
    by simp
qed

lemma all_hashes:
  assumes wf: "core_wf s"
  shows "\<exists>xs. GetAllPacketCommitments s = Inr xs \<and> map (put_hash PacketCommitmentPath) xs = prefix_values s KeyPacketCommitmentPrefix"
    and "\<exists>xs. GetAllPacketAcks s = Inr xs \<and> map (put_hash PacketAcknowledgementPath) xs = prefix_values s KeyPacketAckPrefix"
    and "\<exists>xs. GetAllPacketReceipts s = Inr xs \<and> map put_receipt xs = prefix_values s KeyPacketReceiptPrefix"
proof -
  show "\<exists>xs. GetAllPacketCommitments s = Inr xs \<and> map (put_hash PacketCommitmentPath) xs = prefix_values s KeyPacketCommitmentPrefix"
    unfolding GetAllPacketCommitments_def
  proof (rule hashes_map)
    fix key v assume "(key, v) \<in> set (prefix_values s KeyPacketCommitmentPrefix)"
    then obtain p c n b where "slash_free p" "slash_free c" "key = PacketCommitmentPath p c n" "v = BytesBz b"
      using wf_values [OF wf] family_of_prefix(5) by blast
    then show "\<exists>a p c n b. Split key ''/'' = [a, ''ports'', p, ''channels'', c, ''sequences'', dec n] \<and> v = BytesBz b
        \<and> put_hash PacketCommitmentPath (NewPacketState p c n b) = (key, v)"
      by (intro exI [of _ "''commitments''"] exI [of _ p] exI [of _ c] exI [of _ n] exI [of _ b]) (simp add: path_splits put_hash_def NewPacketState_def)
  qed
  show "\<exists>xs. GetAllPacketAcks s = Inr xs \<and> map (put_hash PacketAcknowledgementPath) xs = prefix_values s KeyPacketAckPrefix"
    unfolding GetAllPacketAcks_def
  proof (rule hashes_map)
    fix key v assume "(key, v) \<in> set (prefix_values s KeyPacketAckPrefix)"
    then obtain p c n b where "slash_free p" "slash_free c" "key = PacketAcknowledgementPath p c n" "v = BytesBz b"
      using wf_values [OF wf] family_of_prefix(6) by blast
    then show "\<exists>a p c n b. Split key ''/'' = [a, ''ports'', p, ''channels'', c, ''sequences'', dec n] \<and> v = BytesBz b
        \<and> put_hash PacketAcknowledgementPath (NewPacketState p c n b) = (key, v)"
      by (intro exI [of _ "''acks''"] exI [of _ p] exI [of _ c] exI [of _ n] exI [of _ b]) (simp add: path_splits put_hash_def NewPacketState_def)
  qed
  show "\<exists>xs. GetAllPacketReceipts s = Inr xs \<and> map put_receipt xs = prefix_values s KeyPacketReceiptPrefix"
    unfolding GetAllPacketReceipts_def
  proof (rule hashes_map)
    fix key v assume "(key, v) \<in> set (prefix_values s KeyPacketReceiptPrefix)"
    then obtain p c n where "slash_free p" "slash_free c" "key = PacketReceiptPath p c n" "v = BytesBz [1]"
      using wf_values [OF wf] family_of_prefix(7) by blast
    then show "\<exists>a p c n b. Split key ''/'' = [a, ''ports'', p, ''channels'', c, ''sequences'', dec n] \<and> v = BytesBz b
        \<and> put_receipt (NewPacketState p c n b) = (key, v)"
      by (intro exI [of _ "''receipts''"] exI [of _ p] exI [of _ c] exI [of _ n] exI [of _ "[1]"]) (simp add: path_splits put_receipt_def NewPacketState_def)
  qed
qed

lemma all_connections:
  assumes wf: "core_wf s"
  shows "\<exists>xs. GetAllConnections s = Inr xs \<and> map put_connection xs = prefix_values s KeyConnectionPrefix"
  unfolding GetAllConnections_def IterateConnections_def
proof (rule collect_map)
  fix key v assume "(key, v) \<in> set (prefix_values s KeyConnectionPrefix)"
  then obtain c conn where c: "slash_free c" "key = ConnectionPath c" "v = ConnectionBz conn"
    using wf_values [OF wf] family_of_prefix(8) by blast
  then have "MustParseConnectionPath key = Inr c"
    using Split_render [of "PConnection c"] by (simp add: MustParseConnectionPath_def ParseConnectionPath_def)
  with c show "\<exists>x. (case (key, v) of (key, v) \<Rightarrow> case asConnection v of None \<Rightarrow> Inl (Panic ''cannot unmarshal connection'')
      | Some connection \<Rightarrow> and_then (MustParseConnectionPath key) (\<lambda>connectionID. Inr (NewIdentifiedConnection connectionID connection))) = Inr x
      \<and> put_connection x = (key, v)"
    by (simp add: put_connection_def NewIdentifiedConnection_def NewConnectionEnd_def)
qed

text \<open>Clients, their consensus states and their metadata as the entries they are stored under.\<close>

definition put_client :: "string \<times> ClientState \<Rightarrow> string \<times> kv_value" where
  "put_client x = (FullClientPath (fst x) ClientStateKey, ClientStateBz (snd x))"

definition put_consensus :: "string \<times> ConsensusStateWithHeight \<Rightarrow> string \<times> kv_value" where
  "put_consensus x = (FullClientPath (fst x) (ConsensusStateKey (csh_Height (snd x))), ConsensusStateBz (the (csh_ConsensusState (snd x))))"

definition consensus_list :: "ClientConsensusStates list \<Rightarrow> (string \<times> ConsensusStateWithHeight) list" where
  "consensus_list ccs = concat (map (\<lambda>x. map (Pair (ccs_ClientId x)) (ccs_ConsensusStates x)) ccs)"

definition metadata_list :: "IdentifiedGenesisMetadata list \<Rightarrow> (string \<times> kv_value) list" where
  "metadata_list ms = concat (map (\<lambda>m. map (\<lambda>md. (FullClientPath (igm_ClientId m) (gm_Key md), gm_Value md)) (igm_ClientMetadata m)) ms)"

lemma all_client_states:
  assumes wf: "core_wf s"
  shows "\<exists>cs. IterateClientStates s [] = Inr cs
    \<and> map put_client cs = filter (\<lambda>(path, v). strings_Contains path KeyClientState) (prefix_values s (PrefixedClientStorePath []))"
  unfolding IterateClientStates_def
proof (rule collect_map)
  fix key v assume "(key, v) \<in> set (filter (\<lambda>(path, v). strings_Contains path KeyClientState) (prefix_values s (PrefixedClientStorePath [])))"
  then have e: "core_entry s key v" "HasPrefix key (PrefixedClientStorePath [])" "strings_Contains key KeyClientState"
    using wf_values [OF wf] by auto
  then have "HasPrefix key KeyClientStorePrefix" by (auto simp: PrefixedClientStorePath_def HasPrefix_iff)
  from client_family(1) [OF e(1) this e(3)] obtain c cs where c: "slash_free c" "\<not> is_blank c" "key = FullClientPath c ClientStateKey" "v = ClientStateBz cs"
    by blast
  then have "MustParseClientStatePath key = Inr c"
    using Split_render [of "PClientState c"]
    by (simp add: MustParseClientStatePath_def parseClientStatePath_def FullClientStatePath_def ClientStateKey_def)
  with c show "\<exists>x. (case (key, v) of (path, v) \<Rightarrow> and_then (MustParseClientStatePath path) (\<lambda>clientID.
      case asClientState v of None \<Rightarrow> Inl (Panic ''cannot unmarshal client state'') | Some clientState \<Rightarrow> Inr (clientID, clientState))) = Inr x
      \<and> put_client x = (key, v)"
    by (simp add: put_client_def)
qed

lemma client_states_iff:
  assumes "map put_client cs = filter (\<lambda>(path, v). strings_Contains path KeyClientState) (prefix_values s (PrefixedClientStorePath []))"
  shows "(c, x) \<in> set cs \<longleftrightarrow> fmlookup s (FullClientPath c ClientStateKey) = Some (ClientStateBz x)"
proof -
  have "put_client a = put_client b \<longleftrightarrow> a = b" for a b
    by (cases a; cases b) (simp add: put_client_def FullClientPath_def)
  then have "(c, x) \<in> set cs \<longleftrightarrow> put_client (c, x) \<in> set (map put_client cs)" by auto
  then show ?thesis
    using strings_Contains_append [OF strings_Contains_self [of KeyClientState], of "''clients/'' @ c @ ''/''"]
    unfolding assms by (auto simp: put_client_def prefix_values_iff FullClientPath_def PrefixedClientStorePath_def ClientStateKey_def)
qed

lemma consensus_list_add: "set (consensus_list (add_consensus c x ccs)) = insert (c, x) (set (consensus_list ccs))"
  by (induction ccs) (auto simp: consensus_list_def)

lemma consensus_list_fold:
  "set (consensus_list (fold (\<lambda>(clientID, c). add_consensus clientID c) cs ccs)) = set cs \<union> set (consensus_list ccs)"
  by (induction cs arbitrary: ccs) (auto simp: consensus_list_add)

lemma all_consensus_states:
  assumes wf: "core_wf s"
  shows "\<exists>ccs. GetAllConsensusStates s = Inr ccs \<and> (\<forall>x \<in> set (consensus_list ccs). csh_ConsensusState (snd x) \<noteq> None)
    \<and> put_consensus ` set (consensus_list ccs) = set (filter (\<lambda>(key, v). is_consensus_key key) (prefix_values s KeyClientStorePrefix))"
proof -
  let ?kvs = "filter (\<lambda>(key, v). is_consensus_key key) (prefix_values s KeyClientStorePrefix)"
  have "\<exists>cs. IterateConsensusStates s = Inr cs \<and> list_all (\<lambda>x. csh_ConsensusState (snd x) \<noteq> None) cs \<and> map put_consensus cs = ?kvs"
    unfolding IterateConsensusStates_def
  proof (rule collect_map_all)
    fix key v assume "(key, v) \<in> set ?kvs"
    then have e: "core_entry s key v" "HasPrefix key KeyClientStorePrefix" "is_consensus_key key" using wf_values [OF wf] by auto
    from client_family(2) [OF e] obtain c h cons where c: "slash_free c" "key = FullClientPath c (ConsensusStateKey h)" "v = ConsensusStateBz cons"
      by blast
    then show "\<exists>x. (case (key, v) of (key, v) \<Rightarrow> let keySplit = Split key ''/'' in and_then (MustParseHeight (keySplit ! 3)) (\<lambda>height.
        case asConsensusState v of None \<Rightarrow> Inl (Panic ''cannot unmarshal consensus state'')
        | Some consensusState \<Rightarrow> Inr (keySplit ! 1, NewConsensusStateWithHeight height consensusState))) = Inr x
        \<and> csh_ConsensusState (snd x) \<noteq> None \<and> put_consensus x = (key, v)"
      by (simp add: Split_client Split_processed MustParseHeight_def NewConsensusStateWithHeight_def put_consensus_def)
  qed
  then obtain cs where cs: "IterateConsensusStates s = Inr cs" "list_all (\<lambda>x. csh_ConsensusState (snd x) \<noteq> None) cs" "map put_consensus cs = ?kvs"
    by blast
  have "set (consensus_list (ClientsConsensusStates_Sort (fold (\<lambda>(clientID, c). add_consensus clientID c) cs []))) = set cs"
    using consensus_list_fold [of cs "[]"] by (simp add: ClientsConsensusStates_Sort_def consensus_list_def)
  moreover have "put_consensus ` set cs = set ?kvs" by (simp flip: cs(3))
  ultimately show ?thesis using cs by (simp add: GetAllConsensusStates_def list_all_iff)
qed

lemma client_values_iff:
  "(k, v) \<in> set (client_values s c pre) \<longleftrightarrow> fmlookup s (FullClientPath c k) = Some v \<and> HasPrefix k pre"
proof -
  have d: "drop (length (FullClientPath c [])) (FullClientPath c k) = k" for k by (simp add: FullClientPath_def)
  have p: "HasPrefix key (FullClientPath c pre) \<longleftrightarrow> (\<exists>k. key = FullClientPath c k \<and> HasPrefix k pre)" for key
    by (auto simp: FullClientPath_def HasPrefix_iff)
  have "(k, v) \<in> set (client_values s c pre) \<longleftrightarrow>
      (\<exists>key. k = drop (length (FullClientPath c [])) key \<and> (key, v) \<in> set (prefix_values s (FullClientPath c pre)))"
    by (force simp: client_values_def)
  then show ?thesis by (auto simp: prefix_values_iff p d)
qed

lemma all_client_metadata:
  "\<forall>x \<in> set ics. ics_ClientState x \<noteq> None \<Longrightarrow> \<exists>ms. GetAllClientMetadata s ics = Inr ms \<and> metadata_list ms =
     concat (map (\<lambda>x. map (\<lambda>md. (FullClientPath (ics_ClientId x) (gm_Key md), gm_Value md))
       (ExportMetadata s (ics_ClientId x) (the (ics_ClientState x)))) ics)"
  by (induction ics) (auto simp: Let_def metadata_list_def NewIdentifiedGenesisMetadata_def)

lemma tm_metadata_iff:
  "(key, v) \<in> set (map (\<lambda>md. (FullClientPath c (gm_Key md), gm_Value md)) (ExportMetadata s c (TendermintClient cs))) \<longleftrightarrow>
     fmlookup s key = Some v \<and> (\<exists>k. key = FullClientPath c k \<and> (HasPrefix k KeyConsensusStatePrefix \<and> is_metadata_key k \<or> HasPrefix k KeyIterateConsensusStatePrefix))"
proof -
  have "(key, v) \<in> set (map (\<lambda>md. (FullClientPath c (gm_Key md), gm_Value md)) (ExportMetadata s c (TendermintClient cs))) \<longleftrightarrow>
      (\<exists>k. key = FullClientPath c k \<and> (k, v) \<in> set (IterateConsensusMetadata s c))"
    by (force simp: tm_ExportMetadata_def NewGenesisMetadata_def)
  then show ?thesis by (auto simp: IterateConsensusMetadata_def client_values_iff)
qed

section \<open>Import\<close>

definition client_entries :: "client_GenesisState \<Rightarrow> (string \<times> kv_value) list" where
  "client_entries gs = [(ClientParamsKey, ClientParamsBz (cgs_Params gs))] @ metadata_list (cgs_ClientsMetadata gs)
     @ map (\<lambda>x. put_client (ics_ClientId x, the (ics_ClientState x))) (cgs_Clients gs)
     @ map put_consensus (consensus_list (cgs_ClientsConsensus gs)) @ [(KeyNextClientSequence, Uint64Bz (cgs_NextClientSequence gs))]"

definition connection_entries :: "connection_GenesisState \<Rightarrow> (string \<times> kv_value) list" where
  "connection_entries gs = map put_connection (ngs_Connections gs) @ map put_paths (ngs_ClientConnectionPaths gs)
     @ [(KeyNextConnectionSequence, Uint64Bz (ngs_NextConnectionSequence gs)), (ConnectionParamsKey, ConnectionParamsBz (ngs_Params gs))]"

definition channel_entries :: "channel_GenesisState \<Rightarrow> (string \<times> kv_value) list" where
  "channel_entries gs = map put_channel (hgs_Channels gs) @ map (put_hash PacketAcknowledgementPath) (hgs_Acknowledgements gs)
     @ map (put_hash PacketCommitmentPath) (hgs_Commitments gs) @ map put_receipt (hgs_Receipts gs)
     @ map (put_sequence NextSequenceSendPath) (hgs_SendSequences gs) @ map (put_sequence NextSequenceRecvPath) (hgs_RecvSequences gs)
     @ map (put_sequence NextSequenceAckPath) (hgs_AckSequences gs) @ [(KeyNextChannelSequence, Uint64Bz (hgs_NextChannelSequence gs))]"

lemma put_entries_map: "put_entries (map f xs) s = fold (\<lambda>x. fmupd (fst (f x)) (snd (f x))) xs s"
  by (simp add: put_entries_def fold_map comp_def case_prod_beta)

lemma kv_set_fun: "kv_set k v = fmupd k v"
  by (simp add: fun_eq_iff kv_set_def)

lemma channel_InitGenesis_put: "channel_InitGenesis gs s = put_entries (channel_entries gs) s"
  by (simp add: channel_InitGenesis_def channel_entries_def put_entries_map put_channel_def put_hash_def put_receipt_def put_sequence_def
      SetChannel_def SetPacketAcknowledgement_def SetPacketCommitment_def SetPacketReceipt_def SetNextSequenceSend_def SetNextSequenceRecv_def
      SetNextSequenceAck_def SetNextChannelSequence_def kv_set_fun Let_def)

lemma connection_InitGenesis_put: "connection_InitGenesis lib gs s = CreateSentinelLocalhostConnection lib (put_entries (connection_entries gs) s)"
  by (simp add: connection_InitGenesis_def connection_entries_def put_entries_map put_connection_def put_paths_def SetConnection_def
      SetClientConnectionPaths_def SetNextConnectionSequence_def SetConnectionParams_def kv_set_fun Let_def)

lemma init_clients_put:
  "\<forall>x \<in> set cs. \<exists>c. ics_ClientState x = Some c \<and> IsAllowedClient params (ClientType c) \<Longrightarrow>
     init_clients params cs s = Inr (put_entries (map (\<lambda>x. put_client (ics_ClientId x, the (ics_ClientState x))) cs) s)"
  by (induction cs arbitrary: s) (auto simp: put_client_def SetClientState_def kv_set_fun)

lemma init_consensus_put:
  "\<forall>x \<in> set cs. csh_ConsensusState x \<noteq> None \<Longrightarrow> init_consensus c cs s = Inr (put_entries (map (\<lambda>x. put_consensus (c, x)) cs) s)"
  by (induction cs arbitrary: s) (auto simp: put_consensus_def SetClientConsensusState_def ConsensusStateKey_def kv_set_fun)

lemma init_all_consensus_put:
  "\<forall>x \<in> set (consensus_list ccs). csh_ConsensusState (snd x) \<noteq> None \<Longrightarrow>
     init_all_consensus ccs s = Inr (put_entries (map put_consensus (consensus_list ccs)) s)"
proof (induction ccs arbitrary: s)
  case (Cons x ccs)
  have "\<forall>y \<in> set (ccs_ConsensusStates x). csh_ConsensusState y \<noteq> None" "\<forall>y \<in> set (consensus_list ccs). csh_ConsensusState (snd y) \<noteq> None"
    using Cons.prems by (force simp: consensus_list_def)+
  then show ?case using Cons.IH by (simp add: init_consensus_put consensus_list_def comp_def)
qed (simp add: consensus_list_def)

lemma SetAllClientMetadata_put: "SetAllClientMetadata ms s = put_entries (metadata_list ms) s"
  by (induction ms arbitrary: s) (simp_all add: SetAllClientMetadata_def metadata_list_def put_entries_map kv_set_fun)

lemma client_InitGenesis_put:
  assumes "is_ok (validateClients (cgs_Params gs))" and "GetSelfHeight ctx = Inr h"
    and "\<forall>x \<in> set (cgs_Clients gs). \<exists>c. ics_ClientState x = Some c \<and> IsAllowedClient (cgs_Params gs) (ClientType c)"
    and "\<forall>x \<in> set (consensus_list (cgs_ClientsConsensus gs)). csh_ConsensusState (snd x) \<noteq> None"
  shows "client_InitGenesis ctx gs s = Inr (lh_setClientState LocalhostClientID h (put_entries (client_entries gs) s))"
proof -
  have "(if length (cgs_ClientsMetadata gs) \<noteq> 0 then SetAllClientMetadata (cgs_ClientsMetadata gs) s1 else s1) = put_entries (metadata_list (cgs_ClientsMetadata gs)) s1" for s1
    by (simp add: SetAllClientMetadata_put metadata_list_def)
  then show ?thesis
    using assms by (simp add: client_InitGenesis_def client_entries_def init_clients_put init_all_consensus_put CreateLocalhostClient_def
        lh_Initialize_def SetClientParams_def SetNextClientSequence_def kv_set_fun Let_def)
qed

section \<open>Round trip\<close>

text \<open>A list of entries agrees with a store and covers its keys of a kind.\<close>

definition restores :: "(string \<times> kv_value) list \<Rightarrow> kvstore \<Rightarrow> (string \<Rightarrow> bool) \<Rightarrow> bool" where
  "restores kvs s P = (set kvs \<subseteq> {(k, v). fmlookup s k = Some v} \<and> {(k, v). fmlookup s k = Some v \<and> P k} \<subseteq> set kvs)"

lemma restoresI:
  assumes "\<And>k v. (k, v) \<in> set kvs \<Longrightarrow> fmlookup s k = Some v" and "\<And>k v. fmlookup s k = Some v \<Longrightarrow> P k \<Longrightarrow> (k, v) \<in> set kvs"
  shows "restores kvs s P"
  unfolding restores_def using assms by blast

lemma restoresD:
  assumes "restores kvs s P"
  shows "(k, v) \<in> set kvs \<Longrightarrow> fmlookup s k = Some v" and "fmlookup s k = Some v \<Longrightarrow> P k \<Longrightarrow> (k, v) \<in> set kvs"
  using assms unfolding restores_def by blast+

lemma restores_append: "restores a s P \<Longrightarrow> restores b s Q \<Longrightarrow> restores (a @ b) s (\<lambda>k. P k \<or> Q k)"
  unfolding restores_def set_append by blast

lemma restores_values [simp]: "restores (prefix_values s pre) s (\<lambda>k. HasPrefix k pre)"
  by (rule restoresI) (simp_all add: prefix_values_iff)

lemma restores_single: "fmlookup s k = Some v \<Longrightarrow> restores [(k, v)] s (\<lambda>k'. k' = k)"
  by (rule restoresI) simp_all

lemma restores_lookup:
  assumes r: "restores kvs s P"
  shows "P key \<Longrightarrow> fmlookup s key = Some v \<Longrightarrow> fmlookup (put_entries kvs s') key = Some v"
    and "fmlookup s' key = fmlookup s key \<Longrightarrow> fmlookup (put_entries kvs s') key = fmlookup s key"
    and "fmlookup s key = None \<Longrightarrow> fmlookup (put_entries kvs s') key = fmlookup s' key"
proof -
  have l: "fmlookup (put_entries kvs s') key = (if key \<in> fst ` set kvs then fmlookup s key else fmlookup s' key)"
    by (rule put_agreeing_lookup [OF restoresD(1) [OF r]])
  show "fmlookup (put_entries kvs s') key = Some v" if "P key" "fmlookup s key = Some v"
    using restoresD(2) [OF r that(2,1)] that(2) unfolding l by (simp add: rev_image_eqI)
  show "fmlookup s' key = fmlookup s key \<Longrightarrow> fmlookup (put_entries kvs s') key = fmlookup s key" unfolding l by simp
  show "fmlookup (put_entries kvs s') key = fmlookup s' key" if "fmlookup s key = None"
  proof -
    have "key \<notin> fst ` set kvs"
    proof
      assume "key \<in> fst ` set kvs"
      then obtain v where "(key, v) \<in> set kvs" by auto
      from restoresD(1) [OF r this] that show False by simp
    qed
    then show ?thesis unfolding l by simp
  qed
qed

lemma typed_lookups:
  "GetClientParams s = Inr ps \<Longrightarrow> fmlookup s ClientParamsKey = Some (ClientParamsBz ps)"
  "GetConnectionParams s = Inr n \<Longrightarrow> fmlookup s ConnectionParamsKey = Some (ConnectionParamsBz n)"
  "GetNextClientSequence s = Inr n \<Longrightarrow> fmlookup s KeyNextClientSequence = Some (Uint64Bz n)"
  "GetNextConnectionSequence s = Inr n \<Longrightarrow> fmlookup s KeyNextConnectionSequence = Some (Uint64Bz n)"
  "GetNextChannelSequence s = Inr n \<Longrightarrow> fmlookup s KeyNextChannelSequence = Some (Uint64Bz n)"
  "GetClientConnectionPaths s c = Some xs \<longleftrightarrow> fmlookup s (ClientConnectionsPath c) = Some (ClientPathsBz xs)"
  "GetClientState s c = Some cs \<longleftrightarrow> fmlookup s (FullClientPath c ClientStateKey) = Some (ClientStateBz cs)"
  by (auto simp: GetClientParams_def GetConnectionParams_def GetNextClientSequence_def GetNextConnectionSequence_def GetNextChannelSequence_def
      GetClientConnectionPaths_def GetClientState_def kv_typed_def kv_get_def Option.bind_eq_Some_conv split: option.splits
      elim!: asClientParams.elims asConnectionParams.elims asUint64.elims asClientPaths.elims asClientState.elims)

text \<open>The keys that each submodule exports.\<close>

definition channel_key :: "string \<Rightarrow> bool" where
  "channel_key = (\<lambda>k. HasPrefix k KeyChannelEndPrefix
    \<or> HasPrefix k KeyPacketAckPrefix \<or> HasPrefix k KeyPacketCommitmentPrefix \<or> HasPrefix k KeyPacketReceiptPrefix \<or> HasPrefix k KeyNextSeqSendPrefix
    \<or> HasPrefix k KeyNextSeqRecvPrefix \<or> HasPrefix k KeyNextSeqAckPrefix \<or> k = KeyNextChannelSequence)"

definition connection_key :: "string \<Rightarrow> bool" where
  "connection_key = (\<lambda>k. HasPrefix k KeyConnectionPrefix
    \<or> (\<exists>c. slash_free c \<and> k = ClientConnectionsPath c) \<or> k = KeyNextConnectionSequence \<or> k = ConnectionParamsKey)"

definition is_metadata :: "kvstore \<Rightarrow> string \<Rightarrow> bool" where
  "is_metadata s key = (\<exists>c cs k. key = FullClientPath c k \<and> GetClientState s c = Some (TendermintClient cs)
     \<and> (HasPrefix k KeyConsensusStatePrefix \<and> is_metadata_key k \<or> HasPrefix k KeyIterateConsensusStatePrefix))"

definition client_key :: "kvstore \<Rightarrow> string \<Rightarrow> bool" where
  "client_key s = (\<lambda>k. k = ClientParamsKey \<or> is_metadata s k \<or> (\<exists>c. k = FullClientPath c ClientStateKey)
        \<or> HasPrefix k KeyClientStorePrefix \<and> is_consensus_key k \<or> k = KeyNextClientSequence)"

lemma channel_export:
  assumes wf: "core_wf s" and n: "GetNextChannelSequence s = Inr n"
  shows "\<exists>gs. channel_ExportGenesis s = Inr gs \<and> restores (channel_entries gs) s channel_key"
proof -
  obtain chs acks coms recs ss rs as where e: "GetAllChannels s = Inr chs" "GetAllPacketAcks s = Inr acks" "GetAllPacketCommitments s = Inr coms"
      "GetAllPacketReceipts s = Inr recs" "GetAllPacketSendSeqs s = Inr ss" "GetAllPacketRecvSeqs s = Inr rs" "GetAllPacketAckSeqs s = Inr as"
    and m: "map put_channel chs = prefix_values s KeyChannelEndPrefix" "map (put_hash PacketAcknowledgementPath) acks = prefix_values s KeyPacketAckPrefix"
      "map (put_hash PacketCommitmentPath) coms = prefix_values s KeyPacketCommitmentPrefix" "map put_receipt recs = prefix_values s KeyPacketReceiptPrefix"
      "map (put_sequence NextSequenceSendPath) ss = prefix_values s KeyNextSeqSendPrefix"
      "map (put_sequence NextSequenceRecvPath) rs = prefix_values s KeyNextSeqRecvPrefix"
      "map (put_sequence NextSequenceAckPath) as = prefix_values s KeyNextSeqAckPrefix"
    using all_channels [OF wf] all_hashes [OF wf] all_sequences [OF wf] by blast
  show ?thesis
    unfolding channel_ExportGenesis_def e n and_then_simps
    by (rule exI, rule conjI, rule refl) (unfold channel_key_def channel_entries_def channel_GenesisState.simps m, intro restores_append restores_values restores_single typed_lookups n)
qed

lemma paths_family:
  assumes "core_entry s (ClientConnectionsPath c) v" and c: "slash_free c"
  shows "\<exists>ps cs. v = ClientPathsBz ps \<and> GetClientState s c = Some cs"
proof -
  have sp: "Split (ClientConnectionsPath d) ''/'' = [''clients'', d, ''connections'']" if "slash_free d" for d
    using Split_render [of "PClientConnections d"] that by simp
  from assms(1) show ?thesis
  proof cases
    case (client_entry d cs)
    then show ?thesis using sp [OF c] Split_render [of "PClientState d"] by (simp add: FullClientStatePath_def ClientStateKey_def)
  next
    case (paths_entry d ps)
    then show ?thesis by (auto simp: path_defs)
  next
    case (consensus_entry d h cons)
    then show ?thesis using sp [OF c] by (simp add: Split_client Split_processed)
  next
    case (metadata_entry d cs key h)
    obtain y ys where "Split (IterationKey h) ''/'' = (KeyIterateConsensusStatePrefix @ y) # ys" using Split_iteration by blast
    with metadata_entry show ?thesis using sp [OF c] by (auto simp: Split_client Split_processed)
  qed (auto simp: path_defs)
qed

lemma connection_export:
  assumes wf: "core_wf s" and n: "GetNextConnectionSequence s = Inr n" and p: "GetConnectionParams s = Inr t"
  shows "\<exists>gs. connection_ExportGenesis s = Inr gs \<and> restores (connection_entries gs) s connection_key"
proof -
  obtain cs where cs: "IterateClientStates s [] = Inr cs"
    "map put_client cs = filter (\<lambda>(path, v). strings_Contains path KeyClientState) (prefix_values s (PrefixedClientStorePath []))"
    using all_client_states [OF wf] by blast
  obtain conns where conns: "GetAllConnections s = Inr conns" "map put_connection conns = prefix_values s KeyConnectionPrefix"
    using all_connections [OF wf] by blast
  define paths where "paths = concat (map (\<lambda>(clientID, c). case GetClientConnectionPaths s clientID of None \<Rightarrow> [] | Some paths \<Rightarrow> [NewConnectionPaths clientID paths]) cs)"
  have "restores (map put_paths paths) s (\<lambda>k. \<exists>c. slash_free c \<and> k = ClientConnectionsPath c)"
  proof (rule restoresI)
    fix k v assume "(k, v) \<in> set (map put_paths paths)"
    then show "fmlookup s k = Some v"
      by (auto simp: paths_def put_paths_def NewConnectionPaths_def typed_lookups(6) [symmetric] split: option.splits)
  next
    fix k v assume k: "fmlookup s k = Some v" "\<exists>c. slash_free c \<and> k = ClientConnectionsPath c"
    then obtain c where c: "k = ClientConnectionsPath c" "slash_free c" by blast
    obtain ps cst where p: "v = ClientPathsBz ps" "GetClientState s c = Some cst"
      using paths_family [OF core_wfD [OF wf k(1), unfolded c(1)] c(2)] by blast
    then have "(c, cst) \<in> set cs" using client_states_iff [OF cs(2)] by (simp add: typed_lookups)
    moreover have "GetClientConnectionPaths s c = Some ps" using k(1) by (simp add: typed_lookups c p)
    ultimately have "NewConnectionPaths c ps \<in> set paths" unfolding paths_def by (auto intro!: bexI [of _ "(c, cst)"])
    then show "(k, v) \<in> set (map put_paths paths)" by (force simp: c p put_paths_def NewConnectionPaths_def)
  qed
  note paths = this
  have two: "[x, y] = [x] @ [y]" for x y :: "string \<times> kv_value" by simp
  show ?thesis
    unfolding connection_ExportGenesis_def GetAllClientConnectionPaths_def cs conns n p and_then_simps
    by (rule exI, rule conjI, rule refl) (unfold connection_key_def connection_entries_def connection_GenesisState.simps conns paths_def [symmetric] two,
      intro restores_append restores_values restores_single typed_lookups n p paths)
qed

lemma metadata_restores:
  assumes gc: "\<And>x. x \<in> set gc \<longleftrightarrow> (\<exists>c cs. x = NewIdentifiedClientState c cs \<and> GetClientState s c = Some cs)"
  shows "\<exists>ms. GetAllClientMetadata s gc = Inr ms \<and> restores (metadata_list ms) s (is_metadata s)"
proof -
  have "\<forall>x \<in> set gc. ics_ClientState x \<noteq> None" by (auto simp: gc NewIdentifiedClientState_def)
  then obtain ms where ms: "GetAllClientMetadata s gc = Inr ms" "metadata_list ms =
      concat (map (\<lambda>x. map (\<lambda>md. (FullClientPath (ics_ClientId x) (gm_Key md), gm_Value md)) (ExportMetadata s (ics_ClientId x) (the (ics_ClientState x)))) gc)"
    using all_client_metadata by blast
  define f where "f c cs = set (map (\<lambda>md. (FullClientPath c (gm_Key md), gm_Value md)) (ExportMetadata s c cs))" for c cs
  have "set (metadata_list ms) = (\<Union>x \<in> set gc. f (ics_ClientId x) (the (ics_ClientState x)))" unfolding ms(2) f_def by auto
  then have "kv \<in> set (metadata_list ms) \<longleftrightarrow> (\<exists>x. x \<in> set gc \<and> kv \<in> f (ics_ClientId x) (the (ics_ClientState x)))" for kv by blast
  moreover have "(\<exists>x. x \<in> set gc \<and> kv \<in> f (ics_ClientId x) (the (ics_ClientState x))) \<longleftrightarrow> (\<exists>c cs. GetClientState s c = Some cs \<and> kv \<in> f c cs)" for kv
  proof
    assume "\<exists>c cs. GetClientState s c = Some cs \<and> kv \<in> f c cs"
    then obtain c cs where "GetClientState s c = Some cs" "kv \<in> f c cs" by blast
    then show "\<exists>x. x \<in> set gc \<and> kv \<in> f (ics_ClientId x) (the (ics_ClientState x))"
      by (intro exI [of _ "NewIdentifiedClientState c cs"]) (simp add: gc NewIdentifiedClientState_def)
  next
    assume "\<exists>x. x \<in> set gc \<and> kv \<in> f (ics_ClientId x) (the (ics_ClientState x))"
    then obtain c cs where "GetClientState s c = Some cs" "kv \<in> f (ics_ClientId (NewIdentifiedClientState c cs)) (the (ics_ClientState (NewIdentifiedClientState c cs)))"
      unfolding gc by blast
    then show "\<exists>c cs. GetClientState s c = Some cs \<and> kv \<in> f c cs" by (intro exI [of _ c] exI [of _ cs]) (simp add: NewIdentifiedClientState_def)
  qed
  ultimately have el: "kv \<in> set (metadata_list ms) \<longleftrightarrow> (\<exists>c cs. GetClientState s c = Some cs \<and> kv \<in> f c cs)" for kv by simp
  have other: "f c cs = {}" if "\<nexists>t. cs = TendermintClient t" for c cs using that by (cases cs) (auto simp: f_def)
  have tm: "(key, v) \<in> set (metadata_list ms) \<longleftrightarrow> (\<exists>c cs. GetClientState s c = Some (TendermintClient cs) \<and> (key, v) \<in> f c (TendermintClient cs))" for key v
    unfolding el using other by (metis emptyE)
  note tm = tm [unfolded f_def tm_metadata_iff]
  have "restores (metadata_list ms) s (is_metadata s)"
    by (rule restoresI) (unfold tm is_metadata_def, blast+)
  with ms(1) show ?thesis by blast
qed

lemma client_export:
  assumes wf: "core_wf s" and n: "GetNextClientSequence s = Inr n" and p: "GetClientParams s = Inr ps"
  shows "\<exists>gs. client_ExportGenesis s = Inr gs \<and> cgs_Params gs = ps
    \<and> (\<forall>x \<in> set (cgs_Clients gs). \<exists>c cs. x = NewIdentifiedClientState c cs \<and> GetClientState s c = Some cs)
    \<and> (\<forall>x \<in> set (consensus_list (cgs_ClientsConsensus gs)). csh_ConsensusState (snd x) \<noteq> None)
    \<and> restores (client_entries gs) s (client_key s)"
proof -
  obtain cs where cs: "IterateClientStates s [] = Inr cs"
    "map put_client cs = filter (\<lambda>(path, v). strings_Contains path KeyClientState) (prefix_values s (PrefixedClientStorePath []))"
    using all_client_states [OF wf] by blast
  define gc where "gc = IdentifiedClientStates_Sort (map (\<lambda>(clientID, c). NewIdentifiedClientState clientID c) cs)"
  have gc: "x \<in> set gc \<longleftrightarrow> (\<exists>c cs. x = NewIdentifiedClientState c cs \<and> GetClientState s c = Some cs)" for x
    unfolding gc_def typed_lookups(7) client_states_iff [OF cs(2), symmetric] by (auto simp: IdentifiedClientStates_Sort_def)
  obtain ms where ms: "GetAllClientMetadata s gc = Inr ms" "restores (metadata_list ms) s (is_metadata s)" using metadata_restores [OF gc] by blast
  obtain ccs where ccs: "GetAllConsensusStates s = Inr ccs" "\<forall>x \<in> set (consensus_list ccs). csh_ConsensusState (snd x) \<noteq> None"
    "put_consensus ` set (consensus_list ccs) = set (filter (\<lambda>(key, v). is_consensus_key key) (prefix_values s KeyClientStorePrefix))"
    using all_consensus_states [OF wf] by blast
  have clients: "restores (map (\<lambda>x. put_client (ics_ClientId x, the (ics_ClientState x))) gc) s (\<lambda>k. \<exists>c. k = FullClientPath c ClientStateKey)"
  proof (rule restoresI)
    fix k v assume "(k, v) \<in> set (map (\<lambda>x. put_client (ics_ClientId x, the (ics_ClientState x))) gc)"
    then show "fmlookup s k = Some v" by (auto simp: gc put_client_def NewIdentifiedClientState_def typed_lookups)
  next
    fix k v assume k: "fmlookup s k = Some v" "\<exists>c. k = FullClientPath c ClientStateKey"
    then obtain c where c: "k = FullClientPath c ClientStateKey" by blast
    have "strings_Contains k KeyClientState" "HasPrefix k KeyClientStorePrefix"
      using strings_Contains_append [OF strings_Contains_self [of KeyClientState], of "''clients/'' @ c @ ''/''"]
      by (simp_all add: c FullClientPath_def ClientStateKey_def)
    from client_family(1) [OF core_wfD [OF wf k(1)] this(2,1)] obtain cst where v: "v = ClientStateBz cst" by blast
    then have "NewIdentifiedClientState c cst \<in> set gc" using k(1) by (auto simp: gc typed_lookups c)
    then show "(k, v) \<in> set (map (\<lambda>x. put_client (ics_ClientId x, the (ics_ClientState x))) gc)"
      by (force simp: c v put_client_def NewIdentifiedClientState_def)
  qed
  have consensus: "restores (map put_consensus (consensus_list ccs)) s (\<lambda>k. HasPrefix k KeyClientStorePrefix \<and> is_consensus_key k)"
    unfolding restores_def set_map ccs(3) by (auto simp: prefix_values_iff)
  show ?thesis
    unfolding client_ExportGenesis_def GetAllGenesisClients_def cs and_then_simps gc_def [symmetric] ms ccs n p sum.case
    by (rule exI, intro conjI, rule refl)
      (use gc ccs(2) in simp_all, unfold client_key_def client_entries_def client_GenesisState.simps,
       intro restores_append restores_single typed_lookups n p ms clients consensus)
qed

text \<open>Every entry of a well-formed store is exported by one of the submodules.\<close>

lemma core_entry_covered:
  assumes "core_entry s k v"
  shows "channel_key k \<or> connection_key k \<or> client_key s k"
  using assms
proof cases
  case (paths_entry c ps)
  then show ?thesis unfolding connection_key_def by blast
next
  case (client_entry c cs)
  then show ?thesis unfolding client_key_def by blast
next
  case (consensus_entry c h cons)
  then have "is_consensus_key k" by (simp add: is_consensus_key_def Split_client Split_processed)
  moreover have "HasPrefix k KeyClientStorePrefix" by (simp add: consensus_entry FullClientPath_def)
  ultimately show ?thesis unfolding client_key_def by blast
next
  case (metadata_entry c cs key h)
  have "HasPrefix (ProcessedTimeKey h) KeyConsensusStatePrefix" "HasPrefix (ProcessedHeightKey h) KeyConsensusStatePrefix"
    "is_metadata_key (ProcessedTimeKey h)" "is_metadata_key (ProcessedHeightKey h)" "HasPrefix (IterationKey h) KeyIterateConsensusStatePrefix"
    by (simp_all add: is_metadata_key_def Split_processed)
      (simp_all add: ProcessedTimeKey_def ProcessedHeightKey_def ConsensusStateKey_def ConsensusStatePath_def IterationKey_def)
  with metadata_entry have "is_metadata s k" unfolding is_metadata_def by blast
  then show ?thesis unfolding client_key_def by blast
qed (simp_all add: channel_key_def connection_key_def client_key_def path_defs)

abbreviation localhost_client_key :: string where "localhost_client_key \<equiv> FullClientPath LocalhostClientID ClientStateKey"
abbreviation localhost_connection_key :: string where "localhost_connection_key \<equiv> ConnectionPath LocalhostConnectionID"

lemma put_entries_other: "key \<notin> fst ` set kvs \<Longrightarrow> fmlookup (put_entries kvs s) key = fmlookup s key"
  by (induction kvs arbitrary: s) auto

lemma localhost_keys_apart:
  "localhost_client_key \<notin> fst ` set (channel_entries gs)" "localhost_connection_key \<notin> fst ` set (channel_entries gs)"
  "localhost_client_key \<notin> fst ` set (connection_entries gs')"
proof -
  show "localhost_client_key \<notin> fst ` set (channel_entries gs)" "localhost_connection_key \<notin> fst ` set (channel_entries gs)"
    by (auto simp: channel_entries_def put_channel_def put_hash_def put_receipt_def put_sequence_def path_defs)
  have "localhost_client_key \<noteq> ClientConnectionsPath c" for c
  proof
    assume "localhost_client_key = ClientConnectionsPath c"
    then have "last localhost_client_key = last (ClientConnectionsPath c)" by simp
    then show False by (simp add: path_defs ClientStateKey_def)
  qed
  moreover have "localhost_client_key \<noteq> ConnectionPath c" "localhost_client_key \<noteq> KeyNextConnectionSequence"
    "localhost_client_key \<noteq> ConnectionParamsKey" for c by (simp_all add: path_defs)
  ultimately show "localhost_client_key \<notin> fst ` set (connection_entries gs')"
    unfolding connection_entries_def put_connection_def put_paths_def by force
qed

section \<open>Properties\<close>

text \<open>
  C16: a chain can be exported and imported without loss. From a well-formed store, whose parameters
  allow the types of its clients, the export of the core module never panics; importing it into an
  empty store succeeds and gives back every entry (channels, packets in flight, sequences,
  connections, clients with their consensus states and metadata, counters and parameters), except
  that the localhost client is at the current height and the localhost connection is created anew.
\<close>

theorem core_genesis_roundtrip:
  assumes wf: "core_wf s" and seqs: "GetNextClientSequence s = Inr n1" "GetNextConnectionSequence s = Inr n2" "GetNextChannelSequence s = Inr n3"
    and params: "GetClientParams s = Inr ps" "validateClients ps = Inr ()" "GetConnectionParams s = Inr t"
    and allowed: "\<And>c cs. GetClientState s c = Some cs \<Longrightarrow> IsAllowedClient ps (ClientType cs)" and self: "GetSelfHeight ctx = Inr h"
  shows "\<exists>gs s'. core_ExportGenesis s = Inr gs \<and> core_InitGenesis lib ctx gs fmempty = Inr s'
    \<and> (\<forall>key. key \<noteq> localhost_client_key \<and> key \<noteq> localhost_connection_key \<longrightarrow> kv_get s' key = kv_get s key)
    \<and> GetClientState s' LocalhostClientID = Some (LocalhostClient h)
    \<and> (\<exists>conn. GetConnection s' LocalhostConnectionID = Some conn \<and> conn_State conn = CONN_OPEN)"
proof -
  obtain g1 where g1: "client_ExportGenesis s = Inr g1" "cgs_Params g1 = ps"
    "\<forall>x \<in> set (cgs_Clients g1). \<exists>c cs. x = NewIdentifiedClientState c cs \<and> GetClientState s c = Some cs"
    "\<forall>x \<in> set (consensus_list (cgs_ClientsConsensus g1)). csh_ConsensusState (snd x) \<noteq> None"
    and r1: "restores (client_entries g1) s (client_key s)"
    using client_export [OF wf seqs(1) params(1)] by blast
  obtain g2 where g2: "connection_ExportGenesis s = Inr g2" and r2: "restores (connection_entries g2) s connection_key"
    using connection_export [OF wf seqs(2) params(3)] by blast
  obtain g3 where g3: "channel_ExportGenesis s = Inr g3" and r3: "restores (channel_entries g3) s channel_key"
    using channel_export [OF wf seqs(3)] by blast
  define s1 where "s1 = lh_setClientState LocalhostClientID h (put_entries (client_entries g1) fmempty)"
  define s2 where "s2 = CreateSentinelLocalhostConnection lib (put_entries (connection_entries g2) s1)"
  define s3 where "s3 = put_entries (channel_entries g3) s2"
  have "\<forall>x \<in> set (cgs_Clients g1). \<exists>c. ics_ClientState x = Some c \<and> IsAllowedClient (cgs_Params g1) (ClientType c)"
    using g1(2,3) allowed by (fastforce simp: NewIdentifiedClientState_def)
  then have init: "core_InitGenesis lib ctx \<lparr>ClientGenesis = g1, ConnectionGenesis = g2, ChannelGenesis = g3\<rparr> fmempty = Inr s3"
    using client_InitGenesis_put [of g1 ctx h fmempty] g1(2,4) params(2) self
    by (simp add: core_InitGenesis_def connection_InitGenesis_put channel_InitGenesis_put s1_def s2_def s3_def)
  have step1: "fmlookup s1 key = fmlookup (put_entries (client_entries g1) fmempty) key" if "key \<noteq> localhost_client_key" for key
    using that by (simp add: s1_def lh_setClientState_def kv_set_def)
  have step2: "fmlookup s2 key = fmlookup (put_entries (connection_entries g2) s1) key" if "key \<noteq> localhost_connection_key" for key
    using that by (simp add: s2_def CreateSentinelLocalhostConnection_def SetConnection_def kv_set_def)
  have "fmlookup s3 key = fmlookup s key" if k: "key \<noteq> localhost_client_key" "key \<noteq> localhost_connection_key" for key
  proof (cases "fmlookup s key")
    case None
    then show ?thesis
      unfolding s3_def restores_lookup(3) [OF r3 None] step2 [OF k(2)] restores_lookup(3) [OF r2 None] step1 [OF k(1)] restores_lookup(3) [OF r1 None]
      by simp
  next
    case (Some v)
    then have r3': "fmlookup s2 key = Some v \<Longrightarrow> fmlookup s3 key = Some v" using restores_lookup(2) [OF r3, of s2 key] by (simp add: s3_def)
    have r2': "fmlookup s1 key = Some v \<Longrightarrow> fmlookup s2 key = Some v"
      using restores_lookup(2) [OF r2, of s1 key] step2 [OF k(2)] Some by simp
    from core_entry_covered [OF core_wfD [OF wf Some]] consider "channel_key key" | "connection_key key" | "client_key s key" by blast
    then have "fmlookup s3 key = Some v"
    proof cases
      case 1
      then show ?thesis unfolding s3_def using restores_lookup(1) [OF r3 _ Some] by blast
    next
      case 2
      then show ?thesis using restores_lookup(1) [OF r2 _ Some] step2 [OF k(2)] r3' by simp
    next
      case 3
      then show ?thesis using restores_lookup(1) [OF r1 _ Some] step1 [OF k(1)] r2' r3' by simp
    qed
    then show ?thesis using Some by simp
  qed
  moreover have "fmlookup s3 localhost_client_key = Some (ClientStateBz (LocalhostClient h))"
    using localhost_keys_apart(1) [of g3] localhost_keys_apart(3) [of g2]
    by (simp add: s3_def put_entries_other s2_def s1_def lh_setClientState_def CreateSentinelLocalhostConnection_def SetConnection_def kv_set_def path_defs)
  moreover have "\<exists>conn. fmlookup s3 localhost_connection_key = Some (ConnectionBz conn) \<and> conn_State conn = CONN_OPEN"
    using localhost_keys_apart(2) [of g3]
    by (simp add: s3_def put_entries_other s2_def CreateSentinelLocalhostConnection_def SetConnection_def NewConnectionEnd_def kv_set_def)
  ultimately show ?thesis
    using g1(1) g2 g3 init
    by (intro exI [of _ "\<lparr>ClientGenesis = g1, ConnectionGenesis = g2, ChannelGenesis = g3\<rparr>"] exI [of _ s3])
       (auto simp: core_ExportGenesis_def kv_get_def typed_lookups GetConnection_def kv_typed_def)
qed

definition ex_genesis_channel :: Channel where
  "ex_genesis_channel = NewChannel OPEN UNORDERED (NewCounterparty ''transfer'' ''channel-3'') [''connection-0''] ''ics20-1''"

definition ex_genesis_connection :: ConnectionEnd where
  "ex_genesis_connection = NewConnectionEnd CONN_OPEN ''07-tendermint-0'' (NewConnCounterparty ''07-tendermint-5'' ''connection-8'' ''ibc'') GetCompatibleVersions 0"

definition ex_genesis_entries :: "(string \<times> kv_value) list" where
  "ex_genesis_entries =
     [(FullClientPath ''07-tendermint-0'' ClientStateKey, ClientStateBz (TendermintClient ex_tm)),
      (FullClientPath ''07-tendermint-0'' (ConsensusStateKey (NewHeight 0 1)), ConsensusStateBz ex_consensus),
      (FullClientPath ''07-tendermint-0'' (ProcessedTimeKey (NewHeight 0 1)), Uint64Bz 20),
      (ClientConnectionsPath ''07-tendermint-0'', ClientPathsBz [''connection-0'']),
      (ConnectionPath ''connection-0'', ConnectionBz ex_genesis_connection),
      (ConnectionPath LocalhostConnectionID, ConnectionBz (NewConnectionEnd CONN_OPEN LocalhostClientID
         (NewConnCounterparty LocalhostClientID LocalhostConnectionID ''ibc'') GetCompatibleVersions 0)),
      (ChannelPath ''transfer'' ''channel-0'', ChannelBz ex_genesis_channel),
      (NextSequenceSendPath ''transfer'' ''channel-0'', Uint64Bz 3),
      (PacketCommitmentPath ''transfer'' ''channel-0'' 2, BytesBz [7, 7]),
      (KeyNextClientSequence, Uint64Bz 1), (KeyNextConnectionSequence, Uint64Bz 1), (KeyNextChannelSequence, Uint64Bz 1),
      (ClientParamsKey, ClientParamsBz DefaultAllowedClients), (ConnectionParamsKey, ConnectionParamsBz DefaultTimePerBlock)]"

definition ex_genesis_store :: kvstore where
  "ex_genesis_store = put_entries ex_genesis_entries fmempty"

lemma put_entries_in: "fmlookup (put_entries kvs s) key = Some v \<Longrightarrow> (key, v) \<in> set kvs \<or> fmlookup s key = Some v"
  by (induction kvs arbitrary: s) (fastforce split: if_splits)+

lemma ex_genesis_lookups:
  "fmlookup ex_genesis_store (FullClientPath ''07-tendermint-0'' ClientStateKey) = Some (ClientStateBz (TendermintClient ex_tm))"
  "fmlookup ex_genesis_store (ChannelPath ''transfer'' ''channel-0'') = Some (ChannelBz ex_genesis_channel)"
  "fmlookup ex_genesis_store (PacketCommitmentPath ''transfer'' ''channel-0'' 2) = Some (BytesBz [7, 7])"
  "fmlookup ex_genesis_store KeyNextClientSequence = Some (Uint64Bz 1)" "fmlookup ex_genesis_store KeyNextConnectionSequence = Some (Uint64Bz 1)"
  "fmlookup ex_genesis_store KeyNextChannelSequence = Some (Uint64Bz 1)" "fmlookup ex_genesis_store ClientParamsKey = Some (ClientParamsBz DefaultAllowedClients)"
  "fmlookup ex_genesis_store ConnectionParamsKey = Some (ConnectionParamsBz DefaultTimePerBlock)"
  by (simp_all add: ex_genesis_store_def ex_genesis_entries_def path_defs ClientStateKey_def ConsensusStateKey_def ProcessedTimeKey_def)

lemma ex_genesis_client: "GetClientState ex_genesis_store ''07-tendermint-0'' = Some (TendermintClient ex_tm)"
  by (simp add: typed_lookups ex_genesis_lookups)

lemma ex_genesis_wf: "core_wf ex_genesis_store"
proof -
  have no_state: "\<not> strings_Contains (ClientConnectionsPath ''07-tendermint-0'') KeyClientState"
    "\<not> strings_Contains (FullClientPath ''07-tendermint-0'' (ConsensusStateKey (NewHeight 0 1))) KeyClientState"
    "\<not> strings_Contains (FullClientPath ''07-tendermint-0'' (ProcessedTimeKey (NewHeight 0 1))) KeyClientState" by code_simp+
  have ids: "slash_free ''transfer''" "slash_free ''channel-0''" "slash_free ''connection-0''" "slash_free ''07-tendermint-0''" "slash_free LocalhostConnectionID" by simp_all
  have "\<not> is_blank ''07-tendermint-0''" by code_simp
  note entries = channel_entry [OF ids(1,2)] send_entry [OF ids(1,2)] commitment_entry [OF ids(1,2)] connection_entry [OF ids(3)] connection_entry [OF ids(5)] client_entry [OF ids(4) this]
    paths_entry [OF ids(4) _ no_state(1)] consensus_entry [OF ids(4) no_state(2)]
    metadata_entry [OF ids(4) ex_genesis_client no_state(3) disjI1 [OF refl]] next_client next_connection next_channel client_params connection_params
  have "list_all (\<lambda>(k, v). core_entry ex_genesis_store k v) ex_genesis_entries"
    unfolding ex_genesis_entries_def list.pred_inject prod.case by (intro conjI entries TrueI) (simp_all add: ex_genesis_client)
  then show ?thesis
    unfolding core_wf_def kv_get_def ex_genesis_store_def list_all_iff using put_entries_in [of ex_genesis_entries fmempty] by fastforce
qed

lemma ex_genesis_typed:
  "GetNextClientSequence ex_genesis_store = Inr 1" "GetNextConnectionSequence ex_genesis_store = Inr 1" "GetNextChannelSequence ex_genesis_store = Inr 1"
  "GetClientParams ex_genesis_store = Inr DefaultAllowedClients" "GetConnectionParams ex_genesis_store = Inr DefaultTimePerBlock"
  by (simp_all add: GetClientParams_def GetConnectionParams_def GetNextClientSequence_def GetNextConnectionSequence_def GetNextChannelSequence_def
      kv_typed_def kv_get_def ex_genesis_lookups)

lemma core_genesis_roundtrip_witness:
  "\<forall>lib. \<exists>gs s'. core_ExportGenesis ex_genesis_store = Inr gs \<and> core_InitGenesis lib ex_ctx gs fmempty = Inr s'
     \<and> GetChannel s' ''transfer'' ''channel-0'' = Some ex_genesis_channel \<and> GetPacketCommitment s' ''transfer'' ''channel-0'' 2 = [7, 7]
     \<and> GetClientState s' ''07-tendermint-0'' = Some (TendermintClient ex_tm)"
proof
  fix lib
  let ?s = ex_genesis_store
  note lk = ex_genesis_typed
  have v: "validateClients DefaultAllowedClients = Inr ()" and self: "GetSelfHeight ex_ctx = Inr (NewHeight 0 10)" by code_simp+
  have only: "IsAllowedClient DefaultAllowedClients (ClientType cs)" for cs
    by (cases cs) (simp_all add: IsAllowedClient_def DefaultAllowedClients_def)
  obtain gs s' where g: "core_ExportGenesis ?s = Inr gs" "core_InitGenesis lib ex_ctx gs fmempty = Inr s'"
    and eq: "\<forall>key. key \<noteq> localhost_client_key \<and> key \<noteq> localhost_connection_key \<longrightarrow> kv_get s' key = kv_get ?s key"
    using core_genesis_roundtrip [OF ex_genesis_wf lk(1-4) v lk(5) only self] by blast
  have "fmlookup s' (ChannelPath ''transfer'' ''channel-0'') = Some (ChannelBz ex_genesis_channel)"
    "fmlookup s' (PacketCommitmentPath ''transfer'' ''channel-0'' 2) = Some (BytesBz [7, 7])"
    "fmlookup s' (FullClientPath ''07-tendermint-0'' ClientStateKey) = Some (ClientStateBz (TendermintClient ex_tm))"
    using eq ex_genesis_lookups(1-3) by (simp_all add: kv_get_def path_defs)
  with g show "\<exists>gs s'. core_ExportGenesis ?s = Inr gs \<and> core_InitGenesis lib ex_ctx gs fmempty = Inr s'
     \<and> GetChannel s' ''transfer'' ''channel-0'' = Some ex_genesis_channel \<and> GetPacketCommitment s' ''transfer'' ''channel-0'' 2 = [7, 7]
     \<and> GetClientState s' ''07-tendermint-0'' = Some (TendermintClient ex_tm)"
    by (auto simp: GetChannel_def GetPacketCommitment_def kv_typed_def kv_get_def typed_lookups)
qed

section \<open>Validation\<close>

lemma validate_connections_max:
  "validate_connections conns m = Inr m' \<Longrightarrow> m \<le> m' \<and> (\<forall>c \<in> set conns. \<exists>n. ParseConnectionSequence (idn_Id c) = Inr n \<and> n \<le> m')"
proof (induction conns arbitrary: m)
  case (Cons c conns)
  then obtain n where n: "ParseConnectionSequence (idn_Id c) = Inr n" "validate_connections conns (if m < n then n else m) = Inr m'" by auto
  from Cons.IH [OF n(2)] have "(if m < n then n else m) \<le> m'"
    "\<forall>c \<in> set conns. \<exists>n. ParseConnectionSequence (idn_Id c) = Inr n \<and> n \<le> m'" by auto
  then show ?case using n(1) by (auto split: if_splits)
qed simp

lemma validate_genesis_channels_max:
  "validate_genesis_channels chs m = Inr m' \<Longrightarrow> m \<le> m' \<and> (\<forall>c \<in> set chs. \<exists>n. ParseChannelSequence (idc_ChannelId c) = Inr n \<and> n \<le> m')"
proof (induction chs arbitrary: m)
  case (Cons c chs)
  then obtain n where n: "ParseChannelSequence (idc_ChannelId c) = Inr n" "validate_genesis_channels chs (if m < n then n else m) = Inr m'" by auto
  from Cons.IH [OF n(2)] have "(if m < n then n else m) \<le> m'"
    "\<forall>c \<in> set chs. \<exists>n. ParseChannelSequence (idc_ChannelId c) = Inr n \<and> n \<le> m'" by auto
  then show ?case using n(1) by (auto split: if_splits)
qed simp

lemma validate_clients_max:
  "validate_clients lib ps cls m vc = Inr (m', vc') \<Longrightarrow>
    m \<le> m' \<and> (\<forall>c \<in> set cls. \<exists>t n. ParseClientIdentifier (ics_ClientId c) = Inr (t, n) \<and> n \<le> m')"
proof (induction cls arbitrary: m vc)
  case (Cons c cls)
  then obtain t n vc1 where n: "ParseClientIdentifier (ics_ClientId c) = Inr (t, n)"
    "validate_clients lib ps cls (if m < n then n else m) vc1 = Inr (m', vc')" by (auto split: option.splits if_splits)
  from Cons.IH [OF n(2)] have "(if m < n then n else m) \<le> m'"
    "\<forall>c \<in> set cls. \<exists>t n. ParseClientIdentifier (ics_ClientId c) = Inr (t, n) \<and> n \<le> m'" by auto
  then show ?case using n(1) by (auto split: if_splits)
qed simp

text \<open>What the check of a counter leaves possible for a sequence in use.\<close>

definition below_next :: "u64 \<Rightarrow> u64 \<Rightarrow> bool" where
  "below_next n nextSequence = (n < nextSequence \<or> n = 0 \<and> nextSequence = 0)"

lemma check_next_sequence_ok:
  "check_next_sequence m next = Inr () \<Longrightarrow> n \<le> m \<Longrightarrow> below_next n next"
  by (auto simp: below_next_def check_next_sequence_def word_le_nat_alt word_less_nat_alt unat_eq_zero split: if_splits)

lemma not_below_itself: "below_next n n \<Longrightarrow> n = 0"
  by (simp add: below_next_def)

lemma validated_sequences:
  assumes "core_GenesisState_Validate vh lib gs = Inr ()"
  shows "x \<in> set (cgs_Clients (ClientGenesis gs)) \<Longrightarrow>
      \<exists>t n. ParseClientIdentifier (ics_ClientId x) = Inr (t, n) \<and> below_next n (cgs_NextClientSequence (ClientGenesis gs))"
    and "c \<in> set (ngs_Connections (ConnectionGenesis gs)) \<Longrightarrow>
      \<exists>n. ParseConnectionSequence (idn_Id c) = Inr n \<and> below_next n (ngs_NextConnectionSequence (ConnectionGenesis gs))"
    and "d \<in> set (hgs_Channels (ChannelGenesis gs)) \<Longrightarrow>
      \<exists>n. ParseChannelSequence (idc_ChannelId d) = Inr n \<and> below_next n (hgs_NextChannelSequence (ChannelGenesis gs))"
proof -
  from assms obtain m0 vc m1 m2 where m:
      "validate_clients lib (cgs_Params (ClientGenesis gs)) (cgs_Clients (ClientGenesis gs)) 0 Map.empty = Inr (m0, vc)"
      "check_next_sequence m0 (cgs_NextClientSequence (ClientGenesis gs)) = Inr ()"
      "validate_connections (ngs_Connections (ConnectionGenesis gs)) 0 = Inr m1"
      "check_next_sequence m1 (ngs_NextConnectionSequence (ConnectionGenesis gs)) = Inr ()"
      "validate_genesis_channels (hgs_Channels (ChannelGenesis gs)) 0 = Inr m2"
      "check_next_sequence m2 (hgs_NextChannelSequence (ChannelGenesis gs)) = Inr ()"
    unfolding core_GenesisState_Validate_def client_GenesisState_Validate_def connection_GenesisState_Validate_def channel_GenesisState_Validate_def by auto
  show "x \<in> set (cgs_Clients (ClientGenesis gs)) \<Longrightarrow>
      \<exists>t n. ParseClientIdentifier (ics_ClientId x) = Inr (t, n) \<and> below_next n (cgs_NextClientSequence (ClientGenesis gs))"
    using validate_clients_max [OF m(1)] check_next_sequence_ok [OF m(2)] by blast
  show "c \<in> set (ngs_Connections (ConnectionGenesis gs)) \<Longrightarrow>
      \<exists>n. ParseConnectionSequence (idn_Id c) = Inr n \<and> below_next n (ngs_NextConnectionSequence (ConnectionGenesis gs))"
    using validate_connections_max [OF m(3)] check_next_sequence_ok [OF m(4)] by blast
  show "d \<in> set (hgs_Channels (ChannelGenesis gs)) \<Longrightarrow>
      \<exists>n. ParseChannelSequence (idc_ChannelId d) = Inr n \<and> below_next n (hgs_NextChannelSequence (ChannelGenesis gs))"
    using validate_genesis_channels_max [OF m(5)] check_next_sequence_ok [OF m(6)] by blast
qed

text \<open>The three counters after an import.\<close>

lemma imported_counters:
  assumes "core_InitGenesis lib ctx gs s = Inr s'"
  shows "fmlookup s' KeyNextClientSequence = Some (Uint64Bz (cgs_NextClientSequence (ClientGenesis gs)))"
    and "fmlookup s' KeyNextConnectionSequence = Some (Uint64Bz (ngs_NextConnectionSequence (ConnectionGenesis gs)))"
    and "fmlookup s' KeyNextChannelSequence = Some (Uint64Bz (hgs_NextChannelSequence (ChannelGenesis gs)))"
proof -
  from assms obtain s1 where s1: "client_InitGenesis ctx (ClientGenesis gs) s = Inr s1"
    and s': "s' = channel_InitGenesis (ChannelGenesis gs) (connection_InitGenesis lib (ConnectionGenesis gs) s1)"
    by (auto simp: core_InitGenesis_def)
  have apart: "KeyNextClientSequence \<notin> fst ` set (channel_entries g)" "KeyNextConnectionSequence \<notin> fst ` set (channel_entries g)" for g
    by (auto simp: channel_entries_def put_channel_def put_hash_def put_receipt_def put_sequence_def path_defs)
  have apart': "KeyNextClientSequence \<notin> fst ` set (connection_entries g)" for g
    by (auto simp: connection_entries_def put_connection_def put_paths_def path_defs)
  have "fmlookup s1 KeyNextClientSequence = Some (Uint64Bz (cgs_NextClientSequence (ClientGenesis gs)))"
  proof -
    have last: "\<exists>s2. CreateLocalhostClient ctx s2' = Inr s2 \<and> x = s2" if "(case CreateLocalhostClient ctx s2' of Inl e \<Rightarrow> Inl (Panic m) | Inr s5 \<Rightarrow> Inr s5) = Inr x" for s2' m x
      using that by (cases "CreateLocalhostClient ctx s2'") auto
    from s1 obtain s4 where "CreateLocalhostClient ctx (SetNextClientSequence (cgs_NextClientSequence (ClientGenesis gs)) s4) = Inr s1"
      unfolding client_InitGenesis_def Let_def and_then_Inr by (auto dest!: last split: if_split_asm)
    then show ?thesis by (auto simp: CreateLocalhostClient_def lh_Initialize_def lh_setClientState_def SetNextClientSequence_def kv_set_def path_defs)
  qed
  then show "fmlookup s' KeyNextClientSequence = Some (Uint64Bz (cgs_NextClientSequence (ClientGenesis gs)))"
    by (simp add: s' channel_InitGenesis_put connection_InitGenesis_put put_entries_other apart apart' CreateSentinelLocalhostConnection_def
        SetConnection_def kv_set_def path_defs)
  show "fmlookup s' KeyNextConnectionSequence = Some (Uint64Bz (ngs_NextConnectionSequence (ConnectionGenesis gs)))"
    by (simp add: s' channel_InitGenesis_put put_entries_other apart connection_InitGenesis_def SetConnectionParams_def SetNextConnectionSequence_def
        CreateSentinelLocalhostConnection_def SetConnection_def kv_set_def Let_def path_defs)
  show "fmlookup s' KeyNextChannelSequence = Some (Uint64Bz (hgs_NextChannelSequence (ChannelGenesis gs)))"
    by (simp add: s' channel_InitGenesis_def SetNextChannelSequence_def kv_set_def Let_def)
qed

lemma ParseClientIdentifier_own: "ParseClientIdentifier (FormatClientIdentifier (ClientType cs) n) = Inr (ClientType cs, n)"
proof (rule ParseClientIdentifier_Format)
  have "client_type_ok Localhost" by code_simp
  then show "client_type_ok (ClientType cs)" using client_types_ok by (cases cs) simp_all
qed (rule FormatClientIdentifier_not_localhost)

text \<open>
  C36: what a validated genesis state guarantees about fresh identifiers. Every client, connection and
  channel of it has an identifier with a sequence below the counter for new ones, with one exception:
  a sequence of zero while the counter is zero. After the import, the next client, connection and
  channel get the identifiers with exactly these counters, which the genesis state does not use unless
  the counter is zero. The exception is real: the witness is an accepted state whose next connection
  gets the identifier of an imported one.
\<close>

theorem validated_genesis_fresh:
  assumes v: "core_GenesisState_Validate vh lib gs = Inr ()"
  shows "(x \<in> set (cgs_Clients (ClientGenesis gs)) \<longrightarrow>
      (\<exists>t n. ParseClientIdentifier (ics_ClientId x) = Inr (t, n) \<and> below_next n (cgs_NextClientSequence (ClientGenesis gs)))
      \<and> (ics_ClientId x = FormatClientIdentifier (ClientType cs) (cgs_NextClientSequence (ClientGenesis gs)) \<longrightarrow> cgs_NextClientSequence (ClientGenesis gs) = 0))
    \<and> (c \<in> set (ngs_Connections (ConnectionGenesis gs)) \<longrightarrow>
      (\<exists>n. ParseConnectionSequence (idn_Id c) = Inr n \<and> below_next n (ngs_NextConnectionSequence (ConnectionGenesis gs)))
      \<and> (idn_Id c = FormatConnectionIdentifier (ngs_NextConnectionSequence (ConnectionGenesis gs)) \<longrightarrow> ngs_NextConnectionSequence (ConnectionGenesis gs) = 0))
    \<and> (d \<in> set (hgs_Channels (ChannelGenesis gs)) \<longrightarrow>
      (\<exists>n. ParseChannelSequence (idc_ChannelId d) = Inr n \<and> below_next n (hgs_NextChannelSequence (ChannelGenesis gs)))
      \<and> (idc_ChannelId d = FormatChannelIdentifier (hgs_NextChannelSequence (ChannelGenesis gs)) \<longrightarrow> hgs_NextChannelSequence (ChannelGenesis gs) = 0))
    \<and> (core_InitGenesis lib ctx gs s = Inr s' \<longrightarrow>
        (\<exists>s''. GenerateClientIdentifier (ClientType cs) s' = Inr (FormatClientIdentifier (ClientType cs) (cgs_NextClientSequence (ClientGenesis gs)), s''))
        \<and> (\<exists>s''. GenerateConnectionIdentifier s' = Inr (FormatConnectionIdentifier (ngs_NextConnectionSequence (ConnectionGenesis gs)), s''))
        \<and> (\<exists>s''. GenerateChannelIdentifier s' = Inr (FormatChannelIdentifier (hgs_NextChannelSequence (ChannelGenesis gs)), s'')))"
proof (intro conjI impI)
  note seqs = validated_sequences [OF v]
  show "\<exists>t n. ParseClientIdentifier (ics_ClientId x) = Inr (t, n) \<and> below_next n (cgs_NextClientSequence (ClientGenesis gs))"
    if "x \<in> set (cgs_Clients (ClientGenesis gs))" using seqs(1) that .
  then show "cgs_NextClientSequence (ClientGenesis gs) = 0"
    if "x \<in> set (cgs_Clients (ClientGenesis gs))" "ics_ClientId x = FormatClientIdentifier (ClientType cs) (cgs_NextClientSequence (ClientGenesis gs))"
    using that by (auto simp: ParseClientIdentifier_own intro: not_below_itself)
  show "\<exists>n. ParseConnectionSequence (idn_Id c) = Inr n \<and> below_next n (ngs_NextConnectionSequence (ConnectionGenesis gs))"
    if "c \<in> set (ngs_Connections (ConnectionGenesis gs))" using seqs(2) that .
  then show "ngs_NextConnectionSequence (ConnectionGenesis gs) = 0"
    if "c \<in> set (ngs_Connections (ConnectionGenesis gs))" "idn_Id c = FormatConnectionIdentifier (ngs_NextConnectionSequence (ConnectionGenesis gs))"
    using that by (auto intro: not_below_itself)
  show "\<exists>n. ParseChannelSequence (idc_ChannelId d) = Inr n \<and> below_next n (hgs_NextChannelSequence (ChannelGenesis gs))"
    if "d \<in> set (hgs_Channels (ChannelGenesis gs))" using seqs(3) that .
  then show "hgs_NextChannelSequence (ChannelGenesis gs) = 0"
    if "d \<in> set (hgs_Channels (ChannelGenesis gs))" "idc_ChannelId d = FormatChannelIdentifier (hgs_NextChannelSequence (ChannelGenesis gs))"
    using that by (auto intro: not_below_itself)
next
  assume "core_InitGenesis lib ctx gs s = Inr s'"
  note counters = imported_counters [OF this]
  show "\<exists>s''. GenerateClientIdentifier (ClientType cs) s' = Inr (FormatClientIdentifier (ClientType cs) (cgs_NextClientSequence (ClientGenesis gs)), s'')"
    by (simp add: GenerateClientIdentifier_def GetNextClientSequence_def kv_typed_def kv_get_def counters)
  show "\<exists>s''. GenerateConnectionIdentifier s' = Inr (FormatConnectionIdentifier (ngs_NextConnectionSequence (ConnectionGenesis gs)), s'')"
    by (simp add: GenerateConnectionIdentifier_def GetNextConnectionSequence_def kv_typed_def kv_get_def counters)
  show "\<exists>s''. GenerateChannelIdentifier s' = Inr (FormatChannelIdentifier (hgs_NextChannelSequence (ChannelGenesis gs)), s'')"
    by (simp add: GenerateChannelIdentifier_def GetNextChannelSequence_def kv_typed_def kv_get_def counters)
qed

definition ex_zero_genesis :: core_GenesisState where
  "ex_zero_genesis = core_DefaultGenesisState\<lparr>ConnectionGenesis :=
     connection_NewGenesisState [NewIdentifiedConnection ''connection-0'' ex_genesis_connection] [] 0 DefaultTimePerBlock\<rparr>"

lemma validated_genesis_fresh_witness:
  "\<forall>vh lib. core_GenesisState_Validate vh lib ex_zero_genesis = Inr ()
     \<and> (\<exists>s' s''. core_InitGenesis lib ex_ctx ex_zero_genesis fmempty = Inr s' \<and> GetConnection s' ''connection-0'' = Some ex_genesis_connection
          \<and> GenerateConnectionIdentifier s' = Inr (''connection-0'', s''))"
proof (intro allI conjI)
  fix vh lib
  show v: "core_GenesisState_Validate vh lib ex_zero_genesis = Inr ()" by code_simp
  let ?c = "ConnectionGenesis ex_zero_genesis" and ?h = "ChannelGenesis ex_zero_genesis"
  have "GetSelfHeight ex_ctx = Inr (NewHeight 0 10)" "validateClients DefaultAllowedClients = Inr ()" by code_simp+
  then have "\<exists>s1. client_InitGenesis ex_ctx (ClientGenesis ex_zero_genesis) fmempty = Inr s1"
    using client_InitGenesis_put [of client_DefaultGenesisState ex_ctx "NewHeight 0 10"]
    by (simp add: ex_zero_genesis_def core_DefaultGenesisState_def client_DefaultGenesisState_def consensus_list_def)
  then obtain s1 where "client_InitGenesis ex_ctx (ClientGenesis ex_zero_genesis) fmempty = Inr s1" by blast
  then have i: "core_InitGenesis lib ex_ctx ex_zero_genesis fmempty = Inr (channel_InitGenesis ?h (connection_InitGenesis lib ?c s1))"
    by (simp add: core_InitGenesis_def)
  have "GetConnection (channel_InitGenesis ?h (connection_InitGenesis lib ?c s1)) ''connection-0'' = Some ex_genesis_connection"
    by (simp add: ex_zero_genesis_def core_DefaultGenesisState_def channel_DefaultGenesisState_def connection_NewGenesisState_def channel_InitGenesis_def
        connection_InitGenesis_def GetConnection_def kv_typed_def kv_get_def kv_set_def SetNextChannelSequence_def CreateSentinelLocalhostConnection_def
        SetConnection_def SetConnectionParams_def SetNextConnectionSequence_def NewIdentifiedConnection_def NewConnectionEnd_def ConnectionPath_def)
  moreover have "ngs_NextConnectionSequence ?c = 0" by (simp add: ex_zero_genesis_def connection_NewGenesisState_def)
  moreover have "FormatConnectionIdentifier 0 = ''connection-0''" by code_simp
  ultimately show "\<exists>s' s''. core_InitGenesis lib ex_ctx ex_zero_genesis fmempty = Inr s' \<and> GetConnection s' ''connection-0'' = Some ex_genesis_connection
          \<and> GenerateConnectionIdentifier s' = Inr (''connection-0'', s'')"
    using validated_genesis_fresh [OF v] i by metis
qed

lemma collect_in: "collect f xs = Inr ys \<Longrightarrow> x \<in> set xs \<Longrightarrow> \<exists>y \<in> set ys. f x = Inr y"
  by (induction xs arbitrary: ys) auto

text \<open>
  C40: the export of a running chain does not pass validation. Every import creates the localhost
  connection, and whenever the store has it the export lists it; its identifier
  \<open>connection-localhost\<close> is not of the form that the validation of connections demands.
\<close>

theorem exported_genesis_rejected:
  shows "(core_InitGenesis lib ctx gs s = Inr s' \<longrightarrow> HasConnection s' LocalhostConnectionID)
    \<and> (HasConnection s LocalhostConnectionID \<and> core_ExportGenesis s = Inr gs' \<longrightarrow> (\<exists>e. core_GenesisState_Validate vh lib gs' = Inl e))"
proof (intro conjI impI)
  assume "core_InitGenesis lib ctx gs s = Inr s'"
  then obtain s1 where s': "s' = channel_InitGenesis (ChannelGenesis gs) (connection_InitGenesis lib (ConnectionGenesis gs) s1)"
    by (auto simp: core_InitGenesis_def)
  show "HasConnection s' LocalhostConnectionID"
    using localhost_keys_apart(2) [of "ChannelGenesis gs"]
    by (simp add: s' HasConnection_def kv_has_def kv_get_def channel_InitGenesis_put put_entries_other connection_InitGenesis_put
        CreateSentinelLocalhostConnection_def SetConnection_def kv_set_def)
next
  assume a: "HasConnection s LocalhostConnectionID \<and> core_ExportGenesis s = Inr gs'"
  then obtain v where v: "fmlookup s localhost_connection_key = Some v" by (auto simp: HasConnection_def kv_has_def kv_get_def)
  from a have conns: "GetAllConnections s = Inr (ngs_Connections (ConnectionGenesis gs'))"
    by (auto simp: core_ExportGenesis_def connection_ExportGenesis_def)
  have "(localhost_connection_key, v) \<in> set (prefix_values s KeyConnectionPrefix)" using v by (simp add: prefix_values_iff ConnectionPath_def)
  from collect_in [OF conns [unfolded GetAllConnections_def IterateConnections_def] this] obtain c
    where c: "c \<in> set (ngs_Connections (ConnectionGenesis gs'))" and i: "MustParseConnectionPath localhost_connection_key = Inr (idn_Id c)"
    by (auto simp: NewIdentifiedConnection_def split: option.splits)
  have "MustParseConnectionPath localhost_connection_key = Inr LocalhostConnectionID" by code_simp
  with i have "idn_Id c = LocalhostConnectionID" by simp
  moreover have "\<not> is_ok (ParseConnectionSequence LocalhostConnectionID)" by code_simp
  ultimately have "validate_connections (ngs_Connections (ConnectionGenesis gs')) 0 \<noteq> Inr m" for m
    using validate_connections_max [of _ 0 m] c by (metis is_ok_simps(1))
  then have "core_GenesisState_Validate vh lib gs' \<noteq> Inr ()" by (auto simp: core_GenesisState_Validate_def connection_GenesisState_Validate_def)
  then show "\<exists>e. core_GenesisState_Validate vh lib gs' = Inl e" by (cases "core_GenesisState_Validate vh lib gs'") auto
qed

lemma exported_genesis_rejected_witness:
  "\<forall>vh lib. \<exists>gs e. core_ExportGenesis ex_genesis_store = Inr gs \<and> core_GenesisState_Validate vh lib gs = Inl e"
proof (intro allI)
  fix vh lib
  have "HasConnection ex_genesis_store LocalhostConnectionID"
    by (simp add: HasConnection_def kv_has_def kv_get_def ex_genesis_store_def ex_genesis_entries_def path_defs)
  moreover obtain gs where "core_ExportGenesis ex_genesis_store = Inr gs"
    using client_export [OF ex_genesis_wf ex_genesis_typed(1,4)] connection_export [OF ex_genesis_wf ex_genesis_typed(2,5)]
      channel_export [OF ex_genesis_wf ex_genesis_typed(3)] by (auto simp: core_ExportGenesis_def)
  ultimately show "\<exists>gs e. core_ExportGenesis ex_genesis_store = Inr gs \<and> core_GenesisState_Validate vh lib gs = Inl e"
    using exported_genesis_rejected [of lib] by blast
qed

end
