(* ===== verification/Listings.thy ===== *)
theory Listings
  imports App_Queries Core_Genesis_Props "HOL-Library.Multiset"
begin

text \<open>
  The paginated listings of the queries against the iterators of the keepers, which also feed the
  exported genesis: whatever the page sizes, the pages put together are the keeper's list.
\<close>

section \<open>Entries under relative keys\<close>

lemma collect_agrees:
  assumes "\<And>x y. x \<in> set kvs \<Longrightarrow> g x = Inr y \<Longrightarrow> f x = Inr y"
  shows "collect g kvs = Inr ys \<Longrightarrow> collect f kvs = Inr ys"
  using assms by (induction kvs arbitrary: ys) auto

lemma collect_relative:
  assumes "collect g (prefix_values s pre) = Inr ys"
    and "\<And>k v y. (k, v) \<in> set (prefix_values s pre) \<Longrightarrow> g (k, v) = Inr y \<Longrightarrow> f (drop (length pre) k, v) = Inr y"
  shows "collect f (prefix_store s pre) = Inr ys"
  unfolding prefix_store_def collect_via
  using collect_agrees [of "prefix_values s pre" g "\<lambda>x. f (case x of (k, v) \<Rightarrow> (drop (length pre) k, v))"] assms by auto

lemma collect_post: "and_then (collect f kvs) (\<lambda>xs. Inr (map h xs)) = collect (\<lambda>x. and_then (f x) (\<lambda>y. Inr (h y))) kvs"
  by (induction kvs) (auto simp: and_then_def split: sum.splits)

lemma Parse_relative:
  "slash_free pre \<Longrightarrow> ParseChannelPath (CHR ''/'' # r) = ParseChannelPath (pre @ CHR ''/'' # r)"
  "slash_free pre \<Longrightarrow> ParseConnectionPath (CHR ''/'' # r) = ParseConnectionPath (pre @ CHR ''/'' # r)"
  by (simp_all add: ParseChannelPath_def ParseConnectionPath_def Split_seg Let_def)

lemma channels_relative:
  assumes wf: "core_wf s" and xs: "GetAllChannels s = Inr xs"
  shows "collect (\<lambda>kv. case asChannel (snd kv) of None \<Rightarrow> Inl (ErrForeign ''proto'') | Some c \<Rightarrow> channel_entry_of kv c)
    (prefix_store s KeyChannelEndPrefix) = Inr xs"
proof (rule collect_relative [OF xs [unfolded GetAllChannels_def IterateChannels_def]])
  fix k v y assume "(k, v) \<in> set (prefix_values s KeyChannelEndPrefix)"
    and y: "(case (k, v) of (key, v) \<Rightarrow> case asChannel v of None \<Rightarrow> Inl (Panic ''cannot unmarshal channel'')
      | Some channel \<Rightarrow> and_then (MustParseChannelPath key) (\<lambda>(portID, channelID). Inr (NewIdentifiedChannel portID channelID channel))) = Inr y"
  then obtain p c ch where k: "k = KeyChannelEndPrefix @ CHR ''/'' # channelPath p c" "v = ChannelBz ch"
    using wf_values [OF wf] family_of_prefix(1) by (fastforce simp: ChannelPath_def)
  have "ParseChannelPath (CHR ''/'' # channelPath p c) = ParseChannelPath k"
    unfolding k(1) by (rule Parse_relative) simp
  with y k show "(case asChannel (snd (drop (length KeyChannelEndPrefix) k, v)) of None \<Rightarrow> Inl (ErrForeign ''proto'')
      | Some c \<Rightarrow> channel_entry_of (drop (length KeyChannelEndPrefix) k, v) c) = Inr y"
    by (auto simp: channel_entry_of_def MustParseChannelPath_def split: sum.splits)
qed

lemma connections_relative:
  assumes wf: "core_wf s" and xs: "GetAllConnections s = Inr xs"
  shows "collect (\<lambda>kv. case asConnection (snd kv) of None \<Rightarrow> Inl (ErrForeign ''proto'')
      | Some c \<Rightarrow> and_then (ParseConnectionPath (fst kv)) (\<lambda>connectionID. Inr (NewIdentifiedConnection connectionID c)))
    (prefix_store s KeyConnectionPrefix) = Inr xs"
proof (rule collect_relative [OF xs [unfolded GetAllConnections_def IterateConnections_def]])
  fix k v y assume "(k, v) \<in> set (prefix_values s KeyConnectionPrefix)"
    and y: "(case (k, v) of (key, v) \<Rightarrow> case asConnection v of None \<Rightarrow> Inl (Panic ''cannot unmarshal connection'')
      | Some connection \<Rightarrow> and_then (MustParseConnectionPath key) (\<lambda>connectionID. Inr (NewIdentifiedConnection connectionID connection))) = Inr y"
  then obtain c conn where k: "k = KeyConnectionPrefix @ CHR ''/'' # c" "v = ConnectionBz conn"
    using wf_values [OF wf] family_of_prefix(8) by (fastforce simp: ConnectionPath_def)
  have "ParseConnectionPath (CHR ''/'' # c) = ParseConnectionPath k"
    unfolding k(1) by (rule Parse_relative) simp
  with y k show "(case asConnection (snd (drop (length KeyConnectionPrefix) k, v)) of None \<Rightarrow> Inl (ErrForeign ''proto'')
      | Some c \<Rightarrow> and_then (ParseConnectionPath (fst (drop (length KeyConnectionPrefix) k, v))) (\<lambda>connectionID. Inr (NewIdentifiedConnection connectionID c))) = Inr y"
    by (auto simp: MustParseConnectionPath_def split: sum.splits)
qed

lemma fees_relative:
  "collect identified_fees (prefix_values s pre) = Inr xs \<Longrightarrow> collect (fees_entry pre) (prefix_store s pre) = Inr xs"
  by (erule collect_relative)
    (auto simp: prefix_values_iff HasPrefix_iff fees_entry_def identified_fees_def split: sum.splits)

lemma fee_channels_relative:
  assumes "GetAllFeeEnabledChannels st = Inr xs"
  shows "collect (\<lambda>kv. and_then (ParseKeyFeeEnabled (FeeEnabledKeyPrefix @ fst kv)) (\<lambda>(portID, channelID).
      Inr \<lparr>fec_PortId = portID, fec_ChannelId = channelID\<rparr>)) (prefix_store (fe_store st) FeeEnabledKeyPrefix) = Inr xs"
  by (rule collect_relative [OF assms [unfolded GetAllFeeEnabledChannels_def fe_values_def]])
    (auto simp: prefix_values_iff HasPrefix_iff split: sum.splits)

lemma commitment_relative:
  assumes wf: "core_wf s" and p: "slash_free p" and c: "slash_free c"
    and kv: "(k, v) \<in> set (prefix_values s (PacketCommitmentPrefixPath p c))"
  shows "\<exists>n. k = PacketCommitmentPath p c n \<and> drop (length (PacketCommitmentPrefixPath p c)) k = CHR ''/'' # dec n"
proof -
  from wf_values [OF wf kv] obtain r where e: "core_entry s k v" and k: "k = PacketCommitmentPrefixPath p c @ r"
    by (auto simp: HasPrefix_iff)
  from k have "HasPrefix k KeyPacketCommitmentPrefix" by (simp add: PacketCommitmentPrefixPath_def)
  from family_of_prefix(5) [OF e this] obtain p' c' n where f: "slash_free p'" "slash_free c'" "k = PacketCommitmentPath p' c' n" by blast
  then have "p = p' \<and> c = c' \<and> r = CHR ''/'' # dec n"
    using k p c by (simp add: PacketCommitmentPath_def PacketCommitmentPrefixPath_def channelPath_def slash_append_inj)
  with k f show ?thesis by auto
qed

lemma commitments_relative:
  assumes wf: "core_wf s" and p: "slash_free p" and c: "slash_free c" and xs: "GetAllPacketCommitmentsAtChannel s p c = Inr xs"
  shows "collect (packet_state_of p c) (prefix_store s (PacketCommitmentPrefixPath p c)) = Inr xs"
proof (rule collect_relative [OF xs [unfolded GetAllPacketCommitmentsAtChannel_def iterateHashes_def collect_post]])
  fix k v y assume kv: "(k, v) \<in> set (prefix_values s (PacketCommitmentPrefixPath p c))"
    and y: "and_then (case (k, v) of (key, v) \<Rightarrow> let keySplit = Split key ''/'' in
       if length keySplit \<le> 4 then Inl (Panic ''index out of range'')
       else case ParseUint (last keySplit) of
         None \<Rightarrow> Inl (Panic ''strconv.ParseUint'')
       | Some sequence \<Rightarrow>
           (case asBytes v of None \<Rightarrow> Inl (Panic ''not a hash'')
            | Some bz \<Rightarrow> Inr (NewPacketState (keySplit ! 2) (keySplit ! 4) sequence bz)))
      (\<lambda>x. Inr (NewPacketState p c (pst_Sequence x) (pst_Data x))) = Inr y"
  from commitment_relative [OF wf p c kv] obtain n where n: "k = PacketCommitmentPath p c n"
    "drop (length (PacketCommitmentPrefixPath p c)) k = CHR ''/'' # dec n" by blast
  have sp: "Split k ''/'' = [''commitments'', ''ports'', p, ''channels'', c, ''sequences'', dec n]" using p c by (simp add: n(1) path_splits)
  show "packet_state_of p c (drop (length (PacketCommitmentPrefixPath p c)) k, v) = Inr y"
    using y by (auto simp: packet_state_of_def Let_def n(2) sp Split_slash_free NewPacketState_def split: option.splits)
qed

lemma collect_decoded:
  "list_all (\<lambda>(k, v). \<exists>x. v = DenomTraceBz x) kvs \<Longrightarrow>
    collect (\<lambda>kv. case snd kv of DenomTraceBz t \<Rightarrow> Inr t | _ \<Rightarrow> Inl (ErrForeign ''proto'')) (map (\<lambda>(k, v). (g k, v)) kvs) =
      Inr (List.map_filter (\<lambda>(k, v). case v of DenomTraceBz t \<Rightarrow> Some t | _ \<Rightarrow> None) kvs)"
  by (induction kvs) (auto simp: map_filter_simps)

lemma sorted_pages:
  "query_pages run qs = Inr xs \<Longrightarrow> \<exists>ys. query_pages (\<lambda>q. and_then (run q) (\<lambda>(x, res). Inr (Traces_Sort x, res))) qs = Inr ys \<and> mset ys = mset xs"
proof (induction qs arbitrary: xs)
  case (Cons q qs)
  from Cons.prems obtain x res zs where r: "run q = Inr (x, res)" "query_pages run qs = Inr zs" "xs = x @ zs"
    by (auto simp: query_pages_def split: prod.splits)
  from Cons.IH [OF r(2)] obtain ys where y: "query_pages (\<lambda>q. and_then (run q) (\<lambda>(x, res). Inr (Traces_Sort x, res))) qs = Inr ys"
    "mset ys = mset zs" by blast
  have "mset (Traces_Sort x) = mset x" by (simp add: Traces_Sort_def)
  with r y show ?case by (intro exI [of _ "Traces_Sort x @ ys"]) (auto simp: query_pages_def)
qed (simp add: query_pages_def)

section \<open>The listings are complete\<close>

text \<open>A response without the height it is stamped with.\<close>

definition without_height :: "('r \<times> Height) result \<Rightarrow> 'r result" where
  "without_height r = and_then r (\<lambda>(x, h). Inr x)"

lemma without_height_stamped [simp]: "GetSelfHeight ctx = Inr h \<Longrightarrow> without_height (and_then r (at_self_height ctx)) = r"
  by (cases r) (simp_all add: without_height_def at_self_height_def)

lemma page_status_pages: "query_pages run qs = Inr xs \<Longrightarrow> query_pages (\<lambda>q. page_status (run q)) qs = Inr xs"
proof -
  assume "query_pages run qs = Inr xs"
  then obtain rs where rs: "collect run qs = Inr rs" "xs = concat (map fst rs)" by (auto simp: query_pages_def)
  from collect_agrees [OF _ rs(1), of "\<lambda>q. page_status (run q)"] rs(2) show ?thesis by (simp add: query_pages_def)
qed

lemmas query_defs = q_Channels_def q_Connections_def q_PacketCommitments_def q_IncentivizedPackets_def
  q_IncentivizedPacketsForChannel_def q_FeeEnabledChannels_def q_DenomTraces_def nonnil_def Let_def

text \<open>
  C37: whatever pages a client asks for, as long as they cover the store, the channels, connections,
  packet commitments, incentivized packets, fee enabled channels and denomination traces it is shown are
  those, in that order, that the keepers enumerate for the exported genesis; the traces are sorted within
  each page only.
\<close>

theorem listings_complete:
  assumes h: "GetSelfHeight ctx = Inr h" and wf: "core_wf s" and ids: "validategRPCRequest p c = Inr ()"
    and traces: "list_all (\<lambda>(k, v). \<exists>x. v = DenomTraceBz x) (tr_values t DenomTraceKey)"
  shows "(GetAllChannels s = Inr chs \<and> covers pg qs (prefix_store s KeyChannelEndPrefix) \<longrightarrow>
      query_pages (\<lambda>q. without_height (q_Channels pg s ctx (Some q))) qs = Inr chs)
    \<and> (GetAllConnections s = Inr conns \<and> covers pg qs (prefix_store s KeyConnectionPrefix) \<longrightarrow>
      query_pages (\<lambda>q. without_height (q_Connections pg s ctx (Some q))) qs = Inr conns)
    \<and> (GetAllPacketCommitmentsAtChannel s p c = Inr cms \<and> covers pg qs (prefix_store s (PacketCommitmentPrefixPath p c)) \<longrightarrow>
      query_pages (\<lambda>q. without_height (q_PacketCommitments pg s ctx (Some (p, c, q)))) qs = Inr cms)
    \<and> (GetAllIdentifiedPacketFees st = Inr fees \<and> covers fpg qs (prefix_store (fe_store st) FeesInEscrowPrefix) \<longrightarrow>
      query_pages (\<lambda>q. q_IncentivizedPackets fpg st (Some q)) qs = Inr fees)
    \<and> (GetIdentifiedPacketFeesForChannel st p c = Inr fees' \<and> covers fpg qs (prefix_store (fe_store st) (KeyFeesInEscrowChannelPrefix p c)) \<longrightarrow>
      query_pages (\<lambda>q. q_IncentivizedPacketsForChannel fpg st (Some (p, c, q))) qs = Inr fees')
    \<and> (GetAllFeeEnabledChannels st = Inr fecs \<and> covers fpg qs (prefix_store (fe_store st) FeeEnabledKeyPrefix) \<longrightarrow>
      query_pages (\<lambda>q. q_FeeEnabledChannels fpg st (Some q)) qs = Inr fecs)
    \<and> (covers tpg qs (map (\<lambda>(k, v). (drop (length DenomTraceKey) k, v)) (tr_values t DenomTraceKey)) \<longrightarrow>
      (\<exists>ts. query_pages (\<lambda>q. q_DenomTraces tpg t (Some q)) qs = Inr ts \<and> mset ts = mset (GetAllDenomTraces t)))"
proof (intro conjI impI; (elim conjE)?)
  assume "GetAllChannels s = Inr chs" and "covers pg qs (prefix_store s KeyChannelEndPrefix)"
  then show "query_pages (\<lambda>q. without_height (q_Channels pg s ctx (Some q))) qs = Inr chs"
    using channels_relative [OF wf] by (simp add: query_defs h query_pages_covered)
next
  assume "GetAllConnections s = Inr conns" and "covers pg qs (prefix_store s KeyConnectionPrefix)"
  then show "query_pages (\<lambda>q. without_height (q_Connections pg s ctx (Some q))) qs = Inr conns"
    using connections_relative [OF wf] by (simp add: query_defs h query_pages_covered)
next
  assume "GetAllPacketCommitmentsAtChannel s p c = Inr cms" and "covers pg qs (prefix_store s (PacketCommitmentPrefixPath p c))"
  moreover have "slash_free p" "slash_free c" using ids by (auto simp: validategRPCRequest_def check_id_def ok_slash_free split: sum.splits)
  ultimately show "query_pages (\<lambda>q. without_height (q_PacketCommitments pg s ctx (Some (p, c, q)))) qs = Inr cms"
    using commitments_relative [OF wf] ids by (simp add: query_defs h query_pages_covered)
next
  assume "GetAllIdentifiedPacketFees st = Inr fees" and "covers fpg qs (prefix_store (fe_store st) FeesInEscrowPrefix)"
  then show "query_pages (\<lambda>q. q_IncentivizedPackets fpg st (Some q)) qs = Inr fees"
    by (auto simp: query_defs GetAllIdentifiedPacketFees_def fe_values_def intro!: page_status_pages query_pages_covered fees_relative)
next
  assume "GetIdentifiedPacketFeesForChannel st p c = Inr fees'" and "covers fpg qs (prefix_store (fe_store st) (KeyFeesInEscrowChannelPrefix p c))"
  then show "query_pages (\<lambda>q. q_IncentivizedPacketsForChannel fpg st (Some (p, c, q))) qs = Inr fees'"
    by (auto simp: query_defs GetIdentifiedPacketFeesForChannel_def fe_values_def intro!: page_status_pages query_pages_covered fees_relative)
next
  assume all: "GetAllFeeEnabledChannels st = Inr fecs" and cov: "covers fpg qs (prefix_store (fe_store st) FeeEnabledKeyPrefix)"
  from page_status_pages [OF query_pages_covered [OF cov fee_channels_relative [OF all]]]
  show "query_pages (\<lambda>q. q_FeeEnabledChannels fpg st (Some q)) qs = Inr fecs" by (simp add: query_defs)
next
  assume "covers tpg qs (map (\<lambda>(k, v). (drop (length DenomTraceKey) k, v)) (tr_values t DenomTraceKey))"
  from sorted_pages [OF query_pages_covered [OF this collect_decoded [OF traces]]]
  show "\<exists>ts. query_pages (\<lambda>q. q_DenomTraces tpg t (Some q)) qs = Inr ts \<and> mset ts = mset (GetAllDenomTraces t)"
    by (auto simp: query_defs GetAllDenomTraces_def Traces_Sort_def IterateDenomTraces_def)
qed

text \<open>A pager by offset and limit; no limit is the rest of the store.\<close>

definition ex_pager :: "('k, 'v, nat \<times> nat option, unit) pager" where
  "ex_pager = \<lparr>Paginate = \<lambda>(offset, limit) kvs. Inr (case limit of None \<Rightarrow> drop offset kvs | Some n \<Rightarrow> take n (drop offset kvs), ()),
     FilteredPaginate = \<lambda>q f kvs. Inr ([], ())\<rparr>"

lemma ex_pager_covers: "covers ex_pager [(0, Some 1), (1, None)] kvs"
  by (simp add: covers_def ex_pager_def)

lemma listings_complete_witness:
  "\<exists>chs. GetAllChannels ex_genesis_store = Inr chs
    \<and> query_pages (\<lambda>q. without_height (q_Channels ex_pager ex_genesis_store ex_ctx (Some q))) [(0, Some 1), (1, None)] = Inr chs"
proof -
  have v: "validategRPCRequest ''transfer'' ''channel-0'' = Inr ()" "GetSelfHeight ex_ctx = Inr (NewHeight 0 10)" by code_simp+
  have t: "list_all (\<lambda>(k, v). \<exists>x. v = DenomTraceBz x) (tr_values (\<lparr>tr_store = fmempty, tr_bank = ()\<rparr>) DenomTraceKey)"
    by (simp add: tr_values_def sorted_list_of_fset.rep_eq)
  from all_channels [OF ex_genesis_wf] obtain chs where chs: "GetAllChannels ex_genesis_store = Inr chs" by blast
  from listings_complete [OF v(2) ex_genesis_wf v(1) t, THEN conjunct1, THEN mp, OF conjI [OF chs ex_pager_covers]] chs
  show ?thesis by (intro exI conjI)
qed

end
