(* ===== verification/Query_Props.thy ===== *)
theory Query_Props
  imports Core_Queries Loopback
begin

text \<open>
  What a relayer learns from the packet queries of \<open>04-channel/keeper/grpc_query.go\<close> against what the
  keeper does with the packets of \<open>packet.go\<close> and \<open>timeout.go\<close>: a sequence is unreceived exactly as long as
  receiving it is not a no-op, and unacknowledged exactly from sending to settling.
\<close>

section \<open>The queries on valid requests\<close>

lemma q_UnreceivedPackets_valid:
  assumes "validategRPCRequest p c = Inr ()" and "GetSelfHeight ctx = Inr h" and "GetChannel s p c = Some ch" and "0 \<notin> set ns"
  shows "ch_Ordering ch = UNORDERED \<Longrightarrow> q_UnreceivedPackets s ctx (Some (p, c, ns)) = Inr (filter (\<lambda>n. GetPacketReceipt s p c n = None) ns, h)"
    and "ch_Ordering ch = ORDERED \<Longrightarrow> GetNextSequenceRecv s p c = Some m \<Longrightarrow> q_UnreceivedPackets s ctx (Some (p, c, ns)) = Inr (filter (\<lambda>n. m \<le> n) ns, h)"
  using assms by (simp_all add: q_UnreceivedPackets_def nonnil_def lookup_or_def unreceived_def at_self_height_def)

lemma q_UnreceivedAcks_valid:
  assumes "validategRPCRequest p c = Inr ()" and "GetSelfHeight ctx = Inr h" and "0 \<notin> set ns"
  shows "q_UnreceivedAcks s ctx (Some (p, c, ns)) = Inr (filter (\<lambda>n. GetPacketCommitment s p c n \<noteq> []) ns, h)"
  using assms by (simp add: q_UnreceivedAcks_def nonnil_def unreceived_def at_self_height_def)

lemma q_NextSequenceSend_valid:
  assumes "validategRPCRequest p c = Inr ()" and "GetSelfHeight ctx = Inr h" and "GetChannel s p c = Some ch" and "GetNextSequenceSend s p c = Some n"
  shows "q_NextSequenceSend s ctx (Some (p, c)) = Inr (if ch_Ordering ch = UNORDERED then 0 else n, h)"
  using assms by (simp add: q_NextSequenceSend_def nonnil_def lookup_or_def at_self_height_def)

text \<open>Receiving a sequence is a no-op exactly when the query does not report it.\<close>

lemma recv_update_noop:
  assumes "DestinationPort pkt = p" and "DestinationChannel pkt = c"
  shows "recv_update UNORDERED (pkt\<lparr>Sequence := n\<rparr>) s = Inl channel_ErrNoOpMsg \<longleftrightarrow> GetPacketReceipt s p c n \<noteq> None"
    and "GetNextSequenceRecv s p c = Some m \<Longrightarrow> recv_update ORDERED (pkt\<lparr>Sequence := n\<rparr>) s = Inl channel_ErrNoOpMsg \<longleftrightarrow> n < m"
  using assms by (simp_all add: recv_update_def)

lemma recv_written_reads:
  assumes "recv_written ord pkt s0 s t" and "core_eq s0 s"
  shows "ord = UNORDERED \<Longrightarrow> GetPacketReceipt s0 (DestinationPort pkt) (DestinationChannel pkt) (Sequence pkt) = None
      \<and> GetPacketReceipt t (DestinationPort pkt) (DestinationChannel pkt) (Sequence pkt) \<noteq> None"
    and "ord = ORDERED \<Longrightarrow> GetNextSequenceRecv s0 (DestinationPort pkt) (DestinationChannel pkt) = Some (Sequence pkt)
      \<and> GetNextSequenceRecv t (DestinationPort pkt) (DestinationChannel pkt) = Some (Sequence pkt + 1)"
    and "GetChannel t p c = GetChannel s0 p c"
  using assms core_eq_reads [OF assms(2)]
  by (auto simp: recv_written_def view_rules split: Order.splits)

lemma unreceived_packets_noop:
  assumes ids: "validategRPCRequest p c = Inr ()" and h: "GetSelfHeight ctx = Inr h"
    and ch: "GetChannel (core st) p c = Some ch" and ord: "ch_Ordering ch \<noteq> ORDER_NONE"
    and n: "0 \<notin> set ns" and d: "DestinationPort pkt = p" "DestinationChannel pkt = c"
    and m: "ch_Ordering ch = ORDERED \<longrightarrow> GetNextSequenceRecv (core st) p c \<noteq> None"
  shows "q_UnreceivedPackets (core st) ctx (Some (p, c, ns)) =
        Inr (filter (\<lambda>n. recv_update (ch_Ordering ch) (pkt\<lparr>Sequence := n\<rparr>) (core st) \<noteq> Inl channel_ErrNoOpMsg) ns, h)"
proof (cases "ch_Ordering ch")
  case UNORDERED
  then show ?thesis using q_UnreceivedPackets_valid(1) [OF ids h ch n] by (simp add: recv_update_noop(1) [OF d])
next
  case ORDERED
  with m obtain m where "GetNextSequenceRecv (core st) p c = Some m" by blast
  then show ?thesis using q_UnreceivedPackets_valid(2) [OF ids h ch n ORDERED]
    by (simp add: ORDERED recv_update_noop(2) [OF d] not_less)
qed (use ord in simp)

lemma received_once_reported:
  assumes ids: "validategRPCRequest p c = Inr ()" and h: "GetSelfHeight ctx = Inr h"
    and ch: "GetChannel (core st) p c = Some ch" and ord: "ch_Ordering ch \<noteq> ORDER_NONE"
    and r: "RecvPacket lib ctx' k pkt pf ph st = Inr st1" and d: "DestinationPort pkt = p" "DestinationChannel pkt = c"
    and n: "Sequence pkt \<noteq> 0" "Sequence pkt \<noteq> - 1"
  shows "q_UnreceivedPackets (core st) ctx (Some (p, c, [Sequence pkt])) = Inr ([Sequence pkt], h)
      \<and> q_UnreceivedPackets (core st1) ctx (Some (p, c, [Sequence pkt])) = Inr ([], h)"
proof -
  from RecvPacket_effect [OF r] ch d obtain s where w: "recv_written (ch_Ordering ch) pkt (core st) s (core st1)" "core_eq (core st) s"
    by auto
  note reads = recv_written_reads [OF w]
  have ch1: "GetChannel (core st1) p c = Some ch" using reads(3) ch by simp
  have "\<not> Sequence pkt + 1 \<le> Sequence pkt" using u64_less_succ [OF n(2)] by (simp add: not_le)
  then show ?thesis
    using ord n reads(1,2) d
    by (cases "ch_Ordering ch")
      (auto simp: q_UnreceivedPackets_valid(1) [OF ids h ch] q_UnreceivedPackets_valid(1) [OF ids h ch1]
        q_UnreceivedPackets_valid(2) [OF ids h ch] q_UnreceivedPackets_valid(2) [OF ids h ch1])
qed

lemma sent_reported:
  assumes ids: "validategRPCRequest p c = Inr ()" and h: "GetSelfHeight ctx = Inr h"
    and ch: "GetChannel (core st) p c = Some ch"
    and s: "SendPacket ctx' k p c th tt d st = Inr (n, st2)"
  shows "q_UnreceivedAcks (core st2) ctx (Some (p, c, [n])) = Inr ([n], h)
      \<and> q_NextSequenceSend (core st) ctx (Some (p, c)) = Inr (if ch_Ordering ch = UNORDERED then 0 else n, h) \<and> n \<noteq> 0"
proof -
  from SendPacket_effect [OF s] ch have e: "GetNextSequenceSend (core st) p c = Some n"
    "is_ok (Packet_ValidateBasic (sent_packet ch d n p c th tt))"
    "GetPacketCommitment (core st2) p c n = CommitPacket (sent_packet ch d n p c th tt)"
    by (auto simp: view_rules)
  from e(2) have "n \<noteq> 0" by (auto simp: is_ok_iff Packet_ValidateBasic_def sent_packet_def split: if_splits sum.splits)
  with e show ?thesis
    by (simp add: q_UnreceivedAcks_valid [OF ids h] q_NextSequenceSend_valid [OF ids h ch])
qed

lemma settled_not_reported:
  assumes ids: "validategRPCRequest p c = Inr ()" and h: "GetSelfHeight ctx = Inr h"
    and a: "AcknowledgePacket lib ctx' k pkt a pf ph st = Inr st3 \<or> TimeoutExecuted k pkt st = Inr st3"
    and d: "SourcePort pkt = p" "SourceChannel pkt = c" and n: "Sequence pkt \<noteq> 0"
  shows "q_UnreceivedAcks (core st3) ctx (Some (p, c, [Sequence pkt])) = Inr ([], h)"
proof -
  from a d have "GetPacketCommitment (core st3) p c (Sequence pkt) = []"
    by (auto dest!: AcknowledgePacket_effect TimeoutExecuted_effect simp: Let_def view_rules)
  with n show ?thesis by (simp add: q_UnreceivedAcks_valid [OF ids h])
qed

section \<open>The relayer's view\<close>

text \<open>
  C18: the queries relayers scan for work agree with the keeper. For a valid request, the sequences
  reported as unreceived are those whose receipt is not a no-op; the sequence of a received packet
  was reported before and is not reported afterwards (unless the counter of an ordered channel wraps
  around). A sent packet is reported as unacknowledged, and an acknowledged or timed out one no longer.
  On an ordered channel the next sequence query predicts the sequence of the next packet; on an unordered
  channel it answers 0, which is never the sequence of a packet.
\<close>

theorem relayer_queries_agree:
  assumes ids: "validategRPCRequest p c = Inr ()" and h: "GetSelfHeight ctx = Inr h"
    and ch: "GetChannel (core st) p c = Some ch" and ord: "ch_Ordering ch \<noteq> ORDER_NONE"
  shows "(0 \<notin> set ns \<and> DestinationPort pkt = p \<and> DestinationChannel pkt = c
        \<and> (ch_Ordering ch = ORDERED \<longrightarrow> GetNextSequenceRecv (core st) p c \<noteq> None) \<longrightarrow>
      q_UnreceivedPackets (core st) ctx (Some (p, c, ns)) =
        Inr (filter (\<lambda>n. recv_update (ch_Ordering ch) (pkt\<lparr>Sequence := n\<rparr>) (core st) \<noteq> Inl channel_ErrNoOpMsg) ns, h))
    \<and> (RecvPacket lib ctx' k pkt pf ph st = Inr st1 \<and> DestinationPort pkt = p \<and> DestinationChannel pkt = c
        \<and> Sequence pkt \<noteq> 0 \<and> Sequence pkt \<noteq> - 1 \<longrightarrow>
      q_UnreceivedPackets (core st) ctx (Some (p, c, [Sequence pkt])) = Inr ([Sequence pkt], h)
      \<and> q_UnreceivedPackets (core st1) ctx (Some (p, c, [Sequence pkt])) = Inr ([], h))
    \<and> (SendPacket ctx' k p c th tt d st = Inr (n, st2) \<longrightarrow>
      q_UnreceivedAcks (core st2) ctx (Some (p, c, [n])) = Inr ([n], h)
      \<and> q_NextSequenceSend (core st) ctx (Some (p, c)) = Inr (if ch_Ordering ch = UNORDERED then 0 else n, h) \<and> n \<noteq> 0)
    \<and> ((AcknowledgePacket lib ctx' k pkt a pf ph st = Inr st3 \<or> TimeoutExecuted k pkt st = Inr st3)
        \<and> SourcePort pkt = p \<and> SourceChannel pkt = c \<and> Sequence pkt \<noteq> 0 \<longrightarrow>
      q_UnreceivedAcks (core st3) ctx (Some (p, c, [Sequence pkt])) = Inr ([], h))"
  using unreceived_packets_noop [OF ids h ch ord] received_once_reported [OF ids h ch ord]
    sent_reported [OF ids h ch] settled_not_reported [OF ids h]
  by (intro conjI impI) (elim conjE, assumption | blast)+

lemma relayer_queries_agree_witness:
  "\<exists>st. SendPacket ex_ctx ex_src_cap ''transfer'' ''channel-0'' ZeroHeight 100 [65] (ex_loop UNORDERED) = Inr (1, st)
    \<and> q_UnreceivedAcks (core st) ex_ctx (Some (''transfer'', ''channel-0'', [1])) = Inr ([1], NewHeight 0 10)
    \<and> q_NextSequenceSend (core (ex_loop UNORDERED)) ex_ctx (Some (''transfer'', ''channel-0'')) = Inr (0, NewHeight 0 10)"
proof -
  have v: "validategRPCRequest ''transfer'' ''channel-0'' = Inr ()" "GetSelfHeight ex_ctx = Inr (NewHeight 0 10)" by code_simp+
  obtain ch where ch: "GetChannel (core (ex_loop UNORDERED)) ''transfer'' ''channel-0'' = Some ch" "ch_Ordering ch = UNORDERED"
    using ex_loop_ends(1) by (rule loop_endE)
  obtain st where st: "SendPacket ex_ctx ex_src_cap ''transfer'' ''channel-0'' ZeroHeight 100 [65] (ex_loop UNORDERED) = Inr (1, st)"
    using loop_send_ok [OF ex_loop_client ex_loop_ends(1) ex_loop_auth(1) ex_loop_seq(1) ex_loop_pkt] by blast
  from relayer_queries_agree [OF v ch(1)] st ch(2) show ?thesis by simp
qed

end
