(* ===== verification/Ante.thy ===== *)
theory Ante
  imports Msg_Life
begin

text \<open>
  The ante decorator that keeps redundant relay transactions out of the mempool (\<open>modules/core/ante/ante.go\<close>). A
  transaction is a list of messages: the four packet messages, client updates, and others. The rest
  of the chain of decorators is a parameter. The theorem: outside of the mempool check the decorator
  does nothing; in it, the messages are run one by one until one fails, whose error is returned, or
  one is neither a packet message nor a client update, and then the transaction is handed on; when
  all of them ran, it is refused exactly when it has a packet message and every one is redundant.
\<close>

section \<open>The decorator\<close>

datatype 'o tx_msg =
    TxRecvPacket MsgRecvPacket
  | TxAcknowledgement MsgAcknowledgement
  | TxTimeout MsgTimeout
  | TxTimeoutOnClose MsgTimeoutOnClose
  | TxUpdateClient string "ClientMessage option"
  | TxOther 'o

text \<open>The result of a packet message, \<open>None\<close> for a client update; other messages are not run.\<close>

fun relay_msg :: "'a server \<Rightarrow> sdk_context \<Rightarrow> 'o tx_msg \<Rightarrow> 'a world \<Rightarrow> (ResponseResultType option \<times> 'a world) result option" where
  "relay_msg sv ctx (TxRecvPacket msg) w = Some (and_then (msg_RecvPacket sv ctx msg w) (\<lambda>(r, w1). Inr (Some r, w1)))"
| "relay_msg sv ctx (TxAcknowledgement msg) w = Some (and_then (msg_Acknowledgement sv ctx msg w) (\<lambda>(r, w1). Inr (Some r, w1)))"
| "relay_msg sv ctx (TxTimeout msg) w = Some (and_then (msg_Timeout sv ctx msg w) (\<lambda>(r, w1). Inr (Some r, w1)))"
| "relay_msg sv ctx (TxTimeoutOnClose msg) w = Some (and_then (msg_TimeoutOnClose sv ctx msg w) (\<lambda>(r, w1). Inr (Some r, w1)))"
| "relay_msg sv ctx (TxUpdateClient clientID clientMessage) w = Some (and_then (msg_UpdateClient sv ctx clientID clientMessage w) (\<lambda>w1. Inr (None, w1)))"
| "relay_msg sv ctx (TxOther m) w = None"

text \<open>The loop over the messages, with the two counters; \<open>None\<close> when it meets another message.\<close>

fun relay_loop :: "'a server \<Rightarrow> sdk_context \<Rightarrow> 'o tx_msg list \<Rightarrow> nat \<Rightarrow> nat \<Rightarrow> 'a world \<Rightarrow> ((nat \<times> nat) option \<times> 'a world) result" where
  "relay_loop sv ctx [] redundancies packetMsgs w = Inr (Some (redundancies, packetMsgs), w)"
| "relay_loop sv ctx (m # rest) redundancies packetMsgs w =
     (case relay_msg sv ctx m w of
        None \<Rightarrow> Inr (None, w)
      | Some r \<Rightarrow>
          and_then r (\<lambda>(response, w1).
          relay_loop sv ctx rest (if response = Some NOOP then redundancies + 1 else redundancies)
            (if response = None then packetMsgs else packetMsgs + 1) w1))"

definition AnteHandle ::
  "'a server \<Rightarrow> sdk_context \<Rightarrow> bool \<Rightarrow> bool \<Rightarrow> 'o tx_msg list \<Rightarrow> bool \<Rightarrow> ('a world \<Rightarrow> 'r result) \<Rightarrow> 'a world \<Rightarrow> 'r result" where
  "AnteHandle sv ctx isCheckTx isReCheckTx msgs simulate next_handler w =
     (if (isCheckTx \<or> isReCheckTx) \<and> \<not> simulate then
        and_then (relay_loop sv ctx msgs 0 0 w) (\<lambda>(counts, w1).
        case counts of
          None \<Rightarrow> next_handler w1
        | Some (redundancies, packetMsgs) \<Rightarrow>
            if redundancies = packetMsgs \<and> 0 < packetMsgs then Inl channel_ErrRedundantTx else next_handler w1)
      else next_handler w)"

section \<open>Runs of a relay transaction\<close>

text \<open>
  The messages of a transaction as the message server executes them one after the other, with their
  results; and the messages it rejects.
\<close>

inductive relay_run :: "'a server \<Rightarrow> sdk_context \<Rightarrow> 'o tx_msg list \<Rightarrow> 'a world \<Rightarrow> ResponseResultType option list \<Rightarrow> 'a world \<Rightarrow> bool" for sv ctx where
  relay_done: "relay_run sv ctx [] w [] w"
| relay_recv: "msg_RecvPacket sv ctx m w = Inr (r, w1) \<Longrightarrow> relay_run sv ctx ms w1 rs w2 \<Longrightarrow>
    relay_run sv ctx (TxRecvPacket m # ms) w (Some r # rs) w2"
| relay_ack: "msg_Acknowledgement sv ctx m' w = Inr (r, w1) \<Longrightarrow> relay_run sv ctx ms w1 rs w2 \<Longrightarrow>
    relay_run sv ctx (TxAcknowledgement m' # ms) w (Some r # rs) w2"
| relay_timeout: "msg_Timeout sv ctx m'' w = Inr (r, w1) \<Longrightarrow> relay_run sv ctx ms w1 rs w2 \<Longrightarrow>
    relay_run sv ctx (TxTimeout m'' # ms) w (Some r # rs) w2"
| relay_on_close: "msg_TimeoutOnClose sv ctx mc w = Inr (r, w1) \<Longrightarrow> relay_run sv ctx ms w1 rs w2 \<Longrightarrow>
    relay_run sv ctx (TxTimeoutOnClose mc # ms) w (Some r # rs) w2"
| relay_update: "msg_UpdateClient sv ctx i cm w = Inr w1 \<Longrightarrow> relay_run sv ctx ms w1 rs w2 \<Longrightarrow>
    relay_run sv ctx (TxUpdateClient i cm # ms) w (None # rs) w2"

fun relay_fails :: "'a server \<Rightarrow> sdk_context \<Rightarrow> 'o tx_msg \<Rightarrow> 'a world \<Rightarrow> ibc_error \<Rightarrow> bool" where
  "relay_fails sv ctx (TxRecvPacket m) w e = (msg_RecvPacket sv ctx m w = Inl e)"
| "relay_fails sv ctx (TxAcknowledgement m) w e = (msg_Acknowledgement sv ctx m w = Inl e)"
| "relay_fails sv ctx (TxTimeout m) w e = (msg_Timeout sv ctx m w = Inl e)"
| "relay_fails sv ctx (TxTimeoutOnClose m) w e = (msg_TimeoutOnClose sv ctx m w = Inl e)"
| "relay_fails sv ctx (TxUpdateClient i cm) w e = (msg_UpdateClient sv ctx i cm w = Inl e)"
| "relay_fails sv ctx (TxOther m) w e = False"

definition redundant_results :: "ResponseResultType option list \<Rightarrow> bool" where
  "redundant_results rs = (list_ex (\<lambda>r. r \<noteq> None) rs \<and> list_all (\<lambda>r. r = None \<or> r = Some NOOP) rs)"

lemma relay_loop_run:
  "relay_run sv ctx ms w rs w' \<Longrightarrow> relay_loop sv ctx (ms @ rest) i j w =
     relay_loop sv ctx rest (i + length (filter (\<lambda>r. r = Some NOOP) rs)) (j + length (filter (\<lambda>r. r \<noteq> None) rs)) w'"
  by (induction arbitrary: i j rule: relay_run.induct) auto

lemma relay_loop_fails: "relay_fails sv ctx m w e \<Longrightarrow> relay_loop sv ctx (m # rest) i j w = Inl e"
  by (cases m) auto

text \<open>Every transaction runs through, or up to a message of another kind, or up to one that fails.\<close>

definition relay_next :: "'a server \<Rightarrow> sdk_context \<Rightarrow> 'o tx_msg \<Rightarrow> 'a world \<Rightarrow> bool" where
  "relay_next sv ctx m w = (\<exists>r w1. \<forall>ms rs w2. relay_run sv ctx ms w1 rs w2 \<longrightarrow> relay_run sv ctx (m # ms) w (r # rs) w2)"

lemma relay_runs: "(\<And>ms rs w2. relay_run sv ctx ms w1 rs w2 \<Longrightarrow> relay_run sv ctx (m # ms) w (r # rs) w2) \<Longrightarrow> relay_next sv ctx m w"
  unfolding relay_next_def by blast

lemma relay_one: "(\<exists>x. m = TxOther x) \<or> (\<exists>e. relay_fails sv ctx m w e) \<or> relay_next sv ctx m w"
proof (cases m)
  case (TxRecvPacket a)
  then show ?thesis by (cases "msg_RecvPacket sv ctx a w") (auto intro: relay_runs relay_recv)
next
  case (TxAcknowledgement a)
  then show ?thesis by (cases "msg_Acknowledgement sv ctx a w") (auto intro: relay_runs relay_ack)
next
  case (TxTimeout a)
  then show ?thesis by (cases "msg_Timeout sv ctx a w") (auto intro: relay_runs relay_timeout)
next
  case (TxTimeoutOnClose a)
  then show ?thesis by (cases "msg_TimeoutOnClose sv ctx a w") (auto intro: relay_runs relay_on_close)
next
  case (TxUpdateClient a b)
  then show ?thesis by (cases "msg_UpdateClient sv ctx a b w") (auto intro: relay_runs relay_update)
qed simp

inductive relay_ends :: "'a server \<Rightarrow> sdk_context \<Rightarrow> 'o tx_msg list \<Rightarrow> 'a world \<Rightarrow> bool" for sv ctx where
  ends_through: "relay_run sv ctx ms w rs w' \<Longrightarrow> relay_ends sv ctx ms w"
| ends_other: "relay_run sv ctx pre w rs w' \<Longrightarrow> relay_ends sv ctx (pre @ TxOther x # rest) w"
| ends_failed: "relay_run sv ctx pre w rs w' \<Longrightarrow> relay_fails sv ctx m w' e \<Longrightarrow> relay_ends sv ctx (pre @ m # rest) w"

lemma relay_ends_all: "relay_ends sv ctx msgs w"
proof (induction msgs arbitrary: w)
  case Nil
  show ?case by (rule ends_through [OF relay_done])
next
  case (Cons m msgs)
  consider x where "m = TxOther x" | e where "relay_fails sv ctx m w e"
    | r w1 where "\<And>ms rs w2. relay_run sv ctx ms w1 rs w2 \<Longrightarrow> relay_run sv ctx (m # ms) w (r # rs) w2"
    using relay_one [of m sv ctx w] unfolding relay_next_def by blast
  then show ?case
  proof cases
    case (1 x)
    then show ?thesis using ends_other [OF relay_done] by fastforce
  next
    case (2 e)
    from ends_failed [OF relay_done this] show ?thesis by simp
  next
    case (3 r w1)
    from Cons.IH [of w1] show ?thesis
    proof cases
      case (ends_through rs w')
      then show ?thesis using 3 relay_ends.ends_through by blast
    next
      case (ends_other pre rs w' x rest)
      with relay_ends.ends_other [OF 3 [OF ends_other(2)]] show ?thesis by simp
    next
      case (ends_failed pre rs w' m' e rest)
      with relay_ends.ends_failed [OF 3 [OF ends_failed(2)] ends_failed(3)] show ?thesis by simp
    qed
  qed
qed

lemma counts_redundant:
  "length (filter (\<lambda>r. r = Some NOOP) rs) = length (filter (\<lambda>r. r \<noteq> None) rs) \<and> 0 < length (filter (\<lambda>r. r \<noteq> None) rs) \<longleftrightarrow> redundant_results rs"
proof -
  have le: "length (filter (\<lambda>r. r = Some NOOP) rs) \<le> length (filter (\<lambda>r. r \<noteq> None) rs)" for rs by (induction rs) auto
  have "length (filter (\<lambda>r. r = Some NOOP) rs) = length (filter (\<lambda>r. r \<noteq> None) rs) \<longleftrightarrow> list_all (\<lambda>r. r = None \<or> r = Some NOOP) rs"
  proof (induction rs)
    case (Cons r rs)
    with le [of rs] show ?case by auto
  qed simp
  moreover have "0 < length (filter (\<lambda>r. r \<noteq> None) rs) \<longleftrightarrow> list_ex (\<lambda>r. r \<noteq> None) rs" by (induction rs) auto
  ultimately show ?thesis unfolding redundant_results_def by blast
qed

lemma relay_noops:
  "msg_RecvPacket sv ctx m w = Inr (NOOP, w1) \<Longrightarrow> w1 = w" "msg_Acknowledgement sv ctx m' w = Inr (NOOP, w1) \<Longrightarrow> w1 = w"
  "msg_Timeout sv ctx m'' w = Inr (NOOP, w1) \<Longrightarrow> w1 = w" "msg_TimeoutOnClose sv ctx mc w = Inr (NOOP, w1) \<Longrightarrow> w1 = w"
  by (auto simp: msg_RecvPacket_def msg_Acknowledgement_def msg_Timeout_def msg_TimeoutOnClose_def tao_Inr Let_def split: option.splits)

text \<open>A transaction of redundant packet messages only has no effect.\<close>

lemma redundant_run_idle: "relay_run sv ctx ms w rs w' \<Longrightarrow> list_all (\<lambda>r. r = Some NOOP) rs \<Longrightarrow> w' = w"
  by (induction rule: relay_run.induct) (auto dest: relay_noops)

text \<open>The packet of a message was delivered to the application earlier, by a message that was answered with SUCCESS.\<close>

definition delivered :: "'a server \<Rightarrow> MsgRecvPacket \<Rightarrow> 'a world \<Rightarrow> bool" where
  "delivered sv m w = (\<exists>ctx m0 w0 w1 ch. MsgRecvPacket_ValidateBasic (srv_bech32 sv) m0 = Inr () \<and> no_wrap (ibc_state w0)
     \<and> chan_inv (DestinationPort (rp_Packet m0)) (DestinationChannel (rp_Packet m0)) (core (ibc_state w0))
     \<and> GetChannel (core (ibc_state w0)) (DestinationPort (rp_Packet m0)) (DestinationChannel (rp_Packet m0)) = Some ch \<and> ch_Ordering ch \<noteq> ORDER_NONE
     \<and> msg_RecvPacket sv ctx m0 w0 = Inr (SUCCESS, w1) \<and> msg_run sv w1 w
     \<and> DestinationPort (rp_Packet m) = DestinationPort (rp_Packet m0) \<and> DestinationChannel (rp_Packet m) = DestinationChannel (rp_Packet m0)
     \<and> Sequence (rp_Packet m) = Sequence (rp_Packet m0))"

lemma delivered_noop:
  assumes "routes_ok sv" and "delivered sv m w" and "msg_RecvPacket sv ctx m w = Inr (x, w')"
  shows "x = NOOP \<and> w' = w"
  using assms(2) received_again [OF assms(1) _ _ _ _ _ _ _ _ _ _ assms(3)] unfolding delivered_def by blast

lemma delivered_loop:
  assumes "routes_ok sv" and "\<forall>m \<in> set ms. delivered sv m w"
  shows "(\<exists>e. relay_loop sv ctx (map TxRecvPacket ms :: 'o tx_msg list) i j w = Inl e)
    \<or> relay_loop sv ctx (map TxRecvPacket ms :: 'o tx_msg list) i j w = Inr (Some (i + length ms, j + length ms), w)"
  using assms(2)
proof (induction ms arbitrary: i j)
  case (Cons m ms)
  show ?case
  proof (cases "msg_RecvPacket sv ctx m w")
    case (Inr xw)
    obtain x w' where xw: "xw = (x, w')" by (cases xw)
    with delivered_noop [OF assms(1) _ Inr [unfolded xw]] Cons.prems have "x = NOOP" "w' = w" by simp_all
    with Inr xw Cons.IH [of "i + 1" "j + 1"] Cons.prems show ?thesis by (auto simp: Let_def)
  qed simp
qed simp

section \<open>Property\<close>

text \<open>
  C17: the mempool filter for relayers. Outside of the mempool check (or when simulating) the decorator
  hands every transaction on. In the check, the messages are executed by the message server, and one
  of three things happens. All of them are packet messages and client updates and succeed: the
  transaction is refused as redundant exactly when it has packet messages and all of them are no-ops,
  and else handed on; when it has nothing but no-ops, running it changes nothing. Or, after messages that
  succeeded, comes one of another kind: then the transaction is handed on, redundant or not. Or comes
  one that fails: then its error is returned. A transaction of \<open>MsgRecvPacket\<close> messages whose packets were
  all delivered before is never handed on.
\<close>

theorem redundant_relay_filtered:
  fixes next_handler :: "'a world \<Rightarrow> 'r result" and msgs pre :: "'o tx_msg list"
  shows "(\<not> (check \<or> recheck) \<or> simulate \<longrightarrow> AnteHandle sv ctx check recheck msgs simulate next_handler w = next_handler w)
    \<and> relay_ends sv ctx msgs w
    \<and> ((check \<or> recheck) \<and> relay_run sv ctx pre w rs w' \<longrightarrow>
        AnteHandle sv ctx check recheck pre False next_handler w = (if redundant_results rs then Inl channel_ErrRedundantTx else next_handler w')
        \<and> (list_all (\<lambda>r. r = Some NOOP) rs \<longrightarrow> w' = w)
        \<and> AnteHandle sv ctx check recheck (pre @ TxOther x # rest) False next_handler w = next_handler w'
        \<and> (relay_fails sv ctx m w' e \<longrightarrow> AnteHandle sv ctx check recheck (pre @ m # rest) False next_handler w = Inl e))
    \<and> ((check \<or> recheck) \<and> routes_ok sv \<and> ms \<noteq> [] \<and> list_all (\<lambda>m. delivered sv m w) ms \<longrightarrow>
        (\<exists>e. AnteHandle sv ctx check recheck (map TxRecvPacket ms :: 'o tx_msg list) False next_handler w = Inl e))"
proof (intro conjI)
  show "\<not> (check \<or> recheck) \<or> simulate \<longrightarrow> AnteHandle sv ctx check recheck msgs simulate next_handler w = next_handler w"
    by (auto simp: AnteHandle_def)
  show "relay_ends sv ctx msgs w" by (rule relay_ends_all)
  show "(check \<or> recheck) \<and> relay_run sv ctx pre w rs w' \<longrightarrow>
      AnteHandle sv ctx check recheck pre False next_handler w = (if redundant_results rs then Inl channel_ErrRedundantTx else next_handler w')
      \<and> (list_all (\<lambda>r. r = Some NOOP) rs \<longrightarrow> w' = w)
      \<and> AnteHandle sv ctx check recheck (pre @ TxOther x # rest) False next_handler w = next_handler w'
      \<and> (relay_fails sv ctx m w' e \<longrightarrow> AnteHandle sv ctx check recheck (pre @ m # rest) False next_handler w = Inl e)"
  proof (intro impI conjI)
    assume r: "(check \<or> recheck) \<and> relay_run sv ctx pre w rs w'"
    note loop = relay_loop_run [OF conjunct2 [OF r]]
    show "AnteHandle sv ctx check recheck pre False next_handler w = (if redundant_results rs then Inl channel_ErrRedundantTx else next_handler w')"
      using r loop [of "[]" 0 0] counts_redundant [of rs] by (simp add: AnteHandle_def)
    show "w' = w" if "list_all (\<lambda>r. r = Some NOOP) rs" using r redundant_run_idle that by blast
    show "AnteHandle sv ctx check recheck (pre @ TxOther x # rest) False next_handler w = next_handler w'"
      using r by (simp add: AnteHandle_def loop)
    show "AnteHandle sv ctx check recheck (pre @ m # rest) False next_handler w = Inl e" if "relay_fails sv ctx m w' e"
      using r by (simp add: AnteHandle_def loop relay_loop_fails [OF that] del: relay_loop.simps)
  qed
  show "(check \<or> recheck) \<and> routes_ok sv \<and> ms \<noteq> [] \<and> list_all (\<lambda>m. delivered sv m w) ms \<longrightarrow>
      (\<exists>e. AnteHandle sv ctx check recheck (map TxRecvPacket ms :: 'o tx_msg list) False next_handler w = Inl e)"
  proof
    assume a: "(check \<or> recheck) \<and> routes_ok sv \<and> ms \<noteq> [] \<and> list_all (\<lambda>m. delivered sv m w) ms"
    have "(\<exists>e. relay_loop sv ctx (map TxRecvPacket ms :: 'o tx_msg list) 0 0 w = Inl e)
      \<or> relay_loop sv ctx (map TxRecvPacket ms :: 'o tx_msg list) 0 0 w = Inr (Some (0 + length ms, 0 + length ms), w)"
      by (rule delivered_loop) (use a in \<open>simp_all add: list_all_iff\<close>)
    with a show "\<exists>e. AnteHandle sv ctx check recheck (map TxRecvPacket ms :: 'o tx_msg list) False next_handler w = Inl e"
      by (auto simp: AnteHandle_def)
  qed
qed

lemma redundant_relay_filtered_witness:
  "\<exists>w1 e. msg_RecvPacket ex_server ex_ctx ex_recv_msg ex_sent_world = Inr (SUCCESS, w1)
     \<and> AnteHandle ex_server ex_ctx True False [TxRecvPacket ex_recv_msg :: unit tx_msg] False (\<lambda>w. Inr ()) w1 = Inl e
     \<and> AnteHandle ex_server ex_ctx False False [TxRecvPacket ex_recv_msg :: unit tx_msg] False (\<lambda>w. Inr ()) w1 = Inr ()"
proof -
  obtain w1 where w1: "msg_RecvPacket ex_server ex_ctx ex_recv_msg ex_sent_world = Inr (SUCCESS, w1)" using ex_msg_recv by blast
  obtain ch where ch: "GetChannel (core (ex_sent UNORDERED)) ''transfer'' ''channel-1'' = Some ch" "ch_Ordering ch = UNORDERED"
    using ex_channel(1) by blast
  have v: "MsgRecvPacket_ValidateBasic (srv_bech32 ex_server) ex_recv_msg = Inr ()" by code_simp
  have run: "msg_run ex_server w1 w1" by (rule rtranclp.rtrancl_refl)
  have nw: "no_wrap (ibc_state ex_sent_world)"
    "chan_inv (DestinationPort (rp_Packet ex_recv_msg)) (DestinationChannel (rp_Packet ex_recv_msg)) (core (ibc_state ex_sent_world))"
    "GetChannel (core (ibc_state ex_sent_world)) (DestinationPort (rp_Packet ex_recv_msg)) (DestinationChannel (rp_Packet ex_recv_msg)) = Some ch"
    "ch_Ordering ch \<noteq> ORDER_NONE"
    using ch ex_no_wrap(2) ex_chan_inv(4) by (simp_all add: ex_sent_world_def ex_recv_msg_def NewMsgRecvPacket_def)
  have "delivered ex_server ex_recv_msg w1" unfolding delivered_def using v w1 run nw by blast
  then have "\<exists>e. AnteHandle ex_server ex_ctx True False (map TxRecvPacket [ex_recv_msg] :: unit tx_msg list) False (\<lambda>w. Inr ()) w1 = Inl e"
    using ex_routes_ok by (intro redundant_relay_filtered [where check = True and ms = "[ex_recv_msg]", THEN conjunct2, THEN conjunct2, THEN conjunct2, THEN mp]) simp
  moreover have "AnteHandle ex_server ex_ctx False False [TxRecvPacket ex_recv_msg :: unit tx_msg] False (\<lambda>w. Inr ()) w1 = Inr ()" by (simp add: AnteHandle_def)
  ultimately show ?thesis using w1 by auto
qed

end
