(* ===== verification/Store_Types.thy ===== *)
theory Store_Types
  imports Msg_Run
begin

text \<open>
  The typing of the ibc store. The keepers and the light clients share one byte store and decode each
  value by its key; the getters of the source panic on bytes of another kind (\<open>MustUnmarshal\<close>). A typed
  store holds, outside the stores of the clients, values of the kind their family of keys has, and
  below a client exactly the entries the clients write: the client state, consensus states with their
  three entries of metadata, and the connection paths. Every operation of the client, connection and
  channel keepers keeps the store typed, so that no read ever meets bytes it cannot decode.
\<close>

section \<open>Typed entries\<close>

text \<open>
  The entries below a client: only the Tendermint client keeps consensus states, the processed height
  is stored in its printed form, and an iteration key points at the consensus state of its height.
\<close>

inductive client_entry :: "string \<Rightarrow> kv_value \<Rightarrow> bool" where
  ce_state: "client_entry ClientStateKey (ClientStateBz cs)"
| ce_consensus: "client_entry (ConsensusStateKey h) (ConsensusStateBz (TendermintConsensus c))"
| ce_time: "client_entry (ProcessedTimeKey h) (Uint64Bz t)"
| ce_height: "client_entry (ProcessedHeightKey h) (StringBz (Height_String k))"
| ce_iteration: "client_entry (IterationKey h) (StringBz (ConsensusStateKey h))"
| ce_paths: "client_entry KeyConnectionPrefix (ClientPathsBz ps)"

lemma connections_key [path_simps]:
  "KeyConnectionPrefix \<noteq> ClientStateKey" "KeyConnectionPrefix \<noteq> ConsensusStateKey h" "KeyConnectionPrefix \<noteq> ProcessedTimeKey h"
  "KeyConnectionPrefix \<noteq> ProcessedHeightKey h" "KeyConnectionPrefix \<noteq> IterationKey h"
  by (simp_all add: ClientStateKey_def ConsensusStateKey_def ConsensusStatePath_def ProcessedTimeKey_def ProcessedHeightKey_def IterationKey_def)

lemmas connections_key_sym [path_simps] = connections_key [symmetric]

lemma client_entry_iff:
  "client_entry ClientStateKey v \<longleftrightarrow> asClientState v \<noteq> None"
  "client_entry (ConsensusStateKey h) v \<longleftrightarrow> (\<exists>c. v = ConsensusStateBz (TendermintConsensus c))"
  "client_entry (ProcessedTimeKey h) v \<longleftrightarrow> asUint64 v \<noteq> None"
  "client_entry (ProcessedHeightKey h) v \<longleftrightarrow> (\<exists>k. v = StringBz (Height_String k))"
  "client_entry (IterationKey h) v \<longleftrightarrow> v = StringBz (ConsensusStateKey h)"
  "client_entry KeyConnectionPrefix v \<longleftrightarrow> asClientPaths v \<noteq> None"
  by (cases v; auto simp: client_entry.simps path_simps)+

lemma client_entry_state: "client_entry x (ClientStateBz cs) \<Longrightarrow> x = ClientStateKey"
  by (cases rule: client_entry.cases) auto

text \<open>The families outside the clients: the first segment of a key decides the kind of its value.\<close>

definition family_type :: "string \<Rightarrow> kv_value \<Rightarrow> bool" where
  "family_type seg v =
     (if seg = ''channelEnds'' then asChannel v \<noteq> None
      else if seg = ''connections'' then asConnection v \<noteq> None
      else if seg \<in> {''commitments'', ''acks'', ''receipts''} then asBytes v \<noteq> None
      else if seg = ''clientParams'' then asClientParams v \<noteq> None
      else if seg = ''connectionParams'' then asConnectionParams v \<noteq> None
      else seg \<in> {''nextSequenceSend'', ''nextSequenceRecv'', ''nextSequenceAck'', ''nextChannelSequence'',
          ''nextConnectionSequence'', ''nextClientSequence''} \<and> asUint64 v \<noteq> None)"

definition entry_typed :: "string \<Rightarrow> kv_value \<Rightarrow> bool" where
  "entry_typed k v = (if first_seg k = ''clients'' then \<exists>c x. slash_free c \<and> k = FullClientPath c x \<and> client_entry x v
     else family_type (first_seg k) v)"

definition store_typed :: "kvstore \<Rightarrow> bool" where
  "store_typed s = (\<forall>k v. kv_get s k = Some v \<longrightarrow> entry_typed k v)"

lemma entry_typed_client: "slash_free c \<Longrightarrow> entry_typed (FullClientPath c x) v \<longleftrightarrow> client_entry x v"
  by (auto simp: entry_typed_def path_simps FullClientPath_inj)

lemma store_typed_empty: "store_typed fmempty"
  by (simp add: store_typed_def kv_get_def)

lemma store_typed_set: "store_typed s \<Longrightarrow> entry_typed k v \<Longrightarrow> store_typed (kv_set k v s)"
  by (auto simp: store_typed_def kv.get_put)

lemma store_typed_delete: "store_typed s \<Longrightarrow> store_typed (kv_delete k s)"
  by (auto simp: store_typed_def kv.get_del split: if_splits)

lemma store_typed_client_set:
  "store_typed s \<Longrightarrow> slash_free cid \<Longrightarrow> client_entry x v \<Longrightarrow> store_typed (kv_set (FullClientPath cid x) v s)"
  by (simp add: store_typed_set entry_typed_client)

text \<open>A client that has a state in a typed store has an identifier without separators.\<close>

lemma typed_client_id: "store_typed s \<Longrightarrow> GetClientState s cid = Some cs \<Longrightarrow> slash_free cid"
proof -
  assume s: "store_typed s" and "GetClientState s cid = Some cs"
  then have "kv_get s (FullClientPath cid ClientStateKey) = Some (ClientStateBz cs)"
    by (auto simp: GetClientState_def kv_typed_def elim!: asClientState.elims split: bind_splits)
  with s have "entry_typed (FullClientPath cid ClientStateKey) (ClientStateBz cs)" by (simp add: store_typed_def)
  then obtain c x where c: "slash_free c" "FullClientPath cid ClientStateKey = FullClientPath c x" "client_entry x (ClientStateBz cs)"
    by (auto simp: entry_typed_def path_simps)
  with client_entry_state [OF c(3)] show "slash_free cid" by (simp add: FullClientPath_def)
qed

named_theorems typed_writes

lemma typed_setters [typed_writes]:
  assumes "store_typed s"
  shows "store_typed (SetChannel p c ch s)" "store_typed (SetNextChannelSequence n s)" "store_typed (SetNextSequenceSend p c n s)"
    "store_typed (SetNextSequenceRecv p c n s)" "store_typed (SetNextSequenceAck p c n s)" "store_typed (SetPacketReceipt p c n s)"
    "store_typed (SetPacketCommitment p c n bz s)" "store_typed (deletePacketCommitment p c n s)"
    "store_typed (SetPacketAcknowledgement p c n bz s)" "store_typed (SetConnection i conn s)"
    "store_typed (SetNextConnectionSequence n s)" "store_typed (SetConnectionParams n s)"
    "store_typed (SetNextClientSequence n s)" "store_typed (SetClientParams ps s)"
  using assms by (auto simp: set_defs path_simps entry_typed_def family_type_def intro!: store_typed_set store_typed_delete)

section \<open>Operations of the light clients\<close>

lemmas client_typed_intros = store_typed_client_set store_typed_delete ce_state ce_consensus ce_time ce_height ce_iteration

lemma typed_metadata: "setConsensusMetadata ctx cid h s = Inr t \<Longrightarrow> slash_free cid \<Longrightarrow> store_typed s \<Longrightarrow> store_typed t"
  by (auto simp: setConsensusMetadata_def client_set_defs intro!: client_typed_intros)

lemma typed_client_verify:
  assumes "slash_free cid" and "store_typed s"
  shows "Client_VerifyMembership lib ctx cid cs h dt db prf path v s = Inr t \<Longrightarrow> store_typed t"
    and "Client_VerifyNonMembership lib ctx cid cs h dt db prf path s = Inr t \<Longrightarrow> store_typed t"
  using assms by (cases cs; auto simp: sm_VerifyMembership_def sm_VerifyNonMembership_def Let_def client_set_defs split: if_splits
      intro!: client_typed_intros)+

lemma typed_Initialize:
  assumes "slash_free cid" and "store_typed s"
  shows "Client_Initialize ctx cid cs c s = Inr t \<Longrightarrow> store_typed t"
  using assms by (cases cs)
    (auto simp: tm_Initialize_def sm_Initialize_def lh_Initialize_def client_set_defs
      split: option.splits ConsensusState.splits if_splits intro!: client_typed_intros elim!: typed_metadata)

lemma typed_tm_UpdateState:
  assumes "tm_UpdateState ctx cid cs msg s = Inr (hs, t)" and "slash_free cid" and "store_typed s"
  shows "store_typed t"
proof -
  from assms(1) obtain header s1 where msg: "msg = TmHeaderMsg header" and s1: "pruneOldestConsensusState ctx cid cs s = Inr s1"
    by (auto simp: tm_UpdateState_def split: ClientMessage.splits)
  from s1 assms(3) have "store_typed s1"
    by (auto simp: pruneOldestConsensusState_def client_set_defs split: list.splits option.splits if_splits intro!: store_typed_delete)
  with assms msg s1 show ?thesis
    by (auto simp: tm_UpdateState_def Let_def client_set_defs split: if_splits intro!: client_typed_intros elim!: typed_metadata)
qed

lemma typed_UpdateState:
  assumes "Client_UpdateState ctx cid cs msg s = Inr (hs, t)" and "slash_free cid" and "store_typed s"
  shows "store_typed t"
proof (cases cs)
  case (TendermintClient tm)
  with assms show ?thesis by (cases msg) (auto elim: typed_tm_UpdateState)
next
  case (SolomachineClient sm)
  with assms show ?thesis
    by (cases msg) (auto simp: sm_UpdateState_def Let_def client_set_defs split: ClientMessage.splits intro!: client_typed_intros)
next
  case (LocalhostClient h)
  with assms show ?thesis by (auto simp: lh_UpdateState_def client_set_defs intro!: client_typed_intros)
qed

lemma typed_misbehaviour: "slash_free cid \<Longrightarrow> store_typed s \<Longrightarrow> store_typed (Client_UpdateStateOnMisbehaviour cid cs s)"
  by (cases cs) (auto simp: tm_UpdateStateOnMisbehaviour_def sm_UpdateStateOnMisbehaviour_def client_set_defs intro!: client_typed_intros)

lemma typed_substitute:
  assumes "Client_CheckSubstituteAndUpdateState lib ctx cid sub cs subcs s = Inr t" and "slash_free cid" and "store_typed s"
  shows "store_typed t"
  using assms by (cases cs)
    (auto simp: tm_CheckSubstituteAndUpdateState_def sm_CheckSubstituteAndUpdateState_def Let_def client_set_defs
      split: ClientState.splits if_splits option.splits intro!: client_typed_intros)

text \<open>
  A verification of the connection keeper goes through an active client, whose identifier has no
  separators in a typed store; the contract of the verifications is extended accordingly.
\<close>

locale typed_verifier = verifier +
  assumes queries: "verify s = Inr t \<Longrightarrow> slash_free cid \<Longrightarrow> store_typed s \<Longrightarrow> store_typed t"
begin

lemma keeps_typed: "verify s = Inr t \<Longrightarrow> store_typed s \<Longrightarrow> store_typed t"
  using active [of s t] by (auto simp: getActiveClient_def split: option.splits intro: queries typed_client_id)

end

interpretation client_state_t: typed_verifier "VerifyClientState lib ctx conn h pf cs" ctx "conn_ClientId conn" for lib ctx conn h pf cs
  by unfold_locales (auto simp: VerifyClientState_def Let_def intro: typed_client_verify)

interpretation consensus_t: typed_verifier "VerifyClientConsensusState lib ctx conn h ch pf cons" ctx "conn_ClientId conn" for lib ctx conn h ch pf cons
  by unfold_locales (auto simp: VerifyClientConsensusState_def Let_def intro: typed_client_verify)

interpretation connection_t: typed_verifier "VerifyConnectionState lib ctx conn h pf i cp" ctx "conn_ClientId conn" for lib ctx conn h pf i cp
  by unfold_locales (auto simp: VerifyConnectionState_def Let_def intro: typed_client_verify)

interpretation channel_t: typed_verifier "VerifyChannelState lib ctx conn h pf p c ch" ctx "conn_ClientId conn" for lib ctx conn h pf p c ch
  by unfold_locales (auto simp: VerifyChannelState_def Let_def intro: typed_client_verify)

interpretation commitment_t: typed_verifier "VerifyPacketCommitment lib ctx conn h pf p c n bz" ctx "conn_ClientId conn" for lib ctx conn h pf p c n bz
  by unfold_locales (auto simp: VerifyPacketCommitment_def Let_def intro: typed_client_verify)

interpretation ack_t: typed_verifier "VerifyPacketAcknowledgement lib ctx conn h pf p c n a" ctx "conn_ClientId conn" for lib ctx conn h pf p c n a
  by unfold_locales (auto simp: VerifyPacketAcknowledgement_def Let_def intro: typed_client_verify)

interpretation absence_t: typed_verifier "VerifyPacketReceiptAbsence lib ctx conn h pf p c n" ctx "conn_ClientId conn" for lib ctx conn h pf p c n
  by unfold_locales (auto simp: VerifyPacketReceiptAbsence_def Let_def intro: typed_client_verify)

interpretation next_recv_t: typed_verifier "VerifyNextSequenceRecv lib ctx conn h pf p c n" ctx "conn_ClientId conn" for lib ctx conn h pf p c n
  by unfold_locales (auto simp: VerifyNextSequenceRecv_def Let_def intro: typed_client_verify)

lemmas verify_typed = client_state_t.keeps_typed consensus_t.keeps_typed connection_t.keeps_typed channel_t.keeps_typed
  commitment_t.keeps_typed ack_t.keeps_typed absence_t.keeps_typed next_recv_t.keeps_typed

lemma verify_unreceived_typed: "verify_unreceived lib ctx e ord conn h pf pkt n s = Inr t \<Longrightarrow> store_typed s \<Longrightarrow> store_typed t"
  by (auto simp: verify_unreceived_def split: Order.splits if_splits intro: verify_typed)

lemma typed_added: "addConnectionToClient cid i s = Inr t \<Longrightarrow> store_typed s \<Longrightarrow> store_typed t"
  by (auto simp: addConnectionToClient_def SetClientConnectionPaths_def ClientConnectionsPath_def Let_def split: option.splits
      intro!: store_typed_client_set ce_paths intro: typed_client_id)

lemma typed_generated:
  "GenerateConnectionIdentifier s = Inr (i, t) \<Longrightarrow> store_typed s \<Longrightarrow> store_typed t"
  "GenerateChannelIdentifier s = Inr (j, t) \<Longrightarrow> store_typed s \<Longrightarrow> store_typed t"
  by (auto simp: GenerateConnectionIdentifier_Inr GenerateChannelIdentifier_Inr typed_writes)

lemma typed_updates:
  "recv_update ord pkt s = Inr t \<Longrightarrow> store_typed s \<Longrightarrow> store_typed t"
  "ack_update ord pkt s = Inr t \<Longrightarrow> store_typed s \<Longrightarrow> store_typed t"
  by (auto simp: recv_update_def ack_update_def split: Order.splits if_splits option.splits intro!: typed_writes)

lemmas typed_rules = verify_typed verify_unreceived_typed typed_added typed_generated typed_updates

section \<open>Steps of the keepers\<close>

inductive keeper_step :: "lib \<Rightarrow> ibc \<Rightarrow> ibc \<Rightarrow> bool" for lib where
  ks_create: "CreateClient ctx cs cons (core st) = Inr (i, t) \<Longrightarrow> keeper_step lib st (st\<lparr>core := t\<rparr>)"
| ks_update: "UpdateClient lib ctx i msg (core st) = Inr t \<Longrightarrow> keeper_step lib st (st\<lparr>core := t\<rparr>)"
| ks_upgrade: "UpgradeClient lib ctx i up upc p1 p2 (core st) = Inr t \<Longrightarrow> keeper_step lib st (st\<lparr>core := t\<rparr>)"
| ks_recover: "ClientUpdateProposal lib ctx i j (core st) = Inr t \<Longrightarrow> keeper_step lib st (st\<lparr>core := t\<rparr>)"
| ks_localhost: "CreateLocalhostClient ctx (core st) = Inr t \<Longrightarrow> keeper_step lib st (st\<lparr>core := t\<rparr>)"
| ks_localhost_update: "UpdateLocalhostClient ctx cs (core st) = Inr (hs, t) \<Longrightarrow> keeper_step lib st (st\<lparr>core := t\<rparr>)"
| ks_sentinel: "keeper_step lib st (st\<lparr>core := CreateSentinelLocalhostConnection lib (core st)\<rparr>)"
| ks_client_params: "keeper_step lib st (st\<lparr>core := SetClientParams ps (core st)\<rparr>)"
| ks_connection_params: "keeper_step lib st (st\<lparr>core := SetConnectionParams n (core st)\<rparr>)"
| ks_conn_init: "ConnOpenInit ctx cid cp v d (core st) = Inr (i, t) \<Longrightarrow> keeper_step lib st (st\<lparr>core := t\<rparr>)"
| ks_conn_try: "ConnOpenTry lib ctx cp d cid cs vs p1 p2 p3 h ch (core st) = Inr (i, t) \<Longrightarrow> keeper_step lib st (st\<lparr>core := t\<rparr>)"
| ks_conn_ack: "ConnOpenAck lib ctx i cs v ci p1 p2 p3 h ch (core st) = Inr t \<Longrightarrow> keeper_step lib st (st\<lparr>core := t\<rparr>)"
| ks_conn_confirm: "ConnOpenConfirm lib ctx i pf h (core st) = Inr t \<Longrightarrow> keeper_step lib st (st\<lparr>core := t\<rparr>)"
| ks_chan_init: "ChanOpenInit ctx addr ord hops p k cp v st = Inr (i, k', st') \<Longrightarrow> keeper_step lib st st'"
| ks_chan_try: "ChanOpenTry lib ctx addr ord hops p k cp v pf h st = Inr (i, k', st') \<Longrightarrow> keeper_step lib st st'"
| ks_write_init: "keeper_step lib st (st\<lparr>core := WriteOpenInitChannel p c ord hops cp v (core st)\<rparr>)"
| ks_write_try: "keeper_step lib st (st\<lparr>core := WriteOpenTryChannel p c ord hops cp v (core st)\<rparr>)"
| ks_chan_ack: "ChanOpenAck lib ctx p c k v i pf h st = Inr st' \<Longrightarrow> keeper_step lib st st'"
| ks_write_ack: "WriteOpenAckChannel p c v i (core st) = Inr t \<Longrightarrow> keeper_step lib st (st\<lparr>core := t\<rparr>)"
| ks_chan_confirm: "ChanOpenConfirm lib ctx p c k pf h st = Inr st' \<Longrightarrow> keeper_step lib st st'"
| ks_write_confirm: "WriteOpenConfirmChannel p c (core st) = Inr t \<Longrightarrow> keeper_step lib st (st\<lparr>core := t\<rparr>)"
| ks_close_init: "ChanCloseInit ctx p c k st = Inr st' \<Longrightarrow> keeper_step lib st st'"
| ks_close_confirm: "ChanCloseConfirm lib ctx p c k pf h st = Inr st' \<Longrightarrow> keeper_step lib st st'"
| ks_send: "SendPacket ctx k p c th tt d st = Inr (n, st') \<Longrightarrow> keeper_step lib st st'"
| ks_recv: "RecvPacket lib ctx k pkt pf h st = Inr st' \<Longrightarrow> keeper_step lib st st'"
| ks_ack_written: "WriteAcknowledgement k pkt a st = Inr st' \<Longrightarrow> keeper_step lib st st'"
| ks_acknowledge: "AcknowledgePacket lib ctx k pkt bz pf h st = Inr st' \<Longrightarrow> keeper_step lib st st'"
| ks_timeout: "TimeoutPacket lib ctx pkt pf h n st = Inr st' \<Longrightarrow> keeper_step lib st st'"
| ks_timeout_close: "TimeoutOnClose lib ctx k pkt pf pf' h n st = Inr st' \<Longrightarrow> keeper_step lib st st'"
| ks_timeout_executed: "TimeoutExecuted k pkt st = Inr st' \<Longrightarrow> keeper_step lib st st'"

lemma slash_free_ClientType: "slash_free (ClientType cs)"
  by (cases cs) (simp_all add: slash_free_def)

lemma typed_client_ops:
  assumes "store_typed s"
  shows "CreateClient ctx cs cons s = Inr (i, t) \<Longrightarrow> store_typed t"
    and "UpdateClient lib ctx i msg s = Inr t \<Longrightarrow> store_typed t"
    and "ClientUpdateProposal lib ctx i j s = Inr t \<Longrightarrow> store_typed t"
    and "CreateLocalhostClient ctx s = Inr t \<Longrightarrow> store_typed t"
    and "UpdateLocalhostClient ctx cs s = Inr (hs, t) \<Longrightarrow> store_typed t"
proof -
  show "CreateClient ctx cs cons s = Inr (i, t) \<Longrightarrow> store_typed t"
    using assms by (auto simp: CreateClient_def GenerateClientIdentifier_def simp del: Client_Initialize.simps split: if_splits
        elim!: typed_Initialize [rotated 2] intro: typed_writes slash_free_ClientType)
  show "UpdateClient lib ctx i msg s = Inr t \<Longrightarrow> store_typed t"
    using assms by (auto simp: UpdateClient_def split: option.splits if_splits intro: typed_misbehaviour typed_UpdateState typed_client_id)
  show "ClientUpdateProposal lib ctx i j s = Inr t \<Longrightarrow> store_typed t"
    using assms by (auto simp: ClientUpdateProposal_def split: option.splits if_splits intro: typed_substitute typed_client_id)
  have l: "slash_free LocalhostClientID" by (simp add: slash_free_def)
  show "CreateLocalhostClient ctx s = Inr t \<Longrightarrow> store_typed t" "UpdateLocalhostClient ctx cs s = Inr (hs, t) \<Longrightarrow> store_typed t"
    unfolding CreateLocalhostClient_def UpdateLocalhostClient_def by (blast intro: typed_Initialize typed_UpdateState l assms)+
qed

lemma typed_UpgradeClient:
  assumes "UpgradeClient lib ctx cid up upc p1 p2 s = Inr t" and "store_typed s"
  shows "store_typed t"
proof -
  from assms have id: "slash_free cid" by (auto simp: UpgradeClient_def split: option.splits intro: typed_client_id)
  from assms obtain cs where "Client_VerifyUpgradeAndUpdateState lib ctx cid (TendermintClient cs) up upc p1 p2 s = Inr t"
    by (auto simp: UpgradeClient_def split: option.splits if_splits elim!: Client_VerifyUpgradeAndUpdateState.elims)
  then obtain h tc tn s1 where "setConsensusMetadata ctx cid h s1 = Inr t" "s1 = tm_setConsensusState cid tn h (tm_setClientState cid tc s)"
    by (auto simp: tm_VerifyUpgradeAndUpdateState_def tm_NewClientState_def Let_def
        split: if_splits option.splits ClientState.splits ConsensusState.splits)
  then show ?thesis using assms(2) id by (auto simp: client_set_defs intro!: client_typed_intros elim!: typed_metadata)
qed

lemma typed_connection_ops:
  assumes "store_typed s"
  shows "ConnOpenInit ctx cid cp v d s = Inr (i, t) \<Longrightarrow> store_typed t"
    and "ConnOpenTry lib ctx cp d cid cs vs p1 p2 p3 h ch s = Inr (i, t) \<Longrightarrow> store_typed t"
    and "ConnOpenAck lib ctx i cs v' ci p1 p2 p3 h ch s = Inr t \<Longrightarrow> store_typed t"
    and "ConnOpenConfirm lib ctx i pf h s = Inr t \<Longrightarrow> store_typed t"
  unfolding ConnOpenInit_def ConnOpenTry_def ConnOpenAck_def ConnOpenConfirm_def Let_def
  using assms by (auto split: if_splits option.splits intro!: typed_writes elim!: typed_rules)

lemma typed_channel_ops:
  assumes typed: "store_typed (core st)"
  shows "ChanOpenInit ctx addr ord hops p k cp v st = Inr (i, k', st') \<Longrightarrow> store_typed (core st')"
    and "ChanOpenTry lib ctx addr ord hops p k cp v pf h st = Inr (i, k', st') \<Longrightarrow> store_typed (core st')"
    and "ChanOpenAck lib ctx p c k v i pf h st = Inr st' \<Longrightarrow> store_typed (core st')"
    and "ChanOpenConfirm lib ctx p c k pf h st = Inr st' \<Longrightarrow> store_typed (core st')"
    and "ChanCloseInit ctx p c k st = Inr st' \<Longrightarrow> store_typed (core st')"
    and "ChanCloseConfirm lib ctx p c k pf h st = Inr st' \<Longrightarrow> store_typed (core st')"
    and "WriteOpenAckChannel p c v i (core st) = Inr t \<Longrightarrow> store_typed t"
    and "WriteOpenConfirmChannel p c (core st) = Inr t \<Longrightarrow> store_typed t"
  unfolding ChanOpenInit_def ChanOpenTry_def ChanOpenAck_def ChanOpenConfirm_def ChanCloseInit_def ChanCloseConfirm_def
    WriteOpenAckChannel_def WriteOpenConfirmChannel_def Let_def
  using typed by (auto split: if_splits option.splits intro!: typed_writes elim!: typed_rules)

lemma typed_packet_ops:
  assumes typed: "store_typed (core st)"
  shows "SendPacket ctx k p c th tt d st = Inr (n, st') \<Longrightarrow> store_typed (core st')"
    and "RecvPacket lib ctx k pkt pf h st = Inr st' \<Longrightarrow> store_typed (core st')"
    and "WriteAcknowledgement k pkt a st = Inr st' \<Longrightarrow> store_typed (core st')"
    and "AcknowledgePacket lib ctx k pkt bz pf h st = Inr st' \<Longrightarrow> store_typed (core st')"
    and "TimeoutPacket lib ctx pkt pf h n st = Inr st' \<Longrightarrow> store_typed (core st')"
    and "TimeoutOnClose lib ctx k pkt pf pf' h n st = Inr st' \<Longrightarrow> store_typed (core st')"
    and "TimeoutExecuted k pkt st = Inr st' \<Longrightarrow> store_typed (core st')"
proof -
  show "SendPacket ctx k p c th tt d st = Inr (n, st') \<Longrightarrow> store_typed (core st')"
    by (drule SendPacket_effect) (use typed in \<open>auto simp: typed_writes\<close>)
  show "WriteAcknowledgement k pkt a st = Inr st' \<Longrightarrow> store_typed (core st')"
    by (drule WriteAcknowledgement_effect) (use typed in \<open>auto simp: typed_writes\<close>)
  show "TimeoutExecuted k pkt st = Inr st' \<Longrightarrow> store_typed (core st')"
    by (drule TimeoutExecuted_effect) (use typed in \<open>auto simp: Let_def typed_writes\<close>)
  show "RecvPacket lib ctx k pkt pf h st = Inr st' \<Longrightarrow> store_typed (core st')"
    unfolding RecvPacket_def Let_def using typed by (auto split: if_splits option.splits elim!: typed_rules)
  show "AcknowledgePacket lib ctx k pkt bz pf h st = Inr st' \<Longrightarrow> store_typed (core st')"
    unfolding AcknowledgePacket_def Let_def using typed by (auto split: if_splits option.splits intro!: typed_writes elim!: typed_rules)
  show "TimeoutPacket lib ctx pkt pf h n st = Inr st' \<Longrightarrow> store_typed (core st')"
    unfolding TimeoutPacket_def Let_def using typed by (auto split: if_splits option.splits elim!: typed_rules)
  show "TimeoutOnClose lib ctx k pkt pf pf' h n st = Inr st' \<Longrightarrow> store_typed (core st')"
    unfolding TimeoutOnClose_def Let_def using typed by (auto split: if_splits option.splits elim!: typed_rules)
qed

lemma keeper_step_typed:
  assumes "keeper_step lib st st'" and "store_typed (core st)"
  shows "store_typed (core st')"
  using assms(1)
  by cases (use assms(2) in \<open>auto simp: WriteOpenInitChannel_def WriteOpenTryChannel_def CreateSentinelLocalhostConnection_def typed_writes
      dest: typed_client_ops typed_UpgradeClient typed_connection_ops typed_channel_ops typed_packet_ops\<close>)

inductive keeper_run :: "lib \<Rightarrow> ibc \<Rightarrow> ibc \<Rightarrow> bool" for lib where
  keeper_start: "keeper_run lib st st"
| keeper_next: "keeper_run lib st st' \<Longrightarrow> keeper_step lib st' st'' \<Longrightarrow> keeper_run lib st st''"

lemma keeper_run_typed: "keeper_run lib st st' \<Longrightarrow> store_typed (core st) \<Longrightarrow> store_typed (core st')"
  by (induction rule: keeper_run.induct) (auto intro: keeper_step_typed)

section \<open>Reads of a typed store\<close>

lemma typed_read:
  assumes "store_typed s" and "\<And>v. entry_typed k v \<Longrightarrow> rd v \<noteq> None"
  shows "kv_typed rd s k = None \<longleftrightarrow> kv_get s k = None"
  using assms by (cases "kv_get s k") (auto simp: kv_typed_def store_typed_def)

text \<open>A read finds nothing exactly when there is nothing.\<close>

lemma typed_reads:
  assumes "store_typed s"
  shows "kv_typed asChannel s (ChannelPath p c) = None \<longleftrightarrow> kv_get s (ChannelPath p c) = None"
    "kv_typed asConnection s (ConnectionPath i) = None \<longleftrightarrow> kv_get s (ConnectionPath i) = None"
    "kv_typed asUint64 s (NextSequenceSendPath p c) = None \<longleftrightarrow> kv_get s (NextSequenceSendPath p c) = None"
    "kv_typed asUint64 s (NextSequenceRecvPath p c) = None \<longleftrightarrow> kv_get s (NextSequenceRecvPath p c) = None"
    "kv_typed asUint64 s (NextSequenceAckPath p c) = None \<longleftrightarrow> kv_get s (NextSequenceAckPath p c) = None"
    "kv_typed asBytes s (PacketReceiptPath p c n) = None \<longleftrightarrow> kv_get s (PacketReceiptPath p c n) = None"
    "kv_typed asBytes s (PacketAcknowledgementPath p c n) = None \<longleftrightarrow> kv_get s (PacketAcknowledgementPath p c n) = None"
    "kv_typed asClientParams s ClientParamsKey = None \<longleftrightarrow> kv_get s ClientParamsKey = None"
    "kv_typed asConnectionParams s ConnectionParamsKey = None \<longleftrightarrow> kv_get s ConnectionParamsKey = None"
    "kv_typed asUint64 s KeyNextChannelSequence = None \<longleftrightarrow> kv_get s KeyNextChannelSequence = None"
    "kv_typed asUint64 s KeyNextConnectionSequence = None \<longleftrightarrow> kv_get s KeyNextConnectionSequence = None"
    "kv_typed asUint64 s KeyNextClientSequence = None \<longleftrightarrow> kv_get s KeyNextClientSequence = None"
  by (rule typed_read [OF assms], simp add: path_simps entry_typed_def family_type_def)+

lemma typed_commitment:
  assumes "store_typed s" and "kv_get s (PacketCommitmentPath p c n) = Some v"
  shows "v = BytesBz (GetPacketCommitment s p c n)"
proof -
  from assms have "asBytes v \<noteq> None" by (auto simp: store_typed_def entry_typed_def family_type_def path_simps dest!: spec2)
  with assms(2) show ?thesis by (cases v) (auto simp: GetPacketCommitment_def kv_typed_def)
qed

text \<open>
  Below a client the same holds of its state, its consensus states, also at the type the Tendermint
  client expects, their metadata and the connection paths; an iteration key leads to its own height.
\<close>

lemma typed_client_get:
  assumes "store_typed s" and "slash_free c" and "kv_get s (FullClientPath c x) = Some v"
  shows "client_entry x v"
  using assms by (auto simp: store_typed_def simp flip: entry_typed_client [of c])

definition client_reads_typed :: "kvstore \<Rightarrow> string \<Rightarrow> bool" where
  "client_reads_typed s c \<longleftrightarrow>
     (GetClientState s c = None \<longleftrightarrow> \<not> kv_has s (FullClientPath c ClientStateKey))
   \<and> (GetClientConnectionPaths s c = None \<longleftrightarrow> \<not> kv_has s (ClientConnectionsPath c))
   \<and> (\<forall>h. (GetClientConsensusState s c h = None \<longleftrightarrow> \<not> HasClientConsensusState s c h)
       \<and> (tm_GetConsensusState s c h = None \<longleftrightarrow> \<not> HasClientConsensusState s c h)
       \<and> (GetProcessedTime s c h = None \<longleftrightarrow> \<not> kv_has s (FullClientPath c (ProcessedTimeKey h)))
       \<and> (GetProcessedHeight s c h = None \<longleftrightarrow> \<not> kv_has s (FullClientPath c (ProcessedHeightKey h)))
       \<and> (kv_has s (FullClientPath c (IterationKey h)) \<longrightarrow> iterationValue s c (IterationKey h) = ConsensusStateKey h))"

lemma typed_client_reads:
  assumes s: "store_typed s" and c: "slash_free c"
  shows "client_reads_typed s c"
  unfolding client_reads_typed_def
proof (intro conjI allI)
  note get = typed_client_get [OF s c]
  show "GetClientState s c = None \<longleftrightarrow> \<not> kv_has s (FullClientPath c ClientStateKey)"
    using get [of ClientStateKey] by (cases "kv_get s (FullClientPath c ClientStateKey)") (auto simp: GetClientState_def kv_typed_def kv_has_def client_entry_iff)
  show "GetClientConnectionPaths s c = None \<longleftrightarrow> \<not> kv_has s (ClientConnectionsPath c)"
    using get [of KeyConnectionPrefix] by (cases "kv_get s (ClientConnectionsPath c)")
      (auto simp: GetClientConnectionPaths_def ClientConnectionsPath_def kv_typed_def kv_has_def client_entry_iff)
  fix h
  show "GetClientConsensusState s c h = None \<longleftrightarrow> \<not> HasClientConsensusState s c h" "tm_GetConsensusState s c h = None \<longleftrightarrow> \<not> HasClientConsensusState s c h"
    using get [of "ConsensusStateKey h"] by (cases "kv_get s (FullClientPath c (ConsensusStateKey h))";
      force simp: GetClientConsensusState_def HasClientConsensusState_def tm_GetConsensusState_def getTmConsensusState_def kv_typed_def kv_has_def client_entry_iff
        simp flip: ConsensusStateKey_def)+
  show "GetProcessedTime s c h = None \<longleftrightarrow> \<not> kv_has s (FullClientPath c (ProcessedTimeKey h))"
    using get [of "ProcessedTimeKey h"] by (cases "kv_get s (FullClientPath c (ProcessedTimeKey h))") (auto simp: GetProcessedTime_def kv_typed_def kv_has_def client_entry_iff)
  show "GetProcessedHeight s c h = None \<longleftrightarrow> \<not> kv_has s (FullClientPath c (ProcessedHeightKey h))"
    using get [of "ProcessedHeightKey h"] by (cases "kv_get s (FullClientPath c (ProcessedHeightKey h))") (auto simp: GetProcessedHeight_def kv_typed_def kv_has_def client_entry_iff)
  show "kv_has s (FullClientPath c (IterationKey h)) \<longrightarrow> iterationValue s c (IterationKey h) = ConsensusStateKey h"
    using get [of "IterationKey h"] by (auto simp: iterationValue_def kv_typed_def kv_has_def client_entry_iff)
qed

section \<open>The store stays typed\<close>

text \<open>
  C33: along every run of the client, connection and channel keepers from a well-typed store, the store
  stays well-typed, below the clients too: every entry of a client is its state, a Tendermint consensus
  state with its processed time, processed height and iteration key, or its connection paths, each under
  its own key. Therefore no read meets bytes it cannot decode: client states, consensus states and their
  metadata, connection paths, channels, connections, sequences, commitments, receipts and
  acknowledgements are absent only when their key is, and the parameters and the three identifier counters
  can be read as soon as their key is set. For clients this is stated for identifiers without a separator,
  the only ones a typed store has entries for.
\<close>

theorem store_stays_typed:
  assumes run: "keeper_run lib st st'" and typed: "store_typed (core st)"
  shows "store_typed (core st')
    \<and> (\<forall>cid. slash_free cid \<longrightarrow> client_reads_typed (core st') cid)
    \<and> (GetChannel (core st') p c = None \<longleftrightarrow> kv_get (core st') (ChannelPath p c) = None)
    \<and> (GetConnection (core st') i = None \<longleftrightarrow> kv_get (core st') (ConnectionPath i) = None)
    \<and> (GetNextSequenceSend (core st') p c = None \<longleftrightarrow> kv_get (core st') (NextSequenceSendPath p c) = None)
    \<and> (GetNextSequenceRecv (core st') p c = None \<longleftrightarrow> kv_get (core st') (NextSequenceRecvPath p c) = None)
    \<and> (GetNextSequenceAck (core st') p c = None \<longleftrightarrow> kv_get (core st') (NextSequenceAckPath p c) = None)
    \<and> (GetPacketReceipt (core st') p c n = None \<longleftrightarrow> kv_get (core st') (PacketReceiptPath p c n) = None)
    \<and> (GetPacketAcknowledgement (core st') p c n = None \<longleftrightarrow> kv_get (core st') (PacketAcknowledgementPath p c n) = None)
    \<and> (HasPacketCommitment (core st') p c n \<longrightarrow>
         kv_get (core st') (PacketCommitmentPath p c n) = Some (BytesBz (GetPacketCommitment (core st') p c n)))
    \<and> (is_ok (GetClientParams (core st')) \<longleftrightarrow> kv_has (core st') ClientParamsKey)
    \<and> (is_ok (GetConnectionParams (core st')) \<longleftrightarrow> kv_has (core st') ConnectionParamsKey)
    \<and> (is_ok (GetNextClientSequence (core st')) \<longleftrightarrow> kv_has (core st') KeyNextClientSequence)
    \<and> (is_ok (GetNextConnectionSequence (core st')) \<longleftrightarrow> kv_has (core st') KeyNextConnectionSequence)
    \<and> (is_ok (GetNextChannelSequence (core st')) \<longleftrightarrow> kv_has (core st') KeyNextChannelSequence)"
proof -
  note t = keeper_run_typed [OF run typed]
  have c: "HasPacketCommitment (core st') p c n \<longrightarrow>
      kv_get (core st') (PacketCommitmentPath p c n) = Some (BytesBz (GetPacketCommitment (core st') p c n))"
    using typed_commitment [OF t, of p c n] by (auto simp: HasPacketCommitment_def kv_has_def)
  show ?thesis
    by (simp add: t c typed_client_reads [OF t] GetChannel_def GetConnection_def GetNextSequenceSend_def GetNextSequenceRecv_def GetNextSequenceAck_def
        GetPacketReceipt_def GetPacketAcknowledgement_def GetClientParams_def GetConnectionParams_def GetNextClientSequence_def
        GetNextConnectionSequence_def GetNextChannelSequence_def typed_reads [OF t, symmetric] kv_has_def split: option.split)
qed

lemma ex_loop_typed: "store_typed (core (ex_loop ord))"
proof -
  have "slash_free LocalhostClientID" by (simp add: slash_free_def)
  then have "store_typed ex_loop_base"
    unfolding ex_loop_base_def lh_setClientState_def by (intro typed_writes client_typed_intros store_typed_empty)
  then show ?thesis by (simp add: ex_loop_def ex_loop_core_def ex_end_def typed_writes)
qed

lemma store_stays_typed_witness:
  "\<exists>st. SendPacket ex_ctx ex_src_cap ''transfer'' ''channel-0'' ZeroHeight 100 [65] (ex_loop UNORDERED) = Inr (1, st) \<and> store_typed (core st)
    \<and> client_reads_typed (core st) LocalhostClientID"
proof -
  obtain st where st: "SendPacket ex_ctx ex_src_cap ''transfer'' ''channel-0'' ZeroHeight 100 [65] (ex_loop UNORDERED) = Inr (1, st)"
    using loop_send_ok [OF ex_loop_client ex_loop_ends(1) ex_loop_auth(1) ex_loop_seq(1) ex_loop_pkt] by blast
  have "slash_free LocalhostClientID" by (simp add: slash_free_def)
  with store_stays_typed [OF keeper_next [OF keeper_start ks_send [OF st, of ex_lib]] ex_loop_typed] st show ?thesis by blast
qed

end
