(* ===== verification/Client_Msgs.thy ===== *)
theory Client_Msgs
  imports Core_Genesis
begin

text \<open>
  Messages, governance proposals and the block hook of the client submodule: the validation of headers
  and misbehaviour (\<open>07-tendermint/header.go\<close>, \<open>misbehaviour.go\<close>, the same of \<open>06-solomachine\<close>), the client
  messages (\<open>02-client/types/msgs.go\<close>), the proposals (\<open>02-client/types/proposal.go\<close>, \<open>keeper/proposal.go\<close>)
  and \<open>02-client/abci.go\<close>. An Any value is \<open>None\<close> when it does not unpack. The upgrade module is a parameter.
\<close>

section \<open>Headers and misbehaviour\<close>

text \<open>
  A Tendermint header as it arrives: its pointers may be nil, and its validators hash is compared here
  only.
\<close>

record TmProtoHeader = TmHeader +
  ph_HasSignedHeader :: bool
  ph_HasHeader :: bool
  ph_HasValidatorSet :: bool
  ph_HasTrustedValidators :: bool
  ph_ValidatorsHash :: bytes

text \<open>\<open>SignedHeader.ValidateBasic\<close>, \<open>BlockIDFromProto\<close> of a commit and \<open>ValidatorSet.VerifyCommitLight\<close> of CometBFT.\<close>

record comet =
  BlockIDFromProto :: "bytes \<Rightarrow> bytes option"
  SignedHeader_ValidateBasic :: "bytes \<Rightarrow> string \<Rightarrow> bool"
  VerifyCommitLight :: "bytes \<Rightarrow> string \<Rightarrow> bytes \<Rightarrow> bytes \<Rightarrow> bool"

definition header_of :: "TmProtoHeader \<Rightarrow> TmHeader" where
  "header_of h = TmHeader.truncate h"

definition tm_Header_ValidateBasic :: "lib \<Rightarrow> comet \<Rightarrow> TmProtoHeader \<Rightarrow> unit result" where
  "tm_Header_ValidateBasic lib cmt h =
     (if \<not> ph_HasSignedHeader h then Inl client_ErrInvalidHeader
      else if \<not> ph_HasHeader h then Inl client_ErrInvalidHeader
      else case SignedHeaderFromProto lib (h_SignedHeader h) of
        None \<Rightarrow> Inl (ErrForeign ''header is not a tendermint header'')
      | Some tmSignedHeader \<Rightarrow>
          if \<not> SignedHeader_ValidateBasic cmt tmSignedHeader (h_ChainID h) then Inl (ErrForeign ''header failed basic validation'')
          else
            and_then (TmHeader_GetHeight (header_of h)) (\<lambda>height.
            if GTE (h_TrustedHeight h) height then Inl tendermint_ErrInvalidHeaderHeight
            else if \<not> ph_HasValidatorSet h then Inl client_ErrInvalidHeader
            else case ValidatorSetFromProto lib (h_ValidatorSet h) of
              None \<Rightarrow> Inl (ErrForeign ''validator set is not tendermint validator set'')
            | Some tmValset \<Rightarrow>
                if ph_ValidatorsHash h \<noteq> ValidatorSet_Hash lib tmValset then Inl client_ErrInvalidHeader else Inr ()))"

definition validCommit :: "lib \<Rightarrow> comet \<Rightarrow> string \<Rightarrow> bytes \<Rightarrow> bytes \<Rightarrow> bytes \<Rightarrow> unit result" where
  "validCommit lib cmt chainID blockID commit valSet =
     (case CommitFromProto lib commit of
        None \<Rightarrow> Inl (ErrForeign ''commit is not tendermint commit type'')
      | Some tmCommit \<Rightarrow>
          (case ValidatorSetFromProto lib valSet of
             None \<Rightarrow> Inl (ErrForeign ''validator set is not tendermint validator set type'')
           | Some tmValset \<Rightarrow>
               if \<not> VerifyCommitLight cmt tmValset chainID blockID tmCommit then Inl client_ErrInvalidMisbehaviour else Inr ()))"

text \<open>Wrapping replaces the error of a header, but not a panic.\<close>

fun as_misbehaviour :: "unit result \<Rightarrow> unit result" where
  "as_misbehaviour (Inl (Panic m)) = Inl (Panic m)"
| "as_misbehaviour (Inl e) = Inl client_ErrInvalidMisbehaviour"
| "as_misbehaviour (Inr u) = Inr u"

definition tm_Misbehaviour_ValidateBasic :: "lib \<Rightarrow> comet \<Rightarrow> string \<Rightarrow> TmProtoHeader option \<Rightarrow> TmProtoHeader option \<Rightarrow> unit result" where
  "tm_Misbehaviour_ValidateBasic lib cmt clientId header1 header2 =
     (case header1 of None \<Rightarrow> Inl tendermint_ErrInvalidHeader | Some h1 \<Rightarrow>
      (case header2 of None \<Rightarrow> Inl tendermint_ErrInvalidHeader | Some h2 \<Rightarrow>
        if RevisionHeight (h_TrustedHeight h1) = 0 then Inl tendermint_ErrInvalidHeaderHeight
        else if RevisionHeight (h_TrustedHeight h2) = 0 then Inl tendermint_ErrInvalidHeaderHeight
        else if \<not> ph_HasTrustedValidators h1 then Inl tendermint_ErrInvalidValidatorSet
        else if \<not> ph_HasTrustedValidators h2 then Inl tendermint_ErrInvalidValidatorSet
        else if \<not> ph_HasSignedHeader h1 \<or> \<not> ph_HasHeader h1 \<or> \<not> ph_HasSignedHeader h2 \<or> \<not> ph_HasHeader h2
        then Inl (Panic ''nil pointer dereference'')
        else if h_ChainID h1 \<noteq> h_ChainID h2 then Inl client_ErrInvalidMisbehaviour
        else
          and_then (ClientIdentifierValidator clientId) (\<lambda>_.
          and_then (as_misbehaviour (tm_Header_ValidateBasic lib cmt h1)) (\<lambda>_.
          and_then (as_misbehaviour (tm_Header_ValidateBasic lib cmt h2)) (\<lambda>_.
          and_then (TmHeader_GetHeight (header_of h1)) (\<lambda>height1.
          and_then (TmHeader_GetHeight (header_of h2)) (\<lambda>height2.
          if LT height1 height2 then Inl client_ErrInvalidMisbehaviour
          else case BlockIDFromProto cmt (h_Commit h1) of
            None \<Rightarrow> Inl (ErrForeign ''invalid block ID from header 1 in misbehaviour'')
          | Some blockID1 \<Rightarrow>
              (case BlockIDFromProto cmt (h_Commit h2) of
                 None \<Rightarrow> Inl (ErrForeign ''invalid block ID from header 2 in misbehaviour'')
               | Some blockID2 \<Rightarrow>
                   and_then (validCommit lib cmt (h_ChainID h1) blockID1 (h_Commit h1) (h_ValidatorSet h1)) (\<lambda>_.
                   validCommit lib cmt (h_ChainID h2) blockID2 (h_Commit h2) (h_ValidatorSet h2))))))))))"

definition sm_Header_GetPubKey :: "lib \<Rightarrow> SmHeader \<Rightarrow> pub_key result" where
  "sm_Header_GetPubKey lib h =
     (case smh_NewPublicKey h of
        None \<Rightarrow> Inl solomachine_ErrInvalidHeader
      | Some k \<Rightarrow> (case UnpackPubKey lib k of None \<Rightarrow> Inl solomachine_ErrInvalidHeader | Some publicKey \<Rightarrow> Inr publicKey))"

definition sm_Header_ValidateBasic :: "lib \<Rightarrow> SmHeader \<Rightarrow> unit result" where
  "sm_Header_ValidateBasic lib h =
     (if smh_Timestamp h = 0 then Inl client_ErrInvalidHeader
      else if smh_NewDiversifier h \<noteq> [] \<and> is_blank (smh_NewDiversifier h) then Inl client_ErrInvalidHeader
      else if length (smh_Signature h) = 0 then Inl client_ErrInvalidHeader
      else case sm_Header_GetPubKey lib h of
        Inl e \<Rightarrow> Inl client_ErrInvalidHeader
      | Inr newPublicKey \<Rightarrow> if length (PubKeyBytes lib newPublicKey) = 0 then Inl client_ErrInvalidHeader else Inr ())"

definition SignatureAndData_ValidateBasic :: "SignatureAndData \<Rightarrow> unit result" where
  "SignatureAndData_ValidateBasic sd =
     (if length (sd_Signature sd) = 0 then Inl solomachine_ErrInvalidSignatureAndData
      else if length (sd_Data sd) = 0 then Inl solomachine_ErrInvalidSignatureAndData
      else if length (sd_Path sd) = 0 then Inl solomachine_ErrInvalidSignatureAndData
      else if sd_Timestamp sd = 0 then Inl solomachine_ErrInvalidSignatureAndData
      else Inr ())"

text \<open>The signatures are pointers; a nil one panics.\<close>

definition sm_Misbehaviour_ValidateBasic :: "u64 \<Rightarrow> SignatureAndData option \<Rightarrow> SignatureAndData option \<Rightarrow> unit result" where
  "sm_Misbehaviour_ValidateBasic sequence one two =
     (if sequence = 0 then Inl client_ErrInvalidMisbehaviour
      else case one of None \<Rightarrow> Inl (Panic ''nil pointer dereference'') | Some sd1 \<Rightarrow>
        and_then (SignatureAndData_ValidateBasic sd1) (\<lambda>_.
        case two of None \<Rightarrow> Inl (Panic ''nil pointer dereference'') | Some sd2 \<Rightarrow>
          and_then (SignatureAndData_ValidateBasic sd2) (\<lambda>_.
          if sd_Signature sd1 = sd_Signature sd2 then Inl client_ErrInvalidMisbehaviour
          else if sd_Path sd1 = sd_Path sd2 \<and> sd_Data sd1 = sd_Data sd2 then Inl client_ErrInvalidMisbehaviour
          else Inr ())))"

datatype ProtoClientMessage =
    ProtoTmHeader TmProtoHeader
  | ProtoTmMisbehaviour string "TmProtoHeader option" "TmProtoHeader option"
  | ProtoSmHeader SmHeader
  | ProtoSmMisbehaviour u64 "SignatureAndData option" "SignatureAndData option"

fun ClientMessage_ValidateBasic :: "lib \<Rightarrow> comet \<Rightarrow> ProtoClientMessage \<Rightarrow> unit result" where
  "ClientMessage_ValidateBasic lib cmt (ProtoTmHeader h) = tm_Header_ValidateBasic lib cmt h"
| "ClientMessage_ValidateBasic lib cmt (ProtoTmMisbehaviour cid h1 h2) = tm_Misbehaviour_ValidateBasic lib cmt cid h1 h2"
| "ClientMessage_ValidateBasic lib cmt (ProtoSmHeader h) = sm_Header_ValidateBasic lib h"
| "ClientMessage_ValidateBasic lib cmt (ProtoSmMisbehaviour n one two) = sm_Misbehaviour_ValidateBasic n one two"

section \<open>Messages\<close>

definition UnpackAny :: "'x option \<Rightarrow> 'x result" where
  "UnpackAny any = (case any of None \<Rightarrow> Inl ibcerrors_ErrUnpackAny | Some x \<Rightarrow> Inr x)"

record MsgCreateClient =
  mcc_ClientState :: "ClientState option"
  mcc_ConsensusState :: "ConsensusState option"
  mcc_Signer :: string

definition MsgCreateClient_ValidateBasic :: "(bytes \<Rightarrow> bool) \<Rightarrow> lib \<Rightarrow> bech32 \<Rightarrow> MsgCreateClient \<Rightarrow> unit result" where
  "MsgCreateClient_ValidateBasic vh lib bech msg =
     and_then (check_signer bech (mcc_Signer msg)) (\<lambda>_.
     and_then (UnpackAny (mcc_ClientState msg)) (\<lambda>clientState.
     and_then (ClientState_Validate lib clientState) (\<lambda>_.
     and_then (UnpackAny (mcc_ConsensusState msg)) (\<lambda>consensusState.
     if ClientType clientState \<noteq> ConsensusState_ClientType consensusState then Inl client_ErrInvalidClientType
     else
       and_then (ValidateClientType (ClientType clientState)) (\<lambda>_.
       ConsensusState_ValidateBasic vh lib consensusState)))))"

record MsgUpdateClient =
  muc_ClientId :: string
  muc_ClientMessage :: "ProtoClientMessage option"
  muc_Signer :: string

definition MsgUpdateClient_ValidateBasic :: "lib \<Rightarrow> comet \<Rightarrow> bech32 \<Rightarrow> MsgUpdateClient \<Rightarrow> unit result" where
  "MsgUpdateClient_ValidateBasic lib cmt bech msg =
     and_then (check_signer bech (muc_Signer msg)) (\<lambda>_.
     and_then (UnpackAny (muc_ClientMessage msg)) (\<lambda>clientMsg.
     and_then (ClientMessage_ValidateBasic lib cmt clientMsg) (\<lambda>_.
     ClientIdentifierValidator (muc_ClientId msg))))"

record MsgUpgradeClient =
  mug_ClientId :: string
  mug_ClientState :: "ClientState option"
  mug_ConsensusState :: "ConsensusState option"
  mug_ProofUpgradeClient :: bytes
  mug_ProofUpgradeConsensusState :: bytes
  mug_Signer :: string

definition MsgUpgradeClient_ValidateBasic :: "bech32 \<Rightarrow> MsgUpgradeClient \<Rightarrow> unit result" where
  "MsgUpgradeClient_ValidateBasic bech msg =
     and_then (UnpackAny (mug_ClientState msg)) (\<lambda>clientState.
     and_then (UnpackAny (mug_ConsensusState msg)) (\<lambda>consensusState.
     if ClientType clientState \<noteq> ConsensusState_ClientType consensusState then Inl client_ErrInvalidUpgradeClient
     else if length (mug_ProofUpgradeClient msg) = 0 then Inl client_ErrInvalidUpgradeClient
     else if length (mug_ProofUpgradeConsensusState msg) = 0 then Inl client_ErrInvalidUpgradeClient
     else
       and_then (check_signer bech (mug_Signer msg)) (\<lambda>_.
       ClientIdentifierValidator (mug_ClientId msg))))"

record MsgSubmitMisbehaviour =
  msm_ClientId :: string
  msm_Misbehaviour :: "ProtoClientMessage option"
  msm_Signer :: string

definition MsgSubmitMisbehaviour_ValidateBasic :: "lib \<Rightarrow> comet \<Rightarrow> bech32 \<Rightarrow> MsgSubmitMisbehaviour \<Rightarrow> unit result" where
  "MsgSubmitMisbehaviour_ValidateBasic lib cmt bech msg =
     and_then (check_signer bech (msm_Signer msg)) (\<lambda>_.
     and_then (UnpackAny (msm_Misbehaviour msg)) (\<lambda>misbehaviour.
     and_then (ClientMessage_ValidateBasic lib cmt misbehaviour) (\<lambda>_.
     ClientIdentifierValidator (msm_ClientId msg))))"

definition MsgCreateClient_GetSigners :: "bech32 \<Rightarrow> MsgCreateClient \<Rightarrow> bytes list result" where
  "MsgCreateClient_GetSigners bech msg = GetSigners bech (mcc_Signer msg)"

definition MsgUpdateClient_GetSigners :: "bech32 \<Rightarrow> MsgUpdateClient \<Rightarrow> bytes list result" where
  "MsgUpdateClient_GetSigners bech msg = GetSigners bech (muc_Signer msg)"

definition MsgUpgradeClient_GetSigners :: "bech32 \<Rightarrow> MsgUpgradeClient \<Rightarrow> bytes list result" where
  "MsgUpgradeClient_GetSigners bech msg = GetSigners bech (mug_Signer msg)"

definition MsgSubmitMisbehaviour_GetSigners :: "bech32 \<Rightarrow> MsgSubmitMisbehaviour \<Rightarrow> bytes list result" where
  "MsgSubmitMisbehaviour_GetSigners bech msg = GetSigners bech (msm_Signer msg)"

section \<open>Proposals\<close>

fun ZeroCustomFields :: "ClientState \<Rightarrow> ClientState result" where
  "ZeroCustomFields (TendermintClient cs) = Inr (TendermintClient (tm_ZeroCustomFields cs))"
| "ZeroCustomFields (SolomachineClient cs) = Inl (Panic ''ZeroCustomFields is not implemented'')"
| "ZeroCustomFields (LocalhostClient h) = Inr (LocalhostClient h)"

text \<open>A plan of the upgrade module: its name and height.\<close>

record Plan =
  plan_Name :: string
  plan_Height :: int

record ClientUpdateProposalContent =
  cup_Title :: string
  cup_Description :: string
  cup_SubjectClientId :: string
  cup_SubstituteClientId :: string

text \<open>\<open>govtypes.ValidateAbstract\<close> and \<open>Plan.ValidateBasic\<close> are parameters.\<close>

definition ClientUpdateProposal_ValidateBasic :: "(string \<Rightarrow> string \<Rightarrow> unit result) \<Rightarrow> ClientUpdateProposalContent \<Rightarrow> unit result" where
  "ClientUpdateProposal_ValidateBasic ValidateAbstract cup =
     and_then (ValidateAbstract (cup_Title cup) (cup_Description cup)) (\<lambda>_.
     if cup_SubjectClientId cup = cup_SubstituteClientId cup then Inl client_ErrInvalidSubstitute
     else
       and_then (ParseClientIdentifier (cup_SubjectClientId cup)) (\<lambda>_.
       and_then (ParseClientIdentifier (cup_SubstituteClientId cup)) (\<lambda>_. Inr ())))"

text \<open>The upgraded client state is nil, an Any value that does not unpack, or a client state.\<close>

record UpgradeProposal =
  up_Title :: string
  up_Description :: string
  up_Plan :: Plan
  up_UpgradedClientState :: "ClientState option option"

definition UpgradeProposal_ValidateBasic ::
  "(string \<Rightarrow> string \<Rightarrow> unit result) \<Rightarrow> (Plan \<Rightarrow> unit result) \<Rightarrow> UpgradeProposal \<Rightarrow> unit result" where
  "UpgradeProposal_ValidateBasic ValidateAbstract Plan_ValidateBasic up =
     and_then (ValidateAbstract (up_Title up) (up_Description up)) (\<lambda>_.
     and_then (Plan_ValidateBasic (up_Plan up)) (\<lambda>_.
     case up_UpgradedClientState up of
       None \<Rightarrow> Inl client_ErrInvalidUpgradeProposal
     | Some any \<Rightarrow>
         and_then (UnpackAny any) (\<lambda>clientState.
         and_then (ZeroCustomFields clientState) (\<lambda>zeroed.
         if clientState \<noteq> zeroed then Inl client_ErrInvalidUpgradeProposal else Inr ()))))"

section \<open>Upgrades of the chain\<close>

text \<open>The upgrade keeper, over its own state.\<close>

record 'u upgrade_keeper =
  GetUpgradePlan :: "'u \<Rightarrow> Plan option"
  ScheduleUpgrade :: "sdk_context \<Rightarrow> Plan \<Rightarrow> 'u \<Rightarrow> 'u result"
  SetUpgradedClient :: "int \<Rightarrow> bytes \<Rightarrow> 'u \<Rightarrow> 'u result"
  GetUpgradedClient :: "'u \<Rightarrow> int \<Rightarrow> bytes option"
  SetUpgradedConsensusState :: "int \<Rightarrow> bytes \<Rightarrow> 'u \<Rightarrow> 'u"
  GetUpgradedConsensusState :: "'u \<Rightarrow> int \<Rightarrow> bytes option"

definition HandleUpgradeProposal :: "lib \<Rightarrow> 'u upgrade_keeper \<Rightarrow> sdk_context \<Rightarrow> UpgradeProposal \<Rightarrow> 'u \<Rightarrow> 'u result" where
  "HandleUpgradeProposal lib uk ctx p u =
     and_then (case up_UpgradedClientState p of None \<Rightarrow> Inl ibcerrors_ErrUnpackAny | Some any \<Rightarrow> UnpackAny any) (\<lambda>clientState.
     and_then (ZeroCustomFields clientState) (\<lambda>cs.
     and_then (ScheduleUpgrade uk ctx (up_Plan p) u) (\<lambda>u1.
     SetUpgradedClient uk (plan_Height (up_Plan p)) (MarshalClientState lib cs) u1)))"

definition upgraded_consensus :: "sdk_context \<Rightarrow> bytes \<Rightarrow> ConsensusState" where
  "upgraded_consensus ctx nextValidatorsHash =
     TendermintConsensus \<lparr>tmc_Timestamp = BlockTime ctx, tmc_Root = [], tmc_NextValidatorsHash = nextValidatorsHash\<rparr>"

text \<open>The hash of the next validators is part of the block header.\<close>

definition begin_upgrade :: "lib \<Rightarrow> 'u upgrade_keeper \<Rightarrow> sdk_context \<Rightarrow> bytes \<Rightarrow> 'u \<Rightarrow> 'u" where
  "begin_upgrade lib uk ctx nextValidatorsHash u =
     (case GetUpgradePlan uk u of
        None \<Rightarrow> u
      | Some plan \<Rightarrow>
          if GetUpgradedClient uk u (plan_Height plan) \<noteq> None \<and> BlockHeight ctx = plan_Height plan - 1
          then SetUpgradedConsensusState uk (plan_Height plan)
                 (MarshalConsensusState lib (upgraded_consensus ctx nextValidatorsHash)) u
          else u)"

definition begin_localhost :: "sdk_context \<Rightarrow> kvstore \<Rightarrow> kvstore result" where
  "begin_localhost ctx s =
     (case GetClientState s LocalhostClientID of
        None \<Rightarrow> Inr s
      | Some clientState \<Rightarrow>
          and_then (GetClientStatus ctx s clientState LocalhostClientID) (\<lambda>status.
          if status = Active then and_then (UpdateLocalhostClient ctx clientState s) (\<lambda>(heights, t). Inr t) else Inr s))"

definition BeginBlocker ::
  "lib \<Rightarrow> 'u upgrade_keeper \<Rightarrow> sdk_context \<Rightarrow> bytes \<Rightarrow> 'u \<times> kvstore \<Rightarrow> ('u \<times> kvstore) result" where
  "BeginBlocker lib uk ctx nextValidatorsHash st =
     and_then (begin_localhost ctx (snd st)) (\<lambda>s. Inr (begin_upgrade lib uk ctx nextValidatorsHash (fst st), s))"

end
