(* ===== verification/Upgrade.thy ===== *)
theory Upgrade
  imports Client_Msgs Core_Queries Loopback
begin

text \<open>
  A planned upgrade of the chain, from the accepted proposal (\<open>HandleUpgradeProposal\<close>) over the following
  blocks (\<open>BeginBlocker\<close>) to what the queries then serve to the counterparties, who need the upgraded
  client and the last consensus state of this chain to upgrade their clients.
\<close>

section \<open>The upgrade module\<close>



section \<open>Blocks\<close>








section \<open>A chain upgrade\<close>







end
