(* ===== verification/Migrations.thy ===== *)
theory Migrations
  imports Core_Genesis_Props
begin

text \<open>
  Store migrations of the client submodule: \<open>core/02-client/migrations/v7/store.go\<close> (solo machines of the old
  definition, the old localhost client), \<open>localhost.go\<close>, and the pruning of expired consensus states of
  \<open>light-clients/07-tendermint/migrations\<close>. Decoding a client state of the old definition is a parameter.
\<close>

section \<open>Definitions\<close>

record V2SmConsensusState =
  v2c_PublicKey :: "bytes option"
  v2c_Diversifier :: string
  v2c_Timestamp :: u64

record V2SmClientState =
  v2_Sequence :: u64
  v2_IsFrozen :: bool
  v2_ConsensusState :: "V2SmConsensusState option"
  v2_AllowUpdateAfterProposal :: bool

definition migrateSolomachine :: "V2SmClientState \<Rightarrow> SmClientState result" where
  "migrateSolomachine cs =
     (case v2_ConsensusState cs of
        None \<Rightarrow> Inl (Panic ''nil pointer dereference'')
      | Some c \<Rightarrow>
          Inr \<lparr>sm_Sequence = v2_Sequence cs, sm_IsFrozen = v2_IsFrozen cs,
            sm_ConsensusState = Some \<lparr>smc_PublicKey = v2c_PublicKey c, smc_Diversifier = v2c_Diversifier c, smc_Timestamp = v2c_Timestamp c\<rparr>\<rparr>)"

text \<open>The loop over the client states of a type returns after the first Tendermint client.\<close>

fun collect_loop :: "(string \<times> kv_value) list \<Rightarrow> string list result" where
  "collect_loop [] = Inr []"
| "collect_loop ((path, v) # rest) =
     (if \<not> strings_Contains path KeyClientState then collect_loop rest
      else
        and_then (MustParseClientStatePath path) (\<lambda>clientID.
        if strings_Contains clientID Tendermint then Inr [clientID]
        else and_then (collect_loop rest) (\<lambda>clients. Inr (clientID # clients))))"

definition collectClients :: "kvstore \<Rightarrow> string \<Rightarrow> string list result" where
  "collectClients s clientType = collect_loop (prefix_values s (PrefixedClientStorePath clientType))"

definition removeAllClientConsensusStates :: "string \<Rightarrow> kvstore \<Rightarrow> kvstore result" where
  "removeAllClientConsensusStates cid s =
     and_then (collect (\<lambda>(key, v). MustParseHeight (Split key ''/'' ! 1))
       (filter (\<lambda>(key, v). let keySplit = Split key ''/'' in length keySplit = 2 \<and> keySplit ! 0 = KeyConsensusStatePrefix)
         (client_values s cid KeyConsensusStatePrefix))) (\<lambda>heights.
     Inr (fold (\<lambda>height. kv_delete (FullClientPath cid (ConsensusStateKey height))) heights s))"

fun migrate_solomachines :: "(kv_value \<Rightarrow> V2SmClientState option) \<Rightarrow> string list \<Rightarrow> kvstore \<Rightarrow> kvstore result" where
  "migrate_solomachines decode [] s = Inr s"
| "migrate_solomachines decode (clientID # rest) s =
     (case kv_get s (FullClientPath clientID ClientStateKey) of
        None \<Rightarrow> Inl client_ErrClientNotFound
      | Some bz \<Rightarrow>
          (case decode bz of
             None \<Rightarrow> Inl (ErrForeign ''failed to unmarshal client state bytes into solo machine client state'')
           | Some clientState \<Rightarrow>
               and_then (migrateSolomachine clientState) (\<lambda>updatedClientState.
               and_then (removeAllClientConsensusStates clientID (SetClientState clientID (SolomachineClient updatedClientState) s))
                 (migrate_solomachines decode rest))))"

definition handleSolomachineMigration :: "(kv_value \<Rightarrow> V2SmClientState option) \<Rightarrow> kvstore \<Rightarrow> kvstore result" where
  "handleSolomachineMigration decode s =
     and_then (collectClients s Solomachine) (\<lambda>clients. migrate_solomachines decode clients s)"

definition handleTendermintMigration :: "kvstore \<Rightarrow> unit result" where
  "handleTendermintMigration s =
     and_then (collectClients s Tendermint) (\<lambda>clients.
     case clients of
       [] \<Rightarrow> Inr ()
     | [clientID] \<Rightarrow>
         (case GetClientState s clientID of
            None \<Rightarrow> Inl client_ErrClientNotFound
          | Some (TendermintClient cs) \<Rightarrow> Inr ()
          | Some _ \<Rightarrow> Inl client_ErrInvalidClient)
     | _ \<Rightarrow> Inl ibcerrors_ErrLogic)"

fun remove_localhosts :: "string list \<Rightarrow> kvstore \<Rightarrow> kvstore result" where
  "remove_localhosts [] s = Inr s"
| "remove_localhosts (clientID # rest) s =
     and_then (removeAllClientConsensusStates clientID (kv_delete (FullClientPath clientID ClientStateKey) s)) (remove_localhosts rest)"

definition handleLocalhostMigration :: "kvstore \<Rightarrow> kvstore result" where
  "handleLocalhostMigration s = and_then (collectClients s Localhost) (\<lambda>clients. remove_localhosts clients s)"

definition MigrateStore :: "(kv_value \<Rightarrow> V2SmClientState option) \<Rightarrow> kvstore \<Rightarrow> kvstore result" where
  "MigrateStore decode s =
     and_then (handleSolomachineMigration decode s) (\<lambda>s1.
     and_then (handleTendermintMigration s1) (\<lambda>_. handleLocalhostMigration s1))"

definition MigrateLocalhostClient :: "sdk_context \<Rightarrow> kvstore \<Rightarrow> kvstore result" where
  "MigrateLocalhostClient ctx s = CreateLocalhostClient ctx s"

fun prune_clients :: "sdk_context \<Rightarrow> string list \<Rightarrow> nat \<Rightarrow> kvstore \<Rightarrow> (nat \<times> kvstore) result" where
  "prune_clients ctx [] totalPruned s = Inr (totalPruned, s)"
| "prune_clients ctx (clientID # rest) totalPruned s =
     (case GetClientState s clientID of
        None \<Rightarrow> Inl client_ErrClientNotFound
      | Some (TendermintClient cs) \<Rightarrow>
          (let (n, t) = PruneAllExpiredConsensusStates ctx clientID cs s in prune_clients ctx rest (totalPruned + n) t)
      | Some _ \<Rightarrow> Inl client_ErrInvalidClient)"

definition PruneExpiredConsensusStates :: "sdk_context \<Rightarrow> kvstore \<Rightarrow> (nat \<times> kvstore) result" where
  "PruneExpiredConsensusStates ctx s =
     and_then (IterateClientStates s Tendermint) (\<lambda>clients. prune_clients ctx (map fst clients) 0 s)"

section \<open>Removing the consensus states of a client\<close>

lemma fold_delete_lookup:
  "kv_get (fold (\<lambda>h. kv_delete (f h)) hs s) key = (if key \<in> f ` set hs then None else kv_get s key)"
  by (induction hs arbitrary: s) (auto simp: kv.get_del)

lemma collect_member: "collect f kvs = Inr ys \<Longrightarrow> x \<in> set kvs \<Longrightarrow> \<exists>y \<in> set ys. f x = Inr y"
  by (induction kvs arbitrary: ys) auto

lemma removeAll_effect:
  assumes "removeAllClientConsensusStates cid s = Inr t"
  shows "kv_get t (FullClientPath cid (ConsensusStateKey h)) = None"
    and "(\<And>h. key \<noteq> FullClientPath cid (ConsensusStateKey h)) \<Longrightarrow> kv_get t key = kv_get s key"
proof -
  let ?p = "\<lambda>(key, v). let keySplit = Split key ''/'' in length keySplit = 2 \<and> keySplit ! 0 = KeyConsensusStatePrefix"
  from assms obtain hs where hs: "collect (\<lambda>(key, v). MustParseHeight (Split key ''/'' ! 1)) (filter ?p (client_values s cid KeyConsensusStatePrefix)) = Inr hs"
    and t: "t = fold (\<lambda>height. kv_delete (FullClientPath cid (ConsensusStateKey height))) hs s"
    by (auto simp: removeAllClientConsensusStates_def)
  show "kv_get t key = kv_get s key" if "\<And>h. key \<noteq> FullClientPath cid (ConsensusStateKey h)"
    using that by (auto simp: t fold_delete_lookup)
  have "h \<in> set hs" if "kv_get s (FullClientPath cid (ConsensusStateKey h)) = Some v" for v
  proof -
    have "(ConsensusStateKey h, v) \<in> set (filter ?p (client_values s cid KeyConsensusStatePrefix))"
      using that by (simp add: client_values_iff kv_get_def Split_processed) (simp add: ConsensusStateKey_def ConsensusStatePath_def)
    from collect_member [OF hs this] show ?thesis by (simp add: Split_processed MustParseHeight_def)
  qed
  then show "kv_get t (FullClientPath cid (ConsensusStateKey h)) = None"
    by (cases "kv_get s (FullClientPath cid (ConsensusStateKey h))") (auto simp: t fold_delete_lookup)
qed

text \<open>The keys of a client store.\<close>

lemma FullClientPath_eq:
  "slash_free c \<Longrightarrow> slash_free d \<Longrightarrow> FullClientPath c k = FullClientPath d l \<longleftrightarrow> c = d \<and> k = l"
  by (simp add: FullClientPath_def slash_append_inj)

lemma HasPrefix_client: "HasPrefix (FullClientPath c k) (FullClientPath c [])"
  by (auto simp: FullClientPath_def HasPrefix_iff)

lemma state_not_consensus: "ClientStateKey \<noteq> ConsensusStateKey h"
  by (simp add: ClientStateKey_def ConsensusStateKey_def ConsensusStatePath_def)

lemma outside_client:
  "\<not> HasPrefix key (FullClientPath c []) \<Longrightarrow> key \<noteq> FullClientPath c k"
  by (auto simp: HasPrefix_client)

lemma away_from_client:
  "slash_free c \<Longrightarrow> slash_free d \<Longrightarrow> c \<noteq> d \<Longrightarrow> \<not> HasPrefix (FullClientPath c k) (FullClientPath d [])"
  by (auto simp: HasPrefix_iff FullClientPath_def slash_append_inj)

text \<open>What the migration makes of one solo machine.\<close>

definition migrated :: "(kv_value \<Rightarrow> V2SmClientState option) \<Rightarrow> string \<Rightarrow> kvstore \<Rightarrow> kvstore \<Rightarrow> bool" where
  "migrated decode c s t =
     (\<exists>v old cs. kv_get s (FullClientPath c ClientStateKey) = Some v \<and> decode v = Some old \<and> migrateSolomachine old = Inr cs
      \<and> kv_get t (FullClientPath c ClientStateKey) = Some (ClientStateBz (SolomachineClient cs))
      \<and> (\<forall>h. kv_get t (FullClientPath c (ConsensusStateKey h)) = None))"

lemma migrate_solomachines_effect:
  "migrate_solomachines decode cids s = Inr t \<Longrightarrow> list_all slash_free cids \<Longrightarrow> distinct cids \<Longrightarrow>
    (\<forall>key. (\<forall>c \<in> set cids. \<not> HasPrefix key (FullClientPath c [])) \<longrightarrow> kv_get t key = kv_get s key)
    \<and> (\<forall>c \<in> set cids. migrated decode c s t) \<and> (\<forall>key. kv_get s key = None \<longrightarrow> kv_get t key = None)"
proof (induction cids arbitrary: s)
  case (Cons d cids)
  from Cons.prems(1) obtain v old cs s1 where d: "kv_get s (FullClientPath d ClientStateKey) = Some v" "decode v = Some old" "migrateSolomachine old = Inr cs"
    and r: "removeAllClientConsensusStates d (SetClientState d (SolomachineClient cs) s) = Inr s1" and m: "migrate_solomachines decode cids s1 = Inr t"
    by (auto split: option.splits)
  have sf: "slash_free d" "list_all slash_free cids" "distinct cids" "d \<notin> set cids" using Cons.prems(2,3) by auto
  note eff = removeAll_effect [OF r]
  note IH = Cons.IH [OF m sf(2,3)]
  have same: "kv_get s1 k = kv_get s k" if "\<not> HasPrefix k (FullClientPath d [])" for k
    using eff(2) [of k] outside_client [OF that] by (simp add: SetClientState_def kv.get_put)
  have k: "kv_get t (FullClientPath d k) = kv_get s1 (FullClientPath d k)" for k
  proof -
    have "\<forall>c \<in> set cids. \<not> HasPrefix (FullClientPath d k) (FullClientPath c [])"
      by (intro ballI away_from_client) (use sf in \<open>auto simp: list_all_iff\<close>)
    with IH show ?thesis by simp
  qed
  have "kv_get s1 (FullClientPath d ClientStateKey) = Some (ClientStateBz (SolomachineClient cs))"
    using eff(2) [of "FullClientPath d ClientStateKey"] sf(1) state_not_consensus
    by (simp add: FullClientPath_eq SetClientState_def kv.get_put)
  then have "migrated decode d s t" using d k eff(1) by (auto simp: migrated_def)
  moreover have "migrated decode c s t" if "c \<in> set cids" for c
  proof -
    have "slash_free c" "c \<noteq> d" using that sf by (auto simp: list_all_iff)
    then show ?thesis using IH that same away_from_client [of c d ClientStateKey] sf(1) by (auto simp: migrated_def)
  qed
  moreover have "kv_get s1 k = None" if "kv_get s k = None" for k
    using that d(1) eff [of _] by (cases "\<exists>h. k = FullClientPath d (ConsensusStateKey h)") (auto simp: SetClientState_def kv.get_put)
  ultimately show ?case using IH same by auto
qed simp

lemma remove_localhosts_effect:
  "remove_localhosts cids s = Inr t \<Longrightarrow> list_all slash_free cids \<Longrightarrow>
    (\<forall>key. (\<forall>c \<in> set cids. \<not> HasPrefix key (FullClientPath c [])) \<longrightarrow> kv_get t key = kv_get s key)
    \<and> (\<forall>c \<in> set cids. kv_get t (FullClientPath c ClientStateKey) = None \<and> (\<forall>h. kv_get t (FullClientPath c (ConsensusStateKey h)) = None))
    \<and> (\<forall>key. kv_get s key = None \<longrightarrow> kv_get t key = None)"
proof (induction cids arbitrary: s)
  case (Cons d cids)
  from Cons.prems(1) obtain s1 where r: "removeAllClientConsensusStates d (kv_delete (FullClientPath d ClientStateKey) s) = Inr s1"
    and m: "remove_localhosts cids s1 = Inr t" by auto
  note eff = removeAll_effect [OF r]
  note IH = Cons.IH [OF m]
  have sf: "slash_free d" "list_all slash_free cids" using Cons.prems(2) by auto
  have same: "kv_get s1 k = kv_get s k" if "\<not> HasPrefix k (FullClientPath d [])" for k
    using eff(2) [of k] outside_client [OF that] by (simp add: kv.get_del)
  have gone: "kv_get s1 (FullClientPath d ClientStateKey) = None"
    using eff(2) [of "FullClientPath d ClientStateKey"] sf(1) state_not_consensus by (simp add: FullClientPath_eq kv.get_del)
  have less: "kv_get s1 k = None" if "kv_get s k = None" for k
    using that eff [of _] by (cases "\<exists>h. k = FullClientPath d (ConsensusStateKey h)") (auto simp: kv.get_del)
  show ?case using IH [OF sf(2)] same gone less eff(1) by auto
qed simp

section \<open>Collecting clients\<close>

text \<open>
  In a store the keepers wrote, the paths that contain the word \<open>clientState\<close> are those of client states, and
  the identifiers of solo machines and localhost clients do not name the Tendermint client.
\<close>

definition client_paths_ok :: "kvstore \<Rightarrow> bool" where
  "client_paths_ok s =
     (\<forall>key v. kv_get s key = Some v \<and> HasPrefix key (PrefixedClientStorePath []) \<and> strings_Contains key KeyClientState \<longrightarrow>
       (\<exists>c. key = FullClientPath c ClientStateKey \<and> slash_free c \<and> \<not> is_blank c
          \<and> (HasPrefix c Solomachine \<or> HasPrefix c Localhost \<longrightarrow> \<not> strings_Contains c Tendermint)))"

lemma parse_state_path: "slash_free c \<Longrightarrow> \<not> is_blank c \<Longrightarrow> MustParseClientStatePath (FullClientPath c ClientStateKey) = Inr c"
  by (simp add: MustParseClientStatePath_def parseClientStatePath_def Split_client ClientStateKey_def Split_slash_free)

lemma collect_loop_all:
  assumes "\<And>key v. (key, v) \<in> set kvs \<Longrightarrow> strings_Contains key KeyClientState \<Longrightarrow>
      \<exists>c. key = FullClientPath c ClientStateKey \<and> slash_free c \<and> \<not> is_blank c \<and> \<not> strings_Contains c Tendermint"
    and "distinct (map fst kvs)"
  shows "\<exists>cs. collect_loop kvs = Inr cs \<and> distinct cs \<and> list_all slash_free cs
    \<and> (\<forall>c. c \<in> set cs \<longleftrightarrow> slash_free c \<and> FullClientPath c ClientStateKey \<in> fst ` set kvs)"
  using assms
proof (induction kvs)
  case (Cons kv kvs)
  obtain key v where kv: "kv = (key, v)" by (cases kv)
  have "\<exists>cs. collect_loop kvs = Inr cs \<and> distinct cs \<and> list_all slash_free cs
    \<and> (\<forall>c. c \<in> set cs \<longleftrightarrow> slash_free c \<and> FullClientPath c ClientStateKey \<in> fst ` set kvs)"
    by (rule Cons.IH) (use Cons.prems in auto)
  then obtain cs where cs: "collect_loop kvs = Inr cs" "distinct cs" "list_all slash_free cs"
    "\<forall>c. c \<in> set cs \<longleftrightarrow> slash_free c \<and> FullClientPath c ClientStateKey \<in> fst ` set kvs" by blast
  have con: "strings_Contains (FullClientPath c ClientStateKey) KeyClientState" for c
    unfolding FullClientPath_def ClientStateKey_def by (intro strings_Contains_append strings_Contains_self)
  show ?case
  proof (cases "strings_Contains key KeyClientState")
    case True
    with Cons.prems(1) [of key v] obtain c where c: "key = FullClientPath c ClientStateKey" "slash_free c" "\<not> is_blank c" "\<not> strings_Contains c Tendermint"
      by (auto simp: kv)
    moreover have "c \<notin> set cs" using cs(4) Cons.prems(2) by (auto simp: kv c(1))
    ultimately show ?thesis using cs True
      by (intro exI [of _ "c # cs"]) (auto simp: kv parse_state_path FullClientPath_eq)
  next
    case False
    then have "key \<noteq> FullClientPath c ClientStateKey" for c using con [of c] by metis
    with False cs show ?thesis by (intro exI [of _ cs]) (auto simp: kv)
  qed
qed simp

lemma state_prefix:
  assumes "slash_free c" "slash_free kd"
  shows "HasPrefix (FullClientPath c ClientStateKey) (PrefixedClientStorePath kd) \<longleftrightarrow> HasPrefix c kd"
proof
  assume "HasPrefix (FullClientPath c ClientStateKey) (PrefixedClientStorePath kd)"
  then obtain r where "c @ CHR ''/'' # ClientStateKey = kd @ r" by (auto simp: HasPrefix_iff FullClientPath_def PrefixedClientStorePath_def)
  then show "HasPrefix c kd" using assms
    by (auto simp: HasPrefix_iff append_eq_append_conv2 Cons_eq_append_conv append_eq_Cons_conv slash_free_def)
qed (auto simp: HasPrefix_iff FullClientPath_def PrefixedClientStorePath_def)

lemma collectClients_all:
  assumes ok: "client_paths_ok s" and kd: "kd = Solomachine \<or> kd = Localhost"
  shows "\<exists>cs. collectClients s kd = Inr cs \<and> distinct cs \<and> list_all slash_free cs
    \<and> (\<forall>c. c \<in> set cs \<longleftrightarrow> slash_free c \<and> HasPrefix c kd \<and> kv_get s (FullClientPath c ClientStateKey) \<noteq> None)"
proof -
  have free: "slash_free kd" using kd by auto
  note pre = state_prefix [OF _ free]
  have paths: "\<exists>c. key = FullClientPath c ClientStateKey \<and> slash_free c \<and> \<not> is_blank c \<and> \<not> strings_Contains c Tendermint"
    if "(key, v) \<in> set (prefix_values s (PrefixedClientStorePath kd))" "strings_Contains key KeyClientState" for key v
  proof -
    from that(1) have k: "kv_get s key = Some v" "HasPrefix key (PrefixedClientStorePath kd)" by (auto simp: prefix_values_iff kv_get_def)
    then have "HasPrefix key (PrefixedClientStorePath [])" by (auto simp: HasPrefix_iff PrefixedClientStorePath_def)
    with ok k(1) that(2) obtain c where c: "key = FullClientPath c ClientStateKey" "slash_free c" "\<not> is_blank c"
      "HasPrefix c Solomachine \<or> HasPrefix c Localhost \<longrightarrow> \<not> strings_Contains c Tendermint" unfolding client_paths_ok_def by metis
    moreover have "HasPrefix c kd" using k(2) pre [OF c(2)] c(1) by simp
    ultimately show ?thesis using kd by blast
  qed
  have "\<exists>cs. collect_loop (prefix_values s (PrefixedClientStorePath kd)) = Inr cs \<and> distinct cs \<and> list_all slash_free cs
    \<and> (\<forall>c. c \<in> set cs \<longleftrightarrow> slash_free c \<and> FullClientPath c ClientStateKey \<in> fst ` set (prefix_values s (PrefixedClientStorePath kd)))"
    by (rule collect_loop_all [OF _ prefix_values_distinct]) (rule paths)
  then obtain cs where
    cs: "collectClients s kd = Inr cs" "distinct cs" "list_all slash_free cs"
    "\<forall>c. c \<in> set cs \<longleftrightarrow> slash_free c \<and> FullClientPath c ClientStateKey \<in> fst ` set (prefix_values s (PrefixedClientStorePath kd))"
    unfolding collectClients_def by blast
  have "key \<in> fst ` set (prefix_values s q) \<longleftrightarrow> kv_get s key \<noteq> None \<and> HasPrefix key q" for key q
    by (auto simp: prefix_values_iff kv_get_def image_iff Bex_def)
  with cs pre show ?thesis by auto
qed

lemma client_paths_ok_sub:
  assumes "client_paths_ok s" and "\<forall>key. kv_get s key = None \<longrightarrow> kv_get t key = None"
  shows "client_paths_ok t"
  unfolding client_paths_ok_def
proof (intro allI impI, elim conjE)
  fix key v assume "kv_get t key = Some v" and k: "HasPrefix key (PrefixedClientStorePath [])" "strings_Contains key KeyClientState"
  then obtain w where "kv_get s key = Some w" using assms(2) by (cases "kv_get s key") auto
  with assms(1) k show "\<exists>c. key = FullClientPath c ClientStateKey \<and> slash_free c \<and> \<not> is_blank c
      \<and> (HasPrefix c Solomachine \<or> HasPrefix c Localhost \<longrightarrow> \<not> strings_Contains c Tendermint)" unfolding client_paths_ok_def by metis
qed

lemma client_in_prefix: "HasPrefix c kd \<Longrightarrow> HasPrefix key (FullClientPath c []) \<Longrightarrow> HasPrefix key (PrefixedClientStorePath kd)"
  by (auto simp: HasPrefix_iff FullClientPath_def PrefixedClientStorePath_def)

lemma prefixes_apart:
  "HasPrefix c Solomachine \<Longrightarrow> \<not> HasPrefix c Localhost" "HasPrefix c Solomachine \<Longrightarrow> \<not> HasPrefix c Tendermint"
  by (auto simp: HasPrefix_iff)

section \<open>The migration of the client store\<close>

text \<open>
  A store of the old layout: its solo machines decode, the heights of its consensus states parse, and a
  client with a Tendermint identifier is one.
\<close>

definition heights_ok :: "kvstore \<Rightarrow> bool" where
  "heights_ok s =
     (\<forall>c k. slash_free c \<and> kv_get s (FullClientPath c k) \<noteq> None \<and> length (Split k ''/'') = 2 \<and> Split k ''/'' ! 0 = KeyConsensusStatePrefix \<longrightarrow>
       (\<exists>h. MustParseHeight (Split k ''/'' ! 1) = Inr h))"

definition old_solomachine :: "(kv_value \<Rightarrow> V2SmClientState option) \<Rightarrow> kvstore \<Rightarrow> string \<Rightarrow> bool" where
  "old_solomachine decode s c =
     (\<exists>v old con. kv_get s (FullClientPath c ClientStateKey) = Some v \<and> decode v = Some old \<and> v2_ConsensusState old = Some con)"

definition old_layout :: "(kv_value \<Rightarrow> V2SmClientState option) \<Rightarrow> kvstore \<Rightarrow> bool" where
  "old_layout decode s =
     (heights_ok s
      \<and> (\<forall>c. slash_free c \<and> HasPrefix c Solomachine \<and> kv_get s (FullClientPath c ClientStateKey) \<noteq> None \<longrightarrow> old_solomachine decode s c)
      \<and> (\<forall>c v. slash_free c \<and> HasPrefix c Tendermint \<and> kv_get s (FullClientPath c ClientStateKey) = Some v \<longrightarrow>
           (\<exists>cs. v = ClientStateBz (TendermintClient cs))))"

lemma heights_ok_sub: "heights_ok s \<Longrightarrow> (\<And>key. kv_get s key = None \<Longrightarrow> kv_get t key = None) \<Longrightarrow> heights_ok t"
  unfolding heights_ok_def by metis

lemma collect_total: "(\<And>x. x \<in> set kvs \<Longrightarrow> \<exists>y. f x = Inr y) \<Longrightarrow> \<exists>ys. collect f kvs = Inr ys"
  by (induction kvs) fastforce+

lemma removeAll_total:
  assumes "heights_ok s" "slash_free c"
  shows "\<exists>t. removeAllClientConsensusStates c s = Inr t"
proof -
  have "\<exists>ys. collect (\<lambda>(key, v). MustParseHeight (Split key ''/'' ! 1))
      (filter (\<lambda>(key, v). let keySplit = Split key ''/'' in length keySplit = 2 \<and> keySplit ! 0 = KeyConsensusStatePrefix)
        (client_values s c KeyConsensusStatePrefix)) = Inr ys"
  proof (rule collect_total, clarify)
    fix k v assume kv: "(k, v) \<in> set (filter (\<lambda>(key, v). let keySplit = Split key ''/'' in length keySplit = 2 \<and> keySplit ! 0 = KeyConsensusStatePrefix)
        (client_values s c KeyConsensusStatePrefix))"
    then have "kv_get s (FullClientPath c k) \<noteq> None" by (auto simp: client_values_iff kv_get_def)
    with kv assms show "\<exists>h. MustParseHeight (Split k ''/'' ! 1) = Inr h" unfolding heights_ok_def Let_def by auto
  qed
  then show ?thesis by (auto simp: removeAllClientConsensusStates_def)
qed

lemma removeAll_less: "removeAllClientConsensusStates c s = Inr t \<Longrightarrow> kv_get s key = None \<Longrightarrow> kv_get t key = None"
  using removeAll_effect [of c s t] by (cases "\<exists>h. key = FullClientPath c (ConsensusStateKey h)") auto

lemma removeAll_outside:
  "removeAllClientConsensusStates c s = Inr t \<Longrightarrow> slash_free c \<Longrightarrow> slash_free d \<Longrightarrow> c \<noteq> d \<Longrightarrow>
    kv_get t (FullClientPath d k) = kv_get s (FullClientPath d k)"
  by (rule removeAll_effect(2)) (auto simp: FullClientPath_eq)

lemma migrate_solomachines_total:
  "heights_ok s \<Longrightarrow> list_all slash_free cids \<Longrightarrow> distinct cids \<Longrightarrow> list_all (old_solomachine decode s) cids \<Longrightarrow>
    \<exists>t. migrate_solomachines decode cids s = Inr t"
proof (induction cids arbitrary: s)
  case (Cons d cids)
  from Cons.prems(4) obtain v old con where v: "kv_get s (FullClientPath d ClientStateKey) = Some v" "decode v = Some old" "v2_ConsensusState old = Some con"
    by (auto simp: old_solomachine_def)
  then obtain cs where cs: "migrateSolomachine old = Inr cs" by (simp add: migrateSolomachine_def)
  let ?s = "SetClientState d (SolomachineClient cs) s"
  have less: "kv_get ?s key = None" if "kv_get s key = None" for key
    using that v(1) by (auto simp: SetClientState_def kv.get_put)
  have sf: "slash_free d" "list_all slash_free cids" "distinct cids" "d \<notin> set cids" using Cons.prems(2,3) by auto
  have "heights_ok ?s" by (rule heights_ok_sub [OF Cons.prems(1) less])
  then obtain s1 where s1: "removeAllClientConsensusStates d ?s = Inr s1" using removeAll_total sf(1) by blast
  have "heights_ok s1" by (rule heights_ok_sub [OF Cons.prems(1)]) (use less removeAll_less [OF s1] in blast)
  moreover have "old_solomachine decode s1 c" if "c \<in> set cids" for c
  proof -
    have "slash_free c" "c \<noteq> d" "old_solomachine decode s c" using that sf Cons.prems(4) by (auto simp: list_all_iff)
    then show ?thesis using removeAll_outside [OF s1 sf(1), of c ClientStateKey] sf(1)
      by (simp add: old_solomachine_def SetClientState_def kv.get_put FullClientPath_eq)
  qed
  ultimately obtain t where "migrate_solomachines decode cids s1 = Inr t" using Cons.IH [of s1] sf(2,3) by (auto simp: list_all_iff)
  then show ?case using v cs s1 by simp
qed simp

lemma remove_localhosts_total:
  "heights_ok s \<Longrightarrow> list_all slash_free cids \<Longrightarrow> \<exists>t. remove_localhosts cids s = Inr t"
proof (induction cids arbitrary: s)
  case (Cons d cids)
  let ?s = "kv_delete (FullClientPath d ClientStateKey) s"
  have ok: "heights_ok ?s" by (rule heights_ok_sub [OF Cons.prems(1)]) (simp add: kv.get_del)
  then obtain s1 where s1: "removeAllClientConsensusStates d ?s = Inr s1" using removeAll_total Cons.prems(2) by auto
  have "heights_ok s1" by (rule heights_ok_sub [OF ok]) (rule removeAll_less [OF s1])
  then show ?case using Cons.IH [of s1] Cons.prems(2) s1 by auto
qed simp

text \<open>Of the Tendermint clients only the first is looked at.\<close>

lemma collect_loop_one:
  assumes "\<And>key v. (key, v) \<in> set kvs \<Longrightarrow> strings_Contains key KeyClientState \<Longrightarrow>
      \<exists>c. key = FullClientPath c ClientStateKey \<and> slash_free c \<and> \<not> is_blank c \<and> strings_Contains c Tendermint"
  shows "collect_loop kvs = Inr []
    \<or> (\<exists>c. collect_loop kvs = Inr [c] \<and> slash_free c \<and> FullClientPath c ClientStateKey \<in> fst ` set kvs)"
  using assms
proof (induction kvs)
  case (Cons kv kvs)
  obtain key v where kv: "kv = (key, v)" by (cases kv)
  show ?case
  proof (cases "strings_Contains key KeyClientState")
    case True
    with Cons.prems [of key v] obtain c where c: "key = FullClientPath c ClientStateKey" "slash_free c" "\<not> is_blank c" "strings_Contains c Tendermint"
      by (auto simp: kv)
    with True have "collect_loop (kv # kvs) = Inr [c]" by (simp add: kv parse_state_path)
    with c show ?thesis by (auto simp: kv)
  next
    case False
    have "collect_loop kvs = Inr [] \<or> (\<exists>c. collect_loop kvs = Inr [c] \<and> slash_free c \<and> FullClientPath c ClientStateKey \<in> fst ` set kvs)"
      by (rule Cons.IH) (use Cons.prems in auto)
    with False show ?thesis by (auto simp: kv)
  qed
qed simp

lemma tendermint_migration_ok:
  assumes ok: "client_paths_ok s"
    and tm: "\<And>c v. slash_free c \<Longrightarrow> HasPrefix c Tendermint \<Longrightarrow> kv_get s (FullClientPath c ClientStateKey) = Some v \<Longrightarrow>
      \<exists>cs. v = ClientStateBz (TendermintClient cs)"
  shows "handleTendermintMigration s = Inr ()"
proof -
  let ?kvs = "prefix_values s (PrefixedClientStorePath Tendermint)"
  have path: "\<exists>c. key = FullClientPath c ClientStateKey \<and> slash_free c \<and> \<not> is_blank c \<and> HasPrefix c Tendermint"
    if "(key, v) \<in> set ?kvs" "strings_Contains key KeyClientState" for key v
  proof -
    from that(1) have k: "kv_get s key = Some v" "HasPrefix key (PrefixedClientStorePath Tendermint)" by (auto simp: prefix_values_iff kv_get_def)
    then have "HasPrefix key (PrefixedClientStorePath [])" by (auto simp: HasPrefix_iff PrefixedClientStorePath_def)
    with ok k(1) that(2) obtain c where c: "key = FullClientPath c ClientStateKey" "slash_free c" "\<not> is_blank c"
      unfolding client_paths_ok_def by metis
    then show ?thesis using k(2) state_prefix [of c Tendermint] by auto
  qed
  have con: "HasPrefix c Tendermint \<Longrightarrow> strings_Contains c Tendermint" for c
    by (cases c) auto
  have "collect_loop ?kvs = Inr [] \<or> (\<exists>c. collect_loop ?kvs = Inr [c] \<and> slash_free c \<and> FullClientPath c ClientStateKey \<in> fst ` set ?kvs)"
    by (rule collect_loop_one) (use path con in blast)
  then consider "collectClients s Tendermint = Inr []"
    | c where "collectClients s Tendermint = Inr [c]" "slash_free c" "FullClientPath c ClientStateKey \<in> fst ` set ?kvs"
    unfolding collectClients_def by blast
  then show ?thesis
  proof cases
    case 1
    then show ?thesis by (simp add: handleTendermintMigration_def)
  next
    case 2
    then obtain v where v: "kv_get s (FullClientPath c ClientStateKey) = Some v" "HasPrefix (FullClientPath c ClientStateKey) (PrefixedClientStorePath Tendermint)"
      by (auto simp: prefix_values_iff kv_get_def)
    then obtain cs where "v = ClientStateBz (TendermintClient cs)" using tm [OF 2(2)] state_prefix [OF 2(2), of Tendermint] by auto
    with 2(1) v(1) show ?thesis
      by (simp add: handleTendermintMigration_def GetClientState_def kv_typed_def kv_get_def)
  qed
qed

text \<open>
  C35: the migration to version 7. On a store of the old layout with well-formed client paths it succeeds: every
  solo machine has the new form of its old state and no consensus states, no localhost client is left,
  and nothing outside the stores of solo machines and localhost clients has changed.
\<close>

theorem v7_migration_effect:
  assumes ok: "client_paths_ok s" and old: "old_layout decode s"
  shows "\<exists>t. MigrateStore decode s = Inr t
    \<and> (\<forall>key. \<not> HasPrefix key (PrefixedClientStorePath Solomachine) \<and> \<not> HasPrefix key (PrefixedClientStorePath Localhost) \<longrightarrow>
      kv_get t key = kv_get s key)
    \<and> (\<forall>c. slash_free c \<and> HasPrefix c Solomachine \<and> kv_get s (FullClientPath c ClientStateKey) \<noteq> None \<longrightarrow> migrated decode c s t)
    \<and> (\<forall>c. slash_free c \<and> HasPrefix c Localhost \<longrightarrow> kv_get t (FullClientPath c ClientStateKey) = None)"
proof -
  from collectClients_all [OF ok, of Solomachine] obtain cs where cs: "collectClients s Solomachine = Inr cs" "distinct cs" "list_all slash_free cs"
    "\<forall>c. c \<in> set cs \<longleftrightarrow> slash_free c \<and> HasPrefix c Solomachine \<and> kv_get s (FullClientPath c ClientStateKey) \<noteq> None" by auto
  have "heights_ok s" "list_all (old_solomachine decode s) cs" using old cs(4) by (auto simp: old_layout_def list_all_iff)
  then obtain s1 where s1: "migrate_solomachines decode cs s = Inr s1" using migrate_solomachines_total cs(2,3) by blast
  note solo = migrate_solomachines_effect [OF s1 cs(3,2)]
  have ok1: "client_paths_ok s1" using solo by (intro client_paths_ok_sub [OF ok]) blast
  have "heights_ok s1" using heights_ok_sub [OF \<open>heights_ok s\<close>] solo by blast
  from collectClients_all [OF ok1, of Localhost] obtain ls where ls: "collectClients s1 Localhost = Inr ls" "list_all slash_free ls"
    "\<forall>c. c \<in> set ls \<longleftrightarrow> slash_free c \<and> HasPrefix c Localhost \<and> kv_get s1 (FullClientPath c ClientStateKey) \<noteq> None" by auto
  obtain t where rl: "remove_localhosts ls s1 = Inr t" using remove_localhosts_total [OF \<open>heights_ok s1\<close> ls(2)] by blast
  have "handleTendermintMigration s1 = Inr ()"
  proof (rule tendermint_migration_ok [OF ok1])
    fix c v assume c: "slash_free c" "HasPrefix c Tendermint" "kv_get s1 (FullClientPath c ClientStateKey) = Some v"
    have "\<forall>d \<in> set cs. \<not> HasPrefix (FullClientPath c ClientStateKey) (FullClientPath d [])"
      using c(1,2) cs(4) prefixes_apart by (intro ballI away_from_client) auto
    then have "kv_get s (FullClientPath c ClientStateKey) = Some v" using solo c(3) by simp
    with old c(1,2) show "\<exists>cs. v = ClientStateBz (TendermintClient cs)" by (auto simp: old_layout_def)
  qed
  then have run: "MigrateStore decode s = Inr t" using cs(1) s1 ls(1) rl
    by (simp add: MigrateStore_def handleSolomachineMigration_def handleLocalhostMigration_def)
  note local = remove_localhosts_effect [OF rl ls(2)]
  have "kv_get t key = kv_get s key"
    if "\<not> HasPrefix key (PrefixedClientStorePath Solomachine)" "\<not> HasPrefix key (PrefixedClientStorePath Localhost)" for key
  proof -
    have "\<forall>c \<in> set ls. \<not> HasPrefix key (FullClientPath c [])" "\<forall>c \<in> set cs. \<not> HasPrefix key (FullClientPath c [])"
      using that cs(4) ls(3) client_in_prefix by blast+
    with solo local show ?thesis by simp
  qed
  moreover have "migrated decode c s t" if c: "slash_free c" "HasPrefix c Solomachine" "kv_get s (FullClientPath c ClientStateKey) \<noteq> None" for c
  proof -
    have "\<forall>d \<in> set ls. \<not> HasPrefix (FullClientPath c k) (FullClientPath d [])" for k
      using c(1,2) ls(3) prefixes_apart by (intro ballI away_from_client) auto
    then have same: "kv_get t (FullClientPath c k) = kv_get s1 (FullClientPath c k)" for k using local by blast
    have "migrated decode c s s1" using solo cs(4) c by blast
    then show ?thesis by (simp add: migrated_def same)
  qed
  moreover have "kv_get t (FullClientPath c ClientStateKey) = None" if "slash_free c" "HasPrefix c Localhost" for c
    using that ls(3) local by (cases "kv_get s1 (FullClientPath c ClientStateKey)") auto
  ultimately show ?thesis using run by (intro exI [of _ t]) simp
qed

definition ex_v2_solo :: V2SmClientState where
  "ex_v2_solo = \<lparr>v2_Sequence = 3, v2_IsFrozen = False,
     v2_ConsensusState = Some \<lparr>v2c_PublicKey = Some [1], v2c_Diversifier = ''d'', v2c_Timestamp = 5\<rparr>, v2_AllowUpdateAfterProposal = True\<rparr>"

definition ex_v3_solo :: SmClientState where
  "ex_v3_solo = \<lparr>sm_Sequence = 3, sm_IsFrozen = False,
     sm_ConsensusState = Some \<lparr>smc_PublicKey = Some [1], smc_Diversifier = ''d'', smc_Timestamp = 5\<rparr>\<rparr>"

definition ex_old_entries :: "(string \<times> kv_value) list" where
  "ex_old_entries =
     [(FullClientPath ''06-solomachine-0'' ClientStateKey, BytesBz [1]),
      (FullClientPath ''06-solomachine-0'' (ConsensusStateKey (NewHeight 0 1)), BytesBz [2]),
      (FullClientPath ''07-tendermint-1'' ClientStateKey, ClientStateBz (TendermintClient ex_tm)),
      (FullClientPath ''09-localhost'' ClientStateKey, BytesBz [3])]"

definition ex_old_store :: kvstore where
  "ex_old_store = fmap_of_list ex_old_entries"

lemma ex_old_store_keys:
  "kv_get ex_old_store key = Some v \<longleftrightarrow>
    (key = FullClientPath ''06-solomachine-0'' ClientStateKey \<and> v = BytesBz [1])
    \<or> (key = FullClientPath ''06-solomachine-0'' (ConsensusStateKey (NewHeight 0 1)) \<and> v = BytesBz [2])
    \<or> (key = FullClientPath ''07-tendermint-1'' ClientStateKey \<and> v = ClientStateBz (TendermintClient ex_tm))
    \<or> (key = FullClientPath ''09-localhost'' ClientStateKey \<and> v = BytesBz [3])"
proof -
  have "distinct [FullClientPath ''06-solomachine-0'' ClientStateKey, FullClientPath ''06-solomachine-0'' (ConsensusStateKey (NewHeight 0 1)),
      FullClientPath ''07-tendermint-1'' ClientStateKey, FullClientPath ''09-localhost'' ClientStateKey]" by code_simp
  then have "distinct (map fst ex_old_entries)" by (simp only: ex_old_entries_def list.map fst_conv)
  then have "kv_get ex_old_store key = Some v \<longleftrightarrow> (key, v) \<in> set ex_old_entries"
    by (simp add: ex_old_store_def kv_get_def fmlookup_of_list)
  then show ?thesis by (simp only: ex_old_entries_def list.set insert_iff empty_iff prod.inject simp_thms)
qed

lemma ex_old_store_paths: "client_paths_ok ex_old_store"
  unfolding client_paths_ok_def
proof (intro allI impI, elim conjE)
  fix key v assume key: "kv_get ex_old_store key = Some v" and state: "strings_Contains key KeyClientState"
  have "\<not> strings_Contains (FullClientPath ''06-solomachine-0'' (ConsensusStateKey (NewHeight 0 1))) KeyClientState" by code_simp
  with key state consider "key = FullClientPath ''06-solomachine-0'' ClientStateKey" | "key = FullClientPath ''07-tendermint-1'' ClientStateKey"
    | "key = FullClientPath ''09-localhost'' ClientStateKey" unfolding ex_old_store_keys by metis
  moreover have "slash_free ''06-solomachine-0'' \<and> \<not> is_blank ''06-solomachine-0'' \<and> \<not> strings_Contains ''06-solomachine-0'' Tendermint"
    "slash_free ''07-tendermint-1'' \<and> \<not> is_blank ''07-tendermint-1'' \<and> \<not> HasPrefix ''07-tendermint-1'' Solomachine \<and> \<not> HasPrefix ''07-tendermint-1'' Localhost"
    "slash_free ''09-localhost'' \<and> \<not> is_blank ''09-localhost'' \<and> \<not> strings_Contains ''09-localhost'' Tendermint" by code_simp+
  ultimately show "\<exists>c. key = FullClientPath c ClientStateKey \<and> slash_free c \<and> \<not> is_blank c
      \<and> (HasPrefix c Solomachine \<or> HasPrefix c Localhost \<longrightarrow> \<not> strings_Contains c Tendermint)"
    by cases metis+
qed

lemma ex_old_store_state:
  assumes "slash_free c"
  shows "kv_get ex_old_store (FullClientPath c ClientStateKey) = Some v \<longleftrightarrow>
    (c = ''06-solomachine-0'' \<and> v = BytesBz [1]) \<or> (c = ''07-tendermint-1'' \<and> v = ClientStateBz (TendermintClient ex_tm))
    \<or> (c = ''09-localhost'' \<and> v = BytesBz [3])"
proof -
  have "slash_free ''06-solomachine-0''" "slash_free ''07-tendermint-1''" "slash_free ''09-localhost''" by code_simp+
  then show ?thesis unfolding ex_old_store_keys using assms state_not_consensus by (simp only: FullClientPath_eq) metis
qed

lemma ex_old_store_heights: "heights_ok ex_old_store"
  unfolding heights_ok_def
proof (intro allI impI, elim conjE)
  fix c k assume c: "slash_free c" and k: "kv_get ex_old_store (FullClientPath c k) \<noteq> None" and two: "length (Split k ''/'') = 2"
  have "length (Split ClientStateKey ''/'') \<noteq> 2" by code_simp
  with two have "k \<noteq> ClientStateKey" by metis
  moreover have free: "slash_free ''06-solomachine-0''" "slash_free ''07-tendermint-1''" "slash_free ''09-localhost''" by code_simp+
  moreover obtain v where "kv_get ex_old_store (FullClientPath c k) = Some v" using k by blast
  ultimately have "k = ConsensusStateKey (NewHeight 0 1)"
    using c unfolding ex_old_store_keys by (simp only: FullClientPath_eq [OF c] simp_thms)
  then show "\<exists>h. MustParseHeight (Split k ''/'' ! 1) = Inr h" by (simp add: Split_processed MustParseHeight_def)
qed

lemma ex_old_store_layout: "old_layout (\<lambda>_. Some ex_v2_solo) ex_old_store"
proof -
  have "\<not> HasPrefix ''06-solomachine-0'' Tendermint" "\<not> HasPrefix ''09-localhost'' Tendermint" by code_simp+
  then have "\<exists>cs. v = ClientStateBz (TendermintClient cs)"
    if "slash_free c" "HasPrefix c Tendermint" "kv_get ex_old_store (FullClientPath c ClientStateKey) = Some v" for c v
    using that ex_old_store_state [OF that(1)] by metis
  then show ?thesis by (auto simp: old_layout_def old_solomachine_def ex_v2_solo_def ex_old_store_heights)
qed

lemma v7_migration_effect_witness:
  "\<exists>t. MigrateStore (\<lambda>_. Some ex_v2_solo) ex_old_store = Inr t
    \<and> kv_get t (FullClientPath ''06-solomachine-0'' ClientStateKey) = Some (ClientStateBz (SolomachineClient ex_v3_solo))
    \<and> kv_get t (FullClientPath ''06-solomachine-0'' (ConsensusStateKey (NewHeight 0 1))) = None
    \<and> kv_get t (FullClientPath ''07-tendermint-1'' ClientStateKey) = Some (ClientStateBz (TendermintClient ex_tm))
    \<and> kv_get t (FullClientPath ''09-localhost'' ClientStateKey) = None"
proof -
  let ?solo = "''06-solomachine-0''" and ?tm = "FullClientPath ''07-tendermint-1'' ClientStateKey"
  have pre: "HasPrefix ?solo Solomachine" "HasPrefix ''09-localhost'' Localhost"
    "\<not> HasPrefix ?tm (PrefixedClientStorePath Solomachine)" "\<not> HasPrefix ?tm (PrefixedClientStorePath Localhost)" by code_simp+
  have old: "kv_get ex_old_store (FullClientPath ?solo ClientStateKey) \<noteq> None" "kv_get ex_old_store ?tm = Some (ClientStateBz (TendermintClient ex_tm))"
    by (auto simp: ex_old_store_keys)
  obtain t where t: "MigrateStore (\<lambda>_. Some ex_v2_solo) ex_old_store = Inr t"
    "kv_get t ?tm = kv_get ex_old_store ?tm" "migrated (\<lambda>_. Some ex_v2_solo) ?solo ex_old_store t"
    "kv_get t (FullClientPath ''09-localhost'' ClientStateKey) = None"
    using v7_migration_effect [OF ex_old_store_paths ex_old_store_layout] pre old(1) by auto
  then show ?thesis using old(2)
    by (auto simp: migrated_def migrateSolomachine_def ex_v2_solo_def ex_v3_solo_def)
qed

end
