(* ===== verification/Spec2Isabelle.thy ===== *)
theory Spec2Isabelle
  imports Fee_Genesis Ica_Props Listings Query_Props Ante Store_Types Upgrade Migrations
begin

text \<open>
  A verification development of ibc-go, the Go implementation of the Inter-Blockchain Communication
  protocol (IBC). All paths below are relative to \<open>src/modules\<close>.

  \<^bold>\<open>The program.\<close> A chain runs the core of IBC and applications on top of it. Core keeps light clients of
  other chains (\<open>core/02-client\<close>, \<open>light-clients\<close>), connections between two clients (\<open>core/03-connection\<close>),
  channels between two applications over a connection and the packets on them (\<open>core/04-channel\<close>), and
  ports (\<open>core/05-port\<close>), whose owners are recorded by capabilities (\<open>capability\<close>). What one chain claims is
  checked on the other by Merkle proofs (\<open>core/23-commitment\<close>) against the store paths of \<open>core/24-host\<close>. The
  message server (\<open>core/keeper/msg_server.go\<close>) checks a message with the keepers, calls back the application the
  port belongs to, and writes the result. The applications are token transfer (\<open>apps/transfer\<close>, ICS-20),
  interchain accounts (\<open>apps/27-interchain-accounts\<close>, ICS-27, a controller and a host) and the relayer fees
  (\<open>apps/29-fee\<close>, ICS-29), a middleware that wraps another application.

  \<^bold>\<open>Conventions.\<close> A function that can fail returns \<open>'a result\<close>, that is \<open>ibc_error + 'a\<close> (theory \<open>Prelude\<close>); an error is
  a registered code, \<open>ErrForeign\<close> for an error of code outside the repository, or \<open>Panic\<close> for a Go panic (theory
  \<open>Errors\<close>). State is passed explicitly and returned only on success, except where the code keeps the writes of
  a failed call: the Go map of the capability keeper, which no transaction reverts, and the handlers
  run by the host of interchain accounts. Machine integers are words of their width: sequences,
  heights and timestamps are \<open>64 word\<close> and wrap. The core store (\<open>Ibc_Store.kvstore\<close>) and the stores of the
  applications are finite maps from keys, which are the strings of the source, to typed values; a
  value of another type under a key is the failure to decode it. Iteration over a prefix is in the
  order of the keys (\<open>Iterate\<close>). Code outside the repository (the codec, signatures, \<open>ics23\<close>, the header
  verification of CometBFT, the bank and account keepers, the handlers of other modules) enters as
  records of functions (\<open>lib\<close>, \<open>ics23\<close>, \<open>tlib\<close>, \<open>flib\<close>, \<open>ilib\<close>, the keeper records); what the proofs rely on of it is
  stated as hypotheses or as the assumptions of a locale, and every such hypothesis is discharged on
  a concrete chain in the witnesses. SHA-256 is not a parameter but written out (\<open>Sha256\<close>).

  \<^bold>\<open>Core, by theory.\<close>
  \<^item> \<open>Errors\<close>, \<open>Prelude\<close>, \<open>Iterate\<close>: the sentinel errors, the result type, Go's \<open>strings\<close> and \<open>strconv\<close>, iteration
    over a prefix of a store.
  \<^item> \<open>Host\<close> (\<open>core/24-host\<close>: \<open>keys.go\<close>, \<open>validate.go\<close>, \<open>parse.go\<close>): paths of validated identifiers are injective and
    parse back.
  \<^item> \<open>Height\<close> (\<open>core/02-client/types/height.go\<close>): heights as an instance of \<open>linorder\<close>, printing and parsing, chain
    revisions.
  \<^item> \<open>Client_Types\<close>, \<open>Commitment\<close>, \<open>Tendermint\<close>, \<open>Light_Client\<close> (\<open>light-clients/07-tendermint\<close>, \<open>06-solomachine\<close>,
    \<open>09-localhost\<close>, \<open>core/23-commitment/types/merkle.go\<close>): the state of the clients, every method of
    \<open>exported.ClientState\<close> and its dispatch, the metadata of consensus states and their pruning. Chained
    Merkle verification refines a chain of commitments; a header update has exactly the described effect.
  \<^item> \<open>Ibc_Store\<close>: the core store with the accessors of the three keepers.
  \<^item> \<open>Client_Keeper\<close>, \<open>Conn_Types\<close>, \<open>Connection_Keeper\<close> (\<open>core/02-client/keeper\<close>, \<open>core/03-connection\<close>): creation,
    update, upgrade and recovery of clients, version negotiation, the four handshake steps, the
    verification functions with the block delay computed in IEEE doubles.
  \<^item> \<open>Capability\<close>, \<open>Port\<close> (\<open>capability\<close>, \<open>core/05-port\<close>): owner sets with their binary search, the scoped keeper, the
    memory store, genesis and restart; a locale states the agreement of the three stores.
  \<^item> \<open>Chan_Types\<close>, \<open>Channel_Keeper\<close>, \<open>Packet_Keeper\<close> (\<open>core/04-channel\<close>): data and commitments, the handshake
    (\<open>keeper/handshake.go\<close>), sending, receiving, acknowledging and timing out (\<open>keeper/packet.go\<close>, \<open>timeout.go\<close>).
  \<^item> \<open>Channel_Run\<close>, \<open>Packet_Life\<close>, \<open>Loopback\<close>: runs of the channel keeper as a step relation, in which the clients
    and connections may do anything; what ICS-4 promises along every run (a packet is received once,
    settled once, in order, its acknowledgement is final, a channel only moves forward); and that a
    packet over the localhost connection is really delivered.
  \<^item> \<open>Msgs\<close>, \<open>Msg_Server\<close>, \<open>Msg_Run\<close>, \<open>Msg_Life\<close> (the message types, \<open>core/keeper/msg_server.go\<close>): every handler
    with the callback of the application. The locale \<open>ibc_application\<close> is the contract of an application:
    its callbacks are themselves runs of the channel keeper. The guarantees of the packet life carry
    over to messages with callbacks in between.
  \<^item> \<open>Store_Types\<close>: the keepers and the clients share one store; every operation keeps each family of keys to its
    kind of value and below a client only the entries a client writes, so that no read meets bytes it
    cannot decode.
  \<^item> \<open>Ante\<close> (\<open>core/ante/ante.go\<close>): the decorator that keeps redundant relay transactions out of the mempool
    rejects transactions of packet messages and client updates exactly when they have packet messages and
    all of them are no-ops, hands on those with other messages and returns the error of a failing one.
  \<^item> \<open>Core_Iterate\<close>, \<open>Core_Genesis\<close>, \<open>Core_Genesis_Props\<close> (the iterators of the three keepers, \<open>core/*/genesis.go\<close>,
    \<open>core/*/types/genesis.go\<close>): export and import are inverse up to the localhost client and connection;
    what validation promises about fresh identifiers, and that it rejects every export of a running chain.
  \<^item> \<open>Core_Queries\<close>, \<open>Query_Props\<close> (\<open>core/*/keeper/grpc_query.go\<close>): every query; what a relayer is told about
    unreceived packets and acknowledgements agrees with what the keeper then does.
  \<^item> \<open>Client_Msgs\<close>, \<open>Upgrade\<close> (\<open>02-client/types/msgs.go\<close>, \<open>types/proposal.go\<close>, \<open>keeper/proposal.go\<close>, \<open>abci.go\<close>): the
    client messages with the headers and misbehaviour in them, and a chain upgrade followed from the
    accepted proposal through the block hook to what the queries then serve to counterparties.
  \<^item> \<open>Migrations\<close> (\<open>02-client/migrations/v7\<close>, \<open>07-tendermint/migrations\<close>): on a store of the old layout the migration
    succeeds, converts every solo machine, removes the old localhost clients and touches nothing else.

  \<^bold>\<open>Applications, by theory.\<close>
  \<^item> \<open>Transfer_Types\<close>, \<open>Transfer_Keeper\<close>, \<open>Transfer_Run\<close>, \<open>Transfer_Props\<close> (\<open>apps/transfer\<close>): denomination traces, packet
    data, the keeper, the module callbacks, genesis, the invariant and the migrations. \<open>Transfer_Run\<close> shows
    that the module is an \<open>ibc_application\<close> and states the laws of the bank; \<open>Transfer_Props\<close> shows conservation
    of tokens and that a refund undoes a send, on a concrete ledger in the witnesses.
  \<^item> \<open>Fee_Types\<close>, \<open>Fee_Keeper\<close>, \<open>Fee_Middleware\<close>, \<open>Fee_Run\<close>, \<open>Fee_Solvency\<close>, \<open>Fee_Props\<close>, \<open>Fee_Genesis\<close> (\<open>apps/29-fee\<close>): the
    middleware over any application is again an \<open>ibc_application\<close>; a distribution refines a list of
    payments; the escrow account covers what the store owes; genesis round trip.
  \<^item> \<open>Ica_Types\<close>, \<open>Ica_Host\<close>, \<open>Ica_Controller\<close>, \<open>Ica_Run\<close>, \<open>Ica_Accounts\<close>, \<open>Ica_Props\<close> (\<open>apps/27-interchain-accounts\<close>):
    both submodules are an \<open>ibc_application\<close> (the host when the handlers of messages are runs); the host
    executes exactly the authorised transactions; accounts are registered once and never shared; the
    handshake leaves both sides with one address; what the controller sends, with its timeout.
  \<^item> \<open>App_Queries\<close>, \<open>Listings\<close> (\<open>apps/*/keeper/grpc_query.go\<close>): the queries of the applications; the pages of a
    listing, in core and in the applications, add up to the list the keeper enumerates.

  \<^bold>\<open>Loops and bounds.\<close> There is no fuel: loops over lists are structural recursions, the bisection of
  \<open>sort.Search\<close> and the loops over words are functions with a measure. Runs assume that a counter does not
  wrap in the step that advances it (\<open>no_wrap\<close> hypotheses of \<open>Channel_Run\<close>): a counter of 64 bits is not
  exhausted by any chain, and the operations themselves are modelled with the wrap.

  \<^bold>\<open>Not modelled.\<close> Protocol buffer and JSON encodings (generated code and the codec of the SDK: parameters with a
  round trip as hypothesis where it matters); events, logging and telemetry, which no state depends
  on; the command line, module wiring, simulation and the generated gateways; the pagination of the SDK,
  a parameter of the queries; the upgrade module, a parameter of the block hook; the migration of old
  genesis files and of the capabilities of interchain accounts, which rewrite exported JSON and raw
  memory stores once.
\<close>

end
